(* ===== verification/Prelude.thy ===== *)
theory Prelude
  imports Main "HOL-Library.Sublist"
begin

text \<open>
  The shared vocabulary of the development: the types that stand for Go's values
  (identifiers, instants, durations, strings), the error values of \<open>pkg/errors\<close>, the
  result type of a handler, tables as lists of rows with the three query forms the
  repositories use, the string functions of Go's \<open>strings\<close> package that the components
  call, and the lemmas about them that the component theories share.

  \<^item> A UUID is its canonical text, so that \<open>uuid.UUID.String()\<close> is the identity;
    \<open>uuid.Nil\<close> is \<open>uuid_nil\<close>.
  \<^item> A \<open>time.Time\<close> is a number of nanoseconds, a \<open>time.Duration\<close> likewise; a
    \<open>*time.Time\<close> column is an \<open>instant option\<close>.
  \<^item> A handler returns \<open>(go_error + 'a) \<times> 's\<close>: what Go returns, with the state the
    handler leaves behind also on the error paths.
\<close>

named_theorems repo_defs "definitions of the repository operations"
named_theorems handler_simps "what the repositories return, for unfolding handlers"
named_theorems frame_simps "state components that an operation leaves alone"

section \<open>Go values\<close>

type_synonym uuid = string
type_synonym instant = int
type_synonym duration = int

definition uuid_nil :: uuid where
  "uuid_nil = ''00000000-0000-0000-0000-000000000000''"

definition second :: duration where
  "second = 1000000000"

text \<open>A JSON value; a Go map is the list of its entries.\<close>

datatype json = JNull | JBool bool | JNum int | JStr string | JArr "json list" | JObj "(string \<times> json) list"

text \<open>\<open>json.Unmarshal\<close> into a \<open>[]string\<close>; \<open>null\<close> leaves the zero value.\<close>

fun json_string :: "json \<Rightarrow> string option" where
  "json_string (JStr s) = Some s"
| "json_string JNull = Some []"
| "json_string _ = None"

fun json_strings :: "json \<Rightarrow> string list option" where
  "json_strings (JArr xs) = those (map json_string xs)"
| "json_strings JNull = Some []"
| "json_strings _ = None"

section \<open>Error values (pkg/errors/errors.go)\<close>

text \<open>
  \<open>errors.Is\<close> compares pointers, so a sentinel of the package is a constructor of its
  own: an \<open>AppError\<close> built elsewhere with the same fields is not that sentinel.
  \<open>Opaque\<close> is an error of a library or of \<open>fmt.Errorf\<close>, known by its text.
\<close>

datatype sentinel =
    ErrNotFound | ErrUnauthorized | ErrForbidden | ErrBadRequest
  | ErrConflict | ErrInternal | ErrValidation | ErrTooManyRequests

datatype go_error =
    Sentinel sentinel
  | AppError string string nat "go_error option"
  | Opaque string

definition NewAppError :: "string \<Rightarrow> string \<Rightarrow> nat \<Rightarrow> go_error" where
  "NewAppError code msg status = AppError code msg status None"

definition WrapInternal :: "go_error \<Rightarrow> go_error" where
  "WrapInternal e = AppError ''INTERNAL_ERROR'' ''Internal server error'' 500 (Some e)"

definition WrapUnauthorized :: "go_error \<Rightarrow> go_error" where
  "WrapUnauthorized e = AppError ''UNAUTHORIZED'' ''Authentication required'' 401 (Some e)"

definition WrapNotFound :: "go_error \<Rightarrow> string \<Rightarrow> go_error" where
  "WrapNotFound e resource = AppError ''NOT_FOUND'' (resource @ '' not found'') 404 (Some e)"

fun sentinel_fields :: "sentinel \<Rightarrow> string \<times> string \<times> nat" where
  "sentinel_fields ErrNotFound = (''NOT_FOUND'', ''Resource not found'', 404)"
| "sentinel_fields ErrUnauthorized = (''UNAUTHORIZED'', ''Authentication required'', 401)"
| "sentinel_fields ErrForbidden = (''FORBIDDEN'', ''Permission denied'', 403)"
| "sentinel_fields ErrBadRequest = (''BAD_REQUEST'', ''Invalid request'', 400)"
| "sentinel_fields ErrConflict = (''CONFLICT'', ''Resource conflict'', 409)"
| "sentinel_fields ErrInternal = (''INTERNAL_ERROR'', ''Internal server error'', 500)"
| "sentinel_fields ErrValidation = (''VALIDATION_ERROR'', ''Validation failed'', 422)"
| "sentinel_fields ErrTooManyRequests = (''RATE_LIMIT_EXCEEDED'', ''Too many requests'', 429)"

text \<open>\<open>Error()\<close>: the message, followed by the wrapped error's text.\<close>

fun error_text :: "go_error \<Rightarrow> string" where
  "error_text (Sentinel s) = fst (snd (sentinel_fields s))"
| "error_text (AppError c m n None) = m"
| "error_text (AppError c m n (Some e)) = m @ '': '' @ error_text e"
| "error_text (Opaque m) = m"

text \<open>\<open>errors.Is\<close>: the error or one that it wraps is the sentinel.\<close>

fun err_is :: "go_error \<Rightarrow> sentinel \<Rightarrow> bool" where
  "err_is (Sentinel t) s = (t = s)"
| "err_is (AppError c m n None) s = False"
| "err_is (AppError c m n (Some e)) s = err_is e s"
| "err_is (Opaque m) s = False"

definition IsNotFound :: "go_error \<Rightarrow> bool" where
  "IsNotFound e = err_is e ErrNotFound"

text \<open>\<open>GetAppError\<close>: the first \<open>AppError\<close> in the chain, here its code and HTTP status.\<close>

fun app_error :: "go_error \<Rightarrow> (string \<times> nat) option" where
  "app_error (Sentinel s) = (case sentinel_fields s of (c, m, n) \<Rightarrow> Some (c, n))"
| "app_error (AppError c m n e) = Some (c, n)"
| "app_error (Opaque m) = None"

text \<open>The status with which a handler answers an error.\<close>

definition error_status :: "go_error \<Rightarrow> nat" where
  "error_status err = (case app_error err of None \<Rightarrow> 500 | Some (code, status) \<Rightarrow> status)"

text \<open>A failure that a driver reports: the text of a Postgres error.\<close>

definition db_error :: go_error where
  "db_error = Opaque ''driver: bad connection''"

definition unique_violation :: go_error where
  "unique_violation =
     Opaque ''ERROR: duplicate key value violates unique constraint (SQLSTATE 23505)''"

lemma err_is_NewAppError [simp]: "\<not> err_is (NewAppError c m n) s"
  by (simp add: NewAppError_def)

lemma err_is_WrapInternal [simp]: "err_is (WrapInternal e) s = err_is e s"
  by (simp add: WrapInternal_def)

lemma err_is_db [simp]: "\<not> err_is db_error s" "\<not> err_is unique_violation s"
  by (simp_all add: db_error_def unique_violation_def)

lemma app_error_NewAppError [simp]: "app_error (NewAppError c m n) = Some (c, n)"
  by (simp add: NewAppError_def)

lemma app_error_WrapInternal [simp]: "app_error (WrapInternal e) = Some (''INTERNAL_ERROR'', 500)"
  by (simp add: WrapInternal_def)

section \<open>Results\<close>

type_synonym 'a result = "go_error + 'a"

abbreviation succeeded :: "'a result \<times> 's \<Rightarrow> bool" where
  "succeeded r \<equiv> \<exists>x s. r = (Inr x, s)"

text \<open>An entry handed to the audit log: actor, action, resource, resource id.\<close>

datatype audit_entry = Audit uuid string string string

section \<open>Tables\<close>

text \<open>
  A table is the list of its rows. The queries of the repositories are three: the first
  row of a condition, an update of all rows of a condition (with the number of rows it
  touched), and the rows of a condition.
\<close>

definition tbl_first :: "('r \<Rightarrow> bool) \<Rightarrow> 'r list \<Rightarrow> 'r option" where
  "tbl_first P rows = find P rows"

definition tbl_update :: "('r \<Rightarrow> bool) \<Rightarrow> ('r \<Rightarrow> 'r) \<Rightarrow> 'r list \<Rightarrow> 'r list" where
  "tbl_update P f rows = map (\<lambda>r. if P r then f r else r) rows"

definition tbl_count :: "('r \<Rightarrow> bool) \<Rightarrow> 'r list \<Rightarrow> nat" where
  "tbl_count P rows = length (filter P rows)"

lemma tbl_first_SomeD: "tbl_first P rows = Some r \<Longrightarrow> r \<in> set rows \<and> P r"
  by (auto simp: tbl_first_def find_Some_iff)

lemma tbl_first_NoneD: "tbl_first P rows = None \<Longrightarrow> r \<in> set rows \<Longrightarrow> \<not> P r"
  by (auto simp: tbl_first_def find_None_iff)

lemma tbl_first_None_iff: "tbl_first P rows = None \<longleftrightarrow> (\<forall>r\<in>set rows. \<not> P r)"
  by (auto simp: tbl_first_def find_None_iff)

lemma tbl_first_append:
  "tbl_first P (xs @ ys) = (case tbl_first P xs of None \<Rightarrow> tbl_first P ys | Some r \<Rightarrow> Some r)"
  by (induction xs) (simp_all add: tbl_first_def)

lemma tbl_first_Nil [simp]: "tbl_first P [] = None"
  by (simp add: tbl_first_def)

lemma tbl_first_Cons: "tbl_first P (x # xs) = (if P x then Some x else tbl_first P xs)"
  by (simp add: tbl_first_def)

lemma tbl_first_unique:
  assumes "distinct (map key rows)" and "r \<in> set rows"
  shows "tbl_first (\<lambda>x. key x = key r) rows = Some r"
  using assms by (induction rows) (auto simp: tbl_first_def)

lemma tbl_first_unique_cond:
  assumes "distinct (map key rows)" and "r \<in> set rows" and "key r = k"
  shows "tbl_first (\<lambda>x. key x = k) rows = Some r"
  using tbl_first_unique [of key rows r] assms by simp

lemma set_tbl_update: "set (tbl_update P f rows) = f ` {r \<in> set rows. P r} \<union> {r \<in> set rows. \<not> P r}"
  by (auto simp: tbl_update_def)

lemma in_tbl_updateE:
  assumes "r \<in> set (tbl_update P f rows)"
  obtains (hit) r0 where "r0 \<in> set rows" "P r0" "r = f r0"
    | (miss) "r \<in> set rows" "\<not> P r"
  using assms by (auto simp: tbl_update_def split: if_splits)

lemma tbl_updateI: "r \<in> set rows \<Longrightarrow> (if P r then f r else r) \<in> set (tbl_update P f rows)"
  by (auto simp: tbl_update_def)

lemma tbl_first_update_None: "(\<And>r. P r \<Longrightarrow> \<not> P (f r)) \<Longrightarrow> tbl_first P (tbl_update P f rows) = None"
  by (auto simp: tbl_first_None_iff tbl_update_def)

lemma length_tbl_update [simp]: "length (tbl_update P f rows) = length rows"
  by (simp add: tbl_update_def)

lemma map_tbl_update:
  "(\<And>r. P r \<Longrightarrow> key (f r) = key r) \<Longrightarrow> map key (tbl_update P f rows) = map key rows"
  by (simp add: tbl_update_def)

lemma tbl_count_0_iff: "tbl_count P rows = 0 \<longleftrightarrow> (\<forall>r\<in>set rows. \<not> P r)"
  by (auto simp: tbl_count_def filter_empty_conv)

lemma tbl_count_pos: "r \<in> set rows \<Longrightarrow> P r \<Longrightarrow> tbl_count P rows \<noteq> 0"
  by (auto simp: tbl_count_0_iff)

text \<open>\<open>LIMIT\<close>/\<open>OFFSET\<close> as the repositories use them: \<open>LIMIT\<close> only when positive.\<close>

definition sql_page :: "int \<Rightarrow> int \<Rightarrow> 'r list \<Rightarrow> 'r list" where
  "sql_page limit offset rows =
     (let rest = drop (nat offset) rows
      in if limit > 0 then take (nat limit) rest else rest)"

text \<open>The same with \<open>LIMIT\<close> unless it is negative.\<close>

definition gorm_page :: "int \<Rightarrow> int \<Rightarrow> 'r list \<Rightarrow> 'r list" where
  "gorm_page limit offset rows =
     (let rest = drop (nat offset) rows
      in if limit \<ge> 0 then take (nat limit) rest else rest)"

lemma set_gorm_page: "set (gorm_page limit offset rows) \<subseteq> set rows"
  by (auto simp: gorm_page_def Let_def dest: in_set_takeD in_set_dropD)

lemma set_sql_page: "set (sql_page limit offset rows) \<subseteq> set rows"
  by (auto simp: sql_page_def Let_def dest: in_set_takeD in_set_dropD)

section \<open>Strings\<close>

text \<open>Go strings are byte strings; the functions below are those of \<open>strings\<close> on ASCII text.\<close>

definition has_prefix :: "string \<Rightarrow> string \<Rightarrow> bool" where
  "has_prefix s p = (take (length p) s = p)"

definition has_suffix :: "string \<Rightarrow> string \<Rightarrow> bool" where
  "has_suffix s p = (length p \<le> length s \<and> drop (length s - length p) s = p)"

fun str_contains :: "string \<Rightarrow> string \<Rightarrow> bool" where
  "str_contains [] p = (p = [])"
| "str_contains (c # s) p = (has_prefix (c # s) p \<or> str_contains s p)"

text \<open>\<open>strings.Split(s, sep)\<close> for a one-byte separator.\<close>

fun str_split :: "char \<Rightarrow> string \<Rightarrow> string list" where
  "str_split sep [] = [[]]"
| "str_split sep (c # s) =
     (if c = sep then [] # str_split sep s
      else (case str_split sep s of [] \<Rightarrow> [[c]] | w # ws \<Rightarrow> (c # w) # ws))"

definition to_lower_char :: "char \<Rightarrow> char" where
  "to_lower_char c =
     (let n = (of_char c :: nat) in if 65 \<le> n \<and> n \<le> 90 then char_of (n + 32) else c)"

definition to_lower :: "string \<Rightarrow> string" where
  "to_lower s = map to_lower_char s"

definition is_space :: "char \<Rightarrow> bool" where
  "is_space c = ((of_char c :: nat) \<in> {9, 10, 11, 12, 13, 32})"

definition trim_space :: "string \<Rightarrow> string" where
  "trim_space s = rev (dropWhile is_space (rev (dropWhile is_space s)))"

lemma has_prefix_append [simp]: "has_prefix (p @ s) p"
  by (simp add: has_prefix_def)

lemma has_prefix_iff: "has_prefix s p \<longleftrightarrow> (\<exists>r. s = p @ r)"
  by (metis append_eq_conv_conj append_take_drop_id has_prefix_def)

lemma has_suffix_iff: "has_suffix s p \<longleftrightarrow> (\<exists>r. s = r @ p)"
proof
  assume "has_suffix s p"
  then have "s = take (length s - length p) s @ p"
    by (metis append_take_drop_id has_suffix_def)
  then show "\<exists>r. s = r @ p" ..
qed (auto simp: has_suffix_def)

lemma str_split_no_sep: "sep \<notin> set s \<Longrightarrow> str_split sep s = [s]"
  by (induction s) auto

lemma str_split_nonempty: "str_split sep s \<noteq> []"
  by (cases s) (auto split: list.splits)

lemma str_split_append:
  "sep \<notin> set s \<Longrightarrow> str_split sep (s @ sep # t) = s # str_split sep t"
  by (induction s) (auto split: list.splits)

text \<open>\<open>url.QueryEscape\<close>.\<close>

definition hex_upper :: "nat \<Rightarrow> char" where
  "hex_upper n = ''0123456789ABCDEF'' ! (n mod 16)"

definition escape_char :: "char \<Rightarrow> string" where
  "escape_char c =
     (let n = (of_char c :: nat)
      in if 97 \<le> n \<and> n \<le> 122 \<or> 65 \<le> n \<and> n \<le> 90 \<or> 48 \<le> n \<and> n \<le> 57 \<or> c \<in> set ''-_.~'' then [c]
         else if c = CHR '' '' then ''+''
         else [CHR ''%'', hex_upper (n div 16), hex_upper n])"

definition QueryEscape :: "string \<Rightarrow> string" where
  "QueryEscape s = concat (map escape_char s)"

end
