(* ===== verification/Cache_Store.thy ===== *)
theory Cache_Store
  imports Prelude
begin

text \<open>
  The cache driver (\<open>internal/cache\<close>): the interface \<open>Driver\<close> as the locale
  \<open>cache_driver\<close>, and its in-memory implementation \<open>memory.go\<close>, a map from keys to
  entries with an expiry instant. An entry's value is a parameter: the driver stores bytes
  and never looks into them. The mutex makes each operation atomic, so an operation
  is a function of the map and of the instant at which it runs. The driver never fails;
  the Redis driver is a client library and is modelled by the fault parameters of the
  theories that use a driver.
\<close>

section \<open>The in-memory driver (internal/cache/memory.go)\<close>

record 'v mem_entry =
  me_value :: 'v
  me_expires_at :: instant

type_synonym 'v mem_cache = "string \<rightharpoonup> 'v mem_entry"

definition mem_get :: "instant \<Rightarrow> 'v mem_cache \<Rightarrow> string \<Rightarrow> 'v option" where
  "mem_get now m k =
     (case m k of
        None \<Rightarrow> None
      | Some e \<Rightarrow> if now > me_expires_at e then None else Some (me_value e))"

definition mem_set :: "instant \<Rightarrow> 'v mem_cache \<Rightarrow> string \<Rightarrow> 'v \<Rightarrow> int \<Rightarrow> 'v mem_cache" where
  "mem_set now m k v ttl = m(k \<mapsto> \<lparr>me_value = v, me_expires_at = now + ttl * second\<rparr>)"

definition mem_setnx ::
    "instant \<Rightarrow> 'v mem_cache \<Rightarrow> string \<Rightarrow> 'v \<Rightarrow> int \<Rightarrow> bool \<times> 'v mem_cache" where
  "mem_setnx now m k v ttl =
     (case m k of
        Some e \<Rightarrow>
          if now < me_expires_at e then (False, m)
          else (True, m(k \<mapsto> \<lparr>me_value = v, me_expires_at = now + ttl * second\<rparr>))
      | None \<Rightarrow> (True, m(k \<mapsto> \<lparr>me_value = v, me_expires_at = now + ttl * second\<rparr>)))"

definition mem_delete :: "'v mem_cache \<Rightarrow> string \<Rightarrow> 'v mem_cache" where
  "mem_delete m k = m(k := None)"

definition mem_exists :: "instant \<Rightarrow> 'v mem_cache \<Rightarrow> string \<Rightarrow> bool" where
  "mem_exists now m k =
     (case m k of None \<Rightarrow> False | Some e \<Rightarrow> \<not> now > me_expires_at e)"

definition mem_close :: "'v mem_cache \<Rightarrow> 'v mem_cache" where
  "mem_close m = Map.empty"

text \<open>\<open>matchesPattern\<close>: the cases in the order of the source.\<close>

definition matches_pattern :: "string \<Rightarrow> string \<Rightarrow> bool" where
  "matches_pattern key pattern =
     (if pattern = ''*'' then True
      else if has_prefix pattern ''*'' \<and> has_suffix pattern ''*'' then
        str_contains key (butlast (tl pattern))
      else if has_suffix pattern ''*'' then has_prefix key (butlast pattern)
      else if has_prefix pattern ''*'' then has_suffix key (tl pattern)
      else key = pattern)"

definition mem_clear :: "'v mem_cache \<Rightarrow> string \<Rightarrow> 'v mem_cache" where
  "mem_clear m pattern = (\<lambda>k. if matches_pattern k pattern then None else m k)"

section \<open>The driver interface (internal/cache/cache.go)\<close>

text \<open>
  What the clients of a driver rely on. \<open>fresh t s k\<close> says that the entry of \<open>k\<close> has
  not reached its expiry at \<open>t\<close>; a driver decides \<open>SetNX\<close> by it.
\<close>

locale cache_driver =
  fixes get :: "instant \<Rightarrow> 's \<Rightarrow> string \<Rightarrow> 'v option"
    and set_ttl :: "instant \<Rightarrow> 's \<Rightarrow> string \<Rightarrow> 'v \<Rightarrow> int \<Rightarrow> 's"
    and setnx :: "instant \<Rightarrow> 's \<Rightarrow> string \<Rightarrow> 'v \<Rightarrow> int \<Rightarrow> bool \<times> 's"
    and delete :: "'s \<Rightarrow> string \<Rightarrow> 's"
    and fresh :: "instant \<Rightarrow> 's \<Rightarrow> string \<Rightarrow> bool"
  assumes get_set_same: "0 \<le> ttl \<Longrightarrow> t0 \<le> t \<Longrightarrow> t \<le> t0 + ttl * second \<Longrightarrow>
      get t (set_ttl t0 s k v ttl) k = Some v"
    and get_set_expired: "t > t0 + ttl * second \<Longrightarrow> get t (set_ttl t0 s k v ttl) k = None"
    and get_set_other: "k' \<noteq> k \<Longrightarrow> get t (set_ttl t0 s k v ttl) k' = get t s k'"
    and get_delete_same: "get t (delete s k) k = None"
    and get_delete_other: "k' \<noteq> k \<Longrightarrow> get t (delete s k) k' = get t s k'"
    and setnx_fresh: "fresh t s k \<Longrightarrow> setnx t s k v ttl = (False, s)"
    and setnx_stale: "\<not> fresh t s k \<Longrightarrow> setnx t s k v ttl = (True, set_ttl t s k v ttl)"
    and fresh_set: "fresh t (set_ttl t0 s k v ttl) k \<longleftrightarrow> t < t0 + ttl * second"
    and fresh_set_other: "k' \<noteq> k \<Longrightarrow> fresh t (set_ttl t0 s k v ttl) k' = fresh t s k'"
    and fresh_mono: "t \<le> t' \<Longrightarrow> fresh t' s k \<Longrightarrow> fresh t s k"
begin

text \<open>What is read of an entry depends only on the time since it was written.\<close>

lemma get_after_set:
  "0 \<le> ttl \<Longrightarrow> t0 \<le> t \<Longrightarrow> get t (set_ttl t0 s k v ttl) k = (if t \<le> t0 + ttl * second then Some v else None)"
  by (simp add: get_set_same get_set_expired)

text \<open>A lock taken by \<open>SetNX\<close> stays taken, by whomever, for the whole of its lifetime.\<close>

lemma setnx_excludes:
  assumes "setnx t0 s k v ttl = (True, s1)" and "t < t0 + ttl * second"
  shows "setnx t s1 k v' ttl' = (False, s1)"
proof -
  from assms(1) have "\<not> fresh t0 s k"
    using setnx_fresh [of t0 s k v ttl] by auto
  then have "s1 = set_ttl t0 s k v ttl"
    using setnx_stale [of t0 s k v ttl] assms(1) by simp
  with assms(2) show ?thesis
    by (simp add: fresh_set setnx_fresh)
qed

lemma setnx_reacquired:
  assumes "setnx t0 s k v ttl = (True, s1)" and "t \<ge> t0 + ttl * second"
  shows "fst (setnx t s1 k v' ttl')"
proof -
  from assms(1) have "\<not> fresh t0 s k"
    using setnx_fresh [of t0 s k v ttl] by auto
  then have "s1 = set_ttl t0 s k v ttl"
    using setnx_stale [of t0 s k v ttl] assms(1) by simp
  with assms(2) have "\<not> fresh t s1 k"
    by (simp add: fresh_set)
  then show ?thesis by (simp add: setnx_stale)
qed

lemma setnx_acquired_value:
  assumes "setnx t0 s k v ttl = (True, s1)" and "0 \<le> ttl"
    and "t0 \<le> t" and "t \<le> t0 + ttl * second"
  shows "get t s1 k = Some v"
proof -
  from assms(1) have "\<not> fresh t0 s k"
    using setnx_fresh [of t0 s k v ttl] by auto
  then have "s1 = set_ttl t0 s k v ttl"
    using setnx_stale [of t0 s k v ttl] assms(1) by simp
  with assms(2-) show ?thesis by (simp add: get_set_same)
qed

end

definition mem_fresh :: "instant \<Rightarrow> 'v mem_cache \<Rightarrow> string \<Rightarrow> bool" where
  "mem_fresh now m k = (case m k of None \<Rightarrow> False | Some e \<Rightarrow> now < me_expires_at e)"

lemmas mem_defs = mem_get_def mem_set_def mem_setnx_def mem_delete_def mem_exists_def
  mem_fresh_def mem_clear_def mem_close_def

interpretation mem: cache_driver mem_get mem_set mem_setnx mem_delete mem_fresh
  by unfold_locales (auto simp: mem_defs split: option.splits)

lemma mem_get_clear:
  "mem_get t (mem_clear m pattern) k = (if matches_pattern k pattern then None else mem_get t m k)"
  by (simp add: mem_defs)

lemma mem_exists_iff_get: "mem_exists t m k \<longleftrightarrow> mem_get t m k \<noteq> None"
  by (simp add: mem_defs split: option.splits)

section \<open>A driver that may fail\<close>

text \<open>
  The Redis driver (\<open>redis.go\<close>) has the same operations and may fail in each of
  them. A handler sees a driver through \<open>drv\<close> operations: \<open>d_fault c\<close> says that the
  call \<open>c\<close> fails during this handler, in which case the store is unchanged.
\<close>

datatype cache_call =
  CGet string | CSet string | CSetNX string | CDelete string | CClear string

record drv_env =
  d_now :: instant
  d_fault :: "cache_call \<Rightarrow> bool"

definition driver_error :: go_error where
  "driver_error = Opaque ''redis: connection refused''"

definition drv_get :: "drv_env \<Rightarrow> 'v mem_cache \<Rightarrow> string \<Rightarrow> 'v option result" where
  "drv_get D m k =
     (if d_fault D (CGet k) then Inl driver_error else Inr (mem_get (d_now D) m k))"

definition drv_set ::
    "drv_env \<Rightarrow> 'v mem_cache \<Rightarrow> string \<Rightarrow> 'v \<Rightarrow> int \<Rightarrow> unit result \<times> 'v mem_cache" where
  "drv_set D m k v ttl =
     (if d_fault D (CSet k) then (Inl driver_error, m)
      else (Inr (), mem_set (d_now D) m k v ttl))"

definition drv_setnx ::
    "drv_env \<Rightarrow> 'v mem_cache \<Rightarrow> string \<Rightarrow> 'v \<Rightarrow> int \<Rightarrow> bool result \<times> 'v mem_cache" where
  "drv_setnx D m k v ttl =
     (if d_fault D (CSetNX k) then (Inl driver_error, m)
      else (case mem_setnx (d_now D) m k v ttl of (b, m') \<Rightarrow> (Inr b, m')))"

definition drv_delete :: "drv_env \<Rightarrow> 'v mem_cache \<Rightarrow> string \<Rightarrow> unit result \<times> 'v mem_cache" where
  "drv_delete D m k =
     (if d_fault D (CDelete k) then (Inl driver_error, m) else (Inr (), mem_delete m k))"

definition drv_clear :: "drv_env \<Rightarrow> 'v mem_cache \<Rightarrow> string \<Rightarrow> unit result \<times> 'v mem_cache" where
  "drv_clear D m p =
     (if d_fault D (CClear p) then (Inl driver_error, m) else (Inr (), mem_clear m p))"

lemmas drv_defs = drv_get_def drv_set_def drv_setnx_def drv_delete_def drv_clear_def

lemma err_is_driver [simp]: "\<not> err_is driver_error s"
  by (simp add: driver_error_def)

text \<open>A pattern with one star, at its end, is a prefix match.\<close>

lemma matches_pattern_prefix:
  assumes "p \<noteq> []" and "hd p \<noteq> CHR ''*''"
  shows "matches_pattern key (p @ ''*'') = has_prefix key p"
  using assms by (cases p) (auto simp: matches_pattern_def has_prefix_def has_suffix_def)

end
