(* ===== verification/Permission_Cache.thy ===== *)
theory Permission_Cache
  imports Cache_Store
begin

text \<open>
  Cached permission decisions: the cache keys of \<open>permission/enforcer.go\<close>, the cache of
  \<open>permission/cache.go\<close> over a cache driver, \<open>EnforceWithCache\<close>, and the reload
  protocol of \<open>permission/invalidator.go\<close>.

  The policy engine is Casbin, a third-party package: the engine's policy is a value of
  an arbitrary type \<open>'p\<close> and its decision a parameter
  \<open>eval policy sub dom obj act\<close>, which may be an error.
\<close>

section \<open>Keys (enforcer.go)\<close>

definition CacheKey :: "string \<Rightarrow> string \<Rightarrow> string \<Rightarrow> string \<Rightarrow> string" where
  "CacheKey sub dm obj act =
     ''perm:'' @ sub @ '':'' @ dm @ '':'' @ obj @ '':'' @ act"

definition ParseCacheKey :: "string \<Rightarrow> (string \<times> string \<times> string \<times> string) result" where
  "ParseCacheKey key =
     (let parts = str_split CHR '':'' key
      in if length parts \<noteq> 5 \<or> parts ! 0 \<noteq> ''perm''
         then Inl (Opaque (''invalid cache key format: '' @ key))
         else Inr (parts ! 1, parts ! 2, parts ! 3, parts ! 4))"

definition CacheKeyPrefix :: string where
  "CacheKeyPrefix = ''perm:''"

section \<open>The cache (cache.go)\<close>

record 'p perm_state =
  ps_cache :: "string mem_cache"    \<comment> \<open>what the driver stores\<close>
  ps_policy :: 'p          \<comment> \<open>the policy loaded into the engine\<close>
  ps_db :: 'p              \<comment> \<open>the policy table of the database\<close>

definition NewCacheTTL :: "duration \<Rightarrow> duration" where
  "NewCacheTTL ttl = (if ttl \<le> 0 then 300 * second else ttl)"

definition SetTTL :: "duration \<Rightarrow> duration \<Rightarrow> duration" where
  "SetTTL old ttl = (if ttl > 0 then ttl else old)"

definition err_cache_miss :: go_error where
  "err_cache_miss = Opaque ''cache miss''"

definition pc_get :: "drv_env \<Rightarrow> string mem_cache \<Rightarrow> string \<Rightarrow> bool result" where
  "pc_get D m key =
     (case drv_get D m key of
        Inl e \<Rightarrow> Inl (Opaque (''failed to get cached permission: '' @ error_text e))
      | Inr None \<Rightarrow> Inl err_cache_miss
      | Inr (Some v) \<Rightarrow> Inr (v = ''1''))"

definition pc_set ::
    "drv_env \<Rightarrow> duration \<Rightarrow> string mem_cache \<Rightarrow> string \<Rightarrow> bool \<Rightarrow> unit result \<times> string mem_cache" where
  "pc_set D ttl m key allowed =
     (let value = (if allowed then ''1'' else ''0'')
      in case drv_set D m key value (ttl div second) of
           (Inl e, m') \<Rightarrow> (Inl (Opaque (''failed to cache permission: '' @ error_text e)), m')
         | (Inr _, m') \<Rightarrow> (Inr (), m'))"

definition pc_invalidate :: "drv_env \<Rightarrow> string mem_cache \<Rightarrow> string \<Rightarrow> unit result \<times> string mem_cache" where
  "pc_invalidate D m key =
     (case drv_delete D m key of
        (Inl e, m') \<Rightarrow>
          (Inl (Opaque (''failed to invalidate cached permission: '' @ error_text e)), m')
      | (Inr _, m') \<Rightarrow> (Inr (), m'))"

definition pc_invalidate_all :: "drv_env \<Rightarrow> string mem_cache \<Rightarrow> unit result \<times> string mem_cache" where
  "pc_invalidate_all D m =
     (case drv_clear D m (CacheKeyPrefix @ ''*'') of
        (Inl e, m') \<Rightarrow> (Inl (Opaque (''failed to clear permission cache: '' @ error_text e)), m')
      | (Inr _, m') \<Rightarrow> (Inr (), m'))"

definition pc_invalidate_user ::
    "drv_env \<Rightarrow> string mem_cache \<Rightarrow> string \<Rightarrow> unit result \<times> string mem_cache" where
  "pc_invalidate_user D m userID =
     (case drv_clear D m (CacheKeyPrefix @ userID @ '':*'') of
        (Inl e, m') \<Rightarrow>
          (Inl (Opaque (''failed to clear user permission cache: '' @ error_text e)), m')
      | (Inr _, m') \<Rightarrow> (Inr (), m'))"

definition pc_invalidate_domain ::
    "drv_env \<Rightarrow> string mem_cache \<Rightarrow> string \<Rightarrow> unit result \<times> string mem_cache" where
  "pc_invalidate_domain D m dm =
     (case drv_clear D m (CacheKeyPrefix @ ''*:'' @ dm @ '':*'') of
        (Inl e, m') \<Rightarrow>
          (Inl (Opaque (''failed to clear domain permission cache: '' @ error_text e)), m')
      | (Inr _, m') \<Rightarrow> (Inr (), m'))"

section \<open>Enforcement (enforcer.go)\<close>

definition Enforce ::
    "('p \<Rightarrow> string \<Rightarrow> string \<Rightarrow> string \<Rightarrow> string \<Rightarrow> bool result) \<Rightarrow> 'p perm_state
     \<Rightarrow> string \<Rightarrow> string \<Rightarrow> string \<Rightarrow> string \<Rightarrow> bool result" where
  "Enforce eval s sub dm obj act =
     (case eval (ps_policy s) sub dm obj act of
        Inl e \<Rightarrow> Inl (Opaque (''enforcement failed: '' @ error_text e))
      | Inr b \<Rightarrow> Inr b)"

definition EnforceWithCache ::
    "('p \<Rightarrow> string \<Rightarrow> string \<Rightarrow> string \<Rightarrow> string \<Rightarrow> bool result) \<Rightarrow> drv_env \<Rightarrow> duration option
     \<Rightarrow> 'p perm_state \<Rightarrow> string \<Rightarrow> string \<Rightarrow> string \<Rightarrow> string \<Rightarrow> bool result \<times> 'p perm_state" where
  "EnforceWithCache eval D cache s sub dm obj act =
     (case cache of
        None \<Rightarrow> (Enforce eval s sub dm obj act, s)
      | Some ttl \<Rightarrow>
          (let key = CacheKey sub dm obj act
           in case pc_get D (ps_cache s) key of
                Inr cachedAllowed \<Rightarrow> (Inr cachedAllowed, s)
              | Inl e \<Rightarrow>
                  (case Enforce eval s sub dm obj act of
                     Inl e \<Rightarrow> (Inl e, s)
                   | Inr allowed \<Rightarrow>
                       (Inr allowed,
                        s\<lparr>ps_cache := snd (pc_set D ttl (ps_cache s) key allowed)\<rparr>))))"

section \<open>Invalidation and reload (invalidator.go)\<close>

text \<open>\<open>LoadPolicy\<close> replaces the engine's policy by the database's, or fails.\<close>

definition LoadPolicy :: "bool \<Rightarrow> 'p perm_state \<Rightarrow> unit result \<times> 'p perm_state" where
  "LoadPolicy fault s =
     (if fault then (Inl (Opaque ''failed to load policy: driver: bad connection''), s)
      else (Inr (), s\<lparr>ps_policy := ps_db s\<rparr>))"

definition InvalidateAndReload ::
    "drv_env \<Rightarrow> bool \<Rightarrow> 'p perm_state \<Rightarrow> unit result \<times> 'p perm_state" where
  "InvalidateAndReload D fault s =
     (case pc_invalidate_all D (ps_cache s) of
        (Inl e, m) \<Rightarrow> (Inl (Opaque (''failed to invalidate cache: '' @ error_text e)), s\<lparr>ps_cache := m\<rparr>)
      | (Inr _, m) \<Rightarrow>
          (case LoadPolicy fault (s\<lparr>ps_cache := m\<rparr>) of
             (Inl e, s') \<Rightarrow> (Inl (Opaque (''failed to reload policy: '' @ error_text e)), s')
           | (Inr _, s') \<Rightarrow> (Inr (), s')))"

text \<open>
  The listener of \<open>StartInvalidationListener\<close>: both steps run, whatever the first returns.
\<close>

definition onInvalidate :: "drv_env \<Rightarrow> bool \<Rightarrow> 'p perm_state \<Rightarrow> 'p perm_state" where
  "onInvalidate D fault s =
     (let s1 = s\<lparr>ps_cache := snd (pc_invalidate_all D (ps_cache s))\<rparr>
      in snd (LoadPolicy fault s1))"

section \<open>Lemmas\<close>

definition colon_free :: "string \<Rightarrow> bool" where
  "colon_free s \<longleftrightarrow> CHR '':'' \<notin> set s"

lemma str_split_five:
  assumes "sep \<notin> set a" "sep \<notin> set b" "sep \<notin> set c" "sep \<notin> set d" "sep \<notin> set e"
  shows "str_split sep (a @ sep # b @ sep # c @ sep # d @ sep # e) = [a, b, c, d, e]"
  using assms by (simp add: str_split_append str_split_no_sep)

lemma CacheKey_five:
  "CacheKey sub dm obj act =
   ''perm'' @ CHR '':'' # sub @ CHR '':'' # dm @ CHR '':'' # obj @ CHR '':'' # act"
  by (simp add: CacheKey_def)

lemma split_CacheKey:
  assumes "colon_free sub" "colon_free dm" "colon_free obj" "colon_free act"
  shows "str_split CHR '':'' (CacheKey sub dm obj act) = [''perm'', sub, dm, obj, act]"
  unfolding CacheKey_five
  by (rule str_split_five) (use assms in \<open>simp_all add: colon_free_def\<close>)

lemma CacheKey_prefix: "has_prefix (CacheKey sub dm obj act) ''perm:''"
  by (simp add: CacheKey_def has_prefix_def)

lemma append_sep_eq:
  "c \<notin> set a \<Longrightarrow> c \<notin> set b \<Longrightarrow> a @ c # x = b @ c # y \<Longrightarrow> a = b"
  by (induction a arbitrary: b) (auto simp: Cons_eq_append_conv append_eq_Cons_conv)

lemma CacheKey_user_prefix:
  assumes "colon_free sub" "colon_free u"
  shows "has_prefix (CacheKey sub dm obj act) (CacheKeyPrefix @ u @ '':'') \<longleftrightarrow> sub = u"
proof
  assume "has_prefix (CacheKey sub dm obj act) (CacheKeyPrefix @ u @ '':'')"
  then obtain r where "sub @ CHR '':'' # (dm @ '':'' @ obj @ '':'' @ act) = u @ CHR '':'' # r"
    by (auto simp: has_prefix_iff CacheKey_def CacheKeyPrefix_def)
  with assms show "sub = u" unfolding colon_free_def by (blast dest: append_sep_eq)
next
  assume "sub = u"
  then show "has_prefix (CacheKey sub dm obj act) (CacheKeyPrefix @ u @ '':'')"
    by (simp add: CacheKey_def CacheKeyPrefix_def has_prefix_def)
qed

lemma user_pattern:
  "matches_pattern key (CacheKeyPrefix @ u @ '':*'') = has_prefix key (CacheKeyPrefix @ u @ '':'')"
  using matches_pattern_prefix [of "CacheKeyPrefix @ u @ '':''" key]
  by (simp add: CacheKeyPrefix_def)

lemma all_pattern: "matches_pattern key (CacheKeyPrefix @ ''*'') = has_prefix key ''perm:''"
  using matches_pattern_prefix [of CacheKeyPrefix key] by (simp add: CacheKeyPrefix_def)

lemma domain_pattern:
  "matches_pattern key (CacheKeyPrefix @ ''*:'' @ dm @ '':*'') =
   has_prefix key (CacheKeyPrefix @ ''*:'' @ dm @ '':'')"
  using matches_pattern_prefix [of "CacheKeyPrefix @ ''*:'' @ dm @ '':''" key]
  by (simp add: CacheKeyPrefix_def)

lemma CacheKey_inj:
  assumes "colon_free sub" "colon_free dm" "colon_free obj" "colon_free act"
    and "colon_free sub'" "colon_free dm'" "colon_free obj'" "colon_free act'"
    and "CacheKey sub dm obj act = CacheKey sub' dm' obj' act'"
  shows "sub = sub' \<and> dm = dm' \<and> obj = obj' \<and> act = act'"
proof -
  have "[''perm'', sub, dm, obj, act] = [''perm'', sub', dm', obj', act']"
    unfolding split_CacheKey [OF assms(1-4), symmetric] assms(9) by (rule split_CacheKey [OF assms(5-8)])
  then show ?thesis by blast
qed

lemma pc_get_cases:
  "pc_get D m key =
     (if d_fault D (CGet key) then Inl (Opaque (''failed to get cached permission: '' @ error_text driver_error))
      else case mem_get (d_now D) m key of None \<Rightarrow> Inl err_cache_miss | Some v \<Rightarrow> Inr (v = ''1''))"
  by (simp add: pc_get_def drv_get_def split: option.splits)

lemma pc_set_cache:
  "snd (pc_set D ttl m key b) =
     (if d_fault D (CSet key) then m
      else mem_set (d_now D) m key (if b then ''1'' else ''0'') (ttl div second))"
  by (simp add: pc_set_def drv_set_def)

text \<open>
  Coherence: every decision that a lookup can find is the engine's decision now. The
  cached bytes are \<open>1\<close> and \<open>0\<close>, the values \<open>Set\<close> writes.
\<close>

definition coherent ::
    "('p \<Rightarrow> string \<Rightarrow> string \<Rightarrow> string \<Rightarrow> string \<Rightarrow> bool result) \<Rightarrow> 'p perm_state \<Rightarrow> bool" where
  "coherent eval s \<longleftrightarrow>
     (\<forall>sub dm obj act e.
        colon_free sub \<longrightarrow> colon_free dm \<longrightarrow> colon_free obj \<longrightarrow> colon_free act \<longrightarrow>
        ps_cache s (CacheKey sub dm obj act) = Some e \<longrightarrow>
        eval (ps_policy s) sub dm obj act = Inr (me_value e = ''1''))"

lemma coherent_get:
  assumes "coherent eval s" "colon_free sub" "colon_free dm" "colon_free obj" "colon_free act"
    and "mem_get t (ps_cache s) (CacheKey sub dm obj act) = Some v"
  shows "eval (ps_policy s) sub dm obj act = Inr (v = ''1'')"
  using assms by (auto simp: coherent_def mem_get_def split: option.splits if_splits)

lemma coherent_store:
  assumes "coherent eval s" and "colon_free sub" "colon_free dm" "colon_free obj" "colon_free act"
    and "eval (ps_policy s) sub dm obj act = Inr b"
  shows "coherent eval (s\<lparr>ps_cache := snd (pc_set D ttl (ps_cache s) (CacheKey sub dm obj act) b)\<rparr>)"
proof -
  have "eval (ps_policy s) a d ob ac = Inr (me_value e = ''1'')"
    if "colon_free a" "colon_free d" "colon_free ob" "colon_free ac"
      and e: "mem_set t (ps_cache s) (CacheKey sub dm obj act) (if b then ''1'' else ''0'') k (CacheKey a d ob ac) = Some e"
    for a d ob ac e t k
  proof (cases "CacheKey a d ob ac = CacheKey sub dm obj act")
    case True
    then have "a = sub \<and> d = dm \<and> ob = obj \<and> ac = act"
      by (rule CacheKey_inj [OF that(1-4) assms(2-5)])
    with e assms(6) show ?thesis by (auto simp: mem_set_def split: if_splits)
  next
    case False
    with e have "ps_cache s (CacheKey a d ob ac) = Some e" by (simp add: mem_set_def)
    with assms(1) that(1-4) show ?thesis by (simp add: coherent_def)
  qed
  with assms(1) show ?thesis
    unfolding pc_set_cache coherent_def by auto
qed

lemma invalidate_all_entry:
  assumes "\<not> d_fault D (CClear (CacheKeyPrefix @ ''*''))"
  shows "snd (pc_invalidate_all D m) (CacheKey sub dm obj act) = None"
  using assms
  by (simp add: pc_invalidate_all_def drv_clear_def mem_clear_def all_pattern CacheKey_prefix)

section \<open>Properties\<close>

text \<open>
  Parsing a cache key gives back the subject, domain, object and action it was made
  of, as long as none of the four holds the separator.
\<close>

theorem parse_cache_key_roundtrip:
  assumes "colon_free sub" "colon_free dm" "colon_free obj" "colon_free act"
  shows "ParseCacheKey (CacheKey sub dm obj act) = Inr (sub, dm, obj, act)"
  unfolding ParseCacheKey_def split_CacheKey [OF assms] by simp

theorem parse_cache_key_roundtrip_witness:
  "ParseCacheKey (CacheKey ''u1'' ''default'' ''comment'' ''view'') = Inr (''u1'', ''default'', ''comment'', ''view'')"
  by (rule parse_cache_key_roundtrip) (simp_all add: colon_free_def)


definition eval_flag :: "bool \<Rightarrow> string \<Rightarrow> string \<Rightarrow> string \<Rightarrow> string \<Rightarrow> bool result" where
  "eval_flag policy sub dm obj act = Inr policy"

definition quiet :: "instant \<Rightarrow> drv_env" where
  "quiet t = \<lparr>d_now = t, d_fault = (\<lambda>c. False)\<rparr>"


text \<open>
  \<open>InvalidateForUser\<close> drops every cached decision about that user and no decision
  about another one, when user identifiers hold no separator.
\<close>

theorem invalidate_user_exact:
  assumes "\<not> d_fault D (CClear (CacheKeyPrefix @ u @ '':*''))"
    and "colon_free u" "colon_free sub"
  shows "snd (pc_invalidate_user D m u) (CacheKey sub dm obj act) =
         (if sub = u then None else m (CacheKey sub dm obj act))"
  using assms
  by (simp add: pc_invalidate_user_def drv_clear_def mem_clear_def user_pattern CacheKey_user_prefix)

theorem invalidate_user_exact_witness:
  "snd (pc_invalidate_user (quiet 0)
      [CacheKey ''u'' ''d'' ''o'' ''a'' \<mapsto> \<lparr>me_value = ''1'', me_expires_at = 9\<rparr>] ''u'')
      (CacheKey ''u'' ''d'' ''o'' ''a'') = None"
  by (subst invalidate_user_exact) (simp_all add: quiet_def colon_free_def)

text \<open>
  On the in-memory driver \<open>InvalidateForDomain\<close> removes nothing: the pattern
  \<open>perm:*:domain:*\<close> has a star in the middle, which \<open>matchesPattern\<close> reads literally.
  Every cached decision of the domain survives, whatever the subject (unless its own
  name begins with a star), so a revoked permission keeps being granted from the cache.
\<close>

theorem invalidate_domain_ineffective:
  assumes "sub = [] \<or> hd sub \<noteq> CHR ''*''"
  shows "snd (pc_invalidate_domain D m dm) (CacheKey sub dm obj act) = m (CacheKey sub dm obj act)"
proof -
  have "\<not> has_prefix (CacheKey sub dm obj act) (CacheKeyPrefix @ ''*:'' @ dm @ '':'')"
    using assms by (cases sub) (auto simp: has_prefix_iff CacheKey_def CacheKeyPrefix_def)
  then show ?thesis
    unfolding pc_invalidate_domain_def drv_clear_def mem_clear_def domain_pattern by simp
qed

theorem invalidate_domain_ineffective_witness:
  "snd (pc_invalidate_domain (quiet 0)
      [CacheKey ''u'' ''d'' ''o'' ''a'' \<mapsto> \<lparr>me_value = ''1'', me_expires_at = 9\<rparr>] ''d'')
      (CacheKey ''u'' ''d'' ''o'' ''a'') = Some \<lparr>me_value = ''1'', me_expires_at = 9\<rparr>"
  by (subst invalidate_domain_ineffective) simp_all

text \<open>
  \<open>InvalidateAndReload\<close>, run with no request in between and no failure, leaves a
  coherent cache for the policy of the database, whatever was cached before.
\<close>

theorem invalidate_and_reload_coherent:
  assumes "\<not> d_fault D (CClear (CacheKeyPrefix @ ''*''))"
  shows "fst (InvalidateAndReload D False s) = Inr ()
       \<and> ps_policy (snd (InvalidateAndReload D False s)) = ps_db s
       \<and> coherent eval (snd (InvalidateAndReload D False s))"
proof -
  have "snd (InvalidateAndReload D False s) =
      s\<lparr>ps_cache := snd (pc_invalidate_all D (ps_cache s)), ps_policy := ps_db s\<rparr>"
    and "fst (InvalidateAndReload D False s) = Inr ()"
    using assms
    by (simp_all add: InvalidateAndReload_def LoadPolicy_def pc_invalidate_all_def drv_clear_def)
  then show ?thesis
    by (simp add: coherent_def invalidate_all_entry [where D = D, OF assms])
qed

theorem invalidate_and_reload_coherent_witness:
  "coherent eval_flag (snd (InvalidateAndReload (quiet 0) False
      \<lparr>ps_cache = [CacheKey ''u'' ''d'' ''o'' ''a'' \<mapsto> \<lparr>me_value = ''1'', me_expires_at = 9\<rparr>],
       ps_policy = True, ps_db = False\<rparr>))"
  by (rule invalidate_and_reload_coherent [THEN conjunct2, THEN conjunct2]) (simp add: quiet_def)

text \<open>
  The listener clears the cache before it reloads the policy, and a request that is
  served in between puts the old decision back: after the listener has finished, the
  engine denies and \<open>EnforceWithCache\<close> still grants, until the entry expires.
\<close>

theorem invalidate_before_reload_race:
  assumes "eval (ps_policy s) sub dm obj act = Inr True"
    and "eval (ps_db s) sub dm obj act = Inr False"
    and "\<And>c. \<not> d_fault D c" and "\<And>c. \<not> d_fault D' c"
    and "d_now D \<le> d_now D'" and "d_now D' \<le> d_now D + ttl div second * second" and "0 \<le> ttl"
  shows
    "let s1 = s\<lparr>ps_cache := snd (pc_invalidate_all D (ps_cache s))\<rparr>;
         s2 = snd (EnforceWithCache eval D (Some ttl) s1 sub dm obj act);
         s3 = snd (LoadPolicy False s2)
     in Enforce eval s3 sub dm obj act = Inr False
      \<and> fst (EnforceWithCache eval D' (Some ttl) s3 sub dm obj act) = Inr True"
proof -
  let ?k = "CacheKey sub dm obj act"
  let ?m1 = "snd (pc_invalidate_all D (ps_cache s))"
  let ?m2 = "mem_set (d_now D) ?m1 ?k ''1'' (ttl div second)"
  have "?m1 ?k = None"
    by (rule invalidate_all_entry) (simp add: assms(3))
  then have "pc_get D ?m1 ?k = Inl err_cache_miss"
    using assms(3) by (simp add: pc_get_cases mem_get_def)
  then have "snd (EnforceWithCache eval D (Some ttl) (s\<lparr>ps_cache := ?m1\<rparr>) sub dm obj act) =
      s\<lparr>ps_cache := ?m2\<rparr>"
    using assms(1,3) by (simp add: EnforceWithCache_def Enforce_def pc_set_cache)
  moreover have "0 \<le> ttl div second"
    using assms(7) by (simp add: second_def)
  then have "mem_get (d_now D') ?m2 ?k = Some ''1''"
    using assms(5,6) by (intro mem.get_set_same) simp_all
  then have "pc_get D' ?m2 ?k = Inr True"
    using assms(4) by (simp add: pc_get_cases)
  ultimately show ?thesis
    using assms(2) by (simp add: EnforceWithCache_def Enforce_def LoadPolicy_def Let_def)
qed

theorem invalidate_before_reload_race_witness:
  "let s = \<lparr>ps_cache = Map.empty, ps_policy = True, ps_db = False\<rparr>;
       s1 = s\<lparr>ps_cache := snd (pc_invalidate_all (quiet 0) (ps_cache s))\<rparr>;
       s2 = snd (EnforceWithCache eval_flag (quiet 0) (Some (300 * second)) s1 ''u'' ''d'' ''o'' ''a'');
       s3 = snd (LoadPolicy False s2)
   in Enforce eval_flag s3 ''u'' ''d'' ''o'' ''a'' = Inr False
    \<and> fst (EnforceWithCache eval_flag (quiet 5) (Some (300 * second)) s3 ''u'' ''d'' ''o'' ''a'') = Inr True"
  using invalidate_before_reload_race
    [where eval = eval_flag and s = "\<lparr>ps_cache = Map.empty, ps_policy = True, ps_db = False\<rparr>"
       and D = "quiet 0" and D' = "quiet 5" and ttl = "300 * second"
       and sub = "''u''" and dm = "''d''" and obj = "''o''" and act = "''a''"]
  by (simp add: eval_flag_def quiet_def second_def Let_def)

end
