(* ===== verification/Auth_Store.thy ===== *)
theory Auth_Store
  imports Prelude
begin

text \<open>
  The persistent state behind authentication and its repositories: users
  (\<open>domain/user.go\<close>, \<open>repository/user.go\<close>), refresh tokens
  (\<open>domain/refresh_token.go\<close>, \<open>repository/refresh_token.go\<close>), password reset tokens
  (\<open>domain/password_reset_token.go\<close>, \<open>repository/password_reset_token.go\<close>) and
  two-factor recovery codes (\<open>domain/two_factor_recovery_code.go\<close>,
  \<open>repository/two_factor_recovery_code.go\<close>).

  A table is the list of its rows; the columns that no operation reads (the ORM's
  \<open>created_at\<close>/\<open>updated_at\<close>, the session's user agent, address and device name) are
  left out. The unique indexes of the tables are enforced by the \<open>Create\<close>
  operations. A table with a \<open>gorm.DeletedAt\<close> column hides the rows that have it set.
  Every query may fail: \<open>a_fault E q\<close> says that the query \<open>q\<close> fails during this
  handler, in which case it changes nothing.

  \<open>single_use\<close> is the contract shared by the three kinds of one-time credential.
\<close>

section \<open>Rows\<close>

record user =
  u_id :: uuid
  u_email :: string
  u_password_hash :: string
  u_deleted_at :: "instant option"
  u_tf_enabled :: bool
  u_tf_status :: string
  u_tf_secret :: string
  u_tf_verified_at :: "instant option"

record refresh_token =
  rt_id :: uuid
  rt_user_id :: uuid
  rt_token_hash :: string
  rt_family_id :: uuid
  rt_expires_at :: instant
  rt_revoked_at :: "instant option"
  rt_is_2fa_pending :: bool

record reset_token =
  pr_id :: uuid
  pr_user_id :: uuid
  pr_token_hash :: string
  pr_expires_at :: instant
  pr_used_at :: "instant option"

record recovery_code =
  rc_id :: uuid
  rc_user_id :: uuid
  rc_code_hash :: string
  rc_used_at :: "instant option"
  rc_deleted_at :: "instant option"

definition rt_is_revoked :: "refresh_token \<Rightarrow> bool" where
  "rt_is_revoked t = (rt_revoked_at t \<noteq> None)"

definition rt_is_valid :: "instant \<Rightarrow> refresh_token \<Rightarrow> bool" where
  "rt_is_valid now t = (if rt_is_revoked t then False else now < rt_expires_at t)"

definition rt_is_in_family :: "refresh_token \<Rightarrow> uuid \<Rightarrow> bool" where
  "rt_is_in_family t f = (rt_family_id t = f)"

definition pr_is_used :: "reset_token \<Rightarrow> bool" where
  "pr_is_used t = (pr_used_at t \<noteq> None)"

definition pr_is_valid :: "instant \<Rightarrow> reset_token \<Rightarrow> bool" where
  "pr_is_valid now t = (if pr_is_used t then False else now < pr_expires_at t)"

definition rc_is_used :: "recovery_code \<Rightarrow> bool" where
  "rc_is_used c = (rc_used_at c \<noteq> None)"

section \<open>State, metrics, audit, background work\<close>

text \<open>
  The counters of \<open>auth_metrics.go\<close>, the entries handed to the audit log, and the
  goroutines a handler starts: they run after the handler, so they are a list of tasks.
\<close>

datatype auth_metric =
    LoginSuccess | LoginFailed | LoginRateLimited
  | PasswordResetRequested | PasswordResetCompleted | PasswordResetFailed
  | TokenRefreshSuccess | TokenRefreshFailed | TokenReuseDetected
  | ActiveSessions | SessionRevoked | SessionsExpired

datatype bg_task =
    AssignViewerRole uuid
  | SendEmail string string  \<comment> \<open>recipient, template\<close>
  | WriteAudit audit_entry

record auth_state =
  users :: "user list"
  refresh_tokens :: "refresh_token list"
  reset_tokens :: "reset_token list"
  recovery_codes :: "recovery_code list"
  metrics :: "auth_metric \<Rightarrow> int"
  audit_log :: "audit_entry list"
  spawned :: "bg_task list"

definition bump :: "auth_metric \<Rightarrow> auth_state \<Rightarrow> auth_state" where
  "bump m s = s\<lparr>metrics := (metrics s)(m := metrics s m + 1)\<rparr>"

definition set_gauge :: "auth_metric \<Rightarrow> int \<Rightarrow> auth_state \<Rightarrow> auth_state" where
  "set_gauge m n s = s\<lparr>metrics := (metrics s)(m := n)\<rparr>"

definition spawn :: "bg_task \<Rightarrow> auth_state \<Rightarrow> auth_state" where
  "spawn t s = s\<lparr>spawned := spawned s @ [t]\<rparr>"

section \<open>The environment of a handler\<close>

datatype auth_call =
    QUserCreate string | QUserByEmail string | QUserByID uuid | QUserSave uuid
  | QTokCreate string | QTokByHash string | QTokByID uuid | QTokMarkRevoked string
  | QTokRevokeUser uuid | QTokByUser uuid | QTokRevokeFamily uuid | QTokDeleteExpired
  | QRstCreate string | QRstByHash string | QRstMarkUsed string | QRstRevokeUser uuid
  | QRstDeleteExpired
  | QRecCreate string | QRecFind uuid string | QRecMarkUsed uuid | QRecDeleteUser uuid
  | QRecCountUser uuid

text \<open>
  One handler runs at one instant \<open>a_now\<close>. \<open>a_rand\<close> is the hex text of the random
  bytes it draws (\<open>None\<close>: the generator failed), \<open>a_new_family\<close> its \<open>uuid.New()\<close>,
  \<open>a_new_id i\<close> the key the database gives to the \<open>i\<close>-th row it creates.
  \<open>a_hash_token\<close> is the hex SHA-256 of \<open>token_hash.go\<close>; \<open>a_pw_hash\<close> and
  \<open>a_pw_verify\<close> are bcrypt (golang.org/x/crypto), \<open>a_access\<close> the signing of an access
  token (golang-jwt). The \<open>a_has\<close> flags are the optional dependencies of the service.
\<close>

record auth_env =
  a_now :: instant
  a_fault :: "auth_call \<Rightarrow> bool"
  a_rand :: "string option"
  a_new_family :: uuid
  a_new_id :: "nat \<Rightarrow> uuid"
  a_hash_token :: "string \<Rightarrow> string"
  a_pw_hash :: "string \<Rightarrow> string option"
  a_pw_verify :: "string \<Rightarrow> string \<Rightarrow> bool"
  a_access :: "uuid \<Rightarrow> string \<Rightarrow> string option"
  a_refresh_expiry :: duration
  a_reset_expiry :: duration
  a_has_roles :: bool
  a_has_email :: bool
  a_has_reset_repo :: bool
  a_has_audit :: bool
  a_audit_full :: bool  \<comment> \<open>the audit channel is full\<close>

text \<open>\<open>AuditService.LogAction\<close> sends to a channel and drops the entry when it is full.\<close>

definition LogAction :: "'e auth_env_scheme \<Rightarrow> audit_entry \<Rightarrow> auth_state \<Rightarrow> auth_state" where
  "LogAction E a s = (if a_audit_full E then s else s\<lparr>audit_log := audit_log s @ [a]\<rparr>)"

section \<open>User repository (repository/user.go)\<close>

definition user_visible :: "user \<Rightarrow> bool" where
  "user_visible u = (u_deleted_at u = None)"

definition user_create ::
    "'e auth_env_scheme \<Rightarrow> auth_state \<Rightarrow> user \<Rightarrow> unit result \<times> auth_state" where
  "user_create E s u =
     (if a_fault E (QUserCreate (u_email u)) then (Inl (WrapInternal db_error), s)
      else if tbl_count (\<lambda>r. u_email r = u_email u) (users s) \<noteq> 0
      then (Inl (WrapInternal unique_violation), s)
      else (Inr (), s\<lparr>users := users s @ [u]\<rparr>))"

definition user_find_by_email ::
    "'e auth_env_scheme \<Rightarrow> auth_state \<Rightarrow> string \<Rightarrow> user result" where
  "user_find_by_email E s email =
     (if a_fault E (QUserByEmail email) then Inl (WrapInternal db_error)
      else case tbl_first (\<lambda>r. u_email r = email \<and> user_visible r) (users s) of
             None \<Rightarrow> Inl (Sentinel ErrNotFound)
           | Some u \<Rightarrow> Inr u)"

definition user_find_by_id ::
    "'e auth_env_scheme \<Rightarrow> auth_state \<Rightarrow> uuid \<Rightarrow> user result" where
  "user_find_by_id E s i =
     (if a_fault E (QUserByID i) then Inl (WrapInternal db_error)
      else case tbl_first (\<lambda>r. u_id r = i \<and> user_visible r) (users s) of
             None \<Rightarrow> Inl (Sentinel ErrNotFound)
           | Some u \<Rightarrow> Inr u)"

text \<open>\<open>Save\<close> writes every column of the row with this primary key.\<close>

definition user_update ::
    "'e auth_env_scheme \<Rightarrow> auth_state \<Rightarrow> user \<Rightarrow> unit result \<times> auth_state" where
  "user_update E s u =
     (if a_fault E (QUserSave (u_id u)) then (Inl (WrapInternal db_error), s)
      else (Inr (), s\<lparr>users := tbl_update (\<lambda>r. u_id r = u_id u) (\<lambda>r. u) (users s)\<rparr>))"

section \<open>Refresh token repository (repository/refresh_token.go)\<close>

definition revoke_rows ::
    "instant \<Rightarrow> (refresh_token \<Rightarrow> bool) \<Rightarrow> refresh_token list \<Rightarrow> refresh_token list" where
  "revoke_rows now P rows = tbl_update P (\<lambda>r. r\<lparr>rt_revoked_at := Some now\<rparr>) rows"

definition tok_create ::
    "'e auth_env_scheme \<Rightarrow> auth_state \<Rightarrow> refresh_token \<Rightarrow> unit result \<times> auth_state" where
  "tok_create E s t =
     (if a_fault E (QTokCreate (rt_token_hash t)) then (Inl (WrapInternal db_error), s)
      else if tbl_count (\<lambda>r. rt_token_hash r = rt_token_hash t) (refresh_tokens s) \<noteq> 0
      then (Inl (WrapInternal unique_violation), s)
      else (Inr (), s\<lparr>refresh_tokens := refresh_tokens s @ [t]\<rparr>))"

definition tok_find_by_hash ::
    "'e auth_env_scheme \<Rightarrow> auth_state \<Rightarrow> string \<Rightarrow> refresh_token result" where
  "tok_find_by_hash E s h =
     (if a_fault E (QTokByHash h) then Inl (WrapInternal db_error)
      else case tbl_first (\<lambda>r. rt_token_hash r = h) (refresh_tokens s) of
             None \<Rightarrow> Inl (Sentinel ErrNotFound)
           | Some t \<Rightarrow> Inr t)"

definition tok_find_by_id ::
    "'e auth_env_scheme \<Rightarrow> auth_state \<Rightarrow> uuid \<Rightarrow> refresh_token result" where
  "tok_find_by_id E s i =
     (if a_fault E (QTokByID i) then Inl (WrapInternal db_error)
      else case tbl_first (\<lambda>r. rt_id r = i) (refresh_tokens s) of
             None \<Rightarrow> Inl (Sentinel ErrNotFound)
           | Some t \<Rightarrow> Inr t)"

definition tok_mark_revoked ::
    "'e auth_env_scheme \<Rightarrow> auth_state \<Rightarrow> string \<Rightarrow> unit result \<times> auth_state" where
  "tok_mark_revoked E s h =
     (if a_fault E (QTokMarkRevoked h) then (Inl (WrapInternal db_error), s)
      else let s' = s\<lparr>refresh_tokens := revoke_rows (a_now E) (\<lambda>r. rt_token_hash r = h) (refresh_tokens s)\<rparr>
           in if tbl_count (\<lambda>r. rt_token_hash r = h) (refresh_tokens s) = 0
              then (Inl (Sentinel ErrNotFound), s') else (Inr (), s'))"

definition tok_revoke_all_by_user ::
    "'e auth_env_scheme \<Rightarrow> auth_state \<Rightarrow> uuid \<Rightarrow> unit result \<times> auth_state" where
  "tok_revoke_all_by_user E s uid =
     (if a_fault E (QTokRevokeUser uid) then (Inl (WrapInternal db_error), s)
      else (Inr (), s\<lparr>refresh_tokens :=
        revoke_rows (a_now E) (\<lambda>r. rt_user_id r = uid \<and> rt_revoked_at r = None) (refresh_tokens s)\<rparr>))"

definition tok_delete_expired ::
    "'e auth_env_scheme \<Rightarrow> auth_state \<Rightarrow> unit result \<times> auth_state" where
  "tok_delete_expired E s =
     (if a_fault E QTokDeleteExpired then (Inl (WrapInternal db_error), s)
      else (Inr (), s\<lparr>refresh_tokens := filter (\<lambda>r. \<not> rt_expires_at r < a_now E) (refresh_tokens s)\<rparr>))"

definition tok_find_by_user ::
    "'e auth_env_scheme \<Rightarrow> auth_state \<Rightarrow> uuid \<Rightarrow> refresh_token list result" where
  "tok_find_by_user E s uid =
     (if a_fault E (QTokByUser uid) then Inl (WrapInternal db_error)
      else Inr (filter (\<lambda>r. rt_user_id r = uid) (refresh_tokens s)))"

definition tok_revoke_family ::
    "'e auth_env_scheme \<Rightarrow> auth_state \<Rightarrow> uuid \<Rightarrow> unit result \<times> auth_state" where
  "tok_revoke_family E s f =
     (if a_fault E (QTokRevokeFamily f) then (Inl (WrapInternal db_error), s)
      else (Inr (), s\<lparr>refresh_tokens :=
        revoke_rows (a_now E) (\<lambda>r. rt_family_id r = f \<and> rt_revoked_at r = None) (refresh_tokens s)\<rparr>))"

section \<open>Reset token repository (repository/password_reset_token.go)\<close>

definition use_rows ::
    "instant \<Rightarrow> (reset_token \<Rightarrow> bool) \<Rightarrow> reset_token list \<Rightarrow> reset_token list" where
  "use_rows now P rows = tbl_update P (\<lambda>r. r\<lparr>pr_used_at := Some now\<rparr>) rows"

definition rst_create ::
    "'e auth_env_scheme \<Rightarrow> auth_state \<Rightarrow> reset_token \<Rightarrow> unit result \<times> auth_state" where
  "rst_create E s t =
     (if a_fault E (QRstCreate (pr_token_hash t)) then (Inl (WrapInternal db_error), s)
      else if tbl_count (\<lambda>r. pr_token_hash r = pr_token_hash t) (reset_tokens s) \<noteq> 0
      then (Inl (WrapInternal unique_violation), s)
      else (Inr (), s\<lparr>reset_tokens := reset_tokens s @ [t]\<rparr>))"

definition rst_find_by_hash ::
    "'e auth_env_scheme \<Rightarrow> auth_state \<Rightarrow> string \<Rightarrow> reset_token result" where
  "rst_find_by_hash E s h =
     (if a_fault E (QRstByHash h) then Inl (WrapInternal db_error)
      else case tbl_first (\<lambda>r. pr_token_hash r = h) (reset_tokens s) of
             None \<Rightarrow> Inl (Sentinel ErrNotFound)
           | Some t \<Rightarrow> Inr t)"

definition rst_mark_used ::
    "'e auth_env_scheme \<Rightarrow> auth_state \<Rightarrow> string \<Rightarrow> unit result \<times> auth_state" where
  "rst_mark_used E s h =
     (if a_fault E (QRstMarkUsed h) then (Inl (WrapInternal db_error), s)
      else let s' = s\<lparr>reset_tokens := use_rows (a_now E) (\<lambda>r. pr_token_hash r = h) (reset_tokens s)\<rparr>
           in if tbl_count (\<lambda>r. pr_token_hash r = h) (reset_tokens s) = 0
              then (Inl (Sentinel ErrNotFound), s') else (Inr (), s'))"

definition rst_revoke_all_by_user ::
    "'e auth_env_scheme \<Rightarrow> auth_state \<Rightarrow> uuid \<Rightarrow> unit result \<times> auth_state" where
  "rst_revoke_all_by_user E s uid =
     (if a_fault E (QRstRevokeUser uid) then (Inl (WrapInternal db_error), s)
      else (Inr (), s\<lparr>reset_tokens :=
        use_rows (a_now E) (\<lambda>r. pr_user_id r = uid \<and> pr_used_at r = None) (reset_tokens s)\<rparr>))"

definition rst_delete_expired ::
    "'e auth_env_scheme \<Rightarrow> auth_state \<Rightarrow> unit result \<times> auth_state" where
  "rst_delete_expired E s =
     (if a_fault E QRstDeleteExpired then (Inl (WrapInternal db_error), s)
      else (Inr (), s\<lparr>reset_tokens := filter (\<lambda>r. \<not> pr_expires_at r < a_now E) (reset_tokens s)\<rparr>))"

section \<open>Recovery code repository (repository/two_factor_recovery_code.go)\<close>

text \<open>
  The migration makes \<open>code_hash\<close> unique over all rows, the soft-deleted ones included.
\<close>

definition rec_create ::
    "'e auth_env_scheme \<Rightarrow> auth_state \<Rightarrow> recovery_code \<Rightarrow> unit result \<times> auth_state" where
  "rec_create E s c =
     (if a_fault E (QRecCreate (rc_code_hash c)) then (Inl (WrapInternal db_error), s)
      else if tbl_count (\<lambda>r. rc_code_hash r = rc_code_hash c) (recovery_codes s) \<noteq> 0
      then (Inl (WrapInternal unique_violation), s)
      else (Inr (), s\<lparr>recovery_codes := recovery_codes s @ [c]\<rparr>))"

definition rec_find_by_user_and_hash ::
    "'e auth_env_scheme \<Rightarrow> auth_state \<Rightarrow> uuid \<Rightarrow> string \<Rightarrow> recovery_code result" where
  "rec_find_by_user_and_hash E s uid h =
     (if a_fault E (QRecFind uid h) then Inl (WrapInternal db_error)
      else case tbl_first (\<lambda>r. rc_user_id r = uid \<and> rc_code_hash r = h \<and> rc_used_at r = None
                              \<and> rc_deleted_at r = None) (recovery_codes s) of
             None \<Rightarrow> Inl (Sentinel ErrNotFound)
           | Some c \<Rightarrow> Inr c)"

definition rec_mark_used ::
    "'e auth_env_scheme \<Rightarrow> auth_state \<Rightarrow> uuid \<Rightarrow> unit result \<times> auth_state" where
  "rec_mark_used E s i =
     (if a_fault E (QRecMarkUsed i) then (Inl (WrapInternal db_error), s)
      else let P = (\<lambda>r. rc_id r = i \<and> rc_deleted_at r = None);
               s' = s\<lparr>recovery_codes := tbl_update P (\<lambda>r. r\<lparr>rc_used_at := Some (a_now E)\<rparr>) (recovery_codes s)\<rparr>
           in if tbl_count P (recovery_codes s) = 0
              then (Inl (Sentinel ErrNotFound), s') else (Inr (), s'))"

definition rec_delete_all_by_user ::
    "'e auth_env_scheme \<Rightarrow> auth_state \<Rightarrow> uuid \<Rightarrow> unit result \<times> auth_state" where
  "rec_delete_all_by_user E s uid =
     (if a_fault E (QRecDeleteUser uid) then (Inl (WrapInternal db_error), s)
      else (Inr (), s\<lparr>recovery_codes :=
        tbl_update (\<lambda>r. rc_user_id r = uid \<and> rc_deleted_at r = None)
          (\<lambda>r. r\<lparr>rc_deleted_at := Some (a_now E)\<rparr>) (recovery_codes s)\<rparr>))"

definition rec_count_unused_by_user ::
    "'e auth_env_scheme \<Rightarrow> auth_state \<Rightarrow> uuid \<Rightarrow> nat result" where
  "rec_count_unused_by_user E s uid =
     (if a_fault E (QRecCountUser uid) then Inl (WrapInternal db_error)
      else Inr (tbl_count (\<lambda>r. rc_user_id r = uid \<and> rc_used_at r = None \<and> rc_deleted_at r = None)
                  (recovery_codes s)))"

section \<open>Single-use credentials\<close>

text \<open>
  Refresh tokens, reset tokens and recovery codes are spent by stamping a column; a
  credential that is spent stays so, whatever is stamped or inserted later.
\<close>

locale single_use =
  fixes key :: "'t \<Rightarrow> string"
    and stamp :: "instant \<Rightarrow> 't \<Rightarrow> 't"
    and spent :: "'t \<Rightarrow> bool"
  assumes key_stamp [simp]: "key (stamp now r) = key r"
    and spent_stamp [simp]: "spent (stamp now r)"
begin

lemma first_stamped:
  "tbl_first (\<lambda>r. key r = k) (tbl_update P (stamp now) rows) =
   map_option (\<lambda>r. if P r then stamp now r else r) (tbl_first (\<lambda>r. key r = k) rows)"
  by (induction rows) (auto simp: tbl_first_def tbl_update_def)

lemma spent_stays:
  assumes "tbl_first (\<lambda>r. key r = k) rows = Some r" and "spent r"
  shows "\<exists>r'. tbl_first (\<lambda>r. key r = k) (tbl_update P (stamp now) rows) = Some r' \<and> spent r'"
  using assms by (simp add: first_stamped)

lemma first_append:
  assumes "tbl_first (\<lambda>r. key r = k) rows = Some r"
  shows "tbl_first (\<lambda>r. key r = k) (rows @ new) = Some r"
  using assms by (induction rows) (auto simp: tbl_first_def)

lemma stamped_is_spent:
  assumes "tbl_first (\<lambda>r. key r = k) rows = Some r" and "P r"
  shows "\<exists>r'. tbl_first (\<lambda>r. key r = k) (tbl_update P (stamp now) rows) = Some r' \<and> spent r'"
  using assms by (simp add: first_stamped)

lemma keys_stamped: "map key (tbl_update P (stamp now) rows) = map key rows"
  by (rule map_tbl_update) simp

lemma all_spent_of_cond:
  assumes "\<And>r. r \<in> set rows \<Longrightarrow> Q r \<Longrightarrow> \<not> spent r \<Longrightarrow> P r"
    and "\<And>r. Q (stamp now r) = Q r"
    and "r \<in> set (tbl_update P (stamp now) rows)" and "Q r"
  shows "spent r"
  using assms(3)
proof (cases rule: in_tbl_updateE)
  case (hit r0)
  then show ?thesis by simp
next
  case miss
  with assms(1,4) show ?thesis by blast
qed

end

interpretation rt: single_use rt_token_hash "\<lambda>now r. r\<lparr>rt_revoked_at := Some now\<rparr>" rt_is_revoked
  by unfold_locales (simp_all add: rt_is_revoked_def)

interpretation pr: single_use pr_token_hash "\<lambda>now r. r\<lparr>pr_used_at := Some now\<rparr>" pr_is_used
  by unfold_locales (simp_all add: pr_is_used_def)

interpretation rc: single_use rc_code_hash "\<lambda>now r. r\<lparr>rc_used_at := Some now\<rparr>" rc_is_used
  by unfold_locales (simp_all add: rc_is_used_def)

section \<open>What the repositories change\<close>

lemma bump_frame [frame_simps]:
  "users (bump m s) = users s" "refresh_tokens (bump m s) = refresh_tokens s"
  "reset_tokens (bump m s) = reset_tokens s" "recovery_codes (bump m s) = recovery_codes s"
  "audit_log (bump m s) = audit_log s" "spawned (bump m s) = spawned s"
  by (simp_all add: bump_def)

lemma set_gauge_frame [frame_simps]:
  "users (set_gauge m n s) = users s" "refresh_tokens (set_gauge m n s) = refresh_tokens s"
  "reset_tokens (set_gauge m n s) = reset_tokens s" "recovery_codes (set_gauge m n s) = recovery_codes s"
  by (simp_all add: set_gauge_def)

lemma spawn_frame [frame_simps]:
  "users (spawn t s) = users s" "refresh_tokens (spawn t s) = refresh_tokens s"
  "reset_tokens (spawn t s) = reset_tokens s" "recovery_codes (spawn t s) = recovery_codes s"
  "metrics (spawn t s) = metrics s"
  by (simp_all add: spawn_def)

lemma LogAction_frame [frame_simps]:
  "users (LogAction E a s) = users s" "refresh_tokens (LogAction E a s) = refresh_tokens s"
  "reset_tokens (LogAction E a s) = reset_tokens s" "recovery_codes (LogAction E a s) = recovery_codes s"
  by (simp_all add: LogAction_def)

lemma user_repo_frame [frame_simps]:
  "refresh_tokens (snd (user_create E s u)) = refresh_tokens s"
  "refresh_tokens (snd (user_update E s u)) = refresh_tokens s"
  "reset_tokens (snd (user_update E s u)) = reset_tokens s"
  by (simp_all add: user_create_def user_update_def)

lemma rst_repo_frame [frame_simps]:
  "refresh_tokens (snd (rst_create E s t)) = refresh_tokens s"
  "refresh_tokens (snd (rst_mark_used E s h)) = refresh_tokens s"
  "refresh_tokens (snd (rst_revoke_all_by_user E s uid)) = refresh_tokens s"
  "refresh_tokens (snd (rst_delete_expired E s)) = refresh_tokens s"
  "users (snd (rst_create E s t)) = users s"
  "users (snd (rst_mark_used E s h)) = users s"
  "users (snd (rst_revoke_all_by_user E s uid)) = users s"
  by (simp_all add: rst_create_def rst_mark_used_def rst_revoke_all_by_user_def rst_delete_expired_def Let_def)

lemma tok_repo_frame [frame_simps]:
  "users (snd (tok_create E s t)) = users s"
  "users (snd (tok_mark_revoked E s h)) = users s"
  "users (snd (tok_revoke_all_by_user E s uid)) = users s"
  "users (snd (tok_revoke_family E s f)) = users s"
  "reset_tokens (snd (tok_create E s t)) = reset_tokens s"
  "reset_tokens (snd (tok_mark_revoked E s h)) = reset_tokens s"
  "reset_tokens (snd (tok_revoke_all_by_user E s uid)) = reset_tokens s"
  "reset_tokens (snd (tok_revoke_family E s f)) = reset_tokens s"
  by (simp_all add: tok_create_def tok_mark_revoked_def tok_revoke_all_by_user_def
      tok_revoke_family_def Let_def)

lemma rec_repo_frame [frame_simps]:
  "refresh_tokens (snd (rec_create E s c)) = refresh_tokens s"
  "refresh_tokens (snd (rec_mark_used E s i)) = refresh_tokens s"
  "refresh_tokens (snd (rec_delete_all_by_user E s uid)) = refresh_tokens s"
  "users (snd (rec_create E s c)) = users s"
  "users (snd (rec_mark_used E s i)) = users s"
  "users (snd (rec_delete_all_by_user E s uid)) = users s"
  by (simp_all add: rec_create_def rec_mark_used_def rec_delete_all_by_user_def Let_def)

text \<open>A write that fails changes nothing; one that succeeds is the SQL statement.\<close>

lemma tok_create_cases:
  assumes "tok_create E s t = (r, s')"
  obtains (fail) e where "r = Inl e" "s' = s" "\<not> err_is e ErrNotFound"
    | (ok) "r = Inr ()" "s' = s\<lparr>refresh_tokens := refresh_tokens s @ [t]\<rparr>"
        "rt_token_hash t \<notin> rt_token_hash ` set (refresh_tokens s)"
  using assms by (fastforce simp: tok_create_def tbl_count_0_iff split: if_splits)

lemma tok_mark_revoked_cases:
  assumes "tok_mark_revoked E s h = (r, s')"
  obtains (fail) e where "r = Inl e" "s' = s"
    | (ok) "s' = s\<lparr>refresh_tokens :=
        revoke_rows (a_now E) (\<lambda>r. rt_token_hash r = h) (refresh_tokens s)\<rparr>"
        "(r = Inr ()) = (h \<in> rt_token_hash ` set (refresh_tokens s))"
  using assms by (fastforce simp: tok_mark_revoked_def Let_def tbl_count_0_iff split: if_splits)

lemma tok_revoke_all_by_user_cases:
  assumes "tok_revoke_all_by_user E s uid = (r, s')"
  obtains (fail) e where "r = Inl e" "s' = s"
    | (ok) "r = Inr ()" "s' = s\<lparr>refresh_tokens :=
        revoke_rows (a_now E) (\<lambda>r. rt_user_id r = uid \<and> rt_revoked_at r = None) (refresh_tokens s)\<rparr>"
  using assms by (auto simp: tok_revoke_all_by_user_def split: if_splits)

lemma tok_revoke_family_cases:
  assumes "tok_revoke_family E s f = (r, s')"
  obtains (fail) e where "r = Inl e" "s' = s"
    | (ok) "r = Inr ()" "s' = s\<lparr>refresh_tokens :=
        revoke_rows (a_now E) (\<lambda>r. rt_family_id r = f \<and> rt_revoked_at r = None) (refresh_tokens s)\<rparr>"
  using assms by (auto simp: tok_revoke_family_def split: if_splits)

lemma tok_find_by_hash_cases:
  assumes "tok_find_by_hash E s h = r"
  obtains (fault) "r = Inl (WrapInternal db_error)"
    | (none) "r = Inl (Sentinel ErrNotFound)" "h \<notin> rt_token_hash ` set (refresh_tokens s)"
    | (some) t where "r = Inr t" "tbl_first (\<lambda>r. rt_token_hash r = h) (refresh_tokens s) = Some t"
        "t \<in> set (refresh_tokens s)" "rt_token_hash t = h"
  using assms
  by (auto simp: tok_find_by_hash_def tbl_first_None_iff dest: tbl_first_SomeD
      split: if_splits option.splits)

lemma user_find_by_id_InrD:
  "user_find_by_id E s i = Inr u \<Longrightarrow> u \<in> set (users s) \<and> u_id u = i \<and> user_visible u"
  by (auto simp: user_find_by_id_def dest: tbl_first_SomeD split: if_splits option.splits)

lemma find_saved_user:
  assumes "r \<in> set (users s)" "u_id r = u_id u" "user_visible u" "users s' = tbl_update (\<lambda>r. u_id r = u_id u) (\<lambda>r. u) (users s)"
    and "\<not> a_fault E (QUserByID (u_id u))"
  shows "user_find_by_id E s' (u_id u) = Inr u"
proof -
  have "tbl_first (\<lambda>r. u_id r = u_id u \<and> user_visible r) (tbl_update (\<lambda>r. u_id r = u_id u) (\<lambda>r. u) rows) = Some u"
    if "r \<in> set rows" for rows
    using that assms(2,3) by (induction rows) (auto simp: tbl_first_def tbl_update_def)
  with assms show ?thesis by (simp add: user_find_by_id_def)
qed

lemma user_find_by_email_InrD:
  "user_find_by_email E s e = Inr u \<Longrightarrow> u \<in> set (users s) \<and> u_email u = e \<and> user_visible u"
  by (auto simp: user_find_by_email_def dest: tbl_first_SomeD split: if_splits option.splits)

end
