(* ===== verification/Auth_Service.thy ===== *)
theory Auth_Service
  imports Auth_Store
begin

text \<open>
  The authentication service, \<open>internal/service/auth.go\<close>: one definition per method of
  \<open>AuthService\<close>, in the order of the source, each returning what the method returns and
  the state it leaves. The goroutines that a handler starts are appended to \<open>spawned\<close>
  and are not run by the model.
\<close>

section \<open>Token service\<close>

definition GenerateAccessToken :: "'e auth_env_scheme \<Rightarrow> uuid \<Rightarrow> string \<Rightarrow> string result" where
  "GenerateAccessToken E uid email =
     (case a_access E uid email of
        None \<Rightarrow> Inl (Opaque ''failed to sign token'')
      | Some tok \<Rightarrow> Inr tok)"

definition GenerateRefreshToken :: "'e auth_env_scheme \<Rightarrow> (string \<times> string) result" where
  "GenerateRefreshToken E =
     (case a_rand E of
        None \<Rightarrow> Inl (Opaque ''failed to generate refresh token'')
      | Some tok \<Rightarrow> Inr (tok, a_hash_token E tok))"

section \<open>Registration and login\<close>

definition Register ::
    "'e auth_env_scheme \<Rightarrow> auth_state \<Rightarrow> string \<Rightarrow> string \<Rightarrow> user result \<times> auth_state" where
  "Register E s email password =
     (case user_find_by_email E s email of
        Inr _ \<Rightarrow> (Inl (NewAppError ''EMAIL_EXISTS'' ''Email already registered'' 409), s)
      | Inl err \<Rightarrow>
          if \<not> err_is err ErrNotFound then (Inl err, s)
          else case a_pw_hash E password of
            None \<Rightarrow> (Inl (WrapInternal (Opaque ''bcrypt: password length exceeds 72 bytes'')), s)
          | Some hashed \<Rightarrow>
              (let u = \<lparr>u_id = a_new_id E 0, u_email = email, u_password_hash = hashed,
                        u_deleted_at = None, u_tf_enabled = False, u_tf_status = ''disabled'',
                        u_tf_secret = [], u_tf_verified_at = None\<rparr>
               in case user_create E s u of
                    (Inl err, s1) \<Rightarrow> (Inl err, s1)
                  | (Inr _, s1) \<Rightarrow>
                      (let s2 = (if a_has_roles E then spawn (AssignViewerRole (u_id u)) s1 else s1);
                           s3 = (if a_has_email E then spawn (SendEmail (u_email u) ''welcome'') s2 else s2)
                       in (Inr u, s3))))"

definition invalid_credentials :: go_error where
  "invalid_credentials = NewAppError ''INVALID_CREDENTIALS'' ''Invalid email or password'' 401"

definition Login ::
    "'e auth_env_scheme \<Rightarrow> auth_state \<Rightarrow> string \<Rightarrow> string
     \<Rightarrow> (user \<times> string \<times> string) result \<times> auth_state" where
  "Login E s email password =
     (case user_find_by_email E s email of
        Inl err \<Rightarrow>
          if err_is err ErrNotFound then (Inl invalid_credentials, bump LoginFailed s)
          else (Inl err, s)
      | Inr u \<Rightarrow>
          if \<not> a_pw_verify E (u_password_hash u) password
          then (Inl invalid_credentials, bump LoginFailed s)
          else let s1 = bump LoginSuccess s in
            case GenerateAccessToken E (u_id u) (u_email u) of
              Inl err \<Rightarrow> (Inl err, s1)
            | Inr accessToken \<Rightarrow>
                case GenerateRefreshToken E of
                  Inl err \<Rightarrow> (Inl err, s1)
                | Inr (refreshToken, refreshHash) \<Rightarrow>
                    (let token = \<lparr>rt_id = a_new_id E 0, rt_user_id = u_id u,
                           rt_token_hash = refreshHash, rt_family_id = a_new_family E,
                           rt_expires_at = a_now E + a_refresh_expiry E,
                           rt_revoked_at = None, rt_is_2fa_pending = False\<rparr>
                     in case tok_create E s1 token of
                          (Inl err, s2) \<Rightarrow> (Inl err, s2)
                        | (Inr _, s2) \<Rightarrow> (Inr (u, accessToken, refreshToken), s2)))"

definition Logout :: "'e auth_env_scheme \<Rightarrow> auth_state \<Rightarrow> uuid \<Rightarrow> unit result \<times> auth_state" where
  "Logout E s uid =
     (case tok_revoke_all_by_user E s uid of
        (Inl err, s1) \<Rightarrow> (Inl err, s1)
      | (Inr _, s1) \<Rightarrow>
          (Inr (), if a_has_reset_repo E then snd (rst_revoke_all_by_user E s1 uid) else s1))"

section \<open>Refresh: rotation and reuse detection\<close>

text \<open>\<open>AuditAuth\<close> of \<open>auth_audit.go\<close> writes the entry in a goroutine.\<close>

definition AuditAuth :: "'e auth_env_scheme \<Rightarrow> uuid \<Rightarrow> string \<Rightarrow> auth_state \<Rightarrow> auth_state" where
  "AuditAuth E actor action s =
     (if a_has_audit E then spawn (WriteAudit (Audit actor action ''auth'' [])) s else s)"

definition AuditPotentialTokenReuse ::
    "'e auth_env_scheme \<Rightarrow> uuid \<Rightarrow> uuid \<Rightarrow> auth_state \<Rightarrow> auth_state" where
  "AuditPotentialTokenReuse E uid familyID s = AuditAuth E uid ''token_reuse'' s"

definition invalid_refresh :: "string \<Rightarrow> go_error" where
  "invalid_refresh msg = NewAppError ''INVALID_REFRESH_TOKEN'' msg 401"

definition Refresh ::
    "'e auth_env_scheme \<Rightarrow> auth_state \<Rightarrow> string
     \<Rightarrow> (user \<times> string \<times> string) result \<times> auth_state" where
  "Refresh E s refreshTokenString =
     (let tokenHash = a_hash_token E refreshTokenString in
      case tok_find_by_hash E s tokenHash of
        Inl err \<Rightarrow>
          if err_is err ErrNotFound
          then (Inl (invalid_refresh ''Invalid refresh token''), bump TokenRefreshFailed s)
          else (Inl err, s)
      | Inr stored \<Rightarrow>
          if rt_is_revoked stored then
            (let s1 = snd (tok_revoke_family E s (rt_family_id stored));
                 s2 = bump TokenReuseDetected s1;
                 s3 = AuditPotentialTokenReuse E (rt_user_id stored) (rt_family_id stored) s2
             in (Inl (invalid_refresh ''Refresh token has been revoked''), s3))
          else if a_now E > rt_expires_at stored then
            (Inl (invalid_refresh ''Refresh token has expired''), bump TokenRefreshFailed s)
          else case user_find_by_id E s (rt_user_id stored) of
            Inl err \<Rightarrow> (Inl err, s)
          | Inr u \<Rightarrow>
              case tok_mark_revoked E s tokenHash of
                (Inl err, s1) \<Rightarrow> (Inl err, s1)
              | (Inr _, s1) \<Rightarrow>
                  case GenerateAccessToken E (u_id u) (u_email u) of
                    Inl err \<Rightarrow> (Inl err, s1)
                  | Inr accessToken \<Rightarrow>
                      case GenerateRefreshToken E of
                        Inl err \<Rightarrow> (Inl err, s1)
                      | Inr (newRefreshToken, newRefreshHash) \<Rightarrow>
                          (let newToken = \<lparr>rt_id = a_new_id E 0, rt_user_id = u_id u,
                                 rt_token_hash = newRefreshHash, rt_family_id = rt_family_id stored,
                                 rt_expires_at = a_now E + a_refresh_expiry E,
                                 rt_revoked_at = None, rt_is_2fa_pending = False\<rparr>
                           in case tok_create E s1 newToken of
                                (Inl err, s2) \<Rightarrow> (Inl err, s2)
                              | (Inr _, s2) \<Rightarrow>
                                  (Inr (u, accessToken, newRefreshToken), bump TokenRefreshSuccess s2)))"

section \<open>Password reset\<close>

definition RequestPasswordReset ::
    "'e auth_env_scheme \<Rightarrow> auth_state \<Rightarrow> string \<Rightarrow> string result \<times> auth_state" where
  "RequestPasswordReset E s email =
     (case user_find_by_email E s email of
        Inl err \<Rightarrow> if err_is err ErrNotFound then (Inr [], s) else (Inl err, s)
      | Inr u \<Rightarrow>
          case a_rand E of
            None \<Rightarrow> (Inl (WrapInternal (Opaque ''crypto/rand'')), s)
          | Some resetToken \<Rightarrow>
              (let s1 = (if a_has_reset_repo E then snd (rst_revoke_all_by_user E s (u_id u)) else s);
                   record = \<lparr>pr_id = a_new_id E 0, pr_user_id = u_id u,
                             pr_token_hash = a_hash_token E resetToken,
                             pr_expires_at = a_now E + a_reset_expiry E, pr_used_at = None\<rparr>
               in case (if a_has_reset_repo E then rst_create E s1 record else (Inr (), s1)) of
                    (Inl err, s2) \<Rightarrow> (Inl (WrapInternal err), s2)
                  | (Inr _, s2) \<Rightarrow>
                      (let s3 = (if a_has_email E then spawn (SendEmail (u_email u) ''password-reset'') s2
                                 else s2)
                       in (Inr resetToken, bump PasswordResetRequested s3))))"

definition invalid_reset :: "string \<Rightarrow> go_error" where
  "invalid_reset msg = NewAppError ''INVALID_RESET_TOKEN'' msg 400"

definition ResetPassword ::
    "'e auth_env_scheme \<Rightarrow> auth_state \<Rightarrow> string \<Rightarrow> string \<Rightarrow> unit result \<times> auth_state" where
  "ResetPassword E s token newPassword =
     (let tokenHash = a_hash_token E token in
      case rst_find_by_hash E s tokenHash of
        Inl err \<Rightarrow>
          if err_is err ErrNotFound
          then (Inl (invalid_reset ''Invalid or expired password reset token''), bump PasswordResetFailed s)
          else (Inl (WrapInternal err), s)
      | Inr resetToken \<Rightarrow>
          if \<not> pr_is_valid (a_now E) resetToken
          then (Inl (invalid_reset ''Password reset token has expired or been used''),
                bump PasswordResetFailed s)
          else case user_find_by_id E s (pr_user_id resetToken) of
            Inl err \<Rightarrow> (Inl err, s)
          | Inr u \<Rightarrow>
              case a_pw_hash E newPassword of
                None \<Rightarrow> (Inl (WrapInternal (Opaque ''bcrypt: password length exceeds 72 bytes'')), s)
              | Some hashed \<Rightarrow>
                  case user_update E s (u\<lparr>u_password_hash := hashed\<rparr>) of
                    (Inl err, s1) \<Rightarrow> (Inl err, s1)
                  | (Inr _, s1) \<Rightarrow>
                      (let s2 = snd (rst_mark_used E s1 tokenHash);
                           s3 = snd (tok_revoke_all_by_user E s2 (u_id u))
                       in (Inr (), bump PasswordResetCompleted s3)))"

section \<open>Session management\<close>

definition GetActiveSessions ::
    "'e auth_env_scheme \<Rightarrow> auth_state \<Rightarrow> uuid \<Rightarrow> refresh_token list result \<times> auth_state" where
  "GetActiveSessions E s uid =
     (case tok_find_by_user E s uid of
        Inl err \<Rightarrow> (Inl err, s)
      | Inr sessions \<Rightarrow>
          (let active = filter (rt_is_valid (a_now E)) sessions
           in (Inr active, set_gauge ActiveSessions (int (length active)) s)))"

definition RevokeSession ::
    "'e auth_env_scheme \<Rightarrow> auth_state \<Rightarrow> uuid \<Rightarrow> uuid \<Rightarrow> unit result \<times> auth_state" where
  "RevokeSession E s uid sessionID =
     (case tok_find_by_id E s sessionID of
        Inl err \<Rightarrow> (Inl err, s)
      | Inr session \<Rightarrow>
          if rt_user_id session \<noteq> uid
          then (Inl (NewAppError ''FORBIDDEN'' ''Session does not belong to user'' 403), s)
          else tok_mark_revoked E (bump SessionRevoked s) (rt_token_hash session))"

text \<open>The loop of \<open>RevokeAllOtherSessions\<close>, over the sessions read before it started.\<close>

fun revoke_others ::
    "'e auth_env_scheme \<Rightarrow> string \<Rightarrow> refresh_token list \<Rightarrow> auth_state \<Rightarrow> nat \<Rightarrow> nat \<times> auth_state" where
  "revoke_others E currentTokenHash [] s count = (count, s)"
| "revoke_others E currentTokenHash (session # rest) s count =
     (if rt_token_hash session = currentTokenHash then revoke_others E currentTokenHash rest s count
      else if rt_is_revoked session then revoke_others E currentTokenHash rest s count
      else case tok_mark_revoked E s (rt_token_hash session) of
             (Inl _, s1) \<Rightarrow> revoke_others E currentTokenHash rest s1 count
           | (Inr _, s1) \<Rightarrow> revoke_others E currentTokenHash rest s1 (count + 1))"

definition RevokeAllOtherSessions ::
    "'e auth_env_scheme \<Rightarrow> auth_state \<Rightarrow> uuid \<Rightarrow> uuid \<Rightarrow> nat result \<times> auth_state" where
  "RevokeAllOtherSessions E s uid currentSessionID =
     (case tok_find_by_user E s uid of
        Inl err \<Rightarrow> (Inl err, s)
      | Inr sessions \<Rightarrow>
          (let currentTokenHash =
                 (if currentSessionID \<noteq> uuid_nil
                  then (case tok_find_by_id E s currentSessionID of
                          Inl err \<Rightarrow> [] | Inr cur \<Rightarrow> rt_token_hash cur)
                  else [])
           in case revoke_others E currentTokenHash sessions s 0 of
                (count, s1) \<Rightarrow> (Inr count, s1)))"

end
