(* ===== verification/Two_Factor.thy ===== *)
theory Two_Factor
  imports Auth_Service
begin

text \<open>
  Two-factor authentication: \<open>two_factor.go\<close> (the service), \<open>two_factor_crypto.go\<close>
  (secret encryption) and \<open>two_factor_recovery.go\<close> (recovery codes), over the tables of
  \<open>Auth_Store\<close>.

  AES-GCM and base64 are functions of the environment, as are the third-party TOTP
  library (\<open>pquerna/otp\<close>) and bcrypt. \<open>tf_bcrypt E i\<close> is bcrypt with the salt of the
  \<open>i\<close>-th call of this handler: bcrypt draws a salt in each call.
\<close>

record tf_env = auth_env +
  tf_key :: string
  tf_nonce :: "string option"
  tf_gcm_seal :: "string \<Rightarrow> string \<Rightarrow> string \<Rightarrow> string"
  tf_gcm_open :: "string \<Rightarrow> string \<Rightarrow> string \<Rightarrow> string option"
  tf_b64_encode :: "string \<Rightarrow> string"
  tf_b64_decode :: "string \<Rightarrow> string option"
  tf_generate :: "string \<Rightarrow> string option"  \<comment> \<open>\<open>totp.Generate\<close>: the secret of a new key\<close>
  tf_key_url :: "string \<Rightarrow> string \<Rightarrow> string"  \<comment> \<open>account, secret\<close>
  tf_totp_valid :: "string \<Rightarrow> string \<Rightarrow> instant \<Rightarrow> bool"  \<comment> \<open>code, secret, time\<close>
  tf_random :: "nat \<Rightarrow> nat list"  \<comment> \<open>the random bytes of the \<open>i\<close>-th code\<close>
  tf_bcrypt :: "nat \<Rightarrow> string \<Rightarrow> string option"

section \<open>Secret encryption (two_factor_crypto.go)\<close>

definition EncryptTOTPSecret :: "'e tf_env_scheme \<Rightarrow> string \<Rightarrow> string \<Rightarrow> string result" where
  "EncryptTOTPSecret E plaintext key =
     (if length key \<noteq> 32 then Inl (Opaque ''key must be 32 bytes for AES-256'')
      else case tf_nonce E of
        None \<Rightarrow> Inl (Opaque ''crypto/rand'')
      | Some nonce \<Rightarrow> Inr (nonce @ tf_gcm_seal E key nonce plaintext))"

definition DecryptTOTPSecret :: "'e tf_env_scheme \<Rightarrow> string \<Rightarrow> string \<Rightarrow> string result" where
  "DecryptTOTPSecret E ciphertext key =
     (if length key \<noteq> 32 then Inl (Opaque ''key must be 32 bytes for AES-256'')
      else let nonceSize = 12 in
        if length ciphertext < nonceSize then Inl (Opaque ''ciphertext too short'')
        else case tf_gcm_open E key (take nonceSize ciphertext) (drop nonceSize ciphertext) of
               None \<Rightarrow> Inl (Opaque ''cipher: message authentication failed'')
             | Some plaintext \<Rightarrow> Inr plaintext)"

section \<open>Recovery codes (two_factor_recovery.go)\<close>

definition digit_char :: "nat \<Rightarrow> char" where
  "digit_char d = char_of (48 + d)"

definition generateNumericCode :: "nat list \<Rightarrow> string" where
  "generateNumericCode bytes = map (\<lambda>b. digit_char (b mod 10)) bytes"

definition HashRecoveryCode :: "'e tf_env_scheme \<Rightarrow> nat \<Rightarrow> string \<Rightarrow> string result" where
  "HashRecoveryCode E i plain =
     (case tf_bcrypt E i plain of None \<Rightarrow> Inl (Opaque ''bcrypt'') | Some h \<Rightarrow> Inr h)"

definition GenerateRecoveryCodes :: "'e tf_env_scheme \<Rightarrow> string list \<times> string list" where
  "GenerateRecoveryCodes E =
     (let plaintext = map (\<lambda>i. generateNumericCode (tf_random E i)) [0..<8];
          hashes = map (\<lambda>i. case HashRecoveryCode E i (plaintext ! i) of Inl _ \<Rightarrow> [] | Inr h \<Rightarrow> h) [0..<8]
      in (plaintext, hashes))"

text \<open>\<open>CanRegenerateCodes\<close>: \<open>None\<close> is Go's zero time.\<close>

definition CanRegenerateCodes :: "instant \<Rightarrow> instant option \<Rightarrow> bool" where
  "CanRegenerateCodes now lastRegen =
     (case lastRegen of None \<Rightarrow> True | Some t \<Rightarrow> now - t \<ge> 24 * 3600 * second)"

section \<open>Setup\<close>

record tf_response =
  tr_secret :: string
  tr_qr_url :: string
  tr_recovery_codes :: "string list"
  tr_enabled :: bool
  tr_status :: string

definition InitiateSetup ::
    "'e tf_env_scheme \<Rightarrow> auth_state \<Rightarrow> uuid \<Rightarrow> tf_response result \<times> auth_state" where
  "InitiateSetup E s uid =
     (case user_find_by_id E s uid of
        Inl err \<Rightarrow> (Inl err, s)
      | Inr u \<Rightarrow>
          if u_tf_enabled u
          then (Inl (NewAppError ''TWO_FACTOR_ALREADY_ENABLED''
                      ''Two-factor authentication is already enabled'' 400), s)
          else if u_tf_status u = ''pending''
          then (Inl (NewAppError ''TWO_FACTOR_SETUP_PENDING''
                      ''Two-factor setup is already pending. Complete or cancel the existing setup first'' 400), s)
          else case tf_generate E (u_email u) of
            None \<Rightarrow> (Inl (WrapInternal (Opaque ''totp.Generate'')), s)
          | Some secret \<Rightarrow>
              case EncryptTOTPSecret E secret (tf_key E) of
                Inl err \<Rightarrow> (Inl (WrapInternal err), s)
              | Inr encryptedSecret \<Rightarrow>
                  case user_update E s (u\<lparr>u_tf_secret := tf_b64_encode E encryptedSecret,
                                          u_tf_status := ''pending'', u_tf_enabled := False\<rparr>) of
                    (Inl err, s1) \<Rightarrow> (Inl err, s1)
                  | (Inr _, s1) \<Rightarrow>
                      (Inr \<lparr>tr_secret = secret, tr_qr_url = tf_key_url E (u_email u) secret,
                            tr_recovery_codes = [], tr_enabled = False, tr_status = []\<rparr>, s1))"

text \<open>
  The check of a code against the stored secret, as \<open>VerifyAndEnable\<close>, \<open>Disable\<close>,
  \<open>Verify2FALogin\<close> and \<open>RegenerateCodes\<close> have it.
\<close>

definition check_totp :: "'e tf_env_scheme \<Rightarrow> user \<Rightarrow> string \<Rightarrow> unit result" where
  "check_totp E u totpCode =
     (case tf_b64_decode E (u_tf_secret u) of
        None \<Rightarrow> Inl (NewAppError ''INVALID_TWO_FACTOR_SECRET'' ''Invalid two-factor secret'' 400)
      | Some encryptedSecret \<Rightarrow>
          case DecryptTOTPSecret E encryptedSecret (tf_key E) of
            Inl _ \<Rightarrow> Inl (NewAppError ''INVALID_TWO_FACTOR_SECRET'' ''Failed to decrypt two-factor secret'' 400)
          | Inr secretBytes \<Rightarrow>
              if \<not> tf_totp_valid E totpCode secretBytes (a_now E)
              then Inl (NewAppError ''INVALID_TOTP_CODE'' ''Invalid TOTP code'' 401)
              else Inr ())"

fun store_codes ::
    "'e tf_env_scheme \<Rightarrow> uuid \<Rightarrow> string list \<Rightarrow> nat \<Rightarrow> auth_state \<Rightarrow> unit result \<times> auth_state" where
  "store_codes E uid [] i s = (Inr (), s)"
| "store_codes E uid (hash # rest) i s =
     (case rec_create E s \<lparr>rc_id = a_new_id E i, rc_user_id = uid, rc_code_hash = hash,
                           rc_used_at = None, rc_deleted_at = None\<rparr> of
        (Inl err, s1) \<Rightarrow> (Inl err, s1)
      | (Inr _, s1) \<Rightarrow> store_codes E uid rest (i + 1) s1)"

definition VerifyAndEnable ::
    "'e tf_env_scheme \<Rightarrow> auth_state \<Rightarrow> uuid \<Rightarrow> string \<Rightarrow> tf_response result \<times> auth_state" where
  "VerifyAndEnable E s uid totpCode =
     (case user_find_by_id E s uid of
        Inl err \<Rightarrow> (Inl err, s)
      | Inr u \<Rightarrow>
          if u_tf_status u \<noteq> ''pending''
          then (Inl (NewAppError ''TWO_FACTOR_SETUP_NOT_PENDING'' ''No pending two-factor setup found'' 400), s)
          else case check_totp E u totpCode of
            Inl err \<Rightarrow> (Inl err, s)
          | Inr _ \<Rightarrow>
              case user_update E s (u\<lparr>u_tf_enabled := True, u_tf_status := ''enabled'',
                                      u_tf_verified_at := Some (a_now E)\<rparr>) of
                (Inl err, s1) \<Rightarrow> (Inl err, s1)
              | (Inr _, s1) \<Rightarrow>
                  case rec_delete_all_by_user E s1 uid of
                    (Inl err, s2) \<Rightarrow> (Inl err, s2)
                  | (Inr _, s2) \<Rightarrow>
                      case GenerateRecoveryCodes E of (plainCodes, hashedCodes) \<Rightarrow>
                        case store_codes E uid hashedCodes 0 s2 of
                          (Inl err, s3) \<Rightarrow> (Inl err, s3)
                        | (Inr _, s3) \<Rightarrow>
                            (Inr \<lparr>tr_secret = [], tr_qr_url = [], tr_recovery_codes = plainCodes,
                                  tr_enabled = True, tr_status = ''enabled''\<rparr>,
                             if a_has_audit E then LogAction E (Audit uid ''enable_2fa'' ''user'' uid) s3
                             else s3))"

definition GetStatus ::
    "'e tf_env_scheme \<Rightarrow> auth_state \<Rightarrow> uuid \<Rightarrow> tf_response result" where
  "GetStatus E s uid =
     (case user_find_by_id E s uid of
        Inl err \<Rightarrow> Inl err
      | Inr u \<Rightarrow>
          (let (secret, qrCodeURL) =
             (if u_tf_status u = ''pending'' \<and> u_tf_secret u \<noteq> [] then
                (case tf_b64_decode E (u_tf_secret u) of
                   None \<Rightarrow> ([], [])
                 | Some encryptedSecret \<Rightarrow>
                     case DecryptTOTPSecret E encryptedSecret (tf_key E) of
                       Inl _ \<Rightarrow> ([], [])
                     | Inr secretBytes \<Rightarrow>
                         (tf_b64_encode E secretBytes,
                          case tf_generate E (u_email u) of
                            None \<Rightarrow> []
                          | Some newSecret \<Rightarrow> tf_key_url E (u_email u) newSecret))
              else ([], []))
           in Inr \<lparr>tr_secret = secret, tr_qr_url = qrCodeURL, tr_recovery_codes = [],
                   tr_enabled = u_tf_enabled u, tr_status = u_tf_status u\<rparr>))"

definition Disable ::
    "'e tf_env_scheme \<Rightarrow> auth_state \<Rightarrow> uuid \<Rightarrow> string \<Rightarrow> unit result \<times> auth_state" where
  "Disable E s uid totpCode =
     (case user_find_by_id E s uid of
        Inl err \<Rightarrow> (Inl err, s)
      | Inr u \<Rightarrow>
          if \<not> u_tf_enabled u \<or> u_tf_secret u = []
          then (Inl (NewAppError ''2FA_NOT_ENABLED'' ''Two-factor authentication is not enabled'' 400), s)
          else case check_totp E u totpCode of
            Inl err \<Rightarrow> (Inl err, s)
          | Inr _ \<Rightarrow>
              case user_update E s (u\<lparr>u_tf_enabled := False, u_tf_secret := [],
                                      u_tf_status := ''disabled'', u_tf_verified_at := None\<rparr>) of
                (Inl err, s1) \<Rightarrow> (Inl err, s1)
              | (Inr _, s1) \<Rightarrow>
                  case rec_delete_all_by_user E s1 uid of
                    (Inl err, s2) \<Rightarrow> (Inl err, s2)
                  | (Inr _, s2) \<Rightarrow>
                      (Inr (), if a_has_audit E then LogAction E (Audit uid ''disable_2fa'' ''user'' uid) s2
                               else s2))"

section \<open>Second-factor login\<close>

record login_result =
  lr_user :: user
  lr_access_token :: string
  lr_refresh_token :: string
  lr_requires_2fa :: bool
  lr_pending_token :: string
  lr_expires_in :: int

definition invalid_pending :: go_error where
  "invalid_pending = NewAppError ''INVALID_PENDING_TOKEN'' ''Invalid pending token'' 401"

text \<open>
  The tail that \<open>Verify2FALogin\<close> and \<open>UseRecoveryCode\<close> share word for word: revoke the
  pending token, stamp the user, issue the tokens, audit. The new refresh token's
  \<open>FamilyID\<close> is not set, so it is Go's zero value.
\<close>

definition issue_tokens ::
    "'e tf_env_scheme \<Rightarrow> auth_state \<Rightarrow> user \<Rightarrow> uuid \<Rightarrow> string \<Rightarrow> string
     \<Rightarrow> login_result result \<times> auth_state" where
  "issue_tokens E s u uid tokenHash action =
     (case tok_mark_revoked E s tokenHash of
        (Inl err, s1) \<Rightarrow> (Inl err, s1)
      | (Inr _, s1) \<Rightarrow>
          (let u1 = u\<lparr>u_tf_verified_at := Some (a_now E)\<rparr> in
           case user_update E s1 u1 of
             (Inl err, s2) \<Rightarrow> (Inl err, s2)
           | (Inr _, s2) \<Rightarrow>
               case GenerateAccessToken E uid (u_email u) of
                 Inl err \<Rightarrow> (Inl (WrapInternal err), s2)
               | Inr accessToken \<Rightarrow>
                   case GenerateRefreshToken E of
                     Inl err \<Rightarrow> (Inl (WrapInternal err), s2)
                   | Inr (refreshToken, refreshHash) \<Rightarrow>
                       case tok_create E s2 \<lparr>rt_id = a_new_id E 0, rt_user_id = uid,
                              rt_token_hash = refreshHash, rt_family_id = uuid_nil,
                              rt_expires_at = a_now E + a_refresh_expiry E,
                              rt_revoked_at = None, rt_is_2fa_pending = False\<rparr> of
                         (Inl err, s3) \<Rightarrow> (Inl err, s3)
                       | (Inr _, s3) \<Rightarrow>
                           (Inr \<lparr>lr_user = u1, lr_access_token = accessToken,
                                 lr_refresh_token = refreshToken, lr_requires_2fa = False,
                                 lr_pending_token = [],
                                 lr_expires_in = a_refresh_expiry E div second\<rparr>,
                            if a_has_audit E then LogAction E (Audit uid action ''user'' uid) s3 else s3)))"

definition Verify2FALogin ::
    "'e tf_env_scheme \<Rightarrow> auth_state \<Rightarrow> string \<Rightarrow> string \<Rightarrow> login_result result \<times> auth_state" where
  "Verify2FALogin E s pendingToken totpCode =
     (let tokenHash = a_hash_token E pendingToken in
      case tok_find_by_hash E s tokenHash of
        Inl err \<Rightarrow> if err_is err ErrNotFound then (Inl invalid_pending, s) else (Inl err, s)
      | Inr token \<Rightarrow>
          if \<not> rt_is_2fa_pending token then (Inl invalid_pending, s)
          else if \<not> rt_is_valid (a_now E) token
          then (Inl (NewAppError ''TOKEN_EXPIRED'' ''Pending token has expired'' 401), s)
          else let uid = rt_user_id token in
            case user_find_by_id E s uid of
              Inl err \<Rightarrow> (Inl err, s)
            | Inr u \<Rightarrow>
                if \<not> u_tf_enabled u
                then (Inl (NewAppError ''TWO_FACTOR_NOT_ENABLED''
                            ''Two-factor authentication is not enabled'' 400), s)
                else case check_totp E u totpCode of
                  Inl err \<Rightarrow> (Inl err, s)
                | Inr _ \<Rightarrow> issue_tokens E s u uid tokenHash ''verify_2fa_login'')"

text \<open>
  \<open>UseRecoveryCode\<close> also counts the unused codes after marking one; the count is read and
  dropped, so it has no place here.
\<close>

definition UseRecoveryCode ::
    "'e tf_env_scheme \<Rightarrow> auth_state \<Rightarrow> string \<Rightarrow> string \<Rightarrow> login_result result \<times> auth_state" where
  "UseRecoveryCode E s pendingToken code =
     (let tokenHash = a_hash_token E pendingToken in
      case tok_find_by_hash E s tokenHash of
        Inl err \<Rightarrow> if err_is err ErrNotFound then (Inl invalid_pending, s) else (Inl err, s)
      | Inr token \<Rightarrow>
          if \<not> rt_is_2fa_pending token then (Inl invalid_pending, s)
          else if \<not> rt_is_valid (a_now E) token
          then (Inl (NewAppError ''TOKEN_EXPIRED'' ''Pending token has expired'' 401), s)
          else let uid = rt_user_id token in
            case user_find_by_id E s uid of
              Inl err \<Rightarrow> (Inl err, s)
            | Inr u \<Rightarrow>
                if \<not> u_tf_enabled u
                then (Inl (NewAppError ''TWO_FACTOR_NOT_ENABLED''
                            ''Two-factor authentication is not enabled'' 400), s)
                else case HashRecoveryCode E 0 code of
                  Inl _ \<Rightarrow> (Inl (NewAppError ''INVALID_RECOVERY_CODE''
                                 ''Failed to process recovery code'' 400), s)
                | Inr providedHash \<Rightarrow>
                    case rec_find_by_user_and_hash E s uid providedHash of
                      Inl err \<Rightarrow>
                        if err_is err ErrNotFound
                        then (Inl (NewAppError ''INVALID_RECOVERY_CODE'' ''Invalid recovery code'' 401), s)
                        else (Inl err, s)
                    | Inr storedCode \<Rightarrow>
                        case rec_mark_used E s (rc_id storedCode) of
                          (Inl err, s1) \<Rightarrow> (Inl err, s1)
                        | (Inr _, s1) \<Rightarrow> issue_tokens E s1 u uid tokenHash ''use_recovery_code'')"

definition RegenerateCodes ::
    "'e tf_env_scheme \<Rightarrow> auth_state \<Rightarrow> uuid \<Rightarrow> string \<Rightarrow> string list result \<times> auth_state" where
  "RegenerateCodes E s uid totpCode =
     (case user_find_by_id E s uid of
        Inl err \<Rightarrow> (Inl err, s)
      | Inr u \<Rightarrow>
          if \<not> u_tf_enabled u
          then (Inl (NewAppError ''TWO_FACTOR_NOT_ENABLED''
                      ''Two-factor authentication is not enabled'' 400), s)
          else if u_tf_secret u = []
          then (Inl (NewAppError ''INVALID_TWO_FACTOR_SECRET'' ''Two-factor secret not found'' 400), s)
          else case check_totp E u totpCode of
            Inl err \<Rightarrow> (Inl err, s)
          | Inr _ \<Rightarrow>
              case rec_delete_all_by_user E s uid of
                (Inl err, s1) \<Rightarrow> (Inl err, s1)
              | (Inr _, s1) \<Rightarrow>
                  case GenerateRecoveryCodes E of (plainCodes, hashedCodes) \<Rightarrow>
                    case store_codes E uid hashedCodes 0 s1 of
                      (Inl err, s2) \<Rightarrow> (Inl err, s2)
                    | (Inr _, s2) \<Rightarrow>
                        (Inr plainCodes,
                         if a_has_audit E
                         then LogAction E (Audit uid ''regenerate_2fa_codes'' ''user'' uid) s2 else s2))"

end
