(* ===== verification/Auth_Sessions.thy ===== *)
theory Auth_Sessions
  imports Two_Factor
begin

text \<open>
  What the handlers of \<open>Auth_Service\<close> and \<open>Two_Factor\<close> do to the table of refresh
  tokens, and the properties of sessions: rotation, reuse detection, one live token in
  each family, revocation on reset.

  \<open>tok_evolve\<close> abstracts every handler to four moves on the table (stamp a revocation,
  delete, start a family, rotate); the invariants are proved once over the moves.
  \<open>auth_step\<close> is the system: any handler, in any environment, from any state.
\<close>

section \<open>Moves of the token table\<close>

definition live_of :: "uuid \<Rightarrow> refresh_token list \<Rightarrow> refresh_token list" where
  "live_of f rows = filter (\<lambda>r. rt_family_id r = f \<and> \<not> rt_is_revoked r) rows"

definition rt_fresh :: "refresh_token \<Rightarrow> refresh_token list \<Rightarrow> bool" where
  "rt_fresh t rows \<longleftrightarrow> rt_token_hash t \<notin> rt_token_hash ` set rows
     \<and> rt_revoked_at t = None \<and> \<not> rt_is_2fa_pending t"

text \<open>The flag says whether rows may also be deleted (the cleanup job does that).\<close>

inductive tok_evolve :: "bool \<Rightarrow> refresh_token list \<Rightarrow> refresh_token list \<Rightarrow> bool" for del where
  same: "tok_evolve del rows rows"
| revoke: "tok_evolve del rows (revoke_rows now P rows)"
| delete: "del \<Longrightarrow> tok_evolve del rows (filter P rows)"
| start: "rt_fresh t rows \<Longrightarrow> rt_family_id t \<notin> rt_family_id ` set rows \<Longrightarrow>
    tok_evolve del rows (rows @ [t])"
| rotate: "old \<in> set rows \<Longrightarrow> \<not> rt_is_revoked old \<Longrightarrow> rt_fresh t rows \<Longrightarrow>
    rt_family_id t = rt_family_id old \<Longrightarrow> rt_user_id t = rt_user_id old \<Longrightarrow>
    tok_evolve del rows (revoke_rows now (\<lambda>r. rt_token_hash r = rt_token_hash old) rows @ [t])"
| trans: "tok_evolve del rows1 rows2 \<Longrightarrow> tok_evolve del rows2 rows3 \<Longrightarrow> tok_evolve del rows1 rows3"

text \<open>
  The invariant of the table: token hashes are distinct, no token waits for a second
  factor, a family has at most one live token and belongs to one user.
\<close>

definition pending_free :: "refresh_token list \<Rightarrow> bool" where
  "pending_free rows \<longleftrightarrow> True \<notin> rt_is_2fa_pending ` set rows"

definition one_live :: "refresh_token list \<Rightarrow> bool" where
  "one_live rows \<longleftrightarrow> (\<forall>f. length (live_of f rows) \<le> 1)"

definition owners :: "refresh_token list \<Rightarrow> (uuid \<times> uuid) set" where
  "owners rows = (\<lambda>r. (rt_family_id r, rt_user_id r)) ` set rows"

definition tok_inv :: "refresh_token list \<Rightarrow> bool" where
  "tok_inv rows \<longleftrightarrow> distinct (map rt_token_hash rows) \<and> pending_free rows \<and> one_live rows
     \<and> single_valued (owners rows)"

lemma map_revoke_rows [simp]:
  "map rt_token_hash (revoke_rows now P rows) = map rt_token_hash rows"
  "map rt_family_id (revoke_rows now P rows) = map rt_family_id rows"
  "map rt_is_2fa_pending (revoke_rows now P rows) = map rt_is_2fa_pending rows"
  "map (\<lambda>r. (rt_family_id r, rt_user_id r)) (revoke_rows now P rows) =
   map (\<lambda>r. (rt_family_id r, rt_user_id r)) rows"
  by (simp_all add: revoke_rows_def map_tbl_update)

lemma image_revoke_rows [simp]:
  "rt_token_hash ` set (revoke_rows now P rows) = rt_token_hash ` set rows"
  "rt_family_id ` set (revoke_rows now P rows) = rt_family_id ` set rows"
  "rt_is_2fa_pending ` set (revoke_rows now P rows) = rt_is_2fa_pending ` set rows"
  "owners (revoke_rows now P rows) = owners rows"
  unfolding owners_def set_map [symmetric] by simp_all

lemma live_of_revoke:
  "live_of f (revoke_rows now P rows) = filter (\<lambda>r. \<not> P r) (live_of f rows)"
  by (induction rows) (auto simp: live_of_def revoke_rows_def tbl_update_def rt_is_revoked_def)

lemma live_of_append [simp]: "live_of f (rows @ rows') = live_of f rows @ live_of f rows'"
  by (simp add: live_of_def)

lemma live_of_filter: "live_of f (filter P rows) = filter P (live_of f rows)"
  by (simp add: live_of_def conj_commute)

lemma live_of_single:
  "length (live_of f rows) \<le> 1 \<Longrightarrow> r \<in> set (live_of f rows) \<Longrightarrow> live_of f rows = [r]"
  by (cases "live_of f rows") auto

lemma live_of_new: "rt_fresh t rows \<Longrightarrow> live_of f [t] = (if rt_family_id t = f then [t] else [])"
  by (simp add: live_of_def rt_fresh_def rt_is_revoked_def)

lemma live_of_absent: "f \<notin> rt_family_id ` set rows \<Longrightarrow> live_of f rows = []"
  by (force simp: live_of_def filter_empty_conv)

lemma tok_inv_revoke: "tok_inv rows \<Longrightarrow> tok_inv (revoke_rows now P rows)"
  by (simp add: tok_inv_def pending_free_def one_live_def live_of_revoke
      order_trans [OF length_filter_le])

lemma live_of_revoke_family:
  "live_of f (revoke_rows now (\<lambda>r. rt_family_id r = f \<and> rt_revoked_at r = None) rows) = []"
  unfolding live_of_revoke by (auto simp: live_of_def rt_is_revoked_def filter_empty_conv)

lemma owners_memI: "r \<in> set rows \<Longrightarrow> f = rt_family_id r \<Longrightarrow> (f, rt_user_id r) \<in> owners rows"
  unfolding owners_def by (rule image_eqI [where x = r]) simp_all

lemma family_owner:
  assumes "tok_inv rows" "r \<in> set rows" "r' \<in> set rows" "rt_family_id r = rt_family_id r'"
  shows "rt_user_id r = rt_user_id r'"
proof -
  from assms(1) have "single_valued (owners rows)" by (simp add: tok_inv_def)
  moreover have "(rt_family_id r', rt_user_id r) \<in> owners rows"
    using assms(2,4) by (intro owners_memI) simp_all
  moreover have "(rt_family_id r', rt_user_id r') \<in> owners rows"
    using assms(3) by (intro owners_memI) simp_all
  ultimately show ?thesis by (rule single_valuedD)
qed

lemma tok_inv_delete:
  assumes "tok_inv rows"
  shows "tok_inv (filter P rows)"
proof -
  have "owners (filter P rows) \<subseteq> owners rows" by (auto simp: owners_def)
  then have "single_valued (owners (filter P rows))"
    using assms by (auto simp: tok_inv_def intro: single_valued_subset)
  moreover have "pending_free (filter P rows)"
    using assms by (auto simp: tok_inv_def pending_free_def)
  ultimately show ?thesis
    using assms
    by (simp add: tok_inv_def distinct_map_filter one_live_def live_of_filter
        order_trans [OF length_filter_le])
qed

lemma single_valued_insert:
  "single_valued R \<Longrightarrow> (\<And>z. (x, z) \<in> R \<Longrightarrow> z = y) \<Longrightarrow> single_valued (insert (x, y) R)"
  unfolding single_valued_def by blast

lemma tok_inv_append:
  assumes inv: "tok_inv rows" and t: "rt_fresh t rows"
    and dead: "live_of (rt_family_id t) rows = []"
    and owner: "\<And>u. (rt_family_id t, u) \<in> owners rows \<Longrightarrow> u = rt_user_id t"
  shows "tok_inv (rows @ [t])"
proof -
  have "owners (rows @ [t]) = insert (rt_family_id t, rt_user_id t) (owners rows)"
    by (simp add: owners_def)
  then have "single_valued (owners (rows @ [t]))"
    using inv owner by (simp add: tok_inv_def single_valued_insert)
  moreover have "one_live (rows @ [t])"
    using inv dead by (simp add: tok_inv_def one_live_def live_of_new [OF t])
  moreover have "pending_free (rows @ [t])" and "distinct (map rt_token_hash (rows @ [t]))"
    using inv t by (simp_all add: tok_inv_def rt_fresh_def pending_free_def)
  ultimately show ?thesis by (simp only: tok_inv_def simp_thms)
qed

lemma tok_inv_rotate:
  assumes inv: "tok_inv rows" and old: "old \<in> set rows" "\<not> rt_is_revoked old" and t: "rt_fresh t rows"
    and same: "rt_family_id t = rt_family_id old" "rt_user_id t = rt_user_id old"
  shows "tok_inv (revoke_rows now (\<lambda>r. rt_token_hash r = rt_token_hash old) rows @ [t])"
proof (rule tok_inv_append)
  show "tok_inv (revoke_rows now (\<lambda>r. rt_token_hash r = rt_token_hash old) rows)"
    using inv by (rule tok_inv_revoke)
  show "rt_fresh t (revoke_rows now (\<lambda>r. rt_token_hash r = rt_token_hash old) rows)"
    using t by (simp add: rt_fresh_def)
  have "live_of (rt_family_id old) rows = [old]"
    using inv old by (intro live_of_single) (auto simp: tok_inv_def one_live_def live_of_def)
  then show "live_of (rt_family_id t) (revoke_rows now (\<lambda>r. rt_token_hash r = rt_token_hash old) rows) = []"
    by (simp add: live_of_revoke same)
  fix u
  assume "(rt_family_id t, u) \<in> owners (revoke_rows now (\<lambda>r. rt_token_hash r = rt_token_hash old) rows)"
  moreover have "(rt_family_id t, rt_user_id t) \<in> owners rows"
    using old(1) same by (auto simp: owners_def)
  ultimately show "u = rt_user_id t"
    using inv by (auto simp: tok_inv_def dest: single_valuedD)
qed

lemma tok_evolve_inv: "tok_evolve del rows rows' \<Longrightarrow> tok_inv rows \<Longrightarrow> tok_inv rows'"
proof (induction rule: tok_evolve.induct)
  case (start t rows)
  then show ?case
    by (intro tok_inv_append) (auto simp: live_of_absent owners_def image_iff)
qed (simp_all add: tok_inv_revoke tok_inv_delete tok_inv_rotate)

text \<open>A family that exists and has no live token never gets one again.\<close>

definition dead :: "uuid \<Rightarrow> refresh_token list \<Rightarrow> bool" where
  "dead f rows \<longleftrightarrow> live_of f rows = [] \<and> f \<in> rt_family_id ` set rows"

lemma tok_evolve_dead: "tok_evolve False rows rows' \<Longrightarrow> dead f rows \<Longrightarrow> dead f rows'"
proof (induction rule: tok_evolve.induct)
  case (start t rows)
  then show ?case by (auto simp: dead_def live_of_new)
next
  case (rotate old rows t now)
  then have "rt_family_id old \<noteq> f"
    by (auto simp: dead_def live_of_def filter_empty_conv)
  with rotate show ?case
    by (simp add: dead_def live_of_revoke live_of_new)
next
  case (revoke rows now P)
  then show ?case by (simp add: dead_def live_of_revoke)
qed auto

section \<open>The handlers as moves\<close>

lemmas result_splits = sum.splits prod.splits if_splits option.splits

lemma evolve_mark_revoked:
  "tok_evolve del (refresh_tokens s) (refresh_tokens (snd (tok_mark_revoked E s h)))"
  by (auto simp: tok_mark_revoked_def Let_def intro: tok_evolve.intros)

lemma evolve_revoke_user:
  "tok_evolve del (refresh_tokens s) (refresh_tokens (snd (tok_revoke_all_by_user E s uid)))"
  by (auto simp: tok_revoke_all_by_user_def intro: tok_evolve.intros)

lemma evolve_revoke_family:
  "tok_evolve del (refresh_tokens s) (refresh_tokens (snd (tok_revoke_family E s f)))"
  by (auto simp: tok_revoke_family_def intro: tok_evolve.intros)

text \<open>What a successful login and a successful refresh did.\<close>

lemma Login_success:
  assumes "Login E s email password = (Inr (u, acc, tok), s')"
  obtains t where "user_find_by_email E s email = Inr u" "a_pw_verify E (u_password_hash u) password"
    "refresh_tokens s' = refresh_tokens s @ [t]" "rt_fresh t (refresh_tokens s)"
    "rt_family_id t = a_new_family E" "rt_user_id t = u_id u" "rt_token_hash t = a_hash_token E tok"
    "rt_expires_at t = a_now E + a_refresh_expiry E" "users s' = users s"
    "metrics s' = (metrics s)(LoginSuccess := metrics s LoginSuccess + 1)"
  using assms
  by (auto simp: Login_def Let_def GenerateRefreshToken_def rt_fresh_def bump_def
      split: result_splits elim!: tok_create_cases)

lemma Refresh_success:
  assumes "Refresh E s tok = (Inr (u, acc, tok'), s')"
  obtains old t where
    "tbl_first (\<lambda>r. rt_token_hash r = a_hash_token E tok) (refresh_tokens s) = Some old"
    "\<not> rt_is_revoked old" "a_now E \<le> rt_expires_at old"
    "user_find_by_id E s (rt_user_id old) = Inr u"
    "refresh_tokens s' =
       revoke_rows (a_now E) (\<lambda>r. rt_token_hash r = a_hash_token E tok) (refresh_tokens s) @ [t]"
    "rt_fresh t (refresh_tokens s)" "rt_family_id t = rt_family_id old" "rt_user_id t = u_id u"
    "rt_token_hash t = a_hash_token E tok'" "rt_expires_at t = a_now E + a_refresh_expiry E"
    "users s' = users s"
  using assms
  by (auto simp: Refresh_def Let_def GenerateRefreshToken_def rt_fresh_def frame_simps
      split: result_splits elim!: tok_create_cases tok_mark_revoked_cases tok_find_by_hash_cases)

lemma ResetPassword_success:
  assumes "ResetPassword E s tok pw = (Inr (), s')"
  obtains t u hashed where
    "rst_find_by_hash E s (a_hash_token E tok) = Inr t" "pr_is_valid (a_now E) t"
    "user_find_by_id E s (pr_user_id t) = Inr u" "a_pw_hash E pw = Some hashed"
    "\<not> a_fault E (QUserSave (u_id u))"
    "s' = bump PasswordResetCompleted (snd (tok_revoke_all_by_user E (snd (rst_mark_used E
       (s\<lparr>users := tbl_update (\<lambda>r. u_id r = u_id u) (\<lambda>r. u\<lparr>u_password_hash := hashed\<rparr>) (users s)\<rparr>)
       (a_hash_token E tok))) (u_id u)))"
  using assms by (auto simp: ResetPassword_def Let_def user_update_def split: result_splits)

lemma Refresh_rows:
  "refresh_tokens (snd (Refresh E s tok)) = refresh_tokens s
   \<or> (\<exists>P. refresh_tokens (snd (Refresh E s tok)) = revoke_rows (a_now E) P (refresh_tokens s))
   \<or> (\<exists>x. fst (Refresh E s tok) = Inr x)"
  by (auto simp: Refresh_def Let_def frame_simps AuditPotentialTokenReuse_def AuditAuth_def
      split: result_splits elim!: tok_create_cases tok_mark_revoked_cases)
    (auto simp: tok_revoke_family_def)

lemma evolve_Register: "refresh_tokens (snd (Register E s email password)) = refresh_tokens s"
  by (auto simp: Register_def Let_def user_create_def frame_simps split: result_splits)

lemma evolve_Login:
  assumes "a_new_family E \<notin> rt_family_id ` set (refresh_tokens s)"
  shows "tok_evolve del (refresh_tokens s) (refresh_tokens (snd (Login E s email password)))"
proof (cases "Login E s email password")
  case (Pair r s')
  show ?thesis
  proof (cases r)
    case (Inl e)
    with Pair have "refresh_tokens s' = refresh_tokens s"
      by (auto simp: Login_def Let_def frame_simps split: result_splits elim!: tok_create_cases)
    with Pair show ?thesis by (simp add: tok_evolve.same)
  next
    case (Inr x)
    with Pair obtain u acc tok where "Login E s email password = (Inr (u, acc, tok), s')"
      by (cases x) auto
    then obtain t where "refresh_tokens s' = refresh_tokens s @ [t]" "rt_fresh t (refresh_tokens s)"
        "rt_family_id t = a_new_family E"
      by (rule Login_success)
    with Pair assms show ?thesis by (simp add: tok_evolve.start)
  qed
qed

lemma evolve_Refresh:
  "tok_evolve del (refresh_tokens s) (refresh_tokens (snd (Refresh E s tok)))"
  using Refresh_rows [of E s tok]
proof (elim disjE exE)
  fix x assume "fst (Refresh E s tok) = Inr x"
  then obtain u acc tok' s' where r: "Refresh E s tok = (Inr (u, acc, tok'), s')"
    by (cases "Refresh E s tok"; cases x) auto
  show ?thesis
  proof (rule Refresh_success [OF r])
    fix old t
    assume first: "tbl_first (\<lambda>r. rt_token_hash r = a_hash_token E tok) (refresh_tokens s) = Some old"
      and "\<not> rt_is_revoked old" "user_find_by_id E s (rt_user_id old) = Inr u"
        "refresh_tokens s' = revoke_rows (a_now E) (\<lambda>r. rt_token_hash r = a_hash_token E tok) (refresh_tokens s) @ [t]"
        "rt_fresh t (refresh_tokens s)" "rt_family_id t = rt_family_id old" "rt_user_id t = u_id u"
    with r show ?thesis
      using tok_evolve.rotate [of old "refresh_tokens s" t del "a_now E"] tbl_first_SomeD [OF first]
      by (simp add: user_find_by_id_InrD)
  qed
qed (auto intro: tok_evolve.intros)

lemma evolve_Logout: "tok_evolve del (refresh_tokens s) (refresh_tokens (snd (Logout E s uid)))"
  using evolve_revoke_user [of del s E uid]
  by (auto simp: Logout_def frame_simps split: result_splits)

lemma evolve_RequestPasswordReset:
  "refresh_tokens (snd (RequestPasswordReset E s email)) = refresh_tokens s"
  using rst_repo_frame(1) [of E]
  by (auto simp: RequestPasswordReset_def Let_def frame_simps rst_create_def split: result_splits)

lemma evolve_ResetPassword:
  "tok_evolve del (refresh_tokens s) (refresh_tokens (snd (ResetPassword E s tok pw)))"
proof -
  have "tok_evolve del (refresh_tokens s) (refresh_tokens (snd (tok_revoke_all_by_user E
      (snd (rst_mark_used E s1 h)) uid)))" if "refresh_tokens s1 = refresh_tokens s" for s1 h uid
    using evolve_revoke_user [of del "snd (rst_mark_used E s1 h)" E uid] that by (simp add: frame_simps)
  moreover have "refresh_tokens s1 = refresh_tokens s" if "user_update E s u = (r, s1)" for s1 r u
    using user_repo_frame(2) [of E s u] that by simp
  ultimately show ?thesis
    by (auto simp: ResetPassword_def Let_def frame_simps intro: tok_evolve.same split: result_splits)
qed

lemma evolve_GetActiveSessions: "refresh_tokens (snd (GetActiveSessions E s uid)) = refresh_tokens s"
  by (simp add: GetActiveSessions_def Let_def frame_simps split: result_splits)

lemma evolve_RevokeSession:
  "tok_evolve del (refresh_tokens s) (refresh_tokens (snd (RevokeSession E s uid sid)))"
proof -
  have "tok_evolve del (refresh_tokens s) (refresh_tokens (snd (tok_mark_revoked E (bump SessionRevoked s) h)))" for h
    using evolve_mark_revoked [of del "bump SessionRevoked s" E h] by (simp add: frame_simps)
  then show ?thesis by (simp add: RevokeSession_def tok_evolve.same split: result_splits)
qed

lemma evolve_revoke_others:
  "tok_evolve del (refresh_tokens s) (refresh_tokens (snd (revoke_others E cur sessions s n)))"
proof (induction E cur sessions s n rule: revoke_others.induct)
  case (2 E cur session rest s n)
  obtain r s1 where m: "tok_mark_revoked E s (rt_token_hash session) = (r, s1)" by fastforce
  then have "tok_evolve del (refresh_tokens s) (refresh_tokens s1)"
    using evolve_mark_revoked [of del s E "rt_token_hash session"] by simp
  with 2 m show ?case
    by (cases r) (auto intro: tok_evolve.trans)
qed (simp add: tok_evolve.same)

text \<open>What the loop over the sessions does when no query fails.\<close>

lemma revoke_rows_twice:
  "revoke_rows now (\<lambda>r. rt_token_hash r \<in> A) (revoke_rows now (\<lambda>r. rt_token_hash r = k) rows) =
   revoke_rows now (\<lambda>r. rt_token_hash r = k \<or> rt_token_hash r \<in> A) rows"
  by (simp add: revoke_rows_def tbl_update_def)

lemma revoke_others_rows:
  assumes "\<And>q. \<not> a_fault E q" and "rt_token_hash ` set sessions \<subseteq> rt_token_hash ` set (refresh_tokens s)"
    and "revoke_others E h sessions s n = (m, s')"
  shows "refresh_tokens s' = revoke_rows (a_now E)
           (\<lambda>r. rt_token_hash r \<in> rt_token_hash ` {x \<in> set sessions. rt_token_hash x \<noteq> h \<and> \<not> rt_is_revoked x})
           (refresh_tokens s)
       \<and> m = n + length (filter (\<lambda>x. rt_token_hash x \<noteq> h \<and> \<not> rt_is_revoked x) sessions)"
  using assms(2,3)
proof (induction sessions arbitrary: s n)
  case Nil
  then show ?case by (simp add: revoke_rows_def tbl_update_def)
next
  case (Cons x sessions)
  let ?live = "\<lambda>xs. rt_token_hash ` {x \<in> set xs. rt_token_hash x \<noteq> h \<and> \<not> rt_is_revoked x}"
  show ?case
  proof (cases "rt_token_hash x = h \<or> rt_is_revoked x")
    case True
    then have "{y. (y = x \<or> y \<in> set sessions) \<and> rt_token_hash y \<noteq> h \<and> \<not> rt_is_revoked y} =
        {y \<in> set sessions. rt_token_hash y \<noteq> h \<and> \<not> rt_is_revoked y}"
      by auto
    with True Cons show ?thesis by (auto split: if_splits)
  next
    case False
    let ?s1 = "s\<lparr>refresh_tokens := revoke_rows (a_now E) (\<lambda>r. rt_token_hash r = rt_token_hash x) (refresh_tokens s)\<rparr>"
    have "tok_mark_revoked E s (rt_token_hash x) = (Inr (), ?s1)"
      using assms(1) Cons.prems(1) by (auto simp: tok_mark_revoked_def tbl_count_0_iff Let_def image_iff)
    with False Cons.prems(2) have "revoke_others E h sessions ?s1 (n + 1) = (m, s')" by simp
    then have ih: "refresh_tokens s' = revoke_rows (a_now E) (\<lambda>r. rt_token_hash r \<in> ?live sessions) (refresh_tokens ?s1)
        \<and> m = n + 1 + length (filter (\<lambda>x. rt_token_hash x \<noteq> h \<and> \<not> rt_is_revoked x) sessions)"
      using Cons.prems(1) by (intro Cons.IH) simp_all
    have "?live (x # sessions) = insert (rt_token_hash x) (?live sessions)" using False by auto
    with ih False show ?thesis by (simp add: revoke_rows_twice)
  qed
qed

lemma evolve_RevokeAllOtherSessions:
  "tok_evolve del (refresh_tokens s) (refresh_tokens (snd (RevokeAllOtherSessions E s uid sid)))"
proof -
  have "tok_evolve del (refresh_tokens s) (refresh_tokens s1)"
    if "revoke_others E cur sessions s 0 = (n, s1)" for cur sessions n s1
    using evolve_revoke_others [of del s E cur sessions 0] that by simp
  then show ?thesis
    by (auto simp: RevokeAllOtherSessions_def Let_def intro: tok_evolve.same split: result_splits)
qed

text \<open>Two-factor setup and maintenance never touch the refresh tokens.\<close>

lemma store_codes_frame [frame_simps]:
  "refresh_tokens (snd (store_codes E uid hs i s)) = refresh_tokens s"
  "users (snd (store_codes E uid hs i s)) = users s"
proof (induction E uid hs i s rule: store_codes.induct)
  case (2 E uid h rest i s)
  let ?c = "\<lparr>rc_id = a_new_id E i, rc_user_id = uid, rc_code_hash = h, rc_used_at = None, rc_deleted_at = None\<rparr>"
  obtain r s1 where c: "rec_create E s ?c = (r, s1)" by fastforce
  then have "refresh_tokens s1 = refresh_tokens s" "users s1 = users s"
    using rec_repo_frame(1,4) [of E s ?c] by simp_all
  with 2 c show "refresh_tokens (snd (store_codes E uid (h # rest) i s)) = refresh_tokens s"
    "users (snd (store_codes E uid (h # rest) i s)) = users s"
    by (cases r; simp)+
qed simp_all

lemma snd_eqD: "f = (r, s') \<Longrightarrow> snd f = s'"
  by simp

lemma evolve_InitiateSetup: "refresh_tokens (snd (InitiateSetup E s uid)) = refresh_tokens s"
  by (auto simp: InitiateSetup_def user_update_def split: result_splits)

lemma evolve_VerifyAndEnable: "refresh_tokens (snd (VerifyAndEnable E s uid code)) = refresh_tokens s"
  by (auto simp: VerifyAndEnable_def frame_simps user_update_def rec_delete_all_by_user_def
      dest: snd_eqD [where f = "store_codes _ _ _ _ _", THEN arg_cong [where f = refresh_tokens]]
      split: result_splits)

lemma evolve_Disable: "refresh_tokens (snd (Disable E s uid code)) = refresh_tokens s"
  by (auto simp: Disable_def frame_simps user_update_def rec_delete_all_by_user_def split: result_splits)

lemma evolve_RegenerateCodes: "refresh_tokens (snd (RegenerateCodes E s uid code)) = refresh_tokens s"
  by (auto simp: RegenerateCodes_def frame_simps rec_delete_all_by_user_def
      dest: snd_eqD [where f = "store_codes _ _ _ _ _", THEN arg_cong [where f = refresh_tokens]]
      split: result_splits)

text \<open>Without a pending token both second-factor logins are turned away, with no effect.\<close>

lemma found_not_pending:
  "pending_free (refresh_tokens s) \<Longrightarrow> tok_find_by_hash E s h = Inr t \<Longrightarrow> \<not> rt_is_2fa_pending t"
  by (auto simp: pending_free_def image_iff elim: tok_find_by_hash_cases)

lemma second_factor_rejected:
  assumes "pending_free (refresh_tokens s)"
  shows "Verify2FALogin E s tok code =
      (case tok_find_by_hash E s (a_hash_token E tok) of
         Inl err \<Rightarrow> (Inl (if err_is err ErrNotFound then invalid_pending else err), s)
       | Inr _ \<Rightarrow> (Inl invalid_pending, s))"
    and "UseRecoveryCode E s tok code =
      (case tok_find_by_hash E s (a_hash_token E tok) of
         Inl err \<Rightarrow> (Inl (if err_is err ErrNotFound then invalid_pending else err), s)
       | Inr _ \<Rightarrow> (Inl invalid_pending, s))"
  using found_not_pending [OF assms, of E "a_hash_token E tok"]
  by (cases "tok_find_by_hash E s (a_hash_token E tok)";
      simp add: Verify2FALogin_def UseRecoveryCode_def Let_def)+

section \<open>The system\<close>

text \<open>
  One step is one handler, with any arguments, in any environment: any instant, any
  pattern of failed queries, any random tokens. The only assumption is that
  \<open>uuid.New()\<close> gives a login a family that is not in the table.
\<close>

inductive auth_step :: "auth_state \<Rightarrow> auth_state \<Rightarrow> bool" where
  register: "auth_step s (snd (Register (E :: tf_env) s email pw))"
| login: "a_new_family E \<notin> rt_family_id ` set (refresh_tokens s) \<Longrightarrow>
    auth_step s (snd (Login (E :: tf_env) s email pw))"
| logout: "auth_step s (snd (Logout (E :: tf_env) s uid))"
| refresh: "auth_step s (snd (Refresh (E :: tf_env) s tok))"
| request_reset: "auth_step s (snd (RequestPasswordReset (E :: tf_env) s email))"
| reset_password: "auth_step s (snd (ResetPassword (E :: tf_env) s tok pw))"
| active_sessions: "auth_step s (snd (GetActiveSessions (E :: tf_env) s uid))"
| revoke_session: "auth_step s (snd (RevokeSession (E :: tf_env) s uid sid))"
| revoke_others: "auth_step s (snd (RevokeAllOtherSessions (E :: tf_env) s uid sid))"
| initiate_setup: "auth_step s (snd (InitiateSetup (E :: tf_env) s uid))"
| verify_enable: "auth_step s (snd (VerifyAndEnable (E :: tf_env) s uid code))"
| disable: "auth_step s (snd (Disable (E :: tf_env) s uid code))"
| verify_2fa: "auth_step s (snd (Verify2FALogin (E :: tf_env) s tok code))"
| recovery: "auth_step s (snd (UseRecoveryCode (E :: tf_env) s tok code))"
| regenerate: "auth_step s (snd (RegenerateCodes (E :: tf_env) s uid code))"

inductive auth_steps :: "auth_state \<Rightarrow> auth_state \<Rightarrow> bool" where
  stay: "auth_steps s s"
| more: "auth_steps s s' \<Longrightarrow> auth_step s' s'' \<Longrightarrow> auth_steps s s''"

inductive auth_reach :: "auth_state \<Rightarrow> bool" where
  init: "refresh_tokens s = [] \<Longrightarrow> auth_reach s"
| step: "auth_reach s \<Longrightarrow> auth_step s s' \<Longrightarrow> auth_reach s'"
| cleanup: "auth_reach s \<Longrightarrow> auth_reach (snd (tok_delete_expired (E :: tf_env) s))"

lemma auth_step_evolve:
  assumes "auth_step s s'" and "pending_free (refresh_tokens s)"
  shows "tok_evolve False (refresh_tokens s) (refresh_tokens s')"
  using assms
proof (induction rule: auth_step.induct)
  case (verify_2fa s E tok code)
  then show ?case by (simp add: second_factor_rejected tok_evolve.same split: sum.splits)
next
  case (recovery s E tok code)
  then show ?case by (simp add: second_factor_rejected tok_evolve.same split: sum.splits)
qed (simp_all add: tok_evolve.same evolve_Register evolve_Login evolve_Logout evolve_Refresh
    evolve_RequestPasswordReset evolve_ResetPassword evolve_GetActiveSessions evolve_RevokeSession
    evolve_RevokeAllOtherSessions evolve_InitiateSetup evolve_VerifyAndEnable evolve_Disable
    evolve_RegenerateCodes)

lemma auth_reach_inv: "auth_reach s \<Longrightarrow> tok_inv (refresh_tokens s)"
proof (induction rule: auth_reach.induct)
  case (init s)
  then show ?case
    by (simp add: tok_inv_def pending_free_def one_live_def live_of_def owners_def)
next
  case (step s s')
  then have "tok_evolve False (refresh_tokens s) (refresh_tokens s')"
    by (auto intro: auth_step_evolve simp: tok_inv_def)
  with step.IH show ?case by (blast intro: tok_evolve_inv)
next
  case (cleanup s E)
  then show ?case by (simp add: tok_delete_expired_def tok_inv_delete)
qed

lemma auth_steps_evolve:
  assumes "auth_steps s s'" and "tok_inv (refresh_tokens s)"
  shows "tok_evolve False (refresh_tokens s) (refresh_tokens s')"
  using assms
proof (induction rule: auth_steps.induct)
  case (more s s' s'')
  then have e: "tok_evolve False (refresh_tokens s) (refresh_tokens s')" by simp
  then have "tok_inv (refresh_tokens s')" using more.prems by (rule tok_evolve_inv)
  then have "tok_evolve False (refresh_tokens s') (refresh_tokens s'')"
    using more.hyps(2) by (auto intro: auth_step_evolve simp: tok_inv_def)
  with e show ?case by (rule tok_evolve.trans)
qed (rule tok_evolve.same)

end
