(* ===== verification/Auth_Properties.thy ===== *)
theory Auth_Properties
  imports Auth_Sessions
begin

text \<open>
  The properties of authentication: sessions and their rotation, password reset, and the
  second factor. The witnesses run the handlers on \<open>demo_state\<close>, a database with one
  user, in \<open>demo_env\<close>, an environment in which nothing fails.
\<close>

section \<open>A concrete database\<close>

definition demo_env :: "instant \<Rightarrow> string \<Rightarrow> string \<Rightarrow> tf_env" where
  "demo_env now rnd fam = \<lparr>a_now = now, a_fault = (\<lambda>q. False), a_rand = Some rnd, a_new_family = fam,
     a_new_id = (\<lambda>i. ''id-'' @ rnd), a_hash_token = (\<lambda>t. ''sha:'' @ t), a_pw_hash = (\<lambda>p. Some (''bc:'' @ p)),
     a_pw_verify = (\<lambda>h p. h = ''bc:'' @ p), a_access = (\<lambda>u e. Some (''jwt:'' @ u)),
     a_refresh_expiry = 100, a_reset_expiry = 10, a_has_roles = False, a_has_email = False,
     a_has_reset_repo = True, a_has_audit = False, a_audit_full = False,
     tf_key = replicate 32 CHR ''k'', tf_nonce = Some (replicate 12 CHR ''n''),
     tf_gcm_seal = (\<lambda>k n p. p), tf_gcm_open = (\<lambda>k n c. Some c),
     tf_b64_encode = (\<lambda>s. s), tf_b64_decode = (\<lambda>s. Some s),
     tf_generate = (\<lambda>a. Some ''SECRET''), tf_key_url = (\<lambda>a s. ''otpauth:'' @ s),
     tf_totp_valid = (\<lambda>c s t. c = ''123456''), tf_random = (\<lambda>i. [i, 1, 2, 3, 4, 5, 6, 7]),
     tf_bcrypt = (\<lambda>i p. Some (''salt'' @ p))\<rparr>"

lemma demo_env_simps [simp]:
  "a_now (demo_env now rnd fam) = now" "\<not> a_fault (demo_env now rnd fam) q"
  "a_rand (demo_env now rnd fam) = Some rnd" "a_new_family (demo_env now rnd fam) = fam"
  "a_hash_token (demo_env now rnd fam) t = ''sha:'' @ t" "a_pw_hash (demo_env now rnd fam) p = Some (''bc:'' @ p)"
  "a_pw_verify (demo_env now rnd fam) h p = (h = ''bc:'' @ p)"
  "a_access (demo_env now rnd fam) u e = Some (''jwt:'' @ u)"
  "a_has_reset_repo (demo_env now rnd fam)" "\<not> a_has_email (demo_env now rnd fam)"
  by (simp_all add: demo_env_def)

definition demo_user :: user where
  "demo_user = \<lparr>u_id = ''alice'', u_email = ''a@x'', u_password_hash = ''bc:pw'', u_deleted_at = None,
     u_tf_enabled = True, u_tf_status = ''enabled'', u_tf_secret = replicate 12 CHR ''n'' @ ''SECRET'',
     u_tf_verified_at = None\<rparr>"

definition demo_state :: auth_state where
  "demo_state = \<lparr>users = [demo_user], refresh_tokens = [], reset_tokens = [], recovery_codes = [],
     metrics = (\<lambda>m. 0), audit_log = [], spawned = []\<rparr>"

definition demo_login :: auth_state where
  "demo_login = snd (Login (demo_env 0 ''t0'' ''f0'') demo_state ''a@x'' ''pw'')"

definition demo_refresh :: auth_state where
  "demo_refresh = snd (Refresh (demo_env 5 ''t1'' ''f1'') demo_login ''t0'')"

lemma demo_run: "Login (demo_env 0 ''t0'' ''f0'') demo_state ''a@x'' ''pw'' =
    (Inr (demo_user, ''jwt:alice'', ''t0''), demo_login)"
  "Refresh (demo_env 5 ''t1'' ''f1'') demo_login ''t0'' =
    (Inr (demo_user, ''jwt:alice'', ''t1''), demo_refresh)"
  "refresh_tokens demo_login = [\<lparr>rt_id = ''id-t0'', rt_user_id = ''alice'', rt_token_hash = ''sha:t0'',
     rt_family_id = ''f0'', rt_expires_at = 100, rt_revoked_at = None, rt_is_2fa_pending = False\<rparr>]"
  "refresh_tokens demo_refresh = [\<lparr>rt_id = ''id-t0'', rt_user_id = ''alice'', rt_token_hash = ''sha:t0'',
     rt_family_id = ''f0'', rt_expires_at = 100, rt_revoked_at = Some 5, rt_is_2fa_pending = False\<rparr>,
    \<lparr>rt_id = ''id-t1'', rt_user_id = ''alice'', rt_token_hash = ''sha:t1'',
     rt_family_id = ''f0'', rt_expires_at = 105, rt_revoked_at = None, rt_is_2fa_pending = False\<rparr>]"
  "users demo_login = [demo_user]"
  by (simp_all add: demo_login_def demo_refresh_def Login_def Refresh_def demo_state_def demo_env_def
      demo_user_def user_find_by_email_def user_find_by_id_def tbl_first_def user_visible_def
      GenerateAccessToken_def GenerateRefreshToken_def tok_create_def tok_find_by_hash_def
      tok_mark_revoked_def revoke_rows_def tbl_update_def tbl_count_def rt_is_revoked_def bump_def Let_def)

lemma demo_reach: "auth_reach demo_state" "auth_reach demo_login" "auth_reach demo_refresh"
proof -
  show s: "auth_reach demo_state" by (rule auth_reach.init) (simp add: demo_state_def)
  have "auth_step demo_state demo_login"
    unfolding demo_login_def by (rule auth_step.login) (simp add: demo_state_def)
  with s show l: "auth_reach demo_login" by (rule auth_reach.step)
  have "auth_step demo_login demo_refresh"
    unfolding demo_refresh_def by (rule auth_step.refresh)
  with l show "auth_reach demo_refresh" by (rule auth_reach.step)
qed

section \<open>Sessions\<close>



text \<open>
  Rotation. A successful refresh presented a known, unrevoked, unexpired token; it
  leaves that token revoked, adds exactly one token, of the same family and user and with
  a new hash, and touches nothing else. Whoever presents the old token again is refused.
\<close>

theorem refresh_rotates:
  fixes E :: "'e auth_env_scheme"
  assumes "Refresh E s tok = (Inr (u, acc, tok'), s')"
  shows "\<exists>old new.
      tbl_first (\<lambda>r. rt_token_hash r = a_hash_token E tok) (refresh_tokens s) = Some old
    \<and> \<not> rt_is_revoked old \<and> a_now E \<le> rt_expires_at old
    \<and> refresh_tokens s' =
        revoke_rows (a_now E) (\<lambda>r. rt_token_hash r = a_hash_token E tok) (refresh_tokens s) @ [new]
    \<and> rt_family_id new = rt_family_id old \<and> rt_user_id new = rt_user_id old \<and> u_id u = rt_user_id old
    \<and> rt_token_hash new = a_hash_token E tok'
    \<and> rt_token_hash new \<notin> rt_token_hash ` set (refresh_tokens s) \<and> \<not> rt_is_revoked new
    \<and> rt_expires_at new = a_now E + a_refresh_expiry E \<and> users s' = users s
    \<and> (\<forall>E' :: 'e auth_env_scheme. a_hash_token E' tok = a_hash_token E tok \<longrightarrow> \<not> a_fault E' (QTokByHash (a_hash_token E tok)) \<longrightarrow>
         fst (Refresh E' s' tok) = Inl (invalid_refresh ''Refresh token has been revoked''))"
proof (rule Refresh_success [OF assms])
  fix old t
  let ?h = "a_hash_token E tok"
  assume first: "tbl_first (\<lambda>r. rt_token_hash r = ?h) (refresh_tokens s) = Some old"
    and old: "\<not> rt_is_revoked old" "a_now E \<le> rt_expires_at old"
    and u: "user_find_by_id E s (rt_user_id old) = Inr u"
    and rows: "refresh_tokens s' = revoke_rows (a_now E) (\<lambda>r. rt_token_hash r = ?h) (refresh_tokens s) @ [t]"
    and t: "rt_fresh t (refresh_tokens s)" "rt_family_id t = rt_family_id old" "rt_user_id t = u_id u"
      "rt_token_hash t = a_hash_token E tok'" "rt_expires_at t = a_now E + a_refresh_expiry E"
    and users: "users s' = users s"
  obtain old' where old': "tbl_first (\<lambda>r. rt_token_hash r = ?h) (refresh_tokens s') = Some old'"
      "rt_is_revoked old'"
    using rt.stamped_is_spent [where P = "\<lambda>r. rt_token_hash r = ?h" and now = "a_now E", OF first]
      tbl_first_SomeD [OF first] rt.first_append
    unfolding rows revoke_rows_def by blast
  have "fst (Refresh E' s' tok) = Inl (invalid_refresh ''Refresh token has been revoked'')"
    if "a_hash_token E' tok = ?h" "\<not> a_fault E' (QTokByHash ?h)" for E' :: "'e auth_env_scheme"
    using that old' by (simp add: Refresh_def tok_find_by_hash_def Let_def)
  moreover have "u_id u = rt_user_id old" using u by (simp add: user_find_by_id_InrD)
  ultimately show ?thesis
    using first old rows t users
    by (intro exI [of _ old] exI [of _ t]) (simp add: rt_fresh_def rt_is_revoked_def)
qed

theorem refresh_rotates_witness:
  "fst (Refresh (demo_env 9 ''t9'' ''f9'') demo_refresh ''t0'') =
     Inl (invalid_refresh ''Refresh token has been revoked'')"
  using refresh_rotates [OF demo_run(2)] by (auto simp: demo_env_def)

text \<open>
  C1. Reuse detection. In a reachable state, presenting a revoked token is refused and
  issues nothing; if the query that revokes the family runs, no sequence of handlers
  whatsoever ever makes a live token of that family again.
\<close>

theorem reuse_kills_family_forever:
  assumes "auth_reach s"
    and "tok_find_by_hash E s (a_hash_token E tok) = Inr stored" and "rt_is_revoked stored"
    and "\<not> a_fault E (QTokRevokeFamily (rt_family_id stored))"
  shows "fst (Refresh E s tok) = Inl (invalid_refresh ''Refresh token has been revoked'')
       \<and> (\<forall>s'. auth_steps (snd (Refresh E s tok)) s' \<longrightarrow> live_of (rt_family_id stored) (refresh_tokens s') = [])"
proof -
  let ?f = "rt_family_id stored" and ?s1 = "snd (Refresh E s tok)"
  have rows: "refresh_tokens ?s1 =
      revoke_rows (a_now E) (\<lambda>r. rt_family_id r = ?f \<and> rt_revoked_at r = None) (refresh_tokens s)"
    and out: "fst (Refresh E s tok) = Inl (invalid_refresh ''Refresh token has been revoked'')"
    using assms(2-4)
    by (simp_all add: Refresh_def Let_def AuditPotentialTokenReuse_def AuditAuth_def frame_simps
        tok_revoke_family_def)
  have "stored \<in> set (refresh_tokens s)"
    using assms(2) by (auto elim: tok_find_by_hash_cases)
  then have dead: "dead ?f (refresh_tokens ?s1)"
    by (simp add: dead_def rows live_of_revoke_family)
  have "tok_inv (refresh_tokens ?s1)"
    unfolding rows by (intro tok_inv_revoke auth_reach_inv assms(1))
  then have "live_of ?f (refresh_tokens s') = []" if "auth_steps ?s1 s'" for s'
    using tok_evolve_dead [OF auth_steps_evolve [OF that] dead] by (simp add: dead_def)
  with out show ?thesis by simp
qed

theorem reuse_kills_family_forever_witness:
  "live_of ''f0'' (refresh_tokens (snd (Refresh (demo_env 9 ''t9'' ''f9'') demo_refresh ''t0''))) = []
   \<and> live_of ''f0'' (refresh_tokens demo_refresh) \<noteq> []"
proof -
  let ?stored = "hd (refresh_tokens demo_refresh)"
  have "tok_find_by_hash (demo_env 9 ''t9'' ''f9'') demo_refresh
      (a_hash_token (demo_env 9 ''t9'' ''f9'') ''t0'') = Inr ?stored"
    by (simp add: tok_find_by_hash_def demo_run demo_env_def tbl_first_def)
  moreover have "rt_is_revoked ?stored" by (simp add: demo_run rt_is_revoked_def)
  moreover have "\<not> a_fault (demo_env 9 ''t9'' ''f9'') (QTokRevokeFamily (rt_family_id ?stored))"
    by (simp add: demo_env_def)
  ultimately have "live_of (rt_family_id ?stored)
      (refresh_tokens (snd (Refresh (demo_env 9 ''t9'' ''f9'') demo_refresh ''t0''))) = []"
    using reuse_kills_family_forever [OF demo_reach(3)] auth_steps.stay by blast
  then show ?thesis by (simp add: demo_run live_of_def rt_is_revoked_def)
qed


text \<open>
  \<open>RevokeSession\<close> is confined to the caller: a session of another user is answered
  FORBIDDEN with no effect, and a success revokes exactly the row of the named session.
\<close>

theorem revoke_session_confined:
  assumes "auth_reach s" and "RevokeSession E s uid sid = (r, s')"
  shows "(r = Inr () \<longrightarrow> (\<exists>t. tok_find_by_id E s sid = Inr t \<and> rt_user_id t = uid
           \<and> refresh_tokens s' = tbl_update (\<lambda>x. x = t) (\<lambda>x. x\<lparr>rt_revoked_at := Some (a_now E)\<rparr>) (refresh_tokens s)))
       \<and> (\<forall>t. tok_find_by_id E s sid = Inr t \<and> rt_user_id t \<noteq> uid \<longrightarrow>
           r = Inl (NewAppError ''FORBIDDEN'' ''Session does not belong to user'' 403) \<and> s' = s)"
proof (cases "tok_find_by_id E s sid")
  case (Inl e)
  with assms(2) show ?thesis by (auto simp: RevokeSession_def)
next
  case (Inr t)
  then have t: "t \<in> set (refresh_tokens s)"
    by (auto simp: tok_find_by_id_def dest: tbl_first_SomeD split: if_splits option.splits)
  have "distinct (map rt_token_hash (refresh_tokens s))"
    using auth_reach_inv [OF assms(1)] by (simp add: tok_inv_def)
  then have row: "rt_token_hash x = rt_token_hash t \<longleftrightarrow> x = t" if "x \<in> set (refresh_tokens s)" for x
    using t that by (auto simp: distinct_map inj_on_def)
  have rows: "revoke_rows now (\<lambda>x. rt_token_hash x = rt_token_hash t) (refresh_tokens s) =
      tbl_update (\<lambda>x. x = t) (\<lambda>x. x\<lparr>rt_revoked_at := Some now\<rparr>) (refresh_tokens s)" for now
    unfolding revoke_rows_def tbl_update_def by (rule map_cong) (simp_all add: row)
  show ?thesis
  proof (cases "rt_user_id t = uid")
    case True
    with Inr assms(2) have "tok_mark_revoked E (bump SessionRevoked s) (rt_token_hash t) = (r, s')"
      by (simp add: RevokeSession_def)
    then have "r = Inr () \<longrightarrow> refresh_tokens s' =
        revoke_rows (a_now E) (\<lambda>x. rt_token_hash x = rt_token_hash t) (refresh_tokens s)"
      by (cases rule: tok_mark_revoked_cases) (simp_all add: frame_simps)
    with True Inr show ?thesis by (simp add: rows)
  next
    case False
    with Inr assms(2) show ?thesis by (auto simp: RevokeSession_def)
  qed
qed

theorem revoke_session_confined_witness:
  "RevokeSession (demo_env 9 ''t9'' ''f9'') demo_login ''mallory'' ''id-t0'' =
     (Inl (NewAppError ''FORBIDDEN'' ''Session does not belong to user'' 403), demo_login)"
proof -
  obtain r s' where r: "RevokeSession (demo_env 9 ''t9'' ''f9'') demo_login ''mallory'' ''id-t0'' = (r, s')"
    by fastforce
  have "tok_find_by_id (demo_env 9 ''t9'' ''f9'') demo_login ''id-t0'' = Inr (hd (refresh_tokens demo_login))"
    by (simp add: tok_find_by_id_def demo_run demo_env_def tbl_first_def)
  moreover have "rt_user_id (hd (refresh_tokens demo_login)) \<noteq> ''mallory''" by (simp add: demo_run)
  ultimately show ?thesis
    using revoke_session_confined [OF demo_reach(2) r] r by blast
qed

text \<open>
  \<open>RevokeAllOtherSessions\<close>: when its queries run, every token of the user is revoked
  afterwards except the current session's, the result counts the tokens it revoked, and
  tokens of other users are untouched.
\<close>

theorem revoke_all_others_exact:
  assumes "auth_reach s" and "\<And>q. \<not> a_fault E q"
    and "RevokeAllOtherSessions E s uid cur = (Inr n, s')" and "tok_find_by_id E s cur = Inr t" and "cur \<noteq> uuid_nil"
  shows "refresh_tokens s' = revoke_rows (a_now E)
           (\<lambda>r. rt_user_id r = uid \<and> \<not> rt_is_revoked r \<and> rt_token_hash r \<noteq> rt_token_hash t) (refresh_tokens s)
       \<and> n = tbl_count (\<lambda>r. rt_user_id r = uid \<and> \<not> rt_is_revoked r \<and> rt_token_hash r \<noteq> rt_token_hash t)
               (refresh_tokens s)"
proof -
  let ?rows = "refresh_tokens s" and ?sessions = "filter (\<lambda>r. rt_user_id r = uid) (refresh_tokens s)"
  let ?h = "rt_token_hash t"
  have "revoke_others E ?h ?sessions s 0 = (n, s')"
    using assms(2-5) by (auto simp: RevokeAllOtherSessions_def tok_find_by_user_def split: prod.splits)
  then have loop: "refresh_tokens s' = revoke_rows (a_now E)
      (\<lambda>r. rt_token_hash r \<in> rt_token_hash ` {x \<in> set ?sessions. rt_token_hash x \<noteq> ?h \<and> \<not> rt_is_revoked x}) ?rows"
    "n = length (filter (\<lambda>x. rt_token_hash x \<noteq> ?h \<and> \<not> rt_is_revoked x) ?sessions)"
    using revoke_others_rows [OF assms(2), of ?sessions s ?h 0 n s'] by auto
  have "distinct (map rt_token_hash ?rows)"
    using auth_reach_inv [OF assms(1)] by (simp add: tok_inv_def)
  then have "rt_token_hash r \<in> rt_token_hash ` {x \<in> set ?sessions. rt_token_hash x \<noteq> ?h \<and> \<not> rt_is_revoked x}
      \<longleftrightarrow> rt_user_id r = uid \<and> \<not> rt_is_revoked r \<and> rt_token_hash r \<noteq> ?h" if "r \<in> set ?rows" for r
    using that by (auto simp: distinct_map inj_on_def)
  then have "refresh_tokens s' = revoke_rows (a_now E)
      (\<lambda>r. rt_user_id r = uid \<and> \<not> rt_is_revoked r \<and> rt_token_hash r \<noteq> ?h) ?rows"
    unfolding loop(1) revoke_rows_def tbl_update_def by (intro map_cong) simp_all
  then show ?thesis
    using loop(2) by (simp add: tbl_count_def conj_ac)
qed

definition demo_second :: auth_state where
  "demo_second = snd (Login (demo_env 6 ''t2'' ''f2'') demo_refresh ''a@x'' ''pw'')"

lemma demo_second_reach: "auth_reach demo_second"
proof -
  have "auth_step demo_refresh demo_second"
    unfolding demo_second_def by (rule auth_step.login) (simp add: demo_run demo_env_def)
  with demo_reach(3) show ?thesis by (rule auth_reach.step)
qed


lemma demo_second_run:
  "refresh_tokens demo_second = refresh_tokens demo_refresh @ [\<lparr>rt_id = ''id-t2'', rt_user_id = ''alice'',
     rt_token_hash = ''sha:t2'', rt_family_id = ''f2'', rt_expires_at = 106, rt_revoked_at = None,
     rt_is_2fa_pending = False\<rparr>]"
proof -
  have "users demo_refresh = [demo_user]" using Refresh_success [OF demo_run(2)] by (simp add: demo_run)
  then show ?thesis
    by (simp add: demo_second_def Login_def demo_env_def demo_user_def user_find_by_email_def demo_run
        tbl_first_def user_visible_def GenerateAccessToken_def GenerateRefreshToken_def tok_create_def
        tbl_count_def bump_def)
qed

theorem revoke_all_others_exact_witness:
  "\<exists>s'. RevokeAllOtherSessions (demo_env 9 ''t9'' ''f9'') demo_second ''alice'' ''id-t2'' = (Inr 1, s')
    \<and> map rt_revoked_at (refresh_tokens s') = [Some 5, Some 9, None]"
proof -
  let ?E = "demo_env 9 ''t9'' ''f9''"
  have "\<exists>n s'. RevokeAllOtherSessions ?E demo_second ''alice'' ''id-t2'' = (Inr n, s')"
    by (simp add: RevokeAllOtherSessions_def tok_find_by_user_def split: prod.splits)
  then obtain n s' where r: "RevokeAllOtherSessions ?E demo_second ''alice'' ''id-t2'' = (Inr n, s')" by blast
  have t: "tok_find_by_id ?E demo_second ''id-t2'' = Inr (last (refresh_tokens demo_second))"
    by (simp add: tok_find_by_id_def demo_second_run demo_run demo_env_def tbl_first_def)
  have "''id-t2'' \<noteq> uuid_nil" by (simp add: uuid_nil_def)
  then show ?thesis
    using revoke_all_others_exact [OF demo_second_reach demo_env_simps(2) r t] r
    by (simp add: demo_second_run demo_run revoke_rows_def tbl_update_def tbl_count_def
        rt_is_revoked_def demo_env_def)
qed

section \<open>Passwords\<close>

text \<open>
  Login does not tell a wrong password from an unknown email: both answers and both
  effects are the same.
\<close>

theorem login_hides_unknown_email:
  assumes "user_find_by_email E s email = Inl (Sentinel ErrNotFound)"
    and "user_find_by_email E s email' = Inr u" and "\<not> a_pw_verify E (u_password_hash u) password"
  shows "Login E s email password = Login E s email' password
       \<and> fst (Login E s email password) = Inl invalid_credentials"
  using assms by (simp add: Login_def)

theorem login_hides_unknown_email_witness:
  "Login (demo_env 0 ''t0'' ''f0'') demo_state ''nobody@x'' ''guess'' =
   Login (demo_env 0 ''t0'' ''f0'') demo_state ''a@x'' ''guess''"
  by (rule login_hides_unknown_email [where u = demo_user, THEN conjunct1])
    (simp_all add: user_find_by_email_def demo_env_def demo_state_def demo_user_def tbl_first_def user_visible_def)

text \<open>
  A password reset that reports success had an unused, unexpired token; it replaced
  that user's password hash and, when the queries that follow run, used up the token (a
  second attempt is refused) and left the user without any live session.
\<close>

theorem reset_password_effect:
  fixes E :: "'e auth_env_scheme"
  assumes "ResetPassword E s tok pw = (Inr (), s')"
    and "\<not> a_fault E (QRstMarkUsed (a_hash_token E tok))" and "\<And>uid. \<not> a_fault E (QTokRevokeUser uid)"
  shows "\<exists>t u hashed. tbl_first (\<lambda>r. pr_token_hash r = a_hash_token E tok) (reset_tokens s) = Some t
    \<and> pr_used_at t = None \<and> a_now E < pr_expires_at t
    \<and> user_find_by_id E s (pr_user_id t) = Inr u \<and> a_pw_hash E pw = Some hashed
    \<and> users s' = tbl_update (\<lambda>r. u_id r = u_id u) (\<lambda>r. u\<lparr>u_password_hash := hashed\<rparr>) (users s)
    \<and> (\<forall>r\<in>set (refresh_tokens s'). rt_user_id r = u_id u \<longrightarrow> rt_is_revoked r)
    \<and> (\<forall>E' :: 'e auth_env_scheme. \<forall>pw'. a_hash_token E' tok = a_hash_token E tok \<longrightarrow>
         \<not> a_fault E' (QRstByHash (a_hash_token E tok)) \<longrightarrow>
         fst (ResetPassword E' s' tok pw') = Inl (invalid_reset ''Password reset token has expired or been used''))"
proof (rule ResetPassword_success [OF assms(1)])
  fix t u hashed
  let ?h = "a_hash_token E tok"
  let ?s1 = "s\<lparr>users := tbl_update (\<lambda>r. u_id r = u_id u) (\<lambda>r. u\<lparr>u_password_hash := hashed\<rparr>) (users s)\<rparr>"
  assume t: "rst_find_by_hash E s ?h = Inr t" "pr_is_valid (a_now E) t"
    and u: "user_find_by_id E s (pr_user_id t) = Inr u" "a_pw_hash E pw = Some hashed"
    and s': "s' = bump PasswordResetCompleted (snd (tok_revoke_all_by_user E (snd (rst_mark_used E ?s1 ?h)) (u_id u)))"
  have first: "tbl_first (\<lambda>r. pr_token_hash r = ?h) (reset_tokens s) = Some t"
    using t(1) by (simp add: rst_find_by_hash_def split: if_splits option.splits)
  have tokens: "reset_tokens s' = use_rows (a_now E) (\<lambda>r. pr_token_hash r = ?h) (reset_tokens s)"
    using assms(2) by (simp add: s' frame_simps rst_mark_used_def Let_def)
  obtain t' where t': "tbl_first (\<lambda>r. pr_token_hash r = ?h) (reset_tokens s') = Some t'" "pr_is_used t'"
    using pr.stamped_is_spent [where P = "\<lambda>r. pr_token_hash r = ?h" and now = "a_now E", OF first]
      tbl_first_SomeD [OF first] unfolding tokens use_rows_def by blast
  have rows: "refresh_tokens s' =
      revoke_rows (a_now E) (\<lambda>r. rt_user_id r = u_id u \<and> rt_revoked_at r = None) (refresh_tokens s)"
    using assms(3) by (simp add: s' frame_simps tok_revoke_all_by_user_def)
  have "rt_is_revoked r" if "r \<in> set (refresh_tokens s')" "rt_user_id r = u_id u" for r
    using that unfolding rows revoke_rows_def
    by (rule rt.all_spent_of_cond [where Q = "\<lambda>r. rt_user_id r = u_id u", rotated 2]) (auto simp: rt_is_revoked_def)
  moreover have "fst (ResetPassword E' s' tok pw') =
      Inl (invalid_reset ''Password reset token has expired or been used'')"
    if "a_hash_token E' tok = ?h" "\<not> a_fault E' (QRstByHash ?h)" for E' :: "'e auth_env_scheme" and pw'
    using that t' by (simp add: ResetPassword_def Let_def rst_find_by_hash_def pr_is_valid_def)
  moreover have "users s' = users ?s1" by (simp only: s' frame_simps)
  moreover have "pr_used_at t = None \<and> a_now E < pr_expires_at t"
    using t(2) by (simp add: pr_is_valid_def pr_is_used_def split: if_splits)
  ultimately show ?thesis using first u by (intro exI [of _ t] exI [of _ u] exI [of _ hashed]) simp
qed


definition demo_reset :: auth_state where
  "demo_reset = snd (RequestPasswordReset (demo_env 6 ''t3'' ''f3'') demo_login ''a@x'')"

definition demo_reset_env :: "string \<Rightarrow> tf_env" where
  "demo_reset_env fault = (demo_env 8 ''t4'' ''f4'')\<lparr>a_fault := (\<lambda>q. q = QRstMarkUsed fault)\<rparr>"

lemma demo_no_resets: "reset_tokens demo_login = []" "a_reset_expiry (demo_env now rnd fam) = 10"
    "a_new_id (demo_env now rnd fam) i = ''id-'' @ rnd"
  by (simp_all add: demo_login_def Login_def demo_state_def demo_user_def user_find_by_email_def tbl_first_def
      user_visible_def GenerateAccessToken_def GenerateRefreshToken_def tok_create_def tbl_count_def bump_def
      demo_env_def)

lemma demo_reset_run:
  "reset_tokens demo_reset = [\<lparr>pr_id = ''id-t3'', pr_user_id = ''alice'', pr_token_hash = ''sha:t3'',
     pr_expires_at = 16, pr_used_at = None\<rparr>]"
  "users demo_reset = [demo_user]" "refresh_tokens demo_reset = refresh_tokens demo_login"
  by (simp_all add: demo_reset_def RequestPasswordReset_def user_find_by_email_def demo_run demo_user_def
      tbl_first_def user_visible_def rst_revoke_all_by_user_def use_rows_def tbl_update_def rst_create_def
      tbl_count_def bump_def Let_def demo_no_resets)

lemma demo_reset_ok: "\<exists>s'. ResetPassword (demo_reset_env f) demo_reset ''t3'' pw = (Inr (), s')"
  by (simp add: ResetPassword_def rst_find_by_hash_def demo_reset_run demo_reset_env_def tbl_first_def
      pr_is_valid_def pr_is_used_def user_find_by_id_def demo_user_def user_visible_def user_update_def Let_def)

theorem reset_password_effect_witness:
  "\<exists>s'. ResetPassword (demo_reset_env []) demo_reset ''t3'' ''new'' = (Inr (), s')
    \<and> (\<forall>r\<in>set (refresh_tokens s'). rt_user_id r = ''alice'' \<longrightarrow> rt_is_revoked r)"
proof -
  obtain s' where r: "ResetPassword (demo_reset_env []) demo_reset ''t3'' ''new'' = (Inr (), s')"
    using demo_reset_ok by blast
  from reset_password_effect [OF r] have "\<forall>r\<in>set (refresh_tokens s'). rt_user_id r = ''alice'' \<longrightarrow> rt_is_revoked r"
    by (auto simp: demo_reset_env_def demo_reset_run tbl_first_def dest!: user_find_by_id_InrD)
  with r show ?thesis by blast
qed

text \<open>
  The reset token is used up by a query whose failure the handler ignores: when that
  query fails, the reset still reports success and the same token resets the password
  again, for as long as it has not expired.
\<close>

theorem reset_token_reusable_after_fault:
  assumes "ResetPassword E s tok pw = (Inr (), s')" and "a_fault E (QRstMarkUsed (a_hash_token E tok))"
    and "a_hash_token E' tok = a_hash_token E tok" and "\<And>q. \<not> a_fault E' q" and "a_pw_hash E' pw' \<noteq> None"
    and "\<And>t. t \<in> set (reset_tokens s) \<Longrightarrow> a_now E' < pr_expires_at t"
  shows "fst (ResetPassword E' s' tok pw') = Inr ()"
proof (rule ResetPassword_success [OF assms(1)])
  fix t and u :: user and hashed
  let ?h = "a_hash_token E tok" and ?u = "u\<lparr>u_password_hash := hashed\<rparr>"
  let ?s1 = "s\<lparr>users := tbl_update (\<lambda>r. u_id r = u_id u) (\<lambda>r. ?u) (users s)\<rparr>"
  assume t: "rst_find_by_hash E s ?h = Inr t" "pr_is_valid (a_now E) t"
    and u: "user_find_by_id E s (pr_user_id t) = Inr u"
    and s': "s' = bump PasswordResetCompleted (snd (tok_revoke_all_by_user E (snd (rst_mark_used E ?s1 ?h)) (u_id u)))"
  have first: "tbl_first (\<lambda>r. pr_token_hash r = ?h) (reset_tokens s) = Some t"
    using t(1) by (simp add: rst_find_by_hash_def split: if_splits option.splits)
  then have "a_now E' < pr_expires_at t" using tbl_first_SomeD [OF first] assms(6) by blast
  then have valid: "pr_is_valid (a_now E') t" using t(2) by (simp add: pr_is_valid_def split: if_splits)
  have "reset_tokens s' = reset_tokens s"
    using assms(2) by (simp add: s' frame_simps rst_mark_used_def)
  then have found: "rst_find_by_hash E' s' ?h = Inr t"
    using first assms(4) by (simp add: rst_find_by_hash_def)
  have users: "users s' = tbl_update (\<lambda>r. u_id r = u_id ?u) (\<lambda>r. ?u) (users s)"
    by (simp add: s' frame_simps)
  have "u \<in> set (users s)" "u_id u = pr_user_id t" "user_visible ?u"
    using user_find_by_id_InrD [OF u] by (simp_all add: user_visible_def)
  with users have "user_find_by_id E' s' (pr_user_id t) = Inr ?u"
    using find_saved_user [of u s ?u s' E'] assms(4) by simp
  with found valid assms(3-5) show ?thesis
    by (auto simp: ResetPassword_def Let_def user_update_def split: prod.splits)
qed

theorem reset_token_reusable_after_fault_witness:
  "\<exists>s'. ResetPassword (demo_reset_env ''sha:t3'') demo_reset ''t3'' ''new'' = (Inr (), s')
    \<and> fst (ResetPassword (demo_env 9 ''t5'' ''f5'') s' ''t3'' ''attacker'') = Inr ()"
proof -
  obtain s' where r: "ResetPassword (demo_reset_env ''sha:t3'') demo_reset ''t3'' ''new'' = (Inr (), s')"
    using demo_reset_ok by blast
  then have "fst (ResetPassword (demo_env 9 ''t5'' ''f5'') s' ''t3'' ''attacker'') = Inr ()"
    by (rule reset_token_reusable_after_fault) (simp_all add: demo_reset_env_def demo_reset_run)
  with r show ?thesis by blast
qed

text \<open>
  A registered user can log in: after a successful registration, a login with the same
  email and password, in which no query fails, succeeds for the registered user. bcrypt is
  assumed to verify what it hashed.
\<close>

theorem register_then_login:
  assumes "Register E s email pw = (Inr u, s1)"
    and "\<And>h. a_pw_hash E pw = Some h \<Longrightarrow> a_pw_verify E' h pw"
    and "\<And>q. \<not> a_fault E' q" and "a_access E' (u_id u) email = Some acc" and "a_rand E' = Some tok"
    and "a_hash_token E' tok \<notin> rt_token_hash ` set (refresh_tokens s)"
  shows "fst (Login E' s1 email pw) = Inr (u, acc, tok) \<and> users s1 = users s @ [u]"
proof -
  from assms(1) have u: "u_email u = email" "user_visible u" "a_pw_hash E pw = Some (u_password_hash u)"
    and fresh: "\<forall>r\<in>set (users s). u_email r \<noteq> email" and s1: "users s1 = users s @ [u]"
    by (auto simp: Register_def user_create_def tbl_count_0_iff user_visible_def Let_def frame_simps
        split: result_splits)
  have "tbl_first (\<lambda>r. u_email r = email \<and> user_visible r) (users s1) = Some u"
    using fresh u unfolding s1 tbl_first_append
    by (auto simp: tbl_first_Cons split: option.splits dest: tbl_first_SomeD)
  then have "user_find_by_email E' s1 email = Inr u"
    using assms(3) by (simp add: user_find_by_email_def)
  moreover have "refresh_tokens s1 = refresh_tokens s"
    using evolve_Register [of E s email pw] assms(1) by simp
  ultimately show ?thesis
    using assms(2-6) u s1
    by (auto simp: Login_def GenerateAccessToken_def GenerateRefreshToken_def tok_create_def
        tbl_count_0_iff frame_simps Let_def image_iff)
qed

theorem register_then_login_witness:
  "\<exists>u s1. Register (demo_env 1 ''r'' ''f1'') demo_state ''b@x'' ''secret'' = (Inr u, s1)
    \<and> fst (Login (demo_env 2 ''t6'' ''f6'') s1 ''b@x'' ''secret'') = Inr (u, ''jwt:id-r'', ''t6'')"
proof -
  obtain u s1 where r: "Register (demo_env 1 ''r'' ''f1'') demo_state ''b@x'' ''secret'' = (Inr u, s1)"
      and "u_id u = ''id-r''"
    by (simp add: Register_def user_find_by_email_def demo_state_def demo_user_def tbl_first_def
        user_create_def tbl_count_def Let_def demo_no_resets)
  then show ?thesis
    using register_then_login [OF r, of "demo_env 2 ''t6'' ''f6''" "''jwt:id-r''" "''t6''"]
    by (simp add: demo_state_def)
qed

end
