(* ===== verification/Two_Factor_Properties.thy ===== *)
theory Two_Factor_Properties
  imports Auth_Properties
begin

text \<open>
  The properties of two-factor authentication: what enabling requires and stores, the
  framing of the encrypted secret, and what the second factor amounts to in the system as
  it is wired: no handler asks for it.
\<close>

section \<open>Secrets\<close>

text \<open>
  Decrypting an encrypted TOTP secret with the same key gives the secret back, for an
  authenticated cipher that opens what it sealed; a key of the wrong length is refused by
  both.
\<close>

theorem totp_secret_roundtrip:
  assumes "\<And>k n p. tf_gcm_open E k n (tf_gcm_seal E k n p) = Some p"
    and "\<And>n. tf_nonce E = Some n \<Longrightarrow> length n = 12"
  shows "(EncryptTOTPSecret E p k = Inr c \<longrightarrow> DecryptTOTPSecret E c k = Inr p)
    \<and> (length k \<noteq> 32 \<longrightarrow> (\<exists>e. EncryptTOTPSecret E p k = Inl e \<and> DecryptTOTPSecret E c k = Inl e))"
  using assms by (auto simp: EncryptTOTPSecret_def DecryptTOTPSecret_def Let_def split: if_splits option.splits)

lemma replicate_key: "length (tf_key (demo_env now rnd fam)) = 32"
  by (simp add: demo_env_def)

theorem totp_secret_roundtrip_witness:
  "DecryptTOTPSecret (demo_env 0 [] []) (replicate 12 CHR ''n'' @ ''SECRET'') (replicate 32 CHR ''k'') = Inr ''SECRET''"
  by (rule totp_secret_roundtrip [THEN conjunct1, rule_format]) (auto simp: demo_env_def EncryptTOTPSecret_def)

section \<open>Enabling\<close>

lemma store_codes_success:
  "store_codes E uid hashes i s = (Inr (), s') \<Longrightarrow>
   \<exists>rows. recovery_codes s' = recovery_codes s @ rows \<and> map rc_code_hash rows = hashes
     \<and> (\<forall>r\<in>set rows. rc_user_id r = uid \<and> rc_used_at r = None \<and> rc_deleted_at r = None)"
proof (induction E uid hashes i s rule: store_codes.induct)
  case (2 E uid hash rest i s)
  let ?c = "\<lparr>rc_id = a_new_id E i, rc_user_id = uid, rc_code_hash = hash, rc_used_at = None, rc_deleted_at = None\<rparr>"
  from "2.prems" obtain s1 where c: "rec_create E s ?c = (Inr (), s1)"
      and rest: "store_codes E uid rest (i + 1) s1 = (Inr (), s')"
    by (auto split: result_splits)
  from "2.IH" [OF c [symmetric] refl rest] obtain rows where
      "recovery_codes s' = recovery_codes s1 @ rows" "map rc_code_hash rows = rest"
      "\<forall>r\<in>set rows. rc_user_id r = uid \<and> rc_used_at r = None \<and> rc_deleted_at r = None"
    by auto
  moreover have "recovery_codes s1 = recovery_codes s @ [?c]"
    using c by (auto simp: rec_create_def split: if_splits)
  ultimately show ?case by (intro exI [of _ "?c # rows"]) simp
qed simp

lemma VerifyAndEnable_success:
  assumes "VerifyAndEnable E s uid code = (Inr resp, s')"
  obtains u s4 where "user_find_by_id E s uid = Inr u" "u_tf_status u = ''pending''" "check_totp E u code = Inr ()"
    "store_codes E uid (snd (GenerateRecoveryCodes E)) 0 (s\<lparr>
       users := tbl_update (\<lambda>r. u_id r = u_id u)
         (\<lambda>r. u\<lparr>u_tf_enabled := True, u_tf_status := ''enabled'', u_tf_verified_at := Some (a_now E)\<rparr>) (users s),
       recovery_codes := tbl_update (\<lambda>r. rc_user_id r = uid \<and> rc_deleted_at r = None)
         (\<lambda>r. r\<lparr>rc_deleted_at := Some (a_now E)\<rparr>) (recovery_codes s)\<rparr>) = (Inr (), s4)"
    "users s' = users s4" "recovery_codes s' = recovery_codes s4"
    "tr_recovery_codes resp = fst (GenerateRecoveryCodes E)"
  using assms
  by (cases "GenerateRecoveryCodes E")
    (auto simp: VerifyAndEnable_def user_update_def rec_delete_all_by_user_def frame_simps split: result_splits)

lemma GenerateRecoveryCodes_length:
  "length (fst (GenerateRecoveryCodes E)) = 8" "length (snd (GenerateRecoveryCodes E)) = 8"
  by (simp_all add: GenerateRecoveryCodes_def Let_def)

lemma check_totp_ok:
  "check_totp E u code = Inr () \<Longrightarrow> \<exists>enc secret. tf_b64_decode E (u_tf_secret u) = Some enc
     \<and> DecryptTOTPSecret E enc (tf_key E) = Inr secret \<and> tf_totp_valid E code secret (a_now E)"
  by (auto simp: check_totp_def split: result_splits)

definition usable_codes :: "uuid \<Rightarrow> auth_state \<Rightarrow> recovery_code list" where
  "usable_codes uid s = filter (\<lambda>r. rc_user_id r = uid \<and> rc_used_at r = None \<and> rc_deleted_at r = None)
     (recovery_codes s)"

lemma no_usable_code:
  assumes "recovery_codes s' = tbl_update (\<lambda>r. rc_user_id r = uid \<and> rc_deleted_at r = None)
     (\<lambda>r. r\<lparr>rc_deleted_at := Some now\<rparr>) rows"
  shows "usable_codes uid s' = []"
proof -
  have "\<not> (rc_user_id r = uid \<and> rc_used_at r = None \<and> rc_deleted_at r = None)" if "r \<in> set (recovery_codes s')" for r
    using that unfolding assms by (elim in_tbl_updateE) simp_all
  then show ?thesis by (simp add: usable_codes_def filter_empty_conv)
qed

text \<open>
  Two-factor authentication is enabled only for a user with a pending setup and a code
  that is valid for the stored secret; the user's usable recovery codes are then exactly
  the eight whose plain text the response shows.
\<close>

theorem enable_requires_valid_code:
  assumes "VerifyAndEnable E s uid code = (Inr resp, s')"
  shows "\<exists>u enc secret. user_find_by_id E s uid = Inr u \<and> u_tf_status u = ''pending''
    \<and> tf_b64_decode E (u_tf_secret u) = Some enc \<and> DecryptTOTPSecret E enc (tf_key E) = Inr secret
    \<and> tf_totp_valid E code secret (a_now E)
    \<and> users s' = tbl_update (\<lambda>r. u_id r = uid)
        (\<lambda>r. u\<lparr>u_tf_enabled := True, u_tf_status := ''enabled'', u_tf_verified_at := Some (a_now E)\<rparr>) (users s)
    \<and> map rc_code_hash (usable_codes uid s') = snd (GenerateRecoveryCodes E)
    \<and> tr_recovery_codes resp = fst (GenerateRecoveryCodes E) \<and> length (tr_recovery_codes resp) = 8"
proof (rule VerifyAndEnable_success [OF assms])
  fix u :: user and s4
  let ?u = "u\<lparr>u_tf_enabled := True, u_tf_status := ''enabled'', u_tf_verified_at := Some (a_now E)\<rparr>"
  let ?s3 = "s\<lparr>users := tbl_update (\<lambda>r. u_id r = u_id u) (\<lambda>r. ?u) (users s),
    recovery_codes := tbl_update (\<lambda>r. rc_user_id r = uid \<and> rc_deleted_at r = None)
      (\<lambda>r. r\<lparr>rc_deleted_at := Some (a_now E)\<rparr>) (recovery_codes s)\<rparr>"
  assume u: "user_find_by_id E s uid = Inr u" "u_tf_status u = ''pending''" "check_totp E u code = Inr ()"
    and store: "store_codes E uid (snd (GenerateRecoveryCodes E)) 0 ?s3 = (Inr (), s4)"
    and s': "users s' = users s4" "recovery_codes s' = recovery_codes s4"
    and resp: "tr_recovery_codes resp = fst (GenerateRecoveryCodes E)"
  obtain rows where rows: "recovery_codes s4 = recovery_codes ?s3 @ rows"
      "map rc_code_hash rows = snd (GenerateRecoveryCodes E)"
      "\<forall>r\<in>set rows. rc_user_id r = uid \<and> rc_used_at r = None \<and> rc_deleted_at r = None"
    using store_codes_success [OF store] by blast
  have "usable_codes uid ?s3 = []"
    by (simp add: no_usable_code)
  then have "usable_codes uid s' = rows" using rows s' by (simp add: usable_codes_def)
  moreover have "users s' = users ?s3"
    using store_codes_frame(2) [of E uid "snd (GenerateRecoveryCodes E)" 0 ?s3] store s'(1) by simp
  moreover have "u_id u = uid" using u(1) by (simp add: user_find_by_id_InrD)
  moreover note GenerateRecoveryCodes_length(1) [of E]
  moreover obtain enc secret where "tf_b64_decode E (u_tf_secret u) = Some enc"
      "DecryptTOTPSecret E enc (tf_key E) = Inr secret" "tf_totp_valid E code secret (a_now E)"
    using check_totp_ok [OF u(3)] by blast
  ultimately show ?thesis
    using u(1,2) rows(2) resp by (intro exI [of _ u] exI [of _ enc] exI [of _ secret]) simp
qed

definition demo_setup :: auth_state where
  "demo_setup = demo_state\<lparr>users := [demo_user\<lparr>u_tf_enabled := False, u_tf_status := ''pending''\<rparr>]\<rparr>"

lemma demo_setup_user:
  "user_find_by_id (demo_env now rnd fam) demo_setup ''alice'' =
     Inr (demo_user\<lparr>u_tf_enabled := False, u_tf_status := ''pending''\<rparr>)"
  by (simp add: user_find_by_id_def demo_setup_def demo_user_def tbl_first_def user_visible_def)

lemma demo_secret:
  "tf_b64_decode (demo_env now rnd fam) (u_tf_secret demo_user) = Some (replicate 12 CHR ''n'' @ ''SECRET'')"
  "DecryptTOTPSecret (demo_env now rnd fam) (replicate 12 CHR ''n'' @ ''SECRET'') (tf_key (demo_env now rnd fam)) =
     Inr ''SECRET''"
  by (simp_all add: demo_user_def DecryptTOTPSecret_def demo_env_def)

lemma demo_codes: "distinct (snd (GenerateRecoveryCodes (demo_env 3 ''r'' ''f'')))"
  unfolding demo_env_def by code_simp

lemma store_codes_ok:
  assumes "\<And>q. \<not> a_fault E q"
  shows "distinct hs \<Longrightarrow> set hs \<inter> rc_code_hash ` set (recovery_codes s) = {} \<Longrightarrow>
    \<exists>s'. store_codes E uid hs i s = (Inr (), s')"
  using assms by (induction hs arbitrary: i s) (auto simp: rec_create_def tbl_count_0_iff)

lemma demo_enable: "\<exists>resp s'. VerifyAndEnable (demo_env 3 ''r'' ''f'') demo_setup ''alice'' ''123456'' = (Inr resp, s')"
proof -
  let ?E = "demo_env 3 ''r'' ''f''"
  let ?s = "\<lambda>u. demo_setup\<lparr>users := u, recovery_codes := []\<rparr>"
  obtain plain hashes where g: "GenerateRecoveryCodes ?E = (plain, hashes)" by fastforce
  have "\<forall>u. \<exists>s'. store_codes ?E ''alice'' hashes 0 (?s u) = (Inr (), s')"
    using demo_codes g by (intro allI store_codes_ok) simp_all
  then obtain F where "\<And>u. store_codes ?E ''alice'' hashes 0 (?s u) = (Inr (), F u)" by metis
  moreover have "tf_totp_valid ?E ''123456'' ''SECRET'' 3" by (simp add: demo_env_def)
  moreover have "recovery_codes demo_setup = []" by (simp add: demo_setup_def demo_state_def)
  ultimately show ?thesis
    using demo_secret [of 3 "''r''" "''f''"]
    by (simp add: VerifyAndEnable_def demo_setup_user check_totp_def user_update_def
        rec_delete_all_by_user_def g tbl_update_def)
qed

theorem enable_requires_valid_code_witness:
  "\<exists>s'. map u_tf_status (users s') = [''enabled''] \<and> length (usable_codes ''alice'' s') = 8"
proof -
  obtain resp s' where r: "VerifyAndEnable (demo_env 3 ''r'' ''f'') demo_setup ''alice'' ''123456'' = (Inr resp, s')"
    using demo_enable by blast
  note e = enable_requires_valid_code [OF r]
  then have "map rc_code_hash (usable_codes ''alice'' s') = snd (GenerateRecoveryCodes (demo_env 3 ''r'' ''f''))"
    by blast
  then have "length (usable_codes ''alice'' s') = 8"
    by (metis GenerateRecoveryCodes_length length_map)
  moreover have "map u_tf_status (users s') = [''enabled'']"
    using e by (auto simp: demo_setup_def demo_user_def tbl_update_def)
  ultimately show ?thesis by (intro exI [of _ s'] conjI)
qed

section \<open>The second factor in the system as wired\<close>

text \<open>
  C3. No handler creates a pending token, so in every reachable state the second step of a
  two-factor login is refused, whatever token and code are presented, and has no effect.
\<close>

theorem second_factor_unreachable:
  assumes "auth_reach s"
  shows "(\<exists>e. Verify2FALogin E s tok code = (Inl e, s)) \<and> (\<exists>e. UseRecoveryCode E s tok code = (Inl e, s))"
proof -
  have "pending_free (refresh_tokens s)" using auth_reach_inv [OF assms] by (simp add: tok_inv_def)
  then show ?thesis by (simp add: second_factor_rejected split: sum.splits)
qed

theorem second_factor_unreachable_witness:
  "\<exists>e. Verify2FALogin (demo_env 9 ''t9'' ''f9'') demo_login ''t0'' ''123456'' = (Inl e, demo_login)"
  using second_factor_unreachable [OF demo_reach(2)] by blast

text \<open>
  Login does not ask for the second factor: with the right password, a user with
  two-factor authentication enabled gets an access token and a full refresh token.
\<close>

theorem login_skips_second_factor:
  assumes "user_find_by_email E s email = Inr u" and "u_tf_enabled u"
    and "a_pw_verify E (u_password_hash u) password"
    and "a_access E (u_id u) (u_email u) = Some acc" and "a_rand E = Some tok"
    and "\<not> a_fault E (QTokCreate (a_hash_token E tok))"
    and "a_hash_token E tok \<notin> rt_token_hash ` set (refresh_tokens s)"
  shows "\<exists>s' t. Login E s email password = (Inr (u, acc, tok), s')
    \<and> refresh_tokens s' = refresh_tokens s @ [t] \<and> rt_user_id t = u_id u \<and> \<not> rt_is_2fa_pending t"
proof -
  have "tbl_count (\<lambda>r. rt_token_hash r = a_hash_token E tok) (refresh_tokens s) = 0"
    using assms(7) by (auto simp: tbl_count_0_iff image_iff)
  then show ?thesis
    using assms(1-6)
    by (simp add: Login_def GenerateAccessToken_def GenerateRefreshToken_def tok_create_def Let_def frame_simps)
qed

theorem login_skips_second_factor_witness:
  "\<exists>s'. u_tf_enabled demo_user
    \<and> Login (demo_env 0 ''t0'' ''f0'') demo_state ''a@x'' ''pw'' = (Inr (demo_user, ''jwt:alice'', ''t0''), s')"
proof -
  have "user_find_by_email (demo_env 0 ''t0'' ''f0'') demo_state ''a@x'' = Inr demo_user"
    by (simp add: user_find_by_email_def demo_state_def demo_user_def tbl_first_def user_visible_def)
  then have "\<exists>s' t. Login (demo_env 0 ''t0'' ''f0'') demo_state ''a@x'' ''pw'' = (Inr (demo_user, ''jwt:alice'', ''t0''), s')
     \<and> refresh_tokens s' = refresh_tokens demo_state @ [t] \<and> rt_user_id t = u_id demo_user \<and> \<not> rt_is_2fa_pending t"
    by (rule login_skips_second_factor) (simp_all add: demo_user_def demo_state_def)
  then show ?thesis by (auto simp: demo_user_def)
qed

text \<open>
  The tokens that complete a second-factor login carry no family of their own: their
  family is the zero UUID, whoever the user is. The reuse of one such token, once it is
  revoked, therefore revokes the second-factor sessions of all users.
\<close>

theorem second_factor_family_shared:
  assumes "issue_tokens E s u uid h action = (Inr lr, s1)"
    and "tok_find_by_hash E' s' (a_hash_token E' tok) = Inr stored"
    and "rt_family_id stored = uuid_nil" and "rt_is_revoked stored"
    and "\<not> a_fault E' (QTokRevokeFamily uuid_nil)"
    and "last (refresh_tokens s1) \<in> set (refresh_tokens s')"
  shows "rt_user_id (last (refresh_tokens s1)) = uid \<and> rt_family_id (last (refresh_tokens s1)) = uuid_nil
    \<and> \<not> rt_is_revoked (last (refresh_tokens s1))
    \<and> live_of uuid_nil (refresh_tokens (snd (Refresh E' s' tok))) = []"
proof -
  have "refresh_tokens (snd (Refresh E' s' tok)) =
      revoke_rows (a_now E') (\<lambda>r. rt_family_id r = uuid_nil \<and> rt_revoked_at r = None) (refresh_tokens s')"
    using assms(2-5)
    by (simp add: Refresh_def Let_def AuditPotentialTokenReuse_def AuditAuth_def frame_simps tok_revoke_family_def)
  then have "live_of uuid_nil (refresh_tokens (snd (Refresh E' s' tok))) = []"
    by (simp add: live_of_revoke_family)
  moreover have "rt_user_id (last (refresh_tokens s1)) = uid \<and> rt_family_id (last (refresh_tokens s1)) = uuid_nil
      \<and> \<not> rt_is_revoked (last (refresh_tokens s1))"
    using assms(1)
    by (auto simp: issue_tokens_def Let_def frame_simps rt_is_revoked_def split: result_splits elim!: tok_create_cases)
  ultimately show ?thesis by simp
qed

definition bob_token :: refresh_token where
  "bob_token = \<lparr>rt_id = ''b'', rt_user_id = ''bob'', rt_token_hash = ''sha:b'', rt_family_id = uuid_nil,
     rt_expires_at = 50, rt_revoked_at = Some 1, rt_is_2fa_pending = False\<rparr>"

theorem second_factor_family_shared_witness:
  "\<exists>lr s1. issue_tokens (demo_env 3 ''n'' ''f'') demo_login demo_user ''alice'' ''sha:t0'' ''verify'' = (Inr lr, s1)
    \<and> live_of uuid_nil (refresh_tokens (snd (Refresh (demo_env 4 ''m'' ''g'')
         (s1\<lparr>refresh_tokens := bob_token # refresh_tokens s1\<rparr>) ''b''))) = []"
proof -
  have "\<exists>lr s1. issue_tokens (demo_env 3 ''n'' ''f'') demo_login demo_user ''alice'' ''sha:t0'' ''verify'' = (Inr lr, s1)
      \<and> refresh_tokens s1 \<noteq> []"
    by (simp add: issue_tokens_def tok_mark_revoked_def demo_run revoke_rows_def tbl_update_def tbl_count_def
        user_update_def GenerateAccessToken_def GenerateRefreshToken_def tok_create_def Let_def demo_no_resets)
      (simp add: demo_env_def)
  then obtain lr s1 where r: "issue_tokens (demo_env 3 ''n'' ''f'') demo_login demo_user ''alice'' ''sha:t0'' ''verify'' = (Inr lr, s1)"
    and ne: "refresh_tokens s1 \<noteq> []" by blast
  let ?s = "s1\<lparr>refresh_tokens := bob_token # refresh_tokens s1\<rparr>"
  have "tok_find_by_hash (demo_env 4 ''m'' ''g'') ?s (a_hash_token (demo_env 4 ''m'' ''g'') ''b'') = Inr bob_token"
    by (simp add: tok_find_by_hash_def tbl_first_Cons bob_token_def)
  from second_factor_family_shared [OF r this] ne r show ?thesis
    by (auto simp: bob_token_def rt_is_revoked_def)
qed

text \<open>
  While a setup is pending, \<open>GetStatus\<close> shows a QR code of a freshly generated secret:
  scanning it enrols a secret that differs from the one the server stored, whose codes the
  server checks.
\<close>

theorem status_shows_other_secret:
  assumes "InitiateSetup E s uid = (Inr resp, s1)" and "user_find_by_id E s uid = Inr u"
    and gcm: "\<And>k n p. tf_gcm_open E' k n (tf_gcm_seal E k n p) = Some p"
    and b64: "\<And>x. tf_b64_decode E' (tf_b64_encode E x) = Some x" "\<And>x. x \<noteq> [] \<Longrightarrow> tf_b64_encode E x \<noteq> []"
    and key: "tf_key E' = tf_key E" "\<And>n. tf_nonce E = Some n \<Longrightarrow> length n = 12"
    and later: "\<And>q. \<not> a_fault E' q" "tf_generate E' (u_email u) = Some other"
  shows "\<exists>status. GetStatus E' s1 uid = Inr status \<and> tr_qr_url status = tf_key_url E' (u_email u) other
    \<and> tr_qr_url resp = tf_key_url E (u_email u) (tr_secret resp)
    \<and> tr_secret status = tf_b64_encode E' (tr_secret resp)"
proof -
  obtain secret enc where enc: "EncryptTOTPSecret E secret (tf_key E) = Inr enc"
    and resp: "tr_secret resp = secret" "tr_qr_url resp = tf_key_url E (u_email u) secret"
    and s1: "users s1 = tbl_update (\<lambda>r. u_id r = u_id u) (\<lambda>r. u\<lparr>u_tf_secret := tf_b64_encode E enc,
       u_tf_status := ''pending'', u_tf_enabled := False\<rparr>) (users s)"
    using assms(1,2) by (auto simp: InitiateSetup_def user_update_def split: result_splits)
  let ?u = "u\<lparr>u_tf_secret := tf_b64_encode E enc, u_tf_status := ''pending'', u_tf_enabled := False\<rparr>"
  have dec: "DecryptTOTPSecret E' enc (tf_key E') = Inr secret" and ne: "enc \<noteq> []"
    using enc gcm key by (auto simp: EncryptTOTPSecret_def DecryptTOTPSecret_def Let_def split: if_splits option.splits)
  have u: "u \<in> set (users s)" "u_id u = uid" "user_visible ?u"
    using user_find_by_id_InrD [OF assms(2)] by (simp_all add: user_visible_def)
  have "user_find_by_id E' s1 uid = Inr ?u"
    using find_saved_user [of u s ?u s1 E'] u s1 later(1) by simp
  then show ?thesis
    using dec ne b64 later(2) resp by (simp add: GetStatus_def)
qed

lemma demo_disabled_run:
  "\<exists>resp s1. InitiateSetup (demo_env 0 [] []) (demo_state\<lparr>users := [demo_user\<lparr>u_tf_enabled := False,
      u_tf_status := ''disabled''\<rparr>]\<rparr>) ''alice'' = (Inr resp, s1)"
  by (simp add: InitiateSetup_def user_find_by_id_def demo_user_def tbl_first_def user_visible_def
      EncryptTOTPSecret_def user_update_def demo_env_def)

theorem status_shows_other_secret_witness:
  "\<exists>s1 status. GetStatus ((demo_env 1 [] [])\<lparr>tf_generate := (\<lambda>a. Some ''FRESH'')\<rparr>) s1 ''alice'' = Inr status
    \<and> tr_qr_url status = ''otpauth:FRESH''"
proof -
  let ?s = "demo_state\<lparr>users := [demo_user\<lparr>u_tf_enabled := False, u_tf_status := ''disabled''\<rparr>]\<rparr>"
  let ?E' = "(demo_env 1 [] [])\<lparr>tf_generate := (\<lambda>a. Some ''FRESH'')\<rparr>"
  obtain resp s1 where r: "InitiateSetup (demo_env 0 [] []) ?s ''alice'' = (Inr resp, s1)"
    using demo_disabled_run by blast
  have u: "user_find_by_id (demo_env 0 [] []) ?s ''alice'' =
      Inr (demo_user\<lparr>u_tf_enabled := False, u_tf_status := ''disabled''\<rparr>)"
    by (simp add: user_find_by_id_def demo_user_def tbl_first_def user_visible_def)
  have "\<exists>status. GetStatus ?E' s1 ''alice'' = Inr status
      \<and> tr_qr_url status = tf_key_url ?E' (u_email (demo_user\<lparr>u_tf_enabled := False, u_tf_status := ''disabled''\<rparr>)) ''FRESH''
      \<and> tr_qr_url resp = tf_key_url (demo_env 0 [] []) (u_email (demo_user\<lparr>u_tf_enabled := False, u_tf_status := ''disabled''\<rparr>)) (tr_secret resp)
      \<and> tr_secret status = tf_b64_encode ?E' (tr_secret resp)"
    by (rule status_shows_other_secret [OF r u]) (simp_all add: demo_env_def)
  then show ?thesis by (auto simp: demo_env_def)
qed

end
