(* ===== verification/Request_Env.thy ===== *)
theory Request_Env
  imports Prelude
begin

text \<open>
  What a service handler sees beside its tables: the instant, the queries that fail, the
  key the database gives to a new row and the state of the audit channel, and for a handler
  that only reads the policy the decisions of the permission engine; and the contract \<open>guarded\<close> that the permission-checked handlers share.
\<close>

record 'q db_env =
  re_now :: instant
  re_fault :: "'q \<Rightarrow> bool"
  re_new_id :: uuid
  re_audit_full :: bool

record 'q req_env = "'q db_env" +
  re_enforce :: "string \<Rightarrow> string \<Rightarrow> string \<Rightarrow> string \<Rightarrow> bool result"  \<comment> \<open>subject, domain, object, action\<close>

text \<open>\<open>AuditService.LogAction\<close>: the entry is dropped when the channel is full.\<close>

definition log_action :: "('q, 'e) db_env_scheme \<Rightarrow> audit_entry \<Rightarrow> audit_entry list \<Rightarrow> audit_entry list" where
  "log_action E a log = (if re_audit_full E then log else log @ [a])"

text \<open>
  \<open>resolveOrgDomain\<close> of the feature-flag service and \<open>resolveCommentOrgDomain\<close> of the
  comment service.
\<close>

definition resolveOrgDomain :: "bool \<Rightarrow> uuid \<Rightarrow> string" where
  "resolveOrgDomain hasOrgID orgID = (if hasOrgID \<and> orgID \<noteq> uuid_nil then orgID else ''default'')"

text \<open>A handler whose answer does not matter, for handlers of one type in a sequence.\<close>

abbreviation forget :: "'a result \<times> 's \<Rightarrow> unit result \<times> 's" where
  "forget r \<equiv> apfst (map_sum id (\<lambda>_. ())) r"

text \<open>
  The contract of a permission-checked handler: a request that the permission engine does not
  grant in this state fails and leaves the state as it was. A request is anything the handler
  takes.
\<close>

locale guarded =
  fixes run :: "'env \<Rightarrow> 's \<Rightarrow> 'r \<Rightarrow> 'a result \<times> 's"
    and granted :: "'env \<Rightarrow> 's \<Rightarrow> 'r \<Rightarrow> bool"
  assumes denied: "\<not> granted E s r \<Longrightarrow> \<exists>e. run E s r = (Inl e, s)"
begin

text \<open>Whatever a user without the permission sends, in any order, changes nothing.\<close>

lemma refused_sequence:
  "(\<And>E r. (E, r) \<in> set rs \<Longrightarrow> \<not> granted E s r) \<Longrightarrow> foldl (\<lambda>s (E, r). snd (run E s r)) s rs = s"
proof (induction rs)
  case (Cons x rs)
  obtain E r where x: "x = (E, r)" by fastforce
  then have "\<not> granted E s r" using Cons.prems [of E r] by simp
  then obtain e where "run E s r = (Inl e, s)" using denied by blast
  with x Cons show ?case by simp
qed simp

lemma success_granted: "run E s r = (Inr x, s') \<Longrightarrow> granted E s r"
  using denied [of E s r] by auto

lemma change_granted: "snd (run E s r) \<noteq> s \<Longrightarrow> granted E s r"
  using denied [of E s r] by (metis snd_conv)

end

end
