(* ===== verification/Feature_Flag.thy ===== *)
theory Feature_Flag
  imports Request_Env "HOL-Library.Word"
begin

text \<open>
  Feature flags: the row and its responses (\<open>domain/feature_flag.go\<close>), the request
  validation (\<open>http/request/feature_flag.go\<close>), the repository
  (\<open>repository/feature_flag.go\<close>) and the service (\<open>service/feature_flag.go\<close>).

  A conditions column is \<open>None\<close> when it is empty and otherwise a JSON value: \<open>json.Marshal\<close>
  and \<open>json.Unmarshal\<close> are inverse on what a request carries, so the column keeps the
  tree. A Go map is the list of its entries, in the order of an iteration.
\<close>

unbundle bit_operations_syntax

section \<open>Rows, requests, responses\<close>

record feature_flag =
  ff_id :: uuid
  ff_key :: string
  ff_name :: string
  ff_description :: string
  ff_enabled :: bool
  ff_rollout :: int
  ff_conditions :: "json option"
  ff_is_system :: bool
  ff_created_at :: instant
  ff_deleted_at :: "instant option"

record flag_response =
  fr_id :: uuid
  fr_key :: string
  fr_name :: string
  fr_description :: string
  fr_enabled :: bool
  fr_rollout :: int
  fr_conditions :: "json option"
  fr_is_system :: bool

definition flag_ToResponse :: "feature_flag \<Rightarrow> flag_response" where
  "flag_ToResponse f = \<lparr>fr_id = ff_id f, fr_key = ff_key f, fr_name = ff_name f,
     fr_description = ff_description f, fr_enabled = ff_enabled f, fr_rollout = ff_rollout f,
     fr_conditions = ff_conditions f, fr_is_system = ff_is_system f\<rparr>"

record flag_evaluation =
  fe_key :: string
  fe_enabled :: bool
  fe_reason :: string
  fe_rollout :: int

record create_flag =
  cf_key :: string
  cf_name :: string
  cf_description :: string
  cf_enabled :: "bool option"
  cf_rollout :: int
  cf_conditions :: "(string \<times> json) list option"

record update_flag =
  uf_name :: "string option"
  uf_description :: "string option"
  uf_enabled :: "bool option"
  uf_rollout :: "int option"
  uf_conditions :: "(string \<times> json) list option"

section \<open>Request validation (http/request/feature_flag.go)\<close>

text \<open>The pattern \<open>^[a-z][a-z0-9_]*$\<close>.\<close>

definition key_head :: "char \<Rightarrow> bool" where
  "key_head c = (97 \<le> (of_char c :: nat) \<and> (of_char c :: nat) \<le> 122)"

definition key_char :: "char \<Rightarrow> bool" where
  "key_char c = (key_head c \<or> 48 \<le> (of_char c :: nat) \<and> (of_char c :: nat) \<le> 57 \<or> c = CHR ''_'')"

fun keyRegex :: "string \<Rightarrow> bool" where
  "keyRegex [] = False"
| "keyRegex (c # cs) = (key_head c \<and> list_all key_char cs)"

definition validation_error :: "string \<Rightarrow> go_error" where
  "validation_error msg = NewAppError ''VALIDATION_ERROR'' msg 422"

fun is_JStr :: "json \<Rightarrow> bool" where
  "is_JStr (JStr s) = True"
| "is_JStr _ = False"

fun validateConditions :: "(string \<times> json) list \<Rightarrow> unit result" where
  "validateConditions [] = Inr ()"
| "validateConditions ((key, value) # rest) =
     (if key = ''user_ids'' \<or> key = ''org_ids'' \<or> key = ''envs'' then
        (case value of
           JArr items \<Rightarrow>
             if list_all is_JStr items then validateConditions rest
             else Inl (validation_error (''conditions.'' @ key @ '' must be an array of strings''))
         | _ \<Rightarrow> Inl (validation_error (''conditions.'' @ key @ '' must be an array'')))
      else Inl (validation_error
        (''unknown condition key: '' @ key @ '' (allowed: user_ids, org_ids, envs)'')))"

definition validate_opt_conditions :: "(string \<times> json) list option \<Rightarrow> unit result" where
  "validate_opt_conditions c = (case c of None \<Rightarrow> Inr () | Some kvs \<Rightarrow> validateConditions kvs)"

text \<open>The struct tags: key 1 to 100 characters, name 1 to 255.\<close>

definition CreateFlag_Validate :: "create_flag \<Rightarrow> unit result" where
  "CreateFlag_Validate r =
     (if cf_key r = [] \<or> 100 < length (cf_key r) \<or> cf_name r = [] \<or> 255 < length (cf_name r)
      then Inl (Opaque ''validation failed on a struct tag'')
      else if \<not> keyRegex (cf_key r)
      then Inl (validation_error ''key must match pattern ^[a-z][a-z0-9_]*$ (lowercase, starts with letter, underscores allowed)'')
      else if cf_rollout r < 0 \<or> 100 < cf_rollout r
      then Inl (validation_error ''rollout must be between 0 and 100'')
      else validate_opt_conditions (cf_conditions r))"

definition UpdateFlag_Validate :: "update_flag \<Rightarrow> unit result" where
  "UpdateFlag_Validate r =
     (if (case uf_rollout r of None \<Rightarrow> False | Some n \<Rightarrow> n < 0 \<or> 100 < n)
      then Inl (validation_error ''rollout must be between 0 and 100'')
      else validate_opt_conditions (uf_conditions r))"

section \<open>Repository (repository/feature_flag.go)\<close>

datatype flag_query = QFlagCreate | QFlagByID uuid | QFlagByKey string | QFlagAll | QFlagSave uuid | QFlagDelete uuid

record flag_state =
  flags :: "feature_flag list"
  flag_audit :: "audit_entry list"

definition flag_visible :: "feature_flag \<Rightarrow> bool" where
  "flag_visible f = (ff_deleted_at f = None)"

definition check_violation :: go_error where
  "check_violation = Opaque ''ERROR: new row violates check constraint (SQLSTATE 23514)''"

text \<open>
  The ORM replaces the zero value of a field tagged \<open>default:100\<close> by the default, in the
  row and in the struct. The table has a unique index on the keys of the rows that are not
  deleted, and a check on the rollout.
\<close>

definition flag_default :: "feature_flag \<Rightarrow> feature_flag" where
  "flag_default f = (if ff_rollout f = 0 then f\<lparr>ff_rollout := 100\<rparr> else f)"

definition flag_create ::
    "(flag_query, 'e) req_env_scheme \<Rightarrow> flag_state \<Rightarrow> feature_flag \<Rightarrow> feature_flag result \<times> flag_state" where
  "flag_create E s f0 =
     (let f = flag_default f0 in
      if re_fault E QFlagCreate then (Inl (WrapInternal db_error), s)
      else if ff_rollout f < 0 \<or> 100 < ff_rollout f then (Inl (WrapInternal check_violation), s)
      else if tbl_count (\<lambda>r. ff_key r = ff_key f \<and> flag_visible r) (flags s) \<noteq> 0
      then (Inl (WrapInternal unique_violation), s)
      else (Inr f, s\<lparr>flags := flags s @ [f]\<rparr>))"

definition flag_find_by_id ::
    "(flag_query, 'e) req_env_scheme \<Rightarrow> flag_state \<Rightarrow> uuid \<Rightarrow> feature_flag result" where
  "flag_find_by_id E s i =
     (if re_fault E (QFlagByID i) then Inl (WrapInternal db_error)
      else case tbl_first (\<lambda>r. ff_id r = i \<and> flag_visible r) (flags s) of
             None \<Rightarrow> Inl (Sentinel ErrNotFound)
           | Some f \<Rightarrow> Inr f)"

definition flag_find_by_key ::
    "(flag_query, 'e) req_env_scheme \<Rightarrow> flag_state \<Rightarrow> string \<Rightarrow> feature_flag result" where
  "flag_find_by_key E s k =
     (if re_fault E (QFlagByKey k) then Inl (WrapInternal db_error)
      else case tbl_first (\<lambda>r. ff_key r = k \<and> flag_visible r) (flags s) of
             None \<Rightarrow> Inl (Sentinel ErrNotFound)
           | Some f \<Rightarrow> Inr f)"

definition flag_find_all ::
    "(flag_query, 'e) req_env_scheme \<Rightarrow> flag_state \<Rightarrow> int \<Rightarrow> int \<Rightarrow> (feature_flag list \<times> nat) result" where
  "flag_find_all E s limit offset =
     (if re_fault E QFlagAll then Inl (WrapInternal db_error)
      else let rows = filter flag_visible (flags s)
           in Inr (sql_page limit offset (sort_key (\<lambda>f. - ff_created_at f) rows), length rows))"

text \<open>\<open>Save\<close> writes the row with this primary key.\<close>

definition flag_save ::
    "(flag_query, 'e) req_env_scheme \<Rightarrow> flag_state \<Rightarrow> feature_flag \<Rightarrow> unit result \<times> flag_state" where
  "flag_save E s f =
     (if re_fault E (QFlagSave (ff_id f)) then (Inl (WrapInternal db_error), s)
      else if ff_rollout f < 0 \<or> 100 < ff_rollout f then (Inl (WrapInternal check_violation), s)
      else if tbl_count (\<lambda>r. ff_id r = ff_id f) (flags s) = 0 then (Inl (Sentinel ErrNotFound), s)
      else (Inr (), s\<lparr>flags := tbl_update (\<lambda>r. ff_id r = ff_id f) (\<lambda>r. f) (flags s)\<rparr>))"

definition flag_soft_delete ::
    "(flag_query, 'e) req_env_scheme \<Rightarrow> flag_state \<Rightarrow> uuid \<Rightarrow> unit result \<times> flag_state" where
  "flag_soft_delete E s i =
     (if re_fault E (QFlagDelete i) then (Inl (WrapInternal db_error), s)
      else let P = (\<lambda>r. ff_id r = i \<and> flag_visible r) in
        if tbl_count P (flags s) = 0 then (Inl (Sentinel ErrNotFound), s)
        else (Inr (), s\<lparr>flags := tbl_update P (\<lambda>r. r\<lparr>ff_deleted_at := Some (re_now E)\<rparr>) (flags s)\<rparr>))"

text \<open>\<open>isDuplicateKeyError\<close> (service/media_version.go) looks into the text of the error.\<close>

definition isDuplicateKeyError :: "go_error \<Rightarrow> bool" where
  "isDuplicateKeyError e =
     (str_contains (error_text e) ''duplicate key'' \<or> str_contains (error_text e) ''unique constraint''
      \<or> str_contains (error_text e) ''23505'')"

section \<open>Evaluation\<close>

text \<open>FNV-1a on 32-bit words, over the characters of the string.\<close>

definition fnvHash :: "string \<Rightarrow> 32 word" where
  "fnvHash s = foldl (\<lambda>h c. (h XOR word_of_nat (of_char c)) * 16777619) 2166136261 s"

text \<open>The entry of a Go map, asserted to be an array that is not empty.\<close>

definition cond_list :: "(string \<times> json) list \<Rightarrow> string \<Rightarrow> json list option" where
  "cond_list conditions key =
     (case map_of conditions key of
        Some (JArr items) \<Rightarrow> if items \<noteq> [] then Some items else None
      | _ \<Rightarrow> None)"

definition evaluateConditions :: "feature_flag \<Rightarrow> uuid \<Rightarrow> uuid \<Rightarrow> bool" where
  "evaluateConditions flag userID orgID =
     (case ff_conditions flag of
        None \<Rightarrow> True
      | Some JNull \<Rightarrow> True
      | Some (JObj conditions) \<Rightarrow>
          if conditions = [] then True
          else (case cond_list conditions ''user_ids'' of
            Some userIDs \<Rightarrow> JStr userID \<in> set userIDs
          | None \<Rightarrow>
              (case (if orgID \<noteq> uuid_nil then cond_list conditions ''org_ids'' else None) of
                 Some orgIDs \<Rightarrow> JStr orgID \<in> set orgIDs
               | None \<Rightarrow>
                   (case cond_list conditions ''envs'' of
                      Some envs \<Rightarrow> JStr ''production'' \<in> set envs
                    | None \<Rightarrow> False)))
      | Some _ \<Rightarrow> False)"

definition evaluateFlag :: "feature_flag \<Rightarrow> uuid \<Rightarrow> bool \<Rightarrow> uuid \<Rightarrow> flag_evaluation" where
  "evaluateFlag flag userID hasOrgID orgID =
     (let answer = (\<lambda>enabled reason. \<lparr>fe_key = ff_key flag, fe_enabled = enabled,
                      fe_reason = reason, fe_rollout = ff_rollout flag\<rparr>)
      in if \<not> ff_enabled flag then answer False ''flag_disabled''
         else if ff_rollout flag \<ge> 100 then
           (if evaluateConditions flag userID orgID then answer True ''rollout_100''
            else answer False ''condition_no_match'')
         else if ff_rollout flag \<le> 0 then answer False ''rollout_0''
         else if fnvHash (userID @ ff_key flag) mod 100 < word_of_int (ff_rollout flag) then
           (if evaluateConditions flag userID orgID then answer True ''rollout_match''
            else answer False ''condition_no_match'')
         else answer False ''rollout_no_match'')"

definition IsEnabled :: "(flag_query, 'e) req_env_scheme \<Rightarrow> flag_state \<Rightarrow> string \<Rightarrow> uuid \<Rightarrow> bool" where
  "IsEnabled E s key userID =
     (case flag_find_by_key E s key of
        Inl _ \<Rightarrow> False
      | Inr flag \<Rightarrow>
          if \<not> ff_enabled flag then False
          else if ff_rollout flag \<ge> 100 then evaluateConditions flag userID uuid_nil
          else if ff_rollout flag \<le> 0 then False
          else if fnvHash (userID @ key) mod 100 < word_of_int (ff_rollout flag)
          then evaluateConditions flag userID uuid_nil
          else False)"

definition IsEnabledWithReason ::
    "(flag_query, 'e) req_env_scheme \<Rightarrow> flag_state \<Rightarrow> uuid \<Rightarrow> bool \<Rightarrow> uuid \<Rightarrow> string \<Rightarrow> flag_evaluation result" where
  "IsEnabledWithReason E s userID hasOrgID orgID key =
     (case flag_find_by_key E s key of
        Inl err \<Rightarrow>
          if IsNotFound err
          then Inr \<lparr>fe_key = key, fe_enabled = False, fe_reason = ''flag_not_found'', fe_rollout = 0\<rparr>
          else Inl (WrapInternal err)
      | Inr flag \<Rightarrow> Inr (evaluateFlag flag userID hasOrgID orgID))"

definition EvaluateAll ::
    "(flag_query, 'e) req_env_scheme \<Rightarrow> flag_state \<Rightarrow> uuid \<Rightarrow> bool \<Rightarrow> uuid \<Rightarrow> flag_evaluation list result" where
  "EvaluateAll E s userID hasOrgID orgID =
     (case flag_find_all E s 0 0 of
        Inl err \<Rightarrow> Inl (WrapInternal err)
      | Inr (fs, n) \<Rightarrow> Inr (map (\<lambda>f. evaluateFlag f userID hasOrgID orgID) fs))"

section \<open>Service (service/feature_flag.go)\<close>

definition forbidden_manage_flags :: go_error where
  "forbidden_manage_flags = NewAppError ''FORBIDDEN'' ''insufficient permissions to manage feature flags'' 403"

definition forbidden_view_flags :: go_error where
  "forbidden_view_flags = NewAppError ''FORBIDDEN'' ''insufficient permissions to view feature flags'' 403"

definition flag_conflict :: go_error where
  "flag_conflict = NewAppError ''CONFLICT'' ''feature flag with key already exists'' 409"

definition Flag_Create ::
    "(flag_query, 'e) req_env_scheme \<Rightarrow> flag_state \<Rightarrow> uuid \<Rightarrow> bool \<Rightarrow> uuid \<Rightarrow> create_flag
     \<Rightarrow> flag_response result \<times> flag_state" where
  "Flag_Create E s userID hasOrgID orgID req =
     (case re_enforce E userID (resolveOrgDomain hasOrgID orgID) ''feature_flag'' ''manage'' of
        Inl err \<Rightarrow> (Inl (WrapInternal err), s)
      | Inr allowed \<Rightarrow>
          if \<not> allowed then (Inl forbidden_manage_flags, s)
          else if \<not> keyRegex (cf_key req)
          then (Inl (validation_error ''feature flag key must match pattern ^[a-z][a-z0-9_]*$''), s)
          else if cf_rollout req < 0 \<or> 100 < cf_rollout req
          then (Inl (validation_error ''rollout must be between 0 and 100''), s)
          else let existing = flag_find_by_key E s (cf_key req) in
            case (case existing of Inl err \<Rightarrow> if \<not> IsNotFound err then Some (WrapInternal err) else None
                                 | Inr _ \<Rightarrow> Some flag_conflict) of
              Some err \<Rightarrow> (Inl err, s)
            | None \<Rightarrow>
                (let flag = \<lparr>ff_id = re_new_id E, ff_key = cf_key req, ff_name = cf_name req,
                       ff_description = cf_description req,
                       ff_enabled = (case cf_enabled req of None \<Rightarrow> False | Some b \<Rightarrow> b),
                       ff_rollout = cf_rollout req, ff_conditions = map_option JObj (cf_conditions req),
                       ff_is_system = False, ff_created_at = re_now E, ff_deleted_at = None\<rparr>
                 in case flag_create E s flag of
                      (Inl err, s1) \<Rightarrow>
                        if isDuplicateKeyError err then (Inl flag_conflict, s1) else (Inl (WrapInternal err), s1)
                    | (Inr f, s1) \<Rightarrow>
                        (Inr (flag_ToResponse f),
                         s1\<lparr>flag_audit := log_action E (Audit userID ''create'' ''feature_flag'' (ff_id f)) (flag_audit s1)\<rparr>)))"

definition Flag_GetByID ::
    "(flag_query, 'e) req_env_scheme \<Rightarrow> flag_state \<Rightarrow> uuid \<Rightarrow> bool \<Rightarrow> uuid \<Rightarrow> uuid \<Rightarrow> flag_response result" where
  "Flag_GetByID E s userID hasOrgID orgID i =
     (case re_enforce E userID (resolveOrgDomain hasOrgID orgID) ''feature_flag'' ''view'' of
        Inl err \<Rightarrow> Inl (WrapInternal err)
      | Inr allowed \<Rightarrow>
          if \<not> allowed then Inl forbidden_view_flags
          else case flag_find_by_id E s i of
                 Inl err \<Rightarrow> Inl (if IsNotFound err then Sentinel ErrNotFound else WrapInternal err)
               | Inr f \<Rightarrow> Inr (flag_ToResponse f))"

definition Flag_GetByKey ::
    "(flag_query, 'e) req_env_scheme \<Rightarrow> flag_state \<Rightarrow> uuid \<Rightarrow> bool \<Rightarrow> uuid \<Rightarrow> string \<Rightarrow> flag_response result" where
  "Flag_GetByKey E s userID hasOrgID orgID key =
     (case re_enforce E userID (resolveOrgDomain hasOrgID orgID) ''feature_flag'' ''view'' of
        Inl err \<Rightarrow> Inl (WrapInternal err)
      | Inr allowed \<Rightarrow>
          if \<not> allowed then Inl forbidden_view_flags
          else case flag_find_by_key E s key of
                 Inl err \<Rightarrow> Inl (if IsNotFound err then Sentinel ErrNotFound else WrapInternal err)
               | Inr f \<Rightarrow> Inr (flag_ToResponse f))"

definition Flag_List ::
    "(flag_query, 'e) req_env_scheme \<Rightarrow> flag_state \<Rightarrow> uuid \<Rightarrow> bool \<Rightarrow> uuid \<Rightarrow> int \<Rightarrow> int
     \<Rightarrow> (flag_response list \<times> nat) result" where
  "Flag_List E s userID hasOrgID orgID limit offset =
     (case re_enforce E userID (resolveOrgDomain hasOrgID orgID) ''feature_flag'' ''view'' of
        Inl err \<Rightarrow> Inl (WrapInternal err)
      | Inr allowed \<Rightarrow>
          if \<not> allowed then Inl forbidden_view_flags
          else case flag_find_all E s limit offset of
                 Inl err \<Rightarrow> Inl (WrapInternal err)
               | Inr (fs, n) \<Rightarrow> Inr (map flag_ToResponse fs, n))"

text \<open>The merge of \<open>Update\<close>: only the fields that are given.\<close>

definition flag_merge :: "update_flag \<Rightarrow> feature_flag \<Rightarrow> feature_flag" where
  "flag_merge req f = f\<lparr>ff_name := (case uf_name req of None \<Rightarrow> ff_name f | Some x \<Rightarrow> x),
     ff_description := (case uf_description req of None \<Rightarrow> ff_description f | Some x \<Rightarrow> x),
     ff_enabled := (case uf_enabled req of None \<Rightarrow> ff_enabled f | Some x \<Rightarrow> x),
     ff_rollout := (case uf_rollout req of None \<Rightarrow> ff_rollout f | Some x \<Rightarrow> x),
     ff_conditions := (case uf_conditions req of None \<Rightarrow> ff_conditions f | Some x \<Rightarrow> Some (JObj x))\<rparr>"

definition Flag_Update ::
    "(flag_query, 'e) req_env_scheme \<Rightarrow> flag_state \<Rightarrow> uuid \<Rightarrow> bool \<Rightarrow> uuid \<Rightarrow> uuid \<Rightarrow> update_flag
     \<Rightarrow> flag_response result \<times> flag_state" where
  "Flag_Update E s userID hasOrgID orgID i req =
     (case re_enforce E userID (resolveOrgDomain hasOrgID orgID) ''feature_flag'' ''manage'' of
        Inl err \<Rightarrow> (Inl (WrapInternal err), s)
      | Inr allowed \<Rightarrow>
          if \<not> allowed then (Inl forbidden_manage_flags, s)
          else if (case uf_rollout req of None \<Rightarrow> False | Some n \<Rightarrow> n < 0 \<or> 100 < n)
          then (Inl (validation_error ''rollout must be between 0 and 100''), s)
          else case flag_find_by_id E s i of
            Inl err \<Rightarrow> (Inl (if IsNotFound err then Sentinel ErrNotFound else WrapInternal err), s)
          | Inr flag \<Rightarrow>
              (let flag1 = flag_merge req flag in
               case flag_save E s flag1 of
                 (Inl err, s1) \<Rightarrow> (Inl (WrapInternal err), s1)
               | (Inr _, s1) \<Rightarrow>
                   (Inr (flag_ToResponse flag1),
                    s1\<lparr>flag_audit := log_action E (Audit userID ''update'' ''feature_flag'' (ff_id flag1)) (flag_audit s1)\<rparr>)))"

definition Flag_Delete ::
    "(flag_query, 'e) req_env_scheme \<Rightarrow> flag_state \<Rightarrow> uuid \<Rightarrow> bool \<Rightarrow> uuid \<Rightarrow> uuid \<Rightarrow> unit result \<times> flag_state" where
  "Flag_Delete E s userID hasOrgID orgID i =
     (case re_enforce E userID (resolveOrgDomain hasOrgID orgID) ''feature_flag'' ''manage'' of
        Inl err \<Rightarrow> (Inl (WrapInternal err), s)
      | Inr allowed \<Rightarrow>
          if \<not> allowed then (Inl forbidden_manage_flags, s)
          else case flag_find_by_id E s i of
            Inl err \<Rightarrow> (Inl (if IsNotFound err then Sentinel ErrNotFound else WrapInternal err), s)
          | Inr flag \<Rightarrow>
              if ff_is_system flag
              then (Inl (NewAppError ''FORBIDDEN'' ''system feature flags cannot be deleted'' 403), s)
              else case flag_soft_delete E s i of
                (Inl err, s1) \<Rightarrow> (Inl (WrapInternal err), s1)
              | (Inr _, s1) \<Rightarrow>
                  (Inr (), s1\<lparr>flag_audit := log_action E (Audit userID ''delete'' ''feature_flag'' i) (flag_audit s1)\<rparr>))"

end
