(* ===== verification/Flag_Properties.thy ===== *)
theory Flag_Properties
  imports Feature_Flag
begin

text \<open>
  The properties of feature flags: the invariant of the table under any sequence of
  administration requests, what permission they need, and the evaluation of a flag.
\<close>

type_synonym flag_env = "flag_query req_env"

section \<open>What a request does to the table\<close>

lemma resolve_cases:
  obtains "re_enforce E u d obj act = Inr True" | e where "re_enforce E u d obj act = Inl e"
    | "re_enforce E u d obj act = Inr False"
  by (cases "re_enforce E u d obj act") (auto intro: bool.exhaust)

lemmas flag_splits = sum.splits prod.splits if_splits option.splits

lemma Flag_Create_rows:
  "flags (snd (Flag_Create E s u h og req)) = flags s
   \<or> (\<exists>f. flags (snd (Flag_Create E s u h og req)) = flags s @ [f] \<and> keyRegex (ff_key f)
        \<and> 0 \<le> ff_rollout f \<and> ff_rollout f \<le> 100 \<and> flag_visible f \<and> ff_id f = re_new_id E
        \<and> (\<forall>r\<in>set (flags s). flag_visible r \<longrightarrow> ff_key r \<noteq> ff_key f))"
  by (auto simp: Flag_Create_def flag_create_def flag_default_def tbl_count_0_iff flag_visible_def Let_def
      split: flag_splits)

lemma Flag_Update_rows:
  "flags (snd (Flag_Update E s u h og i req)) = flags s
   \<or> (\<exists>f. f \<in> set (flags s) \<and> flag_visible f \<and> 0 \<le> ff_rollout (flag_merge req f) \<and> ff_rollout (flag_merge req f) \<le> 100
        \<and> flags (snd (Flag_Update E s u h og i req)) =
            tbl_update (\<lambda>r. ff_id r = ff_id f) (\<lambda>r. flag_merge req f) (flags s))"
proof -
  have id: "ff_id (flag_merge req f) = ff_id f" for f by (simp add: flag_merge_def)
  have find: "f \<in> set (flags s) \<and> flag_visible f" if "flag_find_by_id E s i = Inr f" for f
    using that by (auto simp: flag_find_by_id_def dest: tbl_first_SomeD split: flag_splits)
  show ?thesis
    by (auto simp: Flag_Update_def flag_save_def id Let_def dest: find split: flag_splits)
qed

lemma Flag_Delete_rows:
  "flags (snd (Flag_Delete E s u h og i)) = flags s
   \<or> (\<exists>f. f \<in> set (flags s) \<and> flag_visible f \<and> ff_id f = i \<and> \<not> ff_is_system f
        \<and> flags (snd (Flag_Delete E s u h og i)) = tbl_update (\<lambda>r. ff_id r = i \<and> flag_visible r)
            (\<lambda>r. r\<lparr>ff_deleted_at := Some (re_now E)\<rparr>) (flags s))"
proof -
  have find: "f \<in> set (flags s) \<and> flag_visible f \<and> ff_id f = i" if "flag_find_by_id E s i = Inr f" for f
    using that by (auto simp: flag_find_by_id_def dest: tbl_first_SomeD split: flag_splits)
  show ?thesis
    by (auto simp: Flag_Delete_def flag_soft_delete_def Let_def dest: find split: flag_splits)
qed

section \<open>The invariant of the table\<close>

definition flag_inv :: "feature_flag list \<Rightarrow> bool" where
  "flag_inv rows \<longleftrightarrow> distinct (map ff_id rows) \<and> distinct (map ff_key (filter flag_visible rows))
     \<and> list_all (\<lambda>f. keyRegex (ff_key f) \<and> 0 \<le> ff_rollout f \<and> ff_rollout f \<le> 100) rows"

inductive flag_step :: "flag_state \<Rightarrow> flag_state \<Rightarrow> bool" where
  create: "re_new_id E \<notin> ff_id ` set (flags s) \<Longrightarrow>
    flag_step s (snd (Flag_Create (E :: flag_env) s u h og req))"
| update: "flag_step s (snd (Flag_Update (E :: flag_env) s u h og i ureq))"
| delete: "flag_step s (snd (Flag_Delete (E :: flag_env) s u h og i))"

inductive flag_steps :: "flag_state \<Rightarrow> flag_state \<Rightarrow> bool" where
  stay: "flag_steps s s"
| more: "flag_steps s s' \<Longrightarrow> flag_step s' s'' \<Longrightarrow> flag_steps s s''"

text \<open>With distinct keys the row that an update names is the only one it changes.\<close>

lemma update_is_map:
  assumes "distinct (map ff_id rows)" and "f \<in> set rows"
  shows "tbl_update (\<lambda>r. ff_id r = ff_id f) (\<lambda>r. g f) rows = tbl_update (\<lambda>r. ff_id r = ff_id f) g rows"
proof -
  have "g f = g r" if "r \<in> set rows" "ff_id r = ff_id f" for r
    using assms that by (auto simp: distinct_map inj_on_def)
  then show ?thesis by (auto simp: tbl_update_def)
qed

lemma visible_update:
  assumes "\<And>r. P r \<Longrightarrow> flag_visible (g r) = flag_visible r" and "\<And>r. P r \<Longrightarrow> ff_key (g r) = ff_key r"
  shows "map ff_key (filter flag_visible (tbl_update P g rows)) = map ff_key (filter flag_visible rows)"
  using assms by (induction rows) (auto simp: tbl_update_def)

lemma flag_inv_update:
  assumes inv: "flag_inv rows" and f: "f \<in> set rows"
    and range: "0 \<le> ff_rollout (flag_merge req f)" "ff_rollout (flag_merge req f) \<le> 100"
  shows "flag_inv (tbl_update (\<lambda>r. ff_id r = ff_id f) (\<lambda>r. flag_merge req f) rows)"
proof -
  have m: "tbl_update (\<lambda>r. ff_id r = ff_id f) (\<lambda>r. flag_merge req f) rows =
      tbl_update (\<lambda>r. ff_id r = ff_id f) (flag_merge req) rows"
    using inv f by (intro update_is_map) (simp_all add: flag_inv_def)
  have "map ff_id (tbl_update (\<lambda>r. ff_id r = ff_id f) (flag_merge req) rows) = map ff_id rows"
    by (rule map_tbl_update) (simp add: flag_merge_def)
  moreover have "map ff_key (filter flag_visible (tbl_update (\<lambda>r. ff_id r = ff_id f) (flag_merge req) rows)) =
      map ff_key (filter flag_visible rows)"
    by (rule visible_update) (simp_all add: flag_merge_def flag_visible_def)
  moreover have "keyRegex (ff_key f)" using inv f by (simp add: flag_inv_def list_all_iff)
  then have "keyRegex (ff_key (flag_merge req f))" by (simp add: flag_merge_def)
  then have "list_all (\<lambda>f. keyRegex (ff_key f) \<and> 0 \<le> ff_rollout f \<and> ff_rollout f \<le> 100)
      (tbl_update (\<lambda>r. ff_id r = ff_id f) (\<lambda>r. flag_merge req f) rows)"
    using inv range by (auto simp: flag_inv_def list_all_iff set_tbl_update)
  ultimately show ?thesis using inv by (simp add: flag_inv_def m)
qed

lemma distinct_visible_delete:
  "distinct (map ff_key (filter flag_visible rows)) \<Longrightarrow>
   distinct (map ff_key (filter flag_visible (tbl_update P (\<lambda>r. r\<lparr>ff_deleted_at := Some now\<rparr>) rows)))"
proof (induction rows)
  case (Cons r rows)
  have "ff_key ` set (filter flag_visible (tbl_update P (\<lambda>r. r\<lparr>ff_deleted_at := Some now\<rparr>) rows))
      \<subseteq> ff_key ` set (filter flag_visible rows)"
    by (auto simp: tbl_update_def flag_visible_def split: if_splits)
  with Cons show ?case by (auto simp: tbl_update_def flag_visible_def split: if_splits)
qed (simp add: tbl_update_def)

lemma flag_inv_delete:
  assumes "flag_inv rows"
  shows "flag_inv (tbl_update P (\<lambda>r. r\<lparr>ff_deleted_at := Some now\<rparr>) rows)"
proof -
  have "map ff_id (tbl_update P (\<lambda>r. r\<lparr>ff_deleted_at := Some now\<rparr>) rows) = map ff_id rows"
    by (rule map_tbl_update) simp
  then show ?thesis
    using assms by (auto simp: flag_inv_def distinct_visible_delete list_all_iff set_tbl_update)
qed

lemma flag_inv_append:
  assumes "flag_inv rows" and "ff_id f \<notin> ff_id ` set rows" and "keyRegex (ff_key f)"
    and "0 \<le> ff_rollout f" "ff_rollout f \<le> 100" and "\<forall>r\<in>set rows. flag_visible r \<longrightarrow> ff_key r \<noteq> ff_key f"
  shows "flag_inv (rows @ [f])"
proof -
  have "ff_key f \<notin> ff_key ` set (filter flag_visible rows)" using assms(6) by force
  with assms(1-5) show ?thesis by (auto simp: flag_inv_def)
qed

lemma flag_step_inv:
  assumes "flag_step s s'" and "flag_inv (flags s)"
  shows "flag_inv (flags s')"
  using assms
proof (cases rule: flag_step.cases)
  case (create E u h og req)
  from Flag_Create_rows [of E s u h og req] create assms(2) show ?thesis
    by (auto simp: flag_inv_append)
next
  case (update E u h og i ureq)
  from Flag_Update_rows [of E s u h og i ureq] update assms(2) show ?thesis
    by (auto simp: flag_inv_update)
next
  case (delete E u h og i)
  from Flag_Delete_rows [of E s u h og i] delete assms(2) show ?thesis
    by (auto simp: flag_inv_delete)
qed

lemma flag_steps_inv: "flag_steps s s' \<Longrightarrow> flag_inv (flags s) \<Longrightarrow> flag_inv (flags s')"
  by (induction rule: flag_steps.induct) (auto intro: flag_step_inv)

text \<open>
  Whatever the administration requests and failures, from a table that satisfies it the
  invariant holds ever after: the keys of the flags that are not deleted are unique, every
  key has the required form and every rollout is between 0 and 100.
\<close>

theorem flag_table_invariant:
  assumes "flag_steps s s'" and "flag_inv (flags s)"
  shows "flag_inv (flags s')"
  using assms by (induction rule: flag_steps.induct) (auto intro: flag_step_inv)


definition demo_flag_env :: "bool result \<Rightarrow> flag_env" where
  "demo_flag_env answer = \<lparr>re_now = 7, re_fault = (\<lambda>q. False), re_new_id = ''id1'',
     re_audit_full = False, re_enforce = (\<lambda>sub dm obj act. answer)\<rparr>"

definition demo_flag_req :: "int \<Rightarrow> create_flag" where
  "demo_flag_req n = \<lparr>cf_key = ''dark_mode'', cf_name = ''Dark'', cf_description = [], cf_enabled = Some True,
     cf_rollout = n, cf_conditions = None\<rparr>"

definition demo_flags :: flag_state where
  "demo_flags = \<lparr>flags = [\<lparr>ff_id = ''sys'', ff_key = ''core'', ff_name = ''Core'', ff_description = [],
     ff_enabled = True, ff_rollout = 50, ff_conditions = None, ff_is_system = True, ff_created_at = 0,
     ff_deleted_at = None\<rparr>], flag_audit = []\<rparr>"

definition demo_flag_row :: feature_flag where
  "demo_flag_row = \<lparr>ff_id = ''id1'', ff_key = ''dark_mode'', ff_name = ''Dark'', ff_description = [],
     ff_enabled = True, ff_rollout = 100, ff_conditions = None, ff_is_system = False, ff_created_at = 7,
     ff_deleted_at = None\<rparr>"

lemma key_classes: "keyRegex ''dark_mode''" "keyRegex ''core''"
  by (simp_all add: key_head_def key_char_def)

lemma demo_flag_inv: "flag_inv (flags demo_flags)"
  by (simp add: flag_inv_def demo_flags_def flag_visible_def key_classes del: keyRegex.simps)

lemma demo_flag_create:
  "Flag_Create (demo_flag_env (Inr True)) demo_flags ''alice'' False [] (demo_flag_req 0) =
     (Inr (flag_ToResponse demo_flag_row), \<lparr>flags = flags demo_flags @ [demo_flag_row],
        flag_audit = [Audit ''alice'' ''create'' ''feature_flag'' ''id1'']\<rparr>)"
  by (simp add: Flag_Create_def demo_flag_env_def demo_flag_req_def flag_find_by_key_def demo_flags_def
      tbl_first_def IsNotFound_def flag_create_def flag_default_def tbl_count_def demo_flag_row_def
      log_action_def Let_def key_classes del: keyRegex.simps)

theorem flag_table_invariant_witness:
  "flag_inv (flags demo_flags @ [demo_flag_row])"
proof -
  have "flag_step demo_flags (snd (Flag_Create (demo_flag_env (Inr True)) demo_flags ''alice'' False [] (demo_flag_req 0)))"
    by (rule flag_step.create) (simp add: demo_flag_env_def demo_flags_def)
  then have "flag_steps demo_flags (snd (Flag_Create (demo_flag_env (Inr True)) demo_flags ''alice'' False [] (demo_flag_req 0)))"
    using flag_steps.stay flag_steps.more by blast
  from flag_table_invariant [OF this demo_flag_inv] show ?thesis by (simp add: demo_flag_create)
qed

text \<open>
  A system flag that is not deleted stays: no sequence of administration requests
  deletes it, changes its key or takes its mark away.
\<close>

definition system_keys :: "flag_state \<Rightarrow> (uuid \<times> string) set" where
  "system_keys s = (\<lambda>f. (ff_id f, ff_key f)) ` {f \<in> set (flags s). ff_is_system f \<and> flag_visible f}"

lemma system_keys_mono: "set (flags s) \<subseteq> set (flags s') \<Longrightarrow> system_keys s \<subseteq> system_keys s'"
  unfolding system_keys_def by blast

lemma system_keys_update:
  assumes "\<And>r. r \<in> set rows \<Longrightarrow> P r \<Longrightarrow> ff_is_system r \<Longrightarrow> flag_visible r \<Longrightarrow>
      ff_is_system (g r) \<and> flag_visible (g r) \<and> ff_id (g r) = ff_id r \<and> ff_key (g r) = ff_key r"
    and "flags s = rows" and "flags s' = tbl_update P g rows"
  shows "system_keys s \<subseteq> system_keys s'"
proof
  fix x assume "x \<in> system_keys s"
  then obtain r where r: "r \<in> set rows" "ff_is_system r" "flag_visible r" "x = (ff_id r, ff_key r)"
    using assms(2) by (auto simp: system_keys_def)
  let ?r = "if P r then g r else r"
  have "?r \<in> set (flags s')" using r(1) assms(3) tbl_updateI [of r rows P g] by simp
  moreover have "ff_is_system ?r \<and> flag_visible ?r \<and> x = (ff_id ?r, ff_key ?r)"
    using r assms(1) [of r] by auto
  ultimately show "x \<in> system_keys s'" unfolding system_keys_def by blast
qed

theorem system_flags_stay:
  assumes "flag_steps s s'" and "flag_inv (flags s)"
  shows "system_keys s \<subseteq> system_keys s'"
  using assms
proof (induction rule: flag_steps.induct)
  case (more s s' s'')
  have inv: "flag_inv (flags s')" using more by (auto intro: flag_steps_inv)
  from more.hyps(2) have "system_keys s' \<subseteq> system_keys s''"
  proof (cases rule: flag_step.cases)
    case (create E u h og req)
    from Flag_Create_rows [of E s' u h og req] have "set (flags s') \<subseteq> set (flags s'')"
      unfolding create by (elim disjE exE conjE) (simp_all add: subset_insertI)
    then show ?thesis by (rule system_keys_mono)
  next
    case (update E u h og i ureq)
    from Flag_Update_rows [of E s' u h og i ureq] show ?thesis
    proof (elim disjE exE conjE)
      fix f
      assume f: "f \<in> set (flags s')"
        and e: "flags (snd (Flag_Update E s' u h og i ureq)) =
          tbl_update (\<lambda>r. ff_id r = ff_id f) (\<lambda>r. flag_merge ureq f) (flags s')"
      then have "flags s'' = tbl_update (\<lambda>r. ff_id r = ff_id f) (flag_merge ureq) (flags s')"
        using update inv by (simp add: flag_inv_def update_is_map)
      then show ?thesis
        by (rule system_keys_update [rotated 2]) (simp_all add: flag_merge_def flag_visible_def)
    qed (simp add: update system_keys_mono)
  next
    case (delete E u h og i)
    from Flag_Delete_rows [of E s' u h og i] show ?thesis
    proof (elim disjE exE conjE)
      fix f
      assume f: "f \<in> set (flags s')" "ff_id f = i" "\<not> ff_is_system f"
        and e: "flags (snd (Flag_Delete E s' u h og i)) = tbl_update (\<lambda>r. ff_id r = i \<and> flag_visible r)
            (\<lambda>r. r\<lparr>ff_deleted_at := Some (re_now E)\<rparr>) (flags s')"
      have "r = f" if "r \<in> set (flags s')" "ff_id r = i" for r
        using inv f that by (auto simp: flag_inv_def distinct_map inj_on_def)
      then have "\<not> ff_is_system r" if "r \<in> set (flags s')" "ff_id r = i" for r
        using f(3) that by blast
      moreover have "flags s'' = tbl_update (\<lambda>r. ff_id r = i \<and> flag_visible r)
            (\<lambda>r. r\<lparr>ff_deleted_at := Some (re_now E)\<rparr>) (flags s')"
        using e delete by simp
      ultimately show ?thesis
        by (intro system_keys_update [where rows = "flags s'" and P = "\<lambda>r. ff_id r = i \<and> flag_visible r"]) simp_all
    qed (simp add: delete system_keys_mono)
  qed
  with more show ?case by auto
qed simp


theorem system_flags_stay_witness:
  "(''sys'', ''core'') \<in> system_keys (snd (Flag_Delete (demo_flag_env (Inr True)) demo_flags ''alice'' False [] ''sys''))"
proof (rule subsetD)
  show "system_keys demo_flags
      \<subseteq> system_keys (snd (Flag_Delete (demo_flag_env (Inr True)) demo_flags ''alice'' False [] ''sys''))"
    by (rule system_flags_stay [OF flag_steps.more [OF flag_steps.stay flag_step.delete] demo_flag_inv])
  show "(''sys'', ''core'') \<in> system_keys demo_flags"
    unfolding system_keys_def
    by (rule image_eqI [where x = "hd (flags demo_flags)"]) (simp_all add: demo_flags_def flag_visible_def)
qed

section \<open>Permission\<close>

text \<open>The administration requests as one handler, so that sequences of them can be stated.\<close>

datatype flag_request = FCreate create_flag | FUpdate uuid update_flag | FDelete uuid

fun flag_run :: "flag_env \<Rightarrow> flag_state \<Rightarrow> uuid \<times> bool \<times> uuid \<times> flag_request \<Rightarrow> unit result \<times> flag_state" where
  "flag_run E s (u, h, og, FCreate req) = forget (Flag_Create E s u h og req)"
| "flag_run E s (u, h, og, FUpdate i req) = forget (Flag_Update E s u h og i req)"
| "flag_run E s (u, h, og, FDelete i) = Flag_Delete E s u h og i"

fun flag_granted :: "flag_env \<Rightarrow> flag_state \<Rightarrow> uuid \<times> bool \<times> uuid \<times> flag_request \<Rightarrow> bool" where
  "flag_granted E s (u, h, og, req) =
     (re_enforce E u (resolveOrgDomain h og) ''feature_flag'' ''manage'' = Inr True)"

interpretation flag_admin: guarded flag_run flag_granted
proof
  fix E s r
  assume denied: "\<not> flag_granted E s r"
  obtain u h og req where "r = (u, h, og, req)" by (metis prod_cases4)
  with denied show "\<exists>e. flag_run E s r = (Inl e, s)"
    by (cases req) (auto simp: Flag_Create_def Flag_Update_def Flag_Delete_def split: sum.splits)
qed

text \<open>
  Whatever requests users without the manage permission send, in any order and with any
  failures, the flags and the audit log stay as they are.
\<close>

theorem flag_admin_needs_permission:
  assumes "\<And>E u h og req. (E, (u, h, og, req)) \<in> set rs \<Longrightarrow>
      re_enforce E u (resolveOrgDomain h og) ''feature_flag'' ''manage'' \<noteq> Inr True"
  shows "foldl (\<lambda>s (E, r). snd (flag_run E s r)) s rs = s"
  by (rule flag_admin.refused_sequence) (auto dest: assms)

theorem flag_admin_needs_permission_witness:
  "foldl (\<lambda>s (E, r). snd (flag_run E s r)) demo_flags
     [(demo_flag_env (Inr False), (''eve'', False, [], FCreate (demo_flag_req 5))),
      (demo_flag_env (Inl db_error), (''eve'', False, [], FDelete ''sys''))] = demo_flags"
  by (rule flag_admin_needs_permission) (auto simp: demo_flag_env_def)

section \<open>Evaluation\<close>

lemma rollout_word: "0 < n \<Longrightarrow> n < 100 \<Longrightarrow> uint (word_of_int n :: 32 word) = n"
  by (simp add: uint_word_of_int)

text \<open>
  Raising the rollout of a flag takes it away from nobody: who had it keeps it, at any
  percentage above.
\<close>

theorem rollout_monotone:
  assumes "fe_enabled (evaluateFlag f u h og)" and "ff_rollout f \<le> n"
  shows "fe_enabled (evaluateFlag (f\<lparr>ff_rollout := n\<rparr>) u h og)"
proof -
  have cond: "evaluateConditions (f\<lparr>ff_rollout := n\<rparr>) u og = evaluateConditions f u og"
    by (simp add: evaluateConditions_def)
  show ?thesis
    using assms
    by (auto simp: evaluateFlag_def Let_def cond word_less_def rollout_word split: if_splits)
qed

theorem rollout_monotone_witness:
  "fe_enabled (evaluateFlag (demo_flag_row\<lparr>ff_rollout := 60\<rparr>) ''alice'' False [])"
proof -
  have "fe_enabled (evaluateFlag (demo_flag_row\<lparr>ff_rollout := 50\<rparr>) ''alice'' False [])"
    by (simp add: demo_flag_row_def) code_simp
  from rollout_monotone [OF this, of 60] show ?thesis by simp
qed

text \<open>
  The two evaluations agree: for a user without an organization \<open>IsEnabled\<close> answers
  what \<open>IsEnabledWithReason\<close> reports, and false where it reports an error.
\<close>

theorem is_enabled_agrees:
  "IsEnabled E s key u =
    (case IsEnabledWithReason E s u h uuid_nil key of Inl _ \<Rightarrow> False | Inr ev \<Rightarrow> fe_enabled ev)"
proof -
  have "ff_key f = key" if "flag_find_by_key E s key = Inr f" for f
    using that by (auto simp: flag_find_by_key_def dest: tbl_first_SomeD split: flag_splits)
  then show ?thesis
    by (auto simp: IsEnabled_def IsEnabledWithReason_def evaluateFlag_def Let_def split: sum.split)
qed

text \<open>
  A flag created with rollout 0 is stored with rollout 100: the column's default
  replaces the zero value. A flag that is created enabled for nobody is on for everybody.
\<close>

theorem zero_rollout_is_full:
  assumes "Flag_Create E s u h og req = (Inr resp, s')" and "cf_rollout req = 0"
    and "cf_enabled req = Some True" and "cf_conditions req = None"
    and "\<And>q. \<not> re_fault E' q"
  shows "fr_rollout resp = 100 \<and> IsEnabled E' s' (cf_key req) anyone"
proof -
  obtain f where f: "flags s' = flags s @ [f]" "ff_key f = cf_key req" "ff_enabled f" "ff_rollout f = 100"
      "ff_conditions f = None" "ff_deleted_at f = None" "fr_rollout resp = 100"
    and "tbl_count (\<lambda>r. ff_key r = cf_key req \<and> flag_visible r) (flags s) = 0"
    using assms(1-4)
    by (auto simp: Flag_Create_def flag_create_def flag_default_def flag_ToResponse_def Let_def split: flag_splits)
  then have no: "\<forall>r\<in>set (flags s). flag_visible r \<longrightarrow> ff_key r \<noteq> cf_key req"
    by (auto simp: tbl_count_0_iff)
  have "tbl_first (\<lambda>r. ff_key r = cf_key req \<and> flag_visible r) (flags s') = Some f"
    using no f(2,6) unfolding f(1) tbl_first_append
    by (auto simp: tbl_first_Cons flag_visible_def split: option.splits dest: tbl_first_SomeD)
  then have "flag_find_by_key E' s' (cf_key req) = Inr f"
    using assms(5) by (simp add: flag_find_by_key_def)
  with f show ?thesis by (simp add: IsEnabled_def evaluateConditions_def)
qed

theorem zero_rollout_is_full_witness:
  "IsEnabled (demo_flag_env (Inr False)) \<lparr>flags = flags demo_flags @ [demo_flag_row],
     flag_audit = [Audit ''alice'' ''create'' ''feature_flag'' ''id1'']\<rparr> ''dark_mode'' ''bob''"
  using zero_rollout_is_full [OF demo_flag_create, of "demo_flag_env (Inr False)" "''bob''"]
  by (simp add: demo_flag_req_def demo_flag_env_def)

end
