(* ===== verification/Ssrf.thy ===== *)
theory Ssrf
  imports Prelude "HOL-Library.Word"
begin

text \<open>
  Server-side request forgery protection: the configuration (\<open>ssrf/config.go\<close> and
  \<open>config/ssrf.go\<close>), the validator (\<open>ssrf/validator.go\<close>) and the dialer of the HTTP
  client (\<open>ssrf/transport.go\<close>).

  An address is what \<open>net.IP\<close> is, four or sixteen bytes: a 32-bit or a 128-bit word. The
  functions of the \<open>net\<close> package that the code calls are written out; DNS is a parameter.
\<close>

section \<open>Addresses and networks (package net)\<close>

datatype ip = IP4 "32 word" | IP16 "128 word"

datatype ipnet = Net4 "32 word" nat | Net16 "128 word" nat

definition mapped :: "32 word \<Rightarrow> 128 word" where
  "mapped a = word_of_nat (65535 * 2 ^ 32 + unat a)"

definition To4 :: "ip \<Rightarrow> 32 word option" where
  "To4 x =
     (case x of
        IP4 a \<Rightarrow> Some a
      | IP16 w \<Rightarrow> if unat w div 2 ^ 32 = 65535 then Some (word_of_nat (unat w)) else None)"

text \<open>The first \<open>n\<close> bits of two words agree.\<close>

definition same_prefix :: "nat \<Rightarrow> nat \<Rightarrow> 'a::len word \<Rightarrow> 'a word \<Rightarrow> bool" where
  "same_prefix bits n a b = (unat a div 2 ^ (bits - n) = unat b div 2 ^ (bits - n))"

text \<open>
  \<open>IPNet.Contains\<close>: both the address and the network are reduced to four bytes where they
  are mapped IPv4 addresses; lengths that differ do not match.
\<close>

definition net_canon :: "ipnet \<Rightarrow> ipnet" where
  "net_canon n =
     (case n of
        Net4 a p \<Rightarrow> Net4 a p
      | Net16 a p \<Rightarrow> (case To4 (IP16 a) of Some a4 \<Rightarrow> Net4 a4 (p - 96) | None \<Rightarrow> Net16 a p))"

definition net_contains :: "ipnet \<Rightarrow> ip \<Rightarrow> bool" where
  "net_contains n x =
     (case (net_canon n, To4 x) of
        (Net4 a p, Some b) \<Rightarrow> same_prefix 32 p a b
      | (Net16 a p, None) \<Rightarrow> (case x of IP16 b \<Rightarrow> same_prefix 128 p a b | IP4 _ \<Rightarrow> False)
      | _ \<Rightarrow> False)"

text \<open>The classification methods of \<open>net.IP\<close>, by the leading bytes.\<close>

definition top4 :: "nat \<Rightarrow> 32 word \<Rightarrow> nat" where
  "top4 n a = unat a div 2 ^ (32 - n)"

definition top16 :: "nat \<Rightarrow> 128 word \<Rightarrow> nat" where
  "top16 n a = unat a div 2 ^ (128 - n)"

definition IsLoopback :: "ip \<Rightarrow> bool" where
  "IsLoopback x = (case To4 x of Some a \<Rightarrow> top4 8 a = 127
                   | None \<Rightarrow> (case x of IP16 w \<Rightarrow> w = 1 | IP4 _ \<Rightarrow> False))"

definition IsPrivate :: "ip \<Rightarrow> bool" where
  "IsPrivate x = (case To4 x of
       Some a \<Rightarrow> top4 8 a = 10 \<or> top4 12 a = 172 * 16 + 1 \<or> top4 16 a = 192 * 256 + 168
     | None \<Rightarrow> (case x of IP16 w \<Rightarrow> top16 7 w = 126 | IP4 _ \<Rightarrow> False))"

definition IsLinkLocalUnicast :: "ip \<Rightarrow> bool" where
  "IsLinkLocalUnicast x = (case To4 x of
       Some a \<Rightarrow> top4 16 a = 169 * 256 + 254
     | None \<Rightarrow> (case x of IP16 w \<Rightarrow> top16 10 w = 1018 | IP4 _ \<Rightarrow> False))"

definition IsLinkLocalMulticast :: "ip \<Rightarrow> bool" where
  "IsLinkLocalMulticast x = (case To4 x of
       Some a \<Rightarrow> top4 24 a = 224 * 65536
     | None \<Rightarrow> (case x of IP16 w \<Rightarrow> top16 8 w = 255 \<and> top16 16 w mod 16 = 2 | IP4 _ \<Rightarrow> False))"

section \<open>Text of addresses and networks (net.ParseIP, net.ParseCIDR)\<close>

definition digit_val :: "char \<Rightarrow> nat option" where
  "digit_val c = (let n = (of_char c :: nat) in if 48 \<le> n \<and> n \<le> 57 then Some (n - 48) else None)"

definition hex_val :: "char \<Rightarrow> nat option" where
  "hex_val c = (let n = (of_char c :: nat) in
     if 48 \<le> n \<and> n \<le> 57 then Some (n - 48)
     else if 97 \<le> n \<and> n \<le> 102 then Some (n - 87)
     else if 65 \<le> n \<and> n \<le> 70 then Some (n - 55) else None)"

fun parse_base :: "nat \<Rightarrow> (char \<Rightarrow> nat option) \<Rightarrow> nat \<Rightarrow> string \<Rightarrow> nat option" where
  "parse_base b val acc [] = Some acc"
| "parse_base b val acc (c # cs) =
     (case val c of None \<Rightarrow> None | Some d \<Rightarrow> parse_base b val (acc * b + d) cs)"

definition parse_octet :: "string \<Rightarrow> nat option" where
  "parse_octet s =
     (if s = [] \<or> 3 < length s \<or> (1 < length s \<and> hd s = CHR ''0'') then None
      else case parse_base 10 digit_val 0 s of
        None \<Rightarrow> None | Some n \<Rightarrow> if n \<le> 255 then Some n else None)"

definition parse_ip4 :: "string \<Rightarrow> nat option" where
  "parse_ip4 s =
     (case map parse_octet (str_split CHR ''.'' s) of
        [Some a, Some b, Some c, Some d] \<Rightarrow> Some (((a * 256 + b) * 256 + c) * 256 + d)
      | _ \<Rightarrow> None)"

text \<open>Fields of an IPv6 address; the last may be a dotted quad and then counts for two.\<close>

fun parse_fields :: "bool \<Rightarrow> string list \<Rightarrow> nat list option" where
  "parse_fields quad [] = Some []"
| "parse_fields quad (f # fs) =
     (case (if f = [] \<or> 4 < length f then None else parse_base 16 hex_val 0 f) of
        Some n \<Rightarrow> map_option (\<lambda>ns. n # ns) (parse_fields quad fs)
      | None \<Rightarrow>
          if quad \<and> fs = [] then
            (case parse_ip4 f of None \<Rightarrow> None | Some a \<Rightarrow> Some [a div 65536, a mod 65536])
          else None)"

fun split_ellipsis :: "string \<Rightarrow> (string \<times> string) option" where
  "split_ellipsis (c # d # s) =
     (if c = CHR '':'' \<and> d = CHR '':'' then Some ([], s)
      else map_option (\<lambda>(l, r). (c # l, r)) (split_ellipsis (d # s)))"
| "split_ellipsis s = None"

definition fields_value :: "nat list \<Rightarrow> nat" where
  "fields_value ns = foldl (\<lambda>acc n. acc * 65536 + n) 0 ns"

definition side_fields :: "bool \<Rightarrow> string \<Rightarrow> nat list option" where
  "side_fields quad s = (if s = [] then Some [] else parse_fields quad (str_split CHR '':'' s))"

definition parse_ip6 :: "string \<Rightarrow> nat option" where
  "parse_ip6 s =
     (case split_ellipsis s of
        None \<Rightarrow>
          (case parse_fields True (str_split CHR '':'' s) of
             None \<Rightarrow> None | Some ns \<Rightarrow> if length ns = 8 then Some (fields_value ns) else None)
      | Some (l, r) \<Rightarrow>
          (case (side_fields False l, side_fields True r) of
             (Some ls, Some rs) \<Rightarrow>
               if length ls + length rs \<le> 7
               then Some (fields_value (ls @ replicate (8 - length ls - length rs) 0 @ rs)) else None
           | _ \<Rightarrow> None))"

text \<open>\<open>net.ParseIP\<close> returns the sixteen-byte form for both kinds.\<close>

definition ParseIP :: "string \<Rightarrow> ip option" where
  "ParseIP s =
     (if CHR '':'' \<in> set s then map_option (\<lambda>n. IP16 (word_of_nat n)) (parse_ip6 s)
      else map_option (\<lambda>n. IP16 (mapped (word_of_nat n))) (parse_ip4 s))"

definition ParseCIDR :: "string \<Rightarrow> ipnet option" where
  "ParseCIDR s =
     (case str_split CHR ''/'' s of
        [addr, len] \<Rightarrow>
          (case (if len = [] then None else parse_base 10 digit_val 0 len) of
             None \<Rightarrow> None
           | Some n \<Rightarrow>
               if CHR '':'' \<in> set addr then
                 (case parse_ip6 addr of
                    None \<Rightarrow> None | Some a \<Rightarrow> if n \<le> 128 then Some (Net16 (word_of_nat a) n) else None)
               else
                 (case parse_ip4 addr of
                    None \<Rightarrow> None | Some a \<Rightarrow> if n \<le> 32 then Some (Net4 (word_of_nat a) n) else None))
      | _ \<Rightarrow> None)"

text \<open>\<open>net.SplitHostPort\<close>.\<close>

definition last_colon :: "string \<Rightarrow> (string \<times> string) option" where
  "last_colon s =
     (if CHR '':'' \<in> set s
      then Some (rev (tl (dropWhile (\<lambda>c. c \<noteq> CHR '':'') (rev s))), rev (takeWhile (\<lambda>c. c \<noteq> CHR '':'') (rev s)))
      else None)"

definition SplitHostPort :: "string \<Rightarrow> (string \<times> string) option" where
  "SplitHostPort s =
     (case last_colon s of
        None \<Rightarrow> None
      | Some (before, port) \<Rightarrow>
          if CHR ''['' \<in> set port \<or> CHR '']'' \<in> set port then None
          else if s \<noteq> [] \<and> hd s = CHR ''['' then
            (let host = takeWhile (\<lambda>c. c \<noteq> CHR '']'') (tl s)
             in if before = CHR ''['' # host @ '']'' \<and> CHR ''['' \<notin> set host then Some (host, port) else None)
          else if CHR '':'' \<in> set before \<or> CHR ''['' \<in> set before \<or> CHR '']'' \<in> set before then None
          else Some (before, port))"

section \<open>Configuration (ssrf/config.go)\<close>

record ssrf_config =
  sc_allow_private :: bool
  sc_schemes :: "string list"
  sc_blocked_hosts :: "string list"
  sc_blocked_cidrs :: "string list"
  sc_allowed_cidrs :: "string list"
  sc_timeout :: duration
  sc_blocked_nets :: "ipnet list"
  sc_allowed_nets :: "ipnet list"
  sc_hosts_normalized :: "string list"

definition normalizeHosts :: "string list \<Rightarrow> string list" where
  "normalizeHosts hosts = map (\<lambda>h. to_lower (trim_space h)) hosts"

fun parseCIDRList :: "string list \<Rightarrow> ipnet list result" where
  "parseCIDRList [] = Inr []"
| "parseCIDRList (cidr # rest) =
     (case ParseCIDR cidr of
        None \<Rightarrow> Inl (Opaque (''invalid CIDR address: '' @ cidr))
      | Some n \<Rightarrow> (case parseCIDRList rest of Inl e \<Rightarrow> Inl e | Inr ns \<Rightarrow> Inr (n # ns)))"

text \<open>\<open>parseCIDRs\<close> assigns each field also when the list does not parse, then to nil.\<close>

definition parseCIDRs :: "ssrf_config \<Rightarrow> unit result \<times> ssrf_config" where
  "parseCIDRs c =
     (case parseCIDRList (sc_blocked_cidrs c) of
        Inl e \<Rightarrow> (Inl e, c\<lparr>sc_blocked_nets := []\<rparr>)
      | Inr blocked \<Rightarrow>
          (let c1 = c\<lparr>sc_blocked_nets := blocked\<rparr> in
           case parseCIDRList (sc_allowed_cidrs c1) of
             Inl e \<Rightarrow> (Inl e, c1\<lparr>sc_allowed_nets := []\<rparr>)
           | Inr allowed \<Rightarrow> (Inr (), c1\<lparr>sc_allowed_nets := allowed\<rparr>)))"

definition default_hosts :: "string list" where
  "default_hosts = [''metadata.internal'', ''metadata.google.internal'', ''instance-data.ec2.internal'']"

definition default_cidrs :: "string list" where
  "default_cidrs = [''127.0.0.0/8'', ''::1/128'', ''10.0.0.0/8'', ''172.16.0.0/12'', ''192.168.0.0/16'',
     ''169.254.0.0/16'', ''fe80::/10'', ''169.254.169.254/32'', ''100.64.0.0/10'', ''0.0.0.0/8'', ''::/128'']"

text \<open>\<open>DefaultSSRFConfig\<close>; \<open>None\<close> is the panic on a default that does not parse.\<close>

definition DefaultSSRFConfig :: "ssrf_config option" where
  "DefaultSSRFConfig =
     (let cfg = \<lparr>sc_allow_private = False, sc_schemes = [''https''], sc_blocked_hosts = default_hosts,
            sc_blocked_cidrs = default_cidrs, sc_allowed_cidrs = [], sc_timeout = 30 * second,
            sc_blocked_nets = [], sc_allowed_nets = [], sc_hosts_normalized = []\<rparr>
      in case parseCIDRs cfg of
           (Inl _, _) \<Rightarrow> None
         | (Inr _, cfg1) \<Rightarrow> Some (cfg1\<lparr>sc_hosts_normalized := normalizeHosts (sc_blocked_hosts cfg1)\<rparr>))"

section \<open>Validator (ssrf/validator.go)\<close>

definition normalizeIP :: "ip \<Rightarrow> ip" where
  "normalizeIP x = (case To4 x of Some a \<Rightarrow> IP4 a | None \<Rightarrow> x)"

definition IsBlockedIP :: "ssrf_config \<Rightarrow> ip \<Rightarrow> bool" where
  "IsBlockedIP cfg ip0 =
     (if sc_allow_private cfg then False
      else let x = normalizeIP ip0 in
        if list_ex (\<lambda>n. net_contains n x) (sc_allowed_nets cfg) then False
        else if IsLoopback x then True
        else if IsPrivate x then True
        else if IsLinkLocalUnicast x then True
        else if IsLinkLocalMulticast x then True
        else list_ex (\<lambda>n. net_contains n x) (sc_blocked_nets cfg))"

definition IsBlockedHost :: "ssrf_config \<Rightarrow> string \<Rightarrow> bool" where
  "IsBlockedHost cfg host =
     (let lowerHost = to_lower (trim_space host)
      in list_ex (\<lambda>blocked. lowerHost = blocked \<or> has_suffix lowerHost (''.'' @ blocked)) (sc_hosts_normalized cfg))"

definition IsAllowedScheme :: "ssrf_config \<Rightarrow> string \<Rightarrow> bool" where
  "IsAllowedScheme cfg scheme =
     (let lowerScheme = to_lower scheme in list_ex (\<lambda>a. to_lower a = lowerScheme) (sc_schemes cfg))"

text \<open>
  The URL is what \<open>url.Parse\<close> gives: its scheme and its \<open>Hostname()\<close>, or \<open>None\<close> for an
  error. \<open>lookup\<close> is DNS: the addresses of a name, or \<open>None\<close> for an error.
\<close>

type_synonym dns = "string \<Rightarrow> ip list option"

definition ValidateURL :: "ssrf_config \<Rightarrow> dns \<Rightarrow> (string \<times> string) option \<Rightarrow> unit result" where
  "ValidateURL cfg lookup url =
     (case url of
        None \<Rightarrow> Inl (Opaque ''invalid URL'')
      | Some (scheme, host) \<Rightarrow>
          if \<not> IsAllowedScheme cfg scheme then Inl (Opaque ''URL scheme is not allowed'')
          else if host = [] then Inl (Opaque ''URL must have a valid host'')
          else if IsBlockedHost cfg host then Inl (Opaque ''URL hostname is blocked'')
          else case (case lookup host of
                       Some ips \<Rightarrow> Some ips
                     | None \<Rightarrow> map_option (\<lambda>x. [x]) (ParseIP host)) of
            None \<Rightarrow> Inl (Opaque ''unable to resolve URL host'')
          | Some ips \<Rightarrow>
              if list_ex (IsBlockedIP cfg) ips then Inl (Opaque ''URL resolves to a blocked IP address'')
              else Inr ())"

section \<open>Client (ssrf/transport.go)\<close>

text \<open>
  The address that is dialed, or the error. \<open>ip.String()\<close> writes a mapped address as the
  IPv4 address it is, so the dialed address is the normalized one. An empty answer of the
  resolver would be an index panic.
\<close>

definition ssrfDialContext :: "ssrf_config \<Rightarrow> dns \<Rightarrow> string \<Rightarrow> (ip \<times> string) result" where
  "ssrfDialContext cfg lookup addr =
     (case SplitHostPort addr of
        None \<Rightarrow> Inl (Opaque ''ssrf: invalid address format'')
      | Some (host, port) \<Rightarrow>
          (case ParseIP host of
             Some x \<Rightarrow>
               if IsBlockedIP cfg x then Inl (Opaque ''ssrf: blocked IP'')
               else Inr (normalizeIP x, port)
           | None \<Rightarrow>
               (case lookup host of
                  None \<Rightarrow> Inl (Opaque ''ssrf: DNS resolution failed'')
                | Some ips \<Rightarrow>
                    if list_ex (IsBlockedIP cfg) ips
                    then Inl (Opaque ''ssrf: hostname resolves to blocked IP'')
                    else (case ips of
                            [] \<Rightarrow> Inl (Opaque ''panic: index out of range'')
                          | x # _ \<Rightarrow> Inr (normalizeIP x, port)))))"

definition CheckRedirect :: "nat \<Rightarrow> unit result" where
  "CheckRedirect via = (if via \<ge> 10 then Inl (Opaque ''ssrf: too many redirects'') else Inr ())"

text \<open>
  A request of the client of \<open>NewClient\<close> that is answered by redirects: the hops are the
  addresses in their order, each with the answers that DNS gives at that time. The result
  lists the addresses that were dialed.
\<close>

fun client_follow :: "ssrf_config \<Rightarrow> (string \<times> dns) list \<Rightarrow> nat \<Rightarrow> (ip \<times> string) list \<times> unit result" where
  "client_follow cfg [] via = ([], Inr ())"
| "client_follow cfg ((addr, lookup) # hops) via =
     (case (if via = 0 then Inr () else CheckRedirect via) of
        Inl e \<Rightarrow> ([], Inl e)
      | Inr _ \<Rightarrow>
          (case ssrfDialContext cfg lookup addr of
             Inl e \<Rightarrow> ([], Inl e)
           | Inr d \<Rightarrow> (case client_follow cfg hops (via + 1) of (ds, r) \<Rightarrow> (d # ds, r))))"

section \<open>The application's configuration (config/ssrf.go)\<close>

record app_ssrf_config =
  as_allow_private :: bool
  as_schemes :: "string list"
  as_blocked_hosts :: "string list"
  as_blocked_cidrs :: "string list"
  as_allowed_cidrs :: "string list"
  as_timeout :: duration

definition app_default_ssrf :: app_ssrf_config where
  "app_default_ssrf = \<lparr>as_allow_private = False, as_schemes = [''https''], as_blocked_hosts = default_hosts,
     as_blocked_cidrs = default_cidrs, as_allowed_cidrs = [], as_timeout = 30 * second\<rparr>"

definition ToInternal :: "app_ssrf_config \<Rightarrow> ssrf_config" where
  "ToInternal c = \<lparr>sc_allow_private = as_allow_private c, sc_schemes = as_schemes c,
     sc_blocked_hosts = as_blocked_hosts c, sc_blocked_cidrs = as_blocked_cidrs c,
     sc_allowed_cidrs = as_allowed_cidrs c, sc_timeout = as_timeout c,
     sc_blocked_nets = [], sc_allowed_nets = [], sc_hosts_normalized = []\<rparr>"

text \<open>
  Viper (third party) as two lookups, a boolean and a string, the string empty when the key
  is not set; \<open>dur\<close> is \<open>time.ParseDuration\<close>. \<open>with_defaults\<close> are the \<open>SetDefault\<close> calls
  of \<open>config.go\<close> for these keys.
\<close>

definition comma_list :: "string \<Rightarrow> string list" where
  "comma_list s = map trim_space (str_split CHR '','' s)"

definition parseSSRFConfig ::
    "(string \<Rightarrow> bool) \<Rightarrow> (string \<Rightarrow> string) \<Rightarrow> (string \<Rightarrow> duration option) \<Rightarrow> app_ssrf_config result" where
  "parseSSRFConfig v_bool v_string dur =
     (let c0 = app_default_ssrf\<lparr>as_allow_private := v_bool ''ssrf.allow_private_ips''\<rparr>;
          c1 = (if v_bool ''webhook.allow_http'' then c0\<lparr>as_schemes := [''https'', ''http'']\<rparr> else c0);
          c2 = (if v_string ''ssrf.allowed_schemes'' \<noteq> []
                then c1\<lparr>as_schemes := comma_list (v_string ''ssrf.allowed_schemes'')\<rparr> else c1);
          c3 = (if v_string ''ssrf.blocked_hosts'' \<noteq> []
                then c2\<lparr>as_blocked_hosts := comma_list (v_string ''ssrf.blocked_hosts'')\<rparr> else c2);
          c4 = (if v_string ''ssrf.blocked_cidrs'' \<noteq> []
                then c3\<lparr>as_blocked_cidrs := comma_list (v_string ''ssrf.blocked_cidrs'')\<rparr> else c3);
          c5 = (if v_string ''ssrf.allowed_cidrs'' \<noteq> []
                then c4\<lparr>as_allowed_cidrs := comma_list (v_string ''ssrf.allowed_cidrs'')\<rparr> else c4)
      in case (if v_string ''ssrf.timeout'' \<noteq> []
               then (case dur (v_string ''ssrf.timeout'') of
                       None \<Rightarrow> Inl (Opaque ''invalid ssrf.timeout'')
                     | Some d \<Rightarrow> Inr (c5\<lparr>as_timeout := d\<rparr>))
               else Inr c5) of
           Inl e \<Rightarrow> Inl e
         | Inr c6 \<Rightarrow>
             (case fst (parseCIDRs (ToInternal c6)) of
                Inl e \<Rightarrow> Inl (Opaque (''invalid SSRF CIDR configuration: '' @ error_text e))
              | Inr _ \<Rightarrow> Inr c6))"

definition with_defaults :: "(string \<Rightarrow> string option) \<Rightarrow> string \<Rightarrow> string" where
  "with_defaults set_keys key =
     (case set_keys key of
        Some s \<Rightarrow> s
      | None \<Rightarrow>
          if key = ''ssrf.allowed_schemes'' then ''https''
          else if key = ''ssrf.blocked_hosts'' then ''metadata.internal,metadata.google.internal,instance-data.ec2.internal''
          else if key = ''ssrf.timeout'' then ''30s''
          else [])"

end
