(* ===== verification/Ssrf_Properties.thy ===== *)
theory Ssrf_Properties
  imports Ssrf
begin

text \<open>
  The properties of the SSRF protection: what the default configuration blocks, that a
  mapped address is treated as the IPv4 address it is, that the client dials only addresses
  that pass the check, and what becomes of the protection in the configuration that the
  application builds.
\<close>

section \<open>Prefixes as ranges\<close>

lemma div_eq_range: "0 < m \<Longrightarrow> (x::nat) div m = k \<longleftrightarrow> k * m \<le> x \<and> x < (k + 1) * m"
proof -
  assume "0 < m"
  then have "k \<le> x div m \<longleftrightarrow> k * m \<le> x" "x div m < k + 1 \<longleftrightarrow> x < (k + 1) * m"
    by (simp_all add: less_eq_div_iff_mult_less_eq div_less_iff_less_mult)
  then show ?thesis by linarith
qed

lemma unat_lt32: "unat (a :: 32 word) < 2 ^ 32"
proof -
  have "unat a < 2 ^ LENGTH(32)" by (rule unsigned_less)
  then show ?thesis by simp
qed

lemma unat_mapped: "unat (mapped a) = 65535 * 2 ^ 32 + unat a"
proof -
  have "65535 * 2 ^ 32 + unat a < 2 ^ 128" using unat_lt32 [of a] by simp
  then have "take_bit 128 (65535 * 2 ^ 32 + unat a) = 65535 * 2 ^ 32 + unat a" by (rule take_bit_nat_eq_self)
  then show ?thesis unfolding mapped_def unsigned_of_nat by simp
qed

lemma To4_mapped [simp]: "To4 (IP16 (mapped a)) = Some a"
proof -
  have "unat a < 2 ^ 32" by (rule unat_lt32)
  moreover have "word_of_nat (65535 * 2 ^ 32 + unat a) = a"
  proof -
    have "word_of_nat (65535 * 2 ^ 32) = (0 :: 32 word)" by simp
    then show ?thesis by (simp only: of_nat_add) simp
  qed
  ultimately show ?thesis by (simp add: To4_def unat_mapped)
qed

lemma To4_IP4 [simp]: "To4 (IP4 a) = Some a"
  by (simp add: To4_def)

lemma normalizeIP_twice [simp]: "normalizeIP (normalizeIP x) = normalizeIP x"
  by (auto simp: normalizeIP_def split: option.splits)

lemma IsBlockedIP_normalize [simp]: "IsBlockedIP cfg (normalizeIP x) = IsBlockedIP cfg x"
  by (simp add: IsBlockedIP_def)

text \<open>
  A mapped IPv4 address \<open>::ffff:a.b.c.d\<close> is blocked under a configuration exactly when
  \<open>a.b.c.d\<close> is.
\<close>

theorem mapped_address_same_verdict: "IsBlockedIP cfg (IP16 (mapped a)) = IsBlockedIP cfg (IP4 a)"
  by (simp add: IsBlockedIP_def normalizeIP_def)

section \<open>The default configuration\<close>

definition default_cfg :: ssrf_config where
  "default_cfg = \<lparr>sc_allow_private = False, sc_schemes = [''https''], sc_blocked_hosts = default_hosts,
     sc_blocked_cidrs = default_cidrs, sc_allowed_cidrs = [], sc_timeout = 30 * second,
     sc_blocked_nets = [Net4 2130706432 8, Net16 1 128, Net4 167772160 8, Net4 2886729728 12, Net4 3232235520 16,
       Net4 2851995648 16, Net16 338288524927261089654018896841347694592 10, Net4 2852039166 32,
       Net4 1681915904 10, Net4 0 8, Net16 0 128],
     sc_allowed_nets = [], sc_hosts_normalized = default_hosts\<rparr>"

lemmas parse_defs = ParseCIDR_def parse_ip4_def parse_octet_def digit_val_def hex_val_def parse_ip6_def
  side_fields_def fields_value_def

lemma default_cidrs_parse:
  "ParseCIDR ''127.0.0.0/8'' = Some (Net4 2130706432 8)" "ParseCIDR ''10.0.0.0/8'' = Some (Net4 167772160 8)"
  "ParseCIDR ''172.16.0.0/12'' = Some (Net4 2886729728 12)" "ParseCIDR ''192.168.0.0/16'' = Some (Net4 3232235520 16)"
  "ParseCIDR ''169.254.0.0/16'' = Some (Net4 2851995648 16)"
  "ParseCIDR ''169.254.169.254/32'' = Some (Net4 2852039166 32)"
  "ParseCIDR ''100.64.0.0/10'' = Some (Net4 1681915904 10)" "ParseCIDR ''0.0.0.0/8'' = Some (Net4 0 8)"
  by (simp_all add: parse_defs)

lemma zero_fields: "replicate 7 (0::nat) = [0,0,0,0,0,0,0]" "replicate 8 (0::nat) = [0,0,0,0,0,0,0,0]"
  by (simp_all add: eval_nat_numeral)

lemma default_cidrs6_parse:
  "ParseCIDR ''::1/128'' = Some (Net16 1 128)" "ParseCIDR ''::/128'' = Some (Net16 0 128)"
  "ParseCIDR ''fe80::/10'' = Some (Net16 338288524927261089654018896841347694592 10)"
  by (simp_all add: parse_defs zero_fields)

lemma default_hosts_normal: "normalizeHosts default_hosts = default_hosts"
  by (simp add: normalizeHosts_def default_hosts_def to_lower_def to_lower_char_def trim_space_def is_space_def)

lemma default_parsed: "DefaultSSRFConfig = Some default_cfg"
proof -
  have "parseCIDRList default_cidrs = Inr (sc_blocked_nets default_cfg)"
    unfolding default_cidrs_def by (simp add: default_cidrs_parse default_cidrs6_parse default_cfg_def)
  then show ?thesis
    by (simp add: DefaultSSRFConfig_def parseCIDRs_def default_hosts_normal default_cfg_def Let_def)
qed

text \<open>The addresses that must never be reached, as ranges of numbers.\<close>

definition reserved4 :: "nat \<Rightarrow> bool" where
  "reserved4 n \<longleftrightarrow> n < 16777216                                  \<comment> \<open>0.0.0.0/8\<close>
     \<or> (167772160 \<le> n \<and> n < 184549376)                              \<comment> \<open>10.0.0.0/8\<close>
     \<or> (1681915904 \<le> n \<and> n < 1686110208)                            \<comment> \<open>100.64.0.0/10\<close>
     \<or> (2130706432 \<le> n \<and> n < 2147483648)                            \<comment> \<open>127.0.0.0/8\<close>
     \<or> (2851995648 \<le> n \<and> n < 2852061184)                            \<comment> \<open>169.254.0.0/16\<close>
     \<or> (2886729728 \<le> n \<and> n < 2887778304)                            \<comment> \<open>172.16.0.0/12\<close>
     \<or> (3232235520 \<le> n \<and> n < 3232301056)                            \<comment> \<open>192.168.0.0/16\<close>
     \<or> (3758096384 \<le> n \<and> n < 3758096640)                            \<comment> \<open>224.0.0.0/24\<close>"

lemma classes4:
  "IsLoopback (IP4 a) \<longleftrightarrow> 2130706432 \<le> unat a \<and> unat a < 2147483648"
  "IsPrivate (IP4 a) \<longleftrightarrow> 167772160 \<le> unat a \<and> unat a < 184549376
     \<or> 2886729728 \<le> unat a \<and> unat a < 2887778304 \<or> 3232235520 \<le> unat a \<and> unat a < 3232301056"
  "IsLinkLocalUnicast (IP4 a) \<longleftrightarrow> 2851995648 \<le> unat a \<and> unat a < 2852061184"
  "IsLinkLocalMulticast (IP4 a) \<longleftrightarrow> 3758096384 \<le> unat a \<and> unat a < 3758096640"
  by (simp_all add: IsLoopback_def IsPrivate_def IsLinkLocalUnicast_def IsLinkLocalMulticast_def top4_def
      div_eq_range)

lemma contains4: "net_contains (Net4 b p) (IP4 a) \<longleftrightarrow> unat a div 2 ^ (32 - p) = unat b div 2 ^ (32 - p)"
  by (auto simp: net_contains_def net_canon_def same_prefix_def)

lemma not_contains16: "To4 (IP16 w) = None \<Longrightarrow> \<not> net_contains (Net16 w p) (IP4 a)"
  by (simp add: net_contains_def net_canon_def)

lemma default_nets_contain:
  "list_ex (\<lambda>n. net_contains n (IP4 a)) (sc_blocked_nets default_cfg) \<longleftrightarrow> unat a < 16777216
     \<or> 167772160 \<le> unat a \<and> unat a < 184549376 \<or> 1681915904 \<le> unat a \<and> unat a < 1686110208
     \<or> 2130706432 \<le> unat a \<and> unat a < 2147483648 \<or> 2851995648 \<le> unat a \<and> unat a < 2852061184
     \<or> 2886729728 \<le> unat a \<and> unat a < 2887778304 \<or> 3232235520 \<le> unat a \<and> unat a < 3232301056"
proof -
  have "To4 (IP16 1) = None" "To4 (IP16 0) = None"
      "To4 (IP16 338288524927261089654018896841347694592) = None"
    by (simp_all add: To4_def)
  then show ?thesis
    by (auto simp: default_cfg_def contains4 not_contains16 div_eq_range)
qed

lemma IsBlockedIP_default4:
  "IsBlockedIP default_cfg (IP4 a) \<longleftrightarrow> IsLoopback (IP4 a) \<or> IsPrivate (IP4 a) \<or> IsLinkLocalUnicast (IP4 a)
     \<or> IsLinkLocalMulticast (IP4 a) \<or> list_ex (\<lambda>n. net_contains n (IP4 a)) (sc_blocked_nets default_cfg)"
  by (simp add: IsBlockedIP_def normalizeIP_def default_cfg_def Let_def)

text \<open>
  The default configuration blocks an IPv4 address exactly when it lies in one of the
  reserved ranges.
\<close>

theorem default_blocks_reserved:
  "\<exists>cfg. DefaultSSRFConfig = Some cfg \<and> (\<forall>a. IsBlockedIP cfg (IP4 a) = reserved4 (unat a))"
proof -
  have "IsBlockedIP default_cfg (IP4 a) = reserved4 (unat a)" for a
    unfolding IsBlockedIP_default4 classes4 default_nets_contain reserved4_def
    by (rule iffI; elim disjE conjE; simp)
  then show ?thesis using default_parsed by blast
qed

section \<open>The client\<close>

lemma dial_unblocked:
  "ssrfDialContext cfg lookup addr = Inr (x, port) \<Longrightarrow> \<not> IsBlockedIP cfg x"
  by (auto simp: ssrfDialContext_def split: option.splits prod.splits if_splits list.splits)

lemma follow_unblocked: "client_follow cfg hops via = (ds, r) \<Longrightarrow> (x, port) \<in> set ds \<Longrightarrow> \<not> IsBlockedIP cfg x"
proof (induction hops arbitrary: via ds)
  case (Cons hop hops)
  then show ?case
    by (cases hop) (fastforce split: sum.splits prod.splits dest: dial_unblocked)
qed simp

lemma follow_bound: "client_follow cfg hops via = (ds, r) \<Longrightarrow> length ds \<le> 10 - via"
proof (induction hops arbitrary: via ds)
  case (Cons hop hops)
  show ?case
  proof (cases "10 \<le> via")
    case True
    with Cons.prems show ?thesis by (cases hop) (simp add: CheckRedirect_def)
  next
    case False
    have "length xs \<le> 10 - (via + 1)" if "client_follow cfg hops (via + 1) = (xs, r)" for xs
      using that by (rule Cons.IH)
    with Cons.prems False show ?thesis
      by (cases hop) (fastforce simp: CheckRedirect_def split: sum.splits prod.splits if_splits)
  qed
qed simp

text \<open>
  C10. Whatever the redirects and whatever DNS answers at each of them, the client dials
  only addresses that the configuration does not block, and at most ten of them.
\<close>

theorem client_dials_only_unblocked:
  assumes "client_follow cfg hops 0 = (ds, r)"
  shows "(\<forall>(x, port)\<in>set ds. \<not> IsBlockedIP cfg x) \<and> length ds \<le> 10"
  using follow_unblocked [OF assms] follow_bound [OF assms] by auto


lemma demo_dial:
  "client_follow default_cfg [(''example.com:443'', \<lambda>h. Some [IP4 134744072])] 0 = ([(IP4 134744072, ''443'')], Inr ())"
proof -
  have "\<not> IsBlockedIP default_cfg (IP4 134744072)"
    unfolding IsBlockedIP_default4 classes4 default_nets_contain by simp
  moreover have "ParseIP ''example.com'' = None" by (simp add: ParseIP_def parse_ip4_def parse_octet_def digit_val_def)
  ultimately show ?thesis
    by (simp add: ssrfDialContext_def SplitHostPort_def last_colon_def normalizeIP_def)
qed

theorem client_dials_only_unblocked_witness:
  "\<exists>ds r. client_follow default_cfg [(''example.com:443'', \<lambda>h. Some [IP4 134744072])] 0 = (ds, r)
     \<and> length ds = 1 \<and> \<not> IsBlockedIP default_cfg (fst (hd ds))"
  using client_dials_only_unblocked [OF demo_dial] demo_dial by simp

section \<open>Hosts\<close>

lemma to_lower_append: "to_lower (s @ t) = to_lower s @ to_lower t"
  by (simp add: to_lower_def)

lemma trim_space_keeps:
  assumes "t \<noteq> []" "\<not> is_space (last t)" "\<not> is_space (hd t)"
  shows "trim_space (s @ t) = dropWhile is_space s @ t"
proof -
  have "dropWhile is_space (s @ t) = dropWhile is_space s @ t"
    using assms(1,3) by (induction s) (auto simp: neq_Nil_conv)
  moreover have "dropWhile is_space (rev t @ r) = rev t @ r" for r
    using assms(1,2) by (cases t rule: rev_cases) simp_all
  ultimately show ?thesis by (simp add: trim_space_def)
qed

lemma default_host_chars:
  assumes "h \<in> set default_hosts"
  shows "h \<noteq> []" "\<not> is_space (last h)" "to_lower h = h" "to_lower (trim_space h) = h"
    "to_lower (trim_space (h @ ''.'')) = h @ ''.''"
  using assms by (auto simp: default_hosts_def is_space_def to_lower_def to_lower_char_def trim_space_def)

text \<open>
  A blocked host name is blocked with any prefix of labels in front of it; written with
  the trailing dot of a fully qualified name it is not blocked.
\<close>

theorem blocked_host_labels:
  assumes "DefaultSSRFConfig = Some cfg" and "h \<in> set default_hosts"
  shows "IsBlockedHost cfg h \<and> IsBlockedHost cfg (s @ ''.'' @ h) \<and> \<not> IsBlockedHost cfg (h @ ''.'')"
proof -
  note chars = default_host_chars [OF assms(2)]
  have cfg: "sc_hosts_normalized cfg = default_hosts"
    using assms(1) by (auto simp: default_parsed default_cfg_def)
  have "trim_space (s @ ''.'' @ h) = dropWhile is_space s @ ''.'' @ h"
    using chars(1,2) by (intro trim_space_keeps) (simp_all add: is_space_def)
  then have "to_lower (trim_space (s @ ''.'' @ h)) = to_lower (dropWhile is_space s) @ ''.'' @ h"
    using chars(3) by (simp add: to_lower_append) (simp add: to_lower_def to_lower_char_def)
  then have "has_suffix (to_lower (trim_space (s @ ''.'' @ h))) (''.'' @ h)"
    by (simp only: has_suffix_iff) blast
  then have "IsBlockedHost cfg (s @ ''.'' @ h)" and "IsBlockedHost cfg h"
    using assms(2) chars(4) by (auto simp: IsBlockedHost_def cfg list_ex_iff Let_def)
  moreover have "\<not> IsBlockedHost cfg (h @ ''.'')"
    unfolding IsBlockedHost_def cfg chars(5) Let_def
    using assms(2) by (auto simp: default_hosts_def has_suffix_def)
  ultimately show ?thesis by blast
qed

theorem blocked_host_labels_witness:
  "IsBlockedHost default_cfg ''sub.metadata.internal'' \<and> \<not> IsBlockedHost default_cfg ''metadata.internal.''"
  using blocked_host_labels [OF default_parsed, of "''metadata.internal''" "''sub''"]
  by (simp add: default_hosts_def)

section \<open>The configuration of the application\<close>

text \<open>
  In the configuration that the application builds, the lists have no effect: no host
  is blocked, and the verdict on an address depends on none of the blocked and allowed
  networks; the address 0.0.0.0, which the default configuration blocks, is let through.
\<close>

theorem production_config_ignores_lists:
  "\<not> IsBlockedHost (ToInternal c) h
   \<and> IsBlockedIP (ToInternal c) x = IsBlockedIP (ToInternal (c\<lparr>as_blocked_cidrs := cidrs, as_allowed_cidrs := cidrs'\<rparr>)) x
   \<and> (\<exists>cfg. DefaultSSRFConfig = Some cfg \<and> IsBlockedIP cfg (IP4 0)) \<and> \<not> IsBlockedIP (ToInternal app_default_ssrf) (IP4 0)"
proof -
  have "IsBlockedIP default_cfg (IP4 0)"
    unfolding IsBlockedIP_default4 default_nets_contain by simp
  with default_parsed have "\<exists>cfg. DefaultSSRFConfig = Some cfg \<and> IsBlockedIP cfg (IP4 0)" by blast
  moreover have "\<not> IsBlockedIP (ToInternal app_default_ssrf) (IP4 0)"
    by (simp add: IsBlockedIP_def normalizeIP_def Let_def ToInternal_def app_default_ssrf_def classes4)
  moreover have "\<not> IsBlockedHost (ToInternal c) h" by (simp add: IsBlockedHost_def ToInternal_def)
  moreover have "IsBlockedIP (ToInternal c) x = IsBlockedIP (ToInternal (c\<lparr>as_blocked_cidrs := cidrs, as_allowed_cidrs := cidrs'\<rparr>)) x"
    by (simp add: IsBlockedIP_def ToInternal_def)
  ultimately show ?thesis by blast
qed

text \<open>
  \<open>webhook.allow_http\<close> has no effect unless the schemes are also set: the default of
  \<open>ssrf.allowed_schemes\<close> overrides what it sets, and plain http stays refused.
\<close>

theorem allow_http_ineffective:
  assumes "parseSSRFConfig v_bool (with_defaults set_keys) dur = Inr c"
    and "set_keys ''ssrf.allowed_schemes'' = None"
  shows "as_schemes c = [''https''] \<and> \<not> IsAllowedScheme (ToInternal c) ''http''"
proof -
  have "comma_list ''https'' = [''https'']"
    by (simp add: comma_list_def trim_space_def is_space_def)
  moreover have "with_defaults set_keys ''ssrf.allowed_schemes'' = ''https''"
    using assms(2) by (simp add: with_defaults_def)
  ultimately have "as_schemes c = [''https'']"
    using assms(1) by (auto simp: parseSSRFConfig_def Let_def split: sum.splits if_splits option.splits)
  then show ?thesis
    by (simp add: IsAllowedScheme_def ToInternal_def to_lower_def to_lower_char_def)
qed

theorem allow_http_ineffective_witness:
  "\<exists>c. parseSSRFConfig (\<lambda>k. k = ''webhook.allow_http'') (with_defaults (\<lambda>k. None)) (\<lambda>s. Some 30) = Inr c
     \<and> \<not> IsAllowedScheme (ToInternal c) ''http''"
proof -
  have "parseCIDRList default_cidrs = Inr (sc_blocked_nets default_cfg)"
    unfolding default_cidrs_def by (simp add: default_cidrs_parse default_cidrs6_parse default_cfg_def)
  then obtain c where c: "parseSSRFConfig (\<lambda>k. k = ''webhook.allow_http'') (with_defaults (\<lambda>k. None)) (\<lambda>s. Some 30) = Inr c"
    by (auto simp: parseSSRFConfig_def with_defaults_def app_default_ssrf_def ToInternal_def parseCIDRs_def Let_def)
  from allow_http_ineffective [OF this] c show ?thesis by blast
qed

end
