(* ===== verification/Idempotency.thy ===== *)
theory Idempotency
  imports Request_Env Cache_Store "HOL-Library.AList"
begin

text \<open>
  Idempotency keys: the record (\<open>domain/idempotency.go\<close>), its repository and service
  (\<open>repository/idempotency.go\<close>, \<open>service/idempotency.go\<close>) and the middleware
  (\<open>http/middleware/idempotency.go\<close>), which takes a lock in the cache, runs the handler
  behind a capturing response writer, and stores and replays what it captured.

  The cache holds the values that the middleware marshals; \<open>IGarbage\<close> is a value that does
  not unmarshal. The pattern of the keys and SHA-256 are parameters. A request runs in four
  steps that other requests may come between: check, lock, run, store.
\<close>

section \<open>Response writers\<close>

text \<open>
  \<open>http.ResponseWriter\<close>: the first \<open>WriteHeader\<close> sends the headers as they are then; what is
  set afterwards is not sent. A body written first sends status 200.
\<close>

type_synonym headers = "(string \<times> string) list"

record resp_writer =
  w_header :: headers
  w_sent :: "(nat \<times> headers) option"
  w_body :: string

definition hdr_set :: "string \<Rightarrow> string \<Rightarrow> resp_writer \<Rightarrow> resp_writer" where
  "hdr_set k v w = w\<lparr>w_header := AList.update k v (w_header w)\<rparr>"

definition hdr_set_all :: "headers \<Rightarrow> resp_writer \<Rightarrow> resp_writer" where
  "hdr_set_all hs w = foldl (\<lambda>w (k, v). hdr_set k v w) w hs"

definition wr_header :: "nat \<Rightarrow> resp_writer \<Rightarrow> resp_writer" where
  "wr_header code w = (if w_sent w = None then w\<lparr>w_sent := Some (code, w_header w)\<rparr> else w)"

definition wr_write :: "string \<Rightarrow> resp_writer \<Rightarrow> resp_writer" where
  "wr_write b w = (let w1 = wr_header 200 w in w1\<lparr>w_body := w_body w1 @ b\<rparr>)"

text \<open>\<open>idempotencyResponseWriter\<close> around such a writer.\<close>

record capture_writer =
  cw_inner :: resp_writer
  cw_status :: nat
  cw_body :: string
  cw_headers :: headers
  cw_max :: int
  cw_wrote :: bool

definition replayHeaders :: "string list" where
  "replayHeaders = [''Content-Type'', ''Content-Encoding'', ''Content-Length'', ''Location'',
     ''X-Request-Id'', ''Retry-After'']"

definition capture_headers :: "headers \<Rightarrow> headers" where
  "capture_headers hs = filter (\<lambda>(k, v). k \<in> set replayHeaders) hs"

definition new_capture :: "resp_writer \<Rightarrow> capture_writer" where
  "new_capture w = \<lparr>cw_inner = w, cw_status = 0, cw_body = [], cw_headers = [], cw_max = 0, cw_wrote = False\<rparr>"

definition cw_WriteHeader :: "nat \<Rightarrow> capture_writer \<Rightarrow> capture_writer" where
  "cw_WriteHeader code c =
     (let c1 = (if \<not> cw_wrote c
                then c\<lparr>cw_status := code, cw_wrote := True, cw_headers := capture_headers (w_header (cw_inner c))\<rparr>
                else c)
      in c1\<lparr>cw_inner := wr_header code (cw_inner c1)\<rparr>)"

text \<open>The default \<open>MaxCachedResponseSize\<close> is 4096; \<open>cw_max\<close> is never set.\<close>

definition default_max_cached :: int where
  "default_max_cached = 4096"

definition cw_Write :: "string \<Rightarrow> capture_writer \<Rightarrow> capture_writer" where
  "cw_Write b c =
     (let c1 = (if \<not> cw_wrote c
                then c\<lparr>cw_status := 200, cw_wrote := True, cw_headers := capture_headers (w_header (cw_inner c))\<rparr>
                else c);
          maxCapture = (if cw_max c1 \<le> 0 then default_max_cached + 1024 else cw_max c1);
          c2 = (if int (length (cw_body c1) + length b) \<le> maxCapture
                then c1\<lparr>cw_body := cw_body c1 @ b\<rparr> else c1)
      in c2\<lparr>cw_inner := wr_write b (cw_inner c2)\<rparr>)"

text \<open>What a handler does to its writer.\<close>

datatype writer_op = SetHeader string string | SendStatus nat | SendBody string

fun writer_run :: "writer_op \<Rightarrow> resp_writer \<Rightarrow> resp_writer" where
  "writer_run (SetHeader k v) w = hdr_set k v w"
| "writer_run (SendStatus code) w = wr_header code w"
| "writer_run (SendBody b) w = wr_write b w"

fun capture_run :: "writer_op \<Rightarrow> capture_writer \<Rightarrow> capture_writer" where
  "capture_run (SetHeader k v) c = c\<lparr>cw_inner := hdr_set k v (cw_inner c)\<rparr>"
| "capture_run (SendStatus code) c = cw_WriteHeader code c"
| "capture_run (SendBody b) c = cw_Write b c"

definition run_ops :: "writer_op list \<Rightarrow> resp_writer \<Rightarrow> resp_writer" where
  "run_ops ops w = foldl (\<lambda>w op. writer_run op w) w ops"

definition run_captured :: "writer_op list \<Rightarrow> capture_writer \<Rightarrow> capture_writer" where
  "run_captured ops c = foldl (\<lambda>c op. capture_run op c) c ops"

section \<open>Records and their repository\<close>

record idem_record =
  ir_id :: uuid
  ir_key :: string
  ir_user :: uuid
  ir_org :: "uuid option"
  ir_method :: string
  ir_path :: string
  ir_hash :: string
  ir_status :: string
  ir_code :: nat
  ir_body :: string
  ir_body_size :: nat
  ir_headers :: headers
  ir_expires_at :: instant
  ir_created_at :: instant
  ir_deleted_at :: "instant option"

definition ir_visible :: "idem_record \<Rightarrow> bool" where
  "ir_visible r = (ir_deleted_at r = None)"

definition ir_is_completed :: "idem_record \<Rightarrow> bool" where
  "ir_is_completed r = (ir_status r = ''completed'')"

definition ir_is_processing :: "idem_record \<Rightarrow> bool" where
  "ir_is_processing r = (ir_status r = ''processing'')"

definition ir_is_expired :: "instant \<Rightarrow> idem_record \<Rightarrow> bool" where
  "ir_is_expired now r = (now > ir_expires_at r)"

text \<open>A cached response, and the values of the cache.\<close>

record cached_response =
  cr_status :: nat
  cr_body :: string
  cr_headers :: headers

datatype idem_value = ILock string string | IRecord cached_response | IGarbage

record idem_state =
  is_cache :: "idem_value mem_cache"
  is_records :: "idem_record list"

datatype idem_query =
    QIdemCreate | QIdemByKey string | QIdemByID uuid | QIdemUpdate uuid | QIdemCleanup | QIdemList uuid
  | QIdemDelete uuid

record idem_env = "idem_query db_env" +
  ie_cache_fault :: "cache_call \<Rightarrow> bool"
  ie_key_ok :: "string \<Rightarrow> bool"  \<comment> \<open>the configured pattern\<close>
  ie_sha :: "string \<Rightarrow> string"

definition idem_driver :: "idem_env \<Rightarrow> drv_env" where
  "idem_driver E = \<lparr>d_now = re_now E, d_fault = ie_cache_fault E\<rparr>"

definition same_request :: "string \<Rightarrow> uuid \<Rightarrow> string \<Rightarrow> string \<Rightarrow> idem_record \<Rightarrow> bool" where
  "same_request key uid meth path r \<longleftrightarrow>
     ir_key r = key \<and> ir_user r = uid \<and> ir_method r = meth \<and> ir_path r = path \<and> ir_visible r"

definition idem_create :: "idem_env \<Rightarrow> idem_state \<Rightarrow> idem_record \<Rightarrow> unit result \<times> idem_state" where
  "idem_create E s r =
     (if re_fault E QIdemCreate then (Inl (WrapInternal db_error), s)
      else if tbl_count (same_request (ir_key r) (ir_user r) (ir_method r) (ir_path r)) (is_records s) \<noteq> 0
      then (Inl (WrapInternal unique_violation), s)
      else (Inr (), s\<lparr>is_records := is_records s @ [r]\<rparr>))"

definition idem_find_by_key ::
    "idem_env \<Rightarrow> idem_state \<Rightarrow> string \<Rightarrow> uuid \<Rightarrow> string \<Rightarrow> string \<Rightarrow> idem_record result" where
  "idem_find_by_key E s key uid meth path =
     (if re_fault E (QIdemByKey key) then Inl (WrapInternal db_error)
      else case tbl_first (same_request key uid meth path) (is_records s) of
             None \<Rightarrow> Inl (Sentinel ErrNotFound)
           | Some r \<Rightarrow> Inr r)"

definition idem_find_by_id :: "idem_env \<Rightarrow> idem_state \<Rightarrow> uuid \<Rightarrow> idem_record result" where
  "idem_find_by_id E s i =
     (if re_fault E (QIdemByID i) then Inl (WrapInternal db_error)
      else case tbl_first (\<lambda>r. ir_id r = i \<and> ir_visible r) (is_records s) of
             None \<Rightarrow> Inl (Sentinel ErrNotFound)
           | Some r \<Rightarrow> Inr r)"

definition idem_update_status ::
    "idem_env \<Rightarrow> idem_state \<Rightarrow> uuid \<Rightarrow> string \<Rightarrow> nat \<Rightarrow> string \<Rightarrow> headers option \<Rightarrow> unit result \<times> idem_state" where
  "idem_update_status E s i status code body hs =
     (if re_fault E (QIdemUpdate i) then (Inl (WrapInternal db_error), s)
      else let P = (\<lambda>r. ir_id r = i \<and> ir_visible r);
               upd = (\<lambda>r. r\<lparr>ir_status := status, ir_code := code, ir_body := body, ir_body_size := length body,
                            ir_headers := (case hs of None \<Rightarrow> ir_headers r | Some h \<Rightarrow> h)\<rparr>)
           in if tbl_count P (is_records s) = 0 then (Inl (Sentinel ErrNotFound), s)
              else (Inr (), s\<lparr>is_records := tbl_update P upd (is_records s)\<rparr>))"

definition day :: duration where
  "day = 86400 * second"

definition idem_cleanup_expired :: "idem_env \<Rightarrow> idem_state \<Rightarrow> int \<Rightarrow> nat result \<times> idem_state" where
  "idem_cleanup_expired E s retentionDays =
     (if re_fault E QIdemCleanup then (Inl (WrapInternal db_error), s)
      else let cutoff = re_now E - retentionDays * day;
               P = (\<lambda>r. ir_expires_at r < cutoff \<and> ir_visible r)
           in (Inr (tbl_count P (is_records s)),
               s\<lparr>is_records := tbl_update P (\<lambda>r. r\<lparr>ir_deleted_at := Some (re_now E)\<rparr>) (is_records s)\<rparr>))"

definition idem_list_by_user ::
    "idem_env \<Rightarrow> idem_state \<Rightarrow> uuid \<Rightarrow> int \<Rightarrow> int \<Rightarrow> (idem_record list \<times> nat) result" where
  "idem_list_by_user E s uid page pageSize =
     (if re_fault E (QIdemList uid) then Inl (WrapInternal db_error)
      else let rows = filter (\<lambda>r. ir_user r = uid \<and> ir_visible r) (is_records s);
               rest = drop (nat ((page - 1) * pageSize)) (sort_key (\<lambda>r. - ir_created_at r) rows)
           in Inr (if pageSize \<ge> 0 then take (nat pageSize) rest else rest, length rows))"

definition idem_soft_delete :: "idem_env \<Rightarrow> idem_state \<Rightarrow> uuid \<Rightarrow> unit result \<times> idem_state" where
  "idem_soft_delete E s i =
     (if re_fault E (QIdemDelete i) then (Inl (WrapInternal db_error), s)
      else let P = (\<lambda>r. ir_id r = i \<and> ir_visible r) in
        if tbl_count P (is_records s) = 0 then (Inl (Sentinel ErrNotFound), s)
        else (Inr (), s\<lparr>is_records := tbl_update P (\<lambda>r. r\<lparr>ir_deleted_at := Some (re_now E)\<rparr>) (is_records s)\<rparr>))"

section \<open>Service (service/idempotency.go)\<close>

definition wrap_err :: "unit result \<times> 's \<Rightarrow> unit result \<times> 's" where
  "wrap_err r = (case r of (Inl e, s) \<Rightarrow> (Inl (WrapInternal e), s) | (Inr _, s) \<Rightarrow> (Inr (), s))"

definition CreateRecord :: "idem_env \<Rightarrow> idem_state \<Rightarrow> idem_record \<Rightarrow> unit result \<times> idem_state" where
  "CreateRecord E s r = wrap_err (idem_create E s r)"

definition FindRecord :: "idem_env \<Rightarrow> idem_state \<Rightarrow> string \<Rightarrow> uuid \<Rightarrow> string \<Rightarrow> string \<Rightarrow> idem_record result" where
  "FindRecord E s key uid meth path = idem_find_by_key E s key uid meth path"

definition UpdateRecord ::
    "idem_env \<Rightarrow> idem_state \<Rightarrow> uuid \<Rightarrow> string \<Rightarrow> nat \<Rightarrow> string \<Rightarrow> headers option \<Rightarrow> unit result \<times> idem_state" where
  "UpdateRecord E s i status code body hs = wrap_err (idem_update_status E s i status code body hs)"

text \<open>One pass of the reaper, at the tick of its timer.\<close>

definition runReaper :: "idem_env \<Rightarrow> int \<Rightarrow> idem_state \<Rightarrow> idem_state" where
  "runReaper E configured s =
     (let retentionDays = (if configured \<le> 0 then 30 else configured)
      in snd (idem_cleanup_expired E s retentionDays))"

section \<open>Middleware (http/middleware/idempotency.go)\<close>

record idem_config =
  ic_enabled :: bool
  ic_max_key_length :: int
  ic_default_ttl :: duration
  ic_guard_ttl :: duration
  ic_max_cached :: int

text \<open>
  What the middleware reads of a request. \<open>iq_user\<close> is \<open>GetUserID\<close>; the body is \<open>None\<close>
  when reading it fails. The headers are \<open>Idempotency-Key\<close>, \<open>Upgrade\<close>, \<open>Connection\<close>,
  empty when missing.
\<close>

record idem_request =
  iq_key :: string
  iq_method :: string
  iq_path :: string
  iq_user :: "uuid option"
  iq_org :: "uuid option"
  iq_body :: "string option"
  iq_upgrade :: string
  iq_connection :: string

definition isWebSocketRequest :: "idem_request \<Rightarrow> bool" where
  "isWebSocketRequest q =
     (to_lower (iq_upgrade q) = ''websocket'' \<or> str_contains (to_lower (iq_connection q)) ''upgrade'')"

definition computeBodyHash :: "idem_env \<Rightarrow> idem_request \<Rightarrow> string" where
  "computeBodyHash E q = (case iq_body q of None \<Rightarrow> ie_sha E [] | Some b \<Rightarrow> ie_sha E b)"

definition guard_seconds :: "idem_config \<Rightarrow> int" where
  "guard_seconds C = (let n = ic_guard_ttl C div second in if n \<le> 0 then 300 else n)"

definition record_seconds :: "idem_config \<Rightarrow> int" where
  "record_seconds C = (let n = ic_default_ttl C div second in if n \<le> 0 then 86400 else n)"

definition max_cached :: "idem_config \<Rightarrow> int" where
  "max_cached C = (if ic_max_cached C \<le> 0 then default_max_cached else ic_max_cached C)"

text \<open>An answer of the middleware itself: a JSON error (status, code, Retry-After), or a replay.\<close>

datatype idem_answer = IdemError nat string bool | Replay resp_writer

text \<open>The key of the request in the cache, when the middleware is to act on it.\<close>

datatype scope = PassThrough | Reject idem_answer | Scoped uuid string

definition org_segment :: "uuid option \<Rightarrow> string" where
  "org_segment og = (case og of None \<Rightarrow> ''default'' | Some i \<Rightarrow> if i \<noteq> uuid_nil then i else ''default'')"

definition idem_cache_key :: "idem_request \<Rightarrow> uuid \<Rightarrow> string" where
  "idem_cache_key q uid =
     ''idem:'' @ org_segment (iq_org q) @ '':'' @ uid @ '':'' @ to_lower (iq_method q) @ '':'' @ iq_path q @ '':'' @ iq_key q"

definition lock_key :: "string \<Rightarrow> string" where
  "lock_key key = key @ '':lock''"

definition record_key :: "string \<Rightarrow> string" where
  "record_key key = key @ '':record''"

definition idem_scope :: "idem_env \<Rightarrow> idem_config \<Rightarrow> bool \<Rightarrow> idem_request \<Rightarrow> scope" where
  "idem_scope E C has_cache q =
     (if iq_key q = [] then PassThrough
      else if iq_method q \<in> {''GET'', ''DELETE'', ''OPTIONS'', ''HEAD''} then PassThrough
      else if \<not> ic_enabled C then PassThrough
      else if \<not> has_cache then PassThrough
      else if \<not> ie_key_ok E (iq_key q) \<or> int (length (iq_key q)) > ic_max_key_length C
      then Reject (IdemError 400 ''INVALID_IDEMPOTENCY_KEY'' False)
      else case iq_user q of
             None \<Rightarrow> PassThrough
           | Some uid \<Rightarrow> Scoped uid (idem_cache_key q uid))"

text \<open>The replays: headers, status, body, and then the two markers.\<close>

definition replay_writer :: "string \<Rightarrow> headers \<Rightarrow> nat \<Rightarrow> string \<Rightarrow> resp_writer \<Rightarrow> resp_writer" where
  "replay_writer key hs code body w0 =
     (let w1 = hdr_set_all hs w0;
          w2 = wr_header code w1;
          w3 = (if body \<noteq> [] then wr_write body w2 else w2)
      in hdr_set ''X-Idempotency-Replayed'' ''true'' (hdr_set ''X-Idempotency-Key'' key w3))"

definition replayFromDB ::
    "idem_env \<Rightarrow> idem_state \<Rightarrow> resp_writer \<Rightarrow> string \<Rightarrow> uuid \<Rightarrow> string \<Rightarrow> string \<Rightarrow> idem_answer" where
  "replayFromDB E s w key uid meth path =
     (case FindRecord E s key uid meth path of
        Inl err \<Rightarrow> IdemError 409 ''IDEMPOTENCY_CONFLICT'' False
      | Inr r \<Rightarrow>
          if \<not> ir_is_completed r then IdemError 409 ''IDEMPOTENCY_PROCESSING'' True
          else Replay (replay_writer key (ir_headers r) (ir_code r) (ir_body r) w))"

definition replayFromRedisCache ::
    "idem_env \<Rightarrow> idem_state \<Rightarrow> resp_writer \<Rightarrow> idem_request \<Rightarrow> uuid \<Rightarrow> idem_value \<Rightarrow> idem_answer" where
  "replayFromRedisCache E s w q uid v =
     (case v of
        IRecord cached \<Rightarrow> Replay (replay_writer (iq_key q) (cr_headers cached) (cr_status cached) (cr_body cached) w)
      | _ \<Rightarrow> replayFromDB E s w (iq_key q) uid (iq_method q) (iq_path q))"

text \<open>Step 4, the check: an answer, or \<open>None\<close> to go on.\<close>

definition idem_check ::
    "idem_env \<Rightarrow> idem_state \<Rightarrow> resp_writer \<Rightarrow> idem_request \<Rightarrow> uuid \<Rightarrow> string \<Rightarrow> idem_answer option" where
  "idem_check E s w q uid key =
     (case drv_get (idem_driver E) (is_cache s) (lock_key key) of
        Inl _ \<Rightarrow> None
      | Inr None \<Rightarrow> None
      | Inr (Some v) \<Rightarrow>
          (case v of
             ILock status hash \<Rightarrow>
               if status = ''processing'' then Some (IdemError 409 ''IDEMPOTENCY_PROCESSING'' True)
               else if status = ''completed'' then
                 Some (case drv_get (idem_driver E) (is_cache s) (record_key key) of
                         Inr (Some rv) \<Rightarrow> replayFromRedisCache E s w q uid rv
                       | _ \<Rightarrow> replayFromDB E s w (iq_key q) uid (iq_method q) (iq_path q))
               else None
           | _ \<Rightarrow> None))"

text \<open>Step 5, the lock: an answer, or \<open>None\<close> to process the request.\<close>

definition idem_lock ::
    "idem_env \<Rightarrow> idem_config \<Rightarrow> idem_state \<Rightarrow> idem_request \<Rightarrow> string \<Rightarrow> idem_answer option \<times> idem_state" where
  "idem_lock E C s q key =
     (case drv_setnx (idem_driver E) (is_cache s) (lock_key key)
             (ILock ''processing'' (computeBodyHash E q)) (guard_seconds C) of
        (Inl _, m) \<Rightarrow> (None, s\<lparr>is_cache := m\<rparr>)
      | (Inr acquired, m) \<Rightarrow>
          (if \<not> acquired then Some (IdemError 409 ''IDEMPOTENCY_CONFLICT'' True) else None, s\<lparr>is_cache := m\<rparr>))"

text \<open>
  Steps 6 and 7: the handler's writes on the client's writer, and what is captured of them.
  The two markers are set when the handler has returned.
\<close>

definition idem_capture ::
    "idem_request \<Rightarrow> writer_op list \<Rightarrow> resp_writer \<Rightarrow> resp_writer \<times> cached_response" where
  "idem_capture q ops w =
     (if isWebSocketRequest q then
        (run_ops ops w, \<lparr>cr_status = 200, cr_body = [], cr_headers = []\<rparr>)
      else let c = run_captured ops (new_capture w) in
        (cw_inner c,
         \<lparr>cr_status = (if cw_status c = 0 then 200 else cw_status c), cr_body = cw_body c,
          cr_headers = cw_headers c\<rparr>))"

definition mark_fresh :: "string \<Rightarrow> resp_writer \<Rightarrow> resp_writer" where
  "mark_fresh key w = hdr_set ''X-Idempotency-Replayed'' ''false'' (hdr_set ''X-Idempotency-Key'' key w)"

text \<open>Step 8, run in a goroutine when the handler has returned.\<close>

definition storeResult ::
    "idem_env \<Rightarrow> idem_config \<Rightarrow> idem_request \<Rightarrow> uuid \<Rightarrow> string \<Rightarrow> cached_response \<Rightarrow> idem_state \<Rightarrow> idem_state" where
  "storeResult E C q uid key resp s =
     (let D = idem_driver E;
          body = cr_body resp;
          m1 = snd (drv_set D (is_cache s) (lock_key key) (ILock ''completed'' []) (guard_seconds C));
          m2 = (if int (length body) \<le> max_cached C
                then snd (drv_set D m1 (record_key key) (IRecord resp) (record_seconds C)) else m1);
          s1 = s\<lparr>is_cache := m2\<rparr>;
          record = \<lparr>ir_id = re_new_id E, ir_key = iq_key q, ir_user = uid,
            ir_org = (case iq_org q of None \<Rightarrow> None | Some i \<Rightarrow> if i = uuid_nil then None else Some i),
            ir_method = iq_method q, ir_path = iq_path q, ir_hash = computeBodyHash E q,
            ir_status = ''processing'', ir_code = cr_status resp, ir_body = body, ir_body_size = length body,
            ir_headers = cr_headers resp, ir_expires_at = re_now E + ic_default_ttl C,
            ir_created_at = re_now E, ir_deleted_at = None\<rparr>
      in case CreateRecord E s1 record of
           (Inl _, s2) \<Rightarrow> s2
         | (Inr _, s2) \<Rightarrow>
             snd (UpdateRecord E s2 (ir_id record) ''completed'' (cr_status resp)
                    (if int (length body) \<le> max_cached C then body else []) (Some (cr_headers resp))))"

text \<open>
  The middleware around a handler, for a request that no other comes between. The handler
  is given by what it writes; the result says whether it ran, and the last component is the
  task that is left to the goroutine.
\<close>

datatype idem_outcome = Answered idem_answer | Ran resp_writer

definition Middleware ::
    "idem_env \<Rightarrow> idem_config \<Rightarrow> bool \<Rightarrow> idem_request \<Rightarrow> writer_op list \<Rightarrow> resp_writer \<Rightarrow> idem_state
     \<Rightarrow> idem_outcome \<times> idem_state \<times> (idem_env \<Rightarrow> idem_state \<Rightarrow> idem_state)" where
  "Middleware E C has_cache q ops w s =
     (case idem_scope E C has_cache q of
        PassThrough \<Rightarrow> (Ran (run_ops ops w), s, \<lambda>_ s. s)
      | Reject a \<Rightarrow> (Answered a, s, \<lambda>_ s. s)
      | Scoped uid key \<Rightarrow>
          (case idem_check E s w q uid key of
             Some a \<Rightarrow> (Answered a, s, \<lambda>_ s. s)
           | None \<Rightarrow>
               (case idem_lock E C s q key of
                  (Some a, s1) \<Rightarrow> (Answered a, s1, \<lambda>_ s. s)
                | (None, s1) \<Rightarrow>
                    (case idem_capture q ops w of (w1, resp) \<Rightarrow>
                       (Ran (mark_fresh (iq_key q) w1), s1, \<lambda>E' s. storeResult E' C q uid key resp s)))))"

end
