(* ===== verification/Idempotency_Properties.thy ===== *)
theory Idempotency_Properties
  imports Idempotency
begin

text \<open>
  The properties of idempotency keys: how far apart two executions under one key are, what
  the capturing writer changes and records, what a retry gets, and where the replay is not
  the response that was sent.
\<close>

section \<open>The capturing writer\<close>

lemma capture_run_inner: "cw_inner (capture_run op c) = writer_run op (cw_inner c)"
  by (cases op) (simp_all add: cw_WriteHeader_def cw_Write_def Let_def)

lemma run_captured_inner: "cw_inner (run_captured ops c) = run_ops ops (cw_inner c)"
  by (induction ops arbitrary: c) (simp_all add: run_captured_def run_ops_def capture_run_inner)

text \<open>As long as the body fits, what is captured is what was sent.\<close>

definition captures :: "capture_writer \<Rightarrow> bool" where
  "captures c \<longleftrightarrow> cw_max c = 0 \<and> cw_wrote c = (w_sent (cw_inner c) \<noteq> None) \<and> cw_body c = w_body (cw_inner c)
     \<and> (\<forall>code hs. w_sent (cw_inner c) = Some (code, hs) \<longrightarrow> cw_status c = code \<and> cw_headers c = capture_headers hs)"

lemma writer_body_mono: "length (w_body w) \<le> length (w_body (writer_run op w))"
  by (cases op) (simp_all add: hdr_set_def wr_header_def wr_write_def Let_def)

lemma run_ops_body_mono: "length (w_body w) \<le> length (w_body (run_ops ops w))"
  unfolding run_ops_def
proof (induction ops arbitrary: w)
  case (Cons op ops)
  show ?case using order_trans [OF writer_body_mono Cons.IH] by simp
qed simp

lemma captures_step:
  "captures c \<Longrightarrow> length (w_body (cw_inner (capture_run op c))) \<le> 5120 \<Longrightarrow> captures (capture_run op c)"
  by (cases op) (auto simp: captures_def cw_WriteHeader_def cw_Write_def hdr_set_def wr_header_def wr_write_def
      default_max_cached_def Let_def)

lemma captures_run:
  "captures c \<Longrightarrow> length (w_body (run_ops ops (cw_inner c))) \<le> 5120 \<Longrightarrow> captures (run_captured ops c)"
proof (induction ops arbitrary: c)
  case (Cons op ops)
  have run: "run_ops (op # ops) (cw_inner c) = run_ops ops (cw_inner (capture_run op c))"
    by (simp add: run_ops_def capture_run_inner)
  then have "length (w_body (cw_inner (capture_run op c))) \<le> 5120"
    using Cons.prems(2) run_ops_body_mono [of "cw_inner (capture_run op c)" ops] by simp
  then have "captures (capture_run op c)" using Cons.prems(1) by (rule captures_step [rotated])
  then have "captures (run_captured ops (capture_run op c))"
    using Cons.prems(2) run by (intro Cons.IH) simp_all
  then show ?case by (simp add: run_captured_def)
qed (simp add: run_captured_def)

lemma capture_faithful:
  assumes "\<not> isWebSocketRequest q" and "w_sent w = None" and "w_body w = []"
    and "length (w_body (run_ops ops w)) \<le> 5120" and "w_sent (run_ops ops w) = Some (code, hs)"
  shows "idem_capture q ops w = (run_ops ops w,
    \<lparr>cr_status = (if code = 0 then 200 else code), cr_body = w_body (run_ops ops w), cr_headers = capture_headers hs\<rparr>)"
proof -
  let ?c = "run_captured ops (new_capture w)"
  have inner: "cw_inner ?c = run_ops ops w" by (simp add: run_captured_inner new_capture_def)
  have "captures (new_capture w)" using assms(2,3) by (simp add: captures_def new_capture_def)
  then have "captures ?c" by (rule captures_run) (simp add: assms(4) new_capture_def)
  with inner assms show ?thesis by (auto simp: idem_capture_def captures_def Let_def)
qed

section \<open>Two executions under one key\<close>

text \<open>
  The world: the time, the state and the executions that were started, each by the lock it
  took and when. Requests are interleaved in any way; the cache does not fail.
\<close>

record idem_world =
  iw_now :: instant
  iw_state :: idem_state
  iw_started :: "(string \<times> instant) list"

definition cache_up :: "idem_env \<Rightarrow> bool" where
  "cache_up E \<longleftrightarrow> ie_cache_fault E = (\<lambda>c. False)"

inductive idem_step :: "idem_config \<Rightarrow> idem_world \<Rightarrow> idem_world \<Rightarrow> bool" for C where
  tick: "0 \<le> d \<Longrightarrow> idem_step C w (w\<lparr>iw_now := iw_now w + d\<rparr>)"
| start: "cache_up E \<Longrightarrow> re_now E = iw_now w \<Longrightarrow> idem_lock E C (iw_state w) q key = (None, s) \<Longrightarrow>
    idem_step C w (w\<lparr>iw_state := s, iw_started := iw_started w @ [(lock_key key, iw_now w)]\<rparr>)"
| refuse: "cache_up E \<Longrightarrow> re_now E = iw_now w \<Longrightarrow> idem_lock E C (iw_state w) q key = (Some a, s) \<Longrightarrow>
    idem_step C w (w\<lparr>iw_state := s\<rparr>)"
| store: "cache_up E \<Longrightarrow> re_now E = iw_now w \<Longrightarrow> (lock_key key, t) \<in> set (iw_started w) \<Longrightarrow>
    idem_step C w (w\<lparr>iw_state := storeResult E C q uid key resp (iw_state w)\<rparr>)"

inductive idem_reach :: "idem_config \<Rightarrow> idem_world \<Rightarrow> bool" for C where
  init: "iw_started w = [] \<Longrightarrow> idem_reach C w"
| step: "idem_reach C w \<Longrightarrow> idem_step C w w' \<Longrightarrow> idem_reach C w'"

definition holds_lock :: "duration \<Rightarrow> instant \<Rightarrow> idem_value mem_cache \<Rightarrow> string \<times> instant \<Rightarrow> bool" where
  "holds_lock g now m x \<longleftrightarrow> (case x of (k, t) \<Rightarrow> t \<le> now \<and>
     (now < t + g \<longrightarrow> (\<exists>e. m k = Some e \<and> t + g \<le> me_expires_at e)))"

definition idem_inv :: "idem_config \<Rightarrow> idem_world \<Rightarrow> bool" where
  "idem_inv C w \<longleftrightarrow> (let g = guard_seconds C * second in
     (\<forall>x\<in>set (iw_started w). fst x \<in> range lock_key \<and> holds_lock g (iw_now w) (is_cache (iw_state w)) x)
     \<and> sorted_wrt (\<lambda>(k, t) (k', t'). k = k' \<longrightarrow> t + g \<le> t') (iw_started w))"

lemma guard_pos: "0 < guard_seconds C * second"
  by (simp add: guard_seconds_def second_def Let_def)

lemma record_not_lock: "record_key key \<noteq> lock_key key'"
proof
  assume "record_key key = lock_key key'"
  then have "last (record_key key) = last (lock_key key')" by simp
  then show False by (simp add: record_key_def lock_key_def)
qed

lemma CreateRecord_cache: "is_cache (snd (CreateRecord E s r)) = is_cache s"
  by (simp add: CreateRecord_def wrap_err_def idem_create_def split: sum.splits prod.splits)

lemma UpdateRecord_cache: "is_cache (snd (UpdateRecord E s i st code b hs)) = is_cache s"
  by (simp add: UpdateRecord_def wrap_err_def idem_update_status_def Let_def split: sum.splits prod.splits)

lemma storeResult_cache:
  assumes "cache_up E"
  shows "is_cache (storeResult E C q uid key resp s) =
    (let m1 = mem_set (re_now E) (is_cache s) (lock_key key) (ILock ''completed'' []) (guard_seconds C)
     in if int (length (cr_body resp)) \<le> max_cached C
        then mem_set (re_now E) m1 (record_key key) (IRecord resp) (record_seconds C) else m1)"
proof -
  have "is_cache (case CreateRecord E s1 r of (Inl _, s2) \<Rightarrow> s2
      | (Inr _, s2) \<Rightarrow> snd (UpdateRecord E s2 i st code b hs)) = is_cache s1" for s1 r i st code b hs
    using CreateRecord_cache [of E s1 r] by (auto simp: UpdateRecord_cache split: prod.split sum.split)
  then show ?thesis
    using assms by (simp add: storeResult_def Let_def drv_set_def idem_driver_def cache_up_def)
qed

lemma storeResult_lock:
  assumes "cache_up E"
  shows "is_cache (storeResult E C q uid key resp s) (lock_key k) =
    (if lock_key k = lock_key key then
       Some \<lparr>me_value = ILock ''completed'' [], me_expires_at = re_now E + guard_seconds C * second\<rparr>
     else is_cache s (lock_key k))"
  using record_not_lock [of key k] by (simp add: storeResult_cache [OF assms] Let_def mem_set_def)

lemma idem_lock_started:
  assumes "cache_up E" and "idem_lock E C s q key = (None, s')"
  shows "\<not> mem_fresh (re_now E) (is_cache s) (lock_key key)"
    and "is_cache s' = mem_set (re_now E) (is_cache s) (lock_key key) (ILock ''processing'' (computeBodyHash E q)) (guard_seconds C)"
  using assms mem.setnx_fresh [of "re_now E" "is_cache s" "lock_key key"] mem.setnx_stale [of "re_now E" "is_cache s" "lock_key key"]
  by (cases "mem_fresh (re_now E) (is_cache s) (lock_key key)";
      auto simp: idem_lock_def drv_setnx_def idem_driver_def cache_up_def)+

lemma idem_lock_refused:
  assumes "cache_up E" and "idem_lock E C s q key = (Some a, s')"
  shows "is_cache s' = is_cache s"
  using assms mem.setnx_fresh [of "re_now E" "is_cache s" "lock_key key"] mem.setnx_stale [of "re_now E" "is_cache s" "lock_key key"]
  by (cases "mem_fresh (re_now E) (is_cache s) (lock_key key)";
      auto simp: idem_lock_def drv_setnx_def idem_driver_def cache_up_def)


lemma holds_lock_later: "holds_lock g now m x \<Longrightarrow> 0 \<le> d \<Longrightarrow> holds_lock g (now + d) m x"
  by (auto simp: holds_lock_def split: prod.splits)

text \<open>Writing a lock that expires no earlier keeps what the others hold.\<close>

lemma holds_lock_set:
  assumes "holds_lock g now m x" and "g = ttl * second"
  shows "holds_lock g now (mem_set now m k v ttl) x"
  using assms by (auto simp: holds_lock_def mem_set_def split: prod.splits)

lemma idem_step_inv:
  assumes "idem_step C w w'" and "idem_inv C w"
  shows "idem_inv C w'"
  using assms
proof (cases rule: idem_step.cases)
  case (tick d)
  with assms(2) show ?thesis by (simp add: idem_inv_def Let_def holds_lock_later)
next
  case (start E q key s)
  let ?g = "guard_seconds C * second" and ?m = "is_cache (iw_state w)" and ?k = "lock_key key"
  note lock = idem_lock_started [OF start(2,4)]
  have "t + ?g \<le> iw_now w" if "(?k, t) \<in> set (iw_started w)" for t
  proof (rule ccontr)
    assume "\<not> t + ?g \<le> iw_now w"
    moreover have "holds_lock ?g (iw_now w) ?m (?k, t)"
      using assms(2) that by (auto simp: idem_inv_def Let_def)
    ultimately obtain e where "?m ?k = Some e" "t + ?g \<le> me_expires_at e"
      by (auto simp: holds_lock_def)
    with lock(1) \<open>\<not> t + ?g \<le> iw_now w\<close> start(3) show False by (simp add: mem_fresh_def)
  qed
  moreover have "holds_lock ?g (iw_now w) (is_cache s) x" if "x \<in> set (iw_started w)" for x
    using assms(2) that lock(2) start(3) by (simp add: idem_inv_def Let_def holds_lock_set)
  moreover have "holds_lock ?g (iw_now w) (is_cache s) (?k, iw_now w)"
    using lock(2) start(3) by (simp add: holds_lock_def mem_set_def)
  ultimately show ?thesis
    using assms(2) start(1) by (auto simp: idem_inv_def Let_def sorted_wrt_append)
next
  case (refuse E q key a s)
  with assms(2) idem_lock_refused [OF refuse(2,4)] show ?thesis by (simp add: idem_inv_def)
next
  case (store E key t q uid resp)
  have "holds_lock (guard_seconds C * second) (iw_now w)
      (is_cache (storeResult E C q uid key resp (iw_state w))) x" if "x \<in> set (iw_started w)" for x
  proof -
    have "fst x \<in> range lock_key" "holds_lock (guard_seconds C * second) (iw_now w) (is_cache (iw_state w)) x"
      using assms(2) that by (simp_all add: idem_inv_def Let_def)
    then obtain k t where "x = (lock_key k, t)" "holds_lock (guard_seconds C * second) (iw_now w) (is_cache (iw_state w)) (lock_key k, t)"
      by (cases x) auto
    then show ?thesis
      using store(3) by (simp add: holds_lock_def storeResult_lock [OF store(2)])
  qed
  with assms(2) store(1) show ?thesis by (simp add: idem_inv_def Let_def)
qed


lemma idem_reach_inv: "idem_reach C w \<Longrightarrow> idem_inv C w"
proof (induction rule: idem_reach.induct)
  case (init w)
  then show ?case by (simp add: idem_inv_def Let_def)
qed (rule idem_step_inv)

text \<open>
  C8. At most one execution under a key within the guard time: however the requests are
  interleaved, two executions that were started under the same key lie at least
  \<open>GuardTTL\<close> apart.
\<close>

theorem executions_lie_apart:
  assumes "idem_reach C w" and "iw_started w = xs @ [(k, t)] @ ys @ [(k, t')] @ zs"
  shows "t + guard_seconds C * second \<le> t'"
  using idem_reach_inv [OF assms(1)] assms(2) by (simp add: idem_inv_def Let_def sorted_wrt_append)

definition demo_idem_config :: idem_config where
  "demo_idem_config = \<lparr>ic_enabled = True, ic_max_key_length = 128, ic_default_ttl = 86400 * second,
     ic_guard_ttl = 300 * second, ic_max_cached = 4096\<rparr>"

definition demo_idem_env :: "instant \<Rightarrow> idem_env" where
  "demo_idem_env t = \<lparr>re_now = t * second, re_fault = (\<lambda>q. False), re_new_id = ''r1'',
     re_audit_full = False, ie_cache_fault = (\<lambda>c. False),
     ie_key_ok = (\<lambda>k. True), ie_sha = (\<lambda>s. s)\<rparr>"

definition demo_idem_req :: idem_request where
  "demo_idem_req = \<lparr>iq_key = ''k1'', iq_method = ''POST'', iq_path = ''/pay'', iq_user = Some ''alice'',
     iq_org = None, iq_body = Some ''{}'', iq_upgrade = [], iq_connection = []\<rparr>"

definition demo_idem_state :: idem_state where
  "demo_idem_state = \<lparr>is_cache = Map.empty, is_records = []\<rparr>"

definition lock_at :: "instant \<Rightarrow> idem_state \<Rightarrow> idem_state" where
  "lock_at t s = snd (idem_lock (demo_idem_env t) demo_idem_config s demo_idem_req ''key'')"

lemma demo_lock:
  "idem_lock (demo_idem_env 0) demo_idem_config demo_idem_state demo_idem_req ''key'' = (None, lock_at 0 demo_idem_state)"
  "idem_lock (demo_idem_env 400) demo_idem_config (lock_at 0 demo_idem_state) demo_idem_req ''key'' =
     (None, lock_at 400 (lock_at 0 demo_idem_state))"
  by (simp_all add: lock_at_def idem_lock_def drv_setnx_def mem_setnx_def idem_driver_def demo_idem_env_def
      demo_idem_config_def demo_idem_state_def guard_seconds_def second_def)

theorem executions_lie_apart_witness:
  "\<exists>w. idem_reach demo_idem_config w
     \<and> iw_started w = [(lock_key ''key'', 0), (lock_key ''key'', 400 * second)] \<and> 0 + 300 * second \<le> 400 * second"
proof -
  let ?C = demo_idem_config
  let ?w0 = "\<lparr>iw_now = 0, iw_state = demo_idem_state, iw_started = []\<rparr>"
  let ?w1 = "\<lparr>iw_now = 0, iw_state = lock_at 0 demo_idem_state, iw_started = [(lock_key ''key'', 0)]\<rparr>"
  let ?w2 = "?w1\<lparr>iw_now := 400 * second\<rparr>"
  let ?w3 = "\<lparr>iw_now = 400 * second, iw_state = lock_at 400 (lock_at 0 demo_idem_state),
      iw_started = [(lock_key ''key'', 0), (lock_key ''key'', 400 * second)]\<rparr>"
  have up: "cache_up (demo_idem_env t)" and now: "re_now (demo_idem_env t) = t * second" for t
    by (simp_all add: cache_up_def demo_idem_env_def)
  have "idem_reach ?C ?w0" by (rule idem_reach.init) simp
  moreover have "idem_step ?C ?w0 ?w1"
    using idem_step.start [of "demo_idem_env 0" ?w0 ?C demo_idem_req "''key''"] demo_lock(1) up now by simp
  moreover have "idem_step ?C ?w1 ?w2"
    using idem_step.tick [of "400 * second" ?C ?w1] by (simp add: second_def)
  moreover have "idem_step ?C ?w2 ?w3"
    using idem_step.start [of "demo_idem_env 400" ?w2 ?C demo_idem_req "''key''"] demo_lock(2) up now by simp
  ultimately have r: "idem_reach ?C ?w3" using idem_reach.step by blast
  have "0 + guard_seconds ?C * second \<le> 400 * second"
    by (rule executions_lie_apart [OF r, where xs = "[]" and ys = "[]" and zs = "[]"]) simp
  with r show ?thesis by (intro exI [of _ ?w3]) (simp add: demo_idem_config_def guard_seconds_def second_def)
qed

section \<open>Replays\<close>

lemma scoped_key:
  assumes "idem_scope E C True q = Scoped uid key" "idem_scope E' C True q = Scoped uid' key'"
  shows "key' = key" "uid' = uid"
  using assms by (auto simp: idem_scope_def split: if_splits option.splits)

lemma hdr_set_all_keeps: "w_sent (hdr_set_all hs w) = w_sent w" "w_body (hdr_set_all hs w) = w_body w"
  unfolding hdr_set_all_def by (induction hs arbitrary: w) (auto simp: hdr_set_def)

lemma replay_writer_sent:
  assumes "w_sent w = None" "w_body w = []"
  shows "w_sent (replay_writer key hs code body w) = Some (code, w_header (hdr_set_all hs w))"
    and "w_body (replay_writer key hs code body w) = body"
  using assms
  by (simp_all add: replay_writer_def Let_def hdr_set_def wr_header_def wr_write_def hdr_set_all_keeps)

text \<open>What a request finds while the lock of a stored response lives.\<close>

lemma stored_is_replayed:
  assumes "cache_up E'" "cache_up E''" and "re_now E' \<le> re_now E''" "re_now E'' \<le> re_now E' + guard_seconds C * second"
    and "guard_seconds C \<le> record_seconds C" and "int (length (cr_body resp)) \<le> max_cached C"
  shows "idem_check E'' (storeResult E' C q uid key resp s) w q' uid' key =
    Some (Replay (replay_writer (iq_key q') (cr_headers resp) (cr_status resp) (cr_body resp) w))"
proof -
  let ?m = "is_cache (storeResult E' C q uid key resp s)"
  have "?m (lock_key key) = Some \<lparr>me_value = ILock ''completed'' [], me_expires_at = re_now E' + guard_seconds C * second\<rparr>"
    by (simp add: storeResult_lock [OF assms(1)])
  then have "mem_get (re_now E'') ?m (lock_key key) = Some (ILock ''completed'' [])"
    using assms(4) by (simp add: mem_get_def)
  moreover have "?m (record_key key) = Some \<lparr>me_value = IRecord resp, me_expires_at = re_now E' + record_seconds C * second\<rparr>"
    using assms(6) by (simp add: storeResult_cache [OF assms(1)] Let_def mem_set_def)
  moreover have "guard_seconds C * second \<le> record_seconds C * second"
    using assms(5) by (simp add: second_def)
  ultimately show ?thesis
    using assms(2,4)
    by (simp add: idem_check_def drv_get_def idem_driver_def cache_up_def mem_get_def replayFromRedisCache_def)
qed



definition demo_key :: string where
  "demo_key = idem_cache_key demo_idem_req ''alice''"

definition no_writer :: resp_writer where
  "no_writer = \<lparr>w_header = [], w_sent = None, w_body = []\<rparr>"

definition demo_ops :: "writer_op list" where
  "demo_ops = [SetHeader ''Content-Type'' ''json'', SendStatus 201, SendBody ''ok'']"

lemma demo_scope: "idem_scope (demo_idem_env t) demo_idem_config True demo_idem_req = Scoped ''alice'' demo_key"
  by (simp add: idem_scope_def demo_idem_env_def demo_idem_config_def demo_idem_req_def demo_key_def)

lemma demo_ran: "run_ops demo_ops no_writer =
    \<lparr>w_header = [(''Content-Type'', ''json'')], w_sent = Some (201, [(''Content-Type'', ''json'')]), w_body = ''ok''\<rparr>"
  by (simp add: demo_ops_def run_ops_def no_writer_def hdr_set_def wr_header_def wr_write_def)

lemma demo_no_websocket: "\<not> isWebSocketRequest demo_idem_req"
  by (simp add: isWebSocketRequest_def demo_idem_req_def to_lower_def)

lemma demo_fits:
  "re_now (demo_idem_env t) = t * second" "max_cached demo_idem_config = 4096"
  "guard_seconds demo_idem_config = 300" "record_seconds demo_idem_config = 86400"
  by (simp_all add: demo_idem_env_def demo_idem_config_def guard_seconds_def record_seconds_def max_cached_def second_def)

lemma demo_blank: "w_sent no_writer = None" "w_body no_writer = []" "w_header no_writer = []"
  by (simp_all add: no_writer_def)


text \<open>
  The lock of a completed request lives for \<open>GuardTTL\<close>, the stored response for
  \<open>DefaultTTL\<close>: a retry that comes between the two runs the handler again although the
  response is still in the cache.
\<close>

theorem retry_after_guard_runs_again:
  assumes "cache_up E'" "cache_up E''" and "idem_scope E'' C True q = Scoped uid key"
    and "\<not> isWebSocketRequest q" and "int (length (cr_body resp)) \<le> max_cached C"
    and "re_now E' + guard_seconds C * second < re_now E''" "re_now E'' \<le> re_now E' + record_seconds C * second"
  shows "fst (Middleware E'' C True q ops w (storeResult E' C q uid key resp s)) = Ran (mark_fresh (iq_key q) (run_ops ops w))
    \<and> mem_get (re_now E'') (is_cache (storeResult E' C q uid key resp s)) (record_key key) = Some (IRecord resp)"
proof -
  let ?s = "storeResult E' C q uid key resp s"
  have lock: "is_cache ?s (lock_key key) =
      Some \<lparr>me_value = ILock ''completed'' [], me_expires_at = re_now E' + guard_seconds C * second\<rparr>"
    by (simp add: storeResult_lock [OF assms(1)])
  have check: "idem_check E'' ?s w q uid key = None"
    using assms(2,6) by (simp add: idem_check_def drv_get_def idem_driver_def cache_up_def mem_get_def lock)
  obtain s1 where "idem_lock E'' C ?s q key = (None, s1)"
    using assms(2,6) by (auto simp: idem_lock_def drv_setnx_def idem_driver_def cache_up_def mem_setnx_def lock)
  moreover have "fst (idem_capture q ops w) = run_ops ops w"
    using assms(4) by (simp add: idem_capture_def run_captured_inner new_capture_def Let_def)
  ultimately have "fst (Middleware E'' C True q ops w ?s) = Ran (mark_fresh (iq_key q) (run_ops ops w))"
    using assms(3) check by (cases "idem_capture q ops w") (simp add: Middleware_def)
  moreover have "is_cache ?s (record_key key) = Some \<lparr>me_value = IRecord resp, me_expires_at = re_now E' + record_seconds C * second\<rparr>"
    using assms(5) by (simp add: storeResult_cache [OF assms(1)] Let_def mem_set_def)
  ultimately show ?thesis using assms(7) by (simp add: mem_get_def)
qed

theorem retry_after_guard_runs_again_witness:
  "fst (Middleware (demo_idem_env 400) demo_idem_config True demo_idem_req demo_ops no_writer
     (storeResult (demo_idem_env 0) demo_idem_config demo_idem_req ''alice'' demo_key
        \<lparr>cr_status = 201, cr_body = ''ok'', cr_headers = []\<rparr> demo_idem_state))
   = Ran (mark_fresh ''k1'' (run_ops demo_ops no_writer))"
  using retry_after_guard_runs_again [of "demo_idem_env 0" "demo_idem_env 400" demo_idem_config demo_idem_req "''alice''"
      demo_key "\<lparr>cr_status = 201, cr_body = ''ok'', cr_headers = []\<rparr>" demo_ops no_writer demo_idem_state]
  by (simp add: demo_scope demo_no_websocket cache_up_def) (simp add: demo_idem_env_def demo_idem_config_def
      guard_seconds_def record_seconds_def max_cached_def second_def demo_idem_req_def)

text \<open>
  A response that is written in one piece of more than 5120 bytes reaches the client,
  but is captured, stored and replayed with an empty body and the same status.
\<close>

theorem large_response_replayed_empty:
  assumes "\<not> isWebSocketRequest q" and "w_sent w0 = None" "w_body w0 = []" and "5120 < length b" and "code \<noteq> 0"
    and "cache_up E'" "cache_up E''" and "re_now E' \<le> re_now E''" "re_now E'' \<le> re_now E' + guard_seconds C * second"
    and "guard_seconds C \<le> record_seconds C" and "idem_capture q [SendStatus code, SendBody b] w0 = (w1, resp)"
    and "w_sent w = None" "w_body w = []"
  shows "w_sent w1 = Some (code, w_header w0) \<and> w_body w1 = b
    \<and> (\<exists>wr hs. idem_check E'' (storeResult E' C q uid key resp s) w q uid key = Some (Replay wr)
         \<and> w_sent wr = Some (code, hs) \<and> w_body wr = [])"
proof -
  have resp: "resp = \<lparr>cr_status = code, cr_body = [], cr_headers = capture_headers (w_header w0)\<rparr>"
    and w1: "w_sent w1 = Some (code, w_header w0)" "w_body w1 = b"
    using assms(1-5,11)
    by (auto simp: idem_capture_def run_captured_def cw_WriteHeader_def cw_Write_def new_capture_def
        wr_header_def wr_write_def default_max_cached_def Let_def)
  have "int (length (cr_body resp)) \<le> max_cached C"
    by (simp add: resp max_cached_def default_max_cached_def)
  from stored_is_replayed [OF assms(6-10) this] show ?thesis
    using w1 replay_writer_sent [OF assms(12,13)] by (auto simp: resp)
qed

theorem large_response_replayed_empty_witness:
  "\<exists>w1 resp wr. idem_capture demo_idem_req [SendStatus 200, SendBody (replicate 6000 CHR ''x'')] no_writer = (w1, resp)
     \<and> w_body w1 = replicate 6000 CHR ''x''
     \<and> idem_check (demo_idem_env 9) (storeResult (demo_idem_env 2) demo_idem_config demo_idem_req ''alice'' demo_key resp demo_idem_state)
         no_writer demo_idem_req ''alice'' demo_key = Some (Replay wr) \<and> w_body wr = []"
proof -
  obtain w1 resp where c: "idem_capture demo_idem_req [SendStatus 200, SendBody (replicate 6000 CHR ''x'')] no_writer = (w1, resp)"
    by fastforce
  have "w_sent w1 = Some (200, w_header no_writer) \<and> w_body w1 = replicate 6000 CHR ''x''
    \<and> (\<exists>wr hs. idem_check (demo_idem_env 9) (storeResult (demo_idem_env 2) demo_idem_config demo_idem_req ''alice'' demo_key resp demo_idem_state)
         no_writer demo_idem_req ''alice'' demo_key = Some (Replay wr) \<and> w_sent wr = Some (200, hs) \<and> w_body wr = [])"
    by (rule large_response_replayed_empty [OF demo_no_websocket _ _ _ _ _ _ _ _ _ c])
      (simp_all add: no_writer_def cache_up_def demo_idem_env_def demo_idem_config_def guard_seconds_def
        record_seconds_def second_def)
  with c show ?thesis by blast
qed

end
