(* ===== verification/Organization.thy ===== *)
theory Organization
  imports Request_Env Auth_Store
begin

text \<open>
  Organizations and their members: the rows (\<open>domain/organization.go\<close>,
  \<open>domain/organization_member.go\<close>), the repository (\<open>repository/organization.go\<close>) and the
  service (\<open>service/organization.go\<close>).

  The Casbin engine is a parameter \<open>'c engine\<close>: its operations on a policy of an arbitrary
  type \<open>'c\<close>. The wrappers of \<open>permission/enforcer.go\<close> around it are definitions. A query
  without \<open>ORDER BY\<close> returns rows in the order of the table. The schema
  (\<open>migrations/000006_organizations.up.sql\<close>) keeps slugs unique, deleted organizations
  included, gives a user one membership of an organization, and refers both to users.
\<close>

section \<open>Rows\<close>

record organization =
  og_id :: uuid
  og_name :: string
  og_slug :: string
  og_owner :: uuid
  og_settings :: "json option"
  og_created_at :: instant
  og_deleted_at :: "instant option"

record org_member =
  om_org :: uuid
  om_user :: uuid
  om_role :: string
  om_joined_at :: instant

definition org_visible :: "organization \<Rightarrow> bool" where
  "org_visible o' = (og_deleted_at o' = None)"

definition IsOwner :: "org_member \<Rightarrow> uuid \<Rightarrow> bool" where
  "IsOwner m orgOwnerID = (om_user m = orgOwnerID)"

definition IsAdmin :: "org_member \<Rightarrow> uuid \<Rightarrow> bool" where
  "IsAdmin m orgOwnerID = (IsOwner m orgOwnerID \<or> om_role m = ''admin'')"

definition IsValidRole :: "string \<Rightarrow> bool" where
  "IsValidRole role = (role \<in> {''owner'', ''admin'', ''member''})"

section \<open>The permission engine (permission/enforcer.go)\<close>

record 'c engine =
  en_enforce :: "'c \<Rightarrow> string \<Rightarrow> string \<Rightarrow> string \<Rightarrow> string \<Rightarrow> bool result"
  en_add_policy :: "string \<Rightarrow> string \<Rightarrow> string \<Rightarrow> string \<Rightarrow> 'c \<Rightarrow> bool result \<times> 'c"
  en_add_role :: "string \<Rightarrow> string \<Rightarrow> string \<Rightarrow> 'c \<Rightarrow> bool result \<times> 'c"
  en_delete_role :: "string \<Rightarrow> string \<Rightarrow> string \<Rightarrow> 'c \<Rightarrow> bool result \<times> 'c"

definition engine_call :: "string \<Rightarrow> bool result \<times> 'c \<Rightarrow> unit result \<times> 'c" where
  "engine_call what r =
     (case r of (Inl e, c) \<Rightarrow> (Inl (Opaque (what @ '': '' @ error_text e)), c) | (Inr success, c) \<Rightarrow> (Inr (), c))"

definition policy_decision :: "'c engine \<Rightarrow> 'c \<Rightarrow> string \<Rightarrow> string \<Rightarrow> string \<Rightarrow> string \<Rightarrow> bool result" where
  "policy_decision N c sub dm obj act =
     (case en_enforce N c sub dm obj act of
        Inl e \<Rightarrow> Inl (Opaque (''enforcement failed: '' @ error_text e))
      | Inr b \<Rightarrow> Inr b)"

definition AddPolicy :: "'c engine \<Rightarrow> string \<Rightarrow> string \<Rightarrow> string \<Rightarrow> string \<Rightarrow> 'c \<Rightarrow> unit result \<times> 'c" where
  "AddPolicy N sub dm obj act c = engine_call ''failed to add policy'' (en_add_policy N sub dm obj act c)"

definition AddRoleForUser :: "'c engine \<Rightarrow> string \<Rightarrow> string \<Rightarrow> string \<Rightarrow> 'c \<Rightarrow> unit result \<times> 'c" where
  "AddRoleForUser N user role dm c = engine_call ''failed to add role for user'' (en_add_role N user role dm c)"

definition RemoveRoleForUser :: "'c engine \<Rightarrow> string \<Rightarrow> string \<Rightarrow> string \<Rightarrow> 'c \<Rightarrow> unit result \<times> 'c" where
  "RemoveRoleForUser N user role dm c =
     engine_call ''failed to remove role for user'' (en_delete_role N user role dm c)"

section \<open>State and environment\<close>

text \<open>\<open>os_mail\<close> are the goroutines that queue an invitation: recipient, organization, role, inviter, member.\<close>

datatype org_mail = OrgInvitation string uuid string uuid uuid

record 'c org_state =
  os_orgs :: "organization list"
  os_members :: "org_member list"
  os_policy :: 'c
  os_auth :: auth_state
  os_audit :: "audit_entry list"
  os_mail :: "org_mail list"

datatype org_query =
    QOrgCreate string | QOrgByID uuid | QOrgBySlug string | QOrgAll | QOrgByUser uuid | QOrgSave uuid
  | QOrgDelete uuid | QMemberAdd uuid uuid | QMemberRemove uuid uuid | QMemberFind uuid uuid
  | QMemberList uuid | QMemberRole uuid uuid | QMemberIs uuid uuid

record 'c org_env = "org_query db_env" +
  oe_engine :: "'c engine"
  oe_auth :: auth_env
  oe_has_email :: bool

definition org_decision :: "'c org_env \<Rightarrow> 'c org_state \<Rightarrow> uuid \<Rightarrow> uuid \<Rightarrow> string \<Rightarrow> bool result" where
  "org_decision E s userID orgID act =
     policy_decision (oe_engine E) (os_policy s) userID orgID ''organization'' act"

definition org_log :: "'c org_env \<Rightarrow> audit_entry \<Rightarrow> 'c org_state \<Rightarrow> 'c org_state" where
  "org_log E a s = s\<lparr>os_audit := log_action E a (os_audit s)\<rparr>"

section \<open>Repository (repository/organization.go)\<close>

definition fk_violation :: go_error where
  "fk_violation = Opaque ''ERROR: insert or update on table violates foreign key constraint (SQLSTATE 23503)''"

definition user_row_exists :: "auth_state \<Rightarrow> uuid \<Rightarrow> bool" where
  "user_row_exists a i = (tbl_count (\<lambda>u. u_id u = i) (users a) \<noteq> 0)"

definition org_create :: "'c org_env \<Rightarrow> 'c org_state \<Rightarrow> organization \<Rightarrow> unit result \<times> 'c org_state" where
  "org_create E s og =
     (if re_fault E (QOrgCreate (og_slug og)) then (Inl (WrapInternal db_error), s)
      else if tbl_count (\<lambda>r. og_slug r = og_slug og) (os_orgs s) \<noteq> 0
      then (Inl (WrapInternal unique_violation), s)
      else if \<not> user_row_exists (os_auth s) (og_owner og) then (Inl (WrapInternal fk_violation), s)
      else (Inr (), s\<lparr>os_orgs := os_orgs s @ [og]\<rparr>))"

definition org_find_by_id :: "'c org_env \<Rightarrow> 'c org_state \<Rightarrow> uuid \<Rightarrow> organization result" where
  "org_find_by_id E s i =
     (if re_fault E (QOrgByID i) then Inl (WrapInternal db_error)
      else case tbl_first (\<lambda>r. og_id r = i \<and> org_visible r) (os_orgs s) of
             None \<Rightarrow> Inl (Sentinel ErrNotFound)
           | Some og \<Rightarrow> Inr og)"

definition org_find_by_slug :: "'c org_env \<Rightarrow> 'c org_state \<Rightarrow> string \<Rightarrow> organization result" where
  "org_find_by_slug E s slug =
     (if re_fault E (QOrgBySlug slug) then Inl (WrapInternal db_error)
      else case tbl_first (\<lambda>r. og_slug r = slug \<and> org_visible r) (os_orgs s) of
             None \<Rightarrow> Inl (Sentinel ErrNotFound)
           | Some og \<Rightarrow> Inr og)"

definition org_find_all :: "'c org_env \<Rightarrow> 'c org_state \<Rightarrow> int \<Rightarrow> int \<Rightarrow> (organization list \<times> nat) result" where
  "org_find_all E s limit offset =
     (if re_fault E QOrgAll then Inl (WrapInternal db_error)
      else let rows = filter org_visible (os_orgs s) in Inr (gorm_page limit offset rows, length rows))"

definition org_find_by_user ::
    "'c org_env \<Rightarrow> 'c org_state \<Rightarrow> uuid \<Rightarrow> int \<Rightarrow> int \<Rightarrow> (organization list \<times> nat) result" where
  "org_find_by_user E s uid limit offset =
     (if re_fault E (QOrgByUser uid) then Inl (WrapInternal db_error)
      else let rows = concat (map (\<lambda>og. map (\<lambda>_. og) (filter (\<lambda>m. om_org m = og_id og \<and> om_user m = uid) (os_members s)))
                                 (filter org_visible (os_orgs s)))
           in Inr (gorm_page limit offset rows, length rows))"

text \<open>\<open>Save\<close> writes the row with this primary key, unless another row has its slug.\<close>

definition org_save :: "'c org_env \<Rightarrow> 'c org_state \<Rightarrow> organization \<Rightarrow> unit result \<times> 'c org_state" where
  "org_save E s og =
     (if re_fault E (QOrgSave (og_id og)) then (Inl (WrapInternal db_error), s)
      else if tbl_count (\<lambda>r. og_id r \<noteq> og_id og \<and> og_slug r = og_slug og) (os_orgs s) \<noteq> 0
      then (Inl (WrapInternal unique_violation), s)
      else if tbl_count (\<lambda>r. og_id r = og_id og) (os_orgs s) = 0 then (Inl (Sentinel ErrNotFound), s)
      else (Inr (), s\<lparr>os_orgs := tbl_update (\<lambda>r. og_id r = og_id og) (\<lambda>r. og) (os_orgs s)\<rparr>))"

definition org_soft_delete :: "'c org_env \<Rightarrow> 'c org_state \<Rightarrow> uuid \<Rightarrow> unit result \<times> 'c org_state" where
  "org_soft_delete E s i =
     (if re_fault E (QOrgDelete i) then (Inl (WrapInternal db_error), s)
      else let P = (\<lambda>r. og_id r = i \<and> org_visible r) in
        if tbl_count P (os_orgs s) = 0 then (Inl (Sentinel ErrNotFound), s)
        else (Inr (), s\<lparr>os_orgs := tbl_update P (\<lambda>r. r\<lparr>og_deleted_at := Some (re_now E)\<rparr>) (os_orgs s)\<rparr>))"

definition is_membership :: "uuid \<Rightarrow> uuid \<Rightarrow> org_member \<Rightarrow> bool" where
  "is_membership orgID userID m \<longleftrightarrow> om_org m = orgID \<and> om_user m = userID"

definition member_add :: "'c org_env \<Rightarrow> 'c org_state \<Rightarrow> org_member \<Rightarrow> unit result \<times> 'c org_state" where
  "member_add E s m =
     (if re_fault E (QMemberAdd (om_org m) (om_user m)) then (Inl (WrapInternal db_error), s)
      else if tbl_count (is_membership (om_org m) (om_user m)) (os_members s) \<noteq> 0
      then (Inl (WrapInternal unique_violation), s)
      else if \<not> user_row_exists (os_auth s) (om_user m) \<or> tbl_count (\<lambda>r. og_id r = om_org m) (os_orgs s) = 0
      then (Inl (WrapInternal fk_violation), s)
      else (Inr (), s\<lparr>os_members := os_members s @ [m]\<rparr>))"

definition member_remove :: "'c org_env \<Rightarrow> 'c org_state \<Rightarrow> uuid \<Rightarrow> uuid \<Rightarrow> unit result \<times> 'c org_state" where
  "member_remove E s orgID userID =
     (if re_fault E (QMemberRemove orgID userID) then (Inl (WrapInternal db_error), s)
      else if tbl_count (is_membership orgID userID) (os_members s) = 0 then (Inl (Sentinel ErrNotFound), s)
      else (Inr (), s\<lparr>os_members := filter (\<lambda>m. \<not> is_membership orgID userID m) (os_members s)\<rparr>))"

definition member_find :: "'c org_env \<Rightarrow> 'c org_state \<Rightarrow> uuid \<Rightarrow> uuid \<Rightarrow> org_member result" where
  "member_find E s orgID userID =
     (if re_fault E (QMemberFind orgID userID) then Inl (WrapInternal db_error)
      else case tbl_first (is_membership orgID userID) (os_members s) of
             None \<Rightarrow> Inl (Sentinel ErrNotFound)
           | Some m \<Rightarrow> Inr m)"

definition member_list ::
    "'c org_env \<Rightarrow> 'c org_state \<Rightarrow> uuid \<Rightarrow> int \<Rightarrow> int \<Rightarrow> (org_member list \<times> nat) result" where
  "member_list E s orgID limit offset =
     (if re_fault E (QMemberList orgID) then Inl (WrapInternal db_error)
      else let rows = filter (\<lambda>m. om_org m = orgID) (os_members s) in Inr (gorm_page limit offset rows, length rows))"

text \<open>\<open>Scan\<close> does not report a missing row: the role of a user who is no member is empty.\<close>

definition member_role :: "'c org_env \<Rightarrow> 'c org_state \<Rightarrow> uuid \<Rightarrow> uuid \<Rightarrow> string result" where
  "member_role E s orgID userID =
     (if re_fault E (QMemberRole orgID userID) then Inl (WrapInternal db_error)
      else Inr (case tbl_first (is_membership orgID userID) (os_members s) of None \<Rightarrow> [] | Some m \<Rightarrow> om_role m))"

definition member_is :: "'c org_env \<Rightarrow> 'c org_state \<Rightarrow> uuid \<Rightarrow> uuid \<Rightarrow> bool result" where
  "member_is E s orgID userID =
     (if re_fault E (QMemberIs orgID userID) then Inl (WrapInternal db_error)
      else Inr (tbl_count (is_membership orgID userID) (os_members s) > 0))"

section \<open>Service (service/organization.go)\<close>

text \<open>Rules that are added one after the other; a rule that fails is logged and skipped.\<close>

definition add_policies :: "'c engine \<Rightarrow> (string \<times> string \<times> string \<times> string) list \<Rightarrow> 'c \<Rightarrow> 'c" where
  "add_policies N ps c = foldl (\<lambda>c (sub, dm, obj, act). snd (AddPolicy N sub dm obj act c)) c ps"

definition role_policies :: "string \<Rightarrow> uuid \<Rightarrow> (string \<times> string \<times> string \<times> string) list" where
  "role_policies role orgID =
     map (\<lambda>act. (role, orgID, ''organization'', act))
       (if role = ''owner'' then [''view'', ''manage'', ''invite'', ''remove'']
        else if role = ''admin'' then [''view'', ''manage'', ''invite'']
        else if role = ''member'' then [''view'']
        else [])"

definition grant_role :: "'c engine \<Rightarrow> uuid \<Rightarrow> string \<Rightarrow> uuid \<Rightarrow> 'c \<Rightarrow> 'c" where
  "grant_role N userID role orgID c =
     add_policies N (role_policies role orgID) (snd (AddRoleForUser N userID role orgID c))"

definition org_conflict :: go_error where
  "org_conflict = NewAppError ''CONFLICT'' ''organization slug already exists'' 409"

text \<open>The check of a slug, of \<open>CreateOrganization\<close> and \<open>UpdateOrganization\<close>: an error or \<open>None\<close>.\<close>

definition slug_taken :: "'c org_env \<Rightarrow> 'c org_state \<Rightarrow> string \<Rightarrow> go_error option" where
  "slug_taken E s slug =
     (case org_find_by_slug E s slug of
        Inl err \<Rightarrow> if \<not> err_is err ErrNotFound then Some (WrapInternal err) else None
      | Inr _ \<Rightarrow> Some org_conflict)"

definition CreateOrganization ::
    "'c org_env \<Rightarrow> 'c org_state \<Rightarrow> uuid \<Rightarrow> string \<Rightarrow> string \<Rightarrow> json option \<Rightarrow> organization result \<times> 'c org_state" where
  "CreateOrganization E s userID name slug settings =
     (if name = [] \<or> slug = [] then (Inl (NewAppError ''VALIDATION_ERROR'' ''name and slug are required'' 422), s)
      else case slug_taken E s slug of
        Some err \<Rightarrow> (Inl err, s)
      | None \<Rightarrow>
          (let og = \<lparr>og_id = re_new_id E, og_name = name, og_slug = slug, og_owner = userID,
                 og_settings = (case settings of None \<Rightarrow> Some (JObj []) | Some j \<Rightarrow> Some j),
                 og_created_at = re_now E, og_deleted_at = None\<rparr>
           in case org_create E s og of
                (Inl err, s1) \<Rightarrow> (Inl (WrapInternal err), s1)
              | (Inr _, s1) \<Rightarrow>
                  (let member = \<lparr>om_org = og_id og, om_user = userID, om_role = ''owner'', om_joined_at = re_now E\<rparr>
                   in case member_add E s1 member of
                        (Inl err, s2) \<Rightarrow> (Inl (WrapInternal err), s2)
                      | (Inr _, s2) \<Rightarrow>
                          (let s3 = s2\<lparr>os_policy := grant_role (oe_engine E) userID ''owner'' (og_id og) (os_policy s2)\<rparr>
                           in (Inr og, org_log E (Audit userID ''create'' ''organization'' (og_id og)) s3)))))"

definition GetOrganization :: "'c org_env \<Rightarrow> 'c org_state \<Rightarrow> uuid \<Rightarrow> uuid \<Rightarrow> organization result" where
  "GetOrganization E s userID orgID =
     (case org_decision E s userID orgID ''view'' of
        Inl err \<Rightarrow> Inl (WrapInternal err)
      | Inr allowed \<Rightarrow> if \<not> allowed then Inl (Sentinel ErrForbidden) else org_find_by_id E s orgID)"

definition ListOrganizations ::
    "'c org_env \<Rightarrow> 'c org_state \<Rightarrow> uuid \<Rightarrow> int \<Rightarrow> int \<Rightarrow> (organization list \<times> nat) result" where
  "ListOrganizations E s userID limit offset = org_find_by_user E s userID limit offset"

text \<open>The fields that the request gives.\<close>

definition org_merge :: "string \<Rightarrow> string \<Rightarrow> json option \<Rightarrow> organization \<Rightarrow> organization" where
  "org_merge name slug settings og = og\<lparr>og_name := (if name \<noteq> [] then name else og_name og),
     og_slug := (if slug \<noteq> [] \<and> slug \<noteq> og_slug og then slug else og_slug og),
     og_settings := (case settings of None \<Rightarrow> og_settings og | Some j \<Rightarrow> Some j)\<rparr>"

definition UpdateOrganization ::
    "'c org_env \<Rightarrow> 'c org_state \<Rightarrow> uuid \<Rightarrow> uuid \<Rightarrow> string \<Rightarrow> string \<Rightarrow> json option
     \<Rightarrow> organization result \<times> 'c org_state" where
  "UpdateOrganization E s userID orgID name slug settings =
     (case org_decision E s userID orgID ''manage'' of
        Inl err \<Rightarrow> (Inl (WrapInternal err), s)
      | Inr allowed \<Rightarrow>
          if \<not> allowed then (Inl (Sentinel ErrForbidden), s)
          else case org_find_by_id E s orgID of
            Inl err \<Rightarrow> (Inl err, s)
          | Inr og \<Rightarrow>
              (case (if slug \<noteq> [] \<and> slug \<noteq> og_slug og then slug_taken E s slug else None) of
                 Some err \<Rightarrow> (Inl err, s)
               | None \<Rightarrow>
                   (case org_save E s (org_merge name slug settings og) of
                      (Inl err, s1) \<Rightarrow> (Inl err, s1)
                    | (Inr _, s1) \<Rightarrow>
                        (Inr (org_merge name slug settings og),
                         org_log E (Audit userID ''update'' ''organization'' (og_id og)) s1))))"

definition DeleteOrganization :: "'c org_env \<Rightarrow> 'c org_state \<Rightarrow> uuid \<Rightarrow> uuid \<Rightarrow> unit result \<times> 'c org_state" where
  "DeleteOrganization E s userID orgID =
     (case org_decision E s userID orgID ''manage'' of
        Inl err \<Rightarrow> (Inl (WrapInternal err), s)
      | Inr allowed \<Rightarrow>
          if \<not> allowed then (Inl (Sentinel ErrForbidden), s)
          else case org_find_by_id E s orgID of
            Inl err \<Rightarrow> (Inl err, s)
          | Inr og \<Rightarrow>
              (case org_soft_delete E s orgID of
                 (Inl err, s1) \<Rightarrow> (Inl err, s1)
               | (Inr _, s1) \<Rightarrow> (Inr (), org_log E (Audit userID ''delete'' ''organization'' orgID) s1)))"

definition org_invite :: "'c org_env \<Rightarrow> uuid \<Rightarrow> uuid \<Rightarrow> uuid \<Rightarrow> string \<Rightarrow> 'c org_state \<Rightarrow> 'c org_state" where
  "org_invite E userID orgID newMemberID role s =
     (if \<not> oe_has_email E then s
      else case user_find_by_id (oe_auth E) (os_auth s) newMemberID of
             Inl _ \<Rightarrow> s
           | Inr u \<Rightarrow> s\<lparr>os_mail := os_mail s @ [OrgInvitation (u_email u) orgID role userID newMemberID]\<rparr>)"

definition AddMember ::
    "'c org_env \<Rightarrow> 'c org_state \<Rightarrow> uuid \<Rightarrow> uuid \<Rightarrow> uuid \<Rightarrow> string \<Rightarrow> org_member result \<times> 'c org_state" where
  "AddMember E s userID orgID newMemberID role =
     (case org_decision E s userID orgID ''invite'' of
        Inl err \<Rightarrow> (Inl (WrapInternal err), s)
      | Inr allowed \<Rightarrow>
          if \<not> allowed then (Inl (Sentinel ErrForbidden), s)
          else if \<not> IsValidRole role then (Inl (NewAppError ''VALIDATION_ERROR'' (''invalid role: '' @ role) 422), s)
          else case org_find_by_id E s orgID of
            Inl err \<Rightarrow> (Inl err, s)
          | Inr og \<Rightarrow>
              (case member_is E s orgID newMemberID of
                 Inl err \<Rightarrow> (Inl (WrapInternal err), s)
               | Inr isMember \<Rightarrow>
                   if isMember
                   then (Inl (NewAppError ''CONFLICT'' ''user is already a member of this organization'' 409), s)
                   else let member = \<lparr>om_org = orgID, om_user = newMemberID, om_role = role, om_joined_at = re_now E\<rparr> in
                     case member_add E s member of
                       (Inl err, s1) \<Rightarrow> (Inl (WrapInternal err), s1)
                     | (Inr _, s1) \<Rightarrow>
                         (let s2 = s1\<lparr>os_policy := grant_role (oe_engine E) newMemberID role orgID (os_policy s1)\<rparr>;
                              s3 = org_log E (Audit userID ''create'' ''organization_member'' newMemberID) s2
                          in (Inr member, org_invite E userID orgID newMemberID role s3))))"

definition RemoveMember :: "'c org_env \<Rightarrow> 'c org_state \<Rightarrow> uuid \<Rightarrow> uuid \<Rightarrow> uuid \<Rightarrow> unit result \<times> 'c org_state" where
  "RemoveMember E s userID orgID memberID =
     (case org_decision E s userID orgID ''remove'' of
        Inl err \<Rightarrow> (Inl (WrapInternal err), s)
      | Inr allowed \<Rightarrow>
          if \<not> allowed then (Inl (Sentinel ErrForbidden), s)
          else case member_find E s orgID memberID of
            Inl err \<Rightarrow> (Inl err, s)
          | Inr member \<Rightarrow>
              (case org_find_by_id E s orgID of
                 Inl err \<Rightarrow> (Inl err, s)
               | Inr og \<Rightarrow>
                   if om_user member = og_owner og
                   then (Inl (NewAppError ''INVALID_OPERATION'' ''cannot remove organization owner'' 422), s)
                   else case member_remove E s orgID memberID of
                     (Inl err, s1) \<Rightarrow> (Inl err, s1)
                   | (Inr _, s1) \<Rightarrow>
                       (let s2 = s1\<lparr>os_policy :=
                              snd (RemoveRoleForUser (oe_engine E) memberID (om_role member) orgID (os_policy s1))\<rparr>
                        in (Inr (), org_log E (Audit userID ''delete'' ''organization_member'' memberID) s2))))"

definition GetMembers ::
    "'c org_env \<Rightarrow> 'c org_state \<Rightarrow> uuid \<Rightarrow> uuid \<Rightarrow> int \<Rightarrow> int \<Rightarrow> (org_member list \<times> nat) result" where
  "GetMembers E s userID orgID limit offset =
     (case org_decision E s userID orgID ''view'' of
        Inl err \<Rightarrow> Inl (WrapInternal err)
      | Inr allowed \<Rightarrow> if \<not> allowed then Inl (Sentinel ErrForbidden) else member_list E s orgID limit offset)"

end
