(* ===== verification/Organization_Properties.thy ===== *)
theory Organization_Properties
  imports Organization
begin

text \<open>
  The properties of organizations: the invariant of the two tables and the protection of the
  owner under any sequence of requests, and what the permission engine decides after an
  organization is created or a member is added.
\<close>

section \<open>Requests\<close>

datatype org_request =
    OCreate string string "json option"
  | OUpdate uuid string string "json option"
  | ODelete uuid
  | OAdd uuid uuid string
  | ORemove uuid uuid

fun org_run :: "'c org_env \<Rightarrow> 'c org_state \<Rightarrow> uuid \<times> org_request \<Rightarrow> unit result \<times> 'c org_state" where
  "org_run E s (u, OCreate n g j) = forget (CreateOrganization E s u n g j)"
| "org_run E s (u, OUpdate i n g j) = forget (UpdateOrganization E s u i n g j)"
| "org_run E s (u, ODelete i) = DeleteOrganization E s u i"
| "org_run E s (u, OAdd i v r) = forget (AddMember E s u i v r)"
| "org_run E s (u, ORemove i v) = RemoveMember E s u i v"

fun org_granted :: "'c org_env \<Rightarrow> 'c org_state \<Rightarrow> uuid \<times> org_request \<Rightarrow> bool" where
  "org_granted E s (u, OCreate n g j) = True"
| "org_granted E s (u, OUpdate i n g j) = (org_decision E s u i ''manage'' = Inr True)"
| "org_granted E s (u, ODelete i) = (org_decision E s u i ''manage'' = Inr True)"
| "org_granted E s (u, OAdd i v r) = (org_decision E s u i ''invite'' = Inr True)"
| "org_granted E s (u, ORemove i v) = (org_decision E s u i ''remove'' = Inr True)"

interpretation org_admin: guarded org_run org_granted
proof
  fix E :: "'c org_env" and s r
  assume denied: "\<not> org_granted E s r"
  obtain u req where "r = (u, req)" by fastforce
  with denied show "\<exists>e. org_run E s r = (Inl e, s)"
    by (cases req) (auto simp: UpdateOrganization_def DeleteOrganization_def AddMember_def RemoveMember_def
        split: sum.splits)
qed

section \<open>What a request does to the tables\<close>

lemmas org_splits = sum.splits prod.splits if_splits option.splits

lemma org_found:
  assumes "org_find_by_id E s i = Inr og"
  shows "og \<in> set (os_orgs s) \<and> og_id og = i \<and> org_visible og"
  using assms by (auto simp: org_find_by_id_def dest: tbl_first_SomeD split: org_splits)

lemma member_found: "member_find E s i v = Inr m \<Longrightarrow> m \<in> set (os_members s) \<and> om_org m = i \<and> om_user m = v"
  by (auto simp: member_find_def is_membership_def dest: tbl_first_SomeD split: org_splits)

lemma grant_frame [frame_simps]:
  "os_orgs (org_log E a s) = os_orgs s" "os_members (org_log E a s) = os_members s"
  "os_policy (org_log E a s) = os_policy s" "os_auth (org_log E a s) = os_auth s"
  "os_orgs (org_invite E u i v r s) = os_orgs s" "os_members (org_invite E u i v r s) = os_members s"
  "os_policy (org_invite E u i v r s) = os_policy s" "os_auth (org_invite E u i v r s) = os_auth s"
  by (auto simp: org_log_def org_invite_def split: org_splits)

definition new_slug_ok :: "'c org_state \<Rightarrow> uuid \<Rightarrow> string \<Rightarrow> bool" where
  "new_slug_ok s i slug \<longleftrightarrow> (\<forall>r\<in>set (os_orgs s). og_id r \<noteq> i \<longrightarrow> og_slug r \<noteq> slug)"

lemma org_create_cases:
  assumes "org_create E s og = (x, s')"
  obtains (same) e where "x = Inl e" "s' = s"
    | (new) "x = Inr ()" "s' = s\<lparr>os_orgs := os_orgs s @ [og]\<rparr>"
        "\<forall>r\<in>set (os_orgs s). og_slug r \<noteq> og_slug og" "user_row_exists (os_auth s) (og_owner og)"
  using assms by (auto simp: org_create_def tbl_count_0_iff split: org_splits)

lemma member_add_cases:
  assumes "member_add E s m = (x, s')"
  obtains (same) e where "x = Inl e" "s' = s"
    | (new) "x = Inr ()" "s' = s\<lparr>os_members := os_members s @ [m]\<rparr>"
        "\<forall>r\<in>set (os_members s). \<not> is_membership (om_org m) (om_user m) r"
        "\<exists>og\<in>set (os_orgs s). og_id og = om_org m" "user_row_exists (os_auth s) (om_user m)"
  using assms by (auto simp: member_add_def tbl_count_0_iff tbl_count_def filter_empty_conv split: org_splits)

lemma org_save_cases:
  assumes "org_save E s og = (x, s')"
  obtains (same) e where "x = Inl e" "s' = s"
    | (saved) "x = Inr ()" "s' = s\<lparr>os_orgs := tbl_update (\<lambda>r. og_id r = og_id og) (\<lambda>r. og) (os_orgs s)\<rparr>"
        "new_slug_ok s (og_id og) (og_slug og)"
  using assms by (auto simp: org_save_def new_slug_ok_def tbl_count_0_iff split: org_splits)

lemma CreateOrganization_tables:
  fixes E :: "'c org_env"
  assumes s': "s' = snd (CreateOrganization E s u n g j)"
  obtains (same) "os_orgs s' = os_orgs s" "os_members s' = os_members s"
    | (alone) og where "os_orgs s' = os_orgs s @ [og]" "os_members s' = os_members s" "og_id og = re_new_id E"
        "\<forall>r\<in>set (os_orgs s). og_slug r \<noteq> og_slug og"
    | (owned) og m where "os_orgs s' = os_orgs s @ [og]" "os_members s' = os_members s @ [m]" "og_id og = re_new_id E"
        "\<forall>r\<in>set (os_orgs s). og_slug r \<noteq> og_slug og" "om_org m = og_id og" "om_role m = ''owner''"
        "\<forall>r\<in>set (os_members s). \<not> is_membership (om_org m) (om_user m) r"
proof (cases "(n = [] \<or> g = []) \<or> slug_taken E s g \<noteq> None")
  case True
  then have "s' = s" using s' by (auto simp: CreateOrganization_def)
  with same show ?thesis by simp
next
  case False
  let ?og = "\<lparr>og_id = re_new_id E, og_name = n, og_slug = g, og_owner = u,
     og_settings = (case j of None \<Rightarrow> Some (JObj []) | Some j \<Rightarrow> Some j), og_created_at = re_now E, og_deleted_at = None\<rparr>"
  let ?m = "\<lparr>om_org = re_new_id E, om_user = u, om_role = ''owner'', om_joined_at = re_now E\<rparr>"
  obtain x s1 where c: "org_create E s ?og = (x, s1)" by fastforce
  obtain y s2 where a: "member_add E s1 ?m = (y, s2)" by fastforce
  from c show ?thesis
  proof (cases rule: org_create_cases)
    case (same e)
    then have "s' = s" using s' False c by (simp add: CreateOrganization_def Let_def)
    with that(1) show ?thesis by simp
  next
    case new
    from a show ?thesis
    proof (cases rule: member_add_cases)
      case (same e)
      then have "s' = s1" using s' False c a new(1) by (simp add: CreateOrganization_def Let_def)
      with new show ?thesis by (intro that(2) [of ?og]) simp_all
    next
      case new': new
      then have "os_orgs s' = os_orgs s2" "os_members s' = os_members s2"
        using s' False c a new(1) by (simp_all add: CreateOrganization_def Let_def frame_simps)
      with new new' show ?thesis by (intro that(3) [of ?og ?m]) simp_all
    qed
  qed
qed

lemma UpdateOrganization_tables:
  assumes s': "s' = snd (UpdateOrganization E s u i n g j)"
  shows "os_members s' = os_members s \<and> (os_orgs s' = os_orgs s
    \<or> (\<exists>og og'. og \<in> set (os_orgs s) \<and> og_id og' = og_id og \<and> og_owner og' = og_owner og
         \<and> new_slug_ok s (og_id og) (og_slug og')
         \<and> os_orgs s' = tbl_update (\<lambda>r. og_id r = og_id og) (\<lambda>r. og') (os_orgs s)))"
proof (cases "\<exists>og. org_decision E s u i ''manage'' = Inr True \<and> org_find_by_id E s i = Inr og")
  case False
  then have "s' = s" using s' by (auto simp: UpdateOrganization_def split: org_splits)
  then show ?thesis by simp
next
  case True
  then obtain og where og: "org_decision E s u i ''manage'' = Inr True" "org_find_by_id E s i = Inr og" by blast
  let ?og = "org_merge n g j og"
  have merged: "og_id ?og = og_id og" "og_owner ?og = og_owner og" by (simp_all add: org_merge_def)
  obtain x s1 where save: "org_save E s ?og = (x, s1)" by fastforce
  show ?thesis
  proof (cases "if g \<noteq> [] \<and> g \<noteq> og_slug og then slug_taken E s g else None")
    case None
    from save show ?thesis
    proof (cases rule: org_save_cases)
      case (same e)
      then have "s' = s" using s' save None by (simp add: UpdateOrganization_def og)
      then show ?thesis by simp
    next
      case saved
      then have "s' = org_log E (Audit u ''update'' ''organization'' (og_id og)) s1"
        using s' save None by (simp add: UpdateOrganization_def og)
      then have "os_orgs s' = tbl_update (\<lambda>r. og_id r = og_id og) (\<lambda>r. ?og) (os_orgs s)"
        and "os_members s' = os_members s"
        using saved(2) merged(1) by (simp_all add: frame_simps)
      then show ?thesis using merged saved(3) org_found [OF og(2)] by metis
    qed
  next
    case (Some err)
    then have "s' = s" using s' by (simp add: UpdateOrganization_def og)
    then show ?thesis by simp
  qed
qed

lemma DeleteOrganization_tables:
  assumes s': "s' = snd (DeleteOrganization E s u i)"
  shows "os_members s' = os_members s \<and> (os_orgs s' = os_orgs s
    \<or> os_orgs s' = tbl_update (\<lambda>r. og_id r = i \<and> org_visible r) (\<lambda>r. r\<lparr>og_deleted_at := Some (re_now E)\<rparr>) (os_orgs s))"
  using s' by (auto simp: DeleteOrganization_def org_soft_delete_def frame_simps Let_def split: org_splits)

lemma AddMember_tables:
  assumes s': "s' = snd (AddMember E s u i v r)"
  shows "os_orgs s' = os_orgs s \<and> (os_members s' = os_members s
    \<or> (\<exists>m og. os_members s' = os_members s @ [m] \<and> om_org m = i \<and> om_user m = v \<and> om_role m = r \<and> IsValidRole r
         \<and> og \<in> set (os_orgs s) \<and> og_id og = i \<and> (\<forall>x\<in>set (os_members s). \<not> is_membership i v x)))"
proof -
  let ?m = "\<lparr>om_org = i, om_user = v, om_role = r, om_joined_at = re_now E\<rparr>"
  obtain x s1 where add: "member_add E s ?m = (x, s1)" by fastforce
  show ?thesis
  proof (cases "os_members s' = os_members s \<and> os_orgs s' = os_orgs s")
    case False
    then have "IsValidRole r" and "s' \<noteq> s" using s' by (auto simp: AddMember_def split: org_splits)
    moreover from this have "os_members s' = os_members s1 \<and> os_orgs s' = os_orgs s1"
      using s' add by (auto simp: AddMember_def frame_simps Let_def split: org_splits)
    ultimately show ?thesis using False by (cases rule: member_add_cases [OF add]) auto
  qed simp
qed

lemma RemoveMember_tables:
  assumes s': "s' = snd (RemoveMember E s u i v)"
  shows "os_orgs s' = os_orgs s \<and> (os_members s' = os_members s
    \<or> (\<exists>og. org_find_by_id E s i = Inr og \<and> v \<noteq> og_owner og
         \<and> os_members s' = filter (\<lambda>m. \<not> is_membership i v m) (os_members s)))"
  using s' by (auto simp: RemoveMember_def member_remove_def frame_simps Let_def dest: member_found split: org_splits)

section \<open>The invariant of the tables\<close>

definition membership :: "org_member \<Rightarrow> uuid \<times> uuid" where
  "membership m = (om_org m, om_user m)"

definition org_inv :: "organization list \<Rightarrow> org_member list \<Rightarrow> bool" where
  "org_inv orgs members \<longleftrightarrow> distinct (map og_id orgs) \<and> distinct (map og_slug orgs)
     \<and> distinct (map membership members)
     \<and> list_all (\<lambda>m. IsValidRole (om_role m) \<and> om_org m \<in> og_id ` set orgs) members"

definition owner_is_member :: "uuid \<Rightarrow> uuid \<Rightarrow> 'c org_state \<Rightarrow> bool" where
  "owner_is_member i u s \<longleftrightarrow> (\<exists>og\<in>set (os_orgs s). og_id og = i \<and> og_owner og = u)
     \<and> (\<exists>m\<in>set (os_members s). is_membership i u m)"

text \<open>
  A step is a request, or a change of the users or of the policy by another part of the
  program.
\<close>

inductive org_step :: "'c org_state \<Rightarrow> 'c org_state \<Rightarrow> bool" where
  request: "re_new_id E \<notin> og_id ` set (os_orgs s) \<Longrightarrow> org_step s (snd (org_run E s r))"
| users: "org_step s (s\<lparr>os_auth := a\<rparr>)"
| policy: "org_step s (s\<lparr>os_policy := c\<rparr>)"

inductive org_steps :: "'c org_state \<Rightarrow> 'c org_state \<Rightarrow> bool" where
  stay: "org_steps s s"
| more: "org_steps s s' \<Longrightarrow> org_step s' s'' \<Longrightarrow> org_steps s s''"

lemma org_inv_append:
  assumes "org_inv orgs members" "og_id og \<notin> og_id ` set orgs" "\<forall>r\<in>set orgs. og_slug r \<noteq> og_slug og"
  shows "org_inv (orgs @ [og]) members"
  using assms by (auto simp: org_inv_def list_all_iff)

lemma org_inv_member:
  assumes "org_inv orgs members" "IsValidRole (om_role m)" "\<exists>og\<in>set orgs. og_id og = om_org m"
    and "\<forall>r\<in>set members. \<not> is_membership (om_org m) (om_user m) r"
  shows "org_inv orgs (members @ [m])"
proof -
  have "om_org m \<in> og_id ` set orgs" using assms(3) by force
  with assms show ?thesis by (auto simp: org_inv_def list_all_iff membership_def is_membership_def)
qed

lemma distinct_map_filter_general: "distinct (map f xs) \<Longrightarrow> distinct (map f (filter P xs))"
  by (induction xs) auto

lemma org_inv_remove: "org_inv orgs members \<Longrightarrow> org_inv orgs (filter P members)"
  by (simp add: org_inv_def distinct_map_filter_general list_all_iff)

lemma distinct_slug_update:
  assumes "distinct (map og_id orgs)" "distinct (map og_slug orgs)"
    and "\<forall>r\<in>set orgs. og_id r \<noteq> i \<longrightarrow> og_slug r \<noteq> og_slug og'"
  shows "distinct (map og_slug (tbl_update (\<lambda>r. og_id r = i) (\<lambda>r. og') orgs))"
  using assms
proof (induction orgs)
  case (Cons a orgs)
  have rest: "tbl_update (\<lambda>r. og_id r = i) (\<lambda>r. og') orgs = orgs" if "og_id a = i"
    unfolding tbl_update_def using Cons.prems(1) that by (intro map_idI) (metis distinct.simps(2) image_eqI list.map(2) list.set_map)
  show ?case
  proof (cases "og_id a = i")
    case True
    have "og_slug r \<noteq> og_slug og'" if "r \<in> set orgs" for r
      using Cons.prems(1,3) True that by (metis distinct.simps(2) image_eqI insertCI list.map(2) list.set(2) list.set_map)
    then have "og_slug og' \<notin> og_slug ` set orgs" by force
    then show ?thesis using True Cons.prems(2) rest by (simp add: tbl_update_def)
  next
    case False
    have "og_slug a \<notin> og_slug ` set (tbl_update (\<lambda>r. og_id r = i) (\<lambda>r. og') orgs)"
      using Cons.prems(2,3) False by (auto simp: set_tbl_update)
    moreover have "tbl_update (\<lambda>r. og_id r = i) (\<lambda>r. og') (a # orgs) = a # tbl_update (\<lambda>r. og_id r = i) (\<lambda>r. og') orgs"
      using False by (simp add: tbl_update_def)
    ultimately show ?thesis using Cons by simp
  qed
qed (simp add: tbl_update_def)

lemma org_ids_update:
  assumes "\<And>r. P r \<Longrightarrow> og_id (f r) = og_id r"
  shows "map og_id (tbl_update P f orgs) = map og_id orgs" "og_id ` set (tbl_update P f orgs) = og_id ` set orgs"
proof -
  show m: "map og_id (tbl_update P f orgs) = map og_id orgs" by (rule map_tbl_update) (rule assms)
  show "og_id ` set (tbl_update P f orgs) = og_id ` set orgs" using arg_cong [OF m, of set] by simp
qed

lemma org_inv_save:
  assumes "org_inv orgs members" and "og_id og' = i" and "\<forall>r\<in>set orgs. og_id r \<noteq> i \<longrightarrow> og_slug r \<noteq> og_slug og'"
  shows "org_inv (tbl_update (\<lambda>r. og_id r = i) (\<lambda>r. og') orgs) members"
  using assms org_ids_update [of "\<lambda>r. og_id r = i" "\<lambda>r. og'" orgs] by (simp add: org_inv_def distinct_slug_update)

lemma org_inv_delete:
  assumes "org_inv orgs members"
  shows "org_inv (tbl_update P (\<lambda>r. r\<lparr>og_deleted_at := t\<rparr>) orgs) members"
proof -
  have "map og_slug (tbl_update P (\<lambda>r. r\<lparr>og_deleted_at := t\<rparr>) orgs) = map og_slug orgs" by (rule map_tbl_update) simp
  then show ?thesis
    using assms org_ids_update [of P "\<lambda>r. r\<lparr>og_deleted_at := t\<rparr>" orgs] by (simp add: org_inv_def)
qed

lemma org_request_inv:
  assumes "org_inv (os_orgs s) (os_members s)" and "re_new_id E \<notin> og_id ` set (os_orgs s)"
  shows "org_inv (os_orgs (snd (org_run E s r))) (os_members (snd (org_run E s r)))"
proof -
  obtain u req where r: "r = (u, req)" by fastforce
  show ?thesis
  proof (cases req)
    case (OCreate n g j)
    then have s': "snd (org_run E s r) = snd (CreateOrganization E s u n g j)" by (simp add: r)
    from s' show ?thesis
    proof (cases rule: CreateOrganization_tables)
      case same
      with assms(1) show ?thesis by simp
    next
      case (alone og)
      with assms show ?thesis by (simp add: org_inv_append)
    next
      case (owned og m)
      with assms have "org_inv (os_orgs s @ [og]) (os_members s)" by (simp add: org_inv_append)
      with owned show ?thesis by (simp add: org_inv_member IsValidRole_def)
    qed
  next
    case (OUpdate i n g j)
    then have s': "snd (org_run E s r) = snd (UpdateOrganization E s u i n g j)" by (simp add: r)
    show ?thesis
      using assms UpdateOrganization_tables [OF s'] by (auto intro!: org_inv_save simp: new_slug_ok_def)
  next
    case (ODelete i)
    then have s': "snd (org_run E s r) = snd (DeleteOrganization E s u i)" by (simp add: r)
    show ?thesis using assms DeleteOrganization_tables [OF s'] by (auto intro!: org_inv_delete)
  next
    case (OAdd i v ro)
    then have s': "snd (org_run E s r) = snd (AddMember E s u i v ro)" by (simp add: r)
    show ?thesis using assms AddMember_tables [OF s'] by (auto intro!: org_inv_member)
  next
    case (ORemove i v)
    then have s': "snd (org_run E s r) = snd (RemoveMember E s u i v)" by (simp add: r)
    show ?thesis using assms RemoveMember_tables [OF s'] by (auto intro: org_inv_remove)
  qed
qed

lemma org_steps_inv:
  assumes "org_steps s s'" and "org_inv (os_orgs s) (os_members s)"
  shows "org_inv (os_orgs s') (os_members s')"
  using assms by (induction rule: org_steps.induct) (auto elim!: org_step.cases intro: org_request_inv)

section \<open>The permission engine\<close>

text \<open>
  The documented behaviour of Casbin with the model of \<open>RBACModel\<close>, as far as it is used: a
  rule of a role decides for the users who have the role in the domain, and the two calls that
  add an entry add it and nothing else. \<open>roles\<close> and \<open>rules\<close> read the entries of a policy.
\<close>

definition rbac_engine ::
    "'c engine \<Rightarrow> ('c \<Rightarrow> (string \<times> string \<times> string) set) \<Rightarrow> ('c \<Rightarrow> (string \<times> string \<times> string \<times> string) set) \<Rightarrow> bool" where
  "rbac_engine N roles rules \<longleftrightarrow>
     (\<forall>c sub dm obj act role. (sub, role, dm) \<in> roles c \<longrightarrow> (role, dm, obj, act) \<in> rules c \<longrightarrow>
        en_enforce N c sub dm obj act = Inr True)
   \<and> (\<forall>c sub dm obj act. roles (snd (en_add_policy N sub dm obj act c)) = roles c
        \<and> rules (snd (en_add_policy N sub dm obj act c)) = insert (sub, dm, obj, act) (rules c))
   \<and> (\<forall>c user role dm. roles (snd (en_add_role N user role dm c)) = insert (user, role, dm) (roles c)
        \<and> rules (snd (en_add_role N user role dm c)) = rules c)"

lemma engine_call_snd [simp]: "snd (engine_call what r) = snd r"
  by (cases r; cases "fst r") (auto simp: engine_call_def)

lemma add_policies_adds:
  assumes "rbac_engine N roles rules"
  shows "roles (add_policies N ps c) = roles c \<and> rules (add_policies N ps c) = set ps \<union> rules c"
proof (induction ps arbitrary: c)
  case (Cons p ps)
  obtain sub dm obj act where p: "p = (sub, dm, obj, act)" by (metis prod_cases4)
  have "roles (snd (AddPolicy N sub dm obj act c)) = roles c
      \<and> rules (snd (AddPolicy N sub dm obj act c)) = insert p (rules c)"
    using assms by (simp add: AddPolicy_def p rbac_engine_def)
  with Cons.IH [of "snd (AddPolicy N sub dm obj act c)"] show ?case by (simp add: add_policies_def p)
qed (simp add: add_policies_def)

lemma grant_role_decides:
  assumes "rbac_engine N roles rules" and "(role, i, obj, act) \<in> set (role_policies role i)"
  shows "policy_decision N (grant_role N u role i c) u i obj act = Inr True"
proof -
  let ?c = "grant_role N u role i c"
  have "(u, role, i) \<in> roles ?c" "(role, i, obj, act) \<in> rules ?c"
    using assms add_policies_adds [OF assms(1)]
    by (simp_all add: grant_role_def AddRoleForUser_def rbac_engine_def)
  then have "en_enforce N ?c u i obj act = Inr True" using assms(1) by (auto simp: rbac_engine_def)
  then show ?thesis by (simp add: policy_decision_def)
qed

definition org_acts :: "string list" where
  "org_acts = [''view'', ''manage'', ''invite'', ''remove'']"

lemma owner_policies: "act \<in> set org_acts \<Longrightarrow> (''owner'', i, ''organization'', act) \<in> set (role_policies ''owner'' i)"
  by (auto simp: role_policies_def org_acts_def)

section \<open>An example\<close>

type_synonym demo_policy = "(string \<times> string \<times> string) list \<times> (string \<times> string \<times> string \<times> string) list"

definition demo_engine :: "demo_policy engine" where
  "demo_engine = \<lparr>
     en_enforce = (\<lambda>(g, p) sub dm obj act.
       Inr (list_ex (\<lambda>(user, role, d). user = sub \<and> d = dm \<and> (role, dm, obj, act) \<in> set p) g)),
     en_add_policy = (\<lambda>sub dm obj act (g, p). (Inr True, g, (sub, dm, obj, act) # p)),
     en_add_role = (\<lambda>user role dm (g, p). (Inr True, (user, role, dm) # g, p)),
     en_delete_role = (\<lambda>user role dm (g, p). (Inr True, removeAll (user, role, dm) g, p))\<rparr>"

definition demo_member :: "string \<Rightarrow> string \<Rightarrow> org_member" where
  "demo_member u role = \<lparr>om_org = ''o1'', om_user = u, om_role = role, om_joined_at = 0\<rparr>"

definition demo_org_user :: "string \<Rightarrow> user" where
  "demo_org_user u = \<lparr>u_id = u, u_email = u @ ''@x'', u_password_hash = [], u_deleted_at = None,
     u_tf_enabled = False, u_tf_status = [], u_tf_secret = [], u_tf_verified_at = None\<rparr>"

text \<open>The organization of olga, with the admin adam and the member max.\<close>

definition demo_org :: organization where
  "demo_org = \<lparr>og_id = ''o1'', og_name = ''Org'', og_slug = ''org'', og_owner = ''olga'', og_settings = None,
     og_created_at = 0, og_deleted_at = None\<rparr>"

definition demo_orgs :: "demo_policy org_state" where
  "demo_orgs = \<lparr>os_orgs = [demo_org],
     os_members = [demo_member ''olga'' ''owner'', demo_member ''adam'' ''admin'', demo_member ''max'' ''member''],
     os_policy = ([(''olga'', ''owner'', ''o1''), (''adam'', ''admin'', ''o1''), (''max'', ''member'', ''o1'')],
       role_policies ''owner'' ''o1'' @ role_policies ''admin'' ''o1''),
     os_auth = \<lparr>users = map demo_org_user [''olga'', ''adam'', ''max'', ''eve''], refresh_tokens = [], reset_tokens = [],
       recovery_codes = [], metrics = (\<lambda>_. 0), audit_log = [], spawned = []\<rparr>,
     os_audit = [], os_mail = []\<rparr>"

definition demo_auth_env :: auth_env where
  "demo_auth_env = \<lparr>a_now = 5, a_fault = (\<lambda>q. False), a_rand = None, a_new_family = [], a_new_id = (\<lambda>i. []),
     a_hash_token = id, a_pw_hash = Some, a_pw_verify = (=), a_access = (\<lambda>u e. None), a_refresh_expiry = 100,
     a_reset_expiry = 10, a_has_roles = False, a_has_email = False, a_has_reset_repo = False, a_has_audit = False,
     a_audit_full = False\<rparr>"

definition demo_org_env :: "demo_policy org_env" where
  "demo_org_env = \<lparr>re_now = 5, re_fault = (\<lambda>q. False), re_new_id = ''o2'', re_audit_full = False,
     oe_engine = demo_engine, oe_auth = demo_auth_env, oe_has_email = True\<rparr>"

lemma demo_rbac: "rbac_engine demo_engine (\<lambda>c. set (fst c)) (\<lambda>c. set (snd c))"
  by (force simp: rbac_engine_def demo_engine_def list_ex_iff)

lemma demo_org_inv: "org_inv (os_orgs demo_orgs) (os_members demo_orgs)"
  by (simp add: org_inv_def demo_orgs_def demo_org_def demo_member_def membership_def IsValidRole_def)

lemma demo_owner: "owner_is_member ''o1'' ''olga'' demo_orgs"
  by (simp add: owner_is_member_def demo_orgs_def demo_org_def demo_member_def is_membership_def)

lemma demo_org_users:
  "user_row_exists (os_auth demo_orgs) u \<longleftrightarrow> u \<in> {''olga'', ''adam'', ''max'', ''eve''}"
  by (auto simp: user_row_exists_def tbl_count_0_iff demo_orgs_def demo_org_user_def)

lemma demo_org_step: "org_steps demo_orgs (snd (org_run demo_org_env demo_orgs r))"
  by (rule org_steps.more [OF org_steps.stay org_step.request]) (simp add: demo_org_env_def demo_orgs_def demo_org_def)

lemma demo_finds:
  "org_find_by_id demo_org_env demo_orgs ''o1'' = Inr demo_org"
  "member_find demo_org_env demo_orgs ''o1'' ''eve'' = Inl (Sentinel ErrNotFound)"
  "member_find demo_org_env demo_orgs ''o1'' ''adam'' = Inr (demo_member ''adam'' ''admin'')"
  "member_find demo_org_env demo_orgs ''o1'' ''max'' = Inr (demo_member ''max'' ''member'')"
  "\<not> re_fault demo_org_env q"
  by (simp_all add: org_find_by_id_def member_find_def demo_org_env_def demo_orgs_def tbl_first_def org_visible_def
      demo_org_def demo_member_def is_membership_def)

lemma demo_decisions:
  "org_decision demo_org_env demo_orgs ''adam'' ''o1'' ''invite'' = Inr True"
  "org_decision demo_org_env demo_orgs ''adam'' ''o1'' ''remove'' = Inr False"
  by (simp_all add: org_decision_def policy_decision_def demo_org_env_def demo_engine_def demo_orgs_def role_policies_def)

section \<open>The tables and the owner\<close>

text \<open>
  Under any requests, failures, and changes of users and policies by the rest of the
  program, identifiers and slugs of organizations stay unique, deleted organizations included,
  a user has at most one membership of an organization, and every membership has one of the
  three roles in an organization that exists.
\<close>

theorem org_table_invariant:
  assumes "org_steps s s'" and "org_inv (os_orgs s) (os_members s)"
  shows "org_inv (os_orgs s') (os_members s')"
  by (rule org_steps_inv [OF assms])

theorem org_table_invariant_witness:
  "org_inv (os_orgs (snd (org_run demo_org_env demo_orgs (''max'', OCreate ''Other'' ''other'' None))))
     (os_members (snd (org_run demo_org_env demo_orgs (''max'', OCreate ''Other'' ''other'' None))))"
  by (rule org_table_invariant [OF demo_org_step demo_org_inv])

section \<open>The owner\<close>

lemma owner_after_update:
  assumes "distinct (map og_id orgs)" and "og \<in> set orgs" "og_id og = i" "og_owner og = u"
    and "og1 \<in> set orgs" "og_id og' = og_id og1" "og_owner og' = og_owner og1"
  shows "\<exists>og\<in>set (tbl_update (\<lambda>r. og_id r = og_id og1) (\<lambda>r. og') orgs). og_id og = i \<and> og_owner og = u"
proof (cases "og_id og1 = i")
  case True
  then have "og1 = og" using assms(1-3,5) by (auto simp: distinct_map inj_on_def)
  then show ?thesis using assms by (auto simp: tbl_update_def)
next
  case False
  then have "og \<in> set (tbl_update (\<lambda>r. og_id r = og_id og1) (\<lambda>r. og') orgs)"
    using assms(2,3) by (auto simp: set_tbl_update)
  with assms(3,4) show ?thesis by blast
qed

lemma owner_after_request:
  assumes inv: "org_inv (os_orgs s) (os_members s)" and own: "owner_is_member i u s"
  shows "owner_is_member i u (snd (org_run E s r))"
proof -
  let ?s' = "snd (org_run E s r)"
  obtain og where og: "og \<in> set (os_orgs s)" "og_id og = i" "og_owner og = u" using own by (auto simp: owner_is_member_def)
  obtain m where m: "m \<in> set (os_members s)" "is_membership i u m" using own by (auto simp: owner_is_member_def)
  have ids: "distinct (map og_id (os_orgs s))" using inv by (simp add: org_inv_def)
  obtain v req where r: "r = (v, req)" by fastforce
  show ?thesis
  proof (cases req)
    case (OCreate n g j)
    then have s': "?s' = snd (CreateOrganization E s v n g j)" by (simp add: r)
    then have "set (os_orgs s) \<subseteq> set (os_orgs ?s') \<and> set (os_members s) \<subseteq> set (os_members ?s')"
      by (cases rule: CreateOrganization_tables) auto
    with og m show ?thesis by (auto simp: owner_is_member_def)
  next
    case (OUpdate i' n g j)
    then have s': "?s' = snd (UpdateOrganization E s v i' n g j)" by (simp add: r)
    from UpdateOrganization_tables [OF s'] show ?thesis
      using og m owner_after_update [OF ids og] by (auto simp: owner_is_member_def)
  next
    case (ODelete i')
    then have s': "?s' = snd (DeleteOrganization E s v i')" by (simp add: r)
    let ?P = "\<lambda>r. og_id r = i' \<and> org_visible r" and ?f = "\<lambda>r. r\<lparr>og_deleted_at := Some (re_now E)\<rparr>"
    have "\<exists>og'\<in>set (tbl_update ?P ?f (os_orgs s)). og_id og' = i \<and> og_owner og' = u"
      by (rule bexI [OF _ tbl_updateI [OF og(1)]]) (simp add: og(2,3))
    with DeleteOrganization_tables [OF s'] show ?thesis using og m by (auto simp: owner_is_member_def)
  next
    case (OAdd i' w ro)
    then have s': "?s' = snd (AddMember E s v i' w ro)" by (simp add: r)
    from AddMember_tables [OF s'] show ?thesis using og m by (auto simp: owner_is_member_def)
  next
    case (ORemove i' w)
    then have s': "?s' = snd (RemoveMember E s v i' w)" by (simp add: r)
    have "(i', w) \<noteq> (i, u)" if "org_find_by_id E s i' = Inr og'" "w \<noteq> og_owner og'" for og'
      using that org_found [OF that(1)] og ids by (auto simp: distinct_map inj_on_def)
    then have keep: "\<not> is_membership i' w m" if "org_find_by_id E s i' = Inr og'" "w \<noteq> og_owner og'" for og'
      using that m(2) by (auto simp: is_membership_def)
    have "m \<in> set (os_members ?s')" using RemoveMember_tables [OF s'] m(1) keep by auto
    with RemoveMember_tables [OF s'] show ?thesis using og m by (auto simp: owner_is_member_def)
  qed
qed

text \<open>
  C4. An owner who is a member stays one: whatever requests are sent by anybody, with any
  policy and any failures, the organization keeps its owner and the owner the membership.
\<close>

theorem owner_stays_member:
  assumes "org_steps s s'" and "org_inv (os_orgs s) (os_members s)" and "owner_is_member i u s"
  shows "owner_is_member i u s'"
proof -
  have "owner_is_member i u s' \<and> org_inv (os_orgs s') (os_members s')"
    using assms
  proof (induction rule: org_steps.induct)
    case (more s s' s'')
    then have ih: "owner_is_member i u s'" "org_inv (os_orgs s') (os_members s')" by auto
    from \<open>org_step s' s''\<close> show ?case
    proof (cases rule: org_step.cases)
      case (request E r)
      then show ?thesis using owner_after_request [OF ih(2,1)] org_request_inv [OF ih(2)] by simp
    qed (use ih in \<open>simp_all add: owner_is_member_def\<close>)
  qed simp
  then show ?thesis ..
qed

theorem owner_stays_member_witness:
  "owner_is_member ''o1'' ''olga'' (snd (org_run demo_org_env demo_orgs (''olga'', ORemove ''o1'' ''olga'')))"
  by (rule owner_stays_member [OF demo_org_step demo_org_inv demo_owner])

section \<open>What the permission engine decides afterwards\<close>

text \<open>
  Creating an organization with a free slug succeeds when no query fails; the creator is
  then its owner and a member, and the permission engine grants all four actions, so that the
  creator can read the organization.
\<close>

theorem creator_controls:
  fixes E :: "'c org_env"
  assumes engine: "rbac_engine (oe_engine E) roles rules" and up: "\<And>q. \<not> re_fault E q"
    and names: "n \<noteq> []" "g \<noteq> []" and slug: "\<And>r. r \<in> set (os_orgs s) \<Longrightarrow> og_slug r \<noteq> g"
    and user: "user_row_exists (os_auth s) u"
    and inv: "org_inv (os_orgs s) (os_members s)" and fresh: "re_new_id E \<notin> og_id ` set (os_orgs s)"
  shows "\<exists>og s'. CreateOrganization E s u n g j = (Inr og, s') \<and> og_owner og = u \<and> owner_is_member (og_id og) u s'
    \<and> (\<forall>act. act \<in> set org_acts \<longrightarrow> org_decision E s' u (og_id og) act = Inr True)
    \<and> GetOrganization E s' u (og_id og) = Inr og"
proof -
  let ?og = "\<lparr>og_id = re_new_id E, og_name = n, og_slug = g, og_owner = u,
     og_settings = (case j of None \<Rightarrow> Some (JObj []) | Some j \<Rightarrow> Some j), og_created_at = re_now E, og_deleted_at = None\<rparr>"
  let ?m = "\<lparr>om_org = re_new_id E, om_user = u, om_role = ''owner'', om_joined_at = re_now E\<rparr>"
  let ?s1 = "s\<lparr>os_orgs := os_orgs s @ [?og]\<rparr>"
  let ?s2 = "?s1\<lparr>os_members := os_members s @ [?m]\<rparr>"
  let ?s' = "org_log E (Audit u ''create'' ''organization'' (re_new_id E))
    (?s2\<lparr>os_policy := grant_role (oe_engine E) u ''owner'' (re_new_id E) (os_policy s)\<rparr>)"
  have "tbl_first (\<lambda>r. og_slug r = g \<and> org_visible r) (os_orgs s) = None"
    using slug by (auto simp: tbl_first_None_iff)
  then have free: "slug_taken E s g = None" using up by (simp add: slug_taken_def org_find_by_slug_def)
  have create: "org_create E s ?og = (Inr (), ?s1)"
    using slug user up by (auto simp: org_create_def tbl_count_0_iff)
  have "om_org m \<noteq> re_new_id E" if "m \<in> set (os_members s)" for m
    using that inv fresh unfolding org_inv_def list_all_iff by metis
  then have "\<not> is_membership (re_new_id E) u m" if "m \<in> set (os_members s)" for m
    using that by (simp add: is_membership_def)
  then have none: "tbl_count (is_membership (re_new_id E) u) (os_members s) = 0" by (simp add: tbl_count_0_iff)
  have add: "member_add E ?s1 ?m = (Inr (), ?s2)"
    using none user up by (simp add: member_add_def tbl_count_def)
  have run: "CreateOrganization E s u n g j = (Inr ?og, ?s')"
    using names free create add by (simp add: CreateOrganization_def Let_def)
  have rights: "org_decision E ?s' u (re_new_id E) act = Inr True" if "act \<in> set org_acts" for act
    using grant_role_decides [OF engine owner_policies [OF that]] by (simp add: org_decision_def frame_simps)
  have "tbl_first (\<lambda>r. og_id r = re_new_id E \<and> org_visible r) (os_orgs s) = None"
    using fresh by (force simp: tbl_first_None_iff)
  then have "org_find_by_id E ?s' (re_new_id E) = Inr ?og"
    using up by (simp add: org_find_by_id_def frame_simps tbl_first_append tbl_first_Cons org_visible_def)
  then have "GetOrganization E ?s' u (re_new_id E) = Inr ?og"
    using rights [of "''view''"] by (simp add: GetOrganization_def org_acts_def)
  moreover have "owner_is_member (re_new_id E) u ?s'"
    by (simp add: owner_is_member_def frame_simps is_membership_def)
  ultimately show ?thesis using run rights by (intro exI [of _ ?og] exI [of _ ?s']) simp
qed

theorem creator_controls_witness:
  "\<exists>og s'. CreateOrganization demo_org_env demo_orgs ''max'' ''Other'' ''other'' None = (Inr og, s')
     \<and> og_owner og = ''max'' \<and> org_decision demo_org_env s' ''max'' (og_id og) ''remove'' = Inr True"
proof -
  have "oe_engine demo_org_env = demo_engine" by (simp add: demo_org_env_def)
  note e = demo_rbac [folded this]
  have "\<exists>og s'. CreateOrganization demo_org_env demo_orgs ''max'' ''Other'' ''other'' None = (Inr og, s')
    \<and> og_owner og = ''max'' \<and> owner_is_member (og_id og) ''max'' s'
    \<and> (\<forall>act. act \<in> set org_acts \<longrightarrow> org_decision demo_org_env s' ''max'' (og_id og) act = Inr True)
    \<and> GetOrganization demo_org_env s' ''max'' (og_id og) = Inr og"
    by (rule creator_controls [OF e]) (simp_all add: demo_finds demo_org_inv demo_org_users,
        simp_all add: demo_orgs_def demo_org_def demo_org_env_def)
  then show ?thesis by (auto simp: org_acts_def)
qed

text \<open>
  Who may only invite can give anybody the role owner: the new member is then granted all
  four actions, and can remove every member but the owner of the organization, also those who
  may do more than the inviter.
\<close>

theorem inviter_makes_owners:
  fixes E :: "'c org_env"
  assumes engine: "rbac_engine (oe_engine E) roles rules" and up: "\<And>q. \<not> re_fault E q"
    and invite: "org_decision E s u i ''invite'' = Inr True" and org: "org_find_by_id E s i = Inr og"
    and new: "member_find E s i v = Inl (Sentinel ErrNotFound)" and user: "user_row_exists (os_auth s) v"
    and victim: "member_find E s i w = Inr mw" "w \<noteq> og_owner og"
  shows "\<exists>m s'. AddMember E s u i v ''owner'' = (Inr m, s')
    \<and> (\<forall>act. act \<in> set org_acts \<longrightarrow> org_decision E s' v i act = Inr True)
    \<and> (\<exists>s''. RemoveMember E s' v i w = (Inr (), s'')
         \<and> member_find E s'' i w = Inl (Sentinel ErrNotFound))"
proof -
  let ?m = "\<lparr>om_org = i, om_user = v, om_role = ''owner'', om_joined_at = re_now E\<rparr>"
  let ?s1 = "s\<lparr>os_members := os_members s @ [?m]\<rparr>"
  let ?s' = "org_invite E u i v ''owner'' (org_log E (Audit u ''create'' ''organization_member'' v)
    (?s1\<lparr>os_policy := grant_role (oe_engine E) v ''owner'' i (os_policy s)\<rparr>))"
  have none: "tbl_count (is_membership i v) (os_members s) = 0"
    using new up by (auto simp: member_find_def tbl_count_0_iff tbl_first_None_iff split: option.splits)
  have "tbl_count (\<lambda>r. og_id r = i) (os_orgs s) \<noteq> 0"
    using org_found [OF org] by (intro tbl_count_pos [of og]) auto
  then have add: "member_add E s ?m = (Inr (), ?s1)" using none user up by (simp add: member_add_def)
  have "member_is E s i v = Inr False" using none up by (simp add: member_is_def)
  then have run: "AddMember E s u i v ''owner'' = (Inr ?m, ?s')"
    using invite org add by (simp add: AddMember_def IsValidRole_def Let_def)
  have rights: "org_decision E ?s' v i act = Inr True" if "act \<in> set org_acts" for act
    using grant_role_decides [OF engine owner_policies [OF that]] by (simp add: org_decision_def frame_simps)
  have found: "member_find E ?s' i w = Inr mw"
    using victim(1) up by (auto simp: member_find_def frame_simps tbl_first_append split: option.splits)
  have org': "org_find_by_id E ?s' i = Inr og" using org up by (simp add: org_find_by_id_def frame_simps)
  have mw: "om_user mw = w" using member_found [OF victim(1)] by simp
  have "mw \<in> set (os_members ?s')" "is_membership i w mw"
    using member_found [OF found] by (simp_all add: is_membership_def)
  then have "tbl_count (is_membership i w) (os_members ?s') \<noteq> 0" by (rule tbl_count_pos)
  then obtain s2 where s2: "member_remove E ?s' i w = (Inr (), s2)"
      "os_members s2 = filter (\<lambda>m. \<not> is_membership i w m) (os_members ?s')"
    using up by (simp add: member_remove_def)
  define s3 where "s3 = org_log E (Audit v ''delete'' ''organization_member'' w)
    (s2\<lparr>os_policy := snd (RemoveRoleForUser (oe_engine E) w (om_role mw) i (os_policy s2))\<rparr>)"
  have "RemoveMember E ?s' v i w = (Inr (), s3)"
    using rights [of "''remove''"] found org' mw victim(2) s2
    by (simp add: RemoveMember_def org_acts_def Let_def s3_def)
  moreover have "tbl_first (is_membership i w) (os_members s3) = None"
    using s2(2) by (simp add: s3_def frame_simps tbl_first_None_iff)
  then have "member_find E s3 i w = Inl (Sentinel ErrNotFound)" using up by (simp add: member_find_def)
  ultimately show ?thesis using run rights by (intro exI [of _ ?m] exI [of _ ?s']) blast
qed

theorem inviter_makes_owners_witness:
  "\<exists>m s'. AddMember demo_org_env demo_orgs ''adam'' ''o1'' ''eve'' ''owner'' = (Inr m, s')
     \<and> org_decision demo_org_env s' ''eve'' ''o1'' ''remove'' = Inr True
     \<and> org_decision demo_org_env demo_orgs ''adam'' ''o1'' ''remove'' = Inr False"
proof -
  have "oe_engine demo_org_env = demo_engine" by (simp add: demo_org_env_def)
  note e = demo_rbac [folded this]
  have "\<exists>m s'. AddMember demo_org_env demo_orgs ''adam'' ''o1'' ''eve'' ''owner'' = (Inr m, s')
    \<and> (\<forall>act. act \<in> set org_acts \<longrightarrow> org_decision demo_org_env s' ''eve'' ''o1'' act = Inr True)
    \<and> (\<exists>s''. RemoveMember demo_org_env s' ''eve'' ''o1'' ''max'' = (Inr (), s'')
         \<and> member_find demo_org_env s'' ''o1'' ''max'' = Inl (Sentinel ErrNotFound))"
    by (rule inviter_makes_owners [OF e demo_finds(5) demo_decisions(1) demo_finds(1,2) _ demo_finds(4)])
      (simp_all add: demo_org_users demo_org_def)
  then show ?thesis by (auto simp: org_acts_def demo_decisions)
qed

text \<open>The slug of a deleted organization stays taken, and the answer is then an internal error.\<close>

theorem deleted_slug_is_internal_error:
  assumes "\<And>q. \<not> re_fault E q" "n \<noteq> []" "g \<noteq> []"
    and "r \<in> set (os_orgs s)" "og_slug r = g" and "\<And>r. r \<in> set (os_orgs s) \<Longrightarrow> og_slug r = g \<Longrightarrow> \<not> org_visible r"
  shows "\<exists>e. CreateOrganization E s u n g j = (Inl e, s) \<and> app_error e = Some (''INTERNAL_ERROR'', 500)"
proof -
  have "tbl_first (\<lambda>r. og_slug r = g \<and> org_visible r) (os_orgs s) = None"
    using assms(6) by (auto simp: tbl_first_None_iff)
  then have "slug_taken E s g = None" using assms(1) by (simp add: slug_taken_def org_find_by_slug_def)
  moreover have "tbl_count (\<lambda>r. og_slug r = g) (os_orgs s) \<noteq> 0" using assms(4,5) by (rule tbl_count_pos)
  ultimately show ?thesis using assms(1-3) by (simp add: CreateOrganization_def org_create_def Let_def)
qed

end
