(* ===== verification/Comment.thy ===== *)
theory Comment
  imports Organization
begin

text \<open>
  Comments: the row and its response (\<open>domain/comment.go\<close>), the repository
  (\<open>repository/comment.go\<close>) and the service (\<open>service/comment.go\<close>). The users are those of
  \<open>Auth_Store\<close>, the organizations those of \<open>Organization\<close>; the schema
  (\<open>migrations/000022_create_comments.up.sql\<close>) refers to both and to the parent comment.
  \<open>uuid.Parse\<close> is a parameter.
\<close>

section \<open>Rows and responses\<close>

definition IsValidCommentableType :: "string \<Rightarrow> bool" where
  "IsValidCommentableType t = (t \<in> {''news'', ''invoice'', ''media''})"

record comment =
  cm_id :: uuid
  cm_parent :: "uuid option"
  cm_author :: uuid
  cm_org :: uuid
  cm_type :: string
  cm_target :: uuid
  cm_content :: string
  cm_mentions :: "json option"
  cm_edited_at :: "instant option"
  cm_pinned :: bool
  cm_created_at :: instant
  cm_updated_at :: instant
  cm_deleted_at :: "instant option"

record comment_response =
  rs_id :: uuid
  rs_parent :: "uuid option"
  rs_author :: uuid
  rs_author_name :: string
  rs_org :: uuid
  rs_type :: string
  rs_target :: uuid
  rs_content :: string
  rs_mentions :: "json option"
  rs_pinned :: bool
  rs_edited_at :: "instant option"
  rs_replies :: nat
  rs_created_at :: instant
  rs_updated_at :: instant

definition comment_ToResponse :: "comment \<Rightarrow> string \<Rightarrow> nat \<Rightarrow> comment_response" where
  "comment_ToResponse c authorName replyCount =
     \<lparr>rs_id = cm_id c, rs_parent = cm_parent c, rs_author = cm_author c, rs_author_name = authorName,
      rs_org = cm_org c, rs_type = cm_type c, rs_target = cm_target c, rs_content = cm_content c,
      rs_mentions = cm_mentions c, rs_pinned = cm_pinned c, rs_edited_at = cm_edited_at c,
      rs_replies = replyCount, rs_created_at = cm_created_at c, rs_updated_at = cm_updated_at c\<rparr>"

definition comment_visible :: "comment \<Rightarrow> bool" where
  "comment_visible c = (cm_deleted_at c = None)"

section \<open>State and environment\<close>

record comment_state =
  cs_comments :: "comment list"
  cs_orgs :: "organization list"
  cs_auth :: auth_state
  cs_audit :: "audit_entry list"

datatype comment_query =
    QCommentCreate | QCommentByID uuid | QCommentList string uuid | QReplyList uuid | QCommentSave uuid
  | QCommentDelete uuid | QCommentCount string uuid | QReplyCount uuid

record comment_env = "comment_query req_env" +
  ce_parse_uuid :: "string \<Rightarrow> uuid option"
  ce_auth :: auth_env

definition comment_log :: "comment_env \<Rightarrow> audit_entry \<Rightarrow> comment_state \<Rightarrow> comment_state" where
  "comment_log E a s = s\<lparr>cs_audit := log_action E a (cs_audit s)\<rparr>"

section \<open>Repository (repository/comment.go)\<close>

definition comment_create :: "comment_env \<Rightarrow> comment_state \<Rightarrow> comment \<Rightarrow> unit result \<times> comment_state" where
  "comment_create E s c =
     (if re_fault E QCommentCreate then (Inl (WrapInternal db_error), s)
      else if \<not> user_row_exists (cs_auth s) (cm_author c) \<or> tbl_count (\<lambda>og. og_id og = cm_org c) (cs_orgs s) = 0
         \<or> (case cm_parent c of None \<Rightarrow> False | Some p \<Rightarrow> tbl_count (\<lambda>r. cm_id r = p) (cs_comments s) = 0)
      then (Inl (WrapInternal fk_violation), s)
      else (Inr (), s\<lparr>cs_comments := cs_comments s @ [c]\<rparr>))"

definition comment_find_by_id :: "comment_env \<Rightarrow> comment_state \<Rightarrow> uuid \<Rightarrow> comment result" where
  "comment_find_by_id E s i =
     (if re_fault E (QCommentByID i) then Inl (WrapInternal db_error)
      else case tbl_first (\<lambda>r. cm_id r = i \<and> comment_visible r) (cs_comments s) of
             None \<Rightarrow> Inl (Sentinel ErrNotFound)
           | Some c \<Rightarrow> Inr c)"

definition comment_page :: "int \<Rightarrow> int \<Rightarrow> comment list \<Rightarrow> comment list \<times> nat" where
  "comment_page limit offset rows = (sql_page limit offset (sort_key cm_created_at rows), length rows)"

definition find_by_commentable ::
    "comment_env \<Rightarrow> comment_state \<Rightarrow> string \<Rightarrow> uuid \<Rightarrow> int \<Rightarrow> int \<Rightarrow> (comment list \<times> nat) result" where
  "find_by_commentable E s ty target limit offset =
     (if re_fault E (QCommentList ty target) then Inl (WrapInternal db_error)
      else Inr (comment_page limit offset
        (filter (\<lambda>r. cm_type r = ty \<and> cm_target r = target \<and> comment_visible r) (cs_comments s))))"

definition find_replies ::
    "comment_env \<Rightarrow> comment_state \<Rightarrow> uuid \<Rightarrow> int \<Rightarrow> int \<Rightarrow> (comment list \<times> nat) result" where
  "find_replies E s parentID limit offset =
     (if re_fault E (QReplyList parentID) then Inl (WrapInternal db_error)
      else Inr (comment_page limit offset
        (filter (\<lambda>r. cm_parent r = Some parentID \<and> comment_visible r) (cs_comments s))))"

text \<open>\<open>Save\<close> writes the row with this primary key and sets \<open>updated_at\<close>.\<close>

definition comment_save :: "comment_env \<Rightarrow> comment_state \<Rightarrow> comment \<Rightarrow> comment result \<times> comment_state" where
  "comment_save E s c =
     (if re_fault E (QCommentSave (cm_id c)) then (Inl (WrapInternal db_error), s)
      else if tbl_count (\<lambda>r. cm_id r = cm_id c) (cs_comments s) = 0 then (Inl (Sentinel ErrNotFound), s)
      else let c' = c\<lparr>cm_updated_at := re_now E\<rparr>
           in (Inr c', s\<lparr>cs_comments := tbl_update (\<lambda>r. cm_id r = cm_id c) (\<lambda>r. c') (cs_comments s)\<rparr>))"

definition comment_soft_delete :: "comment_env \<Rightarrow> comment_state \<Rightarrow> uuid \<Rightarrow> unit result \<times> comment_state" where
  "comment_soft_delete E s i =
     (if re_fault E (QCommentDelete i) then (Inl (WrapInternal db_error), s)
      else let P = (\<lambda>r. cm_id r = i \<and> comment_visible r) in
        if tbl_count P (cs_comments s) = 0 then (Inl (Sentinel ErrNotFound), s)
        else (Inr (), s\<lparr>cs_comments := tbl_update P
          (\<lambda>r. r\<lparr>cm_deleted_at := Some (re_now E), cm_updated_at := re_now E\<rparr>) (cs_comments s)\<rparr>))"

definition count_by_commentable :: "comment_env \<Rightarrow> comment_state \<Rightarrow> string \<Rightarrow> uuid \<Rightarrow> nat result" where
  "count_by_commentable E s ty target =
     (if re_fault E (QCommentCount ty target) then Inl (WrapInternal db_error)
      else Inr (tbl_count (\<lambda>r. cm_type r = ty \<and> cm_target r = target \<and> comment_visible r) (cs_comments s)))"

definition count_replies :: "comment_env \<Rightarrow> comment_state \<Rightarrow> uuid \<Rightarrow> nat result" where
  "count_replies E s parentID =
     (if re_fault E (QReplyCount parentID) then Inl (WrapInternal db_error)
      else Inr (tbl_count (\<lambda>r. cm_parent r = Some parentID \<and> comment_visible r) (cs_comments s)))"

section \<open>Mentions\<close>

text \<open>
  The matches of \<open>mentionRegex\<close>, leftmost first and without overlap: the text between an
  at-sign with an opening brace and the next closing brace, when it is not empty.
\<close>

function mentions :: "string \<Rightarrow> string list" where
  "mentions [] = []"
| "mentions (c # cs) =
     (if c = CHR ''@'' \<and> cs \<noteq> [] \<and> hd cs = CHR ''{'' then
        (let email = takeWhile (\<lambda>x. x \<noteq> CHR ''}'') (tl cs); rest = dropWhile (\<lambda>x. x \<noteq> CHR ''}'') (tl cs)
         in if email \<noteq> [] \<and> rest \<noteq> [] then email # mentions (tl rest) else mentions cs)
      else mentions cs)"
  by pat_completeness auto

termination
proof (relation "measure length", goal_cases)
  case (2 c cs email rest)
  have "length (dropWhile (\<lambda>x. x \<noteq> CHR ''}'') (tl cs)) \<le> length (tl cs)" by (rule length_dropWhile_le)
  then show ?case using 2 by simp
qed auto

fun resolve_mentions :: "comment_env \<Rightarrow> comment_state \<Rightarrow> string list \<Rightarrow> string list \<Rightarrow> uuid list result" where
  "resolve_mentions E s seen [] = Inr []"
| "resolve_mentions E s seen (email # emails) =
     (if email \<in> set seen then resolve_mentions E s seen emails
      else case user_find_by_email (ce_auth E) (cs_auth s) email of
             Inl err \<Rightarrow>
               if IsNotFound err then resolve_mentions E s (email # seen) emails else Inl (WrapInternal err)
           | Inr u \<Rightarrow>
               (case resolve_mentions E s (email # seen) emails of
                  Inl err \<Rightarrow> Inl err
                | Inr ids \<Rightarrow> Inr (u_id u # ids)))"

definition parseMentions :: "comment_env \<Rightarrow> comment_state \<Rightarrow> string \<Rightarrow> uuid list result" where
  "parseMentions E s content = resolve_mentions E s [] (mentions content)"

definition buildMentionedUserIDsJSON :: "uuid list \<Rightarrow> json option" where
  "buildMentionedUserIDsJSON ids = Some (JArr (map JStr ids))"

text \<open>A failed lookup does not fail the request: the comment then has no mentions.\<close>

definition mentions_json :: "comment_env \<Rightarrow> comment_state \<Rightarrow> string \<Rightarrow> json option" where
  "mentions_json E s content =
     buildMentionedUserIDsJSON (case parseMentions E s content of Inl _ \<Rightarrow> [] | Inr ids \<Rightarrow> ids)"

section \<open>Service (service/comment.go)\<close>

text \<open>
  \<open>buildCommentResponse\<close> never fails: the branches of its callers for an error are dead.
\<close>

definition buildCommentResponse :: "comment_env \<Rightarrow> comment_state \<Rightarrow> comment \<Rightarrow> comment_response" where
  "buildCommentResponse E s c =
     comment_ToResponse c
       (case user_find_by_id (ce_auth E) (cs_auth s) (cm_author c) of Inl _ \<Rightarrow> [] | Inr u \<Rightarrow> u_email u)
       (case count_replies E s (cm_id c) of Inl _ \<Rightarrow> 0 | Inr n \<Rightarrow> n)"

text \<open>The check that every handler begins with: an error, or \<open>None\<close> to go on.\<close>

definition comment_check :: "comment_env \<Rightarrow> uuid \<Rightarrow> bool \<Rightarrow> uuid \<Rightarrow> string \<Rightarrow> string \<Rightarrow> go_error option" where
  "comment_check E userID hasOrgID orgID act msg =
     (case re_enforce E userID (resolveOrgDomain hasOrgID orgID) ''comment'' act of
        Inl err \<Rightarrow> Some (WrapInternal err)
      | Inr allowed \<Rightarrow> if \<not> allowed then Some (NewAppError ''FORBIDDEN'' msg 403) else None)"

definition comment_invalid :: "string \<Rightarrow> go_error" where
  "comment_invalid msg = NewAppError ''VALIDATION_ERROR'' msg 422"

text \<open>The parent of a new comment: a reply to a reply is attached to the comment above it.\<close>

definition resolve_parent ::
    "comment_env \<Rightarrow> comment_state \<Rightarrow> string \<Rightarrow> uuid \<Rightarrow> string \<Rightarrow> uuid option result" where
  "resolve_parent E s ty target parent_id =
     (if parent_id = [] then Inr None
      else case ce_parse_uuid E parent_id of
        None \<Rightarrow> Inl (comment_invalid ''invalid parent_id format'')
      | Some parsed \<Rightarrow>
          (case comment_find_by_id E s parsed of
             Inl err \<Rightarrow> Inl (if IsNotFound err then NewAppError ''NOT_FOUND'' ''parent comment not found'' 404
                             else WrapInternal err)
           | Inr parent \<Rightarrow>
               if cm_type parent \<noteq> ty \<or> cm_target parent \<noteq> target
               then Inl (comment_invalid ''parent comment must belong to the same commentable entity'')
               else Inr (case cm_parent parent of Some p \<Rightarrow> Some p | None \<Rightarrow> Some parsed)))"

definition Comment_Create ::
    "comment_env \<Rightarrow> comment_state \<Rightarrow> uuid \<Rightarrow> bool \<Rightarrow> uuid \<Rightarrow> string \<Rightarrow> uuid \<Rightarrow> string \<Rightarrow> string
     \<Rightarrow> comment_response result \<times> comment_state" where
  "Comment_Create E s userID hasOrgID orgID ty target content parent_id =
     (case comment_check E userID hasOrgID orgID ''create'' ''insufficient permissions to create comments'' of
        Some err \<Rightarrow> (Inl err, s)
      | None \<Rightarrow>
          if \<not> IsValidCommentableType ty then (Inl (comment_invalid (''invalid commentable type: '' @ ty)), s)
          else case resolve_parent E s ty target parent_id of
            Inl err \<Rightarrow> (Inl err, s)
          | Inr parent \<Rightarrow>
              (let c = \<lparr>cm_id = re_new_id E, cm_parent = parent, cm_author = userID, cm_org = orgID, cm_type = ty,
                     cm_target = target, cm_content = content, cm_mentions = mentions_json E s content,
                     cm_edited_at = None, cm_pinned = False, cm_created_at = re_now E, cm_updated_at = re_now E,
                     cm_deleted_at = None\<rparr>
               in case comment_create E s c of
                    (Inl err, s1) \<Rightarrow> (Inl (WrapInternal err), s1)
                  | (Inr _, s1) \<Rightarrow>
                      (let s2 = comment_log E (Audit userID ''create'' ''comment'' (cm_id c)) s1
                       in (Inr (buildCommentResponse E s2 c), s2))))"

definition Comment_GetByID ::
    "comment_env \<Rightarrow> comment_state \<Rightarrow> uuid \<Rightarrow> bool \<Rightarrow> uuid \<Rightarrow> uuid \<Rightarrow> comment_response result" where
  "Comment_GetByID E s userID hasOrgID orgID i =
     (case comment_check E userID hasOrgID orgID ''view'' ''insufficient permissions to view comments'' of
        Some err \<Rightarrow> Inl err
      | None \<Rightarrow> (case comment_find_by_id E s i of Inl err \<Rightarrow> Inl err | Inr c \<Rightarrow> Inr (buildCommentResponse E s c)))"

definition ListByCommentable ::
    "comment_env \<Rightarrow> comment_state \<Rightarrow> uuid \<Rightarrow> bool \<Rightarrow> uuid \<Rightarrow> string \<Rightarrow> uuid \<Rightarrow> int \<Rightarrow> int
     \<Rightarrow> (comment_response list \<times> nat) result" where
  "ListByCommentable E s userID hasOrgID orgID ty target limit offset =
     (case comment_check E userID hasOrgID orgID ''view'' ''insufficient permissions to view comments'' of
        Some err \<Rightarrow> Inl err
      | None \<Rightarrow>
          if \<not> IsValidCommentableType ty then Inl (comment_invalid (''invalid commentable type: '' @ ty))
          else (case find_by_commentable E s ty target limit offset of
                  Inl err \<Rightarrow> Inl (WrapInternal err)
                | Inr (rows, n) \<Rightarrow> Inr (map (buildCommentResponse E s) rows, n)))"

definition ListReplies ::
    "comment_env \<Rightarrow> comment_state \<Rightarrow> uuid \<Rightarrow> bool \<Rightarrow> uuid \<Rightarrow> uuid \<Rightarrow> int \<Rightarrow> int
     \<Rightarrow> (comment_response list \<times> nat) result" where
  "ListReplies E s userID hasOrgID orgID parentID limit offset =
     (case comment_check E userID hasOrgID orgID ''view'' ''insufficient permissions to view comments'' of
        Some err \<Rightarrow> Inl err
      | None \<Rightarrow> (case find_replies E s parentID limit offset of
                  Inl err \<Rightarrow> Inl (WrapInternal err)
                | Inr (rows, n) \<Rightarrow> Inr (map (buildCommentResponse E s) rows, n)))"

text \<open>The end of \<open>Update\<close>, \<open>Pin\<close> and \<open>Unpin\<close>: save, audit, answer.\<close>

definition save_and_answer ::
    "comment_env \<Rightarrow> comment_state \<Rightarrow> uuid \<Rightarrow> string \<Rightarrow> comment \<Rightarrow> comment_response result \<times> comment_state" where
  "save_and_answer E s userID act c =
     (case comment_save E s c of
        (Inl err, s1) \<Rightarrow> (Inl (WrapInternal err), s1)
      | (Inr c', s1) \<Rightarrow>
          (let s2 = comment_log E (Audit userID act ''comment'' (cm_id c')) s1
           in (Inr (buildCommentResponse E s2 c'), s2)))"

definition Comment_Update ::
    "comment_env \<Rightarrow> comment_state \<Rightarrow> uuid \<Rightarrow> bool \<Rightarrow> uuid \<Rightarrow> uuid \<Rightarrow> string
     \<Rightarrow> comment_response result \<times> comment_state" where
  "Comment_Update E s userID hasOrgID orgID i content =
     (case comment_check E userID hasOrgID orgID ''create'' ''insufficient permissions to update comments'' of
        Some err \<Rightarrow> (Inl err, s)
      | None \<Rightarrow>
          (case comment_find_by_id E s i of
             Inl err \<Rightarrow> (Inl err, s)
           | Inr c \<Rightarrow>
               if cm_author c \<noteq> userID
               then (Inl (NewAppError ''FORBIDDEN'' ''you can only update your own comments'' 403), s)
               else save_and_answer E s userID ''update''
                 (c\<lparr>cm_content := content, cm_edited_at := Some (re_now E), cm_mentions := mentions_json E s content\<rparr>)))"

definition Comment_Delete ::
    "comment_env \<Rightarrow> comment_state \<Rightarrow> uuid \<Rightarrow> bool \<Rightarrow> uuid \<Rightarrow> uuid \<Rightarrow> unit result \<times> comment_state" where
  "Comment_Delete E s userID hasOrgID orgID i =
     (case comment_find_by_id E s i of
        Inl err \<Rightarrow> (Inl err, s)
      | Inr c \<Rightarrow>
          (case (if cm_author c = userID
                 then comment_check E userID hasOrgID orgID ''delete'' ''insufficient permissions to delete comments''
                 else comment_check E userID hasOrgID orgID ''delete_any''
                        ''insufficient permissions to delete any comment'') of
             Some err \<Rightarrow> (Inl err, s)
           | None \<Rightarrow>
               (case comment_soft_delete E s i of
                  (Inl err, s1) \<Rightarrow> (Inl (WrapInternal err), s1)
                | (Inr _, s1) \<Rightarrow> (Inr (), comment_log E (Audit userID ''delete'' ''comment'' i) s1))))"

definition Pin ::
    "comment_env \<Rightarrow> comment_state \<Rightarrow> uuid \<Rightarrow> bool \<Rightarrow> uuid \<Rightarrow> uuid \<Rightarrow> comment_response result \<times> comment_state" where
  "Pin E s userID hasOrgID orgID i =
     (case comment_check E userID hasOrgID orgID ''manage'' ''insufficient permissions to manage comments'' of
        Some err \<Rightarrow> (Inl err, s)
      | None \<Rightarrow>
          (case comment_find_by_id E s i of
             Inl err \<Rightarrow> (Inl err, s)
           | Inr c \<Rightarrow>
               if cm_pinned c then (Inl (comment_invalid ''comment is already pinned''), s)
               else save_and_answer E s userID ''pin'' (c\<lparr>cm_pinned := True\<rparr>)))"

definition Unpin ::
    "comment_env \<Rightarrow> comment_state \<Rightarrow> uuid \<Rightarrow> bool \<Rightarrow> uuid \<Rightarrow> uuid \<Rightarrow> comment_response result \<times> comment_state" where
  "Unpin E s userID hasOrgID orgID i =
     (case comment_check E userID hasOrgID orgID ''manage'' ''insufficient permissions to manage comments'' of
        Some err \<Rightarrow> (Inl err, s)
      | None \<Rightarrow>
          (case comment_find_by_id E s i of
             Inl err \<Rightarrow> (Inl err, s)
           | Inr c \<Rightarrow>
               if \<not> cm_pinned c then (Inl (comment_invalid ''comment is already unpinned''), s)
               else save_and_answer E s userID ''unpin'' (c\<lparr>cm_pinned := False\<rparr>)))"

end
