(* ===== verification/Comment_Properties.thy ===== *)
theory Comment_Properties
  imports Comment Organization_Properties
begin

text \<open>
  The properties of comments: the shape of the threads under any requests, who can change a
  comment, which organizations a request reaches, and the mentions of a text.
\<close>

section \<open>Requests\<close>

datatype comment_request =
    CCreate string uuid string string
  | CUpdate uuid string
  | CDelete uuid
  | CPin uuid
  | CUnpin uuid

fun comment_run ::
    "comment_env \<Rightarrow> comment_state \<Rightarrow> uuid \<times> bool \<times> uuid \<times> comment_request \<Rightarrow> unit result \<times> comment_state" where
  "comment_run E s (u, h, og, CCreate ty target content p) = forget (Comment_Create E s u h og ty target content p)"
| "comment_run E s (u, h, og, CUpdate i content) = forget (Comment_Update E s u h og i content)"
| "comment_run E s (u, h, og, CDelete i) = Comment_Delete E s u h og i"
| "comment_run E s (u, h, og, CPin i) = forget (Pin E s u h og i)"
| "comment_run E s (u, h, og, CUnpin i) = forget (Unpin E s u h og i)"

text \<open>What the permission engine has to grant, given the author of the comment.\<close>

definition comment_allows :: "comment_env \<Rightarrow> uuid \<Rightarrow> bool \<Rightarrow> uuid \<Rightarrow> string \<Rightarrow> bool" where
  "comment_allows E u h og act \<longleftrightarrow> re_enforce E u (resolveOrgDomain h og) ''comment'' act = Inr True"

fun comment_granted :: "comment_env \<Rightarrow> comment_state \<Rightarrow> uuid \<times> bool \<times> uuid \<times> comment_request \<Rightarrow> bool" where
  "comment_granted E s (u, h, og, CCreate ty target content p) = comment_allows E u h og ''create''"
| "comment_granted E s (u, h, og, CUpdate i content) =
     (comment_allows E u h og ''create''
      \<and> (case comment_find_by_id E s i of Inl _ \<Rightarrow> False | Inr c \<Rightarrow> cm_author c = u))"
| "comment_granted E s (u, h, og, CDelete i) =
     (case comment_find_by_id E s i of
        Inl _ \<Rightarrow> False
      | Inr c \<Rightarrow> comment_allows E u h og (if cm_author c = u then ''delete'' else ''delete_any''))"
| "comment_granted E s (u, h, og, CPin i) = comment_allows E u h og ''manage''"
| "comment_granted E s (u, h, og, CUnpin i) = comment_allows E u h og ''manage''"

lemma comment_check_None: "comment_check E u h og act msg = None \<longleftrightarrow> comment_allows E u h og act"
  by (auto simp: comment_check_def comment_allows_def split: sum.splits)

lemma comment_check_refuses: "\<not> comment_allows E u h og act \<Longrightarrow> \<exists>e. comment_check E u h og act msg = Some e"
  using comment_check_None [of E u h og act msg] by auto

interpretation comment_guard: guarded comment_run comment_granted
proof
  fix E s r
  assume denied: "\<not> comment_granted E s r"
  obtain u h og req where r: "r = (u, h, og, req)" by (metis prod_cases4)
  show "\<exists>e. comment_run E s r = (Inl e, s)"
  proof (cases req)
    case (CCreate ty target content p)
    with denied obtain e where
      "comment_check E u h og ''create'' ''insufficient permissions to create comments'' = Some e"
      using comment_check_refuses [of E u h og "''create''"] by (auto simp: r)
    with CCreate show ?thesis by (simp add: r Comment_Create_def)
  next
    case (CUpdate i content)
    with denied show ?thesis
      by (auto simp: r Comment_Update_def comment_check_None split: option.split sum.split)
  next
    case (CDelete i)
    with denied show ?thesis
      by (auto simp: r Comment_Delete_def comment_check_None split: option.split sum.split if_split_asm)
  next
    case (CPin i)
    with denied show ?thesis by (auto simp: r Pin_def comment_check_None split: option.split)
  next
    case (CUnpin i)
    with denied show ?thesis by (auto simp: r Unpin_def comment_check_None split: option.split)
  qed
qed

section \<open>What a request does to the table\<close>

lemmas comment_splits = sum.splits prod.splits if_splits option.splits

lemma comment_found:
  assumes "comment_find_by_id E s i = Inr c"
  shows "c \<in> set (cs_comments s) \<and> cm_id c = i \<and> comment_visible c"
  using assms by (auto simp: comment_find_by_id_def dest: tbl_first_SomeD split: comment_splits)

lemma comment_log_frame [frame_simps]:
  "cs_comments (comment_log E a s) = cs_comments s" "cs_orgs (comment_log E a s) = cs_orgs s"
  "cs_auth (comment_log E a s) = cs_auth s"
  by (simp_all add: comment_log_def)

lemma resolve_parent_found:
  assumes "resolve_parent E s ty target p = Inr (Some q)"
  obtains c where "c \<in> set (cs_comments s)" "cm_type c = ty" "cm_target c = target"
    "q = cm_id c \<and> cm_parent c = None \<or> cm_parent c = Some q"
proof -
  from assms obtain i c where "comment_find_by_id E s i = Inr c" "cm_type c = ty" "cm_target c = target"
      "q = (case cm_parent c of Some p \<Rightarrow> p | None \<Rightarrow> i)"
    by (auto simp: resolve_parent_def split: comment_splits)
  then show ?thesis using that [of c] comment_found by (force split: option.splits)
qed

lemma Comment_Create_rows:
  assumes "s' = snd (Comment_Create E s u h og ty target content p)"
  shows "cs_comments s' = cs_comments s
    \<or> (\<exists>c. cs_comments s' = cs_comments s @ [c] \<and> cm_id c = re_new_id E \<and> cm_type c = ty \<and> cm_target c = target
         \<and> resolve_parent E s ty target p = Inr (cm_parent c))"
  using assms by (auto simp: Comment_Create_def comment_create_def frame_simps Let_def split: comment_splits)

lemma save_and_answer_rows:
  assumes "s' = snd (save_and_answer E s u act c)"
  shows "cs_comments s' = cs_comments s
    \<or> cs_comments s' = tbl_update (\<lambda>r. cm_id r = cm_id c) (\<lambda>r. c\<lparr>cm_updated_at := re_now E\<rparr>) (cs_comments s)"
  using assms by (auto simp: save_and_answer_def comment_save_def frame_simps Let_def split: comment_splits)

text \<open>What a request may change of an existing comment, and what it never does.\<close>

definition comment_place :: "comment \<Rightarrow> uuid \<times> uuid option \<times> uuid \<times> uuid \<times> string \<times> uuid" where
  "comment_place c = (cm_id c, cm_parent c, cm_author c, cm_org c, cm_type c, cm_target c)"

definition comment_text :: "comment \<Rightarrow> string \<times> json option \<times> instant option" where
  "comment_text c = (cm_content c, cm_mentions c, cm_edited_at c)"

lemma place_id: "comment_place c = comment_place d \<Longrightarrow> cm_id c = cm_id d"
  by (simp add: comment_place_def)

text \<open>
  The effect of a request on the rows: one row is added, or every row is rewritten in its
  place, and the text only when the author updates the comment.
\<close>

definition in_place :: "(comment \<Rightarrow> comment) \<Rightarrow> comment list \<Rightarrow> comment list \<Rightarrow> bool" where
  "in_place f rows rows' \<longleftrightarrow> rows' = map f rows \<and> (\<forall>r\<in>set rows. comment_place (f r) = comment_place r)"

lemma in_place_same: "in_place (\<lambda>r. r) rows rows"
  by (simp add: in_place_def)

lemma answer_in_place:
  assumes ids: "distinct (map cm_id (cs_comments s))" and found: "comment_find_by_id E s i = Inr c0"
    and place: "comment_place c = comment_place c0" and s': "s' = snd (save_and_answer E s u act c)"
  obtains f where "in_place f (cs_comments s) (cs_comments s')"
    and "\<And>r. r \<in> set (cs_comments s) \<Longrightarrow> comment_text (f r) \<noteq> comment_text r \<Longrightarrow>
      r = c0 \<and> comment_text (f r) = comment_text c"
proof (cases "cs_comments s' = cs_comments s")
  case True
  then show ?thesis using that [of "\<lambda>r. r"] in_place_same by simp
next
  case False
  let ?f = "\<lambda>r. if cm_id r = cm_id c then c\<lparr>cm_updated_at := re_now E\<rparr> else r"
  have rows: "cs_comments s' = map ?f (cs_comments s)"
    using save_and_answer_rows [OF s'] False by (simp add: tbl_update_def)
  have one: "r = c0" if "r \<in> set (cs_comments s)" "cm_id r = cm_id c" for r
    using comment_found [OF found] place_id [OF place] ids that by (auto simp: distinct_map inj_on_def)
  have moved: "comment_place (c\<lparr>cm_updated_at := re_now E\<rparr>) = comment_place c"
    "comment_text (c\<lparr>cm_updated_at := re_now E\<rparr>) = comment_text c"
    by (simp_all add: comment_place_def comment_text_def)
  have keep: "comment_place (?f r) = comment_place r" if "r \<in> set (cs_comments s)" for r
    using one [OF that] moved(1) place by simp
  show ?thesis
  proof (rule that)
    show "in_place ?f (cs_comments s) (cs_comments s')" using rows keep by (simp add: in_place_def)
    show "r = c0 \<and> comment_text (?f r) = comment_text c"
      if "r \<in> set (cs_comments s)" "comment_text (?f r) \<noteq> comment_text r" for r
      using one [OF that(1)] that(2) moved(2) by (simp split: if_splits)
  qed
qed

lemma Comment_Update_cases:
  assumes "s' = snd (Comment_Update E s u h og i content)"
  obtains "s' = s" | c0 where "comment_find_by_id E s i = Inr c0" "cm_author c0 = u"
    "s' = snd (save_and_answer E s u ''update''
      (c0\<lparr>cm_content := content, cm_edited_at := Some (re_now E), cm_mentions := mentions_json E s content\<rparr>))"
  using assms unfolding Comment_Update_def
  by (cases "comment_check E u h og ''create'' ''insufficient permissions to update comments''";
      cases "comment_find_by_id E s i") (simp_all split: if_splits)

lemma Pin_cases:
  assumes "s' = snd (Pin E s u h og i)"
  obtains "s' = s" | c0 where "comment_find_by_id E s i = Inr c0"
    "s' = snd (save_and_answer E s u ''pin'' (c0\<lparr>cm_pinned := True\<rparr>))"
  using assms unfolding Pin_def
  by (cases "comment_check E u h og ''manage'' ''insufficient permissions to manage comments''";
      cases "comment_find_by_id E s i") (simp_all split: if_splits)

lemma Unpin_cases:
  assumes "s' = snd (Unpin E s u h og i)"
  obtains "s' = s" | c0 where "comment_find_by_id E s i = Inr c0"
    "s' = snd (save_and_answer E s u ''unpin'' (c0\<lparr>cm_pinned := False\<rparr>))"
  using assms unfolding Unpin_def
  by (cases "comment_check E u h og ''manage'' ''insufficient permissions to manage comments''";
      cases "comment_find_by_id E s i") (simp_all split: if_splits)

lemma comment_run_rows:
  assumes ids: "distinct (map cm_id (cs_comments s))" and s': "s' = snd (comment_run E s (u, h, og, req))"
  obtains (added) ty target content p c where "req = CCreate ty target content p"
        "cs_comments s' = cs_comments s @ [c]" "cm_id c = re_new_id E" "cm_type c = ty" "cm_target c = target"
        "resolve_parent E s ty target p = Inr (cm_parent c)"
    | (kept) f where "in_place f (cs_comments s) (cs_comments s')"
        "\<And>r. r \<in> set (cs_comments s) \<Longrightarrow> comment_text (f r) \<noteq> comment_text r \<Longrightarrow>
           cm_author r = u \<and> (\<exists>content. req = CUpdate (cm_id r) content \<and> cm_content (f r) = content)"
proof -
  have same: thesis if "cs_comments s' = cs_comments s"
    using kept [of "\<lambda>r. r"] in_place_same that by simp
  have answered: thesis if "comment_find_by_id E s i = Inr c0" "comment_place c = comment_place c0"
      "s' = snd (save_and_answer E s u act c)"
      "comment_text c \<noteq> comment_text c0 \<Longrightarrow>
         cm_author c0 = u \<and> (\<exists>content. req = CUpdate (cm_id c0) content \<and> cm_content c = content)" for i c0 c act
  proof (rule answer_in_place [OF ids that(1-3)])
    fix f
    assume f: "in_place f (cs_comments s) (cs_comments s')"
      "\<And>r. r \<in> set (cs_comments s) \<Longrightarrow> comment_text (f r) \<noteq> comment_text r \<Longrightarrow>
        r = c0 \<and> comment_text (f r) = comment_text c"
    have "cm_author r = u \<and> (\<exists>content. req = CUpdate (cm_id r) content \<and> cm_content (f r) = content)"
      if r: "r \<in> set (cs_comments s)" "comment_text (f r) \<noteq> comment_text r" for r
    proof -
      have eq: "r = c0" "comment_text (f r) = comment_text c" using f(2) [OF r] by auto
      with r(2) have "comment_text c \<noteq> comment_text c0" by simp
      with \<open>comment_text c \<noteq> comment_text c0 \<Longrightarrow> _\<close> eq show ?thesis by (auto simp: comment_text_def)
    qed
    with f(1) show thesis by (rule kept)
  qed
  show ?thesis
  proof (cases req)
    case (CCreate ty target content p)
    then have "s' = snd (Comment_Create E s u h og ty target content p)" using s' by simp
    from Comment_Create_rows [OF this] show ?thesis using CCreate added same by metis
  next
    case (CUpdate i content)
    with s' have "s' = snd (Comment_Update E s u h og i content)" by simp
    from Comment_Update_cases [OF this] show ?thesis
    proof cases
      case 2
      then show ?thesis
        using comment_found [OF 2(1)] CUpdate by (intro answered [OF 2(1) _ 2(3)]) (auto simp: comment_place_def)
    qed (simp add: same)
  next
    case (CDelete i)
    let ?P = "\<lambda>r. cm_id r = i \<and> comment_visible r"
    let ?f = "\<lambda>r. r\<lparr>cm_deleted_at := Some (re_now E), cm_updated_at := re_now E\<rparr>"
    let ?g = "\<lambda>r. if ?P r then ?f r else r"
    have g: "in_place ?g (cs_comments s) (tbl_update ?P ?f (cs_comments s))" "comment_text (?g r) = comment_text r" for r
      by (auto simp: in_place_def tbl_update_def comment_place_def comment_text_def)
    have "cs_comments s' = cs_comments s \<or> cs_comments s' = tbl_update ?P ?f (cs_comments s)"
      using s' CDelete by (auto simp: Comment_Delete_def comment_soft_delete_def frame_simps Let_def split: comment_splits)
    then show ?thesis
    proof
      assume "cs_comments s' = tbl_update ?P ?f (cs_comments s)"
      with g(1) have "in_place ?g (cs_comments s) (cs_comments s')" by simp
      then show ?thesis by (rule kept) (use g(2) in blast)
    qed (rule same)
  next
    case (CPin i)
    with s' have "s' = snd (Pin E s u h og i)" by simp
    from Pin_cases [OF this] show ?thesis
    proof cases
      case 2
      then show ?thesis by (intro answered [OF 2(1) _ 2(2)]) (auto simp: comment_place_def comment_text_def)
    qed (simp add: same)
  next
    case (CUnpin i)
    with s' have "s' = snd (Unpin E s u h og i)" by simp
    from Unpin_cases [OF this] show ?thesis
    proof cases
      case 2
      then show ?thesis by (intro answered [OF 2(1) _ 2(2)]) (auto simp: comment_place_def comment_text_def)
    qed (simp add: same)
  qed
qed

section \<open>Threads\<close>

text \<open>A comment is at the top of a thread or replies to one that is, about the same thing.\<close>

definition reply_of :: "comment list \<Rightarrow> comment \<Rightarrow> uuid \<Rightarrow> bool" where
  "reply_of rows c p \<longleftrightarrow>
     (\<exists>d\<in>set rows. cm_id d = p \<and> cm_parent d = None \<and> cm_type d = cm_type c \<and> cm_target d = cm_target c)"

definition comment_inv :: "comment list \<Rightarrow> bool" where
  "comment_inv rows \<longleftrightarrow> distinct (map cm_id rows)
     \<and> (\<forall>c\<in>set rows. \<forall>p. cm_parent c = Some p \<longrightarrow> reply_of rows c p)"

text \<open>
  Sequences of requests, labelled with the user and the request, with any changes of the
  organizations and the users by the rest of the program in between.
\<close>

inductive comment_steps :: "comment_state \<Rightarrow> (uuid \<times> comment_request) list \<Rightarrow> comment_state \<Rightarrow> bool" where
  stay: "comment_steps s [] s"
| request: "comment_steps s ls s' \<Longrightarrow> re_new_id E \<notin> cm_id ` set (cs_comments s') \<Longrightarrow>
    comment_steps s (ls @ [(u, req)]) (snd (comment_run E s' (u, h, og, req)))"
| others: "comment_steps s ls s' \<Longrightarrow> comment_steps s ls (s'\<lparr>cs_orgs := ogs, cs_auth := a\<rparr>)"

lemma in_place_inv:
  assumes "comment_inv rows" and "in_place f rows rows'"
  shows "comment_inv rows'"
proof -
  have rows': "rows' = map f rows" and place: "\<And>r. r \<in> set rows \<Longrightarrow> comment_place (f r) = comment_place r"
    using assms(2) by (auto simp: in_place_def)
  have "map cm_id rows' = map cm_id rows" using place by (auto simp: rows' intro: place_id)
  then have "distinct (map cm_id rows')" using assms(1) by (simp add: comment_inv_def)
  moreover have "reply_of rows' c' p" if c': "c' \<in> set rows'" "cm_parent c' = Some p" for c' p
  proof -
    obtain c where c: "c \<in> set rows" "c' = f c" using c'(1) by (auto simp: rows')
    then have "cm_parent c = Some p" using place [OF c(1)] c'(2) by (simp add: comment_place_def)
    then have "reply_of rows c p" using assms(1) c(1) by (simp add: comment_inv_def)
    then obtain d where d: "d \<in> set rows" "cm_id d = p" "cm_parent d = None" "cm_type d = cm_type c"
        "cm_target d = cm_target c"
      by (auto simp: reply_of_def)
    then have "f d \<in> set rows'" by (simp add: rows')
    moreover have "cm_id (f d) = p \<and> cm_parent (f d) = None \<and> cm_type (f d) = cm_type c' \<and> cm_target (f d) = cm_target c'"
      using place [OF d(1)] place [OF c(1)] d c(2) by (simp add: comment_place_def)
    ultimately show ?thesis unfolding reply_of_def by blast
  qed
  ultimately show ?thesis by (simp add: comment_inv_def)
qed

lemma reply_of_append: "reply_of rows c p \<Longrightarrow> reply_of (rows @ ys) c p"
  by (auto simp: reply_of_def)

lemma comment_request_inv:
  assumes inv: "comment_inv (cs_comments s)" and fresh: "re_new_id E \<notin> cm_id ` set (cs_comments s)"
  shows "comment_inv (cs_comments (snd (comment_run E s (u, h, og, req))))"
proof -
  let ?s' = "snd (comment_run E s (u, h, og, req))"
  have ids: "distinct (map cm_id (cs_comments s))" using inv by (simp add: comment_inv_def)
  show ?thesis
  proof (rule comment_run_rows [OF ids refl, where E = E and u = u and h = h and og = og and req = req])
    fix f assume "in_place f (cs_comments s) (cs_comments ?s')"
    with inv show ?thesis by (rule in_place_inv)
  next
    fix ty target content p c
    assume c: "cs_comments ?s' = cs_comments s @ [c]" "cm_id c = re_new_id E" "cm_type c = ty" "cm_target c = target"
      and parent: "resolve_parent E s ty target p = Inr (cm_parent c)"
    have "reply_of (cs_comments s) c q" if "cm_parent c = Some q" for q
    proof -
      from parent that have "resolve_parent E s ty target p = Inr (Some q)" by simp
      then obtain d where d: "d \<in> set (cs_comments s)" "cm_type d = ty" "cm_target d = target"
          "q = cm_id d \<and> cm_parent d = None \<or> cm_parent d = Some q"
        by (rule resolve_parent_found)
      show ?thesis
      proof (cases "cm_parent d = None")
        case True
        with d c show ?thesis by (auto simp: reply_of_def)
      next
        case False
        with d inv have "reply_of (cs_comments s) d q" by (auto simp: comment_inv_def)
        with d c show ?thesis by (simp add: reply_of_def)
      qed
    qed
    with inv fresh c(1,2) show ?thesis by (auto simp: comment_inv_def intro: reply_of_append)
  qed
qed

lemma comment_steps_inv:
  assumes "comment_steps s ls s'" and "comment_inv (cs_comments s)"
  shows "comment_inv (cs_comments s')"
  using assms by (induction rule: comment_steps.induct) (auto intro: comment_request_inv)

lemma mentions_plain: "CHR ''@'' \<notin> set plain \<Longrightarrow> mentions (plain @ rest) = mentions rest"
  by (induction plain) auto

lemma mentions_plain_only: "CHR ''@'' \<notin> set plain \<Longrightarrow> mentions plain = []"
  using mentions_plain [of plain "[]"] by simp

section \<open>An example\<close>

definition demo_comment :: "string \<Rightarrow> uuid option \<Rightarrow> string \<Rightarrow> comment" where
  "demo_comment i p u = \<lparr>cm_id = i, cm_parent = p, cm_author = u, cm_org = ''o1'', cm_type = ''news'', cm_target = ''n1'',
     cm_content = ''hi'', cm_mentions = None, cm_edited_at = None, cm_pinned = False, cm_created_at = 0,
     cm_updated_at = 0, cm_deleted_at = None\<rparr>"

text \<open>A comment of olga with a reply of max.\<close>

definition demo_comments :: comment_state where
  "demo_comments = \<lparr>cs_comments = [demo_comment ''c1'' None ''olga'', demo_comment ''c2'' (Some ''c1'') ''max''],
     cs_orgs = [demo_org], cs_auth = os_auth demo_orgs, cs_audit = []\<rparr>"

definition demo_comment_env :: comment_env where
  "demo_comment_env = \<lparr>re_now = 5, re_fault = (\<lambda>q. False), re_new_id = ''c3'', re_audit_full = False,
     re_enforce = (\<lambda>sub dm obj act. Inr True), ce_parse_uuid = Some, ce_auth = demo_auth_env\<rparr>"

lemma demo_comment_inv: "comment_inv (cs_comments demo_comments)"
  by (auto simp: comment_inv_def reply_of_def demo_comments_def demo_comment_def)

lemma demo_comment_step:
  "comment_steps demo_comments [(u, req)] (snd (comment_run demo_comment_env demo_comments (u, h, og, req)))"
  using comment_steps.request [OF comment_steps.stay, of demo_comment_env demo_comments u req h og]
  by (simp add: demo_comment_env_def demo_comments_def demo_comment_def)

text \<open>A reply to the reply.\<close>

lemma demo_reply:
  "cs_comments (snd (comment_run demo_comment_env demo_comments
     (''olga'', True, ''o1'', CCreate ''news'' ''n1'' ''yes'' ''c2''))) =
   cs_comments demo_comments @ [demo_comment ''c3'' (Some ''c1'') ''olga''\<lparr>cm_content := ''yes'', cm_mentions := Some (JArr []),
     cm_created_at := 5, cm_updated_at := 5\<rparr>]"
proof -
  have user: "user_row_exists (os_auth demo_orgs) ''olga''" by (simp add: demo_org_users)
  have ment: "mentions_json demo_comment_env demo_comments ''yes'' = Some (JArr [])"
    by (simp add: mentions_json_def parseMentions_def mentions_plain_only buildMentionedUserIDsJSON_def)
  show ?thesis
    using user ment by (simp add: Comment_Create_def comment_check_def resolve_parent_def comment_find_by_id_def comment_create_def
      demo_comment_env_def demo_comments_def demo_comment_def comment_visible_def tbl_first_def tbl_count_def demo_org_def
      IsValidCommentableType_def Let_def frame_simps)
qed

section \<open>What holds in every thread\<close>

text \<open>
  C5. Under any requests and failures every comment is at the top of a thread or replies to a
  comment that is, about the same entity: a thread has two levels, also when the comment
  replied to is itself a reply or has been deleted.
\<close>

theorem threads_have_two_levels:
  assumes "comment_steps s ls s'" and "comment_inv (cs_comments s)"
    and "c \<in> set (cs_comments s')" and "cm_parent c = Some p"
  shows "\<exists>d\<in>set (cs_comments s'). cm_id d = p \<and> cm_parent d = None \<and> cm_type d = cm_type c \<and> cm_target d = cm_target c"
  using comment_steps_inv [OF assms(1,2)] assms(3,4) by (auto simp: comment_inv_def reply_of_def)

theorem threads_have_two_levels_witness:
  "\<exists>c (d :: comment). c \<in> set (cs_comments (snd (comment_run demo_comment_env demo_comments
        (''olga'', True, ''o1'', CCreate ''news'' ''n1'' ''yes'' ''c2'')))) \<and> cm_id c = ''c3''
     \<and> cm_parent c = Some (cm_id d) \<and> cm_parent d = None"
proof -
  let ?s' = "snd (comment_run demo_comment_env demo_comments (''olga'', True, ''o1'', CCreate ''news'' ''n1'' ''yes'' ''c2''))"
  obtain c where c: "c \<in> set (cs_comments ?s')" "cm_id c = ''c3''" "cm_parent c = Some ''c1''"
    unfolding demo_reply by (force simp: demo_comment_def)
  show ?thesis
  proof (rule bexE [OF threads_have_two_levels [OF demo_comment_step demo_comment_inv c(1,3)]])
    fix d :: comment
    assume "cm_id d = ''c1'' \<and> cm_parent d = None \<and> cm_type d = cm_type c \<and> cm_target d = cm_target c"
    then show ?thesis using c by - (rule exI [of _ c], rule exI [of _ d], simp del: comment_run.simps)
  qed
qed

section \<open>Who changes a comment\<close>

text \<open>
  C6. Unless its author sends an update of it, a comment keeps its text, its mentions and its
  time of edition, whatever everybody sends; it keeps its author, organization, entity and
  place in the thread in any case.
\<close>

theorem text_only_by_author:
  assumes "comment_steps s ls s'" and "comment_inv (cs_comments s)" and "c \<in> set (cs_comments s)"
    and "\<And>content. (cm_author c, CUpdate (cm_id c) content) \<notin> set ls"
  shows "\<exists>c'\<in>set (cs_comments s'). comment_place c' = comment_place c \<and> comment_text c' = comment_text c"
  using assms
proof (induction rule: comment_steps.induct)
  case (request s ls s' E u req h og)
  let ?s'' = "snd (comment_run E s' (u, h, og, req))"
  obtain c' where c': "c' \<in> set (cs_comments s')" "comment_place c' = comment_place c" "comment_text c' = comment_text c"
    using request.IH request.prems by auto
  have "distinct (map cm_id (cs_comments s'))"
    using comment_steps_inv [OF request.hyps(1) request.prems(1)] by (simp add: comment_inv_def)
  then show ?case
  proof (rule comment_run_rows [OF _ refl, where E = E and u = u and h = h and og = og and req = req])
    fix f
    assume f: "in_place f (cs_comments s') (cs_comments ?s'')"
      "\<And>r. r \<in> set (cs_comments s') \<Longrightarrow> comment_text (f r) \<noteq> comment_text r \<Longrightarrow>
        cm_author r = u \<and> (\<exists>content. req = CUpdate (cm_id r) content \<and> cm_content (f r) = content)"
    have "comment_text (f c') = comment_text c'"
      using f(2) [OF c'(1)] c'(2) request.prems(3) by (auto simp: comment_place_def)
    moreover have "f c' \<in> set (cs_comments ?s'')" "comment_place (f c') = comment_place c'"
      using f(1) c'(1) by (auto simp: in_place_def)
    ultimately show ?thesis using c' by auto
  qed (use c' in auto)
qed auto

theorem text_only_by_author_witness:
  "\<exists>c'\<in>set (cs_comments (snd (comment_run demo_comment_env demo_comments (''max'', True, ''o1'', CUpdate ''c1'' ''no'')))).
     comment_text c' = (''hi'', None, None)"
proof -
  have "\<exists>c'\<in>set (cs_comments (snd (comment_run demo_comment_env demo_comments (''max'', True, ''o1'', CUpdate ''c1'' ''no'')))).
     comment_place c' = comment_place (demo_comment ''c1'' None ''olga'')
     \<and> comment_text c' = comment_text (demo_comment ''c1'' None ''olga'')"
    by (rule text_only_by_author [OF demo_comment_step demo_comment_inv]) (simp_all add: demo_comments_def demo_comment_def)
  moreover have "comment_text (demo_comment ''c1'' None ''olga'') = (''hi'', None, None)"
    by (simp add: comment_text_def demo_comment_def)
  ultimately show ?thesis by metis
qed

section \<open>Organizations\<close>

text \<open>
  The organization of a comment is never compared with that of the request: with the
  permission in the organization that the request names, the comments of every other one can be
  read and deleted.
\<close>

theorem delete_reaches_other_organizations:
  assumes "comment_find_by_id E s i = Inr c" and "cm_org c \<noteq> og" and "cm_author c \<noteq> u"
    and "og \<noteq> uuid_nil" and "re_enforce E u og ''comment'' ''delete_any'' = Inr True"
    and "re_enforce E u og ''comment'' ''view'' = Inr True" and "\<not> re_fault E (QCommentDelete i)"
  shows "Comment_GetByID E s u True og i = Inr (buildCommentResponse E s c)
    \<and> (\<exists>s'. Comment_Delete E s u True og i = (Inr (), s') \<and> comment_find_by_id E s' i = Inl (Sentinel ErrNotFound))"
proof -
  have allowed: "comment_check E u True og act msg = None" if "act \<in> {''delete_any'', ''view''}" for act msg
    using that assms(4-6) by (auto simp: comment_check_None comment_allows_def resolveOrgDomain_def)
  have c: "c \<in> set (cs_comments s)" "cm_id c = i" "comment_visible c" using comment_found [OF assms(1)] by auto
  let ?P = "\<lambda>r. cm_id r = i \<and> comment_visible r"
  have "tbl_count ?P (cs_comments s) \<noteq> 0" by (rule tbl_count_pos [OF c(1)]) (simp add: c)
  then obtain s1 where s1: "comment_soft_delete E s i = (Inr (), s1)"
      "cs_comments s1 = tbl_update ?P (\<lambda>r. r\<lparr>cm_deleted_at := Some (re_now E), cm_updated_at := re_now E\<rparr>) (cs_comments s)"
    using assms(7) by (simp add: comment_soft_delete_def Let_def)
  have "tbl_first ?P (cs_comments s1) = None"
    unfolding s1(2) by (rule tbl_first_update_None) (simp add: comment_visible_def)
  moreover have "\<not> re_fault E (QCommentByID i)" using assms(1) by (auto simp: comment_find_by_id_def split: if_splits)
  ultimately have "comment_find_by_id E (comment_log E a s1) i = Inl (Sentinel ErrNotFound)" for a
    by (simp add: comment_find_by_id_def frame_simps)
  then have "comment_find_by_id E (comment_log E (Audit u ''delete'' ''comment'' i) s1) i = Inl (Sentinel ErrNotFound)" .
  moreover have "Comment_Delete E s u True og i = (Inr (), comment_log E (Audit u ''delete'' ''comment'' i) s1)"
    using assms(1,3) allowed [of "''delete_any''"] s1(1) by (simp add: Comment_Delete_def)
  moreover have "Comment_GetByID E s u True og i = Inr (buildCommentResponse E s c)"
    using assms(1) allowed [of "''view''"] by (simp add: Comment_GetByID_def)
  ultimately show ?thesis by blast
qed

theorem delete_reaches_other_organizations_witness:
  "\<exists>s'. Comment_Delete demo_comment_env demo_comments ''eve'' True ''o9'' ''c1'' = (Inr (), s')"
proof -
  have found: "comment_find_by_id demo_comment_env demo_comments ''c1'' = Inr (demo_comment ''c1'' None ''olga'')"
    by (simp add: comment_find_by_id_def demo_comments_def demo_comment_env_def demo_comment_def tbl_first_def comment_visible_def)
  from delete_reaches_other_organizations [OF found, of "''o9''" "''eve''"] show ?thesis
    by (auto simp: demo_comment_def demo_comment_env_def uuid_nil_def)
qed

text \<open>
  Without an organization a comment cannot be created: the service stores the zero UUID,
  which the schema refuses, and the answer is an internal error although permission was
  checked in the default domain.
\<close>

theorem comment_needs_organization:
  assumes "re_enforce E u ''default'' ''comment'' ''create'' = Inr True" and "IsValidCommentableType ty"
    and "\<And>og. og \<in> set (cs_orgs s) \<Longrightarrow> og_id og \<noteq> uuid_nil"
  shows "\<exists>e. Comment_Create E s u False uuid_nil ty target content [] = (Inl e, s)
    \<and> app_error e = Some (''INTERNAL_ERROR'', 500)"
proof -
  have "comment_check E u False uuid_nil ''create'' msg = None" for msg
    using assms(1) by (simp add: comment_check_None comment_allows_def resolveOrgDomain_def)
  moreover have "tbl_count (\<lambda>og. og_id og = uuid_nil) (cs_orgs s) = 0" using assms(3) by (simp add: tbl_count_0_iff)
  ultimately show ?thesis
    using assms(2) by (simp add: Comment_Create_def resolve_parent_def comment_create_def Let_def)
qed

theorem comment_needs_organization_witness:
  "\<exists>e. Comment_Create demo_comment_env demo_comments ''max'' False uuid_nil ''news'' ''n1'' ''hello'' [] = (Inl e, demo_comments)"
  using comment_needs_organization [of demo_comment_env "''max''" "''news''" demo_comments "''n1''" "''hello''"]
  by (auto simp: demo_comment_env_def IsValidCommentableType_def demo_comments_def demo_org_def uuid_nil_def)

section \<open>Mentions\<close>

text \<open>A text with mentions: plain pieces, each followed by a mention, and a last plain piece.\<close>

definition with_mentions :: "(string \<times> string) list \<Rightarrow> string \<Rightarrow> string" where
  "with_mentions parts end_piece =
     concat (map (\<lambda>(plain, email). plain @ [CHR ''@'', CHR ''{''] @ email @ ''}'') parts) @ end_piece"

lemma mentions_mention:
  assumes "email \<noteq> []" "CHR ''}'' \<notin> set email"
  shows "mentions ([CHR ''@'', CHR ''{''] @ email @ ''}'' @ rest) = email # mentions rest"
proof -
  have "takeWhile (\<lambda>x. x \<noteq> CHR ''}'') (email @ CHR ''}'' # rest) = email"
    "dropWhile (\<lambda>x. x \<noteq> CHR ''}'') (email @ CHR ''}'' # rest) = CHR ''}'' # rest"
    using assms(2) by (induction email) auto
  with assms(1) show ?thesis by (simp add: Let_def)
qed

text \<open>
  Parsing a text with mentions gives back the mentioned addresses in their order, when the
  plain pieces have no \<open>@\<close> and the addresses no closing brace.
\<close>

theorem mentions_roundtrip:
  assumes "\<And>plain email. (plain, email) \<in> set parts \<Longrightarrow>
      CHR ''@'' \<notin> set plain \<and> email \<noteq> [] \<and> CHR ''}'' \<notin> set email"
    and "CHR ''@'' \<notin> set end_piece"
  shows "mentions (with_mentions parts end_piece) = map snd parts"
  using assms(1)
proof (induction parts)
  case Nil
  then show ?case using assms(2) by (simp add: with_mentions_def mentions_plain_only)
next
  case (Cons p parts)
  obtain plain email where p: "p = (plain, email)" by fastforce
  with Cons.prems have "CHR ''@'' \<notin> set plain" "email \<noteq> []" "CHR ''}'' \<notin> set email" by auto
  moreover have "with_mentions (p # parts) end_piece = plain @ [CHR ''@'', CHR ''{''] @ email @ ''}'' @ with_mentions parts end_piece"
    by (simp add: with_mentions_def p)
  moreover have "mentions (with_mentions parts end_piece) = map snd parts"
    by (rule Cons.IH) (rule Cons.prems, simp)
  ultimately show ?case by (simp only: mentions_plain mentions_mention p list.map snd_conv not_False_eq_True)
qed

theorem mentions_roundtrip_witness:
  "mentions (''hi '' @ [CHR ''@'', CHR ''{''] @ ''a@x} and '' @ [CHR ''@'', CHR ''{''] @ ''b@x}!'') = [''a@x'', ''b@x'']"
  using mentions_roundtrip [of "[(''hi '', ''a@x''), ('' and '', ''b@x'')]" "''!''"] by (simp add: with_mentions_def)

end
