(* ===== verification/Decimal.thy ===== *)
theory Decimal
  imports Prelude
begin

text \<open>
  Decimal text of integers: \<open>strconv.Itoa\<close> and the verb \<open>%d\<close>, \<open>strconv.ParseInt(s, 10, 64)\<close>
  and \<open>strconv.Atoi\<close> on a 64-bit platform.
\<close>

definition decimal_digit :: "nat \<Rightarrow> char" where
  "decimal_digit d = char_of (48 + d)"

definition is_digit :: "char \<Rightarrow> bool" where
  "is_digit c \<longleftrightarrow> 48 \<le> (of_char c :: nat) \<and> (of_char c :: nat) \<le> 57"

definition digit_val :: "char \<Rightarrow> nat" where
  "digit_val c = of_char c - 48"

fun digits :: "nat \<Rightarrow> string" where
  "digits n = (if n < 10 then [decimal_digit n] else digits (n div 10) @ [decimal_digit (n mod 10)])"

declare digits.simps [simp del]

definition itoa :: "int \<Rightarrow> string" where
  "itoa i = (if i < 0 then CHR ''-'' # digits (nat (- i)) else digits (nat i))"

definition parse_digits :: "string \<Rightarrow> nat option" where
  "parse_digits s = (if s \<noteq> [] \<and> list_all is_digit s then Some (foldl (\<lambda>a c. 10 * a + digit_val c) 0 s) else None)"

definition int64_range :: "int \<Rightarrow> bool" where
  "int64_range i \<longleftrightarrow> - (2 ^ 63) \<le> i \<and> i < 2 ^ 63"

definition in_int64 :: "int \<Rightarrow> int option" where
  "in_int64 i = (if int64_range i then Some i else None)"

definition ParseInt :: "string \<Rightarrow> int option" where
  "ParseInt s =
     (case s of
        [] \<Rightarrow> None
      | c # r \<Rightarrow>
          if c = CHR ''-'' then (case parse_digits r of None \<Rightarrow> None | Some n \<Rightarrow> in_int64 (- int n))
          else if c = CHR ''+'' then (case parse_digits r of None \<Rightarrow> None | Some n \<Rightarrow> in_int64 (int n))
          else (case parse_digits s of None \<Rightarrow> None | Some n \<Rightarrow> in_int64 (int n)))"

lemma decimal_digit_props [simp]:
  assumes "d < 10"
  shows "is_digit (decimal_digit d)" "digit_val (decimal_digit d) = d"
  using assms by (simp_all add: is_digit_def decimal_digit_def digit_val_def)

lemma is_digit_neq: "is_digit c \<Longrightarrow> c \<noteq> CHR ''-'' \<and> c \<noteq> CHR ''+'' \<and> c \<noteq> CHR '','' \<and> c \<noteq> CHR ''.''"
  by (auto simp: is_digit_def)

lemma digits_digits: "list_all is_digit (digits n)"
proof (induction n rule: digits.induct)
  case (1 n)
  then show ?case by (subst digits.simps) simp
qed

lemma digits_nonempty: "digits n \<noteq> []"
  by (subst digits.simps) simp

lemma digits_value: "foldl (\<lambda>a c. 10 * a + digit_val c) 0 (digits n) = n"
proof (induction n rule: digits.induct)
  case (1 n)
  then show ?case by (subst digits.simps) simp
qed

lemma parse_digits_digits: "parse_digits (digits n) = Some n"
  by (simp add: parse_digits_def digits_nonempty digits_digits digits_value)

lemma ParseInt_itoa:
  assumes "int64_range i"
  shows "ParseInt (itoa i) = Some i"
proof (cases "i < 0")
  case True
  then show ?thesis using assms by (simp add: ParseInt_def itoa_def parse_digits_digits in_int64_def)
next
  case False
  obtain c r where d: "digits (nat i) = c # r" using digits_nonempty by (cases "digits (nat i)") auto
  then have "c \<noteq> CHR ''-''" "c \<noteq> CHR ''+''" using digits_digits [of "nat i"] by (auto dest: is_digit_neq)
  then show ?thesis using False assms parse_digits_digits [of "nat i"]
    by (simp add: ParseInt_def itoa_def d in_int64_def)
qed

lemma ParseInt_int64: "ParseInt s = Some i \<Longrightarrow> int64_range i"
  by (auto simp: ParseInt_def in_int64_def split: list.splits option.splits if_splits)

lemma itoa_no_sep: "sep \<in> {CHR '','', CHR ''.''} \<Longrightarrow> sep \<notin> set (itoa i)"
  using digits_digits [of "nat i"] digits_digits [of "nat (- i)"]
  by (auto simp: itoa_def list_all_iff dest: is_digit_neq)

end
