(* ===== verification/Rate_Limit.thy ===== *)
theory Rate_Limit
  imports Cache_Store Decimal
begin

text \<open>
  The rate limiters that count in the cache: the general one (\<open>http/middleware/rate_limit.go\<close>)
  and that of the authentication endpoints (\<open>http/middleware/auth_rate_limit.go\<close>). A counter is
  the decimal text of a number; reading and writing it are two calls of the driver.

  \<open>has\<close> says that a driver is configured. A request either passes, with the header
  \<open>X-RateLimit-Remaining\<close> or without, or is refused with status 429.
\<close>

datatype rl_answer = Pass "int option" | TooMany

section \<open>The general limiter\<close>

record rl_config =
  rl_limit :: int
  rl_ttl :: int

definition NewRateLimiter :: "int \<Rightarrow> int \<Rightarrow> rl_config" where
  "NewRateLimiter requestsPerMinute ttlSeconds =
     \<lparr>rl_limit = (if requestsPerMinute \<le> 0 then 100 else requestsPerMinute),
      rl_ttl = (if ttlSeconds \<le> 0 then 60 else ttlSeconds)\<rparr>"

definition rl_key :: "string \<Rightarrow> string" where
  "rl_key clientIP = ''ratelimit:'' @ clientIP"

definition RateLimit_Middleware ::
    "drv_env \<Rightarrow> bool \<Rightarrow> rl_config \<Rightarrow> string \<Rightarrow> string mem_cache \<Rightarrow> rl_answer \<times> string mem_cache" where
  "RateLimit_Middleware D has C clientIP m =
     (if \<not> has then (Pass None, m)
      else let key = rl_key clientIP in
        case drv_get D m key of
          Inl err \<Rightarrow> (Pass None, m)
        | Inr val \<Rightarrow>
            (let count = (case val of None \<Rightarrow> 0 | Some v \<Rightarrow> (case ParseInt v of None \<Rightarrow> 0 | Some n \<Rightarrow> n))
             in if count \<ge> rl_limit C then (TooMany, m)
                else let newCount = count + 1 in
                  case drv_set D m key (itoa newCount) (rl_ttl C) of
                    (Inl err, m') \<Rightarrow> (Pass None, m')
                  | (Inr _, m') \<Rightarrow> (Pass (Some (max 0 (rl_limit C - newCount))), m')))"

section \<open>The limiter of the authentication endpoints\<close>

record auth_rl_config =
  ar_login_limit :: int
  ar_login_window :: int
  ar_register_limit :: int
  ar_register_window :: int
  ar_reset_limit :: int
  ar_reset_window :: int

definition DefaultAuthRateLimiterConfig :: auth_rl_config where
  "DefaultAuthRateLimiterConfig = \<lparr>ar_login_limit = 5, ar_login_window = 900, ar_register_limit = 5,
     ar_register_window = 3600, ar_reset_limit = 3, ar_reset_window = 3600\<rparr>"

definition incrementCounter ::
    "drv_env \<Rightarrow> string mem_cache \<Rightarrow> string \<Rightarrow> int \<Rightarrow> int result \<times> string mem_cache" where
  "incrementCounter D m key windowSeconds =
     (let count = (case drv_get D m key of
                     Inl err \<Rightarrow> 1
                   | Inr None \<Rightarrow> 1
                   | Inr (Some v) \<Rightarrow> (case ParseInt v of None \<Rightarrow> 1 | Some parsed \<Rightarrow> parsed + 1))
      in case drv_set D m key (itoa count) windowSeconds of
           (Inl err, m') \<Rightarrow> (Inl err, m')
         | (Inr _, m') \<Rightarrow> (Inr count, m'))"

definition auth_rl_key :: "string \<Rightarrow> string \<Rightarrow> string \<Rightarrow> string" where
  "auth_rl_key endpoint kind subject = ''auth_rate_limit:'' @ endpoint @ '':'' @ kind @ '':'' @ subject"

definition rateLimitByIP ::
    "drv_env \<Rightarrow> bool \<Rightarrow> string \<Rightarrow> int \<Rightarrow> int \<Rightarrow> string \<Rightarrow> string mem_cache \<Rightarrow> rl_answer \<times> string mem_cache" where
  "rateLimitByIP D has endpoint limit windowSeconds clientIP m =
     (if \<not> has then (Pass None, m)
      else case incrementCounter D m (auth_rl_key endpoint ''ip'' clientIP) windowSeconds of
        (Inl err, m') \<Rightarrow> (Pass None, m')
      | (Inr count, m') \<Rightarrow> if count > limit then (TooMany, m') else (Pass (Some (max 0 (limit - count))), m'))"

definition rateLimitByIPAndEmail ::
    "drv_env \<Rightarrow> bool \<Rightarrow> string \<Rightarrow> int \<Rightarrow> int \<Rightarrow> string \<Rightarrow> string mem_cache \<Rightarrow> rl_answer \<times> string mem_cache" where
  "rateLimitByIPAndEmail D has endpoint limit windowSeconds clientIP m =
     (if \<not> has then (Pass None, m)
      else case incrementCounter D m (auth_rl_key endpoint ''ip'' clientIP) windowSeconds of
        (Inl err, m') \<Rightarrow> (Pass None, m')
      | (Inr count, m') \<Rightarrow> if count > limit then (TooMany, m') else (Pass (Some (max 0 (limit - count))), m'))"

definition rateLimitByEmail ::
    "drv_env \<Rightarrow> bool \<Rightarrow> string \<Rightarrow> int \<Rightarrow> int \<Rightarrow> string \<Rightarrow> string mem_cache \<Rightarrow> rl_answer \<times> string mem_cache" where
  "rateLimitByEmail D has endpoint limit windowSeconds clientIP m =
     (if \<not> has then (Pass None, m)
      else case incrementCounter D m (auth_rl_key endpoint ''ip'' clientIP) windowSeconds of
        (Inl err, m') \<Rightarrow> (Pass None, m')
      | (Inr count, m') \<Rightarrow> if count > limit then (TooMany, m') else (Pass (Some (max 0 (limit - count))), m'))"

definition LoginRateLimit ::
    "drv_env \<Rightarrow> bool \<Rightarrow> auth_rl_config \<Rightarrow> string \<Rightarrow> string mem_cache \<Rightarrow> rl_answer \<times> string mem_cache" where
  "LoginRateLimit D has C = rateLimitByIPAndEmail D has ''login'' (ar_login_limit C) (ar_login_window C)"

definition RegisterRateLimit ::
    "drv_env \<Rightarrow> bool \<Rightarrow> auth_rl_config \<Rightarrow> string \<Rightarrow> string mem_cache \<Rightarrow> rl_answer \<times> string mem_cache" where
  "RegisterRateLimit D has C = rateLimitByIP D has ''register'' (ar_register_limit C) (ar_register_window C)"

definition PasswordResetRateLimit ::
    "drv_env \<Rightarrow> bool \<Rightarrow> auth_rl_config \<Rightarrow> string \<Rightarrow> string mem_cache \<Rightarrow> rl_answer \<times> string mem_cache" where
  "PasswordResetRateLimit D has C = rateLimitByEmail D has ''password_reset'' (ar_reset_limit C) (ar_reset_window C)"

definition CheckEmailRateLimit ::
    "drv_env \<Rightarrow> bool \<Rightarrow> string \<Rightarrow> string \<Rightarrow> int \<Rightarrow> string mem_cache \<Rightarrow> bool" where
  "CheckEmailRateLimit D has endpoint email limit m =
     (if \<not> has then True
      else case drv_get D m (auth_rl_key endpoint ''email'' email) of
        Inl err \<Rightarrow> True
      | Inr None \<Rightarrow> True
      | Inr (Some v) \<Rightarrow> (case ParseInt v of None \<Rightarrow> True | Some count \<Rightarrow> count < limit))"

definition IncrementEmailRateLimit ::
    "drv_env \<Rightarrow> bool \<Rightarrow> string \<Rightarrow> string \<Rightarrow> int \<Rightarrow> string mem_cache \<Rightarrow> unit result \<times> string mem_cache" where
  "IncrementEmailRateLimit D has endpoint email windowSeconds m =
     (if \<not> has then (Inr (), m)
      else let key = auth_rl_key endpoint ''email'' email;
               count = (case drv_get D m key of
                          Inl err \<Rightarrow> 1
                        | Inr None \<Rightarrow> 1
                        | Inr (Some v) \<Rightarrow> (case ParseInt v of None \<Rightarrow> 1 | Some parsed \<Rightarrow> parsed + 1))
           in drv_set D m key (itoa count) windowSeconds)"

section \<open>Counters\<close>

text \<open>The counter of a key at an instant; a missing or expired entry counts as zero.\<close>

definition counter_is :: "instant \<Rightarrow> string mem_cache \<Rightarrow> string \<Rightarrow> int \<Rightarrow> bool" where
  "counter_is t m key c \<longleftrightarrow> 0 \<le> c \<and> c < 2 ^ 63
     \<and> (mem_get t m key = Some (itoa c) \<or> mem_get t m key = None \<and> c = 0)"

definition calm :: "instant \<Rightarrow> drv_env" where
  "calm t = \<lparr>d_now = t, d_fault = (\<lambda>c. False)\<rparr>"

lemma counter_fresh: "mem_get t m key = None \<Longrightarrow> counter_is t m key 0"
  by (simp add: counter_is_def)

lemma counter_set:
  assumes "0 \<le> c" "c < 2 ^ 63" "0 \<le> ttl" "t \<le> t'" "t' \<le> t + ttl * second"
  shows "counter_is t' (mem_set t m key (itoa c) ttl) key c"
  using assms by (simp add: counter_is_def mem.get_after_set)

lemma counter_expired:
  assumes "t + ttl * second < t'"
  shows "counter_is t' (mem_set t m key v ttl) key 0"
  using assms by (simp add: counter_is_def mem.get_set_expired)

lemma counter_read:
  assumes "counter_is t m key c"
  shows "(case mem_get t m key of None \<Rightarrow> 0 | Some v \<Rightarrow> (case ParseInt v of None \<Rightarrow> 0 | Some n \<Rightarrow> n)) = c"
    and "(case mem_get t m key of None \<Rightarrow> 1 | Some v \<Rightarrow> (case ParseInt v of None \<Rightarrow> 1 | Some n \<Rightarrow> n + 1)) = c + 1"
  using assms ParseInt_itoa [of c] by (auto simp: counter_is_def int64_range_def)

lemma RateLimit_counts:
  assumes "counter_is t m (rl_key ip) c"
  shows "RateLimit_Middleware (calm t) True C ip m =
    (if c \<ge> rl_limit C then (TooMany, m)
     else (Pass (Some (rl_limit C - (c + 1))), mem_set t m (rl_key ip) (itoa (c + 1)) (rl_ttl C)))"
  using counter_read(1) [OF assms] by (simp add: RateLimit_Middleware_def calm_def drv_get_def drv_set_def Let_def)

lemma incrementCounter_counts:
  assumes "counter_is t m key c"
  shows "incrementCounter (calm t) m key window = (Inr (c + 1), mem_set t m key (itoa (c + 1)) window)"
  using counter_read(2) [OF assms]
  by (simp add: incrementCounter_def calm_def drv_get_def drv_set_def Let_def split: option.splits)

lemma rateLimitByIP_counts:
  assumes "counter_is t m (auth_rl_key ep ''ip'' ip) c"
  shows "rateLimitByIP (calm t) True ep limit window ip m =
    (if c + 1 > limit then TooMany else Pass (Some (limit - (c + 1))),
     mem_set t m (auth_rl_key ep ''ip'' ip) (itoa (c + 1)) window)"
  by (simp add: rateLimitByIP_def incrementCounter_counts [OF assms])

text \<open>The three limiters differ in the text of the refusal alone: each counts the address of the client.\<close>

lemma limiters_count_address:
  "rateLimitByIPAndEmail = rateLimitByIP" "rateLimitByEmail = rateLimitByIP"
  by (simp_all add: fun_eq_iff rateLimitByIPAndEmail_def rateLimitByEmail_def rateLimitByIP_def)

section \<open>The general limiter over time\<close>

text \<open>
  The world of one client: the instant, the cache, and the instants of the requests that
  passed, the latest first. Entries of other keys change in any way.
\<close>

record rl_world =
  rw_now :: instant
  rw_cache :: "string mem_cache"
  rw_passed :: "instant list"

inductive rl_reach :: "rl_config \<Rightarrow> string \<Rightarrow> rl_world \<Rightarrow> bool" for C ip where
  init: "rl_reach C ip \<lparr>rw_now = t, rw_cache = Map.empty, rw_passed = []\<rparr>"
| tick: "rl_reach C ip w \<Longrightarrow> rw_now w \<le> t \<Longrightarrow> rl_reach C ip (w\<lparr>rw_now := t\<rparr>)"
| others: "rl_reach C ip w \<Longrightarrow> m (rl_key ip) = rw_cache w (rl_key ip) \<Longrightarrow> rl_reach C ip (w\<lparr>rw_cache := m\<rparr>)"
| request: "rl_reach C ip w \<Longrightarrow> RateLimit_Middleware (calm (rw_now w)) True C ip (rw_cache w) = (a, m) \<Longrightarrow>
    rl_reach C ip (w\<lparr>rw_cache := m, rw_passed := (if a = TooMany then rw_passed w else rw_now w # rw_passed w)\<rparr>)"

definition in_window :: "instant \<Rightarrow> duration \<Rightarrow> instant list \<Rightarrow> instant list" where
  "in_window a d ts = filter (\<lambda>t. a \<le> t \<and> t \<le> a + d) ts"

text \<open>
  The passed requests are those that the live counter counts, after older ones that lie more
  than a window before each of them.
\<close>

definition rl_inv :: "rl_config \<Rightarrow> string \<Rightarrow> rl_world \<Rightarrow> bool" where
  "rl_inv C ip w \<longleftrightarrow>
     (\<forall>t\<in>set (rw_passed w). t \<le> rw_now w)
   \<and> (\<forall>a. int (length (in_window a (rl_ttl C * second) (rw_passed w))) \<le> rl_limit C)
   \<and> (if rw_passed w = [] then rw_cache w (rl_key ip) = None
      else \<exists>ep old last. rw_passed w = ep @ old \<and> ep \<noteq> [] \<and> last = hd ep \<and> int (length ep) \<le> rl_limit C
        \<and> rw_cache w (rl_key ip) = Some \<lparr>me_value = itoa (int (length ep)), me_expires_at = last + rl_ttl C * second\<rparr>
        \<and> (\<forall>x\<in>set ep. x \<le> last) \<and> (\<forall>x\<in>set old. \<forall>y\<in>set ep. x < y - rl_ttl C * second))"

lemma in_window_new:
  assumes "\<forall>x\<in>set old. x < t - d" and "int (length ep) < n" and "int (length (in_window a d (ep @ old))) \<le> n"
  shows "int (length (in_window a d (t # ep @ old))) \<le> n"
proof (cases "a \<le> t \<and> t \<le> a + d")
  case True
  then have "in_window a d old = []" using assms(1) by (auto simp: in_window_def filter_empty_conv)
  then have "in_window a d (t # ep @ old) = t # in_window a d ep" using True by (simp add: in_window_def)
  moreover have "length (in_window a d ep) \<le> length ep" by (simp add: in_window_def)
  ultimately show ?thesis using assms(2) by simp
next
  case False
  then show ?thesis using assms(3) by (auto simp: in_window_def)
qed

text \<open>A request that passes puts its instant in front, and the new counter counts \<open>ep\<close>.\<close>

lemma rl_inv_pass:
  assumes inv: "rl_inv C ip w" and pos: "0 < rl_ttl C" and len: "int (length ep) < rl_limit C"
    and split: "rw_passed w = ep @ old" and old: "\<forall>x\<in>set old. \<forall>y\<in>set (rw_now w # ep). x < y - rl_ttl C * second"
  shows "rl_inv C ip (w\<lparr>rw_cache := mem_set (rw_now w) (rw_cache w) (rl_key ip) (itoa (int (length ep) + 1)) (rl_ttl C),
    rw_passed := rw_now w # rw_passed w\<rparr>)"
proof -
  have past: "\<forall>t\<in>set (rw_passed w). t \<le> rw_now w"
    and bound: "int (length (in_window a (rl_ttl C * second) (ep @ old))) \<le> rl_limit C" for a
    using inv split by (auto simp: rl_inv_def)
  have "int (length (in_window a (rl_ttl C * second) (rw_now w # ep @ old))) \<le> rl_limit C" for a
    using old len bound by (intro in_window_new) auto
  moreover have "\<exists>ep' old' last. rw_now w # ep @ old = ep' @ old' \<and> ep' \<noteq> [] \<and> last = hd ep'
      \<and> int (length ep') \<le> rl_limit C
      \<and> mem_set (rw_now w) (rw_cache w) (rl_key ip) (itoa (int (length ep) + 1)) (rl_ttl C) (rl_key ip)
          = Some \<lparr>me_value = itoa (int (length ep')), me_expires_at = last + rl_ttl C * second\<rparr>
      \<and> (\<forall>x\<in>set ep'. x \<le> last) \<and> (\<forall>x\<in>set old'. \<forall>y\<in>set ep'. x < y - rl_ttl C * second)"
    using past split old len
    by (intro exI [of _ "rw_now w # ep"] exI [of _ old] exI [of _ "rw_now w"]) (auto simp: mem_set_def add.commute)
  ultimately show ?thesis using past split by (simp add: rl_inv_def)
qed

lemma rl_inv_request:
  assumes inv: "rl_inv C ip w" and pos: "0 < rl_ttl C" "0 < rl_limit C" "rl_limit C < 2 ^ 63"
    and run: "RateLimit_Middleware (calm (rw_now w)) True C ip (rw_cache w) = (a, m)"
  shows "rl_inv C ip (w\<lparr>rw_cache := m, rw_passed := (if a = TooMany then rw_passed w else rw_now w # rw_passed w)\<rparr>)"
proof -
  let ?t = "rw_now w" and ?d = "rl_ttl C * second"
  have step: ?thesis if c: "counter_is ?t (rw_cache w) (rl_key ip) (int (length ep))" and "rw_passed w = ep @ old"
      and "\<forall>x\<in>set old. \<forall>y\<in>set (?t # ep). x < y - ?d" for ep old
  proof (cases "int (length ep) \<ge> rl_limit C")
    case True
    then have "a = TooMany" "m = rw_cache w" using run RateLimit_counts [OF c] by simp_all
    with inv show ?thesis by simp
  next
    case False
    then have "a \<noteq> TooMany" "m = mem_set ?t (rw_cache w) (rl_key ip) (itoa (int (length ep) + 1)) (rl_ttl C)"
      using run RateLimit_counts [OF c] by auto
    with rl_inv_pass [OF inv pos(1) _ that(2,3)] False show ?thesis by simp
  qed
  show ?thesis
  proof (cases "rw_passed w = []")
    case True
    then have "rw_cache w (rl_key ip) = None" using inv by (simp add: rl_inv_def)
    then have "counter_is ?t (rw_cache w) (rl_key ip) 0" by (simp add: counter_fresh mem_get_def)
    with True step [of "[]" "[]"] show ?thesis by simp
  next
    case False
    then obtain ep old where split: "rw_passed w = ep @ old" "ep \<noteq> []" "int (length ep) \<le> rl_limit C"
      and entry: "rw_cache w (rl_key ip) = Some \<lparr>me_value = itoa (int (length ep)), me_expires_at = hd ep + ?d\<rparr>"
      and order: "\<forall>x\<in>set ep. x \<le> hd ep" "\<forall>x\<in>set old. \<forall>y\<in>set ep. x < y - ?d"
      using inv by (auto simp: rl_inv_def)
    have past: "hd ep \<le> ?t" using inv split by (simp add: rl_inv_def)
    show ?thesis
    proof (cases "?t \<le> hd ep + ?d")
      case True
      then have "counter_is ?t (rw_cache w) (rl_key ip) (int (length ep))"
        using entry split(3) pos(3) by (simp add: counter_is_def mem_get_def)
      moreover have "x < ?t - ?d" if "x \<in> set old" for x
      proof -
        have "x < hd ep - ?d" using that order(2) split(2) by (simp add: hd_in_set)
        with past show ?thesis by simp
      qed
      then have "\<forall>x\<in>set old. \<forall>y\<in>set (?t # ep). x < y - ?d" using order(2) by simp
      ultimately show ?thesis using step split(1) by blast
    next
      case False
      then have "counter_is ?t (rw_cache w) (rl_key ip) 0" using entry by (simp add: counter_fresh mem_get_def)
      moreover have "x < ?t - ?d" if "x \<in> set (rw_passed w)" for x
      proof -
        have "0 \<le> ?d" using pos(1) by (simp add: second_def)
        moreover have "x < hd ep - ?d" if "x \<in> set old" using that order(2) split(2) by (simp add: hd_in_set)
        ultimately have "x \<le> hd ep" using that split(1) order(1) by fastforce
        with False show ?thesis by simp
      qed
      ultimately show ?thesis using step [of "[]" "rw_passed w"] by simp
    qed
  qed
qed

lemma rl_reach_inv:
  assumes "rl_reach C ip w" and "0 < rl_ttl C" "0 < rl_limit C" "rl_limit C < 2 ^ 63"
  shows "rl_inv C ip w"
  using assms(1)
proof (induction rule: rl_reach.induct)
  case init
  then show ?case using assms by (simp add: rl_inv_def in_window_def)
next
  case (tick w t)
  then show ?case by (fastforce simp: rl_inv_def)
next
  case (others w m)
  then have "rl_inv C ip w" by simp
  moreover have "rl_inv C ip (w\<lparr>rw_cache := m\<rparr>) = rl_inv C ip w"
    using others.hyps(2) by (simp add: rl_inv_def)
  ultimately show ?case by simp
next
  case (request w a m)
  then show ?case using rl_inv_request assms(2-4) by blast
qed

text \<open>
  C11. However the requests of a client are spread in time, at most the configured number of
  them passes in any interval as long as the window, as long as the cache answers and no two
  requests of the client overlap.
\<close>

theorem rate_limit_window_bound:
  assumes "rl_reach C ip w" and "0 < rl_ttl C" "0 < rl_limit C" "rl_limit C < 2 ^ 63"
  shows "int (length (filter (\<lambda>t. a \<le> t \<and> t \<le> a + rl_ttl C * second) (rw_passed w))) \<le> rl_limit C"
  using rl_reach_inv [OF assms] by (simp add: rl_inv_def in_window_def)

section \<open>Sequences of requests\<close>

text \<open>Instants that do not lie more than a window apart.\<close>

fun steady :: "duration \<Rightarrow> instant \<Rightarrow> instant list \<Rightarrow> bool" where
  "steady d t0 [] = True"
| "steady d t0 (t # ts) = (t0 \<le> t \<and> t \<le> t0 + d \<and> steady d t ts)"

fun rl_answers :: "rl_config \<Rightarrow> string \<Rightarrow> string mem_cache \<Rightarrow> instant list \<Rightarrow> rl_answer list" where
  "rl_answers C ip m [] = []"
| "rl_answers C ip m (t # ts) =
     (case RateLimit_Middleware (calm t) True C ip m of (a, m') \<Rightarrow> a # rl_answers C ip m' ts)"

fun auth_answers :: "string \<Rightarrow> int \<Rightarrow> int \<Rightarrow> string \<Rightarrow> string mem_cache \<Rightarrow> instant list \<Rightarrow> rl_answer list" where
  "auth_answers ep limit window ip m [] = []"
| "auth_answers ep limit window ip m (t # ts) =
     (case rateLimitByIP (calm t) True ep limit window ip m of (a, m') \<Rightarrow> a # auth_answers ep limit window ip m' ts)"

text \<open>The answers to a run of requests as a function of the counter that each of them finds.\<close>

definition rl_verdict :: "int \<Rightarrow> int \<Rightarrow> rl_answer" where
  "rl_verdict limit c = (if limit \<le> c then TooMany else Pass (Some (limit - (c + 1))))"

lemma map_count_Cons:
  "map (\<lambda>i. f (c + int i)) [0..<length (x # xs)] = f c # map (\<lambda>i. f (c + 1 + int i)) [0..<length xs]"
proof -
  have "[0..<length (x # xs)] = 0 # map Suc [0..<length xs]" by (simp add: map_Suc_upt upt_conv_Cons del: upt_Suc)
  then show ?thesis by (simp add: o_def algebra_simps)
qed

lemma steady_Cons:
  assumes "steady d t0 (t # ts)" and "ts \<noteq> []"
  shows "steady d t ts" and "t \<le> hd ts" and "hd ts \<le> t + d"
  using assms by (cases ts; simp)+

lemma steady_counter:
  assumes "steady (ttl * second) start (t # ts)" and "ts \<noteq> []" and "0 \<le> c" "c < 2 ^ 63" "0 \<le> ttl"
  shows "counter_is (hd ts) (mem_set t m key (itoa c) ttl) key c"
  using assms steady_Cons [OF assms(1,2)] by (intro counter_set) simp_all

lemma rl_answers_counting:
  assumes "ts \<noteq> [] \<longrightarrow> counter_is (hd ts) m (rl_key ip) c" and "steady (rl_ttl C * second) start ts"
    and "0 \<le> rl_ttl C" "0 \<le> c" "c + int (length ts) \<le> rl_limit C + 1" "rl_limit C < 2 ^ 63"
  shows "rl_answers C ip m ts = map (\<lambda>i. rl_verdict (rl_limit C) (c + int i)) [0..<length ts]"
  using assms
proof (induction ts arbitrary: m c start)
  case (Cons t ts)
  let ?m = "mem_set t m (rl_key ip) (itoa (c + 1)) (rl_ttl C)"
  have c: "counter_is t m (rl_key ip) c" using Cons.prems(1) by simp
  show ?case
  proof (cases "rl_limit C \<le> c")
    case True
    then have "ts = []" using Cons.prems(5) by (cases ts) auto
    with True show ?thesis using RateLimit_counts [OF c, of C] by (simp add: rl_verdict_def)
  next
    case False
    have "ts \<noteq> [] \<longrightarrow> counter_is (hd ts) ?m (rl_key ip) (c + 1)"
      using Cons.prems(3,4,6) False by (intro impI steady_counter [OF Cons.prems(2)]) simp_all
    then have "rl_answers C ip ?m ts = map (\<lambda>i. rl_verdict (rl_limit C) (c + 1 + int i)) [0..<length ts]"
      using Cons.prems False by (intro Cons.IH [where start = t]) simp_all
    with False show ?thesis
      using RateLimit_counts [OF c, of C] unfolding map_count_Cons by (simp add: rl_verdict_def)
  qed
qed simp

lemma auth_answers_counting:
  assumes "ts \<noteq> [] \<longrightarrow> counter_is (hd ts) m (auth_rl_key ep ''ip'' ip) c" and "steady (window * second) start ts"
    and "0 \<le> window" "0 \<le> c" "c + int (length ts) < 2 ^ 63"
  shows "auth_answers ep limit window ip m ts = map (\<lambda>i. rl_verdict limit (c + int i)) [0..<length ts]"
  using assms
proof (induction ts arbitrary: m c start)
  case (Cons t ts)
  let ?m = "mem_set t m (auth_rl_key ep ''ip'' ip) (itoa (c + 1)) window"
  have c: "counter_is t m (auth_rl_key ep ''ip'' ip) c" using Cons.prems(1) by simp
  have "ts \<noteq> [] \<longrightarrow> counter_is (hd ts) ?m (auth_rl_key ep ''ip'' ip) (c + 1)"
    using Cons.prems(3-5) by (intro impI steady_counter [OF Cons.prems(2)]) simp_all
  then have "auth_answers ep limit window ip ?m ts = map (\<lambda>i. rl_verdict limit (c + 1 + int i)) [0..<length ts]"
    using Cons.prems by (intro Cons.IH [where start = t]) simp_all
  then show ?case
    unfolding map_count_Cons using rateLimitByIP_counts [OF c, of limit window] by (auto simp: rl_verdict_def)
qed simp

text \<open>
  The general limiter renews the lifetime of the counter with each request that passes, so a
  client whose requests are never a window apart is refused at request \<open>limit + 1\<close>, however
  low its rate is.
\<close>

theorem slow_client_refused:
  assumes "steady (rl_ttl C * second) start ts" and "int (length ts) = rl_limit C + 1"
    and "0 \<le> rl_ttl C" "0 < rl_limit C" "rl_limit C < 2 ^ 63"
  shows "rl_answers C ip Map.empty ts ! nat (rl_limit C) = TooMany"
proof -
  have "rl_answers C ip Map.empty ts = map (\<lambda>i. rl_verdict (rl_limit C) (0 + int i)) [0..<length ts]"
    using assms by (intro rl_answers_counting) (simp_all add: counter_fresh mem_get_def)
  moreover have "nat (rl_limit C) < length ts" using assms(2,4) by linarith
  ultimately show ?thesis using assms(4) by (simp add: rl_verdict_def)
qed

text \<open>
  The limiter of an authentication endpoint counts every attempt, the refused ones too, and
  every attempt renews the window: of a series of attempts that never pauses for more than the
  window, the first \<open>limit\<close> pass and every later one is refused, for as long as the series lasts.
\<close>

theorem auth_limiter_locks_out:
  assumes "steady (window * second) start ts" and "0 \<le> window" and "int (length ts) < 2 ^ 63"
  shows "auth_answers ep limit window ip Map.empty ts =
    map (\<lambda>i. if int i < limit then Pass (Some (limit - 1 - int i)) else TooMany) [0..<length ts]"
proof -
  have "auth_answers ep limit window ip Map.empty ts = map (\<lambda>i. rl_verdict limit (0 + int i)) [0..<length ts]"
    using assms by (intro auth_answers_counting) (simp_all add: counter_fresh mem_get_def)
  then show ?thesis by (simp add: rl_verdict_def fun_eq_iff cong: map_cong)
qed

section \<open>Concrete runs\<close>

definition witness_limit :: rl_config where
  "witness_limit = NewRateLimiter 1 60"

lemma witness_reach:
  "rl_reach witness_limit ''10.0.0.1''
    \<lparr>rw_now = 0, rw_cache = mem_set 0 Map.empty (rl_key ''10.0.0.1'') (itoa 1) 60, rw_passed = [0]\<rparr>"
proof -
  have "RateLimit_Middleware (calm 0) True witness_limit ''10.0.0.1'' Map.empty =
      (Pass (Some 0), mem_set 0 Map.empty (rl_key ''10.0.0.1'') (itoa 1) 60)"
    using RateLimit_counts [of 0 Map.empty "''10.0.0.1''" 0 witness_limit] counter_fresh [of 0 Map.empty "rl_key ''10.0.0.1''"]
    by (simp add: witness_limit_def NewRateLimiter_def mem_get_def)
  from rl_reach.request [OF rl_reach.init [of witness_limit "''10.0.0.1''" 0]] this
  show ?thesis by fastforce
qed

lemma rate_limit_window_bound_witness:
  "int (length (filter (\<lambda>t. 0 \<le> t \<and> t \<le> 0 + 60 * second) [0])) \<le> 1"
  using rate_limit_window_bound [OF witness_reach, of 0] by (simp add: witness_limit_def NewRateLimiter_def)

lemma slow_client_refused_witness:
  "rl_answers witness_limit ip Map.empty [0, 59 * second] ! 1 = TooMany"
  using slow_client_refused [of witness_limit 0 "[0, 59 * second]" ip]
  by (simp add: witness_limit_def NewRateLimiter_def second_def)

lemma auth_limiter_locks_out_witness:
  "auth_answers ''login'' 2 900 ip Map.empty [0, 800 * second, 1600 * second, 2400 * second] =
    [Pass (Some 1), Pass (Some 0), TooMany, TooMany]"
  using auth_limiter_locks_out [of 900 0 "[0, 800 * second, 1600 * second, 2400 * second]" "''login''" 2 ip]
  by (simp add: second_def upt_rec)

end
