(* ===== verification/Sliding_Window.thy ===== *)
theory Sliding_Window
  imports Decimal "HOL-Library.Multiset"
begin

text \<open>
  The limiters that keep a sliding window in a Redis sorted set: that of the webhooks
  (\<open>service/webhook_rate_limiter.go\<close>) and that of exports and imports
  (\<open>service/data_portability_rate_limiter.go\<close>). Instants are Unix milliseconds, as they are in
  the scores.

  A sorted set is the list of its members with their scores, and the instant at which the key
  expires; the four operations are those of Redis. A call fails when its flag is set; the code
  looks at the failure of the reading calls only.
\<close>

record sorted_set =
  ss_members :: "(string \<times> int) list"
  ss_expires :: "int option"

definition ss_live :: "int \<Rightarrow> sorted_set \<Rightarrow> (string \<times> int) list" where
  "ss_live now z = (case ss_expires z of None \<Rightarrow> ss_members z | Some e \<Rightarrow> if e \<le> now then [] else ss_members z)"

definition ZRemUpTo :: "int \<Rightarrow> int \<Rightarrow> sorted_set \<Rightarrow> sorted_set" where
  "ZRemUpTo now max_score z =
     \<lparr>ss_members = filter (\<lambda>(m, s). max_score < s) (ss_live now z),
      ss_expires = (if ss_live now z = [] then None else ss_expires z)\<rparr>"

definition ZAdd_member :: "int \<Rightarrow> sorted_set \<Rightarrow> string \<Rightarrow> int \<Rightarrow> sorted_set" where
  "ZAdd_member now z m score =
     \<lparr>ss_members = filter (\<lambda>(m', s). m' \<noteq> m) (ss_live now z) @ [(m, score)],
      ss_expires = (if ss_live now z = [] then None else ss_expires z)\<rparr>"

definition Expire :: "int \<Rightarrow> int \<Rightarrow> sorted_set \<Rightarrow> sorted_set" where
  "Expire now ttl z = (if ss_live now z = [] then z else z\<lparr>ss_expires := Some (now + ttl)\<rparr>)"

text \<open>Which calls fail.\<close>

record redis_faults =
  rf_rem :: bool
  rf_read :: bool
  rf_range :: bool
  rf_add :: bool
  rf_expire :: bool

definition no_faults :: redis_faults where
  "no_faults = \<lparr>rf_rem = False, rf_read = False, rf_range = False, rf_add = False, rf_expire = False\<rparr>"

text \<open>The writing calls that end an allowed request.\<close>

definition record_entry :: "redis_faults \<Rightarrow> int \<Rightarrow> int \<Rightarrow> string \<Rightarrow> sorted_set \<Rightarrow> sorted_set" where
  "record_entry F now ttl entryID z =
     (let z1 = (if rf_add F then z else ZAdd_member now z entryID now)
      in if rf_expire F then z1 else Expire now ttl z1)"

definition entry_id :: "int \<Rightarrow> int \<Rightarrow> string" where
  "entry_id now random = itoa now @ ''-'' @ itoa random"

section \<open>Webhooks (service/webhook_rate_limiter.go)\<close>

definition webhook_window :: int where
  "webhook_window = 60000"

text \<open>The answer: whether the request is allowed, what remains and the time to wait.\<close>

definition Webhook_Allow ::
    "redis_faults \<Rightarrow> int \<Rightarrow> int \<Rightarrow> int \<Rightarrow> sorted_set \<Rightarrow> (bool \<times> int \<times> int) \<times> sorted_set" where
  "Webhook_Allow F rateLimit now random z =
     (let z1 = (if rf_rem F then z else ZRemUpTo now (now - webhook_window) z) in
      if rf_read F then ((True, rateLimit, 0), z1)
      else let count = int (length (ss_live now z1)) in
        if count \<ge> rateLimit
        then let retryAfter =
               (if rf_range F \<or> ss_live now z1 = [] then webhook_window
                else max 0 (Min (snd ` set (ss_live now z1)) + webhook_window - now))
             in ((False, 0, retryAfter), z1)
        else ((True, max 0 (rateLimit - count - 1), 0),
              record_entry F now webhook_window (entry_id now random) z1))"

section \<open>Exports and imports (service/data_portability_rate_limiter.go)\<close>

definition dp_window :: int where
  "dp_window = 3600000"

record dp_limits =
  dp_export :: int
  dp_import :: int
  dp_record :: int

definition limitForAction :: "dp_limits \<Rightarrow> string \<Rightarrow> int" where
  "limitForAction L action =
     (if action = ''export'' then dp_export L else if action = ''import'' then dp_import L else dp_export L)"

definition DP_Allow ::
    "redis_faults \<Rightarrow> dp_limits \<Rightarrow> string \<Rightarrow> int \<Rightarrow> int \<Rightarrow> sorted_set \<Rightarrow> bool \<times> sorted_set" where
  "DP_Allow F L action now random z =
     (let z1 = (if rf_rem F then z else ZRemUpTo now (now - dp_window) z) in
      if rf_read F then (True, z1)
      else if int (length (ss_live now z1)) \<ge> limitForAction L action then (False, z1)
      else (True, record_entry F now dp_window (entry_id now random) z1))"

text \<open>The part of a member before the first colon; a text without number counts one.\<close>

definition parseCountFromMember :: "string \<Rightarrow> int" where
  "parseCountFromMember member =
     (case ParseInt (takeWhile (\<lambda>c. c \<noteq> CHR '':'') member) of None \<Rightarrow> 1 | Some n \<Rightarrow> n)"

definition record_entry_id :: "int \<Rightarrow> int \<Rightarrow> int \<Rightarrow> string" where
  "record_entry_id n now random = itoa n @ '':'' @ itoa now @ ''-'' @ itoa random"

definition AllowRecords ::
    "redis_faults \<Rightarrow> dp_limits \<Rightarrow> int \<Rightarrow> int \<Rightarrow> int \<Rightarrow> sorted_set \<Rightarrow> bool \<times> sorted_set" where
  "AllowRecords F L n now random z =
     (let z1 = (if rf_rem F then z else ZRemUpTo now (now - dp_window) z) in
      if rf_read F then (True, z1)
      else let sum = sum_list (map (\<lambda>(m, s). parseCountFromMember m) (ss_live now z1)) in
        if sum + n > dp_record L then (False, z1)
        else (True, record_entry F now dp_window (record_entry_id n now random) z1))"

section \<open>The contract of a window limiter\<close>

text \<open>
  A series of requests, each an instant and a random number: the instants of those that pass,
  the latest first, and the state that is left; and what is asked of the series, instants that
  do not go back and new entries.
\<close>

fun passing :: "(int \<Rightarrow> int \<Rightarrow> 's \<Rightarrow> bool \<times> 's) \<Rightarrow> 's \<Rightarrow> int list \<Rightarrow> (int \<times> int) list \<Rightarrow> int list \<times> 's" where
  "passing allow s passed [] = (passed, s)"
| "passing allow s passed ((now, r) # reqs) =
     passing allow (snd (allow now r s)) (if fst (allow now r s) then now # passed else passed) reqs"

fun in_order :: "(int \<Rightarrow> int \<Rightarrow> 's \<Rightarrow> bool) \<Rightarrow> (int \<Rightarrow> int \<Rightarrow> 's \<Rightarrow> bool \<times> 's) \<Rightarrow> int \<Rightarrow> 's \<Rightarrow> (int \<times> int) list \<Rightarrow> bool" where
  "in_order usable allow t s [] = True"
| "in_order usable allow t s ((now, r) # reqs) =
     (t \<le> now \<and> usable now r s \<and> in_order usable allow now (snd (allow now r s)) reqs)"

text \<open>
  \<open>scores s t\<close> is what the limiter would count at \<open>t\<close>, and \<open>ok t s\<close> that \<open>s\<close> can be its state
  at \<open>t\<close>. \<open>usable\<close> says that the identifier of the entry is new.
\<close>

locale window_limiter =
  fixes limit window :: int
    and scores :: "'s \<Rightarrow> int \<Rightarrow> int list"
    and allow :: "int \<Rightarrow> int \<Rightarrow> 's \<Rightarrow> bool \<times> 's"
    and usable :: "int \<Rightarrow> int \<Rightarrow> 's \<Rightarrow> bool"
    and ok :: "int \<Rightarrow> 's \<Rightarrow> bool"
  assumes ok_mono: "t \<le> u \<Longrightarrow> ok t s \<Longrightarrow> ok u s"
    and ok_allow: "ok now s \<Longrightarrow> ok now (snd (allow now r s))"
    and refuse: "ok now s \<Longrightarrow> limit \<le> int (length (scores s now)) \<Longrightarrow>
      \<not> fst (allow now r s) \<and> (\<forall>t\<ge>now. scores (snd (allow now r s)) t = scores s t)"
    and pass: "ok now s \<Longrightarrow> int (length (scores s now)) < limit \<Longrightarrow> usable now r s \<Longrightarrow>
      fst (allow now r s) \<and> (\<forall>t\<ge>now. mset (scores (snd (allow now r s)) t) =
        mset (scores s t) + (if t - window < now then {#now#} else {#}))"
begin

definition counted :: "int \<Rightarrow> int list \<Rightarrow> 's \<Rightarrow> bool" where
  "counted t passed s \<longleftrightarrow> ok t s \<and> (\<forall>x\<in>set passed. x \<le> t)
     \<and> (\<forall>u\<ge>t. mset (scores s u) = mset (filter (\<lambda>x. u - window < x) passed))
     \<and> (\<forall>a. int (length (filter (\<lambda>x. a \<le> x \<and> x < a + window) passed)) \<le> limit)"

lemma counted_step:
  assumes c: "counted t passed s" and "t \<le> now" and use: "usable now r s"
  shows "counted now (if fst (allow now r s) then now # passed else passed) (snd (allow now r s))"
proof (cases "limit \<le> int (length (scores s now))")
  case True
  have ok: "ok now s" using c ok_mono [OF \<open>t \<le> now\<close>] unfolding counted_def by blast
  with refuse [OF ok True, of r] ok_allow [OF ok, of r] c \<open>t \<le> now\<close> show ?thesis unfolding counted_def by auto
next
  case False
  have ok: "ok now s" using c ok_mono [OF \<open>t \<le> now\<close>] unfolding counted_def by blast
  let ?s = "snd (allow now r s)"
  have yes: "fst (allow now r s)" "\<And>u. now \<le> u \<Longrightarrow> mset (scores ?s u) =
      mset (scores s u) + (if u - window < now then {#now#} else {#})"
    using pass [OF ok _ use] False by auto
  have "length (scores s now) = length (filter (\<lambda>x. now - window < x) passed)"
    using c \<open>t \<le> now\<close> unfolding counted_def by (metis size_mset)
  with False have few: "int (length (filter (\<lambda>x. now - window < x) passed)) < limit" by simp
  have "int (length (filter (\<lambda>x. a \<le> x \<and> x < a + window) (now # passed))) \<le> limit" for a
  proof (cases "a \<le> now \<and> now < a + window")
    case True
    then have "length (filter (\<lambda>x. a \<le> x \<and> x < a + window) passed) \<le> length (filter (\<lambda>x. now - window < x) passed)"
      by (induction passed) auto
    with True few show ?thesis by simp
  next
    case False
    with c show ?thesis unfolding counted_def by auto
  qed
  moreover have "mset (scores ?s u) = mset (filter (\<lambda>x. u - window < x) (now # passed))" if "now \<le> u" for u
    using yes(2) [OF that] c \<open>t \<le> now\<close> that unfolding counted_def by simp
  moreover have "\<forall>x\<in>set (now # passed). x \<le> now" using c \<open>t \<le> now\<close> unfolding counted_def by auto
  ultimately show ?thesis using yes(1) ok_allow [OF ok, of r] unfolding counted_def by simp
qed

lemma passing_counted: "counted t passed s \<Longrightarrow> in_order usable allow t s reqs \<Longrightarrow>
  \<exists>u. counted u (fst (passing allow s passed reqs)) (snd (passing allow s passed reqs))"
proof (induction reqs arbitrary: s passed t)
  case (Cons req reqs)
  obtain now r where req: "req = (now, r)" by fastforce
  from Cons.prems have "counted now (if fst (allow now r s) then now # passed else passed) (snd (allow now r s))"
    by (intro counted_step) (auto simp: req)
  with Cons.IH Cons.prems(2) show ?case by (simp add: req)
qed auto

text \<open>In any half-open interval as long as the window at most \<open>limit\<close> requests pass.\<close>

theorem window_bound:
  assumes "ok t s" "\<And>t. scores s t = []" and "0 \<le> limit" and "in_order usable allow t s reqs"
  shows "int (length (filter (\<lambda>x. a \<le> x \<and> x < a + window) (fst (passing allow s [] reqs)))) \<le> limit"
proof -
  have "counted t [] s" using assms(1-3) by (simp add: counted_def)
  from passing_counted [OF this assms(4)] show ?thesis by (auto simp: counted_def)
qed

end

section \<open>The two limiters keep it\<close>

definition window_scores :: "int \<Rightarrow> sorted_set \<Rightarrow> int \<Rightarrow> int list" where
  "window_scores window z t = map snd (filter (\<lambda>(m, s). t - window < s) (ss_live t z))"

definition window_ok :: "int \<Rightarrow> int \<Rightarrow> sorted_set \<Rightarrow> bool" where
  "window_ok window t z \<longleftrightarrow> (\<forall>(m, s)\<in>set (ss_members z). s \<le> t \<and> (\<forall>e. ss_expires z = Some e \<longrightarrow> s + window \<le> e))"

definition new_entry :: "int \<Rightarrow> int \<Rightarrow> int \<Rightarrow> sorted_set \<Rightarrow> bool" where
  "new_entry window now r z \<longleftrightarrow> entry_id now r \<notin> fst ` set (ss_live now (ZRemUpTo now (now - window) z))"

lemma ss_live_members: "(m, s) \<in> set (ss_live t z) \<Longrightarrow> (m, s) \<in> set (ss_members z)"
  by (auto simp: ss_live_def split: option.splits if_splits)

lemma live_ZRemUpTo: "ss_live now (ZRemUpTo now b z) = filter (\<lambda>(m, s). b < s) (ss_live now z)"
  by (auto simp: ZRemUpTo_def ss_live_def split: option.splits)

lemma window_scores_ZRemUpTo:
  assumes "now \<le> t"
  shows "window_scores window (ZRemUpTo now (now - window) z) t = window_scores window z t"
proof (cases "ss_live now z = []")
  case True
  then have "ss_live t z = []" using assms by (auto simp: ss_live_def split: option.splits if_splits)
  with True show ?thesis by (simp add: window_scores_def ZRemUpTo_def ss_live_def)
next
  case False
  then have "ss_live now z = ss_members z" by (auto simp: ss_live_def split: option.splits if_splits)
  moreover have "filter (\<lambda>(m, s). t - window < s) (filter (\<lambda>(m, s). now - window < s) xs) = filter (\<lambda>(m, s). t - window < s) xs"
    for xs :: "(string \<times> int) list" using assms by (auto intro: filter_cong)
  ultimately show ?thesis using False
    by (auto simp: window_scores_def ZRemUpTo_def ss_live_def split: option.splits if_splits)
qed

lemma window_ok_ZRemUpTo: "window_ok window t z \<Longrightarrow> window_ok window t (ZRemUpTo now b z)"
  by (auto simp: window_ok_def ZRemUpTo_def dest: ss_live_members split: if_splits)

lemma record_entry_members:
  assumes "0 < window"
  shows "record_entry no_faults now window entry z =
    \<lparr>ss_members = filter (\<lambda>(m', s). m' \<noteq> entry) (ss_live now z) @ [(entry, now)], ss_expires = Some (now + window)\<rparr>"
  by (auto simp: record_entry_def no_faults_def ZAdd_member_def Expire_def ss_live_def Let_def split: option.splits if_splits)

lemma record_entry_view:
  assumes "0 < window" and "entry \<notin> fst ` set (ss_live now z)"
  shows "record_entry no_faults now window entry z = \<lparr>ss_members = ss_live now z @ [(entry, now)], ss_expires = Some (now + window)\<rparr>"
proof -
  have "filter (\<lambda>(m', s). m' \<noteq> entry) (ss_live now z) = ss_live now z"
    using assms(2) by (auto simp: filter_id_conv) force
  then show ?thesis by (simp add: record_entry_members [OF assms(1)])
qed

text \<open>An entry adds its instant to what is counted, for as long as the window.\<close>

lemma window_scores_entry:
  assumes "0 < window" "window_ok window now z" "entry \<notin> fst ` set (ss_live now z)" "now \<le> t"
  shows "mset (window_scores window (record_entry no_faults now window entry z) t) =
    mset (window_scores window z t) + (if t - window < now then {#now#} else {#})"
proof (cases "now + window \<le> t")
  case True
  have "filter (\<lambda>(m, s). t - window < s) (ss_live t z) = []"
    using True assms(2) by (auto simp: filter_empty_conv window_ok_def dest!: ss_live_members)
  with True show ?thesis unfolding record_entry_view [OF assms(1,3)] by (simp add: window_scores_def ss_live_def)
next
  case False
  have "filter (\<lambda>(m, s). t - window < s) (ss_live now z) = filter (\<lambda>(m, s). t - window < s) (ss_live t z)"
  proof (cases "ss_live t z = ss_live now z")
    case False
    then obtain e where e: "ss_expires z = Some e" "now < e" "e \<le> t"
      using \<open>now \<le> t\<close> by (auto simp: ss_live_def split: option.splits if_splits)
    then have "ss_live t z = []" "\<forall>(m, s)\<in>set (ss_live now z). s + window \<le> e"
      using assms(2) by (auto simp: ss_live_def window_ok_def)
    with e show ?thesis by (auto simp: filter_empty_conv)
  qed simp
  with False show ?thesis unfolding record_entry_view [OF assms(1,3)] by (simp add: window_scores_def ss_live_def)
qed

lemma window_ok_entry:
  assumes "0 < window" "window_ok window now z"
  shows "window_ok window now (record_entry no_faults now window entry z)"
  using assms unfolding record_entry_members [OF assms(1)] by (fastforce simp: window_ok_def dest: ss_live_members)

text \<open>What both limiters do when no call fails.\<close>

definition window_allow :: "int \<Rightarrow> int \<Rightarrow> int \<Rightarrow> int \<Rightarrow> sorted_set \<Rightarrow> bool \<times> sorted_set" where
  "window_allow window limit now r z =
     (let z1 = ZRemUpTo now (now - window) z in
      if int (length (ss_live now z1)) \<ge> limit then (False, z1)
      else (True, record_entry no_faults now window (entry_id now r) z1))"

lemma Webhook_Allow_window:
  "(case Webhook_Allow no_faults L now r z of ((ok, _, _), z') \<Rightarrow> (ok, z')) = window_allow webhook_window L now r z"
  by (simp add: Webhook_Allow_def window_allow_def no_faults_def Let_def)

lemma DP_Allow_window: "DP_Allow no_faults L act now r z = window_allow dp_window (limitForAction L act) now r z"
  by (simp add: DP_Allow_def window_allow_def no_faults_def Let_def)

lemma length_live_scores: "length (ss_live now (ZRemUpTo now (now - window) z)) = length (window_scores window z now)"
  by (simp add: live_ZRemUpTo window_scores_def)

lemma window_allow_contract:
  assumes "0 < window" "window_ok window now z"
  shows "limit \<le> int (length (window_scores window z now)) \<Longrightarrow> \<not> fst (window_allow window limit now r z)
      \<and> (\<forall>t\<ge>now. window_scores window (snd (window_allow window limit now r z)) t = window_scores window z t)"
    and "int (length (window_scores window z now)) < limit \<Longrightarrow> new_entry window now r z \<Longrightarrow>
      fst (window_allow window limit now r z)
      \<and> (\<forall>t\<ge>now. mset (window_scores window (snd (window_allow window limit now r z)) t) =
          mset (window_scores window z t) + (if t - window < now then {#now#} else {#}))"
proof -
  let ?z = "ZRemUpTo now (now - window) z"
  have ok: "window_ok window now ?z" using assms(2) by (rule window_ok_ZRemUpTo)
  show "\<not> fst (window_allow window limit now r z)
      \<and> (\<forall>t\<ge>now. window_scores window (snd (window_allow window limit now r z)) t = window_scores window z t)"
    if "limit \<le> int (length (window_scores window z now))"
    using that by (simp add: window_allow_def length_live_scores window_scores_ZRemUpTo Let_def)
  show "fst (window_allow window limit now r z)
      \<and> (\<forall>t\<ge>now. mset (window_scores window (snd (window_allow window limit now r z)) t) =
          mset (window_scores window z t) + (if t - window < now then {#now#} else {#}))"
    if "int (length (window_scores window z now)) < limit" "new_entry window now r z"
    using that window_scores_entry [OF assms(1) ok] window_scores_ZRemUpTo
    by (simp add: window_allow_def length_live_scores new_entry_def Let_def)
qed

lemma window_limiter_window:
  assumes "0 < window"
  shows "window_limiter limit window (window_scores window) (window_allow window limit) (new_entry window) (window_ok window)"
proof
  show "window_ok window t s \<Longrightarrow> window_ok window u s" if "t \<le> u" for t u s
    using that by (fastforce simp: window_ok_def)
  show "window_ok window now s \<Longrightarrow> window_ok window now (snd (window_allow window limit now r s))" for now r s
    using window_ok_ZRemUpTo window_ok_entry [OF assms] by (simp add: window_allow_def Let_def)
qed (use window_allow_contract [OF assms] in blast)+

interpretation webhook_limiter: window_limiter limit webhook_window "window_scores webhook_window"
  "window_allow webhook_window limit" "new_entry webhook_window" "window_ok webhook_window" for limit
  by (rule window_limiter_window) (simp add: webhook_window_def)

interpretation dp_limiter: window_limiter limit dp_window "window_scores dp_window"
  "window_allow dp_window limit" "new_entry dp_window" "window_ok dp_window" for limit
  by (rule window_limiter_window) (simp add: dp_window_def)

definition empty_set :: sorted_set where
  "empty_set = \<lparr>ss_members = [], ss_expires = None\<rparr>"

lemma empty_set_view [simp]: "window_ok window t empty_set" "window_scores window empty_set t = []"
  by (simp_all add: empty_set_def window_ok_def window_scores_def ss_live_def)

definition webhook_allow :: "int \<Rightarrow> int \<Rightarrow> int \<Rightarrow> sorted_set \<Rightarrow> bool \<times> sorted_set" where
  "webhook_allow rateLimit now r z = (case Webhook_Allow no_faults rateLimit now r z of ((ok, _, _), z') \<Rightarrow> (ok, z'))"


lemma entry_id_new: "new_entry window now r empty_set"
  by (simp add: new_entry_def empty_set_def ZRemUpTo_def ss_live_def)


end
