(* ===== verification/Webhook_Sign.thy ===== *)
theory Webhook_Sign
  imports Decimal
begin

text \<open>
  Signatures of webhook requests: \<open>service/webhook_sign.go\<close> and
  \<open>http/middleware/webhook_signature.go\<close>. HMAC-SHA256 is a parameter, a function of key and
  message to the bytes of the digest; a timestamp is a number of seconds that fits \<open>int64\<close>, and
  the differences of the verification are computed in \<open>int64\<close>.
\<close>

type_synonym mac = "string \<Rightarrow> string \<Rightarrow> string"

definition trim_prefix :: "string \<Rightarrow> string \<Rightarrow> string" where
  "trim_prefix s p = (if has_prefix s p then drop (length p) s else s)"

definition cut_prefix :: "string \<Rightarrow> string \<Rightarrow> string option" where
  "cut_prefix s p = (if has_prefix s p then Some (drop (length p) s) else None)"

definition hex_digit :: "nat \<Rightarrow> char" where
  "hex_digit d = (if d < 10 then char_of (48 + d) else char_of (87 + d))"

text \<open>\<open>hex.EncodeToString\<close>\<close>

definition hex_encode :: "string \<Rightarrow> string" where
  "hex_encode bytes = concat (map (\<lambda>b. [hex_digit (of_char b div 16), hex_digit (of_char b mod 16)]) bytes)"

text \<open>A result of \<open>int64\<close> arithmetic.\<close>

definition wrap64 :: "int \<Rightarrow> int" where
  "wrap64 x = (x + 2 ^ 63) mod 2 ^ 64 - 2 ^ 63"

section \<open>Signing\<close>

definition signedPayload :: "int \<Rightarrow> string \<Rightarrow> string" where
  "signedPayload timestamp body = itoa timestamp @ ''.'' @ body"

definition SignWebhookPayload :: "mac \<Rightarrow> string \<Rightarrow> int \<Rightarrow> string \<Rightarrow> string" where
  "SignWebhookPayload hmac secret timestamp body =
     (let signature = hex_encode (hmac (trim_prefix secret ''whsec_'') (signedPayload timestamp body))
      in ''t='' @ itoa timestamp @ '',v1='' @ signature)"

text \<open>The copy of it in the service package.\<close>

definition signWebhookPayload_service :: "mac \<Rightarrow> string \<Rightarrow> int \<Rightarrow> string \<Rightarrow> string" where
  "signWebhookPayload_service hmac secret timestamp body =
     (let secret = trim_prefix secret ''whsec_'';
          signature = hex_encode (hmac secret (itoa timestamp @ ''.'' @ body))
      in ''t='' @ itoa timestamp @ '',v1='' @ signature)"

section \<open>Verification\<close>

fun signature_parts :: "string list \<Rightarrow> int \<Rightarrow> string \<Rightarrow> (int \<times> string) option" where
  "signature_parts [] timestamp signature = Some (timestamp, signature)"
| "signature_parts (p # ps) timestamp signature =
     (case cut_prefix p ''t='' of
        Some after \<Rightarrow> (case ParseInt after of None \<Rightarrow> None | Some ts \<Rightarrow> signature_parts ps ts signature)
      | None \<Rightarrow>
          (case cut_prefix p ''v1='' of
             Some after \<Rightarrow> signature_parts ps timestamp after
           | None \<Rightarrow> signature_parts ps timestamp signature))"

definition ParseSignatureHeader :: "string \<Rightarrow> (int \<times> string) option" where
  "ParseSignatureHeader sigHeader =
     (case signature_parts (str_split CHR '','' sigHeader) 0 [] of
        None \<Rightarrow> None
      | Some (timestamp, signature) \<Rightarrow>
          if timestamp = 0 \<or> signature = [] then None else Some (timestamp, signature))"

definition VerifyWebhookSignature :: "mac \<Rightarrow> int \<Rightarrow> string \<Rightarrow> string \<Rightarrow> string \<Rightarrow> int \<Rightarrow> bool" where
  "VerifyWebhookSignature hmac now secret sigHeader body toleranceSeconds =
     (case ParseSignatureHeader sigHeader of
        None \<Rightarrow> False
      | Some (timestamp, signature) \<Rightarrow>
          if toleranceSeconds > 0
             \<and> (wrap64 (now - timestamp) > toleranceSeconds \<or> wrap64 (timestamp - now) > toleranceSeconds)
          then False
          else signature = hex_encode (hmac (trim_prefix secret ''whsec_'') (signedPayload timestamp body)))"

section \<open>What signing and verifying do\<close>

lemma sign_copies_agree: "signWebhookPayload_service = SignWebhookPayload"
  by (simp add: fun_eq_iff signWebhookPayload_service_def SignWebhookPayload_def signedPayload_def Let_def)

lemma has_prefix_Cons: "has_prefix (c # s) (d # p) \<longleftrightarrow> c = d \<and> has_prefix s p" "has_prefix s []"
  by (auto simp: has_prefix_def)

lemma cut_prefix_append [simp]: "cut_prefix (p @ s) p = Some s"
  by (simp add: cut_prefix_def)

lemma hex_digit_no_comma: "d < 16 \<Longrightarrow> hex_digit d \<noteq> CHR '',''"
proof
  assume "d < 16" and "hex_digit d = CHR '',''"
  then have "(of_char (hex_digit d) :: nat) = 44" by simp
  with \<open>d < 16\<close> show False by (auto simp: hex_digit_def split: if_splits)
qed

lemma hex_encode_no_comma: "CHR '','' \<notin> set (hex_encode bytes)"
proof -
  have "hex_digit (of_char b div 16) \<noteq> CHR '',''" "hex_digit (of_char b mod 16) \<noteq> CHR '',''" for b :: char
    using hex_digit_no_comma [of "of_char b div 16"] hex_digit_no_comma [of "of_char b mod 16"]
      of_char_mod_256 [of b, where ?'a = nat] mod_less_divisor [of 256 "of_char b :: nat"]
    by (simp_all add: div_less_iff_less_mult)
  then show ?thesis by (auto simp: hex_encode_def dest: sym)
qed

lemma hex_encode_nonempty: "hex_encode bytes = [] \<longleftrightarrow> bytes = []"
  by (cases bytes) (simp_all add: hex_encode_def)

lemma parse_signed_header:
  assumes "int64_range timestamp" "timestamp \<noteq> 0" "bytes \<noteq> []"
  shows "ParseSignatureHeader (''t='' @ itoa timestamp @ '',v1='' @ hex_encode bytes) = Some (timestamp, hex_encode bytes)"
proof -
  have "CHR '','' \<notin> set (''t='' @ itoa timestamp)" using itoa_no_sep [of "CHR '',''" timestamp] by simp
  moreover have "CHR '','' \<notin> set (''v1='' @ hex_encode bytes)" using hex_encode_no_comma [of bytes] by simp
  ultimately have split: "str_split CHR '','' (''t='' @ itoa timestamp @ '',v1='' @ hex_encode bytes) =
      [''t='' @ itoa timestamp, ''v1='' @ hex_encode bytes]"
    using str_split_append [of "CHR '',''" "''t='' @ itoa timestamp" "''v1='' @ hex_encode bytes"] str_split_no_sep by simp
  have "cut_prefix (''v1='' @ hex_encode bytes) ''t='' = None"
    by (simp add: cut_prefix_def has_prefix_Cons)
  then have "signature_parts [''t='' @ itoa timestamp, ''v1='' @ hex_encode bytes] 0 [] =
      Some (timestamp, hex_encode bytes)"
    using ParseInt_itoa [OF assms(1)] cut_prefix_append [of "''t=''" "itoa timestamp"]
      cut_prefix_append [of "''v1=''" "hex_encode bytes"] by simp
  with split assms(2,3) show ?thesis by (simp add: ParseSignatureHeader_def hex_encode_nonempty)
qed

lemma signature_parts_int64:
  "signature_parts ps t0 s0 = Some (ts, sig) \<Longrightarrow> int64_range t0 \<Longrightarrow> int64_range ts"
proof (induction ps t0 s0 rule: signature_parts.induct)
  case (2 p ps timestamp signature)
  then show ?case by (auto split: option.splits dest: ParseInt_int64)
qed simp

lemma ParseSignatureHeader_int64: "ParseSignatureHeader hdr = Some (ts, sig) \<Longrightarrow> int64_range ts"
  by (auto simp: ParseSignatureHeader_def int64_range_def split: option.splits if_splits
      dest!: signature_parts_int64)

text \<open>
  The clock is a positive \<open>int64\<close> well below its end, the tolerance as well; the timestamp of a
  header is any \<open>int64\<close>, so that the differences may wrap around.
\<close>

lemma tolerance_exact:
  assumes "int64_range ts" "0 \<le> now" "now < 2 ^ 62" "0 \<le> tol" "tol < 2 ^ 62"
  shows "wrap64 (now - ts) > tol \<or> wrap64 (ts - now) > tol \<longleftrightarrow>
    tol < \<bar>now - ts\<bar> \<and> now - ts \<noteq> 2 ^ 63"
proof -
  have wrap: "wrap64 x = (if x < - (2 ^ 63) then x + 2 ^ 64 else if x \<ge> 2 ^ 63 then x - 2 ^ 64 else x)"
    if "- (2 ^ 64) \<le> x" "x < 2 ^ 64" for x
  proof -
    consider "x < - (2 ^ 63)" | "- (2 ^ 63) \<le> x" "x < 2 ^ 63" | "2 ^ 63 \<le> x" by linarith
    then show ?thesis
    proof cases
      case 1
      have "(x + 2 ^ 63) mod 2 ^ 64 = (x + 2 ^ 63 + 2 ^ 64) mod 2 ^ 64" by (simp only: mod_add_self2)
      also have "\<dots> = x + 2 ^ 63 + 2 ^ 64" using 1 that by (intro mod_pos_pos_trivial) auto
      finally show ?thesis using 1 by (simp add: wrap64_def)
    next
      case 2
      then show ?thesis by (simp add: wrap64_def mod_pos_pos_trivial)
    next
      case 3
      have "(x + 2 ^ 63) mod 2 ^ 64 = (x + 2 ^ 63 - 2 ^ 64) mod 2 ^ 64" by (simp only: minus_mod_self2)
      also have "\<dots> = x + 2 ^ 63 - 2 ^ 64" using 3 that by (intro mod_pos_pos_trivial) auto
      finally show ?thesis using 3 by (simp add: wrap64_def)
    qed
  qed
  show ?thesis
    using assms by (auto simp: wrap int64_range_def abs_if not_less)
qed

text \<open>
  C15. A header that signing made is accepted with the same secret, with or without its prefix
  \<open>whsec_\<close>, and the same body for as long as the clock is within the tolerance of the
  timestamp.
\<close>

theorem sign_verify_roundtrip:
  assumes "int64_range ts" "ts \<noteq> 0" "\<And>k m. hmac k m \<noteq> []"
    and "0 \<le> now" "now < 2 ^ 62" "tol < 2 ^ 62" "\<bar>now - ts\<bar> \<le> tol"
    and "trim_prefix secret' ''whsec_'' = trim_prefix secret ''whsec_''"
  shows "VerifyWebhookSignature hmac now secret' (SignWebhookPayload hmac secret ts body) body tol"
  using assms parse_signed_header [of ts "hmac (trim_prefix secret ''whsec_'') (signedPayload ts body)"]
    tolerance_exact [of ts now tol]
  by (auto simp: VerifyWebhookSignature_def SignWebhookPayload_def Let_def abs_if split: if_splits)

lemma sign_verify_roundtrip_witness:
  "VerifyWebhookSignature (\<lambda>k m. CHR ''x'' # k) 1683456799 ''key''
     (SignWebhookPayload (\<lambda>k m. CHR ''x'' # k) ''whsec_key'' 1683456789 ''body'') ''body'' 300"
  by (rule sign_verify_roundtrip) (simp_all add: int64_range_def trim_prefix_def has_prefix_def)

text \<open>
  What is accepted: the header parses, its signature is that of its timestamp and the body
  under the secret, and, when a tolerance is given, its timestamp lies within it. The
  subtractions of the code wrap around for the timestamps that a sender may choose, which lets
  through a single one outside the tolerance, \<open>2\<^sup>6\<^sup>3\<close> seconds ago.
\<close>

theorem verify_accepts_iff:
  assumes "0 \<le> now" "now < 2 ^ 62" "tol < 2 ^ 62"
  shows "VerifyWebhookSignature hmac now secret hdr body tol \<longleftrightarrow>
    (\<exists>ts. ParseSignatureHeader hdr = Some (ts, hex_encode (hmac (trim_prefix secret ''whsec_'') (signedPayload ts body)))
      \<and> (tol \<le> 0 \<or> \<bar>now - ts\<bar> \<le> tol \<or> now - ts = 2 ^ 63))"
proof (cases "ParseSignatureHeader hdr")
  case (Some p)
  obtain ts sig where p: "p = (ts, sig)" by fastforce
  have "int64_range ts" using Some p by (auto dest: ParseSignatureHeader_int64)
  then show ?thesis
    using Some p assms tolerance_exact [of ts now tol]
    by (cases "0 < tol") (auto simp: VerifyWebhookSignature_def)
qed (simp add: VerifyWebhookSignature_def)

lemma parse_far_header:
  "ParseSignatureHeader ''t=-9223372036854775808,v1=78'' = Some (- 9223372036854775808, ''78'')"
  by (simp add: ParseSignatureHeader_def cut_prefix_def has_prefix_def ParseInt_def parse_digits_def is_digit_def
      digit_val_def in_int64_def int64_range_def)

lemma verify_accepts_iff_witness:
  "\<not> VerifyWebhookSignature (\<lambda>k m. ''x'') 1683456789 ''key'' ''t=-9223372036854775808,v1=78'' ''body'' 300"
  using verify_accepts_iff [of 1683456789 300 "\<lambda>k m. ''x''" "''key''" "''t=-9223372036854775808,v1=78''" "''body''"]
  by (simp add: parse_far_header)

end
