(* ===== verification/Event_Bus.thy ===== *)
theory Event_Bus
  imports Prelude
begin

text \<open>
  The in-process event bus of the webhooks (\<open>domain/webhook_events.go\<close>): a buffered channel, the
  handlers and the goroutine that empties the channel. A handler is a function of the event and
  of the state of the rest of the program; one that panics is recovered, so that its effect is
  the state that it leaves at that point.
\<close>

record ('p, 's) event_bus =
  eb_buffer :: nat
  eb_handlers :: "('p \<Rightarrow> 's \<Rightarrow> 's) list"
  eb_ch :: "'p list"
  eb_started :: bool
  eb_cancelled :: bool

definition NewEventBus :: "int \<Rightarrow> ('p, 's) event_bus" where
  "NewEventBus bufferSize =
     \<lparr>eb_buffer = (if bufferSize \<le> 0 then 256 else nat bufferSize), eb_handlers = [], eb_ch = [],
      eb_started = False, eb_cancelled = False\<rparr>"

definition bus_Start :: "('p, 's) event_bus \<Rightarrow> ('p, 's) event_bus" where
  "bus_Start b = b\<lparr>eb_started := True, eb_cancelled := False\<rparr>"

definition bus_Stop :: "('p, 's) event_bus \<Rightarrow> ('p, 's) event_bus" where
  "bus_Stop b = (if eb_started b then b\<lparr>eb_cancelled := True\<rparr> else b)"

definition bus_Subscribe :: "('p, 's) event_bus \<Rightarrow> ('p \<Rightarrow> 's \<Rightarrow> 's) \<Rightarrow> ('p, 's) event_bus" where
  "bus_Subscribe b h = b\<lparr>eb_handlers := eb_handlers b @ [h]\<rparr>"

lemma bus_Stop_keeps [simp]:
  "eb_ch (bus_Stop b) = eb_ch b" "eb_handlers (bus_Stop b) = eb_handlers b" "eb_buffer (bus_Stop b) = eb_buffer b"
  by (simp_all add: bus_Stop_def)

text \<open>\<open>Publish\<close> looks at the context first and sends then; the bus may be stopped in between.\<close>

definition publish_check :: "('p, 's) event_bus \<Rightarrow> unit result" where
  "publish_check b =
     (if \<not> eb_started b then Inl (Opaque ''event bus not started'')
      else if eb_cancelled b then Inl (Opaque ''context canceled'')
      else Inr ())"

definition publish_send :: "('p, 's) event_bus \<Rightarrow> 'p \<Rightarrow> unit result \<times> ('p, 's) event_bus" where
  "publish_send b e =
     (if length (eb_ch b) < eb_buffer b then (Inr (), b\<lparr>eb_ch := eb_ch b @ [e]\<rparr>)
      else (Inl (Opaque ''event bus channel full''), b))"

definition bus_Publish :: "('p, 's) event_bus \<Rightarrow> 'p \<Rightarrow> unit result \<times> ('p, 's) event_bus" where
  "bus_Publish b e = (case publish_check b of Inl err \<Rightarrow> (Inl err, b) | Inr _ \<Rightarrow> publish_send b e)"

definition callHandlers :: "('p \<Rightarrow> 's \<Rightarrow> 's) list \<Rightarrow> 'p \<Rightarrow> 's \<Rightarrow> 's" where
  "callHandlers handlers e s = fold (\<lambda>h. h e) handlers s"

text \<open>
  One turn of the loop of \<open>dispatch\<close>: the next event and the state after its handlers. \<open>None\<close>
  when the channel is empty: the goroutine waits, or returns if the bus is stopped.
\<close>

definition bus_dispatch :: "('p, 's) event_bus \<Rightarrow> 's \<Rightarrow> ('p \<times> ('p, 's) event_bus \<times> 's) option" where
  "bus_dispatch b s =
     (case eb_ch b of
        [] \<Rightarrow> None
      | e # es \<Rightarrow> Some (e, b\<lparr>eb_ch := es\<rparr>, callHandlers (eb_handlers b) e s))"

text \<open>\<open>Stop\<close>: the goroutine handles what is left in the channel; as many turns as it has events.\<close>

fun bus_drain :: "nat \<Rightarrow> ('p, 's) event_bus \<Rightarrow> 's \<Rightarrow> ('p, 's) event_bus \<times> 's" where
  "bus_drain 0 b s = (b, s)"
| "bus_drain (Suc n) b s =
     (case bus_dispatch b s of None \<Rightarrow> (b, s) | Some (e, b', s') \<Rightarrow> bus_drain n b' s')"

section \<open>A running bus\<close>

text \<open>
  The world of a started bus: the publishers that have passed the check and not sent yet,
  whether the goroutine has returned, and the histories: the events accepted, and those handled
  with the handlers that were called.
\<close>

record ('p, 's) bus_world =
  bw_bus :: "('p, 's) event_bus"
  bw_state :: 's
  bw_pending :: "'p list"
  bw_returned :: bool
  bw_accepted :: "'p list"
  bw_handled :: "('p \<times> ('p \<Rightarrow> 's \<Rightarrow> 's) list) list"

datatype 'p bus_act = Accept 'p | Refuse 'p | Handle 'p | Internal

inductive bus_step :: "('p, 's) bus_world \<Rightarrow> 'p bus_act \<Rightarrow> ('p, 's) bus_world \<Rightarrow> bool" where
  begin_publish: "publish_check (bw_bus w) = Inr () \<Longrightarrow>
    bus_step w Internal (w\<lparr>bw_pending := e # bw_pending w\<rparr>)"
| refused: "publish_check (bw_bus w) = Inl err \<Longrightarrow> bus_step w (Refuse e) w"
| send: "e \<in> set (bw_pending w) \<Longrightarrow> publish_send (bw_bus w) e = (Inr (), b) \<Longrightarrow>
    bus_step w (Accept e)
      (w\<lparr>bw_bus := b, bw_pending := remove1 e (bw_pending w), bw_accepted := bw_accepted w @ [e]\<rparr>)"
| full: "e \<in> set (bw_pending w) \<Longrightarrow> publish_send (bw_bus w) e = (Inl err, b) \<Longrightarrow>
    bus_step w (Refuse e) (w\<lparr>bw_bus := b, bw_pending := remove1 e (bw_pending w)\<rparr>)"
| subscribe: "bus_step w Internal (w\<lparr>bw_bus := bus_Subscribe (bw_bus w) h\<rparr>)"
| handle: "\<not> bw_returned w \<Longrightarrow> bus_dispatch (bw_bus w) (bw_state w) = Some (e, b, s) \<Longrightarrow>
    bus_step w (Handle e)
      (w\<lparr>bw_bus := b, bw_state := s, bw_handled := bw_handled w @ [(e, eb_handlers (bw_bus w))]\<rparr>)"
| stop: "bus_step w Internal (w\<lparr>bw_bus := bus_Stop (bw_bus w)\<rparr>)"
| return: "eb_cancelled (bw_bus w) \<Longrightarrow> bus_dispatch (bw_bus w) (bw_state w) = None \<Longrightarrow>
    bus_step w Internal (w\<lparr>bw_returned := True\<rparr>)"

definition bus_init :: "int \<Rightarrow> 's \<Rightarrow> ('p, 's) bus_world" where
  "bus_init bufferSize s = \<lparr>bw_bus = bus_Start (NewEventBus bufferSize), bw_state = s, bw_pending = [],
     bw_returned = False, bw_accepted = [], bw_handled = []\<rparr>"

inductive bus_run :: "('p, 's) bus_world \<Rightarrow> 'p bus_act list \<Rightarrow> ('p, 's) bus_world \<Rightarrow> bool" where
  stay: "bus_run w [] w"
| step: "bus_run w acts w1 \<Longrightarrow> bus_step w1 a w2 \<Longrightarrow> bus_run w (acts @ [a]) w2"

section \<open>The specification: a bounded queue\<close>

text \<open>An event is accepted at the end of the queue if there is room, and handled from its front.\<close>

fun queue_step :: "nat \<Rightarrow> 'p list \<Rightarrow> 'p bus_act \<Rightarrow> 'p list option" where
  "queue_step n q (Accept e) = (if length q < n then Some (q @ [e]) else None)"
| "queue_step n q (Refuse e) = Some q"
| "queue_step n (x # q) (Handle e) = (if x = e then Some q else None)"
| "queue_step n [] (Handle e) = None"
| "queue_step n q Internal = Some q"

fun queue_run :: "nat \<Rightarrow> 'p list \<Rightarrow> 'p bus_act list \<Rightarrow> 'p list option" where
  "queue_run n q [] = Some q"
| "queue_run n q (a # as) = (case queue_step n q a of None \<Rightarrow> None | Some q' \<Rightarrow> queue_run n q' as)"

lemma queue_run_append:
  "queue_run n q (as @ bs) = (case queue_run n q as of None \<Rightarrow> None | Some q' \<Rightarrow> queue_run n q' bs)"
  by (induction as arbitrary: q) (auto split: option.splits)

fun accepted :: "'p bus_act list \<Rightarrow> 'p list" where
  "accepted [] = []"
| "accepted (Accept e # as) = e # accepted as"
| "accepted (_ # as) = accepted as"

fun handled :: "'p bus_act list \<Rightarrow> 'p list" where
  "handled [] = []"
| "handled (Handle e # as) = e # handled as"
| "handled (_ # as) = handled as"

text \<open>What the specification gives: first in, first out, without loss.\<close>

lemma queue_fifo: "queue_run n q as = Some q' \<Longrightarrow> q @ accepted as = handled as @ q'"
proof (induction as arbitrary: q)
  case (Cons a as)
  then obtain q1 where q1: "queue_step n q a = Some q1" "queue_run n q1 as = Some q'"
    by (auto split: option.splits)
  then have "q1 @ accepted as = handled as @ q'" using Cons.IH by simp
  with q1(1) show ?case by (cases a; cases q) (auto split: if_splits)
qed simp

lemma queue_bound: "queue_run n q as = Some q' \<Longrightarrow> length q \<le> n \<Longrightarrow> length q' \<le> n"
proof (induction as arbitrary: q)
  case (Cons a as)
  then obtain q1 where "queue_step n q a = Some q1" "queue_run n q1 as = Some q'"
    by (auto split: option.splits)
  moreover from this have "length q1 \<le> n" using Cons.prems(2) by (cases a; cases q) (auto split: if_splits)
  ultimately show ?case using Cons.IH by simp
qed simp

section \<open>The bus implements the queue\<close>

inductive_simps bus_step_Handle: "bus_step w (Handle e) w'"

lemma bus_step_queue:
  assumes "bus_step w a w'"
  shows "queue_step (eb_buffer (bw_bus w)) (eb_ch (bw_bus w)) a = Some (eb_ch (bw_bus w'))"
    and "eb_buffer (bw_bus w') = eb_buffer (bw_bus w)"
  using assms
  by (induction rule: bus_step.induct)
     (auto simp: publish_send_def bus_dispatch_def bus_Subscribe_def bus_Stop_def split: if_splits list.splits)

definition replay_handled :: "('p \<times> ('p \<Rightarrow> 's \<Rightarrow> 's) list) list \<Rightarrow> 's \<Rightarrow> 's" where
  "replay_handled hs s = fold (\<lambda>(e, handlers). callHandlers handlers e) hs s"

lemma bus_step_history:
  assumes "bus_step w a w'"
  shows "bw_accepted w' = bw_accepted w @ accepted [a]"
    and "map fst (bw_handled w') = map fst (bw_handled w) @ handled [a]"
    and "bw_state w = replay_handled (bw_handled w) s \<Longrightarrow> bw_state w' = replay_handled (bw_handled w') s"
  using assms
  by (induction rule: bus_step.induct) (auto simp: bus_dispatch_def replay_handled_def split: list.splits)

lemma accepted_append [simp]: "accepted (as @ bs) = accepted as @ accepted bs"
  by (induction as rule: accepted.induct) simp_all

lemma handled_append [simp]: "handled (as @ bs) = handled as @ handled bs"
  by (induction as rule: handled.induct) simp_all

lemma bus_run_history:
  assumes "bus_run w as w'" "w = bus_init n s"
  shows "bw_accepted w' = accepted as \<and> map fst (bw_handled w') = handled as
    \<and> bw_state w' = replay_handled (bw_handled w') s"
  using assms
proof (induction rule: bus_run.induct)
  case (step w acts w1 a w2)
  then show ?case using bus_step_history [OF step.hyps(2)] by auto
qed (simp add: bus_init_def replay_handled_def)

lemma bus_run_queue:
  assumes "bus_run w as w'"
  shows "queue_run (eb_buffer (bw_bus w)) (eb_ch (bw_bus w)) as = Some (eb_ch (bw_bus w'))
    \<and> eb_buffer (bw_bus w') = eb_buffer (bw_bus w)"
  using assms
proof (induction rule: bus_run.induct)
  case (step w acts w1 a w2)
  then show ?case using bus_step_queue [OF step.hyps(2)] by (simp add: queue_run_append)
qed simp

text \<open>
  C16. Every run of the bus, however publishers, subscribers, the goroutine and a stop interleave,
  is a run of a bounded first-in first-out queue whose content is the channel: the channel never
  holds more events than its buffer, each accepted event is handled once and in order or is
  still in the channel, and the state of the program is what calling the handlers of each
  handled event gives.
\<close>

theorem event_bus_refines_queue:
  assumes "bus_run (bus_init n s) acts w"
  shows "queue_run (if n \<le> 0 then 256 else nat n) [] acts = Some (eb_ch (bw_bus w))
    \<and> length (eb_ch (bw_bus w)) \<le> (if n \<le> 0 then 256 else nat n)
    \<and> accepted acts = map fst (bw_handled w) @ eb_ch (bw_bus w)
    \<and> bw_state w = replay_handled (bw_handled w) s"
proof -
  have q: "queue_run (if n \<le> 0 then 256 else nat n) [] acts = Some (eb_ch (bw_bus w))"
    using bus_run_queue [OF assms] by (simp add: bus_init_def bus_Start_def NewEventBus_def)
  moreover have "accepted acts = handled acts @ eb_ch (bw_bus w)" using queue_fifo [OF q] by simp
  moreover have "length (eb_ch (bw_bus w)) \<le> (if n \<le> 0 then 256 else nat n)" using queue_bound [OF q] by simp
  ultimately show ?thesis using bus_run_history [OF assms refl] by simp
qed

lemma event_bus_run_example:
  "\<exists>w :: (nat, nat) bus_world. bus_run (bus_init 1 0) [Internal, Internal, Accept 5, Handle 5] w
    \<and> bw_state w = 5 \<and> eb_ch (bw_bus w) = []"
proof -
  let ?b = "\<lparr>eb_buffer = 1, eb_handlers = [], eb_ch = [], eb_started = True, eb_cancelled = False\<rparr> :: (nat, nat) event_bus"
  let ?w = "\<lparr>bw_bus = ?b, bw_state = 0, bw_pending = [], bw_returned = False, bw_accepted = [], bw_handled = []\<rparr>"
  let ?w1 = "?w\<lparr>bw_bus := ?b\<lparr>eb_handlers := [(+)]\<rparr>\<rparr>"
  let ?w2 = "?w1\<lparr>bw_pending := [5]\<rparr>"
  let ?w3 = "?w1\<lparr>bw_bus := ?b\<lparr>eb_handlers := [(+)], eb_ch := [5]\<rparr>, bw_accepted := [5]\<rparr>"
  let ?w4 = "?w3\<lparr>bw_bus := ?b\<lparr>eb_handlers := [(+)]\<rparr>, bw_state := 5, bw_handled := [(5, [(+)])]\<rparr>"
  have "bus_init 1 0 = ?w" by (simp add: bus_init_def bus_Start_def NewEventBus_def)
  then have r0: "bus_run (bus_init 1 0) [] ?w" using bus_run.stay [of ?w] by simp
  have s1: "bus_step ?w Internal ?w1" using subscribe [of ?w "(+)"] by (simp add: bus_Subscribe_def)
  have s2: "bus_step ?w1 Internal ?w2" using begin_publish [of ?w1 5] by (simp add: publish_check_def)
  have s3: "bus_step ?w2 (Accept 5) ?w3"
    using send [of 5 ?w2 "?b\<lparr>eb_handlers := [(+)], eb_ch := [5]\<rparr>"] by (simp add: publish_send_def)
  have s4: "bus_step ?w3 (Handle 5) ?w4"
    using handle [of ?w3 5 "?b\<lparr>eb_handlers := [(+)]\<rparr>" 5] by (simp add: bus_dispatch_def callHandlers_def)
  have "bus_run (bus_init 1 0) [Internal, Internal, Accept 5, Handle 5] ?w4"
    using bus_run.step [OF bus_run.step [OF bus_run.step [OF bus_run.step [OF r0 s1] s2] s3] s4] by simp
  then show ?thesis by (intro exI [of _ ?w4]) simp
qed

lemma event_bus_refines_queue_witness:
  "queue_run 1 [] [Internal, Internal, Accept 5, Handle (5::nat)] = Some []"
proof -
  obtain w :: "(nat, nat) bus_world" where "bus_run (bus_init 1 0) [Internal, Internal, Accept 5, Handle 5] w" "eb_ch (bw_bus w) = []"
    using event_bus_run_example by blast
  from event_bus_refines_queue [OF this(1)] this(2) show ?thesis by (simp del: queue_run.simps)
qed


end
