(* ===== verification/Webhook.thy ===== *)
theory Webhook
  imports Request_Env Ssrf Webhook_Sign
begin

text \<open>
  Outgoing webhooks: the rows (\<open>domain/webhook.go\<close>), the repositories
  (\<open>repository/webhook.go\<close>) and the service (\<open>service/webhook.go\<close>), with the queue of
  \<open>webhook_queue_redis.go\<close> that the service fills. \<open>url.Parse\<close>, DNS, the random bytes, the
  answer of the rate limiter and what a \<open>jsonb\<close> column makes of a text are parameters; the
  unique index is that of \<open>migrations/000014_webhooks.up.sql\<close>. Foreign keys to organizations
  are among the faults.
\<close>

section \<open>Rows (domain/webhook.go)\<close>

datatype delivery_status = Queued | Processing | Delivered | Failed | RateLimited

definition ValidWebhookEvents :: "string \<Rightarrow> bool" where
  "ValidWebhookEvents e =
     (e \<in> {''user.created'', ''user.deleted'', ''invoice.created'', ''invoice.paid'', ''news.published'',
           ''news.deleted'', ''auth.oauth.linked'', ''auth.oauth.unlinked''})"

record webhook =
  wh_id :: uuid
  wh_org :: "uuid option"
  wh_name :: string
  wh_url :: string
  wh_secret :: string
  wh_events :: json
  wh_active :: "bool option"
  wh_rate_limit :: int
  wh_created_at :: instant
  wh_updated_at :: instant
  wh_deleted_at :: "instant option"

record webhook_delivery =
  dl_id :: uuid
  dl_webhook :: uuid
  dl_event :: string
  dl_payload :: "string option"
  dl_status :: delivery_status
  dl_response_code :: "int option"
  dl_response_body :: string
  dl_duration_ms :: "int option"
  dl_attempt :: int
  dl_max_attempts :: int
  dl_last_error :: string
  dl_next_retry_at :: "instant option"
  dl_started_at :: "instant option"
  dl_delivered_at :: "instant option"
  dl_created_at :: instant

definition IsSubscribedTo :: "webhook \<Rightarrow> string \<Rightarrow> bool" where
  "IsSubscribedTo w event = (case json_strings (wh_events w) of None \<Rightarrow> False | Some events \<Rightarrow> event \<in> set events)"

definition GetActive :: "webhook \<Rightarrow> bool" where
  "GetActive w = (case wh_active w of None \<Rightarrow> False | Some b \<Rightarrow> b)"

definition hook_visible :: "webhook \<Rightarrow> bool" where
  "hook_visible w = (wh_deleted_at w = None)"

definition hook_IsActive :: "webhook \<Rightarrow> bool" where
  "hook_IsActive w = (case wh_active w of None \<Rightarrow> False | Some b \<Rightarrow> b \<and> wh_deleted_at w = None)"

definition IsGlobal :: "webhook \<Rightarrow> bool" where
  "IsGlobal w = (wh_org w = None)"

definition CanRetry :: "webhook_delivery \<Rightarrow> bool" where
  "CanRetry d = (dl_attempt d < dl_max_attempts d \<and> dl_status d \<noteq> Delivered)"

definition CanReplay :: "webhook_delivery \<Rightarrow> bool" where
  "CanReplay d = (dl_status d \<noteq> Queued \<and> dl_status d \<noteq> Processing)"

definition IsTerminal :: "webhook_delivery \<Rightarrow> bool" where
  "IsTerminal d = (dl_status d = Delivered \<or> dl_status d = Failed \<and> dl_attempt d \<ge> dl_max_attempts d)"

definition delivery_Replay :: "webhook_delivery \<Rightarrow> webhook_delivery" where
  "delivery_Replay d = d\<lparr>dl_status := Queued, dl_attempt := 1, dl_response_code := None, dl_response_body := [],
     dl_duration_ms := None, dl_last_error := [], dl_next_retry_at := None, dl_started_at := None,
     dl_delivered_at := None\<rparr>"

text \<open>The answers leave out the secret, but for that of a creation.\<close>

record webhook_response =
  wr_id :: uuid
  wr_org :: "uuid option"
  wr_name :: string
  wr_url :: string
  wr_events :: "string list"
  wr_active :: bool
  wr_rate_limit :: int
  wr_created_at :: instant
  wr_updated_at :: instant

definition hook_ToResponse :: "webhook \<Rightarrow> webhook_response" where
  "hook_ToResponse w = \<lparr>wr_id = wh_id w, wr_org = wh_org w, wr_name = wh_name w, wr_url = wh_url w,
     wr_events = (case json_strings (wh_events w) of None \<Rightarrow> [] | Some es \<Rightarrow> es), wr_active = GetActive w,
     wr_rate_limit = wh_rate_limit w, wr_created_at = wh_created_at w, wr_updated_at = wh_updated_at w\<rparr>"

definition hook_ToCreateResponse :: "webhook \<Rightarrow> webhook_response \<times> string" where
  "hook_ToCreateResponse w = (hook_ToResponse w, wh_secret w)"

section \<open>The queue (service/webhook_queue_redis.go)\<close>

text \<open>
  A Redis sorted set is the list of its members with their scores, here Unix seconds. Members
  of equal score come in the order in which they entered, in Redis in that of their text.
\<close>

record queue_msg =
  qm_delivery :: uuid
  qm_queued_at :: instant

type_synonym zset = "(queue_msg \<times> int) list"

definition unix_time :: "instant \<Rightarrow> int" where
  "unix_time t = t div second"

definition ZAdd :: "zset \<Rightarrow> queue_msg \<Rightarrow> int \<Rightarrow> zset" where
  "ZAdd z m score = filter (\<lambda>(m', s). m' \<noteq> m) z @ [(m, score)]"

definition ZRem :: "zset \<Rightarrow> queue_msg \<Rightarrow> zset" where
  "ZRem z m = filter (\<lambda>(m', s). m' \<noteq> m) z"

definition zrange_due :: "zset \<Rightarrow> int \<Rightarrow> queue_msg list" where
  "zrange_due z max_score = map fst (sort_key snd (filter (\<lambda>(m, s). s \<le> max_score) z))"

record webhook_queue =
  wq_deliveries :: zset
  wq_processing :: "uuid list"

definition Enqueue :: "instant \<Rightarrow> webhook_queue \<Rightarrow> uuid \<Rightarrow> webhook_queue" where
  "Enqueue now q i = q\<lparr>wq_deliveries := ZAdd (wq_deliveries q) \<lparr>qm_delivery = i, qm_queued_at = now\<rparr> (unix_time now)\<rparr>"

definition EnqueueRetry :: "instant \<Rightarrow> webhook_queue \<Rightarrow> uuid \<Rightarrow> instant \<Rightarrow> webhook_queue" where
  "EnqueueRetry now q i retryAt =
     q\<lparr>wq_deliveries := ZAdd (wq_deliveries q) \<lparr>qm_delivery = i, qm_queued_at = now\<rparr> (unix_time retryAt)\<rparr>"

definition RemoveFromProcessing :: "webhook_queue \<Rightarrow> uuid \<Rightarrow> webhook_queue" where
  "RemoveFromProcessing q i = q\<lparr>wq_processing := removeAll i (wq_processing q)\<rparr>"

definition GetNextBatch :: "instant \<Rightarrow> webhook_queue \<Rightarrow> nat \<Rightarrow> queue_msg list" where
  "GetNextBatch now q limit = take limit (zrange_due (wq_deliveries q) (unix_time now))"

definition QueueSize :: "webhook_queue \<Rightarrow> nat" where
  "QueueSize q = length (wq_deliveries q)"

definition ProcessingSize :: "webhook_queue \<Rightarrow> nat" where
  "ProcessingSize q = length (wq_processing q)"

text \<open>
  The faults are those of the range, the removal and the entry into the processing set; the last
  one is lost, since its message has left the queue.
\<close>

definition Dequeue :: "bool \<times> bool \<times> bool \<Rightarrow> instant \<Rightarrow> webhook_queue \<Rightarrow> queue_msg option result \<times> webhook_queue" where
  "Dequeue faults now q =
     (case faults of (f_range, f_rem, f_sadd) \<Rightarrow>
        if f_range then (Inl (Opaque ''failed to range webhook queue''), q)
        else case zrange_due (wq_deliveries q) (unix_time now) of
          [] \<Rightarrow> (Inr None, q)
        | m # ms \<Rightarrow>
            if f_rem then (Inl (Opaque ''failed to remove webhook from queue''), q)
            else let q1 = q\<lparr>wq_deliveries := ZRem (wq_deliveries q) m\<rparr> in
              if f_sadd then (Inl (Opaque ''failed to add to processing set''), q1)
              else (Inr (Some m), q1\<lparr>wq_processing := List.insert (qm_delivery m) (wq_processing q1)\<rparr>))"

section \<open>State and environment\<close>

record webhook_config =
  wc_retry_max :: int
  wc_rate_limit :: int
  wc_delivery_timeout :: duration
  wc_retention_days :: int
  wc_max_payload_size :: int

definition DefaultWebhookConfig :: webhook_config where
  "DefaultWebhookConfig = \<lparr>wc_retry_max = 3, wc_rate_limit = 100, wc_delivery_timeout = 10 * second,
     wc_retention_days = 90, wc_max_payload_size = 1048576\<rparr>"

text \<open>A request that the worker sends.\<close>

record sent_request =
  sr_delivery :: uuid
  sr_url :: string
  sr_event :: string
  sr_signature :: string
  sr_body :: string

record webhook_state =
  ws_hooks :: "webhook list"
  ws_deliveries :: "webhook_delivery list"
  ws_queue :: webhook_queue
  ws_sent :: "sent_request list"
  ws_delivered_count :: nat
  ws_failed_count :: nat
  ws_limited_count :: nat

datatype hook_query =
    QHookCreate | QHookByID uuid | QHookReread uuid | QHookList | QHookDispatch | QHookSave uuid | QHookDelete uuid
  | QDeliveryCreate uuid | QDeliveryByID uuid | QDeliveryReread uuid | QDeliveryList uuid
  | QDeliveryStatus uuid delivery_status | QStuck | QCleanup | QEnqueue uuid | QUnprocess uuid | QRange | QRem | QSAdd

record hook_env = "hook_query req_env" +
  we_config :: webhook_config
  we_ssrf :: ssrf_config
  we_lookup :: dns
  we_parse_url :: "string \<Rightarrow> (string \<times> string) option"
  we_random :: "string option"
  we_limiter :: "(uuid \<Rightarrow> bool \<times> duration) option"
  we_has_queue :: bool
  we_jsonb :: "string \<Rightarrow> string option"
  we_delivery_id :: "uuid \<Rightarrow> uuid"
  we_show_duration :: "duration \<Rightarrow> string"

text \<open>The requests sent, and the counters of the worker, are the effects of the worker.\<close>

section \<open>Repositories (repository/webhook.go)\<close>

text \<open>The unique index on address and organization; rows without organization never collide.\<close>

definition hook_collides :: "webhook_state \<Rightarrow> webhook \<Rightarrow> bool" where
  "hook_collides s w \<longleftrightarrow> wh_org w \<noteq> None \<and>
     tbl_count (\<lambda>r. wh_id r \<noteq> wh_id w \<and> wh_url r = wh_url w \<and> wh_org r = wh_org w \<and> hook_visible r) (ws_hooks s) \<noteq> 0"

text \<open>A rate limit of zero gets the default of the column.\<close>

definition hook_default :: "webhook \<Rightarrow> webhook" where
  "hook_default w = w\<lparr>wh_rate_limit := (if wh_rate_limit w = 0 then 100 else wh_rate_limit w)\<rparr>"

definition hook_create :: "hook_env \<Rightarrow> webhook_state \<Rightarrow> webhook \<Rightarrow> webhook result \<times> webhook_state" where
  "hook_create E s w =
     (if re_fault E QHookCreate then (Inl (WrapInternal db_error), s)
      else let w' = hook_default w in
        if hook_collides s w' then (Inl (WrapInternal unique_violation), s)
        else (Inr w', s\<lparr>ws_hooks := ws_hooks s @ [w']\<rparr>))"

definition hook_find_by_id :: "hook_env \<Rightarrow> webhook_state \<Rightarrow> hook_query \<Rightarrow> uuid \<Rightarrow> webhook result" where
  "hook_find_by_id E s query i =
     (if re_fault E query then Inl (WrapInternal db_error)
      else case tbl_first (\<lambda>r. wh_id r = i \<and> hook_visible r) (ws_hooks s) of
             None \<Rightarrow> Inl (Sentinel ErrNotFound)
           | Some w \<Rightarrow> Inr w)"

definition hook_find_by_org ::
    "hook_env \<Rightarrow> webhook_state \<Rightarrow> uuid option \<Rightarrow> int \<Rightarrow> int \<Rightarrow> (webhook list \<times> nat) result" where
  "hook_find_by_org E s orgID limit offset =
     (if re_fault E QHookList then Inl (WrapInternal db_error)
      else let rows = filter (\<lambda>r. wh_org r = orgID \<and> hook_visible r) (ws_hooks s)
           in Inr (gorm_page limit offset (rev (sort_key wh_created_at rows)), length rows))"

definition find_for_event_dispatch :: "hook_env \<Rightarrow> webhook_state \<Rightarrow> uuid option \<Rightarrow> webhook list result" where
  "find_for_event_dispatch E s orgID =
     (if re_fault E QHookDispatch then Inl (WrapInternal db_error)
      else Inr (filter (\<lambda>r. (wh_org r = None \<or> orgID \<noteq> None \<and> wh_org r = orgID) \<and> hook_visible r) (ws_hooks s)))"

definition hook_save :: "hook_env \<Rightarrow> webhook_state \<Rightarrow> webhook \<Rightarrow> webhook result \<times> webhook_state" where
  "hook_save E s w =
     (if re_fault E (QHookSave (wh_id w)) then (Inl (WrapInternal db_error), s)
      else if tbl_count (\<lambda>r. wh_id r = wh_id w) (ws_hooks s) = 0 then (Inl (Sentinel ErrNotFound), s)
      else if hook_collides s w then (Inl (WrapInternal unique_violation), s)
      else let w' = w\<lparr>wh_updated_at := re_now E\<rparr>
           in (Inr w', s\<lparr>ws_hooks := tbl_update (\<lambda>r. wh_id r = wh_id w) (\<lambda>r. w') (ws_hooks s)\<rparr>))"

definition hook_soft_delete :: "hook_env \<Rightarrow> webhook_state \<Rightarrow> uuid \<Rightarrow> unit result \<times> webhook_state" where
  "hook_soft_delete E s i =
     (if re_fault E (QHookDelete i) then (Inl (WrapInternal db_error), s)
      else let P = (\<lambda>r. wh_id r = i \<and> hook_visible r) in
        if tbl_count P (ws_hooks s) = 0 then (Inl (Sentinel ErrNotFound), s)
        else (Inr (), s\<lparr>ws_hooks := tbl_update P (\<lambda>r. r\<lparr>wh_deleted_at := Some (re_now E)\<rparr>) (ws_hooks s)\<rparr>))"

definition find_active_by_event :: "hook_env \<Rightarrow> webhook_state \<Rightarrow> string \<Rightarrow> webhook list result" where
  "find_active_by_event E s event =
     (if re_fault E QHookList then Inl (WrapInternal db_error)
      else Inr (filter (\<lambda>r. wh_active r = Some True \<and> hook_visible r \<and>
             (case wh_events r of JArr es \<Rightarrow> JStr event \<in> set es | _ \<Rightarrow> False)) (ws_hooks s)))"

text \<open>The payload is a \<open>jsonb\<close> column, which refuses a text that is not JSON.\<close>

definition delivery_create :: "hook_env \<Rightarrow> webhook_state \<Rightarrow> webhook_delivery \<Rightarrow> unit result \<times> webhook_state" where
  "delivery_create E s d =
     (if re_fault E (QDeliveryCreate (dl_webhook d)) then (Inl (WrapInternal db_error), s)
      else case (case dl_payload d of None \<Rightarrow> Some None | Some p \<Rightarrow> map_option Some (we_jsonb E p)) of
        None \<Rightarrow> (Inl (WrapInternal (Opaque ''ERROR: invalid input syntax for type json (SQLSTATE 22P02)'')), s)
      | Some payload \<Rightarrow> (Inr (), s\<lparr>ws_deliveries := ws_deliveries s @ [d\<lparr>dl_payload := payload\<rparr>]\<rparr>))"

definition delivery_find_by_id :: "hook_env \<Rightarrow> webhook_state \<Rightarrow> hook_query \<Rightarrow> uuid \<Rightarrow> webhook_delivery result" where
  "delivery_find_by_id E s query i =
     (if re_fault E query then Inl (WrapInternal db_error)
      else case tbl_first (\<lambda>r. dl_id r = i) (ws_deliveries s) of
             None \<Rightarrow> Inl (Sentinel ErrNotFound)
           | Some d \<Rightarrow> Inr d)"

definition delivery_find_by_webhook ::
    "hook_env \<Rightarrow> webhook_state \<Rightarrow> uuid \<Rightarrow> int \<Rightarrow> int \<Rightarrow> delivery_status option \<Rightarrow> string
     \<Rightarrow> (webhook_delivery list \<times> nat) result" where
  "delivery_find_by_webhook E s webhookID limit offset status event =
     (if re_fault E (QDeliveryList webhookID) then Inl (WrapInternal db_error)
      else let rows = filter (\<lambda>r. dl_webhook r = webhookID \<and> (status = None \<or> status = Some (dl_status r))
                        \<and> (event = [] \<or> dl_event r = event)) (ws_deliveries s)
           in Inr (gorm_page limit offset (rev (sort_key dl_created_at rows)), length rows))"

text \<open>\<open>UpdateStatus\<close>: the status and the columns that \<open>f\<close> sets.\<close>

definition delivery_update_status ::
    "hook_env \<Rightarrow> webhook_state \<Rightarrow> uuid \<Rightarrow> delivery_status \<Rightarrow> (webhook_delivery \<Rightarrow> webhook_delivery)
     \<Rightarrow> unit result \<times> webhook_state" where
  "delivery_update_status E s i st f =
     (if re_fault E (QDeliveryStatus i st) then (Inl (WrapInternal db_error), s)
      else if tbl_count (\<lambda>r. dl_id r = i) (ws_deliveries s) = 0 then (Inl (Sentinel ErrNotFound), s)
      else (Inr (), s\<lparr>ws_deliveries :=
              tbl_update (\<lambda>r. dl_id r = i) (\<lambda>r. (f r)\<lparr>dl_status := st\<rparr>) (ws_deliveries s)\<rparr>))"

definition find_stuck_processing :: "hook_env \<Rightarrow> webhook_state \<Rightarrow> duration \<Rightarrow> webhook_delivery list result" where
  "find_stuck_processing E s timeout =
     (if re_fault E QStuck then Inl (WrapInternal db_error)
      else Inr (filter (\<lambda>r. dl_status r = Processing \<and>
             (case dl_started_at r of None \<Rightarrow> False | Some t \<Rightarrow> t < re_now E - timeout)) (ws_deliveries s)))"

text \<open>A day is 24 hours, as it is in UTC.\<close>

definition delete_older_than :: "hook_env \<Rightarrow> webhook_state \<Rightarrow> int \<Rightarrow> unit result \<times> webhook_state" where
  "delete_older_than E s retentionDays =
     (if re_fault E QCleanup then (Inl (WrapInternal db_error), s)
      else (Inr (), s\<lparr>ws_deliveries :=
              filter (\<lambda>r. \<not> dl_created_at r < re_now E - retentionDays * 86400 * second) (ws_deliveries s)\<rparr>))"

end
