(* ===== verification/Webhook_Service.thy ===== *)
theory Webhook_Service
  imports Webhook
begin

text \<open>
  The webhook service (\<open>service/webhook.go\<close>) and the HTTP handlers in front of it
  (\<open>http/handler/webhook.go\<close>). A handler answers with a status; binding and the validation by
  tags have been done, so that it takes the request as a record.
\<close>

section \<open>Administration\<close>

record create_webhook =
  cw_name :: string
  cw_url :: string
  cw_events :: "string list"
  cw_active :: "bool option"
  cw_rate_limit :: "int option"

record update_webhook =
  uw_name :: "string option"
  uw_url :: "string option"
  uw_events :: "string list"
  uw_active :: "bool option"
  uw_rate_limit :: "int option"

definition webhook_invalid :: "string \<Rightarrow> go_error" where
  "webhook_invalid msg = NewAppError ''VALIDATION_ERROR'' msg 422"

fun str_join :: "string \<Rightarrow> string list \<Rightarrow> string" where
  "str_join sep [] = []"
| "str_join sep [s] = s"
| "str_join sep (s # ss) = s @ sep @ str_join sep ss"

definition validateEvents :: "string list \<Rightarrow> unit result" where
  "validateEvents events =
     (if events = [] then Inl (webhook_invalid ''at least one event is required'')
      else let invalid = filter (\<lambda>e. \<not> ValidWebhookEvents e) events in
        if invalid \<noteq> [] then Inl (webhook_invalid (''invalid webhook events: '' @ str_join '', '' invalid))
        else Inr ())"

definition generateSecret :: "string option \<Rightarrow> string result" where
  "generateSecret random =
     (case random of None \<Rightarrow> Inl (Opaque ''rand'') | Some b \<Rightarrow> Inr (''whsec_'' @ hex_encode b))"

text \<open>The two checks of a name, with the message of its caller for the empty one.\<close>

definition validate_name :: "string \<Rightarrow> string \<Rightarrow> string result" where
  "validate_name empty_msg raw =
     (let name = trim_space raw in
      if name = [] then Inl (webhook_invalid empty_msg)
      else if length name > 255 then Inl (webhook_invalid ''webhook name must be at most 255 characters'')
      else Inr name)"

definition validate_url :: "hook_env \<Rightarrow> string \<Rightarrow> unit result" where
  "validate_url E url =
     (case ValidateURL (we_ssrf E) (we_lookup E) (we_parse_url E url) of
        Inl err \<Rightarrow> Inl (webhook_invalid (error_text err))
      | Inr _ \<Rightarrow> Inr ())"

definition events_json :: "string list \<Rightarrow> json" where
  "events_json events = JArr (map JStr events)"

definition Webhook_Create ::
    "hook_env \<Rightarrow> webhook_state \<Rightarrow> uuid option \<Rightarrow> create_webhook \<Rightarrow> webhook result \<times> webhook_state" where
  "Webhook_Create E s orgID req =
     (case validate_name ''webhook name is required'' (cw_name req) of
        Inl err \<Rightarrow> (Inl err, s)
      | Inr name \<Rightarrow>
     (case validate_url E (cw_url req) of
        Inl err \<Rightarrow> (Inl err, s)
      | Inr _ \<Rightarrow>
     (case validateEvents (cw_events req) of
        Inl err \<Rightarrow> (Inl err, s)
      | Inr _ \<Rightarrow>
     (case generateSecret (we_random E) of
        Inl err \<Rightarrow> (Inl (WrapInternal err), s)
      | Inr secret \<Rightarrow>
          (let rateLimit = (case cw_rate_limit req of
                  Some n \<Rightarrow> if n > 0 then n else wc_rate_limit (we_config E)
                | None \<Rightarrow> wc_rate_limit (we_config E));
               active = (case cw_active req of Some b \<Rightarrow> Some b | None \<Rightarrow> Some True);
               w = \<lparr>wh_id = re_new_id E, wh_org = orgID, wh_name = name, wh_url = cw_url req, wh_secret = secret,
                    wh_events = events_json (cw_events req), wh_active = active, wh_rate_limit = rateLimit,
                    wh_created_at = re_now E, wh_updated_at = re_now E, wh_deleted_at = None\<rparr>
           in case hook_create E s w of
                (Inl err, s') \<Rightarrow> (Inl (WrapInternal err), s')
              | (Inr w', s') \<Rightarrow> (Inr w', s'))))))"

definition Webhook_GetByID :: "hook_env \<Rightarrow> webhook_state \<Rightarrow> uuid \<Rightarrow> webhook result" where
  "Webhook_GetByID E s i = hook_find_by_id E s (QHookByID i) i"

definition ListByOrg ::
    "hook_env \<Rightarrow> webhook_state \<Rightarrow> uuid option \<Rightarrow> int \<Rightarrow> int \<Rightarrow> (webhook list \<times> nat) result" where
  "ListByOrg E s orgID limit offset =
     (let limit = (if limit \<le> 0 then 20 else limit); offset = (if offset < 0 then 0 else offset)
      in case hook_find_by_org E s orgID limit offset of Inl err \<Rightarrow> Inl (WrapInternal err) | Inr r \<Rightarrow> Inr r)"

text \<open>The fields of an update in the order of the code; the result says whether the address changed.\<close>

definition update_fields :: "hook_env \<Rightarrow> update_webhook \<Rightarrow> webhook \<Rightarrow> (webhook \<times> bool) result" where
  "update_fields E req w =
     (case (case uw_name req of None \<Rightarrow> Inr (wh_name w)
            | Some raw \<Rightarrow> validate_name ''webhook name cannot be empty'' raw) of
        Inl err \<Rightarrow> Inl err
      | Inr name \<Rightarrow>
     (case (case uw_url req of None \<Rightarrow> Inr () | Some url \<Rightarrow> validate_url E url) of
        Inl err \<Rightarrow> Inl err
      | Inr _ \<Rightarrow>
     (case (if uw_events req = [] then Inr () else validateEvents (uw_events req)) of
        Inl err \<Rightarrow> Inl err
      | Inr _ \<Rightarrow>
          (let url = (case uw_url req of None \<Rightarrow> wh_url w | Some url \<Rightarrow> url)
           in Inr (w\<lparr>wh_name := name, wh_url := url,
                  wh_events := (if uw_events req = [] then wh_events w else events_json (uw_events req)),
                  wh_active := (case uw_active req of None \<Rightarrow> wh_active w | Some b \<Rightarrow> Some b),
                  wh_rate_limit := (case uw_rate_limit req of None \<Rightarrow> wh_rate_limit w | Some n \<Rightarrow> n)\<rparr>,
                url \<noteq> wh_url w)))))"

definition Webhook_Update ::
    "hook_env \<Rightarrow> webhook_state \<Rightarrow> uuid \<Rightarrow> update_webhook \<Rightarrow> webhook result \<times> webhook_state" where
  "Webhook_Update E s i req =
     (case hook_find_by_id E s (QHookReread i) i of
        Inl err \<Rightarrow> (Inl err, s)
      | Inr w \<Rightarrow>
     (case update_fields E req w of
        Inl err \<Rightarrow> (Inl err, s)
      | Inr (w1, urlChanged) \<Rightarrow>
     (case (if urlChanged then generateSecret (we_random E) else Inr (wh_secret w1)) of
        Inl err \<Rightarrow> (Inl (WrapInternal err), s)
      | Inr secret \<Rightarrow>
          (case hook_save E s (w1\<lparr>wh_secret := secret\<rparr>) of
             (Inl err, s') \<Rightarrow> (Inl (WrapInternal err), s')
           | (Inr w2, s') \<Rightarrow> (Inr w2, s')))))"

definition Webhook_SoftDelete :: "hook_env \<Rightarrow> webhook_state \<Rightarrow> uuid \<Rightarrow> unit result \<times> webhook_state" where
  "Webhook_SoftDelete E s i = hook_soft_delete E s i"

definition ListDeliveries ::
    "hook_env \<Rightarrow> webhook_state \<Rightarrow> uuid \<Rightarrow> int \<Rightarrow> int \<Rightarrow> delivery_status option \<Rightarrow> string
     \<Rightarrow> (webhook_delivery list \<times> nat) result" where
  "ListDeliveries E s webhookID limit offset status event =
     (let limit = (if limit \<le> 0 then 20 else limit); offset = (if offset < 0 then 0 else offset)
      in case delivery_find_by_webhook E s webhookID limit offset status event of
           Inl err \<Rightarrow> Inl (WrapInternal err)
         | Inr r \<Rightarrow> Inr r)"

definition GetDelivery :: "hook_env \<Rightarrow> webhook_state \<Rightarrow> uuid \<Rightarrow> webhook_delivery result" where
  "GetDelivery E s i = delivery_find_by_id E s (QDeliveryByID i) i"

text \<open>The row is reset; the queue is not touched.\<close>

definition ReplayDelivery ::
    "hook_env \<Rightarrow> webhook_state \<Rightarrow> uuid \<Rightarrow> webhook_delivery result \<times> webhook_state" where
  "ReplayDelivery E s i =
     (case delivery_find_by_id E s (QDeliveryByID i) i of
        Inl err \<Rightarrow> (Inl err, s)
      | Inr d \<Rightarrow>
          if \<not> CanReplay d
          then (Inl (NewAppError ''CONFLICT'' ''delivery cannot be replayed while in queued or processing status'' 409), s)
          else case delivery_update_status E s i Queued delivery_Replay of
            (Inl err, s') \<Rightarrow> (Inl (WrapInternal err), s')
          | (Inr _, s') \<Rightarrow>
              (case delivery_find_by_id E s' (QDeliveryReread i) i of
                 Inl err \<Rightarrow> (Inl err, s')
               | Inr updated \<Rightarrow> (Inr updated, s')))"

section \<open>Dispatch\<close>

definition queued_delivery :: "hook_env \<Rightarrow> webhook \<Rightarrow> string \<Rightarrow> string option \<Rightarrow> webhook_delivery" where
  "queued_delivery E w event payload =
     \<lparr>dl_id = we_delivery_id E (wh_id w), dl_webhook = wh_id w, dl_event = event, dl_payload = payload,
      dl_status = Queued, dl_response_code = None, dl_response_body = [], dl_duration_ms = None, dl_attempt = 1,
      dl_max_attempts = (if wc_retry_max (we_config E) > 0 then wc_retry_max (we_config E) else 3),
      dl_last_error = [], dl_next_retry_at = None, dl_started_at = None, dl_delivered_at = None,
      dl_created_at = re_now E\<rparr>"

definition limited_delivery :: "hook_env \<Rightarrow> webhook \<Rightarrow> string \<Rightarrow> string option \<Rightarrow> duration \<Rightarrow> webhook_delivery" where
  "limited_delivery E w event payload retryAfter =
     (queued_delivery E w event payload)
       \<lparr>dl_status := RateLimited, dl_max_attempts := 3,
        dl_last_error := ''rate limited, retry after '' @ we_show_duration E retryAfter\<rparr>"

definition truncate_payload :: "hook_env \<Rightarrow> string \<Rightarrow> string" where
  "truncate_payload E text =
     (let maxPayloadSize = (if wc_max_payload_size (we_config E) > 0 then nat (wc_max_payload_size (we_config E)) else 1048576)
      in take maxPayloadSize text)"

text \<open>The checks of the loop: active, subscribed and in scope.\<close>

definition hook_matches :: "string \<Rightarrow> uuid option \<Rightarrow> webhook \<Rightarrow> bool" where
  "hook_matches event orgID w \<longleftrightarrow>
     hook_IsActive w \<and> IsSubscribedTo w event \<and>
     (case wh_org w of None \<Rightarrow> True | Some org \<Rightarrow> orgID = Some org)"

text \<open>
  One round of the loop: the error that it leaves in \<open>lastErr\<close>, if any. \<open>payload\<close> is what
  \<open>json.Marshal\<close> made of the payload, \<open>None\<close> an error.
\<close>

definition dispatch_to ::
    "hook_env \<Rightarrow> string \<Rightarrow> string option \<Rightarrow> uuid option \<Rightarrow> webhook \<Rightarrow> webhook_state \<Rightarrow> go_error option \<times> webhook_state" where
  "dispatch_to E event payload orgID w s =
     (if \<not> hook_matches event orgID w then (None, s)
      else case (case we_limiter E of None \<Rightarrow> (True, 0) | Some allow \<Rightarrow> allow (wh_id w)) of
        (False, retryAfter) \<Rightarrow>
          (None, snd (delivery_create E s (limited_delivery E w event payload retryAfter)))
      | (True, _) \<Rightarrow>
          (case payload of
             None \<Rightarrow> (Some (Opaque ''json''), s)
           | Some p \<Rightarrow>
               (let d = queued_delivery E w event (Some (truncate_payload E p))
                in case delivery_create E s d of
                     (Inl err, s') \<Rightarrow> (Some err, s')
                   | (Inr _, s') \<Rightarrow>
                       if \<not> we_has_queue E then (None, s')
                       else if re_fault E (QEnqueue (dl_id d)) then (Some (Opaque ''failed to enqueue webhook delivery''), s')
                       else (None, s'\<lparr>ws_queue := Enqueue (re_now E) (ws_queue s') (dl_id d)\<rparr>))))"

fun dispatch_loop ::
    "hook_env \<Rightarrow> string \<Rightarrow> string option \<Rightarrow> uuid option \<Rightarrow> webhook list \<Rightarrow> go_error option \<Rightarrow> webhook_state
     \<Rightarrow> go_error option \<times> webhook_state" where
  "dispatch_loop E event payload orgID [] lastErr s = (lastErr, s)"
| "dispatch_loop E event payload orgID (w # ws) lastErr s =
     (case dispatch_to E event payload orgID w s of
        (err, s') \<Rightarrow> dispatch_loop E event payload orgID ws (case err of None \<Rightarrow> lastErr | Some e \<Rightarrow> Some e) s')"

definition DispatchEvent ::
    "hook_env \<Rightarrow> webhook_state \<Rightarrow> string \<Rightarrow> string option \<Rightarrow> uuid option \<Rightarrow> unit result \<times> webhook_state" where
  "DispatchEvent E s event payload orgID =
     (case find_for_event_dispatch E s orgID of
        Inl err \<Rightarrow> (Inl (WrapInternal err), s)
      | Inr hooks \<Rightarrow>
          (case dispatch_loop E event payload orgID hooks None s of
             (None, s') \<Rightarrow> (Inr (), s')
           | (Some err, s') \<Rightarrow> (Inl err, s')))"

section \<open>HTTP handlers (http/handler/webhook.go)\<close>

datatype 'a http_reply = Reply nat 'a | Problem nat string string  \<comment> \<open>status, code, message\<close>

fun problem_of :: "string \<Rightarrow> go_error \<Rightarrow> 'a http_reply" where
  "problem_of msg (Sentinel e) = (case sentinel_fields e of (c, m, n) \<Rightarrow> Problem n c m)"
| "problem_of msg (AppError c m n e) = Problem n c m"
| "problem_of msg (Opaque t) = Problem 500 ''INTERNAL_ERROR'' msg"

definition hook_isOwner :: "webhook \<Rightarrow> uuid option \<Rightarrow> bool \<Rightarrow> bool" where
  "hook_isOwner w orgID hasOrgID =
     (if IsGlobal w then True
      else if \<not> hasOrgID \<or> orgID = None then False
      else wh_org w \<noteq> None \<and> wh_org w = orgID)"

text \<open>Who sends a request, and for which organization.\<close>

record caller =
  ca_user :: uuid
  ca_has_org :: bool
  ca_org :: uuid

definition ca_org_ptr :: "caller \<Rightarrow> uuid option" where
  "ca_org_ptr c = (if ca_has_org c \<and> ca_org c \<noteq> uuid_nil then Some (ca_org c) else None)"

definition hook_allowed :: "hook_env \<Rightarrow> caller \<Rightarrow> string \<Rightarrow> bool" where
  "hook_allowed E c act =
     (case re_enforce E (ca_user c) (resolveOrgDomain (ca_has_org c) (ca_org c)) ''webhooks'' act of
        Inl _ \<Rightarrow> False
      | Inr b \<Rightarrow> b)"

definition no_permission :: "'a http_reply" where
  "no_permission = Problem 403 ''FORBIDDEN'' ''Insufficient permissions''"

text \<open>
  The checks that the handlers of one webhook begin with: the permission, the webhook and its
  organization. \<open>msg\<close> is the message of an error without code.
\<close>

definition owned_hook ::
    "hook_env \<Rightarrow> webhook_state \<Rightarrow> caller \<Rightarrow> string \<Rightarrow> uuid \<Rightarrow> (webhook \<Rightarrow> 'a http_reply \<times> webhook_state)
     \<Rightarrow> 'a http_reply \<times> webhook_state" where
  "owned_hook E s c act i continue =
     (if \<not> hook_allowed E c act then (no_permission, s)
      else case Webhook_GetByID E s i of
        Inl err \<Rightarrow> (problem_of ''Failed to retrieve webhook'' err, s)
      | Inr w \<Rightarrow>
          if \<not> hook_isOwner w (ca_org_ptr c) (ca_has_org c)
          then (Problem 403 ''FORBIDDEN'' ''Not authorized to access this webhook'', s)
          else continue w)"

definition WH_Create ::
    "hook_env \<Rightarrow> webhook_state \<Rightarrow> caller \<Rightarrow> create_webhook \<Rightarrow> (webhook_response \<times> string) http_reply \<times> webhook_state" where
  "WH_Create E s c req =
     (if \<not> hook_allowed E c ''manage'' then (no_permission, s)
      else case Webhook_Create E s (ca_org_ptr c) req of
        (Inl err, s') \<Rightarrow> (problem_of ''Failed to create webhook'' err, s')
      | (Inr w, s') \<Rightarrow> (Reply 201 (hook_ToCreateResponse w), s'))"

definition WH_GetByID ::
    "hook_env \<Rightarrow> webhook_state \<Rightarrow> caller \<Rightarrow> uuid \<Rightarrow> webhook_response http_reply \<times> webhook_state" where
  "WH_GetByID E s c i = owned_hook E s c ''view'' i (\<lambda>w. (Reply 200 (hook_ToResponse w), s))"

definition WH_List ::
    "hook_env \<Rightarrow> webhook_state \<Rightarrow> caller \<Rightarrow> int \<Rightarrow> int \<Rightarrow> (webhook_response list \<times> nat) http_reply \<times> webhook_state" where
  "WH_List E s c limit offset =
     (if \<not> hook_allowed E c ''view'' then (no_permission, s)
      else case ListByOrg E s (ca_org_ptr c) limit offset of
        Inl err \<Rightarrow> (problem_of ''Failed to retrieve webhooks'' err, s)
      | Inr (ws, n) \<Rightarrow> (Reply 200 (map hook_ToResponse ws, n), s))"

definition WH_Update ::
    "hook_env \<Rightarrow> webhook_state \<Rightarrow> caller \<Rightarrow> uuid \<Rightarrow> update_webhook \<Rightarrow> webhook_response http_reply \<times> webhook_state" where
  "WH_Update E s c i req = owned_hook E s c ''manage'' i (\<lambda>_.
     (case Webhook_Update E s i req of
        (Inl err, s') \<Rightarrow> (problem_of ''Failed to update webhook'' err, s')
      | (Inr w, s') \<Rightarrow> (Reply 200 (hook_ToResponse w), s')))"

definition WH_SoftDelete :: "hook_env \<Rightarrow> webhook_state \<Rightarrow> caller \<Rightarrow> uuid \<Rightarrow> unit http_reply \<times> webhook_state" where
  "WH_SoftDelete E s c i = owned_hook E s c ''manage'' i (\<lambda>_.
     (case Webhook_SoftDelete E s i of
        (Inl err, s') \<Rightarrow> (problem_of ''Failed to delete webhook'' err, s')
      | (Inr _, s') \<Rightarrow> (Reply 204 (), s')))"

definition WH_ListDeliveries ::
    "hook_env \<Rightarrow> webhook_state \<Rightarrow> caller \<Rightarrow> uuid \<Rightarrow> int \<Rightarrow> int \<Rightarrow> delivery_status option \<Rightarrow> string
     \<Rightarrow> (webhook_delivery list \<times> nat) http_reply \<times> webhook_state" where
  "WH_ListDeliveries E s c i limit offset status event = owned_hook E s c ''view'' i (\<lambda>_.
     (case ListDeliveries E s i (if limit \<le> 0 then 20 else min limit 100) (max 0 offset) status event of
        Inl err \<Rightarrow> (problem_of ''Failed to list deliveries'' err, s)
      | Inr r \<Rightarrow> (Reply 200 r, s)))"

definition foreign_delivery :: "'a http_reply" where
  "foreign_delivery = Problem 403 ''FORBIDDEN'' ''Delivery does not belong to this webhook''"

definition WH_GetDelivery ::
    "hook_env \<Rightarrow> webhook_state \<Rightarrow> caller \<Rightarrow> uuid \<Rightarrow> uuid \<Rightarrow> webhook_delivery http_reply \<times> webhook_state" where
  "WH_GetDelivery E s c i deliveryID = owned_hook E s c ''view'' i (\<lambda>_.
     (case GetDelivery E s deliveryID of
        Inl err \<Rightarrow> (problem_of ''Failed to retrieve delivery'' err, s)
      | Inr d \<Rightarrow> if dl_webhook d \<noteq> i then (foreign_delivery, s) else (Reply 200 d, s)))"

text \<open>Here the delivery is compared with the webhook after it has been reset.\<close>

definition WH_ReplayDelivery ::
    "hook_env \<Rightarrow> webhook_state \<Rightarrow> caller \<Rightarrow> uuid \<Rightarrow> uuid \<Rightarrow> webhook_delivery http_reply \<times> webhook_state" where
  "WH_ReplayDelivery E s c i deliveryID = owned_hook E s c ''manage'' i (\<lambda>_.
     (case ReplayDelivery E s deliveryID of
        (Inl err, s') \<Rightarrow> (problem_of ''Failed to replay delivery'' err, s')
      | (Inr d, s') \<Rightarrow> if dl_webhook d \<noteq> i then (foreign_delivery, s') else (Reply 200 d, s')))"

end
