(* ===== verification/Webhook_Worker.thy ===== *)
theory Webhook_Worker
  imports Webhook_Service
begin

text \<open>
  The worker that delivers webhooks (\<open>service/webhook_worker.go\<close>). A pass handles one message; it
  is written as the part before the request and the part after it. The HTTP client (see
  \<open>Ssrf\<close>) is a parameter, and so is HMAC; the instants of the sending and of its end differ from
  that of the beginning. A crash in a pass is a pass whose later calls all fail.

  A negative \<open>MaxPayloadSize\<close>, for which the slice expression of the code panics, counts as zero.
\<close>

record worker_env = hook_env +
  wk_limiter :: "uuid \<Rightarrow> bool"
  wk_hmac :: mac
  wk_http :: "sent_request \<Rightarrow> string + int \<times> string"  \<comment> \<open>an error, or status and body\<close>
  wk_sent_at :: instant
  wk_done_at :: instant
  wk_duration_ms :: int

definition retryBackoff :: "int \<Rightarrow> duration" where
  "retryBackoff attempt =
     (if attempt = 1 then 60 * second else if attempt = 2 then 300 * second else 1800 * second)"

text \<open>The queue and the status update take the environment of the service.\<close>

abbreviation hook_env_of :: "worker_env \<Rightarrow> hook_env" where
  "hook_env_of E \<equiv> hook_env.truncate E"

lemma hook_env_of_simps [simp]:
  "re_fault (hook_env_of E) = re_fault E" "re_now (hook_env_of E) = re_now E"
  "we_config (hook_env_of E) = we_config E"
  by (simp_all add: hook_env.defs)

definition enqueue_retry :: "worker_env \<Rightarrow> webhook_state \<Rightarrow> instant \<Rightarrow> uuid \<Rightarrow> instant \<Rightarrow> webhook_state" where
  "enqueue_retry E s now i retryAt =
     (if re_fault E (QEnqueue i) then s else s\<lparr>ws_queue := EnqueueRetry now (ws_queue s) i retryAt\<rparr>)"

definition markFailedAndMaybeRetry ::
    "worker_env \<Rightarrow> webhook_state \<Rightarrow> webhook_delivery \<Rightarrow> string \<Rightarrow> (webhook_delivery \<Rightarrow> webhook_delivery) \<Rightarrow> webhook_state" where
  "markFailedAndMaybeRetry E s d lastError extra =
     (let s1 = snd (delivery_update_status (hook_env_of E) s (dl_id d) Failed (\<lambda>r. extra (r\<lparr>dl_last_error := lastError\<rparr>)));
          s2 = s1\<lparr>ws_failed_count := ws_failed_count s1 + 1\<rparr>
      in if \<not> CanRetry d then s2
         else let nextRetryAt = wk_done_at E + retryBackoff (dl_attempt d) in
           case delivery_update_status (hook_env_of E) s2 (dl_id d) Queued
                  (\<lambda>r. r\<lparr>dl_attempt := dl_attempt d + 1, dl_next_retry_at := Some nextRetryAt, dl_last_error := lastError\<rparr>) of
             (Inl err, s3) \<Rightarrow> s3
           | (Inr _, s3) \<Rightarrow> enqueue_retry E s3 (wk_done_at E) (dl_id d) nextRetryAt)"

text \<open>What a pass does when the limiter refuses.\<close>

definition rate_limited_pass :: "worker_env \<Rightarrow> webhook_state \<Rightarrow> webhook_delivery \<Rightarrow> webhook_state" where
  "rate_limited_pass E s d =
     (let s1 = s\<lparr>ws_limited_count := ws_limited_count s + 1\<rparr>
      in if CanRetry d then
           let nextRetryAt = re_now E + retryBackoff (dl_attempt d) in
             case delivery_update_status (hook_env_of E) s1 (dl_id d) RateLimited
                    (\<lambda>r. r\<lparr>dl_attempt := dl_attempt d + 1, dl_next_retry_at := Some nextRetryAt\<rparr>) of
               (Inl err, s2) \<Rightarrow> s2
             | (Inr _, s2) \<Rightarrow> enqueue_retry E s2 (re_now E) (dl_id d) nextRetryAt
         else snd (delivery_update_status (hook_env_of E) s1 (dl_id d) RateLimited
                (\<lambda>r. r\<lparr>dl_last_error := ''rate limited and max attempts reached''\<rparr>)))"

text \<open>The request that a pass sends.\<close>

definition delivery_request :: "worker_env \<Rightarrow> webhook_delivery \<Rightarrow> webhook \<Rightarrow> sent_request" where
  "delivery_request E d w =
     (let text = (case dl_payload d of None \<Rightarrow> [] | Some p \<Rightarrow> p);
          max_size = wc_max_payload_size (we_config E);
          payload = (if int (length text) > max_size then take (nat max_size) text else text);
          timestamp = unix_time (wk_sent_at E)
      in \<lparr>sr_delivery = dl_id d, sr_url = wh_url w, sr_event = dl_event d,
          sr_signature = signWebhookPayload_service (wk_hmac E) (wh_secret w) timestamp payload, sr_body = payload\<rparr>)"

text \<open>The part before the request: the request to send, with the row it was made from, or nothing.\<close>

definition begin_delivery ::
    "worker_env \<Rightarrow> webhook_state \<Rightarrow> uuid \<Rightarrow> (webhook_delivery \<times> sent_request) option \<times> webhook_state" where
  "begin_delivery E s i =
     (case delivery_find_by_id (hook_env_of E) s (QDeliveryByID i) i of
        Inl err \<Rightarrow> (None, s)
      | Inr d \<Rightarrow>
     (case delivery_update_status (hook_env_of E) s i Processing (\<lambda>r. r\<lparr>dl_started_at := Some (re_now E)\<rparr>) of
        (Inl err, s1) \<Rightarrow> (None, s1)
      | (Inr _, s1) \<Rightarrow>
     (case hook_find_by_id (hook_env_of E) s1 (QHookByID (dl_webhook d)) (dl_webhook d) of
        Inl err \<Rightarrow> (None, markFailedAndMaybeRetry E s1 d (''webhook lookup failed: '' @ error_text err) id)
      | Inr w \<Rightarrow>
          if \<not> hook_IsActive w then (None, markFailedAndMaybeRetry E s1 d ''webhook is inactive'' id)
          else if \<not> wk_limiter E (wh_id w) then (None, rate_limited_pass E s1 d)
          else if we_parse_url E (wh_url w) = None
          then (None, markFailedAndMaybeRetry E s1 d ''failed to build request'' id)
          else (Some (d, delivery_request E d w), s1))))"

definition finish_delivery ::
    "worker_env \<Rightarrow> webhook_state \<Rightarrow> webhook_delivery \<Rightarrow> sent_request \<Rightarrow> webhook_state" where
  "finish_delivery E s d req =
     (case wk_http E req of
        Inl err \<Rightarrow> markFailedAndMaybeRetry E s d (''delivery request failed: '' @ err)
                     (\<lambda>r. r\<lparr>dl_duration_ms := Some (wk_duration_ms E)\<rparr>)
      | Inr (code, body) \<Rightarrow>
          (let answer = (\<lambda>r. r\<lparr>dl_response_code := Some code, dl_response_body := take 1024 body,
                           dl_duration_ms := Some (wk_duration_ms E)\<rparr>)
           in if 200 \<le> code \<and> code < 300
              then (let s1 = snd (delivery_update_status (hook_env_of E) s (dl_id d) Delivered
                               (\<lambda>r. (answer r)\<lparr>dl_delivered_at := Some (wk_done_at E)\<rparr>))
                    in s1\<lparr>ws_delivered_count := ws_delivered_count s1 + 1\<rparr>)
              else markFailedAndMaybeRetry E s d (''webhook returned non-2xx status: '' @ itoa code) answer))"

text \<open>The deferred removal from the processing set.\<close>

definition unprocess :: "worker_env \<Rightarrow> uuid \<Rightarrow> webhook_state \<Rightarrow> webhook_state" where
  "unprocess E i s =
     (if re_fault E (QUnprocess i) then s else s\<lparr>ws_queue := RemoveFromProcessing (ws_queue s) i\<rparr>)"

definition processDelivery :: "worker_env \<Rightarrow> webhook_state \<Rightarrow> uuid \<Rightarrow> webhook_state" where
  "processDelivery E s i =
     unprocess E i
       (case begin_delivery E s i of
          (None, s1) \<Rightarrow> s1
        | (Some (d, req), s1) \<Rightarrow> finish_delivery E (s1\<lparr>ws_sent := ws_sent s1 @ [req]\<rparr>) d req)"

text \<open>
  A round of the loop of a worker. The identifiers of messages are those of rows, so that
  parsing them does not fail.
\<close>

definition processLoop_tick :: "worker_env \<Rightarrow> webhook_state \<Rightarrow> webhook_state" where
  "processLoop_tick E s =
     (case Dequeue (re_fault E QRange, re_fault E QRem, re_fault E QSAdd) (re_now E) (ws_queue s) of
        (Inl err, q) \<Rightarrow> s\<lparr>ws_queue := q\<rparr>
      | (Inr None, q) \<Rightarrow> s\<lparr>ws_queue := q\<rparr>
      | (Inr (Some m), q) \<Rightarrow> processDelivery E (s\<lparr>ws_queue := q\<rparr>) (qm_delivery m))"

definition reap_delivery :: "worker_env \<Rightarrow> webhook_delivery \<Rightarrow> webhook_state \<Rightarrow> webhook_state" where
  "reap_delivery E d s =
     (case delivery_update_status (hook_env_of E) s (dl_id d) Failed
             (\<lambda>r. r\<lparr>dl_last_error := ''processing timeout: worker recovery''\<rparr>) of
        (Inl err, s1) \<Rightarrow> s1
      | (Inr _, s1) \<Rightarrow>
          if \<not> CanRetry d then s1
          else let nextRetryAt = wk_done_at E + retryBackoff (dl_attempt d) in
            case delivery_update_status (hook_env_of E) s1 (dl_id d) Queued
                   (\<lambda>r. r\<lparr>dl_attempt := dl_attempt d + 1, dl_next_retry_at := Some nextRetryAt\<rparr>) of
              (Inl err, s2) \<Rightarrow> s2
            | (Inr _, s2) \<Rightarrow> enqueue_retry E s2 (wk_done_at E) (dl_id d) nextRetryAt)"

definition stuckDeliveryReaper_tick :: "worker_env \<Rightarrow> webhook_state \<Rightarrow> webhook_state" where
  "stuckDeliveryReaper_tick E s =
     (case find_stuck_processing (hook_env_of E) s (2 * wc_delivery_timeout (we_config E)) of
        Inl err \<Rightarrow> s
      | Inr stuck \<Rightarrow> fold (reap_delivery E) stuck s)"

definition retentionCleanup_tick :: "worker_env \<Rightarrow> webhook_state \<Rightarrow> webhook_state" where
  "retentionCleanup_tick E s = snd (delete_older_than (hook_env_of E) s (wc_retention_days (we_config E)))"

end
