(* ===== verification/Webhook_Properties.thy ===== *)
theory Webhook_Properties
  imports Webhook_Worker
begin

text \<open>
  Properties of the webhooks. A delivery is looked at through three numbers: its row, the
  messages of it that wait in the queue, and the requests that were sent for it.
\<close>

section \<open>The view of one delivery\<close>

definition row :: "webhook_state \<Rightarrow> uuid \<Rightarrow> webhook_delivery option" where
  "row s i = tbl_first (\<lambda>r. dl_id r = i) (ws_deliveries s)"

definition waiting :: "webhook_queue \<Rightarrow> uuid \<Rightarrow> nat" where
  "waiting q i = length (filter (\<lambda>(m, score). qm_delivery m = i) (wq_deliveries q))"

definition sends :: "webhook_state \<Rightarrow> uuid \<Rightarrow> nat" where
  "sends s i = length (filter (\<lambda>r. sr_delivery r = i) (ws_sent s))"

definition delivery_ids :: "webhook_state \<Rightarrow> uuid list" where
  "delivery_ids s = map dl_id (ws_deliveries s)"

definition same_elsewhere :: "uuid \<Rightarrow> webhook_state \<Rightarrow> webhook_state \<Rightarrow> bool" where
  "same_elsewhere i s s' \<longleftrightarrow> delivery_ids s' = delivery_ids s \<and>
     (\<forall>j. j \<noteq> i \<longrightarrow> row s' j = row s j \<and> waiting (ws_queue s') j = waiting (ws_queue s) j \<and> sends s' j = sends s j)"

lemma same_elsewhere_refl [simp]: "same_elsewhere i s s"
  by (simp add: same_elsewhere_def)

lemma same_elsewhere_trans: "same_elsewhere i s s1 \<Longrightarrow> same_elsewhere i s1 s2 \<Longrightarrow> same_elsewhere i s s2"
  by (simp add: same_elsewhere_def)

section \<open>The queue\<close>

text \<open>What the worker relies on: an entry adds at most one message, of its delivery only.\<close>

locale delivery_queue =
  fixes held :: "'q \<Rightarrow> uuid \<Rightarrow> nat"
    and put :: "instant \<Rightarrow> 'q \<Rightarrow> uuid \<Rightarrow> instant \<Rightarrow> 'q"
    and get :: "'f \<Rightarrow> instant \<Rightarrow> 'q \<Rightarrow> queue_msg option result \<times> 'q"
  assumes put_same: "held (put now q i at) i \<le> held q i + 1"
    and put_other: "j \<noteq> i \<Longrightarrow> held (put now q i at) j = held q j"
    and get_some: "get f now q = (Inr (Some m), q') \<Longrightarrow> held q' (qm_delivery m) + 1 \<le> held q (qm_delivery m)"
    and get_other: "get f now q = (r, q') \<Longrightarrow> (\<And>m. r = Inr (Some m) \<Longrightarrow> qm_delivery m \<noteq> j) \<Longrightarrow> held q' j \<le> held q j"
begin

text \<open>Over a sequence of entries and removals no more messages leave than entered.\<close>

fun leave :: "'q \<Rightarrow> (uuid \<times> instant \<times> instant + 'f \<times> instant) list \<Rightarrow> uuid \<Rightarrow> nat" where
  "leave q [] i = 0"
| "leave q (Inl (j, now, at) # ops) i = leave (put now q j at) ops i"
| "leave q (Inr (f, now) # ops) i =
     (case get f now q of (r, q') \<Rightarrow> (if \<exists>m. r = Inr (Some m) \<and> qm_delivery m = i then 1 else 0) + leave q' ops i)"

fun entries :: "(uuid \<times> instant \<times> instant + 'f \<times> instant) list \<Rightarrow> uuid \<Rightarrow> nat" where
  "entries [] i = 0"
| "entries (Inl (j, now, at) # ops) i = (if j = i then 1 else 0) + entries ops i"
| "entries (Inr x # ops) i = entries ops i"

lemma leave_bounded: "leave q ops i \<le> held q i + entries ops i"
proof (induction q ops i rule: leave.induct)
  case (2 q j now "at" ops i)
  then show ?case using put_same [of now q i "at"] put_other [of i j now q "at"] by (cases "i = j") auto
next
  case (3 q f now ops i)
  obtain r q' where g: "get f now q = (r, q')" by fastforce
  have "leave q' ops i \<le> held q' i + entries ops i" using 3 g by simp
  moreover have "(if \<exists>m. r = Inr (Some m) \<and> qm_delivery m = i then 1 else 0) + held q' i \<le> held q i"
    using get_some [of f now q _ q'] get_other [OF g, of i] g by auto
  ultimately show ?case using g by simp
qed simp

end

lemma waiting_ZAdd:
  "waiting (q\<lparr>wq_deliveries := ZAdd (wq_deliveries q) m score\<rparr>) (qm_delivery m) \<le> waiting q (qm_delivery m) + 1"
  "j \<noteq> qm_delivery m \<Longrightarrow> waiting (q\<lparr>wq_deliveries := ZAdd (wq_deliveries q) m score\<rparr>) j = waiting q j"
proof -
  have le: "length (filter P (filter Q xs)) \<le> length (filter P xs)" for P Q and xs :: zset
    by (induction xs) auto
  show "waiting (q\<lparr>wq_deliveries := ZAdd (wq_deliveries q) m score\<rparr>) (qm_delivery m) \<le> waiting q (qm_delivery m) + 1"
    using le by (simp add: waiting_def ZAdd_def del: filter_filter)
  show "waiting (q\<lparr>wq_deliveries := ZAdd (wq_deliveries q) m score\<rparr>) j = waiting q j" if "j \<noteq> qm_delivery m"
    using that by (auto simp: waiting_def ZAdd_def intro!: arg_cong [where f = length] filter_cong)
qed

lemma waiting_ZRem:
  assumes "m \<in> fst ` set (wq_deliveries q)"
  shows "waiting (q\<lparr>wq_deliveries := ZRem (wq_deliveries q) m\<rparr>) (qm_delivery m) + 1 \<le> waiting q (qm_delivery m)"
    and "j \<noteq> qm_delivery m \<Longrightarrow> waiting (q\<lparr>wq_deliveries := ZRem (wq_deliveries q) m\<rparr>) j = waiting q j"
proof -
  have "length (filter (\<lambda>(m', x). qm_delivery m' = qm_delivery m) (filter (\<lambda>(m', x). m' \<noteq> m) xs)) + 1
      \<le> length (filter (\<lambda>(m', x). qm_delivery m' = qm_delivery m) xs)" if "m \<in> fst ` set xs" for xs :: zset
    using that
  proof (induction xs)
    case (Cons x xs)
    have "length (filter (\<lambda>(m', x). qm_delivery m' = qm_delivery m) (filter (\<lambda>(m', x). m' \<noteq> m) xs))
        \<le> length (filter (\<lambda>(m', x). qm_delivery m' = qm_delivery m) xs)"
      by (induction xs) auto
    with Cons show ?case by (cases x) auto
  qed simp
  with assms show "waiting (q\<lparr>wq_deliveries := ZRem (wq_deliveries q) m\<rparr>) (qm_delivery m) + 1 \<le> waiting q (qm_delivery m)"
    by (simp add: waiting_def ZRem_def del: filter_filter)
  show "waiting (q\<lparr>wq_deliveries := ZRem (wq_deliveries q) m\<rparr>) j = waiting q j" if "j \<noteq> qm_delivery m"
    using that by (auto simp: waiting_def ZRem_def intro!: arg_cong [where f = length] filter_cong)
qed

lemma zrange_due_member: "zrange_due z n = m # ms \<Longrightarrow> m \<in> fst ` set z"
proof -
  assume "zrange_due z n = m # ms"
  then have "m \<in> set (zrange_due z n)" by simp
  then show ?thesis by (auto simp: zrange_due_def)
qed

lemma waiting_processing [simp]: "waiting (q\<lparr>wq_processing := p\<rparr>) i = waiting q i"
  by (simp add: waiting_def)

lemma Dequeue_some:
  assumes "Dequeue f now q = (Inr (Some m), q')"
  shows "waiting q' (qm_delivery m) + 1 \<le> waiting q (qm_delivery m)"
    and "j \<noteq> qm_delivery m \<Longrightarrow> waiting q' j = waiting q j"
proof -
  from assms obtain ms where m: "zrange_due (wq_deliveries q) (unix_time now) = m # ms"
    and q': "q' = q\<lparr>wq_deliveries := ZRem (wq_deliveries q) m\<rparr>
      \<lparr>wq_processing := List.insert (qm_delivery m) (wq_processing q)\<rparr>"
    by (auto simp: Dequeue_def Let_def split: prod.splits if_splits list.splits)
  note in_set = zrange_due_member [OF m]
  show "waiting q' (qm_delivery m) + 1 \<le> waiting q (qm_delivery m)"
    unfolding q' waiting_processing by (rule waiting_ZRem(1) [OF in_set])
  show "j \<noteq> qm_delivery m \<Longrightarrow> waiting q' j = waiting q j"
    unfolding q' waiting_processing by (rule waiting_ZRem(2) [OF in_set])
qed

lemma Dequeue_none:
  assumes "Dequeue f now q = (r, q')" and "\<And>m. r \<noteq> Inr (Some m)"
  shows "waiting q' j \<le> waiting q j"
proof -
  have "q' = q \<or> (\<exists>m ms. zrange_due (wq_deliveries q) (unix_time now) = m # ms
      \<and> q' = q\<lparr>wq_deliveries := ZRem (wq_deliveries q) m\<rparr>)"
    using assms by (auto simp: Dequeue_def Let_def split: prod.splits if_splits list.splits)
  then show ?thesis
  proof (elim disjE exE conjE)
    fix m ms
    assume m: "zrange_due (wq_deliveries q) (unix_time now) = m # ms"
      and q': "q' = q\<lparr>wq_deliveries := ZRem (wq_deliveries q) m\<rparr>"
    note rem = waiting_ZRem [OF zrange_due_member [OF m]]
    show ?thesis using rem(1) rem(2) [of j] by (cases "j = qm_delivery m") (simp_all add: q')
  qed simp
qed

interpretation redis_queue: delivery_queue waiting EnqueueRetry Dequeue
proof unfold_locales
  fix now q i "at" j
  show "waiting (EnqueueRetry now q i at) i \<le> waiting q i + 1"
    using waiting_ZAdd(1) [of q "\<lparr>qm_delivery = i, qm_queued_at = now\<rparr>"] by (simp add: EnqueueRetry_def)
  show "j \<noteq> i \<Longrightarrow> waiting (EnqueueRetry now q i at) j = waiting q j"
    using waiting_ZAdd(2) [of j "\<lparr>qm_delivery = i, qm_queued_at = now\<rparr>"] by (simp add: EnqueueRetry_def)
next
  fix f now q m q' r j
  show "Dequeue f now q = (Inr (Some m), q') \<Longrightarrow> waiting q' (qm_delivery m) + 1 \<le> waiting q (qm_delivery m)"
    by (rule Dequeue_some(1))
  show "waiting q' j \<le> waiting q j"
    if "Dequeue f now q = (r, q')" "\<And>m. r = Inr (Some m) \<Longrightarrow> qm_delivery m \<noteq> j"
    using that Dequeue_some(2) [of f now q _ q' j] Dequeue_none [of f now q r q' j] by (metis order_refl)
qed

section \<open>What an update does to the view\<close>

text \<open>A delivery that is not being sent, with room for the attempts that it has made.\<close>

definition row_fields :: "webhook_delivery \<Rightarrow> bool" where
  "row_fields d \<longleftrightarrow> 1 \<le> dl_attempt d \<and> dl_attempt d \<le> dl_max_attempts d
     \<and> (dl_status d = Processing \<longrightarrow> dl_started_at d \<noteq> None)
     \<and> (dl_status d = Delivered \<longrightarrow> dl_delivered_at d \<noteq> None
          \<and> (\<exists>c. dl_response_code d = Some c \<and> 200 \<le> c \<and> c < 300))"

definition row_ok :: "webhook_delivery \<Rightarrow> nat \<Rightarrow> nat \<Rightarrow> bool" where
  "row_ok d p n \<longleftrightarrow> row_fields d \<and> p \<le> 1 \<and> (dl_status d \<in> {Failed, Delivered, Processing} \<longrightarrow> p = 0)
     \<and> int n + int p \<le> dl_attempt d"

definition ok_at :: "webhook_state \<Rightarrow> uuid \<Rightarrow> bool" where
  "ok_at s i \<longleftrightarrow> (\<forall>d. row s i = Some d \<longrightarrow> row_ok d (waiting (ws_queue s) i) (sends s i))"

text \<open>No message waits, and the row is the one that was read but for its status and notes.\<close>

definition idle_at :: "webhook_state \<Rightarrow> webhook_delivery \<Rightarrow> bool" where
  "idle_at s d \<longleftrightarrow> waiting (ws_queue s) (dl_id d) = 0
     \<and> (\<exists>r. row s (dl_id d) = Some r \<and> row_fields r \<and> dl_attempt r = dl_attempt d
          \<and> dl_max_attempts r = dl_max_attempts d \<and> int (sends s (dl_id d)) \<le> dl_attempt r)"

lemma idle_ok: "idle_at s d \<Longrightarrow> ok_at s (dl_id d)"
  by (auto simp: idle_at_def ok_at_def row_ok_def)

lemma ok_at_fewer:
  assumes "ok_at s i" "row s' i = row s i" "waiting (ws_queue s') i \<le> waiting (ws_queue s) i" "sends s' i = sends s i"
  shows "ok_at s' i"
  using assms by (fastforce simp: ok_at_def row_ok_def)

text \<open>Fields that are no columns of the delivery tables.\<close>

lemma view_simps [simp]:
  "row (s\<lparr>ws_queue := q\<rparr>) i = row s i" "sends (s\<lparr>ws_queue := q\<rparr>) i = sends s i"
  "delivery_ids (s\<lparr>ws_queue := q\<rparr>) = delivery_ids s"
  "row (s\<lparr>ws_sent := l\<rparr>) i = row s i" "delivery_ids (s\<lparr>ws_sent := l\<rparr>) = delivery_ids s"
  "row (s\<lparr>ws_failed_count := k\<rparr>) i = row s i" "sends (s\<lparr>ws_failed_count := k\<rparr>) i = sends s i"
  "delivery_ids (s\<lparr>ws_failed_count := k\<rparr>) = delivery_ids s"
  "row (s\<lparr>ws_delivered_count := k\<rparr>) i = row s i" "sends (s\<lparr>ws_delivered_count := k\<rparr>) i = sends s i"
  "delivery_ids (s\<lparr>ws_delivered_count := k\<rparr>) = delivery_ids s"
  "row (s\<lparr>ws_limited_count := k\<rparr>) i = row s i" "sends (s\<lparr>ws_limited_count := k\<rparr>) i = sends s i"
  "delivery_ids (s\<lparr>ws_limited_count := k\<rparr>) = delivery_ids s"
  "row (s\<lparr>ws_hooks := h\<rparr>) i = row s i" "sends (s\<lparr>ws_hooks := h\<rparr>) i = sends s i"
  "delivery_ids (s\<lparr>ws_hooks := h\<rparr>) = delivery_ids s"
  by (simp_all add: row_def sends_def delivery_ids_def)

lemma view_of_counters [simp]:
  "ok_at (s\<lparr>ws_failed_count := k\<rparr>) i = ok_at s i" "ok_at (s\<lparr>ws_delivered_count := k\<rparr>) i = ok_at s i"
  "ok_at (s\<lparr>ws_limited_count := k\<rparr>) i = ok_at s i"
  "idle_at (s\<lparr>ws_failed_count := k\<rparr>) d = idle_at s d" "idle_at (s\<lparr>ws_limited_count := k\<rparr>) d = idle_at s d"
  "same_elsewhere i s (s\<lparr>ws_failed_count := k\<rparr>)" "same_elsewhere i s (s\<lparr>ws_limited_count := k\<rparr>)"
  "same_elsewhere i s (s\<lparr>ws_delivered_count := k\<rparr>)"
  by (simp_all add: ok_at_def idle_at_def same_elsewhere_def)

lemma row_tbl_update:
  assumes "\<And>r. dl_id (f r) = dl_id r"
  shows "tbl_first (\<lambda>r. dl_id r = j) (tbl_update (\<lambda>r. dl_id r = i) f rows) =
    (if j = i then map_option f (tbl_first (\<lambda>r. dl_id r = j) rows) else tbl_first (\<lambda>r. dl_id r = j) rows)"
  using assms by (induction rows) (auto simp: tbl_first_def tbl_update_def)

text \<open>A status update either fails and changes nothing, or rewrites the row of its delivery.\<close>

lemma update_status_cases [consumes 2, case_names failed updated]:
  assumes "delivery_update_status E s i st f = (res, s')" and "\<And>r. dl_id (f r) = dl_id r"
  obtains (failed) err where "res = Inl err" "s' = s"
    | (updated) d where "res = Inr ()" "row s i = Some d" "row s' i = Some ((f d)\<lparr>dl_status := st\<rparr>)"
        "same_elsewhere i s s'" "ws_queue s' = ws_queue s" "sends s' = sends s" "ws_hooks s' = ws_hooks s"
        "ws_sent s' = ws_sent s"
proof (cases "res = Inr ()")
  case True
  let ?s = "s\<lparr>ws_deliveries := tbl_update (\<lambda>r. dl_id r = i) (\<lambda>r. (f r)\<lparr>dl_status := st\<rparr>) (ws_deliveries s)\<rparr>"
  from True assms(1) have count: "tbl_count (\<lambda>r. dl_id r = i) (ws_deliveries s) \<noteq> 0" and s': "s' = ?s"
    by (auto simp: delivery_update_status_def split: if_splits)
  then obtain d where d: "row s i = Some d"
    by (cases "row s i") (auto simp: row_def tbl_first_None_iff tbl_count_0_iff)
  have upd: "row s' j = (if j = i then map_option (\<lambda>r. (f r)\<lparr>dl_status := st\<rparr>) (row s j) else row s j)" for j
    using row_tbl_update [of "\<lambda>r. (f r)\<lparr>dl_status := st\<rparr>" j i "ws_deliveries s"] assms(2) by (simp add: s' row_def)
  moreover have "delivery_ids s' = delivery_ids s"
    using assms(2) by (simp add: s' delivery_ids_def map_tbl_update)
  moreover have "sends s' = sends s" by (simp add: s' sends_def fun_eq_iff)
  ultimately show ?thesis using d by (intro updated [of d]) (simp_all add: same_elsewhere_def True, simp_all add: s')
next
  case False
  with assms(1) obtain err where "res = Inl err" "s' = s"
    by (auto simp: delivery_update_status_def split: if_splits)
  then show ?thesis by (rule failed)
qed

lemma delivery_Replay_id [simp]: "dl_id (delivery_Replay d) = dl_id d"
  by (simp add: delivery_Replay_def)

lemma row_id: "row s i = Some d \<Longrightarrow> dl_id d = i"
  by (auto simp: row_def dest: tbl_first_SomeD)

lemma delivery_find_row: "delivery_find_by_id E s query i = Inr d \<Longrightarrow> row s i = Some d"
  by (auto simp: delivery_find_by_id_def row_def split: if_splits option.splits)

text \<open>A new attempt: the row goes to \<open>st\<close> with one attempt more, and perhaps a message is queued.\<close>

lemma enqueue_retry_view:
  "row (enqueue_retry E s now i t) j = row s j" "sends (enqueue_retry E s now i t) j = sends s j"
  "delivery_ids (enqueue_retry E s now i t) = delivery_ids s"
  "waiting (ws_queue (enqueue_retry E s now i t)) i \<le> waiting (ws_queue s) i + 1"
  "j \<noteq> i \<Longrightarrow> waiting (ws_queue (enqueue_retry E s now i t)) j = waiting (ws_queue s) j"
  using redis_queue.put_same redis_queue.put_other by (simp_all add: enqueue_retry_def)

lemma retry_ok:
  assumes idle: "idle_at s d" and more: "dl_attempt d < dl_max_attempts d"
    and upd: "row s' (dl_id d) = Some r'" "dl_attempt r' = dl_attempt d + 1" "dl_max_attempts r' = dl_max_attempts d"
      "dl_status r' \<in> {Queued, RateLimited}"
    and rest: "waiting (ws_queue s') (dl_id d) \<le> 1" "sends s' (dl_id d) = sends s (dl_id d)"
  shows "ok_at s' (dl_id d)"
proof -
  obtain r where "row_fields r" "dl_attempt r = dl_attempt d" "int (sends s (dl_id d)) \<le> dl_attempt r"
    using idle by (auto simp: idle_at_def)
  with more upd rest show ?thesis by (auto simp: ok_at_def row_ok_def row_fields_def)
qed

section \<open>The steps of the worker\<close>

text \<open>What a step does that handles one delivery: the others stay as they were, and it is in order.\<close>

definition step_at :: "uuid \<Rightarrow> webhook_state \<Rightarrow> webhook_state \<Rightarrow> bool" where
  "step_at i s s' \<longleftrightarrow> same_elsewhere i s s' \<and> ok_at s' i"

lemma step_at_trans: "same_elsewhere i s s1 \<Longrightarrow> step_at i s1 s2 \<Longrightarrow> step_at i s s2"
  using same_elsewhere_trans by (auto simp: step_at_def)

lemma enqueue_retry_elsewhere: "same_elsewhere i s (enqueue_retry E s now i t)"
  by (simp add: same_elsewhere_def enqueue_retry_view)

text \<open>An update to \<open>Queued\<close> or \<open>RateLimited\<close> with one more attempt, and the entry into the queue.\<close>

lemma schedule_retry:
  assumes idle: "idle_at s d" and more: "CanRetry d" and st: "st \<in> {Queued, RateLimited}"
    and f: "\<And>r. dl_id (f r) = dl_id r" "\<And>r. dl_attempt (f r) = dl_attempt d + 1"
      "\<And>r. dl_max_attempts (f r) = dl_max_attempts r"
  shows "step_at (dl_id d) s
    (case delivery_update_status E s (dl_id d) st f of
       (Inl err, s1) \<Rightarrow> s1 | (Inr _, s1) \<Rightarrow> enqueue_retry E' s1 now (dl_id d) at)"
proof -
  obtain res s1 where u: "delivery_update_status E s (dl_id d) st f = (res, s1)" by fastforce
  from u f(1) show ?thesis
  proof (cases rule: update_status_cases)
    case (failed err)
    with u idle show ?thesis by (simp add: step_at_def idle_ok)
  next
    case (updated r)
    let ?s' = "enqueue_retry E' s1 now (dl_id d) at"
    have "waiting (ws_queue ?s') (dl_id d) \<le> 1"
      using enqueue_retry_view(4) [of E' s1 now "dl_id d" "at"] updated(5) idle by (simp add: idle_at_def)
    moreover have "dl_max_attempts r = dl_max_attempts d" using idle updated(2) by (simp add: idle_at_def)
    ultimately have "ok_at ?s' (dl_id d)"
      using more st f updated
      by (intro retry_ok [OF idle, where r' = "f r\<lparr>dl_status := st\<rparr>"]) (auto simp: CanRetry_def enqueue_retry_view)
    moreover have "same_elsewhere (dl_id d) s ?s'"
      using same_elsewhere_trans [OF updated(4) enqueue_retry_elsewhere] by simp
    ultimately show ?thesis using u updated(1) by (simp add: step_at_def)
  qed
qed

text \<open>An update of the row that keeps its attempts and starts no sending.\<close>

lemma update_keeps_idle:
  assumes idle: "idle_at s d" and u: "delivery_update_status E s (dl_id d) st f = (res, s')"
    and f: "\<And>r. dl_id (f r) = dl_id r" "\<And>r. dl_attempt (f r) = dl_attempt r"
      "\<And>r. dl_max_attempts (f r) = dl_max_attempts r"
    and st: "st = Processing \<Longrightarrow> (\<And>r. dl_started_at (f r) \<noteq> None)"
      "st = Delivered \<Longrightarrow> (\<And>r. dl_delivered_at (f r) \<noteq> None \<and> (\<exists>c. dl_response_code (f r) = Some c \<and> 200 \<le> c \<and> c < 300))"
  shows "idle_at s' d" and "same_elsewhere (dl_id d) s s'" and "ws_hooks s' = ws_hooks s"
  using u f(1)
proof (atomize (full), cases rule: update_status_cases)
  case (failed err)
  with idle show "idle_at s' d \<and> same_elsewhere (dl_id d) s s' \<and> ws_hooks s' = ws_hooks s" by simp
next
  case (updated r)
  obtain r0 where "row s (dl_id d) = Some r0" "row_fields r0" "dl_attempt r0 = dl_attempt d"
      "dl_max_attempts r0 = dl_max_attempts d" "int (sends s (dl_id d)) \<le> dl_attempt r0"
      "waiting (ws_queue s) (dl_id d) = 0"
    using idle by (auto simp: idle_at_def)
  with updated f st show "idle_at s' d \<and> same_elsewhere (dl_id d) s s' \<and> ws_hooks s' = ws_hooks s"
    by (auto simp: idle_at_def row_fields_def)
qed

lemma markFailed_step:
  assumes idle: "idle_at s d" and extra: "\<And>r. dl_id (extra r) = dl_id r" "\<And>r. dl_attempt (extra r) = dl_attempt r"
      "\<And>r. dl_max_attempts (extra r) = dl_max_attempts r"
  shows "step_at (dl_id d) s (markFailedAndMaybeRetry E s d err extra)"
proof -
  obtain res s1 where u: "delivery_update_status (hook_env_of E) s (dl_id d) Failed
      (\<lambda>r. extra (r\<lparr>dl_last_error := err\<rparr>)) = (res, s1)" by fastforce
  let ?s2 = "s1\<lparr>ws_failed_count := ws_failed_count s1 + 1\<rparr>"
  have idle1: "idle_at s1 d" and same: "same_elsewhere (dl_id d) s s1"
    using update_keeps_idle [OF idle u] extra by simp_all
  then have same2: "same_elsewhere (dl_id d) s ?s2" using same_elsewhere_trans view_of_counters(6) by blast
  show ?thesis
  proof (cases "CanRetry d")
    case True
    let ?next = "wk_done_at E + retryBackoff (dl_attempt d)"
    let ?f = "\<lambda>r. r\<lparr>dl_attempt := dl_attempt d + 1, dl_next_retry_at := Some ?next, dl_last_error := err\<rparr>"
    have "step_at (dl_id d) ?s2
        (case delivery_update_status (hook_env_of E) ?s2 (dl_id d) Queued ?f of
           (Inl err, s3) \<Rightarrow> s3 | (Inr _, s3) \<Rightarrow> enqueue_retry E s3 (wk_done_at E) (dl_id d) ?next)"
      using idle1 True by (intro schedule_retry) simp_all
    from step_at_trans [OF same2 this] show ?thesis
      using u True by (simp add: markFailedAndMaybeRetry_def Let_def)
  next
    case False
    then show ?thesis using u idle1 same2 by (simp add: markFailedAndMaybeRetry_def Let_def step_at_def idle_ok)
  qed
qed

lemma rate_limited_step:
  assumes idle: "idle_at s d"
  shows "step_at (dl_id d) s (rate_limited_pass E s d)"
proof -
  let ?s1 = "s\<lparr>ws_limited_count := ws_limited_count s + 1\<rparr>"
  have idle1: "idle_at ?s1 d" and same1: "same_elsewhere (dl_id d) s ?s1" using idle by simp_all
  show ?thesis
  proof (cases "CanRetry d")
    case True
    let ?next = "re_now E + retryBackoff (dl_attempt d)"
    let ?f = "\<lambda>r. r\<lparr>dl_attempt := dl_attempt d + 1, dl_next_retry_at := Some ?next\<rparr>"
    have "step_at (dl_id d) ?s1
        (case delivery_update_status (hook_env_of E) ?s1 (dl_id d) RateLimited ?f of
           (Inl err, s3) \<Rightarrow> s3 | (Inr _, s3) \<Rightarrow> enqueue_retry E s3 (re_now E) (dl_id d) ?next)"
      using idle1 True by (intro schedule_retry) simp_all
    from step_at_trans [OF same1 this] show ?thesis using True by (simp add: rate_limited_pass_def Let_def)
  next
    case False
    obtain res s2 where u: "delivery_update_status (hook_env_of E) ?s1 (dl_id d) RateLimited
        (\<lambda>r. r\<lparr>dl_last_error := ''rate limited and max attempts reached''\<rparr>) = (res, s2)" by fastforce
    have "idle_at s2 d" "same_elsewhere (dl_id d) ?s1 s2" using update_keeps_idle [OF idle1 u] by simp_all
    then have "step_at (dl_id d) ?s1 s2" by (simp add: step_at_def idle_ok)
    from step_at_trans [OF same1 this] show ?thesis using u False by (simp add: rate_limited_pass_def Let_def)
  qed
qed

lemma finish_step:
  assumes idle: "idle_at s d"
  shows "step_at (dl_id d) s (finish_delivery E s d req)"
proof (cases "wk_http E req")
  case (Inl err)
  then show ?thesis using markFailed_step [OF idle] by (simp add: finish_delivery_def)
next
  case (Inr answer)
  obtain code body where answer: "answer = (code, body)" by fastforce
  let ?answer = "\<lambda>r. r\<lparr>dl_response_code := Some code, dl_response_body := take 1024 body,
      dl_duration_ms := Some (wk_duration_ms E)\<rparr>"
  show ?thesis
  proof (cases "200 \<le> code \<and> code < 300")
    case True
    obtain res s1 where u: "delivery_update_status (hook_env_of E) s (dl_id d) Delivered
        (\<lambda>r. (?answer r)\<lparr>dl_delivered_at := Some (wk_done_at E)\<rparr>) = (res, s1)" by fastforce
    have "idle_at s1 d" "same_elsewhere (dl_id d) s s1" using update_keeps_idle [OF idle u] True by simp_all
    then have "step_at (dl_id d) s (s1\<lparr>ws_delivered_count := ws_delivered_count s1 + 1\<rparr>)"
      using same_elsewhere_trans view_of_counters(8) by (fastforce simp: step_at_def idle_ok)
    then show ?thesis using Inr answer True u by (simp add: finish_delivery_def)
  next
    case False
    have "step_at (dl_id d) s (markFailedAndMaybeRetry E s d (''webhook returned non-2xx status: '' @ itoa code) ?answer)"
      by (rule markFailed_step [OF idle]) simp_all
    then show ?thesis
      by (simp only: finish_delivery_def Inr answer Let_def sum.case prod.case if_not_P [OF False])
  qed
qed

text \<open>The part before the request either ends the pass or leaves the row claimed, with room to send.\<close>

lemma begin_step:
  assumes room: "\<And>d. row s i = Some d \<Longrightarrow> waiting (ws_queue s) i = 0 \<and> row_fields d \<and> int (sends s i) < dl_attempt d"
    and run: "begin_delivery E s i = (out, s')"
  shows "out = None \<Longrightarrow> step_at i s s'"
    and "out = Some (d, req) \<Longrightarrow> dl_id d = i \<and> sr_delivery req = i \<and> idle_at s' d \<and> same_elsewhere i s s'
      \<and> int (sends s' i) < dl_attempt d \<and> sends s' i = sends s i"
proof -
  have idle: "idle_at s d" if "row s i = Some d" for d
    using room [OF that] that row_id [OF that] by (auto simp: idle_at_def)
  have ok: "ok_at s i" using room by (fastforce simp: ok_at_def row_ok_def)
  have "(out = None \<longrightarrow> step_at i s s') \<and> (\<forall>d req. out = Some (d, req) \<longrightarrow> dl_id d = i \<and> sr_delivery req = i \<and> idle_at s' d
      \<and> same_elsewhere i s s' \<and> int (sends s' i) < dl_attempt d \<and> sends s' i = sends s i)"
  proof (cases "delivery_find_by_id (hook_env_of E) s (QDeliveryByID i) i")
    case (Inl err)
    with run ok show ?thesis by (auto simp: begin_delivery_def step_at_def)
  next
    case (Inr d)
    then have row: "row s i = Some d" by (rule delivery_find_row)
    have i: "dl_id d = i" by (rule row_id [OF row])
    obtain res s1 where u: "delivery_update_status (hook_env_of E) s (dl_id d) Processing
        (\<lambda>r. r\<lparr>dl_started_at := Some (re_now E)\<rparr>) = (res, s1)" by fastforce
    have idle1: "idle_at s1 d" and same: "same_elsewhere i s s1"
      using update_keeps_idle [OF idle [OF row] u] i by simp_all
    have sends1: "sends s1 i = sends s i"
      using u by (rule update_status_cases [where f = "\<lambda>r. r\<lparr>dl_started_at := Some (re_now E)\<rparr>"]) simp_all
    note ends = step_at_trans [OF same]
    have fail: "step_at i s (markFailedAndMaybeRetry E s1 d err id)" for err
      using markFailed_step [OF idle1, of id] i by (intro ends) simp
    have limited: "step_at i s (rate_limited_pass E s1 d)"
      using rate_limited_step [OF idle1] i by (intro ends) simp
    have stop: "step_at i s s1" using same idle_ok [OF idle1] i by (simp add: step_at_def)
    have "sr_delivery (delivery_request E d w) = i" for w using i by (simp add: delivery_request_def Let_def)
    then show ?thesis
      using run Inr u i fail limited stop idle1 same sends1 room [OF row]
      by (cases res; cases "hook_find_by_id (hook_env_of E) s1 (QHookByID (dl_webhook d)) (dl_webhook d)")
        (auto simp: begin_delivery_def split: if_splits)
  qed
  then show "out = None \<Longrightarrow> step_at i s s'"
    and "out = Some (d, req) \<Longrightarrow> dl_id d = i \<and> sr_delivery req = i \<and> idle_at s' d \<and> same_elsewhere i s s'
      \<and> int (sends s' i) < dl_attempt d \<and> sends s' i = sends s i" by blast+
qed

lemma unprocess_step: "step_at i s (unprocess E i s') = step_at i s s'"
  by (simp add: unprocess_def step_at_def same_elsewhere_def ok_at_def RemoveFromProcessing_def)

lemma process_step:
  assumes room: "\<And>d. row s i = Some d \<Longrightarrow> waiting (ws_queue s) i = 0 \<and> row_fields d \<and> int (sends s i) < dl_attempt d"
  shows "step_at i s (processDelivery E s i)"
proof -
  obtain out s1 where run: "begin_delivery E s i = (out, s1)" by fastforce
  show ?thesis
  proof (cases out)
    case None
    then show ?thesis using begin_step(1) [OF room run] run by (simp add: processDelivery_def unprocess_step)
  next
    case (Some p)
    obtain d req where p: "p = (d, req)" by fastforce
    let ?s2 = "s1\<lparr>ws_sent := ws_sent s1 @ [req]\<rparr>"
    have b: "dl_id d = i" "sr_delivery req = i" "idle_at s1 d" "same_elsewhere i s s1" "int (sends s1 i) < dl_attempt d"
      using begin_step(2) [OF room run, of d req] Some p by simp_all
    have sent: "sends ?s2 j = sends s1 j + (if j = i then 1 else 0)" for j using b(2) by (simp add: sends_def)
    have "idle_at ?s2 d" using b(1,3,5) sent [of i] by (auto simp: idle_at_def)
    then have "step_at i ?s2 (finish_delivery E ?s2 d req)" using finish_step b(1) by metis
    moreover have "same_elsewhere i s ?s2" using b(4) sent by (simp add: same_elsewhere_def)
    ultimately have "step_at i s (finish_delivery E ?s2 d req)" by (rule step_at_trans [rotated])
    then show ?thesis using run Some p by (simp add: processDelivery_def unprocess_step)
  qed
qed

section \<open>The whole system\<close>

definition delivery_inv :: "webhook_state \<Rightarrow> bool" where
  "delivery_inv s \<longleftrightarrow> distinct (delivery_ids s) \<and> (\<forall>i. ok_at s i)"

lemma step_at_inv:
  assumes "delivery_inv s" and "step_at i s s'"
  shows "delivery_inv s'"
proof -
  have "ok_at s' j" for j
    using assms by (cases "j = i") (auto simp: delivery_inv_def step_at_def same_elsewhere_def ok_at_def)
  then show ?thesis using assms by (simp add: delivery_inv_def step_at_def same_elsewhere_def)
qed

lemma fewer_messages_inv:
  assumes "delivery_inv s" and "\<And>j. waiting q j \<le> waiting (ws_queue s) j"
  shows "delivery_inv (s\<lparr>ws_queue := q\<rparr>)"
  using assms ok_at_fewer [of s _ "s\<lparr>ws_queue := q\<rparr>"] by (simp add: delivery_inv_def)

lemma tick_inv:
  assumes inv: "delivery_inv s"
  shows "delivery_inv (processLoop_tick E s)"
proof -
  obtain r q where dq: "Dequeue (re_fault E QRange, re_fault E QRem, re_fault E QSAdd) (re_now E) (ws_queue s) = (r, q)"
    by fastforce
  show ?thesis
  proof (cases "\<exists>m. r = Inr (Some m)")
    case True
    then obtain m where r: "r = Inr (Some m)" by blast
    let ?i = "qm_delivery m" and ?s = "s\<lparr>ws_queue := q\<rparr>"
    have less: "waiting q j \<le> waiting (ws_queue s) j" for j
      using Dequeue_some [OF dq [unfolded r]] by (cases "j = ?i") auto
    have "waiting (ws_queue ?s) ?i = 0 \<and> row_fields d \<and> int (sends ?s ?i) < dl_attempt d" if "row ?s ?i = Some d" for d
    proof -
      have "row_ok d (waiting (ws_queue s) ?i) (sends s ?i)" using inv that by (auto simp: delivery_inv_def ok_at_def)
      then show ?thesis using Dequeue_some(1) [OF dq [unfolded r]] by (auto simp: row_ok_def)
    qed
    from step_at_inv [OF fewer_messages_inv [OF inv less] process_step [OF this]] show ?thesis
      using dq r by (simp add: processLoop_tick_def)
  next
    case False
    then have "waiting q j \<le> waiting (ws_queue s) j" for j using Dequeue_none [OF dq] by blast
    from fewer_messages_inv [OF inv this] show ?thesis
      using dq False by (auto simp: processLoop_tick_def split: sum.splits option.splits)
  qed
qed

lemma reap_step:
  assumes idle: "idle_at s d"
  shows "step_at (dl_id d) s (reap_delivery E d s)"
proof -
  let ?note = "\<lambda>r. r\<lparr>dl_last_error := ''processing timeout: worker recovery''\<rparr>"
  obtain res s1 where u: "delivery_update_status (hook_env_of E) s (dl_id d) Failed ?note = (res, s1)" by fastforce
  have idle1: "idle_at s1 d" and same: "same_elsewhere (dl_id d) s s1"
    using update_keeps_idle [OF idle u] by simp_all
  let ?next = "wk_done_at E + retryBackoff (dl_attempt d)"
  let ?f = "\<lambda>r. r\<lparr>dl_attempt := dl_attempt d + 1, dl_next_retry_at := Some ?next\<rparr>"
  have "step_at (dl_id d) s1
      (case delivery_update_status (hook_env_of E) s1 (dl_id d) Queued ?f of
         (Inl err, s2) \<Rightarrow> s2 | (Inr _, s2) \<Rightarrow> enqueue_retry E s2 (wk_done_at E) (dl_id d) ?next)" if "CanRetry d"
    using idle1 that by (intro schedule_retry) simp_all
  then have "CanRetry d \<Longrightarrow> step_at (dl_id d) s
      (case delivery_update_status (hook_env_of E) s1 (dl_id d) Queued ?f of
         (Inl err, s2) \<Rightarrow> s2 | (Inr _, s2) \<Rightarrow> enqueue_retry E s2 (wk_done_at E) (dl_id d) ?next)"
    using step_at_trans [OF same] by blast
  moreover have "step_at (dl_id d) s s1" using same idle_ok [OF idle1] by (simp add: step_at_def)
  ultimately show ?thesis using u by (cases res) (auto simp: reap_delivery_def Let_def)
qed

lemma reap_fold_inv:
  assumes "delivery_inv s" "distinct (map dl_id ds)" "\<forall>d\<in>set ds. idle_at s d"
  shows "delivery_inv (fold (reap_delivery E) ds s)"
  using assms
proof (induction ds arbitrary: s)
  case (Cons d ds)
  let ?s = "reap_delivery E d s"
  have step: "step_at (dl_id d) s ?s" using Cons.prems(3) by (intro reap_step) simp
  have "idle_at ?s d'" if "d' \<in> set ds" for d'
  proof -
    have "dl_id d' \<noteq> dl_id d" using Cons.prems(2) that by (metis distinct.simps(2) image_eqI list.simps(9) set_map)
    moreover have "idle_at s d'" using Cons.prems(3) that by simp
    ultimately show ?thesis using step by (simp add: idle_at_def step_at_def same_elsewhere_def)
  qed
  with Cons.IH [of ?s] step_at_inv [OF Cons.prems(1) step] Cons.prems(2) show ?case by simp
qed simp

lemma inv_row:
  assumes "delivery_inv s" and "d \<in> set (ws_deliveries s)"
  shows "row s (dl_id d) = Some d"
  using assms tbl_first_unique [of dl_id "ws_deliveries s" d] by (simp add: delivery_inv_def delivery_ids_def row_def)

lemma reaper_inv:
  assumes inv: "delivery_inv s"
  shows "delivery_inv (stuckDeliveryReaper_tick E s)"
proof (cases "find_stuck_processing (hook_env_of E) s (2 * wc_delivery_timeout (we_config E))")
  case (Inr stuck)
  then have "stuck = filter (\<lambda>r. dl_status r = Processing \<and> (case dl_started_at r of None \<Rightarrow> False
      | Some t \<Rightarrow> t < re_now E - 2 * wc_delivery_timeout (we_config E))) (ws_deliveries s)"
    by (simp add: find_stuck_processing_def split: if_splits cong: option.case_cong)
  then obtain P where P: "stuck = filter P (ws_deliveries s)" "\<forall>d. P d \<longrightarrow> dl_status d = Processing" by blast
  have "distinct (map dl_id stuck)"
    using inv P(1) by (simp add: delivery_inv_def delivery_ids_def distinct_map_filter)
  moreover have "idle_at s d" if "d \<in> set stuck" for d
  proof -
    have "row s (dl_id d) = Some d" "dl_status d = Processing" using inv_row [OF inv] that P by auto
    moreover from this(1) have "row_ok d (waiting (ws_queue s) (dl_id d)) (sends s (dl_id d))"
      using inv by (auto simp: delivery_inv_def ok_at_def)
    ultimately show ?thesis by (auto simp: row_ok_def idle_at_def)
  qed
  ultimately show ?thesis using reap_fold_inv [OF inv] Inr by (simp add: stuckDeliveryReaper_tick_def)
qed (simp add: stuckDeliveryReaper_tick_def inv)

lemma row_in_set: "row s i = Some d \<Longrightarrow> d \<in> set (ws_deliveries s) \<and> dl_id d = i"
  by (auto simp: row_def dest: tbl_first_SomeD)

lemma cleanup_inv:
  assumes inv: "delivery_inv s"
  shows "delivery_inv (retentionCleanup_tick E s)"
proof -
  let ?s = "retentionCleanup_tick E s"
  let ?P = "\<lambda>r. re_fault E QCleanup \<or> \<not> dl_created_at r < re_now E - wc_retention_days (we_config E) * 86400 * second"
  have P: "ws_deliveries ?s = filter ?P (ws_deliveries s)" and shape: "ws_queue ?s = ws_queue s" "ws_sent ?s = ws_sent s"
    by (auto simp: retentionCleanup_tick_def delete_older_than_def)
  have dist: "distinct (delivery_ids ?s)"
    using inv P by (simp add: delivery_inv_def delivery_ids_def distinct_map_filter)
  have "row s i = Some d" if "row ?s i = Some d" for i d
    using row_in_set [OF that] P inv_row [OF inv, of d] by auto
  then have "ok_at ?s i" for i
    using inv shape by (fastforce simp: delivery_inv_def ok_at_def sends_def)
  with dist show ?thesis by (simp add: delivery_inv_def)
qed

section \<open>Dispatch\<close>

text \<open>The database makes a new identifier for each delivery of a dispatch.\<close>

definition unused_id :: "webhook_state \<Rightarrow> uuid \<Rightarrow> bool" where
  "unused_id s i \<longleftrightarrow> i \<notin> set (delivery_ids s) \<and> waiting (ws_queue s) i = 0 \<and> sends s i = 0"

definition fresh_deliveries :: "hook_env \<Rightarrow> webhook_state \<Rightarrow> bool" where
  "fresh_deliveries E s \<longleftrightarrow> distinct (map (\<lambda>w. we_delivery_id E (wh_id w)) (ws_hooks s))
     \<and> (\<forall>w\<in>set (ws_hooks s). unused_id s (we_delivery_id E (wh_id w)))"

lemma Enqueue_is_retry: "Enqueue now q i = EnqueueRetry now q i now"
  by (simp add: Enqueue_def EnqueueRetry_def)

text \<open>
  A round of the loop adds at most one row, of the delivery \<open>d\<close> of this webhook, and then at most
  one message for it.
\<close>

definition adds_delivery :: "webhook_delivery \<Rightarrow> webhook_state \<Rightarrow> webhook_state \<Rightarrow> bool" where
  "adds_delivery d s s' \<longleftrightarrow> ws_deliveries s' = ws_deliveries s @ [d] \<and> ws_sent s' = ws_sent s \<and> ws_hooks s' = ws_hooks s
     \<and> waiting (ws_queue s') (dl_id d) \<le> waiting (ws_queue s) (dl_id d) + (if dl_status d = Queued then 1 else 0)
     \<and> (\<forall>j. j \<noteq> dl_id d \<longrightarrow> waiting (ws_queue s') j = waiting (ws_queue s) j)"

definition delivery_for :: "hook_env \<Rightarrow> string \<Rightarrow> webhook \<Rightarrow> webhook_delivery \<Rightarrow> bool" where
  "delivery_for E event w d \<longleftrightarrow> dl_id d = we_delivery_id E (wh_id w) \<and> dl_webhook d = wh_id w \<and> dl_event d = event
     \<and> dl_status d \<in> {Queued, RateLimited} \<and> dl_attempt d = 1 \<and> 1 \<le> dl_max_attempts d"

lemma delivery_create_cases:
  assumes "delivery_create E s d = (r, s')"
  obtains (failed) err where "r = Inl err" "s' = s"
    | (created) payload where "r = Inr ()" "s' = s\<lparr>ws_deliveries := ws_deliveries s @ [d\<lparr>dl_payload := payload\<rparr>]\<rparr>"
  using assms by (auto simp: delivery_create_def split: if_splits option.splits)

lemma dispatch_to_cases:
  assumes "dispatch_to E event payload orgID w s = (err, s')"
  shows "s' = s \<or> hook_matches event orgID w \<and> (\<exists>d. delivery_for E event w d \<and> adds_delivery d s s')"
proof (cases "hook_matches event orgID w")
  case True
  obtain ok retryAfter where allow: "(case we_limiter E of None \<Rightarrow> (True, 0) | Some allow \<Rightarrow> allow (wh_id w)) = (ok, retryAfter)"
    by fastforce
  show ?thesis
  proof (cases "ok \<and> payload \<noteq> None")
    case False
    let ?d = "limited_delivery E w event payload retryAfter"
    obtain r s1 where c: "delivery_create E s ?d = (r, s1)" by fastforce
    have "s' = s \<or> s' = s1" using assms True allow False c by (cases ok) (auto simp: dispatch_to_def)
    from c show ?thesis
    proof (cases rule: delivery_create_cases)
      case (created p)
      have "delivery_for E event w (?d\<lparr>dl_payload := p\<rparr>)" "adds_delivery (?d\<lparr>dl_payload := p\<rparr>) s s1"
        by (auto simp: delivery_for_def adds_delivery_def limited_delivery_def queued_delivery_def created)
      with True \<open>s' = s \<or> s' = s1\<close> show ?thesis by blast
    qed (use \<open>s' = s \<or> s' = s1\<close> in auto)
  next
    case True': True
    then obtain p where p: "payload = Some p" by blast
    let ?d = "queued_delivery E w event (Some (truncate_payload E p))"
    obtain r s1 where c: "delivery_create E s ?d = (r, s1)" by fastforce
    from c show ?thesis
    proof (cases rule: delivery_create_cases)
      case (failed e)
      then show ?thesis using assms True allow True' p c by (simp add: dispatch_to_def Let_def)
    next
      case (created q)
      let ?d' = "?d\<lparr>dl_payload := q\<rparr>"
      have for_w: "delivery_for E event w ?d'" by (simp add: delivery_for_def queued_delivery_def)
      have "s' = s1 \<or> s' = s1\<lparr>ws_queue := Enqueue (re_now E) (ws_queue s1) (dl_id ?d')\<rparr>"
        using assms True allow True' p c created by (auto simp: dispatch_to_def Let_def split: if_splits)
      then have "adds_delivery ?d' s s'"
        using redis_queue.put_same [of "re_now E" "ws_queue s" "dl_id ?d'" "re_now E"]
          redis_queue.put_other [of _ "dl_id ?d'" "re_now E" "ws_queue s" "re_now E"]
        by (auto simp: adds_delivery_def created Enqueue_is_retry queued_delivery_def)
      with for_w True show ?thesis by blast
    qed
  qed
qed (use assms in \<open>simp add: dispatch_to_def\<close>)

lemma adds_delivery_inv:
  assumes inv: "delivery_inv s" and unused: "unused_id s (dl_id d)"
    and d: "dl_status d \<in> {Queued, RateLimited}" "dl_attempt d = 1" "1 \<le> dl_max_attempts d" and adds: "adds_delivery d s s'"
  shows "delivery_inv s'" and "unused_id s j \<Longrightarrow> j \<noteq> dl_id d \<Longrightarrow> unused_id s' j"
proof -
  let ?i = "dl_id d"
  have sends: "sends s' j = sends s j" for j using adds by (simp add: adds_delivery_def sends_def)
  have row: "row s' j = (if j = ?i then Some d else row s j)" for j
  proof -
    have "dl_id d \<notin> dl_id ` set (ws_deliveries s)" using unused by (simp add: unused_id_def delivery_ids_def)
    then have "row s ?i = None" unfolding row_def tbl_first_None_iff by (metis imageI)
    then show ?thesis using adds
      by (auto simp: adds_delivery_def row_def tbl_first_append tbl_first_Cons split: option.splits)
  qed
  have "ok_at s' j" for j
  proof (cases "j = ?i")
    case True
    then show ?thesis using adds d unused sends row
      by (auto simp: ok_at_def row_ok_def row_fields_def adds_delivery_def unused_id_def split: if_splits)
  next
    case False
    then show ?thesis using adds inv sends row by (auto simp: delivery_inv_def ok_at_def adds_delivery_def)
  qed
  moreover have "distinct (delivery_ids s')"
    using inv unused adds by (simp add: delivery_inv_def unused_id_def delivery_ids_def adds_delivery_def)
  ultimately show "delivery_inv s'" by (simp add: delivery_inv_def)
  show "unused_id s j \<Longrightarrow> j \<noteq> ?i \<Longrightarrow> unused_id s' j"
    using adds sends by (simp add: unused_id_def adds_delivery_def delivery_ids_def)
qed

lemma dispatch_loop_inv:
  assumes "delivery_inv s" "distinct (map (\<lambda>w. we_delivery_id E (wh_id w)) ws)"
    "\<forall>w\<in>set ws. unused_id s (we_delivery_id E (wh_id w))"
  shows "delivery_inv (snd (dispatch_loop E event payload orgID ws lastErr s))"
  using assms
proof (induction ws arbitrary: s lastErr)
  case (Cons w ws)
  obtain err s1 where d: "dispatch_to E event payload orgID w s = (err, s1)" by fastforce
  have "delivery_inv s1 \<and> (\<forall>v\<in>set ws. unused_id s1 (we_delivery_id E (wh_id v)))"
    using dispatch_to_cases [OF d]
  proof (elim disjE exE conjE)
    assume "s1 = s"
    then show ?thesis using Cons.prems by simp
  next
    fix dl
    assume dl: "delivery_for E event w dl" "adds_delivery dl s s1"
    have "we_delivery_id E (wh_id v) \<noteq> dl_id dl" if "v \<in> set ws" for v
    proof -
      have "we_delivery_id E (wh_id w) \<notin> (\<lambda>w. we_delivery_id E (wh_id w)) ` set ws" using Cons.prems(2) by simp
      then show ?thesis using that dl(1) unfolding delivery_for_def by (metis imageI)
    qed
    then show ?thesis using adds_delivery_inv [OF Cons.prems(1) _ _ _ _ dl(2)] Cons.prems(3) dl(1)
      by (auto simp: delivery_for_def)
  qed
  with Cons.IH [of s1] Cons.prems(2) d show ?case by simp
qed simp

lemma dispatch_inv:
  assumes "delivery_inv s" and "fresh_deliveries E s"
  shows "delivery_inv (snd (DispatchEvent E s event payload orgID))"
proof (cases "find_for_event_dispatch E s orgID")
  case (Inr hooks)
  then obtain P where hooks: "hooks = filter P (ws_hooks s)"
    by (auto simp: find_for_event_dispatch_def split: if_splits)
  have "delivery_inv (snd (dispatch_loop E event payload orgID hooks None s))"
    using assms hooks by (intro dispatch_loop_inv) (auto simp: fresh_deliveries_def distinct_map_filter)
  then show ?thesis using Inr by (auto simp: DispatchEvent_def split: prod.splits option.splits)
qed (use assms in \<open>simp add: DispatchEvent_def\<close>)

section \<open>Reachable states\<close>

text \<open>
  Events, passes of the workers, of the reaper and of the cleanup, with any failures, any answers
  of the receivers and at any times, and any change of the webhooks by their administration.
\<close>

inductive hook_reach :: "webhook_state \<Rightarrow> bool" where
  init: "hook_reach \<lparr>ws_hooks = [], ws_deliveries = [], ws_queue = \<lparr>wq_deliveries = [], wq_processing = []\<rparr>,
    ws_sent = [], ws_delivered_count = 0, ws_failed_count = 0, ws_limited_count = 0\<rparr>"
| event: "hook_reach s \<Longrightarrow> fresh_deliveries E s \<Longrightarrow> hook_reach (snd (DispatchEvent E s event payload orgID))"
| tick: "hook_reach s \<Longrightarrow> hook_reach (processLoop_tick W s)"
| reap: "hook_reach s \<Longrightarrow> hook_reach (stuckDeliveryReaper_tick W s)"
| cleanup: "hook_reach s \<Longrightarrow> hook_reach (retentionCleanup_tick W s)"
| hooks: "hook_reach s \<Longrightarrow> hook_reach (s\<lparr>ws_hooks := hs\<rparr>)"

lemma hook_reach_inv: "hook_reach s \<Longrightarrow> delivery_inv s"
proof (induction rule: hook_reach.induct)
  case (hooks s hs)
  then show ?case by (simp add: delivery_inv_def ok_at_def)
qed (simp_all add: dispatch_inv tick_inv reaper_inv cleanup_inv,
     simp add: delivery_inv_def delivery_ids_def ok_at_def row_def tbl_first_def)



section \<open>Who gets an event\<close>

lemma dispatch_loop_confined:
  assumes "snd (dispatch_loop E event payload orgID ws lastErr s) = s'"
  shows "\<exists>new. ws_deliveries s' = ws_deliveries s @ new \<and> ws_sent s' = ws_sent s \<and> ws_hooks s' = ws_hooks s
    \<and> (\<forall>d\<in>set new. \<exists>w\<in>set ws. hook_matches event orgID w \<and> delivery_for E event w d)"
  using assms
proof (induction ws arbitrary: s lastErr)
  case (Cons w ws)
  obtain err s1 where d: "dispatch_to E event payload orgID w s = (err, s1)" by fastforce
  obtain lastErr' where "snd (dispatch_loop E event payload orgID ws lastErr' s1) = s'"
    using Cons.prems d by (cases err) auto
  from Cons.IH [OF this] obtain new where new: "ws_deliveries s' = ws_deliveries s1 @ new" "ws_sent s' = ws_sent s1"
      "ws_hooks s' = ws_hooks s1"
      "\<forall>d\<in>set new. \<exists>w\<in>set ws. hook_matches event orgID w \<and> delivery_for E event w d" by blast
  from dispatch_to_cases [OF d] show ?case
  proof (elim disjE exE conjE)
    assume "s1 = s"
    with new show ?thesis by (intro exI [of _ new]) auto
  next
    fix dl
    assume "hook_matches event orgID w" "delivery_for E event w dl" "adds_delivery dl s s1"
    with new show ?thesis by (intro exI [of _ "dl # new"]) (auto simp: adds_delivery_def)
  qed
qed simp

text \<open>
  An event creates deliveries only for webhooks that are not deleted, active, subscribed to
  it and either global or of the organization of the event; it neither changes an existing
  delivery nor sends anything itself, whatever fails.
\<close>

theorem dispatch_confined:
  assumes "DispatchEvent E s event payload orgID = (res, s')"
  shows "\<exists>new. ws_deliveries s' = ws_deliveries s @ new \<and> ws_sent s' = ws_sent s \<and> ws_hooks s' = ws_hooks s
    \<and> (\<forall>d\<in>set new. dl_event d = event \<and> (\<exists>w\<in>set (ws_hooks s). wh_id w = dl_webhook d \<and> wh_deleted_at w = None
         \<and> wh_active w = Some True \<and> IsSubscribedTo w event \<and> (wh_org w = None \<or> wh_org w = orgID)))"
proof (cases "find_for_event_dispatch E s orgID")
  case (Inl err)
  with assms show ?thesis by (auto simp: DispatchEvent_def)
next
  case (Inr hooks)
  then have sub: "set hooks \<subseteq> set (ws_hooks s)" by (auto simp: find_for_event_dispatch_def split: if_splits)
  have "snd (dispatch_loop E event payload orgID hooks None s) = s'"
    using assms Inr by (auto simp: DispatchEvent_def split: prod.splits option.splits)
  from dispatch_loop_confined [OF this] obtain new where new: "ws_deliveries s' = ws_deliveries s @ new"
      "ws_sent s' = ws_sent s" "ws_hooks s' = ws_hooks s"
      "\<forall>d\<in>set new. \<exists>w\<in>set hooks. hook_matches event orgID w \<and> delivery_for E event w d" by blast
  have "wh_deleted_at w = None \<and> wh_active w = Some True \<and> IsSubscribedTo w event \<and> (wh_org w = None \<or> wh_org w = orgID)"
    if "hook_matches event orgID w" for w
    using that by (auto simp: hook_matches_def hook_IsActive_def split: option.splits)
  with new sub show ?thesis by (fastforce simp: delivery_for_def)
qed

text \<open>Nothing fails, every limiter allows, and the column takes the payload.\<close>

definition dispatch_works :: "hook_env \<Rightarrow> string \<Rightarrow> string \<Rightarrow> bool" where
  "dispatch_works E p stored \<longleftrightarrow> re_fault E = (\<lambda>_. False) \<and> we_has_queue E
     \<and> (case we_limiter E of None \<Rightarrow> True | Some allow \<Rightarrow> \<forall>i. fst (allow i))
     \<and> we_jsonb E (truncate_payload E p) = Some stored"

definition message_of :: "hook_env \<Rightarrow> webhook \<Rightarrow> queue_msg" where
  "message_of E w = \<lparr>qm_delivery = we_delivery_id E (wh_id w), qm_queued_at = re_now E\<rparr>"

lemma dispatch_to_works:
  assumes "dispatch_works E p stored" and "hook_matches event orgID w"
  shows "dispatch_to E event (Some p) orgID w s =
    (None, s\<lparr>ws_deliveries := ws_deliveries s @ [queued_delivery E w event (Some stored)],
             ws_queue := Enqueue (re_now E) (ws_queue s) (we_delivery_id E (wh_id w))\<rparr>)"
proof -
  obtain retryAfter where "(case we_limiter E of None \<Rightarrow> (True, 0) | Some allow \<Rightarrow> allow (wh_id w)) = (True, retryAfter)"
    using assms(1) by (cases "we_limiter E") (auto simp: dispatch_works_def, metis prod.collapse)
  then show ?thesis
    using assms by (simp add: dispatch_to_def dispatch_works_def delivery_create_def queued_delivery_def Let_def)
qed

lemma dispatch_loop_works:
  assumes "dispatch_works E p stored" and "\<forall>w\<in>set ws. hook_matches event orgID w \<or> \<not> hook_IsActive w \<or> \<not> IsSubscribedTo w event"
  shows "fst (dispatch_loop E event (Some p) orgID ws lastErr s) = lastErr
    \<and> ws_deliveries (snd (dispatch_loop E event (Some p) orgID ws lastErr s)) =
        ws_deliveries s @ map (\<lambda>w. queued_delivery E w event (Some stored)) (filter (hook_matches event orgID) ws)
    \<and> fst ` set (wq_deliveries (ws_queue (snd (dispatch_loop E event (Some p) orgID ws lastErr s)))) =
        fst ` set (wq_deliveries (ws_queue s)) \<union> message_of E ` set (filter (hook_matches event orgID) ws)"
  using assms(2)
proof (induction ws arbitrary: s)
  case (Cons w ws)
  have members: "fst ` set (ZAdd z m score) = insert m (fst ` set z)" for z m score by (force simp: ZAdd_def)
  show ?case
  proof (cases "hook_matches event orgID w")
    case True
    with Cons show ?thesis
      using dispatch_to_works [OF assms(1) True] by (auto simp: Enqueue_def members message_of_def)
  next
    case False
    with Cons show ?thesis by (simp add: dispatch_to_def)
  qed
qed simp

text \<open>
  When nothing fails, an event reaches all it should: every live, active webhook that is
  subscribed and in scope gets exactly one queued delivery with the payload, and a message for it
  is in the queue.
\<close>

theorem dispatch_reaches_all:
  assumes "dispatch_works E p stored"
  shows "\<exists>s'. DispatchEvent E s event (Some p) orgID = (Inr (), s')
    \<and> ws_deliveries s' = ws_deliveries s @ map (\<lambda>w. queued_delivery E w event (Some stored))
        (filter (\<lambda>w. hook_visible w \<and> hook_matches event orgID w) (ws_hooks s))
    \<and> (\<forall>w\<in>set (ws_hooks s). hook_visible w \<and> hook_matches event orgID w \<longrightarrow>
         message_of E w \<in> fst ` set (wq_deliveries (ws_queue s')))"
proof -
  let ?P = "\<lambda>r. (wh_org r = None \<or> orgID \<noteq> None \<and> wh_org r = orgID) \<and> hook_visible r"
  let ?hooks = "filter ?P (ws_hooks s)"
  obtain err s' where run: "dispatch_loop E event (Some p) orgID ?hooks None s = (err, s')" by fastforce
  have find: "find_for_event_dispatch E s orgID = Inr ?hooks"
    using assms by (simp add: find_for_event_dispatch_def dispatch_works_def)
  have "\<forall>w\<in>set ?hooks. hook_matches event orgID w \<or> \<not> hook_IsActive w \<or> \<not> IsSubscribedTo w event"
    by (auto simp: hook_matches_def)
  note out = dispatch_loop_works [OF assms this, of None s, unfolded run]
  have eq: "filter (hook_matches event orgID) ?hooks = filter (\<lambda>w. hook_visible w \<and> hook_matches event orgID w) (ws_hooks s)"
    by (auto simp: hook_matches_def intro!: filter_cong split: option.splits)
  have "message_of E w \<in> fst ` set (wq_deliveries (ws_queue s'))"
    if "w \<in> set (ws_hooks s)" "hook_visible w" "hook_matches event orgID w" for w
  proof -
    have "message_of E w \<in> message_of E ` set (filter (hook_matches event orgID) ?hooks)"
      unfolding eq using that by (intro imageI) simp
    moreover have "message_of E ` set (filter (hook_matches event orgID) ?hooks) \<subseteq> fst ` set (wq_deliveries (ws_queue s'))"
      using out unfolding snd_conv by (elim conjE) (simp only: Un_upper2)
    ultimately show ?thesis by (rule rev_subsetD)
  qed
  moreover have "DispatchEvent E s event (Some p) orgID = (Inr (), s')"
    using out find run by (simp add: DispatchEvent_def)
  ultimately show ?thesis using out unfolding eq by (intro exI [of _ s']) simp
qed

section \<open>What is sent\<close>

lemma begin_sends:
  assumes "begin_delivery E s i = (Some (d, req), s')"
  shows "\<exists>w\<in>set (ws_hooks s). wh_id w = dl_webhook d \<and> hook_IsActive w \<and> wk_limiter E (wh_id w) \<and> req = delivery_request E d w"
proof -
  let ?f = "\<lambda>r. r\<lparr>dl_started_at := Some (re_now E)\<rparr>"
  from assms have "delivery_find_by_id (hook_env_of E) s (QDeliveryByID i) i = Inr d"
    by (auto simp: begin_delivery_def split: sum.splits prod.splits if_splits)
  moreover obtain res s1 where u: "delivery_update_status (hook_env_of E) s i Processing ?f = (res, s1)" by fastforce
  moreover have "ws_hooks s1 = ws_hooks s"
    using u by (rule update_status_cases [where f = ?f]) simp_all
  moreover obtain w where "hook_find_by_id (hook_env_of E) s1 (QHookByID (dl_webhook d)) (dl_webhook d) = Inr w"
    using assms calculation(1) u
    by (cases "hook_find_by_id (hook_env_of E) s1 (QHookByID (dl_webhook d)) (dl_webhook d)"; cases res)
      (auto simp: begin_delivery_def split: if_splits)
  ultimately show ?thesis
    using assms by (cases res) (auto simp: begin_delivery_def hook_find_by_id_def split: if_splits option.splits
      dest!: tbl_first_SomeD)
qed

text \<open>
  C14. Whatever a pass sends goes to the current address of an active webhook that the limiter
  allows, with a prefix of the stored payload no longer than the configured size, and its
  signature is one that the receiver accepts with the secret of the webhook while its clock is
  within the tolerance.
\<close>

theorem sent_request_verifies:
  assumes "begin_delivery E s i = (Some (d, req), s')"
    and "\<And>k m. wk_hmac E k m \<noteq> []" "0 < unix_time (wk_sent_at E)" "unix_time (wk_sent_at E) < 2 ^ 63"
    and "0 \<le> now" "now < 2 ^ 62" "tol < 2 ^ 62" "\<bar>now - unix_time (wk_sent_at E)\<bar> \<le> tol"
  shows "\<exists>w\<in>set (ws_hooks s). wh_id w = dl_webhook d \<and> hook_IsActive w \<and> wk_limiter E (wh_id w)
    \<and> sr_url req = wh_url w \<and> sr_event req = dl_event d \<and> sr_delivery req = dl_id d
    \<and> prefix (sr_body req) (case dl_payload d of None \<Rightarrow> [] | Some p \<Rightarrow> p)
    \<and> int (length (sr_body req)) \<le> max 0 (wc_max_payload_size (we_config E))
    \<and> VerifyWebhookSignature (wk_hmac E) now (wh_secret w) (sr_signature req) (sr_body req) tol"
proof -
  obtain w where w: "w \<in> set (ws_hooks s)" "wh_id w = dl_webhook d" "hook_IsActive w" "wk_limiter E (wh_id w)"
      and req: "req = delivery_request E d w"
    using begin_sends [OF assms(1)] by blast
  let ?t = "unix_time (wk_sent_at E)"
  have sign: "sr_signature req = SignWebhookPayload (wk_hmac E) (wh_secret w) ?t (sr_body req)"
    by (simp add: req delivery_request_def Let_def sign_copies_agree)
  have header: "ParseSignatureHeader (sr_signature req) =
      Some (?t, hex_encode (wk_hmac E (trim_prefix (wh_secret w) ''whsec_'') (signedPayload ?t (sr_body req))))"
    unfolding sign SignWebhookPayload_def Let_def
    using assms(2-4) by (intro parse_signed_header) (simp_all add: int64_range_def)
  have range: "int64_range ?t" using assms(3,4) by (simp add: int64_range_def)
  have "VerifyWebhookSignature (wk_hmac E) now (wh_secret w) (sr_signature req) (sr_body req) tol"
    using header assms(8) tolerance_exact [OF range assms(5,6) _ assms(7)]
    by (auto simp: VerifyWebhookSignature_def)
  moreover have "prefix (sr_body req) (case dl_payload d of None \<Rightarrow> [] | Some p \<Rightarrow> p)"
    "int (length (sr_body req)) \<le> max 0 (wc_max_payload_size (we_config E))"
    by (auto simp: req delivery_request_def Let_def take_is_prefix split: option.splits)
  moreover have "sr_url req = wh_url w" "sr_event req = dl_event d" "sr_delivery req = dl_id d"
    by (simp_all add: req delivery_request_def Let_def)
  ultimately show ?thesis using w by blast
qed

section \<open>Replay\<close>

text \<open>
  A replay resets the row and touches neither the queue nor what was sent. No message waits for a
  finished delivery, so after its replay it is queued without a message: no worker gets it, the
  reaper does not look at it, and another replay is refused.
\<close>

theorem replay_leaves_delivery_unsent:
  assumes reach: "hook_reach s" and row: "row s i = Some d" and st: "dl_status d \<in> {Delivered, Failed}"
    and run: "ReplayDelivery E s i = (Inr d', s')"
  shows "ws_queue s' = ws_queue s \<and> ws_sent s' = ws_sent s \<and> waiting (ws_queue s') i = 0
    \<and> (\<exists>r. row s' i = Some r \<and> dl_status r = Queued)
    \<and> (\<exists>err s2. ReplayDelivery E' s' i = (Inl err, s2) \<and> s2 = s')"
proof -
  have "waiting (ws_queue s) i = 0"
    using hook_reach_inv [OF reach] row st by (auto simp: delivery_inv_def ok_at_def row_ok_def)
  moreover obtain res s1 where u: "delivery_update_status E s i Queued delivery_Replay = (res, s1)" by fastforce
  moreover have "s1 = s'" "res = Inr ()"
    using run u by (auto simp: ReplayDelivery_def split: sum.splits if_splits)
  ultimately have "ws_queue s' = ws_queue s \<and> ws_sent s' = ws_sent s \<and> waiting (ws_queue s') i = 0
      \<and> (\<exists>r. row s' i = Some r \<and> dl_status r = Queued)"
    by (auto elim!: update_status_cases)
  moreover from this obtain r where "row s' i = Some r" "dl_status r = Queued" by blast
  then have "\<exists>err s2. ReplayDelivery E' s' i = (Inl err, s2) \<and> s2 = s'"
    by (auto simp: ReplayDelivery_def delivery_find_by_id_def row_def CanReplay_def split: if_splits)
  ultimately show ?thesis by blast
qed

section \<open>Administration\<close>

datatype hook_request = RCreate create_webhook | RUpdate uuid update_webhook | RDelete uuid | RReplay uuid uuid

fun reply_result :: "'a http_reply \<times> 's \<Rightarrow> unit result \<times> 's" where
  "reply_result (Reply n x, s) = (Inr (), s)"
| "reply_result (Problem n c m, s) = (Inl (NewAppError c m n), s)"

fun hook_run :: "hook_env \<Rightarrow> webhook_state \<Rightarrow> caller \<times> hook_request \<Rightarrow> unit result \<times> webhook_state" where
  "hook_run E s (c, RCreate req) = reply_result (WH_Create E s c req)"
| "hook_run E s (c, RUpdate i req) = reply_result (WH_Update E s c i req)"
| "hook_run E s (c, RDelete i) = reply_result (WH_SoftDelete E s c i)"
| "hook_run E s (c, RReplay i d) = reply_result (WH_ReplayDelivery E s c i d)"

text \<open>The permission, and for a request about a webhook that it is one of the caller's organization.\<close>

fun hook_granted :: "hook_env \<Rightarrow> webhook_state \<Rightarrow> caller \<times> hook_request \<Rightarrow> bool" where
  "hook_granted E s (c, req) \<longleftrightarrow> hook_allowed E c ''manage'' \<and>
     (case (case req of RCreate _ \<Rightarrow> None | RUpdate i _ \<Rightarrow> Some i | RDelete i \<Rightarrow> Some i | RReplay i _ \<Rightarrow> Some i) of
        None \<Rightarrow> True
      | Some i \<Rightarrow> (case Webhook_GetByID E s i of Inl _ \<Rightarrow> False | Inr w \<Rightarrow> hook_isOwner w (ca_org_ptr c) (ca_has_org c)))"

lemma reply_result_problem: "reply_result (Problem n c m, s) = (r, s') \<Longrightarrow> s' = s \<and> (\<exists>e. r = Inl e)"
  by auto

lemma owned_hook_denied:
  assumes "\<not> (hook_allowed E c act \<and> (case Webhook_GetByID E s i of Inl _ \<Rightarrow> False
    | Inr w \<Rightarrow> hook_isOwner w (ca_org_ptr c) (ca_has_org c)))"
  shows "\<exists>e. reply_result (owned_hook E s c act i k) = (Inl e, s)"
proof -
  have "\<exists>e. reply_result (problem_of msg err, s) = (Inl e, s)" for msg err
    by (cases err) (auto split: prod.splits)
  with assms show ?thesis by (auto simp: owned_hook_def no_permission_def split: sum.splits)
qed

interpretation hook_admin: guarded hook_run hook_granted
proof
  fix E s r
  assume denied: "\<not> hook_granted E s r"
  obtain c req where r: "r = (c, req)" by fastforce
  show "\<exists>e. hook_run E s r = (Inl e, s)"
  proof (cases req)
    case (RCreate x)
    with denied r show ?thesis by (simp add: WH_Create_def no_permission_def)
  next
    case (RUpdate i x)
    with denied r show ?thesis unfolding r by (simp only: hook_run.simps WH_Update_def) (rule owned_hook_denied, simp)
  next
    case (RDelete i)
    with denied r show ?thesis unfolding r by (simp only: hook_run.simps WH_SoftDelete_def) (rule owned_hook_denied, simp)
  next
    case (RReplay i d)
    with denied r show ?thesis unfolding r by (simp only: hook_run.simps WH_ReplayDelivery_def) (rule owned_hook_denied, simp)
  qed
qed

lemma reply_result_state [simp]: "snd (reply_result x) = snd x"
  by (cases x rule: reply_result.cases) simp_all

lemma owned_hook_cases:
  obtains (refused) "snd (owned_hook E s c act i k) = s"
    | (owned) w where "Webhook_GetByID E s i = Inr w" "hook_isOwner w (ca_org_ptr c) (ca_has_org c)"
        "snd (owned_hook E s c act i k) = snd (k w)"
proof (cases "hook_allowed E c act \<and> (case Webhook_GetByID E s i of Inl _ \<Rightarrow> False
    | Inr w \<Rightarrow> hook_isOwner w (ca_org_ptr c) (ca_has_org c))")
  case True
  then obtain w where "Webhook_GetByID E s i = Inr w" "hook_isOwner w (ca_org_ptr c) (ca_has_org c)"
    by (auto split: sum.splits)
  with True show ?thesis by (intro owned [of w]) (simp_all add: owned_hook_def)
next
  case False
  then have "snd (owned_hook E s c act i k) = s" by (auto simp: owned_hook_def split: sum.splits)
  then show ?thesis by (rule refused)
qed

lemma hook_find_row: "hook_find_by_id E s q i = Inr w \<Longrightarrow> w \<in> set (ws_hooks s) \<and> wh_id w = i"
  by (auto simp: hook_find_by_id_def split: if_splits option.splits dest!: tbl_first_SomeD)

lemma update_fields_id: "update_fields E req w = Inr (w1, changed) \<Longrightarrow> wh_id w1 = wh_id w"
  by (auto simp: update_fields_def Let_def split: sum.splits)

text \<open>The state after a handler is the one before it, or that after one query of the repository.\<close>

lemma snd_of_result [simp]:
  "snd (case x of (Inl err, s') \<Rightarrow> (f err, s') | (Inr y, s') \<Rightarrow> (g y, s')) = snd x"
  by (auto split: prod.split sum.split)

lemma Webhook_Create_state:
  "snd (Webhook_Create E s orgID req) = s \<or> (\<exists>w. snd (Webhook_Create E s orgID req) = snd (hook_create E s w))"
  unfolding Webhook_Create_def Let_def
  by (cases "validate_name ''webhook name is required'' (cw_name req)"; cases "validate_url E (cw_url req)";
      cases "validateEvents (cw_events req)"; cases "generateSecret (we_random E)") auto

lemma Webhook_Update_state:
  "snd (Webhook_Update E s i req) = s
   \<or> (\<exists>w1. wh_id w1 = i \<and> snd (Webhook_Update E s i req) = snd (hook_save E s w1))"
proof (cases "hook_find_by_id E s (QHookReread i) i")
  case found: (Inr w0)
  show ?thesis
  proof (cases "update_fields E req w0")
    case (Inr p)
    obtain w1 changed where p: "p = (w1, changed)" by fastforce
    have "wh_id (w1\<lparr>wh_secret := x\<rparr>) = i" for x
      using update_fields_id Inr p hook_find_row [OF found] by fastforce
    note id = this
    show ?thesis
    proof (cases "if changed then generateSecret (we_random E) else Inr (wh_secret w1)")
      case (Inr secret)
      with id [of secret] show ?thesis
        unfolding Webhook_Update_def found sum.case \<open>update_fields E req w0 = Inr p\<close> p prod.case
        by (intro disjI2 exI [of _ "w1\<lparr>wh_secret := secret\<rparr>"]) simp
    qed (simp add: Webhook_Update_def found Inr p)
  qed (simp add: Webhook_Update_def found)
qed (simp add: Webhook_Update_def)

lemma repository_keeps:
  assumes "w \<in> set (ws_hooks s)"
  shows "w \<in> set (ws_hooks (snd (hook_create E s w')))"
    and "wh_id w \<noteq> wh_id w' \<Longrightarrow> w \<in> set (ws_hooks (snd (hook_save E s w')))"
    and "wh_id w \<noteq> i \<Longrightarrow> w \<in> set (ws_hooks (snd (hook_soft_delete E s i)))"
  using assms tbl_updateI [OF assms, of "\<lambda>r. wh_id r = wh_id w'" "\<lambda>r. w'\<lparr>wh_updated_at := re_now E\<rparr>"]
    tbl_updateI [OF assms, of "\<lambda>r. wh_id r = i \<and> hook_visible r" "\<lambda>r. r\<lparr>wh_deleted_at := Some (re_now E)\<rparr>"]
  by (simp_all add: hook_create_def hook_save_def hook_soft_delete_def Let_def)

lemma ReplayDelivery_hooks: "ws_hooks (snd (ReplayDelivery E s i)) = ws_hooks s"
proof -
  obtain res s1 where u: "delivery_update_status E s i Queued delivery_Replay = (res, s1)" by fastforce
  then have "ws_hooks s1 = ws_hooks s" by (auto elim!: update_status_cases)
  then show ?thesis using u by (auto simp: ReplayDelivery_def split: sum.splits)
qed

text \<open>A handler of one webhook leaves a webhook of another organization alone.\<close>

lemma owned_hook_keeps:
  assumes "distinct (map wh_id (ws_hooks s))" and "w \<in> set (ws_hooks s)"
    and "wh_org w = Some org" and "ca_org_ptr c \<noteq> Some org"
    and keeps: "\<And>w0. wh_id w \<noteq> i \<Longrightarrow> w \<in> set (ws_hooks (snd (k w0)))"
  shows "w \<in> set (ws_hooks (snd (owned_hook E s c act i k)))"
proof (rule owned_hook_cases [of E s c act i k])
  fix w0
  assume w0: "Webhook_GetByID E s i = Inr w0" "hook_isOwner w0 (ca_org_ptr c) (ca_has_org c)"
    "snd (owned_hook E s c act i k) = snd (k w0)"
  have "wh_id w \<noteq> i"
  proof
    assume "wh_id w = i"
    with hook_find_row [of E s "QHookByID i" i w0] w0(1) have "w0 \<in> set (ws_hooks s)" "wh_id w0 = wh_id w"
      by (simp_all add: Webhook_GetByID_def)
    then have "w0 = w" using assms(1,2) by (auto simp: distinct_map dest: inj_onD)
    with w0(2) assms(3,4) show False by (auto simp: hook_isOwner_def IsGlobal_def split: if_splits)
  qed
  with keeps w0(3) show ?thesis by simp
qed (use assms(2) in simp)

text \<open>
  Whatever webhook request a caller sends, a webhook of another organization stays as it was;
  and a request without the permission, or about such a webhook, changes nothing at all.
\<close>

theorem foreign_webhooks_untouched:
  assumes "distinct (map wh_id (ws_hooks s))" and "w \<in> set (ws_hooks s)"
    and "wh_org w = Some org" and "ca_org_ptr c \<noteq> Some org"
  shows "w \<in> set (ws_hooks (snd (hook_run E s (c, req))))
    \<and> (\<not> hook_granted E s (c, req) \<longrightarrow> snd (hook_run E s (c, req)) = s)"
proof
  note keeps = owned_hook_keeps [OF assms]
  show "w \<in> set (ws_hooks (snd (hook_run E s (c, req))))"
  proof (cases req)
    case (RCreate x)
    have "snd (hook_run E s (c, req)) \<in> {s, snd (Webhook_Create E s (ca_org_ptr c) x)}"
      unfolding RCreate by (simp add: WH_Create_def)
    then show ?thesis
      using Webhook_Create_state [of E s "ca_org_ptr c" x] repository_keeps(1) [OF assms(2)] assms(2) by auto
  next
    case (RUpdate i x)
    have "w \<in> set (ws_hooks (snd (Webhook_Update E s i x)))" if "wh_id w \<noteq> i"
      using that Webhook_Update_state [of E s i x] repository_keeps(2) [OF assms(2)] assms(2) by metis
    then show ?thesis unfolding RUpdate hook_run.simps WH_Update_def reply_result_state by (intro keeps) simp
  next
    case (RDelete i)
    have "w \<in> set (ws_hooks (snd (Webhook_SoftDelete E s i)))" if "wh_id w \<noteq> i"
      using that repository_keeps(3) [OF assms(2)] by (simp add: Webhook_SoftDelete_def)
    then show ?thesis unfolding RDelete hook_run.simps WH_SoftDelete_def reply_result_state by (intro keeps) simp
  next
    case (RReplay i d)
    have "snd (case ReplayDelivery E s d of (Inl err, s') \<Rightarrow> (problem_of msg err, s')
        | (Inr r, s') \<Rightarrow> if dl_webhook r \<noteq> i then (foreign_delivery, s') else (Reply 200 r, s')) = snd (ReplayDelivery E s d)" for msg
      by (auto split: prod.split sum.split)
    then show ?thesis unfolding RReplay hook_run.simps WH_ReplayDelivery_def reply_result_state
      using assms(2) by (intro keeps) (simp add: ReplayDelivery_hooks)
  qed
  show "\<not> hook_granted E s (c, req) \<longrightarrow> snd (hook_run E s (c, req)) = s"
    using hook_admin.denied [of E s "(c, req)"] by auto
qed

section \<open>Concrete runs\<close>

definition demo_hook :: webhook where
  "demo_hook = \<lparr>wh_id = ''w1'', wh_org = Some ''o1'', wh_name = ''n'', wh_url = ''https://example.com'', wh_secret = ''whsec_61'',
     wh_events = JArr [JStr ''user.created''], wh_active = Some True, wh_rate_limit = 100, wh_created_at = 0,
     wh_updated_at = 0, wh_deleted_at = None\<rparr>"

definition demo_worker :: worker_env where
  "demo_worker = \<lparr>re_now = 100 * second, re_fault = (\<lambda>_. False), re_new_id = ''n'', re_audit_full = False,
     re_enforce = (\<lambda>_ _ _ _. Inr True), we_config = DefaultWebhookConfig, we_ssrf = ToInternal app_default_ssrf,
     we_lookup = (\<lambda>_. None), we_parse_url = (\<lambda>_. Some (''https'', ''example.com'')), we_random = Some ''a'',
     we_limiter = None, we_has_queue = True, we_jsonb = Some, we_delivery_id = (\<lambda>i. ''d'' @ i),
     we_show_duration = (\<lambda>_. []), wk_limiter = (\<lambda>_. True), wk_hmac = (\<lambda>k m. ''x''),
     wk_http = (\<lambda>r. Inr (503, [])), wk_sent_at = 101 * second, wk_done_at = 102 * second, wk_duration_ms = 1000\<rparr>"

definition demo_start :: webhook_state where
  "demo_start = \<lparr>ws_hooks = [demo_hook], ws_deliveries = [], ws_queue = \<lparr>wq_deliveries = [], wq_processing = []\<rparr>,
    ws_sent = [], ws_delivered_count = 0, ws_failed_count = 0, ws_limited_count = 0\<rparr>"

definition demo_queued :: webhook_state where
  "demo_queued = snd (DispatchEvent (hook_env_of demo_worker) demo_start ''user.created'' (Some ''1'') (Some ''o1''))"

definition demo_tried :: webhook_state where
  "demo_tried = processLoop_tick demo_worker demo_queued"

lemmas demo_defs = demo_hook_def demo_worker_def demo_start_def hook_env.defs

lemma demo_start_reach: "hook_reach demo_start"
  using hook_reach.hooks [OF hook_reach.init, of "[demo_hook]"] by (simp add: demo_start_def)

lemma demo_fresh: "fresh_deliveries (hook_env_of demo_worker) demo_start"
  by (simp add: fresh_deliveries_def unused_id_def demo_defs delivery_ids_def waiting_def sends_def)

lemma demo_tried_reach: "hook_reach demo_tried"
  using hook_reach.tick [OF hook_reach.event [OF demo_start_reach demo_fresh]] by (simp add: demo_tried_def demo_queued_def)

lemma demo_works: "dispatch_works (hook_env_of demo_worker) ''1'' ''1''"
  by (simp add: dispatch_works_def demo_defs truncate_payload_def DefaultWebhookConfig_def)

lemma demo_matches: "hook_matches ''user.created'' (Some ''o1'') demo_hook"
  by (simp add: hook_matches_def hook_IsActive_def IsSubscribedTo_def demo_hook_def)

definition demo_delivery :: webhook_delivery where
  "demo_delivery = queued_delivery (hook_env_of demo_worker) demo_hook ''user.created'' (Some ''1'')"

lemma demo_queued_is:
  "demo_queued = demo_start\<lparr>ws_deliveries := [demo_delivery],
     ws_queue := \<lparr>wq_deliveries = [(\<lparr>qm_delivery = ''dw1'', qm_queued_at = 100 * second\<rparr>, 100)], wq_processing = []\<rparr>\<rparr>"
  using dispatch_to_works [OF demo_works demo_matches]
  by (simp add: demo_queued_def DispatchEvent_def find_for_event_dispatch_def demo_defs hook_visible_def demo_delivery_def
      Enqueue_def ZAdd_def unix_time_def second_def)

lemmas demo_pass_defs = processLoop_tick_def Dequeue_def zrange_due_def unix_time_def second_def processDelivery_def
  begin_delivery_def delivery_find_by_id_def tbl_first_def delivery_update_status_def tbl_count_def tbl_update_def ZRem_def
  demo_delivery_def queued_delivery_def hook_find_by_id_def hook_visible_def hook_IsActive_def finish_delivery_def
  markFailedAndMaybeRetry_def CanRetry_def Let_def DefaultWebhookConfig_def unprocess_def RemoveFromProcessing_def
  enqueue_retry_def EnqueueRetry_def

lemma demo_tried_is:
  "ws_sent demo_tried = [delivery_request demo_worker demo_delivery demo_hook]"
  "map (\<lambda>d. (dl_status d, dl_attempt d)) (ws_deliveries demo_tried) = [(Queued, 2)]"
  unfolding demo_tried_def demo_queued_is
  by (simp_all add: demo_defs demo_pass_defs)



lemma dispatch_confined_witness:
  "ws_sent demo_queued = ws_sent demo_start"
proof -
  have "DispatchEvent (hook_env_of demo_worker) demo_start ''user.created'' (Some ''1'') (Some ''o1'') =
      (fst (DispatchEvent (hook_env_of demo_worker) demo_start ''user.created'' (Some ''1'') (Some ''o1'')), demo_queued)"
    by (simp add: demo_queued_def)
  from dispatch_confined [OF this] show ?thesis by blast
qed

lemma dispatch_reaches_all_witness:
  "\<exists>s'. DispatchEvent (hook_env_of demo_worker) demo_start ''user.created'' (Some ''1'') (Some ''o1'') = (Inr (), s')
    \<and> ws_deliveries s' = [demo_delivery]"
  using dispatch_reaches_all [OF demo_works, of demo_start "''user.created''" "Some ''o1''"] demo_matches
  by (auto simp: demo_start_def hook_visible_def demo_delivery_def demo_hook_def)

lemma sent_request_verifies_witness:
  "\<exists>d req. fst (begin_delivery demo_worker demo_queued ''dw1'') = Some (d, req) \<and> sr_url req = ''https://example.com''
    \<and> VerifyWebhookSignature (\<lambda>k m. ''x'') 160 ''whsec_61'' (sr_signature req) (sr_body req) 300"
proof -
  have "\<exists>s'. begin_delivery demo_worker demo_queued ''dw1'' =
      (Some (demo_delivery, delivery_request demo_worker demo_delivery demo_hook), s')"
    unfolding demo_queued_is by (simp add: demo_defs demo_pass_defs)
  then obtain s' where run: "begin_delivery demo_worker demo_queued ''dw1'' =
      (Some (demo_delivery, delivery_request demo_worker demo_delivery demo_hook), s')" ..
  have "ws_hooks demo_queued = [demo_hook]" "wk_hmac demo_worker = (\<lambda>k m. ''x'')"
    by (simp_all add: demo_queued_is demo_start_def demo_worker_def)
  moreover have "unix_time (wk_sent_at demo_worker) = 101" by (simp add: demo_worker_def unix_time_def second_def)
  ultimately show ?thesis
    using sent_request_verifies [OF run, of 160 300] run by (auto simp: demo_hook_def)
qed

definition demo_delivered :: webhook_state where
  "demo_delivered = processLoop_tick (demo_worker\<lparr>wk_http := (\<lambda>r. Inr (200, []))\<rparr>) demo_queued"

lemma replay_leaves_delivery_unsent_witness:
  "\<exists>d s'. ReplayDelivery (hook_env_of demo_worker) demo_delivered ''dw1'' = (Inr d, s') \<and> waiting (ws_queue s') ''dw1'' = 0"
proof -
  have reach: "hook_reach demo_delivered"
    using hook_reach.tick [OF hook_reach.event [OF demo_start_reach demo_fresh]]
    by (simp add: demo_delivered_def demo_queued_def)
  have "\<exists>d. row demo_delivered ''dw1'' = Some d \<and> dl_status d = Delivered"
    unfolding demo_delivered_def demo_queued_is row_def by (simp add: demo_defs demo_pass_defs)
  then obtain d where d: "row demo_delivered ''dw1'' = Some d" "dl_status d \<in> {Delivered, Failed}" by auto
  have "\<exists>d' s'. ReplayDelivery (hook_env_of demo_worker) demo_delivered ''dw1'' = (Inr d', s')"
    unfolding demo_delivered_def demo_queued_is
    by (simp add: demo_defs demo_pass_defs ReplayDelivery_def CanReplay_def delivery_Replay_def)
  then obtain d' s' where run: "ReplayDelivery (hook_env_of demo_worker) demo_delivered ''dw1'' = (Inr d', s')" by blast
  from replay_leaves_delivery_unsent [OF reach d run] run show ?thesis by blast
qed

lemma foreign_webhooks_untouched_witness:
  "demo_hook \<in> set (ws_hooks (snd (hook_run (hook_env_of demo_worker) demo_start
     (\<lparr>ca_user = ''u'', ca_has_org = True, ca_org = ''o2''\<rparr>, RDelete ''w1''))))"
proof -
  let ?c = "\<lparr>ca_user = ''u'', ca_has_org = True, ca_org = ''o2''\<rparr>"
  have "distinct (map wh_id (ws_hooks demo_start))" "demo_hook \<in> set (ws_hooks demo_start)"
    "wh_org demo_hook = Some ''o1''" "ca_org_ptr ?c \<noteq> Some ''o1''"
    by (simp_all add: demo_start_def demo_hook_def ca_org_ptr_def)
  from foreign_webhooks_untouched [OF this] show ?thesis by blast
qed

end
