(* ===== verification/Job.thy ===== *)
theory Job
  imports Request_Env
begin

text \<open>
  Background jobs: the row and its states (\<open>domain/job.go\<close>), the repository over Redis
  (\<open>repository/job.go\<close>) and the service (\<open>service/job.go\<close>).

  A job is stored as JSON under a key that expires seven days after it was last written; sets of
  identifiers index the jobs by status and by user, and the queue is a sorted set. A write to Redis
  is a pipeline of commands; when it fails, a prefix of the commands has been executed, of any
  length up to all of them. The identifiers in Redis are those that the code wrote, so that
  \<open>uuid.Parse\<close> of one of them succeeds. An operation of the repository sees one instant.
\<close>

section \<open>Rows (domain/job.go)\<close>

datatype job_status = JobPending | JobProcessing | JobCompleted | JobFailed | JobDead

record job =
  jb_id :: uuid
  jb_type :: string
  jb_payload :: string
  jb_status :: job_status
  jb_attempts :: int
  jb_max :: int
  jb_last_error :: string
  jb_result :: "string option"
  jb_created :: instant
  jb_started :: "instant option"
  jb_completed :: "instant option"
  jb_next_retry :: "instant option"
  jb_callback :: string
  jb_user :: uuid

record job_response =
  jr_id :: uuid
  jr_type :: string
  jr_status :: job_status
  jr_result :: "string option"
  jr_attempts :: int
  jr_max :: int
  jr_last_error :: string
  jr_next_retry :: "instant option"
  jr_created :: instant
  jr_started :: "instant option"
  jr_completed :: "instant option"
  jr_callback :: string

definition job_ToResponse :: "job \<Rightarrow> job_response" where
  "job_ToResponse j = \<lparr>jr_id = jb_id j, jr_type = jb_type j, jr_status = jb_status j, jr_result = jb_result j,
     jr_attempts = jb_attempts j, jr_max = jb_max j, jr_last_error = jb_last_error j,
     jr_next_retry = jb_next_retry j, jr_created = jb_created j, jr_started = jb_started j,
     jr_completed = jb_completed j, jr_callback = jb_callback j\<rparr>"

definition NewJob :: "uuid \<Rightarrow> instant \<Rightarrow> string \<Rightarrow> string \<Rightarrow> uuid \<Rightarrow> job" where
  "NewJob i now typ payload user = \<lparr>jb_id = i, jb_type = typ, jb_payload = payload, jb_status = JobPending,
     jb_attempts = 1, jb_max = 3, jb_last_error = [], jb_result = None, jb_created = now, jb_started = None,
     jb_completed = None, jb_next_retry = None, jb_callback = [], jb_user = user\<rparr>"

definition IsRetryable :: "job \<Rightarrow> bool" where
  "IsRetryable j = (jb_status j = JobFailed \<and> jb_attempts j < jb_max j)"

fun CanTransitionTo :: "job \<Rightarrow> job_status \<Rightarrow> bool" where
  "CanTransitionTo j new =
     (case jb_status j of
        JobPending \<Rightarrow> new = JobProcessing
      | JobProcessing \<Rightarrow> new = JobCompleted \<or> new = JobFailed
      | JobFailed \<Rightarrow> if new = JobProcessing then jb_attempts j < jb_max j else new = JobDead
      | JobCompleted \<Rightarrow> False
      | JobDead \<Rightarrow> False)"

section \<open>Redis\<close>

text \<open>A set or sorted set with the instant at which its key expires; an empty one has no key.\<close>

type_synonym 'a keyed = "'a list \<times> instant option"

definition live :: "instant \<Rightarrow> 'a keyed \<Rightarrow> 'a keyed" where
  "live now x = (case x of (xs, Some t) \<Rightarrow> if t \<le> now then ([], None) else x | (xs, None) \<Rightarrow> x)"

definition with_members :: "'a keyed \<Rightarrow> 'a list \<Rightarrow> 'a keyed" where
  "with_members x xs = (if xs = [] then ([], None) else (xs, snd x))"

record job_store =
  js_data :: "uuid \<rightharpoonup> job \<times> instant"
  js_users :: "uuid \<Rightarrow> (uuid \<times> int) keyed"
  js_index :: "job_status \<Rightarrow> uuid keyed"
  js_queue :: "(uuid \<times> int) list"

datatype job_cmd =
    CSet job | CDel uuid
  | CUserAdd uuid uuid int | CUserRem uuid uuid | CUserExpire uuid
  | CStatusAdd job_status uuid | CStatusRem job_status uuid | CStatusExpire job_status
  | CQueueAdd uuid int | CQueueRem uuid

definition jobDataTTL :: duration where
  "jobDataTTL = 7 * 24 * 3600 * second"

definition expire_at :: "instant \<Rightarrow> 'a keyed \<Rightarrow> 'a keyed" where
  "expire_at t x = (if fst x = [] then x else (fst x, Some t))"

definition put_score :: "(uuid \<times> int) list \<Rightarrow> uuid \<Rightarrow> int \<Rightarrow> (uuid \<times> int) list" where
  "put_score z i score = filter (\<lambda>(j, s). j \<noteq> i) z @ [(i, score)]"

definition drop_score :: "(uuid \<times> int) list \<Rightarrow> uuid \<Rightarrow> (uuid \<times> int) list" where
  "drop_score z i = filter (\<lambda>(j, s). j \<noteq> i) z"

fun redis_do :: "instant \<Rightarrow> job_cmd \<Rightarrow> job_store \<Rightarrow> job_store" where
  "redis_do now (CSet j) s = s\<lparr>js_data := (js_data s)(jb_id j \<mapsto> (j, now + jobDataTTL))\<rparr>"
| "redis_do now (CDel i) s = s\<lparr>js_data := (js_data s)(i := None)\<rparr>"
| "redis_do now (CUserAdd u i score) s =
     s\<lparr>js_users := (js_users s)(u := (let x = live now (js_users s u) in with_members x (put_score (fst x) i score)))\<rparr>"
| "redis_do now (CUserRem u i) s =
     s\<lparr>js_users := (js_users s)(u := (let x = live now (js_users s u) in with_members x (drop_score (fst x) i)))\<rparr>"
| "redis_do now (CUserExpire u) s =
     s\<lparr>js_users := (js_users s)(u := expire_at (now + jobDataTTL) (live now (js_users s u)))\<rparr>"
| "redis_do now (CStatusAdd st i) s =
     s\<lparr>js_index := (js_index s)(st := (let x = live now (js_index s st) in with_members x (List.insert i (fst x))))\<rparr>"
| "redis_do now (CStatusRem st i) s =
     s\<lparr>js_index := (js_index s)(st := (let x = live now (js_index s st) in with_members x (removeAll i (fst x))))\<rparr>"
| "redis_do now (CStatusExpire st) s =
     s\<lparr>js_index := (js_index s)(st := expire_at (now + jobDataTTL) (live now (js_index s st)))\<rparr>"
| "redis_do now (CQueueAdd i score) s = s\<lparr>js_queue := put_score (js_queue s) i score\<rparr>"
| "redis_do now (CQueueRem i) s = s\<lparr>js_queue := drop_score (js_queue s) i\<rparr>"

definition redis_error :: go_error where
  "redis_error = Opaque ''redis: connection refused''"

definition pipe :: "instant \<Rightarrow> nat option \<Rightarrow> job_cmd list \<Rightarrow> job_store \<Rightarrow> unit result \<times> job_store" where
  "pipe now fault cmds s =
     (case fault of
        None \<Rightarrow> (Inr (), fold (redis_do now) cmds s)
      | Some k \<Rightarrow> (Inl (WrapInternal redis_error), fold (redis_do now) (take k cmds) s))"

text \<open>The order of a sorted set: by score, and for equal scores as texts.\<close>

fun text_less :: "string \<Rightarrow> string \<Rightarrow> bool" where
  "text_less s [] = False"
| "text_less [] (d # t) = True"
| "text_less (c # s) (d # t) = ((of_char c :: nat) < of_char d \<or> c = d \<and> text_less s t)"

definition score_less :: "uuid \<times> int \<Rightarrow> uuid \<times> int \<Rightarrow> bool" where
  "score_less x y = (snd x < snd y \<or> snd x = snd y \<and> text_less (fst x) (fst y))"

fun zinsert :: "uuid \<times> int \<Rightarrow> (uuid \<times> int) list \<Rightarrow> (uuid \<times> int) list" where
  "zinsert x [] = [x]"
| "zinsert x (y # z) = (if score_less y x then y # zinsert x z else x # y # z)"

definition zsort :: "(uuid \<times> int) list \<Rightarrow> (uuid \<times> int) list" where
  "zsort z = foldr zinsert z []"

definition queue_min :: "(uuid \<times> int) list \<Rightarrow> uuid option" where
  "queue_min z = (case zsort z of [] \<Rightarrow> None | (i, score) # rest \<Rightarrow> Some i)"

section \<open>Environment\<close>

text \<open>A fault of a call that only reads loses the answer; its number does not matter.\<close>

datatype job_call =
    JGet uuid | JReget uuid | JSet uuid | JPipe uuid | JEnqueue uuid
  | JRange uuid | JCard uuid | JPop | JMembers

record job_config =
  jc_max_retries :: int
  jc_timeout_seconds :: int
  jc_stuck_seconds :: int

definition DefaultJobConfig :: job_config where
  "DefaultJobConfig = \<lparr>jc_max_retries = 3, jc_timeout_seconds = 30, jc_stuck_seconds = 300\<rparr>"

record job_env =
  je_now :: instant
  je_fault :: "job_call \<Rightarrow> nat option"
  je_config :: job_config
  je_new_id :: uuid

section \<open>Repository (repository/job.go)\<close>

definition unix_seconds :: "instant \<Rightarrow> int" where
  "unix_seconds t = t div second"

definition unix_milli :: "instant \<Rightarrow> int" where
  "unix_milli t = t div 1000000"

definition job_Submit :: "('e) job_env_scheme \<Rightarrow> job_store \<Rightarrow> job \<Rightarrow> job result \<times> job_store" where
  "job_Submit E s job =
     (let j = job\<lparr>jb_status := JobPending, jb_attempts := 1, jb_created := je_now E\<rparr>
      in apfst (map_sum id (\<lambda>_. j))
        (pipe (je_now E) (je_fault E (JPipe (jb_id j)))
          [CSet j,
           CUserAdd (jb_user j) (jb_id j) (unix_seconds (jb_created j)), CUserExpire (jb_user j),
           CStatusAdd (jb_status j) (jb_id j), CStatusExpire (jb_status j),
           CQueueAdd (jb_id j) (unix_milli (jb_created j))] s))"

definition stored_job :: "instant \<Rightarrow> job_store \<Rightarrow> uuid \<Rightarrow> job option" where
  "stored_job now s i = (case js_data s i of None \<Rightarrow> None | Some (j, t) \<Rightarrow> if t \<le> now then None else Some j)"

definition job_read :: "('e) job_env_scheme \<Rightarrow> job_store \<Rightarrow> job_call \<Rightarrow> uuid \<Rightarrow> job result" where
  "job_read E s call i =
     (if je_fault E call \<noteq> None then Inl (WrapInternal redis_error)
      else case stored_job (je_now E) s i of None \<Rightarrow> Inl (Sentinel ErrNotFound) | Some j \<Rightarrow> Inr j)"

definition job_GetByID :: "('e) job_env_scheme \<Rightarrow> job_store \<Rightarrow> uuid \<Rightarrow> job result" where
  "job_GetByID E s i = job_read E s (JGet i) i"

definition job_Update :: "('e) job_env_scheme \<Rightarrow> job_store \<Rightarrow> job \<Rightarrow> unit result \<times> job_store" where
  "job_Update E s j = pipe (je_now E) (je_fault E (JSet (jb_id j))) [CSet j] s"

text \<open>The jobs of a page that cannot be read are skipped; the total counts the index.\<close>

definition zrevrange :: "(uuid \<times> int) list \<Rightarrow> int \<Rightarrow> int \<Rightarrow> uuid list" where
  "zrevrange z offset limit = map fst (take (nat limit) (drop (nat offset) (rev (zsort z))))"

fun job_fetch :: "('e) job_env_scheme \<Rightarrow> job_store \<Rightarrow> job_status option \<Rightarrow> uuid list \<Rightarrow> job list" where
  "job_fetch E s st [] = []"
| "job_fetch E s st (i # is) =
     (case job_GetByID E s i of
        Inl err \<Rightarrow> job_fetch E s st is
      | Inr j \<Rightarrow> if st \<noteq> None \<and> st \<noteq> Some (jb_status j) then job_fetch E s st is else j # job_fetch E s st is)"

definition job_ListByUser ::
    "('e) job_env_scheme \<Rightarrow> job_store \<Rightarrow> uuid \<Rightarrow> job_status option \<Rightarrow> int \<Rightarrow> int \<Rightarrow> (job list \<times> nat) result" where
  "job_ListByUser E s user st limit offset =
     (if je_fault E (JRange user) \<noteq> None then Inl (WrapInternal redis_error)
      else if je_fault E (JCard user) \<noteq> None then Inl (WrapInternal redis_error)
      else let z = fst (live (je_now E) (js_users s user))
           in Inr (job_fetch E s st (zrevrange z offset limit), length z))"

definition job_Enqueue :: "('e) job_env_scheme \<Rightarrow> job_store \<Rightarrow> uuid \<Rightarrow> instant \<Rightarrow> unit result \<times> job_store" where
  "job_Enqueue E s i nextRetryAt =
     pipe (je_now E) (je_fault E (JEnqueue i)) [CQueueAdd i (unix_milli nextRetryAt)] s"

text \<open>\<open>ZPOPMIN\<close> as a call: the answer may be lost after the member has been removed.\<close>

definition job_pop :: "('e) job_env_scheme \<Rightarrow> job_store \<Rightarrow> uuid option result \<times> job_store" where
  "job_pop E s =
     (case queue_min (js_queue s) of
        None \<Rightarrow> (if je_fault E JPop = None then (Inr None, s) else (Inl (WrapInternal redis_error), s))
      | Some i \<Rightarrow>
          apfst (map_sum id (\<lambda>_. Some i)) (pipe (je_now E) (je_fault E JPop) [CQueueRem i] s))"

definition job_Dequeue :: "('e) job_env_scheme \<Rightarrow> job_store \<Rightarrow> job option result \<times> job_store" where
  "job_Dequeue E s =
     (case job_pop E s of
        (Inl err, s1) \<Rightarrow> (Inl err, s1)
      | (Inr None, s1) \<Rightarrow> (Inr None, s1)
      | (Inr (Some i), s1) \<Rightarrow> (map_sum id Some (job_GetByID E s1 i), s1))"

text \<open>The write of a job, and then the move of its identifier between two indexes.\<close>

definition move_index :: "job_status \<Rightarrow> job_status \<Rightarrow> uuid \<Rightarrow> job_cmd list" where
  "move_index old new i = [CStatusRem old i, CStatusAdd new i, CStatusExpire new]"

definition write_and_move ::
    "('e) job_env_scheme \<Rightarrow> job_store \<Rightarrow> job \<Rightarrow> job_cmd list \<Rightarrow> unit result \<times> job_store" where
  "write_and_move E s j cmds =
     (case job_Update E s j of
        (Inl err, s1) \<Rightarrow> (Inl err, s1)
      | (Inr _, s1) \<Rightarrow> pipe (je_now E) (je_fault E (JPipe (jb_id j))) cmds s1)"

definition claimable :: "job \<Rightarrow> bool" where
  "claimable j = (jb_status j = JobPending \<or> jb_status j = JobFailed \<and> jb_attempts j < jb_max j)"

definition SetProcessing :: "('e) job_env_scheme \<Rightarrow> job_store \<Rightarrow> uuid \<Rightarrow> job result \<times> job_store" where
  "SetProcessing E s i =
     (case job_GetByID E s i of
        Inl err \<Rightarrow> (Inl err, s)
      | Inr job \<Rightarrow>
          if \<not> claimable job then (Inl (Sentinel ErrConflict), s)
          else let j = job\<lparr>jb_status := JobProcessing, jb_started := Some (je_now E)\<rparr>
               in apfst (map_sum id (\<lambda>_. j)) (write_and_move E s j (move_index (jb_status job) JobProcessing i)))"

definition SetCompleted :: "('e) job_env_scheme \<Rightarrow> job_store \<Rightarrow> uuid \<Rightarrow> string \<Rightarrow> unit result \<times> job_store" where
  "SetCompleted E s i res =
     (case job_GetByID E s i of
        Inl err \<Rightarrow> (Inl err, s)
      | Inr job \<Rightarrow>
          if \<not> CanTransitionTo job JobCompleted then (Inl (Sentinel ErrConflict), s)
          else write_and_move E s
            (job\<lparr>jb_status := JobCompleted, jb_result := Some res, jb_completed := Some (je_now E)\<rparr>)
            (move_index JobProcessing JobCompleted i))"

definition SetFailed ::
    "('e) job_env_scheme \<Rightarrow> job_store \<Rightarrow> uuid \<Rightarrow> string \<Rightarrow> instant option \<Rightarrow> unit result \<times> job_store" where
  "SetFailed E s i errMsg nextRetryAt =
     (case job_GetByID E s i of
        Inl err \<Rightarrow> (Inl err, s)
      | Inr job0 \<Rightarrow>
          let job = job0\<lparr>jb_last_error := errMsg\<rparr>
          in case (if jb_attempts job < jb_max job then nextRetryAt else None) of
            Some t \<Rightarrow>
              (case write_and_move E s
                  (job\<lparr>jb_attempts := jb_attempts job + 1, jb_status := JobFailed, jb_next_retry := Some t\<rparr>)
                  (move_index JobProcessing JobFailed i) of
                 (Inl err, s1) \<Rightarrow> (Inl err, s1)
               | (Inr _, s1) \<Rightarrow> job_Enqueue E s1 i t)
          | None \<Rightarrow>
              write_and_move E s
                (job\<lparr>jb_attempts := jb_attempts job + 1, jb_status := JobDead, jb_completed := Some (je_now E),
                     jb_next_retry := None\<rparr>)
                (move_index JobProcessing JobDead i))"

text \<open>The processing index in the order of the list; members whose job cannot be read are skipped.\<close>

definition started_before :: "instant \<Rightarrow> job \<Rightarrow> bool" where
  "started_before cutoff j = (case jb_started j of None \<Rightarrow> False | Some t \<Rightarrow> t < cutoff)"

definition GetStuckJobs :: "('e) job_env_scheme \<Rightarrow> job_store \<Rightarrow> duration \<Rightarrow> job list result" where
  "GetStuckJobs E s threshold =
     (if je_fault E JMembers \<noteq> None then Inl (WrapInternal redis_error)
      else Inr (filter (started_before (je_now E - threshold))
        (job_fetch E s None (fst (live (je_now E) (js_index s JobProcessing))))))"

definition ResetStuckJob :: "('e) job_env_scheme \<Rightarrow> job_store \<Rightarrow> job \<Rightarrow> instant \<Rightarrow> unit result \<times> job_store" where
  "ResetStuckJob E s job nextRetryAt =
     write_and_move E s
       (job\<lparr>jb_status := JobPending, jb_attempts := jb_attempts job + 1, jb_next_retry := Some nextRetryAt\<rparr>)
       [CStatusRem JobProcessing (jb_id job), CStatusAdd JobPending (jb_id job)]"

definition job_Delete :: "('e) job_env_scheme \<Rightarrow> job_store \<Rightarrow> uuid \<Rightarrow> unit result \<times> job_store" where
  "job_Delete E s i =
     (case job_GetByID E s i of
        Inl err \<Rightarrow> (Inl err, s)
      | Inr job \<Rightarrow> pipe (je_now E) (je_fault E (JPipe i))
          [CDel i, CQueueRem i, CUserRem (jb_user job) i, CStatusRem (jb_status job) i] s)"

section \<open>Service (service/job.go)\<close>

record submit_request =
  sq_type :: string
  sq_payload :: string
  sq_max_retries :: int
  sq_webhook_url :: string

definition retry_time :: "('e) job_env_scheme \<Rightarrow> instant" where
  "retry_time E = je_now E + jc_timeout_seconds (je_config E) * second"

definition js_Submit ::
    "('e) job_env_scheme \<Rightarrow> job_store \<Rightarrow> uuid \<Rightarrow> submit_request \<Rightarrow> job result \<times> job_store" where
  "js_Submit E s userID req =
     (let job = NewJob (je_new_id E) (je_now E) (sq_type req) (sq_payload req) userID;
          max = (if sq_max_retries req > 0 then sq_max_retries req else jc_max_retries (je_config E));
          callback = (if sq_webhook_url req \<noteq> [] then sq_webhook_url req else jb_callback job)
      in apfst (map_sum WrapInternal id)
        (job_Submit E s (job\<lparr>jb_max := max, jb_callback := callback, jb_next_retry := Some (retry_time E)\<rparr>)))"

definition job_missing :: "go_error \<Rightarrow> go_error" where
  "job_missing err = (if IsNotFound err then WrapNotFound err ''job'' else WrapInternal err)"

definition js_GetByID :: "('e) job_env_scheme \<Rightarrow> job_store \<Rightarrow> job_call \<Rightarrow> uuid \<Rightarrow> job result" where
  "js_GetByID E s call i = map_sum job_missing id (job_read E s call i)"

definition js_ListByUser ::
    "('e) job_env_scheme \<Rightarrow> job_store \<Rightarrow> uuid \<Rightarrow> job_status option \<Rightarrow> int \<Rightarrow> int \<Rightarrow> (job list \<times> nat) result" where
  "js_ListByUser E s user st limit offset = map_sum WrapInternal id (job_ListByUser E s user st limit offset)"

definition js_Cancel :: "('e) job_env_scheme \<Rightarrow> job_store \<Rightarrow> uuid \<Rightarrow> uuid \<Rightarrow> unit result \<times> job_store" where
  "js_Cancel E s i userID =
     (case job_GetByID E s i of
        Inl err \<Rightarrow> (Inl (job_missing err), s)
      | Inr job \<Rightarrow>
          if jb_user job \<noteq> userID then (Inl (Sentinel ErrForbidden), s)
          else if jb_status job \<noteq> JobPending \<and> jb_status job \<noteq> JobFailed then
            (Inl (NewAppError ''INVALID_STATE_TRANSITION'' ''cannot cancel job in current state'' 409), s)
          else apfst (map_sum WrapInternal id) (job_Update E s (job\<lparr>jb_status := JobDead\<rparr>)))"

definition js_Resubmit :: "('e) job_env_scheme \<Rightarrow> job_store \<Rightarrow> uuid \<Rightarrow> uuid \<Rightarrow> job result \<times> job_store" where
  "js_Resubmit E s i userID =
     (case job_GetByID E s i of
        Inl err \<Rightarrow> (Inl (job_missing err), s)
      | Inr job \<Rightarrow>
          if jb_user job \<noteq> userID then (Inl (Sentinel ErrForbidden), s)
          else if jb_status job \<noteq> JobDead then (Inl (Sentinel ErrConflict), s)
          else let j = job\<lparr>jb_status := JobPending, jb_attempts := 0, jb_result := None, jb_last_error := [],
                          jb_next_retry := Some (retry_time E)\<rparr>
            in case job_Update E s j of
                 (Inl err, s1) \<Rightarrow> (Inl (WrapInternal err), s1)
               | (Inr _, s1) \<Rightarrow>
                   (case job_Enqueue E s1 (jb_id j) (retry_time E) of
                      (Inl err, s2) \<Rightarrow> (Inl (WrapInternal err), s2)
                    | (Inr _, s2) \<Rightarrow> (Inr j, s2)))"

end
