(* ===== verification/Job_Worker.thy ===== *)
theory Job_Worker
  imports Job
begin

text \<open>
  The handlers of job types (\<open>service/job_handler.go\<close>), callbacks (\<open>service/job_callback.go\<close>), the
  worker (\<open>service/job_worker.go\<close>), the reaper (\<open>service/job_reaper.go\<close>) and the HTTP handlers
  (\<open>http/handler/job.go\<close>).

  The channel between pollers and workers is the list of the jobs in it or in the hands of a poller
  that waits to send. A worker's pass is two steps: up to the call of the handler of the job, and
  from its return; the jobs between the two are \<open>jw_running\<close>. The state also keeps the history that
  the code logs: the runs, the resets of the reaper, the cancellations and the resubmissions.
\<close>

section \<open>Handlers of job types (service/job_handler.go)\<close>

text \<open>A payload is a Go map, \<open>None\<close> the nil map.\<close>

type_synonym job_payload = "(string \<times> json) list option"
type_synonym job_handler = "string \<Rightarrow> job_payload \<Rightarrow> string result"
type_synonym job_registry = "string \<rightharpoonup> job_handler"

definition ErrJobHandlerNotFound :: "string \<Rightarrow> go_error" where
  "ErrJobHandlerNotFound jobType = Opaque (''no handler registered for job type: '' @ jobType)"

definition registry_Register :: "job_registry \<Rightarrow> string \<Rightarrow> job_handler \<Rightarrow> job_registry" where
  "registry_Register r jobType h = r(jobType \<mapsto> h)"

definition registry_Handle :: "job_registry \<Rightarrow> string \<Rightarrow> job_payload \<Rightarrow> string result" where
  "registry_Handle r jobType payload =
     (case r jobType of None \<Rightarrow> Inl (ErrJobHandlerNotFound jobType) | Some h \<Rightarrow> h jobType payload)"

definition NoopHandler_Handle :: job_handler where
  "NoopHandler_Handle jobType payload = Inr ''{}''"

definition EchoHandler_Handle :: "(json \<Rightarrow> string) \<Rightarrow> job_handler" where
  "EchoHandler_Handle marshal jobType payload =
     Inr (marshal (case payload of None \<Rightarrow> JNull | Some kvs \<Rightarrow> JObj kvs))"

definition payload_string :: "job_payload \<Rightarrow> string \<Rightarrow> string option" where
  "payload_string payload key =
     (case payload of None \<Rightarrow> None
      | Some kvs \<Rightarrow> (case map_of kvs key of Some (JStr v) \<Rightarrow> Some v | _ \<Rightarrow> None))"

definition or_empty :: "string option \<Rightarrow> string" where
  "or_empty x = (case x of None \<Rightarrow> [] | Some v \<Rightarrow> v)"

text \<open>\<open>EmailService.Send\<close> with the marshalling of its result is a parameter.\<close>

definition EmailJobHandler_Handle :: "(string \<Rightarrow> string \<Rightarrow> string \<Rightarrow> string \<Rightarrow> string result) \<Rightarrow> job_handler" where
  "EmailJobHandler_Handle send jobType payload =
     (if jobType \<noteq> ''email.send'' then Inl (ErrJobHandlerNotFound jobType)
      else case payload_string payload ''to'' of
        None \<Rightarrow> Inl (Opaque ''email.send: 'to' field required'')
      | Some to \<Rightarrow>
          let provider = or_empty (payload_string payload ''provider'')
          in case send to (or_empty (payload_string payload ''subject'')) (or_empty (payload_string payload ''body''))
                    (if provider = [] then ''sendgrid'' else provider) of
               Inl err \<Rightarrow> Inl (Opaque (''email.send failed: '' @ error_text err))
             | Inr res \<Rightarrow> Inr res)"

section \<open>Callbacks (service/job_callback.go)\<close>

record callback_payload =
  cb_job :: uuid
  cb_status :: string
  cb_result :: "string option"
  cb_error :: string
  cb_attempts :: int
  cb_completed_at :: instant

text \<open>The peer answers with a status, or the request fails before that.\<close>

definition callback_Deliver ::
    "(string \<Rightarrow> callback_payload \<Rightarrow> string + nat) \<Rightarrow> string \<Rightarrow> callback_payload \<Rightarrow> unit result" where
  "callback_Deliver post url payload =
     (case post url payload of
        Inl err \<Rightarrow> Inl (Opaque (''callback: deliver to '' @ url @ '': '' @ err))
      | Inr status \<Rightarrow> if status \<ge> 400 then Inl (Opaque ''callback: webhook returned status'') else Inr ())"

section \<open>The worker (service/job_worker.go)\<close>

record worker_env = job_env +
  wx_stopping :: bool
  wx_unmarshal :: "string \<Rightarrow> json option"
  wx_registry :: job_registry
  wx_has_callback :: bool

record job_sys =
  jw_store :: job_store
  jw_chan :: "job list"
  jw_running :: "job list"
  jw_callbacks :: "(string \<times> callback_payload) list"
  jw_runs :: "uuid list"
  jw_resets :: "uuid list"
  jw_resubmits :: "(uuid \<times> uuid) list"
  jw_cancels :: "(uuid \<times> uuid) list"

definition calculateBackoff :: "('e) job_env_scheme \<Rightarrow> int \<Rightarrow> instant" where
  "calculateBackoff E attemptCount =
     (if attemptCount = 1 then je_now E + 60 * second
      else if attemptCount = 2 then je_now E + 5 * 60 * second
      else let backoff = je_now E + (attemptCount - 1) * jc_timeout_seconds (je_config E) * second;
               maxBackoff = je_now E + 30 * 60 * second
           in if backoff > maxBackoff then maxBackoff else backoff)"

text \<open>A poller's turn; the job that it has popped is lost when it cannot be read or is stopped.\<close>

definition runPoller_tick :: "('e) worker_env_scheme \<Rightarrow> job_sys \<Rightarrow> job_sys" where
  "runPoller_tick E s =
     (case job_pop E (jw_store s) of
        (Inr (Some i), st) \<Rightarrow>
          (case job_GetByID E st i of
             Inl err \<Rightarrow> s\<lparr>jw_store := st\<rparr>
           | Inr job \<Rightarrow>
               if wx_stopping E then s\<lparr>jw_store := st\<rparr>
               else s\<lparr>jw_store := st, jw_chan := jw_chan s @ [job]\<rparr>)
      | (_, st) \<Rightarrow> s\<lparr>jw_store := st\<rparr>)"

definition send_callback :: "('e) worker_env_scheme \<Rightarrow> job \<Rightarrow> callback_payload \<Rightarrow> job_sys \<Rightarrow> job_sys" where
  "send_callback E job p s =
     (if jb_callback job \<noteq> [] \<and> wx_has_callback E
      then s\<lparr>jw_callbacks := jw_callbacks s @ [(jb_callback job, p)]\<rparr> else s)"

text \<open>The failure callback is sent also when the job could not be marked.\<close>

definition job_handleError :: "('e) worker_env_scheme \<Rightarrow> job_sys \<Rightarrow> job \<Rightarrow> go_error \<Rightarrow> job_sys" where
  "job_handleError E s job err =
     (if jb_attempts job < jb_max job then
        s\<lparr>jw_store := snd (SetFailed E (jw_store s) (jb_id job) (error_text err)
          (Some (calculateBackoff E (jb_attempts job))))\<rparr>
      else send_callback E job
        \<lparr>cb_job = jb_id job, cb_status = ''dead'', cb_result = None, cb_error = error_text err,
         cb_attempts = jb_attempts job, cb_completed_at = je_now E\<rparr>
        (s\<lparr>jw_store := snd (SetFailed E (jw_store s) (jb_id job) (error_text err) None)\<rparr>))"

definition parse_payload :: "('e) worker_env_scheme \<Rightarrow> string \<Rightarrow> job_payload option" where
  "parse_payload E text =
     (if text = [] then Some None
      else case wx_unmarshal E text of
        Some JNull \<Rightarrow> Some None
      | Some (JObj kvs) \<Rightarrow> Some (Some kvs)
      | _ \<Rightarrow> None)"

text \<open>\<open>processJob\<close> up to the call of the handler, for the job that a worker takes from the channel.\<close>

definition begin_job :: "('e) worker_env_scheme \<Rightarrow> job_sys \<Rightarrow> job \<Rightarrow> job_sys" where
  "begin_job E s job =
     (case SetProcessing E (jw_store s) (jb_id job) of
        (Inl err, st) \<Rightarrow> s\<lparr>jw_store := st\<rparr>
      | (Inr updated, st) \<Rightarrow>
          (case parse_payload E (jb_payload updated) of
             None \<Rightarrow> job_handleError E (s\<lparr>jw_store := st\<rparr>) updated (Opaque ''invalid payload'')
           | Some payload \<Rightarrow>
               s\<lparr>jw_store := st, jw_running := jw_running s @ [updated], jw_runs := jw_runs s @ [jb_id updated]\<rparr>))"

definition runWorker_take :: "('e) worker_env_scheme \<Rightarrow> job_sys \<Rightarrow> job_sys" where
  "runWorker_take E s =
     (case jw_chan s of [] \<Rightarrow> s | job # rest \<Rightarrow> begin_job E (s\<lparr>jw_chan := rest\<rparr>) job)"

text \<open>The rest of \<open>processJob\<close>, when the handler returns.\<close>

definition finish_job :: "('e) worker_env_scheme \<Rightarrow> job_sys \<Rightarrow> job \<Rightarrow> job_sys" where
  "finish_job E s job =
     (case registry_Handle (wx_registry E) (jb_type job)
             (case parse_payload E (jb_payload job) of None \<Rightarrow> None | Some p \<Rightarrow> p) of
        Inl err \<Rightarrow> job_handleError E s job err
      | Inr res \<Rightarrow>
          (case SetCompleted E (jw_store s) (jb_id job) res of
             (Inl err, st) \<Rightarrow> s\<lparr>jw_store := st\<rparr>
           | (Inr _, st) \<Rightarrow> send_callback E job
               \<lparr>cb_job = jb_id job, cb_status = ''completed'', cb_result = Some res, cb_error = [],
                cb_attempts = jb_attempts job, cb_completed_at = je_now E\<rparr> (s\<lparr>jw_store := st\<rparr>)))"

definition runWorker_finish :: "('e) worker_env_scheme \<Rightarrow> job_sys \<Rightarrow> nat \<Rightarrow> job_sys" where
  "runWorker_finish E s k =
     (if k < length (jw_running s) then
        finish_job E (s\<lparr>jw_running := take k (jw_running s) @ drop (Suc k) (jw_running s)\<rparr>) (jw_running s ! k)
      else s)"

section \<open>The reaper (service/job_reaper.go)\<close>

definition reap_job :: "('e) worker_env_scheme \<Rightarrow> job \<Rightarrow> nat \<times> job_sys \<Rightarrow> nat \<times> job_sys" where
  "reap_job E job ns =
     (case ns of (n, s) \<Rightarrow>
        let s0 = s\<lparr>jw_resets := jw_resets s @ [jb_id job]\<rparr>
        in case ResetStuckJob E (jw_store s) job (retry_time E) of
             (Inl err, st) \<Rightarrow> (n, s0\<lparr>jw_store := st\<rparr>)
           | (Inr _, st) \<Rightarrow>
               (case job_Enqueue E st (jb_id job) (retry_time E) of
                  (Inl err, st2) \<Rightarrow> (n, s0\<lparr>jw_store := st2\<rparr>)
                | (Inr _, st2) \<Rightarrow> (Suc n, s0\<lparr>jw_store := st2\<rparr>)))"

definition Reap :: "('e) worker_env_scheme \<Rightarrow> job_sys \<Rightarrow> nat result \<times> job_sys" where
  "Reap E s =
     (case GetStuckJobs E (jw_store s) (jc_stuck_seconds (je_config E) * second) of
        Inl err \<Rightarrow> (Inl err, s)
      | Inr stuck \<Rightarrow> (case fold (reap_job E) stuck (0, s) of (n, s') \<Rightarrow> (Inr n, s')))"

section \<open>HTTP handlers (http/handler/job.go)\<close>

text \<open>
  The user comes from the JWT, \<open>None\<close> when there is none; the identifier in the path is parsed by
  \<open>uuid.Parse\<close>, a parameter. An answer is a status with what the envelope carries. Binding and the
  validation by tags are done.
\<close>

definition JH_Submit ::
    "('e) job_env_scheme \<Rightarrow> job_store \<Rightarrow> uuid option \<Rightarrow> submit_request \<Rightarrow> (nat \<times> job_response option) \<times> job_store" where
  "JH_Submit E s user req =
     (case user of
        None \<Rightarrow> ((401, None), s)
      | Some userID \<Rightarrow>
          (case js_Submit E s userID req of
             (Inl err, s1) \<Rightarrow> ((error_status err, None), s1)
           | (Inr job, s1) \<Rightarrow> ((201, Some (job_ToResponse job)), s1)))"

definition JH_List ::
    "('e) job_env_scheme \<Rightarrow> job_store \<Rightarrow> uuid option \<Rightarrow> job_status option \<Rightarrow> int option \<Rightarrow> int option \<Rightarrow>
     nat \<times> job_response list" where
  "JH_List E s user st limitParam offsetParam =
     (case user of
        None \<Rightarrow> (401, [])
      | Some userID \<Rightarrow>
          let limit = (case limitParam of Some n \<Rightarrow> if n > 0 then min n 100 else 20 | None \<Rightarrow> 20);
              offset = (case offsetParam of Some n \<Rightarrow> if n \<ge> 0 then n else 0 | None \<Rightarrow> 0)
          in case js_ListByUser E s userID st limit offset of
               Inl err \<Rightarrow> (500, [])
             | Inr (jobs, found) \<Rightarrow> (200, map job_ToResponse jobs))"

definition JH_GetByID ::
    "('e) job_env_scheme \<Rightarrow> job_store \<Rightarrow> uuid option \<Rightarrow> uuid option \<Rightarrow> nat \<times> job_response option" where
  "JH_GetByID E s user path =
     (case (user, path) of
        (None, _) \<Rightarrow> (401, None)
      | (Some userID, None) \<Rightarrow> (400, None)
      | (Some userID, Some i) \<Rightarrow>
          (case js_GetByID E s (JGet i) i of
             Inl err \<Rightarrow> (error_status err, None)
           | Inr job \<Rightarrow> if jb_user job \<noteq> userID then (403, None) else (200, Some (job_ToResponse job))))"

text \<open>The job is read again for the answer.\<close>

definition JH_Cancel ::
    "('e) job_env_scheme \<Rightarrow> job_store \<Rightarrow> uuid option \<Rightarrow> uuid option \<Rightarrow> (nat \<times> job_response option) \<times> job_store" where
  "JH_Cancel E s user path =
     (case (user, path) of
        (None, _) \<Rightarrow> ((401, None), s)
      | (Some userID, None) \<Rightarrow> ((400, None), s)
      | (Some userID, Some i) \<Rightarrow>
          (case js_Cancel E s i userID of
             (Inl err, s1) \<Rightarrow> ((error_status err, None), s1)
           | (Inr _, s1) \<Rightarrow>
               (case js_GetByID E s1 (JReget i) i of
                  Inl err \<Rightarrow> ((500, None), s1)
                | Inr job \<Rightarrow> ((200, Some (job_ToResponse job)), s1))))"

definition JH_Resubmit ::
    "('e) job_env_scheme \<Rightarrow> job_store \<Rightarrow> uuid option \<Rightarrow> uuid option \<Rightarrow> (nat \<times> job_response option) \<times> job_store" where
  "JH_Resubmit E s user path =
     (case (user, path) of
        (None, _) \<Rightarrow> ((401, None), s)
      | (Some userID, None) \<Rightarrow> ((400, None), s)
      | (Some userID, Some i) \<Rightarrow>
          (case js_Resubmit E s i userID of
             (Inl err, s1) \<Rightarrow> ((error_status err, None), s1)
           | (Inr job, s1) \<Rightarrow> ((200, Some (job_ToResponse job)), s1)))"

end
