(* ===== verification/Job_Life.thy ===== *)
theory Job_Life
  imports Job_Worker
begin

text \<open>
  The life of a background job. The worker uses the repository through the contract
  \<open>job_repository\<close>, which Redis keeps; the system of requests, pollers, workers, reaper and
  crashes is the relation \<open>job_steps\<close>; what it does to one job are the moves of \<open>job_move\<close>, and
  the invariants are proved over the moves.
\<close>

section \<open>What a write changes\<close>

text \<open>The row of a job, also after it has expired: only writes change it.\<close>

definition job_view :: "job_store \<Rightarrow> uuid \<Rightarrow> job option" where
  "job_view s i = map_option fst (js_data s i)"

definition keyed_by_id :: "job_store \<Rightarrow> bool" where
  "keyed_by_id s \<longleftrightarrow> (\<forall>i j. job_view s i = Some j \<longrightarrow> jb_id j = i)"

fun index_only :: "job_cmd \<Rightarrow> bool" where
  "index_only (CSet j) = False"
| "index_only (CDel i) = False"
| "index_only cmd = True"

lemma redis_do_index_only: "index_only cmd \<Longrightarrow> js_data (redis_do now cmd s) = js_data s"
  by (cases cmd) (simp_all add: Let_def)

lemma fold_index_only: "list_all index_only cmds \<Longrightarrow> js_data (fold (redis_do now) cmds s) = js_data s"
  by (induction cmds arbitrary: s) (simp_all add: redis_do_index_only)

lemma list_all_take: "list_all P xs \<Longrightarrow> list_all P (take k xs)"
  by (auto simp: list_all_iff dest: in_set_takeD)

lemma pipe_index_only: "list_all index_only cmds \<Longrightarrow> js_data (snd (pipe now fault cmds s)) = js_data s"
  by (cases fault) (simp_all add: pipe_def fold_index_only list_all_take)

lemma move_index_only [simp]: "list_all index_only (move_index old new i)"
  by (simp add: move_index_def)

lemma write_and_move_view:
  assumes "write_and_move E s j cmds = (r, s')" and "list_all index_only cmds"
  shows "js_data s' = js_data s \<and> (\<forall>x. r \<noteq> Inr x) \<or> js_data s' = (js_data s)(jb_id j \<mapsto> (j, je_now E + jobDataTTL))"
proof -
  obtain r1 s1 where u: "job_Update E s j = (r1, s1)" by fastforce
  have upd: "js_data s1 = js_data s \<and> (\<forall>x. r1 \<noteq> Inr x) \<or> js_data s1 = (js_data s)(jb_id j \<mapsto> (j, je_now E + jobDataTTL))"
    using u by (auto simp: job_Update_def pipe_def take_Cons split: option.splits nat.splits)
  show ?thesis
  proof (cases r1)
    case (Inl err)
    then show ?thesis using assms(1) u upd by (auto simp: write_and_move_def)
  next
    case (Inr x)
    then have "js_data s' = js_data s1"
      using assms u pipe_index_only [OF assms(2)] by (metis (no_types, lifting) old.prod.case old.sum.simps(6) snd_conv write_and_move_def)
    then show ?thesis using upd Inr by auto
  qed
qed

lemma stored_view: "stored_job now s i = Some j \<Longrightarrow> job_view s i = Some j"
  by (auto simp: stored_job_def job_view_def split: option.splits if_splits)

lemma job_read_Inr: "job_read E s call i = Inr j \<Longrightarrow> job_view s i = Some j"
  by (auto simp: job_read_def stored_view split: if_splits option.splits)

text \<open>The rows of all jobs but one are as before, and that one is as before or has made a move.\<close>

definition moved :: "uuid \<Rightarrow> (job \<Rightarrow> job \<Rightarrow> bool) \<Rightarrow> job_store \<Rightarrow> job_store \<Rightarrow> bool" where
  "moved i P s s' \<longleftrightarrow> (\<forall>k. k \<noteq> i \<longrightarrow> job_view s' k = job_view s k) \<and>
     (job_view s' i = job_view s i \<or> (\<exists>old new. job_view s i = Some old \<and> job_view s' i = Some new \<and> P old new))"

lemma moved_refl [simp]: "moved i P s s"
  by (simp add: moved_def)

lemma moved_data: "js_data s' = js_data s \<Longrightarrow> moved i P s s'"
  by (simp add: moved_def job_view_def)

lemma moved_set:
  "js_data s' = (js_data s)(i \<mapsto> (j, t)) \<Longrightarrow> job_view s i = Some old \<Longrightarrow> P old j \<Longrightarrow> moved i P s s'"
  by (auto simp: moved_def job_view_def)

lemma write_and_move_moved:
  assumes "write_and_move E s j cmds = (r, s')" and "list_all index_only cmds"
    and "jb_id j = i" and "job_view s i = Some old" and "P old j"
  shows "moved i P s s'" and "r = Inr x \<Longrightarrow> job_view s' i = Some j"
proof -
  note w = write_and_move_view [OF assms(1,2)]
  show "moved i P s s'"
    using w assms(3-5) moved_data moved_set [where old = old] by metis
  show "job_view s' i = Some j" if "r = Inr x"
    using w that assms(3) by (auto simp: job_view_def)
qed

lemma write_and_move_moved':
  assumes "list_all index_only cmds" and "jb_id j = i" and "job_view s i = Some old" and "P old j"
  shows "moved i P s (snd (write_and_move E s j cmds))"
  using write_and_move_moved(1) [where r = "fst (write_and_move E s j cmds)" and s' = "snd (write_and_move E s j cmds)"]
    assms by (metis prod.collapse)

section \<open>The repository as the worker uses it\<close>

text \<open>
  The budget of a job: its runs, and one more while it can be claimed, against its attempts (but
  not the last one), what resubmissions add and what resets add.
\<close>

definition run_limit :: "job \<Rightarrow> int" where
  "run_limit j = max 1 (jb_max j - 1)"

definition within_budget :: "job \<Rightarrow> nat \<Rightarrow> nat \<Rightarrow> nat \<Rightarrow> bool" where
  "within_budget j runs resets resubmits \<longleftrightarrow> 0 \<le> jb_attempts j \<and>
     int runs + (if claimable j then 1 else 0)
       \<le> min (jb_attempts j) (run_limit j) + int resubmits * (run_limit j + 1) + int resets"

lemma budget_fewer: "within_budget j (Suc n) a b \<Longrightarrow> within_budget j n a b"
  by (simp add: within_budget_def)

lemma budget_settled:
  assumes "within_budget j n a b" and "jb_max j' = jb_max j" and "jb_attempts j \<le> jb_attempts j'" and "\<not> claimable j'"
  shows "within_budget j' n a b"
proof -
  have "min (jb_attempts j) (run_limit j) \<le> min (jb_attempts j') (run_limit j')"
    using assms by (simp add: run_limit_def min_def)
  moreover have "run_limit j' = run_limit j" using assms by (simp add: run_limit_def)
  ultimately show ?thesis using assms unfolding within_budget_def by (smt (verit))
qed

lemma budget_claim:
  assumes "within_budget j n a b" and "jb_max j' = jb_max j" and "jb_attempts j' = jb_attempts j"
    and "claimable j" and "\<not> claimable j'"
  shows "within_budget j' (Suc n) a b"
  using assms by (simp add: within_budget_def run_limit_def)

lemma budget_retry:
  assumes "within_budget j n a b" and "jb_max j' = jb_max j" and "jb_attempts j' = jb_attempts j + 1"
    and "claimable j' \<Longrightarrow> jb_attempts j' < jb_max j'"
  shows "within_budget j' n a b"
proof (cases "claimable j'")
  case True
  then have m: "min (jb_attempts j + 1) (run_limit j) = min (jb_attempts j) (run_limit j) + 1"
    using assms True by (simp add: run_limit_def min_def max_def within_budget_def)
  have L: "run_limit j' = run_limit j" using assms by (simp add: run_limit_def)
  have step: "int n + 1 \<le> M + 1 + K + A" if "int n \<le> M + K + A" for M K A :: int
    using that by simp
  have "int n \<le> min (jb_attempts j) (run_limit j) + int b * (run_limit j + 1) + int a"
    using assms(1) by (simp add: within_budget_def split: if_splits)
  from step [OF this] have "int n + 1 \<le> min (jb_attempts j') (run_limit j') + int b * (run_limit j' + 1) + int a"
    unfolding L assms(3) m .
  moreover have "0 \<le> jb_attempts j'" using assms(1,3) by (simp add: within_budget_def)
  ultimately show ?thesis unfolding within_budget_def if_P [OF True] by (rule conjI [rotated])
next
  case False
  show ?thesis by (rule budget_settled [OF assms(1)]) (use False assms(2,3) in simp_all)
qed

lemma budget_resubmit:
  assumes "within_budget j n a b" and "jb_max j' = jb_max j" and "jb_attempts j' = 0"
  shows "within_budget j' n a (Suc b)"
proof -
  have L: "run_limit j' = run_limit j" "0 \<le> run_limit j" using assms by (simp_all add: run_limit_def)
  have "int n \<le> min (jb_attempts j) (run_limit j) + int b * (run_limit j + 1) + int a"
    using assms(1) by (simp add: within_budget_def split: if_splits)
  then have "int n + 1 \<le> int (Suc b) * (run_limit j + 1) + int a" by (simp add: algebra_simps)
  then show ?thesis using assms L by (simp add: within_budget_def)
qed

lemma budget_more: "within_budget j n a b \<Longrightarrow> a \<le> a' \<Longrightarrow> b \<le> b' \<Longrightarrow> within_budget j n a' b'"
proof -
  assume w: "within_budget j n a b" and "a \<le> a'" "b \<le> b'"
  then have "int b * (run_limit j + 1) \<le> int b' * (run_limit j + 1)"
    by (intro mult_right_mono) (simp_all add: run_limit_def)
  then show ?thesis using w \<open>a \<le> a'\<close> unfolding within_budget_def by linarith
qed

locale job_repository =
  fixes view :: "'s \<Rightarrow> uuid \<Rightarrow> job option"
    and claim :: "'e \<Rightarrow> 's \<Rightarrow> uuid \<Rightarrow> job result \<times> 's"
    and complete :: "'e \<Rightarrow> 's \<Rightarrow> uuid \<Rightarrow> string \<Rightarrow> unit result \<times> 's"
    and fail :: "'e \<Rightarrow> 's \<Rightarrow> uuid \<Rightarrow> string \<Rightarrow> instant option \<Rightarrow> unit result \<times> 's"
    and good :: "'s \<Rightarrow> bool"
  assumes claim_other: "good s \<Longrightarrow> k \<noteq> i \<Longrightarrow> view (snd (claim E s i)) k = view s k"
    and claim_same: "good s \<Longrightarrow> view (snd (claim E s i)) i = view s i \<and> (\<forall>j. fst (claim E s i) \<noteq> Inr j)
      \<or> (\<exists>old j t. view s i = Some old \<and> claimable old \<and> view (snd (claim E s i)) i = Some j
           \<and> j = old\<lparr>jb_status := JobProcessing, jb_started := t\<rparr> \<and> (\<forall>x. fst (claim E s i) = Inr x \<longrightarrow> x = j))"
    and complete_other: "good s \<Longrightarrow> k \<noteq> i \<Longrightarrow> view (snd (complete E s i res)) k = view s k"
    and complete_same: "good s \<Longrightarrow> view (snd (complete E s i res)) i = view s i
      \<or> (\<exists>old t. view s i = Some old \<and> jb_status old = JobProcessing
           \<and> view (snd (complete E s i res)) i = Some (old\<lparr>jb_status := JobCompleted, jb_result := Some res, jb_completed := t\<rparr>))"
    and fail_other: "good s \<Longrightarrow> k \<noteq> i \<Longrightarrow> view (snd (fail E s i msg next)) k = view s k"
    and fail_same: "good s \<Longrightarrow> view (snd (fail E s i msg next)) i = view s i
      \<or> (\<exists>old. view s i = Some old \<and> jb_attempts old < jb_max old \<and> next \<noteq> None
           \<and> view (snd (fail E s i msg next)) i = Some (old\<lparr>jb_last_error := msg, jb_attempts := jb_attempts old + 1,
               jb_status := JobFailed, jb_next_retry := next\<rparr>))
      \<or> (\<exists>old t. view s i = Some old \<and> (jb_attempts old < jb_max old \<longrightarrow> next = None)
           \<and> view (snd (fail E s i msg next)) i = Some (old\<lparr>jb_last_error := msg, jb_attempts := jb_attempts old + 1,
               jb_status := JobDead, jb_completed := t, jb_next_retry := None\<rparr>))"
begin

lemma claim_budget:
  assumes "good s" and "view s i = Some j0" and "within_budget j0 n a b"
    and "claim E s i = (r, s')" and "view s' i = Some j"
  shows "within_budget j (if \<exists>x. r = Inr x then Suc n else n) a b"
  using claim_same [OF assms(1), of E i]
proof (elim disjE exE conjE)
  assume "view (snd (claim E s i)) i = view s i" and "\<forall>j. fst (claim E s i) \<noteq> Inr j"
  then show ?thesis using assms by simp
next
  fix old j1 t
  assume "view s i = Some old" and c: "claimable old" and "view (snd (claim E s i)) i = Some j1"
    and j1: "j1 = old\<lparr>jb_status := JobProcessing, jb_started := t\<rparr>"
  then have j: "old = j0" "j = j0\<lparr>jb_status := JobProcessing, jb_started := t\<rparr>" using assms by simp_all
  have "within_budget j (Suc n) a b"
    unfolding j(2) by (rule budget_claim [OF assms(3)]) (use c j(1) in \<open>simp_all add: claimable_def\<close>)
  then show ?thesis by (auto intro: budget_fewer)
qed

lemma complete_budget:
  assumes "good s" and "view s i = Some j0" and "within_budget j0 n a b"
    and "view (snd (complete E s i res)) i = Some j"
  shows "within_budget j n a b"
  using complete_same [OF assms(1), of E i res]
proof (elim disjE exE conjE)
  fix old t
  assume "view s i = Some old"
    and "view (snd (complete E s i res)) i = Some (old\<lparr>jb_status := JobCompleted, jb_result := Some res, jb_completed := t\<rparr>)"
  then have j: "j = j0\<lparr>jb_status := JobCompleted, jb_result := Some res, jb_completed := t\<rparr>" using assms by simp
  show ?thesis unfolding j by (rule budget_settled [OF assms(3)]) (simp_all add: claimable_def)
qed (use assms in simp)

lemma fail_budget:
  assumes "good s" and "view s i = Some j0" and "within_budget j0 n a b"
    and "view (snd (fail E s i msg next)) i = Some j"
  shows "within_budget j n a b"
  using fail_same [OF assms(1), of E i msg "next"]
proof (elim disjE exE conjE)
  fix old
  assume "view s i = Some old"
    and "view (snd (fail E s i msg next)) i = Some (old\<lparr>jb_last_error := msg, jb_attempts := jb_attempts old + 1,
      jb_status := JobFailed, jb_next_retry := next\<rparr>)"
  then have j: "j = j0\<lparr>jb_last_error := msg, jb_attempts := jb_attempts j0 + 1,
      jb_status := JobFailed, jb_next_retry := next\<rparr>" using assms by simp
  show ?thesis unfolding j by (rule budget_retry [OF assms(3)]) (simp_all add: claimable_def)
next
  fix old t
  assume "view s i = Some old"
    and "view (snd (fail E s i msg next)) i = Some (old\<lparr>jb_last_error := msg, jb_attempts := jb_attempts old + 1,
      jb_status := JobDead, jb_completed := t, jb_next_retry := None\<rparr>)"
  then have j: "j = j0\<lparr>jb_last_error := msg, jb_attempts := jb_attempts j0 + 1,
      jb_status := JobDead, jb_completed := t, jb_next_retry := None\<rparr>" using assms by simp
  show ?thesis unfolding j by (rule budget_settled [OF assms(3)]) (simp_all add: claimable_def)
qed (use assms in simp)

end

lemma keyed_view: "keyed_by_id s \<Longrightarrow> job_view s i = Some j \<Longrightarrow> jb_id j = i"
  by (simp add: keyed_by_id_def)

lemma moved_cases:
  assumes "moved i P s s'"
  obtains (same) "job_view s' i = job_view s i"
    | (move) old new where "job_view s i = Some old" "job_view s' i = Some new" "P old new"
  using assms unfolding moved_def by blast

lemma moved_other: "moved i P s s' \<Longrightarrow> k \<noteq> i \<Longrightarrow> job_view s' k = job_view s k"
  by (simp add: moved_def)

definition claim_move :: "instant \<Rightarrow> job \<Rightarrow> job \<Rightarrow> bool" where
  "claim_move now old new \<longleftrightarrow> claimable old \<and> new = old\<lparr>jb_status := JobProcessing, jb_started := Some now\<rparr>"

lemma SetProcessing_moved:
  assumes good: "keyed_by_id s" and run: "SetProcessing E s i = (r, s')"
  shows "moved i (claim_move (je_now E)) s s'"
    and "r = Inr j \<Longrightarrow> \<exists>old. job_view s i = Some old \<and> job_view s' i = Some j \<and> claim_move (je_now E) old j"
proof -
  have "moved i (claim_move (je_now E)) s s' \<and>
    (\<forall>j. r = Inr j \<longrightarrow> (\<exists>old. job_view s i = Some old \<and> job_view s' i = Some j \<and> claim_move (je_now E) old j))"
  proof (cases "job_GetByID E s i")
    case (Inl err)
    then show ?thesis using run by (auto simp: SetProcessing_def)
  next
    case (Inr job)
    then have v: "job_view s i = Some job" by (simp add: job_GetByID_def job_read_Inr)
    show ?thesis
    proof (cases "claimable job")
      case True
      let ?j = "job\<lparr>jb_status := JobProcessing, jb_started := Some (je_now E)\<rparr>"
      obtain r1 s1 where w: "write_and_move E s ?j (move_index (jb_status job) JobProcessing i) = (r1, s1)" by fastforce
      have id: "jb_id ?j = i" using keyed_view [OF good v] by simp
      have P: "claim_move (je_now E) job ?j" using True by (simp add: claim_move_def)
      note m = write_and_move_moved [OF w move_index_only id v, where P = "claim_move (je_now E)", OF P]
      have rs: "r = map_sum id (\<lambda>_. ?j) r1" "s' = s1" using run Inr True w by (simp_all add: SetProcessing_def Let_def)
      show ?thesis using m v P rs by (cases r1) (auto simp del: job.update_convs)
    qed (use run Inr in \<open>auto simp: SetProcessing_def\<close>)
  qed
  then show "moved i (claim_move (je_now E)) s s'"
    and "r = Inr j \<Longrightarrow> \<exists>old. job_view s i = Some old \<and> job_view s' i = Some j \<and> claim_move (je_now E) old j"
    by blast+
qed

definition complete_move :: "instant \<Rightarrow> string \<Rightarrow> job \<Rightarrow> job \<Rightarrow> bool" where
  "complete_move now res old new \<longleftrightarrow> jb_status old = JobProcessing \<and>
     new = old\<lparr>jb_status := JobCompleted, jb_result := Some res, jb_completed := Some now\<rparr>"

lemma SetCompleted_moved:
  assumes good: "keyed_by_id s"
  shows "moved i (complete_move (je_now E) res) s (snd (SetCompleted E s i res))"
proof (cases "job_GetByID E s i")
  case (Inr job)
  then have v: "job_view s i = Some job" by (simp add: job_GetByID_def job_read_Inr)
  show ?thesis
  proof (cases "CanTransitionTo job JobCompleted")
    case True
    then have "jb_status job = JobProcessing" by (cases "jb_status job") (auto split: if_splits)
    then show ?thesis
      using True Inr v keyed_view [OF good v]
      by (auto simp: SetCompleted_def complete_move_def intro!: write_and_move_moved')
  qed (use Inr in \<open>simp add: SetCompleted_def\<close>)
qed (simp add: SetCompleted_def)

definition fail_move :: "instant \<Rightarrow> string \<Rightarrow> instant option \<Rightarrow> job \<Rightarrow> job \<Rightarrow> bool" where
  "fail_move now msg retry old new \<longleftrightarrow>
     (if jb_attempts old < jb_max old \<and> retry \<noteq> None
      then new = old\<lparr>jb_last_error := msg, jb_attempts := jb_attempts old + 1, jb_status := JobFailed, jb_next_retry := retry\<rparr>
      else new = old\<lparr>jb_last_error := msg, jb_attempts := jb_attempts old + 1, jb_status := JobDead,
        jb_completed := Some now, jb_next_retry := None\<rparr>)"

lemma moved_then_data: "moved i P s s1 \<Longrightarrow> js_data s' = js_data s1 \<Longrightarrow> moved i P s s'"
  by (simp add: moved_def job_view_def)

lemma job_Enqueue_data [simp]: "js_data (snd (job_Enqueue E s i t)) = js_data s"
  by (simp add: job_Enqueue_def pipe_index_only)

lemma SetFailed_moved:
  assumes good: "keyed_by_id s"
  shows "moved i (fail_move (je_now E) msg retry) s (snd (SetFailed E s i msg retry))"
proof (cases "job_GetByID E s i")
  case (Inr job)
  then have v: "job_view s i = Some job" by (simp add: job_GetByID_def job_read_Inr)
  have id: "jb_id job = i" by (rule keyed_view [OF good v])
  show ?thesis
  proof (cases "jb_attempts job < jb_max job \<and> retry \<noteq> None")
    case True
    then obtain t where t: "retry = Some t" by blast
    let ?j = "job\<lparr>jb_last_error := msg, jb_attempts := jb_attempts job + 1, jb_status := JobFailed, jb_next_retry := Some t\<rparr>"
    obtain r1 s1 where w: "write_and_move E s ?j (move_index JobProcessing JobFailed i) = (r1, s1)" by fastforce
    have "fail_move (je_now E) msg retry job ?j" using True t by (simp add: fail_move_def)
    from write_and_move_moved(1) [OF w move_index_only _ v, where P = "fail_move (je_now E) msg retry", OF _ this]
    have m: "moved i (fail_move (je_now E) msg retry) s s1" using id by simp
    have "snd (SetFailed E s i msg retry) = (case r1 of Inl err \<Rightarrow> s1 | Inr _ \<Rightarrow> snd (job_Enqueue E s1 i t))"
      using Inr True t w by (simp add: SetFailed_def split: sum.split)
    then have "js_data (snd (SetFailed E s i msg retry)) = js_data s1" by (simp split: sum.split)
    from moved_then_data [OF m this] show ?thesis .
  next
    case False
    let ?j = "job\<lparr>jb_last_error := msg, jb_attempts := jb_attempts job + 1, jb_status := JobDead,
        jb_completed := Some (je_now E), jb_next_retry := None\<rparr>"
    have "fail_move (je_now E) msg retry job ?j" unfolding fail_move_def if_not_P [OF False] by (rule refl)
    from write_and_move_moved' [OF move_index_only _ v, where P = "fail_move (je_now E) msg retry", OF _ this]
    have "moved i (fail_move (je_now E) msg retry) s (snd (write_and_move E s ?j (move_index JobProcessing JobDead i)))"
      using id by simp
    moreover have "SetFailed E s i msg retry = write_and_move E s ?j (move_index JobProcessing JobDead i)"
      using Inr False by (auto simp: SetFailed_def)
    ultimately show ?thesis by simp
  qed
qed (simp add: SetFailed_def)

interpretation redis_jobs: job_repository job_view SetProcessing SetCompleted SetFailed keyed_by_id
proof unfold_locales
  fix s :: job_store and E :: "'a job_env_scheme" and i k :: uuid and msg res retry
  assume good: "keyed_by_id s"
  obtain r s' where run: "SetProcessing E s i = (r, s')" by fastforce
  note p = SetProcessing_moved [OF good run]
  show "k \<noteq> i \<Longrightarrow> job_view (snd (SetProcessing E s i)) k = job_view s k" using moved_other [OF p(1)] run by simp
  show "job_view (snd (SetProcessing E s i)) i = job_view s i \<and> (\<forall>j. fst (SetProcessing E s i) \<noteq> Inr j)
      \<or> (\<exists>old j t. job_view s i = Some old \<and> claimable old \<and> job_view (snd (SetProcessing E s i)) i = Some j
           \<and> j = old\<lparr>jb_status := JobProcessing, jb_started := t\<rparr> \<and> (\<forall>x. fst (SetProcessing E s i) = Inr x \<longrightarrow> x = j))"
  proof (cases r)
    case (Inl err)
    with p(1) run show ?thesis by (cases rule: moved_cases) (auto simp: claim_move_def)
  next
    case (Inr j)
    with p(2) [of j] run show ?thesis by (auto simp: claim_move_def)
  qed
  note c = SetCompleted_moved [OF good, of i E res]
  show "k \<noteq> i \<Longrightarrow> job_view (snd (SetCompleted E s i res)) k = job_view s k" by (rule moved_other [OF c])
  show "job_view (snd (SetCompleted E s i res)) i = job_view s i
      \<or> (\<exists>old t. job_view s i = Some old \<and> jb_status old = JobProcessing \<and> job_view (snd (SetCompleted E s i res)) i
           = Some (old\<lparr>jb_status := JobCompleted, jb_result := Some res, jb_completed := t\<rparr>))"
    using c by (cases rule: moved_cases) (auto simp: complete_move_def)
  note f = SetFailed_moved [OF good, of i E msg retry]
  show "k \<noteq> i \<Longrightarrow> job_view (snd (SetFailed E s i msg retry)) k = job_view s k" by (rule moved_other [OF f])
  show "job_view (snd (SetFailed E s i msg retry)) i = job_view s i
      \<or> (\<exists>old. job_view s i = Some old \<and> jb_attempts old < jb_max old \<and> retry \<noteq> None
           \<and> job_view (snd (SetFailed E s i msg retry)) i = Some (old\<lparr>jb_last_error := msg, jb_attempts := jb_attempts old + 1,
               jb_status := JobFailed, jb_next_retry := retry\<rparr>))
      \<or> (\<exists>old t. job_view s i = Some old \<and> (jb_attempts old < jb_max old \<longrightarrow> retry = None)
           \<and> job_view (snd (SetFailed E s i msg retry)) i = Some (old\<lparr>jb_last_error := msg, jb_attempts := jb_attempts old + 1,
               jb_status := JobDead, jb_completed := t, jb_next_retry := None\<rparr>))"
    using f by (cases rule: moved_cases) (auto simp: fail_move_def split: if_splits)
qed

section \<open>The system\<close>

text \<open>
  Requests, pollers, workers, the reaper and crashes in any order, at instants that do not
  decrease. A crash loses the channel and the running handlers. A resubmission or cancellation
  enters the history with the user who asks for it.
\<close>

datatype job_event =
    Submitting worker_env "uuid option" submit_request
  | Cancelling worker_env "uuid option" "uuid option"
  | Resubmitting worker_env "uuid option" "uuid option"
  | Polling worker_env
  | Taking worker_env
  | Finishing worker_env nat
  | Reaping worker_env
  | Crashing instant

fun event_time :: "job_event \<Rightarrow> instant" where
  "event_time (Submitting E u req) = je_now E"
| "event_time (Cancelling E u p) = je_now E"
| "event_time (Resubmitting E u p) = je_now E"
| "event_time (Polling E) = je_now E"
| "event_time (Taking E) = je_now E"
| "event_time (Finishing E k) = je_now E"
| "event_time (Reaping E) = je_now E"
| "event_time (Crashing t) = t"

definition note_request :: "uuid option \<Rightarrow> uuid option \<Rightarrow> (uuid \<times> uuid) list \<Rightarrow> (uuid \<times> uuid) list" where
  "note_request u p log = (case (u, p) of (Some user, Some i) \<Rightarrow> log @ [(user, i)] | _ \<Rightarrow> log)"

fun job_exec :: "job_event \<Rightarrow> job_sys \<Rightarrow> job_sys" where
  "job_exec (Submitting E u req) s = s\<lparr>jw_store := snd (JH_Submit E (jw_store s) u req)\<rparr>"
| "job_exec (Cancelling E u p) s =
     s\<lparr>jw_store := snd (JH_Cancel E (jw_store s) u p), jw_cancels := note_request u p (jw_cancels s)\<rparr>"
| "job_exec (Resubmitting E u p) s =
     s\<lparr>jw_store := snd (JH_Resubmit E (jw_store s) u p), jw_resubmits := note_request u p (jw_resubmits s)\<rparr>"
| "job_exec (Polling E) s = runPoller_tick E s"
| "job_exec (Taking E) s = runWorker_take E s"
| "job_exec (Finishing E k) s = runWorker_finish E s k"
| "job_exec (Reaping E) s = snd (Reap E s)"
| "job_exec (Crashing t) s = s\<lparr>jw_chan := [], jw_running := []\<rparr>"

text \<open>A new identifier has not been given to a job before.\<close>

fun fresh_event :: "job_event \<Rightarrow> job_sys \<Rightarrow> bool" where
  "fresh_event (Submitting E u req) s = (js_data (jw_store s) (je_new_id E) = None)"
| "fresh_event e s = True"

definition job_initial :: job_sys where
  "job_initial = \<lparr>jw_store = \<lparr>js_data = Map.empty, js_users = (\<lambda>u. ([], None)), js_index = (\<lambda>st. ([], None)), js_queue = []\<rparr>,
     jw_chan = [], jw_running = [], jw_callbacks = [], jw_runs = [], jw_resets = [], jw_resubmits = [], jw_cancels = []\<rparr>"

inductive job_steps :: "instant \<times> job_sys \<Rightarrow> job_event list \<Rightarrow> instant \<times> job_sys \<Rightarrow> bool" where
  none: "job_steps c [] c"
| more: "job_steps c es (t, s) \<Longrightarrow> t \<le> event_time e \<Longrightarrow> fresh_event e s \<Longrightarrow>
    job_steps c (es @ [e]) (event_time e, job_exec e s)"

inductive_cases job_steps_snocE: "job_steps c (es @ [e]) c'"

lemma job_steps_append: "job_steps b es' c \<Longrightarrow> job_steps a es b \<Longrightarrow> job_steps a (es @ es') c"
proof (induction rule: job_steps.induct)
  case (more b es' t s e)
  from job_steps.more [OF more.IH [OF more.prems] more.hyps(2,3)] show ?case by simp
qed simp

text \<open>A property that every step keeps holds along every run.\<close>

lemma job_steps_inv:
  assumes "job_steps (t0, s0) es (t, s)" and "P s0"
    and "\<And>s e. P s \<Longrightarrow> fresh_event e s \<Longrightarrow> P (job_exec e s)"
  shows "P s"
  using assms(1)
proof (induction "(t0, s0)" es "(t, s)" arbitrary: t s rule: job_steps.induct)
  case (more es t s e)
  show ?case by (rule assms(3) [OF more.hyps(2) more.hyps(4)])
qed (rule assms(2))

definition resets :: "job_sys \<Rightarrow> uuid \<Rightarrow> nat" where
  "resets s i = count_list (jw_resets s) i"

definition runs :: "job_sys \<Rightarrow> uuid \<Rightarrow> nat" where
  "runs s i = count_list (jw_runs s) i"

text \<open>The requests of its owner to resubmit or to cancel a job.\<close>

definition resubmits :: "job_sys \<Rightarrow> job \<Rightarrow> nat" where
  "resubmits s j = count_list (jw_resubmits s) (jb_user j, jb_id j)"

definition cancelled :: "job_sys \<Rightarrow> job \<Rightarrow> bool" where
  "cancelled s j \<longleftrightarrow> (jb_user j, jb_id j) \<in> set (jw_cancels s)"

section \<open>The life of one job\<close>

text \<open>
  What the system does to one job, in moves: its row, the handlers that run it, and its history.
\<close>

record job_life =
  jl_row :: "job option"
  jl_running :: "job list"
  jl_runs :: nat
  jl_resets :: nat
  jl_resubmits :: nat
  jl_cancelled :: bool

inductive job_move :: "uuid \<Rightarrow> job_life \<Rightarrow> job_life \<Rightarrow> bool" for i where
  create: "jl_row a = None \<Longrightarrow> jb_id j = i \<Longrightarrow> jb_status j = JobPending \<Longrightarrow> jb_attempts j = 1 \<Longrightarrow>
    job_move i a (a\<lparr>jl_row := Some j, jl_resubmits := b, jl_cancelled := c\<rparr>)"
| heard: "jl_resubmits a \<le> b \<Longrightarrow> (jl_cancelled a \<longrightarrow> c) \<Longrightarrow> job_move i a (a\<lparr>jl_resubmits := b, jl_cancelled := c\<rparr>)"
| cancel: "jl_row a = Some j \<Longrightarrow> jb_status j = JobPending \<or> jb_status j = JobFailed \<Longrightarrow>
    job_move i a (a\<lparr>jl_row := Some (j\<lparr>jb_status := JobDead\<rparr>), jl_cancelled := True\<rparr>)"
| resubmit: "jl_row a = Some j \<Longrightarrow> jb_status j = JobDead \<Longrightarrow>
    job_move i a (a\<lparr>jl_row := Some (j\<lparr>jb_status := JobPending, jb_attempts := 0, jb_result := None,
      jb_last_error := [], jb_next_retry := t\<rparr>), jl_resubmits := Suc (jl_resubmits a)\<rparr>)"
| claim: "jl_row a = Some j \<Longrightarrow> claim_move now j j' \<Longrightarrow> job_move i a (a\<lparr>jl_row := Some j'\<rparr>)"
| start: "jl_row a = Some j \<Longrightarrow> claim_move now j j' \<Longrightarrow>
    job_move i a (a\<lparr>jl_row := Some j', jl_running := jl_running a @ [j'], jl_runs := Suc (jl_runs a)\<rparr>)"
| unparsed: "jl_row a = Some j \<Longrightarrow> claim_move now j j1 \<Longrightarrow> (retry \<noteq> None \<longleftrightarrow> jb_attempts j1 < jb_max j1) \<Longrightarrow>
    fail_move now msg retry j1 j2 \<Longrightarrow> job_move i a (a\<lparr>jl_row := Some j2\<rparr>)"
| complete: "jl_row a = Some j \<Longrightarrow> jl_running a = xs @ r # ys \<Longrightarrow> complete_move now res j j' \<Longrightarrow>
    job_move i a (a\<lparr>jl_row := Some j', jl_running := xs @ ys\<rparr>)"
| failed: "jl_row a = Some j \<Longrightarrow> jl_running a = xs @ r # ys \<Longrightarrow> (retry \<noteq> None \<longleftrightarrow> jb_attempts r < jb_max r) \<Longrightarrow>
    fail_move now msg retry j j' \<Longrightarrow> job_move i a (a\<lparr>jl_row := Some j', jl_running := xs @ ys\<rparr>)"
| vanish: "jl_running a = xs @ r # ys \<Longrightarrow> job_move i a (a\<lparr>jl_running := xs @ ys\<rparr>)"
| crash: "job_move i a (a\<lparr>jl_running := []\<rparr>)"
| reset: "jl_row a = Some j \<Longrightarrow> jb_id j' = jb_id j \<Longrightarrow> jb_max j' = jb_max j \<Longrightarrow> jb_user j' = jb_user j \<Longrightarrow>
    jb_attempts j \<le> jb_attempts j' \<Longrightarrow> job_move i a (a\<lparr>jl_row := Some j', jl_resets := Suc (jl_resets a)\<rparr>)"
| no_reset: "job_move i a (a\<lparr>jl_resets := Suc (jl_resets a)\<rparr>)"

abbreviation job_moves :: "uuid \<Rightarrow> job_life \<Rightarrow> job_life \<Rightarrow> bool" where
  "job_moves i \<equiv> (job_move i)\<^sup>*\<^sup>*"

lemma job_moves_inv:
  assumes "job_moves i a b" and "P a" and "\<And>a b. P a \<Longrightarrow> job_move i a b \<Longrightarrow> P b"
  shows "P b"
  using assms(1,2) by (induction rule: rtranclp_induct) (auto intro: assms(3))

lemmas move_row_defs = claim_move_def complete_move_def fail_move_def claimable_def

text \<open>The budget, and that the row stays that of the job.\<close>

definition life_budget :: "uuid \<Rightarrow> job_life \<Rightarrow> bool" where
  "life_budget i a \<longleftrightarrow>
     (case jl_row a of
        None \<Rightarrow> jl_runs a = 0
      | Some j \<Rightarrow> jb_id j = i \<and> within_budget j (jl_runs a) (jl_resets a) (jl_resubmits a))"

lemma budget_claim_move:
  assumes "within_budget j n a b" and "claim_move now j j'"
  shows "within_budget j' (Suc n) a b"
  by (rule budget_claim [OF assms(1)]) (use assms(2) in \<open>auto simp: claim_move_def claimable_def\<close>)

lemma budget_complete_move:
  assumes "within_budget j n a b" and "complete_move now res j j'"
  shows "within_budget j' n a b"
  by (rule budget_settled [OF assms(1)]) (use assms(2) in \<open>auto simp: complete_move_def claimable_def\<close>)

lemma budget_fail_move:
  assumes "within_budget j n a b" and "fail_move now msg retry j j'"
  shows "within_budget j' n a b"
  by (rule budget_retry [OF assms(1)]) (use assms(2) in \<open>auto simp: fail_move_def claimable_def split: if_splits\<close>)

lemma budget_reset_move:
  assumes "within_budget j n a b" and "jb_max j' = jb_max j" and "jb_attempts j \<le> jb_attempts j'"
  shows "within_budget j' n (Suc a) b"
proof -
  have "min (jb_attempts j) (run_limit j) \<le> min (jb_attempts j') (run_limit j')"
    using assms by (simp add: run_limit_def min_def)
  moreover have "run_limit j' = run_limit j" using assms by (simp add: run_limit_def)
  ultimately show ?thesis using assms unfolding within_budget_def by (smt (verit) of_nat_Suc)
qed

lemma move_ids:
  "claim_move now j j' \<Longrightarrow> jb_id j' = jb_id j" "complete_move now res j j' \<Longrightarrow> jb_id j' = jb_id j"
  "fail_move now msg retry j j' \<Longrightarrow> jb_id j' = jb_id j"
  by (auto simp: move_row_defs split: if_splits)

lemma life_budget_move: "job_move i a b \<Longrightarrow> life_budget i a \<Longrightarrow> life_budget i b"
proof (induction rule: job_move.induct)
  case (create a j b c)
  then show ?case by (auto simp: life_budget_def within_budget_def run_limit_def claimable_def)
next
  case (heard a b c)
  then show ?case by (auto simp: life_budget_def intro: budget_more split: option.splits)
next
  case (cancel a j)
  then show ?case by (auto simp: life_budget_def claimable_def intro: budget_settled [of j])
next
  case (resubmit a j t)
  then show ?case by (auto simp: life_budget_def intro: budget_resubmit [of j])
next
  case (claim a j now j')
  then show ?case by (auto simp: life_budget_def move_ids intro: budget_fewer budget_claim_move)
next
  case (start a j now j')
  then show ?case by (auto simp: life_budget_def move_ids intro: budget_claim_move)
next
  case (unparsed a j now j1 retry msg j2)
  then have "jb_id j = i" and w: "within_budget j (jl_runs a) (jl_resets a) (jl_resubmits a)"
    by (simp_all add: life_budget_def)
  with budget_fewer [OF budget_fail_move [OF budget_claim_move [OF w unparsed(2)] unparsed(4)]] show ?case
    by (simp add: life_budget_def move_ids(1) [OF unparsed(2)] move_ids(3) [OF unparsed(4)])
next
  case (complete a j xs r ys now res j')
  then show ?case by (auto simp: life_budget_def move_ids intro: budget_complete_move)
next
  case (failed a j xs r ys retry now msg j')
  then show ?case by (auto simp: life_budget_def move_ids intro: budget_fail_move)
next
  case (reset a j j')
  then show ?case by (auto simp: life_budget_def intro: budget_reset_move)
next
  case (no_reset a)
  then show ?case by (auto simp: life_budget_def intro: budget_more split: option.splits)
qed (auto simp: life_budget_def split: option.splits)

text \<open>Until the reaper resets a job, at most one handler runs it, and nothing else writes its row.\<close>

definition life_single :: "job_life \<Rightarrow> bool" where
  "life_single a \<longleftrightarrow> jl_resets a = 0 \<longrightarrow> jl_running a = [] \<or>
     (\<exists>r. jl_running a = [r] \<and> jl_row a = Some r \<and> jb_status r = JobProcessing)"

lemma life_single_cases:
  assumes "life_single a" and "jl_resets a = 0"
  obtains (idle) "jl_running a = []"
    | (busy) r where "jl_running a = [r]" "jl_row a = Some r" "jb_status r = JobProcessing"
  using assms unfolding life_single_def by blast

lemma life_single_idle:
  assumes "life_single a" and "jl_resets a = 0" and "jl_row a = Some j" and "jb_status j \<noteq> JobProcessing"
  shows "jl_running a = []"
  using assms by (auto elim: life_single_cases)

lemma life_single_idle_None:
  assumes "life_single a" and "jl_resets a = 0" and "jl_row a = None"
  shows "jl_running a = []"
  using assms by (auto elim: life_single_cases)

lemma single_split: "[r] = xs @ r' # ys \<longleftrightarrow> xs = [] \<and> ys = [] \<and> r' = r"
  by (cases xs) auto

lemma life_single_idleI: "(jl_resets b = 0 \<Longrightarrow> jl_running b = []) \<Longrightarrow> life_single b"
  by (auto simp: life_single_def)

lemma life_single_move: "job_move i a b \<Longrightarrow> life_single a \<Longrightarrow> life_single b"
proof (induction rule: job_move.induct)
  case (create a j b c)
  then show ?case by (intro life_single_idleI) (simp add: life_single_idle_None)
next
  case (heard a b c)
  then show ?case by (simp add: life_single_def)
next
  case (cancel a j)
  then have "jb_status j \<noteq> JobProcessing" by auto
  with cancel show ?case by (intro life_single_idleI) (simp add: life_single_idle)
next
  case (resubmit a j t)
  then show ?case by (intro life_single_idleI) (simp add: life_single_idle [where j = j])
next
  case (claim a j now j')
  then have "jb_status j \<noteq> JobProcessing" by (auto simp: claim_move_def claimable_def)
  with claim show ?case by (intro life_single_idleI) (simp add: life_single_idle)
next
  case (start a j now j')
  then have "jb_status j \<noteq> JobProcessing" "jb_status j' = JobProcessing" by (auto simp: claim_move_def claimable_def)
  moreover from this start have "jl_resets a = 0 \<longrightarrow> jl_running a = []" by (blast intro: life_single_idle)
  ultimately show ?case unfolding life_single_def by simp
next
  case (unparsed a j now j1 retry msg j2)
  then have "jb_status j \<noteq> JobProcessing" by (auto simp: claim_move_def claimable_def)
  with unparsed show ?case by (intro life_single_idleI) (simp add: life_single_idle)
next
  case (complete a j xs r ys now res j')
  then show ?case by (intro life_single_idleI) (auto elim!: life_single_cases simp: single_split)
next
  case (failed a j xs r ys retry now msg j')
  then show ?case by (intro life_single_idleI) (auto elim!: life_single_cases simp: single_split)
next
  case (vanish a xs r ys)
  then show ?case by (intro life_single_idleI) (auto elim!: life_single_cases simp: single_split)
qed (simp_all add: life_single_def)

lemma completed_stays:
  assumes "job_move i a b" and "life_single a" and "jl_row a = Some j" and "jb_status j = JobCompleted"
    and "jl_resets b = 0"
  shows "jl_row b = Some j"
  using assms
proof (induction rule: job_move.induct)
  case (complete a j0 xs r ys now res j')
  then show ?case using life_single_idle [of a j] by (auto simp: complete_move_def)
next
  case (failed a j0 xs r ys retry now msg j')
  then show ?case using life_single_idle [of a j] by auto
qed (auto simp: move_row_defs)

lemma resets_grow: "job_move i a b \<Longrightarrow> jl_resets a \<le> jl_resets b"
  by (induction rule: job_move.induct) auto

text \<open>A job with at least two tries, neither reset nor resubmitted, is dead only when it is cancelled.\<close>

definition life_tries :: "job_life \<Rightarrow> bool" where
  "life_tries a \<longleftrightarrow> (\<forall>j. jl_row a = Some j \<longrightarrow> jl_resets a = 0 \<longrightarrow> jl_resubmits a = 0 \<longrightarrow> 2 \<le> jb_max j \<longrightarrow>
     (jb_status j = JobPending \<longrightarrow> jb_attempts j = 1) \<and>
     (jb_status j = JobProcessing \<longrightarrow> jb_attempts j < jb_max j) \<and>
     (jb_status j = JobDead \<longrightarrow> jl_cancelled a))"

lemma life_tries_move: "job_move i a b \<Longrightarrow> life_single a \<and> life_tries a \<Longrightarrow> life_tries b"
proof (induction rule: job_move.induct)
  case (failed a j xs r ys retry now msg j')
  show ?case
  proof (cases "jl_resets a = 0")
    case True
    from failed True have "jl_running a = [r]" "jl_row a = Some r" "jb_status r = JobProcessing"
      by (auto elim!: life_single_cases simp: single_split)
    then show ?thesis using failed by (auto simp: life_tries_def fail_move_def)
  qed (use failed in \<open>simp add: life_tries_def\<close>)
next
  case (unparsed a j now j1 retry msg j2)
  then show ?case by (auto simp: life_tries_def move_row_defs)
qed (auto simp: life_tries_def move_row_defs)

section \<open>The system makes the moves\<close>

definition life :: "job_sys \<Rightarrow> uuid \<Rightarrow> job_life" where
  "life s i = \<lparr>jl_row = job_view (jw_store s) i, jl_running = filter (\<lambda>r. jb_id r = i) (jw_running s),
     jl_runs = runs s i, jl_resets = resets s i,
     jl_resubmits = (case job_view (jw_store s) i of None \<Rightarrow> 0 | Some j \<Rightarrow> resubmits s j),
     jl_cancelled = (case job_view (jw_store s) i of None \<Rightarrow> False | Some j \<Rightarrow> cancelled s j)\<rparr>"

abbreviation good_sys :: "job_sys \<Rightarrow> bool" where
  "good_sys s \<equiv> keyed_by_id (jw_store s)"

lemma life_simps [simp]:
  "jl_row (life s i) = job_view (jw_store s) i"
  "jl_running (life s i) = filter (\<lambda>r. jb_id r = i) (jw_running s)"
  "jl_runs (life s i) = runs s i" "jl_resets (life s i) = resets s i"
  by (simp_all add: life_def)

text \<open>A change of the store alone, where the row keeps its owner and identifier.\<close>

lemma life_same_row: "job_view st i = job_view (jw_store s) i \<Longrightarrow> life (s\<lparr>jw_store := st\<rparr>) i = life s i"
  by (simp add: life_def runs_def resets_def resubmits_def cancelled_def split: option.split)

lemma life_new_row:
  assumes "job_view (jw_store s) i = Some j" and "job_view st i = Some j'" and "jb_id j' = jb_id j" and "jb_user j' = jb_user j"
  shows "life (s\<lparr>jw_store := st\<rparr>) i = (life s i)\<lparr>jl_row := Some j'\<rparr>"
  using assms by (simp add: life_def runs_def resets_def resubmits_def cancelled_def)

lemma life_frame [simp]:
  "life (s\<lparr>jw_chan := c\<rparr>) i = life s i" "life (s\<lparr>jw_callbacks := cb\<rparr>) i = life s i"
  by (simp_all add: life_def runs_def resets_def resubmits_def cancelled_def split: option.split)

lemma life_send_callback [simp]: "life (send_callback E job p s) i = life s i"
  by (simp add: send_callback_def)

lemma pipe_set_view:
  assumes "list_all index_only cmds"
  shows "js_data (snd (pipe now fault (CSet j # cmds) s)) = js_data s \<or>
    js_data (snd (pipe now fault (CSet j # cmds) s)) = (js_data s)(jb_id j \<mapsto> (j, now + jobDataTTL))"
  using assms by (auto simp: pipe_def take_Cons fold_index_only list_all_take split: option.splits nat.splits)

lemma js_Submit_data:
  obtains (same) "js_data (snd (js_Submit E s u req)) = js_data s"
    | (new) j where "js_data (snd (js_Submit E s u req)) = (js_data s)(je_new_id E \<mapsto> (j, je_now E + jobDataTTL))"
        "jb_id j = je_new_id E" "jb_status j = JobPending" "jb_attempts j = 1" "jb_user j = u"
proof -
  obtain job where r: "js_Submit E s u req = apfst (map_sum WrapInternal id) (job_Submit E s job)"
    and "jb_id job = je_new_id E" "jb_user job = u"
    by (simp add: js_Submit_def NewJob_def Let_def)
  moreover obtain j cmds where "snd (job_Submit E s job) = snd (pipe (je_now E) (je_fault E (JPipe (jb_id j))) (CSet j # cmds) s)"
    "list_all index_only cmds" "j = job\<lparr>jb_status := JobPending, jb_attempts := 1, jb_created := je_now E\<rparr>"
    by (simp add: job_Submit_def Let_def)
  ultimately show thesis
    using same new [of j] pipe_set_view [of cmds "je_now E" "je_fault E (JPipe (jb_id j))" j s] by auto
qed

lemma job_Update_data:
  "js_data (snd (job_Update E s j)) = js_data s \<or> js_data (snd (job_Update E s j)) = (js_data s)(jb_id j \<mapsto> (j, je_now E + jobDataTTL))"
  using pipe_set_view [of "[]"] by (simp add: job_Update_def)

lemma submit_moves:
  assumes fresh: "js_data (jw_store s) (je_new_id E) = None"
  shows "job_moves i (life s i) (life (job_exec (Submitting E u req) s) i)"
proof (cases u)
  case (Some userID)
  let ?st = "snd (js_Submit E (jw_store s) userID req)"
  have exec: "job_exec (Submitting E u req) s = s\<lparr>jw_store := ?st\<rparr>"
    using Some by (simp add: JH_Submit_def split: prod.split sum.split)
  show ?thesis
  proof (cases rule: js_Submit_data [of E "jw_store s" userID req])
    case same
    then show ?thesis unfolding exec by (simp add: life_same_row job_view_def)
  next
    case (new j)
    show ?thesis
    proof (cases "i = je_new_id E")
      case True
      have "job_view (jw_store s) i = None" "job_view ?st i = Some j" using fresh new(1) True by (simp_all add: job_view_def)
      then have "life (s\<lparr>jw_store := ?st\<rparr>) i
          = (life s i)\<lparr>jl_row := Some j, jl_resubmits := resubmits s j, jl_cancelled := cancelled s j\<rparr>"
        by (simp add: life_def runs_def resets_def resubmits_def cancelled_def)
      moreover have "job_move i (life s i) \<dots>"
        using new(2-4) True \<open>job_view (jw_store s) i = None\<close> by (intro job_move.create) simp_all
      ultimately show ?thesis unfolding exec by simp
    next
      case False
      then show ?thesis unfolding exec using new(1) by (simp add: life_same_row job_view_def)
    qed
  qed
qed (simp add: JH_Submit_def)

lemma pop_data [simp]: "js_data (snd (job_pop E s)) = js_data s"
  by (simp add: job_pop_def pipe_index_only split: option.split)

lemma poll_life: "life (runPoller_tick E s) i = life s i"
proof -
  obtain r st where pop: "job_pop E (jw_store s) = (r, st)" by fastforce
  then have "js_data st = js_data (jw_store s)" using pop_data [of E "jw_store s"] by simp
  then have row: "life (s\<lparr>jw_store := st\<rparr>) i = life s i" by (simp add: life_same_row job_view_def)
  have "runPoller_tick E s = s\<lparr>jw_store := st\<rparr> \<or> (\<exists>c. runPoller_tick E s = s\<lparr>jw_store := st, jw_chan := c\<rparr>)"
    using pop by (auto simp: runPoller_tick_def split: sum.split option.split)
  then show ?thesis using row life_frame(1) [where s = "s\<lparr>jw_store := st\<rparr>"] by fastforce
qed

lemma js_Cancel_data:
  obtains (same) "js_data (snd (js_Cancel E s i u)) = js_data s"
    | (dead) j where "job_view s i = Some j" "jb_user j = u" "jb_status j = JobPending \<or> jb_status j = JobFailed"
        "js_data (snd (js_Cancel E s i u)) = (js_data s)(jb_id j \<mapsto> (j\<lparr>jb_status := JobDead\<rparr>, je_now E + jobDataTTL))"
proof (cases "job_GetByID E s i")
  case (Inr j)
  then have "job_view s i = Some j" by (simp add: job_GetByID_def job_read_Inr)
  then show ?thesis
    using same dead [of j] Inr job_Update_data [of E s "j\<lparr>jb_status := JobDead\<rparr>"]
    by (cases "jb_user j = u"; cases "jb_status j = JobPending \<or> jb_status j = JobFailed") (auto simp: js_Cancel_def)
qed (use same in \<open>simp add: js_Cancel_def\<close>)

lemma js_Resubmit_data:
  obtains (same) "js_data (snd (js_Resubmit E s i u)) = js_data s"
    | (again) j where "job_view s i = Some j" "jb_user j = u" "jb_status j = JobDead"
        "js_data (snd (js_Resubmit E s i u)) = (js_data s)(jb_id j \<mapsto>
           (j\<lparr>jb_status := JobPending, jb_attempts := 0, jb_result := None, jb_last_error := [],
              jb_next_retry := Some (retry_time E)\<rparr>, je_now E + jobDataTTL))"
proof (cases "job_GetByID E s i")
  case (Inr j)
  then have v: "job_view s i = Some j" by (simp add: job_GetByID_def job_read_Inr)
  show ?thesis
  proof (cases "jb_user j = u \<and> jb_status j = JobDead")
    case True
    let ?j = "j\<lparr>jb_status := JobPending, jb_attempts := 0, jb_result := None, jb_last_error := [],
              jb_next_retry := Some (retry_time E)\<rparr>"
    obtain r s1 where u: "job_Update E s ?j = (r, s1)" by fastforce
    obtain r2 s2 where e: "job_Enqueue E s1 (jb_id j) (retry_time E) = (r2, s2)" by fastforce
    then have "js_data s2 = js_data s1" using job_Enqueue_data [of E s1 "jb_id j" "retry_time E"] by simp
    then have "js_data (snd (js_Resubmit E s i u)) = js_data s1"
      using Inr True u e by (auto simp: js_Resubmit_def Let_def split: sum.split)
    then show ?thesis using same again [OF v] True job_Update_data [of E s ?j] u by auto
  qed (use same Inr in \<open>auto simp: js_Resubmit_def\<close>)
qed (use same in \<open>simp add: js_Resubmit_def\<close>)

text \<open>A request by a user enters the history of the job that it names.\<close>

lemma count_note: "count_list (note_request u p log) x = count_list log x + (if u = Some (fst x) \<and> p = Some (snd x) then 1 else 0)"
  by (cases x) (auto simp: note_request_def split: option.split)

lemma set_note: "set (note_request u p log) = set log \<union> (case (u, p) of (Some user, Some i) \<Rightarrow> {(user, i)} | _ \<Rightarrow> {})"
  by (auto simp: note_request_def split: option.split)

lemma cancel_moves:
  assumes good: "good_sys s"
  shows "job_moves i (life s i) (life (job_exec (Cancelling E u p) s) i)"
proof -
  let ?s = "job_exec (Cancelling E u p) s"
  have heard: "job_moves i (life s i) (life ?s i)" if "job_view (jw_store ?s) i = job_view (jw_store s) i"
  proof -
    let ?c = "case job_view (jw_store s) i of None \<Rightarrow> False | Some j \<Rightarrow> cancelled ?s j"
    have "life ?s i = (life s i)\<lparr>jl_resubmits := jl_resubmits (life s i), jl_cancelled := ?c\<rparr>"
      using that by (simp add: life_def runs_def resets_def resubmits_def cong: option.case_cong)
    moreover have "jl_cancelled (life s i) \<longrightarrow> ?c"
      by (auto simp: life_def cancelled_def set_note split: option.split)
    ultimately show ?thesis using job_move.heard [of "life s i" _ ?c i] by (metis order_refl r_into_rtranclp)
  qed
  show ?thesis
  proof (cases "\<exists>user k. u = Some user \<and> p = Some k")
    case True
    then obtain user k where up: "u = Some user" "p = Some k" by blast
    have store: "jw_store ?s = snd (js_Cancel E (jw_store s) k user)"
      using up by (simp add: JH_Cancel_def split: prod.split sum.split)
    show ?thesis
    proof (cases rule: js_Cancel_data [of E "jw_store s" k user])
      case same
      then show ?thesis by (intro heard) (unfold store job_view_def, simp)
    next
      case (dead j)
      have id: "jb_id j = k" by (rule keyed_view [OF good dead(1)])
      show ?thesis
      proof (cases "i = k")
        case True
        let ?j = "j\<lparr>jb_status := JobDead\<rparr>"
        have row: "job_view (jw_store ?s) i = Some ?j" using dead(4) id True unfolding store job_view_def by simp
        have "resubmits ?s ?j = resubmits s j" "cancelled ?s ?j"
          using dead(2) id up by (simp_all add: resubmits_def cancelled_def set_note)
        then have "life ?s i = (life s i)\<lparr>jl_row := Some ?j, jl_cancelled := True\<rparr>"
          using row dead(1) True by (simp add: life_def runs_def resets_def)
        moreover have "job_move i (life s i) \<dots>" using dead(1,3) True by (intro job_move.cancel) simp_all
        ultimately show ?thesis by simp
      next
        case False
        then show ?thesis using dead(4) id by (intro heard) (unfold store job_view_def, simp)
      qed
    qed
  next
    case False
    then have "jw_store ?s = jw_store s" by (auto simp: JH_Cancel_def split: option.split)
    then show ?thesis by (intro heard) simp
  qed
qed

lemma resubmit_moves:
  assumes good: "good_sys s"
  shows "job_moves i (life s i) (life (job_exec (Resubmitting E u p) s) i)"
proof -
  let ?s = "job_exec (Resubmitting E u p) s"
  have heard: "job_moves i (life s i) (life ?s i)" if "job_view (jw_store ?s) i = job_view (jw_store s) i"
  proof -
    let ?b = "case job_view (jw_store s) i of None \<Rightarrow> 0 | Some j \<Rightarrow> resubmits ?s j"
    have "life ?s i = (life s i)\<lparr>jl_resubmits := ?b, jl_cancelled := jl_cancelled (life s i)\<rparr>"
      using that by (simp add: life_def runs_def resets_def cancelled_def cong: option.case_cong)
    moreover have "jl_resubmits (life s i) \<le> ?b"
      by (auto simp: life_def resubmits_def count_note split: option.split)
    ultimately show ?thesis using job_move.heard [of "life s i" ?b _ i] by (metis r_into_rtranclp)
  qed
  show ?thesis
  proof (cases "\<exists>user k. u = Some user \<and> p = Some k")
    case True
    then obtain user k where up: "u = Some user" "p = Some k" by blast
    have store: "jw_store ?s = snd (js_Resubmit E (jw_store s) k user)"
      using up by (simp add: JH_Resubmit_def split: prod.split sum.split)
    show ?thesis
    proof (cases rule: js_Resubmit_data [of E "jw_store s" k user])
      case same
      then show ?thesis by (intro heard) (unfold store job_view_def, simp)
    next
      case (again j)
      have id: "jb_id j = k" by (rule keyed_view [OF good again(1)])
      show ?thesis
      proof (cases "i = k")
        case True
        let ?j = "j\<lparr>jb_status := JobPending, jb_attempts := 0, jb_result := None, jb_last_error := [],
              jb_next_retry := Some (retry_time E)\<rparr>"
        have row: "job_view (jw_store ?s) i = Some ?j" using again(4) id True unfolding store job_view_def by simp
        have "resubmits ?s ?j = Suc (resubmits s j)" "cancelled ?s ?j = cancelled s j"
          using again(2) id up by (simp_all add: resubmits_def cancelled_def count_note)
        then have "life ?s i = (life s i)\<lparr>jl_row := Some ?j, jl_resubmits := Suc (jl_resubmits (life s i))\<rparr>"
          using row again(1) True by (simp add: life_def runs_def resets_def)
        moreover have "job_move i (life s i) \<dots>" using again(1,3) True by (intro job_move.resubmit) simp_all
        ultimately show ?thesis by simp
      next
        case False
        then show ?thesis using again(4) id by (intro heard) (unfold store job_view_def, simp)
      qed
    qed
  next
    case False
    then have "jw_store ?s = jw_store s" by (auto simp: JH_Resubmit_def split: option.split)
    then show ?thesis by (intro heard) simp
  qed
qed

lemma moved_keyed:
  assumes "moved i P s s'" and "keyed_by_id s" and "\<And>old new. P old new \<Longrightarrow> jb_id new = jb_id old"
  shows "keyed_by_id s'"
  unfolding keyed_by_id_def
proof (intro allI impI)
  fix k j assume v: "job_view s' k = Some j"
  show "jb_id j = k"
  proof (cases "k = i")
    case True
    show ?thesis using assms(1)
    proof (cases rule: moved_cases)
      case same
      then show ?thesis using v True keyed_view [OF assms(2)] by simp
    next
      case (move old new)
      then show ?thesis using v True keyed_view [OF assms(2) move(1)] assms(3) by simp
    qed
  next
    case False
    then show ?thesis using v moved_other [OF assms(1)] keyed_view [OF assms(2)] by simp
  qed
qed

lemma move_users:
  "claim_move now j j' \<Longrightarrow> jb_user j' = jb_user j" "complete_move now res j j' \<Longrightarrow> jb_user j' = jb_user j"
  "fail_move now msg retry j j' \<Longrightarrow> jb_user j' = jb_user j"
  by (auto simp: move_row_defs split: if_splits)

definition error_retry :: "('e) worker_env_scheme \<Rightarrow> job \<Rightarrow> instant option" where
  "error_retry E job = (if jb_attempts job < jb_max job then Some (calculateBackoff E (jb_attempts job)) else None)"

lemma error_retry_iff: "error_retry E job \<noteq> None \<longleftrightarrow> jb_attempts job < jb_max job"
  by (simp add: error_retry_def)

lemma handleError_life:
  "life (job_handleError E s job err) i =
   life (s\<lparr>jw_store := snd (SetFailed E (jw_store s) (jb_id job) (error_text err) (error_retry E job))\<rparr>) i"
  by (simp add: job_handleError_def error_retry_def)

lemma life_other_running [simp]:
  "jb_id r \<noteq> i \<Longrightarrow> life (s\<lparr>jw_running := xs @ r # ys\<rparr>) i = life (s\<lparr>jw_running := xs @ ys\<rparr>) i"
  by (simp add: life_def runs_def resets_def resubmits_def cancelled_def split: option.split)

lemma life_same_running: "life (s\<lparr>jw_running := jw_running s\<rparr>) i = life s i"
  by simp

text \<open>A claim, and what begins with it.\<close>

lemma begin_moves:
  assumes good: "good_sys s"
  shows "job_moves i (life s i) (life (begin_job E s job) i)"
proof -
  obtain r st where run: "SetProcessing E (jw_store s) (jb_id job) = (r, st)" by fastforce
  note p = SetProcessing_moved [OF good run]
  have good': "keyed_by_id st" by (rule moved_keyed [OF p(1) good]) (rule move_ids)
  have claim: "job_moves i (life s i) (life (s\<lparr>jw_store := st\<rparr>) i)"
  proof (cases "i = jb_id job")
    case True
    show ?thesis using p(1)
    proof (cases rule: moved_cases)
      case (move old new)
      then show ?thesis
        using True job_move.claim [of "life s i" old "je_now E" new i] life_new_row [of s i old st new]
        by (simp add: move_ids move_users r_into_rtranclp)
    qed (simp add: True life_same_row)
  qed (use moved_other [OF p(1)] in \<open>simp add: life_same_row\<close>)
  show ?thesis
  proof (cases r)
    case (Inl err)
    then show ?thesis using claim run by (simp add: begin_job_def)
  next
    case (Inr j)
    from p(2) [OF Inr] obtain old where old: "job_view (jw_store s) (jb_id job) = Some old"
      "job_view st (jb_id job) = Some j" "claim_move (je_now E) old j" by blast
    have id: "jb_id j = jb_id job" using move_ids(1) [OF old(3)] keyed_view [OF good old(1)] by simp
    show ?thesis
    proof (cases "parse_payload E (jb_payload j)")
      case None
      let ?retry = "error_retry E j" and ?msg = "error_text (Opaque ''invalid payload'')"
      let ?st = "snd (SetFailed E st (jb_id j) ?msg ?retry)"
      have life': "life (begin_job E s job) i = life (s\<lparr>jw_store := ?st\<rparr>) i"
        using run Inr None by (simp add: begin_job_def handleError_life)
      note f = SetFailed_moved [OF good', where i = "jb_id j" and E = E and msg = ?msg and retry = ?retry]
      show ?thesis
      proof (cases "i = jb_id job")
        case True
        show ?thesis using f
        proof (cases rule: moved_cases)
          case same
          then have "life (s\<lparr>jw_store := ?st\<rparr>) i = life (s\<lparr>jw_store := st\<rparr>) i"
            using True id life_same_row [of ?st i "s\<lparr>jw_store := st\<rparr>"] by simp
          then show ?thesis using claim life' by simp
        next
          case (move j1 j2)
          then have "j1 = j" using old(2) id by simp
          with move have j2: "job_view ?st i = Some j2" "fail_move (je_now E) ?msg ?retry j j2" using True id by simp_all
          have "life (s\<lparr>jw_store := ?st\<rparr>) i = (life s i)\<lparr>jl_row := Some j2\<rparr>"
            using life_new_row [of s i old ?st j2] old(1) True j2(1) move_ids(1) [OF old(3)] move_users(1) [OF old(3)]
              move_ids(3) [OF j2(2)] move_users(3) [OF j2(2)] by simp
          moreover have "job_move i (life s i) \<dots>"
            using old True j2 by (intro job_move.unparsed [where now = "je_now E" and retry = ?retry]) (auto simp: error_retry_def)
          ultimately show ?thesis using life' by auto
        qed
      next
        case False
        then have "life (s\<lparr>jw_store := ?st\<rparr>) i = life (s\<lparr>jw_store := st\<rparr>) i"
          using moved_other [OF f] id life_same_row [of ?st i "s\<lparr>jw_store := st\<rparr>"] by simp
        then show ?thesis using claim life' by simp
      qed
    next
      case (Some payload)
      let ?s = "s\<lparr>jw_store := st, jw_running := jw_running s @ [j], jw_runs := jw_runs s @ [jb_id j]\<rparr>"
      have b: "begin_job E s job = ?s" using run Inr Some by (simp add: begin_job_def)
      show ?thesis
      proof (cases "i = jb_id job")
        case True
        have "life ?s i = (life s i)\<lparr>jl_row := Some j, jl_running := jl_running (life s i) @ [j], jl_runs := Suc (jl_runs (life s i))\<rparr>"
          using old True id move_users(1) [OF old(3)] move_ids(1) [OF old(3)]
          by (simp add: life_def runs_def resets_def resubmits_def cancelled_def)
        moreover have "job_move i (life s i) \<dots>" using old True by (intro job_move.start) simp_all
        ultimately show ?thesis using b by auto
      next
        case False
        then have "life ?s i = life (s\<lparr>jw_store := st\<rparr>) i"
          using id by (simp add: life_def runs_def resets_def resubmits_def cancelled_def split: option.split)
        then show ?thesis using claim b by simp
      qed
    qed
  qed
qed

lemma take_moves:
  assumes "good_sys s"
  shows "job_moves i (life s i) (life (runWorker_take E s) i)"
proof (cases "jw_chan s")
  case (Cons job rest)
  have "good_sys (s\<lparr>jw_chan := rest\<rparr>)" using assms by simp
  from begin_moves [OF this, of i E job] show ?thesis using Cons by (simp add: runWorker_take_def)
qed (simp add: runWorker_take_def)

text \<open>A handler returns: the job leaves the running ones, and its row changes or not.\<close>

lemma leave_life:
  assumes "jw_running s = xs @ r # ys"
  shows "life (s\<lparr>jw_running := xs @ ys\<rparr>) i
    = (if jb_id r = i then (life s i)\<lparr>jl_running := filter (\<lambda>r. jb_id r = i) xs @ filter (\<lambda>r. jb_id r = i) ys\<rparr> else life s i)"
  using assms by (simp add: life_def runs_def resets_def resubmits_def cancelled_def split: option.split)

lemma leave_store_life:
  assumes run: "jw_running s = xs @ r # ys" and good: "good_sys s"
    and m: "moved (jb_id r) P (jw_store s) st"
    and P: "\<And>old new. P old new \<Longrightarrow> jb_id new = jb_id old \<and> jb_user new = jb_user old"
    and step: "\<And>old new us vs. P old new \<Longrightarrow> job_view (jw_store s) i = Some old \<Longrightarrow> jl_running (life s i) = us @ r # vs \<Longrightarrow>
      jb_id r = i \<Longrightarrow> job_move i (life s i) ((life s i)\<lparr>jl_row := Some new, jl_running := us @ vs\<rparr>)"
  shows "job_moves i (life s i) (life (s\<lparr>jw_running := xs @ ys, jw_store := st\<rparr>) i)"
proof (cases "jb_id r = i")
  case True
  let ?us = "filter (\<lambda>r. jb_id r = i) xs" and ?vs = "filter (\<lambda>r. jb_id r = i) ys"
  let ?s = "s\<lparr>jw_running := xs @ ys\<rparr>"
  have split: "jl_running (life s i) = ?us @ r # ?vs" using run True by simp
  have leave: "life ?s i = (life s i)\<lparr>jl_running := ?us @ ?vs\<rparr>" using leave_life [OF run, of i] True by simp
  show ?thesis using m
  proof (cases rule: moved_cases)
    case same
    then have "life (?s\<lparr>jw_store := st\<rparr>) i = (life s i)\<lparr>jl_running := ?us @ ?vs\<rparr>"
      using life_same_row [of st i ?s] leave True by simp
    moreover have "job_move i (life s i) \<dots>" using split by (rule job_move.vanish)
    ultimately show ?thesis by auto
  next
    case (move old new)
    then have "life (?s\<lparr>jw_store := st\<rparr>) i = (life s i)\<lparr>jl_running := ?us @ ?vs, jl_row := Some new\<rparr>"
      using life_new_row [of ?s i old st new] leave P [OF move(3)] True by simp
    moreover have "\<dots> = (life s i)\<lparr>jl_row := Some new, jl_running := ?us @ ?vs\<rparr>" by simp
    moreover have "job_move i (life s i) \<dots>" using step [OF move(3) _ split True] move(1) True by simp
    ultimately show ?thesis by auto
  qed
next
  case False
  then have "life (s\<lparr>jw_running := xs @ ys, jw_store := st\<rparr>) i = life s i"
    using leave_life [OF run, of i] life_same_row [of st i "s\<lparr>jw_running := xs @ ys\<rparr>"] moved_other [OF m, of i] by auto
  then show ?thesis by simp
qed

lemma finish_moves:
  assumes good: "good_sys s"
  shows "job_moves i (life s i) (life (runWorker_finish E s k) i)"
proof (cases "k < length (jw_running s)")
  case True
  let ?r = "jw_running s ! k" and ?xs = "take k (jw_running s)" and ?ys = "drop (Suc k) (jw_running s)"
  have run: "jw_running s = ?xs @ ?r # ?ys" using id_take_nth_drop [OF True] .
  let ?s = "s\<lparr>jw_running := ?xs @ ?ys\<rparr>"
  have w: "runWorker_finish E s k = finish_job E ?s ?r" using True by (simp add: runWorker_finish_def)
  obtain out where out: "registry_Handle (wx_registry E) (jb_type ?r)
      (case parse_payload E (jb_payload ?r) of None \<Rightarrow> None | Some p \<Rightarrow> p) = out" by simp
  show ?thesis
  proof (cases out)
    case (Inl err)
    let ?st = "snd (SetFailed E (jw_store s) (jb_id ?r) (error_text err) (error_retry E ?r))"
    have "life (runWorker_finish E s k) i = life (s\<lparr>jw_running := ?xs @ ?ys, jw_store := ?st\<rparr>) i"
      using out Inl by (simp add: w finish_job_def handleError_life)
    moreover have "job_moves i (life s i) (life (s\<lparr>jw_running := ?xs @ ?ys, jw_store := ?st\<rparr>) i)"
    proof (rule leave_store_life [OF run good SetFailed_moved [OF good]])
      fix old new us vs
      let ?P = "fail_move (je_now E) (error_text err) (error_retry E ?r)"
      show "?P old new \<Longrightarrow> jb_id new = jb_id old \<and> jb_user new = jb_user old" by (simp add: move_ids move_users)
      assume "?P old new" "job_view (jw_store s) i = Some old" "jl_running (life s i) = us @ ?r # vs"
      then show "job_move i (life s i) ((life s i)\<lparr>jl_row := Some new, jl_running := us @ vs\<rparr>)"
        by (intro job_move.failed [OF _ _ error_retry_iff]) simp_all
    qed
    ultimately show ?thesis by simp
  next
    case (Inr res)
    let ?st = "snd (SetCompleted E (jw_store s) (jb_id ?r) res)"
    have "life (runWorker_finish E s k) i = life (s\<lparr>jw_running := ?xs @ ?ys, jw_store := ?st\<rparr>) i"
      using out Inr by (simp add: w finish_job_def split: prod.split sum.split)
    moreover have "job_moves i (life s i) (life (s\<lparr>jw_running := ?xs @ ?ys, jw_store := ?st\<rparr>) i)"
      by (rule leave_store_life [OF run good SetCompleted_moved [OF good]])
        (auto simp: move_ids move_users intro!: job_move.complete)
    ultimately show ?thesis by simp
  qed
qed (simp add: runWorker_finish_def)

lemma crash_moves: "job_moves i (life s i) (life (job_exec (Crashing t) s) i)"
proof -
  have "life (job_exec (Crashing t) s) i = (life s i)\<lparr>jl_running := []\<rparr>"
    by (simp add: life_def runs_def resets_def resubmits_def cancelled_def split: option.split)
  then show ?thesis using job_move.crash [of i "life s i"] by auto
qed

text \<open>The reaper writes back the jobs as it has read them, counted once more.\<close>

definition reset_row :: "('e) job_env_scheme \<Rightarrow> job \<Rightarrow> job" where
  "reset_row E job = job\<lparr>jb_status := JobPending, jb_attempts := jb_attempts job + 1, jb_next_retry := Some (retry_time E)\<rparr>"

lemma reset_row_simps [simp]:
  "jb_id (reset_row E j) = jb_id j" "jb_max (reset_row E j) = jb_max j" "jb_user (reset_row E j) = jb_user j"
  "jb_attempts (reset_row E j) = jb_attempts j + 1"
  by (simp_all add: reset_row_def)

definition reaped_store :: "('e) worker_env_scheme \<Rightarrow> job \<Rightarrow> job_sys \<Rightarrow> job_store" where
  "reaped_store E job s = jw_store (snd (reap_job E job (0, s)))"

lemma reap_job_shape:
  "snd (reap_job E job (n, s)) = s\<lparr>jw_store := reaped_store E job s, jw_resets := jw_resets s @ [jb_id job]\<rparr>"
  by (simp add: reap_job_def reaped_store_def Let_def split: prod.split sum.split)

lemma reaped_view:
  "job_view (reaped_store E job s) = job_view (jw_store s) \<or>
   job_view (reaped_store E job s) = (job_view (jw_store s))(jb_id job \<mapsto> reset_row E job)"
proof -
  obtain r st where w: "ResetStuckJob E (jw_store s) job (retry_time E) = (r, st)" by fastforce
  obtain r2 st2 where e: "job_Enqueue E st (jb_id job) (retry_time E) = (r2, st2)" by fastforce
  have "js_data st2 = js_data st" using job_Enqueue_data [of E st "jb_id job" "retry_time E"] e by simp
  then have "js_data (reaped_store E job s) = js_data st"
    using w e by (auto simp: reaped_store_def reap_job_def Let_def split: sum.split)
  moreover have "js_data st = js_data (jw_store s) \<or> js_data st = (js_data (jw_store s))(jb_id job \<mapsto> (reset_row E job, je_now E + jobDataTTL))"
    using write_and_move_view [OF w [unfolded ResetStuckJob_def]] by (auto simp: reset_row_def)
  ultimately show ?thesis by (auto simp: job_view_def)
qed

definition as_read :: "job_sys \<Rightarrow> job \<Rightarrow> bool" where
  "as_read s j \<longleftrightarrow> (\<exists>row. job_view (jw_store s) (jb_id j) = Some row \<and> jb_id row = jb_id j \<and> jb_max row = jb_max j \<and>
     jb_user row = jb_user j \<and> jb_attempts row \<le> jb_attempts j + 1)"

lemma reap_job_moves:
  assumes "as_read s job"
  shows "job_moves i (life s i) (life (snd (reap_job E job (n, s))) i)"
proof -
  let ?st = "reaped_store E job s"
  let ?s = "s\<lparr>jw_store := ?st, jw_resets := jw_resets s @ [jb_id job]\<rparr>"
  show ?thesis
  proof (cases "i = jb_id job")
    case True
    from assms obtain row where row: "job_view (jw_store s) i = Some row" "jb_id row = jb_id job" "jb_max row = jb_max job"
      "jb_user row = jb_user job" "jb_attempts row \<le> jb_attempts job + 1" unfolding as_read_def True by blast
    from reaped_view [of E job s] show ?thesis
    proof
      assume same: "job_view ?st = job_view (jw_store s)"
      then have "life ?s i = (life s i)\<lparr>jl_resets := Suc (jl_resets (life s i))\<rparr>"
        using True by (simp add: life_def runs_def resets_def resubmits_def cancelled_def split: option.split)
      then show ?thesis unfolding reap_job_shape using job_move.no_reset [of i "life s i"] by auto
    next
      assume upd: "job_view ?st = (job_view (jw_store s))(jb_id job \<mapsto> reset_row E job)"
      then have "life ?s i = (life s i)\<lparr>jl_row := Some (reset_row E job), jl_resets := Suc (jl_resets (life s i))\<rparr>"
        using True row by (simp add: life_def runs_def resets_def resubmits_def cancelled_def)
      moreover have "job_move i (life s i) \<dots>" by (rule job_move.reset) (use row True in simp_all)
      ultimately show ?thesis unfolding reap_job_shape by auto
    qed
  next
    case False
    then have "job_view ?st i = job_view (jw_store s) i" using reaped_view [of E job s] by auto
    then have "life ?s i = life s i"
      using False by (simp add: life_def runs_def resets_def resubmits_def cancelled_def split: option.split)
    then show ?thesis unfolding reap_job_shape by simp
  qed
qed

lemma reap_job_as_read:
  assumes "as_read s j" and "jb_id j = jb_id job \<Longrightarrow> j = job"
  shows "as_read (snd (reap_job E job (n, s))) j"
  using assms reaped_view [of E job s] by (auto simp: as_read_def reap_job_shape)

lemma reap_fold_moves:
  assumes "\<forall>j\<in>set js. as_read s j" and "\<forall>j\<in>set js. \<forall>j'\<in>set js. jb_id j = jb_id j' \<longrightarrow> j = j'"
  shows "job_moves i (life s i) (life (snd (fold (reap_job E) js (n, s))) i)"
  using assms
proof (induction js arbitrary: n s)
  case (Cons job js)
  obtain n' s' where r: "reap_job E job (n, s) = (n', s')" by fastforce
  have "job_moves i (life s i) (life s' i)" using reap_job_moves [of s job i E n] Cons.prems(1) r by simp
  moreover have "\<forall>j\<in>set js. as_read s' j"
  proof
    fix j assume "j \<in> set js"
    then have "as_read s j" "jb_id j = jb_id job \<Longrightarrow> j = job" using Cons.prems by auto
    from reap_job_as_read [OF this, of E n] show "as_read s' j" by (simp add: r)
  qed
  then have "job_moves i (life s' i) (life (snd (fold (reap_job E) js (n', s'))) i)"
    using Cons.IH [of s' n'] Cons.prems(2) by simp
  ultimately show ?case using r by simp
qed simp

lemma job_fetch_view: "j \<in> set (job_fetch E s st is) \<Longrightarrow> keyed_by_id s \<Longrightarrow> job_view s (jb_id j) = Some j \<and> jb_id j \<in> set is"
proof (induction "is")
  case (Cons k ks)
  show ?case
  proof (cases "job_GetByID E s k")
    case (Inr j0)
    then have "job_view s k = Some j0" by (simp add: job_GetByID_def job_read_Inr)
    then show ?thesis using Cons Inr keyed_view [of s k j0] by (auto split: if_splits)
  qed (use Cons in auto)
qed simp

lemma reap_moves:
  assumes good: "good_sys s"
  shows "job_moves i (life s i) (life (snd (Reap E s)) i)"
proof (cases "GetStuckJobs E (jw_store s) (jc_stuck_seconds (je_config E) * second)")
  case (Inr stuck)
  then have view: "job_view (jw_store s) (jb_id j) = Some j" if "j \<in> set stuck" for j
    using that job_fetch_view [OF _ good, of j E None] by (auto simp: GetStuckJobs_def split: if_splits)
  then have "\<forall>j\<in>set stuck. as_read s j" by (auto simp: as_read_def)
  moreover have "\<forall>j\<in>set stuck. \<forall>j'\<in>set stuck. jb_id j = jb_id j' \<longrightarrow> j = j'" using view by (metis option.inject)
  ultimately have "job_moves i (life s i) (life (snd (fold (reap_job E) stuck (0, s))) i)" by (rule reap_fold_moves)
  moreover have "snd (Reap E s) = snd (fold (reap_job E) stuck (0, s))"
    using Inr by (simp add: Reap_def split: prod.split)
  ultimately show ?thesis by simp
qed (simp add: Reap_def)

theorem event_moves:
  assumes "good_sys s" and "fresh_event e s"
  shows "job_moves i (life s i) (life (job_exec e s) i)"
proof (cases e)
  case (Submitting E u req)
  then show ?thesis using submit_moves [of s E] assms by simp
next
  case (Cancelling E u p)
  then show ?thesis using cancel_moves [OF assms(1)] by simp
next
  case (Resubmitting E u p)
  then show ?thesis using resubmit_moves [OF assms(1)] by simp
next
  case (Finishing E k)
  then show ?thesis using finish_moves [OF assms(1)] by simp
next
  case (Crashing t)
  then show ?thesis using crash_moves [of i s t] by simp
qed (use assms in \<open>simp_all add: poll_life take_moves reap_moves\<close>)

lemma good_initial: "good_sys job_initial"
  by (simp add: keyed_by_id_def job_view_def job_initial_def)

text \<open>A property of the life of one job that the moves keep, and that the budget implies, holds in every run.\<close>

lemma row_id_moves:
  assumes "job_moves i a b" and "\<And>j. jl_row a = Some j \<Longrightarrow> jb_id j = i"
  shows "jl_row b = Some j \<Longrightarrow> jb_id j = i"
proof -
  have "\<forall>j. jl_row b = Some j \<longrightarrow> jb_id j = i"
  proof (rule job_moves_inv [OF assms(1)])
    fix a b assume a: "\<forall>j. jl_row a = Some j \<longrightarrow> jb_id j = i" and m: "job_move i a b"
    from m a show "\<forall>j. jl_row b = Some j \<longrightarrow> jb_id j = i"
      by (induction rule: job_move.induct) (auto, (metis move_ids)+)
  qed (use assms(2) in simp)
  then show "jl_row b = Some j \<Longrightarrow> jb_id j = i" by simp
qed

lemma good_exec:
  assumes "good_sys s" and "fresh_event e s"
  shows "good_sys (job_exec e s)"
  unfolding keyed_by_id_def
proof (intro allI impI)
  fix i j assume "job_view (jw_store (job_exec e s)) i = Some j"
  with row_id_moves [OF event_moves [OF assms, of i]] keyed_view [OF assms(1)] show "jb_id j = i" by simp
qed

lemma steps_moves:
  assumes "job_steps (t0, s0) es (t, s)" and "good_sys s0"
  shows "good_sys s" and "job_moves i (life s0 i) (life s i)"
proof -
  have "good_sys s \<and> job_moves i (life s0 i) (life s i)"
  proof (rule job_steps_inv [OF assms(1)])
    show "good_sys s0 \<and> job_moves i (life s0 i) (life s0 i)" using assms(2) by simp
  next
    fix s e assume "good_sys s \<and> job_moves i (life s0 i) (life s i)" "fresh_event e s"
    then show "good_sys (job_exec e s) \<and> job_moves i (life s0 i) (life (job_exec e s) i)"
      using event_moves [of s e i] good_exec [of s e] by (meson rtranclp_trans)
  qed
  then show "good_sys s" "job_moves i (life s0 i) (life s i)" by simp_all
qed

lemma initial_life:
  "life job_initial i = \<lparr>jl_row = None, jl_running = [], jl_runs = 0, jl_resets = 0, jl_resubmits = 0, jl_cancelled = False\<rparr>"
  by (simp add: life_def job_initial_def job_view_def runs_def resets_def)

lemma reachable_life:
  assumes "job_steps (t0, job_initial) es (t, s)"
  shows "good_sys s" and "life_budget i (life s i)" and "life_single (life s i)" and "life_tries (life s i)"
proof -
  note m = steps_moves [OF assms good_initial]
  show "good_sys s" by (rule m(1))
  have init: "life_budget i (life job_initial i)" "life_single (life job_initial i)" "life_tries (life job_initial i)"
    by (simp_all add: initial_life life_budget_def life_single_def life_tries_def)
  show "life_budget i (life s i)"
    using job_moves_inv [OF m(2), where P = "life_budget i"] init(1) life_budget_move by blast
  have "life_single (life s i) \<and> life_tries (life s i)"
    using job_moves_inv [OF m(2), where P = "\<lambda>a. life_single a \<and> life_tries a"] init(2,3) life_single_move life_tries_move
    by blast
  then show "life_single (life s i)" "life_tries (life s i)" by simp_all
qed

end
