(* ===== verification/Job_Properties.thy ===== *)
theory Job_Properties
  imports Job_Life
begin

text \<open>
  Properties of the background jobs: how often a job is run, what becomes of one that fails every
  time, what holds of a completed one, what the reaper finds, and who may cancel and resubmit.
\<close>

section \<open>Runs that can be computed\<close>

fun run_events :: "instant \<times> job_sys \<Rightarrow> job_event list \<Rightarrow> (instant \<times> job_sys) option" where
  "run_events (t, s) [] = Some (t, s)"
| "run_events (t, s) (e # es) =
     (if t \<le> event_time e \<and> fresh_event e s then run_events (event_time e, job_exec e s) es else None)"

lemma run_events_steps: "run_events c es = Some c' \<Longrightarrow> job_steps c es c'"
proof (induction c es rule: run_events.induct)
  case (2 t s e es)
  then have ok: "t \<le> event_time e" "fresh_event e s" and "run_events (event_time e, job_exec e s) es = Some c'"
    by (simp_all split: if_splits)
  then have "job_steps (event_time e, job_exec e s) es c'" using 2 by blast
  from job_steps_append [OF this job_steps.more [OF job_steps.none ok]] show ?case by simp
qed (simp add: job_steps.none)

text \<open>A job of three tries, whose handler fails at odd and succeeds at even instants.\<close>

definition demo_job_env :: "instant \<Rightarrow> worker_env" where
  "demo_job_env t = \<lparr>je_now = t * second, je_fault = (\<lambda>c. None), je_config = DefaultJobConfig, je_new_id = ''j1'',
     wx_stopping = False, wx_unmarshal = (\<lambda>text. Some (JObj [])),
     wx_registry = [''test'' \<mapsto> (\<lambda>typ payload. if odd t then Inl (Opaque ''no'') else Inr ''ok'')],
     wx_has_callback = True\<rparr>"

definition demo_submit :: job_event where
  "demo_submit = Submitting (demo_job_env 0) (Some ''u1'')
     \<lparr>sq_type = ''test'', sq_payload = ''{}'', sq_max_retries = 0, sq_webhook_url = []\<rparr>"

definition demo_failures :: "job_event list" where
  "demo_failures = demo_submit #
     concat (map (\<lambda>t. [Polling (demo_job_env t), Taking (demo_job_env t), Finishing (demo_job_env t) 0]) [1, 3, 5])"

definition demo_late :: "job_event list" where
  "demo_late = [demo_submit, Polling (demo_job_env 1), Taking (demo_job_env 1), Reaping (demo_job_env 400),
     Polling (demo_job_env 401), Taking (demo_job_env 401), Finishing (demo_job_env 402) 1]"

definition after :: "job_event list \<Rightarrow> job_sys" where
  "after es = snd (the (run_events (0, job_initial) es))"

lemmas job_run_defs = demo_job_env_def demo_submit_def job_initial_def DefaultJobConfig_def second_def
  JH_Submit_def js_Submit_def job_Submit_def NewJob_def pipe_def with_members_def live_def expire_at_def put_score_def
  drop_score_def unix_seconds_def unix_milli_def retry_time_def runPoller_tick_def job_pop_def queue_min_def zsort_def
  score_less_def job_GetByID_def job_read_def stored_job_def jobDataTTL_def runWorker_take_def begin_job_def
  SetProcessing_def claimable_def write_and_move_def job_Update_def move_index_def parse_payload_def
  runWorker_finish_def finish_job_def registry_Handle_def job_handleError_def SetFailed_def calculateBackoff_def
  job_Enqueue_def send_callback_def SetCompleted_def Reap_def GetStuckJobs_def started_before_def reap_job_def
  ResetStuckJob_def job_view_def runs_def resets_def resubmits_def cancelled_def

lemma demo_failures_run:
  "\<exists>s j. run_events (0, job_initial) demo_failures = Some (5 * second, s) \<and> job_view (jw_store s) ''j1'' = Some j \<and>
     jb_status j = JobFailed \<and> jb_attempts j = 3 \<and> jb_max j = 3 \<and> runs s ''j1'' = 2 \<and> js_queue (jw_store s) = [] \<and>
     resets s ''j1'' = 0 \<and> resubmits s j = 0 \<and> \<not> cancelled s j"
  by (simp add: demo_failures_def job_run_defs Let_def)

lemma demo_late_run:
  "\<exists>s j. run_events (0, job_initial) demo_late = Some (402 * second, s) \<and> job_view (jw_store s) ''j1'' = Some j \<and>
     jb_status j = JobCompleted"
  by (simp add: demo_late_def job_run_defs Let_def)

section \<open>How often a job is run\<close>

lemma runs_within_limit:
  assumes "job_steps (t0, job_initial) es (t, s)" and "job_view (jw_store s) i = Some j"
  shows "int (runs s i) \<le> run_limit j + int (resubmits s j) * (run_limit j + 1) + int (resets s i)"
proof -
  have "within_budget j (runs s i) (resets s i) (resubmits s j)"
    using reachable_life(2) [OF assms(1), of i] assms(2) by (simp add: life_budget_def life_def)
  then have "int (runs s i) \<le> min (jb_attempts j) (run_limit j) + int (resubmits s j) * (run_limit j + 1) + int (resets s i)"
    by (simp add: within_budget_def split: if_splits)
  then show ?thesis using min.cobounded2 [of "jb_attempts j" "run_limit j"] by linarith
qed



text \<open>
  A job with at least two tries that is neither reset nor resubmitted nor cancelled is never
  declared dead, and runs at most \<open>MaxRetries - 1\<close> times: the retry that \<open>SetFailed\<close> schedules last is
  refused by \<open>SetProcessing\<close>, which takes failed jobs below \<open>MaxRetries\<close> only.
\<close>

theorem failing_job_never_dead:
  assumes "job_steps (t0, job_initial) es (t, s)" and "job_view (jw_store s) i = Some j" and "2 \<le> jb_max j"
    and "resets s i = 0" and "resubmits s j = 0" and "\<not> cancelled s j"
  shows "jb_status j \<noteq> JobDead \<and> int (runs s i) \<le> jb_max j - 1 \<and>
    (jb_status j = JobFailed \<and> jb_max j \<le> jb_attempts j \<longrightarrow> (\<forall>E. \<exists>e. SetProcessing E (jw_store s) i = (Inl e, jw_store s)))"
proof (intro conjI impI allI)
  show "jb_status j \<noteq> JobDead"
    using reachable_life(4) [OF assms(1), of i] assms(2-) by (simp add: life_tries_def life_def)
  show "int (runs s i) \<le> jb_max j - 1"
    using runs_within_limit [OF assms(1,2)] assms(3-5) by (simp add: run_limit_def)
  fix E :: "'a job_env_scheme"
  assume last: "jb_status j = JobFailed \<and> jb_max j \<le> jb_attempts j"
  show "\<exists>e. SetProcessing E (jw_store s) i = (Inl e, jw_store s)"
  proof (cases "job_GetByID E (jw_store s) i")
    case (Inr job)
    then have "job = j" using assms(2) by (simp add: job_GetByID_def job_read_Inr)
    then show ?thesis using Inr last by (simp add: SetProcessing_def claimable_def)
  qed (simp add: SetProcessing_def)
qed

theorem failing_job_never_dead_witness:
  "\<exists>s j. job_view (jw_store s) ''j1'' = Some j \<and> jb_status j = JobFailed \<and> jb_attempts j = 3 \<and> jb_max j = 3 \<and>
     js_queue (jw_store s) = [] \<and> jb_status j \<noteq> JobDead \<and> int (runs s ''j1'') \<le> jb_max j - 1"
proof -
  obtain s j where s: "run_events (0, job_initial) demo_failures = Some (5 * second, s)"
    "job_view (jw_store s) ''j1'' = Some j" "jb_status j = JobFailed" "jb_attempts j = 3" "jb_max j = 3"
    "js_queue (jw_store s) = []" "resets s ''j1'' = 0" "resubmits s j = 0" "\<not> cancelled s j"
    using demo_failures_run by blast
  have "2 \<le> jb_max j" using s(5) by simp
  from failing_job_never_dead [OF run_events_steps [OF s(1)] s(2) this s(7-9)] s(2-6) show ?thesis by blast
qed

section \<open>Completed jobs\<close>

text \<open>
  Unless the reaper has reset it, a completed job stays completed, with its result, whatever
  requests, workers and failures follow.
\<close>

theorem completed_job_is_final:
  assumes start: "job_steps (t0, job_initial) es (t, s)"
    and row: "job_view (jw_store s) i = Some j" "jb_status j = JobCompleted"
    and more: "job_steps (t, s) es' (t', s')" and unreset: "resets s' i = 0"
  shows "job_view (jw_store s') i = Some j"
proof -
  note m = steps_moves(2) [OF more reachable_life(1) [OF start], of i]
  have "life_single (life s' i) \<and> (jl_resets (life s' i) = 0 \<longrightarrow> jl_row (life s' i) = Some j)"
  proof (rule job_moves_inv [OF m, where P = "\<lambda>a. life_single a \<and> (jl_resets a = 0 \<longrightarrow> jl_row a = Some j)"])
    fix a b
    assume a: "life_single a \<and> (jl_resets a = 0 \<longrightarrow> jl_row a = Some j)" and step: "job_move i a b"
    have "jl_row b = Some j" if "jl_resets b = 0"
      using completed_stays [OF step _ _ row(2) that] resets_grow [OF step] a that by simp
    then show "life_single b \<and> (jl_resets b = 0 \<longrightarrow> jl_row b = Some j)" using life_single_move [OF step] a by blast
  qed (use reachable_life(3) [OF start] row in simp)
  then show ?thesis using unreset by simp
qed

definition demo_success :: "job_event list" where
  "demo_success = [demo_submit, Polling (demo_job_env 2), Taking (demo_job_env 2), Finishing (demo_job_env 2) 0]"

definition demo_afterwards :: "job_event list" where
  "demo_afterwards = [Cancelling (demo_job_env 3) (Some ''u1'') (Some ''j1''), Reaping (demo_job_env 1000),
     Resubmitting (demo_job_env 1001) (Some ''u1'') (Some ''j1'')]"

lemma demo_success_run:
  "\<exists>s j s'. run_events (0, job_initial) demo_success = Some (2 * second, s) \<and>
     job_view (jw_store s) ''j1'' = Some j \<and> jb_status j = JobCompleted \<and> jb_result j = Some ''ok'' \<and>
     run_events (2 * second, s) demo_afterwards = Some (1001 * second, s') \<and> resets s' ''j1'' = 0"
  by (simp add: demo_success_def demo_afterwards_def job_run_defs Let_def note_request_def
      JH_Cancel_def js_Cancel_def js_GetByID_def JH_Resubmit_def js_Resubmit_def)

theorem completed_job_is_final_witness:
  "\<exists>s s' j. job_steps (2 * second, s) demo_afterwards (1001 * second, s') \<and> job_view (jw_store s') ''j1'' = Some j \<and>
     jb_status j = JobCompleted \<and> jb_result j = Some ''ok''"
proof -
  obtain s j s' where s: "run_events (0, job_initial) demo_success = Some (2 * second, s)"
    "job_view (jw_store s) ''j1'' = Some j" "jb_status j = JobCompleted" "jb_result j = Some ''ok''"
    "run_events (2 * second, s) demo_afterwards = Some (1001 * second, s')" "resets s' ''j1'' = 0"
    using demo_success_run by blast
  from completed_job_is_final [OF run_events_steps [OF s(1)] s(2,3) run_events_steps [OF s(5)] s(6)]
    run_events_steps [OF s(5)] s(3,4) show ?thesis by blast
qed

text \<open>
  After a reset it need not: a handler that the reaper took for stuck fails late and turns the
  completed job into a failed one.
\<close>

lemma late_failure_reopens:
  "\<exists>s s' j j'. run_events (0, job_initial) demo_late = Some (402 * second, s) \<and>
     job_view (jw_store s) ''j1'' = Some j \<and> jb_status j = JobCompleted \<and>
     run_events (402 * second, s) [Finishing (demo_job_env 403) 0] = Some (403 * second, s') \<and>
     job_view (jw_store s') ''j1'' = Some j' \<and> jb_status j' \<noteq> JobCompleted"
  by (simp add: demo_late_def job_run_defs Let_def)

section \<open>Requests\<close>

datatype owner_request = OCancel uuid uuid | OResubmit uuid uuid

fun owner_run :: "job_env \<Rightarrow> job_store \<Rightarrow> owner_request \<Rightarrow> unit result \<times> job_store" where
  "owner_run E s (OCancel u i) = js_Cancel E s i u"
| "owner_run E s (OResubmit u i) = forget (js_Resubmit E s i u)"

fun owns :: "job_env \<Rightarrow> job_store \<Rightarrow> owner_request \<Rightarrow> bool" where
  "owns E s (OCancel u i) = (case stored_job (je_now E) s i of None \<Rightarrow> False | Some j \<Rightarrow> jb_user j = u)"
| "owns E s (OResubmit u i) = (case stored_job (je_now E) s i of None \<Rightarrow> False | Some j \<Rightarrow> jb_user j = u)"

interpretation job_owner: guarded owner_run owns
proof
  fix E s r assume "\<not> owns E s r"
  then show "\<exists>e. owner_run E s r = (Inl e, s)"
    by (cases r) (auto simp: js_Cancel_def js_Resubmit_def job_GetByID_def job_read_def split: option.splits)
qed

text \<open>
  Cancellations and resubmissions by users who do not own the job, in any number, all fail and
  leave the store as it is.
\<close>

theorem foreign_jobs_untouched:
  assumes "\<And>E r. (E, r) \<in> set rs \<Longrightarrow> \<not> owns E s r"
  shows "foldl (\<lambda>s (E, r). snd (owner_run E s r)) s rs = s \<and> list_all (\<lambda>(E, r). isl (fst (owner_run E s r))) rs"
proof
  show "foldl (\<lambda>s (E, r). snd (owner_run E s r)) s rs = s" using assms by (rule job_owner.refused_sequence)
  show "list_all (\<lambda>(E, r). isl (fst (owner_run E s r))) rs"
    using assms job_owner.denied by (fastforce simp: list_all_iff)
qed

definition base_env :: "worker_env \<Rightarrow> job_env" where
  "base_env E = job_env.truncate E"

theorem foreign_jobs_untouched_witness:
  "\<exists>s. job_view s ''j1'' \<noteq> None \<and>
     foldl (\<lambda>s (E, r). snd (owner_run E s r)) s
       [(base_env (demo_job_env 1), OCancel ''u2'' ''j1''), (base_env (demo_job_env 2), OResubmit ''u2'' ''j1'')] = s"
proof -
  let ?s = "jw_store (job_exec demo_submit job_initial)"
  let ?rs = "[(base_env (demo_job_env 1), OCancel ''u2'' ''j1''), (base_env (demo_job_env 2), OResubmit ''u2'' ''j1'')]"
  have "\<not> owns E ?s r" if "(E, r) \<in> set ?rs" for E r
    using that by (auto simp: job_run_defs Let_def base_env_def job_env.defs)
  from foreign_jobs_untouched [of ?rs ?s, OF this] have "foldl (\<lambda>s (E, r). snd (owner_run E s r)) ?s ?rs = ?s" by blast
  moreover have "job_view ?s ''j1'' \<noteq> None" by (simp add: job_run_defs Let_def)
  ultimately show ?thesis by blast
qed

text \<open>The status that a cancellation answers, in the order in which the conditions are looked at.\<close>

definition cancel_status :: "job_env \<Rightarrow> job_store \<Rightarrow> uuid option \<Rightarrow> uuid option \<Rightarrow> nat" where
  "cancel_status E s user path =
     (if user = None then 401
      else if path = None then 400
      else let i = the path in
        if je_fault E (JGet i) \<noteq> None then 500
        else case stored_job (je_now E) s i of
          None \<Rightarrow> 404
        | Some j \<Rightarrow>
            if user \<noteq> Some (jb_user j) then 403
            else if jb_status j \<in> {JobProcessing, JobCompleted, JobDead} then 409
            else if je_fault E (JSet i) \<noteq> None \<or> je_fault E (JReget i) \<noteq> None then 500
            else 200)"

lemma stored_after_set: "stored_job now (redis_do now (CSet j) s) (jb_id j) = Some j"
  by (simp add: stored_job_def jobDataTTL_def second_def)

lemma error_status_simps [simp]:
  "error_status (WrapInternal e) = 500" "error_status (Sentinel ErrForbidden) = 403"
  "error_status (NewAppError c m n) = n" "error_status (job_missing (WrapInternal redis_error)) = 500"
  "error_status (job_missing (Sentinel ErrNotFound)) = 404"
  by (simp_all add: error_status_def job_missing_def IsNotFound_def WrapNotFound_def redis_error_def)

lemma cancel_write:
  assumes "je_fault E (JGet i) = None" and "stored_job (je_now E) s i = Some j" and "jb_id j = i"
    and "jb_status j = JobPending \<or> jb_status j = JobFailed"
  shows "js_Cancel E s i (jb_user j) = (case je_fault E (JSet i) of
      None \<Rightarrow> (Inr (), redis_do (je_now E) (CSet (j\<lparr>jb_status := JobDead\<rparr>)) s)
    | Some k \<Rightarrow> (Inl (WrapInternal (WrapInternal redis_error)),
        fold (redis_do (je_now E)) (take k [CSet (j\<lparr>jb_status := JobDead\<rparr>)]) s))"
  using assms by (auto simp: js_Cancel_def job_GetByID_def job_read_def job_Update_def pipe_def split: option.split)

text \<open>
  A cancellation answers as \<open>cancel_status\<close> says, failing calls of Redis included. An answer that
  is neither 200 nor 500 leaves the store as it is, and after 200 the job is dead.
\<close>

theorem cancel_answers:
  assumes good: "keyed_by_id s"
  shows "fst (fst (JH_Cancel E s user path)) = cancel_status E s user path \<and>
    (cancel_status E s user path \<notin> {200, 500} \<longrightarrow> snd (JH_Cancel E s user path) = s) \<and>
    (cancel_status E s user path = 200 \<longrightarrow> (\<exists>j. job_view (snd (JH_Cancel E s user path)) (the path) = Some j \<and>
       jb_status j = JobDead \<and> snd (fst (JH_Cancel E s user path)) = Some (job_ToResponse j)))"
proof (cases "user = None \<or> path = None")
  case True
  then show ?thesis by (cases user; cases path) (simp_all add: JH_Cancel_def cancel_status_def)
next
  case False
  then obtain u i where up: "user = Some u" "path = Some i" by (cases user; cases path) simp_all
  show ?thesis
  proof (cases "je_fault E (JGet i) = None \<and> (\<exists>j. stored_job (je_now E) s i = Some j)")
    case False
    then show ?thesis using up
      by (auto simp: JH_Cancel_def cancel_status_def js_Cancel_def job_GetByID_def job_read_def split: option.split)
  next
    case True
    then obtain j where j: "je_fault E (JGet i) = None" "stored_job (je_now E) s i = Some j" by blast
    have id: "jb_id j = i" by (rule keyed_view [OF good stored_view [OF j(2)]])
    let ?open = "jb_user j = u \<and> (jb_status j = JobPending \<or> jb_status j = JobFailed)"
    show ?thesis
    proof (cases ?open)
      case False
      then show ?thesis using up j
        by (cases "jb_status j") (auto simp: JH_Cancel_def cancel_status_def js_Cancel_def job_GetByID_def job_read_def)
    next
      case True
      let ?j = "j\<lparr>jb_status := JobDead\<rparr>" and ?s = "redis_do (je_now E) (CSet (j\<lparr>jb_status := JobDead\<rparr>)) s"
      have st: "stored_job (je_now E) ?s i = Some ?j" using stored_after_set [of "je_now E" ?j s] id by simp
      have st: "stored_job (je_now E) ?s i = Some ?j" and view: "job_view ?s i = Some ?j"
        using st stored_view by blast+
      have c: "js_Cancel E s i u = (case je_fault E (JSet i) of None \<Rightarrow> (Inr (), ?s)
        | Some k \<Rightarrow> (Inl (WrapInternal (WrapInternal redis_error)), fold (redis_do (je_now E)) (take k [CSet ?j]) s))"
        using cancel_write [OF j id] True by blast
      show ?thesis
      proof (cases "je_fault E (JSet i) = None \<and> je_fault E (JReget i) = None")
        case True
        then have "JH_Cancel E s user path = ((200, Some (job_ToResponse ?j)), ?s)"
          using c st up by (simp add: JH_Cancel_def js_GetByID_def job_read_def del: redis_do.simps)
        moreover have "cancel_status E s user path = 200"
          using True up j \<open>?open\<close> by (auto simp: cancel_status_def)
        ultimately show ?thesis using view up by (simp del: redis_do.simps)
      next
        case False
        then have "fst (fst (JH_Cancel E s user path)) = 500"
          using c st up by (auto simp: JH_Cancel_def js_GetByID_def job_read_def split: option.split simp del: redis_do.simps)
        moreover have "cancel_status E s user path = 500"
          using False up j \<open>?open\<close> by (auto simp: cancel_status_def)
        ultimately show ?thesis by simp
      qed
    qed
  qed
qed

theorem cancel_answers_witness:
  "\<exists>s. fst (fst (JH_Cancel (base_env (demo_job_env 1)) s (Some ''u1'') (Some ''j1''))) = 200 \<and>
     fst (fst (JH_Cancel (base_env (demo_job_env 1)) s (Some ''u2'') (Some ''j1''))) = 403 \<and>
     fst (fst (JH_Cancel (base_env (demo_job_env 1)) s (Some ''u1'') (Some ''j2''))) = 404"
proof -
  let ?s = "jw_store (job_exec demo_submit job_initial)" and ?E = "base_env (demo_job_env 1)"
  have good: "keyed_by_id ?s"
    by (simp add: keyed_by_id_def job_run_defs Let_def)
  have "cancel_status ?E ?s (Some ''u1'') (Some ''j1'') = 200" "cancel_status ?E ?s (Some ''u2'') (Some ''j1'') = 403"
    "cancel_status ?E ?s (Some ''u1'') (Some ''j2'') = 404"
    by (simp_all add: cancel_status_def job_run_defs Let_def base_env_def job_env.defs)
  then show ?thesis using cancel_answers [OF good, of ?E] by metis
qed

end
