(* ===== verification/Job_Reaper.thy ===== *)
theory Job_Reaper
  imports Job_Properties
begin

text \<open>
  What the reaper of jobs finds: in every state that the system reaches while Redis answers, the
  processing index lists the jobs in processing that have not expired, and one pass resets those
  that began before the threshold, and no others.
\<close>

section \<open>The processing index\<close>

text \<open>The rows and the processing index are what matters; a row is expired from its deadline on.\<close>

definition processing_rows :: "instant \<Rightarrow> (uuid \<rightharpoonup> job \<times> instant) \<Rightarrow> uuid keyed \<Rightarrow> bool" where
  "processing_rows t data x \<longleftrightarrow> distinct (fst x) \<and>
     (\<forall>i j d. data i = Some (j, d) \<longrightarrow> d \<le> t + jobDataTTL) \<and>
     (\<forall>i j d. data i = Some (j, d) \<longrightarrow> jb_status j = JobProcessing \<longrightarrow> t < d \<longrightarrow>
        i \<in> set (fst x) \<and> (\<forall>d'. snd x = Some d' \<longrightarrow> d \<le> d')) \<and>
     (\<forall>i\<in>set (fst x). \<exists>j d. data i = Some (j, d) \<and> jb_status j = JobProcessing)"

definition index_ok :: "instant \<Rightarrow> job_store \<Rightarrow> bool" where
  "index_ok t s \<longleftrightarrow> processing_rows t (js_data s) (js_index s JobProcessing)"

lemma live_disj: "live now x = x \<or> (\<exists>d. snd x = Some d \<and> d \<le> now \<and> live now x = ([], None))"
  by (cases x) (auto simp: live_def split: option.split)

lemma live_cases:
  obtains (keeps) "live now x = x" | (expired) d where "snd x = Some d" "d \<le> now" "live now x = ([], None)"
  using live_disj [of now x] by blast

lemma processing_rows_later:
  assumes "processing_rows t data x" and "t \<le> now"
  shows "processing_rows now data x"
proof -
  have "d \<le> now + jobDataTTL" if "data i = Some (j, d)" for i j d
    using assms that unfolding processing_rows_def by fastforce
  moreover have "i \<in> set (fst x) \<and> (\<forall>d'. snd x = Some d' \<longrightarrow> d \<le> d')"
    if "data i = Some (j, d)" "jb_status j = JobProcessing" "now < d" for i j d
  proof -
    have "t < d" using assms(2) that(3) by simp
    then show ?thesis using assms(1) that(1,2) unfolding processing_rows_def by blast
  qed
  ultimately show ?thesis using assms(1) unfolding processing_rows_def by blast
qed

lemma processing_rows_live:
  assumes "processing_rows now data x"
  shows "processing_rows now data (live now x)"
proof (cases rule: live_cases [of now x])
  case (expired e)
  have "\<not> now < d" if "data i = Some (j, d)" "jb_status j = JobProcessing" for i j d
    using assms that expired(1,2) unfolding processing_rows_def by fastforce
  then show ?thesis using assms unfolding expired(3) processing_rows_def by auto
qed (use assms in simp)

lemma with_members_fst [simp]: "fst (with_members x xs) = xs"
  by (simp add: with_members_def)

text \<open>The four ways in which an operation changes them.\<close>

lemma processing_rows_leave:
  assumes "processing_rows t data x" and "jb_status j \<noteq> JobProcessing"
  shows "processing_rows t (data(i \<mapsto> (j, t + jobDataTTL))) (with_members x (removeAll i (fst x)))"
proof -
  have "d \<le> d'" if "data k = Some (jk, d)" "jb_status jk = JobProcessing" "t < d"
      "snd (with_members x (removeAll i (fst x))) = Some d'" for k jk d d'
  proof -
    have "snd x = Some d'" using that(4) by (simp add: with_members_def split: if_splits)
    then show ?thesis using assms(1) that(1-3) unfolding processing_rows_def by blast
  qed
  moreover have "set (fst (with_members x (removeAll i (fst x)))) = set (fst x) - {i}"
    by auto
  moreover have "distinct (fst (with_members x (removeAll i (fst x))))"
    using assms(1) by (simp add: processing_rows_def distinct_removeAll)
  ultimately show ?thesis
    using assms unfolding processing_rows_def by (auto simp: fun_upd_def split: if_splits)
qed

lemma processing_rows_elsewhere:
  assumes "processing_rows t data x" and "jb_status j \<noteq> JobProcessing"
    and "\<And>old d. data i = Some (old, d) \<Longrightarrow> jb_status old \<noteq> JobProcessing"
  shows "processing_rows t (data(i \<mapsto> (j, t + jobDataTTL))) x"
proof -
  have "i \<notin> set (fst x)" using assms(1,3) unfolding processing_rows_def by blast
  then show ?thesis using assms(1,2) unfolding processing_rows_def by (auto simp: fun_upd_def split: if_splits)
qed

lemma processing_rows_enter:
  assumes "processing_rows t data x" and "jb_status j = JobProcessing"
  shows "processing_rows t (data(i \<mapsto> (j, t + jobDataTTL)))
    (expire_at (t + jobDataTTL) (with_members x (List.insert i (fst x))))"
proof -
  have x: "expire_at (t + jobDataTTL) (with_members x (List.insert i (fst x))) = (List.insert i (fst x), Some (t + jobDataTTL))"
    by (auto simp: expire_at_def with_members_def List.insert_def)
  have "distinct (List.insert i (fst x))" using assms(1) by (simp add: processing_rows_def)
  then show ?thesis using assms unfolding x processing_rows_def by (auto simp: fun_upd_def split: if_splits)
qed

section \<open>Operations while Redis answers\<close>

definition no_fault :: "('e) job_env_scheme \<Rightarrow> bool" where
  "no_fault E \<longleftrightarrow> (\<forall>c. je_fault E c = None)"

lemma pipe_none [simp]: "pipe now None cmds s = (Inr (), fold (redis_do now) cmds s)"
  by (simp add: pipe_def)

lemma index_ok_same:
  "index_ok t s \<Longrightarrow> js_data s' = js_data s \<Longrightarrow> js_index s' JobProcessing = js_index s JobProcessing \<Longrightarrow> index_ok t s'"
  by (simp add: index_ok_def)

lemma live_live [simp]: "live now (live now x) = live now x"
  by (cases x) (auto simp: live_def split: option.splits)

lemma live_idle: "live now (with_members (live now x) xs) = with_members (live now x) xs"
  by (cases x) (auto simp: live_def with_members_def split: option.splits)

lemma leave_index:
  assumes ok: "index_ok t s" and t: "t \<le> je_now E" and E: "no_fault E"
    and j: "jb_status j \<noteq> JobProcessing" "jb_id j = i"
    and cmds: "cmds = move_index JobProcessing new i \<and> new \<noteq> JobProcessing
      \<or> cmds = [CStatusRem JobProcessing i, CStatusAdd JobPending i]"
  obtains s' where "write_and_move E s j cmds = (Inr (), s')" "index_ok (je_now E) s'"
    "js_data s' = (js_data s)(i \<mapsto> (j, je_now E + jobDataTTL))" "js_queue s' = js_queue s"
proof -
  let ?x = "live (je_now E) (js_index s JobProcessing)"
  obtain s' where w: "write_and_move E s j cmds = (Inr (), s')"
    using E by (simp add: write_and_move_def job_Update_def no_fault_def)
  have core: "js_data s' = (js_data s)(i \<mapsto> (j, je_now E + jobDataTTL))" "js_queue s' = js_queue s"
    "js_index s' JobProcessing = with_members ?x (removeAll i (fst ?x))"
    using cmds w E j(2) by (auto simp: write_and_move_def job_Update_def no_fault_def move_index_def Let_def)
  have "processing_rows (je_now E) (js_data s) ?x"
    using processing_rows_live [OF processing_rows_later [OF _ t]] ok by (simp add: index_ok_def)
  from processing_rows_leave [OF this j(1), of i] have "index_ok (je_now E) s'" by (simp add: index_ok_def core)
  with w core show thesis using that by blast
qed

lemma elsewhere_index:
  assumes ok: "index_ok t s" and t: "t \<le> now" and "jb_status j \<noteq> JobProcessing"
    and "\<And>old. job_view s i = Some old \<Longrightarrow> jb_status old \<noteq> JobProcessing"
    and "js_data s' = (js_data s)(i \<mapsto> (j, now + jobDataTTL))" and "js_index s' JobProcessing = js_index s JobProcessing"
  shows "index_ok now s'"
proof -
  have "processing_rows now (js_data s) (js_index s JobProcessing)"
    using processing_rows_later [OF _ t] ok by (simp add: index_ok_def)
  from processing_rows_elsewhere [OF this assms(3), of i] assms(4) show ?thesis
    by (auto simp: index_ok_def assms(5,6) job_view_def)
qed


lemma SetProcessing_index:
  assumes ok: "index_ok t s" and good: "keyed_by_id s" and t: "t \<le> je_now E" and E: "no_fault E"
  shows "index_ok (je_now E) (snd (SetProcessing E s i))"
proof -
  have later: "index_ok (je_now E) s" using ok processing_rows_later [OF _ t] by (simp add: index_ok_def)
  show ?thesis
  proof (cases "job_GetByID E s i")
    case (Inr job)
    then have v: "job_view s i = Some job" by (simp add: job_GetByID_def job_read_Inr)
    show ?thesis
    proof (cases "claimable job")
      case True
      let ?j = "job\<lparr>jb_status := JobProcessing, jb_started := Some (je_now E)\<rparr>"
      let ?x = "live (je_now E) (js_index s JobProcessing)" and ?s = "snd (SetProcessing E s i)"
      have old: "jb_status job \<noteq> JobProcessing" using True by (auto simp: claimable_def)
      have "js_data ?s = (js_data s)(i \<mapsto> (?j, je_now E + jobDataTTL))"
        "js_index ?s JobProcessing = expire_at (je_now E + jobDataTTL) (live (je_now E) (with_members ?x (List.insert i (fst ?x))))"
        using Inr True old E keyed_view [OF good v]
        by (simp_all add: SetProcessing_def write_and_move_def job_Update_def no_fault_def move_index_def Let_def)
      moreover have "processing_rows (je_now E) (js_data s) ?x"
        using processing_rows_live later by (simp add: index_ok_def)
      from processing_rows_enter [OF this, of ?j i]
      have "processing_rows (je_now E) ((js_data s)(i \<mapsto> (?j, je_now E + jobDataTTL)))
        (expire_at (je_now E + jobDataTTL) (with_members ?x (List.insert i (fst ?x))))" by simp
      ultimately show ?thesis by (simp add: index_ok_def live_idle)
    qed (use Inr later in \<open>simp add: SetProcessing_def\<close>)
  qed (use later in \<open>simp add: SetProcessing_def\<close>)
qed

lemma SetCompleted_index:
  assumes ok: "index_ok t s" and good: "keyed_by_id s" and t: "t \<le> je_now E" and E: "no_fault E"
  shows "index_ok (je_now E) (snd (SetCompleted E s i res))"
proof -
  have later: "index_ok (je_now E) s" using ok processing_rows_later [OF _ t] by (simp add: index_ok_def)
  show ?thesis
  proof (cases "job_GetByID E s i")
    case (Inr job)
    then have id: "jb_id job = i" using keyed_view [OF good] by (simp add: job_GetByID_def job_read_Inr)
    show ?thesis
    proof (cases "CanTransitionTo job JobCompleted")
      case True
      let ?j = "job\<lparr>jb_status := JobCompleted, jb_result := Some res, jb_completed := Some (je_now E)\<rparr>"
      obtain s' where "write_and_move E s ?j (move_index JobProcessing JobCompleted i) = (Inr (), s')" "index_ok (je_now E) s'"
        by (rule leave_index [OF ok t E, of ?j i "move_index JobProcessing JobCompleted i" JobCompleted]) (use id in auto)
      then show ?thesis using Inr True by (simp add: SetCompleted_def)
    qed (use Inr later in \<open>simp add: SetCompleted_def\<close>)
  qed (use later in \<open>simp add: SetCompleted_def\<close>)
qed

lemma job_Enqueue_none [simp]:
  "no_fault E \<Longrightarrow> job_Enqueue E s i t = (Inr (), s\<lparr>js_queue := put_score (js_queue s) i (unix_milli t)\<rparr>)"
  by (simp add: job_Enqueue_def no_fault_def)

lemma SetFailed_index:
  assumes ok: "index_ok t s" and good: "keyed_by_id s" and t: "t \<le> je_now E" and E: "no_fault E"
  shows "index_ok (je_now E) (snd (SetFailed E s i msg retry))"
proof -
  have later: "index_ok (je_now E) s" using ok processing_rows_later [OF _ t] by (simp add: index_ok_def)
  show ?thesis
  proof (cases "job_GetByID E s i")
    case (Inr job)
    then have id: "jb_id job = i" using keyed_view [OF good] by (simp add: job_GetByID_def job_read_Inr)
    let ?f = "job\<lparr>jb_last_error := msg, jb_attempts := jb_attempts job + 1, jb_status := JobFailed, jb_next_retry := retry\<rparr>"
    let ?d = "job\<lparr>jb_last_error := msg, jb_attempts := jb_attempts job + 1, jb_status := JobDead,
      jb_completed := Some (je_now E), jb_next_retry := None\<rparr>"
    show ?thesis
    proof (cases "jb_attempts job < jb_max job \<and> retry \<noteq> None")
      case True
      obtain s' where "write_and_move E s ?f (move_index JobProcessing JobFailed i) = (Inr (), s')" "index_ok (je_now E) s'"
        by (rule leave_index [OF ok t E, of ?f i "move_index JobProcessing JobFailed i" JobFailed]) (use id in auto)
      then show ?thesis using Inr True E by (auto simp: SetFailed_def index_ok_def)
    next
      case False
      obtain s' where "write_and_move E s ?d (move_index JobProcessing JobDead i) = (Inr (), s')" "index_ok (je_now E) s'"
        by (rule leave_index [OF ok t E, of ?d i "move_index JobProcessing JobDead i" JobDead]) (use id in auto)
      then show ?thesis using Inr False by (auto simp: SetFailed_def)
    qed
  qed (use later in \<open>simp add: SetFailed_def\<close>)
qed

lemma later_index: "index_ok t s \<Longrightarrow> t \<le> now \<Longrightarrow> index_ok now s"
  using processing_rows_later by (simp add: index_ok_def)

lemma js_Submit_index:
  assumes ok: "index_ok t s" and t: "t \<le> je_now E" and E: "no_fault E" and fresh: "js_data s (je_new_id E) = None"
  shows "index_ok (je_now E) (snd (js_Submit E s u req))"
proof -
  let ?s = "snd (js_Submit E s u req)"
  obtain j where j: "js_data ?s = (js_data s)(je_new_id E \<mapsto> (j, je_now E + jobDataTTL))" "jb_status j = JobPending"
    and idx: "js_index ?s JobProcessing = js_index s JobProcessing"
    using E by (simp add: js_Submit_def job_Submit_def NewJob_def Let_def no_fault_def)
  from elsewhere_index [OF ok t _ _ j(1) idx] show ?thesis using j(2) fresh by (simp add: job_view_def)
qed

lemma js_Cancel_index:
  assumes ok: "index_ok t s" and t: "t \<le> je_now E" and E: "no_fault E" and good: "keyed_by_id s"
  shows "index_ok (je_now E) (snd (js_Cancel E s i u))"
proof -
  have idx: "js_index (snd (js_Cancel E s i u)) JobProcessing = js_index s JobProcessing"
    using E by (auto simp: js_Cancel_def job_Update_def no_fault_def split: sum.split)
  show ?thesis
  proof (cases rule: js_Cancel_data [of E s i u])
    case same
    from index_ok_same [OF later_index [OF ok t] this idx] show ?thesis .
  next
    case (dead j)
    then show ?thesis
      using elsewhere_index [OF ok t, of "j\<lparr>jb_status := JobDead\<rparr>" i] idx keyed_view [OF good dead(1)] by auto
  qed
qed

lemma js_Resubmit_index:
  assumes ok: "index_ok t s" and t: "t \<le> je_now E" and E: "no_fault E" and good: "keyed_by_id s"
  shows "index_ok (je_now E) (snd (js_Resubmit E s i u))"
proof -
  have idx: "js_index (snd (js_Resubmit E s i u)) JobProcessing = js_index s JobProcessing"
    using E by (auto simp: js_Resubmit_def job_Update_def no_fault_def Let_def job_Enqueue_def split: sum.split)
  show ?thesis
  proof (cases rule: js_Resubmit_data [of E s i u])
    case same
    from index_ok_same [OF later_index [OF ok t] this idx] show ?thesis .
  next
    case (again j)
    let ?j = "j\<lparr>jb_status := JobPending, jb_attempts := 0, jb_result := None, jb_last_error := [],
              jb_next_retry := Some (retry_time E)\<rparr>"
    show ?thesis
      using elsewhere_index [OF ok t, of ?j i] idx again keyed_view [OF good again(1)] by auto
  qed
qed

text \<open>The passes of the worker.\<close>

lemma handleError_store:
  "jw_store (job_handleError E s job err) = snd (SetFailed E (jw_store s) (jb_id job) (error_text err) (error_retry E job))"
  by (simp add: job_handleError_def error_retry_def send_callback_def)

lemma begin_index:
  assumes ok: "index_ok t (jw_store s)" and good: "good_sys s" and t: "t \<le> je_now E" and E: "no_fault E"
  shows "index_ok (je_now E) (jw_store (begin_job E s job))"
proof -
  obtain r st where run: "SetProcessing E (jw_store s) (jb_id job) = (r, st)" by fastforce
  have st: "index_ok (je_now E) st" using SetProcessing_index [OF ok good t E, of "jb_id job"] run by simp
  have good': "keyed_by_id st" by (rule moved_keyed [OF SetProcessing_moved(1) [OF good run] good]) (rule move_ids)
  from SetFailed_index [OF st good' order_refl E] st show ?thesis
    using run by (auto simp: begin_job_def handleError_store split: sum.split option.split)
qed

lemma take_index:
  assumes "index_ok t (jw_store s)" and "good_sys s" and "t \<le> je_now E" and "no_fault E"
  shows "index_ok (je_now E) (jw_store (runWorker_take E s))"
proof (cases "jw_chan s")
  case (Cons job rest)
  then show ?thesis using begin_index [of t "s\<lparr>jw_chan := rest\<rparr>" E job] assms by (simp add: runWorker_take_def)
qed (use assms in \<open>simp add: runWorker_take_def later_index\<close>)

lemma finish_index:
  assumes "index_ok t (jw_store s)" and "good_sys s" and "t \<le> je_now E" and "no_fault E"
  shows "index_ok (je_now E) (jw_store (runWorker_finish E s k))"
proof (cases "k < length (jw_running s)")
  case True
  let ?r = "jw_running s ! k"
  let ?out = "registry_Handle (wx_registry E) (jb_type ?r)
    (case parse_payload E (jb_payload ?r) of None \<Rightarrow> None | Some p \<Rightarrow> p)"
  have "jw_store (runWorker_finish E s k) = (case ?out of
      Inl err \<Rightarrow> snd (SetFailed E (jw_store s) (jb_id ?r) (error_text err) (error_retry E ?r))
    | Inr res \<Rightarrow> snd (SetCompleted E (jw_store s) (jb_id ?r) res))"
    using True by (simp add: runWorker_finish_def finish_job_def handleError_store send_callback_def
        split: sum.split prod.split)
  then show ?thesis using SetFailed_index [OF assms] SetCompleted_index [OF assms] by (simp split: sum.split)
qed (use assms in \<open>simp add: runWorker_finish_def later_index\<close>)

lemma poll_index:
  assumes "index_ok t (jw_store s)" and "t \<le> je_now E"
  shows "index_ok (je_now E) (jw_store (runPoller_tick E s))"
proof -
  obtain r st where pop: "job_pop E (jw_store s) = (r, st)" by fastforce
  have "js_data st = js_data (jw_store s)" using pop_data [of E "jw_store s"] pop by simp
  moreover have "js_index (snd (pipe now f [CQueueRem i] s)) = js_index s" for now f i s
    by (auto simp: pipe_def take_Cons split: option.split nat.split)
  then have "js_index st = js_index (jw_store s)"
    using pop by (auto simp: job_pop_def split: option.splits if_splits) (metis snd_conv snd_apfst)+
  moreover have "jw_store (runPoller_tick E s) = st"
    using pop by (auto simp: runPoller_tick_def split: sum.split option.split)
  ultimately show ?thesis using later_index [OF assms] by (simp add: index_ok_def)
qed

section \<open>A pass of the reaper\<close>

lemma reap_job_none:
  assumes ok: "index_ok t (jw_store s)" and t: "t \<le> je_now E" and E: "no_fault E"
  obtains s' where "reap_job E job (n, s) = (Suc n, s')" "index_ok (je_now E) (jw_store s')"
    "job_view (jw_store s') = (job_view (jw_store s))(jb_id job \<mapsto> reset_row E job)"
    "fst ` set (js_queue (jw_store s')) = insert (jb_id job) (fst ` set (js_queue (jw_store s)))"
proof -
  obtain st where w: "write_and_move E (jw_store s) (reset_row E job) [CStatusRem JobProcessing (jb_id job), CStatusAdd JobPending (jb_id job)] = (Inr (), st)"
    and st: "index_ok (je_now E) st" "js_data st = (js_data (jw_store s))(jb_id job \<mapsto> (reset_row E job, je_now E + jobDataTTL))"
      "js_queue st = js_queue (jw_store s)"
    by (rule leave_index [where new = JobPending and j = "reset_row E job" and i = "jb_id job" and
          cmds = "[CStatusRem JobProcessing (jb_id job), CStatusAdd JobPending (jb_id job)]", OF ok t E])
      (simp_all add: reset_row_def)
  let ?st = "st\<lparr>js_queue := put_score (js_queue st) (jb_id job) (unix_milli (retry_time E))\<rparr>"
  let ?s = "s\<lparr>jw_resets := jw_resets s @ [jb_id job], jw_store := ?st\<rparr>"
  have "reap_job E job (n, s) = (Suc n, ?s)"
    using w E by (simp add: reap_job_def ResetStuckJob_def reset_row_def Let_def)
  moreover have "index_ok (je_now E) ?st" using st(1) by (simp add: index_ok_def)
  moreover have "job_view ?st = (job_view (jw_store s))(jb_id job \<mapsto> reset_row E job)"
    using st(2) by (auto simp: job_view_def)
  moreover have "fst ` set (js_queue ?st) = insert (jb_id job) (fst ` set (js_queue (jw_store s)))"
    using st(3) by (auto simp: put_score_def image_iff)
  ultimately show thesis using that [of ?s] by simp
qed

definition reset_rows :: "('e) job_env_scheme \<Rightarrow> job list \<Rightarrow> (uuid \<rightharpoonup> job) \<Rightarrow> (uuid \<rightharpoonup> job)" where
  "reset_rows E js v = (\<lambda>i. case tbl_first (\<lambda>j. jb_id j = i) js of None \<Rightarrow> v i | Some j \<Rightarrow> Some (reset_row E j))"

lemma reset_rows_Cons:
  assumes "jb_id j \<notin> jb_id ` set js"
  shows "reset_rows E js (v(jb_id j \<mapsto> reset_row E j)) = reset_rows E (j # js) v"
proof
  fix i
  have "tbl_first (\<lambda>k. jb_id k = jb_id j) js = None"
    using assms unfolding tbl_first_None_iff by (metis imageI)
  then show "reset_rows E js (v(jb_id j \<mapsto> reset_row E j)) i = reset_rows E (j # js) v i"
    by (cases "jb_id j = i") (auto simp: reset_rows_def tbl_first_Cons split: option.split)
qed

lemma reap_fold_none:
  assumes "index_ok t (jw_store s)" and "t \<le> je_now E" and "no_fault E" and "distinct (map jb_id js)"
  shows "\<exists>s'. fold (reap_job E) js (n, s) = (n + length js, s') \<and> (js \<noteq> [] \<longrightarrow> index_ok (je_now E) (jw_store s')) \<and>
    job_view (jw_store s') = reset_rows E js (job_view (jw_store s)) \<and>
    fst ` set (js_queue (jw_store s')) = jb_id ` set js \<union> fst ` set (js_queue (jw_store s))"
  using assms
proof (induction js arbitrary: n s t)
  case Nil
  then show ?case by (simp add: reset_rows_def)
next
  case (Cons j js)
  obtain s1 where s1: "reap_job E j (n, s) = (Suc n, s1)" "index_ok (je_now E) (jw_store s1)"
    "job_view (jw_store s1) = (job_view (jw_store s))(jb_id j \<mapsto> reset_row E j)"
    "fst ` set (js_queue (jw_store s1)) = insert (jb_id j) (fst ` set (js_queue (jw_store s)))"
    by (rule reap_job_none [OF Cons.prems(1-3)])
  have "jb_id j \<notin> jb_id ` set js" and d: "distinct (map jb_id js)" using Cons.prems(4) by auto
  from Cons.IH [OF s1(2) order_refl Cons.prems(3) d, of "Suc n"]
  obtain s' where s': "fold (reap_job E) js (Suc n, s1) = (Suc n + length js, s')"
    "js \<noteq> [] \<longrightarrow> index_ok (je_now E) (jw_store s')"
    "job_view (jw_store s') = reset_rows E js (job_view (jw_store s1))"
    "fst ` set (js_queue (jw_store s')) = jb_id ` set js \<union> fst ` set (js_queue (jw_store s1))" by blast
  have "job_view (jw_store s') = reset_rows E (j # js) (job_view (jw_store s))"
    unfolding s'(3) s1(3) by (rule reset_rows_Cons [OF \<open>jb_id j \<notin> jb_id ` set js\<close>])
  moreover have "index_ok (je_now E) (jw_store s')" using s'(1,2) s1(2) by (cases "js = []") auto
  ultimately show ?case using s1(1,4) s'(1,4) by auto
qed

lemma job_fetch_none:
  assumes "no_fault E" and "keyed_by_id s"
  shows "job_fetch E s None is = List.map_filter (stored_job (je_now E) s) is"
  using assms by (induction "is")
    (simp_all add: job_GetByID_def job_read_def no_fault_def List.map_filter_simps split: option.split)

lemma distinct_fetch:
  assumes "keyed_by_id s" and "distinct is"
  shows "distinct (map jb_id (List.map_filter (stored_job now s) is))"
  using assms
proof (induction "is")
  case (Cons i ks)
  have "jb_id j \<in> set ks" if "j \<in> set (List.map_filter (stored_job now s) ks)" for j
  proof -
    from that obtain k where "k \<in> set ks" "stored_job now s k = Some j" by (auto simp: List.map_filter_def)
    then show ?thesis using keyed_view [OF Cons.prems(1) stored_view] by auto
  qed
  then have "i \<notin> jb_id ` set (List.map_filter (stored_job now s) ks)" using Cons.prems(2) by auto
  then show ?case using Cons keyed_view [OF Cons.prems(1) stored_view]
    by (auto simp: List.map_filter_simps split: option.split)
qed (simp add: List.map_filter_simps)

definition due :: "('e) job_env_scheme \<Rightarrow> job_store \<Rightarrow> uuid \<Rightarrow> bool" where
  "due E s i = (case stored_job (je_now E) s i of
     None \<Rightarrow> False
   | Some j \<Rightarrow> jb_status j = JobProcessing \<and> started_before (je_now E - jc_stuck_seconds (je_config E) * second) j)"

lemma stuck_jobs:
  assumes ok: "index_ok t s" and good: "keyed_by_id s" and t: "t \<le> je_now E" and E: "no_fault E"
  obtains js where "GetStuckJobs E s (jc_stuck_seconds (je_config E) * second) = Inr js"
    "distinct (map jb_id js)" "\<And>j. j \<in> set js \<longleftrightarrow> job_view s (jb_id j) = Some j \<and> due E s (jb_id j)"
proof -
  let ?x = "live (je_now E) (js_index s JobProcessing)"
  let ?stored = "stored_job (je_now E) s"
  let ?js = "filter (started_before (je_now E - jc_stuck_seconds (je_config E) * second)) (List.map_filter ?stored (fst ?x))"
  have rows: "processing_rows (je_now E) (js_data s) ?x"
    using processing_rows_live later_index [OF ok t] by (simp add: index_ok_def)
  have g: "GetStuckJobs E s (jc_stuck_seconds (je_config E) * second) = Inr ?js"
    using E job_fetch_none [OF E good] by (simp add: GetStuckJobs_def no_fault_def)
  have "distinct (fst ?x)" using rows by (simp add: processing_rows_def)
  from distinct_fetch [OF good this] have d: "distinct (map jb_id ?js)" by (rule distinct_map_filter)
  have mem: "i \<in> set (fst ?x) \<longleftrightarrow> jb_status j = JobProcessing" if "?stored i = Some j" for i j
  proof -
    from that obtain e where e: "js_data s i = Some (j, e)" "je_now E < e"
      by (auto simp: stored_job_def split: option.splits if_splits)
    show ?thesis
    proof
      assume "i \<in> set (fst ?x)"
      then have "\<exists>j d. js_data s i = Some (j, d) \<and> jb_status j = JobProcessing"
        using rows unfolding processing_rows_def by blast
      then show "jb_status j = JobProcessing" using e(1) by simp
    next
      assume "jb_status j = JobProcessing"
      then show "i \<in> set (fst ?x)" using rows e unfolding processing_rows_def by blast
    qed
  qed
  have "j \<in> set ?js \<longleftrightarrow> job_view s (jb_id j) = Some j \<and> due E s (jb_id j)" for j
  proof
    assume "j \<in> set ?js"
    then obtain i where i: "i \<in> set (fst ?x)" "?stored i = Some j"
      and b: "started_before (je_now E - jc_stuck_seconds (je_config E) * second) j"
      by (auto simp: List.map_filter_def)
    have "jb_id j = i" by (rule keyed_view [OF good stored_view [OF i(2)]])
    then show "job_view s (jb_id j) = Some j \<and> due E s (jb_id j)"
      using i b mem [OF i(2)] stored_view [OF i(2)] by (simp add: due_def)
  next
    assume "job_view s (jb_id j) = Some j \<and> due E s (jb_id j)"
    then obtain j' where j': "?stored (jb_id j) = Some j'" "jb_status j' = JobProcessing"
      "started_before (je_now E - jc_stuck_seconds (je_config E) * second) j'" "job_view s (jb_id j) = Some j"
      by (auto simp: due_def split: option.splits)
    then have "j' = j" using stored_view [OF j'(1)] by simp
    with j' mem [OF j'(1)] show "j \<in> set ?js" by (force simp: List.map_filter_def)
  qed
  with g d show thesis using that by blast
qed

lemma reap_result:
  assumes ok: "index_ok t (jw_store s)" and good: "good_sys s" and t: "t \<le> je_now E" and E: "no_fault E"
  obtains n s' where "Reap E s = (Inr n, s')" "index_ok (je_now E) (jw_store s')"
    "\<And>i. job_view (jw_store s') i = (if due E (jw_store s) i then map_option (reset_row E) (job_view (jw_store s) i)
       else job_view (jw_store s) i)"
    "\<And>i. due E (jw_store s) i \<Longrightarrow> i \<in> fst ` set (js_queue (jw_store s'))"
proof -
  obtain js where js: "GetStuckJobs E (jw_store s) (jc_stuck_seconds (je_config E) * second) = Inr js"
    "distinct (map jb_id js)" "\<And>j. j \<in> set js \<longleftrightarrow> job_view (jw_store s) (jb_id j) = Some j \<and> due E (jw_store s) (jb_id j)"
    using stuck_jobs [OF ok good t E] by blast
  from reap_fold_none [OF ok t E js(2), of 0] obtain s' where
    f: "fold (reap_job E) js (0, s) = (length js, s')" and "js \<noteq> [] \<longrightarrow> index_ok (je_now E) (jw_store s')"
    and rows: "job_view (jw_store s') = reset_rows E js (job_view (jw_store s))"
    and queue: "fst ` set (js_queue (jw_store s')) = jb_id ` set js \<union> fst ` set (js_queue (jw_store s))" by auto
  then have i: "index_ok (je_now E) (jw_store s')" using later_index [OF ok t] by (cases "js = []") auto
  have r: "Reap E s = (Inr (length js), s')" using js(1) f by (simp add: Reap_def)
  have found: "tbl_first (\<lambda>j. jb_id j = i) js = (if due E (jw_store s) i then job_view (jw_store s) i else None)" for i
  proof (cases "due E (jw_store s) i")
    case True
    then obtain j where j: "job_view (jw_store s) i = Some j" using stored_view by (auto simp: due_def split: option.splits)
    have id: "jb_id j = i" by (rule keyed_view [OF good j])
    then have "j \<in> set js" using js(3) True j by simp
    from tbl_first_unique_cond [OF js(2) this id] show ?thesis using True j by simp
  next
    case False
    then show ?thesis using js(3) by (auto simp: tbl_first_None_iff)
  qed
  show thesis
  proof (rule that [OF r i])
    fix i
    show "job_view (jw_store s') i = (if due E (jw_store s) i then map_option (reset_row E) (job_view (jw_store s) i)
       else job_view (jw_store s) i)"
      unfolding rows reset_rows_def found by (auto split: option.split)
    assume "due E (jw_store s) i"
    moreover obtain j where j: "job_view (jw_store s) i = Some j"
      using calculation stored_view by (auto simp: due_def split: option.splits)
    moreover have "jb_id j = i" by (rule keyed_view [OF good j])
    ultimately have "j \<in> set js" "jb_id j = i" using js(3) by simp_all
    then show "i \<in> fst ` set (js_queue (jw_store s'))" unfolding queue by blast
  qed
qed

fun answered :: "job_event \<Rightarrow> bool" where
  "answered (Submitting E u req) = no_fault E"
| "answered (Cancelling E u p) = no_fault E"
| "answered (Resubmitting E u p) = no_fault E"
| "answered (Polling E) = no_fault E"
| "answered (Taking E) = no_fault E"
| "answered (Finishing E k) = no_fault E"
| "answered (Reaping E) = no_fault E"
| "answered (Crashing t) = True"

lemma event_index:
  assumes ok: "index_ok t (jw_store s)" and good: "good_sys s" and t: "t \<le> event_time e"
    and "fresh_event e s" and "answered e"
  shows "index_ok (event_time e) (jw_store (job_exec e s))"
proof (cases e)
  case (Submitting E u req)
  then show ?thesis using js_Submit_index [of t "jw_store s" E] later_index [OF ok] assms
    by (cases u) (simp_all add: JH_Submit_def split: prod.split sum.split, metis snd_conv)
next
  case (Cancelling E u p)
  then show ?thesis using js_Cancel_index [of t "jw_store s" E] later_index [OF ok] assms
    by (cases u; cases p) (simp_all add: JH_Cancel_def split: prod.split sum.split, metis snd_conv)
next
  case (Resubmitting E u p)
  then show ?thesis using js_Resubmit_index [of t "jw_store s" E] later_index [OF ok] assms
    by (cases u; cases p) (simp_all add: JH_Resubmit_def split: prod.split sum.split, metis snd_conv)
next
  case (Reaping E)
  then show ?thesis using reap_result [of t s E] assms by simp (metis snd_conv)
qed (use assms in \<open>simp_all add: poll_index take_index finish_index later_index\<close>)

lemma reachable_index:
  assumes "job_steps (t0, job_initial) es (t, s)" and "list_all answered es"
  shows "index_ok t (jw_store s)"
  using assms
proof (induction "(t0, job_initial)" es "(t, s)" arbitrary: t s rule: job_steps.induct)
  case none
  then show ?case by (simp add: index_ok_def processing_rows_def job_initial_def)
next
  case (more es t s e)
  then have "index_ok t (jw_store s)" "answered e" by simp_all
  with event_index [OF _ reachable_life(1) [OF more.hyps(1)] more.hyps(3,4)] show ?case by blast
qed

text \<open>
  C20. While Redis answers, a pass of the reaper puts every job that is in processing, has not expired
  and began before the threshold back to pending and into the queue, and changes no other job.
\<close>

theorem reaper_resets_stuck:
  assumes "job_steps (t0, job_initial) es (t, s)" and "list_all answered es"
    and "t \<le> je_now E" and "no_fault E"
  shows "\<exists>n s'. Reap E s = (Inr n, s') \<and>
    (\<forall>i. job_view (jw_store s') i = (if due E (jw_store s) i then map_option (reset_row E) (job_view (jw_store s) i)
       else job_view (jw_store s) i)) \<and>
    (\<forall>i. due E (jw_store s) i \<longrightarrow> i \<in> fst ` set (js_queue (jw_store s')))"
  using reap_result [OF reachable_index [OF assms(1,2)] reachable_life(1) [OF assms(1)] assms(3,4)] by metis

definition demo_stuck :: "job_event list" where
  "demo_stuck = [demo_submit, Polling (demo_job_env 1), Taking (demo_job_env 1), Crashing (2 * second)]"

lemma demo_stuck_run:
  "\<exists>s j. run_events (0, job_initial) demo_stuck = Some (2 * second, s) \<and> due (demo_job_env 400) (jw_store s) ''j1'' \<and>
     job_view (jw_store s) ''j1'' = Some j \<and> jw_running s = []"
  by (simp add: demo_stuck_def job_run_defs due_def Let_def)

theorem reaper_resets_stuck_witness:
  "\<exists>n s s' j. jw_running s = [] \<and> Reap (demo_job_env 400) s = (Inr n, s') \<and> job_view (jw_store s') ''j1'' = Some j \<and>
     jb_status j = JobPending \<and> ''j1'' \<in> fst ` set (js_queue (jw_store s'))"
proof -
  obtain s j where s: "run_events (0, job_initial) demo_stuck = Some (2 * second, s)"
    "due (demo_job_env 400) (jw_store s) ''j1''" "job_view (jw_store s) ''j1'' = Some j" "jw_running s = []"
    using demo_stuck_run by blast
  have a: "list_all answered demo_stuck" "2 * second \<le> je_now (demo_job_env 400)" "no_fault (demo_job_env 400)"
    by (simp_all add: demo_stuck_def demo_submit_def demo_job_env_def no_fault_def second_def)
  from reaper_resets_stuck [OF run_events_steps [OF s(1)] a] s(2,3) obtain n s' where
    "Reap (demo_job_env 400) s = (Inr n, s')" "job_view (jw_store s') ''j1'' = Some (reset_row (demo_job_env 400) j)"
    "''j1'' \<in> fst ` set (js_queue (jw_store s'))" by auto
  moreover have "jb_status (reset_row (demo_job_env 400) j) = JobPending" by (simp add: reset_row_def)
  ultimately show ?thesis using s(4) by blast
qed

end
