(* ===== verification/API_Key.thy ===== *)
theory API_Key
  imports Organization
begin

text \<open>
  API keys: the row and its scopes (\<open>domain/api_key.go\<close>), the repository
  (\<open>repository/api_key_repo.go\<close>), the service (\<open>service/api_key.go\<close>), the validation of scopes
  (\<open>http/request/api_key.go\<close>) and the middleware (\<open>http/middleware/api_key.go\<close>, \<open>jwt.go\<close>).

  bcrypt is a parameter, a function of the salt, which the environment draws anew for each hash,
  and the text, to the hash or to nothing (a text that is too long). A scopes column is a JSON
  value. The goroutine that stores the time of the last use is taken to run at once.
\<close>

section \<open>Rows and scopes (domain/api_key.go)\<close>

record api_key =
  ak_id :: uuid
  ak_user :: uuid
  ak_name :: string
  ak_prefix :: string
  ak_key_hash :: string
  ak_scopes :: "json option"
  ak_expires_at :: "instant option"
  ak_last_used_at :: "instant option"
  ak_revoked_at :: "instant option"
  ak_created_at :: instant
  ak_updated_at :: instant
  ak_deleted_at :: "instant option"

definition ak_IsRevoked :: "api_key \<Rightarrow> bool" where
  "ak_IsRevoked k = (ak_revoked_at k \<noteq> None)"

definition ak_IsExpired :: "instant \<Rightarrow> api_key \<Rightarrow> bool" where
  "ak_IsExpired now k = (case ak_expires_at k of None \<Rightarrow> False | Some t \<Rightarrow> t < now)"

definition ak_IsActive :: "instant \<Rightarrow> api_key \<Rightarrow> bool" where
  "ak_IsActive now k =
     (if ak_deleted_at k \<noteq> None then False
      else if ak_IsRevoked k then False
      else if ak_IsExpired now k then False
      else True)"

fun parseScopeParts :: "string \<Rightarrow> string \<times> string \<times> bool" where
  "parseScopeParts [] = ([], [], False)"
| "parseScopeParts (c # s) =
     (if c = CHR '':'' then ([], s, True)
      else case parseScopeParts s of (resource, action, found) \<Rightarrow> (c # resource, action, found))"

text \<open>The column unmarshalled into a list of strings, \<open>None\<close> where the code gives up.\<close>

definition ak_scope_list :: "api_key \<Rightarrow> string list option" where
  "ak_scope_list k = (case ak_scopes k of None \<Rightarrow> None | Some v \<Rightarrow> json_strings v)"

fun any_wildcard :: "string \<Rightarrow> string list \<Rightarrow> bool" where
  "any_wildcard resource [] = False"
| "any_wildcard resource (s2 # rest) =
     (case parseScopeParts s2 of (resource2, action2, found2) \<Rightarrow>
        if found2 \<and> resource2 = resource \<and> action2 = ''*'' then True else any_wildcard resource rest)"

fun scope_loop :: "string list \<Rightarrow> string \<Rightarrow> string list \<Rightarrow> bool" where
  "scope_loop scopes scope [] = False"
| "scope_loop scopes scope (s # rest) =
     (if s = ''*'' then True
      else if s = scope then True
      else case parseScopeParts scope of (resource, action, found) \<Rightarrow>
        if found \<and> any_wildcard resource scopes then True else scope_loop scopes scope rest)"

definition HasScope :: "api_key \<Rightarrow> string \<Rightarrow> bool" where
  "HasScope k scope = (case ak_scope_list k of None \<Rightarrow> False | Some scopes \<Rightarrow> scope_loop scopes scope scopes)"

fun HasAnyScope :: "api_key \<Rightarrow> string list \<Rightarrow> bool" where
  "HasAnyScope k [] = False"
| "HasAnyScope k (scope # rest) = (if HasScope k scope then True else HasAnyScope k rest)"

text \<open>Here the error is ignored: an element that is no string is left empty.\<close>

definition ak_GetScopes :: "api_key \<Rightarrow> string list" where
  "ak_GetScopes k =
     (case ak_scopes k of
        Some (JArr xs) \<Rightarrow> map (\<lambda>x. case json_string x of None \<Rightarrow> [] | Some s \<Rightarrow> s) xs
      | _ \<Rightarrow> [])"

definition ak_IsOwnedBy :: "api_key \<Rightarrow> uuid \<Rightarrow> bool" where
  "ak_IsOwnedBy k userID = (ak_user k = userID)"

record api_key_response =
  kr_id :: uuid
  kr_user :: uuid
  kr_name :: string
  kr_prefix :: string
  kr_scopes :: "string list"
  kr_expires_at :: "instant option"
  kr_last_used_at :: "instant option"
  kr_is_revoked :: bool
  kr_is_expired :: bool
  kr_is_active :: bool
  kr_created_at :: instant
  kr_updated_at :: instant

definition ak_ToResponse :: "instant \<Rightarrow> api_key \<Rightarrow> api_key_response" where
  "ak_ToResponse now k = \<lparr>kr_id = ak_id k, kr_user = ak_user k, kr_name = ak_name k, kr_prefix = ak_prefix k,
     kr_scopes = ak_GetScopes k, kr_expires_at = ak_expires_at k, kr_last_used_at = ak_last_used_at k,
     kr_is_revoked = ak_IsRevoked k, kr_is_expired = ak_IsExpired now k, kr_is_active = ak_IsActive now k,
     kr_created_at = ak_created_at k, kr_updated_at = ak_updated_at k\<rparr>"

text \<open>
  \<open>IsValidScope\<close> looks at the first colon, which may be neither at the start nor at the end.
\<close>

fun colon_inside :: "nat \<Rightarrow> nat \<Rightarrow> string \<Rightarrow> bool" where
  "colon_inside len i [] = False"
| "colon_inside len i (c # s) =
     (if c = CHR '':'' then \<not> (i = 0 \<or> Suc i = len) else colon_inside len (Suc i) s)"

definition IsValidScope :: "string \<Rightarrow> bool" where
  "IsValidScope scope = (if scope = ''*'' then True else colon_inside (length scope) 0 scope)"

section \<open>State and environment\<close>

record api_state =
  ap_keys :: "api_key list"
  ap_auth :: auth_state
  ap_audit :: "audit_entry list"

datatype api_query =
    QKeyCreate | QKeyByID uuid | QKeyByHash | QKeyPreload | QKeyCount uuid | QKeyList uuid | QKeySave uuid
  | QKeyRevoke uuid | QKeyExists uuid | QKeyDelete uuid | QKeyUsed uuid

record api_env = "api_query db_env" +
  ap_auth_env :: auth_env
  ap_bcrypt :: "string \<Rightarrow> string \<Rightarrow> string option"
  ap_salt :: string
  ap_random :: "string option"

section \<open>Repository (repository/api_key_repo.go)\<close>

definition ak_visible :: "api_key \<Rightarrow> bool" where
  "ak_visible k = (ak_deleted_at k = None)"

definition apikey_Create :: "'e api_env_scheme \<Rightarrow> api_state \<Rightarrow> api_key \<Rightarrow> unit result \<times> api_state" where
  "apikey_Create E s k =
     (if re_fault E QKeyCreate then (Inl (WrapInternal db_error), s)
      else if \<not> user_row_exists (ap_auth s) (ak_user k) then (Inl (WrapInternal fk_violation), s)
      else if tbl_count (\<lambda>r. ak_key_hash r = ak_key_hash k) (ap_keys s) \<noteq> 0 then (Inl (Sentinel ErrConflict), s)
      else (Inr (), s\<lparr>ap_keys := ap_keys s @ [k]\<rparr>))"

definition apikey_FindByID :: "'e api_env_scheme \<Rightarrow> api_state \<Rightarrow> uuid \<Rightarrow> api_key result" where
  "apikey_FindByID E s i =
     (if re_fault E (QKeyByID i) then Inl (WrapInternal db_error)
      else case tbl_first (\<lambda>r. ak_id r = i \<and> ak_visible r) (ap_keys s) of
             None \<Rightarrow> Inl (Sentinel ErrNotFound)
           | Some k \<Rightarrow> Inr k)"

definition apikey_FindByKeyHash :: "'e api_env_scheme \<Rightarrow> api_state \<Rightarrow> string \<Rightarrow> api_key result" where
  "apikey_FindByKeyHash E s h =
     (if re_fault E QKeyByHash then Inl (WrapInternal db_error)
      else case tbl_first (\<lambda>r. ak_key_hash r = h \<and> ak_visible r) (ap_keys s) of
             None \<Rightarrow> Inl (Sentinel ErrNotFound)
           | Some k \<Rightarrow> Inr k)"

text \<open>The preloaded user is \<open>None\<close>, in the code the zero value, when no live user has the key.\<close>

definition preload_user :: "api_state \<Rightarrow> api_key \<Rightarrow> user option" where
  "preload_user s k = tbl_first (\<lambda>u. u_id u = ak_user k \<and> user_visible u) (users (ap_auth s))"

definition with_user :: "'e api_env_scheme \<Rightarrow> api_state \<Rightarrow> api_key result \<Rightarrow> (api_key \<times> user option) result" where
  "with_user E s r =
     (case r of
        Inl err \<Rightarrow> Inl err
      | Inr k \<Rightarrow> if re_fault E QKeyPreload then Inl (WrapInternal db_error) else Inr (k, preload_user s k))"

definition apikey_FindByIDWithUser :: "'e api_env_scheme \<Rightarrow> api_state \<Rightarrow> uuid \<Rightarrow> (api_key \<times> user option) result" where
  "apikey_FindByIDWithUser E s i = with_user E s (apikey_FindByID E s i)"

definition apikey_FindByKeyHashWithUser ::
    "'e api_env_scheme \<Rightarrow> api_state \<Rightarrow> string \<Rightarrow> (api_key \<times> user option) result" where
  "apikey_FindByKeyHashWithUser E s h = with_user E s (apikey_FindByKeyHash E s h)"

definition apikey_FindByUserID ::
    "'e api_env_scheme \<Rightarrow> api_state \<Rightarrow> uuid \<Rightarrow> int \<Rightarrow> int \<Rightarrow> (api_key list \<times> nat) result" where
  "apikey_FindByUserID E s userID limit offset =
     (if re_fault E (QKeyCount userID) \<or> re_fault E (QKeyList userID) then Inl (WrapInternal db_error)
      else let rows = filter (\<lambda>r. ak_user r = userID \<and> ak_visible r) (ap_keys s)
           in Inr (gorm_page limit offset (rev (sort_key ak_created_at rows)), length rows))"

definition apikey_Update :: "'e api_env_scheme \<Rightarrow> api_state \<Rightarrow> api_key \<Rightarrow> unit result \<times> api_state" where
  "apikey_Update E s k =
     (if re_fault E (QKeySave (ak_id k)) then (Inl (WrapInternal db_error), s)
      else if tbl_count (\<lambda>r. ak_id r = ak_id k) (ap_keys s) = 0 then (Inl (Sentinel ErrNotFound), s)
      else (Inr (), s\<lparr>ap_keys := tbl_update (\<lambda>r. ak_id r = ak_id k) (\<lambda>r. k\<lparr>ak_updated_at := re_now E\<rparr>) (ap_keys s)\<rparr>))"

text \<open>An \<open>UPDATE\<close> touches \<open>updated_at\<close> as well.\<close>

definition apikey_Revoke :: "'e api_env_scheme \<Rightarrow> api_state \<Rightarrow> uuid \<Rightarrow> unit result \<times> api_state" where
  "apikey_Revoke E s i =
     (let P = (\<lambda>r. ak_id r = i \<and> ak_visible r \<and> ak_revoked_at r = None) in
      if re_fault E (QKeyRevoke i) then (Inl (WrapInternal db_error), s)
      else if tbl_count P (ap_keys s) = 0 then
        (if re_fault E (QKeyExists i) then (Inl (WrapInternal db_error), s)
         else if tbl_count (\<lambda>r. ak_id r = i \<and> ak_visible r) (ap_keys s) = 0 then (Inl (Sentinel ErrNotFound), s)
         else (Inl (Sentinel ErrConflict), s))
      else (Inr (), s\<lparr>ap_keys := tbl_update P
        (\<lambda>r. r\<lparr>ak_revoked_at := Some (re_now E), ak_updated_at := re_now E\<rparr>) (ap_keys s)\<rparr>))"

definition apikey_SoftDelete :: "'e api_env_scheme \<Rightarrow> api_state \<Rightarrow> uuid \<Rightarrow> unit result \<times> api_state" where
  "apikey_SoftDelete E s i =
     (let P = (\<lambda>r. ak_id r = i \<and> ak_visible r) in
      if re_fault E (QKeyDelete i) then (Inl (WrapInternal db_error), s)
      else if tbl_count P (ap_keys s) = 0 then (Inl (Sentinel ErrNotFound), s)
      else (Inr (), s\<lparr>ap_keys := tbl_update P (\<lambda>r. r\<lparr>ak_deleted_at := Some (re_now E)\<rparr>) (ap_keys s)\<rparr>))"

definition apikey_SoftDeleteByUserID :: "'e api_env_scheme \<Rightarrow> api_state \<Rightarrow> uuid \<Rightarrow> unit result \<times> api_state" where
  "apikey_SoftDeleteByUserID E s userID =
     (if re_fault E (QKeyDelete userID) then (Inl (WrapInternal db_error), s)
      else (Inr (), s\<lparr>ap_keys := tbl_update (\<lambda>r. ak_user r = userID \<and> ak_visible r)
        (\<lambda>r. r\<lparr>ak_deleted_at := Some (re_now E)\<rparr>) (ap_keys s)\<rparr>))"

definition apikey_UpdateLastUsedAt :: "'e api_env_scheme \<Rightarrow> api_state \<Rightarrow> uuid \<Rightarrow> unit result \<times> api_state" where
  "apikey_UpdateLastUsedAt E s i =
     (if re_fault E (QKeyUsed i) then (Inl (WrapInternal db_error), s)
      else (Inr (), s\<lparr>ap_keys := tbl_update
        (\<lambda>r. ak_id r = i \<and> ak_visible r \<and> ak_revoked_at r = None \<and>
           (case ak_expires_at r of None \<Rightarrow> True | Some t \<Rightarrow> re_now E < t))
        (\<lambda>r. r\<lparr>ak_last_used_at := Some (re_now E), ak_updated_at := re_now E\<rparr>) (ap_keys s)\<rparr>))"

definition apikey_CountActiveByUserID :: "'e api_env_scheme \<Rightarrow> api_state \<Rightarrow> uuid \<Rightarrow> nat result" where
  "apikey_CountActiveByUserID E s userID =
     (if re_fault E (QKeyCount userID) then Inl (WrapInternal db_error)
      else Inr (tbl_count (\<lambda>r. ak_user r = userID \<and> ak_visible r \<and> ak_revoked_at r = None \<and>
        (case ak_expires_at r of None \<Rightarrow> True | Some t \<Rightarrow> re_now E < t)) (ap_keys s)))"

section \<open>Service (service/api_key.go)\<close>

definition KeyPrefixLive :: string where
  "KeyPrefixLive = ''ak_live_''"

definition KeyPrefixLen :: nat where
  "KeyPrefixLen = 12"

definition hashKey :: "'e api_env_scheme \<Rightarrow> string \<Rightarrow> string result" where
  "hashKey E key =
     (case ap_bcrypt E (ap_salt E) key of
        None \<Rightarrow> Inl (Opaque ''failed to hash key'')
      | Some h \<Rightarrow> Inr h)"

text \<open>\<open>ap_random\<close> is the hex text of the random bytes, \<open>None\<close> when there are none.\<close>

definition generateKey :: "'e api_env_scheme \<Rightarrow> (string \<times> string \<times> string) result" where
  "generateKey E =
     (case ap_random E of
        None \<Rightarrow> Inl (Opaque ''failed to generate random bytes'')
      | Some randomPart \<Rightarrow>
          let secret = KeyPrefixLive @ randomPart
          in case hashKey E secret of
               Inl err \<Rightarrow> Inl (Opaque (''failed to hash key: '' @ error_text err))
             | Inr keyHash \<Rightarrow> Inr (secret, keyHash, take KeyPrefixLen secret))"

record create_key_request =
  kq_name :: string
  kq_scopes :: "string list"
  kq_expires_at :: "instant option"

fun first_invalid :: "string list \<Rightarrow> string option" where
  "first_invalid [] = None"
| "first_invalid (s # rest) = (if IsValidScope s then first_invalid rest else Some s)"

definition api_log :: "'e api_env_scheme \<Rightarrow> audit_entry \<Rightarrow> api_state \<Rightarrow> api_state" where
  "api_log E a s = s\<lparr>ap_audit := log_action E a (ap_audit s)\<rparr>"

definition APIKey_Create ::
    "'e api_env_scheme \<Rightarrow> api_state \<Rightarrow> uuid \<Rightarrow> create_key_request \<Rightarrow> (api_key_response \<times> string \<times> string) result \<times> api_state" where
  "APIKey_Create E s userID req =
     (case user_find_by_id (ap_auth_env E) (ap_auth s) userID of
        Inl err \<Rightarrow> (Inl (if err_is err ErrNotFound then NewAppError ''USER_NOT_FOUND'' ''User not found'' 404
                          else WrapInternal err), s)
      | Inr _ \<Rightarrow>
          if (case kq_expires_at req of None \<Rightarrow> False | Some t \<Rightarrow> t < re_now E) then
            (Inl (NewAppError ''VALIDATION_ERROR'' ''Expiration must be in the future'' 422), s)
          else case first_invalid (kq_scopes req) of
            Some scope \<Rightarrow> (Inl (NewAppError ''VALIDATION_ERROR'' (''Invalid scope format: '' @ scope) 422), s)
          | None \<Rightarrow>
              (case generateKey E of
                 Inl err \<Rightarrow> (Inl (WrapInternal err), s)
               | Inr (secret, keyHash, front) \<Rightarrow>
                   let k = \<lparr>ak_id = re_new_id E, ak_user = userID, ak_name = kq_name req, ak_prefix = front,
                            ak_key_hash = keyHash, ak_scopes = Some (JArr (map JStr (kq_scopes req))),
                            ak_expires_at = kq_expires_at req, ak_last_used_at = None, ak_revoked_at = None,
                            ak_created_at = re_now E, ak_updated_at = re_now E, ak_deleted_at = None\<rparr>
                   in case apikey_Create E s k of
                        (Inl err, s1) \<Rightarrow>
                          (Inl (if err_is err ErrConflict
                                then NewAppError ''CONFLICT'' ''API key name already exists for this user'' 409
                                else WrapInternal err), s1)
                      | (Inr _, s1) \<Rightarrow>
                          (Inr (ak_ToResponse (re_now E) k, secret, keyHash),
                           api_log E (Audit userID ''api_key:create'' ''api_key'' (ak_id k)) s1)))"

definition APIKey_List ::
    "'e api_env_scheme \<Rightarrow> api_state \<Rightarrow> uuid \<Rightarrow> int \<Rightarrow> int \<Rightarrow> (api_key list \<times> nat) result" where
  "APIKey_List E s userID limit0 offset =
     (let limit1 = (if limit0 \<le> 0 then 20 else limit0);
          limit = (if limit1 > 100 then 100 else limit1)
      in map_sum WrapInternal id (apikey_FindByUserID E s userID limit offset))"

definition APIKey_GetByID :: "'e api_env_scheme \<Rightarrow> api_state \<Rightarrow> uuid \<Rightarrow> uuid \<Rightarrow> api_key result" where
  "APIKey_GetByID E s userID keyID =
     (case apikey_FindByID E s keyID of
        Inl err \<Rightarrow> Inl (if err_is err ErrNotFound then NewAppError ''NOT_FOUND'' ''API key not found'' 404
                         else WrapInternal err)
      | Inr k \<Rightarrow>
          if \<not> ak_IsOwnedBy k userID then Inl (NewAppError ''FORBIDDEN'' ''API key belongs to another user'' 403)
          else Inr k)"

definition APIKey_Revoke :: "'e api_env_scheme \<Rightarrow> api_state \<Rightarrow> uuid \<Rightarrow> uuid \<Rightarrow> unit result \<times> api_state" where
  "APIKey_Revoke E s userID keyID =
     (case APIKey_GetByID E s userID keyID of
        Inl err \<Rightarrow> (Inl err, s)
      | Inr k \<Rightarrow>
          if ak_IsRevoked k then (Inl (NewAppError ''CONFLICT'' ''API key already revoked'' 409), s)
          else case apikey_Revoke E s keyID of
            (Inl err, s1) \<Rightarrow>
              (Inl (if err_is err ErrConflict then NewAppError ''CONFLICT'' ''API key already revoked'' 409
                    else WrapInternal err), s1)
          | (Inr _, s1) \<Rightarrow> (Inr (), api_log E (Audit userID ''api_key:revoke'' ''api_key'' keyID) s1))"

definition shouldUpdateLastUsedAt :: "instant \<Rightarrow> api_key \<Rightarrow> bool" where
  "shouldUpdateLastUsedAt now k =
     (case ak_last_used_at k of None \<Rightarrow> True | Some t \<Rightarrow> now - t > 60 * second)"

definition unauthorized :: "string \<Rightarrow> go_error" where
  "unauthorized msg = NewAppError ''UNAUTHORIZED'' msg 401"

definition APIKey_Validate ::
    "'e api_env_scheme \<Rightarrow> api_state \<Rightarrow> string \<Rightarrow> (api_key \<times> user) result \<times> api_state" where
  "APIKey_Validate E s key =
     (case hashKey E key of
        Inl err \<Rightarrow> (Inl (unauthorized ''Invalid API key''), s)
      | Inr keyHash \<Rightarrow>
          (case apikey_FindByKeyHashWithUser E s keyHash of
             Inl err \<Rightarrow> (Inl (if err_is err ErrNotFound then unauthorized ''Invalid API key'' else WrapInternal err), s)
           | Inr (k, owner) \<Rightarrow>
               if \<not> ak_IsActive (re_now E) k then
                 (Inl (unauthorized (if ak_IsRevoked k then ''API key has been revoked''
                    else if ak_IsExpired (re_now E) k then ''API key has expired'' else ''API key is inactive'')), s)
               else case owner of
                 None \<Rightarrow> (Inl (unauthorized ''User not found''), s)
               | Some u \<Rightarrow>
                   (Inr (k, u),
                    if shouldUpdateLastUsedAt (re_now E) k then snd (apikey_UpdateLastUsedAt E s (ak_id k)) else s)))"

definition ValidateScopes :: "string list \<Rightarrow> unit result" where
  "ValidateScopes scopes =
     (if scopes = [] then Inl (NewAppError ''VALIDATION_ERROR'' ''At least one scope is required'' 422)
      else case first_invalid scopes of
        Some scope \<Rightarrow> Inl (NewAppError ''VALIDATION_ERROR'' (''Invalid scope format: '' @ scope) 422)
      | None \<Rightarrow> Inr ())"

definition APIKey_CountActive :: "'e api_env_scheme \<Rightarrow> api_state \<Rightarrow> uuid \<Rightarrow> nat result" where
  "APIKey_CountActive E s userID = apikey_CountActiveByUserID E s userID"

section \<open>Middleware (http/middleware/jwt.go, http/middleware/api_key.go)\<close>

text \<open>
  The context of a request: its headers and what middlewares have set. A handler returns an error,
  as a status, or none, and the context and the state it leaves. Parsing a token is a parameter.
\<close>

record 'c http_ctx =
  hx_authorization :: string
  hx_api_key :: string
  hx_claims :: "'c option"
  hx_user_id :: "uuid option"
  hx_key_id :: "uuid option"
  hx_scopes :: "string list option"

type_synonym ('c, 's) http_handler = "'c http_ctx \<Rightarrow> 's \<Rightarrow> nat option \<times> 'c http_ctx \<times> 's"

definition split_first_space :: "string \<Rightarrow> (string \<times> string) option" where
  "split_first_space s =
     (if CHR '' '' \<in> set s then Some (takeWhile (\<lambda>c. c \<noteq> CHR '' '') s, tl (dropWhile (\<lambda>c. c \<noteq> CHR '' '') s)) else None)"

definition JWT_Middleware :: "(string \<Rightarrow> 'c option) \<Rightarrow> ('c, 's) http_handler \<Rightarrow> ('c, 's) http_handler" where
  "JWT_Middleware claims_of next c s =
     (if hx_authorization c = [] then (Some 401, c, s)
      else case split_first_space (hx_authorization c) of
        None \<Rightarrow> (Some 401, c, s)
      | Some (scheme, rest) \<Rightarrow>
          if to_lower scheme \<noteq> ''bearer'' then (Some 401, c, s)
          else if trim_space rest = [] then (Some 401, c, s)
          else case claims_of (trim_space rest) of
            None \<Rightarrow> (Some 401, c, s)
          | Some claims \<Rightarrow> next (c\<lparr>hx_claims := Some claims\<rparr>) s)"

definition APIKeyAuth :: "'e api_env_scheme \<Rightarrow> ('c, api_state) http_handler \<Rightarrow> ('c, api_state) http_handler" where
  "APIKeyAuth E next c s =
     (if hx_user_id c \<noteq> None then next c s
      else if hx_api_key c = [] then next c s
      else case APIKey_Validate E s (hx_api_key c) of
        (Inl err, s1) \<Rightarrow> (Some (case app_error err of None \<Rightarrow> 401 | Some (code, status) \<Rightarrow> status), c, s1)
      | (Inr (k, u), s1) \<Rightarrow>
          next (c\<lparr>hx_user_id := Some (u_id u), hx_key_id := Some (ak_id k), hx_scopes := Some (ak_GetScopes k)\<rparr>) s1)"

definition APIKeyOrJWTAuth ::
    "'e api_env_scheme \<Rightarrow> (string \<Rightarrow> 'c option) \<Rightarrow> ('c, api_state) http_handler \<Rightarrow> ('c, api_state) http_handler" where
  "APIKeyOrJWTAuth E claims_of next c s =
     (case JWT_Middleware claims_of next c s of
        (None, c1, s1) \<Rightarrow> (None, c1, s1)
      | (Some status, c1, s1) \<Rightarrow> if hx_user_id c1 = None then APIKeyAuth E next c1 s1 else (None, c1, s1))"

definition GetAPIKeyScopes :: "'c http_ctx \<Rightarrow> string list" where
  "GetAPIKeyScopes c = (case hx_scopes c of None \<Rightarrow> [] | Some scopes \<Rightarrow> scopes)"

definition IsAPIKeyAuth :: "'c http_ctx \<Rightarrow> bool" where
  "IsAPIKeyAuth c = (hx_key_id c \<noteq> None)"

section \<open>HTTP handlers (http/handler/api_key.go)\<close>

text \<open>
  The user is that of the JWT. A creation has been bound and validated by its tags; a query that
  does not bind gets the defaults; an answer is a status with what the envelope carries.
\<close>

definition AKH_Create ::
    "'e api_env_scheme \<Rightarrow> api_state \<Rightarrow> uuid option \<Rightarrow> create_key_request \<Rightarrow>
     (nat \<times> (api_key_response \<times> string) option) \<times> api_state" where
  "AKH_Create E s user req =
     (case user of
        None \<Rightarrow> ((401, None), s)
      | Some userID \<Rightarrow>
          (case APIKey_Create E s userID req of
             (Inl err, s1) \<Rightarrow> ((error_status err, None), s1)
           | (Inr (resp, secret, keyHash), s1) \<Rightarrow> ((201, Some (resp, secret)), s1)))"

definition ListAPIKeys_defaults :: "int \<Rightarrow> int" where
  "ListAPIKeys_defaults limit0 = (let limit = (if limit0 = 0 then 20 else limit0) in if limit > 100 then 100 else limit)"

definition AKH_List ::
    "'e api_env_scheme \<Rightarrow> api_state \<Rightarrow> uuid option \<Rightarrow> (int \<times> int) option \<Rightarrow> nat \<times> (api_key_response list \<times> nat) option" where
  "AKH_List E s user query =
     (case user of
        None \<Rightarrow> (401, None)
      | Some userID \<Rightarrow>
          let (limit0, offset) = (case query of None \<Rightarrow> (20, 0) | Some q \<Rightarrow> q);
              limit = ListAPIKeys_defaults limit0
          in if limit < 1 \<or> offset < 0 then (400, None)
             else case APIKey_List E s userID limit offset of
               Inl err \<Rightarrow> (error_status err, None)
             | Inr (keys, n) \<Rightarrow> (200, Some (map (ak_ToResponse (re_now E)) keys, n)))"

definition AKH_GetByID ::
    "'e api_env_scheme \<Rightarrow> api_state \<Rightarrow> uuid option \<Rightarrow> uuid option \<Rightarrow> nat \<times> api_key_response option" where
  "AKH_GetByID E s user path =
     (case (user, path) of
        (None, _) \<Rightarrow> (401, None)
      | (Some userID, None) \<Rightarrow> (400, None)
      | (Some userID, Some i) \<Rightarrow>
          (case APIKey_GetByID E s userID i of
             Inl err \<Rightarrow> (error_status err, None)
           | Inr k \<Rightarrow> (200, Some (ak_ToResponse (re_now E) k))))"

definition AKH_Revoke ::
    "'e api_env_scheme \<Rightarrow> api_state \<Rightarrow> uuid option \<Rightarrow> uuid option \<Rightarrow> nat \<times> api_state" where
  "AKH_Revoke E s user path =
     (case (user, path) of
        (None, _) \<Rightarrow> (401, s)
      | (Some userID, None) \<Rightarrow> (400, s)
      | (Some userID, Some i) \<Rightarrow>
          (case APIKey_Revoke E s userID i of
             (Inl err, s1) \<Rightarrow> (error_status err, s1)
           | (Inr _, s1) \<Rightarrow> (200, s1)))"

end
