(* ===== verification/API_Key_Properties.thy ===== *)
theory API_Key_Properties
  imports API_Key Organization_Properties
begin

text \<open>
  Properties of API keys: what a scope grants, whose keys a request reaches, and that no key that
  the service has made is ever accepted, since the hash that is looked up has a salt of its own.
\<close>

section \<open>Scopes\<close>

text \<open>The specification: everything, the scope itself, or all actions on its resource.\<close>

definition scope_grants :: "string \<Rightarrow> string \<Rightarrow> bool" where
  "scope_grants g scope \<longleftrightarrow> g = ''*'' \<or> g = scope \<or>
     (\<exists>resource action. g = resource @ '':*'' \<and> scope = resource @ '':'' @ action \<and> CHR '':'' \<notin> set resource)"

lemma parse_no_colon: "CHR '':'' \<notin> set s \<Longrightarrow> parseScopeParts s = (s, [], False)"
  by (induction s) auto

lemma parse_colon: "CHR '':'' \<notin> set r \<Longrightarrow> parseScopeParts (r @ CHR '':'' # a) = (r, a, True)"
  by (induction r) auto

lemma parse_found:
  "parseScopeParts s = (r, a, True) \<longleftrightarrow> s = r @ CHR '':'' # a \<and> CHR '':'' \<notin> set r"
proof
  assume p: "parseScopeParts s = (r, a, True)"
  then have "CHR '':'' \<in> set s" using parse_no_colon [of s] by auto
  then obtain r' a' where "s = r' @ CHR '':'' # a'" "CHR '':'' \<notin> set r'" by (metis split_list_first)
  with p parse_colon [of r' a'] show "s = r @ CHR '':'' # a \<and> CHR '':'' \<notin> set r" by simp
qed (use parse_colon in blast)

lemma any_wildcard_iff: "any_wildcard r scopes \<longleftrightarrow> (\<exists>g\<in>set scopes. parseScopeParts g = (r, ''*'', True))"
  by (induction scopes) (auto split: prod.splits)

lemma scope_loop_iff:
  "scope_loop scopes scope rest \<longleftrightarrow> ''*'' \<in> set rest \<or> scope \<in> set rest \<or>
     rest \<noteq> [] \<and> (\<exists>r a. parseScopeParts scope = (r, a, True) \<and> any_wildcard r scopes)"
  by (induction rest) (auto split: prod.splits)

text \<open>C21. \<open>HasScope\<close> decides what the scopes of a key grant; a column that is no list of strings grants nothing.\<close>

theorem HasScope_iff:
  "HasScope k scope = (case ak_scope_list k of None \<Rightarrow> False | Some gs \<Rightarrow> list_ex (\<lambda>g. scope_grants g scope) gs)"
proof (cases "ak_scope_list k")
  case (Some gs)
  have "scope_loop gs scope gs \<longleftrightarrow> (\<exists>g\<in>set gs. scope_grants g scope)"
  proof
    assume "scope_loop gs scope gs"
    then consider "''*'' \<in> set gs" | "scope \<in> set gs"
      | r a g where "parseScopeParts scope = (r, a, True)" "g \<in> set gs" "parseScopeParts g = (r, ''*'', True)"
      by (auto simp: scope_loop_iff any_wildcard_iff)
    then show "\<exists>g\<in>set gs. scope_grants g scope"
    proof cases
      case (3 r a g)
      then have "scope = r @ '':'' @ a" "g = r @ '':*''" "CHR '':'' \<notin> set r" by (simp_all add: parse_found)
      then show ?thesis using 3(2) unfolding scope_grants_def by blast
    qed (auto simp: scope_grants_def)
  next
    assume "\<exists>g\<in>set gs. scope_grants g scope"
    then obtain g where g: "g \<in> set gs" "scope_grants g scope" by blast
    then consider "g = ''*''" | "g = scope" | r a where "g = r @ '':*''" "scope = r @ '':'' @ a" "CHR '':'' \<notin> set r"
      unfolding scope_grants_def by blast
    then show "scope_loop gs scope gs"
    proof cases
      case (3 r a)
      then have "parseScopeParts scope = (r, a, True)" "parseScopeParts g = (r, ''*'', True)" by (simp_all add: parse_found)
      then show ?thesis using g(1) by (auto simp: scope_loop_iff any_wildcard_iff)
    qed (use g(1) in \<open>auto simp: scope_loop_iff\<close>)
  qed
  then show ?thesis using Some by (simp add: HasScope_def list_ex_iff)
qed (simp add: HasScope_def)

section \<open>Requests\<close>

datatype api_request =
    ACreate uuid create_key_request | ARevoke uuid uuid | AValidate string

fun api_run :: "api_env \<Rightarrow> api_request \<Rightarrow> api_state \<Rightarrow> api_state" where
  "api_run E (ACreate u req) s = snd (APIKey_Create E s u req)"
| "api_run E (ARevoke u i) s = snd (APIKey_Revoke E s u i)"
| "api_run E (AValidate key) s = snd (APIKey_Validate E s key)"

text \<open>
  The states that requests reach, with the salts that have been drawn: a salt is drawn once. The
  hash function is the same throughout.
\<close>

inductive api_reach :: "(string \<Rightarrow> string \<Rightarrow> string option) \<Rightarrow> api_state \<Rightarrow> string list \<Rightarrow> bool" for B where
  start: "ap_keys s = [] \<Longrightarrow> api_reach B s []"
| request: "api_reach B s used \<Longrightarrow> ap_bcrypt E = B \<Longrightarrow> ap_salt E \<notin> set used \<Longrightarrow>
    api_reach B (api_run E r s) (ap_salt E # used)"

text \<open>What bcrypt documents: the hash contains the salt.\<close>

definition embeds_salt :: "(string \<Rightarrow> string \<Rightarrow> string option) \<Rightarrow> bool" where
  "embeds_salt B \<longleftrightarrow> (\<forall>s1 p1 s2 p2 h. B s1 p1 = Some h \<longrightarrow> B s2 p2 = Some h \<longrightarrow> s1 = s2)"

definition hashed_with :: "(string \<Rightarrow> string \<Rightarrow> string option) \<Rightarrow> string list \<Rightarrow> api_key \<Rightarrow> bool" where
  "hashed_with B used k \<longleftrightarrow> (\<exists>salt\<in>set used. \<exists>secret. B salt secret = Some (ak_key_hash k))"

lemma hashed_with_more: "hashed_with B used k \<Longrightarrow> hashed_with B (x # used) k"
  by (auto simp: hashed_with_def)

lemma create_keys:
  "ap_keys (snd (APIKey_Create E s u req)) = ap_keys s \<or>
   (\<exists>k secret. ap_keys (snd (APIKey_Create E s u req)) = ap_keys s @ [k] \<and> ak_user k = u \<and>
      ap_bcrypt E (ap_salt E) secret = Some (ak_key_hash k))"
  by (auto simp: APIKey_Create_def apikey_Create_def api_log_def generateKey_def hashKey_def Let_def
      split: sum.splits option.splits prod.splits if_splits)

lemma revoke_keys:
  "ap_keys (snd (APIKey_Revoke E s u i)) = ap_keys s \<or>
   (\<exists>P. ap_keys (snd (APIKey_Revoke E s u i)) =
      tbl_update P (\<lambda>r. r\<lparr>ak_revoked_at := Some (re_now E), ak_updated_at := re_now E\<rparr>) (ap_keys s))"
  by (auto simp: APIKey_Revoke_def apikey_Revoke_def api_log_def Let_def split: sum.splits if_splits)

lemma validate_keys:
  "ap_keys (snd (APIKey_Validate E s key)) = ap_keys s \<or>
   (\<exists>P. ap_keys (snd (APIKey_Validate E s key)) =
      tbl_update P (\<lambda>r. r\<lparr>ak_last_used_at := Some (re_now E), ak_updated_at := re_now E\<rparr>) (ap_keys s))"
  by (auto simp: APIKey_Validate_def apikey_UpdateLastUsedAt_def split: sum.splits option.splits prod.splits)

lemma hashed_with_update:
  assumes "list_all (hashed_with B used) keys" and "\<And>r. ak_key_hash (f r) = ak_key_hash r"
  shows "list_all (hashed_with B used) (tbl_update P f keys)"
  using assms by (auto simp: list_all_iff tbl_update_def hashed_with_def)

lemma reach_hashed: "api_reach B s used \<Longrightarrow> list_all (hashed_with B used) (ap_keys s)"
proof (induction rule: api_reach.induct)
  case (request s used E r)
  let ?used = "ap_salt E # used"
  have old: "list_all (hashed_with B ?used) (ap_keys s)"
    using request.IH hashed_with_more by (auto simp: list_all_iff)
  show ?case
  proof (cases r)
    case (ACreate u req)
    from create_keys [of E s u req] show ?thesis
    proof (elim disjE exE conjE)
      fix k secret
      assume keys: "ap_keys (snd (APIKey_Create E s u req)) = ap_keys s @ [k]"
        and "ap_bcrypt E (ap_salt E) secret = Some (ak_key_hash k)"
      then have "hashed_with B ?used k" using request.hyps(2) by (auto simp: hashed_with_def)
      then show ?thesis using keys old ACreate by simp
    qed (use old ACreate in simp)
  next
    case (ARevoke u i)
    then show ?thesis using revoke_keys [of E s u i] old hashed_with_update [OF old] by auto
  next
    case (AValidate key)
    then show ?thesis using validate_keys [of E s key] old hashed_with_update [OF old] by auto
  qed
qed simp

text \<open>
  C22. No request is ever authenticated by an API key: the key is hashed with a new salt for the
  lookup, so that no stored hash is found, be it the right key or not. Behind the middleware the
  handler does not run.
\<close>

theorem no_api_key_validates:
  assumes "api_reach B s used" and "embeds_salt B" and "ap_bcrypt E = B" and "ap_salt E \<notin> set used"
    and "hx_user_id c = None" and "hx_api_key c \<noteq> []"
  shows "\<exists>e status. APIKey_Validate E s (hx_api_key c) = (Inl e, s) \<and> APIKeyAuth E next c s = (Some status, c, s)"
proof -
  have "\<exists>e. APIKey_Validate E s (hx_api_key c) = (Inl e, s)"
  proof (cases "hashKey E (hx_api_key c)")
    case (Inr h)
    then have h: "B (ap_salt E) (hx_api_key c) = Some h"
      using assms(3) by (simp add: hashKey_def split: option.splits)
    have "ak_key_hash k \<noteq> h" if k: "k \<in> set (ap_keys s)" for k
    proof
      assume "ak_key_hash k = h"
      moreover obtain salt secret where "salt \<in> set used" "B salt secret = Some (ak_key_hash k)"
        using reach_hashed [OF assms(1)] k by (auto simp: list_all_iff hashed_with_def)
      ultimately show False using assms(2,4) h unfolding embeds_salt_def by metis
    qed
    then have "tbl_first (\<lambda>r. ak_key_hash r = h \<and> ak_visible r) (ap_keys s) = None" by (auto simp: tbl_first_None_iff)
    then show ?thesis using Inr
      by (simp add: APIKey_Validate_def apikey_FindByKeyHashWithUser_def apikey_FindByKeyHash_def with_user_def)
  qed (simp add: APIKey_Validate_def)
  then obtain e where e: "APIKey_Validate E s (hx_api_key c) = (Inl e, s)" by blast
  then show ?thesis using assms(5,6) by (simp add: APIKeyAuth_def)
qed

section \<open>Keys of others\<close>

text \<open>A request changes keys of its user only; looking a key up by its secret changes no key that cannot be used.\<close>

fun api_requester :: "api_request \<Rightarrow> uuid option" where
  "api_requester (ACreate u req) = Some u"
| "api_requester (ARevoke u i) = Some u"
| "api_requester (AValidate key) = None"

definition keys_of :: "uuid \<Rightarrow> api_state \<Rightarrow> api_key list" where
  "keys_of u s = filter (\<lambda>k. ak_user k = u) (ap_keys s)"

lemma revoke_other:
  assumes "distinct (map ak_id (ap_keys s))" and "u \<noteq> v"
  shows "keys_of v (snd (APIKey_Revoke E s u i)) = keys_of v s"
proof (cases "APIKey_GetByID E s u i")
  case (Inr k)
  then have k: "k \<in> set (ap_keys s)" "ak_id k = i" "ak_user k = u"
    by (auto simp: APIKey_GetByID_def apikey_FindByID_def ak_IsOwnedBy_def split: if_splits option.splits
        dest!: tbl_first_SomeD)
  have mine: "ak_user r = u" if "r \<in> set (ap_keys s)" "ak_id r = i" for r
    using assms(1) that k by (metis distinct_map inj_onD)
  have "filter (\<lambda>k. ak_user k = v) (tbl_update (\<lambda>r. ak_id r = i \<and> ak_visible r \<and> ak_revoked_at r = None)
        (\<lambda>r. r\<lparr>ak_revoked_at := Some (re_now E), ak_updated_at := re_now E\<rparr>) rows) = filter (\<lambda>k. ak_user k = v) rows"
    if "\<And>r. r \<in> set rows \<Longrightarrow> ak_id r = i \<Longrightarrow> ak_user r = u" for rows
    using that assms(2) by (induction rows) (auto simp: tbl_update_def)
  from this [OF mine] show ?thesis
    using Inr by (simp add: APIKey_Revoke_def apikey_Revoke_def api_log_def keys_of_def Let_def split: sum.split prod.split)
qed (simp add: APIKey_Revoke_def)

lemma create_other:
  assumes "u \<noteq> v"
  shows "keys_of v (snd (APIKey_Create E s u req)) = keys_of v s"
  using create_keys [of E s u req] assms by (auto simp: keys_of_def)

section \<open>A concrete key\<close>

definition demo_bcrypt :: "string \<Rightarrow> string \<Rightarrow> string option" where
  "demo_bcrypt salt text = (if length salt = 2 then Some (salt @ text) else None)"

lemma demo_embeds: "embeds_salt demo_bcrypt"
  by (auto simp: embeds_salt_def demo_bcrypt_def split: if_splits)

definition demo_api_state :: api_state where
  "demo_api_state = \<lparr>ap_keys = [], ap_auth = os_auth demo_orgs, ap_audit = []\<rparr>"

definition demo_api_env :: "string \<Rightarrow> api_env" where
  "demo_api_env salt = \<lparr>re_now = 0, re_fault = (\<lambda>q. False), re_new_id = ''k1'', re_audit_full = False,
     ap_auth_env = demo_auth_env, ap_bcrypt = demo_bcrypt, ap_salt = salt, ap_random = Some ''abcd''\<rparr>"

definition demo_create :: api_request where
  "demo_create = ACreate ''olga'' \<lparr>kq_name = ''ci'', kq_scopes = [''news:read''], kq_expires_at = None\<rparr>"

lemmas api_run_defs = demo_api_state_def demo_api_env_def demo_create_def APIKey_Create_def user_find_by_id_def
  generateKey_def hashKey_def demo_bcrypt_def KeyPrefixLive_def KeyPrefixLen_def apikey_Create_def IsValidScope_def
  demo_auth_env_def demo_orgs_def demo_org_user_def tbl_first_def user_visible_def user_row_exists_def

lemma demo_key_made:
  "\<exists>k. ap_keys (api_run (demo_api_env ''s1'') demo_create demo_api_state) = [k] \<and>
     ak_key_hash k = ''s1ak_live_abcd'' \<and> ak_user k = ''olga'' \<and> ak_IsActive 0 k \<and> HasScope k ''news:read''"
  by (simp add: api_run_defs api_log_def tbl_count_def ak_IsActive_def ak_IsRevoked_def ak_IsExpired_def
      HasScope_def ak_scope_list_def Let_def)

text \<open>The secret of the key just made, with an active row and a live user, is refused.\<close>

theorem no_api_key_validates_witness:
  "\<exists>e. APIKey_Validate (demo_api_env ''s2'') (api_run (demo_api_env ''s1'') demo_create demo_api_state) ''ak_live_abcd''
     = (Inl e, api_run (demo_api_env ''s1'') demo_create demo_api_state)"
proof -
  let ?s = "api_run (demo_api_env ''s1'') demo_create demo_api_state"
  let ?c = "\<lparr>hx_authorization = [], hx_api_key = ''ak_live_abcd'', hx_claims = None, hx_user_id = None, hx_key_id = None,
    hx_scopes = None\<rparr> :: unit http_ctx"
  have "api_reach demo_bcrypt demo_api_state []" by (rule api_reach.start) (simp add: demo_api_state_def)
  from api_reach.request [OF this, of "demo_api_env ''s1''" demo_create]
  have reach: "api_reach demo_bcrypt ?s [''s1'']" by (simp add: demo_api_env_def)
  have "ap_bcrypt (demo_api_env ''s2'') = demo_bcrypt" "ap_salt (demo_api_env ''s2'') \<notin> set [''s1'']"
    "hx_user_id ?c = None" "hx_api_key ?c \<noteq> []" by (simp_all add: demo_api_env_def)
  from no_api_key_validates [OF reach demo_embeds this, of "\<lambda>c s. (None, c, s)"] show ?thesis by auto
qed

section \<open>JWT or API key\<close>

text \<open>
  A handler that fails behind a valid JWT runs a second time, on the state that it has left: the
  wrapper takes its error for that of the authentication.
\<close>

lemma failing_handler_runs_twice:
  assumes "JWT_Middleware claims_of next c s = next (c\<lparr>hx_claims := Some claims\<rparr>) s"
    and "next (c\<lparr>hx_claims := Some claims\<rparr>) s = (Some status, c1, s1)"
    and "hx_user_id c1 = None" and "hx_api_key c1 = []"
  shows "APIKeyOrJWTAuth E claims_of next c s = next c1 s1"
  using assms by (simp add: APIKeyOrJWTAuth_def APIKeyAuth_def)

end
