(* ===== verification/OAuth.thy ===== *)
theory OAuth
  imports Auth_Service
begin

text \<open>
  OAuth providers and accounts: rows (\<open>domain/oauth_provider.go\<close>, \<open>domain/oauth_account.go\<close>), the
  state of a login in Redis (\<open>service/oauth_state.go\<close>), the encryption of client secrets
  (\<open>service/oauth_encryption.go\<close>), the repositories (\<open>repository/oauth_provider.go\<close>,
  \<open>repository/oauth_account.go\<close>) and the administration of providers
  (\<open>service/oauth_provider.go\<close>, \<open>config/oauth.go\<close>).

  The two partial unique constraints of the accounts and those of the providers are written in a
  form that PostgreSQL does not have; \<open>ox_unique\<close> says whether they are in force.
\<close>

section \<open>Rows (domain/oauth_provider.go, domain/oauth_account.go)\<close>

text \<open>The JSON columns are values, \<open>None\<close> the nil slice of bytes.\<close>

record oauth_provider =
  op_id :: uuid
  op_name :: string
  op_display_name :: string
  op_client_id :: string
  op_secret :: string
  op_redirect_url :: string
  op_scopes :: "json option"
  op_config :: "json option"
  op_enabled :: bool
  op_system :: bool
  op_org :: "uuid option"
  op_created_at :: instant
  op_deleted_at :: "instant option"

record oauth_account =
  oa_id :: uuid
  oa_user :: uuid
  oa_provider :: uuid
  oa_provider_user :: string
  oa_email :: string
  oa_email_verified :: bool
  oa_display_name :: string
  oa_avatar_url :: string
  oa_created_at :: instant
  oa_deleted_at :: "instant option"

record provider_profile =
  pp_id :: string
  pp_email :: string
  pp_verified :: bool
  pp_name :: string
  pp_avatar :: string

record login_state =
  ls_callback :: string
  ls_provider :: string
  ls_intent :: string
  ls_user :: uuid
  ls_verifier :: string
  ls_org :: uuid
  ls_created_at :: instant

definition valid_provider :: "string \<Rightarrow> bool" where
  "valid_provider name = (name \<in> {''google'', ''github'', ''microsoft''})"

definition default_scopes :: "string \<Rightarrow> string list" where
  "default_scopes name =
     (if name = ''google'' \<or> name = ''microsoft'' then [''openid'', ''email'', ''profile'']
      else if name = ''github'' then [''user:email'', ''read:user'']
      else [])"

text \<open>The error of \<open>json.Unmarshal\<close> is ignored: what is no string in the list is left empty.\<close>

definition additional_scopes :: "oauth_provider \<Rightarrow> string list" where
  "additional_scopes p =
     (case op_scopes p of
        Some (JArr xs) \<Rightarrow> map (\<lambda>x. case json_string x of None \<Rightarrow> [] | Some s \<Rightarrow> s) xs
      | _ \<Rightarrow> [])"

fun merge_scopes :: "string list \<Rightarrow> string list \<Rightarrow> string list" where
  "merge_scopes merged [] = merged"
| "merge_scopes merged (s # rest) =
     (if s \<in> set merged then merge_scopes merged rest else merge_scopes (merged @ [s]) rest)"

definition GetEffectiveScopes :: "oauth_provider \<Rightarrow> string list" where
  "GetEffectiveScopes p = merge_scopes (default_scopes (op_name p)) (additional_scopes p)"

record oauth_provider_response =
  pv_id :: uuid
  pv_name :: string
  pv_display_name :: string
  pv_client_id :: string
  pv_redirect_url :: string
  pv_scopes :: "string list"
  pv_additional_scopes :: "string list"
  pv_config :: "json option"
  pv_enabled :: bool
  pv_system :: bool
  pv_org :: "uuid option"
  pv_created_at :: instant

definition op_ToResponse :: "oauth_provider \<Rightarrow> oauth_provider_response" where
  "op_ToResponse p = \<lparr>pv_id = op_id p, pv_name = op_name p, pv_display_name = op_display_name p,
     pv_client_id = op_client_id p, pv_redirect_url = op_redirect_url p, pv_scopes = GetEffectiveScopes p,
     pv_additional_scopes = additional_scopes p, pv_config = op_config p, pv_enabled = op_enabled p,
     pv_system = op_system p, pv_org = op_org p, pv_created_at = op_created_at p\<rparr>"

definition op_ToPublicResponse :: "oauth_provider \<Rightarrow> string \<times> string \<times> string list" where
  "op_ToPublicResponse p = (op_name p, op_display_name p, GetEffectiveScopes p)"

section \<open>State and environment\<close>

datatype oauth_event = OAuthEvent string uuid uuid string string "uuid option"
  \<comment> \<open>type, account, user, provider, user at the provider, organization\<close>

record oauth_sys =
  ox_auth :: auth_state
  ox_providers :: "oauth_provider list"
  ox_accounts :: "oauth_account list"
  ox_states :: "string \<rightharpoonup> login_state \<times> instant"
  ox_events :: "oauth_event list"

datatype oauth_call =
    QProvCreate | QProvByID uuid | QProvByName string | QProvEnabled | QProvList | QProvSave uuid | QProvDelete uuid
  | QAccCreate | QAccByUser uuid uuid | QAccByIdentity uuid string | QAccList uuid | QAccCount uuid
  | QAccCountUser uuid | QAccDelete uuid
  | RStateSet | RStateGet string | RStateDel string

text \<open>A request to a provider: the exchange of a code, with its form, or the profile.\<close>

datatype oauth_http =
    TokenPost string "(string \<times> string) list"
  | ProfileGet string string  \<comment> \<open>URL, bearer token\<close>

text \<open>
  \<open>ox_http\<close> is the client of \<open>internal/ssrf\<close> with the peer: the transport fails, or there is a
  status with the body (\<open>None\<close> when it is no JSON). \<open>ox_nonce\<close>, \<open>ox_iv\<close>, \<open>ox_password\<close> and
  \<open>ox_verifier\<close> are random bytes, the first and third in hex. \<open>ox_show\<close> is \<open>%v\<close> of a JSON value
  that is not a string; \<open>ox_auth_url\<close> parses a URL, puts the tenant in its path and sets the query, \<open>ox_fragment\<close> parses a URL and sets the fragment, \<open>ox_url\<close> gives
  scheme and host of a URL. The calls of \<open>ox_fault\<close> fail and do nothing.
\<close>

record oauth_env = auth_env +
  ox_fault :: "oauth_call \<Rightarrow> bool"
  ox_unique :: bool
  ox_http :: "oauth_http \<Rightarrow> string + nat \<times> json option"
  ox_nonce :: "string option"
  ox_verifier :: "nat list option"
  ox_password :: "string option"
  ox_uuid :: uuid
  ox_iv :: "string option"
  ox_key :: string
  ox_gcm_seal :: "string \<Rightarrow> string \<Rightarrow> string \<Rightarrow> string"
  ox_gcm_open :: "string \<Rightarrow> string \<Rightarrow> string \<Rightarrow> string option"
  ox_b64_encode :: "string \<Rightarrow> string"
  ox_b64_decode :: "string \<Rightarrow> string option"
  ox_challenge :: "string \<Rightarrow> string"
  ox_show :: "json \<Rightarrow> string"
  ox_auth_url :: "string \<Rightarrow> string \<Rightarrow> (string \<times> string) list \<Rightarrow> string option"
  ox_fragment :: "string \<Rightarrow> string \<Rightarrow> string option"
  ox_url :: "string \<Rightarrow> (string \<times> string) option"
  ox_state_ttl :: duration
  ox_allow_http :: bool
  ox_callback_url :: string
  ox_actor :: uuid

definition in_auth :: "(auth_state \<Rightarrow> auth_state) \<Rightarrow> oauth_sys \<Rightarrow> oauth_sys" where
  "in_auth f s = s\<lparr>ox_auth := f (ox_auth s)\<rparr>"

section \<open>The state of a login (service/oauth_state.go)\<close>

definition pkceUnreservedChars :: string where
  "pkceUnreservedChars = ''ABCDEFGHIJKLMNOPQRSTUVWXYZabcdefghijklmnopqrstuvwxyz0123456789-._~''"

definition generatePKCEVerifier :: "'e oauth_env_scheme \<Rightarrow> string result" where
  "generatePKCEVerifier E =
     (case ox_verifier E of
        None \<Rightarrow> Inl (Opaque ''failed to generate random byte for code_verifier'')
      | Some bytes \<Rightarrow> Inr (map (\<lambda>b. pkceUnreservedChars ! (b mod length pkceUnreservedChars)) bytes))"

definition CreateState ::
    "'e oauth_env_scheme \<Rightarrow> oauth_sys \<Rightarrow> string \<Rightarrow> string \<Rightarrow> string \<Rightarrow> uuid \<Rightarrow> uuid \<Rightarrow>
     (string \<times> string) result \<times> oauth_sys" where
  "CreateState E s callbackURL provider intent userID orgID =
     (case ox_nonce E of
        None \<Rightarrow> (Inl (WrapInternal (Opaque ''failed to generate nonce'')), s)
      | Some nonce \<Rightarrow>
          (case generatePKCEVerifier E of
             Inl err \<Rightarrow> (Inl (WrapInternal err), s)
           | Inr codeVerifier \<Rightarrow>
               if ox_fault E RStateSet then (Inl (WrapInternal (Opaque ''failed to store oauth state'')), s)
               else
                 let row = \<lparr>ls_callback = callbackURL, ls_provider = provider, ls_intent = intent, ls_user = userID,
                            ls_verifier = codeVerifier, ls_org = orgID, ls_created_at = a_now E\<rparr>;
                     ttl = (if ox_state_ttl E = 0 then 600 * second else ox_state_ttl E)
                 in (Inr (nonce, codeVerifier), s\<lparr>ox_states := (ox_states s)(nonce \<mapsto> (row, a_now E + ttl))\<rparr>)))"

text \<open>When the state cannot be deleted the request goes on.\<close>

definition ValidateState ::
    "'e oauth_env_scheme \<Rightarrow> oauth_sys \<Rightarrow> string \<Rightarrow> login_state result \<times> oauth_sys" where
  "ValidateState E s nonce =
     (if nonce = [] then (Inl (NewAppError ''VALIDATION_ERROR'' ''nonce is required'' 422), s)
      else if ox_fault E (RStateGet nonce) then (Inl (WrapInternal (Opaque ''failed to get oauth state'')), s)
      else case ox_states s nonce of
        Some (row, expires) \<Rightarrow>
          if a_now E < expires then
            (Inr row, if ox_fault E (RStateDel nonce) then s else s\<lparr>ox_states := (ox_states s)(nonce := None)\<rparr>)
          else (Inl (NewAppError ''NOT_FOUND'' ''oauth state not found or expired'' 404), s)
      | None \<Rightarrow> (Inl (NewAppError ''NOT_FOUND'' ''oauth state not found or expired'' 404), s))"

definition DeleteState :: "'e oauth_env_scheme \<Rightarrow> oauth_sys \<Rightarrow> string \<Rightarrow> unit result \<times> oauth_sys" where
  "DeleteState E s nonce =
     (if nonce = [] then (Inr (), s)
      else if ox_fault E (RStateDel nonce) then (Inl (WrapInternal (Opaque ''failed to delete oauth state'')), s)
      else (Inr (), s\<lparr>ox_states := (ox_states s)(nonce := None)\<rparr>))"

section \<open>Client secrets (service/oauth_encryption.go)\<close>

text \<open>\<open>derive\<close> is HKDF over SHA-256 with the info string of the file.\<close>

definition NewOAuthEncryptionService :: "(string \<Rightarrow> string) \<Rightarrow> string \<Rightarrow> string result" where
  "NewOAuthEncryptionService derive masterKey =
     (if masterKey = [] then Inl (Opaque ''master key must not be empty'') else Inr (derive masterKey))"

definition oauth_Encrypt :: "'e oauth_env_scheme \<Rightarrow> string \<Rightarrow> string result" where
  "oauth_Encrypt E plaintext =
     (if plaintext = [] then Inl (Opaque ''plaintext must not be empty'')
      else case ox_iv E of
        None \<Rightarrow> Inl (Opaque ''failed to generate IV'')
      | Some iv \<Rightarrow> Inr (''v1:'' @ ox_b64_encode E (iv @ ox_gcm_seal E (ox_key E) iv plaintext)))"

definition oauth_Decrypt :: "'e oauth_env_scheme \<Rightarrow> string \<Rightarrow> string result" where
  "oauth_Decrypt E encrypted =
     (if encrypted = [] then Inl (Opaque ''encrypted string must not be empty'')
      else if length encrypted < 3 then Inl (Opaque ''invalid encrypted format: too short'')
      else if take 3 encrypted \<noteq> ''v1:'' then Inl (Opaque ''invalid encrypted format'')
      else case ox_b64_decode E (drop 3 encrypted) of
        None \<Rightarrow> Inl (Opaque ''failed to decode base64'')
      | Some data \<Rightarrow>
          if length data < 12 + 16 then Inl (Opaque ''invalid encrypted data: too short'')
          else case ox_gcm_open E (ox_key E) (take 12 data) (drop 12 data) of
            None \<Rightarrow> Inl (Opaque ''failed to decrypt'')
          | Some plaintext \<Rightarrow> Inr plaintext)"

section \<open>Repository of providers (repository/oauth_provider.go)\<close>

definition op_visible :: "oauth_provider \<Rightarrow> bool" where
  "op_visible p = (op_deleted_at p = None)"

definition provider_Create ::
    "'e oauth_env_scheme \<Rightarrow> oauth_sys \<Rightarrow> oauth_provider \<Rightarrow> unit result \<times> oauth_sys" where
  "provider_Create E s p =
     (if ox_fault E QProvCreate then (Inl (WrapInternal db_error), s)
      else if ox_unique E \<and> tbl_count (\<lambda>r. op_name r = op_name p \<and> op_visible r) (ox_providers s) \<noteq> 0
      then (Inl (WrapInternal unique_violation), s)
      else (Inr (), s\<lparr>ox_providers := ox_providers s @ [p]\<rparr>))"

definition provider_FindByID :: "'e oauth_env_scheme \<Rightarrow> oauth_sys \<Rightarrow> uuid \<Rightarrow> oauth_provider result" where
  "provider_FindByID E s i =
     (if ox_fault E (QProvByID i) then Inl (WrapInternal db_error)
      else case tbl_first (\<lambda>r. op_id r = i \<and> op_visible r) (ox_providers s) of
        None \<Rightarrow> Inl (Sentinel ErrNotFound) | Some p \<Rightarrow> Inr p)"

definition provider_FindByName :: "'e oauth_env_scheme \<Rightarrow> oauth_sys \<Rightarrow> string \<Rightarrow> oauth_provider result" where
  "provider_FindByName E s name =
     (if ox_fault E (QProvByName name) then Inl (WrapInternal db_error)
      else case tbl_first (\<lambda>r. op_name r = name \<and> op_visible r) (ox_providers s) of
        None \<Rightarrow> Inl (Sentinel ErrNotFound) | Some p \<Rightarrow> Inr p)"

definition provider_FindEnabled ::
    "'e oauth_env_scheme \<Rightarrow> oauth_sys \<Rightarrow> uuid option \<Rightarrow> oauth_provider list result" where
  "provider_FindEnabled E s orgID =
     (if ox_fault E QProvEnabled then Inl (WrapInternal db_error)
      else Inr (filter (\<lambda>p. op_enabled p \<and> op_visible p \<and>
        (op_org p = None \<or> orgID \<noteq> None \<and> orgID \<noteq> Some uuid_nil \<and> op_org p = orgID)) (ox_providers s)))"

definition provider_FindAll ::
    "'e oauth_env_scheme \<Rightarrow> oauth_sys \<Rightarrow> uuid option \<Rightarrow> int \<Rightarrow> int \<Rightarrow> (oauth_provider list \<times> nat) result" where
  "provider_FindAll E s orgID limit offset =
     (if ox_fault E QProvList then Inl (WrapInternal db_error)
      else let rows = filter (\<lambda>p. op_visible p \<and> op_org p = orgID) (ox_providers s)
           in Inr (gorm_page limit offset (rev (sort_key op_created_at rows)), length rows))"

text \<open>
  \<open>Save\<close> updates the live row with the key of the struct; when there is none it inserts the struct
  (\<open>ON CONFLICT DO UPDATE\<close>, which brings a row back that was deleted in the meantime).
\<close>

definition provider_Update ::
    "'e oauth_env_scheme \<Rightarrow> oauth_sys \<Rightarrow> oauth_provider \<Rightarrow> unit result \<times> oauth_sys" where
  "provider_Update E s p =
     (if ox_fault E (QProvSave (op_id p)) then (Inl (WrapInternal db_error), s)
      else (Inr (), s\<lparr>ox_providers :=
        (if tbl_count (\<lambda>r. op_id r = op_id p) (ox_providers s) = 0 then ox_providers s @ [p]
         else tbl_update (\<lambda>r. op_id r = op_id p) (\<lambda>r. p) (ox_providers s))\<rparr>))"

definition provider_SoftDelete :: "'e oauth_env_scheme \<Rightarrow> oauth_sys \<Rightarrow> uuid \<Rightarrow> unit result \<times> oauth_sys" where
  "provider_SoftDelete E s i =
     (if ox_fault E (QProvDelete i) then (Inl (WrapInternal db_error), s)
      else if tbl_count (\<lambda>r. op_id r = i \<and> op_visible r) (ox_providers s) = 0 then (Inl (Sentinel ErrNotFound), s)
      else (Inr (), s\<lparr>ox_providers := tbl_update (\<lambda>r. op_id r = i \<and> op_visible r)
        (\<lambda>r. r\<lparr>op_deleted_at := Some (a_now E)\<rparr>) (ox_providers s)\<rparr>))"

section \<open>Repository of accounts (repository/oauth_account.go)\<close>

definition oa_visible :: "oauth_account \<Rightarrow> bool" where
  "oa_visible a = (oa_deleted_at a = None)"

definition identity_of :: "oauth_account \<Rightarrow> uuid \<times> string" where
  "identity_of a = (oa_provider a, oa_provider_user a)"

definition link_of :: "oauth_account \<Rightarrow> uuid \<times> uuid" where
  "link_of a = (oa_user a, oa_provider a)"

definition account_Create ::
    "'e oauth_env_scheme \<Rightarrow> oauth_sys \<Rightarrow> oauth_account \<Rightarrow> unit result \<times> oauth_sys" where
  "account_Create E s a =
     (if ox_fault E QAccCreate then (Inl (WrapInternal db_error), s)
      else if ox_unique E \<and>
        tbl_count (\<lambda>r. oa_visible r \<and> (identity_of r = identity_of a \<or> link_of r = link_of a)) (ox_accounts s) \<noteq> 0
      then (Inl (WrapInternal unique_violation), s)
      else (Inr (), s\<lparr>ox_accounts := ox_accounts s @ [a]\<rparr>))"

definition account_FindByUserAndProvider ::
    "'e oauth_env_scheme \<Rightarrow> oauth_sys \<Rightarrow> uuid \<Rightarrow> uuid \<Rightarrow> oauth_account result" where
  "account_FindByUserAndProvider E s userID providerID =
     (if ox_fault E (QAccByUser userID providerID) then Inl (WrapInternal db_error)
      else case tbl_first (\<lambda>r. link_of r = (userID, providerID) \<and> oa_visible r) (ox_accounts s) of
        None \<Rightarrow> Inl (Sentinel ErrNotFound) | Some a \<Rightarrow> Inr a)"

definition account_FindByIdentity ::
    "'e oauth_env_scheme \<Rightarrow> oauth_sys \<Rightarrow> uuid \<Rightarrow> string \<Rightarrow> oauth_account result" where
  "account_FindByIdentity E s providerID providerUserID =
     (if ox_fault E (QAccByIdentity providerID providerUserID) then Inl (WrapInternal db_error)
      else case tbl_first (\<lambda>r. identity_of r = (providerID, providerUserID) \<and> oa_visible r) (ox_accounts s) of
        None \<Rightarrow> Inl (Sentinel ErrNotFound) | Some a \<Rightarrow> Inr a)"

text \<open>Each account comes with the name of its provider, empty when that has been deleted.\<close>

definition account_provider_name :: "oauth_sys \<Rightarrow> oauth_account \<Rightarrow> string" where
  "account_provider_name s a =
     (case tbl_first (\<lambda>p. op_id p = oa_provider a \<and> op_visible p) (ox_providers s) of
        None \<Rightarrow> [] | Some p \<Rightarrow> op_name p)"

definition account_FindByUserID ::
    "'e oauth_env_scheme \<Rightarrow> oauth_sys \<Rightarrow> uuid \<Rightarrow> (oauth_account \<times> string) list result" where
  "account_FindByUserID E s userID =
     (if ox_fault E (QAccList userID) then Inl (WrapInternal db_error)
      else Inr (map (\<lambda>a. (a, account_provider_name s a))
        (filter (\<lambda>a. oa_user a = userID \<and> oa_visible a) (ox_accounts s))))"

text \<open>The accounts of a user, and one for a password that is no placeholder.\<close>

definition CountAuthMethodsByUserID :: "'e oauth_env_scheme \<Rightarrow> oauth_sys \<Rightarrow> uuid \<Rightarrow> nat result" where
  "CountAuthMethodsByUserID E s userID =
     (if ox_fault E (QAccCount userID) \<or> ox_fault E (QAccCountUser userID) then Inl (WrapInternal db_error)
      else Inr (tbl_count (\<lambda>a. oa_user a = userID \<and> oa_visible a) (ox_accounts s) +
        tbl_count (\<lambda>u. u_id u = userID \<and> user_visible u \<and> \<not> has_prefix (u_password_hash u) ''oauth-'')
          (users (ox_auth s))))"

definition account_SoftDelete :: "'e oauth_env_scheme \<Rightarrow> oauth_sys \<Rightarrow> uuid \<Rightarrow> unit result \<times> oauth_sys" where
  "account_SoftDelete E s i =
     (if ox_fault E (QAccDelete i) then (Inl (WrapInternal db_error), s)
      else if tbl_count (\<lambda>r. oa_id r = i \<and> oa_visible r) (ox_accounts s) = 0 then (Inl (Sentinel ErrNotFound), s)
      else (Inr (), s\<lparr>ox_accounts := tbl_update (\<lambda>r. oa_id r = i \<and> oa_visible r)
        (\<lambda>r. r\<lparr>oa_deleted_at := Some (a_now E)\<rparr>) (ox_accounts s)\<rparr>))"

section \<open>Administration of providers (service/oauth_provider.go)\<close>

record create_provider_request =
  cp_name :: string
  cp_display_name :: string
  cp_client_id :: string
  cp_secret :: string
  cp_redirect_url :: string
  cp_scopes :: "string list"
  cp_config :: "json option"

record update_provider_request =
  vp_display_name :: "string option"
  vp_client_id :: "string option"
  vp_secret :: "string option"
  vp_redirect_url :: "string option"
  vp_scopes :: "string list option"
  vp_config :: "json option"
  vp_enabled :: "bool option"

definition validateRedirectURL :: "'e oauth_env_scheme \<Rightarrow> string \<Rightarrow> unit result" where
  "validateRedirectURL E urlStr =
     (case ox_url E urlStr of
        None \<Rightarrow> Inl (NewAppError ''VALIDATION_ERROR'' ''invalid redirect URL'' 422)
      | Some (scheme, host) \<Rightarrow>
          if scheme \<noteq> ''https'' \<and> \<not> ox_allow_http E then
            Inl (NewAppError ''VALIDATION_ERROR'' ''redirect URL must use HTTPS'' 422)
          else if host = [] then Inl (NewAppError ''VALIDATION_ERROR'' ''redirect URL must have a valid host'' 422)
          else Inr ())"

definition oauth_audit :: "'e oauth_env_scheme \<Rightarrow> string \<Rightarrow> uuid \<Rightarrow> oauth_sys \<Rightarrow> oauth_sys" where
  "oauth_audit E action i s =
     (if a_has_audit E then in_auth (LogAction E (Audit (ox_actor E) action ''oauth_provider'' i)) s else s)"

definition Provider_Create ::
    "'e oauth_env_scheme \<Rightarrow> oauth_sys \<Rightarrow> uuid option \<Rightarrow> create_provider_request \<Rightarrow>
     oauth_provider_response result \<times> oauth_sys" where
  "Provider_Create E s orgID req =
     (if \<not> valid_provider (cp_name req) then
        (Inl (NewAppError ''VALIDATION_ERROR'' ''invalid OAuth provider name'' 422), s)
      else case validateRedirectURL E (cp_redirect_url req) of
        Inl err \<Rightarrow> (Inl err, s)
      | Inr _ \<Rightarrow>
          (case oauth_Encrypt E (cp_secret req) of
             Inl err \<Rightarrow> (Inl (WrapInternal err), s)
           | Inr encryptedSecret \<Rightarrow>
               let p = \<lparr>op_id = a_new_id E 0, op_name = cp_name req, op_display_name = cp_display_name req,
                        op_client_id = cp_client_id req, op_secret = encryptedSecret,
                        op_redirect_url = cp_redirect_url req, op_scopes = Some (JArr (map JStr (cp_scopes req))),
                        op_config = Some (case cp_config req of None \<Rightarrow> JObj [] | Some c \<Rightarrow> c),
                        op_enabled = True, op_system = False, op_org = orgID, op_created_at = a_now E,
                        op_deleted_at = None\<rparr>
               in case provider_Create E s p of
                    (Inl err, s1) \<Rightarrow> (Inl (WrapInternal err), s1)
                  | (Inr _, s1) \<Rightarrow> (Inr (op_ToResponse p), oauth_audit E ''oauth_provider.created'' (op_id p) s1)))"

definition Provider_FindByID :: "'e oauth_env_scheme \<Rightarrow> oauth_sys \<Rightarrow> uuid \<Rightarrow> oauth_provider_response result" where
  "Provider_FindByID E s i = map_sum id op_ToResponse (provider_FindByID E s i)"

definition Provider_FindEnabled ::
    "'e oauth_env_scheme \<Rightarrow> oauth_sys \<Rightarrow> uuid option \<Rightarrow> (string \<times> string \<times> string list) list result" where
  "Provider_FindEnabled E s orgID = map_sum WrapInternal (map op_ToPublicResponse) (provider_FindEnabled E s orgID)"

definition Provider_FindAll ::
    "'e oauth_env_scheme \<Rightarrow> oauth_sys \<Rightarrow> uuid option \<Rightarrow> int \<Rightarrow> int \<Rightarrow> (oauth_provider_response list \<times> nat) result" where
  "Provider_FindAll E s orgID limit offset =
     (let limit1 = (if limit \<le> 0 then 20 else limit);
          limit2 = (if limit1 > 100 then 100 else limit1);
          offset1 = (if offset < 0 then 0 else offset)
      in map_sum WrapInternal (apfst (map op_ToResponse)) (provider_FindAll E s orgID limit2 offset1))"

definition apply_update :: "update_provider_request \<Rightarrow> oauth_provider \<Rightarrow> oauth_provider" where
  "apply_update req p = p\<lparr>
     op_display_name := (case vp_display_name req of None \<Rightarrow> op_display_name p | Some x \<Rightarrow> x),
     op_client_id := (case vp_client_id req of None \<Rightarrow> op_client_id p | Some x \<Rightarrow> x),
     op_redirect_url := (case vp_redirect_url req of None \<Rightarrow> op_redirect_url p | Some x \<Rightarrow> x),
     op_scopes := (case vp_scopes req of None \<Rightarrow> op_scopes p | Some xs \<Rightarrow> Some (JArr (map JStr xs))),
     op_config := (case vp_config req of None \<Rightarrow> op_config p | Some c \<Rightarrow> Some c),
     op_enabled := (case vp_enabled req of None \<Rightarrow> op_enabled p | Some b \<Rightarrow> b)\<rparr>"

definition Provider_Update ::
    "'e oauth_env_scheme \<Rightarrow> oauth_sys \<Rightarrow> uuid \<Rightarrow> update_provider_request \<Rightarrow>
     oauth_provider_response result \<times> oauth_sys" where
  "Provider_Update E s i req =
     (case provider_FindByID E s i of
        Inl err \<Rightarrow> (Inl err, s)
      | Inr p \<Rightarrow>
          (case (case vp_secret req of
                   None \<Rightarrow> Inr p
                 | Some secret \<Rightarrow> map_sum WrapInternal (\<lambda>c. p\<lparr>op_secret := c\<rparr>) (oauth_Encrypt E secret)) of
             Inl err \<Rightarrow> (Inl err, s)
           | Inr p1 \<Rightarrow>
               (case (case vp_redirect_url req of None \<Rightarrow> Inr () | Some url \<Rightarrow> validateRedirectURL E url) of
                  Inl err \<Rightarrow> (Inl err, s)
                | Inr _ \<Rightarrow>
                    (case provider_Update E s (apply_update req p1) of
                       (Inl err, s1) \<Rightarrow> (Inl (WrapInternal err), s1)
                     | (Inr _, s1) \<Rightarrow>
                         (Inr (op_ToResponse (apply_update req p1)), oauth_audit E ''oauth_provider.updated'' i s1)))))"

definition Provider_Delete :: "'e oauth_env_scheme \<Rightarrow> oauth_sys \<Rightarrow> uuid \<Rightarrow> unit result \<times> oauth_sys" where
  "Provider_Delete E s i =
     (case provider_FindByID E s i of
        Inl err \<Rightarrow> (Inl err, s)
      | Inr p \<Rightarrow>
          if op_system p then (Inl (NewAppError ''FORBIDDEN'' ''cannot delete system OAuth provider'' 403), s)
          else case provider_SoftDelete E s i of
            (Inl err, s1) \<Rightarrow> (Inl err, s1)
          | (Inr _, s1) \<Rightarrow> (Inr (), oauth_audit E ''oauth_provider.deleted'' i s1))"

end
