(* ===== verification/OAuth_Login.thy ===== *)
theory OAuth_Login
  imports OAuth Decimal
begin

text \<open>
  The login with an OAuth provider (\<open>service/oauth_login.go\<close>) and the HTTP handlers of logins,
  accounts and providers (\<open>http/handler/oauth_login.go\<close>, \<open>oauth_account.go\<close>, \<open>oauth_provider.go\<close>).
  The goroutines that publish events and give the role to a new user are recorded and not run.
\<close>

section \<open>Profiles\<close>

type_synonym raw_profile = "(string \<times> json) list"

definition getStringFieldOK :: "'e oauth_env_scheme \<Rightarrow> raw_profile \<Rightarrow> string \<Rightarrow> string option" where
  "getStringFieldOK E raw key =
     (case map_of raw key of
        None \<Rightarrow> None
      | Some JNull \<Rightarrow> None
      | Some (JStr s) \<Rightarrow> Some s
      | Some v \<Rightarrow> Some (ox_show E v))"

definition getStringField :: "'e oauth_env_scheme \<Rightarrow> raw_profile \<Rightarrow> string \<Rightarrow> string" where
  "getStringField E raw key = (case getStringFieldOK E raw key of None \<Rightarrow> [] | Some s \<Rightarrow> s)"

definition getBoolField :: "raw_profile \<Rightarrow> string \<Rightarrow> bool" where
  "getBoolField raw key = (map_of raw key = Some (JBool True))"

definition NormalizeGoogleProfile :: "'e oauth_env_scheme \<Rightarrow> raw_profile \<Rightarrow> provider_profile" where
  "NormalizeGoogleProfile E raw = \<lparr>pp_id = getStringField E raw ''sub'', pp_email = getStringField E raw ''email'',
     pp_verified = getBoolField raw ''email_verified'', pp_name = getStringField E raw ''name'',
     pp_avatar = getStringField E raw ''picture''\<rparr>"

text \<open>\<open>%v\<close> of a missing field is \<open><nil>\<close>.\<close>

definition NormalizeGitHubProfile :: "'e oauth_env_scheme \<Rightarrow> raw_profile \<Rightarrow> provider_profile" where
  "NormalizeGitHubProfile E raw = \<lparr>
     pp_id = (case getStringFieldOK E raw ''id'' of None \<Rightarrow> ''<nil>'' | Some s \<Rightarrow> s),
     pp_email = getStringField E raw ''email'', pp_verified = False, pp_name = getStringField E raw ''login'',
     pp_avatar = getStringField E raw ''avatar_url''\<rparr>"

definition getMicrosoftEmail :: "'e oauth_env_scheme \<Rightarrow> raw_profile \<Rightarrow> string" where
  "getMicrosoftEmail E raw =
     (if getStringField E raw ''mail'' \<noteq> [] then getStringField E raw ''mail''
      else getStringField E raw ''userPrincipalName'')"

definition NormalizeMicrosoftProfile :: "'e oauth_env_scheme \<Rightarrow> raw_profile \<Rightarrow> provider_profile" where
  "NormalizeMicrosoftProfile E raw = \<lparr>pp_id = getStringField E raw ''id'', pp_email = getMicrosoftEmail E raw,
     pp_verified = False, pp_name = getStringField E raw ''displayName'', pp_avatar = []\<rparr>"

definition normalizeProfile :: "'e oauth_env_scheme \<Rightarrow> string \<Rightarrow> raw_profile \<Rightarrow> provider_profile" where
  "normalizeProfile E name raw =
     (if name = ''google'' then NormalizeGoogleProfile E raw
      else if name = ''github'' then NormalizeGitHubProfile E raw
      else if name = ''microsoft'' then NormalizeMicrosoftProfile E raw
      else \<lparr>pp_id = getStringField E raw ''id'', pp_email = getStringField E raw ''email'',
            pp_verified = getBoolField raw ''email_verified'', pp_name = getStringField E raw ''name'', pp_avatar = []\<rparr>)"

section \<open>URLs of the providers\<close>

definition getTenantIDFromConfig :: "json option \<Rightarrow> string" where
  "getTenantIDFromConfig config =
     (case config of
        Some (JObj kvs) \<Rightarrow> (case map_of kvs ''tenant_id'' of Some (JStr t) \<Rightarrow> t | _ \<Rightarrow> [])
      | _ \<Rightarrow> [])"

definition microsoft_tenant :: "oauth_provider \<Rightarrow> string" where
  "microsoft_tenant p =
     (if getTenantIDFromConfig (op_config p) = [] then ''common'' else getTenantIDFromConfig (op_config p))"

definition getProviderAuthorizationURL :: "oauth_provider \<Rightarrow> string" where
  "getProviderAuthorizationURL p =
     (if op_name p = ''google'' then ''https://accounts.google.com/o/oauth2/v2/auth''
      else if op_name p = ''github'' then ''https://github.com/login/oauth/authorize''
      else if op_name p = ''microsoft'' then
        ''https://login.microsoftonline.com/'' @ microsoft_tenant p @ ''/oauth2/v2.0/authorize''
      else [])"

definition getProviderTokenURL :: "oauth_provider \<Rightarrow> string" where
  "getProviderTokenURL p =
     (if op_name p = ''google'' then ''https://oauth2.googleapis.com/token''
      else if op_name p = ''github'' then ''https://github.com/login/oauth/access_token''
      else if op_name p = ''microsoft'' then
        ''https://login.microsoftonline.com/'' @ microsoft_tenant p @ ''/oauth2/v2.0/token''
      else [])"

definition getProviderUserInfoURL :: "oauth_provider \<Rightarrow> string" where
  "getProviderUserInfoURL p =
     (if op_name p = ''google'' then ''https://www.googleapis.com/oauth2/v3/userinfo''
      else if op_name p = ''github'' then ''https://api.github.com/user''
      else if op_name p = ''microsoft'' then ''https://graph.microsoft.com/v1.0/me''
      else [])"

definition unsupported_provider :: "oauth_provider \<Rightarrow> go_error" where
  "unsupported_provider p = NewAppError ''BAD_REQUEST'' (''unsupported OAuth provider: '' @ op_name p) 400"

fun join_scopes :: "string list \<Rightarrow> string" where
  "join_scopes [] = []"
| "join_scopes [s] = s"
| "join_scopes (s # rest) = s @ '' '' @ join_scopes rest"

text \<open>The query as a Go map; the tenant is given to the URL for Microsoft only.\<close>

definition buildAuthorizationURL ::
    "'e oauth_env_scheme \<Rightarrow> oauth_provider \<Rightarrow> string \<Rightarrow> string \<Rightarrow> string \<Rightarrow> string \<Rightarrow> string result" where
  "buildAuthorizationURL E p clientID redirectURI state codeChallenge =
     (if getProviderAuthorizationURL p = [] then Inl (unsupported_provider p)
      else case ox_auth_url E (getProviderAuthorizationURL p)
             (if op_name p = ''microsoft'' then getTenantIDFromConfig (op_config p) else [])
             [(''client_id'', clientID), (''redirect_uri'', redirectURI), (''response_type'', ''code''),
              (''scope'', join_scopes (GetEffectiveScopes p)), (''state'', state),
              (''code_challenge'', codeChallenge), (''code_challenge_method'', ''S256'')] of
           None \<Rightarrow> Inl (WrapInternal (Opaque ''invalid authorization URL''))
         | Some url \<Rightarrow> Inr url)"

definition buildSuccessFragmentURL :: "'e oauth_env_scheme \<Rightarrow> string \<Rightarrow> string \<Rightarrow> string \<Rightarrow> string \<Rightarrow> string" where
  "buildSuccessFragmentURL E callbackURL accessToken refreshToken expiresIn =
     (case ox_fragment E callbackURL
        (''access_token='' @ QueryEscape accessToken @ ''&refresh_token='' @ QueryEscape refreshToken @
         ''&token_type=Bearer&expires_in='' @ expiresIn) of
        None \<Rightarrow> callbackURL @ ''#access_token='' @ accessToken
      | Some url \<Rightarrow> url)"

definition buildErrorFragmentURL :: "'e oauth_env_scheme \<Rightarrow> string \<Rightarrow> string \<Rightarrow> string \<Rightarrow> string" where
  "buildErrorFragmentURL E callbackURL errorCode message =
     (case ox_fragment E callbackURL (''error='' @ QueryEscape errorCode @ ''&message='' @ QueryEscape message) of
        None \<Rightarrow> callbackURL @ ''#error='' @ errorCode
      | Some url \<Rightarrow> url)"

section \<open>Initiation\<close>

definition oauth_not_found :: "string \<Rightarrow> go_error" where
  "oauth_not_found name = NewAppError ''NOT_FOUND'' (''OAuth provider '' @ name @ '' not found'') 404"

definition oauth_disabled :: "string \<Rightarrow> go_error" where
  "oauth_disabled name = NewAppError ''FORBIDDEN'' (''OAuth provider '' @ name @ '' is disabled'') 403"

definition InitiateLogin ::
    "'e oauth_env_scheme \<Rightarrow> oauth_sys \<Rightarrow> string \<Rightarrow> string \<Rightarrow> uuid \<Rightarrow> uuid \<Rightarrow> string result \<times> oauth_sys" where
  "InitiateLogin E s providerName callbackURL userID orgID =
     (case provider_FindByName E s providerName of
        Inl err \<Rightarrow> (Inl (if err_is err ErrNotFound then oauth_not_found providerName else WrapInternal err), s)
      | Inr p \<Rightarrow>
          if \<not> op_enabled p then (Inl (oauth_disabled providerName), s)
          else
            let intent = (if userID \<noteq> uuid_nil then ''link'' else ''login'')
            in case CreateState E s callbackURL providerName intent userID orgID of
                 (Inl err, s1) \<Rightarrow> (Inl (WrapInternal err), s1)
               | (Inr (nonce, codeVerifier), s1) \<Rightarrow>
                   (case buildAuthorizationURL E p (op_client_id p) callbackURL nonce (ox_challenge E codeVerifier) of
                      Inl err \<Rightarrow> (Inl (WrapInternal err), s1)
                    | Inr url \<Rightarrow> (Inr url, s1)))"

section \<open>Exchange and profile\<close>

text \<open>The body decoded into a Go map.\<close>

definition decode_map :: "json option \<Rightarrow> raw_profile option" where
  "decode_map body = (case body of Some (JObj kvs) \<Rightarrow> Some kvs | Some JNull \<Rightarrow> Some [] | _ \<Rightarrow> None)"

definition provider_answer :: "string + nat \<times> json option \<Rightarrow> raw_profile result" where
  "provider_answer r =
     (case r of
        Inl err \<Rightarrow> Inl (WrapInternal (Opaque (''request failed: '' @ err)))
      | Inr (status, body) \<Rightarrow>
          if status \<noteq> 200 then Inl (NewAppError ''PROVIDER_ERROR'' ''request failed with a status'' 502)
          else case decode_map body of
            None \<Rightarrow> Inl (WrapInternal (Opaque ''failed to decode response''))
          | Some kvs \<Rightarrow> Inr kvs)"

definition exchangeCodeForTokens ::
    "'e oauth_env_scheme \<Rightarrow> oauth_provider \<Rightarrow> string \<Rightarrow> string \<Rightarrow> string \<Rightarrow> raw_profile result" where
  "exchangeCodeForTokens E p code redirectURI codeVerifier =
     (if getProviderTokenURL p = [] then Inl (unsupported_provider p)
      else case oauth_Decrypt E (op_secret p) of
        Inl err \<Rightarrow> Inl (WrapInternal err)
      | Inr clientSecret \<Rightarrow>
          provider_answer (ox_http E (TokenPost (getProviderTokenURL p)
            ([(''client_id'', op_client_id p), (''client_secret'', clientSecret), (''code'', code),
              (''redirect_uri'', redirectURI), (''code_verifier'', codeVerifier),
              (''grant_type'', ''authorization_code'')] @
             (if op_name p = ''github'' then [(''accept'', ''application/json'')] else [])))))"

definition fetchUserProfile :: "'e oauth_env_scheme \<Rightarrow> oauth_provider \<Rightarrow> string \<Rightarrow> raw_profile result" where
  "fetchUserProfile E p accessToken =
     (if getProviderUserInfoURL p = [] then Inl (unsupported_provider p)
      else provider_answer (ox_http E (ProfileGet (getProviderUserInfoURL p) accessToken)))"

section \<open>Tokens and new users\<close>

definition generateTokensForUser ::
    "'e oauth_env_scheme \<Rightarrow> oauth_sys \<Rightarrow> user \<Rightarrow> (string \<times> string) result \<times> oauth_sys" where
  "generateTokensForUser E s u =
     (case GenerateAccessToken E (u_id u) (u_email u) of
        Inl err \<Rightarrow> (Inl (WrapInternal err), s)
      | Inr accessToken \<Rightarrow>
          (case GenerateRefreshToken E of
             Inl err \<Rightarrow> (Inl (WrapInternal err), s)
           | Inr (refreshToken, refreshHash) \<Rightarrow>
               (case tok_create E (ox_auth s) \<lparr>rt_id = a_new_id E 2, rt_user_id = u_id u, rt_token_hash = refreshHash,
                    rt_family_id = a_new_family E, rt_expires_at = a_now E + a_refresh_expiry E,
                    rt_revoked_at = None, rt_is_2fa_pending = False\<rparr> of
                  (Inl err, a) \<Rightarrow> (Inl (WrapInternal err), s\<lparr>ox_auth := a\<rparr>)
                | (Inr _, a) \<Rightarrow> (Inr (accessToken, refreshToken), s\<lparr>ox_auth := a\<rparr>))))"

definition autoCreateUser ::
    "'e oauth_env_scheme \<Rightarrow> oauth_sys \<Rightarrow> provider_profile \<Rightarrow> user result \<times> oauth_sys" where
  "autoCreateUser E s profile =
     (let email = (if pp_email profile = [] then ''oauth-'' @ ox_uuid E @ ''@social.placeholder'' else pp_email profile)
      in case ox_password E of
        None \<Rightarrow> (Inl (WrapInternal (Opaque ''failed to generate random password'')), s)
      | Some hex \<Rightarrow>
          let u = \<lparr>u_id = a_new_id E 0, u_email = email, u_password_hash = ''oauth-'' @ hex, u_deleted_at = None,
                   u_tf_enabled = False, u_tf_status = ''disabled'', u_tf_secret = [], u_tf_verified_at = None\<rparr>
          in case user_create E (ox_auth s) u of
               (Inl err, a) \<Rightarrow> (Inl (WrapInternal err), s\<lparr>ox_auth := a\<rparr>)
             | (Inr _, a) \<Rightarrow>
                 let a1 = (if a_has_roles E then spawn (AssignViewerRole (u_id u)) a else a)
                 in (Inr u, s\<lparr>ox_auth := LogAction E (Audit (u_id u) ''auth.oauth.login'' ''user'' (u_id u)) a1\<rparr>))"

definition new_account :: "'e oauth_env_scheme \<Rightarrow> uuid \<Rightarrow> oauth_provider \<Rightarrow> provider_profile \<Rightarrow> oauth_account" where
  "new_account E userID p profile = \<lparr>oa_id = a_new_id E 1, oa_user = userID, oa_provider = op_id p,
     oa_provider_user = pp_id profile, oa_email = pp_email profile, oa_email_verified = pp_verified profile,
     oa_display_name = pp_name profile, oa_avatar_url = pp_avatar profile, oa_created_at = a_now E,
     oa_deleted_at = None\<rparr>"

definition publish_oauth :: "'e oauth_env_scheme \<Rightarrow> bool \<Rightarrow> string \<Rightarrow> oauth_account \<Rightarrow> oauth_provider \<Rightarrow> oauth_sys \<Rightarrow> oauth_sys" where
  "publish_oauth E bus what a p s =
     (if bus then s\<lparr>ox_events := ox_events s @
        [OAuthEvent what (oa_id a) (oa_user a) (op_name p) (oa_provider_user a) (op_org p)]\<rparr> else s)"

section \<open>Callback\<close>

definition success_url :: "'e oauth_env_scheme \<Rightarrow> login_state \<Rightarrow> string \<times> string \<Rightarrow> string" where
  "success_url E st tokens = buildSuccessFragmentURL E (ls_callback st) (fst tokens) (snd tokens)
     (itoa (a_refresh_expiry E div second))"

definition handleLoginIntent ::
    "'e oauth_env_scheme \<Rightarrow> bool \<Rightarrow> oauth_sys \<Rightarrow> oauth_provider \<Rightarrow> provider_profile \<Rightarrow> login_state \<Rightarrow>
     string result \<times> oauth_sys" where
  "handleLoginIntent E bus s p profile st =
     (case account_FindByIdentity E s (op_id p) (pp_id profile) of
        Inr existing \<Rightarrow>
          (case user_find_by_id E (ox_auth s) (oa_user existing) of
             Inl err \<Rightarrow> (Inl (WrapInternal err), s)
           | Inr u \<Rightarrow> apfst (map_sum id (success_url E st)) (generateTokensForUser E s u))
      | Inl err \<Rightarrow>
          if \<not> err_is err ErrNotFound then (Inl (WrapInternal err), s)
          else if pp_email profile \<noteq> [] \<and> \<not> pp_verified profile then
            (Inr (buildErrorFragmentURL E (ls_callback st) ''email_not_verified''
              ''email address is not verified by the provider''), s)
          else if pp_email profile \<noteq> [] \<and> \<not> isl (user_find_by_email E (ox_auth s) (pp_email profile)) then
            (Inr (buildErrorFragmentURL E (ls_callback st) ''email_already_exists''
              ''an account with this email already exists, please log in and link the provider''), s)
          else case autoCreateUser E s profile of
            (Inl err, s1) \<Rightarrow> (Inl err, s1)
          | (Inr u, s1) \<Rightarrow>
              (case account_Create E s1 (new_account E (u_id u) p profile) of
                 (Inl err, s2) \<Rightarrow> (Inl (WrapInternal err), s2)
               | (Inr _, s2) \<Rightarrow>
                   apfst (map_sum id (success_url E st))
                     (generateTokensForUser E
                       (publish_oauth E bus ''auth.oauth.linked'' (new_account E (u_id u) p profile) p s2) u)))"

text \<open>The part of \<open>handleLinkIntent\<close> after the check of the identity.\<close>

definition link_new ::
    "'e oauth_env_scheme \<Rightarrow> bool \<Rightarrow> oauth_sys \<Rightarrow> oauth_provider \<Rightarrow> provider_profile \<Rightarrow> login_state \<Rightarrow> user \<Rightarrow>
     string result \<times> oauth_sys" where
  "link_new E bus s p profile st u =
     (case account_FindByUserAndProvider E s (u_id u) (op_id p) of
        Inr link \<Rightarrow>
          (Inr (buildErrorFragmentURL E (ls_callback st) ''already_linked'' ''you have already linked this provider''), s)
      | Inl err \<Rightarrow>
          if \<not> err_is err ErrNotFound then (Inl (WrapInternal err), s)
          else case account_Create E s (new_account E (u_id u) p profile) of
            (Inl err, s1) \<Rightarrow> (Inl (WrapInternal err), s1)
          | (Inr _, s1) \<Rightarrow>
              (Inr (buildSuccessFragmentURL E (ls_callback st) [] [] ''0''),
               publish_oauth E bus ''auth.oauth.linked'' (new_account E (u_id u) p profile) p s1))"

definition handleLinkIntent ::
    "'e oauth_env_scheme \<Rightarrow> bool \<Rightarrow> oauth_sys \<Rightarrow> oauth_provider \<Rightarrow> provider_profile \<Rightarrow> login_state \<Rightarrow>
     string result \<times> oauth_sys" where
  "handleLinkIntent E bus s p profile st =
     (if ls_user st = uuid_nil then
        (Inr (buildErrorFragmentURL E (ls_callback st) ''auth_required''
          ''authentication required to link a provider''), s)
      else case user_find_by_id E (ox_auth s) (ls_user st) of
        Inl err \<Rightarrow>
          if err_is err ErrNotFound then
            (Inr (buildErrorFragmentURL E (ls_callback st) ''user_not_found'' ''authenticated user not found''), s)
          else (Inl (WrapInternal err), s)
      | Inr u \<Rightarrow>
          (case account_FindByIdentity E s (op_id p) (pp_id profile) of
             Inl err \<Rightarrow> if err_is err ErrNotFound then link_new E bus s p profile st u else (Inl (WrapInternal err), s)
           | Inr existing \<Rightarrow>
               if oa_user existing \<noteq> u_id u then
                 (Inr (buildErrorFragmentURL E (ls_callback st) ''provider_already_linked''
                   ''this provider account is already linked to another user''), s)
               else link_new E bus s p profile st u))"

text \<open>The bus is set on the service when the server starts; \<open>bus\<close> says so.\<close>

definition HandleCallback ::
    "'e oauth_env_scheme \<Rightarrow> bool \<Rightarrow> oauth_sys \<Rightarrow> string \<Rightarrow> string \<Rightarrow> string \<Rightarrow> string result \<times> oauth_sys" where
  "HandleCallback E bus s providerName code stateNonce =
     (case ValidateState E s stateNonce of
        (Inl err, s1) \<Rightarrow> (Inl (NewAppError ''INVALID_STATE'' ''oauth state not found or expired'' 400), s1)
      | (Inr st, s1) \<Rightarrow>
          if ls_provider st \<noteq> providerName then (Inl (NewAppError ''INVALID_STATE'' ''provider mismatch'' 400), s1)
          else case provider_FindByName E s1 providerName of
            Inl err \<Rightarrow> (Inl (if err_is err ErrNotFound then oauth_not_found providerName else WrapInternal err), s1)
          | Inr p \<Rightarrow>
              if \<not> op_enabled p then (Inl (oauth_disabled providerName), s1)
              else case exchangeCodeForTokens E p code (ls_callback st) (ls_verifier st) of
                Inl err \<Rightarrow> (Inl (WrapInternal err), s1)
              | Inr tokenResponse \<Rightarrow>
                  (case getStringFieldOK E tokenResponse ''access_token'' of
                     None \<Rightarrow> (Inl (NewAppError ''AUTH_ERROR'' ''no access_token in provider response'' 502), s1)
                   | Some accessToken \<Rightarrow>
                       if accessToken = [] then
                         (Inl (NewAppError ''AUTH_ERROR'' ''no access_token in provider response'' 502), s1)
                       else case fetchUserProfile E p accessToken of
                         Inl err \<Rightarrow> (Inl (WrapInternal err), s1)
                       | Inr raw \<Rightarrow>
                           let profile = normalizeProfile E (op_name p) raw
                           in if pp_id profile = [] then
                                (Inl (NewAppError ''AUTH_ERROR'' ''provider did not return a user ID'' 502), s1)
                              else if ls_intent st = ''link'' then handleLinkIntent E bus s1 p profile st
                              else handleLoginIntent E bus s1 p profile st))"

definition CountUserAuthMethods :: "'e oauth_env_scheme \<Rightarrow> oauth_sys \<Rightarrow> uuid \<Rightarrow> (bool \<times> nat) result" where
  "CountUserAuthMethods E s userID =
     (case user_find_by_id E (ox_auth s) userID of
        Inl err \<Rightarrow> Inl err
      | Inr u \<Rightarrow> map_sum id (Pair (\<not> has_prefix (u_password_hash u) ''oauth-'')) (CountAuthMethodsByUserID E s userID))"

definition UnlinkAccount ::
    "'e oauth_env_scheme \<Rightarrow> bool \<Rightarrow> oauth_sys \<Rightarrow> oauth_account \<Rightarrow> oauth_provider \<Rightarrow> unit result \<times> oauth_sys" where
  "UnlinkAccount E bus s a p =
     (case account_SoftDelete E s (oa_id a) of
        (Inl err, s1) \<Rightarrow> (Inl (WrapInternal err), s1)
      | (Inr _, s1) \<Rightarrow> (Inr (), publish_oauth E bus ''auth.oauth.unlinked'' a p s1))"

section \<open>HTTP handlers\<close>

text \<open>
  An answer is a redirect, or a status with what the envelope carries. Path and query are read and
  the middlewares have passed; \<open>user\<close> is the user of the JWT.
\<close>

datatype 'a oauth_reply = Redirect string | Reply nat "'a option"

definition fail_reply :: "go_error \<Rightarrow> 'a oauth_reply" where
  "fail_reply err = Reply (error_status err) None"

definition OH_InitiateLogin ::
    "'e oauth_env_scheme \<Rightarrow> oauth_sys \<Rightarrow> string \<Rightarrow> unit oauth_reply \<times> oauth_sys" where
  "OH_InitiateLogin E s providerName =
     (if \<not> valid_provider providerName then (Reply 400 None, s)
      else case InitiateLogin E s providerName (ox_callback_url E @ ''/'' @ providerName) uuid_nil uuid_nil of
        (Inl err, s1) \<Rightarrow> (fail_reply err, s1)
      | (Inr url, s1) \<Rightarrow> (Redirect url, s1))"

definition OH_HandleCallback ::
    "'e oauth_env_scheme \<Rightarrow> bool \<Rightarrow> oauth_sys \<Rightarrow> string \<Rightarrow> string \<Rightarrow> string \<Rightarrow> unit oauth_reply \<times> oauth_sys" where
  "OH_HandleCallback E bus s providerName code state =
     (if \<not> valid_provider providerName then (Reply 400 None, s)
      else if code = [] \<or> state = [] then (Reply 400 None, s)
      else case HandleCallback E bus s providerName code state of
        (Inl err, s1) \<Rightarrow> (fail_reply err, s1)
      | (Inr url, s1) \<Rightarrow> (Redirect url, s1))"

definition OH_InitiateLink ::
    "'e oauth_env_scheme \<Rightarrow> oauth_sys \<Rightarrow> uuid option \<Rightarrow> uuid option \<Rightarrow> string \<Rightarrow> string oauth_reply \<times> oauth_sys" where
  "OH_InitiateLink E s user org providerName =
     (if \<not> valid_provider providerName then (Reply 400 None, s)
      else case user of
        None \<Rightarrow> (Reply 401 None, s)
      | Some userID \<Rightarrow>
          (case InitiateLogin E s providerName (ox_callback_url E @ ''/'' @ providerName) userID
               (case org of None \<Rightarrow> uuid_nil | Some i \<Rightarrow> i) of
             (Inl err, s1) \<Rightarrow> (fail_reply err, s1)
           | (Inr url, s1) \<Rightarrow> (Reply 200 (Some url), s1)))"

definition OH_Unlink ::
    "'e oauth_env_scheme \<Rightarrow> bool \<Rightarrow> oauth_sys \<Rightarrow> uuid option \<Rightarrow> string \<Rightarrow> unit oauth_reply \<times> oauth_sys" where
  "OH_Unlink E bus s user providerName =
     (if \<not> valid_provider providerName then (Reply 400 None, s)
      else case user of
        None \<Rightarrow> (Reply 401 None, s)
      | Some userID \<Rightarrow>
          (case provider_FindByName E s providerName of
             Inl err \<Rightarrow> (fail_reply err, s)
           | Inr p \<Rightarrow>
               (case account_FindByUserAndProvider E s userID (op_id p) of
                  Inl err \<Rightarrow> (fail_reply err, s)
                | Inr a \<Rightarrow>
                    (case CountAuthMethodsByUserID E s userID of
                       Inl err \<Rightarrow> (Reply 500 None, s)
                     | Inr methods \<Rightarrow>
                         if methods \<le> 1 then (Reply 409 None, s)
                         else case account_SoftDelete E s (oa_id a) of
                           (Inl err, s1) \<Rightarrow> (fail_reply err, s1)
                         | (Inr _, s1) \<Rightarrow>
                             (Reply 200 (Some ()),
                              in_auth (LogAction E (Audit userID ''oauth_account.unlinked'' ''oauth_account'' (oa_id a)))
                                (publish_oauth E bus ''auth.oauth.unlinked'' a p s1))))))"

definition OH_ListLinkedAccounts ::
    "'e oauth_env_scheme \<Rightarrow> oauth_sys \<Rightarrow> uuid option \<Rightarrow> (oauth_account \<times> string) list oauth_reply" where
  "OH_ListLinkedAccounts E s user =
     (case user of
        None \<Rightarrow> Reply 401 None
      | Some userID \<Rightarrow>
          (case account_FindByUserID E s userID of
             Inl err \<Rightarrow> fail_reply err
           | Inr accounts \<Rightarrow> Reply 200 (Some accounts)))"

definition org_pointer :: "uuid option \<Rightarrow> uuid option" where
  "org_pointer org = (case org of Some i \<Rightarrow> if i \<noteq> uuid_nil then Some i else None | None \<Rightarrow> None)"

definition OH_ListPublicProviders ::
    "'e oauth_env_scheme \<Rightarrow> oauth_sys \<Rightarrow> uuid option \<Rightarrow> (string \<times> string \<times> string list) list oauth_reply" where
  "OH_ListPublicProviders E s org =
     (case Provider_FindEnabled E s (org_pointer org) of
        Inl err \<Rightarrow> Reply 500 None
      | Inr ps \<Rightarrow> Reply 200 (Some ps))"

definition OH_CreateProvider ::
    "'e oauth_env_scheme \<Rightarrow> oauth_sys \<Rightarrow> uuid option \<Rightarrow> uuid option \<Rightarrow> create_provider_request \<Rightarrow> uuid option \<Rightarrow>
     oauth_provider_response oauth_reply \<times> oauth_sys" where
  "OH_CreateProvider E s user org req bodyOrg =
     (case user of
        None \<Rightarrow> (Reply 401 None, s)
      | Some userID \<Rightarrow>
          (case Provider_Create E s (if bodyOrg \<noteq> None then bodyOrg else org_pointer org) req of
             (Inl err, s1) \<Rightarrow> (fail_reply err, s1)
           | (Inr r, s1) \<Rightarrow> (Reply 201 (Some r), s1)))"

definition OH_ListProviders ::
    "'e oauth_env_scheme \<Rightarrow> oauth_sys \<Rightarrow> uuid option \<Rightarrow> int \<Rightarrow> int \<Rightarrow> (oauth_provider_response list \<times> nat) oauth_reply" where
  "OH_ListProviders E s org limit offset =
     (case Provider_FindAll E s (org_pointer org) limit offset of
        Inl err \<Rightarrow> fail_reply err
      | Inr page \<Rightarrow> Reply 200 (Some page))"

text \<open>The identifier in the path is parsed by \<open>uuid.Parse\<close>, \<open>None\<close> when that fails.\<close>

definition OH_GetProvider :: "'e oauth_env_scheme \<Rightarrow> oauth_sys \<Rightarrow> uuid option \<Rightarrow> oauth_provider_response oauth_reply" where
  "OH_GetProvider E s path =
     (case path of
        None \<Rightarrow> Reply 400 None
      | Some i \<Rightarrow> (case Provider_FindByID E s i of Inl err \<Rightarrow> fail_reply err | Inr r \<Rightarrow> Reply 200 (Some r)))"

definition OH_UpdateProvider ::
    "'e oauth_env_scheme \<Rightarrow> oauth_sys \<Rightarrow> uuid option \<Rightarrow> update_provider_request \<Rightarrow>
     oauth_provider_response oauth_reply \<times> oauth_sys" where
  "OH_UpdateProvider E s path req =
     (case path of
        None \<Rightarrow> (Reply 400 None, s)
      | Some i \<Rightarrow>
          (case Provider_Update E s i req of
             (Inl err, s1) \<Rightarrow> (fail_reply err, s1)
           | (Inr r, s1) \<Rightarrow> (Reply 200 (Some r), s1)))"

definition OH_DeleteProvider :: "'e oauth_env_scheme \<Rightarrow> oauth_sys \<Rightarrow> uuid option \<Rightarrow> unit oauth_reply \<times> oauth_sys" where
  "OH_DeleteProvider E s path =
     (case path of
        None \<Rightarrow> (Reply 400 None, s)
      | Some i \<Rightarrow>
          (case Provider_Delete E s i of
             (Inl err, s1) \<Rightarrow> (fail_reply err, s1)
           | (Inr _, s1) \<Rightarrow> (Reply 204 None, s1)))"

end
