(* ===== verification/OAuth_Properties.thy ===== *)
theory OAuth_Properties
  imports OAuth_Login Auth_Sessions
begin

text \<open>
  What a login with an OAuth provider may do: who gets tokens, who gets an account linked, when a
  state is accepted, and what is left of the ways to log in.

  Each handler is abstracted to a move on users and accounts (\<open>oauth_move\<close>); the invariants are
  proved over the moves and lifted to \<open>oauth_run\<close>, any sequence of requests with any failures.
\<close>

section \<open>Scopes and secrets\<close>

lemma merge_scopes_set: "set (merge_scopes merged xs) = set merged \<union> set xs"
  by (induction merged xs rule: merge_scopes.induct) auto

lemma merge_scopes_distinct: "distinct merged \<Longrightarrow> distinct (merge_scopes merged xs)"
  by (induction merged xs rule: merge_scopes.induct) auto

lemma merge_scopes_prefix: "\<exists>ys. merge_scopes merged xs = merged @ ys"
proof (induction merged xs rule: merge_scopes.induct)
  case (2 merged s rest)
  then show ?case by (cases "s \<in> set merged") auto
qed simp

text \<open>The defaults of the provider come first and cannot be taken away; nothing is asked for twice.\<close>

theorem effective_scopes:
  "set (GetEffectiveScopes p) = set (default_scopes (op_name p)) \<union> set (additional_scopes p) \<and>
   distinct (GetEffectiveScopes p) \<and>
   take (length (default_scopes (op_name p))) (GetEffectiveScopes p) = default_scopes (op_name p)"
proof (intro conjI)
  obtain ys where "GetEffectiveScopes p = default_scopes (op_name p) @ ys"
    using merge_scopes_prefix unfolding GetEffectiveScopes_def by blast
  then show "take (length (default_scopes (op_name p))) (GetEffectiveScopes p) = default_scopes (op_name p)" by simp
  show "distinct (GetEffectiveScopes p)"
    unfolding GetEffectiveScopes_def by (rule merge_scopes_distinct) (simp add: default_scopes_def)
qed (simp add: GetEffectiveScopes_def merge_scopes_set)

text \<open>
  A client secret survives encryption and decryption with the same key, given that base64 and
  AES-GCM do.
\<close>

theorem client_secret_roundtrip:
  assumes "oauth_Encrypt E secret = Inr stored"
    and "\<And>x. ox_b64_decode E' (ox_b64_encode E x) = Some x"
    and "\<And>n x. ox_gcm_open E' (ox_key E') n (ox_gcm_seal E (ox_key E) n x) = Some x"
    and "\<And>n x. 16 \<le> length (ox_gcm_seal E (ox_key E) n x)" and "\<And>iv. ox_iv E = Some iv \<Longrightarrow> length iv = 12"
  shows "oauth_Decrypt E' stored = Inr secret"
proof -
  obtain iv where iv: "ox_iv E = Some iv" "stored = ''v1:'' @ ox_b64_encode E (iv @ ox_gcm_seal E (ox_key E) iv secret)"
    using assms(1) by (auto simp: oauth_Encrypt_def split: if_splits option.splits)
  have "length iv = 12" using assms(5) iv(1) .
  moreover have "\<not> length (ox_gcm_seal E (ox_key E) iv secret) < 16" using assms(4) by (simp add: not_less)
  ultimately show ?thesis using assms(2,3) by (simp add: iv(2) oauth_Decrypt_def)
qed

section \<open>The moves of the handlers\<close>

definition fresh_identity :: "oauth_sys \<Rightarrow> uuid \<times> string \<Rightarrow> bool" where
  "fresh_identity s i \<longleftrightarrow> (\<forall>a\<in>set (ox_accounts s). oa_visible a \<longrightarrow> identity_of a \<noteq> i)"

definition fresh_link :: "oauth_sys \<Rightarrow> uuid \<times> uuid \<Rightarrow> bool" where
  "fresh_link s l \<longleftrightarrow> (\<forall>a\<in>set (ox_accounts s). oa_visible a \<longrightarrow> link_of a \<noteq> l)"

definition methods :: "oauth_sys \<Rightarrow> uuid \<Rightarrow> nat" where
  "methods s i = tbl_count (\<lambda>a. oa_user a = i \<and> oa_visible a) (ox_accounts s) +
     tbl_count (\<lambda>u. u_id u = i \<and> user_visible u \<and> \<not> has_prefix (u_password_hash u) ''oauth-'') (users (ox_auth s))"

inductive oauth_move :: "oauth_env \<Rightarrow> oauth_sys \<Rightarrow> oauth_sys \<Rightarrow> bool" for E where
  quiet: "ox_accounts s' = ox_accounts s \<Longrightarrow> users (ox_auth s') = users (ox_auth s) \<Longrightarrow> oauth_move E s s'"
| new_user: "users (ox_auth s') = users (ox_auth s) @ [u] \<Longrightarrow> u_id u = a_new_id E 0 \<Longrightarrow>
    ox_accounts s' = ox_accounts s \<Longrightarrow> oauth_move E s s'"
| sign_up: "users (ox_auth s') = users (ox_auth s) @ [u] \<Longrightarrow> u_id u = a_new_id E 0 \<Longrightarrow>
    ox_accounts s' = ox_accounts s @ [new_account E (u_id u) p profile] \<Longrightarrow>
    fresh_identity s (op_id p, pp_id profile) \<Longrightarrow> oauth_move E s s'"
| link: "users (ox_auth s') = users (ox_auth s) \<Longrightarrow>
    ox_accounts s' = ox_accounts s @ [new_account E (ls_user st) p profile] \<Longrightarrow>
    ox_states s nonce = Some (st, expires) \<Longrightarrow> ls_intent st = ''link'' \<Longrightarrow> p \<in> set (ox_providers s) \<Longrightarrow>
    op_name p = ls_provider st \<Longrightarrow> fresh_link s (ls_user st, op_id p) \<Longrightarrow>
    fresh_identity s (op_id p, pp_id profile) \<Longrightarrow> oauth_move E s s'"
| unlink: "users (ox_auth s') = users (ox_auth s) \<Longrightarrow>
    ox_accounts s' = tbl_update (\<lambda>r. oa_id r = oa_id a \<and> oa_visible r)
      (\<lambda>r. r\<lparr>oa_deleted_at := Some (a_now E)\<rparr>) (ox_accounts s) \<Longrightarrow>
    a \<in> set (ox_accounts s) \<Longrightarrow> oa_visible a \<Longrightarrow> 1 < methods s (oa_user a) \<Longrightarrow> oauth_move E s s'"

text \<open>The link move needs that nobody has the identity: a link of the same user would stop the handler before.\<close>

lemma account_FindByIdentity_None:
  "account_FindByIdentity E s i x = Inl err \<Longrightarrow> err_is err ErrNotFound \<Longrightarrow> fresh_identity s (i, x)"
  by (auto simp: account_FindByIdentity_def fresh_identity_def tbl_first_None_iff split: if_splits option.splits)

lemma account_FindByIdentity_Some:
  "account_FindByIdentity E s i x = Inr a \<Longrightarrow> a \<in> set (ox_accounts s) \<and> oa_visible a \<and> identity_of a = (i, x)"
  by (auto simp: account_FindByIdentity_def dest: tbl_first_SomeD split: if_splits option.splits)

lemma account_FindByUserAndProvider_None:
  "account_FindByUserAndProvider E s u i = Inl err \<Longrightarrow> err_is err ErrNotFound \<Longrightarrow> fresh_link s (u, i)"
  by (auto simp: account_FindByUserAndProvider_def fresh_link_def tbl_first_None_iff split: if_splits option.splits)

lemma account_FindByUserAndProvider_Some:
  "account_FindByUserAndProvider E s u i = Inr a \<Longrightarrow> a \<in> set (ox_accounts s) \<and> oa_visible a \<and> link_of a = (u, i)"
  by (auto simp: account_FindByUserAndProvider_def dest: tbl_first_SomeD split: if_splits option.splits)

lemma provider_FindByName_Some:
  "provider_FindByName E s name = Inr p \<Longrightarrow> p \<in> set (ox_providers s) \<and> op_visible p \<and> op_name p = name"
  by (auto simp: provider_FindByName_def dest: tbl_first_SomeD split: if_splits option.splits)

lemma account_Create_cases:
  "account_Create E s a = (Inl err, s') \<Longrightarrow> s' = s"
  "account_Create E s a = (Inr x, s') \<Longrightarrow> s' = s\<lparr>ox_accounts := ox_accounts s @ [a]\<rparr>"
  by (auto simp: account_Create_def split: if_splits)

lemma publish_oauth_frame [simp]:
  "ox_accounts (publish_oauth E bus what a p s) = ox_accounts s"
  "ox_auth (publish_oauth E bus what a p s) = ox_auth s"
  "ox_states (publish_oauth E bus what a p s) = ox_states s"
  "ox_providers (publish_oauth E bus what a p s) = ox_providers s"
  by (simp_all add: publish_oauth_def)

lemma LogAction_users [simp]: "users (LogAction E a s) = users s" "refresh_tokens (LogAction E a s) = refresh_tokens s"
  by (simp_all add: LogAction_def)

text \<open>Tokens are a new row of the user, in a family of its own.\<close>

lemma generateTokens_effect:
  assumes "generateTokensForUser E s u = (r, s')"
  shows "ox_accounts s' = ox_accounts s \<and> ox_states s' = ox_states s \<and> ox_providers s' = ox_providers s \<and>
    users (ox_auth s') = users (ox_auth s) \<and>
    (refresh_tokens (ox_auth s') = refresh_tokens (ox_auth s) \<or>
     (\<exists>t. refresh_tokens (ox_auth s') = refresh_tokens (ox_auth s) @ [t] \<and> rt_user_id t = u_id u \<and>
       rt_family_id t = a_new_family E \<and> rt_fresh t (refresh_tokens (ox_auth s))))"
  using assms by (auto simp: generateTokensForUser_def tok_create_def rt_fresh_def tbl_count_0_iff split: result_splits)

lemma autoCreateUser_effect:
  assumes "autoCreateUser E s profile = (r, s')"
  shows "ox_accounts s' = ox_accounts s \<and> ox_states s' = ox_states s \<and> ox_providers s' = ox_providers s \<and>
    refresh_tokens (ox_auth s') = refresh_tokens (ox_auth s) \<and>
    (case r of Inl _ \<Rightarrow> users (ox_auth s') = users (ox_auth s)
     | Inr u \<Rightarrow> users (ox_auth s') = users (ox_auth s) @ [u] \<and> u_id u = a_new_id E 0)"
  using assms by (auto simp: autoCreateUser_def user_create_def spawn_def Let_def split: result_splits)

lemma handleLoginIntent_move:
  assumes "handleLoginIntent E bus s p profile st = (r, s')"
  shows "oauth_move E s s'"
proof (cases "account_FindByIdentity E s (op_id p) (pp_id profile)")
  case (Inr a)
  then show ?thesis using assms
    by (auto simp: handleLoginIntent_def apfst_def map_prod_def dest!: generateTokens_effect
        intro!: oauth_move.quiet split: result_splits)
next
  case (Inl err)
  show ?thesis
  proof (cases "autoCreateUser E s profile")
    case (Pair r1 s1)
    note effect = autoCreateUser_effect [OF this]
    consider (stop) "s' = s" | (failed) "s' = s1" "isl r1"
      | (created) u err2 s2 where "err_is err ErrNotFound" "r1 = Inr u"
          "account_Create E s1 (new_account E (u_id u) p profile) = (Inl err2, s2)" "s' = s2"
      | (both) u x s2 where "err_is err ErrNotFound" "r1 = Inr u"
          "account_Create E s1 (new_account E (u_id u) p profile) = (Inr x, s2)"
          "s' = snd (generateTokensForUser E
             (publish_oauth E bus ''auth.oauth.linked'' (new_account E (u_id u) p profile) p s2) u)"
    proof (cases "s' = s")
      case False
      then have nf: "err_is err ErrNotFound" using assms Inl by (auto simp: handleLoginIntent_def split: if_splits)
      show ?thesis
      proof (cases r1)
        case (Inl e)
        then have "s' = s1" using assms False \<open>account_FindByIdentity _ _ _ _ = Inl err\<close> Pair nf
          by (simp add: handleLoginIntent_def split: if_splits)
        then show ?thesis using failed Inl by simp
      next
        case (Inr u)
        obtain r2 s2 where c: "account_Create E s1 (new_account E (u_id u) p profile) = (r2, s2)" by fastforce
        have eq: "handleLoginIntent E bus s p profile st = (case r2 of Inl err2 \<Rightarrow> (Inl (WrapInternal err2), s2)
            | Inr _ \<Rightarrow> apfst (map_sum id (success_url E st)) (generateTokensForUser E
                (publish_oauth E bus ''auth.oauth.linked'' (new_account E (u_id u) p profile) p s2) u))"
          using assms False \<open>account_FindByIdentity _ _ _ _ = Inl err\<close> Pair nf Inr c
          by (simp add: handleLoginIntent_def split: if_splits)
        show ?thesis
        proof (cases r2)
          case (Inl err2)
          then show ?thesis using assms eq c created [OF nf Inr] by simp
        next
          case (Inr x)
          then have "s' = snd (generateTokensForUser E
             (publish_oauth E bus ''auth.oauth.linked'' (new_account E (u_id u) p profile) p s2) u)"
            using assms eq by (metis sum.case(2) snd_apfst snd_conv)
          then show ?thesis using both [OF nf \<open>r1 = Inr u\<close>] c Inr by blast
        qed
      qed
    qed (rule stop)
    then show ?thesis
    proof cases
      case stop
      then show ?thesis by (simp add: oauth_move.quiet)
    next
      case failed
      then show ?thesis using effect by (auto intro!: oauth_move.quiet split: sum.splits)
    next
      case created
      then have "s' = s1" using account_Create_cases(1) by blast
      then show ?thesis using effect created(2) by (auto intro!: oauth_move.new_user)
    next
      case both
      obtain r2 s3 where g: "generateTokensForUser E
          (publish_oauth E bus ''auth.oauth.linked'' (new_account E (u_id u) p profile) p s2) u = (r2, s3)"
        by fastforce
      show ?thesis
        using account_Create_cases(2) [OF both(3)] generateTokens_effect [OF g] effect both(2,4) g
          account_FindByIdentity_None [OF Inl both(1)]
        by (auto intro!: oauth_move.sign_up)
    qed
  qed
qed

lemma handleLinkIntent_move:
  assumes "handleLinkIntent E bus s p profile st = (r, s')" and "p \<in> set (ox_providers s)"
    and "op_name p = ls_provider st" and "ls_intent st = ''link''" and "ox_states s0 nonce = Some (st, expires)"
    and "ox_accounts s0 = ox_accounts s" "ox_auth s0 = ox_auth s" "ox_providers s0 = ox_providers s"
  shows "oauth_move E s0 s'"
proof -
  consider (stop) "s' = s"
    | (linked) u err x s1 where "user_find_by_id E (ox_auth s) (ls_user st) = Inr u"
        "account_FindByUserAndProvider E s (u_id u) (op_id p) = Inl err" "err_is err ErrNotFound"
        "account_Create E s (new_account E (u_id u) p profile) = (Inr x, s1)"
        "s' = publish_oauth E bus ''auth.oauth.linked'' (new_account E (u_id u) p profile) p s1"
        "(\<exists>e. account_FindByIdentity E s (op_id p) (pp_id profile) = Inl e \<and> err_is e ErrNotFound) \<or>
         (\<exists>a. account_FindByIdentity E s (op_id p) (pp_id profile) = Inr a \<and> oa_user a = u_id u)"
  proof (cases "s' = s")
    case False
    with assms(1) show ?thesis
      by (auto simp: handleLinkIntent_def link_new_def dest: account_Create_cases(1)
          split: result_splits intro: linked)
  qed (rule stop)
  then show ?thesis
  proof cases
    case stop
    then show ?thesis using assms(6,7) by (simp add: oauth_move.quiet)
  next
    case linked
    have u: "u_id u = ls_user st"
      using linked(1) by (auto simp: user_find_by_id_def dest: tbl_first_SomeD split: result_splits)
    have l: "fresh_link s (u_id u, op_id p)" using account_FindByUserAndProvider_None [OF linked(2,3)] .
    have "fresh_identity s (op_id p, pp_id profile)"
      using linked(6)
    proof (elim disjE exE conjE)
      fix a
      assume "account_FindByIdentity E s (op_id p) (pp_id profile) = Inr a" "oa_user a = u_id u"
      then show ?thesis using l account_FindByIdentity_Some [of E s "op_id p" "pp_id profile" a]
        by (auto simp: fresh_link_def link_of_def identity_of_def)
    qed (rule account_FindByIdentity_None)
    then show ?thesis
      using account_Create_cases(2) [OF linked(4)] linked(5) u l assms(2-)
      by (auto intro!: oauth_move.link simp: fresh_identity_def fresh_link_def)
  qed
qed

lemma ValidateState_frame:
  assumes "ValidateState E s nonce = (r, s')"
  shows "ox_accounts s' = ox_accounts s \<and> ox_auth s' = ox_auth s \<and> ox_providers s' = ox_providers s \<and>
    ox_events s' = ox_events s \<and> (\<forall>n st. ox_states s' n = Some st \<longrightarrow> ox_states s n = Some st) \<and>
    (case r of Inr st \<Rightarrow> \<exists>expires. ox_states s nonce = Some (st, expires) | Inl _ \<Rightarrow> s' = s)"
  using assms by (auto simp: ValidateState_def split: result_splits)

text \<open>A callback is refused, with no more effect than taking the state, or goes to one of the two handlers.\<close>

lemma HandleCallback_cases:
  assumes "HandleCallback E bus s name code nonce = (r, s')"
  obtains (refused) e where "r = Inl e" "s' = snd (ValidateState E s nonce)"
    | (routed) st s1 p tokens access raw where "ValidateState E s nonce = (Inr st, s1)" "ls_provider st = name"
        "provider_FindByName E s1 name = Inr p" "op_enabled p"
        "exchangeCodeForTokens E p code (ls_callback st) (ls_verifier st) = Inr tokens"
        "getStringFieldOK E tokens ''access_token'' = Some access" "fetchUserProfile E p access = Inr raw"
        "pp_id (normalizeProfile E (op_name p) raw) \<noteq> []"
        "(r, s') = (if ls_intent st = ''link'' then handleLinkIntent E bus s1 p (normalizeProfile E (op_name p) raw) st
           else handleLoginIntent E bus s1 p (normalizeProfile E (op_name p) raw) st)"
proof (cases "ValidateState E s nonce")
  case (Pair v s1)
  show ?thesis
  proof (cases v)
    case (Inl err)
    then show ?thesis using assms Pair refused by (auto simp: HandleCallback_def)
  next
    case (Inr st)
    show ?thesis
    proof (cases "\<exists>e. (r, s') = (Inl e, s1)")
      case True
      then show ?thesis using Pair refused by auto
    next
      case False
      with assms Pair Inr show ?thesis
        by (auto simp: HandleCallback_def Let_def split: result_splits intro: routed [of st s1])
    qed
  qed
qed

lemma HandleCallback_move:
  assumes "HandleCallback E bus s name code nonce = (r, s')"
  shows "oauth_move E s s'"
  using assms
proof (cases rule: HandleCallback_cases)
  case refused
  obtain v s1 where v: "ValidateState E s nonce = (v, s1)" by fastforce
  from ValidateState_frame [OF this] show ?thesis using refused v by (simp add: oauth_move.quiet)
next
  case (routed st s1 p tokens access raw)
  note frame = ValidateState_frame [OF routed(1)]
  note prov = provider_FindByName_Some [OF routed(3)]
  obtain expires where row: "ox_states s nonce = Some (st, expires)" using frame by auto
  show ?thesis
  proof (cases "ls_intent st = ''link''")
    case True
    then have "handleLinkIntent E bus s1 p (normalizeProfile E (op_name p) raw) st = (r, s')" using routed(9) by simp
    from handleLinkIntent_move [OF this] show ?thesis using frame prov row True routed(2) by auto
  next
    case False
    then have "handleLoginIntent E bus s1 p (normalizeProfile E (op_name p) raw) st = (r, s')" using routed(9) by simp
    from handleLoginIntent_move [OF this] show ?thesis
    proof cases
      case (quiet)
      then show ?thesis using frame by (auto intro: oauth_move.quiet)
    next
      case (new_user u)
      then show ?thesis using frame by (auto intro: oauth_move.new_user)
    next
      case (sign_up u p profile)
      then show ?thesis using frame by (auto intro!: oauth_move.sign_up simp: fresh_identity_def)
    next
      case (link st' q profile nonce' expires')
      then have "ox_states s nonce' = Some (st', expires')" using frame by auto
      from oauth_move.link [OF _ _ this] link frame show ?thesis by (simp add: fresh_identity_def fresh_link_def)
    next
      case (unlink a)
      then show ?thesis using frame by (auto intro!: oauth_move.unlink simp: methods_def)
    qed
  qed
qed

lemma OH_Unlink_cases:
  assumes "OH_Unlink E bus s user name = (r, s')"
  obtains (refused) "s' = s" "r \<noteq> Reply 200 (Some ())"
    | (removed) i p a where "user = Some i" "provider_FindByName E s name = Inr p" "r = Reply 200 (Some ())"
        "account_FindByUserAndProvider E s i (op_id p) = Inr a" "1 < methods s i"
        "ox_accounts s' = tbl_update (\<lambda>r. oa_id r = oa_id a \<and> oa_visible r)
           (\<lambda>r. r\<lparr>oa_deleted_at := Some (a_now E)\<rparr>) (ox_accounts s)"
        "users (ox_auth s') = users (ox_auth s)" "ox_states s' = ox_states s" "ox_providers s' = ox_providers s"
proof (cases "s' = s \<and> r \<noteq> Reply 200 (Some ())")
  case False
  then obtain i p a n where u: "valid_provider name" "user = Some i" "provider_FindByName E s name = Inr p"
    "account_FindByUserAndProvider E s i (op_id p) = Inr a" "CountAuthMethodsByUserID E s i = Inr n" "1 < n"
    using assms by (auto simp: OH_Unlink_def fail_reply_def not_le split: if_splits option.splits sum.splits)
  obtain x s1 where d: "account_SoftDelete E s (oa_id a) = (x, s1)" by fastforce
  have "x = Inr () \<and> s1 = s\<lparr>ox_accounts := tbl_update (\<lambda>r. oa_id r = oa_id a \<and> oa_visible r)
      (\<lambda>r. r\<lparr>oa_deleted_at := Some (a_now E)\<rparr>) (ox_accounts s)\<rparr>"
    using False assms u d by (auto simp: OH_Unlink_def fail_reply_def account_SoftDelete_def split: if_splits)
  moreover have "n = methods s i"
    using u(5) by (auto simp: CountAuthMethodsByUserID_def methods_def split: if_splits)
  ultimately show ?thesis using assms u d removed [of i p a] by (auto simp: OH_Unlink_def in_auth_def)
qed (auto intro: refused)

lemma OH_Unlink_move:
  assumes "OH_Unlink E bus s user name = (r, s')"
  shows "oauth_move E s s'"
  using assms
proof (cases rule: OH_Unlink_cases)
  case refused
  then show ?thesis by (simp add: oauth_move.quiet)
next
  case (removed i p a)
  from account_FindByUserAndProvider_Some [OF removed(4)] have "a \<in> set (ox_accounts s)" "oa_visible a" "oa_user a = i"
    by (auto simp: link_of_def)
  then show ?thesis using oauth_move.unlink [OF removed(7,6)] removed(5) by simp
qed

section \<open>The system\<close>

datatype oauth_op =
    OInitiate string
  | OLink "uuid option" "uuid option" string
  | OCallback bool string string string
  | OUnlink bool "uuid option" string
  | OCreate "uuid option" "uuid option" create_provider_request "uuid option"
  | OUpdate "uuid option" update_provider_request
  | ODelete "uuid option"

fun oauth_exec :: "oauth_env \<Rightarrow> oauth_op \<Rightarrow> oauth_sys \<Rightarrow> oauth_sys" where
  "oauth_exec E (OInitiate name) s = snd (OH_InitiateLogin E s name)"
| "oauth_exec E (OLink user org name) s = snd (OH_InitiateLink E s user org name)"
| "oauth_exec E (OCallback bus name code nonce) s = snd (OH_HandleCallback E bus s name code nonce)"
| "oauth_exec E (OUnlink bus user name) s = snd (OH_Unlink E bus s user name)"
| "oauth_exec E (OCreate user org req body_org) s = snd (OH_CreateProvider E s user org req body_org)"
| "oauth_exec E (OUpdate i req) s = snd (OH_UpdateProvider E s i req)"
| "oauth_exec E (ODelete i) s = snd (OH_DeleteProvider E s i)"

text \<open>The keys that the database gives to new rows are new.\<close>

definition fresh_ids :: "oauth_env \<Rightarrow> oauth_sys \<Rightarrow> bool" where
  "fresh_ids E s \<longleftrightarrow> a_new_id E 0 \<notin> u_id ` set (users (ox_auth s)) \<union> oa_user ` set (ox_accounts s) \<union>
     op_id ` set (ox_providers s) \<and> a_new_id E 1 \<notin> oa_id ` set (ox_accounts s)"

definition keyed :: "oauth_sys \<Rightarrow> bool" where
  "keyed s \<longleftrightarrow> distinct (map oa_id (ox_accounts s)) \<and> distinct (map op_id (ox_providers s))"

text \<open>
  What the other services may do to the users: no row goes, a live one stays live and a real
  password is not replaced by a placeholder.
\<close>

definition real_password :: "user \<Rightarrow> bool" where
  "real_password u = (\<not> has_prefix (u_password_hash u) ''oauth-'')"

definition users_kept :: "user list \<Rightarrow> user list \<Rightarrow> bool" where
  "users_kept us us' \<longleftrightarrow> u_id ` set us \<subseteq> u_id ` set us' \<and>
     (\<forall>u\<in>set us. user_visible u \<and> real_password u \<longrightarrow>
        (\<exists>v\<in>set us'. u_id v = u_id u \<and> user_visible v \<and> real_password v))"

text \<open>From a start without pending logins; each event is a request with its environment.\<close>

inductive oauth_run :: "oauth_sys \<Rightarrow> (oauth_env \<times> oauth_op) list \<Rightarrow> oauth_sys \<Rightarrow> bool" for s0 where
  start: "keyed s0 \<Longrightarrow> ox_states s0 = Map.empty \<Longrightarrow> oauth_run s0 [] s0"
| request: "oauth_run s0 es s \<Longrightarrow> fresh_ids E s \<Longrightarrow> oauth_run s0 (es @ [(E, op)]) (oauth_exec E op s)"
| others: "oauth_run s0 es s \<Longrightarrow> users_kept (users (ox_auth s)) (users a) \<Longrightarrow> oauth_run s0 es (s\<lparr>ox_auth := a\<rparr>)"

lemma CreateState_frame:
  assumes "CreateState E s url name intent user org = (r, s')"
  shows "ox_accounts s' = ox_accounts s \<and> ox_auth s' = ox_auth s \<and> ox_providers s' = ox_providers s \<and>
    (\<forall>n st e. ox_states s' n = Some (st, e) \<longrightarrow> ox_states s n = Some (st, e) \<or>
      ls_intent st = intent \<and> ls_user st = user \<and> ls_provider st = name \<and> ox_nonce E = Some n)"
  using assms by (auto simp: CreateState_def Let_def split: result_splits)

lemma InitiateLogin_frame:
  assumes "InitiateLogin E s name url user org = (r, s')"
  shows "ox_accounts s' = ox_accounts s \<and> ox_auth s' = ox_auth s \<and> ox_providers s' = ox_providers s \<and>
    (\<forall>n st e. ox_states s' n = Some (st, e) \<longrightarrow> ox_states s n = Some (st, e) \<or>
      ls_intent st = (if user \<noteq> uuid_nil then ''link'' else ''login'') \<and> ls_user st = user \<and> ls_provider st = name \<and>
      ox_nonce E = Some n)"
proof -
  obtain v s1 where c: "CreateState E s url name (if user \<noteq> uuid_nil then ''link'' else ''login'') user org = (v, s1)"
    by fastforce
  have "s' = s \<or> s' = s1"
    using assms c by (auto simp: InitiateLogin_def Let_def split: result_splits)
  then show ?thesis using CreateState_frame [OF c] by (elim disjE) simp_all
qed

lemmas initiate_frame = InitiateLogin_frame [OF prod.collapse [symmetric]]

lemma initiate_states:
  "ox_states (snd (InitiateLogin E s name url user org)) n = Some (st, e) \<Longrightarrow> ox_states s n = Some (st, e) \<or>
     ls_intent st = (if user \<noteq> uuid_nil then ''link'' else ''login'') \<and> ls_user st = user \<and> ls_provider st = name"
  using initiate_frame [of E s name url user org] by blast

lemma initiate_nonces:
  "ox_states (snd (InitiateLogin E s name url user org)) n = Some (st, e) \<Longrightarrow>
     ox_states s n = Some (st, e) \<or> ox_nonce E = Some n"
  using initiate_frame [of E s name url user org] by blast

lemma initiate_frame_simps [simp]:
  "ox_accounts (snd (InitiateLogin E s name url user org)) = ox_accounts s"
  "ox_auth (snd (InitiateLogin E s name url user org)) = ox_auth s"
  "ox_providers (snd (InitiateLogin E s name url user org)) = ox_providers s"
  using initiate_frame [of E s name url user org] by simp_all

lemma provider_admin_frame:
  "ox_accounts (snd (Provider_Create E s org req)) = ox_accounts s"
  "users (ox_auth (snd (Provider_Create E s org req))) = users (ox_auth s)"
  "ox_states (snd (Provider_Create E s org req)) = ox_states s"
  "ox_accounts (snd (Provider_Update E s i upd)) = ox_accounts s"
  "users (ox_auth (snd (Provider_Update E s i upd))) = users (ox_auth s)"
  "ox_states (snd (Provider_Update E s i upd)) = ox_states s"
  "ox_accounts (snd (Provider_Delete E s i)) = ox_accounts s"
  "users (ox_auth (snd (Provider_Delete E s i))) = users (ox_auth s)"
  "ox_states (snd (Provider_Delete E s i)) = ox_states s"
  by (simp_all add: Provider_Create_def Provider_Update_def Provider_Delete_def oauth_audit_def in_auth_def
      provider_Create_def provider_Update_def provider_SoftDelete_def Let_def split: result_splits)

lemma reply_state: "snd (case r of (Inl e, s1) \<Rightarrow> (g e, s1) | (Inr x, s1) \<Rightarrow> (h x, s1)) = snd r"
  by (simp split: result_splits)

lemma snd_reply:
  "snd (OH_HandleCallback E bus s name code nonce) = s \<or>
   snd (OH_HandleCallback E bus s name code nonce) = snd (HandleCallback E bus s name code nonce)"
  "snd (OH_InitiateLogin E s name) = s \<or>
   snd (OH_InitiateLogin E s name) = snd (InitiateLogin E s name (ox_callback_url E @ ''/'' @ name) uuid_nil uuid_nil)"
  "snd (OH_InitiateLink E s user org name) = s \<or>
   (\<exists>i o'. user = Some i \<and>
     snd (OH_InitiateLink E s user org name) = snd (InitiateLogin E s name (ox_callback_url E @ ''/'' @ name) i o'))"
  "snd (OH_CreateProvider E s user org req bo) = s \<or>
   (\<exists>o'. snd (OH_CreateProvider E s user org req bo) = snd (Provider_Create E s o' req))"
  "snd (OH_UpdateProvider E s path upd) = s \<or>
   (\<exists>i. snd (OH_UpdateProvider E s path upd) = snd (Provider_Update E s i upd))"
  "snd (OH_DeleteProvider E s path) = s \<or>
   (\<exists>i. snd (OH_DeleteProvider E s path) = snd (Provider_Delete E s i))"
  by (auto simp: OH_HandleCallback_def OH_InitiateLogin_def OH_InitiateLink_def OH_CreateProvider_def
      OH_UpdateProvider_def OH_DeleteProvider_def reply_state simp del: split_paired_Ex split: option.split)

lemma exec_move: "oauth_move E s (oauth_exec E op s)"
proof (cases op)
  case (OInitiate name)
  with snd_reply(2) [of E s name] show ?thesis
    by (auto intro!: oauth_move.quiet)
next
  case (OLink user org name)
  with snd_reply(3) [of E s user org name] show ?thesis
    by (auto intro!: oauth_move.quiet)
next
  case (OCallback bus name code nonce)
  with snd_reply(1) [of E bus s name code nonce] HandleCallback_move [OF prod.collapse [symmetric]] show ?thesis
    by (auto intro: oauth_move.quiet)
next
  case (OUnlink bus user name)
  then show ?thesis using OH_Unlink_move [OF prod.collapse [symmetric]] by simp
next
  case (OCreate user org req body_org)
  with snd_reply(4) [of E s user org req body_org] show ?thesis
    by (auto intro!: oauth_move.quiet simp: provider_admin_frame)
next
  case (OUpdate i upd)
  with snd_reply(5) [of E s i upd] show ?thesis by (auto intro!: oauth_move.quiet simp: provider_admin_frame)
next
  case (ODelete i)
  with snd_reply(6) [of E s i] show ?thesis by (auto intro!: oauth_move.quiet simp: provider_admin_frame)
qed

lemma oauth_handler_frame:
  "ox_states (snd (generateTokensForUser E s u)) = ox_states s"
  "ox_providers (snd (generateTokensForUser E s u)) = ox_providers s"
  "ox_states (snd (autoCreateUser E s profile)) = ox_states s"
  "ox_providers (snd (autoCreateUser E s profile)) = ox_providers s"
  "ox_states (snd (account_Create E s a)) = ox_states s"
  "ox_providers (snd (account_Create E s a)) = ox_providers s"
  by (simp_all add: generateTokensForUser_def autoCreateUser_def account_Create_def Let_def split: result_splits)

lemma login_frame:
  "ox_states (snd (handleLoginIntent E bus s p profile st)) = ox_states s \<and>
   ox_providers (snd (handleLoginIntent E bus s p profile st)) = ox_providers s"
proof -
  obtain r1 s1 where c: "autoCreateUser E s profile = (r1, s1)" by fastforce
  then have s1: "ox_states s1 = ox_states s" "ox_providers s1 = ox_providers s"
    using oauth_handler_frame(3,4) [of E s profile] by simp_all
  obtain r2 s2 where d: "account_Create E s1 (new_account E (u_id (case r1 of Inr u \<Rightarrow> u)) p profile) = (r2, s2)" by fastforce
  then have s2: "ox_states s2 = ox_states s" "ox_providers s2 = ox_providers s"
    using oauth_handler_frame(5,6) [of E s1] s1 by (metis snd_conv)+
  show ?thesis
    using c d s1 s2 by (auto simp: handleLoginIntent_def oauth_handler_frame split: sum.split)
qed

lemma link_frame:
  "ox_states (snd (handleLinkIntent E bus s p profile st)) = ox_states s \<and>
   ox_providers (snd (handleLinkIntent E bus s p profile st)) = ox_providers s"
proof -
  have "ox_states (snd (link_new E bus s p profile st u)) = ox_states s \<and>
    ox_providers (snd (link_new E bus s p profile st u)) = ox_providers s" for u
    using oauth_handler_frame(5,6) [of E s "new_account E (u_id u) p profile"]
    by (auto simp: link_new_def split: result_splits)
  then show ?thesis by (simp add: handleLinkIntent_def split: sum.split)
qed

lemma callback_frame:
  "ox_providers (snd (HandleCallback E bus s name code nonce)) = ox_providers s"
  "ox_states (snd (HandleCallback E bus s name code nonce)) n = Some x \<Longrightarrow> ox_states s n = Some x"
proof -
  obtain r s' where h: "HandleCallback E bus s name code nonce = (r, s')" by fastforce
  obtain v s1 where v: "ValidateState E s nonce = (v, s1)" by fastforce
  note frame = ValidateState_frame [OF v]
  from h have "ox_providers s' = ox_providers s1 \<and> ox_states s' = ox_states s1"
  proof (cases rule: HandleCallback_cases)
    case (routed st s1' p tokens access raw)
    let ?profile = "normalizeProfile E (op_name p) raw"
    from routed(9) have "s' = snd (handleLinkIntent E bus s1 p ?profile st) \<or> s' = snd (handleLoginIntent E bus s1 p ?profile st)"
      using routed(1) v by (metis Pair_inject snd_conv)
    then show ?thesis using login_frame link_frame by blast
  qed (simp add: v)
  with h frame show "ox_providers (snd (HandleCallback E bus s name code nonce)) = ox_providers s"
    "ox_states (snd (HandleCallback E bus s name code nonce)) n = Some x \<Longrightarrow> ox_states s n = Some x"
    by (simp, metis snd_conv)
qed

lemma unlink_frame:
  "ox_providers (snd (OH_Unlink E bus s user name)) = ox_providers s"
  "ox_states (snd (OH_Unlink E bus s user name)) = ox_states s"
  using OH_Unlink_cases [OF prod.collapse [symmetric]] by metis+

text \<open>A pending link comes from a request of its user.\<close>

lemma exec_states:
  assumes "ox_states (oauth_exec E op s) n = Some (st, e)" and "ls_intent st = ''link''"
  shows "ox_states s n = Some (st, e) \<or> (\<exists>org. op = OLink (Some (ls_user st)) org (ls_provider st))"
proof (cases op)
  case (OInitiate name)
  with assms snd_reply(2) [of E s name] show ?thesis by (auto dest!: initiate_states)
next
  case (OLink user org name)
  from snd_reply(3) [of E s user org name] show ?thesis
  proof (elim disjE exE conjE)
    fix i o'
    assume i: "user = Some i"
      "snd (OH_InitiateLink E s user org name) = snd (InitiateLogin E s name (ox_callback_url E @ ''/'' @ name) i o')"
    with assms OLink show ?thesis by (auto dest!: initiate_states split: if_splits)
  qed (use assms OLink in simp)
next
  case (OCallback bus name code nonce)
  with assms snd_reply(1) [of E bus s name code nonce] callback_frame(2) [of E bus s name code nonce] show ?thesis by auto
next
  case (OUnlink bus user name)
  with assms show ?thesis by (simp add: unlink_frame)
next
  case (OCreate user org req body_org)
  with assms snd_reply(4) [of E s user org req body_org] show ?thesis by (auto simp: provider_admin_frame)
next
  case (OUpdate i upd)
  with assms snd_reply(5) [of E s i upd] show ?thesis by (auto simp: provider_admin_frame)
next
  case (ODelete i)
  with assms snd_reply(6) [of E s i] show ?thesis by (auto simp: provider_admin_frame)
qed

text \<open>Providers keep their keys and names and are never removed.\<close>

definition providers_kept :: "oauth_provider list \<Rightarrow> oauth_provider list \<Rightarrow> bool" where
  "providers_kept ps qs \<longleftrightarrow> (\<lambda>p. (op_id p, op_name p)) ` set ps \<subseteq> (\<lambda>p. (op_id p, op_name p)) ` set qs"

lemma providers_kept_refl [simp]: "providers_kept ps ps"
  by (simp add: providers_kept_def)

lemma providers_kept_trans: "providers_kept ps qs \<Longrightarrow> providers_kept qs rs \<Longrightarrow> providers_kept ps rs"
  by (simp add: providers_kept_def)

lemma providers_keptD:
  "providers_kept ps qs \<Longrightarrow> p \<in> set ps \<Longrightarrow> \<exists>q\<in>set qs. op_id q = op_id p \<and> op_name q = op_name p"
  by (fastforce simp: providers_kept_def subset_iff image_iff)

lemma providers_kept_update:
  assumes "\<And>r. r \<in> set ps \<Longrightarrow> P r \<Longrightarrow> op_id (f r) = op_id r \<and> op_name (f r) = op_name r"
  shows "providers_kept ps (tbl_update P f ps) \<and> map op_id (tbl_update P f ps) = map op_id ps"
proof -
  have "map (\<lambda>p. (op_id p, op_name p)) (tbl_update P f ps) = map (\<lambda>p. (op_id p, op_name p)) ps"
    using assms by (simp add: tbl_update_def)
  then have "set (map (\<lambda>p. (op_id p, op_name p)) (tbl_update P f ps)) = set (map (\<lambda>p. (op_id p, op_name p)) ps)" by simp
  then have "(\<lambda>p. (op_id p, op_name p)) ` set (tbl_update P f ps) = (\<lambda>p. (op_id p, op_name p)) ` set ps"
    by (simp only: set_map)
  moreover have "map op_id (tbl_update P f ps) = map op_id ps" using assms by (simp add: tbl_update_def)
  ultimately show ?thesis by (simp add: providers_kept_def)
qed

lemma apply_update_keys [simp]: "op_id (apply_update req p) = op_id p" "op_name (apply_update req p) = op_name p"
  by (simp_all add: apply_update_def)

lemma oauth_audit_providers [simp]: "ox_providers (oauth_audit E what i s) = ox_providers s"
  by (simp add: oauth_audit_def in_auth_def)

lemma provider_update_kept:
  assumes "distinct (map op_id (ox_providers s))"
  shows "providers_kept (ox_providers s) (ox_providers (snd (Provider_Update E s i upd))) \<and>
    distinct (map op_id (ox_providers (snd (Provider_Update E s i upd))))"
proof (cases "ox_providers (snd (Provider_Update E s i upd)) = ox_providers s")
  case False
  then obtain p where found: "provider_FindByID E s i = Inr p"
    by (cases "provider_FindByID E s i") (simp_all add: Provider_Update_def)
  define c where "c = (case vp_secret upd of None \<Rightarrow> Inr p
    | Some secret \<Rightarrow> map_sum WrapInternal (\<lambda>c. p\<lparr>op_secret := c\<rparr>) (oauth_Encrypt E secret))"
  have upd: "Provider_Update E s i upd = (case c of Inl err \<Rightarrow> (Inl err, s) | Inr p1 \<Rightarrow>
      (case (case vp_redirect_url upd of None \<Rightarrow> Inr () | Some url \<Rightarrow> validateRedirectURL E url) of
         Inl err \<Rightarrow> (Inl err, s)
       | Inr _ \<Rightarrow> (case provider_Update E s (apply_update upd p1) of
            (Inl err, s1) \<Rightarrow> (Inl (WrapInternal err), s1)
          | (Inr _, s1) \<Rightarrow>
              (Inr (op_ToResponse (apply_update upd p1)), oauth_audit E ''oauth_provider.updated'' i s1))))"
    by (simp add: Provider_Update_def found c_def)
  from False obtain p1 where p1: "c = Inr p1" unfolding upd by (cases c) simp_all
  then have "p1 = p \<or> (\<exists>x. p1 = p\<lparr>op_secret := x\<rparr>)" by (auto simp: c_def map_sum_def split: result_splits)
  with found have p: "provider_FindByID E s i = Inr p" "p1 = p \<or> (\<exists>c. p1 = p\<lparr>op_secret := c\<rparr>)" by simp_all
  have eq: "ox_providers (snd (Provider_Update E s i upd)) = ox_providers (snd (provider_Update E s (apply_update upd p1)))"
    using False unfolding upd p1 by (auto split: result_splits)
  from p have id: "p \<in> set (ox_providers s)" "op_id p1 = op_id p" "op_name p1 = op_name p"
    by (auto simp: provider_FindByID_def dest: tbl_first_SomeD split: result_splits)
  then have "r = p" if "r \<in> set (ox_providers s)" "op_id r = op_id p" for r
    using assms that by (auto simp: distinct_map inj_on_def)
  then have "providers_kept (ox_providers s) (tbl_update (\<lambda>r. op_id r = op_id p) (\<lambda>r. apply_update upd p1) (ox_providers s)) \<and>
    map op_id (tbl_update (\<lambda>r. op_id r = op_id p) (\<lambda>r. apply_update upd p1) (ox_providers s)) = map op_id (ox_providers s)"
    using id by (intro providers_kept_update) auto
  moreover have "tbl_count (\<lambda>r. op_id r = op_id p) (ox_providers s) \<noteq> 0"
    by (rule tbl_count_pos [OF id(1)]) simp
  ultimately show ?thesis using id eq assms by (auto simp: provider_Update_def)
qed (simp add: assms)

lemma exec_providers:
  assumes "fresh_ids E s" and "distinct (map op_id (ox_providers s))"
  shows "providers_kept (ox_providers s) (ox_providers (oauth_exec E op s)) \<and>
    distinct (map op_id (ox_providers (oauth_exec E op s)))"
proof (cases op)
  case (OInitiate name)
  with snd_reply(2) [of E s name] assms show ?thesis by auto
next
  case (OLink user org name)
  with snd_reply(3) [of E s user org name] assms show ?thesis by auto
next
  case (OCallback bus name code nonce)
  with snd_reply(1) [of E bus s name code nonce] assms show ?thesis by (auto simp: callback_frame(1))
next
  case (OUnlink bus user name)
  with assms show ?thesis by (simp add: unlink_frame)
next
  case (OCreate user org req body_org)
  have "providers_kept (ox_providers s) (ox_providers (snd (Provider_Create E s o' req))) \<and>
    distinct (map op_id (ox_providers (snd (Provider_Create E s o' req))))" for o'
    using assms by (auto simp: Provider_Create_def provider_Create_def providers_kept_def fresh_ids_def Let_def
        split: result_splits)
  note this [simp]
  from OCreate snd_reply(4) [of E s user org req body_org] assms show ?thesis by auto
next
  case (OUpdate i upd)
  with snd_reply(5) [of E s i upd] assms show ?thesis by (auto simp: provider_update_kept [OF assms(2)])
next
  case (ODelete i)
  have "providers_kept (ox_providers s) (ox_providers (snd (Provider_Delete E s j))) \<and>
    distinct (map op_id (ox_providers (snd (Provider_Delete E s j))))" for j
  proof (cases "ox_providers (snd (Provider_Delete E s j)) = ox_providers s")
    case False
    then have "ox_providers (snd (Provider_Delete E s j)) = tbl_update (\<lambda>r. op_id r = j \<and> op_visible r)
        (\<lambda>r. r\<lparr>op_deleted_at := Some (a_now E)\<rparr>) (ox_providers s)"
      by (auto simp: Provider_Delete_def provider_SoftDelete_def split: result_splits)
    then show ?thesis
      using providers_kept_update [of "ox_providers s" "\<lambda>r. op_id r = j \<and> op_visible r"
          "\<lambda>r. r\<lparr>op_deleted_at := Some (a_now E)\<rparr>"] assms by simp
  qed (simp add: assms)
  note this [simp]
  from ODelete snd_reply(6) [of E s i] assms show ?thesis by auto
qed

section \<open>Invariants\<close>

definition links_ok :: "oauth_account list \<Rightarrow> bool" where
  "links_ok rows \<longleftrightarrow> (\<forall>a\<in>set rows. \<forall>b\<in>set rows. oa_visible a \<and> oa_visible b \<and>
     (identity_of a = identity_of b \<or> link_of a = link_of b) \<longrightarrow> a = b)"

lemma links_ok_append:
  assumes "links_ok (ox_accounts s)" and "fresh_identity s (identity_of a)" and "fresh_link s (link_of a)"
  shows "links_ok (ox_accounts s @ [a])"
  using assms by (auto simp: links_ok_def fresh_identity_def fresh_link_def)

lemma new_account_simps [simp]:
  "identity_of (new_account E u p profile) = (op_id p, pp_id profile)"
  "link_of (new_account E u p profile) = (u, op_id p)"
  "oa_user (new_account E u p profile) = u" "oa_provider (new_account E u p profile) = op_id p"
  "oa_id (new_account E u p profile) = a_new_id E 1" "oa_visible (new_account E u p profile)"
  by (simp_all add: new_account_def identity_of_def link_of_def oa_visible_def)

lemma fresh_ids_link: "fresh_ids E s \<Longrightarrow> fresh_link s (a_new_id E 0, i)"
  by (force simp: fresh_ids_def fresh_link_def link_of_def)

lemma oa_deleted [simp]:
  "\<not> oa_visible (a\<lparr>oa_deleted_at := Some t\<rparr>)" "oa_id (a\<lparr>oa_deleted_at := Some t\<rparr>) = oa_id a"
  by (simp_all add: oa_visible_def)

lemma move_links:
  assumes "oauth_move E s s'" and "fresh_ids E s" and "links_ok (ox_accounts s)"
  shows "links_ok (ox_accounts s')"
  using assms(1)
proof cases
  case (sign_up u p profile)
  then show ?thesis using links_ok_append [OF assms(3), of "new_account E (u_id u) p profile"]
      fresh_ids_link [OF assms(2)] by simp
next
  case (link st p profile nonce expires)
  then show ?thesis using links_ok_append [OF assms(3), of "new_account E (ls_user st) p profile"] by simp
next
  case (unlink a)
  then show ?thesis using assms(3) by (auto simp: links_ok_def elim!: in_tbl_updateE)
qed (use assms(3) in simp_all)

lemma move_keys:
  assumes "oauth_move E s s'" and "fresh_ids E s" and "distinct (map oa_id (ox_accounts s))"
  shows "distinct (map oa_id (ox_accounts s'))"
  using assms(1)
proof cases
  case (unlink a)
  have "map oa_id (ox_accounts s') = map oa_id (ox_accounts s)"
    unfolding unlink(2) by (rule map_tbl_update) simp
  then show ?thesis using assms(3) by simp
qed (use assms(2,3) in \<open>auto simp: fresh_ids_def\<close>)

lemma two_rows:
  assumes "distinct (map key rows)" and "1 < tbl_count P rows"
  shows "\<exists>b\<in>set rows. P b \<and> key b \<noteq> k"
proof (rule ccontr)
  assume "\<not> ?thesis"
  then have sub: "key ` set (filter P rows) \<subseteq> {k}" by auto
  have "distinct (map key (filter P rows))" using assms(1) by (rule distinct_map_filter)
  then have "length (filter P rows) = card (key ` set (filter P rows))"
    using distinct_card by (metis length_map set_map)
  also have "\<dots> \<le> card {k}" by (rule card_mono [OF _ sub]) simp
  finally show False using assms(2) by (simp add: tbl_count_def)
qed

lemma methods_pos_iff:
  "0 < methods s i \<longleftrightarrow> (\<exists>a\<in>set (ox_accounts s). oa_user a = i \<and> oa_visible a) \<or>
     (\<exists>u\<in>set (users (ox_auth s)). u_id u = i \<and> user_visible u \<and> real_password u)"
  by (auto simp: methods_def real_password_def tbl_count_def filter_empty_conv)

lemma move_methods:
  assumes "oauth_move E s s'" and "distinct (map oa_id (ox_accounts s))" and "0 < methods s i"
  shows "0 < methods s' i"
  using assms(1)
proof cases
  case (unlink a)
  consider (other) "oa_user a \<noteq> i"
    | (password) "\<exists>u\<in>set (users (ox_auth s)). u_id u = i \<and> user_visible u \<and> real_password u"
    | (accounts) "oa_user a = i" "1 < tbl_count (\<lambda>a. oa_user a = i \<and> oa_visible a) (ox_accounts s)"
    using unlink(5) by (fastforce simp: methods_def tbl_count_def real_password_def filter_empty_conv)
  then show ?thesis
  proof cases
    case other
    have "b \<in> set (ox_accounts s')" if "b \<in> set (ox_accounts s)" "oa_user b = i" for b
    proof -
      have "oa_id b \<noteq> oa_id a" using that other unlink(3) assms(2) by (auto simp: distinct_map inj_on_def)
      then show ?thesis using tbl_updateI [OF that(1), of "\<lambda>r. oa_id r = oa_id a \<and> oa_visible r"] unlink(2) by simp
    qed
    then show ?thesis using assms(3) unlink(1) by (auto simp: methods_pos_iff)
  next
    case password
    then show ?thesis using unlink(1) by (auto simp: methods_pos_iff)
  next
    case accounts
    from two_rows [OF assms(2) accounts(2), of "oa_id a"] obtain b where
      b: "b \<in> set (ox_accounts s)" "oa_user b = i" "oa_visible b" "oa_id b \<noteq> oa_id a" by blast
    then have "b \<in> set (ox_accounts s')"
      using tbl_updateI [OF b(1), of "\<lambda>r. oa_id r = oa_id a \<and> oa_visible r"] unlink(2) by simp
    then show ?thesis using b by (auto simp: methods_pos_iff)
  qed
qed (use assms(3) in \<open>auto simp: methods_pos_iff\<close>)

text \<open>Along a run.\<close>

lemma run_inv:
  assumes "oauth_run s0 es s"
  shows "keyed s \<and> providers_kept (ox_providers s0) (ox_providers s) \<and>
    (links_ok (ox_accounts s0) \<longrightarrow> links_ok (ox_accounts s)) \<and> (0 < methods s0 i \<longrightarrow> 0 < methods s i)"
  using assms
proof (induction rule: oauth_run.induct)
  case (request es s E op)
  note move = exec_move [of E s op]
  show ?case
    using exec_providers [OF request.hyps(2), of op] move_keys [OF move request.hyps(2)]
      move_links [OF move request.hyps(2)] move_methods [OF move, of i] request.IH
    by (auto simp: keyed_def intro: providers_kept_trans)
next
  case (others es s a)
  have "0 < methods s i \<Longrightarrow> 0 < methods (s\<lparr>ox_auth := a\<rparr>) i"
    using others.hyps(2) by (auto simp: methods_pos_iff users_kept_def)
  with others.IH show ?case by (simp add: keyed_def)
qed simp

lemma run_states:
  assumes "oauth_run s0 es s" and "ox_states s n = Some (st, e)" and "ls_intent st = ''link''"
  shows "\<exists>E org. (E, OLink (Some (ls_user st)) org (ls_provider st)) \<in> set es"
  using assms
proof (induction arbitrary: n st e rule: oauth_run.induct)
  case (request es s E op)
  from exec_states [OF request.prems] show ?case
  proof
    assume "ox_states s n = Some (st, e)"
    from request.IH [OF this request.prems(2)] show ?thesis by auto
  qed auto
qed simp_all

lemma run_users:
  assumes "oauth_run s0 es s"
  shows "u_id ` set (users (ox_auth s0)) \<subseteq> u_id ` set (users (ox_auth s))"
  using assms
proof (induction rule: oauth_run.induct)
  case (request es s E op)
  from exec_move [of E s op] have "u_id ` set (users (ox_auth s)) \<subseteq> u_id ` set (users (ox_auth (oauth_exec E op s)))"
    by cases auto
  with request.IH show ?case by blast
next
  case (others es s a)
  then show ?case by (auto simp: users_kept_def)
qed simp

section \<open>Who gets linked\<close>

definition asked_for :: "(oauth_env \<times> oauth_op) list \<Rightarrow> oauth_sys \<Rightarrow> oauth_account \<Rightarrow> bool" where
  "asked_for es s a \<longleftrightarrow> (\<exists>E org p. (E, OLink (Some (oa_user a)) org (op_name p)) \<in> set es \<and>
     p \<in> set (ox_providers s) \<and> op_id p = oa_provider a)"

lemma asked_for_later:
  assumes "asked_for es s a" and "set es \<subseteq> set es'" and "providers_kept (ox_providers s) (ox_providers s')"
  shows "asked_for es' s' a"
proof -
  obtain E org p where p: "(E, OLink (Some (oa_user a)) org (op_name p)) \<in> set es" "p \<in> set (ox_providers s)"
    "op_id p = oa_provider a"
    using assms(1) by (auto simp: asked_for_def)
  from providers_keptD [OF assms(3) p(2)] obtain q where "q \<in> set (ox_providers s')" "op_id q = op_id p" "op_name q = op_name p"
    by blast
  then show ?thesis using p assms(2) unfolding asked_for_def by (metis subsetD)
qed

lemma run_accounts:
  assumes "oauth_run s0 es s" and "a \<in> set (ox_accounts s)" and "oa_visible a"
  shows "a \<in> set (ox_accounts s0) \<or> oa_user a \<notin> u_id ` set (users (ox_auth s0)) \<or> asked_for es s a"
  using assms
proof (induction arbitrary: a rule: oauth_run.induct)
  case (request es s E op)
  let ?s' = "oauth_exec E op s" and ?es = "es @ [(E, op)]"
  have kept: "providers_kept (ox_providers s) (ox_providers ?s')"
    using exec_providers [OF request.hyps(2)] run_inv [OF request.hyps(1)] by (simp add: keyed_def)
  have old: ?case if "a \<in> set (ox_accounts s)"
    using request.IH [OF that request.prems(2)] asked_for_later [OF _ _ kept, of es a ?es] by auto
  show ?case
  proof (cases "a \<in> set (ox_accounts s)")
    case False
    from exec_move [of E s op] show ?thesis
    proof cases
      case (sign_up u p profile)
      then have "oa_user a = a_new_id E 0" using False request.prems(1) by auto
      then show ?thesis using request.hyps(2) run_users [OF request.hyps(1)] by (auto simp: fresh_ids_def)
    next
      case (link st p profile nonce expires)
      then have a: "oa_user a = ls_user st" "oa_provider a = op_id p" using False request.prems(1) by auto
      from run_states [OF request.hyps(1) link(3,4)] obtain E' org
        where "(E', OLink (Some (ls_user st)) org (ls_provider st)) \<in> set es" by blast
      then have "asked_for es s a" using a link(5,6) unfolding asked_for_def by metis
      from asked_for_later [OF this _ kept, of ?es] show ?thesis by auto
    next
      case (unlink b)
      then show ?thesis using False request.prems by (auto elim!: in_tbl_updateE)
    qed (use False request.prems(1) in simp_all)
  qed (rule old)
qed (auto simp: asked_for_def)

text \<open>
  C23. Whatever callbacks, requests and failures follow: an account that has been linked to a user
  who existed before was asked for by that user, signed in, for that provider. Nobody else, and no
  login, can attach an identity to an existing user.
\<close>

theorem link_needs_owner:
  assumes "oauth_run s0 es s" and "a \<in> set (ox_accounts s)" and "oa_visible a"
    and "a \<notin> set (ox_accounts s0)" and "oa_user a \<in> u_id ` set (users (ox_auth s0))"
  shows "\<exists>E org p. (E, OLink (Some (oa_user a)) org (op_name p)) \<in> set es \<and>
    p \<in> set (ox_providers s) \<and> op_id p = oa_provider a"
  using run_accounts [OF assms(1-3)] assms(4,5) by (simp add: asked_for_def)

text \<open>
  However requests and failures follow each other, with or without the unique constraints: an
  identity at a provider belongs to one live account, and a user has one live account at a provider.
\<close>

theorem links_unique:
  assumes "oauth_run s0 es s" and "links_ok (ox_accounts s0)"
  shows "links_ok (ox_accounts s)"
  using run_inv [OF assms(1)] assms(2) by blast


section \<open>Who gets tokens\<close>

definition same_tokens :: "oauth_sys \<Rightarrow> oauth_sys \<Rightarrow> bool" where
  "same_tokens s s' \<longleftrightarrow> refresh_tokens (ox_auth s') = refresh_tokens (ox_auth s)"

lemma link_tokens: "same_tokens s (snd (handleLinkIntent E bus s p profile st))"
proof -
  have "same_tokens s (snd (link_new E bus s p profile st u))" for u
    by (auto simp: link_new_def same_tokens_def account_Create_def split: result_splits)
  then show ?thesis by (simp add: handleLinkIntent_def same_tokens_def split: sum.split)
qed

text \<open>New tokens of a login are one row, of the user to whom the identity is linked.\<close>

definition token_for :: "'e oauth_env_scheme \<Rightarrow> oauth_sys \<Rightarrow> uuid \<times> string \<Rightarrow> oauth_sys \<Rightarrow> bool" where
  "token_for E s i s' \<longleftrightarrow> (\<exists>t a. refresh_tokens (ox_auth s') = refresh_tokens (ox_auth s) @ [t] \<and>
     rt_fresh t (refresh_tokens (ox_auth s)) \<and> rt_family_id t = a_new_family E \<and>
     a \<in> set (ox_accounts s') \<and> oa_visible a \<and> identity_of a = i \<and> oa_user a = rt_user_id t)"

lemma login_tokens:
  assumes "handleLoginIntent E bus s p profile st = (r, s')"
  shows "same_tokens s s' \<or> token_for E s (op_id p, pp_id profile) s'"
proof (cases "account_FindByIdentity E s (op_id p) (pp_id profile)")
  case (Inr a)
  show ?thesis
  proof (cases "user_find_by_id E (ox_auth s) (oa_user a)")
    case (Inl err)
    then show ?thesis using assms \<open>account_FindByIdentity _ _ _ _ = Inr a\<close> by (simp add: handleLoginIntent_def same_tokens_def)
  next
    case (Inr u)
    have u: "u_id u = oa_user a"
      using Inr by (auto simp: user_find_by_id_def dest: tbl_first_SomeD split: result_splits)
    obtain r2 where g: "generateTokensForUser E s u = (r2, s')"
      using assms \<open>account_FindByIdentity _ _ _ _ = Inr a\<close> Inr by (auto simp: handleLoginIntent_def apfst_def map_prod_def split: prod.splits)
    from generateTokens_effect [OF g] account_FindByIdentity_Some [OF \<open>account_FindByIdentity _ _ _ _ = Inr a\<close>] u
    show ?thesis unfolding same_tokens_def token_for_def by metis
  qed
next
  case (Inl err)
  obtain r1 s1 where c: "autoCreateUser E s profile = (r1, s1)" by fastforce
  show ?thesis
  proof (cases "same_tokens s s'")
    case False
    then have nf: "err_is err ErrNotFound" using assms Inl by (auto simp: handleLoginIntent_def same_tokens_def split: if_splits)
    note effect = autoCreateUser_effect [OF c]
    obtain u where u: "r1 = Inr u"
      using False assms Inl nf c effect by (cases r1) (auto simp: handleLoginIntent_def same_tokens_def split: if_splits)
    obtain r2 s2 where d: "account_Create E s1 (new_account E (u_id u) p profile) = (r2, s2)" by fastforce
    have eq: "handleLoginIntent E bus s p profile st = (case r2 of Inl err2 \<Rightarrow> (Inl (WrapInternal err2), s2)
        | Inr _ \<Rightarrow> apfst (map_sum id (success_url E st)) (generateTokensForUser E
            (publish_oauth E bus ''auth.oauth.linked'' (new_account E (u_id u) p profile) p s2) u))"
      using assms False Inl c nf u d by (simp add: handleLoginIntent_def same_tokens_def split: if_splits)
    obtain x where x: "r2 = Inr x"
      using False eq assms d effect account_Create_cases(1) [of E s1 _ _ s2] by (cases r2) (auto simp: same_tokens_def)
    obtain r3 where g: "generateTokensForUser E
        (publish_oauth E bus ''auth.oauth.linked'' (new_account E (u_id u) p profile) p s2) u = (r3, s')"
      using eq assms x by (auto simp: apfst_def map_prod_def split: prod.splits)
    have s2: "s2 = s1\<lparr>ox_accounts := ox_accounts s1 @ [new_account E (u_id u) p profile]\<rparr>"
      using account_Create_cases(2) d x by blast
    from generateTokens_effect [OF g] False effect s2
    obtain t where "refresh_tokens (ox_auth s') = refresh_tokens (ox_auth s) @ [t]" "rt_user_id t = u_id u"
      "rt_family_id t = a_new_family E" "rt_fresh t (refresh_tokens (ox_auth s))" "ox_accounts s' = ox_accounts s2"
      by (auto simp: same_tokens_def)
    then show ?thesis unfolding token_for_def s2
      by (intro disjI2 exI [of _ t] exI [of _ "new_account E (u_id u) p profile"]) simp
  qed simp
qed

lemma callback_tokens:
  assumes "HandleCallback E bus s name code nonce = (r, s')" and "\<not> same_tokens s s'"
  shows "\<exists>st p tokens access raw. fst (ValidateState E s nonce) = Inr st \<and> ls_provider st = name \<and>
    provider_FindByName E s name = Inr p \<and> op_enabled p \<and>
    exchangeCodeForTokens E p code (ls_callback st) (ls_verifier st) = Inr tokens \<and>
    getStringFieldOK E tokens ''access_token'' = Some access \<and> fetchUserProfile E p access = Inr raw \<and>
    token_for E s (op_id p, pp_id (normalizeProfile E name raw)) s'"
  using assms(1)
proof (cases rule: HandleCallback_cases)
  case refused
  obtain v s1 where v: "ValidateState E s nonce = (v, s1)" by fastforce
  from ValidateState_frame [OF this] show ?thesis using refused v assms(2) by (simp add: same_tokens_def)
next
  case (routed st s1 p tokens access raw)
  note frame = ValidateState_frame [OF routed(1)]
  have name: "op_name p = name" using provider_FindByName_Some [OF routed(3)] by simp
  have "ls_intent st \<noteq> ''link''"
    using routed(9) assms(2) frame link_tokens [of s1 E bus p "normalizeProfile E (op_name p) raw" st]
    by (auto simp: same_tokens_def dest: arg_cong [where f = snd])
  then have h: "handleLoginIntent E bus s1 p (normalizeProfile E name raw) st = (r, s')" using routed(9) name by simp
  have prov: "ox_providers s1 = ox_providers s" using frame by simp
  have "provider_FindByName E s name = Inr p" using routed(3) unfolding provider_FindByName_def prov .
  moreover have "token_for E s (op_id p, pp_id (normalizeProfile E name raw)) s'"
    using login_tokens [OF h] assms(2) frame by (simp add: same_tokens_def token_for_def)
  ultimately show ?thesis using routed(1,2,4-7) by (metis fst_conv)
qed

text \<open>
  C24. A callback gives tokens to nobody but the user to whom the identity is linked that the
  provider of the login has returned for the code, with the verifier of the accepted state.
\<close>

theorem tokens_follow_identity:
  assumes "HandleCallback E bus s name code nonce = (r, s')"
    and "t \<in> set (refresh_tokens (ox_auth s'))" and "t \<notin> set (refresh_tokens (ox_auth s))"
  shows "\<exists>st p tokens access raw a. fst (ValidateState E s nonce) = Inr st \<and> ls_provider st = name \<and>
    provider_FindByName E s name = Inr p \<and> op_enabled p \<and>
    exchangeCodeForTokens E p code (ls_callback st) (ls_verifier st) = Inr tokens \<and>
    getStringFieldOK E tokens ''access_token'' = Some access \<and> fetchUserProfile E p access = Inr raw \<and>
    a \<in> set (ox_accounts s') \<and> oa_visible a \<and>
    identity_of a = (op_id p, pp_id (normalizeProfile E name raw)) \<and> oa_user a = rt_user_id t"
proof -
  have "\<not> same_tokens s s'" using assms(2,3) by (auto simp: same_tokens_def)
  from callback_tokens [OF assms(1) this] obtain st p tokens access raw where c:
    "fst (ValidateState E s nonce) = Inr st" "ls_provider st = name" "provider_FindByName E s name = Inr p" "op_enabled p"
    "exchangeCodeForTokens E p code (ls_callback st) (ls_verifier st) = Inr tokens"
    "getStringFieldOK E tokens ''access_token'' = Some access" "fetchUserProfile E p access = Inr raw"
    "token_for E s (op_id p, pp_id (normalizeProfile E name raw)) s'" by blast
  from c(8) assms(2,3) show ?thesis unfolding token_for_def using c(1-7) by auto
qed

text \<open>
  A callback keeps what the sessions promise: at most one live token in a family, families of one
  user, distinct hashes.
\<close>

theorem callback_keeps_sessions:
  assumes "HandleCallback E bus s name code nonce = (r, s')" and "tok_inv (refresh_tokens (ox_auth s))"
    and "a_new_family E \<notin> rt_family_id ` set (refresh_tokens (ox_auth s))"
  shows "tok_inv (refresh_tokens (ox_auth s'))"
proof (cases "same_tokens s s'")
  case False
  from callback_tokens [OF assms(1) this] obtain t where
    "refresh_tokens (ox_auth s') = refresh_tokens (ox_auth s) @ [t]" "rt_fresh t (refresh_tokens (ox_auth s))"
    "rt_family_id t = a_new_family E" by (auto simp: token_for_def)
  then have "tok_evolve False (refresh_tokens (ox_auth s)) (refresh_tokens (ox_auth s'))"
    using assms(3) by (simp add: tok_evolve.start)
  then show ?thesis using assms(2) by (rule tok_evolve_inv)
qed (use assms(2) in \<open>simp add: same_tokens_def\<close>)

section \<open>States are used once\<close>

lemma exec_nonces:
  assumes "ox_states (oauth_exec E op s) n = Some (st, e)"
  shows "ox_states s n = Some (st, e) \<or> ox_nonce E = Some n"
proof (cases op)
  case (OInitiate name)
  with assms snd_reply(2) [of E s name] show ?thesis by (auto dest!: initiate_nonces)
next
  case (OLink user org name)
  from snd_reply(3) [of E s user org name] show ?thesis
  proof (elim disjE exE conjE)
    fix i o'
    assume "snd (OH_InitiateLink E s user org name) = snd (InitiateLogin E s name (ox_callback_url E @ ''/'' @ name) i o')"
    with assms OLink show ?thesis by (auto dest!: initiate_nonces)
  qed (use assms OLink in simp)
next
  case (OCallback bus name code nonce)
  with assms snd_reply(1) [of E bus s name code nonce] callback_frame(2) [of E bus s name code nonce] show ?thesis by auto
next
  case (OUnlink bus user name)
  with assms show ?thesis by (simp add: unlink_frame)
next
  case (OCreate user org req body_org)
  with assms snd_reply(4) [of E s user org req body_org] show ?thesis by (auto simp: provider_admin_frame)
next
  case (OUpdate i upd)
  with assms snd_reply(5) [of E s i upd] show ?thesis by (auto simp: provider_admin_frame)
next
  case (ODelete i)
  with assms snd_reply(6) [of E s i] show ?thesis by (auto simp: provider_admin_frame)
qed

lemma execs_forget:
  assumes "ox_states s n = None" and "list_all (\<lambda>(E, op). ox_nonce E \<noteq> Some n) es"
  shows "ox_states (fold (\<lambda>(E, op). oauth_exec E op) es s) n = None"
  using assms
proof (induction es arbitrary: s)
  case (Cons e es)
  obtain E op where e: "e = (E, op)" by fastforce
  with Cons.prems have "ox_nonce E \<noteq> Some n" by simp
  then have "ox_states (oauth_exec E op s) n = None"
    using exec_nonces [of E op s n] Cons.prems(1) by (cases "ox_states (oauth_exec E op s) n") auto
  with Cons e show ?case by simp
qed simp

text \<open>
  C25. A state that a callback has accepted and that could be deleted is accepted by no callback
  after it, whatever requests come between, unless the same nonce is drawn again: the answer is
  400 and nothing changes.
\<close>

theorem state_used_once:
  assumes "fst (ValidateState E s nonce) = Inr st" and "\<not> ox_fault E (RStateDel nonce)"
    and "list_all (\<lambda>(E, op). ox_nonce E \<noteq> Some nonce) es"
    and "s2 = fold (\<lambda>(E, op). oauth_exec E op) es (snd (HandleCallback E bus s name code nonce))"
  shows "HandleCallback E' bus' s2 name' code' nonce =
    (Inl (NewAppError ''INVALID_STATE'' ''oauth state not found or expired'' 400), s2)"
proof -
  obtain r s1 where h: "HandleCallback E bus s name code nonce = (r, s1)" by fastforce
  obtain s0 where v: "ValidateState E s nonce = (Inr st, s0)" "ox_states s0 nonce = None"
    using assms(1,2) by (auto simp: ValidateState_def split: if_splits option.splits)
  have "ox_states s1 nonce = None"
    using h
  proof (cases rule: HandleCallback_cases)
    case (routed st' s1' p tokens access raw)
    let ?profile = "normalizeProfile E (op_name p) raw"
    from routed(9) have "s1 = snd (handleLinkIntent E bus s0 p ?profile st) \<or> s1 = snd (handleLoginIntent E bus s0 p ?profile st)"
      using routed(1) v by (metis Inr_inject Pair_inject snd_conv)
    then show ?thesis using login_frame link_frame v by metis
  qed (simp add: v)
  then have "ox_states s2 nonce = None" using execs_forget [OF _ assms(3)] assms(4) h by simp
  then show ?thesis by (auto simp: HandleCallback_def ValidateState_def)
qed

section \<open>Runs\<close>

text \<open>
  A user with a password and Google as provider. The profile that Google returns for the code
  \<open>x\<close> has the identity \<open>g-x\<close> and a verified address.
\<close>

definition demo_oauth_env :: "string \<Rightarrow> (nat \<Rightarrow> uuid) \<Rightarrow> oauth_env" where
  "demo_oauth_env nonce ids = \<lparr>a_now = 100, a_fault = (\<lambda>q. False), a_rand = Some ''r'', a_new_family = ''f'',
     a_new_id = ids, a_hash_token = (\<lambda>t. ''sha:'' @ t), a_pw_hash = (\<lambda>p. Some (''bc:'' @ p)),
     a_pw_verify = (\<lambda>h p. h = ''bc:'' @ p), a_access = (\<lambda>u e. Some (''jwt:'' @ u)),
     a_refresh_expiry = 1000, a_reset_expiry = 10, a_has_roles = False, a_has_email = False,
     a_has_reset_repo = True, a_has_audit = True, a_audit_full = False,
     ox_fault = (\<lambda>q. False), ox_unique = False,
     ox_http = (\<lambda>req. case req of
         TokenPost url form \<Rightarrow> Inr (200, Some (JObj [(''access_token'', JStr (the (map_of form ''code'')))]))
       | ProfileGet url tok \<Rightarrow> Inr (200, Some (JObj [(''sub'', JStr (''g-'' @ tok)), (''email'', JStr (tok @ ''@x'')),
           (''email_verified'', JBool True)]))),
     ox_nonce = Some nonce, ox_verifier = Some [0], ox_password = Some ''hex'', ox_uuid = ''u'',
     ox_iv = Some (replicate 12 CHR ''i''), ox_key = ''k'',
     ox_gcm_seal = (\<lambda>k n x. replicate 16 CHR ''t'' @ x), ox_gcm_open = (\<lambda>k n c. Some (drop 16 c)),
     ox_b64_encode = (\<lambda>x. x), ox_b64_decode = (\<lambda>x. Some x), ox_challenge = (\<lambda>v. ''c:'' @ v), ox_show = (\<lambda>v. ''?''),
     ox_auth_url = (\<lambda>base tenant q. Some base), ox_fragment = (\<lambda>url fr. Some (url @ ''#'' @ fr)),
     ox_url = (\<lambda>u. Some (''https'', ''h'')), ox_state_ttl = 0, ox_allow_http = False, ox_callback_url = ''https://h'',
     ox_actor = ''olga''\<rparr>"

definition demo_oauth_sys :: oauth_sys where
  "demo_oauth_sys = \<lparr>ox_auth = \<lparr>users = [\<lparr>u_id = ''olga'', u_email = ''o@x'', u_password_hash = ''bc:pw'',
       u_deleted_at = None, u_tf_enabled = True, u_tf_status = ''enabled'', u_tf_secret = ''s'', u_tf_verified_at = None\<rparr>],
       refresh_tokens = [], reset_tokens = [], recovery_codes = [], metrics = (\<lambda>m. 0), audit_log = [], spawned = []\<rparr>,
     ox_providers = [\<lparr>op_id = ''p1'', op_name = ''google'', op_display_name = ''Google'', op_client_id = ''c'',
       op_secret = ''v1:'' @ replicate 28 CHR ''s'', op_redirect_url = ''https://h'', op_scopes = None, op_config = None,
       op_enabled = True, op_system = False, op_org = None, op_created_at = 0, op_deleted_at = None\<rparr>],
     ox_accounts = [], ox_states = Map.empty, ox_events = []\<rparr>"

definition demo_ids :: "string \<Rightarrow> nat \<Rightarrow> uuid" where
  "demo_ids tag i = (if i = 0 then ''user-'' else ''row-'') @ tag"

lemmas oauth_run_defs = demo_oauth_env_def demo_oauth_sys_def demo_ids_def OH_InitiateLogin_def OH_InitiateLink_def
  OH_HandleCallback_def OH_Unlink_def InitiateLogin_def CreateState_def generatePKCEVerifier_def pkceUnreservedChars_def
  buildAuthorizationURL_def getProviderAuthorizationURL_def valid_provider_def provider_FindByName_def tbl_first_def
  op_visible_def HandleCallback_def ValidateState_def exchangeCodeForTokens_def getProviderTokenURL_def oauth_Decrypt_def
  provider_answer_def decode_map_def getStringFieldOK_def getStringField_def getBoolField_def fetchUserProfile_def
  getProviderUserInfoURL_def normalizeProfile_def NormalizeGoogleProfile_def handleLinkIntent_def handleLoginIntent_def
  link_new_def user_find_by_id_def user_find_by_email_def user_visible_def account_FindByIdentity_def
  account_FindByUserAndProvider_def account_Create_def new_account_def publish_oauth_def uuid_nil_def second_def
  identity_of_def link_of_def oa_visible_def autoCreateUser_def user_create_def tbl_count_def generateTokensForUser_def
  GenerateAccessToken_def GenerateRefreshToken_def tok_create_def CountAuthMethodsByUserID_def account_SoftDelete_def
  has_prefix_def tbl_update_def in_auth_def LogAction_def

definition demo_link :: "(oauth_env \<times> oauth_op) list" where
  "demo_link = [(demo_oauth_env ''n1'' (demo_ids ''a''), OLink (Some ''olga'') None ''google''),
     (demo_oauth_env ''n2'' (demo_ids ''b''), OCallback True ''google'' ''me'' ''n1'')]"

fun run_oauth :: "(oauth_env \<times> oauth_op) list \<Rightarrow> oauth_sys \<Rightarrow> oauth_sys" where
  "run_oauth [] s = s"
| "run_oauth ((E, op) # es) s = run_oauth es (oauth_exec E op s)"

lemma demo_linked:
  "\<exists>a. ox_accounts (run_oauth demo_link demo_oauth_sys) = [a] \<and> oa_visible a \<and> oa_user a = ''olga'' \<and>
     oa_provider a = ''p1'' \<and> oa_provider_user a = ''g-me'' \<and> oa_id a = ''row-b''"
  by (simp add: demo_link_def oauth_run_defs Let_def)

fun all_fresh :: "(oauth_env \<times> oauth_op) list \<Rightarrow> oauth_sys \<Rightarrow> bool" where
  "all_fresh [] s = True"
| "all_fresh ((E, op) # es) s = (fresh_ids E s \<and> all_fresh es (oauth_exec E op s))"

lemma run_oauth_steps:
  "oauth_run s0 es0 s \<Longrightarrow> all_fresh es s \<Longrightarrow> oauth_run s0 (es0 @ es) (run_oauth es s)"
proof (induction es s arbitrary: es0 rule: run_oauth.induct)
  case (2 E op es s)
  then have "oauth_run s0 (es0 @ [(E, op)]) (oauth_exec E op s)" by (simp add: oauth_run.request)
  from "2.IH" [OF this] "2.prems"(2) show ?case by simp
qed simp

lemma demo_oauth_start: "oauth_run demo_oauth_sys [] demo_oauth_sys"
  by (rule oauth_run.start) (simp_all add: demo_oauth_sys_def keyed_def)

lemma demo_link_fresh: "all_fresh demo_link demo_oauth_sys"
  by (simp add: demo_link_def fresh_ids_def oauth_run_defs Let_def)

lemma demo_link_run: "oauth_run demo_oauth_sys demo_link (run_oauth demo_link demo_oauth_sys)"
  using run_oauth_steps [OF demo_oauth_start demo_link_fresh] by simp

theorem link_needs_owner_witness:
  "\<exists>a org (p :: oauth_provider). a \<in> set (ox_accounts (run_oauth demo_link demo_oauth_sys)) \<and> oa_user a = ''olga'' \<and>
     OLink (Some ''olga'') org (op_name p) \<in> snd ` set demo_link \<and> op_id p = oa_provider a"
proof -
  obtain a where a: "ox_accounts (run_oauth demo_link demo_oauth_sys) = [a]" "oa_visible a" "oa_user a = ''olga''"
    using demo_linked by blast
  have "a \<in> set (ox_accounts (run_oauth demo_link demo_oauth_sys))" "a \<notin> set (ox_accounts demo_oauth_sys)"
    "oa_user a \<in> u_id ` set (users (ox_auth demo_oauth_sys))"
    using a by (simp_all add: demo_oauth_sys_def)
  note in_s = this
  from link_needs_owner [OF demo_link_run this(1) a(2) this(2,3)] obtain E org and p :: oauth_provider
    where "(E, OLink (Some (oa_user a)) org (op_name p)) \<in> set demo_link" "op_id p = oa_provider a"
    by (elim exE conjE) (rule that)
  then have "OLink (Some ''olga'') org (op_name p) \<in> snd ` set demo_link" "op_id p = oa_provider a"
    using a(3) by (metis image_eqI snd_conv)+
  with in_s(1) a(3) show ?thesis by blast
qed

theorem links_unique_witness: "links_ok (ox_accounts (run_oauth demo_link demo_oauth_sys))"
  by (rule links_unique [OF demo_link_run]) (simp add: demo_oauth_sys_def links_ok_def)

definition demo_unlink :: "(oauth_env \<times> oauth_op) list" where
  "demo_unlink = demo_link @ [(demo_oauth_env ''n3'' (demo_ids ''c''), OUnlink True (Some ''olga'') ''google'')]"

lemma demo_unlink_run:
  "all_fresh demo_unlink demo_oauth_sys \<and>
   \<not> list_ex oa_visible (ox_accounts (run_oauth demo_unlink demo_oauth_sys)) \<and>
   length (ox_accounts (run_oauth demo_unlink demo_oauth_sys)) = 1"
  by (simp add: demo_unlink_def demo_link_def fresh_ids_def oauth_run_defs Let_def)


text \<open>
  A login with the linked account: the tokens come at once, though the user has a second factor.
\<close>

definition demo_relogin :: "(oauth_env \<times> oauth_op) list" where
  "demo_relogin = demo_link @ [(demo_oauth_env ''n4'' (demo_ids ''d''), OInitiate ''google'')]"

lemma demo_relogin_tokens:
  "\<exists>r s' t. HandleCallback (demo_oauth_env ''n5'' (demo_ids ''e'')) True (run_oauth demo_relogin demo_oauth_sys)
       ''google'' ''me'' ''n4'' = (Inr r, s') \<and> refresh_tokens (ox_auth (run_oauth demo_relogin demo_oauth_sys)) = [] \<and>
     refresh_tokens (ox_auth s') = [t] \<and> rt_user_id t = ''olga'' \<and> \<not> rt_is_2fa_pending t \<and>
     list_all u_tf_enabled (users (ox_auth s'))"
  by (simp add: demo_relogin_def demo_link_def oauth_run_defs Let_def)

theorem tokens_follow_identity_witness:
  "\<exists>(s' :: oauth_sys) t a. refresh_tokens (ox_auth s') = [t] \<and> a \<in> set (ox_accounts s') \<and> oa_provider_user a = ''g-me'' \<and>
     oa_user a = rt_user_id t \<and> rt_user_id t = ''olga''"
proof -
  let ?E = "demo_oauth_env ''n5'' (demo_ids ''e'')" and ?s = "run_oauth demo_relogin demo_oauth_sys"
  obtain r s' t where h: "HandleCallback ?E True ?s ''google'' ''me'' ''n4'' = (Inr r, s')"
    "refresh_tokens (ox_auth ?s) = []" "refresh_tokens (ox_auth s') = [t]" "rt_user_id t = ''olga''"
    using demo_relogin_tokens by blast
  then have t: "t \<in> set (refresh_tokens (ox_auth s'))" "t \<notin> set (refresh_tokens (ox_auth ?s))" by simp_all
  from tokens_follow_identity [OF h(1) t]
  obtain st :: login_state and p :: oauth_provider and tokens access raw a where c:
    "exchangeCodeForTokens ?E p ''me'' (ls_callback st) (ls_verifier st) = Inr tokens"
    "getStringFieldOK ?E tokens ''access_token'' = Some access" "fetchUserProfile ?E p access = Inr raw"
    "a \<in> set (ox_accounts s')" "identity_of a = (op_id p, pp_id (normalizeProfile ?E ''google'' raw))"
    "oa_user a = rt_user_id t" by (elim exE conjE) (rule that)
  have "access = ''me''"
    using c(1,2) by (auto simp: exchangeCodeForTokens_def provider_answer_def decode_map_def getStringFieldOK_def
        demo_oauth_env_def split: result_splits)
  then have "pp_id (normalizeProfile ?E ''google'' raw) = ''g-me''"
    using c(3) by (auto simp: fetchUserProfile_def provider_answer_def decode_map_def normalizeProfile_def
        NormalizeGoogleProfile_def getStringField_def getStringFieldOK_def demo_oauth_env_def split: result_splits)
  then have "oa_provider_user a = ''g-me''" using c(5) by (simp add: identity_of_def)
  with c(4,6) h(3,4) show ?thesis by blast
qed

theorem state_used_once_witness:
  "fst (HandleCallback (demo_oauth_env ''n6'' (demo_ids ''f'')) True
      (snd (HandleCallback (demo_oauth_env ''n5'' (demo_ids ''e'')) True (run_oauth demo_relogin demo_oauth_sys)
        ''google'' ''me'' ''n4'')) ''google'' ''me'' ''n4'') =
    Inl (NewAppError ''INVALID_STATE'' ''oauth state not found or expired'' 400)"
proof -
  let ?E = "demo_oauth_env ''n5'' (demo_ids ''e'')" and ?s = "run_oauth demo_relogin demo_oauth_sys"
  have "\<exists>st. fst (ValidateState ?E ?s ''n4'') = Inr st"
    by (simp add: demo_relogin_def demo_link_def oauth_run_defs Let_def)
  then obtain st where "fst (ValidateState ?E ?s ''n4'') = Inr st" ..
  moreover have "\<not> ox_fault ?E (RStateDel ''n4'')" by (simp add: demo_oauth_env_def)
  ultimately show ?thesis
    using state_used_once [of ?E ?s "''n4''" st "[]" "snd (HandleCallback ?E True ?s ''google'' ''me'' ''n4'')" True
        "''google''" "''me''" "demo_oauth_env ''n6'' (demo_ids ''f'')" True "''google''" "''me''"] by simp
qed

text \<open>
  When the account cannot be stored the new user stays, without any way to log in, and the address
  is taken: the next login is told to use the account that nobody can use.
\<close>

lemma failed_sign_up_locks_out:
  "\<exists>s1 s2 msg. s1 = run_oauth [(demo_oauth_env ''n7'' (demo_ids ''g''), OInitiate ''google''),
       (demo_oauth_env ''n8'' (demo_ids ''h'')\<lparr>ox_fault := (\<lambda>q. q = QAccCreate)\<rparr>, OCallback True ''google'' ''new'' ''n7''),
       (demo_oauth_env ''n9'' (demo_ids ''i''), OInitiate ''google'')] demo_oauth_sys \<and>
     methods s1 ''user-h'' = 0 \<and> ''user-h'' \<in> u_id ` set (users (ox_auth s1)) \<and>
     HandleCallback (demo_oauth_env ''n10'' (demo_ids ''j'')) True s1 ''google'' ''new'' ''n9'' =
       (Inr (''https://h/google#error=email_already_exists&message='' @ msg), s2) \<and>
     methods s2 ''user-h'' = 0"
  by (simp add: oauth_run_defs methods_def buildErrorFragmentURL_def QueryEscape_def escape_char_def Let_def)

end
