(* ===== verification/Json_Decode.thy ===== *)
theory Json_Decode
  imports Prelude
begin

text \<open>
  What \<open>encoding/json\<close> does between JSON values and Go values: the order of keys, fields of a
  struct, and values of type \<open>any\<close>.
\<close>

section \<open>Strings in the order of their bytes\<close>

fun bytes_le :: "string \<Rightarrow> string \<Rightarrow> bool" where
  "bytes_le [] t = True"
| "bytes_le (c # s) [] = False"
| "bytes_le (c # s) (d # t) =
     (if c = d then bytes_le s t else (of_char c :: nat) < of_char d)"

lemma bytes_le_refl [simp]: "bytes_le s s"
  by (induction s) simp_all

lemma bytes_le_total: "bytes_le s t \<or> bytes_le t s"
proof (induction s t rule: bytes_le.induct)
  case (3 c s d t)
  have "of_char c < (of_char d :: nat) \<or> of_char d < (of_char c :: nat)" if "c \<noteq> d"
    using that of_char_eq_iff [of c d, where 'a = nat] by (metis neq_iff)
  with 3 show ?case by auto
qed simp_all

lemma bytes_le_antisym: "bytes_le s t \<Longrightarrow> bytes_le t s \<Longrightarrow> s = t"
  by (induction s t rule: bytes_le.induct) (auto split: if_splits elim: bytes_le.elims)

lemma bytes_le_trans: "bytes_le s t \<Longrightarrow> bytes_le t u \<Longrightarrow> bytes_le s u"
proof (induction s t arbitrary: u rule: bytes_le.induct)
  case (3 c s d t)
  then show ?case by (cases u) (auto split: if_splits)
next
  case (2 c s)
  then show ?case by simp
qed simp

definition bytes_less :: "string \<Rightarrow> string \<Rightarrow> bool" where
  "bytes_less s t \<longleftrightarrow> s \<noteq> t \<and> bytes_le s t"

text \<open>\<open>sort.Strings\<close>.\<close>

fun insert_string :: "string \<Rightarrow> string list \<Rightarrow> string list" where
  "insert_string x [] = [x]"
| "insert_string x (y # ys) = (if bytes_le x y then x # y # ys else y # insert_string x ys)"

definition sort_strings :: "string list \<Rightarrow> string list" where
  "sort_strings xs = foldr insert_string xs []"

lemma set_insert_string [simp]: "set (insert_string x ys) = insert x (set ys)"
  by (induction ys) auto

lemma set_sort_strings [simp]: "set (sort_strings xs) = set xs"
  by (induction xs) (simp_all add: sort_strings_def)

lemma distinct_insert_string: "distinct (insert_string x ys) \<longleftrightarrow> x \<notin> set ys \<and> distinct ys"
  by (induction ys) auto

lemma distinct_sort_strings [simp]: "distinct (sort_strings xs) \<longleftrightarrow> distinct xs"
proof (induction xs)
  case (Cons x xs)
  have "set (foldr insert_string xs []) = set xs" using set_sort_strings by (simp add: sort_strings_def)
  with Cons show ?case by (simp add: sort_strings_def distinct_insert_string)
qed (simp add: sort_strings_def)

section \<open>Fields of a struct\<close>

text \<open>
  The key of an object is matched with a field without regard to case. A string field takes the
  texts that match in turn; \<open>null\<close> leaves it, another type is an error of the whole object
  (\<open>None\<close>). A field of type \<open>any\<close> takes the last value that matches.
\<close>

definition string_field :: "string \<Rightarrow> (string \<times> json) list \<Rightarrow> string option" where
  "string_field k entries =
     foldl (\<lambda>found (key, v).
       if to_lower key = k
       then (case (found, v) of
               (Some s, JStr t) \<Rightarrow> Some t
             | (Some s, JNull) \<Rightarrow> Some s
             | _ \<Rightarrow> None)
       else found) (Some []) entries"

definition any_field :: "string \<Rightarrow> (string \<times> json) list \<Rightarrow> json" where
  "any_field k entries = foldl (\<lambda>found (key, v). if to_lower key = k then v else found) JNull entries"

section \<open>Maps\<close>

text \<open>
  A \<open>map[string]any\<close> is the list of its entries in the order of their keys, in which it is
  marshalled; of entries with the same key in the text the last one wins.
\<close>

fun put_entry :: "string \<Rightarrow> 'v \<Rightarrow> (string \<times> 'v) list \<Rightarrow> (string \<times> 'v) list" where
  "put_entry k v [] = [(k, v)]"
| "put_entry k v ((k', v') # es) =
     (if k = k' then (k, v) # es
      else if bytes_le k k' then (k, v) # (k', v') # es
      else (k', v') # put_entry k v es)"

definition go_map :: "(string \<times> 'v) list \<Rightarrow> (string \<times> 'v) list" where
  "go_map entries = foldl (\<lambda>m (k, v). put_entry k v m) [] entries"

fun go_value :: "json \<Rightarrow> json" where
  "go_value (JObj es) = JObj (go_map (map (\<lambda>(k, v). (k, go_value v)) es))"
| "go_value (JArr vs) = JArr (map go_value vs)"
| "go_value v = v"

definition canonical :: "(string \<times> json) list \<Rightarrow> bool" where
  "canonical es \<longleftrightarrow> sorted_wrt (\<lambda>a b. bytes_less (fst a) (fst b)) es \<and> list_all (\<lambda>(k, v). go_value v = v) es"

lemma put_entry_last:
  "list_all (\<lambda>(k', v'). bytes_less k' k) m \<Longrightarrow> put_entry k v m = m @ [(k, v)]"
proof (induction m)
  case (Cons x m)
  obtain k' v' where x: "x = (k', v')" by fastforce
  have "k \<noteq> k'" "\<not> bytes_le k k'"
    using Cons.prems bytes_le_antisym [of k' k] by (auto simp: x bytes_less_def)
  then show ?case using Cons by (simp add: x)
qed simp

lemma go_map_sorted: "sorted_wrt (\<lambda>a b. bytes_less (fst a) (fst b)) es \<Longrightarrow> go_map es = es"
proof -
  have "foldl (\<lambda>m (k, v). put_entry k v m) m es = m @ es"
    if "sorted_wrt (\<lambda>a b. bytes_less (fst a) (fst b)) (m @ es)" for m
    using that
  proof (induction es arbitrary: m)
    case (Cons x es)
    obtain k v where x: "x = (k, v)" by fastforce
    have "list_all (\<lambda>(k', v'). bytes_less k' k) m"
      using Cons.prems by (auto simp: x sorted_wrt_append list_all_iff)
    then have "put_entry k v m = m @ [x]" by (simp add: put_entry_last x)
    then show ?case using Cons.IH [of "m @ [x]"] Cons.prems by (simp add: x)
  qed simp
  then show "sorted_wrt (\<lambda>a b. bytes_less (fst a) (fst b)) es \<Longrightarrow> go_map es = es"
    by (simp add: go_map_def)
qed

lemma go_value_canonical: "canonical es \<Longrightarrow> go_value (JObj es) = JObj es"
proof -
  assume c: "canonical es"
  then have "map (\<lambda>(k, v). (k, go_value v)) es = es"
    by (intro map_idI) (auto simp: canonical_def list_all_iff)
  then show ?thesis using c by (simp add: canonical_def go_map_sorted)
qed

end
