(* ===== verification/Csv_Text.thy ===== *)
theory Csv_Text
  imports Prelude
begin

text \<open>
  What the exports and imports use of \<open>encoding/csv\<close>: a writer with the default settings, and a
  reader that takes records of any length. What the writer writes the reader reads back, unless a
  field holds a carriage return before a line feed.
\<close>

abbreviation LF :: char where "LF \<equiv> CHR 0x0A"
abbreviation CR :: char where "CR \<equiv> CHR 0x0D"
abbreviation QUOTE :: char where "QUOTE \<equiv> CHR 0x22"
abbreviation COMMA :: char where "COMMA \<equiv> CHR '',''"

section \<open>Writer\<close>

definition fieldNeedsQuotes :: "string \<Rightarrow> bool" where
  "fieldNeedsQuotes f \<longleftrightarrow>
     f \<noteq> [] \<and> (f = [CHR 0x5C, CHR ''.''] \<or> list_ex (\<lambda>c. c = LF \<or> c = CR \<or> c = QUOTE \<or> c = COMMA) f \<or> is_space (hd f))"

fun csv_escape :: "string \<Rightarrow> string" where
  "csv_escape [] = []"
| "csv_escape (c # s) = (if c = QUOTE then QUOTE # QUOTE # csv_escape s else c # csv_escape s)"

definition csv_field :: "string \<Rightarrow> string" where
  "csv_field f = (if fieldNeedsQuotes f then QUOTE # csv_escape f @ [QUOTE] else f)"

fun csv_record :: "string list \<Rightarrow> string" where
  "csv_record [] = [LF]"
| "csv_record [f] = csv_field f @ [LF]"
| "csv_record (f # fs) = csv_field f @ COMMA # csv_record fs"

definition csv_write :: "string list list \<Rightarrow> string" where
  "csv_write rows = concat (map csv_record rows)"

section \<open>Reader\<close>

text \<open>
  \<open>readLine\<close>: a carriage return before a line feed is dropped, and one at the end of the input. The
  last line gets a line feed.
\<close>

fun drop_cr :: "string \<Rightarrow> string" where
  "drop_cr (a # b # s) = (if a = CR \<and> b = LF then LF # drop_cr s else a # drop_cr (b # s))"
| "drop_cr s = s"

definition csv_lines :: "string \<Rightarrow> string" where
  "csv_lines text =
     (let t = drop_cr text
      in if t = [] \<or> last t = LF then t else (if last t = CR then butlast t else t) @ [LF])"

text \<open>
  \<open>readRecord\<close> as an automaton over the lines: the fields that have been read, and where the reader
  is. A record is \<open>None\<close> when \<open>Read\<close> returns an error for it, after which the reader goes on with the
  next line. Empty lines are skipped.
\<close>

datatype csv_state = Fresh | FieldStart "string list" | Bare "string list" string
  | Quoted "string list" string | Closing "string list" string | Bad

fun csv_scan :: "csv_state \<Rightarrow> string \<Rightarrow> string list option list" where
  "csv_scan Fresh [] = []"
| "csv_scan Fresh (c # s) =
     (if c = LF then csv_scan Fresh s
      else if c = QUOTE then csv_scan (Quoted [] []) s
      else if c = COMMA then csv_scan (FieldStart [[]]) s
      else csv_scan (Bare [] [c]) s)"
| "csv_scan (FieldStart fs) [] = [Some (fs @ [[]])]"
| "csv_scan (FieldStart fs) (c # s) =
     (if c = LF then Some (fs @ [[]]) # csv_scan Fresh s
      else if c = QUOTE then csv_scan (Quoted fs []) s
      else if c = COMMA then csv_scan (FieldStart (fs @ [[]])) s
      else csv_scan (Bare fs [c]) s)"
| "csv_scan (Bare fs acc) [] = [Some (fs @ [acc])]"
| "csv_scan (Bare fs acc) (c # s) =
     (if c = LF then Some (fs @ [acc]) # csv_scan Fresh s
      else if c = QUOTE then csv_scan Bad s
      else if c = COMMA then csv_scan (FieldStart (fs @ [acc])) s
      else csv_scan (Bare fs (acc @ [c])) s)"
| "csv_scan (Quoted fs acc) [] = [None]"
| "csv_scan (Quoted fs acc) (c # s) =
     (if c = QUOTE then csv_scan (Closing fs acc) s else csv_scan (Quoted fs (acc @ [c])) s)"
| "csv_scan (Closing fs acc) [] = [Some (fs @ [acc])]"
| "csv_scan (Closing fs acc) (c # s) =
     (if c = LF then Some (fs @ [acc]) # csv_scan Fresh s
      else if c = QUOTE then csv_scan (Quoted fs (acc @ [QUOTE])) s
      else if c = COMMA then csv_scan (FieldStart (fs @ [acc])) s
      else csv_scan Bad s)"
| "csv_scan Bad [] = [None]"
| "csv_scan Bad (c # s) = (if c = LF then None # csv_scan Fresh s else csv_scan Bad s)"

definition csv_read :: "string \<Rightarrow> string list option list" where
  "csv_read text = csv_scan Fresh (csv_lines text)"

section \<open>Reading back\<close>

fun no_crlf :: "string \<Rightarrow> bool" where
  "no_crlf (a # b # s) = (\<not> (a = CR \<and> b = LF) \<and> no_crlf (b # s))"
| "no_crlf s = True"

lemma drop_cr_id: "no_crlf s \<Longrightarrow> drop_cr s = s"
  by (induction s rule: no_crlf.induct) auto

lemma no_crlf_append:
  "no_crlf s \<Longrightarrow> no_crlf t \<Longrightarrow> s = [] \<or> t = [] \<or> \<not> (last s = CR \<and> hd t = LF) \<Longrightarrow> no_crlf (s @ t)"
proof (induction s)
  case (Cons a s)
  then show ?case by (cases s; cases t) auto
qed simp

lemma no_crlf_Cons: "c \<noteq> CR \<Longrightarrow> no_crlf (c # s) = no_crlf s"
  by (cases s) auto

lemma no_crlf_escape: "no_crlf s \<Longrightarrow> no_crlf (csv_escape s)"
proof (induction s rule: no_crlf.induct)
  case (1 a b s)
  then have "no_crlf (csv_escape (b # s))" by simp
  moreover have "csv_escape (b # s) \<noteq> [] \<and> hd (csv_escape (b # s)) = b" by simp
  ultimately show ?case using 1(2) by (cases "csv_escape (b # s)") auto
qed simp_all

lemma escape_nonempty [simp]: "csv_escape s = [] \<longleftrightarrow> s = []"
  by (cases s) simp_all

lemma bare_plain:
  "\<not> fieldNeedsQuotes f \<Longrightarrow> list_all (\<lambda>c. c \<noteq> LF \<and> c \<noteq> CR \<and> c \<noteq> QUOTE \<and> c \<noteq> COMMA) f"
  by (cases "f = []") (auto simp: fieldNeedsQuotes_def list_ex_iff list_all_iff)

lemma no_crlf_plain: "list_all (\<lambda>c. c \<noteq> CR) s \<Longrightarrow> no_crlf s"
  by (induction s rule: no_crlf.induct) auto

lemma no_crlf_field:
  assumes "no_crlf f"
  shows "no_crlf (csv_field f) \<and> (csv_field f = [] \<or> last (csv_field f) \<noteq> CR)"
proof (cases "fieldNeedsQuotes f")
  case True
  have "no_crlf (csv_escape f @ [QUOTE])" using no_crlf_append [OF no_crlf_escape [OF assms], of "[QUOTE]"] by simp
  then show ?thesis using True by (simp add: csv_field_def no_crlf_Cons)
next
  case False
  note p = bare_plain [OF False]
  have "list_all (\<lambda>c. c \<noteq> CR) f" using p by (auto simp: list_all_iff)
  then show ?thesis using False no_crlf_plain by (auto simp: csv_field_def list_all_iff dest: last_in_set)
qed

lemma csv_record_shape:
  "list_all no_crlf fs \<Longrightarrow> no_crlf (csv_record fs) \<and> csv_record fs \<noteq> [] \<and> last (csv_record fs) = LF"
proof (induction fs rule: csv_record.induct)
  case (2 f)
  then show ?case using no_crlf_field [of f] no_crlf_append [of "csv_field f" "[LF]"] by auto
next
  case (3 f g fs)
  then have rest: "no_crlf (csv_record (g # fs))" "csv_record (g # fs) \<noteq> []" "last (csv_record (g # fs)) = LF" by simp_all
  have "no_crlf (COMMA # csv_record (g # fs))" using rest by (simp add: no_crlf_Cons)
  then have "no_crlf (csv_field f @ COMMA # csv_record (g # fs))"
    using no_crlf_field [of f] 3(2) no_crlf_append [of "csv_field f" "COMMA # csv_record (g # fs)"] by simp
  then show ?case using rest by simp
qed simp

lemma csv_write_shape:
  "list_all (list_all no_crlf) rows \<Longrightarrow> no_crlf (csv_write rows) \<and> (csv_write rows = [] \<or> last (csv_write rows) = LF)"
proof (induction rows)
  case (Cons r rows)
  then have w: "no_crlf (csv_write rows)" "csv_write rows = [] \<or> last (csv_write rows) = LF" by simp_all
  have r: "no_crlf (csv_record r)" "csv_record r \<noteq> []" "last (csv_record r) = LF" using csv_record_shape Cons.prems by auto
  have "no_crlf (csv_record r @ csv_write rows)" using no_crlf_append [OF r(1) w(1)] r(3) by simp
  then show ?case using r w by (auto simp: csv_write_def last_append)
qed (simp add: csv_write_def)

lemma csv_lines_write: "list_all (list_all no_crlf) rows \<Longrightarrow> csv_lines (csv_write rows) = csv_write rows"
  using csv_write_shape [of rows] by (simp add: csv_lines_def drop_cr_id Let_def)

text \<open>The reader goes through one field.\<close>

lemma scan_quoted: "csv_scan (Quoted fs acc) (csv_escape f @ QUOTE # s) = csv_scan (Closing fs (acc @ f)) s"
  by (induction f arbitrary: acc) simp_all

lemma scan_bare:
  "list_all (\<lambda>c. c \<noteq> LF \<and> c \<noteq> CR \<and> c \<noteq> QUOTE \<and> c \<noteq> COMMA) f \<Longrightarrow>
   csv_scan (Bare fs acc) (f @ s) = csv_scan (Bare fs (acc @ f)) s"
  by (induction f arbitrary: acc) simp_all

lemma scan_field:
  "csv_scan (FieldStart fs) (csv_field f @ COMMA # s) = csv_scan (FieldStart (fs @ [f])) s"
  "csv_scan (FieldStart fs) (csv_field f @ LF # s) = Some (fs @ [f]) # csv_scan Fresh s"
proof -
  have "csv_scan (FieldStart fs) (csv_field f @ c # s) =
      (if c = LF then Some (fs @ [f]) # csv_scan Fresh s else csv_scan (FieldStart (fs @ [f])) s)"
    if "c = LF \<or> c = COMMA" for c
  proof (cases "fieldNeedsQuotes f")
    case True
    then show ?thesis using that scan_quoted [of fs "[]" f "c # s"] by (auto simp: csv_field_def)
  next
    case False
    note p = bare_plain [OF False]
    show ?thesis
    proof (cases f)
      case Nil
      then show ?thesis using that by (auto simp: csv_field_def fieldNeedsQuotes_def)
    next
      case (Cons d f')
      then show ?thesis using p that False scan_bare [of f' fs "[d]" "c # s"] by (auto simp: csv_field_def)
    qed
  qed
  then show "csv_scan (FieldStart fs) (csv_field f @ COMMA # s) = csv_scan (FieldStart (fs @ [f])) s"
    "csv_scan (FieldStart fs) (csv_field f @ LF # s) = Some (fs @ [f]) # csv_scan Fresh s" by simp_all
qed

lemma scan_record:
  "row \<noteq> [] \<Longrightarrow> csv_scan (FieldStart fs) (csv_record row @ s) = Some (fs @ row) # csv_scan Fresh s"
proof (induction row arbitrary: fs rule: csv_record.induct)
  case (3 f g row)
  then show ?case by (simp add: scan_field)
qed (simp_all add: scan_field)

text \<open>A record that does not begin with an empty line is read from its first character on as a field is.\<close>

lemma scan_fresh: "s \<noteq> [] \<Longrightarrow> hd s \<noteq> LF \<Longrightarrow> csv_scan Fresh s = csv_scan (FieldStart []) s"
  by (cases s) simp_all

lemma csv_record_hd:
  assumes "row \<noteq> []" and "row \<noteq> [[]]"
  shows "csv_record row \<noteq> [] \<and> hd (csv_record row) \<noteq> LF"
proof (cases row rule: csv_record.cases)
  case (2 f)
  then have "f \<noteq> []" using assms by simp
  then show ?thesis using 2 bare_plain [of f] by (cases f) (auto simp: csv_field_def)
next
  case (3 f g fs)
  then show ?thesis using bare_plain [of f] by (cases f) (auto simp: csv_field_def fieldNeedsQuotes_def)
qed (use assms in simp)

definition writable :: "string list \<Rightarrow> bool" where
  "writable row \<longleftrightarrow> row \<noteq> [] \<and> row \<noteq> [[]] \<and> list_all no_crlf row"

lemma csv_roundtrip:
  assumes "list_all writable rows"
  shows "csv_read (csv_write rows) = map Some rows"
proof -
  have "csv_scan Fresh (csv_write rows) = map Some rows"
    using assms
  proof (induction rows)
    case (Cons row rows)
    then have row: "row \<noteq> []" "row \<noteq> [[]]" by (simp_all add: writable_def)
    have "csv_scan Fresh (csv_record row @ csv_write rows) = csv_scan (FieldStart []) (csv_record row @ csv_write rows)"
      using csv_record_hd [OF row] by (intro scan_fresh) simp_all
    then show ?case using Cons scan_record [OF row(1), of "[]"] by (simp add: csv_write_def)
  qed (simp add: csv_write_def)
  moreover have "list_all (list_all no_crlf) rows"
    using assms by (auto simp: list_all_iff writable_def)
  ultimately show ?thesis by (simp add: csv_read_def csv_lines_write)
qed

end
