(* ===== verification/Port_Format.thy ===== *)
theory Port_Format
  imports Json_Decode Csv_Text Decimal
begin

text \<open>
  The formats of exports and imports: the registry of entity types (\<open>domain/data_portability.go\<close>), the
  checks of an uploaded file (\<open>service/data_portability_validator.go\<close>), newline-delimited JSON
  (\<open>service/format_json.go\<close>) and CSV (\<open>service/format_csv.go\<close>). The text that a library adds to an
  error message is left out; \<open>uuid.Parse\<close> is a parameter.
\<close>

section \<open>Entity types (domain/data_portability.go)\<close>

definition ImportOrder :: "string list" where
  "ImportOrder = [''organizations'', ''roles'', ''permissions'', ''users'', ''org_members'', ''user_roles'',
     ''user_permissions'']"

definition ExportOrder :: "string list" where
  "ExportOrder = [''organizations'', ''roles'', ''permissions'', ''users'', ''org_members'', ''user_roles'',
     ''user_permissions'']"

definition restrictedEntities :: "string list" where
  "restrictedEntities = [''api_keys'', ''two_factor'', ''audit_logs'', ''sessions'', ''webhooks'',
     ''webhook_deliveries'', ''import_jobs'', ''export_jobs'', ''import_id_maps'']"

record entity_registry =
  er_exportable :: "string list"
  er_importable :: "string list"

definition NewEntityRegistry :: entity_registry where
  "NewEntityRegistry = \<lparr>er_exportable = ImportOrder, er_importable = ImportOrder\<rparr>"

definition IsRestricted :: "string \<Rightarrow> bool" where
  "IsRestricted t \<longleftrightarrow> t \<in> set restrictedEntities"

definition IsExportable :: "entity_registry \<Rightarrow> string \<Rightarrow> bool" where
  "IsExportable R t = (if IsRestricted t then False else t \<in> set (er_exportable R))"

definition IsImportable :: "entity_registry \<Rightarrow> string \<Rightarrow> bool" where
  "IsImportable R t = (if IsRestricted t then False else t \<in> set (er_importable R))"

definition GetExportOrder :: "entity_registry \<Rightarrow> string list" where
  "GetExportOrder R = filter (\<lambda>t. t \<in> set (er_exportable R)) ExportOrder"

definition GetImportOrder :: "entity_registry \<Rightarrow> string list" where
  "GetImportOrder R = filter (\<lambda>t. t \<in> set (er_importable R)) ImportOrder"

definition csvJunctionEntities :: "string list" where
  "csvJunctionEntities = [''org_members'', ''user_roles'', ''user_permissions'']"

section \<open>Uploaded files (service/data_portability_validator.go)\<close>

record port_limits =
  dv_max_file_size :: int
  dv_max_entities :: int
  dv_max_records :: int

definition NewDataPortabilityValidator :: port_limits where
  "NewDataPortabilityValidator = \<lparr>dv_max_file_size = 52428800, dv_max_entities = 10000, dv_max_records = 50000\<rparr>"

definition ValidateImportFile :: "port_limits \<Rightarrow> int \<Rightarrow> string \<Rightarrow> int \<Rightarrow> unit result" where
  "ValidateImportFile V fileSize format entityCount =
     (if fileSize > dv_max_file_size V
      then Inl (NewAppError ''PAYLOAD_TOO_LARGE'' ''import file exceeds maximum size limit'' 413)
      else if to_lower format \<notin> {''json'', ''csv''}
      then Inl (NewAppError ''BAD_REQUEST'' ''unsupported import format: must be json or csv'' 400)
      else if entityCount > dv_max_entities V
      then Inl (NewAppError ''PAYLOAD_TOO_LARGE'' ''entity count exceeds maximum limit'' 413)
      else Inr ())"

definition commas :: "string \<Rightarrow> nat" where
  "commas s = length (filter (\<lambda>c. c = COMMA) s)"

definition looksLikeCSV :: "string \<Rightarrow> bool" where
  "looksLikeCSV content =
     (let text = take 512 content; trimmed = trim_space text; lines = str_split LF text
      in if trimmed = [] then False
         else if hd trimmed = CHR ''{'' \<or> hd trimmed = CHR ''['' then False
         else if length lines < 2 then False
         else if commas (lines ! 0) = 0 then False
         else commas (lines ! 1) > 0 \<and> commas (lines ! 0) = commas (lines ! 1))"

definition dangerous_field :: "string \<Rightarrow> bool" where
  "dangerous_field field =
     (let trimmed = trim_space field
      in trimmed \<noteq> [] \<and> list_ex (\<lambda>prefix. has_prefix trimmed prefix) [''='', ''+'', ''-'', ''@''])"

text \<open>\<open>ReadAll\<close> gives up at the first record with an error, and then nothing is checked.\<close>

definition checkCSVInjection :: "string \<Rightarrow> unit result" where
  "checkCSVInjection content =
     (if \<not> looksLikeCSV content then Inr ()
      else case those (csv_read content) of
        None \<Rightarrow> Inr ()
      | Some records \<Rightarrow>
          if list_ex (list_ex dangerous_field) records
          then Inl (NewAppError ''BAD_REQUEST'' ''import file contains potentially dangerous CSV formula'' 400)
          else Inr ())"

definition ValidateFileContent :: "string \<Rightarrow> unit result" where
  "ValidateFileContent content =
     (if content = [] then Inl (NewAppError ''BAD_REQUEST'' ''import file is empty'' 400)
      else checkCSVInjection content)"

section \<open>Entities, records and previews (service/format_json.go)\<close>

text \<open>\<open>ToExportRecord\<close> and \<open>GetEntityType\<close> of an \<open>Exportable\<close>.\<close>

record port_entity =
  pe_type :: string
  pe_record :: "(string \<times> json) list"

text \<open>
  A turn of a cursor: a batch, with the entity before which the context is found cancelled if it
  is; an error of \<open>Next\<close>; a context that is cancelled before. A cursor without turns has no more.
\<close>

datatype cursor_turn = Batch "port_entity list" "nat option" | NextFails go_error | CtxDone

definition ctx_cancelled :: go_error where
  "ctx_cancelled = Opaque ''context canceled''"

definition cursor_error :: "go_error \<Rightarrow> go_error" where
  "cursor_error e = Opaque (''cursor next: '' @ error_text e)"

record import_record =
  ir_type :: string
  ir_id :: uuid
  ir_data :: "(string \<times> json) list"
  ir_errors :: "string list"

record import_preview =
  pv_total :: nat
  pv_by_type :: "string \<Rightarrow> nat"
  pv_errors :: "string list"
  pv_warnings :: "string list"

definition empty_preview :: import_preview where
  "empty_preview = \<lparr>pv_total = 0, pv_by_type = (\<lambda>_. 0), pv_errors = [], pv_warnings = []\<rparr>"

definition preview_error :: "string \<Rightarrow> import_preview \<Rightarrow> import_preview" where
  "preview_error msg pv = pv\<lparr>pv_errors := pv_errors pv @ [msg]\<rparr>"

definition preview_count :: "string \<Rightarrow> import_preview \<Rightarrow> import_preview" where
  "preview_count t pv = pv\<lparr>pv_total := pv_total pv + 1, pv_by_type := (pv_by_type pv)(t := pv_by_type pv t + 1)\<rparr>"

definition in_quotes :: "string \<Rightarrow> string" where
  "in_quotes t = CHR 0x27 # t @ [CHR 0x27]"

definition validation_failed :: go_error where
  "validation_failed = NewAppError ''VALIDATION_ERROR'' ''import validation failed'' 400"

definition maxImportEntities :: nat where "maxImportEntities = 10000"
definition maxNestingDepth :: nat where "maxNestingDepth = 10"

text \<open>The end of both \<open>Validate\<close> methods.\<close>

definition finish_preview :: "import_preview \<Rightarrow> import_preview \<times> unit result" where
  "finish_preview pv =
     (let pv1 = (if pv_total pv > maxImportEntities
                 then preview_error (''total records '' @ itoa (int (pv_total pv)) @ '' exceeds limit of 10000'') pv
                 else pv)
      in (pv1, if pv_errors pv1 \<noteq> [] then Inl validation_failed else Inr ()))"

text \<open>The identifier of a record, when it is a text that \<open>uuid.Parse\<close> takes.\<close>

definition external_id :: "(string \<Rightarrow> uuid option) \<Rightarrow> (string \<times> json) list \<Rightarrow> uuid" where
  "external_id parse data =
     (case map_of data ''id'' of
        Some (JStr s) \<Rightarrow> (case parse s of Some i \<Rightarrow> i | None \<Rightarrow> uuid_nil)
      | _ \<Rightarrow> uuid_nil)"

section \<open>Newline-delimited JSON (service/format_json.go)\<close>

text \<open>
  A line of the file: blank, no JSON, a JSON value (with whether more text follows it), or longer
  than the buffer of the scanner, which then stops.
\<close>

datatype nd_line = Blank | NotJson | Value json bool | TooLong

definition ndjson_record :: "port_entity \<Rightarrow> json" where
  "ndjson_record e =
     JObj [(''type'', JStr (pe_type e)),
           (''id'', JStr (case map_of (pe_record e) ''id'' of Some (JStr s) \<Rightarrow> s | _ \<Rightarrow> [])),
           (''data'', JObj (pe_record e))]"

definition json_lines :: "entity_registry \<Rightarrow> port_entity list \<Rightarrow> json list" where
  "json_lines R es = map ndjson_record (filter (\<lambda>e. IsExportable R (pe_type e)) es)"

fun JSON_Encode :: "entity_registry \<Rightarrow> cursor_turn list \<Rightarrow> json list \<Rightarrow> unit result \<times> json list" where
  "JSON_Encode R [] out = (Inr (), out)"
| "JSON_Encode R (CtxDone # turns) out = (Inl ctx_cancelled, out)"
| "JSON_Encode R (NextFails e # turns) out = (Inl (cursor_error e), out)"
| "JSON_Encode R (Batch es stop # turns) out =
     (if es = [] then (Inr (), out)
      else case stop of
        Some n \<Rightarrow> if n < length es then (Inl ctx_cancelled, out @ json_lines R (take n es))
                   else JSON_Encode R turns (out @ json_lines R es)
      | None \<Rightarrow> JSON_Encode R turns (out @ json_lines R es))"

text \<open>
  Decoding of \<open>ndjsonRecord\<close>; \<open>strict\<close> is \<open>DisallowUnknownFields\<close>. The data is \<open>None\<close> for the nil map;
  entries of a second object are added to the first.
\<close>

definition data_field :: "(string \<times> json) list \<Rightarrow> (string \<times> json) list option option" where
  "data_field entries =
     foldl (\<lambda>found (key, v).
       if to_lower key = ''data''
       then (case (found, v) of
               (Some m, JNull) \<Rightarrow> Some None
             | (Some m, JObj es) \<Rightarrow>
                 Some (Some (foldl (\<lambda>d (k, x). put_entry k (go_value x) d) (case m of None \<Rightarrow> [] | Some d \<Rightarrow> d) es))
             | _ \<Rightarrow> None)
       else found) (Some None) entries"

definition nd_decode :: "bool \<Rightarrow> json \<Rightarrow> (string \<times> string \<times> (string \<times> json) list option) option" where
  "nd_decode strict v =
     (case v of
        JNull \<Rightarrow> Some ([], [], None)
      | JObj entries \<Rightarrow>
          if strict \<and> list_ex (\<lambda>(key, v). to_lower key \<notin> {''type'', ''id'', ''data''}) entries then None
          else (case (string_field ''type'' entries, string_field ''id'' entries, data_field entries) of
                  (Some t, Some i, Some d) \<Rightarrow> Some (t, i, d)
                | _ \<Rightarrow> None)
      | _ \<Rightarrow> None)"

fun nestingDepth :: "json \<Rightarrow> nat" where
  "nestingDepth (JObj es) = 1 + foldr (\<lambda>(k, v) m. max (nestingDepth v) m) es 0"
| "nestingDepth (JArr vs) = 1 + foldr (\<lambda>v m. max (nestingDepth v) m) vs 0"
| "nestingDepth v = 0"

definition at_line :: "nat \<Rightarrow> string \<Rightarrow> string" where
  "at_line n msg = ''line '' @ itoa (int n) @ '': '' @ msg"

text \<open>One line of \<open>Validate\<close>: what is wrong with it, or its type.\<close>

definition json_check :: "entity_registry \<Rightarrow> json \<Rightarrow> string + string" where
  "json_check R v =
     (case nd_decode True v of
        None \<Rightarrow> Inl ''invalid JSON''
      | Some (t, i, data) \<Rightarrow>
          if t = [] then Inl (''missing required field '' @ in_quotes ''type'')
          else case data of
            None \<Rightarrow> Inl (''missing required field '' @ in_quotes ''data'')
          | Some d \<Rightarrow>
              if map_of d ''id'' = None then Inl (''missing required field '' @ in_quotes ''id'' @ '' in data'')
              else if IsRestricted t then Inl (''entity type '' @ in_quotes t @ '' is restricted'')
              else if \<not> IsImportable R t then Inl (''unknown entity type '' @ in_quotes t)
              else if nestingDepth (JObj d) > maxNestingDepth then Inl ''nesting depth exceeds 10''
              else Inr t)"

fun json_validate_loop :: "entity_registry \<Rightarrow> nat \<Rightarrow> nd_line list \<Rightarrow> import_preview \<Rightarrow> import_preview" where
  "json_validate_loop R n [] pv = pv"
| "json_validate_loop R n (Blank # ls) pv = json_validate_loop R (Suc n) ls pv"
| "json_validate_loop R n (NotJson # ls) pv =
     json_validate_loop R (Suc n) ls (preview_error (at_line n ''invalid JSON'') pv)"
| "json_validate_loop R n (TooLong # ls) pv = preview_error ''read error: bufio.Scanner: token too long'' pv"
| "json_validate_loop R n (Value v trailing # ls) pv =
     json_validate_loop R (Suc n) ls
       (case json_check R v of Inl msg \<Rightarrow> preview_error (at_line n msg) pv | Inr t \<Rightarrow> preview_count t pv)"

definition JSON_Validate :: "entity_registry \<Rightarrow> nd_line list \<Rightarrow> import_preview \<times> unit result" where
  "JSON_Validate R ls = finish_preview (json_validate_loop R 1 ls empty_preview)"

fun index_of :: "string \<Rightarrow> string list \<Rightarrow> nat option" where
  "index_of x [] = None"
| "index_of x (y # ys) = (if x = y then Some 0 else map_option Suc (index_of x ys))"

text \<open>One line of \<open>Decode\<close>, with the order of the last type that was in order.\<close>

definition json_decode_line ::
    "(string \<Rightarrow> uuid option) \<Rightarrow> entity_registry \<Rightarrow> nat \<Rightarrow> int \<Rightarrow> json \<Rightarrow> bool \<Rightarrow> import_record \<times> int" where
  "json_decode_line parse R n prev v trailing =
     (case (if trailing then None else nd_decode False v) of
        None \<Rightarrow> (\<lparr>ir_type = [], ir_id = uuid_nil, ir_data = [], ir_errors = [at_line n ''invalid JSON'']\<rparr>, prev)
      | Some (t, i, data) \<Rightarrow>
          let d = (case data of None \<Rightarrow> [] | Some d \<Rightarrow> d);
              bad = (\<lambda>msg. \<lparr>ir_type = t, ir_id = uuid_nil, ir_data = d, ir_errors = [at_line n msg]\<rparr>)
          in if t = []
             then (\<lparr>ir_type = [], ir_id = uuid_nil, ir_data = [], ir_errors = [at_line n ''missing type field'']\<rparr>, prev)
             else if IsRestricted t then (bad (''entity type '' @ in_quotes t @ '' is restricted''), prev)
             else if \<not> IsImportable R t then (bad (''unknown entity type '' @ in_quotes t), prev)
             else case index_of t (GetImportOrder R) of
               Some k \<Rightarrow>
                 if int k < prev then (bad (''entity type '' @ in_quotes t @ '' out of topological order''), prev)
                 else (\<lparr>ir_type = t, ir_id = external_id parse d, ir_data = d, ir_errors = []\<rparr>, int k)
             | None \<Rightarrow> (\<lparr>ir_type = t, ir_id = external_id parse d, ir_data = d, ir_errors = []\<rparr>, prev))"

fun json_decode_loop ::
    "(string \<Rightarrow> uuid option) \<Rightarrow> entity_registry \<Rightarrow> nat \<Rightarrow> int \<Rightarrow> nd_line list \<Rightarrow> import_record list" where
  "json_decode_loop parse R n prev [] = []"
| "json_decode_loop parse R n prev (Blank # ls) = json_decode_loop parse R (Suc n) prev ls"
| "json_decode_loop parse R n prev (TooLong # ls) = []"
| "json_decode_loop parse R n prev (NotJson # ls) =
     \<lparr>ir_type = [], ir_id = uuid_nil, ir_data = [], ir_errors = [at_line n ''invalid JSON'']\<rparr> #
       json_decode_loop parse R (Suc n) prev ls"
| "json_decode_loop parse R n prev (Value v trailing # ls) =
     (case json_decode_line parse R n prev v trailing of
        (r, prev') \<Rightarrow> r # json_decode_loop parse R (Suc n) prev' ls)"

definition JSON_Decode :: "(string \<Rightarrow> uuid option) \<Rightarrow> entity_registry \<Rightarrow> nd_line list \<Rightarrow> import_record list" where
  "JSON_Decode parse R ls = json_decode_loop parse R 1 (- 1) ls"

section \<open>CSV (service/format_csv.go)\<close>

text \<open>\<open>fmt.Sprintf("%v")\<close> of a value; its numbers are whole and the keys of its maps are in order.\<close>

fun json_words :: "string list \<Rightarrow> string" where
  "json_words [] = []"
| "json_words [w] = w"
| "json_words (w # ws) = w @ '' '' @ json_words ws"

fun sprint_value :: "json \<Rightarrow> string" where
  "sprint_value JNull = ''<nil>''"
| "sprint_value (JBool b) = (if b then ''true'' else ''false'')"
| "sprint_value (JNum i) = itoa i"
| "sprint_value (JStr s) = s"
| "sprint_value (JArr vs) = ''['' @ json_words (map sprint_value vs) @ '']''"
| "sprint_value (JObj es) = ''map['' @ json_words (map (\<lambda>(k, v). k @ '':'' @ sprint_value v) es) @ '']''"

definition formatCSVValue :: "json \<Rightarrow> string" where
  "formatCSVValue v = (case v of JNull \<Rightarrow> [] | JStr s \<Rightarrow> s | _ \<Rightarrow> sprint_value v)"

text \<open>The entities that are collected, until the cursor is empty or an error ends the export.\<close>

definition csv_entities :: "entity_registry \<Rightarrow> port_entity list \<Rightarrow> port_entity list" where
  "csv_entities R es = filter (\<lambda>e. IsExportable R (pe_type e) \<and> pe_type e \<notin> set csvJunctionEntities) es"

fun csv_collect :: "entity_registry \<Rightarrow> cursor_turn list \<Rightarrow> port_entity list \<Rightarrow> port_entity list result" where
  "csv_collect R [] es = Inr es"
| "csv_collect R (CtxDone # turns) es = Inl ctx_cancelled"
| "csv_collect R (NextFails e # turns) es = Inl (cursor_error e)"
| "csv_collect R (Batch batch stop # turns) es =
     (if batch = [] then Inr es
      else case stop of
        Some n \<Rightarrow> if n < length batch then Inl ctx_cancelled else csv_collect R turns (es @ csv_entities R batch)
      | None \<Rightarrow> csv_collect R turns (es @ csv_entities R batch))"

definition csv_keys :: "port_entity list \<Rightarrow> string list" where
  "csv_keys es = sort_strings (remdups (concat (map (\<lambda>e. map fst (pe_record e)) es)))"

definition csv_row :: "string list \<Rightarrow> port_entity \<Rightarrow> string list" where
  "csv_row keys e =
     pe_type e # map (\<lambda>k. case map_of (pe_record e) k of None \<Rightarrow> [] | Some v \<Rightarrow> formatCSVValue v) keys"

definition CSV_Encode :: "entity_registry \<Rightarrow> cursor_turn list \<Rightarrow> unit result \<times> string" where
  "CSV_Encode R turns =
     (case csv_collect R turns [] of
        Inl err \<Rightarrow> (Inl err, [])
      | Inr es \<Rightarrow>
          if es = [] then (Inr (), [])
          else (Inr (), csv_write ((''_type'' # csv_keys es) # map (csv_row (csv_keys es)) es)))"

definition at_row :: "nat \<Rightarrow> string \<Rightarrow> string" where
  "at_row n msg = ''row '' @ itoa (int n) @ '': '' @ msg"

text \<open>What is wrong with a row that has been parsed, or its type.\<close>

definition csv_check :: "entity_registry \<Rightarrow> nat \<Rightarrow> string list \<Rightarrow> string \<times> string + string" where
  "csv_check R typeCol row =
     (if length row \<le> typeCol then Inl ([], ''missing _type column'')
      else let t = row ! typeCol
           in if t \<in> set csvJunctionEntities
              then Inl (t, ''entity type '' @ in_quotes t @ '' is not supported in CSV format (junction entity)'')
              else if IsRestricted t then Inl (t, ''entity type '' @ in_quotes t @ '' is restricted'')
              else if \<not> IsImportable R t then Inl (t, ''unknown entity type '' @ in_quotes t)
              else Inr t)"

fun csv_validate_loop :: "entity_registry \<Rightarrow> nat \<Rightarrow> nat \<Rightarrow> string list option list \<Rightarrow> import_preview \<Rightarrow> import_preview" where
  "csv_validate_loop R typeCol n [] pv = pv"
| "csv_validate_loop R typeCol n (None # rows) pv =
     csv_validate_loop R typeCol n rows (preview_error (at_row n ''parse error'') pv)"
| "csv_validate_loop R typeCol n (Some row # rows) pv =
     csv_validate_loop R typeCol (Suc n) rows
       (case csv_check R typeCol row of
          Inl (t, msg) \<Rightarrow> preview_error (at_row (Suc n) msg) pv
        | Inr t \<Rightarrow> preview_count t pv)"

definition csv_warnings :: "import_preview \<Rightarrow> import_preview" where
  "csv_warnings pv = pv\<lparr>pv_warnings := pv_warnings pv @
     map (\<lambda>t. ''CSV format does not support junction entity '' @ in_quotes t @ ''; these records will be skipped'')
       (filter (\<lambda>t. pv_by_type pv t > 0) csvJunctionEntities)\<rparr>"

definition CSV_Validate :: "entity_registry \<Rightarrow> string \<Rightarrow> import_preview \<times> unit result" where
  "CSV_Validate R text =
     (let fail = (\<lambda>msg. (preview_error msg empty_preview, Inl validation_failed))
      in case csv_read text of
           [] \<Rightarrow> fail ''empty CSV: no header row''
         | None # rows \<Rightarrow> fail ''read header''
         | Some headers # rows \<Rightarrow>
             if headers = [] then fail ''CSV header is empty''
             else (case index_of ''_type'' headers of
                     None \<Rightarrow> fail (''CSV header missing required column '' @ in_quotes ''_type'')
                   | Some typeCol \<Rightarrow>
                       if index_of ''id'' headers = None then fail (''CSV header missing required column '' @ in_quotes ''id'')
                       else case finish_preview (csv_validate_loop R typeCol 1 rows empty_preview) of
                              (pv, r) \<Rightarrow> (csv_warnings pv, r)))"

text \<open>The data of a row: the columns that it has, but for the type; of equal headers the last.\<close>

definition csv_data :: "string list \<Rightarrow> string list \<Rightarrow> (string \<times> json) list" where
  "csv_data headers row = go_map (filter (\<lambda>(h, v). h \<noteq> ''_type'') (zip headers (map JStr row)))"

fun csv_decode_loop ::
    "(string \<Rightarrow> uuid option) \<Rightarrow> entity_registry \<Rightarrow> string list \<Rightarrow> nat \<Rightarrow> nat \<Rightarrow> string list option list \<Rightarrow>
     import_record list" where
  "csv_decode_loop parse R headers typeCol n [] = []"
| "csv_decode_loop parse R headers typeCol n (None # rows) =
     \<lparr>ir_type = [], ir_id = uuid_nil, ir_data = [], ir_errors = [at_row n ''parse error'']\<rparr> #
       csv_decode_loop parse R headers typeCol n rows"
| "csv_decode_loop parse R headers typeCol n (Some row # rows) =
     (case csv_check R typeCol row of
        Inl (t, msg) \<Rightarrow> \<lparr>ir_type = t, ir_id = uuid_nil, ir_data = [], ir_errors = [at_row (Suc n) msg]\<rparr>
      | Inr t \<Rightarrow>
          let data = csv_data headers row
          in \<lparr>ir_type = t, ir_id = external_id parse data, ir_data = data, ir_errors = []\<rparr>) #
       csv_decode_loop parse R headers typeCol (Suc n) rows"

definition CSV_Decode :: "(string \<Rightarrow> uuid option) \<Rightarrow> entity_registry \<Rightarrow> string \<Rightarrow> import_record list result" where
  "CSV_Decode parse R text =
     (case csv_read text of
        [] \<Rightarrow> Inl (Opaque ''read CSV header: EOF'')
      | None # rows \<Rightarrow> Inl (Opaque ''read CSV header'')
      | Some headers # rows \<Rightarrow>
          (case index_of ''_type'' headers of
             None \<Rightarrow> Inl (Opaque (''CSV header missing required column '' @ in_quotes ''_type''))
           | Some typeCol \<Rightarrow> Inr (csv_decode_loop parse R headers typeCol 1 rows)))"

end
