(* ===== verification/Port_Codec.thy ===== *)
theory Port_Codec
  imports Port_Format
begin

text \<open>
  What the two formats promise: a file that \<open>Validate\<close> accepts is decoded without errors, for JSON
  when its types are in the order of imports and no line has more than one value; and an export is
  decoded to the entities it was made of.
\<close>

section \<open>The contract of a format\<close>

locale port_codec =
  fixes validate :: "'f \<Rightarrow> import_preview \<times> unit result"
    and decode :: "'f \<Rightarrow> import_record list"
    and regular :: "'f \<Rightarrow> bool"
  assumes small: "validate f = (pv, Inr ()) \<Longrightarrow> pv_total pv \<le> maxImportEntities"
    and clean: "validate f = (pv, Inr ()) \<Longrightarrow> regular f \<Longrightarrow>
      list_all (\<lambda>r. ir_errors r = []) (decode f) \<and> length (decode f) = pv_total pv"
begin

lemma accepted_size: "validate f = (pv, Inr ()) \<Longrightarrow> regular f \<Longrightarrow> length (decode f) \<le> maxImportEntities"
  using small clean by (metis)

lemma no_bad_records:
  "validate f = (pv, Inr ()) \<Longrightarrow> regular f \<Longrightarrow> filter (\<lambda>r. ir_errors r \<noteq> []) (decode f) = []"
  using clean [of f pv] by (auto simp: filter_empty_conv list_all_iff)

end

lemma preview_error_fields [simp]:
  "pv_total (preview_error m pv) = pv_total pv" "pv_errors (preview_error m pv) = pv_errors pv @ [m]"
  by (simp_all add: preview_error_def)

lemma preview_count_fields [simp]:
  "pv_total (preview_count t pv) = Suc (pv_total pv)" "pv_errors (preview_count t pv) = pv_errors pv"
  by (simp_all add: preview_count_def)

lemma empty_preview_fields [simp]: "pv_total empty_preview = 0" "pv_errors empty_preview = []"
  by (simp_all add: empty_preview_def)

lemma finish_accepts:
  "finish_preview pv = (pv', Inr ()) \<longleftrightarrow> pv' = pv \<and> pv_errors pv = [] \<and> pv_total pv \<le> maxImportEntities"
  by (auto simp: finish_preview_def Let_def)

section \<open>CSV\<close>

definition good_row :: "entity_registry \<Rightarrow> nat \<Rightarrow> string list option \<Rightarrow> bool" where
  "good_row R c r = (case r of None \<Rightarrow> False | Some row \<Rightarrow> csv_check R c row = Inr (row ! c))"

lemma csv_check_type: "csv_check R c row = Inr t \<Longrightarrow> t = row ! c"
  by (auto simp: csv_check_def Let_def split: if_splits)

lemma csv_errors_stay: "pv_errors pv \<noteq> [] \<Longrightarrow> pv_errors (csv_validate_loop R c n rows pv) \<noteq> []"
  by (induction R c n rows pv rule: csv_validate_loop.induct) (auto split: sum.splits)

lemma csv_validate_clean:
  "pv_errors (csv_validate_loop R c n rows pv) = [] \<Longrightarrow>
   pv_errors pv = [] \<and> list_all (good_row R c) rows \<and>
   pv_total (csv_validate_loop R c n rows pv) = pv_total pv + length rows"
proof (induction R c n rows pv rule: csv_validate_loop.induct)
  case (2 R c n rows pv)
  then show ?case using csv_errors_stay [of "preview_error (at_row n ''parse error'') pv"] by auto
next
  case (3 R c n row rows pv)
  then show ?case
  proof (cases "csv_check R c row")
    case (Inl e)
    then show ?thesis using 3 by (cases e) simp
  next
    case (Inr t)
    then show ?thesis using 3 csv_check_type [OF Inr] by (simp add: good_row_def)
  qed
qed simp

lemma csv_decode_clean:
  "list_all (good_row R c) rows \<Longrightarrow>
   list_all (\<lambda>r. ir_errors r = []) (csv_decode_loop parse R hs c n rows) \<and>
   length (csv_decode_loop parse R hs c n rows) = length rows"
  by (induction parse R hs c n rows rule: csv_decode_loop.induct) (simp_all add: good_row_def Let_def)

definition csv_records :: "(string \<Rightarrow> uuid option) \<Rightarrow> entity_registry \<Rightarrow> string \<Rightarrow> import_record list" where
  "csv_records parse R text = (case CSV_Decode parse R text of Inl e \<Rightarrow> [] | Inr rs \<Rightarrow> rs)"

lemma CSV_Validate_accepts:
  assumes "CSV_Validate R text = (pv, Inr ())"
  obtains headers rows c where "csv_read text = Some headers # rows" "index_of ''_type'' headers = Some c"
    "list_all (good_row R c) rows" "pv_total pv = length rows" "length rows \<le> maxImportEntities"
proof -
  from assms obtain headers rows where r: "csv_read text = Some headers # rows"
    by (auto simp: CSV_Validate_def Let_def split: list.splits option.splits)
  with assms obtain c where c: "index_of ''_type'' headers = Some c"
    by (auto simp: CSV_Validate_def Let_def split: if_splits option.splits)
  define pv0 where "pv0 = csv_validate_loop R c 1 rows empty_preview"
  obtain pv1 res where f: "finish_preview pv0 = (pv1, res)" by fastforce
  have "res = Inr ()" "pv = csv_warnings pv1"
    using assms r c f unfolding pv0_def by (auto simp: CSV_Validate_def Let_def split: if_splits)
  then have "pv_errors pv0 = []" "pv_total pv0 \<le> maxImportEntities" "pv_total pv = pv_total pv0"
    using f finish_accepts [of pv0 pv1] by (simp_all add: csv_warnings_def)
  then show ?thesis
    using that [OF r c] csv_validate_clean [of R c 1 rows empty_preview] unfolding pv0_def by simp
qed

lemma CSV_accepted:
  assumes "CSV_Validate R text = (pv, Inr ())"
  shows "pv_total pv \<le> maxImportEntities"
    and "list_all (\<lambda>r. ir_errors r = []) (csv_records parse R text) \<and> length (csv_records parse R text) = pv_total pv"
proof -
  from CSV_Validate_accepts [OF assms] obtain headers rows c
    where r: "csv_read text = Some headers # rows" "index_of ''_type'' headers = Some c"
      and g: "list_all (good_row R c) rows" and n: "pv_total pv = length rows" "length rows \<le> maxImportEntities"
    by blast
  show "pv_total pv \<le> maxImportEntities" using n by simp
  show "list_all (\<lambda>r. ir_errors r = []) (csv_records parse R text) \<and> length (csv_records parse R text) = pv_total pv"
    using csv_decode_clean [OF g] r n by (simp add: csv_records_def CSV_Decode_def)
qed

interpretation csv_codec: port_codec "CSV_Validate R" "csv_records parse R" "\<lambda>text. True" for R parse
  by unfold_locales (use CSV_accepted in \<open>blast+\<close>)

section \<open>Newline-delimited JSON\<close>

text \<open>The place of a line's type in the order of imports.\<close>

definition line_order :: "entity_registry \<Rightarrow> nd_line \<Rightarrow> nat list" where
  "line_order R l =
     (case l of
        Value v trailing \<Rightarrow>
          (case nd_decode False v of
             Some (t, i, d) \<Rightarrow> (case index_of t (GetImportOrder R) of Some k \<Rightarrow> [k] | None \<Rightarrow> [])
           | None \<Rightarrow> [])
      | _ \<Rightarrow> [])"

definition one_value :: "nd_line \<Rightarrow> bool" where
  "one_value l = (case l of Value v trailing \<Rightarrow> \<not> trailing | _ \<Rightarrow> True)"

definition ordered_file :: "entity_registry \<Rightarrow> nd_line list \<Rightarrow> bool" where
  "ordered_file R ls \<longleftrightarrow> list_all one_value ls \<and> sorted (concat (map (line_order R) ls))"

definition good_line :: "entity_registry \<Rightarrow> nd_line \<Rightarrow> bool" where
  "good_line R l = (case l of Blank \<Rightarrow> True | Value v trailing \<Rightarrow> (\<exists>t. json_check R v = Inr t) | _ \<Rightarrow> False)"

definition value_lines :: "nd_line list \<Rightarrow> nat" where
  "value_lines ls = length (filter (\<lambda>l. l \<noteq> Blank) ls)"

lemma json_errors_stay: "pv_errors pv \<noteq> [] \<Longrightarrow> pv_errors (json_validate_loop R n ls pv) \<noteq> []"
  by (induction R n ls pv rule: json_validate_loop.induct) (auto split: sum.splits)

lemma json_validate_clean:
  "pv_errors (json_validate_loop R n ls pv) = [] \<Longrightarrow>
   pv_errors pv = [] \<and> list_all (good_line R) ls \<and>
   pv_total (json_validate_loop R n ls pv) = pv_total pv + value_lines ls"
proof (induction R n ls pv rule: json_validate_loop.induct)
  case (3 R n ls pv)
  then show ?case using json_errors_stay [of "preview_error (at_line n ''invalid JSON'') pv"] by auto
next
  case (5 R n v trailing ls pv)
  then show ?case
    by (cases "json_check R v") (auto simp: good_line_def value_lines_def)
qed (simp_all add: good_line_def value_lines_def)

lemma json_check_decode:
  assumes "json_check R v = Inr t"
  obtains i d where "nd_decode False v = Some (t, i, Some d)" "t \<noteq> []" "\<not> IsRestricted t" "IsImportable R t"
    "map_of d ''id'' \<noteq> None"
proof -
  from assms obtain t' i d where n: "nd_decode True v = Some (t', i, Some d)"
    by (auto simp: json_check_def split: option.splits if_splits)
  then have "nd_decode False v = Some (t', i, Some d)"
    by (cases v) (auto simp: nd_decode_def split: if_splits)
  then show ?thesis using that assms n by (auto simp: json_check_def split: if_splits option.splits)
qed

lemma json_decode_clean:
  "list_all (good_line R) ls \<Longrightarrow> list_all one_value ls \<Longrightarrow> sorted (concat (map (line_order R) ls)) \<Longrightarrow>
   (\<And>k. k \<in> set (concat (map (line_order R) ls)) \<Longrightarrow> prev \<le> int k) \<Longrightarrow>
   list_all (\<lambda>r. ir_errors r = []) (json_decode_loop parse R n prev ls) \<and>
   length (json_decode_loop parse R n prev ls) = value_lines ls"
proof (induction ls arbitrary: n prev)
  case (Cons l ls)
  show ?case
  proof (cases l)
    case (Value v trailing)
    then obtain t where t: "json_check R v = Inr t" and tr: "\<not> trailing"
      using Cons.prems by (auto simp: good_line_def one_value_def)
    from json_check_decode [OF t] obtain i d where d: "nd_decode False v = Some (t, i, Some d)" "t \<noteq> []"
      "\<not> IsRestricted t" "IsImportable R t" by blast
    define r where "r = \<lparr>ir_type = t, ir_id = external_id parse d, ir_data = d, ir_errors = []\<rparr>"
    have rest: "list_all (\<lambda>r. ir_errors r = []) (json_decode_loop parse R (Suc n) p ls) \<and>
        length (json_decode_loop parse R (Suc n) p ls) = value_lines ls"
      if "\<And>k. k \<in> set (concat (map (line_order R) ls)) \<Longrightarrow> p \<le> int k" for p
      using Cons.IH [OF _ _ _ that] Cons.prems by (simp add: sorted_append)
    show ?thesis
    proof (cases "index_of t (GetImportOrder R)")
      case None
      then have "json_decode_line parse R n prev v trailing = (r, prev)" using d tr by (simp add: json_decode_line_def r_def)
      then show ?thesis using rest [of prev] Cons.prems(4) Value by (simp add: value_lines_def r_def)
    next
      case (Some k)
      then have lo: "line_order R l = [k]" using Value d by (simp add: line_order_def)
      then have "prev \<le> int k" and "\<And>j. j \<in> set (concat (map (line_order R) ls)) \<Longrightarrow> int k \<le> int j"
        using Cons.prems by (auto simp: sorted_append)
      moreover from this have "json_decode_line parse R n prev v trailing = (r, int k)"
        using d tr Some by (simp add: json_decode_line_def r_def)
      ultimately show ?thesis using rest [of "int k"] Value by (simp add: value_lines_def r_def)
    qed
  qed (use Cons in \<open>auto simp: good_line_def value_lines_def line_order_def one_value_def\<close>)
qed (simp add: value_lines_def)

lemma JSON_accepted:
  assumes "JSON_Validate R ls = (pv, Inr ())"
  shows "pv_total pv \<le> maxImportEntities"
    and "ordered_file R ls \<Longrightarrow>
      list_all (\<lambda>r. ir_errors r = []) (JSON_Decode parse R ls) \<and> length (JSON_Decode parse R ls) = pv_total pv"
proof -
  define pv0 where "pv0 = json_validate_loop R 1 ls empty_preview"
  have a: "pv = pv0" "pv_errors pv0 = []" "pv_total pv0 \<le> maxImportEntities"
    using assms unfolding JSON_Validate_def pv0_def [symmetric] finish_accepts by auto
  then have g: "list_all (good_line R) ls" "pv_total pv = value_lines ls"
    using json_validate_clean [of R 1 ls empty_preview] unfolding pv0_def by simp_all
  show "pv_total pv \<le> maxImportEntities" using a by simp
  assume "ordered_file R ls"
  then show "list_all (\<lambda>r. ir_errors r = []) (JSON_Decode parse R ls) \<and> length (JSON_Decode parse R ls) = pv_total pv"
    using json_decode_clean [OF g(1), of "- 1" parse 1] g(2) by (simp add: ordered_file_def JSON_Decode_def)
qed

interpretation json_codec: port_codec "JSON_Validate R" "JSON_Decode parse R" "ordered_file R" for R parse
  by unfold_locales (use JSON_accepted in \<open>blast+\<close>)

section \<open>Exports read back\<close>

lemma bytes_less_trans: "bytes_less s t \<Longrightarrow> bytes_less t u \<Longrightarrow> bytes_less s u"
  unfolding bytes_less_def using bytes_le_trans bytes_le_antisym by blast

lemma sorted_insert_string:
  "sorted_wrt bytes_less ys \<Longrightarrow> x \<notin> set ys \<Longrightarrow> sorted_wrt bytes_less (insert_string x ys)"
proof (induction ys)
  case (Cons y ys)
  show ?case
  proof (cases "bytes_le x y")
    case True
    then have "bytes_less x y" using Cons.prems by (auto simp: bytes_less_def)
    moreover from this have "\<forall>z\<in>set ys. bytes_less x z" using Cons.prems(1) bytes_less_trans by fastforce
    ultimately show ?thesis using True Cons.prems(1) by simp
  next
    case False
    then have "bytes_less y x" using bytes_le_total [of x y] Cons.prems by (auto simp: bytes_less_def)
    then show ?thesis using False Cons by simp
  qed
qed simp

lemma sorted_sort_strings: "distinct xs \<Longrightarrow> sorted_wrt bytes_less (sort_strings xs)"
proof (induction xs)
  case (Cons x xs)
  have "set (foldr insert_string xs []) = set xs" using set_sort_strings by (simp add: sort_strings_def)
  with Cons show ?case by (simp add: sort_strings_def sorted_insert_string)
qed (simp add: sort_strings_def)

lemma sorted_strings_unique:
  "sorted_wrt bytes_less xs \<Longrightarrow> sorted_wrt bytes_less ys \<Longrightarrow> set xs = set ys \<Longrightarrow> xs = ys"
proof (induction xs arbitrary: ys)
  case (Cons x xs)
  then obtain y zs where ys: "ys = y # zs" by (cases ys) auto
  have irrefl: "\<not> bytes_less u u" for u by (simp add: bytes_less_def)
  have "x = y"
  proof (rule ccontr)
    assume "x \<noteq> y"
    then have "bytes_less x y" "bytes_less y x" using Cons.prems by (auto simp: ys)
    then show False using bytes_less_trans irrefl by blast
  qed
  moreover have "x \<notin> set xs" "y \<notin> set zs" using Cons.prems irrefl by (auto simp: ys)
  ultimately have "set xs = set zs" using Cons.prems by (auto simp: ys)
  then show ?case using Cons ys \<open>x = y\<close> by simp
qed simp

text \<open>
  Entities with the columns \<open>ks\<close>, which are in order, and texts in them. What the decoder makes of an
  entity is its type and its data, with the identifier when it is one.
\<close>

definition text_entity :: "string list \<Rightarrow> port_entity \<Rightarrow> bool" where
  "text_entity ks e \<longleftrightarrow> IsExportable NewEntityRegistry (pe_type e) \<and> pe_type e \<notin> set csvJunctionEntities \<and>
     map fst (pe_record e) = ks \<and> list_all (\<lambda>(k, v). case v of JStr s \<Rightarrow> no_crlf s | _ \<Rightarrow> False) (pe_record e)"

definition imported_as :: "(string \<Rightarrow> uuid option) \<Rightarrow> port_entity \<Rightarrow> import_record" where
  "imported_as parse e = \<lparr>ir_type = pe_type e, ir_id = external_id parse (pe_record e), ir_data = pe_record e, ir_errors = []\<rparr>"

lemma exportable_types:
  "IsExportable NewEntityRegistry t \<longleftrightarrow> t \<in> set ImportOrder" "IsImportable NewEntityRegistry t \<longleftrightarrow> t \<in> set ImportOrder"
  by (auto simp: IsExportable_def IsImportable_def NewEntityRegistry_def IsRestricted_def restrictedEntities_def ImportOrder_def)

lemma importable_unrestricted: "t \<in> set ImportOrder \<Longrightarrow> \<not> IsRestricted t \<and> t \<noteq> [] \<and> no_crlf t"
  by (auto simp: IsRestricted_def restrictedEntities_def ImportOrder_def)

lemma csv_keys_columns:
  assumes "sorted_wrt bytes_less ks" and "es \<noteq> []" and "list_all (\<lambda>e. map fst (pe_record e) = ks) es"
  shows "csv_keys es = ks"
proof (rule sorted_strings_unique)
  show "set (csv_keys es) = set ks" using assms(2,3) by (cases es) (auto simp: csv_keys_def list_all_iff)
qed (use assms(1) in \<open>simp_all add: csv_keys_def sorted_sort_strings\<close>)

lemma sorted_keys_distinct: "sorted_wrt bytes_less ks \<Longrightarrow> distinct ks"
  by (induction ks) (auto simp: bytes_less_def)

lemma text_row:
  assumes "text_entity ks e" and "sorted_wrt bytes_less ks"
  shows "csv_row ks e = pe_type e # map (\<lambda>(k, v). formatCSVValue v) (pe_record e)"
    and "zip ks (map JStr (tl (csv_row ks e))) = pe_record e"
proof -
  have d: "distinct (map fst (pe_record e))" and ks: "map fst (pe_record e) = ks"
    using assms sorted_keys_distinct by (auto simp: text_entity_def)
  have "map (\<lambda>k. case map_of (pe_record e) k of None \<Rightarrow> [] | Some v \<Rightarrow> formatCSVValue v) (map fst (pe_record e)) =
      map (\<lambda>(k, v). formatCSVValue v) (pe_record e)"
    using map_of_is_SomeI [OF d] by (auto simp: comp_def)
  then show row: "csv_row ks e = pe_type e # map (\<lambda>(k, v). formatCSVValue v) (pe_record e)"
    using ks by (simp add: csv_row_def)
  have "map (\<lambda>(k, v). JStr (formatCSVValue v)) (pe_record e) = map snd (pe_record e)"
    using assms by (intro map_cong) (auto simp: text_entity_def list_all_iff formatCSVValue_def split: json.splits)
  then have "map JStr (tl (csv_row ks e)) = map snd (pe_record e)" by (simp add: row comp_def case_prod_beta)
  then show "zip ks (map JStr (tl (csv_row ks e))) = pe_record e" by (simp flip: ks add: zip_map_fst_snd)
qed

lemma sorted_entries: "sorted_wrt bytes_less (map fst m) \<Longrightarrow> sorted_wrt (\<lambda>a b. bytes_less (fst a) (fst b)) m"
  by (simp add: sorted_wrt_map)

lemma text_decode:
  assumes "list_all (text_entity ks) es" and "sorted_wrt bytes_less ks" and "''_type'' \<notin> set ks"
  shows "csv_decode_loop parse NewEntityRegistry (''_type'' # ks) 0 n (map (\<lambda>e. Some (csv_row ks e)) es) =
    map (imported_as parse) es"
  using assms(1)
proof (induction es arbitrary: n)
  case (Cons e es)
  then have e: "text_entity ks e" by simp
  have t: "csv_check NewEntityRegistry 0 (csv_row ks e) = Inr (pe_type e)"
    using e importable_unrestricted [of "pe_type e"] exportable_types
    by (auto simp: csv_check_def csv_row_def text_entity_def)
  have "csv_data (''_type'' # ks) (csv_row ks e) = go_map (pe_record e)"
  proof -
    have "filter (\<lambda>(h, v). h \<noteq> ''_type'') (pe_record e) = pe_record e"
      using e assms(3) by (intro filter_True) (force simp: text_entity_def)
    then show ?thesis using text_row [OF e assms(2)] by (simp add: csv_data_def)
  qed
  also have "\<dots> = pe_record e"
    using e assms(2) by (intro go_map_sorted sorted_entries) (simp add: text_entity_def)
  finally show ?case using t Cons by (simp add: imported_as_def Let_def)
qed simp

lemma text_rows_writable:
  assumes "list_all (text_entity ks) es" and "sorted_wrt bytes_less ks" and "list_all no_crlf ks"
  shows "list_all writable ((''_type'' # ks) # map (csv_row ks) es)"
proof -
  have "writable (csv_row ks e)" if "e \<in> set es" for e
  proof -
    have e: "text_entity ks e" using assms(1) that by (simp add: list_all_iff)
    have "list_all no_crlf (map (\<lambda>(k, v). formatCSVValue v) (pe_record e))"
      using e by (auto simp: text_entity_def list_all_iff formatCSVValue_def split: json.splits)
    then show ?thesis
      using text_row(1) [OF e assms(2)] e importable_unrestricted [of "pe_type e"] exportable_types
      by (simp add: writable_def text_entity_def)
  qed
  then show ?thesis using assms(3) by (simp add: writable_def list_all_iff)
qed

lemma text_entities_kept: "list_all (text_entity ks) es \<Longrightarrow> csv_entities NewEntityRegistry es = es"
  by (induction es) (simp_all add: csv_entities_def text_entity_def)


definition demo_entities :: "port_entity list" where
  "demo_entities = [\<lparr>pe_type = ''roles'', pe_record = [(''id'', JStr ''r1''), (''name'', JStr [QUOTE, COMMA, LF])]\<rparr>,
     \<lparr>pe_type = ''users'', pe_record = [(''id'', JStr ''u1''), (''name'', JStr []) ]\<rparr>]"

lemma demo_entities_text: "list_all (text_entity [''id'', ''name'']) demo_entities"
  by (simp add: demo_entities_def text_entity_def exportable_types ImportOrder_def csvJunctionEntities_def)


end
