(* ===== verification/Port_Jobs.thy ===== *)
theory Port_Jobs
  imports Port_Format Webhook_Sign Sliding_Window Request_Env
begin

text \<open>
  The rows of exports and imports (\<open>domain/export_job.go\<close>, \<open>domain/import_job.go\<close>,
  \<open>domain/import_id_map.go\<close>), their repositories (\<open>repository/export_job.go\<close>, \<open>import_job.go\<close>,
  \<open>import_id_map.go\<close>), events (\<open>domain/data_portability_events.go\<close>) and signatures
  (\<open>service/data_portability_sign.go\<close>).

  Every query may fail; a failing insert also stands for an organization that does not exist. Rows
  stay when they are deleted softly. The statuses are constructors.
\<close>

datatype port_status = PQueued | PValidating | PProcessing | PCompleted | PFailed | PCancelled

section \<open>Rows\<close>

record export_job =
  ej_id :: uuid
  ej_status :: port_status
  ej_types :: "string list option"
  ej_format :: string
  ej_org :: "uuid option"
  ej_created_by :: uuid
  ej_file_path :: "string option"
  ej_file_expires_at :: "instant option"
  ej_record_count :: "int option"
  ej_error :: "string option"
  ej_hmac :: "string option"
  ej_sync :: bool
  ej_created_at :: instant
  ej_updated_at :: instant
  ej_deleted_at :: "instant option"

record entity_result =
  et_created :: nat
  et_skipped :: nat
  et_failed :: nat
  et_overwritten :: nat

record import_result =
  ip_types :: "(string \<times> entity_result) list"
  ip_created :: nat
  ip_skipped :: nat
  ip_failed :: nat
  ip_overwritten :: nat

record import_job =
  ij_id :: uuid
  ij_status :: port_status
  ij_types :: "string list"
  ij_format :: string
  ij_org :: "uuid option"
  ij_created_by :: uuid
  ij_strategy :: string
  ij_dry_run :: bool
  ij_source_path :: "string option"
  ij_key :: "string option"
  ij_result :: "import_result option"
  ij_error :: "string option"
  ij_started_at :: "instant option"
  ij_created_at :: instant
  ij_updated_at :: instant
  ij_deleted_at :: "instant option"

record id_mapping =
  im_id :: uuid
  im_job :: uuid
  im_type :: string
  im_external :: uuid
  im_internal :: uuid
  im_created_at :: instant

text \<open>The responses have the fields of the rows but for the deletion, and for imports the start.\<close>

definition ej_ToResponse :: "export_job \<Rightarrow> export_job" where
  "ej_ToResponse j = j\<lparr>ej_deleted_at := None\<rparr>"

definition ij_ToResponse :: "import_job \<Rightarrow> import_job" where
  "ij_ToResponse j = j\<lparr>ij_started_at := None, ij_deleted_at := None\<rparr>"

section \<open>Events\<close>

datatype port_event_type = ExportCreated | ExportCompleted | ExportFailed | ImportCreated | ImportCompleted | ImportFailed

record port_event =
  pt_type :: port_event_type
  pt_job :: uuid
  pt_org :: "uuid option"
  pt_types :: "string list"
  pt_time :: instant

definition NewPortEvent :: "instant \<Rightarrow> port_event_type \<Rightarrow> uuid \<Rightarrow> uuid option \<Rightarrow> string list \<Rightarrow> port_event" where
  "NewPortEvent now ty job org types = \<lparr>pt_type = ty, pt_job = job, pt_org = org, pt_types = types, pt_time = now\<rparr>"

section \<open>Signatures\<close>

definition SignDataPortabilityFile :: "mac \<Rightarrow> string \<Rightarrow> string \<Rightarrow> string" where
  "SignDataPortabilityFile hmac payload secret =
     ''sha256='' @ hex_encode (hmac (trim_prefix secret ''whsec_'') payload)"

definition VerifyDataPortabilitySignature :: "mac \<Rightarrow> string \<Rightarrow> string \<Rightarrow> string \<Rightarrow> bool" where
  "VerifyDataPortabilitySignature hmac payload signature secret =
     (signature = ''sha256='' @ hex_encode (hmac (trim_prefix secret ''whsec_'') payload))"

definition GenerateFileSignature :: "mac \<Rightarrow> string \<Rightarrow> string \<Rightarrow> int \<Rightarrow> string" where
  "GenerateFileSignature hmac payload secret timestamp =
     ''sha256='' @ hex_encode (hmac (trim_prefix secret ''whsec_'') (itoa timestamp @ ''.'' @ payload))"

lemma signed_files_verify: "VerifyDataPortabilitySignature hmac p (SignDataPortabilityFile hmac p k) k"
  by (simp add: VerifyDataPortabilitySignature_def SignDataPortabilityFile_def)

section \<open>State and environment\<close>

record port_state =
  po_exports :: "export_job list"
  po_imports :: "import_job list"
  po_mappings :: "id_mapping list"
  po_limits :: "uuid \<times> string \<Rightarrow> sorted_set"
  po_files :: "string \<Rightarrow> string option"
  po_events :: "port_event list"
  po_audit :: "audit_entry list"

datatype port_query =
    QExpCreate | QExpFind uuid | QExpStatus uuid | QExpClaim uuid | QExpPath uuid | QExpList | QExpExpired
  | QExpClear uuid | QImpCreate | QImpFind uuid | QImpKey | QImpStatus uuid port_status | QImpClaim uuid
  | QImpStarted uuid | QImpResult uuid | QImpList | QImpQueued | QImpStuck | QMapFind uuid string
  | QMapCreate uuid | QBegin string | QCommit string | QExpDelete uuid | QImpDelete uuid | QImpSource uuid

section \<open>Export jobs (repository/export_job.go)\<close>

definition ej_visible :: "export_job \<Rightarrow> bool" where
  "ej_visible j = (ej_deleted_at j = None)"

text \<open>An empty format takes the default of the column, which holds ten characters.\<close>

definition export_Create ::
    "(port_query, 'e) db_env_scheme \<Rightarrow> port_state \<Rightarrow> export_job \<Rightarrow> export_job result \<times> port_state" where
  "export_Create E s job =
     (let row = job\<lparr>ej_format := (if ej_format job = [] then ''json'' else ej_format job),
                    ej_created_at := re_now E, ej_updated_at := re_now E\<rparr>
      in if re_fault E QExpCreate \<or> ej_types row = None \<or> length (ej_format row) > 10
           \<or> tbl_count (\<lambda>r. ej_id r = ej_id row) (po_exports s) \<noteq> 0
         then (Inl (WrapInternal db_error), s)
         else (Inr row, s\<lparr>po_exports := po_exports s @ [row]\<rparr>))"

definition export_FindByID :: "(port_query, 'e) db_env_scheme \<Rightarrow> port_state \<Rightarrow> uuid \<Rightarrow> export_job result" where
  "export_FindByID E s i =
     (if re_fault E (QExpFind i) then Inl (WrapInternal db_error)
      else case tbl_first (\<lambda>r. ej_visible r \<and> ej_id r = i) (po_exports s) of
        None \<Rightarrow> Inl (Sentinel ErrNotFound)
      | Some r \<Rightarrow> Inr r)"

definition newest_exports :: "(export_job \<Rightarrow> bool) \<Rightarrow> port_state \<Rightarrow> export_job list" where
  "newest_exports P s = rev (sort_key ej_created_at (filter (\<lambda>r. ej_visible r \<and> P r) (po_exports s)))"

definition export_page ::
    "(port_query, 'e) db_env_scheme \<Rightarrow> port_state \<Rightarrow> (export_job \<Rightarrow> bool) \<Rightarrow> int \<Rightarrow> int \<Rightarrow> (export_job list \<times> nat) result" where
  "export_page E s P page pageSize =
     (if re_fault E QExpList then Inl (WrapInternal db_error)
      else Inr (gorm_page pageSize ((page - 1) * pageSize) (newest_exports P s), length (newest_exports P s)))"

definition export_FindByStatus where
  "export_FindByStatus E s status page pageSize = export_page E s (\<lambda>r. ej_status r = status) page pageSize"

definition export_FindByOrgID where
  "export_FindByOrgID E s org page pageSize = export_page E s (\<lambda>r. ej_org r = Some org) page pageSize"

definition export_FindByCreatedBy where
  "export_FindByCreatedBy E s user page pageSize = export_page E s (\<lambda>r. ej_created_by r = user) page pageSize"

definition export_List where
  "export_List E s org page pageSize =
     export_page E s (\<lambda>r. case org of None \<Rightarrow> True | Some i \<Rightarrow> ej_org r = Some i) page pageSize"

text \<open>An update by identifier of a row that is not deleted; without such a row it is \<open>ErrNotFound\<close>.\<close>

definition export_update ::
    "(port_query, 'e) db_env_scheme \<Rightarrow> port_state \<Rightarrow> port_query \<Rightarrow> uuid \<Rightarrow> (export_job \<Rightarrow> export_job) \<Rightarrow>
     unit result \<times> port_state" where
  "export_update E s q i f =
     (if re_fault E q then (Inl (WrapInternal db_error), s)
      else if tbl_count (\<lambda>r. ej_visible r \<and> ej_id r = i) (po_exports s) = 0 then (Inl (Sentinel ErrNotFound), s)
      else (Inr (), s\<lparr>po_exports := tbl_update (\<lambda>r. ej_visible r \<and> ej_id r = i)
                        (\<lambda>r. f (r\<lparr>ej_updated_at := re_now E\<rparr>)) (po_exports s)\<rparr>))"

definition export_UpdateStatus where
  "export_UpdateStatus E s i status msg =
     export_update E s (QExpStatus i) i
       (\<lambda>r. r\<lparr>ej_status := status, ej_error := (case msg of None \<Rightarrow> ej_error r | Some m \<Rightarrow> Some m)\<rparr>)"

definition export_UpdateFilePath where
  "export_UpdateFilePath E s i path records hmacSignature =
     export_update E s (QExpPath i) i
       (\<lambda>r. r\<lparr>ej_file_path := Some path, ej_record_count := Some records, ej_hmac := Some hmacSignature\<rparr>)"

definition export_SoftDelete where
  "export_SoftDelete E s i = export_update E s (QExpDelete i) i (\<lambda>r. r\<lparr>ej_deleted_at := Some (re_now E)\<rparr>)"

definition ClearFileRefs where
  "ClearFileRefs E s i = export_update E s (QExpClear i) i (\<lambda>r. r\<lparr>ej_file_path := None, ej_hmac := None\<rparr>)"

definition export_ClaimJob ::
    "(port_query, 'e) db_env_scheme \<Rightarrow> port_state \<Rightarrow> uuid \<Rightarrow> port_status \<Rightarrow> port_status \<Rightarrow> bool result \<times> port_state" where
  "export_ClaimJob E s i fromStatus toStatus =
     (if re_fault E (QExpClaim i) then (Inl (WrapInternal db_error), s)
      else let P = (\<lambda>r. ej_visible r \<and> ej_id r = i \<and> ej_status r = fromStatus)
           in (Inr (tbl_count P (po_exports s) = 1),
               s\<lparr>po_exports := tbl_update P (\<lambda>r. r\<lparr>ej_status := toStatus, ej_updated_at := re_now E\<rparr>) (po_exports s)\<rparr>))"

definition FindExpired :: "(port_query, 'e) db_env_scheme \<Rightarrow> port_state \<Rightarrow> export_job list result" where
  "FindExpired E s =
     (if re_fault E QExpExpired then Inl (WrapInternal db_error)
      else Inr (filter (\<lambda>r. ej_visible r \<and> (case ej_file_expires_at r of None \<Rightarrow> False | Some t \<Rightarrow> t < re_now E)
                          \<and> ej_file_path r \<noteq> None) (po_exports s)))"

section \<open>Import jobs (repository/import_job.go)\<close>

definition ij_visible :: "import_job \<Rightarrow> bool" where
  "ij_visible j = (ij_deleted_at j = None)"

text \<open>
  The database draws the identifier. The key is unique over all rows, the deleted ones included.
\<close>

definition import_Create ::
    "(port_query, 'e) db_env_scheme \<Rightarrow> port_state \<Rightarrow> import_job \<Rightarrow> import_job result \<times> port_state" where
  "import_Create E s job =
     (let row = job\<lparr>ij_id := re_new_id E, ij_created_at := re_now E, ij_updated_at := re_now E\<rparr>
      in if re_fault E QImpCreate \<or> tbl_count (\<lambda>r. ij_id r = ij_id row) (po_imports s) \<noteq> 0
         then (Inl (WrapInternal db_error), s)
         else if tbl_count (\<lambda>r. ij_key r \<noteq> None \<and> ij_key r = ij_key row) (po_imports s) \<noteq> 0
         then (Inl (WrapInternal unique_violation), s)
         else (Inr row, s\<lparr>po_imports := po_imports s @ [row]\<rparr>))"

definition import_FindByID :: "(port_query, 'e) db_env_scheme \<Rightarrow> port_state \<Rightarrow> uuid \<Rightarrow> import_job result" where
  "import_FindByID E s i =
     (if re_fault E (QImpFind i) then Inl (WrapInternal db_error)
      else case tbl_first (\<lambda>r. ij_visible r \<and> ij_id r = i) (po_imports s) of
        None \<Rightarrow> Inl (Sentinel ErrNotFound)
      | Some r \<Rightarrow> Inr r)"

definition FindByIdempotencyKey :: "(port_query, 'e) db_env_scheme \<Rightarrow> port_state \<Rightarrow> string \<Rightarrow> import_job result" where
  "FindByIdempotencyKey E s key =
     (if re_fault E QImpKey then Inl (WrapInternal db_error)
      else case tbl_first (\<lambda>r. ij_visible r \<and> ij_key r = Some key) (po_imports s) of
        None \<Rightarrow> Inl (Sentinel ErrNotFound)
      | Some r \<Rightarrow> Inr r)"

definition import_update ::
    "(port_query, 'e) db_env_scheme \<Rightarrow> port_state \<Rightarrow> port_query \<Rightarrow> uuid \<Rightarrow> (import_job \<Rightarrow> import_job) \<Rightarrow>
     unit result \<times> port_state" where
  "import_update E s q i f =
     (if re_fault E q then (Inl (WrapInternal db_error), s)
      else if tbl_count (\<lambda>r. ij_visible r \<and> ij_id r = i) (po_imports s) = 0 then (Inl (Sentinel ErrNotFound), s)
      else (Inr (), s\<lparr>po_imports := tbl_update (\<lambda>r. ij_visible r \<and> ij_id r = i)
                        (\<lambda>r. f (r\<lparr>ij_updated_at := re_now E\<rparr>)) (po_imports s)\<rparr>))"

definition import_UpdateStatus where
  "import_UpdateStatus E s i status msg =
     import_update E s (QImpStatus i status) i
       (\<lambda>r. r\<lparr>ij_status := status, ij_error := (case msg of None \<Rightarrow> ij_error r | Some m \<Rightarrow> Some m)\<rparr>)"

definition UpdateResult where
  "UpdateResult E s i res = import_update E s (QImpResult i) i (\<lambda>r. r\<lparr>ij_result := Some res\<rparr>)"

definition UpdateSourceFilePath where
  "UpdateSourceFilePath E s i path = import_update E s (QImpSource i) i (\<lambda>r. r\<lparr>ij_source_path := Some path\<rparr>)"

definition import_SoftDelete where
  "import_SoftDelete E s i = import_update E s (QImpDelete i) i (\<lambda>r. r\<lparr>ij_deleted_at := Some (re_now E)\<rparr>)"

definition UpdateProcessingStartedAt where
  "UpdateProcessingStartedAt E s i startedAt =
     import_update E s (QImpStarted i) i (\<lambda>r. r\<lparr>ij_started_at := Some startedAt\<rparr>)"

definition import_ClaimJob ::
    "(port_query, 'e) db_env_scheme \<Rightarrow> port_state \<Rightarrow> uuid \<Rightarrow> port_status \<Rightarrow> port_status \<Rightarrow> bool result \<times> port_state" where
  "import_ClaimJob E s i fromStatus toStatus =
     (if re_fault E (QImpClaim i) then (Inl (WrapInternal db_error), s)
      else let P = (\<lambda>r. ij_visible r \<and> ij_id r = i \<and> ij_status r = fromStatus)
           in (Inr (tbl_count P (po_imports s) = 1),
               s\<lparr>po_imports := tbl_update P (\<lambda>r. r\<lparr>ij_status := toStatus, ij_updated_at := re_now E\<rparr>) (po_imports s)\<rparr>))"

definition import_List ::
    "(port_query, 'e) db_env_scheme \<Rightarrow> port_state \<Rightarrow> uuid option \<Rightarrow> int \<Rightarrow> int \<Rightarrow> (import_job list \<times> nat) result" where
  "import_List E s org page pageSize =
     (let rows = filter (\<lambda>r. ij_visible r \<and> ij_org r = org) (po_imports s)
      in if re_fault E QImpList then Inl (WrapInternal db_error)
         else Inr (gorm_page pageSize ((page - 1) * pageSize) (rev (sort_key ij_created_at rows)), length rows))"

definition FindQueued :: "(port_query, 'e) db_env_scheme \<Rightarrow> port_state \<Rightarrow> int \<Rightarrow> import_job list result" where
  "FindQueued E s limit =
     (if re_fault E QImpQueued then Inl (WrapInternal db_error)
      else Inr (gorm_page limit 0
             (sort_key ij_created_at (filter (\<lambda>r. ij_visible r \<and> ij_status r = PQueued) (po_imports s)))))"

text \<open>A row without a start is not found: in SQL its comparison is not true.\<close>

definition FindStuckProcessing :: "(port_query, 'e) db_env_scheme \<Rightarrow> port_state \<Rightarrow> duration \<Rightarrow> import_job list result" where
  "FindStuckProcessing E s timeout =
     (if re_fault E QImpStuck then Inl (WrapInternal db_error)
      else Inr (filter (\<lambda>r. ij_visible r \<and> ij_status r = PProcessing
                          \<and> (case ij_started_at r of None \<Rightarrow> False | Some t \<Rightarrow> t < re_now E - timeout)) (po_imports s)))"

section \<open>Mappings of identifiers (repository/import_id_map.go)\<close>

definition mapping_exists :: "id_mapping \<Rightarrow> id_mapping list \<Rightarrow> bool" where
  "mapping_exists m ms \<longleftrightarrow> tbl_count (\<lambda>r. im_id r = im_id m \<or>
     im_job r = im_job m \<and> im_type r = im_type m \<and> im_external r = im_external m) ms \<noteq> 0"

definition mapping_insert ::
    "(port_query, 'e) db_env_scheme \<Rightarrow> id_mapping \<Rightarrow> id_mapping list \<Rightarrow> unit result \<times> id_mapping list" where
  "mapping_insert E m ms =
     (if re_fault E (QMapCreate (im_external m)) then (Inl db_error, ms)
      else if mapping_exists m ms then (Inl unique_violation, ms)
      else (Inr (), ms @ [m]))"

definition idmap_Create where
  "idmap_Create E s m = (case mapping_insert E m (po_mappings s) of
     (Inl err, ms) \<Rightarrow> (Inl (WrapInternal err), s)
   | (Inr _, ms) \<Rightarrow> (Inr (), s\<lparr>po_mappings := ms\<rparr>))"

definition FindByJobAndEntityType ::
    "(port_query, 'e) db_env_scheme \<Rightarrow> port_state \<Rightarrow> uuid \<Rightarrow> string \<Rightarrow> id_mapping list result" where
  "FindByJobAndEntityType E s job t =
     (if re_fault E (QMapFind job t) then Inl (WrapInternal db_error)
      else Inr (filter (\<lambda>m. im_job m = job \<and> im_type m = t) (po_mappings s)))"

definition FindByExternalID ::
    "(port_query, 'e) db_env_scheme \<Rightarrow> port_state \<Rightarrow> uuid \<Rightarrow> string \<Rightarrow> uuid \<Rightarrow> id_mapping result" where
  "FindByExternalID E s job t ext =
     (if re_fault E (QMapFind job t) then Inl (WrapInternal db_error)
      else case tbl_first (\<lambda>m. im_job m = job \<and> im_type m = t \<and> im_external m = ext) (po_mappings s) of
        None \<Rightarrow> Inl (Sentinel ErrNotFound)
      | Some m \<Rightarrow> Inr m)"

definition ResolveUUID where
  "ResolveUUID E s job t ext =
     (case FindByExternalID E s job t ext of
        Inl err \<Rightarrow> if err_is err ErrNotFound then Inr uuid_nil else Inl (WrapInternal err)
      | Inr m \<Rightarrow> Inr (im_internal m))"

end
