(* ===== verification/Permission_Guard.thy ===== *)
theory Permission_Guard
  imports Request_Env
begin

text \<open>
  The middlewares that ask the permission engine before a handler runs
  (\<open>http/middleware/permission.go\<close>). A middleware is the status with which it refuses the request,
  \<open>None\<close> when it calls the next handler. Of the request it sees the user identifier in the claims,
  when the JWT middleware has set claims, and the header \<open>X-Tenant-ID\<close>.
\<close>

record guard_ctx =
  gc_claims :: "string option"
  gc_tenant :: string

type_synonym enforce_fun = "string \<Rightarrow> string \<Rightarrow> string \<Rightarrow> string \<Rightarrow> bool result"

text \<open>\<open>GetUserID\<close> of \<open>http/middleware/jwt.go\<close>.\<close>

definition GetUserID :: "(string \<Rightarrow> uuid option) \<Rightarrow> guard_ctx \<Rightarrow> uuid option" where
  "GetUserID parse c =
     (case gc_claims c of None \<Rightarrow> None | Some user \<Rightarrow> if user = [] then None else parse user)"

record permission_config =
  pm_resource :: string
  pm_action :: string
  pm_extractor :: "(guard_ctx \<Rightarrow> string) option"
  pm_default :: string
  pm_skipper :: "(guard_ctx \<Rightarrow> bool) option"

definition DefaultDomainExtractor :: "guard_ctx \<Rightarrow> string" where
  "DefaultDomainExtractor c = ''default''"

definition TenantDomainExtractor :: "guard_ctx \<Rightarrow> string" where
  "TenantDomainExtractor c = (if gc_tenant c = [] then ''default'' else gc_tenant c)"

definition Permission :: "enforce_fun \<Rightarrow> permission_config \<Rightarrow> guard_ctx \<Rightarrow> nat option" where
  "Permission enforce config c =
     (let extractor = (case pm_extractor config of None \<Rightarrow> DefaultDomainExtractor | Some f \<Rightarrow> f);
          defaultDomain = (if pm_default config = [] then ''default'' else pm_default config)
      in if (case pm_skipper config of None \<Rightarrow> False | Some skip \<Rightarrow> skip c) then None
         else case gc_claims c of
           None \<Rightarrow> Some 401
         | Some userID \<Rightarrow>
             let dom = (if extractor c = [] then defaultDomain else extractor c)
             in if userID = [] then Some 401
                else case enforce userID dom (pm_resource config) (pm_action config) of
                  Inl err \<Rightarrow> Some 500
                | Inr allowed \<Rightarrow> if \<not> allowed then Some 403 else None)"

definition PermissionWithExtractor ::
    "enforce_fun \<Rightarrow> (guard_ctx \<Rightarrow> string) \<Rightarrow> (guard_ctx \<Rightarrow> string) \<Rightarrow> (guard_ctx \<Rightarrow> string) option \<Rightarrow> guard_ctx \<Rightarrow> nat option" where
  "PermissionWithExtractor enforce resourceExtractor actionExtractor domainExtractor c =
     (case gc_claims c of
        None \<Rightarrow> Some 401
      | Some userID \<Rightarrow>
          let found = (case domainExtractor of None \<Rightarrow> DefaultDomainExtractor c | Some f \<Rightarrow> f c);
              dom = (if found = [] then ''default'' else found)
          in if userID = [] then Some 401
             else case enforce userID dom (resourceExtractor c) (actionExtractor c) of
               Inl err \<Rightarrow> Some 500
             | Inr allowed \<Rightarrow> if \<not> allowed then Some 403 else None)"

definition RequirePermissionWithDomain ::
    "enforce_fun \<Rightarrow> string \<Rightarrow> string \<Rightarrow> (guard_ctx \<Rightarrow> string) \<Rightarrow> guard_ctx \<Rightarrow> nat option" where
  "RequirePermissionWithDomain enforce resource action extractor =
     Permission enforce \<lparr>pm_resource = resource, pm_action = action, pm_extractor = Some extractor,
       pm_default = [], pm_skipper = None\<rparr>"

definition RequirePermission :: "enforce_fun \<Rightarrow> string \<Rightarrow> string \<Rightarrow> guard_ctx \<Rightarrow> nat option" where
  "RequirePermission enforce resource action =
     Permission enforce \<lparr>pm_resource = resource, pm_action = action, pm_extractor = Some TenantDomainExtractor,
       pm_default = [], pm_skipper = None\<rparr>"

text \<open>\<open>HasRoleForUser\<close> of the enforcer is a parameter: user, role, domain.\<close>

definition RequireRole ::
    "(string \<Rightarrow> string \<Rightarrow> string \<Rightarrow> bool result) \<Rightarrow> string \<Rightarrow> guard_ctx \<Rightarrow> nat option" where
  "RequireRole hasRoleForUser role c =
     (case gc_claims c of
        None \<Rightarrow> Some 401
      | Some userID \<Rightarrow>
          let dom = TenantDomainExtractor c
          in if userID = [] then Some 401
             else case hasRoleForUser userID role dom of
               Inl err \<Rightarrow> Some 500
             | Inr hasRole \<Rightarrow> if \<not> hasRole then Some 403 else None)"

definition RequireAdmin where
  "RequireAdmin hasRoleForUser = RequireRole hasRoleForUser ''admin''"

text \<open>A route: the middlewares in turn, then the handler. A refusal leaves the state as it is.\<close>

fun first_refusal :: "nat option list \<Rightarrow> nat option" where
  "first_refusal [] = None"
| "first_refusal (None # ms) = first_refusal ms"
| "first_refusal (Some status # ms) = Some status"

definition through :: "nat option \<Rightarrow> ('s \<Rightarrow> (nat \<times> 'a option) \<times> 's) \<Rightarrow> 's \<Rightarrow> (nat \<times> 'a option) \<times> 's" where
  "through guard next s = (case guard of Some status \<Rightarrow> ((status, None), s) | None \<Rightarrow> next s)"

lemma Permission_passes:
  "Permission enforce config c = None \<Longrightarrow> (case pm_skipper config of None \<Rightarrow> True | Some skip \<Rightarrow> \<not> skip c) \<Longrightarrow>
   \<exists>user dom. gc_claims c = Some user \<and> user \<noteq> [] \<and> dom \<noteq> [] \<and>
     enforce user dom (pm_resource config) (pm_action config) = Inr True"
  by (fastforce simp: Permission_def Let_def split: option.splits if_splits sum.splits)

lemma RequirePermission_iff:
  "RequirePermission enforce resource action c = None \<longleftrightarrow>
   (\<exists>user. gc_claims c = Some user \<and> user \<noteq> [] \<and> enforce user (TenantDomainExtractor c) resource action = Inr True)"
  by (auto simp: RequirePermission_def Permission_def TenantDomainExtractor_def Let_def
      split: option.splits if_splits sum.splits)

lemma through_refused [simp]: "through (Some status) next s = ((status, None), s)"
  by (simp add: through_def)

lemma through_passed [simp]: "through None next s = next s"
  by (simp add: through_def)

end
