(* ===== verification/Port_Service.thy ===== *)
theory Port_Service
  imports Port_Jobs Permission_Guard
begin

text \<open>
  Exports and imports: the services (\<open>service/export_service.go\<close>, \<open>service/import_service.go\<close>), the
  workers (\<open>service/export_worker.go\<close>, \<open>service/import_worker.go\<close>), the cleanup
  (\<open>service/export_cleanup.go\<close>), the middlewares (\<open>http/middleware/data_portability.go\<close>) and the HTTP
  handlers (\<open>http/handler/data_portability.go\<close>).

  Parameters: the JSON text of a value, the lines of a JSON file, SHA-256, HMAC, the parser of
  identifiers, whether the context is done and a query, the storage or the event bus fails. A bus
  that is missing accepts no event. The passes of the workers are cut where another request
  can come in between: after the claim, after the stream and between entity types.
\<close>

record port_env = "port_query req_env" +
  px_limits :: dp_limits
  px_redis :: redis_faults
  px_random :: "nat \<Rightarrow> int"
  px_bus :: "port_event \<Rightarrow> bool"
  px_hmac :: mac
  px_sha256 :: "string \<Rightarrow> string"
  px_parse :: "string \<Rightarrow> uuid option"
  px_marshal :: "json \<Rightarrow> string"
  px_lines :: "string \<Rightarrow> nd_line list"
  px_ctx_done :: "nat \<Rightarrow> bool"
  px_row_ctx_done :: "nat \<Rightarrow> bool"
  px_store_fault :: "string \<Rightarrow> bool"
  px_new_uuid :: "nat \<Rightarrow> uuid"
  px_signing_key :: string
  px_sync_threshold :: nat
  px_file_ttl :: duration
  px_enqueue :: "(uuid \<Rightarrow> bool) option"
  px_worker_queue :: bool
  px_max_file_size :: int

definition DefaultSyncThreshold :: nat where "DefaultSyncThreshold = 10000"

section \<open>Export service\<close>

definition ErrExportNotFound :: go_error where "ErrExportNotFound = NewAppError ''NOT_FOUND'' ''export job not found'' 404"
definition ErrExportNotReady :: go_error where "ErrExportNotReady = NewAppError ''EXPORT_NOT_READY'' ''export is still processing'' 409"
definition ErrExportExpired :: go_error where "ErrExportExpired = NewAppError ''EXPORT_EXPIRED'' ''export file has expired'' 410"
definition ErrExportRateLimited :: go_error where "ErrExportRateLimited = NewAppError ''RATE_LIMITED'' ''export rate limit exceeded'' 429"
definition ErrEntityNotExportable :: go_error where "ErrEntityNotExportable = NewAppError ''FORBIDDEN'' ''entity type not exportable'' 403"
definition ErrInvalidEntityType :: go_error where "ErrInvalidEntityType = NewAppError ''BAD_REQUEST'' ''invalid or unsupported entity type'' 400"

record export_request =
  eq_types :: "string list option"
  eq_format :: string
  eq_org :: "uuid option"
  eq_user :: uuid

definition requested_types :: "export_request \<Rightarrow> string list" where
  "requested_types req = (case eq_types req of None \<Rightarrow> [] | Some ts \<Rightarrow> ts)"

definition port_allow :: "'e port_env_scheme \<Rightarrow> nat \<Rightarrow> uuid \<Rightarrow> string \<Rightarrow> port_state \<Rightarrow> bool \<times> port_state" where
  "port_allow E k user action s =
     (case DP_Allow (px_redis E) (px_limits E) action (re_now E div 1000000) (px_random E k) (po_limits s (user, action)) of
        (allowed, z) \<Rightarrow> (allowed, s\<lparr>po_limits := (po_limits s)((user, action) := z)\<rparr>))"

definition port_publish ::
    "'e port_env_scheme \<Rightarrow> port_event_type \<Rightarrow> uuid \<Rightarrow> uuid option \<Rightarrow> string list \<Rightarrow> port_state \<Rightarrow> port_state" where
  "port_publish E ty job org types s =
     (let event = NewPortEvent (re_now E) ty job org types
      in if px_bus E event then s\<lparr>po_events := po_events s @ [event]\<rparr> else s)"

definition export_permitted :: "'e port_env_scheme \<Rightarrow> export_request \<Rightarrow> unit result" where
  "export_permitted E req =
     (case re_enforce E (eq_user req) (case eq_org req of None \<Rightarrow> ''*'' | Some i \<Rightarrow> i) ''data_portability'' ''export:create'' of
        Inl err \<Rightarrow> Inl (WrapInternal err)
      | Inr allowed \<Rightarrow> if \<not> allowed then Inl (Sentinel ErrForbidden) else Inr ())"

fun validate_types :: "entity_registry \<Rightarrow> string list \<Rightarrow> unit result" where
  "validate_types R [] = Inr ()"
| "validate_types R (t # ts) =
     (if IsRestricted t then Inl ErrEntityNotExportable
      else if \<not> IsExportable R t then Inl ErrInvalidEntityType
      else validate_types R ts)"

text \<open>\<open>resolveEncoder\<close> and \<open>Encode\<close>: the result and the text that is written.\<close>

definition resolveEncoder :: "string \<Rightarrow> unit result" where
  "resolveEncoder format = (if format = ''json'' \<or> format = ''csv'' then Inr () else Inl ErrInvalidEntityType)"

definition port_encode :: "'e port_env_scheme \<Rightarrow> string \<Rightarrow> cursor_turn list \<Rightarrow> unit result \<times> string" where
  "port_encode E format turns =
     (if format = ''json''
      then (case JSON_Encode NewEntityRegistry turns [] of (r, vs) \<Rightarrow> (r, concat (map (\<lambda>v. px_marshal E v @ [LF]) vs)))
      else CSV_Encode NewEntityRegistry turns)"

text \<open>The cursor is empty whatever the entity type.\<close>

definition buildCursor :: "string \<Rightarrow> cursor_turn list" where
  "buildCursor entityType = []"

fun stream_types :: "'e port_env_scheme \<Rightarrow> string \<Rightarrow> nat \<Rightarrow> string list \<Rightarrow> string \<Rightarrow> unit result \<times> string" where
  "stream_types E format n [] out = (Inr (), out)"
| "stream_types E format n (t # ts) out =
     (if px_ctx_done E n then (Inl ctx_cancelled, out)
      else case port_encode E format (buildCursor t) of
        (Inl err, text) \<Rightarrow> (Inl (Opaque (''encoding '' @ t @ '': '' @ error_text err)), out @ text)
      | (Inr _, text) \<Rightarrow> stream_types E format (Suc n) ts (out @ text))"

definition StreamExport ::
    "'e port_env_scheme \<Rightarrow> port_state \<Rightarrow> export_request \<Rightarrow> (unit result \<times> string) \<times> port_state" where
  "StreamExport E s req =
     (case export_permitted E req of
        Inl err \<Rightarrow> ((Inl err, []), s)
      | Inr _ \<Rightarrow>
          (case validate_types NewEntityRegistry (requested_types req) of
             Inl err \<Rightarrow> ((Inl err, []), s)
           | Inr _ \<Rightarrow>
               (case port_allow E 2 (eq_user req) ''export'' s of
                  (False, s1) \<Rightarrow> ((Inl ErrExportRateLimited, []), s1)
                | (True, s1) \<Rightarrow>
                    (case resolveEncoder (eq_format req) of
                       Inl err \<Rightarrow> ((Inl err, []), s1)
                     | Inr _ \<Rightarrow> (stream_types E (eq_format req) 0 (requested_types req) [], s1)))))"

definition new_export_job :: "'e port_env_scheme \<Rightarrow> export_request \<Rightarrow> port_status \<Rightarrow> bool \<Rightarrow> export_job" where
  "new_export_job E req status sync =
     \<lparr>ej_id = re_new_id E, ej_status = status, ej_types = eq_types req, ej_format = eq_format req, ej_org = eq_org req,
      ej_created_by = eq_user req, ej_file_path = None, ej_file_expires_at = None, ej_record_count = None,
      ej_error = None, ej_hmac = None, ej_sync = sync, ej_created_at = re_now E, ej_updated_at = re_now E,
      ej_deleted_at = None\<rparr>"

definition createSyncExport ::
    "'e port_env_scheme \<Rightarrow> port_state \<Rightarrow> export_request \<Rightarrow> export_job result \<times> port_state" where
  "createSyncExport E s req =
     (case export_Create E s (new_export_job E req PCompleted True) of
        (Inl err, s1) \<Rightarrow> (Inl (WrapInternal err), s1)
      | (Inr job, s1) \<Rightarrow>
          let s2 = port_publish E ExportCreated (ej_id job) (ej_org job) (requested_types req) s1
          in case StreamExport E s2 req of
               ((Inl err, text), s3) \<Rightarrow>
                 (Inl err, port_publish E ExportFailed (ej_id job) (ej_org job) (requested_types req)
                   (snd (export_UpdateStatus E s3 (ej_id job) PFailed (Some (error_text err)))))
             | ((Inr _, text), s3) \<Rightarrow>
                 let signature = SignDataPortabilityFile (px_hmac E) text (px_signing_key E)
                 in (Inr job, port_publish E ExportCompleted (ej_id job) (ej_org job) (requested_types req)
                      (snd (export_UpdateFilePath E s3 (ej_id job) [] 0 signature))))"

definition createAsyncExport ::
    "'e port_env_scheme \<Rightarrow> port_state \<Rightarrow> export_request \<Rightarrow> export_job result \<times> port_state" where
  "createAsyncExport E s req =
     (case export_Create E s (new_export_job E req PQueued False) of
        (Inl err, s1) \<Rightarrow> (Inl (WrapInternal err), s1)
      | (Inr job, s1) \<Rightarrow>
          let s2 = port_publish E ExportCreated (ej_id job) (ej_org job) (requested_types req) s1
          in case px_enqueue E of
               None \<Rightarrow> (Inr job, s2)
             | Some queued \<Rightarrow>
                 if queued (ej_id job) then (Inr job, s2)
                 else (Inl (WrapInternal (Opaque ''enqueue'')),
                       port_publish E ExportFailed (ej_id job) (ej_org job) (requested_types req)
                         (snd (export_UpdateStatus E s2 (ej_id job) PFailed (Some ''failed to enqueue job'')))))"

definition estimateRecordCount :: "export_request \<Rightarrow> nat" where
  "estimateRecordCount req = length (requested_types req) * 500"

definition CreateExport ::
    "'e port_env_scheme \<Rightarrow> port_state \<Rightarrow> export_request \<Rightarrow> export_job result \<times> port_state" where
  "CreateExport E s req =
     (case export_permitted E req of
        Inl err \<Rightarrow> (Inl err, s)
      | Inr _ \<Rightarrow>
          (case validate_types NewEntityRegistry (requested_types req) of
             Inl err \<Rightarrow> (Inl err, s)
           | Inr _ \<Rightarrow>
               (case port_allow E 1 (eq_user req) ''export'' s of
                  (False, s1) \<Rightarrow> (Inl ErrExportRateLimited, s1)
                | (True, s1) \<Rightarrow>
                    if estimateRecordCount req < px_sync_threshold E then createSyncExport E s1 req
                    else createAsyncExport E s1 req)))"

definition not_found_as :: "go_error \<Rightarrow> go_error \<Rightarrow> go_error" where
  "not_found_as missing err = (if IsNotFound err then missing else WrapInternal err)"

definition GetExport :: "'e port_env_scheme \<Rightarrow> port_state \<Rightarrow> uuid \<Rightarrow> export_job result" where
  "GetExport E s i = map_sum (not_found_as ErrExportNotFound) id (export_FindByID E s i)"

definition port_page :: "int \<Rightarrow> int \<Rightarrow> int \<times> int" where
  "port_page page pageSize = (if page < 1 then 1 else page, if pageSize < 1 \<or> pageSize > 100 then 20 else pageSize)"

definition ListExports ::
    "'e port_env_scheme \<Rightarrow> port_state \<Rightarrow> uuid option \<Rightarrow> int \<Rightarrow> int \<Rightarrow> (export_job list \<times> nat) result" where
  "ListExports E s org page pageSize =
     (case port_page page pageSize of (p, n) \<Rightarrow> map_sum WrapInternal id (export_List E s org p n))"

record export_download =
  ed_url :: string
  ed_content_type :: string
  ed_filename :: string
  ed_expires_at :: instant
  ed_signature :: string

definition contentTypeForFormat :: "string \<Rightarrow> string \<times> string" where
  "contentTypeForFormat format =
     (if format = ''json'' then (''application/x-ndjson'', ''json'')
      else if format = ''csv'' then (''text/csv'', ''csv'')
      else (''application/octet-stream'', ''bin''))"

definition DownloadExport :: "'e port_env_scheme \<Rightarrow> port_state \<Rightarrow> uuid \<Rightarrow> export_download result" where
  "DownloadExport E s i =
     (case export_FindByID E s i of
        Inl err \<Rightarrow> Inl (not_found_as ErrExportNotFound err)
      | Inr job \<Rightarrow>
          if ej_status job \<noteq> PCompleted then Inl ErrExportNotReady
          else if (case ej_file_expires_at job of None \<Rightarrow> False | Some t \<Rightarrow> re_now E > t) then Inl ErrExportExpired
          else case ej_file_path job of
            None \<Rightarrow> Inl ErrExportNotReady
          | Some path \<Rightarrow>
              (case contentTypeForFormat (ej_format job) of (contentType, extension) \<Rightarrow>
                 Inr \<lparr>ed_url = path, ed_content_type = contentType,
                      ed_filename = ''export_'' @ ej_id job @ ''.'' @ extension,
                      ed_expires_at = (case ej_file_expires_at job of None \<Rightarrow> re_now E + px_file_ttl E | Some t \<Rightarrow> t),
                      ed_signature = (case ej_hmac job of None \<Rightarrow> [] | Some h \<Rightarrow> h)\<rparr>))"

definition CancelExport :: "'e port_env_scheme \<Rightarrow> port_state \<Rightarrow> uuid \<Rightarrow> unit result \<times> port_state" where
  "CancelExport E s i =
     (case export_FindByID E s i of
        Inl err \<Rightarrow> (Inl (not_found_as ErrExportNotFound err), s)
      | Inr job \<Rightarrow>
          if ej_status job \<noteq> PQueued \<and> ej_status job \<noteq> PProcessing then (Inl ErrExportNotReady, s)
          else apfst (map_sum WrapInternal id) (export_UpdateStatus E s i PFailed (Some ''cancelled by user'')))"

end
