(* ===== verification/Port_Import.thy ===== *)
theory Port_Import
  imports Port_Service
begin

text \<open>
  The import service (\<open>service/import_service.go\<close>), the export and the import worker
  (\<open>service/export_worker.go\<close>, \<open>service/import_worker.go\<close>), the cleanup
  (\<open>service/export_cleanup.go\<close>), the middlewares (\<open>http/middleware/data_portability.go\<close>) and the HTTP
  handlers (\<open>http/handler/data_portability.go\<close>).

  The passes of the workers are cut where another request can come in between: after the claim,
  after the stream of an export, and between the entity types of an import. What a worker holds in
  between is in the lists of the state.
\<close>

section \<open>Import service: creation\<close>

definition ErrImportNotFound :: go_error where "ErrImportNotFound = NewAppError ''NOT_FOUND'' ''import job not found'' 404"
definition ErrImportRateLimited :: go_error where "ErrImportRateLimited = NewAppError ''RATE_LIMITED'' ''import rate limit exceeded'' 429"
definition ErrFileTooLarge :: go_error where "ErrFileTooLarge = NewAppError ''PAYLOAD_TOO_LARGE'' ''import file exceeds maximum size limit'' 413"
definition ErrEntityConflict :: go_error where "ErrEntityConflict = NewAppError ''CONFLICT'' ''entity conflict during import'' 409"
definition ErrInvalidImportFormat :: go_error where "ErrInvalidImportFormat = NewAppError ''BAD_REQUEST'' ''unsupported import format'' 400"
definition ErrImportCancelled :: go_error where "ErrImportCancelled = NewAppError ''CANCELLED'' ''import job was cancelled'' 499"
definition ErrImportAlreadyExists :: go_error where "ErrImportAlreadyExists = NewAppError ''CONFLICT'' ''import with same content already exists'' 409"
definition ErrUnreadable :: go_error where "ErrUnreadable = NewAppError ''BAD_REQUEST'' ''failed to read import file'' 400"

text \<open>The content of the file is \<open>None\<close> when it cannot be read.\<close>

record import_request =
  iq_user :: uuid
  iq_org :: "uuid option"
  iq_content :: "string option"
  iq_format :: string
  iq_strategy :: string
  iq_types :: "string list"
  iq_dry_run :: bool

text \<open>\<open>createDecoder\<close> and \<open>Validate\<close>.\<close>

definition port_validate :: "'e port_env_scheme \<Rightarrow> string \<Rightarrow> string \<Rightarrow> import_preview \<times> unit result" where
  "port_validate E format content =
     (if format = ''json'' then JSON_Validate NewEntityRegistry (px_lines E content)
      else CSV_Validate NewEntityRegistry content)"

definition createDecoder :: "string \<Rightarrow> unit result" where
  "createDecoder format = (if format = ''json'' \<or> format = ''csv'' then Inr () else Inl ErrInvalidImportFormat)"

text \<open>The checks that a preview and a creation share; both decoders can validate.\<close>

definition checked_file :: "'e port_env_scheme \<Rightarrow> string option \<Rightarrow> string \<Rightarrow> (string \<times> import_preview) result" where
  "checked_file E file format =
     (case file of
        None \<Rightarrow> Inl ErrUnreadable
      | Some content \<Rightarrow>
          if int (length content) > px_max_file_size E then Inl ErrFileTooLarge
          else case ValidateFileContent content of
            Inl err \<Rightarrow> Inl err
          | Inr _ \<Rightarrow>
              (case createDecoder format of
                 Inl err \<Rightarrow> Inl err
               | Inr _ \<Rightarrow>
                   (case port_validate E format content of
                      (pv, Inl err) \<Rightarrow> Inl err
                    | (pv, Inr _) \<Rightarrow> Inr (content, pv))))"

record preview_response =
  vr_types :: "string \<Rightarrow> nat"
  vr_rows :: nat
  vr_warnings :: "string list"

definition PreviewImport :: "'e port_env_scheme \<Rightarrow> string option \<Rightarrow> string \<Rightarrow> preview_response result" where
  "PreviewImport E file format =
     (case checked_file E file format of
        Inl err \<Rightarrow> Inl err
      | Inr (content, pv) \<Rightarrow>
          Inr \<lparr>vr_types = pv_by_type pv, vr_rows = pv_total pv, vr_warnings = pv_warnings pv @ pv_errors pv\<rparr>)"

definition conflict_strategies :: "string list" where
  "conflict_strategies = [''skip'', ''overwrite'', ''fail'']"

definition CreateImport ::
    "'e port_env_scheme \<Rightarrow> port_state \<Rightarrow> import_request \<Rightarrow> import_job result \<times> port_state" where
  "CreateImport E s req =
     (case port_allow E 1 (iq_user req) ''import'' s of
        (False, s1) \<Rightarrow> (Inl ErrImportRateLimited, s1)
      | (True, s1) \<Rightarrow>
          (case checked_file E (iq_content req) (iq_format req) of
             Inl err \<Rightarrow> (Inl err, s1)
           | Inr (content, pv) \<Rightarrow>
               (case ValidateImportFile NewDataPortabilityValidator (int (length content)) (iq_format req) (int (pv_total pv)) of
                  Inl err \<Rightarrow> (Inl err, s1)
                | Inr _ \<Rightarrow>
                    let key = hex_encode (px_sha256 E content);
                        entityTypes = (if iq_types req = [] then GetImportOrder NewEntityRegistry else iq_types req)
                    in case FindByIdempotencyKey E s1 key of
                         Inr existing \<Rightarrow> (Inl ErrImportAlreadyExists, s1)
                       | Inl err \<Rightarrow>
                           if \<not> IsNotFound err then (Inl (WrapInternal err), s1)
                           else if iq_strategy req \<notin> set conflict_strategies
                           then (Inl (NewAppError ''BAD_REQUEST'' ''conflict_strategy must be skip, overwrite, or fail'' 400), s1)
                           else case import_Create E s1 \<lparr>ij_id = [], ij_status = PQueued, ij_types = entityTypes,
                                  ij_format = iq_format req, ij_org = iq_org req, ij_created_by = iq_user req,
                                  ij_strategy = iq_strategy req, ij_dry_run = iq_dry_run req, ij_source_path = None,
                                  ij_key = Some key, ij_result = None, ij_error = None, ij_started_at = None,
                                  ij_created_at = 0, ij_updated_at = 0, ij_deleted_at = None\<rparr> of
                               (Inl e, s2) \<Rightarrow> (Inl (WrapInternal e), s2)
                             | (Inr job, s2) \<Rightarrow> (Inr job, port_publish E ImportCreated (ij_id job) (ij_org job) entityTypes s2))))"

definition GetImport :: "'e port_env_scheme \<Rightarrow> port_state \<Rightarrow> uuid \<Rightarrow> import_job result" where
  "GetImport E s i = map_sum (not_found_as ErrImportNotFound) id (import_FindByID E s i)"

definition ListImports :: "'e port_env_scheme \<Rightarrow> port_state \<Rightarrow> uuid option \<Rightarrow> int \<Rightarrow> int \<Rightarrow> import_job list result" where
  "ListImports E s org page pageSize =
     (case port_page page pageSize of (p, n) \<Rightarrow> map_sum WrapInternal fst (import_List E s org p n))"

definition CancelImport :: "'e port_env_scheme \<Rightarrow> port_state \<Rightarrow> uuid \<Rightarrow> unit result \<times> port_state" where
  "CancelImport E s i =
     (case import_FindByID E s i of
        Inl err \<Rightarrow> (Inl (not_found_as ErrImportNotFound err), s)
      | Inr job \<Rightarrow>
          if ij_status job \<noteq> PQueued \<and> ij_status job \<noteq> PValidating \<and> ij_status job \<noteq> PProcessing
          then (Inl (NewAppError ''BAD_REQUEST'' ''import job cannot be cancelled in current status'' 400), s)
          else apfst (map_sum WrapInternal id) (import_UpdateStatus E s i PCancelled (Some ''cancelled by user'')))"

section \<open>Import service: processing\<close>

definition ImportBatchSize :: nat where "ImportBatchSize = 500"

definition filterEntityTypes :: "string list \<Rightarrow> string list \<Rightarrow> string list" where
  "filterEntityTypes order requested = filter (\<lambda>t. t \<in> set requested) order"

definition no_entities :: entity_result where
  "no_entities = \<lparr>et_created = 0, et_skipped = 0, et_failed = 0, et_overwritten = 0\<rparr>"

definition no_results :: import_result where
  "no_results = \<lparr>ip_types = [], ip_created = 0, ip_skipped = 0, ip_failed = 0, ip_overwritten = 0\<rparr>"

fun flushMappings :: "'e port_env_scheme \<Rightarrow> id_mapping list \<Rightarrow> id_mapping list \<Rightarrow> id_mapping list result" where
  "flushMappings E [] table = Inr table"
| "flushMappings E (m # ms) table =
     (case mapping_insert E m table of
        (Inl err, _) \<Rightarrow> Inl (Opaque (''create mapping: '' @ error_text err))
      | (Inr _, table') \<Rightarrow> flushMappings E ms table')"

text \<open>The switch on the strategy, for a mapping that has an internal identifier.\<close>

definition settle_conflict :: "string \<Rightarrow> entity_result \<Rightarrow> entity_result" where
  "settle_conflict strategy r =
     (if strategy = ''skip'' then r\<lparr>et_skipped := et_skipped r + 1\<rparr>
      else if strategy = ''overwrite'' then r\<lparr>et_overwritten := et_overwritten r + 1\<rparr>
      else if strategy = ''fail'' then r\<lparr>et_failed := et_failed r + 1\<rparr>
      else r\<lparr>et_skipped := et_skipped r + 1\<rparr>)"

text \<open>The loop over the mappings, within the transaction: \<open>n\<close> counts the turns, \<open>new\<close> is not flushed yet.\<close>

fun mapping_loop ::
    "'e port_env_scheme \<Rightarrow> string \<Rightarrow> nat \<Rightarrow> id_mapping list \<Rightarrow> id_mapping list \<Rightarrow> entity_result \<Rightarrow> id_mapping list \<Rightarrow>
     (entity_result \<times> id_mapping list) result" where
  "mapping_loop E strategy n [] new r table =
     (case flushMappings E new table of
        Inl err \<Rightarrow> Inl (Opaque (''flush remaining mappings: '' @ error_text err))
      | Inr table' \<Rightarrow> Inr (r, table'))"
| "mapping_loop E strategy n (m # ms) new r table =
     (if px_row_ctx_done E n then Inl ctx_cancelled
      else if im_internal m \<noteq> uuid_nil
      then mapping_loop E strategy (Suc n) ms new (settle_conflict strategy r) table
      else let new' = new @ [m\<lparr>im_internal := px_new_uuid E n\<rparr>]; r' = r\<lparr>et_created := et_created r + 1\<rparr>
           in if Suc n mod ImportBatchSize = 0
              then (case flushMappings E new' table of
                      Inl err \<Rightarrow> Inl (Opaque (''flush mappings: '' @ error_text err))
                    | Inr table' \<Rightarrow> mapping_loop E strategy (Suc n) ms [] r' table')
              else mapping_loop E strategy (Suc n) ms new' r' table)"

text \<open>A transaction that does not commit leaves the table as it was.\<close>

definition processEntityType ::
    "'e port_env_scheme \<Rightarrow> port_state \<Rightarrow> import_job \<Rightarrow> string \<Rightarrow> entity_result result \<times> port_state" where
  "processEntityType E s job t =
     (if re_fault E (QBegin t) then (Inl (Opaque ''begin transaction''), s)
      else case FindByJobAndEntityType E s (ij_id job) t of
        Inl err \<Rightarrow> (Inl (Opaque (''find existing mappings: '' @ error_text err)), s)
      | Inr mappings \<Rightarrow>
          (case mapping_loop E (ij_strategy job) 0 mappings [] no_entities (po_mappings s) of
             Inl err \<Rightarrow> (Inl err, s)
           | Inr (r, table) \<Rightarrow>
               if re_fault E (QCommit t) then (Inl (Opaque ''commit transaction''), s)
               else (Inr r, s\<lparr>po_mappings := table\<rparr>)))"

text \<open>A run of \<open>ProcessImport\<close>: the job as it was read, the types that are left, the result so far.\<close>

record import_run =
  rn_job :: import_job
  rn_todo :: "string list"
  rn_turn :: nat
  rn_result :: import_result
  rn_error :: "go_error option"

definition ProcessImport_begin ::
    "'e port_env_scheme \<Rightarrow> port_state \<Rightarrow> uuid \<Rightarrow> import_run result \<times> port_state" where
  "ProcessImport_begin E s i =
     (case import_FindByID E s i of
        Inl err \<Rightarrow> (Inl (not_found_as ErrImportNotFound err), s)
      | Inr job \<Rightarrow>
          if ij_status job = PCancelled then (Inl ErrImportCancelled, s)
          else case import_UpdateStatus E s i PProcessing None of
            (Inl err, s1) \<Rightarrow> (Inl (WrapInternal err), s1)
          | (Inr _, s1) \<Rightarrow>
              (Inr \<lparr>rn_job = job, rn_todo = filterEntityTypes (GetImportOrder NewEntityRegistry) (ij_types job),
                    rn_turn = 0, rn_result = no_results, rn_error = None\<rparr>, s1))"

definition add_result :: "string \<Rightarrow> entity_result \<Rightarrow> import_result \<Rightarrow> import_result" where
  "add_result t r res = \<lparr>ip_types = ip_types res @ [(t, r)], ip_created = ip_created res + et_created r,
     ip_skipped = ip_skipped res + et_skipped r, ip_failed = ip_failed res + et_failed r,
     ip_overwritten = ip_overwritten res + et_overwritten r\<rparr>"

text \<open>A turn of \<open>processEntities\<close>; an error ends the loop.\<close>

definition entity_turn :: "'e port_env_scheme \<Rightarrow> import_run \<Rightarrow> port_state \<Rightarrow> import_run \<times> port_state" where
  "entity_turn E run s =
     (case rn_todo run of
        [] \<Rightarrow> (run, s)
      | t # rest \<Rightarrow>
          let job = rn_job run; run1 = run\<lparr>rn_todo := rest, rn_turn := Suc (rn_turn run)\<rparr>;
              dom = (case ij_org job of None \<Rightarrow> [] | Some i \<Rightarrow> i)
          in if px_ctx_done E (rn_turn run) then (run\<lparr>rn_todo := [], rn_error := Some ctx_cancelled\<rparr>, s)
             else if \<not> IsImportable NewEntityRegistry t then (run1, s)
             else if IsRestricted t then (run1, s)
             else case re_enforce E (ij_created_by job) dom t ''import'' of
               Inl err \<Rightarrow> (run1, s)
             | Inr allowed \<Rightarrow>
                 if \<not> allowed then (run1, s)
                 else case processEntityType E s job t of
                   (Inl err, s1) \<Rightarrow>
                     (run\<lparr>rn_todo := [], rn_error := Some (Opaque (''processing entity type '' @ t @ '': '' @ error_text err))\<rparr>, s1)
                 | (Inr r, s1) \<Rightarrow> (run1\<lparr>rn_result := add_result t r (rn_result run)\<rparr>, s1))"

definition ProcessImport_end :: "'e port_env_scheme \<Rightarrow> import_run \<Rightarrow> port_state \<Rightarrow> unit result \<times> port_state" where
  "ProcessImport_end E run s =
     (let job = rn_job run; i = ij_id job; s1 = snd (UpdateResult E s i (rn_result run))
      in case rn_error run of
           Some err \<Rightarrow>
             (Inl err, port_publish E ImportFailed i (ij_org job) (ij_types job)
                (snd (import_UpdateStatus E s1 i PFailed (Some (error_text err)))))
         | None \<Rightarrow>
             (let s2 = port_publish E ImportCompleted i (ij_org job) (ij_types job)
                         (snd (import_UpdateStatus E s1 i PCompleted None))
              in (Inr (), s2\<lparr>po_audit := log_action E (Audit (ij_created_by job) ''import'' ''import_jobs'' i) (po_audit s2)\<rparr>)))"

text \<open>\<open>resolveUUID\<close> and \<open>applyConflictStrategy\<close>, which nothing calls.\<close>

definition resolveUUID ::
    "'e port_env_scheme \<Rightarrow> port_state \<Rightarrow> uuid \<Rightarrow> string \<Rightarrow> uuid \<Rightarrow> uuid result \<times> port_state" where
  "resolveUUID E s job t ext =
     (case FindByExternalID E s job t ext of
        Inr m \<Rightarrow> (Inr (im_internal m), s)
      | Inl err \<Rightarrow>
          if \<not> IsNotFound err then (Inl (Opaque (''find external id mapping: '' @ error_text err)), s)
          else let m = \<lparr>im_id = re_new_id E, im_job = job, im_type = t, im_external = ext, im_internal = px_new_uuid E 0,
                        im_created_at = re_now E\<rparr>
               in case mapping_insert E m (po_mappings s) of
                    (Inl e, _) \<Rightarrow> (Inl (Opaque (''create id mapping: '' @ error_text e)), s)
                  | (Inr _, table) \<Rightarrow> (Inr (im_internal m), s\<lparr>po_mappings := table\<rparr>))"

definition applyConflictStrategy :: "string \<Rightarrow> bool \<Rightarrow> bool \<times> go_error option" where
  "applyConflictStrategy strategy existing =
     (if \<not> existing then (True, None)
      else if strategy = ''skip'' then (False, None)
      else if strategy = ''overwrite'' then (True, None)
      else if strategy = ''fail'' then (False, Some ErrEntityConflict)
      else (False, None))"

section \<open>Workers\<close>

record port_sys =
  sy_db :: port_state
  sy_exporting :: "export_job list"
  sy_storing :: "(export_job \<times> string) list"
  sy_importing :: "import_run list"
  sy_claims :: "uuid list"
  sy_import_claims :: "uuid list"

text \<open>\<open>processExport\<close> up to the stream.\<close>

definition processExport_claim :: "'e port_env_scheme \<Rightarrow> port_sys \<Rightarrow> uuid \<Rightarrow> port_sys" where
  "processExport_claim E s i =
     (case export_ClaimJob E (sy_db s) i PQueued PProcessing of
        (Inl err, d) \<Rightarrow> s\<lparr>sy_db := d\<rparr>
      | (Inr False, d) \<Rightarrow> s\<lparr>sy_db := d\<rparr>
      | (Inr True, d) \<Rightarrow>
          (case export_FindByID E d i of
             Inl err \<Rightarrow> s\<lparr>sy_db := d, sy_claims := sy_claims s @ [i]\<rparr>
           | Inr job \<Rightarrow> s\<lparr>sy_db := d, sy_claims := sy_claims s @ [i], sy_exporting := sy_exporting s @ [job]\<rparr>))"

text \<open>\<open>dequeueJob\<close> takes the newest job; without a queue the loop does nothing.\<close>

definition dequeueJob :: "'e port_env_scheme \<Rightarrow> port_state \<Rightarrow> uuid option result" where
  "dequeueJob E s =
     (case export_FindByStatus E s PQueued 1 1 of
        Inl err \<Rightarrow> Inl (Opaque (''failed to query queued jobs: '' @ error_text err))
      | Inr ([], _) \<Rightarrow> Inr None
      | Inr (job # _, _) \<Rightarrow> Inr (Some (ej_id job)))"

definition export_loop_tick :: "'e port_env_scheme \<Rightarrow> port_sys \<Rightarrow> port_sys" where
  "export_loop_tick E s =
     (if \<not> px_worker_queue E then s
      else case dequeueJob E (sy_db s) of
        Inr (Some i) \<Rightarrow> (case px_parse E i of None \<Rightarrow> s | Some j \<Rightarrow> processExport_claim E s j)
      | _ \<Rightarrow> s)"

definition HandleExportTask :: "'e port_env_scheme \<Rightarrow> port_sys \<Rightarrow> string \<Rightarrow> port_sys" where
  "HandleExportTask E s text = (case px_parse E text of None \<Rightarrow> s | Some i \<Rightarrow> processExport_claim E s i)"

definition job_failed :: "'e port_env_scheme \<Rightarrow> export_job \<Rightarrow> string \<Rightarrow> port_state \<Rightarrow> port_state" where
  "job_failed E job msg d =
     port_publish E ExportFailed (ej_id job) (ej_org job) (case ej_types job of None \<Rightarrow> [] | Some ts \<Rightarrow> ts)
       (snd (export_UpdateStatus E d (ej_id job) PFailed (Some msg)))"

definition processExport_stream :: "'e port_env_scheme \<Rightarrow> port_sys \<Rightarrow> nat \<Rightarrow> port_sys" where
  "processExport_stream E s k =
     (if k < length (sy_exporting s) then
        let job = sy_exporting s ! k;
            s1 = s\<lparr>sy_exporting := take k (sy_exporting s) @ drop (Suc k) (sy_exporting s)\<rparr>
        in case StreamExport E (sy_db s)
               \<lparr>eq_types = ej_types job, eq_format = ej_format job, eq_org = ej_org job, eq_user = ej_created_by job\<rparr> of
             ((Inl err, text), d) \<Rightarrow> s1\<lparr>sy_db := job_failed E job (error_text err) d\<rparr>
           | ((Inr _, text), d) \<Rightarrow> s1\<lparr>sy_db := d, sy_storing := sy_storing s @ [(job, text)]\<rparr>
      else s)"

text \<open>The rest: the file is signed with the empty key, stored, and its path put into the row.\<close>

definition processExport_store :: "'e port_env_scheme \<Rightarrow> port_sys \<Rightarrow> nat \<Rightarrow> port_sys" where
  "processExport_store E s k =
     (if k < length (sy_storing s) then
        case sy_storing s ! k of (job, text) \<Rightarrow>
          let s1 = s\<lparr>sy_storing := take k (sy_storing s) @ drop (Suc k) (sy_storing s)\<rparr>;
              signature = SignDataPortabilityFile (px_hmac E) text [];
              fileName = ''exports/'' @ ej_id job @ ''.'' @ ej_format job;
              d = sy_db s
          in if px_store_fault E fileName then s1\<lparr>sy_db := job_failed E job ''storage error'' d\<rparr>
             else s1\<lparr>sy_db := port_publish E ExportCompleted (ej_id job) (ej_org job)
                       (case ej_types job of None \<Rightarrow> [] | Some ts \<Rightarrow> ts)
                       (snd (export_UpdateFilePath E (d\<lparr>po_files := (po_files d)(fileName \<mapsto> text)\<rparr>) (ej_id job) fileName 0
                          signature))\<rparr>
      else s)"

definition import_processJob :: "'e port_env_scheme \<Rightarrow> port_sys \<Rightarrow> uuid \<Rightarrow> port_sys" where
  "import_processJob E s i =
     (case import_ClaimJob E (sy_db s) i PQueued PProcessing of
        (Inl err, d) \<Rightarrow> s\<lparr>sy_db := d\<rparr>
      | (Inr False, d) \<Rightarrow> s\<lparr>sy_db := d\<rparr>
      | (Inr True, d) \<Rightarrow>
          (let d1 = snd (UpdateProcessingStartedAt E d i (re_now E));
               s1 = s\<lparr>sy_import_claims := sy_import_claims s @ [i]\<rparr>
           in case ProcessImport_begin E d1 i of
                (Inl err, d2) \<Rightarrow> s1\<lparr>sy_db := d2\<rparr>
              | (Inr run, d2) \<Rightarrow> s1\<lparr>sy_db := d2, sy_importing := sy_importing s @ [run]\<rparr>))"

definition import_loop_tick :: "'e port_env_scheme \<Rightarrow> port_sys \<Rightarrow> port_sys" where
  "import_loop_tick E s =
     (case FindQueued E (sy_db s) 1 of
        Inr (job # _) \<Rightarrow> import_processJob E s (ij_id job)
      | _ \<Rightarrow> s)"

definition import_turn :: "'e port_env_scheme \<Rightarrow> port_sys \<Rightarrow> nat \<Rightarrow> port_sys" where
  "import_turn E s k =
     (if k < length (sy_importing s) then
        case entity_turn E (sy_importing s ! k) (sy_db s) of
          (run, d) \<Rightarrow> s\<lparr>sy_db := d, sy_importing := (sy_importing s)[k := run]\<rparr>
      else s)"

definition import_finish :: "'e port_env_scheme \<Rightarrow> port_sys \<Rightarrow> nat \<Rightarrow> port_sys" where
  "import_finish E s k =
     (if k < length (sy_importing s) \<and> rn_todo (sy_importing s ! k) = [] then
        s\<lparr>sy_db := snd (ProcessImport_end E (sy_importing s ! k) (sy_db s)),
          sy_importing := take k (sy_importing s) @ drop (Suc k) (sy_importing s)\<rparr>
      else s)"

definition importWorkerStuckTimeout :: duration where
  "importWorkerStuckTimeout = 5 * 60 * second"

definition stuckJobReaper :: "'e port_env_scheme \<Rightarrow> port_state \<Rightarrow> port_state" where
  "stuckJobReaper E d =
     (case FindStuckProcessing E d importWorkerStuckTimeout of
        Inl err \<Rightarrow> d
      | Inr jobs \<Rightarrow> foldl (\<lambda>d job. snd (import_UpdateStatus E d (ij_id job) PQueued
                        (Some ''processing timeout: worker recovery''))) d jobs)"

section \<open>Cleanup\<close>

definition cleanup_job :: "'e port_env_scheme \<Rightarrow> port_state \<Rightarrow> export_job \<Rightarrow> port_state" where
  "cleanup_job E d job =
     (case ej_file_path job of
        None \<Rightarrow> d
      | Some path \<Rightarrow>
          if px_store_fault E path then d
          else snd (ClearFileRefs E (d\<lparr>po_files := (po_files d)(path := None)\<rparr>) (ej_id job)))"

definition cleanup_Run :: "'e port_env_scheme \<Rightarrow> port_state \<Rightarrow> port_state" where
  "cleanup_Run E d = (case FindExpired E d of Inl err \<Rightarrow> d | Inr expired \<Rightarrow> foldl (cleanup_job E) d expired)"

end
