(* ===== verification/Port_Handler.thy ===== *)
theory Port_Handler
  imports Port_Import
begin

text \<open>
  The middlewares (\<open>http/middleware/data_portability.go\<close>), the HTTP handlers with their routes
  (\<open>http/handler/data_portability.go\<close>), and the system: requests and passes of the workers in any
  order.

  An answer is a status with what the envelope carries. The organization is what the organization
  middleware has put into the context; a form field that is missing is empty.
\<close>

section \<open>Middlewares\<close>

definition port_rate_limit ::
    "'e port_env_scheme \<Rightarrow> string \<Rightarrow> guard_ctx \<Rightarrow> (port_state \<Rightarrow> (nat \<times> 'a option) \<times> port_state) \<Rightarrow> port_state \<Rightarrow>
     (nat \<times> 'a option) \<times> port_state" where
  "port_rate_limit E action c next s =
     (case gc_claims c of
        None \<Rightarrow> ((401, None), s)
      | Some user \<Rightarrow>
          if user = [] then ((401, None), s)
          else case port_allow E 0 user action s of
            (False, s1) \<Rightarrow> ((429, None), s1)
          | (True, s1) \<Rightarrow> next s1)"

definition ExportRateLimit where
  "ExportRateLimit E c next s = port_rate_limit E ''export'' c next s"

definition ImportRateLimit where
  "ImportRateLimit E c next s = port_rate_limit E ''import'' c next s"

text \<open>An upload: whether the form can be parsed, the length of the request, the file and the fields.\<close>

record port_upload =
  up_form_ok :: bool
  up_length :: int
  up_file :: "string option option"
  up_format :: string
  up_strategy :: string

definition ImportFileSizeLimit :: "int \<Rightarrow> port_upload \<Rightarrow> nat option" where
  "ImportFileSizeLimit maxSize up =
     (if \<not> up_form_ok up then Some 413 else if up_length up > maxSize then Some 413 else None)"

section \<open>Handlers\<close>

text \<open>The body of a creation is \<open>None\<close> when it cannot be bound; its tags are not checked.\<close>

definition PH_CreateExport ::
    "'e port_env_scheme \<Rightarrow> guard_ctx \<Rightarrow> uuid option \<Rightarrow> (string list option \<times> string) option \<Rightarrow> port_state \<Rightarrow>
     (nat \<times> export_job option) \<times> port_state" where
  "PH_CreateExport E c org body s =
     (case GetUserID (px_parse E) c of
        None \<Rightarrow> ((401, None), s)
      | Some userID \<Rightarrow>
          (case body of
             None \<Rightarrow> ((400, None), s)
           | Some (types, format) \<Rightarrow>
               (case CreateExport E s \<lparr>eq_types = types, eq_format = format, eq_org = org, eq_user = userID\<rparr> of
                  (Inl err, s1) \<Rightarrow> ((error_status err, None), s1)
                | (Inr job, s1) \<Rightarrow> ((if ej_sync job then 200 else 202, Some (ej_ToResponse job)), s1))))"

definition PH_GetExport :: "'e port_env_scheme \<Rightarrow> string \<Rightarrow> port_state \<Rightarrow> nat \<times> export_job option" where
  "PH_GetExport E param s =
     (case px_parse E param of
        None \<Rightarrow> (400, None)
      | Some i \<Rightarrow>
          (case GetExport E s i of
             Inl err \<Rightarrow> (error_status err, None)
           | Inr job \<Rightarrow> (200, Some (ej_ToResponse job))))"

text \<open>\<open>parsePagination\<close>: what \<open>Sscanf\<close> reads from the two parameters.\<close>

definition parsePagination :: "int option \<Rightarrow> int option \<Rightarrow> int \<times> int" where
  "parsePagination pageParam sizeParam =
     (case pageParam of None \<Rightarrow> 1 | Some v \<Rightarrow> if v > 0 then v else 1,
      case sizeParam of None \<Rightarrow> 20 | Some v \<Rightarrow> if v > 0 \<and> v \<le> 100 then v else 20)"

definition PH_ListExports ::
    "'e port_env_scheme \<Rightarrow> uuid option \<Rightarrow> int option \<Rightarrow> int option \<Rightarrow> port_state \<Rightarrow> nat \<times> (export_job list \<times> nat) option" where
  "PH_ListExports E org pageParam sizeParam s =
     (case parsePagination pageParam sizeParam of (page, pageSize) \<Rightarrow>
        (case ListExports E s org page pageSize of
           Inl err \<Rightarrow> (500, None)
         | Inr (jobs, found) \<Rightarrow> (200, Some (map ej_ToResponse jobs, found))))"

definition PH_DownloadExport :: "'e port_env_scheme \<Rightarrow> string \<Rightarrow> port_state \<Rightarrow> nat \<times> export_download option" where
  "PH_DownloadExport E param s =
     (case px_parse E param of
        None \<Rightarrow> (400, None)
      | Some i \<Rightarrow>
          (case DownloadExport E s i of
             Inl err \<Rightarrow> (error_status err, None)
           | Inr d \<Rightarrow> (200, Some d)))"

definition PH_CancelExport :: "'e port_env_scheme \<Rightarrow> string \<Rightarrow> port_state \<Rightarrow> (nat \<times> string option) \<times> port_state" where
  "PH_CancelExport E param s =
     (case px_parse E param of
        None \<Rightarrow> ((400, None), s)
      | Some i \<Rightarrow>
          (case CancelExport E s i of
             (Inl err, s1) \<Rightarrow> ((error_status err, None), s1)
           | (Inr _, s1) \<Rightarrow> ((200, Some ''cancelled''), s1)))"

definition PH_PreviewImport :: "'e port_env_scheme \<Rightarrow> port_upload \<Rightarrow> nat \<times> preview_response option" where
  "PH_PreviewImport E up =
     (case up_file up of
        None \<Rightarrow> (400, None)
      | Some file \<Rightarrow>
          (case PreviewImport E file (if up_format up = [] then ''json'' else up_format up) of
             Inl err \<Rightarrow> (error_status err, None)
           | Inr preview \<Rightarrow> (200, Some preview)))"

definition PH_CreateImport ::
    "'e port_env_scheme \<Rightarrow> guard_ctx \<Rightarrow> uuid option \<Rightarrow> port_upload \<Rightarrow> port_state \<Rightarrow> (nat \<times> import_job option) \<times> port_state" where
  "PH_CreateImport E c org up s =
     (case GetUserID (px_parse E) c of
        None \<Rightarrow> ((401, None), s)
      | Some userID \<Rightarrow>
          (case up_file up of
             None \<Rightarrow> ((400, None), s)
           | Some file \<Rightarrow>
               (case CreateImport E s
                  \<lparr>iq_user = userID, iq_org = org, iq_content = file,
                   iq_format = (if up_format up = [] then ''json'' else up_format up),
                   iq_strategy = (if up_strategy up = [] then ''skip'' else up_strategy up), iq_types = [],
                   iq_dry_run = False\<rparr> of
                  (Inl err, s1) \<Rightarrow> ((error_status err, None), s1)
                | (Inr job, s1) \<Rightarrow> ((202, Some (ij_ToResponse job)), s1))))"

definition PH_GetImport :: "'e port_env_scheme \<Rightarrow> string \<Rightarrow> port_state \<Rightarrow> nat \<times> import_job option" where
  "PH_GetImport E param s =
     (case px_parse E param of
        None \<Rightarrow> (400, None)
      | Some i \<Rightarrow>
          (case GetImport E s i of
             Inl err \<Rightarrow> (error_status err, None)
           | Inr job \<Rightarrow> (200, Some (ij_ToResponse job))))"

definition PH_ListImports ::
    "'e port_env_scheme \<Rightarrow> uuid option \<Rightarrow> int option \<Rightarrow> int option \<Rightarrow> port_state \<Rightarrow> nat \<times> import_job list option" where
  "PH_ListImports E org pageParam sizeParam s =
     (case parsePagination pageParam sizeParam of (page, pageSize) \<Rightarrow>
        (case ListImports E s org page pageSize of
           Inl err \<Rightarrow> (500, None)
         | Inr jobs \<Rightarrow> (200, Some (map ij_ToResponse jobs))))"

definition PH_CancelImport :: "'e port_env_scheme \<Rightarrow> string \<Rightarrow> port_state \<Rightarrow> (nat \<times> string option) \<times> port_state" where
  "PH_CancelImport E param s =
     (case px_parse E param of
        None \<Rightarrow> ((400, None), s)
      | Some i \<Rightarrow>
          (case CancelImport E s i of
             (Inl err, s1) \<Rightarrow> ((error_status err, None), s1)
           | (Inr _, s1) \<Rightarrow> ((200, Some ''cancelled''), s1)))"

section \<open>Routes\<close>

definition port_guard :: "'e port_env_scheme \<Rightarrow> string \<Rightarrow> guard_ctx \<Rightarrow> nat option" where
  "port_guard E action c = RequirePermission (re_enforce E) ''data_portability'' action c"

definition DefaultMaxFileSize :: int where "DefaultMaxFileSize = 52428800"

definition Route_CreateExport where
  "Route_CreateExport E c org body s =
     ExportRateLimit E c (through (port_guard E ''export:create'' c) (PH_CreateExport E c org body)) s"

definition Route_DownloadExport where
  "Route_DownloadExport E c param s =
     (case port_guard E ''export:download'' c of
        Some status \<Rightarrow> (status, None)
      | None \<Rightarrow> PH_DownloadExport E param s)"

definition Route_CancelExport where
  "Route_CancelExport E c param s = through (port_guard E ''import:cancel'' c) (PH_CancelExport E param) s"

definition Route_PreviewImport ::
    "'e port_env_scheme \<Rightarrow> guard_ctx \<Rightarrow> port_upload \<Rightarrow> port_state \<Rightarrow> (nat \<times> preview_response option) \<times> port_state" where
  "Route_PreviewImport E c up s =
     ImportRateLimit E c
       (through (first_refusal [ImportFileSizeLimit DefaultMaxFileSize up, port_guard E ''import:create'' c])
          (\<lambda>s. (PH_PreviewImport E up, s))) s"

definition Route_CreateImport where
  "Route_CreateImport E c org up s =
     ImportRateLimit E c
       (through (first_refusal [ImportFileSizeLimit DefaultMaxFileSize up, port_guard E ''import:create'' c])
          (PH_CreateImport E c org up)) s"

definition Route_CancelImport where
  "Route_CancelImport E c param s = through (port_guard E ''import:cancel'' c) (PH_CancelImport E param) s"

section \<open>The system\<close>

text \<open>\<open>HandleImportTask\<close>: the payload is \<open>None\<close> when it is no JSON object with a text.\<close>

definition HandleImportTask :: "'e port_env_scheme \<Rightarrow> port_sys \<Rightarrow> string option \<Rightarrow> port_sys" where
  "HandleImportTask E s payload =
     (case payload of
        None \<Rightarrow> s
      | Some text \<Rightarrow> (case px_parse E text of None \<Rightarrow> s | Some i \<Rightarrow> import_processJob E s i))"

datatype port_op =
    DoCreateExport guard_ctx "uuid option" "(string list option \<times> string) option"
  | DoCancelExport guard_ctx string
  | DoPreviewImport guard_ctx port_upload
  | DoCreateImport guard_ctx "uuid option" port_upload
  | DoCancelImport guard_ctx string
  | ExportTick | ExportTask string | ExportStreamed nat | ExportStored nat
  | ImportTick | ImportTask "string option" | ImportTurn nat | ImportDone nat
  | ReapImports | CleanExports

fun port_step :: "'e port_env_scheme \<Rightarrow> port_op \<Rightarrow> port_sys \<Rightarrow> port_sys" where
  "port_step E (DoCreateExport c org body) s = s\<lparr>sy_db := snd (Route_CreateExport E c org body (sy_db s))\<rparr>"
| "port_step E (DoCancelExport c param) s = s\<lparr>sy_db := snd (Route_CancelExport E c param (sy_db s))\<rparr>"
| "port_step E (DoPreviewImport c up) s = s\<lparr>sy_db := snd (Route_PreviewImport E c up (sy_db s))\<rparr>"
| "port_step E (DoCreateImport c org up) s = s\<lparr>sy_db := snd (Route_CreateImport E c org up (sy_db s))\<rparr>"
| "port_step E (DoCancelImport c param) s = s\<lparr>sy_db := snd (Route_CancelImport E c param (sy_db s))\<rparr>"
| "port_step E ExportTick s = export_loop_tick E s"
| "port_step E (ExportTask text) s = HandleExportTask E s text"
| "port_step E (ExportStreamed k) s = processExport_stream E s k"
| "port_step E (ExportStored k) s = processExport_store E s k"
| "port_step E ImportTick s = import_loop_tick E s"
| "port_step E (ImportTask payload) s = HandleImportTask E s payload"
| "port_step E (ImportTurn k) s = import_turn E s k"
| "port_step E (ImportDone k) s = import_finish E s k"
| "port_step E ReapImports s = s\<lparr>sy_db := stuckJobReaper E (sy_db s)\<rparr>"
| "port_step E CleanExports s = s\<lparr>sy_db := cleanup_Run E (sy_db s)\<rparr>"

definition port_initial :: port_sys where
  "port_initial = \<lparr>sy_db = \<lparr>po_exports = [], po_imports = [], po_mappings = [], po_limits = (\<lambda>_. empty_set),
     po_files = (\<lambda>_. None), po_events = [], po_audit = []\<rparr>, sy_exporting = [], sy_storing = [], sy_importing = [],
     sy_claims = [], sy_import_claims = []\<rparr>"

inductive port_reach :: "port_sys \<Rightarrow> bool" where
  start: "port_reach port_initial"
| step: "port_reach s \<Longrightarrow> port_reach (port_step (E :: port_env) op s)"

end
