(* ===== verification/Port_Properties.thy ===== *)
theory Port_Properties
  imports Port_Handler Port_Codec
begin

text \<open>
  What holds of exports and imports whatever requests and passes of the workers are interleaved and
  whatever fails: which exports can be downloaded, how often an export is claimed, and what an import
  changes.
\<close>

section \<open>What the helpers leave alone\<close>

lemma port_allow_fields:
  "port_allow E k u a s = (ok, s') \<Longrightarrow>
   po_exports s' = po_exports s \<and> po_imports s' = po_imports s \<and> po_mappings s' = po_mappings s"
  by (auto simp: port_allow_def split: prod.splits)

lemma port_publish_fields [simp]:
  "po_exports (port_publish E ty i og ts s) = po_exports s" "po_imports (port_publish E ty i og ts s) = po_imports s"
  "po_mappings (port_publish E ty i og ts s) = po_mappings s"
  by (simp_all add: port_publish_def Let_def)

lemma export_update_fields [simp]:
  "po_imports (snd (export_update E s q i f)) = po_imports s" "po_mappings (snd (export_update E s q i f)) = po_mappings s"
  by (simp_all add: export_update_def)

lemma import_update_fields [simp]:
  "po_exports (snd (import_update E s q i f)) = po_exports s" "po_mappings (snd (import_update E s q i f)) = po_mappings s"
  by (simp_all add: import_update_def)

lemma StreamExport_fields:
  "StreamExport E s req = (r, s') \<Longrightarrow>
   po_exports s' = po_exports s \<and> po_imports s' = po_imports s \<and> po_mappings s' = po_mappings s"
  by (auto simp: StreamExport_def split: sum.splits prod.splits bool.splits dest: port_allow_fields)

section \<open>Exports\<close>

text \<open>
  A synchronous export never waits for a worker and has at most an empty path; an asynchronous one
  is never completed; a claimed one is asynchronous and does not wait any more.
\<close>

definition export_row_ok :: "uuid set \<Rightarrow> export_job \<Rightarrow> bool" where
  "export_row_ok C r \<longleftrightarrow>
     (if ej_sync r then ej_status r \<noteq> PQueued \<and> (ej_file_path r = None \<or> ej_file_path r = Some [])
      else ej_status r \<noteq> PCompleted) \<and>
     (ej_id r \<in> C \<longrightarrow> \<not> ej_sync r \<and> ej_status r \<noteq> PQueued)"

definition exports_ok :: "uuid set \<Rightarrow> export_job list \<Rightarrow> bool" where
  "exports_ok C rows \<longleftrightarrow> distinct (map ej_id rows) \<and> C \<subseteq> ej_id ` set rows \<and> list_all (export_row_ok C) rows"

lemma exports_ok_update:
  assumes "exports_ok C rows" and id: "\<And>r. ej_id (f r) = ej_id r"
    and f: "\<And>r. P r \<Longrightarrow> export_row_ok C r \<Longrightarrow> export_row_ok C (f r)"
  shows "exports_ok C (tbl_update P f rows)"
proof -
  have "map ej_id (tbl_update P f rows) = map ej_id rows" by (rule map_tbl_update) (rule id)
  moreover from this have "ej_id ` set (tbl_update P f rows) = ej_id ` set rows" by (metis set_map)
  moreover have "list_all (export_row_ok C) (tbl_update P f rows)"
    using assms(1) f by (auto simp: exports_ok_def list_all_iff set_tbl_update)
  ultimately show ?thesis using assms(1) by (simp add: exports_ok_def)
qed

lemma exports_ok_change:
  assumes "exports_ok C (po_exports s)" and "\<And>r. ej_id (f r) = ej_id r"
    and "\<And>r. ej_id r = i \<Longrightarrow> export_row_ok C r \<Longrightarrow> export_row_ok C (f r)"
  shows "exports_ok C (po_exports (snd (export_update E s q i f)))"
proof -
  have "export_row_ok C (r\<lparr>ej_updated_at := t\<rparr>) = export_row_ok C r" for r t by (simp add: export_row_ok_def)
  then have "exports_ok C (tbl_update (\<lambda>r. ej_visible r \<and> ej_id r = i) (\<lambda>r. f (r\<lparr>ej_updated_at := t\<rparr>)) (po_exports s))" for t
    using assms by (intro exports_ok_update) simp_all
  then show ?thesis using assms(1) by (simp add: export_update_def)
qed

lemma exports_ok_fail:
  "exports_ok C (po_exports s) \<Longrightarrow> exports_ok C (po_exports (snd (export_UpdateStatus E s i PFailed msg)))"
  unfolding export_UpdateStatus_def by (rule exports_ok_change) (simp_all add: export_row_ok_def)

lemma exports_ok_path:
  "exports_ok C (po_exports s) \<Longrightarrow> path = [] \<or> i \<in> C \<Longrightarrow>
   exports_ok C (po_exports (snd (export_UpdateFilePath E s i path n sig)))"
  unfolding export_UpdateFilePath_def by (rule exports_ok_change) (auto simp: export_row_ok_def)

lemma exports_ok_clear: "exports_ok C (po_exports s) \<Longrightarrow> exports_ok C (po_exports (snd (ClearFileRefs E s i)))"
  unfolding ClearFileRefs_def by (rule exports_ok_change) (simp_all add: export_row_ok_def)

lemma exports_ok_Create:
  assumes "exports_ok C (po_exports s)" and "export_Create E s job = (r, s')"
    and "if ej_sync job then ej_status job \<noteq> PQueued \<and> ej_file_path job = None else ej_status job \<noteq> PCompleted"
  shows "exports_ok C (po_exports s') \<and> po_imports s' = po_imports s \<and> po_mappings s' = po_mappings s"
proof (cases r)
  case (Inl err)
  then show ?thesis using assms by (auto simp: export_Create_def Let_def split: if_splits)
next
  case (Inr row)
  then have new: "ej_id row \<notin> ej_id ` set (po_exports s)" and s': "s' = s\<lparr>po_exports := po_exports s @ [row]\<rparr>"
    and row: "ej_sync row = ej_sync job" "ej_status row = ej_status job" "ej_file_path row = ej_file_path job"
    using assms(2) by (auto simp: export_Create_def Let_def tbl_count_0_iff split: if_splits)
  have "ej_id row \<notin> C" using new assms(1) by (auto simp: exports_ok_def)
  then have "export_row_ok C row" using assms(3) row by (auto simp: export_row_ok_def)
  then show ?thesis using assms(1) new by (auto simp: s' exports_ok_def)
qed

text \<open>The fields that a request about exports may not change, and the table that stays well-formed.\<close>

definition keeps :: "uuid set \<Rightarrow> port_state \<Rightarrow> port_state \<Rightarrow> bool" where
  "keeps C s s' \<longleftrightarrow> (exports_ok C (po_exports s) \<longrightarrow> exports_ok C (po_exports s')) \<and>
     po_imports s' = po_imports s \<and> po_mappings s' = po_mappings s"

lemma keeps_refl [simp]: "keeps C s s"
  by (simp add: keeps_def)

lemma keeps_trans: "keeps C s s' \<Longrightarrow> keeps C s' s'' \<Longrightarrow> keeps C s s''"
  by (simp add: keeps_def)

lemma keeps_publish [simp]: "keeps C s (port_publish E ty i og ts s') \<longleftrightarrow> keeps C s s'"
  by (simp add: keeps_def)

lemma keeps_allow: "port_allow E k u a s = (ok, s') \<Longrightarrow> keeps C s s'"
  by (simp add: keeps_def port_allow_fields)

lemma keeps_stream: "StreamExport E s req = (r, s') \<Longrightarrow> keeps C s s'"
  using StreamExport_fields [of E s req r s'] by (simp add: keeps_def)

lemma keeps_fail: "keeps C s (snd (export_UpdateStatus E s i PFailed msg))"
  using exports_ok_fail [of C s E i msg] by (simp add: keeps_def export_UpdateStatus_def)

lemma keeps_path: "path = [] \<or> i \<in> C \<Longrightarrow> keeps C s (snd (export_UpdateFilePath E s i path n sig))"
  using exports_ok_path [of C s path i E n sig] by (simp add: keeps_def export_UpdateFilePath_def)

lemma keeps_Create:
  "export_Create E s job = (r, s') \<Longrightarrow>
   (if ej_sync job then ej_status job \<noteq> PQueued \<and> ej_file_path job = None else ej_status job \<noteq> PCompleted) \<Longrightarrow> keeps C s s'"
  using exports_ok_Create [of C s E job r s'] by (auto simp: keeps_def export_Create_def Let_def split: if_splits)

lemma keeps_createSync:
  assumes "createSyncExport E s req = (r, s')"
  shows "keeps C s s'"
proof -
  obtain x s1 where c: "export_Create E s (new_export_job E req PCompleted True) = (x, s1)" by fastforce
  have k: "keeps C s s1" using keeps_Create [OF c] by (simp add: new_export_job_def)
  show ?thesis
  proof (cases x)
    case (Inl err)
    then show ?thesis using assms c k by (simp add: createSyncExport_def)
  next
    case (Inr job)
    define s2 where "s2 = port_publish E ExportCreated (ej_id job) (ej_org job) (requested_types req) s1"
    obtain y out s3 where st: "StreamExport E s2 req = ((y, out), s3)" by (metis prod.exhaust)
    have "keeps C s s2" using k by (simp add: s2_def)
    then have k3: "keeps C s s3" using keeps_trans keeps_stream [OF st] by blast
    show ?thesis
      using assms c Inr st keeps_trans [OF k3 keeps_fail [where E = E]] keeps_trans [OF k3 keeps_path [of "[]" _ _ _ E]]
      by (cases y) (auto simp: createSyncExport_def Let_def s2_def)
  qed
qed

lemma keeps_createAsync:
  assumes "createAsyncExport E s req = (r, s')"
  shows "keeps C s s'"
proof -
  obtain x s1 where c: "export_Create E s (new_export_job E req PQueued False) = (x, s1)" by fastforce
  have k: "keeps C s s1" using keeps_Create [OF c] by (simp add: new_export_job_def)
  have fail: "keeps C s (snd (export_UpdateStatus E s2 i PFailed msg))" if "keeps C s s2" for s2 i msg
    using keeps_trans [OF that keeps_fail] .
  show ?thesis
  proof (cases x)
    case (Inl err)
    then show ?thesis using assms c k by (simp add: createAsyncExport_def)
  next
    case (Inr job)
    then show ?thesis
      using assms c k fail [of "port_publish E ExportCreated (ej_id job) (ej_org job) (requested_types req) s1"]
      by (simp add: createAsyncExport_def Let_def split: option.splits if_splits) (auto)
  qed
qed

lemma keeps_CreateExport: "CreateExport E s req = (r, s') \<Longrightarrow> keeps C s s'"
  by (auto simp: CreateExport_def split: sum.splits prod.splits bool.splits if_splits
      dest: keeps_allow keeps_createSync keeps_createAsync intro: keeps_trans)

lemma keeps_route_CreateExport: "keeps C s (snd (Route_CreateExport E c org body s))"
proof -
  have h: "keeps C s0 (snd (PH_CreateExport E c org body s0))" for s0
    by (auto simp: PH_CreateExport_def split: option.splits prod.splits sum.splits dest: keeps_CreateExport)
  have "keeps C s0 (snd (through g (PH_CreateExport E c org body) s0))" for s0 g
    using h by (cases g) simp_all
  then show ?thesis
    by (auto simp: Route_CreateExport_def ExportRateLimit_def port_rate_limit_def split: option.splits prod.splits bool.splits
        dest: keeps_allow intro: keeps_trans)
qed

lemma keeps_CancelExport: "keeps C s (snd (CancelExport E s i))"
  using keeps_fail [of C s E] by (auto simp: CancelExport_def split: sum.splits)

lemma keeps_route_CancelExport: "keeps C s (snd (Route_CancelExport E c param s))"
proof -
  have "keeps C s (snd (PH_CancelExport E param s))"
    using keeps_CancelExport [of C s E]
    by (auto simp: PH_CancelExport_def split: option.splits prod.splits sum.splits) (metis snd_conv)+
  then show ?thesis by (cases "port_guard E ''import:cancel'' c") (simp_all add: Route_CancelExport_def)
qed

lemma keeps_cleanup: "keeps C s (cleanup_Run E s)"
proof -
  have step: "keeps C s (cleanup_job E s job)" for s job
  proof -
    have "keeps C s0 (snd (ClearFileRefs E s0 i))" for s0 i
      using exports_ok_clear [of C s0 E i] by (simp add: keeps_def ClearFileRefs_def)
    moreover have "keeps C s (s\<lparr>po_files := g\<rparr>)" for g by (simp add: keeps_def)
    ultimately show ?thesis using keeps_trans by (fastforce simp: cleanup_job_def split: option.splits)
  qed
  have "keeps C s (foldl (cleanup_job E) s jobs)" for jobs
    by (induction jobs arbitrary: s) (auto intro: keeps_trans step)
  then show ?thesis by (simp add: cleanup_Run_def split: sum.splits)
qed

section \<open>Imports\<close>

definition empty_result :: "import_result \<Rightarrow> bool" where
  "empty_result res \<longleftrightarrow> ip_created res = 0 \<and> ip_skipped res = 0 \<and> ip_failed res = 0 \<and> ip_overwritten res = 0 \<and>
     list_all (\<lambda>(t, r). r = no_entities) (ip_types res)"

definition import_row_ok :: "import_job \<Rightarrow> bool" where
  "import_row_ok r = (case ij_result r of None \<Rightarrow> True | Some res \<Rightarrow> empty_result res)"

text \<open>An operation on imports leaves the exports, and keeps the mappings and the results empty.\<close>

definition idle :: "port_state \<Rightarrow> port_state \<Rightarrow> bool" where
  "idle s s' \<longleftrightarrow> po_exports s' = po_exports s \<and>
     (po_mappings s = [] \<and> list_all import_row_ok (po_imports s) \<longrightarrow>
      po_mappings s' = [] \<and> list_all import_row_ok (po_imports s'))"

lemma idle_refl [simp]: "idle s s"
  by (simp add: idle_def)

lemma idle_trans: "idle s s' \<Longrightarrow> idle s' s'' \<Longrightarrow> idle s s''"
  by (simp add: idle_def)

lemma idle_publish [simp]: "idle s (port_publish E ty i og ts s') \<longleftrightarrow> idle s s'"
  by (simp add: idle_def)

lemma idle_allow: "port_allow E k u a s = (ok, s') \<Longrightarrow> idle s s'"
  by (simp add: idle_def port_allow_fields)

lemma idle_change:
  assumes "\<And>r. import_row_ok r \<Longrightarrow> import_row_ok (f r)"
  shows "idle s (snd (import_update E s q i f))"
proof -
  have u: "import_row_ok (r\<lparr>ij_updated_at := t\<rparr>) = import_row_ok r" for r t by (simp add: import_row_ok_def)
  have "list_all import_row_ok (tbl_update P (\<lambda>r. f (r\<lparr>ij_updated_at := t\<rparr>)) rows)"
    if "list_all import_row_ok rows" for P t rows
    using that assms u by (auto simp: list_all_iff set_tbl_update)
  then show ?thesis by (simp add: idle_def import_update_def)
qed

lemma idle_status: "idle s (snd (import_UpdateStatus E s i st msg))"
  unfolding import_UpdateStatus_def by (rule idle_change) (simp add: import_row_ok_def)

lemma idle_started: "idle s (snd (UpdateProcessingStartedAt E s i t))"
  unfolding UpdateProcessingStartedAt_def by (rule idle_change) (simp add: import_row_ok_def)

lemma idle_result: "empty_result res \<Longrightarrow> idle s (snd (UpdateResult E s i res))"
  unfolding UpdateResult_def by (rule idle_change) (simp add: import_row_ok_def)

lemma idle_claim: "idle s (snd (import_ClaimJob E s i st st'))"
proof -
  have "import_row_ok (r\<lparr>ij_status := st', ij_updated_at := t\<rparr>) = import_row_ok r" for r t by (simp add: import_row_ok_def)
  then have "list_all import_row_ok (tbl_update P (\<lambda>r. r\<lparr>ij_status := st', ij_updated_at := t\<rparr>) rows)"
    if "list_all import_row_ok rows" for P t rows
    using that by (auto simp: list_all_iff set_tbl_update)
  then show ?thesis by (simp add: idle_def import_ClaimJob_def Let_def)
qed

lemma idle_Create: "ij_result job = None \<Longrightarrow> import_Create E s job = (r, s') \<Longrightarrow> idle s s'"
  by (auto simp: import_Create_def Let_def idle_def import_row_ok_def split: if_splits)

lemma idle_CreateImport:
  assumes "CreateImport E s req = (r, s')"
  shows "idle s s'"
proof -
  obtain ok s1 where a: "port_allow E 1 (iq_user req) ''import'' s = (ok, s1)" by fastforce
  have "s' = s1 \<or> (\<exists>job x s2. import_Create E s1 job = (x, s2) \<and> ij_result job = None \<and>
      (s' = s2 \<or> (\<exists>i og ts. s' = port_publish E ImportCreated i og ts s2)))"
  proof (cases "ok")
    case True
    with assms a show ?thesis
      unfolding CreateImport_def Let_def
      by (simp split: sum.splits prod.splits if_splits) (blast | fastforce)+
  next
    case False
    then show ?thesis using assms a by (simp add: CreateImport_def)
  qed
  then show ?thesis using idle_allow [OF a] idle_Create idle_trans by (metis idle_publish)
qed

lemma idle_CancelImport: "idle s (snd (CancelImport E s i))"
  using idle_status [of s E] by (auto simp: CancelImport_def split: sum.splits)

lemma idle_begin:
  assumes "ProcessImport_begin E s i = (r, s')"
  shows "idle s s'" and "r = Inr run \<Longrightarrow> empty_result (rn_result run)"
  using assms idle_status [of s E i PProcessing None]
  by (auto simp: ProcessImport_begin_def empty_result_def no_results_def split: sum.splits prod.splits if_splits)

lemma processEntityType_empty:
  assumes "po_mappings s = []" and "processEntityType E s job t = (r, s')"
  shows "s' = s \<and> (\<forall>x. r = Inr x \<longrightarrow> x = no_entities)"
  using assms by (auto simp: processEntityType_def FindByJobAndEntityType_def split: if_splits)

lemma add_empty: "empty_result res \<Longrightarrow> empty_result (add_result t no_entities res)"
  by (simp add: empty_result_def add_result_def no_entities_def)

lemma entity_turn_empty:
  assumes "po_mappings s = []" and "empty_result (rn_result run)" and "entity_turn E run s = (run', s')"
  shows "s' = s \<and> empty_result (rn_result run')"
proof (cases "rn_todo run")
  case (Cons t rest)
  obtain r s1 where p: "processEntityType E s (rn_job run) t = (r, s1)" by fastforce
  show ?thesis
    using assms(2,3) Cons p processEntityType_empty [OF assms(1) p] add_empty
    by (auto simp: entity_turn_def Let_def split: if_splits sum.splits)
qed (use assms in \<open>simp add: entity_turn_def\<close>)

lemma idle_end:
  assumes "empty_result (rn_result run)"
  shows "idle s (snd (ProcessImport_end E run s))"
proof -
  define s1 where "s1 = snd (UpdateResult E s (ij_id (rn_job run)) (rn_result run))"
  have "idle s (snd (import_UpdateStatus E s1 i st msg))" for i st msg
    using idle_trans [OF idle_result [OF assms] idle_status] by (simp add: s1_def)
  moreover have "idle s (x\<lparr>po_audit := a\<rparr>) \<longleftrightarrow> idle s x" for x a by (simp add: idle_def)
  ultimately show ?thesis by (simp add: ProcessImport_end_def Let_def s1_def split: option.splits)
qed

lemma idle_reaper: "idle s (stuckJobReaper E s)"
proof -
  have "idle s (foldl (\<lambda>d job. snd (import_UpdateStatus E d (ij_id job) st msg)) s jobs)"
    for jobs :: "import_job list" and st msg
    by (induction jobs arbitrary: s) (auto intro: idle_trans idle_status)
  then show ?thesis by (simp add: stuckJobReaper_def split: sum.splits)
qed

lemma idle_import_route:
  assumes "\<And>s. idle s (snd (next s))"
  shows "idle s (snd (ImportRateLimit E c (through g next) s))"
proof -
  have "idle s (snd (through g next s))" for s using assms by (cases g) simp_all
  then show ?thesis
    by (auto simp: ImportRateLimit_def port_rate_limit_def split: option.splits prod.splits bool.splits
        dest: idle_allow intro: idle_trans)
qed

lemma idle_routes:
  "idle s (snd (Route_PreviewImport E c up s))" "idle s (snd (Route_CreateImport E c org up s))"
  "idle s (snd (Route_CancelImport E c param s))"
proof -
  show "idle s (snd (Route_PreviewImport E c up s))"
    unfolding Route_PreviewImport_def by (rule idle_import_route) simp
  have "idle s (snd (PH_CreateImport E c org up s))" for s
    by (auto simp: PH_CreateImport_def split: option.splits prod.splits sum.splits dest: idle_CreateImport)
  then show "idle s (snd (Route_CreateImport E c org up s))"
    unfolding Route_CreateImport_def by (rule idle_import_route)
  have "idle s (snd (PH_CancelImport E param s))"
    using idle_CancelImport [of s E]
    by (auto simp: PH_CancelImport_def split: option.splits prod.splits sum.splits) (metis snd_conv)+
  then show "idle s (snd (Route_CancelImport E c param s))"
    by (cases "port_guard E ''import:cancel'' c") (simp_all add: Route_CancelImport_def)
qed

section \<open>The system\<close>

definition port_inv :: "port_sys \<Rightarrow> bool" where
  "port_inv s \<longleftrightarrow> exports_ok (set (sy_claims s)) (po_exports (sy_db s)) \<and> distinct (sy_claims s) \<and>
     list_all (\<lambda>job. ej_id job \<in> set (sy_claims s)) (sy_exporting s) \<and>
     list_all (\<lambda>(job, written). ej_id job \<in> set (sy_claims s)) (sy_storing s) \<and>
     po_mappings (sy_db s) = [] \<and> list_all import_row_ok (po_imports (sy_db s)) \<and>
     list_all (\<lambda>run. empty_result (rn_result run)) (sy_importing s)"

lemma port_inv_keeps:
  "port_inv s \<Longrightarrow> keeps (set (sy_claims s)) (sy_db s) d \<Longrightarrow> port_inv (s\<lparr>sy_db := d\<rparr>)"
  by (simp add: port_inv_def keeps_def)

lemma port_inv_idle: "port_inv s \<Longrightarrow> idle (sy_db s) d \<Longrightarrow> port_inv (s\<lparr>sy_db := d\<rparr>)"
  by (simp add: port_inv_def idle_def)

lemma set_without: "set (take k xs @ drop (Suc k) xs) \<subseteq> set xs"
  by (auto dest: in_set_takeD in_set_dropD)

lemma list_all_without: "list_all P xs \<Longrightarrow> list_all P (take k xs @ drop (Suc k) xs)"
  using set_without [of k xs] by (metis list_all_iff subsetD)

lemma claim_exports:
  assumes "exports_ok C rows" and "r \<in> set rows" and "ej_id r = i" and "ej_status r = PQueued" and "ej_visible r"
  shows "i \<notin> C"
    and "exports_ok (insert i C) (tbl_update (\<lambda>r. ej_visible r \<and> ej_id r = i \<and> ej_status r = PQueued)
      (\<lambda>r. r\<lparr>ej_status := PProcessing, ej_updated_at := t\<rparr>) rows)"
proof -
  have ok: "export_row_ok C r" using assms(1,2) by (auto simp: exports_ok_def list_all_iff)
  then show "i \<notin> C" using assms(3,4) by (auto simp: export_row_ok_def)
  let ?P = "\<lambda>r. ej_visible r \<and> ej_id r = i \<and> ej_status r = PQueued"
  let ?f = "\<lambda>r. r\<lparr>ej_status := PProcessing, ej_updated_at := t\<rparr>"
  have ids: "map ej_id (tbl_update ?P ?f rows) = map ej_id rows" by (rule map_tbl_update) simp
  then have sets: "ej_id ` set (tbl_update ?P ?f rows) = ej_id ` set rows" by (metis set_map)
  have one: "x = r" if "x \<in> set rows" "ej_id x = i" for x
    using that assms(1-3) by (auto simp: exports_ok_def distinct_map dest: inj_onD)
  have "export_row_ok (insert i C) y" if "y \<in> set (tbl_update ?P ?f rows)" for y
  proof -
    from that obtain x where x: "x \<in> set rows" "y = (if ?P x then ?f x else x)"
      by (auto simp: set_tbl_update split: if_splits)
    then have okx: "export_row_ok C x" using assms(1) by (auto simp: exports_ok_def list_all_iff)
    show ?thesis
    proof (cases "ej_id x = i")
      case True
      then show ?thesis using one [OF x(1)] x assms(4,5) ok assms(3) by (auto simp: export_row_ok_def split: if_splits)
    next
      case False
      then show ?thesis using x okx by (auto simp: export_row_ok_def)
    qed
  qed
  then show "exports_ok (insert i C) (tbl_update ?P ?f rows)"
    using assms(1,2,3) ids sets by (auto simp: exports_ok_def list_all_iff)
qed

lemma tbl_update_none: "\<forall>r\<in>set rows. \<not> P r \<Longrightarrow> tbl_update P f rows = rows"
  by (induction rows) (simp_all add: tbl_update_def)

lemma port_inv_claim:
  assumes "port_inv s"
  shows "port_inv (processExport_claim E s i)"
proof -
  let ?P = "\<lambda>r. ej_visible r \<and> ej_id r = i \<and> ej_status r = PQueued"
  let ?rows = "po_exports (sy_db s)"
  let ?d = "sy_db s\<lparr>po_exports := tbl_update ?P (\<lambda>r. r\<lparr>ej_status := PProcessing, ej_updated_at := re_now E\<rparr>) ?rows\<rparr>"
  show ?thesis
  proof (cases "\<not> re_fault E (QExpClaim i) \<and> (\<exists>r\<in>set ?rows. ?P r)")
    case True
    then obtain r where r: "r \<in> set ?rows" "?P r" by blast
    have ok: "exports_ok (set (sy_claims s)) ?rows" using assms by (simp add: port_inv_def)
    note c = claim_exports(1) [OF ok r(1), of i] claim_exports(2) [OF ok r(1), of i "re_now E"]
    have inv: "port_inv (s\<lparr>sy_db := ?d, sy_claims := sy_claims s @ [i]\<rparr>)"
      using assms c r(2) by (auto simp: port_inv_def elim!: list.pred_mono_strong)
    have found: "ej_id job = i" if "export_FindByID E ?d i = Inr job" for job
      using that by (auto simp: export_FindByID_def split: if_splits option.splits dest: tbl_first_SomeD)
    have same: "tbl_count ?P ?rows = 1 \<or> tbl_count ?P ?rows \<noteq> 1" by blast
    have "tbl_count ?P ?rows = 1"
    proof -
      have "filter ?P ?rows = filter (\<lambda>x. x = r) ?rows"
        using r ok by (intro filter_cong) (auto simp: exports_ok_def distinct_map dest: inj_onD)
      moreover have "distinct ?rows" using ok by (simp add: exports_ok_def distinct_map)
      ultimately show ?thesis using r(1) distinct_length_filter [of ?rows "\<lambda>x. x = r"]
        by (simp add: tbl_count_def)
    qed
    then have cl: "export_ClaimJob E (sy_db s) i PQueued PProcessing = (Inr True, ?d)"
      using True by (simp add: export_ClaimJob_def)
    show ?thesis
    proof (cases "export_FindByID E ?d i")
      case (Inl err)
      then show ?thesis using inv cl by (simp add: processExport_claim_def)
    next
      case (Inr job)
      then show ?thesis using inv cl found [OF Inr] by (auto simp: processExport_claim_def port_inv_def)
    qed
  next
    case False
    then have none: "re_fault E (QExpClaim i) \<or> tbl_count ?P ?rows = 0 \<and> ?d = sy_db s"
      using tbl_update_none [of ?rows ?P] by (auto simp: tbl_count_0_iff)
    then show ?thesis using assms by (auto simp: processExport_claim_def export_ClaimJob_def)
  qed
qed

lemma claims_drop:
  "port_inv s \<Longrightarrow> port_inv (s\<lparr>sy_exporting := take k (sy_exporting s) @ drop (Suc k) (sy_exporting s)\<rparr>)"
  "port_inv s \<Longrightarrow> port_inv (s\<lparr>sy_storing := take k (sy_storing s) @ drop (Suc k) (sy_storing s)\<rparr>)"
  "port_inv s \<Longrightarrow> port_inv (s\<lparr>sy_importing := take k (sy_importing s) @ drop (Suc k) (sy_importing s)\<rparr>)"
  using list_all_without [of _ "sy_exporting s" k] list_all_without [of _ "sy_storing s" k]
    list_all_without [of _ "sy_importing s" k]
  by (auto simp: port_inv_def)

lemma port_inv_stream:
  assumes "port_inv s"
  shows "port_inv (processExport_stream E s k)"
proof (cases "k < length (sy_exporting s)")
  case True
  define job where "job = sy_exporting s ! k"
  define s1 where "s1 = s\<lparr>sy_exporting := take k (sy_exporting s) @ drop (Suc k) (sy_exporting s)\<rparr>"
  have s1: "port_inv s1" using claims_drop(1) [OF assms] by (simp add: s1_def)
  have job: "ej_id job \<in> set (sy_claims s)" using assms True by (simp add: port_inv_def job_def list_all_length)
  obtain r out d where st: "StreamExport E (sy_db s)
      \<lparr>eq_types = ej_types job, eq_format = ej_format job, eq_org = ej_org job, eq_user = ej_created_by job\<rparr> = ((r, out), d)"
    by (metis prod.exhaust)
  have k: "keeps C (sy_db s) d" for C using keeps_stream [OF st] .
  show ?thesis
  proof (cases r)
    case (Inl err)
    have "keeps C (sy_db s1) (job_failed E job (error_text err) d)" for C
      using keeps_trans [OF k keeps_fail] by (simp add: job_failed_def s1_def)
    then have "port_inv (s1\<lparr>sy_db := job_failed E job (error_text err) d\<rparr>)" by (rule port_inv_keeps [OF s1])
    then show ?thesis using True st Inl by (simp add: processExport_stream_def Let_def job_def s1_def)
  next
    case (Inr u)
    have "port_inv (s1\<lparr>sy_db := d\<rparr>)" using port_inv_keeps [OF s1] k by (simp add: s1_def)
    then have "port_inv (s1\<lparr>sy_db := d, sy_storing := sy_storing s @ [(job, out)]\<rparr>)"
      using job by (simp add: port_inv_def s1_def)
    then show ?thesis using True st Inr by (simp add: processExport_stream_def Let_def job_def s1_def)
  qed
qed (use assms in \<open>simp add: processExport_stream_def\<close>)

lemma port_inv_store:
  assumes "port_inv s"
  shows "port_inv (processExport_store E s k)"
proof (cases "k < length (sy_storing s)")
  case True
  obtain job out where job: "sy_storing s ! k = (job, out)" by fastforce
  define s1 where "s1 = s\<lparr>sy_storing := take k (sy_storing s) @ drop (Suc k) (sy_storing s)\<rparr>"
  have s1: "port_inv s1" using claims_drop(2) [OF assms] by (simp add: s1_def)
  have "(job, out) \<in> set (sy_storing s)" using True job by (metis nth_mem)
  then have claimed: "ej_id job \<in> set (sy_claims s1)" using assms by (auto simp: port_inv_def s1_def list_all_iff)
  have "keeps C (sy_db s1) (job_failed E job msg (sy_db s1))" for C msg
    using keeps_fail by (simp add: job_failed_def)
  then have failed: "port_inv (s1\<lparr>sy_db := job_failed E job msg (sy_db s1)\<rparr>)" for msg by (rule port_inv_keeps [OF s1])
  have "keeps (set (sy_claims s1)) (sy_db s1) (sy_db s1\<lparr>po_files := g\<rparr>)" for g by (simp add: keeps_def)
  then have "keeps (set (sy_claims s1)) (sy_db s1)
      (snd (export_UpdateFilePath E (sy_db s1\<lparr>po_files := g\<rparr>) (ej_id job) path n sig))" for g path n sig
    using keeps_trans keeps_path claimed by blast
  then have "port_inv (s1\<lparr>sy_db := port_publish E ty i og ts
      (snd (export_UpdateFilePath E (sy_db s1\<lparr>po_files := g\<rparr>) (ej_id job) path n sig))\<rparr>)" for g path n sig ty i og ts
    using port_inv_keeps [OF s1] by simp
  then show ?thesis using True job failed by (simp add: processExport_store_def Let_def s1_def)
qed (use assms in \<open>simp add: processExport_store_def\<close>)

lemma port_inv_processJob:
  assumes "port_inv s"
  shows "port_inv (import_processJob E s i)"
proof -
  obtain r d where c: "import_ClaimJob E (sy_db s) i PQueued PProcessing = (r, d)" by fastforce
  have d: "idle (sy_db s) d" using idle_claim [of "sy_db s" E i PQueued PProcessing] c by simp
  define d1 where "d1 = snd (UpdateProcessingStartedAt E d i (re_now E))"
  have d1: "idle (sy_db s) d1" using idle_trans [OF d idle_started] by (simp add: d1_def)
  obtain x d2 where b: "ProcessImport_begin E d1 i = (x, d2)" by fastforce
  have d2: "idle (sy_db s) d2" using idle_trans [OF d1 idle_begin(1) [OF b]] .
  have run: "x = Inr run \<Longrightarrow> empty_result (rn_result run)" for run using idle_begin(2) [OF b] .
  have inv: "port_inv (s\<lparr>sy_db := d\<rparr>)" "port_inv (s\<lparr>sy_db := d2\<rparr>)" using port_inv_idle [OF assms] d d2 by blast+
  then have claimed: "port_inv (s\<lparr>sy_import_claims := cs, sy_db := d2\<rparr>)" for cs by (simp add: port_inv_def)
  have started: "port_inv (s\<lparr>sy_import_claims := cs, sy_db := d2, sy_importing := sy_importing s @ [run]\<rparr>)"
    if "x = Inr run" for cs run
    using claimed [of cs] run [OF that] by (simp add: port_inv_def)
  show ?thesis
  proof (cases r)
    case (Inl err)
    then show ?thesis using c inv by (simp add: import_processJob_def)
  next
    case (Inr claimed_now)
    then show ?thesis
      using c b inv claimed started by (cases claimed_now; cases x) (simp_all add: import_processJob_def d1_def Let_def)
  qed
qed

lemma port_inv_turn:
  assumes "port_inv s"
  shows "port_inv (import_turn E s k)"
proof (cases "k < length (sy_importing s)")
  case True
  obtain run d where t: "entity_turn E (sy_importing s ! k) (sy_db s) = (run, d)" by fastforce
  have "empty_result (rn_result (sy_importing s ! k))" "po_mappings (sy_db s) = []"
    using assms True by (auto simp: port_inv_def list_all_length)
  then have "d = sy_db s" "empty_result (rn_result run)" using entity_turn_empty t by blast+
  then show ?thesis
    using assms True t by (auto simp: import_turn_def port_inv_def list_all_length nth_list_update)
qed (use assms in \<open>simp add: import_turn_def\<close>)

lemma port_inv_finish:
  assumes "port_inv s"
  shows "port_inv (import_finish E s k)"
proof (cases "k < length (sy_importing s) \<and> rn_todo (sy_importing s ! k) = []")
  case True
  have "empty_result (rn_result (sy_importing s ! k))" using assms True by (auto simp: port_inv_def list_all_length)
  then have "port_inv (s\<lparr>sy_db := snd (ProcessImport_end E (sy_importing s ! k) (sy_db s))\<rparr>)"
    using port_inv_idle [OF assms] idle_end by blast
  then show ?thesis using claims_drop(3) [of "s\<lparr>sy_db := snd (ProcessImport_end E (sy_importing s ! k) (sy_db s))\<rparr>" k] True
    by (simp add: import_finish_def)
qed (use assms in \<open>auto simp: import_finish_def\<close>)

lemma port_inv_step: "port_inv s \<Longrightarrow> port_inv (port_step E op s)"
proof (cases op)
  case ExportTick
  assume "port_inv s"
  then show ?thesis
    using port_inv_claim ExportTick by (auto simp: export_loop_tick_def split: sum.splits option.splits)
next
  case ImportTick
  assume "port_inv s"
  then show ?thesis
    using port_inv_processJob ImportTick by (auto simp: import_loop_tick_def split: sum.splits list.splits)
qed (simp_all add: port_inv_keeps port_inv_idle keeps_route_CreateExport keeps_route_CancelExport keeps_cleanup
      idle_routes idle_reaper port_inv_stream port_inv_store port_inv_turn port_inv_finish
      HandleExportTask_def HandleImportTask_def port_inv_claim port_inv_processJob split: option.splits)

lemma reach_inv: "port_reach s \<Longrightarrow> port_inv s"
proof (induction rule: port_reach.induct)
  case start
  then show ?case by (simp add: port_inv_def port_initial_def exports_ok_def)
qed (rule port_inv_step)

section \<open>A run\<close>

text \<open>An environment in which everything is allowed, the limits because Redis is down; identifiers are any text.\<close>

definition demo_port_env :: "instant \<Rightarrow> uuid \<Rightarrow> port_env" where
  "demo_port_env t i = \<lparr>re_now = t * second, re_fault = (\<lambda>q. False), re_new_id = i, re_audit_full = False,
     re_enforce = (\<lambda>sub dom obj act. Inr True), px_limits = \<lparr>dp_export = 10, dp_import = 5, dp_record = 50000\<rparr>,
     px_redis = no_faults\<lparr>rf_rem := True, rf_read := True\<rparr>, px_random = int, px_bus = (\<lambda>e. True), px_hmac = (\<lambda>k p. []), px_sha256 = (\<lambda>c. c),
     px_parse = Some, px_marshal = (\<lambda>v. []), px_lines = (\<lambda>c. [Value (JObj [(''type'', JStr ''users''),
       (''data'', JObj [(''id'', JStr c)])]) False]), px_ctx_done = (\<lambda>n. False), px_row_ctx_done = (\<lambda>n. False),
     px_store_fault = (\<lambda>f. False), px_new_uuid = (\<lambda>n. ''n''), px_signing_key = ''k'',
     px_sync_threshold = DefaultSyncThreshold, px_file_ttl = 0, px_enqueue = None, px_worker_queue = False,
     px_max_file_size = 52428800\<rparr>"

definition demo_user :: guard_ctx where
  "demo_user = \<lparr>gc_claims = Some ''u1'', gc_tenant = []\<rparr>"

definition port_run :: "(port_env \<times> port_op) list \<Rightarrow> port_sys" where
  "port_run ops = foldl (\<lambda>s (E, op). port_step E op s) port_initial ops"

lemma port_run_reach: "port_reach (port_run ops)"
proof -
  have "port_reach s \<Longrightarrow> port_reach (foldl (\<lambda>s (E, op). port_step E op s) s ops)" for s
    by (induction ops arbitrary: s) (auto intro: port_reach.step)
  then show ?thesis by (simp add: port_run_def port_reach.start)
qed

definition demo_sync :: "(port_env \<times> port_op) list" where
  "demo_sync = [(demo_port_env 1 ''e1'', DoCreateExport demo_user None (Some (Some [''users''], ''csv'')))]"

definition demo_async :: "(port_env \<times> port_op) list" where
  "demo_async = [(demo_port_env 1 ''e1''\<lparr>px_sync_threshold := 500\<rparr>, DoCreateExport demo_user None (Some (Some [''users''], ''csv''))),
     (demo_port_env 2 ''x'', ExportTask ''e1''), (demo_port_env 2 ''x'', ExportTask ''e1''),
     (demo_port_env 3 ''x'', ExportStreamed 0), (demo_port_env 4 ''x'', ExportStored 0)]"

definition demo_upload :: "port_env \<times> port_op" where
  "demo_upload = (demo_port_env 1 ''i1'', DoCreateImport demo_user None
     \<lparr>up_form_ok = True, up_length = 9, up_file = Some (Some ''u1''), up_format = [], up_strategy = []\<rparr>)"

definition demo_import :: "(port_env \<times> port_op) list" where
  "demo_import = [demo_upload, (demo_port_env 2 ''x'', ImportTick)] @
     replicate 7 (demo_port_env 3 ''x'', ImportTurn 0) @ [(demo_port_env 4 ''x'', ImportDone 0)]"

lemmas port_demo_defs = port_run_def port_initial_def demo_port_env_def demo_user_def no_faults_def second_def
  Route_CreateExport_def ExportRateLimit_def port_rate_limit_def port_allow_def DP_Allow_def ZRemUpTo_def ss_live_def
  limitForAction_def record_entry_def ZAdd_member_def Expire_def empty_set_def entry_id_def dp_window_def
  through_def port_guard_def RequirePermission_def Permission_def TenantDomainExtractor_def PH_CreateExport_def
  GetUserID_def CreateExport_def export_permitted_def exportable_types IsRestricted_def restrictedEntities_def ImportOrder_def
  requested_types_def estimateRecordCount_def DefaultSyncThreshold_def createSyncExport_def createAsyncExport_def
  new_export_job_def export_Create_def tbl_count_def StreamExport_def resolveEncoder_def port_encode_def buildCursor_def
  CSV_Encode_def export_UpdateFilePath_def export_update_def tbl_update_def ej_visible_def port_publish_def NewPortEvent_def
  SignDataPortabilityFile_def hex_encode_def Let_def

lemma demo_sync_row:
  "\<exists>r :: export_job. po_exports (sy_db (port_run demo_sync)) = [r] \<and> ej_id r = ''e1'' \<and> ej_status r = PCompleted \<and>
     ej_file_path r = Some [] \<and> ej_file_expires_at r = None \<and> ej_deleted_at r = None"
  by (simp add: demo_sync_def port_demo_defs)

lemmas port_async_defs = HandleExportTask_def processExport_claim_def export_ClaimJob_def export_FindByID_def tbl_first_Cons
  processExport_stream_def processExport_store_def

text \<open>An asynchronous export is claimed once and stored, and stays in processing.\<close>

lemma demo_async_row:
  "\<exists>r :: export_job. po_exports (sy_db (port_run demo_async)) = [r] \<and> ej_status r = PProcessing \<and> \<not> ej_sync r \<and>
     ej_file_path r = Some ''exports/e1.csv'' \<and> sy_claims (port_run demo_async) = [''e1'']"
  by (simp add: demo_async_def port_demo_defs port_async_defs)

section \<open>What can be downloaded\<close>

text \<open>Whatever requests, passes of the workers and failures have been, an export that the download route answers is a
  synchronous one, and the address in the answer is empty: no exported data can be fetched.\<close>

theorem downloads_are_empty:
  assumes "port_reach s" and "Route_DownloadExport E c param (sy_db s) = (200, Some d)"
  shows "ed_url d = [] \<and> (\<exists>r\<in>set (po_exports (sy_db s)). ej_sync r \<and> ej_status r = PCompleted)"
proof -
  have ok: "list_all (export_row_ok (set (sy_claims s))) (po_exports (sy_db s))"
    using reach_inv [OF assms(1)] by (simp add: port_inv_def exports_ok_def)
  from assms(2) obtain i where "DownloadExport E (sy_db s) i = Inr d"
    by (auto simp: Route_DownloadExport_def PH_DownloadExport_def split: option.splits sum.splits)
  then obtain r path where "export_FindByID E (sy_db s) i = Inr r" "ej_status r = PCompleted"
      "ej_file_path r = Some path" "ed_url d = path"
    by (auto simp: DownloadExport_def split: sum.splits if_splits option.splits prod.splits)
  moreover from this have "r \<in> set (po_exports (sy_db s))"
    by (auto simp: export_FindByID_def split: if_splits option.splits dest: tbl_first_SomeD)
  moreover from this have "export_row_ok (set (sy_claims s)) r" using ok by (simp add: list_all_iff)
  ultimately show ?thesis by (auto simp: export_row_ok_def split: if_splits)
qed

lemma demo_sync_answer:
  "\<exists>d. Route_DownloadExport (demo_port_env 5 ''x'') demo_user ''e1'' (sy_db (port_run demo_sync)) = (200, Some d)"
proof -
  obtain r :: export_job where "po_exports (sy_db (port_run demo_sync)) = [r]" "ej_id r = ''e1''" "ej_status r = PCompleted"
    "ej_file_path r = Some []" "ej_file_expires_at r = None" "ej_deleted_at r = None"
    using demo_sync_row by blast
  then show ?thesis
    by (simp add: Route_DownloadExport_def port_guard_def RequirePermission_def Permission_def demo_port_env_def demo_user_def
        TenantDomainExtractor_def PH_DownloadExport_def DownloadExport_def export_FindByID_def tbl_first_Cons ej_visible_def
        split: prod.splits)
qed

theorem downloads_are_empty_witness:
  "\<exists>d. Route_DownloadExport (demo_port_env 5 ''x'') demo_user ''e1'' (sy_db (port_run demo_sync)) = (200, Some d) \<and> ed_url d = []"
  using demo_sync_answer downloads_are_empty [OF port_run_reach] by blast

text \<open>C32. An export is claimed by a worker at most once, however the claims of the workers, cancellations and failures
  interleave; and an asynchronous export never becomes completed.\<close>

theorem exports_claimed_once:
  assumes "port_reach s"
  shows "distinct (sy_claims s) \<and> list_all (\<lambda>r. ej_sync r \<or> ej_status r \<noteq> PCompleted) (po_exports (sy_db s))"
  using reach_inv [OF assms] by (auto simp: port_inv_def exports_ok_def export_row_ok_def list_all_iff split: if_splits)

theorem exports_claimed_once_witness:
  "sy_claims (port_run demo_async) = [''e1''] \<and> distinct (sy_claims (port_run demo_async))"
  using demo_async_row exports_claimed_once [OF port_run_reach, of demo_async] by blast

text \<open>No import changes anything: in every state that the system can reach, the table of mappings is empty, and the
  result of every import that has one counts no entity as created, skipped, overwritten or failed.\<close>

theorem imports_change_nothing:
  assumes "port_reach s"
  shows "po_mappings (sy_db s) = [] \<and> list_all import_row_ok (po_imports (sy_db s))"
  using reach_inv [OF assms] by (simp add: port_inv_def)

lemmas port_import_defs = Route_CreateImport_def ImportRateLimit_def ImportFileSizeLimit_def DefaultMaxFileSize_def
  PH_CreateImport_def CreateImport_def checked_file_def ValidateFileContent_def checkCSVInjection_def looksLikeCSV_def
  createDecoder_def port_validate_def JSON_Validate_def json_check_def nd_decode_def string_field_def data_field_def
  finish_preview_def empty_preview_def preview_count_def maxImportEntities_def maxNestingDepth_def
  ValidateImportFile_def NewDataPortabilityValidator_def FindByIdempotencyKey_def conflict_strategies_def
  import_Create_def NewEntityRegistry_def GetImportOrder_def import_loop_tick_def FindQueued_def gorm_page_def
  import_processJob_def import_ClaimJob_def UpdateProcessingStartedAt_def import_update_def ij_visible_def
  ProcessImport_begin_def import_FindByID_def import_UpdateStatus_def filterEntityTypes_def import_turn_def
  entity_turn_def processEntityType_def FindByJobAndEntityType_def add_result_def import_finish_def ProcessImport_end_def
  UpdateResult_def log_action_def no_results_def no_entities_def

text \<open>The import is created, taken by a worker and run to its end.\<close>

lemma demo_import_valid: "checked_file (demo_port_env t i) (Some ''u1'') ''json'' =
    Inr (''u1'', \<lparr>pv_total = 1, pv_by_type = (\<lambda>_. 0)(''users'' := 1), pv_errors = [], pv_warnings = []\<rparr>)"
  by (simp add: demo_port_env_def port_import_defs IsImportable_def IsRestricted_def restrictedEntities_def ImportOrder_def
      trim_space_def is_space_def to_lower_def to_lower_char_def Let_def)

lemma demo_uploaded:
  "\<exists>r :: import_job. po_imports (sy_db (port_run [demo_upload])) = [r] \<and> sy_importing (port_run [demo_upload]) = [] \<and>
     ij_id r = ''i1'' \<and> ij_status r = PQueued \<and> ij_deleted_at r = None \<and> ij_types r = ImportOrder"
proof -
  let ?E = "demo_port_env 1 ''i1''"
  have f: "re_fault ?E q = False" "px_sha256 ?E c = c" "re_new_id ?E = ''i1''" "re_enforce ?E a b c' d = Inr True"
    "px_parse ?E = Some" "px_redis ?E = no_faults\<lparr>rf_rem := True, rf_read := True\<rparr>" for q c a b c' d
    by (simp_all add: demo_port_env_def)
  have allow: "port_allow ?E k ''u1'' ''import'' s = (True, s\<lparr>po_limits := (po_limits s)((''u1'', ''import'') :=
      snd (DP_Allow (px_redis ?E) (px_limits ?E) ''import'' (re_now ?E div 1000000) (px_random ?E k)
        (po_limits s (''u1'', ''import'')))) \<rparr>)" for k s
    by (simp add: port_allow_def f no_faults_def DP_Allow_def)
  show ?thesis
    by (simp add: port_run_def demo_upload_def Route_CreateImport_def ImportRateLimit_def port_rate_limit_def demo_user_def
        allow through_def ImportFileSizeLimit_def DefaultMaxFileSize_def port_guard_def RequirePermission_def Permission_def
        TenantDomainExtractor_def f PH_CreateImport_def GetUserID_def CreateImport_def demo_import_valid ValidateImportFile_def
        NewDataPortabilityValidator_def to_lower_def to_lower_char_def Let_def FindByIdempotencyKey_def IsNotFound_def
        conflict_strategies_def import_Create_def tbl_count_def port_initial_def GetImportOrder_def NewEntityRegistry_def
        ImportOrder_def)
qed

lemma demo_taken:
  fixes r :: import_job
  assumes "po_imports (sy_db s) = [r]" and "ij_status r = PQueued" and "ij_deleted_at r = None" and "sy_importing s = []"
  shows "\<exists>(r' :: import_job) (run :: import_run). po_imports (sy_db (port_step (demo_port_env t x) ImportTick s)) = [r'] \<and>
    sy_importing (port_step (demo_port_env t x) ImportTick s) = [run] \<and> ij_id r' = ij_id r \<and> ij_deleted_at r' = None \<and>
    ij_id (rn_job run) = ij_id r \<and> rn_error run = None \<and>
    rn_todo run = filterEntityTypes (GetImportOrder NewEntityRegistry) (ij_types r)"
  using assms
  by (simp add: import_loop_tick_def FindQueued_def gorm_page_def demo_port_env_def import_processJob_def import_ClaimJob_def
      ij_visible_def tbl_count_def tbl_update_def UpdateProcessingStartedAt_def import_update_def ProcessImport_begin_def
      import_FindByID_def tbl_first_Cons import_UpdateStatus_def Let_def)

lemma demo_turns:
  assumes "sy_importing s = [run]" and "rn_error run = None" and "po_mappings (sy_db s) = []" and "set (rn_todo run) \<subseteq> set ImportOrder"
  shows "\<exists>run' :: import_run. sy_importing (foldl (\<lambda>s (E, op). port_step E op s) s
        (replicate (length (rn_todo run)) (demo_port_env t x, ImportTurn 0))) = [run'] \<and>
      rn_job run' = rn_job run \<and> rn_error run' = None \<and> rn_todo run' = [] \<and>
      sy_db (foldl (\<lambda>s (E, op). port_step E op s) s
        (replicate (length (rn_todo run)) (demo_port_env t x, ImportTurn 0))) = sy_db s"
  using assms
proof (induction "rn_todo run" arbitrary: run s)
  case (Cons y ys)
  have y: "rn_todo run = y # ys" "IsImportable NewEntityRegistry y" "\<not> IsRestricted y"
    using Cons.hyps(2) [symmetric] Cons.prems(4) exportable_types importable_unrestricted by auto
  define run1 where "run1 = run\<lparr>rn_todo := ys, rn_turn := Suc (rn_turn run), rn_result := add_result y no_entities (rn_result run)\<rparr>"
  have e: "px_ctx_done (demo_port_env t x) n = False" "re_enforce (demo_port_env t x) a b c d = Inr True"
    "re_fault (demo_port_env t x) q = False" for n a b c d q by (simp_all add: demo_port_env_def)
  have "entity_turn (demo_port_env t x) run (sy_db s) = (run1, sy_db s)"
    using y Cons.prems(3) by (simp add: entity_turn_def Let_def e processEntityType_def FindByJobAndEntityType_def run1_def)
  then have step: "port_step (demo_port_env t x) (ImportTurn 0) s = s\<lparr>sy_db := sy_db s, sy_importing := [run1]\<rparr>"
    using Cons.prems(1) by (simp add: import_turn_def)
  have "set ys \<subseteq> set ImportOrder" using Cons.prems(4) y by simp
  then show ?case
    using Cons.hyps(1) [of run1 "s\<lparr>sy_db := sy_db s, sy_importing := [run1]\<rparr>"] Cons.prems(2,3) y(1) step
    by (simp add: run1_def)
qed auto

theorem imports_change_nothing_witness:
  "(\<exists>r :: import_job. po_imports (sy_db (port_run demo_import)) = [r] \<and> ij_status r = PCompleted \<and> ij_result r \<noteq> None \<and>
     import_row_ok r) \<and> po_mappings (sy_db (port_run demo_import)) = []"
proof -
  let ?run = "\<lambda>s ops. foldl (\<lambda>s (E, op). port_step E op s) s ops"
  define s1 where "s1 = port_run [demo_upload]"
  define s2 where "s2 = port_step (demo_port_env 2 ''x'') ImportTick s1"
  define s3 where "s3 = ?run s2 (replicate 7 (demo_port_env 3 ''x'', ImportTurn 0))"
  have run: "port_run demo_import = port_step (demo_port_env 4 ''x'') (ImportDone 0) s3"
    by (simp add: demo_import_def port_run_def s1_def s2_def s3_def)
  obtain r :: import_job where r: "po_imports (sy_db s1) = [r]" "sy_importing s1 = []" "ij_status r = PQueued"
    "ij_deleted_at r = None" "ij_types r = ImportOrder" using demo_uploaded by (auto simp: s1_def)
  obtain r' :: import_job and run :: import_run where r': "po_imports (sy_db s2) = [r']" "sy_importing s2 = [run]" "ij_deleted_at r' = None"
    "ij_id (rn_job run) = ij_id r'" "rn_error run = None" "rn_todo run = filterEntityTypes (GetImportOrder NewEntityRegistry) ImportOrder"
    using demo_taken [OF r(1,3,4,2), of 2 "''x''"] r(5) by (auto simp: s2_def)
  have m: "po_mappings (sy_db s2) = []"
    using imports_change_nothing [of s2] port_run_reach [of "[demo_upload, (demo_port_env 2 ''x'', ImportTick)]"]
    by (simp add: s1_def s2_def port_run_def)
  have "rn_todo run = ImportOrder" unfolding r'(6) by (simp add: filterEntityTypes_def GetImportOrder_def NewEntityRegistry_def ImportOrder_def)
  moreover have "length ImportOrder = 7" by (simp add: ImportOrder_def)
  ultimately obtain run' :: import_run where "sy_importing s3 = [run']" "rn_job run' = rn_job run" "rn_error run' = None"
    "rn_todo run' = []" "sy_db s3 = sy_db s2" using demo_turns [OF r'(2,5) m, of 3 "''x''"] by (auto simp: s3_def)
  then have "\<exists>r :: import_job. po_imports (sy_db (port_run demo_import)) = [r] \<and> ij_status r = PCompleted \<and> ij_result r \<noteq> None"
    using r' by (simp add: run import_finish_def ProcessImport_end_def UpdateResult_def import_update_def demo_port_env_def
        ij_visible_def tbl_count_def tbl_update_def import_UpdateStatus_def Let_def)
  then show ?thesis using imports_change_nothing [OF port_run_reach, of demo_import] by auto
qed

section \<open>Files\<close>

definition decodes :: "import_record list \<Rightarrow> nat \<Rightarrow> bool" where
  "decodes rs n \<longleftrightarrow> list_all (\<lambda>r. ir_errors r = []) rs \<and> length rs = n \<and> n \<le> 10000"

text \<open>C31. A file that a preview or a creation accepts is decoded without an error, to as many records as it has counted
  and no more than ten thousand: a CSV file always, a JSON file when its lines have one value each and its types come in
  the order of imports.\<close>

theorem accepted_files_decode:
  assumes "port_validate E format content = (pv, Inr ())"
  shows "(format \<noteq> ''json'' \<longrightarrow>
      (\<exists>rs. CSV_Decode parse NewEntityRegistry content = Inr rs \<and> decodes rs (pv_total pv))) \<and>
    (format = ''json'' \<longrightarrow> ordered_file NewEntityRegistry (px_lines E content) \<longrightarrow>
      decodes (JSON_Decode parse NewEntityRegistry (px_lines E content)) (pv_total pv))"
proof (cases "format = ''json''")
  case False
  then have v: "CSV_Validate NewEntityRegistry content = (pv, Inr ())" using assms by (simp add: port_validate_def)
  obtain headers rows c where "csv_read content = Some headers # rows" "index_of ''_type'' headers = Some c"
    using CSV_Validate_accepts [OF v] by metis
  then obtain rs where "CSV_Decode parse NewEntityRegistry content = Inr rs" by (simp add: CSV_Decode_def)
  then show ?thesis
    using False csv_codec.clean [OF v, of parse] csv_codec.small [OF v]
    by (simp add: csv_records_def maxImportEntities_def decodes_def)
next
  case True
  then have v: "JSON_Validate NewEntityRegistry (px_lines E content) = (pv, Inr ())"
    using assms by (simp add: port_validate_def)
  show ?thesis
    using True json_codec.clean [OF v, of parse] json_codec.small [OF v] by (simp add: maxImportEntities_def decodes_def)
qed

definition demo_csv :: string where
  "demo_csv = csv_write [[''_type'', ''id''], [''users'', ''u1''], [''roles'', ''r1'']]"

lemma demo_csv_valid: "\<exists>pv. port_validate (demo_port_env 1 ''x'') ''csv'' demo_csv = (pv, Inr ()) \<and> pv_total pv = 2"
proof -
  have "csv_read demo_csv = [Some [''_type'', ''id''], Some [''users'', ''u1''], Some [''roles'', ''r1'']]"
    unfolding demo_csv_def by (subst csv_roundtrip) (simp_all add: writable_def)
  then show ?thesis
    by (simp add: port_validate_def CSV_Validate_def csv_check_def csvJunctionEntities_def exportable_types IsRestricted_def
        restrictedEntities_def ImportOrder_def finish_preview_def csv_warnings_def maxImportEntities_def Let_def
        preview_count_def empty_preview_def)
qed

theorem accepted_files_decode_witness:
  "\<exists>rs. CSV_Decode Some NewEntityRegistry demo_csv = Inr rs \<and> decodes rs 2"
  using demo_csv_valid accepted_files_decode [of "demo_port_env 1 ''x''" "''csv''" demo_csv _ Some] by auto

text \<open>Without the order the decoder refuses what the validation has accepted, and so it does with text after the value.\<close>

definition demo_line :: "string \<Rightarrow> bool \<Rightarrow> nd_line" where
  "demo_line t trailing = Value (JObj [(''type'', JStr t), (''data'', JObj [(''id'', JStr ''x'')])]) trailing"

lemma nd_decode_demo: "nd_decode strict (JObj [(''type'', JStr t), (''data'', JObj [(''id'', JStr ''x'')])]) =
    Some (t, [], Some [(''id'', JStr ''x'')])"
  by (simp add: nd_decode_def string_field_def data_field_def to_lower_def to_lower_char_def)

lemma validation_misses_order:
  "snd (JSON_Validate NewEntityRegistry [demo_line ''users'' False, demo_line ''roles'' False]) = Inr () \<and>
   map (\<lambda>r. ir_errors r = []) (JSON_Decode Some NewEntityRegistry [demo_line ''users'' False, demo_line ''roles'' False]) =
     [True, False]"
  by (simp add: demo_line_def JSON_Validate_def json_check_def nd_decode_demo exportable_types IsRestricted_def
      restrictedEntities_def ImportOrder_def maxNestingDepth_def finish_preview_def maxImportEntities_def Let_def
      preview_count_def empty_preview_def JSON_Decode_def json_decode_line_def GetImportOrder_def NewEntityRegistry_def
      IsImportable_def)

lemma validation_misses_trailing_text:
  "snd (JSON_Validate NewEntityRegistry [demo_line ''users'' True]) = Inr () \<and>
   map (\<lambda>r. ir_errors r = []) (JSON_Decode Some NewEntityRegistry [demo_line ''users'' True]) = [False]"
  by (simp add: demo_line_def JSON_Validate_def json_check_def nd_decode_demo exportable_types IsRestricted_def
      restrictedEntities_def ImportOrder_def maxNestingDepth_def finish_preview_def maxImportEntities_def Let_def
      preview_count_def empty_preview_def JSON_Decode_def json_decode_line_def)

section \<open>Which exports are asynchronous\<close>

text \<open>There are seven types, so that without a type twice an export is always made at once.\<close>

lemma validated_types: "validate_types NewEntityRegistry ts = Inr () \<Longrightarrow> set ts \<subseteq> set ImportOrder"
  by (induction ts) (auto simp: exportable_types split: if_splits)

lemma distinct_types_synchronous:
  assumes "px_sync_threshold E = DefaultSyncThreshold" and "distinct (requested_types req)"
    and "CreateExport E s req = (Inr job, s')"
  shows "ej_sync job"
proof -
  have v: "validate_types NewEntityRegistry (requested_types req) = Inr ()"
    using assms(3) by (auto simp: CreateExport_def split: sum.splits)
  have "length (requested_types req) = card (set (requested_types req))" using distinct_card [OF assms(2)] by simp
  also have "\<dots> \<le> card (set ImportOrder)" using validated_types [OF v] by (intro card_mono) auto
  also have "\<dots> \<le> 7" using card_length [of ImportOrder] by (simp add: ImportOrder_def)
  finally have "estimateRecordCount req < px_sync_threshold E"
    by (simp add: estimateRecordCount_def assms(1) DefaultSyncThreshold_def)
  then obtain s1 where "createSyncExport E s1 req = (Inr job, s')"
    using assms(3) by (auto simp: CreateExport_def split: sum.splits prod.splits bool.splits)
  then show ?thesis
    by (auto simp: createSyncExport_def new_export_job_def export_Create_def Let_def
        split: sum.splits prod.splits if_splits)
qed

end
