(* ===== verification/Storage.thy ===== *)
theory Storage
  imports Webhook_Service
begin

text \<open>
  The storage drivers (\<open>storage/storage.go\<close>, \<open>storage/local.go\<close>) and the part of the S3 driver that
  chooses the key of an object. The disk is the regular files by their path; what the operating system
  refuses (a directory in the way, permissions, a full disk) is in the environment, and a copy that
  fails may have written a part of the content.
\<close>

section \<open>Errors\<close>

datatype storage_cause = ErrFileNotFound | OsError

datatype storage_error = StorageError string string storage_cause

text \<open>\<open>IsNotFound\<close> of \<open>storage.go\<close>\<close>

fun storage_IsNotFound :: "storage_error \<Rightarrow> bool" where
  "storage_IsNotFound (StorageError op path cause) = (cause = ErrFileNotFound)"

section \<open>Paths\<close>

text \<open>\<open>filepath.Clean\<close>, which \<open>filepath.Join\<close> applies: the components without the empty ones and
  the dots, with every double dot resolved; the components that go up from a relative path stay.\<close>

fun clean_parts :: "bool \<Rightarrow> string list \<Rightarrow> string list \<Rightarrow> string list" where
  "clean_parts rooted out [] = rev out"
| "clean_parts rooted out (p # ps) =
     (if p = [] \<or> p = ''.'' then clean_parts rooted out ps
      else if p = ''..'' then
        (case out of
           [] \<Rightarrow> if rooted then clean_parts rooted [] ps else clean_parts rooted [''..''] ps
         | q # rest \<Rightarrow> if q = ''..'' then clean_parts rooted (''..'' # out) ps else clean_parts rooted rest ps)
      else clean_parts rooted (p # out) ps)"

definition path_clean :: "string \<Rightarrow> string" where
  "path_clean path =
     (let rooted = has_prefix path ''/'';
          cleaned = (if rooted then ''/'' else []) @ str_join ''/'' (clean_parts rooted [] (str_split CHR ''/'' path))
      in if cleaned = [] then ''.'' else cleaned)"

definition path_join :: "string \<Rightarrow> string \<Rightarrow> string" where
  "path_join a b =
     (let parts = filter (\<lambda>p. p \<noteq> []) [a, b] in if parts = [] then [] else path_clean (str_join ''/'' parts))"

text \<open>\<open>sanitizePath\<close> of the local driver\<close>

definition safe_parts :: "string \<Rightarrow> string list" where
  "safe_parts path = filter (\<lambda>p. p \<noteq> ''..'' \<and> p \<noteq> []) (str_split CHR ''/'' path)"

definition local_sanitizePath :: "string \<Rightarrow> string" where
  "local_sanitizePath path = str_join ''/'' (safe_parts path)"

text \<open>\<open>sanitizePath\<close> of \<open>storage.go\<close>, the key of an object of S3\<close>

definition sanitizePath :: "string \<Rightarrow> string" where
  "sanitizePath path =
     map (\<lambda>c. if c = CHR 0x5C then CHR ''/'' else c) (dropWhile (\<lambda>c. c = CHR ''/'') path)"

section \<open>The local driver\<close>

type_synonym disk = "string \<Rightarrow> string option"

datatype os_call = OsMkdir string | OsCreate string | OsCopy string | OsOpen string | OsRemove string | OsStat string

record os_env =
  os_fault :: "os_call \<Rightarrow> bool"
  os_written :: nat

record local_driver =
  ld_base :: string
  ld_url :: string

definition trim_suffix :: "string \<Rightarrow> string \<Rightarrow> string" where
  "trim_suffix s p = (if has_suffix s p then take (length s - length p) s else s)"

definition NewLocalDriver :: "'e os_env_scheme \<Rightarrow> string \<Rightarrow> string \<Rightarrow> (storage_cause + local_driver)" where
  "NewLocalDriver V basePath baseURL =
     (if os_fault V (OsMkdir basePath) then Inl OsError
      else Inr \<lparr>ld_base = basePath, ld_url = trim_suffix baseURL ''/''\<rparr>)"

definition fullPath :: "local_driver \<Rightarrow> string \<Rightarrow> string" where
  "fullPath d path = path_join (ld_base d) (local_sanitizePath path)"

definition local_Store ::
    "'e os_env_scheme \<Rightarrow> local_driver \<Rightarrow> disk \<Rightarrow> string \<Rightarrow> string \<Rightarrow> (storage_error + unit) \<times> disk" where
  "local_Store V d fs path content =
     (let full = fullPath d path in
      if os_fault V (OsMkdir full) then (Inl (StorageError ''store'' path OsError), fs)
      else if os_fault V (OsCreate full) then (Inl (StorageError ''store'' path OsError), fs)
      else if os_fault V (OsCopy full) then
        (Inl (StorageError ''store'' path OsError), fs(full \<mapsto> take (os_written V) content))
      else (Inr (), fs(full \<mapsto> content)))"

definition local_Get :: "'e os_env_scheme \<Rightarrow> local_driver \<Rightarrow> disk \<Rightarrow> string \<Rightarrow> storage_error + string" where
  "local_Get V d fs path =
     (let full = fullPath d path in
      if os_fault V (OsOpen full) then Inl (StorageError ''get'' path OsError)
      else case fs full of None \<Rightarrow> Inl (StorageError ''get'' path ErrFileNotFound) | Some content \<Rightarrow> Inr content)"

definition local_Delete ::
    "'e os_env_scheme \<Rightarrow> local_driver \<Rightarrow> disk \<Rightarrow> string \<Rightarrow> (storage_error + unit) \<times> disk" where
  "local_Delete V d fs path =
     (let full = fullPath d path in
      if os_fault V (OsRemove full) then (Inl (StorageError ''delete'' path OsError), fs)
      else (Inr (), fs(full := None)))"

definition local_URL :: "local_driver \<Rightarrow> string \<Rightarrow> string" where
  "local_URL d path = ld_url d @ ''/'' @ local_sanitizePath path"

definition local_Exists :: "'e os_env_scheme \<Rightarrow> local_driver \<Rightarrow> disk \<Rightarrow> string \<Rightarrow> storage_error + bool" where
  "local_Exists V d fs path =
     (let full = fullPath d path in
      if os_fault V (OsStat full) then Inl (StorageError ''exists'' path OsError) else Inr (fs full \<noteq> None))"

definition local_Size :: "'e os_env_scheme \<Rightarrow> local_driver \<Rightarrow> disk \<Rightarrow> string \<Rightarrow> storage_error + nat" where
  "local_Size V d fs path =
     (let full = fullPath d path in
      if os_fault V (OsStat full) then Inl (StorageError ''size'' path OsError)
      else case fs full of
        None \<Rightarrow> Inl (StorageError ''size'' path ErrFileNotFound)
      | Some content \<Rightarrow> Inr (length content))"

definition all_calls_work :: "'e os_env_scheme \<Rightarrow> bool" where
  "all_calls_work V \<longleftrightarrow> (\<forall>c. \<not> os_fault V c)"

section \<open>Where a file lies\<close>

lemma str_split_parts: "p \<in> set (str_split sep s) \<Longrightarrow> sep \<notin> set p"
  by (induction s arbitrary: p) (auto split: if_splits list.splits)

lemma safe_parts_props: "p \<in> set (safe_parts path) \<Longrightarrow> p \<noteq> ''..'' \<and> p \<noteq> [] \<and> CHR ''/'' \<notin> set p"
  by (auto simp: safe_parts_def dest: str_split_parts)

lemma split_str_join:
  "ps \<noteq> [] \<Longrightarrow> list_all (\<lambda>p. sep \<notin> set p) ps \<Longrightarrow> str_split sep (str_join [sep] ps) = ps"
proof (induction ps)
  case (Cons p ps)
  then show ?case by (cases ps) (simp_all add: str_split_no_sep str_split_append)
qed simp

lemma split_join_safe:
  "str_split CHR ''/'' (local_sanitizePath path) = (if safe_parts path = [] then [[]] else safe_parts path)"
proof (cases "safe_parts path = []")
  case False
  have "list_all (\<lambda>p. CHR ''/'' \<notin> set p) (safe_parts path)"
    by (auto simp: list_all_iff dest: safe_parts_props)
  with False show ?thesis using split_str_join [of "safe_parts path" "CHR ''/''"] by (simp add: local_sanitizePath_def)
qed (simp add: local_sanitizePath_def)

lemma sanitize_idem: "local_sanitizePath (local_sanitizePath path) = local_sanitizePath path"
proof -
  have "safe_parts (local_sanitizePath path) = safe_parts path"
    using safe_parts_props [of _ path] by (auto simp: safe_parts_def [of "local_sanitizePath path"] split_join_safe filter_id_conv)
  then show ?thesis by (metis local_sanitizePath_def)
qed

lemma clean_parts_append:
  "clean_parts r out (ps @ qs) = clean_parts r (rev (clean_parts r out ps)) qs"
  by (induction r out ps rule: clean_parts.induct) (auto split: list.splits)

lemma clean_parts_safe:
  "''..'' \<notin> set ps \<Longrightarrow> clean_parts r out ps = rev out @ filter (\<lambda>p. p \<noteq> [] \<and> p \<noteq> ''.'') ps"
  by (induction ps arbitrary: out) auto

lemma str_split_append_split:
  "str_split sep (s @ sep # t) = str_split sep s @ str_split sep t"
  by (induction s) (auto split: list.splits simp: str_split_nonempty)

text \<open>The components of the path of a file under the directory of the driver, without dots.\<close>

definition dir_parts :: "string \<Rightarrow> string list" where
  "dir_parts path = clean_parts (has_prefix path ''/'') [] (str_split CHR ''/'' path)"

definition file_parts :: "string \<Rightarrow> string list" where
  "file_parts path = filter (\<lambda>p. p \<noteq> ''.'') (safe_parts path)"

definition render_path :: "string \<Rightarrow> string list \<Rightarrow> string" where
  "render_path base parts =
     (let text = (if has_prefix base ''/'' then ''/'' else []) @ str_join ''/'' parts in if text = [] then ''.'' else text)"

lemma has_prefix_slash_append: "a \<noteq> [] \<Longrightarrow> has_prefix (a @ b) ''/'' = has_prefix a ''/''"
  by (cases a) (auto simp: has_prefix_def)

theorem fullPath_under_base:
  assumes "ld_base d \<noteq> []"
  shows "fullPath d path = render_path (ld_base d) (dir_parts (ld_base d) @ file_parts path)"
proof (cases "local_sanitizePath path = []")
  case True
  then have "safe_parts path = []"
    using split_join_safe [of path] safe_parts_props [of "hd (safe_parts path)" path]
    by (cases "safe_parts path") auto
  with True assms show ?thesis
    by (simp add: fullPath_def path_join_def path_clean_def render_path_def dir_parts_def file_parts_def Let_def)
next
  case False
  let ?base = "ld_base d"
  have parts: "str_split CHR ''/'' (local_sanitizePath path) = safe_parts path"
    using False split_join_safe [of path] by (auto simp: local_sanitizePath_def split: if_splits)
  have no: "''..'' \<notin> set (safe_parts path)" by (auto dest: safe_parts_props)
  have "filter (\<lambda>p. p \<noteq> [] \<and> p \<noteq> ''.'') (safe_parts path) = file_parts path"
    unfolding file_parts_def by (rule filter_cong) (auto dest: safe_parts_props)
  then have "clean_parts (has_prefix ?base ''/'') [] (str_split CHR ''/'' (?base @ CHR ''/'' # local_sanitizePath path)) =
      dir_parts ?base @ file_parts path"
    by (simp add: str_split_append_split parts clean_parts_append clean_parts_safe [OF no] dir_parts_def)
  moreover have "has_prefix (?base @ CHR ''/'' # local_sanitizePath path) ''/'' = has_prefix ?base ''/''"
    using assms by (rule has_prefix_slash_append)
  ultimately show ?thesis
    using False assms by (simp add: fullPath_def path_join_def path_clean_def render_path_def Let_def)
qed

definition part_ok :: "string \<Rightarrow> bool" where
  "part_ok p \<longleftrightarrow> p \<noteq> [] \<and> p \<noteq> ''.'' \<and> CHR ''/'' \<notin> set p"

lemma part_ok_dots [simp]: "part_ok ''..''"
  by (simp add: part_ok_def)

lemma file_parts_props: "p \<in> set (file_parts path) \<Longrightarrow> part_ok p \<and> p \<noteq> ''..''"
  using safe_parts_props [of p path] by (simp add: file_parts_def part_ok_def)

lemma clean_parts_clean:
  "list_all part_ok out \<Longrightarrow> list_all (\<lambda>p. CHR ''/'' \<notin> set p) ps \<Longrightarrow> list_all part_ok (clean_parts r out ps)"
proof (induction ps arbitrary: out)
  case (Cons p ps)
  show ?case
  proof (cases "p = [] \<or> p = ''.'' \<or> p = ''..''")
    case True
    then show ?thesis using Cons by (cases out) auto
  next
    case False
    then have "part_ok p" using Cons.prems by (simp add: part_ok_def)
    with False show ?thesis using Cons by simp
  qed
qed simp

lemma dir_parts_props: "p \<in> set (dir_parts base) \<Longrightarrow> part_ok p"
proof -
  have "list_all (\<lambda>p. CHR ''/'' \<notin> set p) (str_split CHR ''/'' base)"
    by (auto simp: list_all_iff dest: str_split_parts)
  then have "list_all part_ok (dir_parts base)" by (simp add: dir_parts_def clean_parts_clean)
  then show "p \<in> set (dir_parts base) \<Longrightarrow> part_ok p" by (simp add: list_all_iff)
qed

lemma split_join_ok: "list_all part_ok ps \<Longrightarrow> str_split CHR ''/'' (str_join ''/'' ps) = (if ps = [] then [[]] else ps)"
  using split_str_join [of ps "CHR ''/''"] by (cases "ps = []") (simp_all add: list_all_iff part_ok_def)

lemma str_join_inj:
  assumes "list_all part_ok ps" "list_all part_ok qs" and "str_join ''/'' ps = str_join ''/'' qs"
  shows "ps = qs"
proof -
  have "(if ps = [] then [[]] else ps) = (if qs = [] then [[]] else qs)"
    using split_join_ok [OF assms(1)] split_join_ok [OF assms(2)] assms(3) by simp
  moreover have "ps \<noteq> [[]]" "qs \<noteq> [[]]" using assms(1,2) by (auto simp: part_ok_def)
  ultimately show ?thesis by (cases "ps = []"; cases "qs = []") simp_all
qed

lemma str_join_dot:
  assumes "list_all part_ok ps"
  shows "str_join ''/'' ps \<noteq> ''.''"
proof
  assume a: "str_join ''/'' ps = ''.''"
  have "ps = [''.'']" using split_join_ok [OF assms] a by (cases "ps = []") simp_all
  with assms show False by (simp add: part_ok_def)
qed

lemma render_path_inj:
  assumes "list_all part_ok ps" "list_all part_ok qs" and eq: "render_path base ps = render_path base qs"
  shows "ps = qs"
proof (rule str_join_inj [OF assms(1,2)])
  have "str_join ''/'' ps \<noteq> ''.''" "str_join ''/'' qs \<noteq> ''.''" using assms by (simp_all add: str_join_dot)
  then show "str_join ''/'' ps = str_join ''/'' qs"
    using eq by (cases "has_prefix base ''/''") (simp_all add: render_path_def Let_def split: if_splits)
qed

lemma fullPath_eq_iff:
  assumes "ld_base d \<noteq> []"
  shows "fullPath d p = fullPath d q \<longleftrightarrow> file_parts p = file_parts q"
proof
  have ok: "list_all part_ok (dir_parts (ld_base d) @ file_parts path)" for path
    by (simp add: list_all_iff ball_Un dir_parts_props file_parts_props)
  assume "fullPath d p = fullPath d q"
  then have "render_path (ld_base d) (dir_parts (ld_base d) @ file_parts p) =
      render_path (ld_base d) (dir_parts (ld_base d) @ file_parts q)"
    using fullPath_under_base [OF assms] by simp
  from render_path_inj [OF ok ok this] show "file_parts p = file_parts q" by simp
qed (simp add: fullPath_under_base [OF assms])

section \<open>The driver as a store of files\<close>

text \<open>
  The contract of \<open>Driver\<close>: what is read is what was stored last under a path with the same key, and
  nothing under one that was deleted.
\<close>

locale file_store =
  fixes key :: "string \<Rightarrow> 'k"
    and store :: "'s \<Rightarrow> string \<Rightarrow> string \<Rightarrow> 's"
    and fetch :: "'s \<Rightarrow> string \<Rightarrow> string option"
    and remove :: "'s \<Rightarrow> string \<Rightarrow> 's"
  assumes fetch_store: "fetch (store s p c) q = (if key q = key p then Some c else fetch s q)"
    and fetch_remove: "fetch (remove s p) q = (if key q = key p then None else fetch s q)"
begin

lemma store_remove: "fetch (remove (store s p c) p) q = (if key q = key p then None else fetch s q)"
  by (simp add: fetch_store fetch_remove)

lemma fetch_stores:
  "fetch (foldl (\<lambda>s (p, c). store s p c) s pcs) q =
   (case find (\<lambda>(p, c). key p = key q) (rev pcs) of None \<Rightarrow> fetch s q | Some (p, c) \<Rightarrow> Some c)"
  by (induction pcs rule: rev_induct) (auto simp: fetch_store split: prod.splits)

lemma others_stay: "key q \<notin> key ` fst ` set pcs \<Longrightarrow> fetch (foldl (\<lambda>s (p, c). store s p c) s pcs) q = fetch s q"
  by (induction pcs rule: rev_induct) (auto simp: fetch_store split: prod.splits)

end

definition reliable_os :: os_env where
  "reliable_os = \<lparr>os_fault = (\<lambda>_. False), os_written = 0\<rparr>"

definition read_file :: "local_driver \<Rightarrow> disk \<Rightarrow> string \<Rightarrow> string option" where
  "read_file d fs path = fs (fullPath d path)"

interpretation local_files: file_store "fullPath d" "\<lambda>fs p c. snd (local_Store reliable_os d fs p c)" "read_file d"
    "\<lambda>fs p. snd (local_Delete reliable_os d fs p)" for d
  by unfold_locales (simp_all add: local_Store_def local_Delete_def read_file_def reliable_os_def Let_def)

text \<open>What may be on the disk after an operation, whatever fails.\<close>

datatype disk_op = StoreFile string string | DeleteFile string

fun disk_step :: "local_driver \<Rightarrow> disk \<Rightarrow> 'e os_env_scheme \<times> disk_op \<Rightarrow> disk" where
  "disk_step d fs (V, StoreFile p c) = snd (local_Store V d fs p c)"
| "disk_step d fs (V, DeleteFile p) = snd (local_Delete V d fs p)"

fun op_path :: "disk_op \<Rightarrow> string" where
  "op_path (StoreFile p c) = p"
| "op_path (DeleteFile p) = p"

lemma disk_step_frame: "f \<noteq> fullPath d (op_path x) \<Longrightarrow> disk_step d fs (V, x) f = fs f"
  by (cases x) (simp_all add: local_Store_def local_Delete_def Let_def)

text \<open>
  C33. Whatever paths are stored and deleted, in any order and with any failures, only files below the
  directory of the driver change: their paths continue that of the directory by components without
  double dots.
\<close>

theorem driver_confined:
  assumes "ld_base d \<noteq> []" and "foldl (disk_step d) fs ops f \<noteq> fs f"
  shows "\<exists>parts. set parts \<inter> {[], ''.'', ''..''} = {} \<and> f = render_path (ld_base d) (dir_parts (ld_base d) @ parts)"
  using assms(2)
proof (induction ops rule: rev_induct)
  case (snoc x ops)
  obtain V y where x: "x = (V, y)" by fastforce
  show ?case
  proof (cases "f = fullPath d (op_path y)")
    case True
    then have "f = render_path (ld_base d) (dir_parts (ld_base d) @ file_parts (op_path y))"
      using fullPath_under_base [OF assms(1)] by simp
    moreover have "set (file_parts (op_path y)) \<inter> {[], ''.'', ''..''} = {}" using file_parts_props [of _ "op_path y"] by (auto simp: part_ok_def)
    ultimately show ?thesis by blast
  next
    case False
    then show ?thesis using snoc by (simp add: x disk_step_frame)
  qed
qed simp

lemma driver_confined_demo:
  "foldl (disk_step \<lparr>ld_base = ''/srv'', ld_url = []\<rparr>) (\<lambda>_. None)
     [(reliable_os, StoreFile ''../../etc/passwd'' ''x'')] ''/srv/etc/passwd'' = Some ''x''"
  by (simp add: local_Store_def reliable_os_def fullPath_def path_join_def local_sanitizePath_def safe_parts_def
      path_clean_def has_prefix_def)

lemma driver_confined_witness:
  "\<exists>parts. set parts \<inter> {[], ''.'', ''..''} = {} \<and>
     ''/srv/etc/passwd'' = render_path ''/srv'' (dir_parts ''/srv'' @ parts)"
  using driver_confined [of "\<lparr>ld_base = ''/srv'', ld_url = []\<rparr>" "\<lambda>_. None"
      "[(reliable_os, StoreFile ''../../etc/passwd'' ''x'')]" "''/srv/etc/passwd''"]
  unfolding driver_confined_demo by simp

text \<open>The comment of \<open>sanitizePath\<close> says that it removes double dots; it keeps them.\<close>

lemma sanitizePath_keeps_dots: "sanitizePath ''/../x'' = ''../x''"
  by (simp add: sanitizePath_def)

end
