(* ===== verification/Storage_Signer.thy ===== *)
theory Storage_Signer
  imports Webhook_Sign
begin

text \<open>
  Signed download addresses (\<open>storage/signer.go\<close>). HMAC-SHA256 is a parameter as for the webhook
  signatures; an instant is a number of nanoseconds, and a signed instant one of seconds.
\<close>

definition DefaultExpiry :: duration where "DefaultExpiry = 3600 * second"
definition MaxExpiry :: duration where "MaxExpiry = 86400 * second"
definition MinExpiry :: duration where "MinExpiry = 60 * second"

definition unix_secs :: "instant \<Rightarrow> int" where
  "unix_secs t = t div second"

record signed_url =
  su_url :: string
  su_expires_at :: instant
  su_expires_in :: int

section \<open>Signatures\<close>

definition signer_hmac :: "mac \<Rightarrow> string \<Rightarrow> string \<Rightarrow> string" where
  "signer_hmac hmac secret payload = hex_encode (hmac secret payload)"

definition sign :: "mac \<Rightarrow> string \<Rightarrow> string \<Rightarrow> string \<Rightarrow> int \<Rightarrow> string" where
  "sign hmac secret resourceID path expires =
     signer_hmac hmac secret (resourceID @ '':'' @ path @ '':'' @ itoa expires)"

definition signBasic :: "mac \<Rightarrow> string \<Rightarrow> string \<Rightarrow> int \<Rightarrow> string" where
  "signBasic hmac secret resourceID expires = signer_hmac hmac secret (resourceID @ '':'' @ itoa expires)"

definition signWithConversion :: "mac \<Rightarrow> string \<Rightarrow> string \<Rightarrow> string \<Rightarrow> string \<Rightarrow> int \<Rightarrow> string" where
  "signWithConversion hmac secret resourceID path conversion expires =
     signer_hmac hmac secret (resourceID @ '':'' @ path @ '':'' @ conversion @ '':'' @ itoa expires)"

section \<open>Addresses\<close>

text \<open>What \<open>URL.String\<close> prints of the path and the query, for a resource without special characters.\<close>

definition download_query :: "int \<Rightarrow> string \<Rightarrow> string" where
  "download_query expiresUnix signature = ''expires='' @ itoa expiresUnix @ ''&sig='' @ signature"

definition download_url :: "string \<Rightarrow> string \<Rightarrow> string" where
  "download_url resourceID query = ''/media/'' @ resourceID @ ''/download?'' @ query"

definition Generate :: "mac \<Rightarrow> string \<Rightarrow> instant \<Rightarrow> string \<Rightarrow> string \<Rightarrow> duration \<Rightarrow> signed_url result" where
  "Generate hmac secret now resourceID path expiry =
     (let expiry = (if expiry < MinExpiry then DefaultExpiry else expiry)
      in if expiry > MaxExpiry then Inl (Opaque ''expiry exceeds maximum allowed duration of 24h0m0s'')
         else let expiresAt = now + expiry; expiresUnix = unix_secs expiresAt;
                  signature = signBasic hmac secret resourceID expiresUnix
              in Inr \<lparr>su_url = download_url resourceID (download_query expiresUnix signature),
                   su_expires_at = expiresAt, su_expires_in = expiry div second\<rparr>)"

definition GenerateWithConversion ::
    "mac \<Rightarrow> string \<Rightarrow> instant \<Rightarrow> string \<Rightarrow> string \<Rightarrow> string \<Rightarrow> duration \<Rightarrow> signed_url result" where
  "GenerateWithConversion hmac secret now resourceID path conversion expiry =
     (let expiry = (if expiry < MinExpiry then DefaultExpiry else expiry)
      in if expiry > MaxExpiry then Inl (Opaque ''expiry exceeds maximum allowed duration of 24h0m0s'')
         else let expiresAt = now + expiry; expiresUnix = unix_secs expiresAt;
                  signature = signWithConversion hmac secret resourceID path conversion expiresUnix
              in Inr \<lparr>su_url = download_url resourceID
                     (''conversion='' @ QueryEscape conversion @ ''&'' @ download_query expiresUnix signature),
                   su_expires_at = expiresAt, su_expires_in = expiry div second\<rparr>)"

section \<open>Validation\<close>

definition IsExpired :: "instant \<Rightarrow> int \<Rightarrow> bool" where
  "IsExpired now expires = (unix_secs now > expires)"

definition Validate :: "mac \<Rightarrow> string \<Rightarrow> instant \<Rightarrow> string \<Rightarrow> string \<Rightarrow> int \<Rightarrow> string \<Rightarrow> bool" where
  "Validate hmac secret now resourceID signature expires path =
     (if unix_secs now > expires then False
      else let expectedSig = (if path \<noteq> [] then sign hmac secret resourceID path expires
                              else signBasic hmac secret resourceID expires)
           in signature = expectedSig)"

definition ValidateWithConversion ::
    "mac \<Rightarrow> string \<Rightarrow> instant \<Rightarrow> string \<Rightarrow> string \<Rightarrow> int \<Rightarrow> string \<Rightarrow> string \<Rightarrow> bool" where
  "ValidateWithConversion hmac secret now resourceID signature expires path conversion =
     (if unix_secs now > expires then False
      else signature = signWithConversion hmac secret resourceID path conversion expires)"

definition ParseExpiry :: "string \<Rightarrow> int result" where
  "ParseExpiry expiresStr =
     (case ParseInt expiresStr of None \<Rightarrow> Inl (Opaque ''invalid expiry timestamp'') | Some expires \<Rightarrow> Inr expires)"

definition GenerateSignature :: "mac \<Rightarrow> string \<Rightarrow> string \<Rightarrow> int \<Rightarrow> string" where
  "GenerateSignature hmac secret resourceID expires = signBasic hmac secret resourceID expires"

definition ValidateSignature :: "mac \<Rightarrow> instant \<Rightarrow> string \<Rightarrow> string \<Rightarrow> string \<Rightarrow> int \<Rightarrow> bool" where
  "ValidateSignature hmac now secret resourceID signature expires =
     Validate hmac secret now resourceID signature expires []"

section \<open>What an address carries\<close>

lemma itoa_chars: "c \<in> set (itoa i) \<Longrightarrow> is_digit c \<or> c = CHR ''-''"
  using digits_digits by (auto simp: itoa_def list_all_iff split: if_splits)

lemma itoa_no_char: "\<not> is_digit c \<Longrightarrow> c \<noteq> CHR ''-'' \<Longrightarrow> c \<notin> set (itoa i)"
  using itoa_chars by blast

lemma no_separators [simp]: "CHR '':'' \<notin> set (itoa i)" "CHR ''&'' \<notin> set (itoa i)"
  by (rule itoa_no_char; simp add: is_digit_def)+

lemma itoa_inject: "int64_range i \<Longrightarrow> int64_range j \<Longrightarrow> itoa i = itoa j \<Longrightarrow> i = j"
  by (metis ParseInt_itoa option.inject)

lemma append_sep_inject:
  "c \<notin> set x \<Longrightarrow> c \<notin> set y \<Longrightarrow> x @ c # r = y @ c # r' \<longleftrightarrow> x = y \<and> r = r'"
proof (induction x arbitrary: y)
  case Nil
  then show ?case by (cases y) auto
next
  case (Cons a x)
  then show ?case by (cases y) auto
qed

lemma hex_digit_inject: "a < 16 \<Longrightarrow> b < 16 \<Longrightarrow> hex_digit a = hex_digit b \<Longrightarrow> a = b"
proof -
  assume ab: "a < 16" "b < 16" and "hex_digit a = hex_digit b"
  then have "(of_char (hex_digit a) :: nat) = of_char (hex_digit b)" by simp
  with ab show "a = b" by (simp add: hex_digit_def split: if_splits)
qed

lemma hex_encode_inject: "hex_encode a = hex_encode b \<Longrightarrow> a = b"
proof (induction a arbitrary: b)
  case Nil
  then show ?case using hex_encode_nonempty [of b] by (simp add: hex_encode_def)
next
  case (Cons c a)
  then obtain c' b' where b: "b = c' # b'" using hex_encode_nonempty by (metis list.exhaust)
  have lt: "(of_char x :: nat) div 16 < 16" "(of_char x :: nat) mod 16 < 16" for x :: char
    using of_char_mod_256 [of x, where ?'a = nat] mod_less_divisor [of 256 "of_char x :: nat"]
    by (simp_all add: div_less_iff_less_mult)
  have "hex_digit (of_char c div 16) = hex_digit (of_char c' div 16)"
    "hex_digit (of_char c mod 16) = hex_digit (of_char c' mod 16)" "hex_encode a = hex_encode b'"
    using Cons.prems by (simp_all add: b hex_encode_def)
  then have "(of_char c :: nat) div 16 = of_char c' div 16" "(of_char c :: nat) mod 16 = of_char c' mod 16" "a = b'"
    using lt Cons.IH by (blast intro: hex_digit_inject)+
  then have "(of_char c :: nat) = of_char c'" by (metis div_mult_mod_eq)
  then show ?case using \<open>a = b'\<close> by (simp add: b)
qed

text \<open>The parameters of an address can be read off it.\<close>

lemma download_query_inject:
  assumes "int64_range e" "int64_range e'" and eq: "download_query e sg = download_query e' sg'"
  shows "e = e' \<and> sg = sg'"
proof -
  have "itoa e @ CHR ''&'' # ''sig='' @ sg = itoa e' @ CHR ''&'' # ''sig='' @ sg'" using eq by (simp add: download_query_def)
  then have "itoa e = itoa e' \<and> ''sig='' @ sg = ''sig='' @ sg'"
    by (subst (asm) append_sep_inject) simp_all
  then show ?thesis using itoa_inject assms(1,2) by simp
qed

lemma download_url_inject [simp]: "download_url i q = download_url i q' \<longleftrightarrow> q = q'"
  by (simp add: download_url_def)

lemma Generate_succeeds: "expiry \<le> MaxExpiry \<Longrightarrow> \<exists>u. Generate hmac secret now i path expiry = Inr u"
  by (simp add: Generate_def Let_def DefaultExpiry_def MaxExpiry_def second_def)

lemma generated_validates:
  assumes "Generate hmac secret now i path expiry = Inr u"
    and "su_url u = download_url i (download_query e sg)" "int64_range e" "int64_range (unix_secs (su_expires_at u))"
  shows "e = unix_secs (su_expires_at u) \<and> (Validate hmac secret now' i sg e [] \<longleftrightarrow> unix_secs now' \<le> e)"
proof -
  define x where "x = unix_secs (su_expires_at u)"
  have url: "download_query x (signBasic hmac secret i x) = download_query e sg"
    using assms(1,2) by (auto simp: Generate_def Let_def x_def split: if_splits)
  have "x = e \<and> signBasic hmac secret i x = sg"
    by (rule download_query_inject [OF _ _ url]) (use assms in \<open>simp_all add: x_def\<close>)
  then show ?thesis by (auto simp: Validate_def x_def not_less)
qed

lemma generated_expiry:
  assumes "Generate hmac secret now i path expiry = Inr u"
  shows "MinExpiry \<le> su_expires_at u - now \<and> su_expires_at u - now \<le> MaxExpiry"
proof -
  have n: "MinExpiry = 60000000000" "DefaultExpiry = 3600000000000" "MaxExpiry = 86400000000000"
    by (simp_all add: MinExpiry_def DefaultExpiry_def MaxExpiry_def second_def)
  show ?thesis using assms unfolding Generate_def Let_def n by (cases "expiry < 60000000000") (auto split: if_splits)
qed

text \<open>
  The path is no part of the signature of \<open>Generate\<close>, and a signature for a conversion is never one
  for the resource: what follows the identifier has a colon in it.
\<close>

lemma Generate_ignores_path: "Generate hmac secret now i path expiry = Generate hmac secret now i path' expiry"
  by (simp add: Generate_def)

lemma conversion_signature_differs:
  assumes inj: "\<And>m m'. hmac secret m = hmac secret m' \<Longrightarrow> m = m'" and "CHR '':'' \<notin> set i" "CHR '':'' \<notin> set j"
  shows "signWithConversion hmac secret i path conv e \<noteq> signBasic hmac secret j e'"
proof
  assume "signWithConversion hmac secret i path conv e = signBasic hmac secret j e'"
  then have "hmac secret (i @ '':'' @ path @ '':'' @ conv @ '':'' @ itoa e) = hmac secret (j @ '':'' @ itoa e')"
    unfolding signWithConversion_def signBasic_def signer_hmac_def by (rule hex_encode_inject)
  then have "i @ CHR '':'' # (path @ '':'' @ conv @ '':'' @ itoa e) = j @ CHR '':'' # itoa e'"
    by (drule_tac inj) simp
  then have "path @ '':'' @ conv @ '':'' @ itoa e = itoa e'"
    using append_sep_inject [OF assms(2,3)] by simp
  then have "CHR '':'' \<in> set (itoa e')" by (metis append_Cons in_set_conv_decomp)
  then show False by simp
qed

end
