(* ===== verification/Mime_Sniff.thy ===== *)
theory Mime_Sniff
  imports Prelude
begin

text \<open>
  \<open>http.DetectContentType\<close>, with which uploads are classified: the signatures of the standard library in
  their order, on the first 512 bytes. A pattern is the bytes that must be equal; \<open>None\<close> is a byte that
  the mask of the signature ignores.
\<close>

definition MagicBytesLength :: nat where "MagicBytesLength = 512"

definition byte :: "char \<Rightarrow> nat" where
  "byte c = of_char c"

definition sniff_space :: "char \<Rightarrow> bool" where
  "sniff_space c = (byte c \<in> {9, 10, 12, 13, 32})"

datatype sniff_sig = HtmlSig string | MaskedSig bool "nat option list" string | Mp4Sig | TextSig

fun match_bytes :: "nat option list \<Rightarrow> string \<Rightarrow> bool" where
  "match_bytes [] d = True"
| "match_bytes (p # ps) [] = False"
| "match_bytes (p # ps) (c # d) = ((case p of None \<Rightarrow> True | Some b \<Rightarrow> byte c = b) \<and> match_bytes ps d)"

text \<open>A letter of the tag matches in both cases; the tag ends with a space or a closing bracket.\<close>

fun match_html :: "string \<Rightarrow> string \<Rightarrow> bool" where
  "match_html [] [] = False"
| "match_html [] (c # d) = (c = CHR '' '' \<or> c = CHR ''>'')"
| "match_html (h # hs) [] = False"
| "match_html (h # hs) (c # d) =
     ((c = h \<or> 65 \<le> byte h \<and> byte h \<le> 90 \<and> byte c = byte h + 32) \<and> match_html hs d)"

fun mp4_brands :: "nat \<Rightarrow> string \<Rightarrow> bool" where
  "mp4_brands 0 d = False"
| "mp4_brands (Suc n) d = (take 3 d = ''mp4'' \<or> mp4_brands n (drop 4 d))"

definition match_mp4 :: "string \<Rightarrow> bool" where
  "match_mp4 d =
     (if length d < 12 then False
      else let boxSize = ((byte (d ! 0) * 256 + byte (d ! 1)) * 256 + byte (d ! 2)) * 256 + byte (d ! 3)
           in if length d < boxSize \<or> boxSize mod 4 \<noteq> 0 then False
              else if take 4 (drop 4 d) \<noteq> ''ftyp'' then False
              else 8 < boxSize \<and> take 3 (drop 8 d) = ''mp4'' \<or> mp4_brands ((boxSize - 16) div 4) (drop 16 d))"

definition binary_byte :: "char \<Rightarrow> bool" where
  "binary_byte c = (byte c \<le> 8 \<or> byte c = 11 \<or> 14 \<le> byte c \<and> byte c \<le> 26 \<or> 28 \<le> byte c \<and> byte c \<le> 31)"

fun sniff_match :: "sniff_sig \<Rightarrow> string \<Rightarrow> string option" where
  "sniff_match (HtmlSig tag) d =
     (if match_html tag (dropWhile sniff_space d) then Some ''text/html; charset=utf-8'' else None)"
| "sniff_match (MaskedSig skip pat ct) d =
     (if match_bytes pat (if skip then dropWhile sniff_space d else d) then Some ct else None)"
| "sniff_match Mp4Sig d = (if match_mp4 d then Some ''video/mp4'' else None)"
| "sniff_match TextSig d =
     (if \<exists>c\<in>set (dropWhile sniff_space d). binary_byte c then None else Some ''text/plain; charset=utf-8'')"

definition exact_sig :: "nat list \<Rightarrow> string \<Rightarrow> sniff_sig" where
  "exact_sig bytes ct = MaskedSig False (map Some bytes) ct"

definition text_sig :: "string \<Rightarrow> string \<Rightarrow> sniff_sig" where
  "text_sig pat ct = exact_sig (map byte pat) ct"

definition boxed_sig :: "string \<Rightarrow> string \<Rightarrow> string \<Rightarrow> sniff_sig" where
  "boxed_sig outer inner ct =
     MaskedSig False (map (\<lambda>c. Some (byte c)) outer @ replicate 4 None @ map (\<lambda>c. Some (byte c)) inner) ct"

definition sniff_signatures :: "sniff_sig list" where
  "sniff_signatures =
     map HtmlSig [''<!DOCTYPE HTML'', ''<HTML'', ''<HEAD'', ''<SCRIPT'', ''<IFRAME'', ''<H1'', ''<DIV'', ''<FONT'',
       ''<TABLE'', ''<A'', ''<STYLE'', ''<TITLE'', ''<B'', ''<BODY'', ''<BR'', ''<P'', ''<!--''] @
     [MaskedSig True (map (\<lambda>c. Some (byte c)) ''<?xml'') ''text/xml; charset=utf-8'',
      text_sig ''%PDF-'' ''application/pdf'',
      text_sig ''%!PS-Adobe-'' ''application/postscript'',
      MaskedSig False [Some 0xFE, Some 0xFF, None, None] ''text/plain; charset=utf-16be'',
      MaskedSig False [Some 0xFF, Some 0xFE, None, None] ''text/plain; charset=utf-16le'',
      MaskedSig False [Some 0xEF, Some 0xBB, Some 0xBF, None] ''text/plain; charset=utf-8'',
      exact_sig [0, 0, 1, 0] ''image/x-icon'',
      exact_sig [0, 0, 2, 0] ''image/x-icon'',
      text_sig ''BM'' ''image/bmp'',
      text_sig ''GIF87a'' ''image/gif'',
      text_sig ''GIF89a'' ''image/gif'',
      boxed_sig ''RIFF'' ''WEBPVP'' ''image/webp'',
      exact_sig [0x89, 0x50, 0x4E, 0x47, 0x0D, 0x0A, 0x1A, 0x0A] ''image/png'',
      exact_sig [0xFF, 0xD8, 0xFF] ''image/jpeg'',
      boxed_sig ''FORM'' ''AIFF'' ''audio/aiff'',
      text_sig ''ID3'' ''audio/mpeg'',
      exact_sig (map byte ''OggS'' @ [0]) ''application/ogg'',
      exact_sig (map byte ''MThd'' @ [0, 0, 0, 6]) ''audio/midi'',
      boxed_sig ''RIFF'' ''AVI '' ''video/avi'',
      boxed_sig ''RIFF'' ''WAVE'' ''audio/wave'',
      Mp4Sig,
      exact_sig [0x1A, 0x45, 0xDF, 0xA3] ''video/webm'',
      MaskedSig False (replicate 34 None @ [Some 0x4C, Some 0x50]) ''application/vnd.ms-fontobject'',
      exact_sig [0, 1, 0, 0] ''font/ttf'',
      text_sig ''OTTO'' ''font/otf'',
      text_sig ''ttcf'' ''font/collection'',
      text_sig ''wOFF'' ''font/woff'',
      text_sig ''wOF2'' ''font/woff2'',
      exact_sig [0x1F, 0x8B, 8] ''application/x-gzip'',
      exact_sig [0x50, 0x4B, 3, 4] ''application/zip'',
      exact_sig (map byte ''Rar!'' @ [0x1A, 7, 0]) ''application/x-rar-compressed'',
      exact_sig (map byte ''Rar!'' @ [0x1A, 7, 1, 0]) ''application/x-rar-compressed'',
      exact_sig [0, 0x61, 0x73, 0x6D] ''application/wasm'',
      TextSig]"

fun first_match :: "sniff_sig list \<Rightarrow> string \<Rightarrow> string" where
  "first_match [] d = ''application/octet-stream''"
| "first_match (s # ss) d = (case sniff_match s d of Some ct \<Rightarrow> ct | None \<Rightarrow> first_match ss d)"

definition DetectContentType :: "string \<Rightarrow> string" where
  "DetectContentType d = first_match sniff_signatures (take MagicBytesLength d)"

section \<open>What is detected\<close>

fun sig_type :: "sniff_sig \<Rightarrow> string" where
  "sig_type (HtmlSig tag) = ''text/html; charset=utf-8''"
| "sig_type (MaskedSig skip pat ct) = ct"
| "sig_type Mp4Sig = ''video/mp4''"
| "sig_type TextSig = ''text/plain; charset=utf-8''"

definition detectable :: "string list" where
  "detectable = ''application/octet-stream'' # map sig_type sniff_signatures"

lemma first_match_type: "first_match ss d \<in> set (''application/octet-stream'' # map sig_type ss)"
proof (induction ss)
  case (Cons s ss)
  have "sniff_match s d = Some ct \<Longrightarrow> ct = sig_type s" for ct by (cases s) (auto split: if_splits)
  then show ?case using Cons by (auto split: option.splits)
qed simp

lemma DetectContentType_detectable: "DetectContentType d \<in> set detectable"
  by (simp only: DetectContentType_def detectable_def first_match_type)

end
