(* ===== verification/Media.thy ===== *)
theory Media
  imports Storage Storage_Signer Mime_Sniff Permission_Guard Organization Feature_Flag
begin

text \<open>
  Media files: the rows (\<open>domain/media.go\<close>, \<open>domain/media_version.go\<close>), the repositories
  (\<open>repository/media.go\<close>, \<open>repository/media_version.go\<close>) with the constraints of
  \<open>migrations/000004_create_media_tables.up.sql\<close> and of the table of versions, and the media service
  (\<open>service/media.go\<close>).

  Every query, every call of the operating system and every read of the uploaded file may fail. A
  failing insert also stands for a user that does not exist. Rows that are deleted softly stay. The
  driver is the local one; SHA-256 and HMAC are parameters.
\<close>

section \<open>Rows\<close>

definition IsValidMediaDisk :: "string \<Rightarrow> bool" where
  "IsValidMediaDisk disk = (disk \<in> {''local'', ''s3'', ''minio''})"

record media_row =
  md_id :: uuid
  md_model_type :: string
  md_model_id :: uuid
  md_collection :: string
  md_disk :: string
  md_filename :: string
  md_original :: string
  md_mime :: string
  md_size :: int
  md_current :: int
  md_path :: string
  md_metadata :: "json option"
  md_props :: "json option"
  md_uploaded_by :: uuid
  md_created_at :: instant
  md_deleted_at :: "instant option"
  md_orphaned_at :: "instant option"

record media_conversion =
  mc_media :: uuid
  mc_name :: string
  mc_path :: string
  mc_size :: int

record media_version =
  mv_id :: uuid
  mv_media :: uuid
  mv_version :: int
  mv_filename :: string
  mv_original :: string
  mv_mime :: string
  mv_size :: int
  mv_path :: string
  mv_checksum :: string
  mv_uploaded_by :: uuid
  mv_created_at :: instant
  mv_deleted_at :: "instant option"

definition md_visible :: "media_row \<Rightarrow> bool" where
  "md_visible m = (md_deleted_at m = None)"

definition mv_visible :: "media_version \<Rightarrow> bool" where
  "mv_visible r = (mv_deleted_at r = None)"

definition mv_IsCurrent :: "media_version \<Rightarrow> int \<Rightarrow> bool" where
  "mv_IsCurrent r current = (mv_version r = current)"

definition mv_IsDeleted :: "media_version \<Rightarrow> bool" where
  "mv_IsDeleted r = (mv_deleted_at r \<noteq> None)"

record version_response =
  vr_id :: uuid
  vr_media :: uuid
  vr_version :: int
  vr_filename :: string
  vr_original :: string
  vr_mime :: string
  vr_size :: int
  vr_checksum :: string
  vr_uploaded_by :: uuid
  vr_current :: bool
  vr_created_at :: instant

definition mv_ToResponse :: "media_version \<Rightarrow> int \<Rightarrow> version_response" where
  "mv_ToResponse r current =
     \<lparr>vr_id = mv_id r, vr_media = mv_media r, vr_version = mv_version r, vr_filename = mv_filename r,
      vr_original = mv_original r, vr_mime = mv_mime r, vr_size = mv_size r, vr_checksum = mv_checksum r,
      vr_uploaded_by = mv_uploaded_by r, vr_current = (mv_version r = current), vr_created_at = mv_created_at r\<rparr>"

record media_response =
  mr_id :: uuid
  mr_model_type :: string
  mr_collection :: string
  mr_filename :: string
  mr_mime :: string
  mr_size :: int
  mr_current :: int
  mr_version_count :: nat
  mr_url :: string
  mr_conversions :: "(string \<times> int) list"
  mr_props :: "json option"
  mr_created_at :: instant

text \<open>The versions of a media are never loaded with it: the answer counts none.\<close>

definition md_ToResponse :: "media_row \<Rightarrow> media_conversion list \<Rightarrow> media_response" where
  "md_ToResponse m convs =
     \<lparr>mr_id = md_id m, mr_model_type = md_model_type m, mr_collection = md_collection m, mr_filename = md_original m,
      mr_mime = md_mime m, mr_size = md_size m, mr_current = md_current m, mr_version_count = 0, mr_url = [],
      mr_conversions = map (\<lambda>c. (mc_name c, mc_size c)) convs, mr_props = md_props m, mr_created_at = md_created_at m\<rparr>"

definition has_mime_class :: "string \<Rightarrow> string \<Rightarrow> bool" where
  "has_mime_class mime class = (length mime > length class \<and> take (length class) mime = class)"

definition IsImage :: "media_row \<Rightarrow> bool" where "IsImage m = has_mime_class (md_mime m) ''image/''"
definition IsVideo :: "media_row \<Rightarrow> bool" where "IsVideo m = has_mime_class (md_mime m) ''video/''"
definition IsAudio :: "media_row \<Rightarrow> bool" where "IsAudio m = has_mime_class (md_mime m) ''audio/''"
definition IsDocument :: "media_row \<Rightarrow> bool" where "IsDocument m = has_mime_class (md_mime m) ''application''"
definition IsOrphaned :: "media_row \<Rightarrow> bool" where "IsOrphaned m = (md_orphaned_at m \<noteq> None)"

section \<open>State and environment\<close>

record media_state =
  ms_media :: "media_row list"
  ms_conversions :: "media_conversion list"
  ms_versions :: "media_version list"
  ms_disk :: disk
  ms_audit :: "audit_entry list"

datatype media_query =
    QMediaCreate | QMediaByID uuid | QMediaByModel string uuid | QMediaSave uuid | QMediaDelete uuid | QMediaOrphan uuid
  | QMediaOrphaned | QMediaHardDelete uuid | QConvCreate | QConvDelete uuid
  | QVersionCreate int | QVersionBy uuid int | QVersionList uuid | QVersionDelete uuid | QVersionCount uuid
  | QVersionChecksum uuid string | QCurrentUpdate uuid

datatype file_read = ReadDetect | ReadRewind | ReadChecksum | ReadRewindAgain

record media_env = "media_query req_env" +
  mx_os :: os_env
  mx_driver :: local_driver
  mx_read_fault :: "file_read \<Rightarrow> bool"
  mx_hash :: "string \<Rightarrow> string"
  mx_hmac :: mac
  mx_jwt_secret :: string
  mx_signing_key :: string
  mx_file_uuid :: uuid
  mx_v1_id :: uuid
  mx_parse :: "string \<Rightarrow> uuid option"
  mx_bind_nil :: "nat option"

definition media_log :: "media_env \<Rightarrow> audit_entry \<Rightarrow> media_state \<Rightarrow> media_state" where
  "media_log E a s = s\<lparr>ms_audit := log_action E a (ms_audit s)\<rparr>"

text \<open>The driver on the disk of the state.\<close>

definition store_file :: "media_env \<Rightarrow> media_state \<Rightarrow> string \<Rightarrow> string \<Rightarrow> (storage_error + unit) \<times> media_state" where
  "store_file E s path content =
     (case local_Store (mx_os E) (mx_driver E) (ms_disk s) path content of (r, fs) \<Rightarrow> (r, s\<lparr>ms_disk := fs\<rparr>))"

definition get_file :: "media_env \<Rightarrow> media_state \<Rightarrow> string \<Rightarrow> storage_error + string" where
  "get_file E s path = local_Get (mx_os E) (mx_driver E) (ms_disk s) path"

definition delete_file :: "media_env \<Rightarrow> media_state \<Rightarrow> string \<Rightarrow> (storage_error + unit) \<times> media_state" where
  "delete_file E s path =
     (case local_Delete (mx_os E) (mx_driver E) (ms_disk s) path of (r, fs) \<Rightarrow> (r, s\<lparr>ms_disk := fs\<rparr>))"

section \<open>Constraints\<close>

definition is_lower :: "char \<Rightarrow> bool" where
  "is_lower c = (97 \<le> (of_char c :: nat) \<and> (of_char c :: nat) \<le> 122)"

definition is_upper :: "char \<Rightarrow> bool" where
  "is_upper c = (65 \<le> (of_char c :: nat) \<and> (of_char c :: nat) \<le> 90)"

text \<open>The pattern \<open>[a-z]+/[a-zA-Z0-9+-.]+\<close> of the checks on both tables\<close>

definition mime_column_ok :: "string \<Rightarrow> bool" where
  "mime_column_ok s =
     (let a = takeWhile is_lower s; b = dropWhile is_lower s
      in a \<noteq> [] \<and> b \<noteq> [] \<and> hd b = CHR ''/'' \<and> tl b \<noteq> []
         \<and> list_all (\<lambda>c. is_lower c \<or> is_upper c \<or> is_digit c \<or> c \<in> set ''+-.'') (tl b))"

definition media_row_ok :: "media_row \<Rightarrow> bool" where
  "media_row_ok m \<longleftrightarrow> md_size m > 0 \<and> mime_column_ok (md_mime m) \<and> length (md_mime m) \<le> 100
     \<and> length (md_model_type m) \<le> 255 \<and> length (md_collection m) \<le> 255 \<and> length (md_filename m) \<le> 255
     \<and> length (md_original m) \<le> 500 \<and> length (md_path m) \<le> 2000"

definition version_row_ok :: "media_version \<Rightarrow> bool" where
  "version_row_ok r \<longleftrightarrow> mv_version r > 0 \<and> mv_size r > 0 \<and> mime_column_ok (mv_mime r) \<and> length (mv_mime r) \<le> 100
     \<and> length (mv_filename r) \<le> 255 \<and> length (mv_original r) \<le> 500 \<and> length (mv_path r) \<le> 2000"

section \<open>Repository of media (repository/media.go)\<close>

definition media_Create :: "media_env \<Rightarrow> media_state \<Rightarrow> media_row \<Rightarrow> media_row result \<times> media_state" where
  "media_Create E s m =
     (if re_fault E QMediaCreate then (Inl (WrapInternal db_error), s)
      else if \<not> media_row_ok m then (Inl (WrapInternal check_violation), s)
      else if tbl_count (\<lambda>r. md_id r = md_id m \<or> md_visible r \<and> md_disk r = md_disk m \<and> md_filename r = md_filename m)
              (ms_media s) \<noteq> 0
      then (Inl (WrapInternal unique_violation), s)
      else (Inr m, s\<lparr>ms_media := ms_media s @ [m]\<rparr>))"

definition media_FindByID :: "media_env \<Rightarrow> media_state \<Rightarrow> uuid \<Rightarrow> media_row result" where
  "media_FindByID E s i =
     (if re_fault E (QMediaByID i) then Inl (WrapInternal db_error)
      else case tbl_first (\<lambda>r. md_id r = i \<and> md_visible r) (ms_media s) of
             None \<Rightarrow> Inl (Sentinel ErrNotFound)
           | Some m \<Rightarrow> Inr m)"

definition conversions_of :: "media_state \<Rightarrow> uuid \<Rightarrow> media_conversion list" where
  "conversions_of s i = filter (\<lambda>c. mc_media c = i) (ms_conversions s)"

definition FindByModelTypeAndID ::
    "media_env \<Rightarrow> media_state \<Rightarrow> string \<Rightarrow> uuid \<Rightarrow> string \<Rightarrow> media_row list result" where
  "FindByModelTypeAndID E s modelType modelID collection =
     (if re_fault E (QMediaByModel modelType modelID) then Inl (WrapInternal db_error)
      else Inr (rev (sort_key md_created_at (filter (\<lambda>r. md_visible r \<and> md_model_type r = modelType
        \<and> md_model_id r = modelID \<and> (collection = [] \<or> md_collection r = collection)) (ms_media s)))))"

text \<open>
  \<open>Save\<close> writes every column of the live row with this key; when there is none it inserts the struct
  (\<open>ON CONFLICT DO UPDATE\<close>, which brings a row back that was deleted in the meantime).
\<close>

definition media_Save :: "media_env \<Rightarrow> media_state \<Rightarrow> media_row \<Rightarrow> unit result \<times> media_state" where
  "media_Save E s m =
     (if re_fault E (QMediaSave (md_id m)) then (Inl (WrapInternal db_error), s)
      else (Inr (), s\<lparr>ms_media :=
        (if tbl_count (\<lambda>r. md_id r = md_id m) (ms_media s) = 0 then ms_media s @ [m]
         else tbl_update (\<lambda>r. md_id r = md_id m) (\<lambda>r. m) (ms_media s))\<rparr>))"

definition media_update ::
    "media_env \<Rightarrow> media_query \<Rightarrow> (media_row \<Rightarrow> bool) \<Rightarrow> (media_row \<Rightarrow> media_row) \<Rightarrow> media_state \<Rightarrow> unit result \<times> media_state" where
  "media_update E q P f s =
     (if re_fault E q then (Inl (WrapInternal db_error), s)
      else if tbl_count P (ms_media s) = 0 then (Inl (Sentinel ErrNotFound), s)
      else (Inr (), s\<lparr>ms_media := tbl_update P f (ms_media s)\<rparr>))"

definition media_SoftDelete :: "media_env \<Rightarrow> media_state \<Rightarrow> uuid \<Rightarrow> unit result \<times> media_state" where
  "media_SoftDelete E s i =
     media_update E (QMediaDelete i) (\<lambda>r. md_id r = i \<and> md_visible r) (\<lambda>r. r\<lparr>md_deleted_at := Some (re_now E)\<rparr>) s"

definition MarkOrphaned :: "media_env \<Rightarrow> media_state \<Rightarrow> uuid \<Rightarrow> unit result \<times> media_state" where
  "MarkOrphaned E s i =
     media_update E (QMediaOrphan i) (\<lambda>r. md_id r = i \<and> md_visible r) (\<lambda>r. r\<lparr>md_orphaned_at := Some (re_now E)\<rparr>) s"

definition FindOrphaned :: "media_env \<Rightarrow> media_state \<Rightarrow> instant \<Rightarrow> media_row list result" where
  "FindOrphaned E s cutoff =
     (if re_fault E QMediaOrphaned then Inl (WrapInternal db_error)
      else Inr (filter (\<lambda>r. md_visible r \<and> (case md_orphaned_at r of None \<Rightarrow> False | Some t \<Rightarrow> t < cutoff)) (ms_media s)))"

text \<open>Conversions and versions of the row go with it.\<close>

definition HardDelete :: "media_env \<Rightarrow> media_state \<Rightarrow> uuid \<Rightarrow> unit result \<times> media_state" where
  "HardDelete E s i =
     (if re_fault E (QMediaHardDelete i) then (Inl (WrapInternal db_error), s)
      else if tbl_count (\<lambda>r. md_id r = i) (ms_media s) = 0 then (Inl (Sentinel ErrNotFound), s)
      else (Inr (), s\<lparr>ms_media := filter (\<lambda>r. md_id r \<noteq> i) (ms_media s),
        ms_conversions := filter (\<lambda>c. mc_media c \<noteq> i) (ms_conversions s),
        ms_versions := filter (\<lambda>r. mv_media r \<noteq> i) (ms_versions s)\<rparr>))"

definition CreateConversion :: "media_env \<Rightarrow> media_state \<Rightarrow> media_conversion \<Rightarrow> unit result \<times> media_state" where
  "CreateConversion E s c =
     (if re_fault E QConvCreate then (Inl (WrapInternal db_error), s)
      else if tbl_count (\<lambda>r. md_id r = mc_media c) (ms_media s) = 0 then (Inl (WrapInternal fk_violation), s)
      else if mc_size c < 0 then (Inl (WrapInternal check_violation), s)
      else if tbl_count (\<lambda>r. mc_media r = mc_media c \<and> mc_name r = mc_name c) (ms_conversions s) \<noteq> 0
      then (Inl (WrapInternal unique_violation), s)
      else (Inr (), s\<lparr>ms_conversions := ms_conversions s @ [c]\<rparr>))"

definition DeleteConversion :: "media_env \<Rightarrow> media_state \<Rightarrow> uuid \<Rightarrow> string \<Rightarrow> unit result \<times> media_state" where
  "DeleteConversion E s i name =
     (if re_fault E (QConvDelete i) then (Inl (WrapInternal db_error), s)
      else let P = (\<lambda>r. mc_media r = i \<and> mc_name r = name) in
        if tbl_count P (ms_conversions s) = 0 then (Inl (Sentinel ErrNotFound), s)
        else (Inr (), s\<lparr>ms_conversions := filter (\<lambda>r. \<not> P r) (ms_conversions s)\<rparr>))"

section \<open>Repository of versions (repository/media_version.go)\<close>

definition version_Create :: "media_env \<Rightarrow> media_state \<Rightarrow> media_version \<Rightarrow> unit result \<times> media_state" where
  "version_Create E s r =
     (if re_fault E (QVersionCreate (mv_version r)) then (Inl (WrapInternal db_error), s)
      else if tbl_count (\<lambda>m. md_id m = mv_media r) (ms_media s) = 0 then (Inl (WrapInternal fk_violation), s)
      else if \<not> version_row_ok r then (Inl (WrapInternal check_violation), s)
      else if tbl_count (\<lambda>x. mv_id x = mv_id r \<or> mv_media x = mv_media r \<and> mv_version x = mv_version r) (ms_versions s) \<noteq> 0
      then (Inl (WrapInternal unique_violation), s)
      else (Inr (), s\<lparr>ms_versions := ms_versions s @ [r]\<rparr>))"

definition FindByMediaIDAndVersion :: "media_env \<Rightarrow> media_state \<Rightarrow> uuid \<Rightarrow> int \<Rightarrow> media_version result" where
  "FindByMediaIDAndVersion E s i v =
     (if re_fault E (QVersionBy i v) then Inl (WrapInternal db_error)
      else case tbl_first (\<lambda>r. mv_media r = i \<and> mv_version r = v \<and> mv_visible r) (ms_versions s) of
             None \<Rightarrow> Inl (Sentinel ErrNotFound)
           | Some r \<Rightarrow> Inr r)"

definition FindByMediaID ::
    "media_env \<Rightarrow> media_state \<Rightarrow> uuid \<Rightarrow> int \<Rightarrow> int \<Rightarrow> (media_version list \<times> nat) result" where
  "FindByMediaID E s i limit offset =
     (if re_fault E (QVersionList i) then Inl (WrapInternal db_error)
      else let rows = filter (\<lambda>r. mv_media r = i \<and> mv_visible r) (ms_versions s)
           in Inr (gorm_page limit offset (rev (sort_key mv_version rows)), length rows))"

definition version_SoftDelete :: "media_env \<Rightarrow> media_state \<Rightarrow> uuid \<Rightarrow> unit result \<times> media_state" where
  "version_SoftDelete E s i =
     (if re_fault E (QVersionDelete i) then (Inl (WrapInternal db_error), s)
      else let P = (\<lambda>r. mv_id r = i \<and> mv_visible r) in
        if tbl_count P (ms_versions s) = 0 then (Inl (Sentinel ErrNotFound), s)
        else (Inr (), s\<lparr>ms_versions := tbl_update P (\<lambda>r. r\<lparr>mv_deleted_at := Some (re_now E)\<rparr>) (ms_versions s)\<rparr>))"

definition CountByMediaID :: "media_env \<Rightarrow> media_state \<Rightarrow> uuid \<Rightarrow> nat result" where
  "CountByMediaID E s i =
     (if re_fault E (QVersionCount i) then Inl (WrapInternal db_error)
      else Inr (tbl_count (\<lambda>r. mv_media r = i \<and> mv_visible r) (ms_versions s)))"

definition FindByChecksum :: "media_env \<Rightarrow> media_state \<Rightarrow> uuid \<Rightarrow> string \<Rightarrow> media_version result" where
  "FindByChecksum E s i checksum =
     (if re_fault E (QVersionChecksum i checksum) then Inl (WrapInternal db_error)
      else case tbl_first (\<lambda>r. mv_media r = i \<and> mv_checksum r = checksum \<and> mv_visible r) (ms_versions s) of
             None \<Rightarrow> Inl (Sentinel ErrNotFound)
           | Some r \<Rightarrow> Inr r)"

text \<open>Optimistic locking: the update is conditional on the version that was read.\<close>

definition UpdateCurrentVersion :: "media_env \<Rightarrow> media_state \<Rightarrow> uuid \<Rightarrow> int \<Rightarrow> int \<Rightarrow> unit result \<times> media_state" where
  "UpdateCurrentVersion E s i oldVersion newVersion =
     (if re_fault E (QCurrentUpdate i) then (Inl (WrapInternal db_error), s)
      else let P = (\<lambda>r. md_id r = i \<and> md_visible r \<and> md_current r = oldVersion) in
        if tbl_count P (ms_media s) = 0
        then (Inl (NewAppError ''CONFLICT'' ''Concurrent modification detected'' 409), s)
        else (Inr (), s\<lparr>ms_media := tbl_update P (\<lambda>r. r\<lparr>md_current := newVersion\<rparr>) (ms_media s)\<rparr>))"

end
