(* ===== verification/Media_Service.thy ===== *)
theory Media_Service
  imports Media
begin

text \<open>
  The media service (\<open>service/media.go\<close>): uploads, listing, deletion, metadata and signed addresses. The
  conversions that an upload starts run on their own and are not modelled. \<open>UpdateMetadata\<close> reads the row
  and saves it whole, in two steps.
\<close>

section \<open>Names and types of files\<close>

text \<open>\<open>filepath.Base\<close> and \<open>filepath.Ext\<close>\<close>

definition path_base :: "string \<Rightarrow> string" where
  "path_base s =
     (if s = [] then ''.''
      else let b = last (str_split CHR ''/'' (rev (dropWhile (\<lambda>c. c = CHR ''/'') (rev s))))
           in if b = [] then ''/'' else b)"

definition path_ext :: "string \<Rightarrow> string" where
  "path_ext s =
     (let b = last (str_split CHR ''/'' s)
      in if CHR ''.'' \<in> set b then CHR ''.'' # rev (takeWhile (\<lambda>c. c \<noteq> CHR ''.'') (rev b)) else [])"

definition sanitizeFilename :: "string \<Rightarrow> string" where
  "sanitizeFilename filename =
     (let base = trim_space (filter (\<lambda>c. c \<noteq> CHR 0x00) (path_base filename))
      in if base = [] \<or> base = ''.'' \<or> base = ''..'' then ''unnamed'' else base)"

definition AllowedImageTypes :: "string list" where
  "AllowedImageTypes = [''image/jpeg'', ''image/png'', ''image/webp'', ''image/gif'', ''image/svg+xml'']"

definition AllowedDocumentTypes :: "string list" where
  "AllowedDocumentTypes = [''application/pdf'', ''application/msword'',
     ''application/vnd.openxmlformats-officedocument.wordprocessingml.document'', ''text/plain'', ''text/csv'']"

definition AllowedArchiveTypes :: "string list" where
  "AllowedArchiveTypes = [''application/zip'', ''application/x-rar-compressed'', ''application/x-7z-compressed'']"

definition BlockedExtensions :: "string list" where
  "BlockedExtensions = [''.exe'', ''.dll'', ''.bat'', ''.cmd'', ''.sh'', ''.php'', ''.jsp'', ''.asp'', ''.aspx'',
     ''.py'', ''.rb'', ''.pl'', ''.cgi'']"

definition isAllowedMimeType :: "string \<Rightarrow> bool" where
  "isAllowedMimeType mimeType =
     (if mimeType \<in> set AllowedImageTypes then True
      else if mimeType \<in> set AllowedDocumentTypes then True
      else if mimeType \<in> set AllowedArchiveTypes then True else False)"

definition isImageMimeType :: "string \<Rightarrow> bool" where
  "isImageMimeType mimeType = has_mime_class mimeType ''image/''"

definition MaxFileSize :: int where "MaxFileSize = 104857600"

section \<open>Uploads\<close>

record media_upload =
  mu_filename :: string
  mu_size :: int
  mu_content :: string
  mu_model_type :: string
  mu_model_id :: uuid
  mu_collection :: string
  mu_props :: "json option"

definition detectMimeType :: "media_env \<Rightarrow> string \<Rightarrow> string option" where
  "detectMimeType E content =
     (if mx_read_fault E ReadDetect then None else Some (DetectContentType (take MagicBytesLength content)))"

definition media_invalid :: "string \<Rightarrow> go_error" where
  "media_invalid msg = NewAppError ''VALIDATION_ERROR'' msg 400"

definition storage_failure :: go_error where
  "storage_failure = NewAppError ''STORAGE_ERROR'' ''Failed to store file'' 500"

definition read_failure :: go_error where
  "read_failure = Opaque ''read of the upload failed''"

text \<open>What is written of an accepted upload: the row, whose identifier the database chooses.\<close>

definition upload_row :: "media_env \<Rightarrow> uuid \<Rightarrow> media_upload \<Rightarrow> string \<Rightarrow> media_row" where
  "upload_row E userID req mimeType =
     (let storageFilename = mx_file_uuid E @ to_lower (path_ext (mu_filename req))
      in \<lparr>md_id = re_new_id E, md_model_type = mu_model_type req, md_model_id = mu_model_id req,
          md_collection = (if mu_collection req = [] then ''default'' else mu_collection req), md_disk = ''local'',
          md_filename = storageFilename, md_original = sanitizeFilename (mu_filename req), md_mime = mimeType,
          md_size = mu_size req, md_current = 1,
          md_path = mu_model_type req @ ''/'' @ mu_model_id req @ ''/'' @ storageFilename,
          md_metadata = (if isImageMimeType mimeType then Some (JObj [(''mime_type'', JStr mimeType)]) else None),
          md_props = mu_props req, md_uploaded_by = userID, md_created_at = re_now E, md_deleted_at = None,
          md_orphaned_at = None\<rparr>)"

definition Media_Upload :: "media_env \<Rightarrow> media_state \<Rightarrow> uuid \<Rightarrow> media_upload \<Rightarrow> media_row result \<times> media_state" where
  "Media_Upload E s userID req =
     (if mu_size req > MaxFileSize
      then (Inl (media_invalid ''File size exceeds maximum allowed size of 104857600 bytes''), s)
      else if to_lower (path_ext (mu_filename req)) \<in> set BlockedExtensions
      then (Inl (media_invalid ''File type not allowed''), s)
      else case detectMimeType E (mu_content req) of
        None \<Rightarrow> (Inl (media_invalid ''Failed to validate file type''), s)
      | Some mimeType \<Rightarrow>
          if \<not> isAllowedMimeType mimeType then (Inl (media_invalid ''File type not allowed''), s)
          else if mx_read_fault E ReadRewind then (Inl (WrapInternal read_failure), s)
          else let media = upload_row E userID req mimeType in
            case store_file E s (md_path media) (mu_content req) of
              (Inl err, s1) \<Rightarrow> (Inl storage_failure, s1)
            | (Inr _, s1) \<Rightarrow>
                (case media_Create E s1 media of
                   (Inl err, s2) \<Rightarrow> (Inl (WrapInternal err), snd (delete_file E s2 (md_path media)))
                 | (Inr m, s2) \<Rightarrow> (Inr m, s2)))"

section \<open>Reading\<close>

record list_filter =
  lf_collection :: string
  lf_mime :: string
  lf_limit :: int
  lf_offset :: int

definition Media_List :: "media_env \<Rightarrow> media_state \<Rightarrow> string \<Rightarrow> uuid \<Rightarrow> list_filter \<Rightarrow> (media_row list \<times> nat) result" where
  "Media_List E s modelType modelID f =
     (let limit = (if lf_limit f \<le> 0 \<or> lf_limit f > 100 then 20 else nat (lf_limit f));
          offset = (if lf_offset f < 0 then 0 else nat (lf_offset f))
      in case FindByModelTypeAndID E s modelType modelID (lf_collection f) of
           Inl err \<Rightarrow> Inl err
         | Inr found \<Rightarrow>
             let mediaList = (if lf_mime f \<noteq> [] then filter (\<lambda>m. md_mime m = lf_mime f) found else found);
                 total = length mediaList;
                 start = (if offset > total then total else offset);
                 stop = (if start + limit > total then total else start + limit)
             in Inr (take (stop - start) (drop start mediaList), total))"

definition Media_Get :: "media_env \<Rightarrow> media_state \<Rightarrow> uuid \<Rightarrow> media_row result" where
  "Media_Get E s i = media_FindByID E s i"

definition CheckPermission :: "media_env \<Rightarrow> uuid \<Rightarrow> string \<Rightarrow> bool result" where
  "CheckPermission E userID act = re_enforce E userID ''default'' ''media'' act"

section \<open>Changing\<close>

definition Media_Delete :: "media_env \<Rightarrow> media_state \<Rightarrow> uuid \<Rightarrow> uuid \<Rightarrow> bool \<Rightarrow> unit result \<times> media_state" where
  "Media_Delete E s userID i isAdmin =
     (case media_FindByID E s i of
        Inl err \<Rightarrow> (Inl err, s)
      | Inr media \<Rightarrow>
          if \<not> isAdmin \<and> md_uploaded_by media \<noteq> userID then (Inl (Sentinel ErrNotFound), s)
          else media_SoftDelete E (snd (MarkOrphaned E s i)) i)"

text \<open>The first step of \<open>UpdateMetadata\<close> gives the row that the second saves.\<close>

definition UpdateMetadata_read ::
    "media_env \<Rightarrow> media_state \<Rightarrow> uuid \<Rightarrow> uuid \<Rightarrow> json option \<Rightarrow> bool \<Rightarrow> media_row result" where
  "UpdateMetadata_read E s userID i props isAdmin =
     (case media_FindByID E s i of
        Inl err \<Rightarrow> Inl err
      | Inr media \<Rightarrow>
          if \<not> isAdmin \<and> md_uploaded_by media \<noteq> userID then Inl (Sentinel ErrNotFound)
          else Inr (media\<lparr>md_props := props\<rparr>))"

definition UpdateMetadata_save :: "media_env \<Rightarrow> media_state \<Rightarrow> media_row \<Rightarrow> media_row result \<times> media_state" where
  "UpdateMetadata_save E s media =
     (case media_Save E s media of (Inl err, s1) \<Rightarrow> (Inl err, s1) | (Inr _, s1) \<Rightarrow> (Inr media, s1))"

definition Media_UpdateMetadata ::
    "media_env \<Rightarrow> media_state \<Rightarrow> uuid \<Rightarrow> uuid \<Rightarrow> json option \<Rightarrow> bool \<Rightarrow> media_row result \<times> media_state" where
  "Media_UpdateMetadata E s userID i props isAdmin =
     (case UpdateMetadata_read E s userID i props isAdmin of
        Inl err \<Rightarrow> (Inl err, s)
      | Inr media \<Rightarrow> UpdateMetadata_save E s media)"

section \<open>Signed addresses\<close>

text \<open>The service signs with the secret of the JSON Web Tokens.\<close>

definition conversion_path :: "media_conversion list \<Rightarrow> string \<Rightarrow> string \<Rightarrow> string" where
  "conversion_path convs name path = (case find (\<lambda>c. mc_name c = name) convs of None \<Rightarrow> path | Some c \<Rightarrow> mc_path c)"

definition Media_GetSignedURL ::
    "media_env \<Rightarrow> media_state \<Rightarrow> uuid \<Rightarrow> string \<Rightarrow> duration \<Rightarrow> (string \<times> instant) result" where
  "Media_GetSignedURL E s i conversionName expiry =
     (case media_FindByID E s i of
        Inl err \<Rightarrow> Inl err
      | Inr media \<Rightarrow>
          (case (if conversionName \<noteq> []
                 then GenerateWithConversion (mx_hmac E) (mx_jwt_secret E) (re_now E) i
                        (conversion_path (conversions_of s i) conversionName (md_path media)) conversionName expiry
                 else Generate (mx_hmac E) (mx_jwt_secret E) (re_now E) i (md_path media) expiry) of
             Inl err \<Rightarrow> Inl err
           | Inr u \<Rightarrow> Inr (su_url u, su_expires_at u)))"

definition ValidateSignedURL :: "media_env \<Rightarrow> uuid \<Rightarrow> string \<Rightarrow> int \<Rightarrow> string \<Rightarrow> bool" where
  "ValidateSignedURL E i signature expires signingSecret =
     Validate (mx_hmac E) signingSecret (re_now E) i signature expires []"

section \<open>Types that no upload has\<close>

text \<open>
  What is detected of a text carries its character set, and Office, SVG and 7z files have no signature:
  of the allowed types only these are ever accepted.
\<close>

lemma allowed_and_detected:
  "isAllowedMimeType (DetectContentType d) \<longleftrightarrow>
   DetectContentType d \<in> {''image/jpeg'', ''image/png'', ''image/webp'', ''image/gif'', ''application/pdf'',
     ''application/zip'', ''application/x-rar-compressed''}"
  using DetectContentType_detectable [of d]
  by (auto simp: detectable_def sniff_signatures_def exact_sig_def text_sig_def boxed_sig_def isAllowedMimeType_def
      AllowedImageTypes_def AllowedDocumentTypes_def AllowedArchiveTypes_def)

end
