(* ===== verification/Media_Version.thy ===== *)
theory Media_Version
  imports Media_Service
begin

text \<open>
  The version service (\<open>service/media_version.go\<close>). A request that reads and then writes is divided into
  the steps between which other requests may run: an upload reads the media and counts its versions,
  prepares (first version, type, checksum, duplicates), creates (file and row) and commits (the
  conditional update with its cleanup); a restoration and a deletion read and then write. Each request
  is also given as the composition of its steps.
\<close>

section \<open>Compatible types\<close>

definition mimeCompatibilityAliases :: "string \<Rightarrow> string list option" where
  "mimeCompatibilityAliases =
     [''image/jpeg'' \<mapsto> [''image/jpg''], ''image/jpg'' \<mapsto> [''image/jpeg''],
      ''text/plain'' \<mapsto> [''text/csv''], ''text/csv'' \<mapsto> [''text/plain'']]"

definition isMimeTypeCompatible :: "string \<Rightarrow> string \<Rightarrow> bool" where
  "isMimeTypeCompatible parentType newType =
     (if parentType = newType then True
      else case mimeCompatibilityAliases parentType of
        Some aliases \<Rightarrow> newType \<in> set aliases
      | None \<Rightarrow> False)"

definition media_not_found :: go_error where
  "media_not_found = NewAppError ''NOT_FOUND'' ''Media not found'' 404"

definition version_not_found :: go_error where
  "version_not_found = NewAppError ''NOT_FOUND'' ''Version not found'' 404"

definition version_gone :: go_error where
  "version_gone = NewAppError ''GONE'' ''Version has been deleted'' 410"

definition version_conflict :: "string \<Rightarrow> go_error" where
  "version_conflict msg = NewAppError ''CONFLICT'' msg 409"

text \<open>The two reads with which the operations begin. Only the sentinel itself is taken for a missing row.\<close>

definition find_media :: "media_env \<Rightarrow> media_state \<Rightarrow> uuid \<Rightarrow> media_row result" where
  "find_media E s i =
     (case media_FindByID E s i of
        Inl err \<Rightarrow> Inl (if err = Sentinel ErrNotFound then media_not_found else WrapInternal err)
      | Inr m \<Rightarrow> Inr m)"

definition find_version :: "media_env \<Rightarrow> media_state \<Rightarrow> uuid \<Rightarrow> int \<Rightarrow> media_version result" where
  "find_version E s i v =
     (case FindByMediaIDAndVersion E s i v of
        Inl err \<Rightarrow> Inl (if err = Sentinel ErrNotFound then version_not_found else WrapInternal err)
      | Inr r \<Rightarrow> Inr r)"

section \<open>Checksums\<close>

definition ComputeSHA256Checksum :: "media_env \<Rightarrow> string \<Rightarrow> string" where
  "ComputeSHA256Checksum E content = hex_encode (mx_hash E content)"

definition computeExistingFileChecksum :: "media_env \<Rightarrow> media_state \<Rightarrow> media_row \<Rightarrow> string" where
  "computeExistingFileChecksum E s media =
     (case get_file E s (md_path media) of
        Inl err \<Rightarrow> []
      | Inr content \<Rightarrow> ComputeSHA256Checksum E content)"

text \<open>An error of the database in one of the two searches counts as nothing found.\<close>

definition checkDuplicateChecksum ::
    "media_env \<Rightarrow> media_state \<Rightarrow> uuid \<Rightarrow> int \<Rightarrow> string \<Rightarrow> go_error option" where
  "checkDuplicateChecksum E s i currentVersion checksum =
     (if checksum = [] then None
      else if (case FindByMediaIDAndVersion E s i currentVersion of
                 Inl _ \<Rightarrow> False
               | Inr r \<Rightarrow> mv_checksum r = checksum)
      then Some (version_conflict ''File content matches current version'')
      else case FindByChecksum E s i checksum of
        Inr r \<Rightarrow> Some (version_conflict ''File content matches existing version'')
      | Inl _ \<Rightarrow> None)"

section \<open>Uploading a version\<close>

record version_upload =
  vu_filename :: string
  vu_size :: int
  vu_content :: string
  vu_seekable :: bool

definition createRetroactiveV1 :: "media_env \<Rightarrow> media_state \<Rightarrow> media_row \<Rightarrow> unit result \<times> media_state" where
  "createRetroactiveV1 E s media =
     (let v1 = \<lparr>mv_id = mx_v1_id E, mv_media = md_id media, mv_version = 1, mv_filename = md_filename media,
            mv_original = md_original media, mv_mime = md_mime media, mv_size = md_size media,
            mv_path = md_path media, mv_checksum = computeExistingFileChecksum E s media,
            mv_uploaded_by = md_uploaded_by media, mv_created_at = re_now E, mv_deleted_at = None\<rparr>
      in case version_Create E s v1 of
           (Inl err, s1) \<Rightarrow> if isDuplicateKeyError err then (Inr (), s1) else (Inl (WrapInternal err), s1)
         | (Inr _, s1) \<Rightarrow> (Inr (), s1))"

definition upload_read :: "media_env \<Rightarrow> media_state \<Rightarrow> uuid \<Rightarrow> (media_row \<times> nat) result" where
  "upload_read E s i =
     (case find_media E s i of
        Inl err \<Rightarrow> Inl err
      | Inr media \<Rightarrow>
          (case CountByMediaID E s i of Inl err \<Rightarrow> Inl (WrapInternal err) | Inr n \<Rightarrow> Inr (media, n)))"

text \<open>The result of the preparation is the detected type and the checksum.\<close>

definition upload_inspect ::
    "media_env \<Rightarrow> media_state \<Rightarrow> media_row \<Rightarrow> version_upload \<Rightarrow> (string \<times> string) result" where
  "upload_inspect E s media file =
     (if \<not> vu_seekable file then Inl (NewAppError ''INTERNAL_ERROR'' ''File reader must be seekable'' 500)
      else case detectMimeType E (vu_content file) of
        None \<Rightarrow> Inl (media_invalid ''Failed to validate file type'')
      | Some detectedMime \<Rightarrow>
          if \<not> isMimeTypeCompatible (md_mime media) detectedMime
          then Inl (media_invalid (''MIME type mismatch: expected compatible with '' @ md_mime media @ '', got '' @ detectedMime))
          else if mx_read_fault E ReadRewind then Inl (WrapInternal read_failure)
          else if mx_read_fault E ReadChecksum then Inl (WrapInternal read_failure)
          else let checksum = ComputeSHA256Checksum E (vu_content file) in
            case checkDuplicateChecksum E s (md_id media) (md_current media) checksum of
              Some err \<Rightarrow> Inl err
            | None \<Rightarrow> Inr (detectedMime, checksum))"

definition upload_prepare ::
    "media_env \<Rightarrow> media_state \<Rightarrow> media_row \<Rightarrow> nat \<Rightarrow> version_upload \<Rightarrow> (string \<times> string) result \<times> media_state" where
  "upload_prepare E s media versionCount file =
     (case (if versionCount = 0 then createRetroactiveV1 E s media else (Inr (), s)) of
        (Inl err, s1) \<Rightarrow> (Inl err, s1)
      | (Inr _, s1) \<Rightarrow> (upload_inspect E s1 media file, s1))"

definition version_file_path :: "media_env \<Rightarrow> uuid \<Rightarrow> int \<Rightarrow> string \<Rightarrow> string" where
  "version_file_path E i nextVersion ext = i @ ''/v'' @ itoa nextVersion @ ''/'' @ mx_file_uuid E @ ext"

definition version_row ::
    "media_env \<Rightarrow> uuid \<Rightarrow> media_row \<Rightarrow> version_upload \<Rightarrow> string \<Rightarrow> string \<Rightarrow> media_version" where
  "version_row E userID media file detectedMime checksum =
     (let nextVersion = md_current media + 1;
          sanitizedFilename = sanitizeFilename (vu_filename file);
          ext = to_lower (path_ext sanitizedFilename)
      in \<lparr>mv_id = re_new_id E, mv_media = md_id media, mv_version = nextVersion,
          mv_filename = mx_file_uuid E @ ext, mv_original = sanitizedFilename, mv_mime = detectedMime,
          mv_size = vu_size file, mv_path = version_file_path E (md_id media) nextVersion ext,
          mv_checksum = checksum, mv_uploaded_by = userID, mv_created_at = re_now E, mv_deleted_at = None\<rparr>)"

definition upload_create ::
    "media_env \<Rightarrow> media_state \<Rightarrow> uuid \<Rightarrow> media_row \<Rightarrow> version_upload \<Rightarrow> string \<Rightarrow> string
     \<Rightarrow> media_version result \<times> media_state" where
  "upload_create E s userID media file detectedMime checksum =
     (if mx_read_fault E ReadRewindAgain then (Inl (WrapInternal read_failure), s)
      else let r = version_row E userID media file detectedMime checksum in
        case store_file E s (mv_path r) (vu_content file) of
          (Inl err, s1) \<Rightarrow> (Inl storage_failure, s1)
        | (Inr _, s1) \<Rightarrow>
            (case version_Create E s1 r of
               (Inl err, s2) \<Rightarrow> (Inl (WrapInternal err), snd (delete_file E s2 (mv_path r)))
             | (Inr _, s2) \<Rightarrow> (Inr r, s2)))"

definition upload_commit ::
    "media_env \<Rightarrow> media_state \<Rightarrow> uuid \<Rightarrow> media_row \<Rightarrow> media_version \<Rightarrow> media_version result \<times> media_state" where
  "upload_commit E s userID media r =
     (case UpdateCurrentVersion E s (md_id media) (md_current media) (mv_version r) of
        (Inl err, s1) \<Rightarrow>
          (let s2 = snd (version_SoftDelete E s1 (mv_id r)) in (Inl err, snd (delete_file E s2 (mv_path r))))
      | (Inr _, s1) \<Rightarrow> (Inr r, media_log E (Audit userID ''version_upload'' ''media_version'' (mv_id r)) s1))"

definition UploadVersion ::
    "media_env \<Rightarrow> media_state \<Rightarrow> uuid \<Rightarrow> uuid \<Rightarrow> version_upload \<Rightarrow> media_version result \<times> media_state" where
  "UploadVersion E s userID i file =
     (case upload_read E s i of
        Inl err \<Rightarrow> (Inl err, s)
      | Inr (media, versionCount) \<Rightarrow>
          (case upload_prepare E s media versionCount file of
             (Inl err, s1) \<Rightarrow> (Inl err, s1)
           | (Inr (detectedMime, checksum), s1) \<Rightarrow>
               (case upload_create E s1 userID media file detectedMime checksum of
                  (Inl err, s2) \<Rightarrow> (Inl err, s2)
                | (Inr r, s2) \<Rightarrow> upload_commit E s2 userID media r)))"

section \<open>Reading versions\<close>

record version_history =
  vh_media :: uuid
  vh_current :: int
  vh_versions :: "version_response list"
  vh_total :: nat

definition ListVersions :: "media_env \<Rightarrow> media_state \<Rightarrow> uuid \<Rightarrow> int \<Rightarrow> int \<Rightarrow> version_history result" where
  "ListVersions E s i limit offset =
     (let limit = (if limit \<le> 0 then 20 else limit);
          limit = (if limit > 100 then 100 else limit);
          offset = (if offset < 0 then 0 else offset)
      in case find_media E s i of
           Inl err \<Rightarrow> Inl err
         | Inr media \<Rightarrow>
             (case FindByMediaID E s i limit offset of
                Inl err \<Rightarrow> Inl (WrapInternal err)
              | Inr (versions, found) \<Rightarrow>
                  Inr \<lparr>vh_media = i, vh_current = md_current media,
                    vh_versions = map (\<lambda>r. mv_ToResponse r (md_current media)) versions, vh_total = found\<rparr>))"

definition bad_version_number :: go_error where
  "bad_version_number = media_invalid ''Version number must be >= 1''"

definition GetVersion :: "media_env \<Rightarrow> media_state \<Rightarrow> uuid \<Rightarrow> int \<Rightarrow> version_response result" where
  "GetVersion E s i v =
     (if v < 1 then Inl bad_version_number
      else case find_media E s i of
        Inl err \<Rightarrow> Inl err
      | Inr media \<Rightarrow>
          (case find_version E s i v of
             Inl err \<Rightarrow> Inl err
           | Inr r \<Rightarrow> if mv_IsDeleted r then Inl version_gone else Inr (mv_ToResponse r (md_current media))))"

definition DownloadVersion ::
    "media_env \<Rightarrow> media_state \<Rightarrow> uuid \<Rightarrow> uuid \<Rightarrow> int \<Rightarrow> (string \<times> media_version) result \<times> media_state" where
  "DownloadVersion E s userID i v =
     (if v < 1 then (Inl bad_version_number, s)
      else case find_media E s i of
        Inl err \<Rightarrow> (Inl err, s)
      | Inr media \<Rightarrow>
          (case find_version E s i v of
             Inl err \<Rightarrow> (Inl err, s)
           | Inr r \<Rightarrow>
               if mv_IsDeleted r then (Inl version_gone, s)
               else case get_file E s (mv_path r) of
                 Inl err \<Rightarrow>
                   (Inl (if storage_IsNotFound err then NewAppError ''NOT_FOUND'' ''File not found in storage'' 404
                         else NewAppError ''STORAGE_ERROR'' ''Failed to retrieve file'' 500), s)
               | Inr content \<Rightarrow>
                   (Inr (content, r), media_log E (Audit userID ''version_download'' ''media_version'' (mv_id r)) s)))"

definition GetVersionSignedURL ::
    "media_env \<Rightarrow> media_state \<Rightarrow> uuid \<Rightarrow> int \<Rightarrow> int \<Rightarrow> (string \<times> instant) result" where
  "GetVersionSignedURL E s i v expiresIn =
     (let expiresIn = (if expiresIn \<le> 0 then 3600 else expiresIn)
      in if expiresIn < 60 then Inl (media_invalid ''Expiry must be at least 60 seconds'')
         else if expiresIn > 86400 then Inl (media_invalid ''Expiry must not exceed 86400 seconds (24 hours)'')
         else case find_media E s i of
           Inl err \<Rightarrow> Inl err
         | Inr media \<Rightarrow>
             (case find_version E s i v of
                Inl err \<Rightarrow> Inl err
              | Inr r \<Rightarrow>
                  if mv_IsDeleted r then Inl version_gone
                  else case Generate (mx_hmac E) (mx_signing_key E) (re_now E) i (mv_path r) (expiresIn * second) of
                    Inl err \<Rightarrow> Inl (WrapInternal err)
                  | Inr u \<Rightarrow> Inr (su_url u, su_expires_at u)))"

section \<open>Restoring and deleting\<close>

definition restore_read :: "media_env \<Rightarrow> media_state \<Rightarrow> uuid \<Rightarrow> int \<Rightarrow> (media_row \<times> media_version) result" where
  "restore_read E s i v =
     (case find_media E s i of
        Inl err \<Rightarrow> Inl err
      | Inr media \<Rightarrow>
          (case find_version E s i v of
             Inl err \<Rightarrow> Inl err
           | Inr r \<Rightarrow>
               if v = md_current media then Inl (media_invalid ''Version is already the current version'')
               else if mv_IsDeleted r then Inl (NewAppError ''GONE'' ''Cannot restore a deleted version'' 410)
               else Inr (media, r)))"

definition restore_write ::
    "media_env \<Rightarrow> media_state \<Rightarrow> uuid \<Rightarrow> media_row \<Rightarrow> media_version \<Rightarrow> int \<Rightarrow> media_row result \<times> media_state" where
  "restore_write E s userID media r v =
     (case UpdateCurrentVersion E s (md_id media) (md_current media) v of
        (Inl err, s1) \<Rightarrow> (Inl err, s1)
      | (Inr _, s1) \<Rightarrow>
          (Inr (media\<lparr>md_current := v\<rparr>), media_log E (Audit userID ''version_restore'' ''media_version'' (mv_id r)) s1))"

definition RestoreVersion ::
    "media_env \<Rightarrow> media_state \<Rightarrow> uuid \<Rightarrow> uuid \<Rightarrow> int \<Rightarrow> media_row result \<times> media_state" where
  "RestoreVersion E s userID i v =
     (case restore_read E s i v of
        Inl err \<Rightarrow> (Inl err, s)
      | Inr (media, r) \<Rightarrow> restore_write E s userID media r v)"

definition delete_read :: "media_env \<Rightarrow> media_state \<Rightarrow> uuid \<Rightarrow> int \<Rightarrow> media_version result" where
  "delete_read E s i v =
     (case find_media E s i of
        Inl err \<Rightarrow> Inl err
      | Inr media \<Rightarrow>
          if v = md_current media then Inl (media_invalid ''Cannot delete the current version'')
          else case find_version E s i v of
            Inl err \<Rightarrow> Inl err
          | Inr r \<Rightarrow> if mv_IsDeleted r then Inl (version_conflict ''Version is already deleted'') else Inr r)"

definition delete_write :: "media_env \<Rightarrow> media_state \<Rightarrow> uuid \<Rightarrow> media_version \<Rightarrow> unit result \<times> media_state" where
  "delete_write E s userID r =
     (case version_SoftDelete E s (mv_id r) of
        (Inl err, s1) \<Rightarrow> (Inl (if err = Sentinel ErrNotFound then version_not_found else WrapInternal err), s1)
      | (Inr _, s1) \<Rightarrow>
          (Inr (), media_log E (Audit userID ''version_delete'' ''media_version'' (mv_id r))
             (snd (delete_file E s1 (mv_path r)))))"

definition DeleteVersion :: "media_env \<Rightarrow> media_state \<Rightarrow> uuid \<Rightarrow> uuid \<Rightarrow> int \<Rightarrow> unit result \<times> media_state" where
  "DeleteVersion E s userID i v =
     (case delete_read E s i v of
        Inl err \<Rightarrow> (Inl err, s)
      | Inr r \<Rightarrow> delete_write E s userID r)"

end
