(* ===== verification/Media_Handler.thy ===== *)
theory Media_Handler
  imports Media_Version
begin

text \<open>
  The HTTP handlers of media and of their versions with their routes (\<open>http/handler/media.go\<close>,
  \<open>media_version.go\<close>, \<open>http/request/media.go\<close>), and the system: requests whose steps interleave. An
  answer is a status with what the envelope carries; a form, a query or a body that cannot be bound is
  \<open>None\<close>. The administrators' list, cleanup and statistics answer with constants and change nothing.
\<close>

section \<open>Handlers of media\<close>

text \<open>\<open>isAdmin\<close>: of the claims, not of the parsed identifier.\<close>

definition media_isAdmin :: "media_env \<Rightarrow> guard_ctx \<Rightarrow> bool" where
  "media_isAdmin E c =
     (case gc_claims c of
        None \<Rightarrow> False
      | Some userID \<Rightarrow> (case re_enforce E userID ''default'' ''media'' ''manage'' of Inl _ \<Rightarrow> False | Inr allowed \<Rightarrow> allowed))"

definition checkModelPermission :: "media_env \<Rightarrow> uuid \<Rightarrow> string \<Rightarrow> string \<Rightarrow> bool" where
  "checkModelPermission E userID modelType act =
     (case re_enforce E userID ''default'' modelType act of
        Inl _ \<Rightarrow> False
      | Inr allowed \<Rightarrow>
          if allowed then True
          else case re_enforce E userID ''default'' ''media'' act of Inl _ \<Rightarrow> False | Inr allowed \<Rightarrow> allowed)"

text \<open>Who may read a media: an administrator, its uploader, and who has the permission.\<close>

definition may_read :: "media_env \<Rightarrow> guard_ctx \<Rightarrow> uuid \<Rightarrow> media_row \<Rightarrow> string \<Rightarrow> bool" where
  "may_read E c userID media act =
     (media_isAdmin E c \<or> md_uploaded_by media = userID
      \<or> (case CheckPermission E userID act of Inl _ \<Rightarrow> False | Inr allowed \<Rightarrow> allowed))"

record upload_form =
  uf_file :: "(string \<times> int \<times> string) option"
  uf_collection :: string
  uf_props :: string

text \<open>
  The custom properties are bound into a map that is passed by value and is nil: whatever the binder
  answers, the map stays nil.
\<close>

definition MH_Upload ::
    "media_env \<Rightarrow> guard_ctx \<Rightarrow> string \<Rightarrow> string \<Rightarrow> upload_form option \<Rightarrow> media_state \<Rightarrow>
     (nat \<times> media_response option) \<times> media_state" where
  "MH_Upload E c modelType param form s =
     (case GetUserID (mx_parse E) c of
        None \<Rightarrow> ((401, None), s)
      | Some userID \<Rightarrow>
          (case mx_parse E param of
             None \<Rightarrow> ((400, None), s)
           | Some modelID \<Rightarrow>
               if \<not> checkModelPermission E userID modelType ''upload'' then ((403, None), s)
               else case form of
                 None \<Rightarrow> ((400, None), s)
               | Some f \<Rightarrow>
                   (case uf_file f of
                      None \<Rightarrow> ((400, None), s)
                    | Some (filename, nbytes, content) \<Rightarrow>
                        (case (if uf_props f \<noteq> [] then mx_bind_nil E else None) of
                           Some status \<Rightarrow> ((status, None), s)
                         | None \<Rightarrow>
                             (case Media_Upload E s userID \<lparr>mu_filename = filename, mu_size = nbytes, mu_content = content,
                                  mu_model_type = modelType, mu_model_id = modelID, mu_collection = uf_collection f,
                                  mu_props = None\<rparr> of
                                (Inl err, s1) \<Rightarrow> ((error_status err, None), s1)
                              | (Inr m, s1) \<Rightarrow>
                                  ((201, Some (md_ToResponse m [])),
                                   media_log E (Audit userID ''upload'' ''media'' (md_id m)) s1))))))"

record list_query =
  lq_collection :: string
  lq_mime :: string
  lq_limit :: int
  lq_offset :: int

definition GetLimit :: "int \<Rightarrow> int" where
  "GetLimit limit = (if limit \<le> 0 then 20 else if limit > 100 then 100 else limit)"

definition GetOffset :: "int \<Rightarrow> int" where
  "GetOffset offset = (if offset < 0 then 0 else offset)"

definition MH_List ::
    "media_env \<Rightarrow> guard_ctx \<Rightarrow> string \<Rightarrow> string \<Rightarrow> list_query option \<Rightarrow> media_state \<Rightarrow>
     nat \<times> (media_response list \<times> nat) option" where
  "MH_List E c modelType param query s =
     (case GetUserID (mx_parse E) c of
        None \<Rightarrow> (401, None)
      | Some userID \<Rightarrow>
          (case mx_parse E param of
             None \<Rightarrow> (400, None)
           | Some modelID \<Rightarrow>
               if \<not> checkModelPermission E userID modelType ''view'' then (403, None)
               else case query of
                 None \<Rightarrow> (400, None)
               | Some q \<Rightarrow>
                   (case Media_List E s modelType modelID \<lparr>lf_collection = lq_collection q, lf_mime = lq_mime q,
                        lf_limit = GetLimit (lq_limit q), lf_offset = GetOffset (lq_offset q)\<rparr> of
                      Inl err \<Rightarrow> (500, None)
                    | Inr (rows, found) \<Rightarrow>
                        (200, Some (map (\<lambda>m. md_ToResponse m (conversions_of s (md_id m))) rows, found)))))"

definition not_found_status :: "go_error \<Rightarrow> nat" where
  "not_found_status err = (if err = Sentinel ErrNotFound then 404 else 500)"

definition MH_GetByID :: "media_env \<Rightarrow> guard_ctx \<Rightarrow> string \<Rightarrow> media_state \<Rightarrow> nat \<times> media_response option" where
  "MH_GetByID E c param s =
     (case GetUserID (mx_parse E) c of
        None \<Rightarrow> (401, None)
      | Some userID \<Rightarrow>
          (case mx_parse E param of
             None \<Rightarrow> (400, None)
           | Some i \<Rightarrow>
               (case Media_Get E s i of
                  Inl err \<Rightarrow> (not_found_status err, None)
                | Inr media \<Rightarrow>
                    if \<not> may_read E c userID media ''view'' then (403, None)
                    else (200, Some (md_ToResponse media (conversions_of s i))))))"

definition MH_Delete :: "media_env \<Rightarrow> guard_ctx \<Rightarrow> string \<Rightarrow> media_state \<Rightarrow> (nat \<times> unit option) \<times> media_state" where
  "MH_Delete E c param s =
     (case GetUserID (mx_parse E) c of
        None \<Rightarrow> ((401, None), s)
      | Some userID \<Rightarrow>
          (case mx_parse E param of
             None \<Rightarrow> ((400, None), s)
           | Some i \<Rightarrow>
               (case Media_Delete E s userID i (media_isAdmin E c) of
                  (Inl err, s1) \<Rightarrow> ((not_found_status err, None), s1)
                | (Inr _, s1) \<Rightarrow> ((200, Some ()), media_log E (Audit userID ''delete'' ''media'' i) s1))))"

text \<open>The body: the raw JSON of the properties when it is there. An object or \<open>null\<close> is accepted.\<close>

definition custom_properties :: "json option \<Rightarrow> json option option" where
  "custom_properties body =
     (case body of
        None \<Rightarrow> None
      | Some j \<Rightarrow> (case j of JObj entries \<Rightarrow> Some (Some j) | JNull \<Rightarrow> Some None | _ \<Rightarrow> None))"

definition MH_UpdateMetadata ::
    "media_env \<Rightarrow> guard_ctx \<Rightarrow> string \<Rightarrow> json option option \<Rightarrow> media_state \<Rightarrow>
     (nat \<times> media_response option) \<times> media_state" where
  "MH_UpdateMetadata E c param body s =
     (case GetUserID (mx_parse E) c of
        None \<Rightarrow> ((401, None), s)
      | Some userID \<Rightarrow>
          (case mx_parse E param of
             None \<Rightarrow> ((400, None), s)
           | Some i \<Rightarrow>
               (case body of
                  None \<Rightarrow> ((400, None), s)
                | Some raw \<Rightarrow>
                    (case custom_properties raw of
                       None \<Rightarrow> ((422, None), s)
                     | Some props \<Rightarrow>
                         (case Media_UpdateMetadata E s userID i props (media_isAdmin E c) of
                            (Inl err, s1) \<Rightarrow> ((not_found_status err, None), s1)
                          | (Inr m, s1) \<Rightarrow> ((200, Some (md_ToResponse m (conversions_of s i))), s1))))))"

section \<open>Signed addresses and downloads\<close>

record url_query =
  uq_conversion :: string
  uq_expires_in :: int

definition url_query_valid :: "url_query \<Rightarrow> bool" where
  "url_query_valid q \<longleftrightarrow> length (uq_conversion q) \<le> 255
     \<and> (uq_expires_in q = 0 \<or> 60 \<le> uq_expires_in q \<and> uq_expires_in q \<le> 86400)"

definition GetExpiresIn :: "url_query \<Rightarrow> int" where
  "GetExpiresIn q =
     (if uq_expires_in q \<le> 0 then 3600 else if uq_expires_in q > 86400 then 86400 else uq_expires_in q)"

definition MH_GetSignedURL ::
    "media_env \<Rightarrow> guard_ctx \<Rightarrow> string \<Rightarrow> url_query option \<Rightarrow> media_state \<Rightarrow> nat \<times> (string \<times> instant \<times> int) option" where
  "MH_GetSignedURL E c param query s =
     (case GetUserID (mx_parse E) c of
        None \<Rightarrow> (401, None)
      | Some userID \<Rightarrow>
          (case mx_parse E param of
             None \<Rightarrow> (400, None)
           | Some i \<Rightarrow>
               (case query of
                  None \<Rightarrow> (400, None)
                | Some q \<Rightarrow>
                    if \<not> url_query_valid q then (422, None)
                    else case Media_Get E s i of
                      Inl err \<Rightarrow> (not_found_status err, None)
                    | Inr media \<Rightarrow>
                        if \<not> may_read E c userID media ''download'' then (403, None)
                        else case Media_GetSignedURL E s i (uq_conversion q) (GetExpiresIn q * second) of
                          Inl err \<Rightarrow> (500, None)
                        | Inr (url, expiresAt) \<Rightarrow> (200, Some (url, expiresAt, GetExpiresIn q)))))"

record download_params =
  dq_conversion :: string
  dq_sig :: string
  dq_expires :: int

record download_answer =
  da_mime :: string
  da_filename :: string
  da_size :: int
  da_content :: string

text \<open>The check of a request: the status with which it is refused.\<close>

definition download_refused :: "media_env \<Rightarrow> guard_ctx \<Rightarrow> uuid \<Rightarrow> media_row \<Rightarrow> download_params \<Rightarrow> nat option" where
  "download_refused E c i media q =
     (case GetUserID (mx_parse E) c of
        None \<Rightarrow>
          if dq_sig q = [] \<or> dq_expires q = 0 then Some 401
          else if \<not> ValidateSignedURL E i (dq_sig q) (dq_expires q) (mx_signing_key E) then Some 403 else None
      | Some userID \<Rightarrow> if \<not> may_read E c userID media ''download'' then Some 403 else None)"

definition MH_Download ::
    "media_env \<Rightarrow> guard_ctx \<Rightarrow> string \<Rightarrow> download_params option \<Rightarrow> media_state \<Rightarrow> nat \<times> download_answer option" where
  "MH_Download E c param query s =
     (case mx_parse E param of
        None \<Rightarrow> (400, None)
      | Some i \<Rightarrow>
          (case query of
             None \<Rightarrow> (400, None)
           | Some q \<Rightarrow>
               (case Media_Get E s i of
                  Inl err \<Rightarrow> (not_found_status err, None)
                | Inr media \<Rightarrow>
                    if md_deleted_at media \<noteq> None then (410, None)
                    else case download_refused E c i media q of
                      Some status \<Rightarrow> (status, None)
                    | None \<Rightarrow>
                        (let path = (if dq_conversion q \<noteq> []
                               then conversion_path (conversions_of s i) (dq_conversion q) (md_path media) else md_path media)
                         in case get_file E s path of
                              Inl err \<Rightarrow> (500, None)
                            | Inr content \<Rightarrow>
                                (200, Some \<lparr>da_mime = md_mime media, da_filename = md_original media,
                                   da_size = md_size media, da_content = content\<rparr>)))))"

text \<open>The route of downloads has no JWT middleware in front of it: nothing sets the claims.\<close>

definition Route_Download ::
    "media_env \<Rightarrow> guard_ctx \<Rightarrow> string \<Rightarrow> download_params option \<Rightarrow> media_state \<Rightarrow> nat \<times> download_answer option" where
  "Route_Download E c = MH_Download E (c\<lparr>gc_claims := None\<rparr>)"

section \<open>Handlers of versions\<close>

text \<open>Media and version of a path: \<open>uuid.Parse\<close> and \<open>strconv.Atoi\<close>.\<close>

definition version_params :: "media_env \<Rightarrow> guard_ctx \<Rightarrow> string \<Rightarrow> string \<Rightarrow> (nat + uuid \<times> uuid \<times> int)" where
  "version_params E c param vparam =
     (case GetUserID (mx_parse E) c of
        None \<Rightarrow> Inl 401
      | Some userID \<Rightarrow>
          (case mx_parse E param of
             None \<Rightarrow> Inl 400
           | Some i \<Rightarrow>
               (case ParseInt vparam of
                  None \<Rightarrow> Inl 400
                | Some v \<Rightarrow> if v < 1 then Inl 400 else Inr (userID, i, v))))"

definition VH_Upload ::
    "media_env \<Rightarrow> guard_ctx \<Rightarrow> string \<Rightarrow> (string \<times> int \<times> string) option option \<Rightarrow> media_state \<Rightarrow>
     (nat \<times> version_response option) \<times> media_state" where
  "VH_Upload E c param form s =
     (case GetUserID (mx_parse E) c of
        None \<Rightarrow> ((401, None), s)
      | Some userID \<Rightarrow>
          (case mx_parse E param of
             None \<Rightarrow> ((400, None), s)
           | Some i \<Rightarrow>
               (case form of
                  None \<Rightarrow> ((400, None), s)
                | Some file \<Rightarrow>
                    (case file of
                       None \<Rightarrow> ((400, None), s)
                     | Some (filename, nbytes, content) \<Rightarrow>
                         (case UploadVersion E s userID i \<lparr>vu_filename = filename, vu_size = nbytes, vu_content = content,
                              vu_seekable = True\<rparr> of
                            (Inl err, s1) \<Rightarrow> ((error_status err, None), s1)
                          | (Inr r, s1) \<Rightarrow> ((201, Some (mv_ToResponse r (mv_version r))), s1))))))"

definition VH_ListVersions ::
    "media_env \<Rightarrow> guard_ctx \<Rightarrow> string \<Rightarrow> string \<Rightarrow> string \<Rightarrow> media_state \<Rightarrow> nat \<times> version_history option" where
  "VH_ListVersions E c param lparam oparam s =
     (case GetUserID (mx_parse E) c of
        None \<Rightarrow> (401, None)
      | Some userID \<Rightarrow>
          (case mx_parse E param of
             None \<Rightarrow> (400, None)
           | Some i \<Rightarrow>
               (let limit = (case ParseInt lparam of None \<Rightarrow> 20 | Some l \<Rightarrow> if l > 0 then min l 100 else 20);
                    offset = (case ParseInt oparam of None \<Rightarrow> 0 | Some v \<Rightarrow> if v \<ge> 0 then v else 0)
                in case ListVersions E s i limit offset of
                     Inl err \<Rightarrow> (error_status err, None)
                   | Inr history \<Rightarrow> (200, Some history))))"

definition VH_GetVersion ::
    "media_env \<Rightarrow> guard_ctx \<Rightarrow> string \<Rightarrow> string \<Rightarrow> media_state \<Rightarrow> nat \<times> version_response option" where
  "VH_GetVersion E c param vparam s =
     (case version_params E c param vparam of
        Inl status \<Rightarrow> (status, None)
      | Inr (userID, i, v) \<Rightarrow>
          (case GetVersion E s i v of Inl err \<Rightarrow> (error_status err, None) | Inr r \<Rightarrow> (200, Some r)))"

definition VH_DownloadVersion ::
    "media_env \<Rightarrow> guard_ctx \<Rightarrow> string \<Rightarrow> string \<Rightarrow> media_state \<Rightarrow> (nat \<times> download_answer option) \<times> media_state" where
  "VH_DownloadVersion E c param vparam s =
     (case version_params E c param vparam of
        Inl status \<Rightarrow> ((status, None), s)
      | Inr (userID, i, v) \<Rightarrow>
          (case DownloadVersion E s userID i v of
             (Inl err, s1) \<Rightarrow> ((error_status err, None), s1)
           | (Inr (content, r), s1) \<Rightarrow>
               ((200, Some \<lparr>da_mime = mv_mime r, da_filename = mv_original r, da_size = mv_size r, da_content = content\<rparr>),
                s1)))"

definition VH_GetVersionSignedURL ::
    "media_env \<Rightarrow> guard_ctx \<Rightarrow> string \<Rightarrow> string \<Rightarrow> string \<Rightarrow> media_state \<Rightarrow> nat \<times> (string \<times> instant \<times> int) option" where
  "VH_GetVersionSignedURL E c param vparam eparam s =
     (case version_params E c param vparam of
        Inl status \<Rightarrow> (status, None)
      | Inr (userID, i, v) \<Rightarrow>
          (let expiresIn = (case ParseInt eparam of None \<Rightarrow> 3600 | Some ei \<Rightarrow> if ei > 0 then ei else 3600)
           in case GetVersionSignedURL E s i v expiresIn of
                Inl err \<Rightarrow> (error_status err, None)
              | Inr (url, expiresAt) \<Rightarrow> (200, Some (url, expiresAt, expiresIn))))"

definition VH_RestoreVersion ::
    "media_env \<Rightarrow> guard_ctx \<Rightarrow> string \<Rightarrow> string \<Rightarrow> media_state \<Rightarrow> (nat \<times> media_response option) \<times> media_state" where
  "VH_RestoreVersion E c param vparam s =
     (case version_params E c param vparam of
        Inl status \<Rightarrow> ((status, None), s)
      | Inr (userID, i, v) \<Rightarrow>
          (case RestoreVersion E s userID i v of
             (Inl err, s1) \<Rightarrow> ((error_status err, None), s1)
           | (Inr m, s1) \<Rightarrow> ((200, Some (md_ToResponse m (conversions_of s1 i))), s1)))"

definition VH_DeleteVersion ::
    "media_env \<Rightarrow> guard_ctx \<Rightarrow> string \<Rightarrow> string \<Rightarrow> media_state \<Rightarrow> (nat \<times> (uuid \<times> int) option) \<times> media_state" where
  "VH_DeleteVersion E c param vparam s =
     (case version_params E c param vparam of
        Inl status \<Rightarrow> ((status, None), s)
      | Inr (userID, i, v) \<Rightarrow>
          (case DeleteVersion E s userID i v of
             (Inl err, s1) \<Rightarrow> ((error_status err, None), s1)
           | (Inr _, s1) \<Rightarrow> ((200, Some (i, v)), s1)))"

section \<open>Routes\<close>

definition version_guard :: "media_env \<Rightarrow> string \<Rightarrow> guard_ctx \<Rightarrow> nat option" where
  "version_guard E act c = RequirePermission (re_enforce E) ''media_version'' act c"

definition Route_UploadVersion ::
    "media_env \<Rightarrow> guard_ctx \<Rightarrow> string \<Rightarrow> (string \<times> int \<times> string) option option \<Rightarrow> media_state \<Rightarrow>
     (nat \<times> version_response option) \<times> media_state" where
  "Route_UploadVersion E c param form s = through (version_guard E ''upload'' c) (VH_Upload E c param form) s"

definition Route_DownloadVersion ::
    "media_env \<Rightarrow> guard_ctx \<Rightarrow> string \<Rightarrow> string \<Rightarrow> media_state \<Rightarrow>
     (nat \<times> download_answer option) \<times> media_state" where
  "Route_DownloadVersion E c param vparam s =
     through (version_guard E ''download'' c) (VH_DownloadVersion E c param vparam) s"

definition Route_RestoreVersion ::
    "media_env \<Rightarrow> guard_ctx \<Rightarrow> string \<Rightarrow> string \<Rightarrow> media_state \<Rightarrow>
     (nat \<times> media_response option) \<times> media_state" where
  "Route_RestoreVersion E c param vparam s =
     through (version_guard E ''restore'' c) (VH_RestoreVersion E c param vparam) s"

definition Route_DeleteVersion ::
    "media_env \<Rightarrow> guard_ctx \<Rightarrow> string \<Rightarrow> string \<Rightarrow> media_state \<Rightarrow>
     (nat \<times> (uuid \<times> int) option) \<times> media_state" where
  "Route_DeleteVersion E c param vparam s =
     through (version_guard E ''delete'' c) (VH_DeleteVersion E c param vparam) s"

end
