(* ===== verification/Media_System.thy ===== *)
theory Media_System
  imports Media_Handler
begin

text \<open>
  The system of media: requests whose steps interleave (\<open>media_reach\<close>) and requests one after the other
  (\<open>media_serial\<close>), and the invariant of the tables and of the disk that both keep. A storage name is a
  random UUID: a step that stores a file uses one that no row of the tables names.
\<close>

section \<open>Steps\<close>

datatype media_task =
    TUploadRead uuid media_row nat version_upload
  | TUploadPrepared uuid media_row version_upload string string
  | TUploadCreated uuid media_row media_version
  | TRestore uuid media_row media_version int
  | TDelete uuid media_version
  | TSave media_row

record media_sys =
  my_db :: media_state
  my_tasks :: "media_task list"

text \<open>The next step of a request, with what is left of it.\<close>

fun continue_task :: "media_env \<Rightarrow> media_state \<Rightarrow> media_task \<Rightarrow> media_task option \<times> media_state" where
  "continue_task E s (TUploadRead u m n f) =
     (case upload_prepare E s m n f of
        (Inl err, s1) \<Rightarrow> (None, s1)
      | (Inr (mime, checksum), s1) \<Rightarrow> (Some (TUploadPrepared u m f mime checksum), s1))"
| "continue_task E s (TUploadPrepared u m f mime checksum) =
     (case upload_create E s u m f mime checksum of
        (Inl err, s1) \<Rightarrow> (None, s1)
      | (Inr r, s1) \<Rightarrow> (Some (TUploadCreated u m r), s1))"
| "continue_task E s (TUploadCreated u m r) = (None, snd (upload_commit E s u m r))"
| "continue_task E s (TRestore u m r v) = (None, snd (restore_write E s u m r v))"
| "continue_task E s (TDelete u r) = (None, snd (delete_write E s u r))"
| "continue_task E s (TSave m) = (None, snd (UpdateMetadata_save E s m))"

datatype media_op =
    BeginUpload uuid uuid version_upload | BeginRestore uuid uuid int | BeginDelete uuid uuid int
  | BeginMetadata uuid uuid "json option" bool
  | Continue nat | Abandon nat
  | DoUpload guard_ctx string string "upload_form option" | DoDelete guard_ctx string
  | DoDownload uuid uuid int | DoConversion media_conversion

definition add_task :: "media_sys \<Rightarrow> (go_error + media_task) \<Rightarrow> media_sys" where
  "add_task s t = (case t of Inl _ \<Rightarrow> s | Inr task \<Rightarrow> s\<lparr>my_tasks := my_tasks s @ [task]\<rparr>)"

definition drop_task :: "nat \<Rightarrow> 'a list \<Rightarrow> 'a list" where
  "drop_task k ts = take k ts @ drop (Suc k) ts"

fun media_step :: "media_env \<Rightarrow> media_op \<Rightarrow> media_sys \<Rightarrow> media_sys" where
  "media_step E (BeginUpload u i f) s =
     add_task s (map_sum id (\<lambda>(m, n). TUploadRead u m n f) (upload_read E (my_db s) i))"
| "media_step E (BeginRestore u i v) s =
     add_task s (map_sum id (\<lambda>(m, r). TRestore u m r v) (restore_read E (my_db s) i v))"
| "media_step E (BeginDelete u i v) s = add_task s (map_sum id (TDelete u) (delete_read E (my_db s) i v))"
| "media_step E (BeginMetadata u i props isAdmin) s =
     add_task s (map_sum id TSave (UpdateMetadata_read E (my_db s) u i props isAdmin))"
| "media_step E (Continue k) s =
     (if k < length (my_tasks s) then
        (case continue_task E (my_db s) (my_tasks s ! k) of
           (rest, db) \<Rightarrow>
             s\<lparr>my_db := db,
               my_tasks := drop_task k (my_tasks s) @ (case rest of None \<Rightarrow> [] | Some t \<Rightarrow> [t])\<rparr>)
      else s)"
| "media_step E (Abandon k) s = s\<lparr>my_tasks := drop_task k (my_tasks s)\<rparr>"
| "media_step E (DoUpload c modelType param form) s = s\<lparr>my_db := snd (MH_Upload E c modelType param form (my_db s))\<rparr>"
| "media_step E (DoDelete c param) s = s\<lparr>my_db := snd (MH_Delete E c param (my_db s))\<rparr>"
| "media_step E (DoDownload u i v) s = s\<lparr>my_db := snd (DownloadVersion E (my_db s) u i v)\<rparr>"
| "media_step E (DoConversion conv) s = s\<lparr>my_db := snd (CreateConversion E (my_db s) conv)\<rparr>"

text \<open>A random UUID, and one that no path in the tables ends in. The identifier of a first
  version is a random UUID as well.\<close>

definition uuid_text :: "string \<Rightarrow> bool" where
  "uuid_text u \<longleftrightarrow> u \<noteq> [] \<and> CHR ''/'' \<notin> set u \<and> CHR ''.'' \<notin> set u"

definition names_file :: "string \<Rightarrow> string \<Rightarrow> bool" where
  "names_file u path = (file_parts path \<noteq> [] \<and> has_prefix (last (file_parts path)) u)"

definition fresh_file :: "media_env \<Rightarrow> media_state \<Rightarrow> bool" where
  "fresh_file E s \<longleftrightarrow> uuid_text (mx_file_uuid E)
     \<and> list_all (\<lambda>r. \<not> names_file (mx_file_uuid E) (mv_path r)) (ms_versions s)
     \<and> list_all (\<lambda>m. \<not> names_file (mx_file_uuid E) (md_path m)) (ms_media s)"

definition fresh_env :: "media_env \<Rightarrow> media_state \<Rightarrow> bool" where
  "fresh_env E s \<longleftrightarrow> fresh_file E s \<and> list_all (\<lambda>r. mv_id r \<noteq> mx_v1_id E) (ms_versions s)"

definition no_media :: "disk \<Rightarrow> media_state" where
  "no_media fs = \<lparr>ms_media = [], ms_conversions = [], ms_versions = [], ms_disk = fs, ms_audit = []\<rparr>"

definition media_start :: "disk \<Rightarrow> media_sys" where
  "media_start fs = \<lparr>my_db = no_media fs, my_tasks = []\<rparr>"

definition media_config :: "local_driver \<Rightarrow> (string \<Rightarrow> string) \<Rightarrow> media_env \<Rightarrow> bool" where
  "media_config d h E \<longleftrightarrow> mx_driver E = d \<and> mx_hash E = h \<and> ld_base d \<noteq> []"

inductive media_reach :: "local_driver \<Rightarrow> (string \<Rightarrow> string) \<Rightarrow> media_sys \<Rightarrow> bool" for d h where
  start: "media_reach d h (media_start fs)"
| step: "media_reach d h s \<Longrightarrow> media_config d h E \<Longrightarrow> fresh_env E (my_db s) \<Longrightarrow> media_reach d h (media_step E op s)"

text \<open>Requests one after the other.\<close>

datatype media_request =
    ReqUpload uuid uuid version_upload | ReqRestore uuid uuid int | ReqDelete uuid uuid int
  | ReqMetadata uuid uuid "json option" bool
  | ReqMediaUpload guard_ctx string string "upload_form option" | ReqMediaDelete guard_ctx string

fun serve :: "media_env \<Rightarrow> media_request \<Rightarrow> media_state \<Rightarrow> media_state" where
  "serve E (ReqUpload u i f) s = snd (UploadVersion E s u i f)"
| "serve E (ReqRestore u i v) s = snd (RestoreVersion E s u i v)"
| "serve E (ReqDelete u i v) s = snd (DeleteVersion E s u i v)"
| "serve E (ReqMetadata u i props isAdmin) s = snd (Media_UpdateMetadata E s u i props isAdmin)"
| "serve E (ReqMediaUpload c modelType param form) s = snd (MH_Upload E c modelType param form s)"
| "serve E (ReqMediaDelete c param) s = snd (MH_Delete E c param s)"

inductive media_serial :: "local_driver \<Rightarrow> (string \<Rightarrow> string) \<Rightarrow> media_state \<Rightarrow> bool" for d h where
  start: "media_serial d h (no_media fs)"
| serve: "media_serial d h s \<Longrightarrow> media_config d h E \<Longrightarrow> fresh_env E s \<Longrightarrow> media_serial d h (serve E req s)"

section \<open>The invariant\<close>

definition has_version :: "media_state \<Rightarrow> uuid \<Rightarrow> int \<Rightarrow> bool" where
  "has_version s i v \<longleftrightarrow> (\<exists>r\<in>set (ms_versions s). mv_media r = i \<and> mv_version r = v)"

definition cur_ok :: "media_state \<Rightarrow> media_row \<Rightarrow> bool" where
  "cur_ok s m \<longleftrightarrow> has_version s (md_id m) (md_current m) \<or> md_current m = 1"

definition versions_ok :: "media_state \<Rightarrow> bool" where
  "versions_ok s \<longleftrightarrow> distinct (map mv_id (ms_versions s))
     \<and> distinct (map (\<lambda>r. (mv_media r, mv_version r)) (ms_versions s))
     \<and> (\<forall>r\<in>set (ms_versions s). mv_version r > 0 \<and> (mv_version r = 1 \<or> has_version s (mv_media r) (mv_version r - 1)))"

definition content_ok :: "local_driver \<Rightarrow> (string \<Rightarrow> string) \<Rightarrow> media_state \<Rightarrow> bool" where
  "content_ok d h s \<longleftrightarrow> (\<forall>r\<in>set (ms_versions s). \<forall>c. ms_disk s (fullPath d (mv_path r)) = Some c \<longrightarrow>
     mv_checksum r = [] \<or> mv_checksum r = hex_encode (h c))"

definition media_inv :: "local_driver \<Rightarrow> (string \<Rightarrow> string) \<Rightarrow> media_state \<Rightarrow> bool" where
  "media_inv d h s \<longleftrightarrow> distinct (map md_id (ms_media s)) \<and> versions_ok s \<and> (\<forall>m\<in>set (ms_media s). cur_ok s m)
     \<and> content_ok d h s"

text \<open>Rows of versions only ever gain a time of deletion.\<close>

definition grows :: "media_state \<Rightarrow> media_state \<Rightarrow> bool" where
  "grows s s' \<longleftrightarrow> (\<forall>r\<in>set (ms_versions s). \<exists>t. r\<lparr>mv_deleted_at := t\<rparr> \<in> set (ms_versions s')
     \<and> (mv_deleted_at r \<noteq> None \<longrightarrow> t = mv_deleted_at r))"

lemma grows_refl [simp]: "ms_versions s' = ms_versions s \<Longrightarrow> grows s s'"
proof -
  assume eq: "ms_versions s' = ms_versions s"
  have "\<exists>t. r\<lparr>mv_deleted_at := t\<rparr> \<in> set (ms_versions s) \<and> (mv_deleted_at r \<noteq> None \<longrightarrow> t = mv_deleted_at r)"
    if "r \<in> set (ms_versions s)" for r
    by (rule exI [where x = "mv_deleted_at r"]) (use that in simp)
  with eq show "grows s s'" by (simp add: grows_def)
qed

lemma grows_trans:
  assumes "grows s s'" "grows s' s''"
  shows "grows s s''"
  unfolding grows_def
proof
  fix r assume "r \<in> set (ms_versions s)"
  then obtain t where t: "r\<lparr>mv_deleted_at := t\<rparr> \<in> set (ms_versions s')" "mv_deleted_at r \<noteq> None \<longrightarrow> t = mv_deleted_at r"
    using assms(1) by (auto simp: grows_def)
  then obtain t' where "r\<lparr>mv_deleted_at := t, mv_deleted_at := t'\<rparr> \<in> set (ms_versions s'')" "t \<noteq> None \<longrightarrow> t' = t"
    using assms(2) by (fastforce simp: grows_def)
  with t show "\<exists>t. r\<lparr>mv_deleted_at := t\<rparr> \<in> set (ms_versions s'') \<and> (mv_deleted_at r \<noteq> None \<longrightarrow> t = mv_deleted_at r)"
    by (intro exI [where x = t']) auto
qed

lemma grows_has_version: "grows s s' \<Longrightarrow> has_version s i v \<Longrightarrow> has_version s' i v"
  by (fastforce simp: grows_def has_version_def)

lemma grows_cur_ok: "grows s s' \<Longrightarrow> cur_ok s m \<Longrightarrow> cur_ok s' m"
  by (auto simp: cur_ok_def grows_has_version)

lemma has_version_cong: "ms_versions s' = ms_versions s \<Longrightarrow> has_version s' = has_version s"
  by (simp add: fun_eq_iff has_version_def)

lemma cur_ok_cong: "ms_versions s' = ms_versions s \<Longrightarrow> cur_ok s' = cur_ok s"
  by (simp add: fun_eq_iff cur_ok_def has_version_def)

lemma versions_ok_cong: "ms_versions s' = ms_versions s \<Longrightarrow> versions_ok s' = versions_ok s"
  by (simp add: versions_ok_def has_version_def)

text \<open>What does not change the rows of versions and the media.\<close>

lemma media_inv_same:
  "media_inv d h s \<Longrightarrow> ms_media s' = ms_media s \<Longrightarrow> ms_versions s' = ms_versions s \<Longrightarrow> content_ok d h s' \<Longrightarrow> media_inv d h s'"
  using versions_ok_cong [of s' s] cur_ok_cong [of s' s] by (simp add: media_inv_def)

section \<open>What the parts of the steps do\<close>

lemma store_file_other:
  "store_file E s path c = (r, s') \<Longrightarrow>
   ms_media s' = ms_media s \<and> ms_versions s' = ms_versions s \<and> ms_conversions s' = ms_conversions s
   \<and> (\<forall>f. f \<noteq> fullPath (mx_driver E) path \<longrightarrow> ms_disk s' f = ms_disk s f)
   \<and> (r = Inr () \<longrightarrow> ms_disk s' (fullPath (mx_driver E) path) = Some c)"
  by (auto simp: store_file_def local_Store_def Let_def split: if_splits)

lemma delete_file_other:
  "ms_media (snd (delete_file E s path)) = ms_media s" "ms_versions (snd (delete_file E s path)) = ms_versions s"
  "ms_disk (snd (delete_file E s path)) f = Some c \<Longrightarrow> ms_disk s f = Some c"
  by (auto simp: delete_file_def local_Delete_def Let_def split: if_splits)

lemma media_log_other [simp]:
  "ms_media (media_log E a s) = ms_media s" "ms_versions (media_log E a s) = ms_versions s"
  "ms_disk (media_log E a s) = ms_disk s" "ms_conversions (media_log E a s) = ms_conversions s"
  by (simp_all add: media_log_def)

lemma media_inv_log: "media_inv d h s \<Longrightarrow> media_inv d h (media_log E a s)"
  by (rule media_inv_same) (simp_all add: media_inv_def content_ok_def)

lemma media_inv_delete_file: "media_inv d h s \<Longrightarrow> media_inv d h (snd (delete_file E s path))"
  by (rule media_inv_same [where s = s])
    (auto simp: delete_file_other(1,2) media_inv_def content_ok_def dest!: delete_file_other(3))

text \<open>The name of a new file.\<close>

lemma file_parts_name:
  assumes "CHR ''/'' \<notin> set w" "w \<noteq> []" "w \<noteq> ''.''" "w \<noteq> ''..''"
  shows "file_parts (p @ CHR ''/'' # w) = file_parts p @ [w]"
  using assms by (simp add: file_parts_def safe_parts_def str_split_append_split str_split_no_sep)

lemma uuid_name:
  assumes "uuid_text u" "CHR ''/'' \<notin> set ext"
  shows "names_file u (p @ CHR ''/'' # u @ ext)"
proof -
  obtain c v where u: "u = c # v" "c \<noteq> CHR ''.''" using assms(1) by (cases u) (auto simp: uuid_text_def)
  have "file_parts (p @ CHR ''/'' # (u @ ext)) = file_parts p @ [u @ ext]"
    by (rule file_parts_name) (use assms u in \<open>auto simp: uuid_text_def\<close>)
  then show ?thesis by (simp add: names_file_def)
qed

lemma fresh_path:
  assumes "ld_base d \<noteq> []" "names_file u p" "\<not> names_file u q"
  shows "fullPath d q \<noteq> fullPath d p"
  using assms fullPath_eq_iff [of d q p] by (auto simp: names_file_def)

lemma path_ext_no_slash: "CHR ''/'' \<notin> set (path_ext s)"
proof -
  have "CHR ''/'' \<notin> set (last (str_split CHR ''/'' s))"
    using str_split_parts [of "last (str_split CHR ''/'' s)" "CHR ''/''" s] by (simp add: str_split_nonempty)
  then show ?thesis by (auto simp: path_ext_def Let_def dest: set_takeWhileD)
qed

lemma to_lower_no_slash: "CHR ''/'' \<notin> set s \<Longrightarrow> CHR ''/'' \<notin> set (to_lower s)"
proof -
  have "to_lower_char c = CHR ''/'' \<Longrightarrow> c = CHR ''/''" for c
  proof -
    assume a: "to_lower_char c = CHR ''/''"
    show "c = CHR ''/''"
    proof (cases "65 \<le> (of_char c :: nat) \<and> (of_char c :: nat) \<le> 90")
      case True
      then have "char_of ((of_char c :: nat) + 32) = CHR ''/''" using a by (simp add: to_lower_char_def Let_def)
      then have "of_char (char_of ((of_char c :: nat) + 32) :: char) = (47 :: nat)" by simp
      with True show ?thesis by simp
    next
      case False
      then show ?thesis using a by (auto simp: to_lower_char_def Let_def split: if_splits)
    qed
  qed
  then show "CHR ''/'' \<notin> set s \<Longrightarrow> CHR ''/'' \<notin> set (to_lower s)" by (auto simp: to_lower_def) (metis)
qed

section \<open>The steps keep the invariant\<close>

lemma has_version_key: "has_version s i v \<longleftrightarrow> (i, v) \<in> set (map (\<lambda>r. (mv_media r, mv_version r)) (ms_versions s))"
  by (auto simp: has_version_def)

lemma has_version_append [simp]:
  "has_version (s\<lparr>ms_versions := ms_versions s @ [r]\<rparr>) i v \<longleftrightarrow> has_version s i v \<or> mv_media r = i \<and> mv_version r = v"
  by (auto simp: has_version_def)

lemma version_Create_cases:
  assumes "version_Create E s r = (x, s')"
  obtains (failed) e where "x = Inl e" "s' = s"
    | (created) "x = Inr ()" "s' = s\<lparr>ms_versions := ms_versions s @ [r]\<rparr>" "mv_version r > 0"
        "\<not> has_version s (mv_media r) (mv_version r)" "\<forall>x\<in>set (ms_versions s). mv_id x \<noteq> mv_id r"
  using assms by (auto simp: version_Create_def version_row_ok_def has_version_def tbl_count_0_iff split: if_splits)

lemma version_Create_inv:
  assumes "version_Create E s r = (x, s')" and inv: "media_inv d h s"
    and "mv_version r = 1 \<or> has_version s (mv_media r) (mv_version r - 1)"
    and "\<And>c. ms_disk s (fullPath d (mv_path r)) = Some c \<Longrightarrow> mv_checksum r = [] \<or> mv_checksum r = hex_encode (h c)"
  shows "media_inv d h s' \<and> grows s s' \<and> ms_disk s' = ms_disk s \<and> ms_media s' = ms_media s
    \<and> (x = Inr () \<longrightarrow> has_version s' (mv_media r) (mv_version r))"
  using assms(1)
proof (cases rule: version_Create_cases)
  case (failed e)
  with inv show ?thesis by simp
next
  case created
  have grows: "grows s s'"
  proof -
    have "grows s s" by simp
    then show ?thesis by (fastforce simp: grows_def created(2))
  qed
  have "versions_ok s'"
    using created(3-5) inv assms(3) unfolding created(2) versions_ok_def media_inv_def
    by (auto simp: has_version_def)
  moreover have "content_ok d h s'"
    using inv assms(4) by (auto simp: media_inv_def content_ok_def created(2))
  moreover have "\<forall>m\<in>set (ms_media s'). cur_ok s' m"
    using inv grows_cur_ok [OF grows] by (auto simp: media_inv_def created(2))
  ultimately show ?thesis using grows inv by (simp add: media_inv_def created(2) has_version_def)
qed

lemma version_SoftDelete_inv:
  assumes inv: "media_inv d h s"
  shows "media_inv d h (snd (version_SoftDelete E s i)) \<and> grows s (snd (version_SoftDelete E s i))"
proof -
  let ?P = "\<lambda>r. mv_id r = i \<and> mv_visible r" and ?f = "\<lambda>r :: media_version. r\<lparr>mv_deleted_at := Some (re_now E)\<rparr>"
  define s' where "s' = s\<lparr>ms_versions := tbl_update ?P ?f (ms_versions s)\<rparr>"
  have m: "map k (ms_versions s') = map k (ms_versions s)" if "\<And>r. k (?f r) = k r" for k :: "media_version \<Rightarrow> 'x"
    unfolding s'_def by (simp add: map_tbl_update that)
  have has: "has_version s' = has_version s"
    using m [of "\<lambda>r. (mv_media r, mv_version r)"] by (simp only: fun_eq_iff has_version_key) simp
  have "versions_ok s'"
    using inv m [of mv_id] m [of "\<lambda>r. (mv_media r, mv_version r)"]
    by (auto simp: media_inv_def versions_ok_def has) (auto simp: s'_def set_tbl_update)
  moreover have "content_ok d h s'"
    using inv by (auto simp: media_inv_def content_ok_def s'_def set_tbl_update)
  moreover have "ms_media s' = ms_media s" by (simp add: s'_def)
  ultimately have inv': "media_inv d h s'" using inv by (simp add: media_inv_def cur_ok_def has)
  have grows: "grows s s'"
    unfolding grows_def
  proof
    fix r assume r: "r \<in> set (ms_versions s)"
    have "(if ?P r then ?f r else r) \<in> set (ms_versions s')" using tbl_updateI [OF r, of ?P ?f] by (simp add: s'_def)
    then show "\<exists>t. r\<lparr>mv_deleted_at := t\<rparr> \<in> set (ms_versions s') \<and> (mv_deleted_at r \<noteq> None \<longrightarrow> t = mv_deleted_at r)"
      by (intro exI [where x = "if ?P r then Some (re_now E) else mv_deleted_at r"]) (auto simp: mv_visible_def split: if_splits)
  qed
  have "snd (version_SoftDelete E s i) \<in> {s, s'}" by (simp add: version_SoftDelete_def s'_def Let_def)
  then show ?thesis using inv inv' grows by auto
qed

lemma media_rows_inv:
  assumes inv: "media_inv d h s" and ids: "map md_id ms = map md_id (ms_media s)"
    and cur: "\<And>m. m \<in> set ms \<Longrightarrow> cur_ok s m"
  shows "media_inv d h (s\<lparr>ms_media := ms\<rparr>)"
  using assms cur_ok_cong [of "s\<lparr>ms_media := ms\<rparr>" s] versions_ok_cong [of "s\<lparr>ms_media := ms\<rparr>" s]
  by (simp add: media_inv_def content_ok_def)

lemma UpdateCurrentVersion_inv:
  assumes inv: "media_inv d h s" and new: "has_version s i v" and run: "UpdateCurrentVersion E s i old v = (x, s')"
  shows "media_inv d h s' \<and> grows s s'"
proof -
  let ?P = "\<lambda>r. md_id r = i \<and> md_visible r \<and> md_current r = old" and ?f = "\<lambda>r :: media_row. r\<lparr>md_current := v\<rparr>"
  have "media_inv d h (s\<lparr>ms_media := tbl_update ?P ?f (ms_media s)\<rparr>)"
  proof (rule media_rows_inv [OF inv])
    show "map md_id (tbl_update ?P ?f (ms_media s)) = map md_id (ms_media s)" by (rule map_tbl_update) simp
    show "cur_ok s m" if "m \<in> set (tbl_update ?P ?f (ms_media s))" for m
      using that by (rule in_tbl_updateE) (use inv new in \<open>auto simp: media_inv_def cur_ok_def\<close>)
  qed
  then show ?thesis using run inv by (auto simp: UpdateCurrentVersion_def Let_def split: if_splits)
qed

lemma duplicate_texts:
  "isDuplicateKeyError (WrapInternal unique_violation)" "\<not> isDuplicateKeyError (WrapInternal db_error)"
  "\<not> isDuplicateKeyError (WrapInternal fk_violation)" "\<not> isDuplicateKeyError (WrapInternal check_violation)"
  by (simp_all add: isDuplicateKeyError_def WrapInternal_def unique_violation_def db_error_def fk_violation_def
      check_violation_def has_prefix_def)

lemma version_Create_duplicate:
  "version_Create E s r = (Inl e, s') \<Longrightarrow> isDuplicateKeyError e \<Longrightarrow>
   has_version s (mv_media r) (mv_version r) \<or> (\<exists>x\<in>set (ms_versions s). mv_id x = mv_id r)"
  by (auto simp: version_Create_def duplicate_texts has_version_def tbl_count_0_iff split: if_splits)

lemma media_FindByID_D: "media_FindByID E s i = Inr m \<Longrightarrow> m \<in> set (ms_media s) \<and> md_id m = i \<and> md_visible m"
  by (auto simp: media_FindByID_def split: if_splits option.splits dest: tbl_first_SomeD)

lemma find_media_D: "find_media E s i = Inr m \<Longrightarrow> m \<in> set (ms_media s) \<and> md_id m = i \<and> md_visible m"
  by (auto simp: find_media_def split: sum.splits dest: media_FindByID_D)

lemma find_version_D:
  "find_version E s i v = Inr r \<Longrightarrow> r \<in> set (ms_versions s) \<and> mv_media r = i \<and> mv_version r = v \<and> mv_visible r"
  by (auto simp: find_version_def FindByMediaIDAndVersion_def split: sum.splits if_splits option.splits dest!: tbl_first_SomeD)

lemma versions_down:
  assumes "versions_ok s" "has_version s i v" "1 \<le> w" "w \<le> v"
  shows "has_version s i w"
  using assms(4,2,3)
proof (induction v rule: int_ge_induct)
  case (step v)
  then obtain r where "r \<in> set (ms_versions s)" "mv_media r = i" "mv_version r = v + 1" by (auto simp: has_version_def)
  then have "has_version s i v" using assms(1) step by (fastforce simp: versions_ok_def)
  then show ?case using step by simp
qed

lemma upload_read_D:
  assumes "upload_read E s i = Inr (m, n)" "media_inv d h s"
  shows "m \<in> set (ms_media s)" "md_id m = i" "md_visible m" "cur_ok s m" "n > 0 \<Longrightarrow> has_version s i 1"
proof -
  have "find_media E s i = Inr m" using assms(1) by (auto simp: upload_read_def split: sum.splits)
  from find_media_D [OF this] show m: "m \<in> set (ms_media s)" "md_id m = i" "md_visible m" by simp_all
  then show "cur_ok s m" using assms(2) by (simp add: media_inv_def)
  assume "n > 0"
  moreover have "n = tbl_count (\<lambda>r. mv_media r = i \<and> mv_visible r) (ms_versions s)"
    using assms(1) by (auto simp: upload_read_def CountByMediaID_def split: sum.splits if_splits)
  ultimately have "tbl_count (\<lambda>r. mv_media r = i \<and> mv_visible r) (ms_versions s) \<noteq> 0" by simp
  then obtain r where r: "r \<in> set (ms_versions s)" "mv_media r = i" unfolding tbl_count_0_iff by blast
  then have "has_version s i (mv_version r)" "mv_version r \<ge> 1"
    using assms(2) by (auto simp: has_version_def media_inv_def versions_ok_def)
  then show "has_version s i 1" using versions_down [of s i "mv_version r" 1] assms(2) by (simp add: media_inv_def)
qed

lemma upload_read_task:
  "upload_read E s i = Inr (m, n) \<Longrightarrow> media_inv d h s \<Longrightarrow> cur_ok s m \<and> (n > 0 \<longrightarrow> has_version s (md_id m) 1)"
  using upload_read_D [of E s i m n d h] by simp

text \<open>The first version: its checksum is that of the file, or empty.\<close>

lemma createRetroactiveV1_inv:
  assumes run: "createRetroactiveV1 E s m = (x, s')" and inv: "media_inv d h s" and conf: "media_config d h E"
    and v1: "list_all (\<lambda>r. mv_id r \<noteq> mx_v1_id E) (ms_versions s)"
  shows "media_inv d h s' \<and> grows s s' \<and> ms_disk s' = ms_disk s \<and> ms_media s' = ms_media s
    \<and> (x = Inr () \<longrightarrow> has_version s' (md_id m) 1) \<and> mv_path ` set (ms_versions s') \<subseteq> insert (md_path m) (mv_path ` set (ms_versions s))"
proof -
  define r where "r = \<lparr>mv_id = mx_v1_id E, mv_media = md_id m, mv_version = 1, mv_filename = md_filename m,
    mv_original = md_original m, mv_mime = md_mime m, mv_size = md_size m, mv_path = md_path m,
    mv_checksum = computeExistingFileChecksum E s m, mv_uploaded_by = md_uploaded_by m, mv_created_at = re_now E,
    mv_deleted_at = None\<rparr>"
  obtain y t where c: "version_Create E s r = (y, t)" by fastforce
  have run': "(x, s') = (case y of Inl err \<Rightarrow> if isDuplicateKeyError err then (Inr (), t) else (Inl (WrapInternal err), t)
      | Inr _ \<Rightarrow> (Inr (), t))"
    using run c by (simp add: createRetroactiveV1_def r_def Let_def split: sum.splits)
  then have s': "s' = t" by (auto split: sum.splits if_splits)
  have "ms_disk s (fullPath d (mv_path r)) = Some z \<Longrightarrow> mv_checksum r = [] \<or> mv_checksum r = hex_encode (h z)" for z
    using conf by (auto simp: r_def computeExistingFileChecksum_def get_file_def local_Get_def media_config_def
        ComputeSHA256Checksum_def Let_def split: if_splits)
  from version_Create_inv [OF c inv _ this]
  have main: "media_inv d h t \<and> grows s t \<and> ms_disk t = ms_disk s \<and> ms_media t = ms_media s \<and> (y = Inr () \<longrightarrow> has_version t (md_id m) 1)"
    by (simp add: r_def)
  have "has_version t (md_id m) 1" if "x = Inr ()"
  proof (cases y)
    case (Inl e)
    then have "isDuplicateKeyError e" using run' that by (auto split: if_splits)
    then have "has_version s (md_id m) 1 \<or> (\<exists>r\<in>set (ms_versions s). mv_id r = mx_v1_id E)"
      using version_Create_duplicate [of E s r e t] c Inl by (simp add: r_def)
    then have "has_version s (md_id m) 1" using v1 by (auto simp: list_all_iff)
    then show ?thesis using main grows_has_version by blast
  qed (use main in simp)
  moreover have "mv_path ` set (ms_versions t) \<subseteq> insert (md_path m) (mv_path ` set (ms_versions s))"
    using c by (cases rule: version_Create_cases) (auto simp: r_def)
  ultimately show ?thesis using main s' by simp
qed

lemma upload_inspect_D:
  "upload_inspect E s m f = Inr (mime, checksum) \<Longrightarrow> checksum = hex_encode (mx_hash E (vu_content f))"
  by (auto simp: upload_inspect_def ComputeSHA256Checksum_def Let_def split: if_splits option.splits)

lemma upload_prepare_inv:
  assumes run: "upload_prepare E s m n f = (x, s')" and inv: "media_inv d h s" and conf: "media_config d h E"
    and v1: "list_all (\<lambda>r. mv_id r \<noteq> mx_v1_id E) (ms_versions s)"
    and cur: "cur_ok s m" and n: "n > 0 \<Longrightarrow> has_version s (md_id m) 1"
  shows "media_inv d h s'" "grows s s'" "ms_disk s' = ms_disk s" "ms_media s' = ms_media s"
    "mv_path ` set (ms_versions s') \<subseteq> insert (md_path m) (mv_path ` set (ms_versions s))"
    "x = Inr (mime, checksum) \<Longrightarrow>
       has_version s' (md_id m) (md_current m) \<and> checksum = hex_encode (h (vu_content f))"
proof -
  obtain y t where c: "(if n = 0 then createRetroactiveV1 E s m else (Inr (), s)) = (y, t)" by fastforce
  have t: "s' = t" and x: "x = (case y of Inl err \<Rightarrow> Inl err | Inr _ \<Rightarrow> upload_inspect E t m f)"
    using run by (auto simp: upload_prepare_def c split: sum.splits)
  have main: "media_inv d h t \<and> grows s t \<and> ms_disk t = ms_disk s \<and> ms_media t = ms_media s
    \<and> (y = Inr () \<longrightarrow> has_version t (md_id m) 1) \<and> mv_path ` set (ms_versions t) \<subseteq> insert (md_path m) (mv_path ` set (ms_versions s))"
  proof (cases "n = 0")
    case True
    then show ?thesis using c createRetroactiveV1_inv [OF _ inv conf v1, of m y t] by simp
  next
    case False
    then show ?thesis using c inv n by auto
  qed
  then show "media_inv d h s'" "grows s s'" "ms_disk s' = ms_disk s" "ms_media s' = ms_media s"
    "mv_path ` set (ms_versions s') \<subseteq> insert (md_path m) (mv_path ` set (ms_versions s))"
    by (simp_all add: t)
  assume "x = Inr (mime, checksum)"
  then have y: "y = Inr ()" and i: "upload_inspect E t m f = Inr (mime, checksum)" using x by (auto split: sum.splits)
  have "has_version t (md_id m) (md_current m)"
    using main y cur grows_cur_ok [of s t m] by (auto simp: cur_ok_def)
  then show "has_version s' (md_id m) (md_current m) \<and> checksum = hex_encode (h (vu_content f))"
    using upload_inspect_D [OF i] conf by (simp add: t media_config_def)
qed

text \<open>A new file lies elsewhere than the files of the rows.\<close>

lemma content_ok_store:
  assumes "media_inv d h s" and conf: "media_config d h E" and fresh: "fresh_file E s"
    and path: "names_file (mx_file_uuid E) path" and run: "store_file E s path c = (x, s')"
  shows "media_inv d h s'" "grows s s'" "ms_media s' = ms_media s" "ms_versions s' = ms_versions s"
    "x = Inr () \<Longrightarrow> ms_disk s' (fullPath d path) = Some c"
proof -
  note other = store_file_other [OF run]
  have d: "mx_driver E = d" "ld_base d \<noteq> []" using conf by (simp_all add: media_config_def)
  have "ms_disk s' (fullPath d (mv_path r)) = ms_disk s (fullPath d (mv_path r))" if "r \<in> set (ms_versions s)" for r
    using that fresh other fresh_path [OF d(2) path, of "mv_path r"] by (auto simp: fresh_file_def list_all_iff d(1))
  then have "content_ok d h s'" using assms(1) other by (auto simp: media_inv_def content_ok_def)
  then show "media_inv d h s'" using media_inv_same [OF assms(1), of s'] other by simp
  show "grows s s'" "ms_media s' = ms_media s" "ms_versions s' = ms_versions s"
    "x = Inr () \<Longrightarrow> ms_disk s' (fullPath d path) = Some c"
    using other d(1) by auto
qed

lemma version_row_fields:
  "mv_media (version_row E u m f mime checksum) = md_id m"
  "mv_version (version_row E u m f mime checksum) = md_current m + 1"
  "mv_checksum (version_row E u m f mime checksum) = checksum"
  "mv_id (version_row E u m f mime checksum) = re_new_id E"
  "mv_deleted_at (version_row E u m f mime checksum) = None"
  by (simp_all add: version_row_def Let_def)

lemma version_row_named:
  "fresh_file E s \<Longrightarrow> names_file (mx_file_uuid E) (mv_path (version_row E u m f mime checksum))"
  using uuid_name [of "mx_file_uuid E" "to_lower (path_ext (sanitizeFilename (vu_filename f)))"
      "md_id m @ ''/v'' @ itoa (md_current m + 1)"]
  by (simp add: version_row_def version_file_path_def Let_def fresh_file_def to_lower_no_slash path_ext_no_slash)

lemma upload_create_inv:
  assumes run: "upload_create E s u m f mime checksum = (x, s')" and inv: "media_inv d h s"
    and conf: "media_config d h E" and fresh: "fresh_file E s"
    and cur: "has_version s (md_id m) (md_current m)" and sum: "checksum = hex_encode (h (vu_content f))"
  shows "media_inv d h s'" "grows s s'" "ms_media s' = ms_media s"
    "x = Inr r \<Longrightarrow> r = version_row E u m f mime checksum \<and> has_version s' (md_id m) (md_current m + 1)"
proof -
  define r0 where "r0 = version_row E u m f mime checksum"
  have named: "names_file (mx_file_uuid E) (mv_path r0)" unfolding r0_def by (rule version_row_named) (rule fresh)
  obtain y s1 where st: "store_file E s (mv_path r0) (vu_content f) = (y, s1)" by fastforce
  note stored = content_ok_store [OF inv conf fresh named st]
  obtain z s2 where cr: "version_Create E s1 r0 = (z, s2)" by fastforce
  have made: "y = Inr () \<Longrightarrow> media_inv d h s2 \<and> grows s1 s2 \<and> ms_disk s2 = ms_disk s1 \<and> ms_media s2 = ms_media s1
      \<and> (z = Inr () \<longrightarrow> has_version s2 (md_id m) (md_current m + 1))"
    using version_Create_inv [OF cr stored(1)] stored(5) cur grows_has_version [OF stored(2)]
    by (simp add: r0_def version_row_fields sum)
  have cases: "(x, s') = (if mx_read_fault E ReadRewindAgain then (Inl (WrapInternal read_failure), s)
      else case y of Inl err \<Rightarrow> (Inl storage_failure, s1)
        | Inr _ \<Rightarrow> (case z of Inl err \<Rightarrow> (Inl (WrapInternal err), snd (delete_file E s2 (mv_path r0))) | Inr _ \<Rightarrow> (Inr r0, s2)))"
    using run unfolding upload_create_def Let_def r0_def [symmetric] st
    by (cases y; cases z) (auto simp: cr split: if_splits)
  then consider "s' = s" "\<exists>e. x = Inl e" | "s' = s1" "\<exists>e. x = Inl e"
    | "y = Inr ()" "s' = snd (delete_file E s2 (mv_path r0))" "\<exists>e. x = Inl e" | "y = Inr ()" "z = Inr ()" "s' = s2" "x = Inr r0"
    by (auto split: if_splits sum.splits)
  then have "media_inv d h s' \<and> grows s s' \<and> ms_media s' = ms_media s
      \<and> (x = Inr r \<longrightarrow> r = r0 \<and> has_version s' (md_id m) (md_current m + 1))"
  proof cases
    case 3
    then show ?thesis
      using made stored(2,3) media_inv_delete_file [of d h s2 E "mv_path r0"] grows_trans [of s s1 s']
      by (auto simp: delete_file_other(1,2) grows_def)
  next
    case 4
    then show ?thesis using made stored(2,3) grows_trans [of s s1 s2] by simp
  qed (use inv stored in auto)
  then show "media_inv d h s'" "grows s s'" "ms_media s' = ms_media s"
    "x = Inr r \<Longrightarrow> r = version_row E u m f mime checksum \<and> has_version s' (md_id m) (md_current m + 1)"
    by (simp_all add: r0_def)
qed

lemma inv_delete_file:
  "media_inv d h t \<and> grows s t \<Longrightarrow> media_inv d h (snd (delete_file E t p)) \<and> grows s (snd (delete_file E t p))"
  by (simp add: media_inv_delete_file delete_file_other(2) grows_def)

lemma inv_log: "media_inv d h t \<and> grows s t \<Longrightarrow> media_inv d h (media_log E a t) \<and> grows s (media_log E a t)"
  by (simp add: media_inv_log grows_def)

lemma inv_SoftDelete:
  "media_inv d h t \<and> grows s t \<Longrightarrow> media_inv d h (snd (version_SoftDelete E t i)) \<and> grows s (snd (version_SoftDelete E t i))"
  using version_SoftDelete_inv grows_trans by blast

lemma upload_commit_inv:
  assumes inv: "media_inv d h s" and has: "has_version s (md_id m) (mv_version r)"
  shows "media_inv d h (snd (upload_commit E s u m r)) \<and> grows s (snd (upload_commit E s u m r))"
proof -
  obtain x t where c: "UpdateCurrentVersion E s (md_id m) (md_current m) (mv_version r) = (x, t)" by fastforce
  have t: "media_inv d h t \<and> grows s t" by (rule UpdateCurrentVersion_inv [OF inv has c])
  show ?thesis
  proof (cases x)
    case (Inl e)
    have "snd (upload_commit E s u m r) = snd (delete_file E (snd (version_SoftDelete E t (mv_id r))) (mv_path r))"
      using c Inl by (simp add: upload_commit_def Let_def)
    then show ?thesis using inv_delete_file [OF inv_SoftDelete [OF t]] by simp
  next
    case (Inr y)
    have "snd (upload_commit E s u m r) = media_log E (Audit u ''version_upload'' ''media_version'' (mv_id r)) t"
      using c Inr by (simp add: upload_commit_def)
    with inv_log [OF t] show ?thesis by simp
  qed
qed

lemma restore_write_inv:
  assumes inv: "media_inv d h s" and has: "has_version s (md_id m) v"
  shows "media_inv d h (snd (restore_write E s u m r v)) \<and> grows s (snd (restore_write E s u m r v))"
proof -
  obtain x t where c: "UpdateCurrentVersion E s (md_id m) (md_current m) v = (x, t)" by fastforce
  have t: "media_inv d h t \<and> grows s t" by (rule UpdateCurrentVersion_inv [OF inv has c])
  show ?thesis
  proof (cases x)
    case (Inr y)
    have "snd (restore_write E s u m r v) = media_log E (Audit u ''version_restore'' ''media_version'' (mv_id r)) t"
      using c Inr by (simp add: restore_write_def)
    with inv_log [OF t] show ?thesis by simp
  qed (use t c in \<open>simp add: restore_write_def\<close>)
qed

lemma delete_write_inv:
  assumes inv: "media_inv d h s"
  shows "media_inv d h (snd (delete_write E s u r)) \<and> grows s (snd (delete_write E s u r))"
proof -
  obtain x t where c: "version_SoftDelete E s (mv_id r) = (x, t)" by fastforce
  have t: "media_inv d h t \<and> grows s t" using version_SoftDelete_inv [OF inv, of E "mv_id r"] by (simp add: c)
  show ?thesis
  proof (cases x)
    case (Inr y)
    have "snd (delete_write E s u r) = media_log E (Audit u ''version_delete'' ''media_version'' (mv_id r))
        (snd (delete_file E t (mv_path r)))"
      using c Inr by (simp add: delete_write_def)
    with inv_log [OF inv_delete_file [OF t]] show ?thesis by simp
  qed (use t c in \<open>simp add: delete_write_def\<close>)
qed

lemma UpdateMetadata_save_inv:
  assumes inv: "media_inv d h s" and cur: "cur_ok s m"
  shows "media_inv d h (snd (UpdateMetadata_save E s m)) \<and> grows s (snd (UpdateMetadata_save E s m))"
proof -
  have new: "media_inv d h (s\<lparr>ms_media := ms_media s @ [m]\<rparr>)" if "md_id m \<notin> md_id ` set (ms_media s)"
    using inv that cur cur_ok_cong [of "s\<lparr>ms_media := ms_media s @ [m]\<rparr>" s]
      versions_ok_cong [of "s\<lparr>ms_media := ms_media s @ [m]\<rparr>" s]
    by (simp add: media_inv_def content_ok_def)
  have old: "media_inv d h (s\<lparr>ms_media := tbl_update (\<lambda>r. md_id r = md_id m) (\<lambda>r. m) (ms_media s)\<rparr>)"
  proof (rule media_rows_inv [OF inv])
    show "map md_id (tbl_update (\<lambda>r. md_id r = md_id m) (\<lambda>r. m) (ms_media s)) = map md_id (ms_media s)"
      by (rule map_tbl_update) simp
    show "cur_ok s x" if "x \<in> set (tbl_update (\<lambda>r. md_id r = md_id m) (\<lambda>r. m) (ms_media s))" for x
      using that by (rule in_tbl_updateE) (use inv cur in \<open>auto simp: media_inv_def\<close>)
  qed
  have absent: "md_id m \<notin> md_id ` set (ms_media s)" if "tbl_count (\<lambda>r. md_id r = md_id m) (ms_media s) = 0"
    using that by (auto simp: tbl_count_0_iff)
  show ?thesis using inv new old absent by (simp add: UpdateMetadata_save_def media_Save_def)
qed

lemma media_Create_inv:
  assumes run: "media_Create E s m = (x, s')" and inv: "media_inv d h s" and cur: "md_current m = 1"
  shows "media_inv d h s' \<and> grows s s'"
proof -
  have "media_inv d h (s\<lparr>ms_media := ms_media s @ [m]\<rparr>)" if "md_id m \<notin> md_id ` set (ms_media s)"
    using inv that cur cur_ok_cong [of "s\<lparr>ms_media := ms_media s @ [m]\<rparr>" s]
      versions_ok_cong [of "s\<lparr>ms_media := ms_media s @ [m]\<rparr>" s]
    by (simp add: media_inv_def content_ok_def cur_ok_def)
  moreover have "md_id m \<notin> md_id ` set (ms_media s)"
    if "tbl_count (\<lambda>r. md_id r = md_id m \<or> md_visible r \<and> md_disk r = md_disk m \<and> md_filename r = md_filename m) (ms_media s) = 0"
    using that by (auto simp: tbl_count_0_iff)
  ultimately show ?thesis using run inv by (auto simp: media_Create_def split: if_splits)
qed

lemma upload_row_named:
  "fresh_file E s \<Longrightarrow> names_file (mx_file_uuid E) (md_path (upload_row E u req mime))"
  using uuid_name [of "mx_file_uuid E" "to_lower (path_ext (mu_filename req))" "mu_model_type req @ ''/'' @ mu_model_id req"]
  by (simp add: upload_row_def Let_def fresh_file_def to_lower_no_slash path_ext_no_slash)

lemma Media_Upload_inv:
  assumes inv: "media_inv d h s" and conf: "media_config d h E" and fresh: "fresh_file E s"
  shows "media_inv d h (snd (Media_Upload E s u req)) \<and> grows s (snd (Media_Upload E s u req))"
proof -
  have "media_inv d h s2 \<and> grows s s2 \<and> media_inv d h (snd (delete_file E s2 p)) \<and> grows s (snd (delete_file E s2 p))"
    if st: "store_file E s (md_path (upload_row E u req mime)) (mu_content req) = (y, s1)"
      and cr: "media_Create E s1 (upload_row E u req mime) = (z, s2)" for mime y s1 z s2 p
  proof -
    note stored = content_ok_store [OF inv conf fresh upload_row_named [OF fresh] st]
    have "media_inv d h s2 \<and> grows s1 s2"
      by (rule media_Create_inv [OF cr stored(1)]) (simp add: upload_row_def Let_def)
    then have "media_inv d h s2 \<and> grows s s2" using stored(2) grows_trans by blast
    with inv_delete_file [OF this] show ?thesis by simp
  qed
  moreover have "media_inv d h s1 \<and> grows s s1"
    if st: "store_file E s (md_path (upload_row E u req mime)) (mu_content req) = (y, s1)" for mime y s1
    using content_ok_store [OF inv conf fresh upload_row_named [OF fresh] st] by blast
  ultimately show ?thesis
    using inv
    by (auto simp: Media_Upload_def Let_def split: option.splits sum.splits prod.splits)
qed

lemma MH_Upload_inv:
  assumes "media_inv d h s" "media_config d h E" "fresh_file E s"
  shows "media_inv d h (snd (MH_Upload E c mt param form s)) \<and> grows s (snd (MH_Upload E c mt param form s))"
proof -
  have up: "media_inv d h t \<and> grows s t \<and> media_inv d h (media_log E a t) \<and> grows s (media_log E a t)"
    if "Media_Upload E s u req = (x, t)" for u req x t a
    using Media_Upload_inv [OF assms, of u req] that inv_log [of d h t s E a] by simp
  then show ?thesis
    using assms(1) by (auto simp: MH_Upload_def split: option.splits prod.splits sum.splits if_splits)
qed

lemma media_update_inv:
  assumes inv: "media_inv d h s" and f: "\<And>r. md_id (f r) = md_id r" "\<And>r. md_current (f r) = md_current r"
  shows "media_inv d h (snd (media_update E q P f s)) \<and> grows s (snd (media_update E q P f s))"
proof -
  have "media_inv d h (s\<lparr>ms_media := tbl_update P f (ms_media s)\<rparr>)"
  proof (rule media_rows_inv [OF inv])
    show "map md_id (tbl_update P f (ms_media s)) = map md_id (ms_media s)" by (rule map_tbl_update) (rule f)
    show "cur_ok s m" if "m \<in> set (tbl_update P f (ms_media s))" for m
      using that by (rule in_tbl_updateE) (use inv f in \<open>auto simp: media_inv_def cur_ok_def\<close>)
  qed
  then show ?thesis using inv by (simp add: media_update_def)
qed

lemma MH_Delete_inv:
  assumes inv: "media_inv d h s"
  shows "media_inv d h (snd (MH_Delete E c param s)) \<and> grows s (snd (MH_Delete E c param s))"
proof -
  have "media_inv d h (snd (MarkOrphaned E s i)) \<and> grows s (snd (MarkOrphaned E s i))" for i
    unfolding MarkOrphaned_def by (rule media_update_inv [OF inv]) simp_all
  moreover have "media_inv d h (snd (media_SoftDelete E t i)) \<and> grows t (snd (media_SoftDelete E t i))" if "media_inv d h t" for t i
    unfolding media_SoftDelete_def by (rule media_update_inv [OF that]) simp_all
  ultimately have soft: "media_inv d h (snd (media_SoftDelete E (snd (MarkOrphaned E s i)) i))
      \<and> grows s (snd (media_SoftDelete E (snd (MarkOrphaned E s i)) i))" for i
    using grows_trans by blast
  have del: "media_inv d h t \<and> grows s t" if "Media_Delete E s u i a = (x, t)" for u i a x t
  proof -
    have "t = s \<or> t = snd (media_SoftDelete E (snd (MarkOrphaned E s i)) i)"
      using that by (auto simp: Media_Delete_def split: sum.splits if_splits)
    then show ?thesis using soft inv by auto
  qed
  show ?thesis
    using inv del inv_log [OF del]
    by (auto simp: MH_Delete_def split: option.splits prod.splits sum.splits)
qed

section \<open>Interleaved requests\<close>

text \<open>What a request has learnt and what stays true while others run.\<close>

fun task_ok :: "(string \<Rightarrow> string) \<Rightarrow> media_state \<Rightarrow> media_task \<Rightarrow> bool" where
  "task_ok h s (TUploadRead u m n f) \<longleftrightarrow> cur_ok s m \<and> (n > 0 \<longrightarrow> has_version s (md_id m) 1)"
| "task_ok h s (TUploadPrepared u m f mime checksum) \<longleftrightarrow>
     has_version s (md_id m) (md_current m) \<and> checksum = hex_encode (h (vu_content f))"
| "task_ok h s (TUploadCreated u m r) \<longleftrightarrow> has_version s (md_id m) (mv_version r)"
| "task_ok h s (TRestore u m r v) \<longleftrightarrow> has_version s (md_id m) v"
| "task_ok h s (TDelete u r) \<longleftrightarrow> True"
| "task_ok h s (TSave m) \<longleftrightarrow> cur_ok s m"

lemma task_ok_mono: "grows s s' \<Longrightarrow> task_ok h s t \<Longrightarrow> task_ok h s' t"
  by (cases t) (auto simp: grows_has_version grows_cur_ok)

lemma continue_task_inv:
  assumes inv: "media_inv d h s" and conf: "media_config d h E" and fresh: "fresh_env E s" and t: "task_ok h s t"
    and run: "continue_task E s t = (rest, s')"
  shows "media_inv d h s' \<and> grows s s' \<and> (\<forall>t'. rest = Some t' \<longrightarrow> task_ok h s' t')"
proof (cases t)
  case (TUploadRead u m n f)
  obtain x s1 where p: "upload_prepare E s m n f = (x, s1)" by fastforce
  have "media_inv d h s1 \<and> grows s s1
      \<and> (\<forall>mime ck. x = Inr (mime, ck) \<longrightarrow> has_version s1 (md_id m) (md_current m) \<and> ck = hex_encode (h (vu_content f)))"
    using upload_prepare_inv [OF p inv conf] fresh t by (simp add: TUploadRead fresh_env_def)
  then show ?thesis using run p by (auto simp: TUploadRead split: sum.splits prod.splits)
next
  case (TUploadPrepared u m f mime ck)
  obtain x s1 where p: "upload_create E s u m f mime ck = (x, s1)" by fastforce
  have "media_inv d h s1 \<and> grows s s1 \<and> (\<forall>r. x = Inr r \<longrightarrow> has_version s1 (md_id m) (mv_version r))"
    using upload_create_inv [OF p inv conf] fresh t by (auto simp: TUploadPrepared fresh_env_def version_row_fields)
  then show ?thesis using run p by (auto simp: TUploadPrepared split: sum.splits)
next
  case (TUploadCreated u m r)
  then show ?thesis using run t upload_commit_inv [OF inv, of m r E u] by auto
next
  case (TRestore u m r v)
  then show ?thesis using run t restore_write_inv [OF inv, of m v E u r] by auto
next
  case (TDelete u r)
  then show ?thesis using run delete_write_inv [OF inv, of E u r] by auto
next
  case (TSave m)
  then show ?thesis using run t UpdateMetadata_save_inv [OF inv, of m E] by auto
qed

lemma UpdateMetadata_read_cur:
  "UpdateMetadata_read E s u i props a = Inr m \<Longrightarrow> media_inv d h s \<Longrightarrow> cur_ok s m"
  by (auto simp: UpdateMetadata_read_def media_inv_def cur_ok_def split: sum.splits if_splits dest!: media_FindByID_D)

lemma restore_read_D:
  "restore_read E s i v = Inr (m, r) \<Longrightarrow>
   m \<in> set (ms_media s) \<and> md_id m = i \<and> md_visible m \<and> r \<in> set (ms_versions s) \<and> mv_media r = i \<and> mv_version r = v
   \<and> mv_visible r \<and> v \<noteq> md_current m"
  by (auto simp: restore_read_def split: sum.splits if_splits dest!: find_media_D find_version_D)

lemma delete_read_D:
  "delete_read E s i v = Inr r \<Longrightarrow>
   r \<in> set (ms_versions s) \<and> mv_media r = i \<and> mv_version r = v \<and> mv_visible r
   \<and> (\<exists>m. m \<in> set (ms_media s) \<and> md_id m = i \<and> v \<noteq> md_current m)"
  by (auto simp: delete_read_def split: sum.splits if_splits dest!: find_media_D find_version_D)

definition sys_ok :: "local_driver \<Rightarrow> (string \<Rightarrow> string) \<Rightarrow> media_sys \<Rightarrow> bool" where
  "sys_ok d h s \<longleftrightarrow> media_inv d h (my_db s) \<and> list_all (task_ok h (my_db s)) (my_tasks s)"

lemma set_drop_task: "set (drop_task k ts) \<subseteq> set ts"
  by (auto simp: drop_task_def dest: in_set_takeD in_set_dropD)

lemma sys_ok_db:
  "sys_ok d h s \<Longrightarrow> media_inv d h db \<and> grows (my_db s) db \<Longrightarrow> sys_ok d h (s\<lparr>my_db := db\<rparr>)"
  by (auto simp: sys_ok_def list_all_iff task_ok_mono)

lemma sys_ok_add:
  "sys_ok d h s \<Longrightarrow> (\<And>t. x = Inr t \<Longrightarrow> task_ok h (my_db s) t) \<Longrightarrow> sys_ok d h (add_task s x)"
  by (auto simp: add_task_def sys_ok_def split: sum.splits)

lemma media_step_ok:
  assumes ok: "sys_ok d h s" and conf: "media_config d h E" and fresh: "fresh_env E (my_db s)"
  shows "sys_ok d h (media_step E op s) \<and> grows (my_db s) (my_db (media_step E op s))"
proof -
  have inv: "media_inv d h (my_db s)" using ok by (simp add: sys_ok_def)
  have added: "my_db (add_task s x) = my_db s" for x by (simp add: add_task_def split: sum.splits)
  show ?thesis
  proof (cases op)
    case (BeginUpload u i f)
    have "sys_ok d h (media_step E op s)"
      unfolding BeginUpload media_step.simps
      by (rule sys_ok_add [OF ok]) (auto simp: map_sum_def split: sum.splits dest!: upload_read_task [OF _ inv])
    then show ?thesis by (simp add: BeginUpload added)
  next
    case (BeginRestore u i v)
    have "sys_ok d h (media_step E op s)"
      unfolding BeginRestore media_step.simps
      by (rule sys_ok_add [OF ok]) (auto split: sum.splits simp: has_version_def map_sum_def dest!: restore_read_D)
    then show ?thesis by (simp add: BeginRestore added)
  next
    case (BeginDelete u i v)
    have "sys_ok d h (media_step E op s)"
      unfolding BeginDelete media_step.simps by (rule sys_ok_add [OF ok]) (auto simp: map_sum_def split: sum.splits)
    then show ?thesis by (simp add: BeginDelete added)
  next
    case (BeginMetadata u i props a)
    have "sys_ok d h (media_step E op s)"
      unfolding BeginMetadata media_step.simps
      by (rule sys_ok_add [OF ok]) (auto simp: map_sum_def split: sum.splits dest: UpdateMetadata_read_cur [OF _ inv])
    then show ?thesis by (simp add: BeginMetadata added)
  next
    case (Continue k)
    show ?thesis
    proof (cases "k < length (my_tasks s)")
      case True
      obtain rest db where run: "continue_task E (my_db s) (my_tasks s ! k) = (rest, db)" by fastforce
      have "task_ok h (my_db s) (my_tasks s ! k)" using ok True by (simp add: sys_ok_def list_all_length)
      from continue_task_inv [OF inv conf fresh this run]
      have db: "media_inv d h db" "grows (my_db s) db" "\<And>t. rest = Some t \<Longrightarrow> task_ok h db t" by simp_all
      have "list_all (task_ok h db) (drop_task k (my_tasks s))"
        using ok db(2) set_drop_task [of k "my_tasks s"] by (auto simp: sys_ok_def list_all_iff task_ok_mono)
      then show ?thesis using True run db by (auto simp: Continue sys_ok_def split: option.splits)
    qed (use ok in \<open>simp add: Continue\<close>)
  next
    case (Abandon k)
    then show ?thesis using ok set_drop_task [of k "my_tasks s"] by (auto simp: sys_ok_def list_all_iff)
  next
    case (DoUpload c mt param form)
    have "fresh_file E (my_db s)" using fresh by (simp add: fresh_env_def)
    from MH_Upload_inv [OF inv conf this] sys_ok_db [OF ok] show ?thesis by (simp add: DoUpload)
  next
    case (DoDelete c param)
    then show ?thesis using MH_Delete_inv [OF inv] sys_ok_db [OF ok] by simp
  next
    case (DoDownload u i v)
    have "media_inv d h (snd (DownloadVersion E (my_db s) u i v)) \<and> grows (my_db s) (snd (DownloadVersion E (my_db s) u i v))"
      using inv inv_log [of d h "my_db s" "my_db s"] by (auto simp: DownloadVersion_def split: sum.splits if_splits)
    then show ?thesis using sys_ok_db [OF ok] by (simp add: DoDownload)
  next
    case (DoConversion conv)
    have "media_inv d h (my_db s\<lparr>ms_conversions := cs\<rparr>)" for cs
      by (rule media_inv_same [OF inv]) (use inv in \<open>simp_all add: media_inv_def content_ok_def\<close>)
    then have "media_inv d h (snd (CreateConversion E (my_db s) conv)) \<and> grows (my_db s) (snd (CreateConversion E (my_db s) conv))"
      using inv by (simp add: CreateConversion_def)
    then show ?thesis using sys_ok_db [OF ok] by (simp add: DoConversion)
  qed
qed

lemma media_reach_ok: "media_reach d h s \<Longrightarrow> sys_ok d h s"
  by (induction rule: media_reach.induct)
    (simp_all add: media_step_ok, simp add: media_start_def no_media_def sys_ok_def media_inv_def versions_ok_def content_ok_def)

end
