(* ===== verification/Media_Properties.thy ===== *)
theory Media_Properties
  imports Media_System
begin

text \<open>
  What holds of media and their versions: how versions are numbered and what a version contains, however
  requests interleave and fail; that the current version is there when requests do not interleave, and
  how two of them make it vanish; what blocks uploads; and what a signed address gives.
\<close>

section \<open>Numbers and contents\<close>

lemma down_closed_interval:
  fixes N :: "int set"
  assumes "finite N" "\<And>v. v \<in> N \<Longrightarrow> 1 \<le> v" "\<And>v w. v \<in> N \<Longrightarrow> 1 \<le> w \<Longrightarrow> w \<le> v \<Longrightarrow> w \<in> N"
  shows "\<exists>n\<ge>0. N = {1..n}"
proof (cases "N = {}")
  case False
  have "N = {1..Max N}"
  proof (intro equalityI subsetI)
    show "v \<in> {1..Max N}" if "v \<in> N" for v using that assms(1,2) by simp
    show "v \<in> N" if "v \<in> {1..Max N}" for v using that assms(3) [of "Max N" v] Max_in [OF assms(1) False] by simp
  qed
  moreover have "0 \<le> Max N" using assms(2) [of "Max N"] Max_in [OF assms(1) False] by simp
  ultimately show ?thesis by blast
qed (auto intro: exI [of _ 0])

definition numbers_of :: "media_state \<Rightarrow> uuid \<Rightarrow> int list" where
  "numbers_of s i = map mv_version (filter (\<lambda>r. mv_media r = i) (ms_versions s))"

lemma in_numbers_of: "v \<in> set (numbers_of s i) \<longleftrightarrow> has_version s i v"
  by (auto simp: numbers_of_def has_version_def)

text \<open>
  C34. However uploads, restorations, deletions, changes of metadata and failures interleave, the versions
  of a media, deleted ones included, are numbered from one without a gap, no number occurs twice, and the
  current version is one of them, or one when there are none.
\<close>

theorem version_numbers:
  assumes "media_reach d h s" and "m \<in> set (ms_media (my_db s))"
  shows "\<exists>n\<ge>0. set (numbers_of (my_db s) (md_id m)) = {1..n} \<and> distinct (numbers_of (my_db s) (md_id m))
    \<and> 1 \<le> md_current m \<and> md_current m \<le> max 1 n"
proof -
  let ?s = "my_db s"
  have inv: "media_inv d h ?s" using media_reach_ok [OF assms(1)] by (simp add: sys_ok_def)
  then have vok: "versions_ok ?s" by (simp add: media_inv_def)
  let ?N = "set (numbers_of ?s (md_id m))"
  have "\<exists>n\<ge>0. ?N = {1..n}"
  proof (rule down_closed_interval)
    show "1 \<le> v" if "v \<in> ?N" for v using that vok by (auto simp: numbers_of_def versions_ok_def)
    show "w \<in> ?N" if "v \<in> ?N" "1 \<le> w" "w \<le> v" for v w using that versions_down [OF vok] by (simp add: in_numbers_of)
  qed simp
  then obtain n where n: "0 \<le> n" "?N = {1..n}" by blast
  have "cur_ok ?s m" using inv assms(2) by (simp add: media_inv_def)
  then have "md_current m \<in> ?N \<or> md_current m = 1" by (simp add: cur_ok_def in_numbers_of)
  then have "1 \<le> md_current m \<and> md_current m \<le> max 1 n" unfolding n(2) by auto
  moreover have "inj_on (\<lambda>r. (mv_media r, mv_version r)) (set (ms_versions ?s))" "distinct (ms_versions ?s)"
    using vok by (auto simp: versions_ok_def distinct_map)
  then have "distinct (numbers_of ?s (md_id m))"
    by (auto simp: numbers_of_def distinct_map inj_on_def)
  ultimately show ?thesis using n by blast
qed

text \<open>
  C35. However requests interleave and fail, a version that is downloaded is one of the table, and its
  content has the checksum that was recorded when it was uploaded, or none was.
\<close>

theorem downloaded_version_matches:
  assumes "media_reach d h s" and "media_config d h E"
    and "fst (DownloadVersion E (my_db s) u i v) = Inr (content, r)"
  shows "r \<in> set (ms_versions (my_db s)) \<and> mv_media r = i \<and> mv_version r = v \<and> mv_visible r
    \<and> (mv_checksum r = [] \<or> mv_checksum r = hex_encode (h content))"
proof -
  have "content_ok d h (my_db s)" using media_reach_ok [OF assms(1)] by (simp add: sys_ok_def media_inv_def)
  moreover have f: "find_version E (my_db s) i v = Inr r" "get_file E (my_db s) (mv_path r) = Inr content"
    using assms(3) by (auto simp: DownloadVersion_def split: if_splits sum.splits)
  moreover have "ms_disk (my_db s) (fullPath d (mv_path r)) = Some content"
    using f(2) assms(2) by (auto simp: get_file_def local_Get_def media_config_def Let_def split: if_splits option.splits)
  ultimately show ?thesis using find_version_D [OF f(1)] by (auto simp: content_ok_def)
qed

section \<open>Requests one after the other\<close>

definition cur_live :: "media_state \<Rightarrow> media_row \<Rightarrow> bool" where
  "cur_live s m \<longleftrightarrow> (\<exists>r\<in>set (ms_versions s). mv_media r = md_id m \<and> mv_version r = md_current m \<and> mv_visible r)
     \<or> md_current m = 1 \<and> (\<forall>r\<in>set (ms_versions s). mv_media r \<noteq> md_id m)"

definition live_inv :: "media_state \<Rightarrow> bool" where
  "live_inv s \<longleftrightarrow> (\<forall>m\<in>set (ms_media s). cur_live s m) \<and> mv_media ` set (ms_versions s) \<subseteq> md_id ` set (ms_media s)"

lemma live_inv_cong:
  "ms_media s' = ms_media s \<Longrightarrow> ms_versions s' = ms_versions s \<Longrightarrow> live_inv s' = live_inv s"
  by (simp add: live_inv_def cur_live_def)

lemma live_Create:
  assumes live: "live_inv s" and run: "version_Create E s r = (x, s')" and vis: "mv_visible r"
    and v: "mv_version r = 1 \<or> has_version s (mv_media r) w"
  shows "live_inv s'"
  using run
proof (cases rule: version_Create_cases)
  case created
  have ref: "mv_media r \<in> md_id ` set (ms_media s)"
  proof -
    have "\<exists>m\<in>set (ms_media s). md_id m = mv_media r"
      using run created(1) by (auto simp: version_Create_def tbl_count_0_iff split: if_splits)
    then show ?thesis by (metis imageI)
  qed
  have "cur_live s' m" if m: "m \<in> set (ms_media s)" for m
  proof -
    have "cur_live s m" using live m by (simp add: live_inv_def)
    then consider (row) y where "y \<in> set (ms_versions s)" "mv_media y = md_id m" "mv_version y = md_current m" "mv_visible y"
      | (none) "md_current m = 1" "\<forall>y\<in>set (ms_versions s). mv_media y \<noteq> md_id m"
      by (auto simp: cur_live_def)
    then show ?thesis
    proof cases
      case row
      then show ?thesis by (auto simp: cur_live_def created(2))
    next
      case none
      then show ?thesis using v vis by (auto simp: cur_live_def created(2) has_version_def)
    qed
  qed
  then show ?thesis using live ref by (auto simp: live_inv_def created(2))
qed (use live in simp)

text \<open>Changes of the rows of media that keep what the current version is.\<close>

lemma live_media_update:
  assumes live: "live_inv s" and f: "\<And>r. P r \<Longrightarrow> md_id (f r) = md_id r"
    and cur: "\<And>m. m \<in> set (ms_media s) \<Longrightarrow> P m \<Longrightarrow> cur_live s (f m)"
  shows "live_inv (s\<lparr>ms_media := tbl_update P f (ms_media s)\<rparr>)"
proof -
  let ?s' = "s\<lparr>ms_media := tbl_update P f (ms_media s)\<rparr>"
  have ids: "map md_id (ms_media ?s') = map md_id (ms_media s)" by (simp add: map_tbl_update f)
  have "md_id ` set (ms_media ?s') = md_id ` set (ms_media s)" using arg_cong [OF ids, of set] by simp
  moreover have "cur_live ?s' m" if "m \<in> set (ms_media ?s')" for m
  proof -
    have "m \<in> set (tbl_update P f (ms_media s))" using that by simp
    then have "cur_live s m" by (rule in_tbl_updateE) (use live cur in \<open>auto simp: live_inv_def\<close>)
    then show ?thesis by (simp add: cur_live_def)
  qed
  ultimately show ?thesis using live by (simp add: live_inv_def)
qed

lemma live_UpdateCurrent:
  assumes live: "live_inv s" and run: "UpdateCurrentVersion E s i old v = (x, s')"
    and row: "r \<in> set (ms_versions s)" "mv_media r = i" "mv_version r = v" "mv_visible r"
  shows "live_inv s'"
proof -
  have "live_inv (s\<lparr>ms_media := tbl_update (\<lambda>m. md_id m = i \<and> md_visible m \<and> md_current m = old)
      (\<lambda>m. m\<lparr>md_current := v\<rparr>) (ms_media s)\<rparr>)"
    by (rule live_media_update [OF live]) (use row in \<open>auto simp: cur_live_def\<close>)
  then show ?thesis using run live by (auto simp: UpdateCurrentVersion_def Let_def split: if_splits)
qed

text \<open>Deleting a version that is not the current one.\<close>

lemma live_SoftDelete:
  assumes live: "live_inv s" and vok: "versions_ok s"
    and row: "r \<in> set (ms_versions s)" and cur: "\<And>m. m \<in> set (ms_media s) \<Longrightarrow> md_id m = mv_media r \<Longrightarrow> md_current m \<noteq> mv_version r"
  shows "live_inv (snd (version_SoftDelete E s (mv_id r)))"
proof -
  let ?P = "\<lambda>x. mv_id x = mv_id r \<and> mv_visible x" and ?f = "\<lambda>x :: media_version. x\<lparr>mv_deleted_at := Some (re_now E)\<rparr>"
  let ?s' = "s\<lparr>ms_versions := tbl_update ?P ?f (ms_versions s)\<rparr>"
  have only: "x = r" if "x \<in> set (ms_versions s)" "mv_id x = mv_id r" for x
  proof -
    have "inj_on mv_id (set (ms_versions s))" using vok by (simp add: versions_ok_def distinct_map)
    from inj_onD [OF this that(2,1) row] show ?thesis .
  qed
  have sub: "mv_media ` set (ms_versions ?s') \<subseteq> mv_media ` set (ms_versions s)" by (auto simp: set_tbl_update)
  have "cur_live ?s' m" if m: "m \<in> set (ms_media s)" for m
  proof -
    have "cur_live s m" using live m by (simp add: live_inv_def)
    then consider (row) y where "y \<in> set (ms_versions s)" "mv_media y = md_id m" "mv_version y = md_current m" "mv_visible y"
      | (none) "md_current m = 1" "\<forall>y\<in>set (ms_versions s). mv_media y \<noteq> md_id m"
      by (auto simp: cur_live_def)
    then show ?thesis
    proof cases
      case row
      then have "mv_id y \<noteq> mv_id r" using only [of y] cur [OF m] by auto
      then have "y \<in> set (ms_versions ?s')" using row by (auto simp: set_tbl_update)
      then show ?thesis using row unfolding cur_live_def by blast
    next
      case none
      have "mv_media y \<noteq> md_id m" if "y \<in> set (ms_versions ?s')" for y
      proof -
        have "mv_media y \<in> mv_media ` set (ms_versions s)" using that sub by blast
        then show ?thesis using none(2) by auto
      qed
      then show ?thesis using none(1) by (simp only: cur_live_def) simp
    qed
  qed
  moreover have "mv_media ` set (ms_versions ?s') \<subseteq> md_id ` set (ms_media s)"
    using sub live unfolding live_inv_def by (meson subset_trans)
  ultimately have "live_inv ?s'" by (simp add: live_inv_def)
  then show ?thesis using live by (simp add: version_SoftDelete_def Let_def)
qed

lemma live_log [simp]: "live_inv (media_log E a s) = live_inv s"
  by (rule live_inv_cong) simp_all

lemma live_delete_file [simp]: "live_inv (snd (delete_file E s p)) = live_inv s"
  by (rule live_inv_cong) (simp_all add: delete_file_other)

lemma media_unique:
  "media_inv d h s \<Longrightarrow> m \<in> set (ms_media s) \<Longrightarrow> m' \<in> set (ms_media s) \<Longrightarrow> md_id m = md_id m' \<Longrightarrow> m = m'"
  by (auto simp: media_inv_def distinct_map dest: inj_onD)

text \<open>
  A whole upload: the media that is read stays as it is until the commit, and the version that is
  created is there, undeleted, when it becomes the current one.
\<close>

lemma live_prepare:
  assumes live: "live_inv s" and run: "upload_prepare E s m n f = (x, s')"
  shows "live_inv s'"
proof -
  have "live_inv t" if "createRetroactiveV1 E s m = (y, t)" for y t
  proof -
    define r where "r = \<lparr>mv_id = mx_v1_id E, mv_media = md_id m, mv_version = 1, mv_filename = md_filename m,
      mv_original = md_original m, mv_mime = md_mime m, mv_size = md_size m, mv_path = md_path m,
      mv_checksum = computeExistingFileChecksum E s m, mv_uploaded_by = md_uploaded_by m, mv_created_at = re_now E,
      mv_deleted_at = None\<rparr>"
    obtain z u where c: "version_Create E s r = (z, u)" by fastforce
    have "t = u" using that c by (auto simp: createRetroactiveV1_def r_def Let_def split: sum.splits if_splits)
    moreover have "live_inv u" by (rule live_Create [OF live c]) (simp_all add: r_def mv_visible_def)
    ultimately show ?thesis by simp
  qed
  then show ?thesis using run live by (auto simp: upload_prepare_def split: if_splits sum.splits prod.splits)
qed

lemma upload_create_success:
  assumes "upload_create E s u m f mime ck = (x, s')"
  obtains (failed) e where "x = Inl e"
    | (created) s1 where "x = Inr (version_row E u m f mime ck)"
        "store_file E s (mv_path (version_row E u m f mime ck)) (vu_content f) = (Inr (), s1)"
        "version_Create E s1 (version_row E u m f mime ck) = (Inr (), s')"
  using assms by (auto simp: upload_create_def Let_def split: if_splits sum.splits prod.splits)

lemma live_create:
  assumes live: "live_inv s" and has: "has_version s (md_id m) v" and run: "upload_create E s u m f mime ck = (x, s')"
  shows "live_inv s'"
proof -
  let ?r = "version_row E u m f mime ck"
  obtain y s1 where st: "store_file E s (mv_path ?r) (vu_content f) = (y, s1)" by fastforce
  have l1: "live_inv s1" and v1: "ms_versions s1 = ms_versions s"
    using store_file_other [OF st] live live_inv_cong [of s1 s] by simp_all
  have l2: "live_inv s2" if "version_Create E s1 ?r = (z, s2)" for z s2
  proof (rule live_Create [OF l1 that])
    show "mv_visible ?r" by (simp add: mv_visible_def version_row_fields)
    show "mv_version ?r = 1 \<or> has_version s1 (mv_media ?r) v"
      using has has_version_cong [OF v1] by (simp add: version_row_fields)
  qed
  show ?thesis using run live l1 l2 by (auto simp: upload_create_def Let_def st split: if_splits sum.splits prod.splits)
qed

lemma live_commit:
  assumes inv: "media_inv d h s" and live: "live_inv s" and m: "m \<in> set (ms_media s)"
    and row: "r \<in> set (ms_versions s)" "mv_media r = md_id m" "mv_version r = md_current m + 1" "mv_visible r"
  shows "live_inv (snd (upload_commit E s u m r))"
proof -
  obtain x t where c: "UpdateCurrentVersion E s (md_id m) (md_current m) (mv_version r) = (x, t)" by fastforce
  show ?thesis
  proof (cases x)
    case (Inl e)
    then have t: "t = s" using c by (auto simp: UpdateCurrentVersion_def Let_def split: if_splits)
    have "live_inv (snd (version_SoftDelete E s (mv_id r)))"
    proof (rule live_SoftDelete [OF live _ row(1)])
      show "versions_ok s" using inv by (simp add: media_inv_def)
      show "md_current m' \<noteq> mv_version r" if "m' \<in> set (ms_media s)" "md_id m' = mv_media r" for m'
        using media_unique [OF inv m that(1)] that(2) row(2,3) by simp
    qed
    then show ?thesis using c Inl t by (simp add: upload_commit_def Let_def)
  next
    case (Inr y)
    have "live_inv t" by (rule live_UpdateCurrent [OF live c row(1,2) _ row(4)]) simp
    then show ?thesis using c Inr by (simp add: upload_commit_def)
  qed
qed

text \<open>The three invariants of requests one after the other.\<close>

definition serial_inv :: "local_driver \<Rightarrow> (string \<Rightarrow> string) \<Rightarrow> media_state \<Rightarrow> bool" where
  "serial_inv d h s \<longleftrightarrow> media_inv d h s \<and> live_inv s"

lemma fresh_after_prepare:
  assumes "fresh_file E s" "m \<in> set (ms_media s)" "ms_media s' = ms_media s"
    and "mv_path ` set (ms_versions s') \<subseteq> insert (md_path m) (mv_path ` set (ms_versions s))"
  shows "fresh_file E s'"
proof -
  have "\<not> names_file (mx_file_uuid E) (mv_path r)" if "r \<in> set (ms_versions s')" for r
  proof -
    have "mv_path r \<in> insert (md_path m) (mv_path ` set (ms_versions s))" using that assms(4) by blast
    then show ?thesis using assms(1,2) by (auto simp: fresh_file_def list_all_iff)
  qed
  then show ?thesis using assms(1,3) by (simp add: fresh_file_def list_all_iff)
qed

lemma UploadVersion_serial:
  assumes ok: "serial_inv d h s" and conf: "media_config d h E" and fresh: "fresh_env E s"
  shows "serial_inv d h (snd (UploadVersion E s u i f))"
proof (cases "upload_read E s i")
  case (Inr p)
  obtain m n where p: "p = (m, n)" by fastforce
  have inv: "media_inv d h s" and live: "live_inv s" using ok by (simp_all add: serial_inv_def)
  have rd: "upload_read E s i = Inr (m, n)" using Inr p by simp
  have m: "m \<in> set (ms_media s)" by (rule upload_read_D [OF rd inv])
  have task: "cur_ok s m" "n > 0 \<Longrightarrow> has_version s (md_id m) 1" using upload_read_task [OF rd inv] by simp_all
  obtain x s1 where pr: "upload_prepare E s m n f = (x, s1)" by fastforce
  have v1: "list_all (\<lambda>r. mv_id r \<noteq> mx_v1_id E) (ms_versions s)" and ff: "fresh_file E s"
    using fresh by (simp_all add: fresh_env_def)
  note prep = upload_prepare_inv [OF pr inv conf v1 task]
  have live1: "live_inv s1" by (rule live_prepare [OF live pr])
  show ?thesis
  proof (cases x)
    case (Inl e)
    then show ?thesis using rd pr prep(1) live1 by (simp add: UploadVersion_def serial_inv_def)
  next
    case (Inr q)
    obtain mime ck where q: "q = (mime, ck)" by fastforce
    have has: "has_version s1 (md_id m) (md_current m)" "ck = hex_encode (h (vu_content f))"
      using prep(6) [of mime ck] Inr q by simp_all
    have fresh1: "fresh_file E s1" by (rule fresh_after_prepare [OF ff m prep(4,5)])
    obtain y s2 where cr: "upload_create E s1 u m f mime ck = (y, s2)" by fastforce
    note made = upload_create_inv [OF cr prep(1) conf fresh1 has]
    have live2: "live_inv s2" by (rule live_create [OF live1 has(1) cr])
    show ?thesis
    proof (cases y)
      case (Inl e)
      then show ?thesis using rd pr \<open>x = Inr q\<close> q cr made(1) live2 by (simp add: UploadVersion_def serial_inv_def)
    next
      case (Inr r)
      have r: "r = version_row E u m f mime ck" using made(4) Inr by simp
      from cr have row: "r \<in> set (ms_versions s2)"
      proof (cases rule: upload_create_success)
        case (created t)
        from created(3) show ?thesis unfolding r [symmetric] by (cases rule: version_Create_cases) simp_all
      qed (use Inr in simp)
      have commit: "media_inv d h (snd (upload_commit E s2 u m r))"
      proof (rule conjunct1 [OF upload_commit_inv [OF made(1)]])
        have "mv_version r = md_current m + 1" unfolding r by (rule version_row_fields)
        then show "has_version s2 (md_id m) (mv_version r)" using made(4) [OF _ Inr] by simp
      qed
      have "live_inv (snd (upload_commit E s2 u m r))"
        by (rule live_commit [OF made(1) live2 _ row])
          (use m prep(4) made(3) in \<open>simp_all add: r version_row_fields mv_visible_def\<close>)
      with commit show ?thesis using rd pr \<open>x = Inr q\<close> q cr Inr by (simp add: UploadVersion_def serial_inv_def)
    qed
  qed
qed (use ok in \<open>simp add: UploadVersion_def\<close>)

lemma live_UpdateMetadata:
  assumes live: "live_inv s" and inv: "media_inv d h s" and rd: "UpdateMetadata_read E s u i props a = Inr m"
  shows "live_inv (snd (UpdateMetadata_save E s m))"
proof -
  obtain m0 where m0: "m0 \<in> set (ms_media s)" "m = m0\<lparr>md_props := props\<rparr>"
    using rd by (auto simp: UpdateMetadata_read_def split: sum.splits if_splits dest!: media_FindByID_D)
  have "cur_live s m" using live m0 by (simp add: live_inv_def cur_live_def)
  then have "live_inv (s\<lparr>ms_media := tbl_update (\<lambda>r. md_id r = md_id m) (\<lambda>r. m) (ms_media s)\<rparr>)"
    by (intro live_media_update [OF live]) simp_all
  moreover have "tbl_count (\<lambda>r. md_id r = md_id m) (ms_media s) \<noteq> 0" by (rule tbl_count_pos [OF m0(1)]) (simp add: m0(2))
  ultimately show ?thesis using live by (simp add: UpdateMetadata_save_def media_Save_def)
qed

lemma live_media_update_rows:
  assumes live: "live_inv s" and "\<And>r. md_id (f r) = md_id r" "\<And>r. md_current (f r) = md_current r"
  shows "live_inv (snd (media_update E q P f s))"
proof -
  have "live_inv (s\<lparr>ms_media := tbl_update P f (ms_media s)\<rparr>)"
    by (rule live_media_update [OF live]) (use assms in \<open>auto simp: live_inv_def cur_live_def\<close>)
  then show ?thesis using live by (simp add: media_update_def)
qed

lemma live_MH_Delete: "live_inv s \<Longrightarrow> live_inv (snd (MH_Delete E c param s))"
proof -
  assume live: "live_inv s"
  have soft: "live_inv (snd (media_SoftDelete E (snd (MarkOrphaned E s i)) i))" for i
    unfolding media_SoftDelete_def MarkOrphaned_def by (intro live_media_update_rows live) simp_all
  have "live_inv t" if "Media_Delete E s u i a = (x, t)" for u i a x t
    using that live soft [of i] by (auto simp: Media_Delete_def split: sum.splits if_splits)
  then show ?thesis using live by (auto simp: MH_Delete_def split: option.splits prod.splits sum.splits)
qed

lemma live_MH_Upload:
  assumes live: "live_inv s"
  shows "live_inv (snd (MH_Upload E c mt param form s))"
proof -
  have made: "live_inv s2"
    if st: "store_file E s p content = (y, s1)" and cr: "media_Create E s1 m = (z, s2)" and cur: "md_current m = 1" for p content y s1 m z s2
  proof -
    have l1: "live_inv s1" using store_file_other [OF st] live live_inv_cong [of s1 s] by simp
    have "live_inv (s1\<lparr>ms_media := ms_media s1 @ [m]\<rparr>)" if new: "md_id m \<notin> md_id ` set (ms_media s1)"
    proof -
      have "\<forall>r\<in>set (ms_versions s1). mv_media r \<noteq> md_id m"
        using l1 new unfolding live_inv_def by (metis imageI subsetD)
      then show ?thesis using l1 cur by (auto simp: live_inv_def cur_live_def)
    qed
    moreover have "md_id m \<notin> md_id ` set (ms_media s1)"
      if "tbl_count (\<lambda>r. md_id r = md_id m \<or> md_visible r \<and> md_disk r = md_disk m \<and> md_filename r = md_filename m) (ms_media s1) = 0"
      using that by (auto simp: tbl_count_0_iff)
    ultimately show ?thesis using cr l1 by (auto simp: media_Create_def split: if_splits)
  qed
  have stored: "live_inv s1" if "store_file E s p content = (y, s1)" for p content y s1
    using store_file_other [OF that] live live_inv_cong [of s1 s] by simp
  have "md_current (upload_row E u req mime) = 1" for u req mime by (simp add: upload_row_def Let_def)
  then have "live_inv t" if "Media_Upload E s u req = (x, t)" for u req x t
    using that live made stored
    by (auto simp: Media_Upload_def Let_def split: option.splits sum.splits prod.splits if_splits)
  then show ?thesis
    using live by (auto simp: MH_Upload_def split: option.splits prod.splits sum.splits if_splits)
qed

lemma live_restore:
  assumes live: "live_inv s" and rd: "restore_read E s i v = Inr (m, r)"
  shows "live_inv (snd (restore_write E s u m r v))"
proof -
  note f = restore_read_D [OF rd]
  obtain x t where c: "UpdateCurrentVersion E s (md_id m) (md_current m) v = (x, t)" by fastforce
  have "live_inv t" by (rule live_UpdateCurrent [OF live c, of r]) (use f in simp_all)
  then show ?thesis using c live by (simp add: restore_write_def split: sum.splits)
qed

lemma live_delete:
  assumes live: "live_inv s" and inv: "media_inv d h s" and rd: "delete_read E s i v = Inr r"
  shows "live_inv (snd (delete_write E s u r))"
proof -
  have f: "r \<in> set (ms_versions s)" "mv_media r = i" "mv_version r = v" using delete_read_D [OF rd] by simp_all
  obtain m where m: "m \<in> set (ms_media s)" "md_id m = i" "v \<noteq> md_current m" using delete_read_D [OF rd] by blast
  have "live_inv (snd (version_SoftDelete E s (mv_id r)))"
  proof (rule live_SoftDelete [OF live _ f(1)])
    show "versions_ok s" using inv by (simp add: media_inv_def)
    show "md_current m' \<noteq> mv_version r" if "m' \<in> set (ms_media s)" "md_id m' = mv_media r" for m'
      using media_unique [OF inv m(1) that(1)] that(2) m f by auto
  qed
  moreover obtain x t where "version_SoftDelete E s (mv_id r) = (x, t)" by fastforce
  ultimately show ?thesis by (cases x) (simp_all add: delete_write_def)
qed

lemma media_serial_inv: "media_serial d h s \<Longrightarrow> serial_inv d h s"
proof (induction rule: media_serial.induct)
  case (start fs)
  show ?case
    by (simp add: no_media_def serial_inv_def media_inv_def versions_ok_def content_ok_def live_inv_def)
next
  case (serve s E req)
  have inv: "media_inv d h s" and live: "live_inv s" using serve.IH by (simp_all add: serial_inv_def)
  show ?case
  proof (cases req)
    case (ReqUpload u i f)
    then show ?thesis using UploadVersion_serial [OF serve.IH serve.hyps(2,3)] by simp
  next
    case (ReqRestore u i v)
    have "serial_inv d h (snd (restore_write E s u m r v))" if rd: "restore_read E s i v = Inr (m, r)" for m r
    proof -
      have "has_version s (md_id m) v" using restore_read_D [OF rd] by (auto simp: has_version_def)
      then show ?thesis using restore_write_inv [OF inv] live_restore [OF live rd] by (simp add: serial_inv_def)
    qed
    then show ?thesis using serve.IH by (auto simp: ReqRestore RestoreVersion_def split: sum.splits)
  next
    case (ReqDelete u i v)
    have "serial_inv d h (snd (delete_write E s u r))" if "delete_read E s i v = Inr r" for r
      using delete_write_inv [OF inv] live_delete [OF live inv that] by (simp add: serial_inv_def)
    then show ?thesis using serve.IH by (auto simp: ReqDelete DeleteVersion_def split: sum.splits)
  next
    case (ReqMetadata u i props a)
    have "serial_inv d h (snd (UpdateMetadata_save E s m))" if rd: "UpdateMetadata_read E s u i props a = Inr m" for m
      using UpdateMetadata_save_inv [OF inv UpdateMetadata_read_cur [OF rd inv]] live_UpdateMetadata [OF live inv rd]
      by (simp add: serial_inv_def)
    then show ?thesis using serve.IH by (auto simp: ReqMetadata Media_UpdateMetadata_def split: sum.splits)
  next
    case (ReqMediaUpload c mt param form)
    have "fresh_file E s" using serve.hyps(3) by (simp add: fresh_env_def)
    from MH_Upload_inv [OF inv serve.hyps(2) this] live_MH_Upload [OF live] show ?thesis
      by (simp add: ReqMediaUpload serial_inv_def)
  next
    case (ReqMediaDelete c param)
    then show ?thesis using MH_Delete_inv [OF inv] live_MH_Delete [OF live] by (simp add: serial_inv_def)
  qed
qed

text \<open>
  C36. When requests are served one after the other, whatever fails, the current version of a media is
  one of its versions and not deleted; a media without versions is at version one.
\<close>

theorem current_version_live:
  assumes "media_serial d h s" and "m \<in> set (ms_media s)"
  shows "(\<exists>r\<in>set (ms_versions s). mv_media r = md_id m \<and> mv_version r = md_current m \<and> mv_visible r)
    \<or> md_current m = 1 \<and> numbers_of s (md_id m) = []"
proof -
  have "cur_live s m" using media_serial_inv [OF assms(1)] assms(2) by (simp add: serial_inv_def live_inv_def)
  then show ?thesis by (auto simp: cur_live_def numbers_of_def filter_empty_conv)
qed

section \<open>What an upload does\<close>

lemma UploadVersion_success:
  assumes "UploadVersion E s u i f = (Inr r, s')"
  obtains m n s1 mime ck s2 where "upload_read E s i = Inr (m, n)" "upload_prepare E s m n f = (Inr (mime, ck), s1)"
    "upload_create E s1 u m f mime ck = (Inr r, s2)" "upload_commit E s2 u m r = (Inr r, s')"
  using assms
  by (auto simp: UploadVersion_def upload_commit_def Let_def split: sum.splits prod.splits)

lemma prepare_frame:
  assumes "upload_prepare E s m n f = (x, s')"
  shows "ms_media s' = ms_media s \<and> ms_disk s' = ms_disk s \<and> (\<exists>rows. ms_versions s' = ms_versions s @ rows)"
proof -
  have "ms_media t = ms_media s \<and> ms_disk t = ms_disk s \<and> (\<exists>rows. ms_versions t = ms_versions s @ rows)"
    if c: "version_Create E s r = (y, t)" for r y t
    using c by (cases rule: version_Create_cases) auto
  then show ?thesis
    using assms
    by (auto simp: upload_prepare_def createRetroactiveV1_def Let_def split: if_splits sum.splits prod.splits)
qed

lemma tbl_first_media:
  "m \<in> set rows \<Longrightarrow> P m \<Longrightarrow> \<exists>x. tbl_first P rows = Some x"
  using tbl_first_NoneD [of P rows m] by (cases "tbl_first P rows") auto

lemma upload_commit_success:
  assumes "upload_commit E s u m r = (Inr r', s')"
  shows "ms_versions s' = ms_versions s \<and> ms_disk s' = ms_disk s
    \<and> ms_media s' = tbl_update (\<lambda>x. md_id x = md_id m \<and> md_visible x \<and> md_current x = md_current m)
        (\<lambda>x. x\<lparr>md_current := mv_version r\<rparr>) (ms_media s)
    \<and> tbl_count (\<lambda>x. md_id x = md_id m \<and> md_visible x \<and> md_current x = md_current m) (ms_media s) \<noteq> 0"
  using assms by (auto simp: upload_commit_def UpdateCurrentVersion_def Let_def split: if_splits)

text \<open>
  C37. A version that was uploaded can be downloaded at once: the answer is the content of the upload
  and the row of the version, which is the current one of the media, whatever else the tables hold.
\<close>

theorem upload_download_roundtrip:
  assumes "UploadVersion E s u i f = (Inr r, s')"
    and "mx_driver E' = mx_driver E" "\<not> re_fault E' (QMediaByID i)" "\<not> re_fault E' (QVersionBy i (mv_version r))"
    and "\<not> os_fault (mx_os E') (OsOpen (fullPath (mx_driver E) (mv_path r)))"
  shows "fst (DownloadVersion E' s' u' i (mv_version r)) = Inr (vu_content f, r)
    \<and> (\<exists>m\<in>set (ms_media s'). md_id m = i \<and> md_current m = mv_version r)"
proof -
  from assms(1) obtain m n s1 mime ck s2 where steps: "upload_read E s i = Inr (m, n)"
      "upload_prepare E s m n f = (Inr (mime, ck), s1)" "upload_create E s1 u m f mime ck = (Inr r, s2)"
      "upload_commit E s2 u m r = (Inr r, s')"
    by (rule UploadVersion_success)
  have "find_media E s i = Inr m" using steps(1) by (auto simp: upload_read_def split: sum.splits)
  then have m: "m \<in> set (ms_media s)" "md_id m = i" "md_visible m" using find_media_D by blast+
  from steps(3) obtain t where r: "r = version_row E u m f mime ck"
      and st: "store_file E s1 (mv_path r) (vu_content f) = (Inr (), t)" and cr: "version_Create E t r = (Inr (), s2)"
    by (cases rule: upload_create_success) auto
  have s2: "s2 = t\<lparr>ms_versions := ms_versions t @ [r]\<rparr>" and pos: "mv_version r > 0"
      and none: "\<not> has_version t (mv_media r) (mv_version r)"
    using cr by (auto elim: version_Create_cases)
  have rf: "mv_media r = i" "mv_visible r" using r m(2) by (simp_all add: version_row_fields mv_visible_def)
  have media2: "ms_media s2 = ms_media s" and disk2: "ms_disk s2 (fullPath (mx_driver E) (mv_path r)) = Some (vu_content f)"
    using store_file_other [OF st] prepare_frame [OF steps(2)] by (simp_all add: s2)
  note commit = upload_commit_success [OF steps(4)]
  let ?P = "\<lambda>x. md_id x = md_id m \<and> md_visible x \<and> md_current x = md_current m"
  let ?f = "\<lambda>x :: media_row. x\<lparr>md_current := mv_version r\<rparr>"
  obtain m1 where m1: "m1 \<in> set (ms_media s2)" "?P m1" using commit by (auto simp: tbl_count_0_iff)
  then have m2: "?f m1 \<in> set (ms_media s')" using tbl_updateI [OF m1(1), of ?P ?f] commit by simp
  then obtain x where x: "tbl_first (\<lambda>x. md_id x = i \<and> md_visible x) (ms_media s') = Some x"
    using tbl_first_media [OF m2, of "\<lambda>x. md_id x = i \<and> md_visible x"] m1(2) m(2) by (auto simp: md_visible_def)
  have "find_media E' s' i = Inr x" using x assms(3) by (simp add: find_media_def media_FindByID_def)
  moreover have "find_version E' s' i (mv_version r) = Inr r"
  proof -
    have "tbl_first (\<lambda>y. mv_media y = i \<and> mv_version y = mv_version r \<and> mv_visible y) (ms_versions t) = None"
      using none rf by (auto simp: tbl_first_None_iff has_version_def)
    then show ?thesis
      using commit rf assms(4)
      by (simp add: find_version_def FindByMediaIDAndVersion_def s2 tbl_first_append tbl_first_Cons)
  qed
  moreover have "get_file E' s' (mv_path r) = Inr (vu_content f)"
    using commit disk2 assms(2,5) by (simp add: get_file_def local_Get_def Let_def)
  ultimately have "fst (DownloadVersion E' s' u' i (mv_version r)) = Inr (vu_content f, r)"
    using pos rf by (simp add: DownloadVersion_def mv_IsDeleted_def mv_visible_def)
  moreover have "md_id (?f m1) = i \<and> md_current (?f m1) = mv_version r" using m1(2) m(2) by simp
  ultimately show ?thesis using m2 by blast
qed

section \<open>What blocks uploads\<close>

lemma upload_create_frame:
  assumes "upload_create E s u m f mime ck = (x, s')" and "has_version s (md_id m) (md_current m + 1)"
  shows "(\<exists>e. x = Inl e) \<and> ms_media s' = ms_media s"
proof -
  let ?r = "version_row E u m f mime ck"
  obtain y s1 where st: "store_file E s (mv_path ?r) (vu_content f) = (y, s1)" by fastforce
  have s1: "ms_media s1 = ms_media s" "has_version s1 (md_id m) (md_current m + 1)"
    using store_file_other [OF st] assms(2) has_version_cong [of s1 s] by simp_all
  have "\<exists>e. z = Inl e \<and> s2 = s1" if "version_Create E s1 ?r = (z, s2)" for z s2
    using that s1(2) by (cases rule: version_Create_cases) (simp_all add: version_row_fields)
  then show ?thesis
    using assms(1) s1(1) by (fastforce simp: upload_create_def Let_def st delete_file_other(1) split: if_splits sum.splits prod.splits)
qed

lemma upload_blocked:
  assumes "\<And>m. m \<in> set (ms_media s) \<Longrightarrow> md_id m = i \<Longrightarrow> has_version s i (md_current m + 1)"
  shows "\<exists>e s'. UploadVersion E s u i f = (Inl e, s') \<and> ms_media s' = ms_media s"
proof (cases "upload_read E s i")
  case (Inr p)
  obtain m n where rd: "upload_read E s i = Inr (m, n)" using Inr by (cases p) auto
  then have "find_media E s i = Inr m" by (auto simp: upload_read_def split: sum.splits)
  from find_media_D [OF this] assms have m: "md_id m = i" "has_version s i (md_current m + 1)" by simp_all
  obtain x s1 where pr: "upload_prepare E s m n f = (x, s1)" by fastforce
  have s1: "ms_media s1 = ms_media s" "has_version s1 i (md_current m + 1)"
    using prepare_frame [OF pr] m(2) by (auto simp: has_version_def)
  show ?thesis
  proof (cases x)
    case (Inl e)
    then show ?thesis using rd pr s1 by (simp add: UploadVersion_def)
  next
    case (Inr q)
    obtain mime ck where q: "q = (mime, ck)" by fastforce
    obtain y s2 where cr: "upload_create E s1 u m f mime ck = (y, s2)" by fastforce
    have "has_version s1 (md_id m) (md_current m + 1)" using s1(2) m(1) by simp
    from upload_create_frame [OF cr this] obtain e where "y = Inl e" "ms_media s2 = ms_media s1" by blast
    then show ?thesis using rd pr Inr q cr s1 by (simp add: UploadVersion_def)
  qed
qed (simp add: UploadVersion_def)

text \<open>
  C38. Once an older version of a media has been restored, no upload of a new version of it succeeds, with
  any content, from any user: each one computes the number of a version that exists already.
\<close>

theorem restore_blocks_uploads:
  assumes "media_reach d h s" and "RestoreVersion E (my_db s) u i v = (Inr m, s')"
    and "newer \<in> set (ms_versions (my_db s))" "mv_media newer = i" "v < mv_version newer"
  shows "\<exists>e s''. UploadVersion E' s' u' i f = (Inl e, s'') \<and> ms_media s'' = ms_media s'"
proof (rule upload_blocked)
  let ?s = "my_db s"
  have inv: "media_inv d h ?s" using media_reach_ok [OF assms(1)] by (simp add: sys_ok_def)
  obtain m0 r where rd: "restore_read E ?s i v = Inr (m0, r)" and wr: "restore_write E ?s u m0 r v = (Inr m, s')"
    using assms(2) by (auto simp: RestoreVersion_def split: sum.splits)
  note f = restore_read_D [OF rd]
  let ?P = "\<lambda>x. md_id x = md_id m0 \<and> md_visible x \<and> md_current x = md_current m0"
  have s': "ms_versions s' = ms_versions ?s" "ms_media s' = tbl_update ?P (\<lambda>x. x\<lparr>md_current := v\<rparr>) (ms_media ?s)"
    using wr by (auto simp: restore_write_def UpdateCurrentVersion_def Let_def split: if_splits)
  have "1 \<le> v" using f inv by (auto simp: media_inv_def versions_ok_def)
  then have "has_version ?s i (v + 1)"
    using versions_down [of ?s i "mv_version newer" "v + 1"] inv assms(3-5) by (auto simp: media_inv_def has_version_def)
  then have new: "has_version s' i (v + 1)" using has_version_cong [OF s'(1)] by simp
  fix x assume x: "x \<in> set (ms_media s')" "md_id x = i"
  have "x \<in> set (tbl_update ?P (\<lambda>x. x\<lparr>md_current := v\<rparr>) (ms_media ?s))" using x(1) s'(2) by simp
  then have "md_current x = v"
  proof (cases rule: in_tbl_updateE)
    case miss
    then have "x = m0" using media_unique [OF inv, of x m0] f x(2) by simp
    with miss(2) f show ?thesis by simp
  qed simp
  with new show "has_version s' i (md_current x + 1)" by simp
qed

text \<open>
  Without any restoration: a change of the metadata that was read before an upload and is saved after it
  writes the number of the version before back, and blocks the uploads in the same way.
\<close>

theorem stale_metadata_blocks_uploads:
  assumes "UpdateMetadata_read E s u i props a = Inr m" and "UploadVersion E1 s u1 i f = (Inr r, s1)"
    and "UpdateMetadata_save E2 s1 m = (Inr m', s2)"
  shows "\<exists>e s'. UploadVersion E3 s2 u3 i g = (Inl e, s') \<and> ms_media s' = ms_media s2"
proof (rule upload_blocked)
  from assms(2) obtain m0 n t mime ck s0 where steps: "upload_read E1 s i = Inr (m0, n)"
      "upload_prepare E1 s m0 n f = (Inr (mime, ck), t)" "upload_create E1 t u1 m0 f mime ck = (Inr r, s0)"
      "upload_commit E1 s0 u1 m0 r = (Inr r, s1)"
    by (rule UploadVersion_success)
  have m: "md_current m = md_current m0" "md_id m = i" "md_id m0 = i"
    using assms(1) steps(1) by (auto simp: UpdateMetadata_read_def upload_read_def find_media_def media_FindByID_def
        split: sum.splits option.splits if_splits dest: tbl_first_SomeD)
  from steps(3) have "has_version s0 i (md_current m + 1)"
    by (cases rule: upload_create_success)
       (use m in \<open>auto elim!: version_Create_cases simp: has_version_def version_row_fields\<close>)
  then have "has_version s1 i (md_current m + 1)" using upload_commit_success [OF steps(4)] has_version_cong [of s1 s0] by simp
  then have "has_version s2 i (md_current m + 1)"
    using assms(3) has_version_cong [of s2 s1]
    by (auto simp: UpdateMetadata_save_def media_Save_def split: if_splits)
  moreover have "md_current x = md_current m" if "x \<in> set (ms_media s2)" "md_id x = i" for x
    using that assms(3) m(2)
    by (auto simp: UpdateMetadata_save_def media_Save_def tbl_update_def tbl_count_0_iff split: if_splits)
  ultimately show "has_version s2 i (md_current x + 1)" if "x \<in> set (ms_media s2)" "md_id x = i" for x
    using that by simp
qed

section \<open>Downloads and signed addresses\<close>

lemma download_signed:
  assumes "Route_Download E c param (Some q) s = (200, Some a)"
  shows "\<exists>i. mx_parse E param = Some i
    \<and> dq_sig q = signBasic (mx_hmac E) (mx_signing_key E) i (dq_expires q) \<and> unix_secs (re_now E) \<le> dq_expires q"
  using assms
  by (auto simp: Route_Download_def MH_Download_def download_refused_def GetUserID_def not_found_status_def
      ValidateSignedURL_def Validate_def split: option.splits if_splits sum.splits)

text \<open>
  C39. Whoever asks, a download is answered only under a signature of the media and of an instant that
  has not passed, made with the signing key; a session alone is never enough.
\<close>

theorem download_needs_signature:
  assumes "Route_Download E c param query s = (200, Some a)"
  shows "\<exists>q i. query = Some q \<and> mx_parse E param = Some i
    \<and> dq_sig q = signBasic (mx_hmac E) (mx_signing_key E) i (dq_expires q) \<and> unix_secs (re_now E) \<le> dq_expires q"
proof (cases query)
  case None
  then show ?thesis using assms by (simp add: Route_Download_def MH_Download_def split: option.splits)
next
  case (Some q)
  with assms download_signed [of E c param q s a] show ?thesis by blast
qed

text \<open>A request with the parameters that stand in an address.\<close>

definition carries :: "download_params \<Rightarrow> uuid \<Rightarrow> string \<Rightarrow> bool" where
  "carries p i url \<longleftrightarrow> url = download_url i (download_query (dq_expires p) (dq_sig p)) \<and> dq_conversion p = []
     \<and> int64_range (dq_expires p)"

text \<open>The server that answers: nothing fails, and the file of the media is on the disk.\<close>

definition can_serve :: "media_env \<Rightarrow> media_state \<Rightarrow> string \<Rightarrow> uuid \<Rightarrow> media_row \<Rightarrow> string \<Rightarrow> bool" where
  "can_serve E s param i m content \<longleftrightarrow> mx_parse E param = Some i \<and> media_FindByID E s i = Inr m
     \<and> get_file E s (md_path m) = Inr content \<and> (\<forall>k x. mx_hmac E k x \<noteq> [])"

lemma generated_downloads:
  assumes gen: "Generate (mx_hmac E) (mx_signing_key E) now i path expiry = Inr u" and now: "0 \<le> now"
    and req: "carries p i (su_url u)" and range: "int64_range (unix_secs (su_expires_at u))"
    and serve: "can_serve E s param i m content" and time: "unix_secs (re_now E) \<le> unix_secs (su_expires_at u)"
  shows "Route_Download E c param (Some p) s =
    (200, Some \<lparr>da_mime = md_mime m, da_filename = md_original m, da_size = md_size m, da_content = content\<rparr>)"
proof -
  have v: "dq_expires p = unix_secs (su_expires_at u)"
      "Validate (mx_hmac E) (mx_signing_key E) (re_now E) i (dq_sig p) (dq_expires p) []"
  proof -
    have "su_url u = download_url i (download_query (dq_expires p) (dq_sig p))" "int64_range (dq_expires p)"
      using req by (simp_all add: carries_def)
    from generated_validates [OF gen this range, of "re_now E"] time
    show "dq_expires p = unix_secs (su_expires_at u)"
      "Validate (mx_hmac E) (mx_signing_key E) (re_now E) i (dq_sig p) (dq_expires p) []" by (metis, metis)
  qed
  have "MinExpiry \<le> su_expires_at u" using generated_expiry [OF gen] now by simp
  then have "0 < unix_secs (su_expires_at u)"
    by (simp add: unix_secs_def MinExpiry_def second_def pos_imp_zdiv_pos_iff)
  then have e: "dq_expires p \<noteq> 0" using v(1) by simp
  have "dq_sig p = signBasic (mx_hmac E) (mx_signing_key E) i (dq_expires p)"
    using v(2) by (simp add: Validate_def split: if_splits)
  then have sig: "dq_sig p \<noteq> []" using serve by (simp add: signBasic_def signer_hmac_def hex_encode_nonempty can_serve_def)
  have "md_deleted_at m = None" using media_FindByID_D [of E s i m] serve by (simp add: can_serve_def md_visible_def)
  then show ?thesis
    using serve req e sig v(2)
    by (simp add: Route_Download_def MH_Download_def download_refused_def GetUserID_def Media_Get_def ValidateSignedURL_def
        can_serve_def carries_def)
qed


text \<open>The signed address of a version gives the file that was uploaded first, whatever the version.\<close>

theorem version_url_serves_first_file:
  assumes "GetVersionSignedURL E0 s i v expiresIn = Inr (url, expiresAt)"
    and "mx_signing_key E0 = mx_signing_key E" "mx_hmac E0 = mx_hmac E" "0 \<le> re_now E0"
    and "carries p i url" "int64_range (unix_secs expiresAt)" "can_serve E s param i m content"
    and "unix_secs (re_now E) \<le> unix_secs expiresAt"
  shows "Route_Download E c param (Some p) s =
    (200, Some \<lparr>da_mime = md_mime m, da_filename = md_original m, da_size = md_size m, da_content = content\<rparr>)"
proof -
  obtain path e u where "Generate (mx_hmac E) (mx_signing_key E) (re_now E0) i path e = Inr u" "url = su_url u" "expiresAt = su_expires_at u"
    using assms(1-3) by (auto simp: GetVersionSignedURL_def Let_def split: if_splits sum.splits)
  then show ?thesis using generated_downloads [of E "re_now E0" i path e u p s param m content] assms(4-8) by simp
qed

text \<open>
  Addresses of conversions are refused where they are to be used, and so are all addresses of the media
  service when a signing key is configured that is not the secret of the sessions. HMAC is taken to be
  without collisions.
\<close>

lemma conversion_urls_refused:
  assumes "\<And>k x k' x'. mx_hmac E k x = mx_hmac E k' x' \<Longrightarrow> k = k' \<and> x = x'" and "CHR '':'' \<notin> set i"
    and "\<And>j. mx_parse E param = Some j \<Longrightarrow> CHR '':'' \<notin> set j"
    and "dq_sig p = signWithConversion (mx_hmac E) key i path conv expires"
  shows "Route_Download E c param (Some p) s \<noteq> (200, Some a)"
proof
  assume "Route_Download E c param (Some p) s = (200, Some a)"
  from download_signed [OF this] obtain j where j: "mx_parse E param = Some j"
      "signWithConversion (mx_hmac E) key i path conv expires = signBasic (mx_hmac E) (mx_signing_key E) j (dq_expires p)"
    using assms(4) by auto
  have "mx_hmac E key (i @ '':'' @ path @ '':'' @ conv @ '':'' @ itoa expires) = mx_hmac E (mx_signing_key E) (j @ '':'' @ itoa (dq_expires p))"
    using j(2) unfolding signWithConversion_def signBasic_def signer_hmac_def by (rule hex_encode_inject)
  then have key: "key = mx_signing_key E" using assms(1) by blast
  have "signWithConversion (mx_hmac E) key i path conv expires \<noteq> signBasic (mx_hmac E) key j (dq_expires p)"
    by (rule conversion_signature_differs) (use assms(1,2,3) j(1) in blast)+
  then show False using j(2) key by simp
qed

lemma media_urls_need_jwt_secret:
  assumes "\<And>k x k' x'. mx_hmac E k x = mx_hmac E k' x' \<Longrightarrow> k = k' \<and> x = x'" and "mx_jwt_secret E0 \<noteq> mx_signing_key E"
    and "mx_hmac E0 = mx_hmac E" and "Media_GetSignedURL E0 s0 i [] expiry = Inr (url, expiresAt)"
    and "carries p i url" "int64_range (unix_secs expiresAt)"
  shows "Route_Download E c param (Some p) s \<noteq> (200, Some a)"
proof
  assume "Route_Download E c param (Some p) s = (200, Some a)"
  from download_signed [OF this] obtain j where
      sg: "dq_sig p = signBasic (mx_hmac E) (mx_signing_key E) j (dq_expires p)" by blast
  have "\<exists>path u. Generate (mx_hmac E) (mx_jwt_secret E0) (re_now E0) i path expiry = Inr u
      \<and> url = su_url u \<and> expiresAt = su_expires_at u"
    using assms(3,4) by (auto simp: Media_GetSignedURL_def split: sum.splits)
  then obtain path u where gen: "Generate (mx_hmac E) (mx_jwt_secret E0) (re_now E0) i path expiry = Inr u"
      and u: "url = su_url u" "expiresAt = su_expires_at u"
    by blast
  have "download_query (unix_secs expiresAt) (signBasic (mx_hmac E) (mx_jwt_secret E0) i (unix_secs expiresAt)) =
      download_query (dq_expires p) (dq_sig p)"
    using gen u assms(5) by (auto simp: Generate_def Let_def carries_def split: if_splits)
  moreover have "int64_range (dq_expires p)" using assms(5) by (simp add: carries_def)
  ultimately have "unix_secs expiresAt = dq_expires p \<and>
      signBasic (mx_hmac E) (mx_jwt_secret E0) i (unix_secs expiresAt) = dq_sig p"
    using download_query_inject [OF assms(6)] by blast
  then have "signBasic (mx_hmac E) (mx_jwt_secret E0) i (unix_secs expiresAt) = dq_sig p" by (rule conjunct2)
  with sg have "mx_hmac E (mx_jwt_secret E0) (i @ '':'' @ itoa (unix_secs expiresAt)) = mx_hmac E (mx_signing_key E) (j @ '':'' @ itoa (dq_expires p))"
    unfolding signBasic_def signer_hmac_def by (metis hex_encode_inject)
  with assms(1,2) show False by blast
qed

section \<open>A concrete run\<close>

text \<open>
  One deployment with a disk under /m, on which the witnesses below run: a document is uploaded, a second
  version of it follows in steps, and the first one is restored, deleted or downloaded.
\<close>

definition media_demo :: "string \<Rightarrow> media_env" where
  "media_demo name = \<lparr>re_now = 0, re_fault = (\<lambda>_. False), re_new_id = name, re_audit_full = True,
     re_enforce = (\<lambda>_ _ _ _. Inr True), mx_os = reliable_os, mx_driver = \<lparr>ld_base = ''/m'', ld_url = []\<rparr>,
     mx_read_fault = (\<lambda>_. False), mx_hash = (\<lambda>c. drop 4 c), mx_hmac = (\<lambda>k x. CHR ''x'' # k @ x), mx_jwt_secret = ''k'',
     mx_signing_key = ''k'', mx_file_uuid = CHR ''f'' # name, mx_v1_id = CHR ''v'' # name, mx_parse = Some, mx_bind_nil = None\<rparr>"

lemma media_demo_fields [simp]:
  "re_now (media_demo n) = 0" "re_fault (media_demo n) q = False" "re_new_id (media_demo n) = n"
  "re_audit_full (media_demo n)" "re_enforce (media_demo n) x y z w = Inr True" "mx_driver (media_demo n) = \<lparr>ld_base = ''/m'', ld_url = []\<rparr>"
  "os_fault (mx_os (media_demo n)) c = False" "mx_read_fault (media_demo n) f = False" "mx_hash (media_demo n) t = drop 4 t"
  "mx_hmac (media_demo n) = (\<lambda>k x. CHR ''x'' # k @ x)" "mx_jwt_secret (media_demo n) = ''k''" "mx_signing_key (media_demo n) = ''k''"
  "mx_file_uuid (media_demo n) = CHR ''f'' # n" "mx_v1_id (media_demo n) = CHR ''v'' # n" "mx_parse (media_demo n) x = Some x"
  "mx_bind_nil (media_demo n) = None"
  by (simp_all add: media_demo_def reliable_os_def)

definition mdemo_row :: "int \<Rightarrow> media_row" where
  "mdemo_row cur = \<lparr>md_id = ''a'', md_model_type = ''news'', md_model_id = ''n'', md_collection = ''default'', md_disk = ''local'',
     md_filename = ''fa.pdf'', md_original = ''x.pdf'', md_mime = ''application/pdf'', md_size = 6, md_current = cur,
     md_path = ''news/n/fa.pdf'', md_metadata = None, md_props = None, md_uploaded_by = ''u'', md_created_at = 0,
     md_deleted_at = None, md_orphaned_at = None\<rparr>"

definition mdemo_v1 :: "uuid \<Rightarrow> instant option \<Rightarrow> media_version" where
  "mdemo_v1 i t = \<lparr>mv_id = i, mv_media = ''a'', mv_version = 1, mv_filename = ''fa.pdf'', mv_original = ''x.pdf'',
     mv_mime = ''application/pdf'', mv_size = 6, mv_path = ''news/n/fa.pdf'', mv_checksum = ''2d31'', mv_uploaded_by = ''u'',
     mv_created_at = 0, mv_deleted_at = t\<rparr>"

definition mdemo_v2 :: media_version where
  "mdemo_v2 = \<lparr>mv_id = ''b'', mv_media = ''a'', mv_version = 2, mv_filename = ''fb.pdf'', mv_original = ''y.pdf'',
     mv_mime = ''application/pdf'', mv_size = 6, mv_path = ''a/v2/fb.pdf'', mv_checksum = ''2d32'', mv_uploaded_by = ''u'',
     mv_created_at = 0, mv_deleted_at = None\<rparr>"

definition mdemo_form :: upload_form where
  "mdemo_form = \<lparr>uf_file = Some (''x.pdf'', 6, ''%PDF-1''), uf_collection = [], uf_props = []\<rparr>"

definition mdemo_file :: version_upload where
  "mdemo_file = \<lparr>vu_filename = ''y.pdf'', vu_size = 6, vu_content = ''%PDF-2'', vu_seekable = True\<rparr>"

definition mdemo_ctx :: guard_ctx where "mdemo_ctx = \<lparr>gc_claims = Some ''u'', gc_tenant = []\<rparr>"

lemma mdemo_detect: "DetectContentType ''%PDF-1'' = ''application/pdf''" "DetectContentType ''%PDF-2'' = ''application/pdf''"
  by (simp_all add: DetectContentType_def sniff_signatures_def MagicBytesLength_def sniff_space_def byte_def text_sig_def exact_sig_def)

definition mdemo_disk1 :: disk where "mdemo_disk1 = [''/m/news/n/fa.pdf'' \<mapsto> ''%PDF-1'']"

definition mdemo_db :: "int \<Rightarrow> media_version list \<Rightarrow> disk \<Rightarrow> media_state" where
  "mdemo_db cur vs fs = \<lparr>ms_media = [mdemo_row cur], ms_conversions = [], ms_versions = vs, ms_disk = fs, ms_audit = []\<rparr>"

lemma mdemo_log [simp]: "media_log (media_demo n) a s = s"
  by (simp add: media_log_def log_action_def)

lemma mdemo_full [simp]: "fullPath \<lparr>ld_base = ''/m'', ld_url = []\<rparr> ''news/n/fa.pdf'' = ''/m/news/n/fa.pdf''"
  "fullPath \<lparr>ld_base = ''/m'', ld_url = []\<rparr> ''a/v2/fb.pdf'' = ''/m/a/v2/fb.pdf''"
  by (simp_all add: fullPath_def path_join_def local_sanitizePath_def safe_parts_def path_clean_def has_prefix_def)

lemma mdemo_names: "to_lower (path_ext ''x.pdf'') = ''.pdf''" "to_lower (path_ext ''y.pdf'') = ''.pdf''"
  "sanitizeFilename ''x.pdf'' = ''x.pdf''" "sanitizeFilename ''y.pdf'' = ''y.pdf''"
  by (simp_all add: to_lower_def to_lower_char_def path_ext_def sanitizeFilename_def path_base_def trim_space_def is_space_def)

lemma mdemo_upload_row: "upload_row (media_demo ''a'') ''u'' \<lparr>mu_filename = ''x.pdf'', mu_size = 6, mu_content = ''%PDF-1'',
   mu_model_type = ''news'', mu_model_id = ''n'', mu_collection = [], mu_props = None\<rparr> ''application/pdf'' = mdemo_row 1"
  by (simp add: upload_row_def mdemo_names mdemo_row_def isImageMimeType_def has_mime_class_def Let_def)

lemma mdemo_row_ok: "media_row_ok (mdemo_row 1)" "version_row_ok (mdemo_v1 i None)" "version_row_ok mdemo_v2"
  by (simp_all add: media_row_ok_def version_row_ok_def mdemo_row_def mdemo_v1_def mdemo_v2_def mime_column_ok_def is_lower_def)

lemma mdemo_DoUpload: "snd (MH_Upload (media_demo ''a'') mdemo_ctx ''news'' ''n'' (Some mdemo_form) (no_media (\<lambda>_. None))) = mdemo_db 1 [] mdemo_disk1"
proof -
  let ?req = "\<lparr>mu_filename = ''x.pdf'', mu_size = 6, mu_content = ''%PDF-1'',
   mu_model_type = ''news'', mu_model_id = ''n'', mu_collection = [], mu_props = None\<rparr>"
  have d: "detectMimeType (media_demo ''a'') ''%PDF-1'' = Some ''application/pdf''"
    by (simp add: detectMimeType_def mdemo_detect MagicBytesLength_def)
  have st: "store_file (media_demo ''a'') (no_media (\<lambda>_. None)) ''news/n/fa.pdf'' ''%PDF-1'' = (Inr (), no_media mdemo_disk1)"
    by (simp add: store_file_def local_Store_def  no_media_def mdemo_disk1_def)
  have cr: "media_Create (media_demo ''a'') (no_media mdemo_disk1) (mdemo_row 1) = (Inr (mdemo_row 1), mdemo_db 1 [] mdemo_disk1)"
    by (simp add: media_Create_def no_media_def mdemo_row_ok tbl_count_def mdemo_db_def)
  have "Media_Upload (media_demo ''a'') (no_media (\<lambda>_. None)) ''u'' ?req = (Inr (mdemo_row 1), mdemo_db 1 [] mdemo_disk1)"
  proof -
    have p: "md_path (mdemo_row 1) = ''news/n/fa.pdf''" by (simp add: mdemo_row_def)
    have al: "isAllowedMimeType ''application/pdf''" by (simp add: isAllowedMimeType_def AllowedDocumentTypes_def)
    show ?thesis
      by (simp add: Media_Upload_def mdemo_names d BlockedExtensions_def MaxFileSize_def al mdemo_upload_row Let_def p st cr)
  qed
  then show ?thesis
    by (simp add: MH_Upload_def mdemo_form_def mdemo_ctx_def GetUserID_def checkModelPermission_def)
qed

definition mdemo_disk2 :: disk where "mdemo_disk2 = mdemo_disk1(''/m/a/v2/fb.pdf'' \<mapsto> ''%PDF-2'')"

lemma mdemo_db_fields [simp]:
  "ms_media (mdemo_db c vs fs) = [mdemo_row c]" "ms_versions (mdemo_db c vs fs) = vs" "ms_disk (mdemo_db c vs fs) = fs"
  "(mdemo_db c vs fs)\<lparr>ms_versions := vs'\<rparr> = mdemo_db c vs' fs" "(mdemo_db c vs fs)\<lparr>ms_disk := fs'\<rparr> = mdemo_db c vs fs'"
  "(mdemo_db c vs fs)\<lparr>ms_media := [mdemo_row c']\<rparr> = mdemo_db c' vs fs" "conversions_of (mdemo_db c vs fs) i = []"
  by (simp_all add: mdemo_db_def conversions_of_def)

lemma mdemo_row_fields [simp]:
  "md_id (mdemo_row c) = ''a''" "md_current (mdemo_row c) = c" "md_visible (mdemo_row c)" "md_path (mdemo_row c) = ''news/n/fa.pdf''"
  "md_mime (mdemo_row c) = ''application/pdf''" "(mdemo_row c)\<lparr>md_current := c'\<rparr> = mdemo_row c'" "md_deleted_at (mdemo_row c) = None"
  "md_uploaded_by (mdemo_row c) = ''u''" "md_original (mdemo_row c) = ''x.pdf''" "md_size (mdemo_row c) = 6"
  by (simp_all add: mdemo_row_def md_visible_def)

lemma mdemo_version_fields [simp]:
  "mv_id (mdemo_v1 i t) = i" "mv_media (mdemo_v1 i t) = ''a''" "mv_version (mdemo_v1 i t) = 1" "mv_path (mdemo_v1 i t) = ''news/n/fa.pdf''"
  "mv_checksum (mdemo_v1 i t) = ''2d31''" "mv_visible (mdemo_v1 i t) = (t = None)" "mv_deleted_at (mdemo_v1 i t) = t"
  "mv_id mdemo_v2 = ''b''" "mv_media mdemo_v2 = ''a''" "mv_version mdemo_v2 = 2" "mv_path mdemo_v2 = ''a/v2/fb.pdf''"
  "mv_checksum mdemo_v2 = ''2d32''" "mv_visible mdemo_v2" "mv_deleted_at mdemo_v2 = None"
  by (simp_all add: mdemo_v1_def mdemo_v2_def mv_visible_def)

lemma mdemo_find [simp]:
  "media_FindByID (media_demo n) (mdemo_db c vs fs) ''a'' = Inr (mdemo_row c)"
  "find_media (media_demo n) (mdemo_db c vs fs) ''a'' = Inr (mdemo_row c)"
  by (simp_all add: find_media_def media_FindByID_def tbl_first_Cons)

lemma mdemo_find_version [simp]:
  "find_version (media_demo n) (mdemo_db c [mdemo_v1 i None, mdemo_v2] fs) ''a'' 1 = Inr (mdemo_v1 i None)"
  by (simp add: find_version_def FindByMediaIDAndVersion_def tbl_first_Cons)

lemma mdemo_read: "upload_read (media_demo n) (mdemo_db 1 [] fs) ''a'' = Inr (mdemo_row 1, 0)"
  by (simp add: upload_read_def CountByMediaID_def tbl_count_def)

lemma mdemo_file_fields [simp]:
  "vu_filename mdemo_file = ''y.pdf''" "vu_size mdemo_file = 6" "vu_content mdemo_file = ''%PDF-2''" "vu_seekable mdemo_file"
  by (simp_all add: mdemo_file_def)

lemma mdemo_prepare: "upload_prepare (media_demo n) (mdemo_db 1 [] mdemo_disk1) (mdemo_row 1) 0 mdemo_file =
    (Inr (''application/pdf'', ''2d32''), mdemo_db 1 [mdemo_v1 (CHR ''v'' # n) None] mdemo_disk1)"
proof -
  have "computeExistingFileChecksum (media_demo n) (mdemo_db 1 [] mdemo_disk1) (mdemo_row 1) = ''2d31''"
    by (simp add: computeExistingFileChecksum_def get_file_def local_Get_def mdemo_disk1_def ComputeSHA256Checksum_def hex_encode_def hex_digit_def char_of_eq_iff)
  then have v1: "createRetroactiveV1 (media_demo n) (mdemo_db 1 [] mdemo_disk1) (mdemo_row 1) = (Inr (), mdemo_db 1 [mdemo_v1 (CHR ''v'' # n) None] mdemo_disk1)"
    using mdemo_row_ok(2)
    by (simp add: createRetroactiveV1_def Let_def version_Create_def tbl_count_def flip: mdemo_v1_def)
       (simp add: mdemo_v1_def mdemo_row_def)
  have sum: "ComputeSHA256Checksum (media_demo n) ''%PDF-2'' = ''2d32''"
    by (simp add: ComputeSHA256Checksum_def hex_encode_def hex_digit_def char_of_eq_iff)
  have "upload_inspect (media_demo n) (mdemo_db 1 [mdemo_v1 (CHR ''v'' # n) None] mdemo_disk1) (mdemo_row 1) mdemo_file = Inr (''application/pdf'', ''2d32'')"
    by (simp add: upload_inspect_def detectMimeType_def MagicBytesLength_def mdemo_detect isMimeTypeCompatible_def sum
        checkDuplicateChecksum_def FindByMediaIDAndVersion_def FindByChecksum_def tbl_first_Cons)
  then show ?thesis by (simp add: upload_prepare_def v1)
qed

lemma mdemo_create: "i \<noteq> ''b'' \<Longrightarrow> upload_create (media_demo ''b'') (mdemo_db 1 [mdemo_v1 i None] mdemo_disk1) ''u'' (mdemo_row 1) mdemo_file ''application/pdf'' ''2d32'' =
    (Inr mdemo_v2, mdemo_db 1 [mdemo_v1 i None, mdemo_v2] mdemo_disk2)"
proof -
  assume n: "i \<noteq> ''b''"
  have i: "itoa 2 = ''2''" by (simp add: itoa_def digits.simps decimal_digit_def char_of_eq_iff)
  have r: "version_row (media_demo ''b'') ''u'' (mdemo_row 1) mdemo_file ''application/pdf'' ''2d32'' = mdemo_v2"
    by (simp add: version_row_def mdemo_names version_file_path_def i mdemo_v2_def Let_def)
  have "store_file (media_demo ''b'') (mdemo_db 1 [mdemo_v1 i None] mdemo_disk1) ''a/v2/fb.pdf'' ''%PDF-2'' =
      (Inr (), mdemo_db 1 [mdemo_v1 i None] mdemo_disk2)"
    by (simp add: store_file_def local_Store_def mdemo_disk2_def)
  moreover have "version_Create (media_demo ''b'') (mdemo_db 1 [mdemo_v1 i None] mdemo_disk2) mdemo_v2 = (Inr (), mdemo_db 1 [mdemo_v1 i None, mdemo_v2] mdemo_disk2)"
    using mdemo_row_ok(3) n by (simp add: version_Create_def tbl_count_def)
  ultimately show ?thesis by (simp add: upload_create_def r)
qed

lemma mdemo_commit: "upload_commit (media_demo n) (mdemo_db 1 vs fs) ''u'' (mdemo_row 1) mdemo_v2 = (Inr mdemo_v2, mdemo_db 2 vs fs)"
  by (simp add: upload_commit_def UpdateCurrentVersion_def Let_def tbl_count_def tbl_update_def)

lemma mdemo_UploadVersion: "UploadVersion (media_demo ''b'') (mdemo_db 1 [] mdemo_disk1) ''u'' ''a'' mdemo_file =
    (Inr mdemo_v2, mdemo_db 2 [mdemo_v1 ''vb'' None, mdemo_v2] mdemo_disk2)"
  by (simp add: UploadVersion_def mdemo_read mdemo_prepare mdemo_create mdemo_commit)

lemma mdemo_restore: "RestoreVersion (media_demo n) (mdemo_db 2 [mdemo_v1 i None, mdemo_v2] fs) ''u'' ''a'' 1 =
    (Inr (mdemo_row 1), mdemo_db 1 [mdemo_v1 i None, mdemo_v2] fs)"
  by (simp add: RestoreVersion_def restore_read_def mv_IsDeleted_def restore_write_def UpdateCurrentVersion_def Let_def tbl_count_def tbl_update_def)

lemma mdemo_fresh:
  "fresh_env (media_demo ''a'') (no_media fs)" "fresh_env (media_demo ''b'') (mdemo_db c [] fs)"
  "fresh_env (media_demo ''p'') (mdemo_db c [] fs)" "fresh_env (media_demo ''b'') (mdemo_db c [mdemo_v1 ''vp'' None] fs)"
  "fresh_env (media_demo ''c'') (mdemo_db c [mdemo_v1 ''vp'' None, mdemo_v2] fs)" "fresh_env (media_demo ''c'') (mdemo_db c [mdemo_v1 ''vb'' None, mdemo_v2] fs)"
  by (simp_all add: fresh_env_def fresh_file_def no_media_def uuid_text_def names_file_def file_parts_def safe_parts_def has_prefix_def)

text \<open>The runs: a media is uploaded, then a version of it.\<close>

abbreviation mdemo_driver :: local_driver where "mdemo_driver \<equiv> \<lparr>ld_base = ''/m'', ld_url = []\<rparr>"

lemma mdemo_config [simp]: "media_config mdemo_driver (drop 4) (media_demo n)"
  by (simp add: media_config_def fun_eq_iff)

abbreviation mdemo_sys :: "int \<Rightarrow> media_version list \<Rightarrow> disk \<Rightarrow> media_task list \<Rightarrow> media_sys" where
  "mdemo_sys c vs fs ts \<equiv> \<lparr>my_db = mdemo_db c vs fs, my_tasks = ts\<rparr>"

lemma mdemo_step:
  assumes "media_reach mdemo_driver (drop 4) s" "fresh_env (media_demo n) (my_db s)" "media_step (media_demo n) op s = s'"
  shows "media_reach mdemo_driver (drop 4) s'"
  using media_reach.step [OF assms(1) mdemo_config [of n] assms(2), of op] assms(3) by simp

lemma mdemo_uploaded: "media_reach mdemo_driver (drop 4) (mdemo_sys 1 [] mdemo_disk1 [])"
proof (rule mdemo_step [OF media_reach.start])
  show "fresh_env (media_demo ''a'') (my_db (media_start (\<lambda>_. None)))" by (simp add: media_start_def mdemo_fresh)
  show "media_step (media_demo ''a'') (DoUpload mdemo_ctx ''news'' ''n'' (Some mdemo_form)) (media_start (\<lambda>_. None)) = mdemo_sys 1 [] mdemo_disk1 []"
    by (simp add: media_start_def mdemo_DoUpload)
qed

lemma mdemo_reading: "media_reach mdemo_driver (drop 4) (mdemo_sys 1 [] mdemo_disk1 [TUploadRead ''u'' (mdemo_row 1) 0 mdemo_file])"
  by (rule mdemo_step [OF mdemo_uploaded, of "''p''" "BeginUpload ''u'' ''a'' mdemo_file"]) (simp_all add: mdemo_fresh mdemo_read add_task_def)

lemma mdemo_prepared: "media_reach mdemo_driver (drop 4) (mdemo_sys 1 [mdemo_v1 ''vp'' None] mdemo_disk1
    [TUploadPrepared ''u'' (mdemo_row 1) mdemo_file ''application/pdf'' ''2d32''])"
  by (rule mdemo_step [OF mdemo_reading, of "''p''" "Continue 0"]) (simp_all add: mdemo_fresh mdemo_prepare drop_task_def)

lemma mdemo_created: "media_reach mdemo_driver (drop 4) (mdemo_sys 1 [mdemo_v1 ''vp'' None, mdemo_v2] mdemo_disk2
    [TUploadCreated ''u'' (mdemo_row 1) mdemo_v2])"
  by (rule mdemo_step [OF mdemo_prepared, of "''b''" "Continue 0"]) (simp_all add: mdemo_fresh mdemo_create drop_task_def)

lemma mdemo_committed: "media_reach mdemo_driver (drop 4) (mdemo_sys 2 [mdemo_v1 ''vp'' None, mdemo_v2] mdemo_disk2 [])"
  by (rule mdemo_step [OF mdemo_created, of "''c''" "Continue 0"]) (simp_all add: mdemo_fresh mdemo_commit drop_task_def)

lemma mdemo_serial: "media_serial mdemo_driver (drop 4) (mdemo_db 2 [mdemo_v1 ''vb'' None, mdemo_v2] mdemo_disk2)"
proof -
  have "media_serial mdemo_driver (drop 4) (mdemo_db 1 [] mdemo_disk1)"
    using media_serial.serve [OF media_serial.start mdemo_config, of "''a''" "\<lambda>_. None" "ReqMediaUpload mdemo_ctx ''news'' ''n'' (Some mdemo_form)"]
    by (simp add: mdemo_fresh mdemo_DoUpload)
  from media_serial.serve [OF this mdemo_config, of "''b''" "ReqUpload ''u'' ''a'' mdemo_file"] show ?thesis
    by (simp add: mdemo_fresh mdemo_UploadVersion)
qed

section \<open>Witnesses\<close>

lemma version_numbers_witness:
  "\<exists>n\<ge>0. set (numbers_of (mdemo_db 2 [mdemo_v1 ''vp'' None, mdemo_v2] mdemo_disk2) ''a'') = {1..n}
    \<and> distinct (numbers_of (mdemo_db 2 [mdemo_v1 ''vp'' None, mdemo_v2] mdemo_disk2) ''a'') \<and> 1 \<le> (2 :: int) \<and> 2 \<le> max 1 n"
  using version_numbers [OF mdemo_committed, of "mdemo_row 2"] by simp

lemma mdemo_download: "DownloadVersion (media_demo n) (mdemo_db 2 [mdemo_v1 ''vp'' None, mdemo_v2] mdemo_disk2) ''u'' ''a'' 2 =
    (Inr (''%PDF-2'', mdemo_v2), mdemo_db 2 [mdemo_v1 ''vp'' None, mdemo_v2] mdemo_disk2)"
  by (simp add: DownloadVersion_def find_version_def FindByMediaIDAndVersion_def tbl_first_Cons mv_IsDeleted_def
      get_file_def local_Get_def mdemo_disk2_def)

lemma downloaded_version_matches_witness:
  "mv_visible mdemo_v2 \<and> (mv_checksum mdemo_v2 = [] \<or> mv_checksum mdemo_v2 = hex_encode (drop 4 ''%PDF-2''))"
  using downloaded_version_matches [OF mdemo_committed mdemo_config [of "''d''"], of "''u''" "''a''" 2 "''%PDF-2''" mdemo_v2]
  by (simp add: mdemo_download)

lemma current_version_live_witness:
  "(\<exists>r\<in>set [mdemo_v1 ''vb'' None, mdemo_v2]. mv_media r = ''a'' \<and> mv_version r = 2 \<and> mv_visible r)"
  using current_version_live [OF mdemo_serial, of "mdemo_row 2"] by (simp add: numbers_of_def)

lemma upload_download_roundtrip_witness:
  "fst (DownloadVersion (media_demo ''d'') (mdemo_db 2 [mdemo_v1 ''vb'' None, mdemo_v2] mdemo_disk2) ''w'' ''a'' 2) = Inr (''%PDF-2'', mdemo_v2)"
  using upload_download_roundtrip [OF mdemo_UploadVersion, of "media_demo ''d''" "''w''"] by simp

lemma restore_blocks_uploads_witness:
  "\<exists>e s''. UploadVersion (media_demo ''d'') (mdemo_db 1 [mdemo_v1 ''vp'' None, mdemo_v2] mdemo_disk2) ''w'' ''a'' mdemo_file = (Inl e, s'')
     \<and> ms_media s'' = [mdemo_row 1]"
  using restore_blocks_uploads [OF mdemo_committed, where E = "media_demo ''d''" and u = "''u''" and i = "''a''" and v = 1
      and m = "mdemo_row 1" and s' = "mdemo_db 1 [mdemo_v1 ''vp'' None, mdemo_v2] mdemo_disk2" and newer = mdemo_v2
      and E' = "media_demo ''d''" and u' = "''w''" and f = mdemo_file]
  by (simp add: mdemo_restore)

text \<open>
  A deletion and a restoration of the same version that overlap: the current version is deleted, and its
  file is gone, for the plain download of the media as well.
\<close>

lemma overlap_deletes_current:
  "media_reach mdemo_driver (drop 4) (mdemo_sys 1 [mdemo_v1 ''vp'' (Some 0), mdemo_v2] (mdemo_disk2(''/m/news/n/fa.pdf'' := None)) [])"
proof -
  let ?db = "mdemo_db 2 [mdemo_v1 ''vp'' None, mdemo_v2] mdemo_disk2"
  let ?t = "TDelete ''u'' (mdemo_v1 ''vp'' None)"
  have "media_reach mdemo_driver (drop 4) (mdemo_sys 2 [mdemo_v1 ''vp'' None, mdemo_v2] mdemo_disk2 [?t])"
    by (rule mdemo_step [OF mdemo_committed, of "''c''" "BeginDelete ''u'' ''a'' 1"])
      (simp_all add: mdemo_fresh delete_read_def mv_IsDeleted_def add_task_def)
  then have "media_reach mdemo_driver (drop 4) (mdemo_sys 2 [mdemo_v1 ''vp'' None, mdemo_v2] mdemo_disk2 [?t, TRestore ''u'' (mdemo_row 2) (mdemo_v1 ''vp'' None) 1])"
    by (rule mdemo_step [of _ "''c''" "BeginRestore ''u'' ''a'' 1"])
      (simp_all add: mdemo_fresh restore_read_def mv_IsDeleted_def add_task_def)
  then have "media_reach mdemo_driver (drop 4) (mdemo_sys 1 [mdemo_v1 ''vp'' None, mdemo_v2] mdemo_disk2 [?t])"
    by (rule mdemo_step [of _ "''c''" "Continue 1"])
      (simp_all add: mdemo_fresh restore_write_def UpdateCurrentVersion_def Let_def tbl_count_def tbl_update_def drop_task_def)
  then show ?thesis
    by (rule mdemo_step [of _ "''c''" "Continue 0"])
      (simp_all add: mdemo_fresh delete_write_def version_SoftDelete_def Let_def tbl_count_def tbl_update_def drop_task_def
        delete_file_def local_Delete_def, simp add: mdemo_v1_def)
qed

definition mdemo_params :: download_params where
  "mdemo_params = \<lparr>dq_conversion = [], dq_sig = signBasic (\<lambda>k x. CHR ''x'' # k @ x) ''k'' ''a'' 3600, dq_expires = 3600\<rparr>"

lemma mdemo_can_serve: "can_serve (media_demo n) (mdemo_db 1 [] mdemo_disk1) ''a'' ''a'' (mdemo_row 1) ''%PDF-1''"
  by (simp add: can_serve_def get_file_def local_Get_def mdemo_disk1_def)

lemma mdemo_url: "MH_GetSignedURL (media_demo n) mdemo_ctx ''a'' (Some \<lparr>uq_conversion = [], uq_expires_in = 0\<rparr>) (mdemo_db 1 [] mdemo_disk1) =
    (200, Some (download_url ''a'' (download_query 3600 (dq_sig mdemo_params)), 3600000000000, 3600))"
  by (simp add: MH_GetSignedURL_def mdemo_ctx_def GetUserID_def url_query_valid_def Media_Get_def may_read_def media_isAdmin_def
      GetExpiresIn_def Media_GetSignedURL_def Generate_def MinExpiry_def MaxExpiry_def second_def Let_def mdemo_params_def unix_secs_def)

lemma mdemo_carries: "carries mdemo_params ''a'' (download_url ''a'' (download_query 3600 (dq_sig mdemo_params)))"
  by (simp add: carries_def mdemo_params_def int64_range_def)


lemma mdemo_served: "Route_Download (media_demo n) c ''a'' (Some mdemo_params) (mdemo_db 1 [] mdemo_disk1) =
    (200, Some \<lparr>da_mime = ''application/pdf'', da_filename = ''x.pdf'', da_size = 6, da_content = ''%PDF-1''\<rparr>)"
  by (simp add: Route_Download_def MH_Download_def Media_Get_def download_refused_def GetUserID_def mdemo_params_def
      ValidateSignedURL_def Validate_def unix_secs_def second_def get_file_def local_Get_def mdemo_disk1_def signBasic_def
      signer_hmac_def hex_encode_def)

lemma download_needs_signature_witness:
  "dq_sig mdemo_params = signBasic (\<lambda>k x. CHR ''x'' # k @ x) ''k'' ''a'' (dq_expires mdemo_params) \<and> 0 \<le> dq_expires mdemo_params"
  using download_needs_signature [OF mdemo_served [of "''d''" mdemo_ctx]] by (simp add: unix_secs_def)

end
