(* ===== verification/Ws_Message.thy ===== *)
theory Ws_Message
  imports Json_Decode
begin

text \<open>
  Messages, rooms and configuration of the WebSocket part (\<open>domain/websocket.go\<close>,
  \<open>domain/websocket_events.go\<close>, \<open>config/websocket.go\<close>), and the decoding of what a client sends.
  \<open>uuid.Parse\<close> is code of a library: a parameter \<open>parse\<close>, \<open>None\<close> when it fails.
\<close>

section \<open>Messages (domain/websocket.go)\<close>

definition WsTypeRoomJoin :: string where "WsTypeRoomJoin = ''ws.room.join''"
definition WsTypeRoomLeave :: string where "WsTypeRoomLeave = ''ws.room.leave''"
definition WsTypeTyping :: string where "WsTypeTyping = ''ws.typing''"
definition WsTypeHeartbeat :: string where "WsTypeHeartbeat = ''ws.heartbeat''"
definition WsTypeConnected :: string where "WsTypeConnected = ''ws.connected''"
definition WsTypeRoomJoined :: string where "WsTypeRoomJoined = ''ws.room.joined''"
definition WsTypeRoomLeft :: string where "WsTypeRoomLeft = ''ws.room.left''"
definition WsTypeEvent :: string where "WsTypeEvent = ''ws.event''"
definition WsTypeError :: string where "WsTypeError = ''ws.error''"
definition WsTypeServerShutdown :: string where "WsTypeServerShutdown = ''ws.server.shutdown''"

lemmas ws_types = WsTypeRoomJoin_def WsTypeRoomLeave_def WsTypeTyping_def WsTypeHeartbeat_def
  WsTypeConnected_def WsTypeRoomJoined_def WsTypeRoomLeft_def WsTypeEvent_def WsTypeError_def
  WsTypeServerShutdown_def

text \<open>The envelope; its data is the JSON value that the marshaller makes of the Go value.\<close>

record ws_message =
  wm_type :: string
  wm_data :: json
  wm_time :: instant
  wm_room :: string

definition WsConnectedData :: "uuid \<Rightarrow> string list \<Rightarrow> json" where
  "WsConnectedData userID rooms = JObj [(''user_id'', JStr userID), (''rooms'', JArr (map JStr rooms))]"

definition WsRoomData :: "string \<Rightarrow> json" where
  "WsRoomData room = JObj [(''room'', JStr room)]"

definition WsErrorData :: "string \<Rightarrow> string \<Rightarrow> json" where
  "WsErrorData code msg = JObj [(''code'', JStr code), (''message'', JStr msg)]"

definition WsEventData :: "string \<Rightarrow> json \<Rightarrow> string \<Rightarrow> json" where
  "WsEventData event payload room =
     JObj [(''event'', JStr event), (''payload'', payload), (''room'', JStr room)]"

text \<open>The two entity fields are left out when they are empty.\<close>

definition WsTypingData :: "uuid \<Rightarrow> string \<Rightarrow> string \<Rightarrow> string \<Rightarrow> json" where
  "WsTypingData userID room entityType entityID =
     JObj ([(''user_id'', JStr userID), (''room'', JStr room)] @
       (if entityType = [] then [] else [(''entity_type'', JStr entityType)]) @
       (if entityID = [] then [] else [(''entity_id'', JStr entityID)]))"

section \<open>Rooms\<close>

definition RoomOrgPrefix :: string where "RoomOrgPrefix = ''org''"

definition ValidEntityTypes :: "string list" where
  "ValidEntityTypes = [''invoice'', ''news'', ''media'', ''comment'']"

definition IsValidRoomName :: "(string \<Rightarrow> uuid option) \<Rightarrow> string \<Rightarrow> bool" where
  "IsValidRoomName parse room =
     (let parts = str_split CHR '':'' room
      in if length parts = 2 \<and> parts ! 0 = RoomOrgPrefix then parse (parts ! 1) \<noteq> None
         else if length parts = 4 \<and> parts ! 0 = RoomOrgPrefix
         then parse (parts ! 1) \<noteq> None \<and> parts ! 2 \<in> set ValidEntityTypes \<and> parse (parts ! 3) \<noteq> None
         else False)"

definition ExtractOrgID :: "(string \<Rightarrow> uuid option) \<Rightarrow> string \<Rightarrow> uuid" where
  "ExtractOrgID parse room =
     (let parts = str_split CHR '':'' room
      in if length parts \<ge> 2 \<and> parts ! 0 = RoomOrgPrefix
         then (case parse (parts ! 1) of Some orgID \<Rightarrow> orgID | None \<Rightarrow> uuid_nil)
         else uuid_nil)"

section \<open>Events to rooms (domain/websocket_events.go)\<close>

text \<open>
  An event of the bus: its type, the payload as JSON, what \<open>GetID\<close> of the payload returns when it
  has that method, and the organization.
\<close>

record bus_event =
  be_type :: string
  be_payload :: json
  be_get_id :: "uuid option"
  be_org :: "uuid option"

definition org_room :: "uuid \<Rightarrow> string" where
  "org_room org = RoomOrgPrefix @ '':'' @ org"

definition entityRoomForEvent :: "bus_event \<Rightarrow> string" where
  "entityRoomForEvent event =
     (case be_org event of
        None \<Rightarrow> []
      | Some org \<Rightarrow>
          if be_type event = ''invoice.created'' \<or> be_type event = ''invoice.paid''
          then (case be_get_id event of
                  Some i \<Rightarrow> org_room org @ '':'' @ ''invoice'' @ '':'' @ i
                | None \<Rightarrow> [])
          else if be_type event = ''news.published'' \<or> be_type event = ''news.deleted''
          then (case be_get_id event of
                  Some i \<Rightarrow> org_room org @ '':'' @ ''news'' @ '':'' @ i
                | None \<Rightarrow> [])
          else [])"

definition RoomsForEvent :: "bus_event \<Rightarrow> string list" where
  "RoomsForEvent event =
     (case be_org event of
        None \<Rightarrow> []
      | Some org \<Rightarrow>
          if org = uuid_nil then []
          else org_room org # (if entityRoomForEvent event \<noteq> [] then [entityRoomForEvent event] else []))"

text \<open>The message of an event for one of its rooms; the room inside the data stays empty.\<close>

definition event_message :: "instant \<Rightarrow> bus_event \<Rightarrow> string \<Rightarrow> ws_message" where
  "event_message now event room =
     \<lparr>wm_type = WsTypeEvent, wm_data = WsEventData (be_type event) (be_payload event) [],
      wm_time = now, wm_room = room\<rparr>"

section \<open>Configuration (config/websocket.go)\<close>

record ws_config =
  wg_enabled :: bool
  wg_max_message_size :: int
  wg_max_rooms :: int
  wg_presence_ttl :: duration
  wg_send_buffer :: int

definition DefaultWsConfig :: ws_config where
  "DefaultWsConfig = \<lparr>wg_enabled = True, wg_max_message_size = 65536, wg_max_rooms = 50,
     wg_presence_ttl = 70 * second, wg_send_buffer = 256\<rparr>"

section \<open>Decoding\<close>

text \<open>
  The envelope of a client's message: what is not JSON or does not fit the type is an error.
  \<open>time_ok\<close> says which texts \<open>time.Time\<close> accepts.
\<close>

definition decode_envelope :: "(string \<Rightarrow> bool) \<Rightarrow> json option \<Rightarrow> (string \<times> json) option" where
  "decode_envelope time_ok wire =
     (case wire of
        None \<Rightarrow> None
      | Some JNull \<Rightarrow> Some ([], JNull)
      | Some (JObj entries) \<Rightarrow>
          (case (string_field ''type'' entries, string_field ''room'' entries) of
             (Some t, Some room) \<Rightarrow>
               if list_all (\<lambda>(key, v). to_lower key = ''timestamp'' \<longrightarrow>
                    (case v of JNull \<Rightarrow> True | JStr ts \<Rightarrow> time_ok ts | _ \<Rightarrow> False)) entries
               then Some (t, any_field ''data'' entries)
               else None
           | _ \<Rightarrow> None)
      | Some _ \<Rightarrow> None)"

text \<open>The data has been a value of type \<open>any\<close>, so that its keys are in order when it is decoded again.\<close>

definition decode_room :: "json \<Rightarrow> string option" where
  "decode_room data =
     (case data of
        JNull \<Rightarrow> Some []
      | JObj entries \<Rightarrow> string_field ''room'' (go_map entries)
      | _ \<Rightarrow> None)"

definition decode_typing :: "json \<Rightarrow> (string \<times> string \<times> string) option" where
  "decode_typing data =
     (case data of
        JNull \<Rightarrow> Some ([], [], [])
      | JObj entries \<Rightarrow>
          (case (string_field ''room'' (go_map entries), string_field ''entity_type'' (go_map entries),
                 string_field ''entity_id'' (go_map entries)) of
             (Some r, Some t, Some i) \<Rightarrow> Some (r, t, i)
           | _ \<Rightarrow> None)
      | _ \<Rightarrow> None)"

section \<open>Rooms of an event are valid\<close>

definition parses_uuids :: "(string \<Rightarrow> uuid option) \<Rightarrow> bool" where
  "parses_uuids parse \<longleftrightarrow> (\<forall>s u. parse s = Some u \<longrightarrow> parse u = Some u \<and> CHR '':'' \<notin> set u)"

lemma str_split_org: "CHR '':'' \<notin> set org \<Longrightarrow> str_split CHR '':'' (org_room org) = [''org'', org]"
  using str_split_append [of "CHR '':''" "''org''" org]
  by (simp add: org_room_def RoomOrgPrefix_def str_split_no_sep)

lemma str_split_org_append:
  "CHR '':'' \<notin> set org \<Longrightarrow> str_split CHR '':'' (org_room org @ '':'' @ t) = ''org'' # org # str_split CHR '':'' t"
  using str_split_append [of "CHR '':''" "''org''" "org @ '':'' @ t"] str_split_append [of "CHR '':''" org t]
  by (simp add: org_room_def RoomOrgPrefix_def)

lemma org_room_valid:
  assumes "parse s = Some org" and "parses_uuids parse"
  shows "IsValidRoomName parse (org_room org)" and "ExtractOrgID parse (org_room org) = org"
proof -
  have "CHR '':'' \<notin> set org" "parse org = Some org" using assms unfolding parses_uuids_def by blast+
  then show "IsValidRoomName parse (org_room org)" "ExtractOrgID parse (org_room org) = org"
    by (simp_all add: IsValidRoomName_def ExtractOrgID_def str_split_org RoomOrgPrefix_def)
qed

lemma entityRoomForEvent_cases:
  assumes "entityRoomForEvent event \<noteq> []" and "be_org event = Some org"
  obtains kind i where "be_get_id event = Some i" "kind = ''invoice'' \<or> kind = ''news''"
    "entityRoomForEvent event = org_room org @ '':'' @ kind @ '':'' @ i"
proof (cases "be_get_id event")
  case None
  then show ?thesis using assms by (simp add: entityRoomForEvent_def split: if_splits)
next
  case (Some i)
  with assms have "entityRoomForEvent event = org_room org @ '':'' @ ''invoice'' @ '':'' @ i \<or>
      entityRoomForEvent event = org_room org @ '':'' @ ''news'' @ '':'' @ i"
    unfolding entityRoomForEvent_def by (simp only: option.case split: if_splits) simp_all
  with Some show ?thesis using that by blast
qed

text \<open>
  An event of an organization goes to rooms of that organization only, and each of them is a room
  that a client can name.
\<close>

lemma rooms_of_event:
  assumes room: "room \<in> set (RoomsForEvent event)"
    and org: "be_org event = Some org" "parse s = Some org" "parses_uuids parse"
    and ident: "\<And>i. be_get_id event = Some i \<Longrightarrow> \<exists>t. parse t = Some i"
  shows "IsValidRoomName parse room \<and> ExtractOrgID parse room = org"
proof -
  have plain: "CHR '':'' \<notin> set org" "parse org = Some org" using org unfolding parses_uuids_def by blast+
  have sub: "IsValidRoomName parse (org_room org @ '':'' @ kind @ '':'' @ i) \<and>
      ExtractOrgID parse (org_room org @ '':'' @ kind @ '':'' @ i) = org"
    if g: "be_get_id event = Some i" "kind = ''invoice'' \<or> kind = ''news''" for kind i
  proof -
    obtain t where "parse t = Some i" using ident [OF g(1)] by blast
    then have i: "CHR '':'' \<notin> set i" "parse i = Some i" using org(3) unfolding parses_uuids_def by blast+
    have "str_split CHR '':'' (kind @ '':'' @ i) = [kind, i]"
      using g(2) str_split_append [of "CHR '':''" kind i] i(1) by (auto simp: str_split_no_sep)
    then have "str_split CHR '':'' (org_room org @ '':'' @ kind @ '':'' @ i) = [''org'', org, kind, i]"
      using str_split_org_append [OF plain(1), of "kind @ '':'' @ i"] by simp
    then show ?thesis
      using plain(2) i(2) g(2) unfolding IsValidRoomName_def ExtractOrgID_def RoomOrgPrefix_def ValidEntityTypes_def
      by (auto simp: Let_def)
  qed
  have "room = org_room org \<or> (\<exists>kind i. be_get_id event = Some i \<and> (kind = ''invoice'' \<or> kind = ''news'') \<and>
      room = org_room org @ '':'' @ kind @ '':'' @ i)"
  proof (cases "room = org_room org")
    case False
    then have e: "entityRoomForEvent event \<noteq> []" "room = entityRoomForEvent event"
      using room org(1) by (auto simp: RoomsForEvent_def split: if_splits)
    then show ?thesis using entityRoomForEvent_cases [OF e(1) org(1)] by metis
  qed simp
  then show ?thesis using org_room_valid [OF org(2,3)] sub by blast
qed

end
