(* ===== verification/Ws_Hub.thy ===== *)
theory Ws_Hub
  imports Ws_Message Decimal "HOL-Library.AList"
begin

text \<open>
  The WebSocket hub of one instance of the server: the hub (\<open>service/websocket_hub.go\<close>), the clients
  (\<open>service/websocket_client.go\<close>), presence in Redis (\<open>service/websocket_presence.go\<close>) and the relay
  between instances over Redis channels (\<open>service/websocket_redis.go\<close>).

  Many goroutines share this state. A goroutine is the list of the operations that it has left to
  do; an operation is what the code does under one lock or with one command to Redis, so that the
  system may switch to another goroutine between any two of them. A method is the operation that it
  begins with and the operations that it leaves. A \<open>*Client\<close> is the identifier that
  \<open>uuid.New\<close> gave to it, its fields are in a heap.
\<close>

section \<open>State\<close>

record ws_client =
  wc_user :: uuid
  wc_org :: uuid
  wc_rooms :: "string list"
  wc_send :: "ws_message list"
  wc_closed :: bool

datatype goroutine = Reader uuid | RunLoop | Receiver | BusLoop

datatype ws_op =
    OpSend uuid ws_message
  | OpSubscribe string
  | OpSubCall nat string
  | OpUnsubscribe string
  | OpUnsubCall nat string
  | OpSync
  | OpSyncCall nat "string list"
  | OpEnqueue string ws_message
  | OpPublish string ws_message
  | OpIncr uuid uuid
  | OpDecr uuid uuid
  | OpExpire uuid uuid
  | OpDel uuid uuid
  | OpSAdd uuid uuid
  | OpSRem uuid uuid
  | OpPresence uuid uuid bool

datatype conn_phase = Unborn | Reading | ReadDone | Gone

record ws_state =
  ws_heap :: "uuid \<Rightarrow> ws_client option"
  hub_clients :: "uuid list"
  hub_rooms :: "string \<Rightarrow> uuid list option"
  hub_register :: "uuid list"
  hub_unregister :: "uuid list"
  hub_broadcast :: "(string \<times> ws_message) list"
  hub_cancelled :: bool
  hub_returned :: bool
  pub_count :: "(string \<times> int) list"            \<comment> \<open>\<open>subscriptions\<close>\<close>
  pub_sub :: "nat option"                       \<comment> \<open>\<open>s.sub\<close>, the number of the connection\<close>
  pub_live :: bool
  pub_channels :: "string list"                 \<comment> \<open>what Redis sends to that connection\<close>
  pub_inbox :: "(string \<times> ws_message option) list"  \<comment> \<open>\<open>None\<close>: a payload that does not decode\<close>
  pre_count :: "string \<Rightarrow> (int \<times> instant option) option"
  pre_online :: "string \<Rightarrow> string list"
  pre_events :: "(string \<times> uuid \<times> bool) list"
  ws_todo :: "goroutine \<Rightarrow> ws_op list"
  ws_phase :: "uuid \<Rightarrow> conn_phase"
  ws_writing :: "uuid \<Rightarrow> bool"
  ws_panicked :: bool

record ws_setup = ws_config +
  wx_parse :: "string \<Rightarrow> uuid option"
  wx_time_ok :: "string \<Rightarrow> bool"

definition hub_channel_size :: nat where "hub_channel_size = 256"

definition ws_init :: ws_state where
  "ws_init = \<lparr>ws_heap = (\<lambda>_. None), hub_clients = [], hub_rooms = (\<lambda>_. None), hub_register = [],
     hub_unregister = [], hub_broadcast = [], hub_cancelled = False, hub_returned = False,
     pub_count = [], pub_sub = None, pub_live = False, pub_channels = [], pub_inbox = [],
     pre_count = (\<lambda>_. None), pre_online = (\<lambda>_. []), pre_events = [], ws_todo = (\<lambda>_. []),
     ws_phase = (\<lambda>_. Unborn), ws_writing = (\<lambda>_. False), ws_panicked = False\<rparr>"

section \<open>Clients\<close>

definition NewClient :: "uuid \<Rightarrow> uuid \<Rightarrow> ws_client" where
  "NewClient user org = \<lparr>wc_user = user, wc_org = org, wc_rooms = [], wc_send = [], wc_closed = False\<rparr>"

definition RoomCount :: "ws_client \<Rightarrow> int" where
  "RoomCount c = int (length (wc_rooms c))"

definition AddRoom :: "string \<Rightarrow> ws_client \<Rightarrow> ws_client" where
  "AddRoom room c = (if room \<in> set (wc_rooms c) then c else c\<lparr>wc_rooms := wc_rooms c @ [room]\<rparr>)"

definition RemoveRoom :: "string \<Rightarrow> ws_client \<Rightarrow> ws_client" where
  "RemoveRoom room c =
     (if room \<notin> set (wc_rooms c) then c else c\<lparr>wc_rooms := filter (\<lambda>r. r \<noteq> room) (wc_rooms c)\<rparr>)"

definition upd_client :: "uuid \<Rightarrow> (ws_client \<Rightarrow> ws_client) \<Rightarrow> ws_state \<Rightarrow> ws_state" where
  "upd_client i f s = s\<lparr>ws_heap := (ws_heap s)(i := map_option f (ws_heap s i))\<rparr>"

text \<open>
  A send inside \<open>select\<close> with a \<open>default\<close>: dropped when the buffer is full, a panic when the channel
  has been closed. The buffer is taken to hold at least one message.
\<close>

definition chan_send :: "'a ws_config_scheme \<Rightarrow> uuid \<Rightarrow> ws_message \<Rightarrow> ws_state \<Rightarrow> ws_state" where
  "chan_send C i msg s =
     (case ws_heap s i of
        None \<Rightarrow> s
      | Some c \<Rightarrow>
          if wc_closed c then s\<lparr>ws_panicked := True\<rparr>
          else if length (wc_send c) < nat (wg_send_buffer C)
          then upd_client i (\<lambda>c. c\<lparr>wc_send := wc_send c @ [msg]\<rparr>) s
          else s)"

definition chan_close :: "uuid \<Rightarrow> ws_state \<Rightarrow> ws_state" where
  "chan_close i s =
     (case ws_heap s i of
        None \<Rightarrow> s
      | Some c \<Rightarrow> if wc_closed c then s\<lparr>ws_panicked := True\<rparr> else upd_client i (wc_closed_update (\<lambda>_. True)) s)"

text \<open>\<open>sendMessage\<close>.\<close>

definition sendMessage :: "instant \<Rightarrow> uuid \<Rightarrow> string \<Rightarrow> json \<Rightarrow> string \<Rightarrow> ws_op list" where
  "sendMessage now i t data room = [OpSend i \<lparr>wm_type = t, wm_data = data, wm_time = now, wm_room = room\<rparr>]"

section \<open>Presence (service/websocket_presence.go)\<close>

definition connKey :: "uuid \<Rightarrow> uuid \<Rightarrow> string" where
  "connKey org user = ''ws:conn:'' @ org @ '':'' @ user"

definition presenceKey :: "uuid \<Rightarrow> string" where
  "presenceKey org = ''ws:presence:'' @ org"

text \<open>The value of a counter in Redis; a key whose time has come is gone.\<close>

definition conn_value :: "instant \<Rightarrow> ws_state \<Rightarrow> string \<Rightarrow> (int \<times> instant option) option" where
  "conn_value now s key =
     (case pre_count s key of
        Some (n, Some until) \<Rightarrow> if until \<le> now then None else Some (n, Some until)
      | v \<Rightarrow> v)"

definition redis_incr_by :: "instant \<Rightarrow> string \<Rightarrow> int \<Rightarrow> ws_state \<Rightarrow> int \<times> ws_state" where
  "redis_incr_by now key d s =
     (let (n, until) = (case conn_value now s key of None \<Rightarrow> (0, None) | Some v \<Rightarrow> v)
      in (n + d, s\<lparr>pre_count := (pre_count s)(key \<mapsto> (n + d, until))\<rparr>))"

definition redis_expire :: "instant \<Rightarrow> string \<Rightarrow> duration \<Rightarrow> ws_state \<Rightarrow> ws_state" where
  "redis_expire now key ttl s =
     (case conn_value now s key of
        None \<Rightarrow> s
      | Some (n, _) \<Rightarrow>
          s\<lparr>pre_count := (pre_count s)(key := if ttl \<le> 0 then None else Some (n, Some (now + ttl)))\<rparr>)"

text \<open>The methods begin with one command; what they do next depends on its result.\<close>

definition MarkOnline :: "uuid \<Rightarrow> uuid \<Rightarrow> ws_op list" where
  "MarkOnline org user = [OpIncr org user]"

definition MarkOffline :: "uuid \<Rightarrow> uuid \<Rightarrow> ws_op list" where
  "MarkOffline org user = [OpDecr org user]"

definition RefreshHeartbeat :: "uuid \<Rightarrow> uuid \<Rightarrow> ws_op list" where
  "RefreshHeartbeat org user = [OpExpire org user]"

definition MarkOnline_incr :: "instant \<Rightarrow> bool \<Rightarrow> uuid \<Rightarrow> uuid \<Rightarrow> ws_state \<Rightarrow> ws_state \<times> ws_op list" where
  "MarkOnline_incr now fault org user s =
     (if fault then (s, [])
      else let (result, s1) = redis_incr_by now (connKey org user) 1 s
           in (s1, OpExpire org user #
                 (if result = 1 then [OpSAdd org user, OpPresence org user True] else [])))"

definition MarkOffline_decr :: "instant \<Rightarrow> bool \<Rightarrow> uuid \<Rightarrow> uuid \<Rightarrow> ws_state \<Rightarrow> ws_state \<times> ws_op list" where
  "MarkOffline_decr now fault org user s =
     (if fault then (s, [])
      else let (result, s1) = redis_incr_by now (connKey org user) (- 1) s
           in (s1, if result \<le> 0 then [OpDel org user, OpSRem org user, OpPresence org user False] else []))"

definition IsOnline :: "bool \<Rightarrow> ws_state \<Rightarrow> uuid \<Rightarrow> uuid \<Rightarrow> bool" where
  "IsOnline fault s org user = (if fault then False else user \<in> set (pre_online s (presenceKey org)))"

definition GetOnlineUsers :: "(string \<Rightarrow> uuid option) \<Rightarrow> bool \<Rightarrow> ws_state \<Rightarrow> uuid \<Rightarrow> uuid list" where
  "GetOnlineUsers parse fault s org =
     (if fault then [] else List.map_filter parse (pre_online s (presenceKey org)))"

definition GetOnlineCount :: "bool \<Rightarrow> ws_state \<Rightarrow> uuid \<Rightarrow> nat" where
  "GetOnlineCount fault s org = (if fault then 0 else length (pre_online s (presenceKey org)))"

section \<open>The relay (service/websocket_redis.go)\<close>

definition wsRedisChannelPrefix :: string where
  "wsRedisChannelPrefix = ''ws:msg:''"

definition Subscribe :: "string \<Rightarrow> ws_state \<Rightarrow> ws_state \<times> ws_op list" where
  "Subscribe room s =
     (let n = (case map_of (pub_count s) room of None \<Rightarrow> 0 | Some n \<Rightarrow> n) + 1;
          s1 = s\<lparr>pub_count := AList.update room n (pub_count s)\<rparr>
      in (s1, if n > 1 then [] else case pub_sub s of None \<Rightarrow> [] | Some k \<Rightarrow> [OpSubCall k room]))"

definition Unsubscribe :: "string \<Rightarrow> ws_state \<Rightarrow> ws_state \<times> ws_op list" where
  "Unsubscribe room s =
     (case map_of (pub_count s) room of
        None \<Rightarrow> (s, [])
      | Some n0 \<Rightarrow>
          let n = n0 - 1;
              s1 = s\<lparr>pub_count := if n \<le> 0 then AList.delete room (pub_count s)
                                    else AList.update room n (pub_count s)\<rparr>
          in (s1, if n > 0 then [] else case pub_sub s of None \<Rightarrow> [] | Some k \<Rightarrow> [OpUnsubCall k room]))"

text \<open>\<open>Publish\<close>: Redis hands the message to this connection if it is subscribed to the channel.\<close>

definition Redis_Publish :: "bool \<Rightarrow> string \<Rightarrow> ws_message option \<Rightarrow> ws_state \<Rightarrow> ws_state" where
  "Redis_Publish fault channel msg s =
     (if \<not> fault \<and> pub_live s \<and> channel \<in> set (pub_channels s)
      then s\<lparr>pub_inbox := pub_inbox s @ [(channel, msg)]\<rparr> else s)"

definition TrimPrefix :: "string \<Rightarrow> string \<Rightarrow> string" where
  "TrimPrefix s p = (if has_prefix s p then drop (length p) s else s)"

text \<open>\<open>nextBackoff\<close>; \<open>r\<close> is what \<open>rand.Int63n\<close> gives below twice the jitter.\<close>

definition wsReconnectMaxDelay :: duration where "wsReconnectMaxDelay = 30 * second"
definition wsReconnectJitter :: duration where "wsReconnectJitter = second div 2"

definition nextBackoff :: "duration \<Rightarrow> duration \<Rightarrow> duration" where
  "nextBackoff r d =
     (let next = min (d * 2) wsReconnectMaxDelay;
          result = next + (r - wsReconnectJitter)
      in if result < 0 then next else result)"

section \<open>The hub (service/websocket_hub.go)\<close>

definition Hub_Register :: "uuid \<Rightarrow> ws_state \<Rightarrow> ws_state" where
  "Hub_Register i s =
     (if length (hub_register s) < hub_channel_size then s\<lparr>hub_register := hub_register s @ [i]\<rparr> else s)"

definition Hub_Unregister :: "uuid \<Rightarrow> ws_state \<Rightarrow> ws_state" where
  "Hub_Unregister i s =
     (if length (hub_unregister s) < hub_channel_size
      then s\<lparr>hub_unregister := hub_unregister s @ [i]\<rparr> else s)"

text \<open>The clients of a room, none when the map has no entry.\<close>

definition room_clients :: "ws_state \<Rightarrow> string \<Rightarrow> uuid list" where
  "room_clients s room = (case hub_rooms s room of None \<Rightarrow> [] | Some is \<Rightarrow> is)"

text \<open>\<open>delete(clients, client)\<close>, and the room when it is empty then; with whether that was so.\<close>

definition leave_room :: "uuid \<Rightarrow> string \<Rightarrow> ws_state \<Rightarrow> bool \<times> ws_state" where
  "leave_room i room s =
     (case hub_rooms s room of
        None \<Rightarrow> (False, s)
      | Some is \<Rightarrow>
          let rest = filter (\<lambda>j. j \<noteq> i) is
          in (rest = [], s\<lparr>hub_rooms := (hub_rooms s)(room := if rest = [] then None else Some rest)\<rparr>))"

fun leave_all :: "uuid \<Rightarrow> string list \<Rightarrow> ws_state \<Rightarrow> string list \<times> ws_state" where
  "leave_all i [] s = ([], s)"
| "leave_all i (room # rooms) s =
     (let (emptied, s1) = leave_room i room s;
          (unsub, s2) = leave_all i rooms s1
      in (if emptied then room # unsub else unsub, s2))"

definition JoinRoom ::
    "'a ws_setup_scheme \<Rightarrow> instant \<Rightarrow> uuid \<Rightarrow> ws_client \<Rightarrow> string \<Rightarrow> ws_state \<Rightarrow> unit result \<times> ws_state \<times> ws_op list" where
  "JoinRoom C now i c room s =
     (if \<not> IsValidRoomName (wx_parse C) room
      then (Inl (NewAppError ''BAD_REQUEST'' (''invalid room name: '' @ room) 400), s, [])
      else if ExtractOrgID (wx_parse C) room \<noteq> uuid_nil \<and> ExtractOrgID (wx_parse C) room \<noteq> wc_org c
      then (Inl (NewAppError ''FORBIDDEN'' ''cannot join room of another organization'' 403), s, [])
      else if RoomCount c \<ge> wg_max_rooms C
      then (Inl (NewAppError ''ROOM_LIMIT'' (''maximum rooms per client ('' @ itoa (wg_max_rooms C) @ '') exceeded'') 400), s, [])
      else let members = room_clients s room;
               s1 = s\<lparr>hub_rooms := (hub_rooms s)(room \<mapsto> (if i \<in> set members then members else members @ [i]))\<rparr>;
               s2 = upd_client i (AddRoom room) s1
           in (Inr (), s2, OpSubscribe room # sendMessage now i WsTypeRoomJoined (WsRoomData room) room))"

definition LeaveRoom :: "instant \<Rightarrow> uuid \<Rightarrow> string \<Rightarrow> ws_state \<Rightarrow> ws_state \<times> ws_op list" where
  "LeaveRoom now i room s =
     (let (shouldUnsubscribe, s1) = leave_room i room s;
          s2 = upd_client i (RemoveRoom room) s1
      in (s2, (if shouldUnsubscribe then [OpUnsubscribe room] else []) @
              sendMessage now i WsTypeRoomLeft (WsRoomData room) room))"

definition PublishToRoom :: "string \<Rightarrow> ws_message \<Rightarrow> ws_op list" where
  "PublishToRoom room msg = [OpEnqueue room msg, OpPublish (wsRedisChannelPrefix @ room) msg]"

definition broadcast_enqueue :: "string \<Rightarrow> ws_message \<Rightarrow> ws_state \<Rightarrow> ws_state" where
  "broadcast_enqueue room msg s =
     (if length (hub_broadcast s) < hub_channel_size
      then s\<lparr>hub_broadcast := hub_broadcast s @ [(room, msg)]\<rparr> else s)"

text \<open>A loop over a Go map has no order, but each client has a channel of its own.\<close>

definition BroadcastToRoom :: "'a ws_config_scheme \<Rightarrow> string \<Rightarrow> ws_message \<Rightarrow> ws_state \<Rightarrow> ws_state" where
  "BroadcastToRoom C room msg s = fold (\<lambda>i. chan_send C i msg) (room_clients s room) s"

definition GetRoomClients :: "ws_state \<Rightarrow> string \<Rightarrow> nat" where
  "GetRoomClients s room = length (room_clients s room)"

definition GetTotalConnections :: "ws_state \<Rightarrow> nat" where
  "GetTotalConnections s = length (hub_clients s)"

text \<open>The cases of the loop in \<open>Run\<close>.\<close>

definition Run_register :: "instant \<Rightarrow> uuid \<Rightarrow> ws_state \<Rightarrow> ws_state \<times> ws_op list" where
  "Run_register now i s =
     (case ws_heap s i of
        None \<Rightarrow> (s, [])
      | Some c \<Rightarrow>
          (s\<lparr>hub_clients := List.insert i (hub_clients s)\<rparr>,
           sendMessage now i WsTypeConnected (WsConnectedData (wc_user c) (wc_rooms c)) [] @
           MarkOnline (wc_org c) (wc_user c)))"

definition Run_unregister :: "uuid \<Rightarrow> ws_state \<Rightarrow> ws_state \<times> ws_op list" where
  "Run_unregister i s =
     (case ws_heap s i of
        None \<Rightarrow> (s, [])
      | Some c \<Rightarrow>
          let (roomsToUnsubscribe, s1) =
                (if i \<in> set (hub_clients s)
                 then let (unsub, s0) = leave_all i (wc_rooms c) s
                      in (unsub, chan_close i (s0\<lparr>hub_clients := filter (\<lambda>j. j \<noteq> i) (hub_clients s0)\<rparr>))
                 else ([], s))
          in (s1, map OpUnsubscribe roomsToUnsubscribe @ MarkOffline (wc_org c) (wc_user c)))"

text \<open>\<open>Stop\<close>: a last message to every client, then the context is cancelled.\<close>

definition shutdown_message :: "instant \<Rightarrow> ws_message" where
  "shutdown_message now = \<lparr>wm_type = WsTypeServerShutdown,
     wm_data = WsErrorData ''SERVER_SHUTDOWN'' ''server is shutting down'', wm_time = now, wm_room = []\<rparr>"

definition Hub_Stop :: "'a ws_config_scheme \<Rightarrow> instant \<Rightarrow> ws_state \<Rightarrow> ws_state" where
  "Hub_Stop C now s =
     (fold (\<lambda>i. chan_send C i (shutdown_message now)) (hub_clients s) s)\<lparr>hub_cancelled := True\<rparr>"

section \<open>What a client sends (service/websocket_client.go)\<close>

definition handleJoin ::
    "'a ws_setup_scheme \<Rightarrow> instant \<Rightarrow> uuid \<Rightarrow> ws_client \<Rightarrow> json \<Rightarrow> ws_state \<Rightarrow> ws_state \<times> ws_op list" where
  "handleJoin C now i c data s =
     (case decode_room data of
        None \<Rightarrow> (s, [])
      | Some room \<Rightarrow>
          if \<not> IsValidRoomName (wx_parse C) room
          then (s, sendMessage now i WsTypeError
                     (WsErrorData ''INVALID_ROOM'' (''invalid room name format: '' @ room)) [])
          else (case JoinRoom C now i c room s of
                  (Inl err, s1, ops) \<Rightarrow> (s1, ops)
                | (Inr _, s1, ops) \<Rightarrow> (s1, ops)))"

definition handleLeave :: "instant \<Rightarrow> uuid \<Rightarrow> json \<Rightarrow> ws_state \<Rightarrow> ws_state \<times> ws_op list" where
  "handleLeave now i data s =
     (case decode_room data of None \<Rightarrow> (s, []) | Some room \<Rightarrow> LeaveRoom now i room s)"

definition handleTyping :: "instant \<Rightarrow> ws_client \<Rightarrow> json \<Rightarrow> ws_op list" where
  "handleTyping now c data =
     (case decode_typing data of
        None \<Rightarrow> []
      | Some (room, entityType, entityID) \<Rightarrow>
          PublishToRoom room \<lparr>wm_type = WsTypeTyping,
            wm_data = WsTypingData (wc_user c) room entityType entityID, wm_time = now, wm_room = room\<rparr>)"

definition handleHeartbeat :: "ws_client \<Rightarrow> ws_op list" where
  "handleHeartbeat c = RefreshHeartbeat (wc_org c) (wc_user c)"

definition handleMessage ::
    "'a ws_setup_scheme \<Rightarrow> instant \<Rightarrow> uuid \<Rightarrow> ws_client \<Rightarrow> json option \<Rightarrow> ws_state \<Rightarrow> ws_state \<times> ws_op list" where
  "handleMessage C now i c wire s =
     (case decode_envelope (wx_time_ok C) wire of
        None \<Rightarrow> (s, sendMessage now i WsTypeError (WsErrorData ''INVALID_JSON'' ''failed to parse message'') [])
      | Some (t, data) \<Rightarrow>
          if t = WsTypeRoomJoin then handleJoin C now i c data s
          else if t = WsTypeRoomLeave then handleLeave now i data s
          else if t = WsTypeTyping then (s, handleTyping now c data)
          else if t = WsTypeHeartbeat then (s, handleHeartbeat c)
          else (s, sendMessage now i WsTypeError
                     (WsErrorData ''UNKNOWN_TYPE'' (''unknown message type: '' @ t)) []))"

section \<open>Operations\<close>

text \<open>
  What one operation does; \<open>fault\<close> says that the command to Redis fails. The result is the state
  and the operations to do next. A call on a connection that has been replaced or lost has no
  effect.
\<close>

fun ws_exec :: "'a ws_setup_scheme \<Rightarrow> instant \<Rightarrow> bool \<Rightarrow> ws_op \<Rightarrow> ws_state \<Rightarrow> ws_state \<times> ws_op list" where
  "ws_exec C now fault (OpSend i msg) s = (chan_send C i msg s, [])"
| "ws_exec C now fault (OpSubscribe room) s = Subscribe room s"
| "ws_exec C now fault (OpSubCall k room) s =
     (if \<not> fault \<and> pub_live s \<and> pub_sub s = Some k
      then s\<lparr>pub_channels := List.insert (wsRedisChannelPrefix @ room) (pub_channels s)\<rparr> else s, [])"
| "ws_exec C now fault (OpUnsubscribe room) s = Unsubscribe room s"
| "ws_exec C now fault (OpUnsubCall k room) s =
     (if \<not> fault \<and> pub_live s \<and> pub_sub s = Some k
      then s\<lparr>pub_channels := filter (\<lambda>ch. ch \<noteq> wsRedisChannelPrefix @ room) (pub_channels s)\<rparr> else s, [])"
| "ws_exec C now fault OpSync s =
     (s, case pub_sub s of
           None \<Rightarrow> []
         | Some k \<Rightarrow> if pub_count s = [] then [] else [OpSyncCall k (map fst (pub_count s))])"
| "ws_exec C now fault (OpSyncCall k rooms) s =
     (if \<not> fault \<and> pub_live s \<and> pub_sub s = Some k
      then s\<lparr>pub_channels := fold (\<lambda>room. List.insert (wsRedisChannelPrefix @ room)) rooms (pub_channels s)\<rparr>
      else s, [])"
| "ws_exec C now fault (OpEnqueue room msg) s = (broadcast_enqueue room msg s, [])"
| "ws_exec C now fault (OpPublish channel msg) s = (Redis_Publish fault channel (Some msg) s, [])"
| "ws_exec C now fault (OpIncr org user) s = MarkOnline_incr now fault org user s"
| "ws_exec C now fault (OpDecr org user) s = MarkOffline_decr now fault org user s"
| "ws_exec C now fault (OpExpire org user) s =
     (if fault then s else redis_expire now (connKey org user) (wg_presence_ttl C) s, [])"
| "ws_exec C now fault (OpDel org user) s =
     (if fault then s else s\<lparr>pre_count := (pre_count s)(connKey org user := None)\<rparr>, [])"
| "ws_exec C now fault (OpSAdd org user) s =
     (if fault then s
      else s\<lparr>pre_online := (pre_online s)(presenceKey org := List.insert user (pre_online s (presenceKey org)))\<rparr>, [])"
| "ws_exec C now fault (OpSRem org user) s =
     (if fault then s
      else s\<lparr>pre_online := (pre_online s)(presenceKey org := filter (\<lambda>u. u \<noteq> user) (pre_online s (presenceKey org)))\<rparr>, [])"
| "ws_exec C now fault (OpPresence org user online) s =
     (if fault then s else s\<lparr>pre_events := pre_events s @ [(presenceKey org, user, online)]\<rparr>, [])"

section \<open>Steps of the system\<close>

text \<open>
  \<open>Connect\<close> to \<open>UpgradeEnds\<close> are \<open>HandleUpgrade\<close> and the two pumps of a connection, \<open>RunRegister\<close> to
  \<open>RunReturns\<close> the loop of the hub, \<open>NewConnection\<close> to \<open>ReceiverEnds\<close> the loop of the relay;
  \<open>PeerPublish\<close> is another instance, \<open>DropMessage\<close> what the Redis client does when its buffer is full.
  \<open>Do g fault\<close> is the next operation of a goroutine.
\<close>

datatype ws_act =
    Connect uuid uuid uuid
  | ReadMsg uuid "json option"
  | ReadError uuid
  | WriteMsg uuid
  | WriterEnds uuid
  | UpgradeEnds uuid
  | RunRegister
  | RunUnregister
  | RunBroadcast
  | RunReturns
  | Do goroutine bool
  | NewConnection
  | Receive
  | ConnectionLost
  | DropMessage
  | ReceiverEnds
  | PeerPublish string "ws_message option"
  | BusEvent bus_event
  | StopHub

definition start :: "goroutine \<Rightarrow> ws_state \<times> ws_op list \<Rightarrow> ws_state" where
  "start g r = (case r of (s, ops) \<Rightarrow> s\<lparr>ws_todo := (ws_todo s)(g := ops @ ws_todo s g)\<rparr>)"

definition idle :: "ws_state \<Rightarrow> goroutine \<Rightarrow> bool" where
  "idle s g \<longleftrightarrow> ws_todo s g = []"

text \<open>\<open>HandleUpgrade\<close> from \<open>NewClient\<close> to \<open>Run\<close>.\<close>

definition open_connection :: "uuid \<Rightarrow> uuid \<Rightarrow> uuid \<Rightarrow> ws_state \<Rightarrow> ws_state" where
  "open_connection i user org s =
     Hub_Register i (s\<lparr>ws_heap := (ws_heap s)(i \<mapsto> NewClient user org),
                   ws_phase := (ws_phase s)(i := Reading), ws_writing := (ws_writing s)(i := True)\<rparr>)"

fun ws_step :: "'a ws_setup_scheme \<Rightarrow> instant \<Rightarrow> ws_act \<Rightarrow> ws_state \<Rightarrow> ws_state option" where
  "ws_step C now (Connect i user org) s =
     (if ws_heap s i = None then Some (open_connection i user org s) else None)"
| "ws_step C now (ReadMsg i wire) s =
     (case ws_heap s i of
        Some c \<Rightarrow> if ws_phase s i = Reading \<and> idle s (Reader i)
                   then Some (start (Reader i) (handleMessage C now i c wire s)) else None
      | None \<Rightarrow> None)"
| "ws_step C now (ReadError i) s =
     (if ws_phase s i = Reading \<and> idle s (Reader i)
      then Some (Hub_Unregister i (s\<lparr>ws_phase := (ws_phase s)(i := ReadDone)\<rparr>)) else None)"
| "ws_step C now (WriteMsg i) s =
     (case ws_heap s i of
        Some c \<Rightarrow> if ws_writing s i \<and> wc_send c \<noteq> []
                   then Some (upd_client i (wc_send_update tl) s) else None
      | None \<Rightarrow> None)"
| "ws_step C now (WriterEnds i) s =
     (if ws_writing s i then Some (s\<lparr>ws_writing := (ws_writing s)(i := False)\<rparr>) else None)"
| "ws_step C now (UpgradeEnds i) s =
     (if ws_phase s i = ReadDone \<and> \<not> ws_writing s i
      then Some (Hub_Unregister i (s\<lparr>ws_phase := (ws_phase s)(i := Gone)\<rparr>)) else None)"
| "ws_step C now RunRegister s =
     (case hub_register s of
        i # rest \<Rightarrow> if idle s RunLoop \<and> \<not> hub_returned s
                     then Some (start RunLoop (Run_register now i (s\<lparr>hub_register := rest\<rparr>))) else None
      | [] \<Rightarrow> None)"
| "ws_step C now RunUnregister s =
     (case hub_unregister s of
        i # rest \<Rightarrow> if idle s RunLoop \<and> \<not> hub_returned s
                     then Some (start RunLoop (Run_unregister i (s\<lparr>hub_unregister := rest\<rparr>))) else None
      | [] \<Rightarrow> None)"
| "ws_step C now RunBroadcast s =
     (case hub_broadcast s of
        (room, msg) # rest \<Rightarrow> if idle s RunLoop \<and> \<not> hub_returned s
                     then Some (BroadcastToRoom C room msg (s\<lparr>hub_broadcast := rest\<rparr>)) else None
      | [] \<Rightarrow> None)"
| "ws_step C now RunReturns s =
     (if hub_cancelled s \<and> idle s RunLoop then Some (s\<lparr>hub_returned := True\<rparr>) else None)"
| "ws_step C now (Do g fault) s =
     (case ws_todo s g of
        op # rest \<Rightarrow> Some (start g (ws_exec C now fault op (s\<lparr>ws_todo := (ws_todo s)(g := rest)\<rparr>)))
      | [] \<Rightarrow> None)"
| "ws_step C now NewConnection s =
     (if \<not> pub_live s \<and> \<not> hub_cancelled s \<and> idle s Receiver
      then Some (start Receiver
        (s\<lparr>pub_sub := Some (case pub_sub s of None \<Rightarrow> 0 | Some k \<Rightarrow> Suc k), pub_live := True,
           pub_channels := [], pub_inbox := []\<rparr>, [OpSync])) else None)"
| "ws_step C now Receive s =
     (case pub_inbox s of
        (channel, m) # rest \<Rightarrow>
          if pub_live s \<and> idle s Receiver
          then Some (start Receiver (s\<lparr>pub_inbox := rest\<rparr>,
            case m of None \<Rightarrow> [] | Some msg \<Rightarrow> PublishToRoom (TrimPrefix channel wsRedisChannelPrefix) msg))
          else None
      | [] \<Rightarrow> None)"
| "ws_step C now ConnectionLost s =
     (if pub_live s then Some (s\<lparr>pub_live := False, pub_channels := [], pub_inbox := []\<rparr>) else None)"
| "ws_step C now DropMessage s =
     (case pub_inbox s of x # rest \<Rightarrow> Some (s\<lparr>pub_inbox := rest\<rparr>) | [] \<Rightarrow> None)"
| "ws_step C now ReceiverEnds s =
     (if hub_cancelled s \<and> idle s Receiver
      then Some (s\<lparr>pub_live := False, pub_channels := [], pub_inbox := []\<rparr>) else None)"
| "ws_step C now (PeerPublish channel msg) s = Some (Redis_Publish False channel msg s)"
| "ws_step C now (BusEvent event) s =
     (if idle s BusLoop
      then Some (start BusLoop (s, concat (map (\<lambda>room. PublishToRoom room (event_message now event room)) (RoomsForEvent event))))
      else None)"
| "ws_step C now StopHub s = Some (Hub_Stop C now s)"

fun ws_run :: "'a ws_setup_scheme \<Rightarrow> (instant \<times> ws_act) list \<Rightarrow> ws_state \<Rightarrow> ws_state option" where
  "ws_run C [] s = Some s"
| "ws_run C ((now, a) # acts) s = (case ws_step C now a s of None \<Rightarrow> None | Some s1 \<Rightarrow> ws_run C acts s1)"

lemma ws_run_append:
  "ws_run C (xs @ ys) s = (case ws_run C xs s of None \<Rightarrow> None | Some s1 \<Rightarrow> ws_run C ys s1)"
  by (induction C xs s rule: ws_run.induct) (auto split: option.splits)

text \<open>An invariant of the steps is one of the runs.\<close>

lemma ws_run_invariant:
  assumes "ws_run C acts s = Some s'" and "Inv s"
    and "\<And>now a s1 s2. Inv s1 \<Longrightarrow> ws_step C now a s1 = Some s2 \<Longrightarrow> Inv s2"
  shows "Inv s'"
  using assms(1,2)
proof (induction acts arbitrary: s)
  case (Cons x acts)
  obtain now a where x: "x = (now, a)" by fastforce
  with Cons.prems(1) obtain s1 where s1: "ws_step C now a s = Some s1" "ws_run C acts s1 = Some s'"
    by (auto split: option.splits)
  show ?case using Cons.IH [OF s1(2)] assms(3) [OF Cons.prems(2) s1(1)] .
qed simp

end
