(* ===== verification/Ws_System.thy ===== *)
theory Ws_System
  imports Ws_Hub
begin

text \<open>
  The invariants of the WebSocket system. \<open>ws_life\<close> relates the life of a connection to the queues of
  the hub and to what the goroutines have left to send, \<open>ws_members\<close> the two views of who is in a
  room. They speak about a client through four observers, so that what happens inside a send buffer
  does not matter to them.
\<close>

section \<open>Observers\<close>

definition born :: "ws_state \<Rightarrow> uuid \<Rightarrow> bool" where
  "born s i \<longleftrightarrow> ws_heap s i \<noteq> None"

definition closed_at :: "ws_state \<Rightarrow> uuid \<Rightarrow> bool" where
  "closed_at s i = (case ws_heap s i of None \<Rightarrow> False | Some c \<Rightarrow> wc_closed c)"

definition rooms_of :: "ws_state \<Rightarrow> uuid \<Rightarrow> string list" where
  "rooms_of s i = (case ws_heap s i of None \<Rightarrow> [] | Some c \<Rightarrow> wc_rooms c)"

definition org_of :: "ws_state \<Rightarrow> uuid \<Rightarrow> uuid" where
  "org_of s i = (case ws_heap s i of None \<Rightarrow> uuid_nil | Some c \<Rightarrow> wc_org c)"

lemmas observers = born_def closed_at_def rooms_of_def org_of_def

lemma unborn_observers: "\<not> born s i \<Longrightarrow> \<not> closed_at s i \<and> rooms_of s i = [] \<and> org_of s i = uuid_nil"
  by (simp add: observers)

lemma observers_Some:
  "ws_heap s i = Some c \<Longrightarrow>
   born s i \<and> closed_at s i = wc_closed c \<and> rooms_of s i = wc_rooms c \<and> org_of s i = wc_org c"
  by (simp add: observers)

text \<open>What the invariants depend on; the rest of the state is Redis and the messages.\<close>

definition ws_core :: "ws_state \<Rightarrow> ws_state \<Rightarrow> bool" where
  "ws_core s s' \<longleftrightarrow>
     born s' = born s \<and> closed_at s' = closed_at s \<and> rooms_of s' = rooms_of s \<and> org_of s' = org_of s \<and>
     hub_clients s' = hub_clients s \<and> hub_rooms s' = hub_rooms s \<and> hub_register s' = hub_register s \<and>
     hub_unregister s' = hub_unregister s \<and> ws_todo s' = ws_todo s \<and> ws_phase s' = ws_phase s"

lemma ws_core_refl [simp]: "ws_core s s"
  by (simp add: ws_core_def)

lemma ws_core_trans: "ws_core s s' \<Longrightarrow> ws_core s' s'' \<Longrightarrow> ws_core s s''"
  by (simp add: ws_core_def)

text \<open>A send changes a buffer at most.\<close>

lemma chan_send_core [simp]: "ws_core s (chan_send C i msg s)"
  by (auto simp: ws_core_def chan_send_def upd_client_def observers fun_eq_iff split: option.splits)

lemma chan_send_panicked [simp]: "ws_panicked (chan_send C i msg s) \<longleftrightarrow> ws_panicked s \<or> closed_at s i"
  by (simp add: chan_send_def upd_client_def closed_at_def split: option.split)

lemma broadcast_core [simp]: "ws_core s (fold (\<lambda>i. chan_send C i msg) is s)"
  by (induction "is" arbitrary: s) (use chan_send_core ws_core_trans in \<open>fastforce+\<close>)

lemma broadcast_panicked [simp]:
  "ws_panicked (fold (\<lambda>i. chan_send C i msg) is s) \<longleftrightarrow> ws_panicked s \<or> (\<exists>i\<in>set is. closed_at s i)"
proof (induction "is" arbitrary: s)
  case (Cons i "is")
  have "closed_at (chan_send C i msg s) = closed_at s"
    using chan_send_core [of s C i msg] by (simp add: ws_core_def)
  then show ?case using Cons by auto
qed simp

fun is_send :: "ws_op \<Rightarrow> bool" where
  "is_send (OpSend i msg) = True"
| "is_send _ = False"

text \<open>The other operations work on Redis and on queues of messages, and lead to no send.\<close>

lemma exec_core: "ws_core s (fst (ws_exec C now fault op s))"
  by (cases op)
     (auto simp: ws_core_def observers Subscribe_def Unsubscribe_def broadcast_enqueue_def Redis_Publish_def
       MarkOnline_incr_def MarkOffline_decr_def redis_incr_by_def redis_expire_def Let_def
       chan_send_def upd_client_def fun_eq_iff split: option.splits prod.splits)

lemma exec_no_send: "list_all (\<lambda>op. \<not> is_send op) (snd (ws_exec C now fault op s))"
  by (cases op)
     (auto simp: Subscribe_def Unsubscribe_def MarkOnline_incr_def MarkOffline_decr_def Let_def
       split: option.splits prod.splits)

lemma exec_panicked:
  "ws_panicked (fst (ws_exec C now fault op s)) \<longleftrightarrow>
   ws_panicked s \<or> (\<exists>i msg. op = OpSend i msg \<and> closed_at s i)"
  by (cases op)
     (auto simp: Subscribe_def Unsubscribe_def broadcast_enqueue_def Redis_Publish_def
       MarkOnline_incr_def MarkOffline_decr_def redis_incr_by_def redis_expire_def Let_def
       split: option.splits prod.splits)

section \<open>The life of a connection\<close>

text \<open>Whom a goroutine may still send to: a reader to its client, the hub to a registered client.\<close>

fun send_ok :: "uuid list \<Rightarrow> goroutine \<Rightarrow> ws_op \<Rightarrow> bool" where
  "send_ok clients (Reader i) (OpSend j msg) = (j = i)"
| "send_ok clients RunLoop (OpSend j msg) = (j \<in> set clients)"
| "send_ok clients g (OpSend j msg) = False"
| "send_ok clients g op = True"

lemma send_ok_mono: "send_ok clients g op \<Longrightarrow> set clients \<subseteq> set clients' \<Longrightarrow> send_ok clients' g op"
  by (cases op; cases g) auto

lemma send_ok_other [simp]: "\<not> is_send op \<Longrightarrow> send_ok clients g op"
  by (cases op; cases g) simp_all

definition ws_life :: "ws_state \<Rightarrow> bool" where
  "ws_life s \<longleftrightarrow>
     (\<forall>i. \<not> born s i \<longrightarrow> ws_phase s i = Unborn \<and> i \<notin> set (hub_register s) \<and> i \<notin> set (hub_unregister s)
        \<and> i \<notin> set (hub_clients s)) \<and>
     (\<forall>i. born s i \<longrightarrow> ws_phase s i \<noteq> Unborn) \<and>
     distinct (hub_register s) \<and>
     (\<forall>i\<in>set (hub_register s). i \<notin> set (hub_clients s) \<and> \<not> closed_at s i) \<and>
     (\<forall>i\<in>set (hub_clients s). \<not> closed_at s i) \<and>
     (\<forall>i. closed_at s i \<longrightarrow> ws_phase s i \<noteq> Reading) \<and>
     (\<forall>i\<in>set (hub_unregister s). ws_phase s i \<noteq> Reading) \<and>
     (\<forall>i. ws_phase s i \<noteq> Reading \<longrightarrow> ws_todo s (Reader i) = []) \<and>
     (\<forall>g. \<forall>op\<in>set (ws_todo s g). send_ok (hub_clients s) g op)"

lemma ws_life_register: "ws_life s \<Longrightarrow> i \<in> set (hub_register s) \<Longrightarrow> born s i"
  unfolding ws_life_def by blast

lemma ws_life_unregister: "ws_life s \<Longrightarrow> i \<in> set (hub_unregister s) \<Longrightarrow> born s i \<and> ws_phase s i \<noteq> Reading"
  unfolding ws_life_def by blast

lemma ws_life_reading: "ws_life s \<Longrightarrow> ws_phase s i = Reading \<Longrightarrow> born s i \<and> \<not> closed_at s i"
  unfolding ws_life_def by (metis conn_phase.distinct(1))

lemma ws_life_client: "ws_life s \<Longrightarrow> i \<in> set (hub_clients s) \<Longrightarrow> born s i \<and> \<not> closed_at s i"
  unfolding ws_life_def by blast

lemma ws_life_init: "ws_life ws_init"
  by (simp add: ws_life_def ws_init_def observers)

lemma ws_life_core: "ws_core s s' \<Longrightarrow> ws_life s \<Longrightarrow> ws_life s'"
  unfolding ws_life_def ws_core_def by simp

text \<open>Operations are added to and taken from the list of a goroutine.\<close>

lemma ws_life_start:
  assumes "ws_life s" and "\<forall>op\<in>set ops. send_ok (hub_clients s) g op"
    and "\<And>i. g = Reader i \<Longrightarrow> ws_phase s i = Reading \<or> ops = []"
  shows "ws_life (start g (s, ops))"
  using assms unfolding ws_life_def start_def by (auto simp: observers)

lemma ws_life_pop:
  assumes "ws_life s" and "ws_todo s g = op # rest"
  shows "ws_life (s\<lparr>ws_todo := (ws_todo s)(g := rest)\<rparr>)"
  using assms unfolding ws_life_def by (auto simp: observers)

lemma ws_life_do:
  assumes "ws_life s" and "ws_step C now (Do g fault) s = Some s'"
  shows "ws_life s' \<and> (ws_panicked s' \<longleftrightarrow> ws_panicked s)"
proof -
  obtain op rest where todo: "ws_todo s g = op # rest" using assms(2) by (auto split: list.splits)
  define s1 where "s1 = s\<lparr>ws_todo := (ws_todo s)(g := rest)\<rparr>"
  obtain s2 ops where e: "ws_exec C now fault op s1 = (s2, ops)" by fastforce
  have s': "s' = start g (s2, ops)" using assms(2) todo e by (simp add: s1_def)
  have s1: "ws_life s1" using ws_life_pop [OF assms(1) todo] by (simp add: s1_def)
  have core: "ws_core s1 s2" using exec_core [of s1 C now fault op] e by simp
  have no: "\<forall>op\<in>set ops. \<not> is_send op" using exec_no_send [of C now fault op s1] e by (simp add: list_all_iff)
  have reading: "ws_phase s2 i = Reading \<or> ops = []" if "g = Reader i" for i
  proof -
    have "ws_phase s i = Reading" using assms(1) todo that unfolding ws_life_def by (metis list.distinct(1))
    then show ?thesis using core by (simp add: ws_core_def s1_def)
  qed
  have "ws_life (start g (s2, ops))"
    using ws_life_start [OF ws_life_core [OF core s1]] no reading by simp
  moreover have "ws_panicked s2 \<longleftrightarrow> ws_panicked s"
  proof -
    have "\<not> closed_at s1 i" if "op = OpSend i msg" for i msg
    proof -
      have send: "send_ok (hub_clients s) g (OpSend i msg)"
        using assms(1) todo that unfolding ws_life_def by (metis list.set_intros(1))
      have "\<not> closed_at s i"
      proof (cases g)
        case (Reader j)
        then have "j = i" using send by simp
        then have "ws_phase s i = Reading" using assms(1) todo Reader unfolding ws_life_def by (metis list.distinct(1))
        then show ?thesis using assms(1) unfolding ws_life_def by blast
      next
        case RunLoop
        then show ?thesis using send assms(1) unfolding ws_life_def by simp
      qed (use send in simp_all)
      then show ?thesis by (simp add: s1_def closed_at_def)
    qed
    then show ?thesis using exec_panicked [of C now fault op s1] e by (auto simp: s1_def)
  qed
  ultimately show ?thesis by (simp add: s' start_def)
qed

section \<open>Rooms\<close>

text \<open>Leaving rooms changes the table of rooms only.\<close>

lemma leave_room_clients:
  "room_clients (snd (leave_room i room s)) r =
     (if r = room then filter (\<lambda>j. j \<noteq> i) (room_clients s r) else room_clients s r)"
  by (auto simp: leave_room_def room_clients_def Let_def split: option.splits)

lemma leave_room_frame: "\<exists>m. snd (leave_room i room s) = s\<lparr>hub_rooms := m\<rparr>"
  by (cases "hub_rooms s room") (auto simp: leave_room_def Let_def intro: exI [of _ "hub_rooms s"])

lemma leave_room_nonempty: "(\<And>r. hub_rooms s r \<noteq> Some []) \<Longrightarrow> hub_rooms (snd (leave_room i room s)) r \<noteq> Some []"
  by (auto simp: leave_room_def Let_def split: option.splits)

lemma leave_all_snd: "snd (leave_all i rooms s) = fold (\<lambda>room s. snd (leave_room i room s)) rooms s"
  by (induction rooms arbitrary: s) (auto simp: split_beta)

lemma leave_all_clients:
  "room_clients (snd (leave_all i rooms s)) r =
     (if r \<in> set rooms then filter (\<lambda>j. j \<noteq> i) (room_clients s r) else room_clients s r)"
proof -
  have "room_clients (fold (\<lambda>room s. snd (leave_room i room s)) rooms s) r =
      (if r \<in> set rooms then filter (\<lambda>j. j \<noteq> i) (room_clients s r) else room_clients s r)" for s
    by (induction rooms arbitrary: s) (auto simp: leave_room_clients)
  then show ?thesis by (simp add: leave_all_snd)
qed

lemma leave_all_frame: "\<exists>m. snd (leave_all i rooms s) = s\<lparr>hub_rooms := m\<rparr>"
proof -
  have "\<exists>m. fold (\<lambda>room s. snd (leave_room i room s)) rooms s = s\<lparr>hub_rooms := m\<rparr>" for s
  proof (induction rooms arbitrary: s)
    case Nil
    show ?case by (simp add: exI [of _ "hub_rooms s"])
  next
    case (Cons room rooms)
    obtain m where "snd (leave_room i room s) = s\<lparr>hub_rooms := m\<rparr>" using leave_room_frame by blast
    moreover obtain m' where "fold (\<lambda>room s. snd (leave_room i room s)) rooms (s\<lparr>hub_rooms := m\<rparr>) =
        s\<lparr>hub_rooms := m, hub_rooms := m'\<rparr>" using Cons.IH by blast
    ultimately show ?case by auto
  qed
  then show ?thesis by (simp add: leave_all_snd)
qed

lemma leave_all_nonempty:
  assumes "\<And>r. hub_rooms s r \<noteq> Some []"
  shows "hub_rooms (snd (leave_all i rooms s)) r \<noteq> Some []"
proof -
  have "\<forall>r. hub_rooms (fold (\<lambda>room s. snd (leave_room i room s)) rooms s) r \<noteq> Some []"
    using assms by (induction rooms arbitrary: s) (simp_all add: leave_room_nonempty)
  then show ?thesis by (simp add: leave_all_snd)
qed

text \<open>
  Both views agree on who is in a room, but for clients that have been closed; a room of a client
  is one that it may join; a client has no more rooms than it may.
\<close>

definition ws_members :: "'a ws_setup_scheme \<Rightarrow> ws_state \<Rightarrow> bool" where
  "ws_members C s \<longleftrightarrow>
     (\<forall>room. hub_rooms s room \<noteq> Some [] \<and> distinct (room_clients s room)) \<and>
     (\<forall>i room. i \<in> set (room_clients s room) \<longleftrightarrow> room \<in> set (rooms_of s i) \<and> \<not> closed_at s i) \<and>
     (\<forall>i. \<forall>room\<in>set (rooms_of s i). IsValidRoomName (wx_parse C) room \<and>
        (ExtractOrgID (wx_parse C) room = uuid_nil \<or> ExtractOrgID (wx_parse C) room = org_of s i)) \<and>
     (\<forall>i. distinct (rooms_of s i) \<and> int (length (rooms_of s i)) \<le> max 0 (wg_max_rooms C))"

lemma ws_members_init: "ws_members C ws_init"
  by (simp add: ws_members_def ws_init_def room_clients_def observers)

lemma ws_members_core: "ws_core s s' \<Longrightarrow> ws_members C s \<Longrightarrow> ws_members C s'"
  unfolding ws_members_def ws_core_def room_clients_def by simp

lemma ws_members_same:
  "born s' = born s \<Longrightarrow> closed_at s' = closed_at s \<Longrightarrow> rooms_of s' = rooms_of s \<Longrightarrow> org_of s' = org_of s \<Longrightarrow>
   hub_rooms s' = hub_rooms s \<Longrightarrow> ws_members C s \<Longrightarrow> ws_members C s'"
  unfolding ws_members_def room_clients_def by simp

section \<open>Messages of a client\<close>

text \<open>What a message may do to the state: nothing, a join or a leave; its answers go to its client.\<close>

lemma handleMessage_cases:
  assumes "handleMessage C now i c wire s = (s', ops)"
  obtains (same) "s' = s"
    | (join) room where "JoinRoom C now i c room s = (Inr (), s', ops)"
    | (leave) room where "s' = fst (LeaveRoom now i room s)"
proof (cases "decode_envelope (wx_time_ok C) wire")
  case None
  then show ?thesis using assms same by (simp add: handleMessage_def)
next
  case (Some p)
  obtain t data where p: "p = (t, data)" by fastforce
  have j: ?thesis if "handleJoin C now i c data s = (s', ops)"
  proof (cases "decode_room data")
    case (Some room)
    obtain r s1 ops1 where jr: "JoinRoom C now i c room s = (r, s1, ops1)" by (metis prod_cases3)
    show ?thesis
    proof (cases r)
      case (Inl err)
      then have "s1 = s" using jr by (auto simp: JoinRoom_def Let_def split: if_splits)
      then show ?thesis using that Some jr Inl same by (auto simp: handleJoin_def split: if_splits)
    next
      case (Inr u)
      then show ?thesis using that Some jr same join by (auto simp: handleJoin_def split: if_splits)
    qed
  qed (use that same in \<open>simp add: handleJoin_def\<close>)
  have l: ?thesis if "handleLeave now i data s = (s', ops)"
    using that same leave by (auto simp: handleLeave_def split: option.splits) (metis fst_conv)
  show ?thesis using assms Some p j l same by (auto simp: handleMessage_def split: if_splits)
qed

definition sends_to :: "uuid \<Rightarrow> ws_op \<Rightarrow> bool" where
  "sends_to i op = (case op of OpSend j msg \<Rightarrow> j = i | _ \<Rightarrow> True)"

lemma sends_to_simps [simp]:
  "sends_to i (OpSend j msg) = (j = i)" "sends_to i (OpSubscribe room)" "sends_to i (OpUnsubscribe room)"
  "sends_to i (OpEnqueue room msg)" "sends_to i (OpPublish ch msg)" "sends_to i (OpExpire org user)"
  by (simp_all add: sends_to_def)

lemma send_ok_reader: "sends_to i op \<Longrightarrow> send_ok clients (Reader i) op"
  by (cases op) (simp_all add: sends_to_def)

lemma handleMessage_sends:
  assumes "handleMessage C now i c wire s = (s', ops)"
  shows "list_all (sends_to i) ops"
proof -
  have j: "list_all (sends_to i) ops" if "handleJoin C now i c data s = (s', ops)" for data
    using that by (auto simp: handleJoin_def JoinRoom_def sendMessage_def Let_def split: option.splits if_splits)
  have l: "list_all (sends_to i) ops" if "handleLeave now i data s = (s', ops)" for data
    using that by (auto simp: handleLeave_def LeaveRoom_def sendMessage_def Let_def split: option.splits if_splits prod.splits)
  have t: "list_all (sends_to i) (handleTyping now c data)" for data
    by (auto simp: handleTyping_def PublishToRoom_def split: option.splits)
  have h: "list_all (sends_to i) (handleHeartbeat c)"
    by (simp add: handleHeartbeat_def RefreshHeartbeat_def)
  show ?thesis
  proof (cases "decode_envelope (wx_time_ok C) wire")
    case None
    then show ?thesis using assms by (auto simp: handleMessage_def sendMessage_def)
  next
    case (Some p)
    then show ?thesis
      using assms j l t h by (cases p) (auto simp: handleMessage_def sendMessage_def split: if_splits)
  qed
qed

lemma JoinRoom_frame:
  assumes "JoinRoom C now i c room s = (Inr (), s', ops)"
  shows "born s' = born s" "closed_at s' = closed_at s" "org_of s' = org_of s"
    "hub_clients s' = hub_clients s" "hub_register s' = hub_register s" "hub_unregister s' = hub_unregister s"
    "ws_todo s' = ws_todo s" "ws_phase s' = ws_phase s" "ws_panicked s' = ws_panicked s"
  using assms
  by (auto simp: JoinRoom_def Let_def upd_client_def observers AddRoom_def fun_eq_iff split: if_splits option.splits)

lemma LeaveRoom_frame:
  assumes "s' = fst (LeaveRoom now i room s)"
  shows "born s' = born s" "closed_at s' = closed_at s" "org_of s' = org_of s"
    "hub_clients s' = hub_clients s" "hub_register s' = hub_register s" "hub_unregister s' = hub_unregister s"
    "ws_todo s' = ws_todo s" "ws_phase s' = ws_phase s" "ws_panicked s' = ws_panicked s"
proof -
  obtain m where m: "snd (leave_room i room s) = s\<lparr>hub_rooms := m\<rparr>" using leave_room_frame by blast
  then have "s' = upd_client i (RemoveRoom room) (s\<lparr>hub_rooms := m\<rparr>)"
    using assms by (simp add: LeaveRoom_def split_beta)
  then show "born s' = born s" "closed_at s' = closed_at s" "org_of s' = org_of s"
    "hub_clients s' = hub_clients s" "hub_register s' = hub_register s" "hub_unregister s' = hub_unregister s"
    "ws_todo s' = ws_todo s" "ws_phase s' = ws_phase s" "ws_panicked s' = ws_panicked s"
    by (auto simp: upd_client_def observers RemoveRoom_def fun_eq_iff split: option.splits)
qed

lemma ws_life_same:
  "born s' = born s \<Longrightarrow> closed_at s' = closed_at s \<Longrightarrow> hub_clients s' = hub_clients s \<Longrightarrow>
   hub_register s' = hub_register s \<Longrightarrow> hub_unregister s' = hub_unregister s \<Longrightarrow> ws_todo s' = ws_todo s \<Longrightarrow>
   ws_phase s' = ws_phase s \<Longrightarrow> ws_life s \<Longrightarrow> ws_life s'"
  unfolding ws_life_def by simp

lemma handleMessage_life:
  assumes m: "handleMessage C now i c wire s = (s', ops)" and s: "ws_life s" "ws_phase s i = Reading"
  shows "ws_life (start (Reader i) (s', ops)) \<and> ws_panicked s' = ws_panicked s"
proof -
  have "ws_life s' \<and> hub_clients s' = hub_clients s \<and> ws_phase s' = ws_phase s \<and> ws_panicked s' = ws_panicked s"
    using m
  proof (cases rule: handleMessage_cases)
    case (join room)
    note f = JoinRoom_frame [OF join]
    show ?thesis using ws_life_same [OF f(1,2,4-8) s(1)] f by simp
  next
    case (leave room)
    note f = LeaveRoom_frame [OF leave]
    show ?thesis using ws_life_same [OF f(1,2,4-8) s(1)] f by simp
  qed (use s in simp)
  moreover have "\<forall>op\<in>set ops. send_ok (hub_clients s') (Reader i) op"
    using handleMessage_sends [OF m] send_ok_reader by (auto simp: list_all_iff)
  ultimately show ?thesis using ws_life_start [of s' ops "Reader i"] s(2) by auto
qed

section \<open>Registration\<close>

lemma Hub_Unregister_life:
  assumes "ws_life s" and "born s i" and "ws_phase s i \<noteq> Reading"
  shows "ws_life (Hub_Unregister i s)"
  using assms unfolding ws_life_def by (auto simp: Hub_Unregister_def observers)

lemma open_connection_life:
  assumes "ws_life s" and "\<not> born s i"
  shows "ws_life (open_connection i user org s)"
proof -
  have i: "i \<notin> set (hub_register s)" "i \<notin> set (hub_unregister s)" "i \<notin> set (hub_clients s)"
    using assms unfolding ws_life_def by blast+
  define s1 where "s1 = s\<lparr>ws_heap := (ws_heap s)(i \<mapsto> NewClient user org),
                   ws_phase := (ws_phase s)(i := Reading), ws_writing := (ws_writing s)(i := True)\<rparr>"
  have o: "born s1 = (born s)(i := True)" "closed_at s1 = closed_at s"
    using assms(2) by (auto simp: s1_def observers NewClient_def fun_eq_iff)
  have "ws_life s1"
    using assms i unborn_observers [OF assms(2)] unfolding ws_life_def o by (auto simp: s1_def)
  moreover have "i \<notin> set (hub_register s1) \<and> i \<notin> set (hub_clients s1) \<and> \<not> closed_at s1 i \<and> born s1 i"
    using i o assms(2) unborn_observers [of s i] by (simp add: s1_def)
  ultimately show ?thesis
    unfolding open_connection_def s1_def [symmetric] ws_life_def by (auto simp: Hub_Register_def observers)
qed

lemma Run_register_life:
  assumes s: "ws_life s" "idle s RunLoop" and q: "hub_register s = i # rest"
  shows "ws_life (start RunLoop (Run_register now i (s\<lparr>hub_register := rest\<rparr>))) \<and>
    ws_panicked (start RunLoop (Run_register now i (s\<lparr>hub_register := rest\<rparr>))) = ws_panicked s"
proof -
  obtain c where c: "ws_heap s i = Some c" using ws_life_register [OF s(1), of i] q by (auto simp: born_def)
  define s1 where "s1 = s\<lparr>hub_register := rest, hub_clients := List.insert i (hub_clients s)\<rparr>"
  have o: "born s1 = born s" "closed_at s1 = closed_at s" by (auto simp: s1_def observers fun_eq_iff)
  have "ws_life s1"
  proof -
    have "\<forall>g. \<forall>op\<in>set (ws_todo s g). send_ok (hub_clients s1) g op"
      using s(1) send_ok_mono [of "hub_clients s" _ _ "hub_clients s1"] unfolding ws_life_def by (simp add: s1_def) blast
    then show ?thesis
      using s(1) q c unfolding ws_life_def o by (auto simp: s1_def born_def)
  qed
  moreover define ops where "ops = sendMessage now i WsTypeConnected (WsConnectedData (wc_user c) (wc_rooms c)) [] @
      MarkOnline (wc_org c) (wc_user c)"
  moreover have "Run_register now i (s\<lparr>hub_register := rest\<rparr>) = (s1, ops)"
    using c by (simp add: Run_register_def s1_def ops_def)
  moreover have "\<forall>op\<in>set ops. send_ok (hub_clients s1) RunLoop op"
    by (simp add: ops_def sendMessage_def MarkOnline_def s1_def)
  ultimately show ?thesis
    using ws_life_start [of s1 ops RunLoop] by (simp add: start_def s1_def)
qed

text \<open>
  Removal of a client: what is true before the step of the rooms and of the flags is enough to see
  that its channel is open when it is closed.
\<close>

lemma Run_unregister_cases:
  assumes "Run_unregister i s = (s', ops)" and "ws_heap s i = Some c"
  obtains (absent) "i \<notin> set (hub_clients s)" "s' = s" "ops = MarkOffline (wc_org c) (wc_user c)"
    | (present) m unsub where "i \<in> set (hub_clients s)" "snd (leave_all i (wc_rooms c) s) = s\<lparr>hub_rooms := m\<rparr>"
        "s' = chan_close i (s\<lparr>hub_rooms := m, hub_clients := filter (\<lambda>j. j \<noteq> i) (hub_clients s)\<rparr>)"
        "ops = map OpUnsubscribe unsub @ MarkOffline (wc_org c) (wc_user c)"
proof (cases "i \<in> set (hub_clients s)")
  case True
  obtain m where m: "snd (leave_all i (wc_rooms c) s) = s\<lparr>hub_rooms := m\<rparr>" using leave_all_frame by blast
  obtain unsub s0 where l: "leave_all i (wc_rooms c) s = (unsub, s0)" by fastforce
  show ?thesis using present [OF True m] assms l m True by (auto simp: Run_unregister_def)
next
  case False
  then show ?thesis using absent assms by (auto simp: Run_unregister_def)
qed

lemma chan_close_observers:
  assumes "ws_heap s i = Some c" and "\<not> wc_closed c"
  shows "closed_at (chan_close i s) = (closed_at s)(i := True)" "born (chan_close i s) = born s"
    "rooms_of (chan_close i s) = rooms_of s" "org_of (chan_close i s) = org_of s"
    "hub_clients (chan_close i s) = hub_clients s" "hub_rooms (chan_close i s) = hub_rooms s"
    "hub_register (chan_close i s) = hub_register s" "hub_unregister (chan_close i s) = hub_unregister s"
    "ws_todo (chan_close i s) = ws_todo s" "ws_phase (chan_close i s) = ws_phase s"
    "ws_panicked (chan_close i s) = ws_panicked s"
  using assms by (auto simp: chan_close_def upd_client_def observers fun_eq_iff)

lemma Run_unregister_life:
  assumes s: "ws_life s" "idle s RunLoop" and q: "hub_unregister s = i # rest"
  shows "ws_life (start RunLoop (Run_unregister i (s\<lparr>hub_unregister := rest\<rparr>))) \<and>
    ws_panicked (start RunLoop (Run_unregister i (s\<lparr>hub_unregister := rest\<rparr>))) = ws_panicked s"
proof -
  have i: "born s i" "ws_phase s i \<noteq> Reading" using ws_life_unregister [OF s(1), of i] q by simp_all
  define s0 where "s0 = s\<lparr>hub_unregister := rest\<rparr>"
  obtain c where c: "ws_heap s0 i = Some c" using i(1) by (auto simp: born_def s0_def)
  have o0: "born s0 = born s" "closed_at s0 = closed_at s" by (auto simp: s0_def observers fun_eq_iff)
  have s0: "ws_life s0" using s(1) q unfolding ws_life_def o0 by (simp add: s0_def)
  obtain s1 ops where r: "Run_unregister i s0 = (s1, ops)" by fastforce
  have "ws_life s1 \<and> ws_panicked s1 = ws_panicked s \<and> (\<forall>op\<in>set ops. \<not> is_send op)"
    using r c
  proof (cases rule: Run_unregister_cases)
    case absent
    then show ?thesis using s0 by (simp add: MarkOffline_def s0_def)
  next
    case (present m unsub)
    define s2 where "s2 = s0\<lparr>hub_rooms := m, hub_clients := filter (\<lambda>j. j \<noteq> i) (hub_clients s0)\<rparr>"
    have o2: "born s2 = born s0" "closed_at s2 = closed_at s0" by (auto simp: s2_def observers fun_eq_iff)
    have open_i: "\<not> closed_at s0 i" using ws_life_client [OF s0 present(1)] by simp
    have c2: "ws_heap s2 i = Some c" "\<not> wc_closed c" using c open_i by (simp_all add: s2_def closed_at_def)
    note k = chan_close_observers [OF c2]
    have s1: "s1 = chan_close i s2" using present(3) by (simp add: s2_def)
    have reg: "i \<notin> set (hub_register s0)" using s0 present(1) unfolding ws_life_def by blast
    have todo: "ws_todo s0 RunLoop = []" using s(2) by (simp add: idle_def s0_def)
    have "\<forall>g. \<forall>op\<in>set (ws_todo s0 g). send_ok (hub_clients s2) g op"
    proof (intro allI ballI)
      fix g op assume op: "op \<in> set (ws_todo s0 g)"
      then have "send_ok (hub_clients s0) g op" using s0 unfolding ws_life_def by blast
      moreover have "g \<noteq> RunLoop" using op todo by auto
      ultimately show "send_ok (hub_clients s2) g op" by (cases op; cases g) simp_all
    qed
    then have "ws_life s1"
      using s0 reg i(2) unfolding ws_life_def s1 k o2 by (auto simp: s2_def s0_def)
    moreover have "ws_panicked s1 = ws_panicked s" unfolding s1 k by (simp add: s2_def s0_def)
    ultimately show ?thesis using present(4) by (auto simp: MarkOffline_def)
  qed
  then show ?thesis
    using ws_life_start [of s1 ops RunLoop] r by (simp add: start_def s0_def)
qed

section \<open>Rooms stay consistent\<close>

lemma ws_members_start [simp]: "ws_members C (start g (s, ops)) = ws_members C s"
  by (simp add: start_def ws_members_def room_clients_def observers)

lemma JoinRoom_members:
  assumes j: "JoinRoom C now i c room s = (Inr (), s', ops)" and c: "ws_heap s i = Some c"
    and s: "ws_members C s" and op: "\<not> closed_at s i"
  shows "ws_members C s'"
proof -
  have g: "IsValidRoomName (wx_parse C) room" "RoomCount c < wg_max_rooms C"
    "ExtractOrgID (wx_parse C) room = uuid_nil \<or> ExtractOrgID (wx_parse C) room = wc_org c"
    and s': "s' = upd_client i (AddRoom room) (s\<lparr>hub_rooms := (hub_rooms s)(room \<mapsto>
      (if i \<in> set (room_clients s room) then room_clients s room else room_clients s room @ [i]))\<rparr>)"
    using j by (auto simp: JoinRoom_def Let_def split: if_splits)
  note o = observers_Some [OF c]
  have k: "rooms_of s' = (rooms_of s)(i := (if room \<in> set (rooms_of s i) then rooms_of s i else rooms_of s i @ [room]))"
    using c by (auto simp: s' upd_client_def AddRoom_def rooms_of_def fun_eq_iff)
  have r: "room_clients s' x = (if x = room then (if i \<in> set (room_clients s room) then room_clients s room
      else room_clients s room @ [i]) else room_clients s x)" for x
    by (simp add: s' upd_client_def room_clients_def)
  have "(if i \<in> set (room_clients s room) then room_clients s room else room_clients s room @ [i]) \<noteq> []"
    by (cases "room_clients s room") simp_all
  then have n: "hub_rooms s' x \<noteq> Some []" for x
    using s unfolding ws_members_def by (simp add: s' upd_client_def)
  note f = JoinRoom_frame [OF j]
  have members: "i' \<in> set (room_clients s' x) \<longleftrightarrow> x \<in> set (rooms_of s' i') \<and> \<not> closed_at s' i'" for i' x
    using s op unfolding ws_members_def f(2) k r by auto
  have count: "distinct (rooms_of s' i') \<and> int (length (rooms_of s' i')) \<le> max 0 (wg_max_rooms C)" for i'
  proof -
    have base: "\<forall>j. distinct (rooms_of s j) \<and> int (length (rooms_of s j)) \<le> max 0 (wg_max_rooms C)"
      using s unfolding ws_members_def by blast
    have "int (length (rooms_of s i)) < wg_max_rooms C" using g(2) o by (simp add: RoomCount_def)
    then show ?thesis using base by (auto simp: k)
  qed
  have valid: "IsValidRoomName (wx_parse C) x \<and>
      (ExtractOrgID (wx_parse C) x = uuid_nil \<or> ExtractOrgID (wx_parse C) x = org_of s' i')"
    if x: "x \<in> set (rooms_of s' i')" for i' x
  proof (cases "x \<in> set (rooms_of s i')")
    case True
    then show ?thesis using s unfolding ws_members_def f(3) by blast
  next
    case False
    then have "i' = i" "x = room" using x by (auto simp: k split: if_splits)
    then show ?thesis using g(1,3) o f(3) by simp
  qed
  have "distinct (room_clients s' x)" for x using s unfolding ws_members_def r by auto
  with members count valid n show ?thesis unfolding ws_members_def by simp
qed

lemma LeaveRoom_members:
  assumes l: "s' = fst (LeaveRoom now i room s)" and s: "ws_members C s"
  shows "ws_members C s'"
proof -
  define s1 where "s1 = snd (leave_room i room s)"
  obtain m where m: "s1 = s\<lparr>hub_rooms := m\<rparr>" using leave_room_frame [of i room s] unfolding s1_def by blast
  have s': "s' = upd_client i (RemoveRoom room) s1" using l by (simp add: LeaveRoom_def split_beta s1_def)
  have k: "rooms_of s' = (rooms_of s)(i := filter (\<lambda>r. r \<noteq> room) (rooms_of s i))"
    by (auto simp: s' m upd_client_def RemoveRoom_def rooms_of_def fun_eq_iff split: option.splits
      intro!: filter_True [symmetric])
  have r: "room_clients s' x = (if x = room then filter (\<lambda>j. j \<noteq> i) (room_clients s x) else room_clients s x)" for x
    using leave_room_clients [of i room s x] by (simp add: s' s1_def upd_client_def room_clients_def)
  have n: "hub_rooms s' x \<noteq> Some []" for x
    using leave_room_nonempty [of s i room x] s by (simp add: s' s1_def upd_client_def ws_members_def)
  note f = LeaveRoom_frame [OF l]
  have "i' \<in> set (room_clients s' x) \<longleftrightarrow> x \<in> set (rooms_of s' i') \<and> \<not> closed_at s' i'" for i' x
    using s unfolding ws_members_def f(2) k r by auto
  moreover have "int (length (rooms_of s' i')) \<le> max 0 (wg_max_rooms C)" for i'
  proof -
    have "length (rooms_of s' i') \<le> length (rooms_of s i')" by (simp add: k)
    moreover have "int (length (rooms_of s i')) \<le> max 0 (wg_max_rooms C)"
      using s unfolding ws_members_def by blast
    ultimately show ?thesis by linarith
  qed
  moreover have "IsValidRoomName (wx_parse C) x \<and>
      (ExtractOrgID (wx_parse C) x = uuid_nil \<or> ExtractOrgID (wx_parse C) x = org_of s' i')"
    if "x \<in> set (rooms_of s' i')" for i' x
  proof -
    have "x \<in> set (rooms_of s i')" using that by (auto simp: k split: if_splits)
    then show ?thesis using s unfolding ws_members_def f(3) by blast
  qed
  moreover have "distinct (rooms_of s' i')" "distinct (room_clients s' x)" for i' x
    using s unfolding ws_members_def k r by auto
  ultimately show ?thesis using n unfolding ws_members_def by simp
qed

lemma Run_unregister_members:
  assumes s: "ws_life s" "ws_members C s" and r: "Run_unregister i s = (s', ops)" and c: "ws_heap s i = Some c"
  shows "ws_members C s'"
  using r c
proof (cases rule: Run_unregister_cases)
  case absent
  then show ?thesis using s by simp
next
  case (present m unsub)
  define s2 where "s2 = s\<lparr>hub_rooms := m, hub_clients := filter (\<lambda>j. j \<noteq> i) (hub_clients s)\<rparr>"
  have "\<not> closed_at s i" using ws_life_client [OF s(1) present(1)] by simp
  then have c2: "ws_heap s2 i = Some c" "\<not> wc_closed c" using c by (simp_all add: s2_def closed_at_def)
  note k = chan_close_observers [OF c2]
  have s': "s' = chan_close i s2" using present(3) by (simp add: s2_def)
  have o2: "closed_at s2 = closed_at s" "rooms_of s2 = rooms_of s" "org_of s2 = org_of s"
    by (auto simp: s2_def observers fun_eq_iff)
  have rooms_i: "wc_rooms c = rooms_of s i" using c by (simp add: rooms_of_def)
  have rc: "room_clients s2 x = (if x \<in> set (rooms_of s i) then filter (\<lambda>j. j \<noteq> i) (room_clients s x)
      else room_clients s x)" for x
    using leave_all_clients [of i "wc_rooms c" s x] present(2) by (simp add: s2_def room_clients_def rooms_i)
  have n: "hub_rooms s2 x \<noteq> Some []" for x
    using leave_all_nonempty [of s i "wc_rooms c" x] present(2) s(2) by (simp add: s2_def ws_members_def)
  have "i' \<in> set (room_clients s2 x) \<longleftrightarrow> x \<in> set (rooms_of s i') \<and> \<not> ((closed_at s)(i := True)) i'" for i' x
    using s(2) unfolding ws_members_def rc by auto
  then show ?thesis
    using s(2) n unfolding ws_members_def s' k o2 room_clients_def [of "chan_close i s2"] room_clients_def [of s2, symmetric]
    by (simp add: rc)
qed

section \<open>The invariants hold in every reachable state\<close>

definition ws_inv :: "'a ws_setup_scheme \<Rightarrow> ws_state \<Rightarrow> bool" where
  "ws_inv C s \<longleftrightarrow> ws_life s \<and> ws_members C s \<and> \<not> ws_panicked s"

lemma ws_inv_init: "ws_inv C ws_init"
  by (simp add: ws_inv_def ws_life_init ws_members_init) (simp add: ws_init_def)

text \<open>Steps that touch nothing of what the invariants speak about.\<close>

lemma ws_inv_core: "ws_inv C s \<Longrightarrow> ws_core s s' \<Longrightarrow> ws_panicked s' = ws_panicked s \<Longrightarrow> ws_inv C s'"
  by (simp add: ws_inv_def ws_life_core ws_members_core [of s s'])

lemma ws_inv_start:
  "ws_inv C s \<Longrightarrow> \<forall>op\<in>set ops. \<not> is_send op \<Longrightarrow> (\<And>i. g \<noteq> Reader i) \<Longrightarrow> ws_inv C (start g (s, ops))"
  using ws_life_start [of s ops g] by (simp add: ws_inv_def) (simp add: start_def)

lemma ws_inv_step:
  assumes inv: "ws_inv C s" and step: "ws_step C now a s = Some s'"
  shows "ws_inv C s'"
proof -
  have life: "ws_life s" and members: "ws_members C s" and calm: "\<not> ws_panicked s"
    using inv by (simp_all add: ws_inv_def)
  have core: "ws_inv C s'" if "ws_core s s'" "ws_panicked s' = ws_panicked s" using ws_inv_core [OF inv that] .
  show ?thesis
  proof (cases a)
    case (Connect i user org)
    then have i: "\<not> born s i" and s': "s' = open_connection i user org s"
      using step by (auto simp: born_def split: if_splits)
    have "rooms_of s' = rooms_of s" "closed_at s' = closed_at s" "hub_rooms s' = hub_rooms s" "ws_panicked s' = ws_panicked s"
      "\<And>j. rooms_of s j \<noteq> [] \<Longrightarrow> org_of s' j = org_of s j"
      using i by (auto simp: s' open_connection_def Hub_Register_def observers NewClient_def fun_eq_iff)
    then have "ws_members C s'"
      using members unfolding ws_members_def room_clients_def by (metis empty_iff empty_set)
    then show ?thesis
      using open_connection_life [OF life i] calm \<open>ws_panicked s' = ws_panicked s\<close> by (simp add: ws_inv_def s')
  next
    case (ReadMsg i wire)
    then obtain c where c: "ws_heap s i = Some c" and ph: "ws_phase s i = Reading"
      and s': "s' = start (Reader i) (handleMessage C now i c wire s)"
      using step by (auto split: option.splits if_splits)
    obtain s1 ops where m: "handleMessage C now i c wire s = (s1, ops)" by fastforce
    have "ws_members C s1"
      using m
    proof (cases rule: handleMessage_cases)
      case (join room)
      then show ?thesis using JoinRoom_members [OF join c members] ws_life_reading [OF life ph] by simp
    next
      case (leave room)
      then show ?thesis using LeaveRoom_members [OF leave members] by simp
    qed (use members in simp)
    moreover have "ws_panicked (start (Reader i) (s1, ops)) = ws_panicked s1" by (simp add: start_def)
    ultimately show ?thesis
      using handleMessage_life [OF m life ph] calm by (simp add: ws_inv_def s' m)
  next
    case (ReadError i)
    then have ph: "ws_phase s i = Reading" and idle: "ws_todo s (Reader i) = []"
      and s': "s' = Hub_Unregister i (s\<lparr>ws_phase := (ws_phase s)(i := ReadDone)\<rparr>)"
      using step by (auto simp: idle_def split: if_splits)
    have b: "born s i" using ws_life_reading [OF life ph] by simp
    let ?s1 = "s\<lparr>ws_phase := (ws_phase s)(i := ReadDone)\<rparr>"
    have "ws_life ?s1" using life b idle unfolding ws_life_def by (auto simp: observers)
    then have "ws_life s'" using Hub_Unregister_life [of ?s1 i] b by (simp add: s' born_def)
    moreover have "ws_members C s'" "ws_panicked s' = ws_panicked s"
      using members unfolding ws_members_def by (simp_all add: s' Hub_Unregister_def observers room_clients_def)
    ultimately show ?thesis using calm by (simp add: ws_inv_def)
  next
    case (UpgradeEnds i)
    then have ph: "ws_phase s i = ReadDone" and s': "s' = Hub_Unregister i (s\<lparr>ws_phase := (ws_phase s)(i := Gone)\<rparr>)"
      using step by (auto split: if_splits)
    have b: "born s i" using life ph unfolding ws_life_def by (metis conn_phase.distinct(3))
    let ?s1 = "s\<lparr>ws_phase := (ws_phase s)(i := Gone)\<rparr>"
    have "ws_todo s (Reader i) = []" using life ph unfolding ws_life_def by simp
    then have "ws_life ?s1" using life b unfolding ws_life_def by (auto simp: observers)
    then have "ws_life s'" using Hub_Unregister_life [of ?s1 i] b by (simp add: s' born_def)
    moreover have "ws_members C s'" "ws_panicked s' = ws_panicked s"
      using members unfolding ws_members_def by (simp_all add: s' Hub_Unregister_def observers room_clients_def)
    ultimately show ?thesis using calm by (simp add: ws_inv_def)
  next
    case (WriteMsg i)
    then have "s' = upd_client i (wc_send_update tl) s" using step by (auto split: option.splits if_splits)
    then show ?thesis
      by (intro core) (auto simp: ws_core_def upd_client_def observers fun_eq_iff split: option.splits)
  next
    case RunRegister
    then obtain i rest where q: "hub_register s = i # rest" and idle: "idle s RunLoop"
      and s': "s' = start RunLoop (Run_register now i (s\<lparr>hub_register := rest\<rparr>))"
      using step by (auto split: list.splits if_splits)
    obtain s1 ops where r: "Run_register now i (s\<lparr>hub_register := rest\<rparr>) = (s1, ops)" by fastforce
    have "born s1 = born s" "closed_at s1 = closed_at s" "rooms_of s1 = rooms_of s" "org_of s1 = org_of s"
      "hub_rooms s1 = hub_rooms s"
      using r by (auto simp: Run_register_def observers fun_eq_iff split: option.splits)
    then have "ws_members C s1" using ws_members_same members by blast
    then show ?thesis using Run_register_life [OF life idle q, of now] calm by (simp add: ws_inv_def s' r)
  next
    case RunUnregister
    then obtain i rest where q: "hub_unregister s = i # rest" and idle: "idle s RunLoop"
      and s': "s' = start RunLoop (Run_unregister i (s\<lparr>hub_unregister := rest\<rparr>))"
      using step by (auto split: list.splits if_splits)
    define s0 where "s0 = s\<lparr>hub_unregister := rest\<rparr>"
    obtain s1 ops where r: "Run_unregister i s0 = (s1, ops)" by fastforce
    obtain c where c: "ws_heap s0 i = Some c"
      using ws_life_unregister [OF life, of i] q by (auto simp: born_def s0_def)
    have o0: "born s0 = born s" "closed_at s0 = closed_at s" "rooms_of s0 = rooms_of s" "org_of s0 = org_of s"
      by (auto simp: s0_def observers fun_eq_iff)
    have "ws_life s0" using life q unfolding ws_life_def o0 by (simp add: s0_def)
    moreover have "ws_members C s0" using ws_members_same [OF o0] members by (simp add: s0_def)
    ultimately have "ws_members C s1" using Run_unregister_members r c by blast
    then show ?thesis using Run_unregister_life [OF life idle q] calm r by (simp add: ws_inv_def s' s0_def)
  next
    case RunBroadcast
    then obtain room msg rest where s': "s' = BroadcastToRoom C room msg (s\<lparr>hub_broadcast := rest\<rparr>)"
      using step by (auto split: list.splits if_splits)
    define s0 where "s0 = s\<lparr>hub_broadcast := rest\<rparr>"
    have c0: "ws_core s s0" by (auto simp: s0_def ws_core_def observers fun_eq_iff)
    have no: "\<forall>i\<in>set (room_clients s0 room). \<not> closed_at s0 i"
      using members by (simp add: s0_def ws_members_def closed_at_def room_clients_def)
    have "ws_core s0 s'" "ws_panicked s' = ws_panicked s0"
      using no by (simp_all add: s' s0_def [symmetric] BroadcastToRoom_def)
    then show ?thesis using core ws_core_trans [OF c0] by (simp add: s0_def)
  next
    case (Do g fault)
    then have d: "ws_life s' \<and> (ws_panicked s' \<longleftrightarrow> ws_panicked s)" using ws_life_do [OF life] step by blast
    obtain op rest where todo: "ws_todo s g = op # rest" using step Do by (auto split: list.splits)
    define s1 where "s1 = s\<lparr>ws_todo := (ws_todo s)(g := rest)\<rparr>"
    obtain s2 ops where e: "ws_exec C now fault op s1 = (s2, ops)" by fastforce
    have "ws_members C s1" using members unfolding ws_members_def by (simp add: s1_def observers room_clients_def)
    then have "ws_members C s2" using ws_members_core exec_core [of s1 C now fault op] e by simp
    moreover have "s' = start g (s2, ops)" using step Do todo e by (simp add: s1_def)
    ultimately show ?thesis using d calm by (simp add: ws_inv_def)
  next
    case NewConnection
    define s1 where "s1 = s\<lparr>pub_sub := Some (case pub_sub s of None \<Rightarrow> 0 | Some k \<Rightarrow> Suc k), pub_live := True,
           pub_channels := [], pub_inbox := []\<rparr>"
    have "ws_core s s1" "ws_panicked s1 = ws_panicked s" by (auto simp: s1_def ws_core_def observers fun_eq_iff)
    then have "ws_inv C (start Receiver (s1, [OpSync]))" using ws_inv_core [OF inv] by (intro ws_inv_start) auto
    then show ?thesis using step NewConnection by (auto simp: s1_def split: if_splits)
  next
    case Receive
    then obtain ch m rest where s': "s' = start Receiver (s\<lparr>pub_inbox := rest\<rparr>,
        case m of None \<Rightarrow> [] | Some msg \<Rightarrow> PublishToRoom (TrimPrefix ch wsRedisChannelPrefix) msg)"
      using step by (auto split: list.splits if_splits)
    have "ws_core s (s\<lparr>pub_inbox := rest\<rparr>)" by (auto simp: ws_core_def observers fun_eq_iff)
    then have "ws_inv C (s\<lparr>pub_inbox := rest\<rparr>)" using ws_inv_core [OF inv] by simp
    then show ?thesis unfolding s' by (rule ws_inv_start) (auto simp: PublishToRoom_def split: option.splits)
  next
    case (BusEvent event)
    then have s': "s' = start BusLoop (s, concat (map (\<lambda>room. PublishToRoom room (event_message now event room)) (RoomsForEvent event)))"
      using step by (auto split: if_splits)
    show ?thesis unfolding s' by (rule ws_inv_start [OF inv]) (auto simp: PublishToRoom_def)
  next
    case StopHub
    define s1 where "s1 = fold (\<lambda>i. chan_send C i (shutdown_message now)) (hub_clients s) s"
    have "s' = s1\<lparr>hub_cancelled := True\<rparr>" using step StopHub by (simp add: Hub_Stop_def s1_def)
    then have "ws_core s1 s'" "ws_panicked s' = ws_panicked s1" by (auto simp: ws_core_def observers fun_eq_iff)
    moreover have "ws_core s s1" "ws_panicked s1 = ws_panicked s"
      using ws_life_client [OF life] by (auto simp: s1_def)
    ultimately show ?thesis using core ws_core_trans by blast
  qed (use step inv in \<open>auto intro!: ws_inv_core [OF inv] simp: ws_core_def observers fun_eq_iff Redis_Publish_def split: if_splits list.splits\<close>)
qed

lemma ws_reachable_inv: "ws_run C acts ws_init = Some s \<Longrightarrow> ws_inv C s"
  using ws_run_invariant [of C acts ws_init s "ws_inv C"] ws_inv_init ws_inv_step by blast

end
