(* ===== verification/Ws_Handler.thy ===== *)
theory Ws_Handler
  imports Ws_System Request_Env
begin

text \<open>
  The way of a request to the hub: the organization of a request
  (\<open>http/middleware/organization.go\<close>), authentication (\<open>http/middleware/websocket_auth.go\<close>), the
  handlers and their routes (\<open>http/handler/websocket.go\<close>). JWT validation, the permission engine and
  the upgrade of the connection are parameters. A handler that refuses gives the status of its answer.
\<close>

record org_ctx =
  ox_header :: string            \<comment> \<open>\<open>X-Organization-ID\<close>\<close>
  ox_token :: string             \<comment> \<open>the query parameter \<open>token\<close>\<close>
  ox_user :: "uuid option"       \<comment> \<open>the user of the JWT middleware\<close>
  ox_org :: "uuid option"        \<comment> \<open>\<open>organization_id\<close>\<close>
  ox_ws_user :: "uuid option"
  ox_ws_org :: "uuid option"

record ws_http_env =
  wv_parse :: "string \<Rightarrow> uuid option"
  wv_claims :: "string \<Rightarrow> string option"   \<comment> \<open>\<open>UserID\<close> of the claims of a valid token\<close>
  wv_enforce :: "string \<Rightarrow> string \<Rightarrow> string \<Rightarrow> string \<Rightarrow> bool result"
  wv_accept :: bool                           \<comment> \<open>\<open>websocket.Accept\<close> succeeds\<close>
  wv_redis_fault :: bool

definition ExtractOrganizationID ::
    "(string \<Rightarrow> uuid option) \<Rightarrow> (org_ctx \<Rightarrow> nat + 'a) \<Rightarrow> org_ctx \<Rightarrow> nat + 'a" where
  "ExtractOrganizationID parse next c =
     (if ox_header c = [] then next c
      else case parse (ox_header c) of
        None \<Rightarrow> Inl 400
      | Some orgID \<Rightarrow> next (c\<lparr>ox_org := Some orgID\<rparr>))"

definition GetOrganizationID :: "org_ctx \<Rightarrow> uuid \<times> bool" where
  "GetOrganizationID c = (case ox_org c of None \<Rightarrow> (uuid_nil, False) | Some orgID \<Rightarrow> (orgID, True))"

definition GetOrganizationIDOrGlobal :: "org_ctx \<Rightarrow> uuid" where
  "GetOrganizationIDOrGlobal c = (case GetOrganizationID c of (orgID, ok) \<Rightarrow> if ok then orgID else uuid_nil)"

definition WebSocketAuth :: "ws_http_env \<Rightarrow> (org_ctx \<Rightarrow> nat + 'a) \<Rightarrow> org_ctx \<Rightarrow> nat + 'a" where
  "WebSocketAuth E next c =
     (if ox_token c = [] then Inl 401
      else case wv_claims E (ox_token c) of
        None \<Rightarrow> Inl 401
      | Some claim \<Rightarrow>
          (case wv_parse E claim of
             None \<Rightarrow> Inl 401
           | Some userID \<Rightarrow>
               let (orgID, hasOrg) = GetOrganizationID c;
                   orgDomain = (if hasOrg then orgID else ''default'');
                   c1 = (if hasOrg then c\<lparr>ox_ws_org := Some orgID\<rparr> else c)
               in case wv_enforce E userID orgDomain ''websocket'' ''connect'' of
                    Inl err \<Rightarrow> Inl 500
                  | Inr allowed \<Rightarrow>
                      if \<not> allowed then Inl 403 else next (c1\<lparr>ox_ws_user := Some userID\<rparr>)))"

definition GetWSUserID :: "org_ctx \<Rightarrow> uuid" where
  "GetWSUserID c = (case ox_ws_user c of None \<Rightarrow> uuid_nil | Some i \<Rightarrow> i)"

definition GetWSOrgID :: "org_ctx \<Rightarrow> uuid" where
  "GetWSOrgID c = (case ox_ws_org c of None \<Rightarrow> uuid_nil | Some i \<Rightarrow> i)"

text \<open>
  \<open>HandleUpgrade\<close> up to \<open>NewClient\<close>, whose identifier is \<open>i\<close>: what follows are the steps of the
  connection, beginning with \<open>Connect\<close>.
\<close>

definition HandleUpgrade :: "ws_http_env \<Rightarrow> uuid \<Rightarrow> org_ctx \<Rightarrow> nat + ws_act" where
  "HandleUpgrade E i c =
     (let userID = GetWSUserID c; orgID = GetWSOrgID c
      in if userID = uuid_nil then Inl 401
         else if \<not> wv_accept E then Inl 500
         else Inr (Connect i userID orgID))"

definition GetPresence :: "ws_http_env \<Rightarrow> ws_state \<Rightarrow> string \<Rightarrow> org_ctx \<Rightarrow> nat + (uuid \<times> uuid list \<times> nat)" where
  "GetPresence E s param c =
     (case wv_parse E param of
        None \<Rightarrow> Inl 400
      | Some orgID \<Rightarrow>
          (case ox_user c of
             None \<Rightarrow> Inl 401
           | Some userID \<Rightarrow>
               let (orgIDFromCtx, hasOrgID) = GetOrganizationID c;
                   orgDomain = resolveOrgDomain hasOrgID orgIDFromCtx
               in if wv_enforce E userID orgDomain ''websocket'' ''view_presence'' \<noteq> Inr True then Inl 403
                  else let onlineUsers = GetOnlineUsers (wv_parse E) (wv_redis_fault E) s orgID
                       in Inr (orgID, onlineUsers, length onlineUsers)))"

definition GetRooms :: "ws_http_env \<Rightarrow> org_ctx \<Rightarrow> nat + (uuid \<times> string list)" where
  "GetRooms E c =
     (case ox_user c of
        None \<Rightarrow> Inl 401
      | Some userID \<Rightarrow>
          let (orgID, hasOrgID) = GetOrganizationID c;
              orgDomain = resolveOrgDomain hasOrgID orgID
          in if wv_enforce E userID orgDomain ''websocket'' ''view_rooms'' \<noteq> Inr True then Inl 403
             else Inr (userID, if hasOrgID \<and> orgID \<noteq> uuid_nil then [org_room orgID] else []))"

text \<open>
  \<open>RegisterRoutes\<close>: the route of the upgrade has the authentication only. A request arrives with
  an empty context, since no middleware of the group or of the server sets an organization.
\<close>

definition fresh_ctx :: "org_ctx \<Rightarrow> bool" where
  "fresh_ctx c \<longleftrightarrow> ox_user c = None \<and> ox_org c = None \<and> ox_ws_user c = None \<and> ox_ws_org c = None"

definition ws_route :: "ws_http_env \<Rightarrow> uuid \<Rightarrow> org_ctx \<Rightarrow> nat + ws_act" where
  "ws_route E i = WebSocketAuth E (HandleUpgrade E i)"

text \<open>What a connection needs: a valid token, the permission and an accepted upgrade.\<close>

lemma ws_route_Connect:
  assumes "ws_route E i c = Inr a" and "fresh_ctx c"
  shows "\<exists>claim user. wv_claims E (ox_token c) = Some claim \<and> wv_parse E claim = Some user \<and>
    wv_enforce E user ''default'' ''websocket'' ''connect'' = Inr True \<and> a = Connect i user uuid_nil"
  using assms
  by (auto simp: ws_route_def WebSocketAuth_def HandleUpgrade_def GetOrganizationID_def GetWSUserID_def
    GetWSOrgID_def fresh_ctx_def Let_def split: if_splits option.splits sum.splits)

end
