(* ===== verification/Ws_Properties.thy ===== *)
theory Ws_Properties
  imports Ws_Handler
begin

text \<open>
  What the WebSocket part guarantees, over every interleaving of its goroutines, of other instances
  and of failures of Redis: no panic, rooms that are kept apart, and what the relay does to a message.
\<close>

section \<open>No panic\<close>

text \<open>
  C27. Whatever connections, messages, disconnections, broadcasts, events, failures of Redis and a shutdown
  interleave, no goroutine sends to a channel that has been closed or closes one twice, so that the
  server does not panic.
\<close>

theorem hub_never_panics:
  assumes "ws_run C acts ws_init = Some s"
  shows "\<not> ws_panicked s"
  using ws_reachable_inv [OF assms] by (simp add: ws_inv_def)

section \<open>Rooms\<close>


text \<open>A broadcast reaches exactly the members whose buffer has room, once each.\<close>

definition with_message :: "'a ws_config_scheme \<Rightarrow> ws_message \<Rightarrow> ws_client \<Rightarrow> ws_client" where
  "with_message C msg c =
     (if length (wc_send c) < nat (wg_send_buffer C) then c\<lparr>wc_send := wc_send c @ [msg]\<rparr> else c)"

lemma chan_send_heap:
  "\<not> closed_at s i \<Longrightarrow> ws_heap (chan_send C i msg s) = (ws_heap s)(i := map_option (with_message C msg) (ws_heap s i))"
  by (auto simp: chan_send_def upd_client_def with_message_def closed_at_def fun_eq_iff split: option.splits)

lemma broadcast_heap:
  "distinct is \<Longrightarrow> \<forall>i\<in>set is. \<not> closed_at s i \<Longrightarrow>
   ws_heap (fold (\<lambda>i. chan_send C i msg) is s) i =
     (if i \<in> set is then map_option (with_message C msg) (ws_heap s i) else ws_heap s i)"
proof (induction "is" arbitrary: s)
  case (Cons j "is")
  have core: "closed_at (chan_send C j msg s) = closed_at s"
    using chan_send_core [of s C j msg] by (simp add: ws_core_def)
  then show ?case using Cons by (auto simp: chan_send_heap)
qed simp

lemma broadcast_reaches_members:
  assumes "ws_run C acts ws_init = Some s"
  shows "ws_heap (BroadcastToRoom C room msg s) i =
    (if i \<in> set (room_clients s room) then map_option (with_message C msg) (ws_heap s i) else ws_heap s i)"
proof -
  have m: "ws_members C s" using ws_reachable_inv [OF assms] by (simp add: ws_inv_def)
  then have "distinct (room_clients s room)" "\<forall>i\<in>set (room_clients s room). \<not> closed_at s i"
    unfolding ws_members_def by blast+
  then show ?thesis by (simp add: BroadcastToRoom_def broadcast_heap)
qed

section \<open>Organizations\<close>

text \<open>
  The route of the upgrade gives every connection the organization \<open>uuid_nil\<close>. Then nobody is ever in
  a room of an organization, and no event of one reaches a client of this instance.
\<close>

definition routed :: "instant \<times> ws_act \<Rightarrow> bool" where
  "routed x = (case snd x of Connect i user org \<Rightarrow> org = uuid_nil | _ \<Rightarrow> True)"

lemma ws_route_routed: "ws_route E i c = Inr a \<Longrightarrow> fresh_ctx c \<Longrightarrow> routed (now, a)"
  using ws_route_Connect [of E i c a] by (auto simp: routed_def)

lemma core_org: "ws_core s s' \<Longrightarrow> org_of s' = org_of s"
  by (simp add: ws_core_def)

lemma ws_heap_start [simp]: "ws_heap (start g r) = ws_heap (fst r)"
  by (simp add: start_def split: prod.splits)

lemma start_org [simp]: "org_of (start g r) = org_of (fst r)"
  by (simp add: org_of_def fun_eq_iff)

lemma ws_step_org:
  assumes "ws_step C now a s = Some s'"
  shows "org_of s' j = org_of s j \<or> (\<exists>i user. a = Connect i user (org_of s' j))"
proof (cases a)
  case (Connect i user org)
  then show ?thesis
    using assms by (auto simp: open_connection_def Hub_Register_def org_of_def NewClient_def split: if_splits)
next
  case (ReadMsg i wire)
  then obtain c where s': "s' = start (Reader i) (handleMessage C now i c wire s)"
    using assms by (auto split: option.splits if_splits)
  obtain s1 ops where m: "handleMessage C now i c wire s = (s1, ops)" by fastforce
  then have "org_of s1 = org_of s"
  proof (cases rule: handleMessage_cases)
    case (join room)
    then show ?thesis by (rule JoinRoom_frame)
  next
    case (leave room)
    then show ?thesis by (rule LeaveRoom_frame)
  qed simp
  then show ?thesis by (simp add: s' m)
next
  case RunUnregister
  then obtain i rest where s': "s' = start RunLoop (Run_unregister i (s\<lparr>hub_unregister := rest\<rparr>))"
    using assms by (auto split: list.splits if_splits)
  have "org_of (fst (Run_unregister i s0)) = org_of s0" for s0
  proof (cases "ws_heap s0 i")
    case (Some c)
    obtain s1 ops where r: "Run_unregister i s0 = (s1, ops)" by fastforce
    then have "org_of s1 = org_of s0"
      using Some
      by (cases rule: Run_unregister_cases)
         (auto simp: chan_close_def upd_client_def org_of_def fun_eq_iff split: option.splits)
    then show ?thesis by (simp add: r)
  qed (simp add: Run_unregister_def)
  then show ?thesis by (simp add: s' org_of_def)
next
  case (Do g fault)
  then obtain op rest where "s' = start g (ws_exec C now fault op (s\<lparr>ws_todo := (ws_todo s)(g := rest)\<rparr>))"
    using assms by (auto split: list.splits)
  moreover have "org_of (s\<lparr>ws_todo := (ws_todo s)(g := rest)\<rparr>) = org_of s" by (simp add: org_of_def fun_eq_iff)
  ultimately show ?thesis using core_org [OF exec_core, of C now fault op] by simp
next
  case RunBroadcast
  then obtain room msg rest where "s' = BroadcastToRoom C room msg (s\<lparr>hub_broadcast := rest\<rparr>)"
    using assms by (auto split: list.splits if_splits)
  moreover have "org_of (s\<lparr>hub_broadcast := rest\<rparr>) = org_of s" by (simp add: org_of_def fun_eq_iff)
  ultimately show ?thesis using core_org [OF broadcast_core, of C msg] by (simp add: BroadcastToRoom_def)
next
  case StopHub
  define s1 where "s1 = fold (\<lambda>i. chan_send C i (shutdown_message now)) (hub_clients s) s"
  have "s' = s1\<lparr>hub_cancelled := True\<rparr>" using StopHub assms by (simp add: Hub_Stop_def s1_def)
  moreover have "org_of s1 = org_of s" unfolding s1_def by (rule core_org [OF broadcast_core])
  moreover have "org_of (s1\<lparr>hub_cancelled := True\<rparr>) = org_of s1" by (simp add: org_of_def fun_eq_iff)
  ultimately show ?thesis by simp
qed (use assms in \<open>auto simp: Hub_Unregister_def Hub_Register_def Run_register_def upd_client_def org_of_def Redis_Publish_def
       split: if_splits option.splits list.splits\<close>)

lemma routed_orgs:
  assumes "ws_run C acts s = Some s'" and "list_all routed acts" and "\<forall>j. org_of s j = uuid_nil"
  shows "org_of s' j = uuid_nil"
  using assms
proof (induction acts arbitrary: s)
  case (Cons x acts)
  obtain now a where x: "x = (now, a)" by fastforce
  with Cons.prems(1) obtain s1 where s1: "ws_step C now a s = Some s1" "ws_run C acts s1 = Some s'"
    by (auto split: option.splits)
  have "\<forall>j. org_of s1 j = uuid_nil"
    using ws_step_org [OF s1(1)] Cons.prems(2,3) x by (fastforce simp: routed_def)
  then show ?case using Cons.IH [OF s1(2)] Cons.prems(2) by simp
qed simp

theorem org_rooms_stay_empty:
  assumes "ws_run C acts ws_init = Some s" and "list_all routed acts"
    and "ExtractOrgID (wx_parse C) room \<noteq> uuid_nil"
  shows "room_clients s room = []"
proof -
  have m: "ws_members C s" using ws_reachable_inv [OF assms(1)] by (simp add: ws_inv_def)
  have "org_of s i = uuid_nil" for i
    using routed_orgs [OF assms(1,2)] by (simp add: ws_init_def org_of_def)
  then have "i \<notin> set (room_clients s room)" for i using m assms(3) unfolding ws_members_def by metis
  then show ?thesis by (metis list.set_intros(1) neq_Nil_conv)
qed

section \<open>The relay\<close>

text \<open>
  Messages of a channel that Redis has for this instance, and those that the receiver is about to
  publish again.
\<close>

fun relayed_to :: "string \<Rightarrow> ws_op \<Rightarrow> bool" where
  "relayed_to channel (OpPublish ch msg) = (ch = channel)"
| "relayed_to channel _ = False"

definition in_flight :: "string \<Rightarrow> ws_state \<Rightarrow> nat" where
  "in_flight room s =
     length (filter (\<lambda>(ch, m). ch = wsRedisChannelPrefix @ room \<and> m \<noteq> None) (pub_inbox s)) +
     length (filter (relayed_to (wsRedisChannelPrefix @ room)) (ws_todo s Receiver))"

text \<open>The instance is subscribed in every state of a run, and neither Redis nor its client loses a message.\<close>

definition subscribed :: "string \<Rightarrow> ws_state \<Rightarrow> bool" where
  "subscribed room s \<longleftrightarrow> pub_live s \<and> wsRedisChannelPrefix @ room \<in> set (pub_channels s)"

fun lossless :: "ws_act \<Rightarrow> bool" where
  "lossless (Do Receiver fault) = (\<not> fault)"
| "lossless DropMessage = False"
| "lossless _ = True"

fun stays_subscribed :: "'a ws_setup_scheme \<Rightarrow> string \<Rightarrow> (instant \<times> ws_act) list \<Rightarrow> ws_state \<Rightarrow> bool" where
  "stays_subscribed C room [] s = subscribed room s"
| "stays_subscribed C room ((now, a) # acts) s =
     (subscribed room s \<and> lossless a \<and>
      (case ws_step C now a s of None \<Rightarrow> False | Some s1 \<Rightarrow> stays_subscribed C room acts s1))"

lemma TrimPrefix_append [simp]: "TrimPrefix (p @ s) p = s"
  by (simp add: TrimPrefix_def)

lemma relayed_start [simp]: "g \<noteq> Receiver \<Longrightarrow> ws_todo (start g r) Receiver = ws_todo (fst r) Receiver"
  by (simp add: start_def split: prod.splits)

lemma pub_inbox_start [simp]: "pub_inbox (start g r) = pub_inbox (fst r)"
  by (simp add: start_def split: prod.splits)

text \<open>Nothing but a publication and the connection itself changes what Redis has for the instance.\<close>

lemma chan_send_relay [simp]:
  "pub_inbox (chan_send C i msg s) = pub_inbox s" "ws_todo (chan_send C i msg s) = ws_todo s"
  by (simp_all add: chan_send_def upd_client_def split: option.splits)

lemma broadcast_relay [simp]:
  "pub_inbox (fold (\<lambda>i. chan_send C i msg) is s) = pub_inbox s"
  "ws_todo (fold (\<lambda>i. chan_send C i msg) is s) = ws_todo s"
  by (induction "is" arbitrary: s) simp_all

lemma exec_relay:
  assumes "ws_exec C now fault op s = (s', ops)" and "\<not> relayed_to (wsRedisChannelPrefix @ room) op"
  shows "(\<exists>x. pub_inbox s' = pub_inbox s @ x) \<and> ws_todo s' = ws_todo s"
  using assms
  by (cases op)
     (auto simp: Subscribe_def Unsubscribe_def broadcast_enqueue_def Redis_Publish_def MarkOnline_incr_def
       MarkOffline_decr_def redis_incr_by_def redis_expire_def Let_def split: option.splits prod.splits if_splits)

lemma handleMessage_relay:
  assumes "handleMessage C now i c wire s = (s', ops)"
  shows "pub_inbox s' = pub_inbox s" "ws_todo s' = ws_todo s"
proof -
  have "pub_inbox s' = pub_inbox s \<and> ws_todo s' = ws_todo s"
    using assms
  proof (cases rule: handleMessage_cases)
    case (join room)
    then show ?thesis by (auto simp: JoinRoom_def Let_def upd_client_def split: if_splits)
  next
    case (leave room)
    obtain m where "snd (leave_room i room s) = s\<lparr>hub_rooms := m\<rparr>" using leave_room_frame by blast
    then show ?thesis using leave by (simp add: LeaveRoom_def split_beta upd_client_def)
  qed simp
  then show "pub_inbox s' = pub_inbox s" "ws_todo s' = ws_todo s" by simp_all
qed

lemma Run_unregister_relay:
  "pub_inbox (fst (Run_unregister i s)) = pub_inbox s" "ws_todo (fst (Run_unregister i s)) = ws_todo s"
proof -
  have "pub_inbox (fst (Run_unregister i s)) = pub_inbox s \<and> ws_todo (fst (Run_unregister i s)) = ws_todo s"
  proof (cases "ws_heap s i")
    case (Some c)
    obtain s1 ops where r: "Run_unregister i s = (s1, ops)" by fastforce
    then have "pub_inbox s1 = pub_inbox s \<and> ws_todo s1 = ws_todo s"
      using Some
      by (cases rule: Run_unregister_cases) (auto simp: chan_close_def upd_client_def split: option.splits)
    then show ?thesis by (simp add: r)
  qed (simp add: Run_unregister_def)
  then show "pub_inbox (fst (Run_unregister i s)) = pub_inbox s"
    "ws_todo (fst (Run_unregister i s)) = ws_todo s" by simp_all
qed

lemma in_flight_mono:
  "pub_inbox s' = pub_inbox s @ x \<Longrightarrow> ws_todo s' Receiver = ws_todo s Receiver \<Longrightarrow> in_flight room s \<le> in_flight room s'"
  by (simp add: in_flight_def)

lemma in_flight_step:
  assumes step: "ws_step C now a s = Some s'" and sub: "subscribed room s" "subscribed room s'" and l: "lossless a"
  shows "in_flight room s \<le> in_flight room s'"
proof (cases a)
  case (ReadMsg i wire)
  then obtain c where s': "s' = start (Reader i) (handleMessage C now i c wire s)"
    using step by (auto split: option.splits if_splits)
  obtain s1 ops where m: "handleMessage C now i c wire s = (s1, ops)" by fastforce
  show ?thesis using handleMessage_relay [OF m] by (intro in_flight_mono [of _ _ "[]"]) (simp_all add: s' m)
next
  case RunUnregister
  then obtain i rest where "s' = start RunLoop (Run_unregister i (s\<lparr>hub_unregister := rest\<rparr>))"
    using step by (auto split: list.splits if_splits)
  then show ?thesis by (intro in_flight_mono [of _ _ "[]"]) (simp_all add: Run_unregister_relay)
next
  case Receive
  then obtain ch m rest where inbox: "pub_inbox s = (ch, m) # rest" and idle: "ws_todo s Receiver = []"
    and s': "s' = start Receiver (s\<lparr>pub_inbox := rest\<rparr>,
        case m of None \<Rightarrow> [] | Some msg \<Rightarrow> PublishToRoom (TrimPrefix ch wsRedisChannelPrefix) msg)"
    using step by (auto simp: idle_def split: list.splits if_splits)
  then show ?thesis
    by (auto simp: in_flight_def start_def PublishToRoom_def split: option.splits)
next
  case (Do g fault)
  then obtain op rest where todo: "ws_todo s g = op # rest"
    and s': "s' = start g (ws_exec C now fault op (s\<lparr>ws_todo := (ws_todo s)(g := rest)\<rparr>))"
    using step by (auto split: list.splits)
  define s1 where "s1 = s\<lparr>ws_todo := (ws_todo s)(g := rest)\<rparr>"
  obtain s2 ops where e: "ws_exec C now fault op s1 = (s2, ops)" by fastforce
  have s2: "s' = start g (s2, ops)" using s' e by (simp add: s1_def)
  show ?thesis
  proof (cases "relayed_to (wsRedisChannelPrefix @ room) op")
    case True
    then obtain msg where op: "op = OpPublish (wsRedisChannelPrefix @ room) msg" by (cases op) simp_all
    show ?thesis
    proof (cases "g = Receiver")
      case True
      then have "\<not> fault" using l Do by (cases fault) simp_all
      then show ?thesis
        using e op sub(1) todo True
        by (auto simp: s2 s1_def in_flight_def start_def Redis_Publish_def subscribed_def)
    next
      case False
      then show ?thesis
        using e op by (auto simp: s2 s1_def in_flight_def start_def Redis_Publish_def)
    qed
  next
    case False
    obtain x where x: "pub_inbox s2 = pub_inbox s1 @ x" "ws_todo s2 = ws_todo s1" using exec_relay [OF e False] by blast
    then show ?thesis using False todo by (auto simp: s2 s1_def in_flight_def start_def)
  qed
next
  case RunRegister
  then obtain i rest where "s' = start RunLoop (Run_register now i (s\<lparr>hub_register := rest\<rparr>))"
    using step by (auto split: list.splits if_splits)
  then show ?thesis
    by (intro in_flight_mono [of _ _ "[]"]) (auto simp: Run_register_def split: option.splits)
next
  case RunBroadcast
  then obtain r msg rest where "s' = BroadcastToRoom C r msg (s\<lparr>hub_broadcast := rest\<rparr>)"
    using step by (auto split: list.splits if_splits)
  then show ?thesis by (intro in_flight_mono [of _ _ "[]"]) (simp_all add: BroadcastToRoom_def)
next
  case StopHub
  then show ?thesis using step by (intro in_flight_mono [of _ _ "[]"]) (auto simp: Hub_Stop_def)
next
  case (PeerPublish ch msg)
  then show ?thesis using step by (auto simp: Redis_Publish_def in_flight_def)
next
  case NewConnection
  then show ?thesis using step sub(1) by (simp add: subscribed_def split: if_splits)
qed (use step sub l in \<open>auto simp: in_flight_def open_connection_def Hub_Register_def Hub_Unregister_def upd_client_def
       subscribed_def start_def split: if_splits option.splits\<close>)

text \<open>
  C29. While an instance stays subscribed to the channel of a room and no message is lost, the messages of
  that room that are on the way to it never become fewer: what the receiver takes from Redis it
  publishes to Redis again. A single message to a room is delivered without end.
\<close>

theorem relayed_messages_stay:
  assumes "stays_subscribed C room acts s" and "ws_run C acts s = Some s'"
  shows "in_flight room s \<le> in_flight room s'"
  using assms
proof (induction acts arbitrary: s)
  case (Cons x acts)
  obtain now a where x: "x = (now, a)" by fastforce
  with Cons.prems(2) obtain s1 where s1: "ws_step C now a s = Some s1" "ws_run C acts s1 = Some s'"
    by (auto split: option.splits)
  have st: "subscribed room s" "lossless a" "stays_subscribed C room acts s1" using Cons.prems(1) x s1(1) by simp_all
  then have "subscribed room s1" by (cases acts) (auto)
  then show ?case using in_flight_step [OF s1(1) st(1) _ st(2)] Cons.IH [OF st(3) s1(2)] by simp
qed simp

text \<open>One turn of the receiver brings the message back to where it was.\<close>

lemma receiver_turn:
  assumes "subscribed room s" and "ws_todo s Receiver = []"
    and "pub_inbox s = [(wsRedisChannelPrefix @ room, Some msg)]"
  shows "\<exists>s'. ws_run C [(now, Receive), (now, Do Receiver False), (now, Do Receiver False)] s = Some s' \<and>
    subscribed room s' \<and> ws_todo s' Receiver = [] \<and> pub_inbox s' = [(wsRedisChannelPrefix @ room, Some msg)]"
  using assms
  by (simp add: subscribed_def idle_def start_def PublishToRoom_def broadcast_enqueue_def Redis_Publish_def)

lemma receiver_turns:
  assumes "subscribed room s" and "ws_todo s Receiver = []"
    and "pub_inbox s = [(wsRedisChannelPrefix @ room, Some msg)]"
  shows "\<exists>s'. ws_run C (concat (replicate n [(now, Receive), (now, Do Receiver False), (now, Do Receiver False)])) s =
    Some s' \<and> pub_inbox s' = [(wsRedisChannelPrefix @ room, Some msg)]"
  using assms
proof (induction n arbitrary: s)
  case (Suc n)
  obtain s1 where s1: "ws_run C [(now, Receive), (now, Do Receiver False), (now, Do Receiver False)] s = Some s1"
    "subscribed room s1" "ws_todo s1 Receiver = []" "pub_inbox s1 = [(wsRedisChannelPrefix @ room, Some msg)]"
    using receiver_turn [OF Suc.prems, of C now] by blast
  obtain s' where "ws_run C (concat (replicate n [(now, Receive), (now, Do Receiver False), (now, Do Receiver False)])) s1 =
      Some s' \<and> pub_inbox s' = [(wsRedisChannelPrefix @ room, Some msg)]"
    using Suc.IH [OF s1(2-4)] by blast
  then show ?case
    using ws_run_append [of C "[(now, Receive), (now, Do Receiver False), (now, Do Receiver False)]" _ s] s1(1)
    by (simp del: ws_run.simps)
qed simp

section \<open>Runs\<close>

text \<open>Two organizations, \<open>''o''\<close> and \<open>''p''\<close>, and runs of one instance in which every operation is done at once.\<close>

definition demo_ws :: ws_setup where
  "demo_ws = \<lparr>wg_enabled = True, wg_max_message_size = 65536, wg_max_rooms = 50, wg_presence_ttl = 70 * second,
     wg_send_buffer = 256, wx_parse = (\<lambda>t. if t \<in> {''o'', ''p''} then Some t else None), wx_time_ok = (\<lambda>_. True)\<rparr>"

definition demo_client_message :: "string \<Rightarrow> string \<Rightarrow> json option" where
  "demo_client_message t room = Some (JObj [(''type'', JStr t), (''data'', JObj [(''room'', JStr room)])])"

definition at_once :: "goroutine \<Rightarrow> nat \<Rightarrow> ws_act list" where
  "at_once g n = replicate n (Do g False)"

definition demo_enter :: "uuid \<Rightarrow> uuid \<Rightarrow> uuid \<Rightarrow> ws_act list" where
  "demo_enter i user org = Connect i user org # RunRegister # at_once RunLoop 5"

definition demo_join :: "uuid \<Rightarrow> string \<Rightarrow> nat \<Rightarrow> ws_act list" where
  "demo_join i room n = ReadMsg i (demo_client_message ''ws.room.join'' room) # at_once (Reader i) n"

definition demo_times :: "ws_act list \<Rightarrow> (instant \<times> ws_act) list" where
  "demo_times acts = map (Pair 0) acts"

lemmas demo_ws_defs = demo_ws_def demo_client_message_def at_once_def demo_enter_def demo_join_def demo_times_def
  ws_init_def open_connection_def Hub_Register_def Hub_Unregister_def hub_channel_size_def NewClient_def start_def
  Run_register_def sendMessage_def MarkOnline_def MarkOffline_def chan_send_def upd_client_def
  MarkOnline_incr_def MarkOffline_decr_def redis_incr_by_def redis_expire_def conn_value_def connKey_def
  presenceKey_def idle_def handleMessage_def decode_envelope_def string_field_def any_field_def decode_room_def
  go_map_def to_lower_def to_lower_char_def ws_types handleJoin_def IsValidRoomName_def JoinRoom_def
  ExtractOrgID_def RoomOrgPrefix_def uuid_nil_def room_clients_def AddRoom_def RoomCount_def Subscribe_def
  WsRoomData_def WsConnectedData_def second_def wsRedisChannelPrefix_def handleTyping_def decode_typing_def
  PublishToRoom_def broadcast_enqueue_def Redis_Publish_def WsTypingData_def BroadcastToRoom_def Run_unregister_def
  chan_close_def handleLeave_def LeaveRoom_def leave_room_def RemoveRoom_def Unsubscribe_def

theorem hub_never_panics_witness:
  "\<exists>s. ws_run demo_ws (demo_times (demo_enter ''c'' ''u'' ''o'')) ws_init = Some s \<and> \<not> ws_panicked s"
proof -
  obtain s where s: "ws_run demo_ws (demo_times (demo_enter ''c'' ''u'' ''o'')) ws_init = Some s"
    by (simp add: demo_ws_defs numeral_eq_Suc)
  then show ?thesis using hub_never_panics [OF s] by blast
qed

text \<open>A client of \<open>''o''\<close> is in the room of that organization after it has joined.\<close>

definition demo_members :: "ws_act list" where
  "demo_members = NewConnection # at_once Receiver 1 @ demo_enter ''c'' ''u'' ''o'' @ demo_join ''c'' ''org:o'' 3"

lemma demo_members_run:
  "\<exists>s. ws_run demo_ws (demo_times demo_members) ws_init = Some s \<and> room_clients s ''org:o'' = [''c''] \<and>
    subscribed ''org:o'' s \<and> ws_todo s Receiver = [] \<and> pub_inbox s = []"
  by (simp add: demo_ws_defs demo_members_def subscribed_def numeral_eq_Suc ValidEntityTypes_def)


text \<open>Then another instance publishes one message to that room.\<close>

definition demo_relay :: "(instant \<times> ws_act) list" where
  "demo_relay = [(0, Receive), (0, Do Receiver False), (0, Do Receiver False)]"

theorem relayed_messages_stay_witness:
  "\<exists>s s'. stays_subscribed demo_ws ''org:o'' demo_relay s \<and> ws_run demo_ws demo_relay s = Some s' \<and>
    in_flight ''org:o'' s = 1 \<and> 1 \<le> in_flight ''org:o'' s'"
proof -
  define msg where "msg = event_message 0 \<lparr>be_type = ''x'', be_payload = JNull, be_get_id = None, be_org = Some ''o''\<rparr> ''org:o''"
  define s where "s = ws_init\<lparr>pub_live := True, pub_channels := [''ws:msg:org:o''], pub_inbox := [(''ws:msg:org:o'', Some msg)]\<rparr>"
  have one: "in_flight ''org:o'' s = 1" by (simp add: s_def in_flight_def wsRedisChannelPrefix_def ws_init_def)
  have st: "stays_subscribed demo_ws ''org:o'' demo_relay s"
    by (simp add: demo_relay_def s_def ws_init_def subscribed_def idle_def start_def PublishToRoom_def broadcast_enqueue_def
      hub_channel_size_def Redis_Publish_def wsRedisChannelPrefix_def TrimPrefix_def has_prefix_def)
  obtain s' where s': "ws_run demo_ws demo_relay s = Some s'"
    by (simp add: demo_relay_def s_def ws_init_def idle_def start_def PublishToRoom_def broadcast_enqueue_def hub_channel_size_def)
  show ?thesis using relayed_messages_stay [OF st s'] one st s' by auto
qed

theorem org_rooms_stay_empty_witness:
  "\<exists>s. ws_run demo_ws (demo_times (demo_enter ''c'' ''u'' uuid_nil)) ws_init = Some s \<and> room_clients s ''org:o'' = []"
proof -
  obtain s where s: "ws_run demo_ws (demo_times (demo_enter ''c'' ''u'' uuid_nil)) ws_init = Some s"
    by (simp add: demo_ws_defs numeral_eq_Suc)
  have r: "list_all routed (demo_times (demo_enter ''c'' ''u'' uuid_nil))"
    by (simp add: demo_times_def demo_enter_def at_once_def routed_def numeral_eq_Suc)
  have x: "ExtractOrgID (wx_parse demo_ws) ''org:o'' \<noteq> uuid_nil"
    by (simp add: ExtractOrgID_def demo_ws_def RoomOrgPrefix_def uuid_nil_def)
  show ?thesis using org_rooms_stay_empty [OF s r x] s by blast
qed

section \<open>Where the code does not do what it means to\<close>

text \<open>
  The end of a connection is announced twice, by the read pump and by the handler, and each time the
  counter of the user is decremented. A user with two connections who closes one is reported as
  offline, though the hub still has the other.
\<close>

definition demo_two_tabs :: "ws_act list" where
  "demo_two_tabs = demo_enter ''c'' ''u'' ''o'' @ [Connect ''d'' ''u'' ''o'', RunRegister] @ at_once RunLoop 3 @
     [ReadError ''c'', WriterEnds ''c'', UpgradeEnds ''c'', RunUnregister] @ at_once RunLoop 1 @
     [RunUnregister] @ at_once RunLoop 4"

lemma demo_offline_while_connected:
  "\<exists>s. ws_run demo_ws (demo_times demo_two_tabs) ws_init = Some s \<and> hub_clients s = [''d''] \<and>
    ws_phase s ''d'' = Reading \<and> \<not> IsOnline False s ''o'' ''u'' \<and> last (pre_events s) = (''ws:presence:o'', ''u'', False)"
  by (simp add: demo_ws_defs demo_two_tabs_def IsOnline_def numeral_eq_Suc)

text \<open>
  A typing message is published to whatever room it names: a client of \<open>''o''\<close> writes to the room of
  \<open>''p''\<close>, of which it is not a member and which it may not join.
\<close>

definition demo_foreign_typing :: "ws_act list" where
  "demo_foreign_typing = demo_enter ''d'' ''v'' ''p'' @ demo_join ''d'' ''org:p'' 2 @ at_once RunLoop 0 @
     demo_enter ''c'' ''u'' ''o'' @
     ReadMsg ''c'' (demo_client_message ''ws.typing'' ''org:p'') # at_once (Reader ''c'') 2 @ [RunBroadcast]"

lemma demo_foreign_typing_arrives:
  "\<exists>s d. ws_run demo_ws (demo_times demo_foreign_typing) ws_init = Some s \<and> ws_heap s ''d'' = Some d \<and>
    wm_type (last (wc_send d)) = ''ws.typing'' \<and>
    wm_data (last (wc_send d)) = JObj [(''user_id'', JStr ''u''), (''room'', JStr ''org:p'')]"
  by (simp add: demo_ws_defs demo_foreign_typing_def ValidEntityTypes_def numeral_eq_Suc)

text \<open>
  The hub chooses among its channels as it likes: if it takes the end of a connection before its
  registration, the client stays in the hub, and its user online, after the connection has gone.
\<close>

definition demo_ghost :: "ws_act list" where
  "demo_ghost = [Connect ''c'' ''u'' ''o'', ReadError ''c'', WriterEnds ''c'', UpgradeEnds ''c'', RunUnregister] @
     at_once RunLoop 4 @ [RunUnregister] @ at_once RunLoop 4 @ [RunRegister] @ at_once RunLoop 5"

lemma demo_ghost_stays:
  "\<exists>s. ws_run demo_ws (demo_times demo_ghost) ws_init = Some s \<and> ws_phase s ''c'' = Gone \<and>
    hub_clients s = [''c''] \<and> hub_unregister s = [] \<and> IsOnline False s ''o'' ''u''"
  by (simp add: demo_ws_defs demo_ghost_def IsOnline_def numeral_eq_Suc)

text \<open>
  Every join counts a subscription, but only the last leave of a room gives one back: after two
  clients have come and gone, the instance is still subscribed to an empty room.
\<close>

definition demo_leave :: "uuid \<Rightarrow> string \<Rightarrow> nat \<Rightarrow> ws_act list" where
  "demo_leave i room n = ReadMsg i (demo_client_message ''ws.room.leave'' room) # at_once (Reader i) n"

definition demo_come_and_go :: "ws_act list" where
  "demo_come_and_go = NewConnection # at_once Receiver 1 @ demo_enter ''c'' ''u'' ''o'' @ demo_join ''c'' ''org:o'' 3 @
     demo_enter ''d'' ''v'' ''o'' @ demo_join ''d'' ''org:o'' 2 @
     demo_leave ''c'' ''org:o'' 1 @ demo_leave ''d'' ''org:o'' 2"

lemma demo_subscription_leaks:
  "\<exists>s. ws_run demo_ws (demo_times demo_come_and_go) ws_init = Some s \<and> hub_rooms s ''org:o'' = None \<and>
    subscribed ''org:o'' s \<and> pub_count s = [(''org:o'', 1)]"
  by (simp add: demo_ws_defs demo_come_and_go_def demo_leave_def subscribed_def ValidEntityTypes_def numeral_eq_Suc)

text \<open>The delay before a reconnection is bounded.\<close>

lemma nextBackoff_bounds:
  assumes "0 \<le> r" and "r < 2 * wsReconnectJitter" and "0 \<le> d"
  shows "0 \<le> nextBackoff r d \<and> nextBackoff r d < wsReconnectMaxDelay + wsReconnectJitter"
  using assms by (auto simp: nextBackoff_def wsReconnectMaxDelay_def wsReconnectJitter_def second_def Let_def min_def)

end
